(* ===== verification/Prelude.thy ===== *)
theory Prelude
  imports Main "HOL-Library.List_Lexorder" "HOL-Library.Char_ord" "HOL-Library.Product_Lexorder"
begin

text \<open>
  What every component of the service shares: results as values, the
  database clock, classification levels, and tables as lists of rows with the SQL
  statements the services issue. The generic lemmas of this theory carry the
  component proofs; those on tables are collected in \<open>sql\<close>.
\<close>

named_theorems sql \<open>facts about reads and writes of tables\<close>

subsection \<open>Results\<close>

definition is_ok :: "'e + 'a \<Rightarrow> bool" where
  "is_ok r = (case r of Inl _ \<Rightarrow> False | Inr _ \<Rightarrow> True)"

lemma is_ok_simps [simp]: "is_ok (Inr x)" "\<not> is_ok (Inl e)"
  by (simp_all add: is_ok_def)

lemma is_ok_iff: "is_ok r \<longleftrightarrow> (\<exists>x. r = Inr x)"
  by (cases r) auto

text \<open>
  A handler is a sequence of checks, each of which raises an error, and of calls whose
  errors it passes on: \<open>checked cs x\<close> raises the error of the first check that fails,
  \<open>and_then r f\<close> continues with the value of \<open>r\<close>.
\<close>

fun first_error :: "(bool \<times> 'e) list \<Rightarrow> 'e option" where
  "first_error [] = None"
| "first_error ((failed, e) # cs) = (if failed then Some e else first_error cs)"

definition checked :: "(bool \<times> 'e) list \<Rightarrow> 'a \<Rightarrow> 'e + 'a" where
  "checked cs x = (case first_error cs of Some e \<Rightarrow> Inl e | None \<Rightarrow> Inr x)"

definition and_then :: "'e + 'a \<Rightarrow> ('a \<Rightarrow> 'e + 'b) \<Rightarrow> 'e + 'b" where
  "and_then r f = (case r of Inl e \<Rightarrow> Inl e | Inr x \<Rightarrow> f x)"

lemma first_error_None_iff: "first_error cs = None \<longleftrightarrow> (\<forall>c \<in> set cs. \<not> fst c)"
  by (induction cs rule: first_error.induct) auto

lemma first_error_append:
  "first_error (cs @ ds) = (case first_error cs of Some e \<Rightarrow> Some e | None \<Rightarrow> first_error ds)"
  by (induction cs rule: first_error.induct) auto

lemma first_error_SomeD: "first_error cs = Some e \<Longrightarrow> (True, e) \<in> set cs"
  by (induction cs rule: first_error.induct) (auto split: if_splits)

lemma checked_Inr_iff [simp]: "checked cs x = Inr y \<longleftrightarrow> y = x \<and> (\<forall>c \<in> set cs. \<not> fst c)"
  by (auto simp: checked_def first_error_None_iff [symmetric] split: option.splits)

lemma checked_Inl_iff: "checked cs x = Inl e \<longleftrightarrow> first_error cs = Some e"
  by (auto simp: checked_def split: option.splits)

lemma and_then_simps [simp]: "and_then (Inl e) f = Inl e" "and_then (Inr x) f = f x"
  by (simp_all add: and_then_def)

lemma and_then_Inr_iff: "and_then r f = Inr y \<longleftrightarrow> (\<exists>x. r = Inr x \<and> f x = Inr y)"
  by (cases r) auto

lemma and_then_InrE:
  assumes "and_then r f = Inr y"
  obtains x where "r = Inr x" "f x = Inr y"
  using assms by (auto simp: and_then_Inr_iff)

subsection \<open>Time\<close>

text \<open>
  A \<open>datetime\<close> in UTC is a number of microseconds, the resolution of both Python and
  PostgreSQL. One transaction samples \<open>clock_timestamp()\<close> several times: a \<open>clock\<close>
  gives the value of its n-th sample.
\<close>

type_synonym time = int
type_synonym clock = "nat \<Rightarrow> time"
type_synonym uuid = nat

definition seconds :: "int \<Rightarrow> time" where "seconds n = n * 1000000"
definition minutes :: "int \<Rightarrow> time" where "minutes n = seconds (60 * n)"
definition hours :: "int \<Rightarrow> time" where "hours n = seconds (3600 * n)"
definition days :: "int \<Rightarrow> time" where "days n = seconds (86400 * n)"

lemma seconds_mono [simp]: "seconds m \<le> seconds n \<longleftrightarrow> m \<le> n"
  by (simp add: seconds_def)

lemma seconds_less [simp]: "seconds m < seconds n \<longleftrightarrow> m < n"
  by (simp add: seconds_def)

lemma seconds_pos: "0 < n \<Longrightarrow> 0 < seconds n"
  by (simp add: seconds_def)

lemma seconds_nonneg: "0 \<le> n \<Longrightarrow> 0 \<le> seconds n"
  by (simp add: seconds_def)

definition monotone_clock :: "clock \<Rightarrow> bool" where
  "monotone_clock clk \<longleftrightarrow> (\<forall>i j. i \<le> j \<longrightarrow> clk i \<le> clk j)"

lemma monotone_clockD: "monotone_clock clk \<Longrightarrow> i \<le> j \<Longrightarrow> clk i \<le> clk j"
  by (simp add: monotone_clock_def)

lemma monotone_clock_const [simp]: "monotone_clock (\<lambda>_. t)"
  by (simp add: monotone_clock_def)

subsection \<open>Classification levels\<close>

text \<open>
  \<open>CLASSIFICATIONS\<close>, the list every ceiling and every comparison of two levels goes
  through with \<open>.index\<close>. The order of the type is the order of that list.
\<close>

datatype classification = C_public | C_internal | C_confidential | C_restricted

definition CLASSIFICATIONS :: "classification list" where
  "CLASSIFICATIONS = [C_public, C_internal, C_confidential, C_restricted]"

fun class_index :: "classification \<Rightarrow> nat" where
  "class_index C_public = 0"
| "class_index C_internal = 1"
| "class_index C_confidential = 2"
| "class_index C_restricted = 3"

lemma class_index_inj [simp]: "class_index a = class_index b \<longleftrightarrow> a = b"
  by (cases a; cases b) simp_all

instantiation classification :: linorder
begin

definition less_eq_classification :: "classification \<Rightarrow> classification \<Rightarrow> bool" where
  "less_eq_classification a b \<longleftrightarrow> class_index a \<le> class_index b"

definition less_classification :: "classification \<Rightarrow> classification \<Rightarrow> bool" where
  "less_classification a b \<longleftrightarrow> class_index a < class_index b"

instance
  by standard (auto simp: less_eq_classification_def less_classification_def)

end

text \<open>The names of the levels, as columns and arguments hold them.\<close>

fun class_str :: "classification \<Rightarrow> string" where
  "class_str C_public = ''public''"
| "class_str C_internal = ''internal''"
| "class_str C_confidential = ''confidential''"
| "class_str C_restricted = ''restricted''"

fun class_of :: "string \<Rightarrow> classification" where
  "class_of s = (if s = ''public'' then C_public else if s = ''internal'' then C_internal
     else if s = ''confidential'' then C_confidential else C_restricted)"

lemma class_index_nth: "CLASSIFICATIONS ! class_index c = c"
  by (cases c) (simp_all add: CLASSIFICATIONS_def)

definition levels_upto :: "classification \<Rightarrow> classification list" where
  "levels_upto c = take (class_index c + 1) CLASSIFICATIONS"

lemma set_levels_upto [simp]: "x \<in> set (levels_upto c) \<longleftrightarrow> x \<le> c"
  by (cases c; cases x)
    (simp_all add: levels_upto_def CLASSIFICATIONS_def less_eq_classification_def)

definition max_level :: "classification \<Rightarrow> classification \<Rightarrow> classification" where
  "max_level a b = (if class_index a < class_index b then b else a)"

lemma max_level_eq_max: "max_level a b = max a b"
  by (auto simp: max_level_def max_def less_eq_classification_def)

subsection \<open>Tables\<close>

text \<open>
  A table is the list of its rows. \<open>fetchrow\<close> is a SELECT that returns the first
  matching row, \<open>update_where\<close> an UPDATE, \<open>insert_row\<close> an INSERT and \<open>exists_row\<close> a
  SELECT EXISTS.
\<close>

definition fetchrow :: "('r \<Rightarrow> bool) \<Rightarrow> 'r list \<Rightarrow> 'r option" where
  "fetchrow p t = find p t"

definition update_where :: "('r \<Rightarrow> bool) \<Rightarrow> ('r \<Rightarrow> 'r) \<Rightarrow> 'r list \<Rightarrow> 'r list" where
  "update_where p f t = map (\<lambda>r. if p r then f r else r) t"

definition insert_row :: "'r \<Rightarrow> 'r list \<Rightarrow> 'r list" where
  "insert_row r t = t @ [r]"

definition exists_row :: "('r \<Rightarrow> bool) \<Rightarrow> 'r list \<Rightarrow> bool" where
  "exists_row p t = list_ex p t"

lemma exists_row_iff [sql]: "exists_row p t \<longleftrightarrow> (\<exists>r \<in> set t. p r)"
  by (simp add: exists_row_def list_ex_iff)

lemma set_insert_row [sql]: "set (insert_row r t) = insert r (set t)"
  by (auto simp: insert_row_def)

lemma set_update_where [sql]: "set (update_where p f t) = (\<lambda>r. if p r then f r else r) ` set t"
  by (simp add: update_where_def)

lemma fetchrow_SomeD: "fetchrow p t = Some r \<Longrightarrow> r \<in> set t \<and> p r"
  by (auto simp: fetchrow_def find_Some_iff)

lemma fetchrow_None_iff: "fetchrow p t = None \<longleftrightarrow> (\<forall>r \<in> set t. \<not> p r)"
  by (auto simp: fetchrow_def find_None_iff)

lemma fetchrow_Nil [simp]: "fetchrow p [] = None"
  by (simp add: fetchrow_def)

lemma fetchrow_Cons [simp]: "fetchrow p (r # t) = (if p r then Some r else fetchrow p t)"
  by (simp add: fetchrow_def)

lemma fetchrow_append:
  "fetchrow p (t @ u) = (case fetchrow p t of None \<Rightarrow> fetchrow p u | Some r \<Rightarrow> Some r)"
  by (induction t) auto

lemma fetchrow_insert_row:
  "fetchrow p (insert_row r t) =
     (case fetchrow p t of None \<Rightarrow> if p r then Some r else None | Some r' \<Rightarrow> Some r')"
  by (simp add: insert_row_def fetchrow_append split: option.split)

text \<open>
  The update of the one row a key names, read back through the same key or another:
  the update keeps the key, so the row found is the old one with the update applied.
\<close>

lemma fetchrow_update_where:
  assumes keep: "\<And>r. p r \<Longrightarrow> q (f r) = q r"
  shows "fetchrow q (update_where p f t) = map_option (\<lambda>r. if p r then f r else r) (fetchrow q t)"
  by (induction t) (auto simp: update_where_def keep)

lemma fetchrow_map:
  assumes "\<And>x. k (f x) = k x"
  shows "fetchrow (\<lambda>x. k x = i) (map f t) = map_option f (fetchrow (\<lambda>x. k x = i) t)"
  by (induction t) (auto simp: assms)

lemma update_where_cong:
  "(\<And>r. r \<in> set t \<Longrightarrow> p r \<Longrightarrow> f r = g r) \<Longrightarrow> update_where p f t = update_where p g t"
  by (auto simp: update_where_def)

lemma length_update_where [simp]: "length (update_where p f t) = length t"
  by (simp add: update_where_def)

lemma map_update_where:
  "(\<And>r. p r \<Longrightarrow> k (f r) = k r) \<Longrightarrow> map k (update_where p f t) = map k t"
  by (auto simp: update_where_def)

lemma update_where_id: "(\<And>r. r \<in> set t \<Longrightarrow> \<not> p r) \<Longrightarrow> update_where p f t = t"
  by (induction t) (auto simp: update_where_def)

text \<open>With a unique key, reading by the key returns the row itself.\<close>

lemma fetchrow_unique:
  assumes "distinct (map k t)" and "r \<in> set t"
  shows "fetchrow (\<lambda>x. k x = k r) t = Some r"
  using assms by (induction t) (auto simp: image_iff)

lemma fetchrow_by_key_eq:
  assumes "distinct (map k t)" and "r \<in> set t" and "k r = i"
  shows "fetchrow (\<lambda>x. k x = i) t = Some r"
  using fetchrow_unique [OF assms(1,2)] assms(3) by simp

lemma fetchrow_key_conj:
  assumes "distinct (map k t)" and "r \<in> set t" and "k r = i" and "p r"
  shows "fetchrow (\<lambda>x. k x = i \<and> p x) t = Some r"
  using assms by (induction t) (auto simp: image_iff)

text \<open>
  ORDER BY created_at DESC, id DESC, on the pair of the two columns.
\<close>

definition newest_first :: "('r \<Rightarrow> time \<times> uuid) \<Rightarrow> 'r list \<Rightarrow> 'r list" where
  "newest_first key t = rev (sort_key key t)"

lemma set_newest_first [simp]: "set (newest_first key t) = set t"
  by (simp add: newest_first_def)

lemma length_newest_first [simp]: "length (newest_first key t) = length t"
  by (simp add: newest_first_def)

lemma sorted_newest_first: "sorted_wrt (\<lambda>a b. key b \<le> key a) (newest_first key t)"
  using sorted_sort_key [of key t]
  by (simp add: newest_first_def sorted_wrt_rev sorted_wrt_map)

end
