(* ===== verification/Py_Json.thy ===== *)
theory Py_Json
  imports Prelude Complex_Main "HOL-Library.Multiset"
begin

text \<open>
  The Python values that cross the service boundary (parsed JSON, and \<open>datetime\<close>
  values before they are encoded), Python's \<open>==\<close> on them, and the canonical JSON bytes
  every digest of the service is taken over (\<open>_canonical_bytes\<close> of handoff/service.py,
  \<open>canonical\<close> of continuity/common.py). A \<open>string\<close> is a Python \<open>str\<close> whose code
  points are below 256; \<open>utf8\<close> gives its UTF-8 bytes. The hash function and the
  shortest decimal form of a float are parameters: no result below depends on them.
\<close>

subsection \<open>Values and equality\<close>

datatype pyval =
    PNone
  | PBool bool
  | PInt int
  | PFloat rat
  | PStr string
  | PList "pyval list"
  | PDict "(string \<times> pyval) list"
  | PTime time

text \<open>\<open>bool\<close> is a subclass of \<open>int\<close>, and numbers of different types compare by value.\<close>

fun py_number :: "pyval \<Rightarrow> rat option" where
  "py_number (PBool b) = Some (if b then 1 else 0)"
| "py_number (PInt n) = Some (of_int n)"
| "py_number (PFloat q) = Some q"
| "py_number _ = None"

fun py_eq :: "pyval \<Rightarrow> pyval \<Rightarrow> bool"
  and py_eq_list :: "pyval list \<Rightarrow> pyval list \<Rightarrow> bool"
  and py_eq_dict :: "(string \<times> pyval) list \<Rightarrow> (string \<times> pyval) list \<Rightarrow> bool" where
  "py_eq (PStr s) v = (case v of PStr t \<Rightarrow> s = t | _ \<Rightarrow> False)"
| "py_eq PNone v = (case v of PNone \<Rightarrow> True | _ \<Rightarrow> False)"
| "py_eq (PTime a) v = (case v of PTime b \<Rightarrow> a = b | _ \<Rightarrow> False)"
| "py_eq (PList xs) v = (case v of PList ys \<Rightarrow> py_eq_list xs ys | _ \<Rightarrow> False)"
| "py_eq (PDict d) v = (case v of PDict e \<Rightarrow> length d = length e \<and> py_eq_dict d e | _ \<Rightarrow> False)"
| "py_eq (PBool b) v = (py_number v = Some (if b then 1 else 0))"
| "py_eq (PInt n) v = (py_number v = Some (of_int n))"
| "py_eq (PFloat q) v = (py_number v = Some q)"
| "py_eq_list [] ys = (ys = [])"
| "py_eq_list (x # xs) ys = (case ys of [] \<Rightarrow> False | y # ys' \<Rightarrow> py_eq x y \<and> py_eq_list xs ys')"
| "py_eq_dict [] e = True"
| "py_eq_dict ((k, x) # d) e =
     (case map_of e k of None \<Rightarrow> False | Some y \<Rightarrow> py_eq x y \<and> py_eq_dict d e)"

lemma py_eq_PStr [simp]: "py_eq v (PStr s) \<longleftrightarrow> v = PStr s"
  by (cases v) auto

text \<open>\<open>value.get(key)\<close> of a dict: \<open>None\<close> where the key is missing.\<close>

definition py_get :: "(string \<times> pyval) list \<Rightarrow> string \<Rightarrow> pyval" where
  "py_get d k = (case map_of d k of None \<Rightarrow> PNone | Some v \<Rightarrow> v)"

fun opt_str :: "string option \<Rightarrow> pyval" where
  "opt_str None = PNone"
| "opt_str (Some s) = PStr s"

text \<open>The entry of an optional argument: absent, not null, where it was not given.\<close>

definition opt_entry :: "string \<Rightarrow> ('a \<Rightarrow> pyval) \<Rightarrow> 'a option \<Rightarrow> (string \<times> pyval) list" where
  "opt_entry k f v = (case v of None \<Rightarrow> [] | Some x \<Rightarrow> [(k, f x)])"

definition is_int :: "pyval \<Rightarrow> bool" where
  \<comment> \<open>\<open>isinstance(v, int)\<close> holds of booleans too\<close>
  "is_int v = (case v of PInt _ \<Rightarrow> True | PBool _ \<Rightarrow> True | _ \<Rightarrow> False)"

definition is_dict :: "pyval \<Rightarrow> bool" where
  "is_dict v = (case v of PDict _ \<Rightarrow> True | _ \<Rightarrow> False)"

definition dict_of :: "pyval \<Rightarrow> (string \<times> pyval) list" where
  "dict_of v = (case v of PDict d \<Rightarrow> d | _ \<Rightarrow> [])"

definition list_of :: "pyval \<Rightarrow> pyval list" where
  "list_of v = (case v of PList xs \<Rightarrow> xs | _ \<Rightarrow> [])"

definition str_of :: "pyval \<Rightarrow> string" where
  "str_of v = (case v of PStr s \<Rightarrow> s | _ \<Rightarrow> [])"

definition is_str :: "pyval \<Rightarrow> bool" where
  "is_str v = (case v of PStr _ \<Rightarrow> True | _ \<Rightarrow> False)"

lemma is_str_iff: "is_str v \<longleftrightarrow> v = PStr (str_of v)"
  by (cases v) (simp_all add: is_str_def str_of_def)

lemma str_of_PStr [simp]: "str_of (PStr s) = s"
  by (simp add: str_of_def)

lemma dict_of_PDict [simp]: "dict_of (PDict d) = d"
  by (simp add: dict_of_def)

definition nonempty_str :: "pyval \<Rightarrow> bool" where
  "nonempty_str v = (case v of PStr s \<Rightarrow> s \<noteq> [] | _ \<Rightarrow> False)"

definition int_of :: "pyval \<Rightarrow> int" where
  "int_of v = (case v of PInt n \<Rightarrow> n | PBool b \<Rightarrow> if b then 1 else 0 | _ \<Rightarrow> 0)"

definition strs_of :: "pyval \<Rightarrow> string list" where
  "strs_of v = map str_of (list_of v)"

text \<open>Truth of a value in a condition.\<close>

definition truthy :: "pyval \<Rightarrow> bool" where
  "truthy v = (case v of PNone \<Rightarrow> False | PBool b \<Rightarrow> b | PInt n \<Rightarrow> n \<noteq> 0 | PFloat q \<Rightarrow> q \<noteq> 0
     | PStr s \<Rightarrow> s \<noteq> [] | PList xs \<Rightarrow> xs \<noteq> [] | PDict d \<Rightarrow> d \<noteq> [] | PTime _ \<Rightarrow> True)"

text \<open>
  The arguments of a tool call are a dict that the tool's schema has accepted; the
  accessors read an entry at its type. \<open>get_or\<close> is \<open>arguments.get(key, default)\<close>,
  \<open>dict_put\<close> the assignment \<open>d[key] = v\<close>.
\<close>

type_synonym dict = "(string \<times> pyval) list"

definition get_or :: "dict \<Rightarrow> string \<Rightarrow> pyval \<Rightarrow> pyval" where
  "get_or d k v = (case map_of d k of None \<Rightarrow> v | Some x \<Rightarrow> x)"

definition has_key :: "dict \<Rightarrow> string \<Rightarrow> bool" where
  "has_key d k = list_ex (\<lambda>e. fst e = k) d"

definition arg_str :: "dict \<Rightarrow> string \<Rightarrow> string" where "arg_str a k = str_of (py_get a k)"
definition arg_int :: "dict \<Rightarrow> string \<Rightarrow> int" where "arg_int a k = int_of (py_get a k)"
definition arg_strs :: "dict \<Rightarrow> string \<Rightarrow> string list" where "arg_strs a k = strs_of (py_get a k)"
definition arg_dict :: "dict \<Rightarrow> string \<Rightarrow> dict" where "arg_dict a k = dict_of (py_get a k)"

definition arg_opt_str :: "dict \<Rightarrow> string \<Rightarrow> string option" where
  "arg_opt_str a k = (case py_get a k of PStr s \<Rightarrow> Some s | _ \<Rightarrow> None)"

definition arg_class :: "dict \<Rightarrow> string \<Rightarrow> classification" where
  "arg_class a k = class_of (arg_str a k)"

definition dict_put :: "string \<Rightarrow> pyval \<Rightarrow> dict \<Rightarrow> dict" where
  "dict_put k v d = (if has_key d k then map (\<lambda>e. if fst e = k then (k, v) else e) d else d @ [(k, v)])"

definition dict_drop :: "string \<Rightarrow> dict \<Rightarrow> dict" where
  "dict_drop k d = filter (\<lambda>e. fst e \<noteq> k) d"

lemma has_key_iff: "has_key d k \<longleftrightarrow> k \<in> fst ` set d"
  by (auto simp: has_key_def list_ex_iff)

lemma map_of_dict_put: "map_of (dict_put k v d) x = (if x = k then Some v else map_of d x)"
proof -
  let ?d = "map (\<lambda>e. if fst e = k then (k, v) else e) d"
  have "x \<noteq> k \<Longrightarrow> map_of ?d x = map_of d x" by (induction d) auto
  moreover have "k \<in> fst ` set d \<Longrightarrow> map_of ?d k = Some v" by (induction d) (auto simp: image_iff)
  moreover have "k \<notin> fst ` set d \<Longrightarrow> map_of (d @ [(k, v)]) k = Some v"
    by (simp add: map_add_def map_of_eq_None_iff [THEN iffD2])
  ultimately show ?thesis
    by (cases "x = k") (auto simp: dict_put_def has_key_iff map_add_def split: option.splits)
qed

lemma py_get_dict_put: "py_get (dict_put k v d) x = (if x = k then v else py_get d x)"
  by (simp add: py_get_def map_of_dict_put)

lemma dict_put_put [simp]: "dict_put k v (dict_put k w d) = dict_put k v d"
  by (induction d) (auto simp: dict_put_def has_key_def)

definition strs :: "string list \<Rightarrow> pyval" where
  "strs xs = PList (map PStr xs)"

subsection \<open>Errors\<close>

text \<open>
  \<open>MemoryToolError\<close> of server/errors.py: the message, the JSON-RPC code, the
  \<open>error_code\<close> its \<open>data\<close> always carries, the other entries of \<open>data\<close>, and the
  HTTP status. A handler returns \<open>Inl\<close> of such an error where
  the code raises it.
\<close>

record mem_error =
  err_message :: string
  err_rpc :: int
  err_code :: string
  err_data :: "(string \<times> pyval) list"
  err_status :: int

type_synonym 'a outcome = "mem_error + 'a"

definition memory_tool_error :: "string \<Rightarrow> string \<Rightarrow> (string \<times> pyval) list \<Rightarrow> int \<Rightarrow> mem_error" where
  "memory_tool_error msg code d status =
     \<lparr>err_message = msg, err_rpc = -32000, err_code = code, err_data = d, err_status = status\<rparr>"

text \<open>
  A Python exception that is not a \<open>MemoryToolError\<close>; the protocol handler answers it with
  the JSON-RPC code of an internal error.
\<close>

definition unhandled :: "string \<Rightarrow> mem_error" where
  "unhandled name = \<lparr>err_message = name, err_rpc = -32603, err_code = [], err_data = [], err_status = 500\<rparr>"

lemma memory_tool_error_sel [simp]:
  "err_message (memory_tool_error msg code d status) = msg"
  "err_rpc (memory_tool_error msg code d status) = -32000"
  "err_code (memory_tool_error msg code d status) = code"
  "err_data (memory_tool_error msg code d status) = d"
  "err_status (memory_tool_error msg code d status) = status"
  by (simp_all add: memory_tool_error_def)

fun collect :: "('a \<Rightarrow> 'b outcome) \<Rightarrow> 'a list \<Rightarrow> 'b list outcome" where
  \<comment> \<open>a list comprehension whose element may raise\<close>
  "collect f [] = Inr []"
| "collect f (x # xs) = and_then (f x) (\<lambda>y. and_then (collect f xs) (\<lambda>ys. Inr (y # ys)))"

subsection \<open>Text and bytes\<close>

definition utf8_char :: "char \<Rightarrow> char list" where
  "utf8_char c =
     (let n = of_char c :: nat
      in if n < 128 then [c] else [char_of (192 + n div 64), char_of (128 + n mod 64)])"

definition utf8 :: "string \<Rightarrow> char list" where
  "utf8 s = concat (map utf8_char s)"

lemma utf8_append: "utf8 (s @ t) = utf8 s @ utf8 t"
  by (simp add: utf8_def)

lemma length_utf8_ge: "length s \<le> length (utf8 s)"
proof (induction s)
  case (Cons c s)
  have "1 \<le> length (utf8_char c)" by (simp add: utf8_char_def Let_def)
  with Cons show ?case by (simp add: utf8_def)
qed (simp add: utf8_def)

text \<open>\<open>str\<close> of a UUID: 32 hexadecimal digits in groups of 8, 4, 4, 4 and 12.\<close>

definition hex_char :: "nat \<Rightarrow> char" where
  "hex_char d = (if d < 10 then char_of (48 + d) else char_of (87 + d))"

definition hex_digits :: "nat \<Rightarrow> nat list \<Rightarrow> string" where
  "hex_digits n ks = map (\<lambda>k. hex_char ((n div 16 ^ k) mod 16)) ks"

definition uuid_str :: "uuid \<Rightarrow> string" where
  "uuid_str i = hex_digits i (rev [24..<32]) @ ''-'' @ hex_digits i (rev [20..<24]) @ ''-''
     @ hex_digits i (rev [16..<20]) @ ''-'' @ hex_digits i (rev [12..<16]) @ ''-''
     @ hex_digits i (rev [0..<12])"

text \<open>The order of UUIDs is the numeric order of their digits.\<close>

definition hex_value :: "char \<Rightarrow> nat" where
  "hex_value c = (let n = of_char c in if n \<le> 57 then n - 48 else if n \<le> 70 then n - 55 else n - 87)"

definition uuid_of :: "string \<Rightarrow> uuid" where
  "uuid_of s = fold (\<lambda>c n. 16 * n + hex_value c) (filter (\<lambda>c. c \<noteq> CHR ''-'') s) 0"

text \<open>Decimal digits of an integer, as \<open>str(n)\<close> prints it.\<close>

definition digit_char :: "nat \<Rightarrow> char" where
  "digit_char d = char_of (48 + d)"

fun show_nat :: "nat \<Rightarrow> string" where
  "show_nat n = (if n < 10 then [digit_char n] else show_nat (n div 10) @ [digit_char (n mod 10)])"

declare show_nat.simps [simp del]

definition show_int :: "int \<Rightarrow> string" where
  "show_int n = (if n < 0 then CHR ''-'' # show_nat (nat (- n)) else show_nat (nat n))"

text \<open>
  White space as \<open>str.strip()\<close> and \<open>str.split()\<close> see it, on code points below 256.
\<close>

definition py_space :: "char \<Rightarrow> bool" where
  "py_space c \<longleftrightarrow> (let n = of_char c :: nat in 9 \<le> n \<and> n \<le> 13 \<or> 28 \<le> n \<and> n \<le> 32 \<or> n = 133 \<or> n = 160)"

definition py_strip :: "string \<Rightarrow> string" where
  "py_strip s = rev (dropWhile py_space (rev (dropWhile py_space s)))"

lemma length_dropWhile_less [termination_simp]: "length (dropWhile p xs) < Suc (length xs)"
  by (simp add: less_Suc_eq_le length_dropWhile_le)

fun py_words :: "string \<Rightarrow> string list" where
  "py_words [] = []"
| "py_words (c # s) =
     (if py_space c then py_words s
      else (c # takeWhile (\<lambda>d. \<not> py_space d) s) # py_words (dropWhile (\<lambda>d. \<not> py_space d) s))"

text \<open>
  \<open>isoformat()\<close> of a \<open>datetime\<close> in UTC; microsecond 0 is midnight of 1970-01-01. The civil
  date of a day is counted in eras of 400 years that start on March 1.
\<close>

definition civil_date :: "int \<Rightarrow> int \<times> int \<times> int" where
  "civil_date d =
     (let z = d + 719468; era = z div 146097; doe = z mod 146097;
          yoe = (doe - doe div 1460 + doe div 36524 - doe div 146096) div 365;
          doy = doe - (365 * yoe + yoe div 4 - yoe div 100); mp = (5 * doy + 2) div 153;
          month = (if mp < 10 then mp + 3 else mp - 9)
      in (yoe + era * 400 + (if month \<le> 2 then 1 else 0), month, doy - (153 * mp + 2) div 5 + 1))"

definition padded :: "nat \<Rightarrow> int \<Rightarrow> string" where
  "padded w n = (let s = show_int n in replicate (w - length s) CHR ''0'' @ s)"

definition isoformat :: "time \<Rightarrow> string" where
  "isoformat t =
     (let (y, m, d) = civil_date (t div days 1); us = t mod days 1; s = us div 1000000; f = us mod 1000000
      in padded 4 y @ ''-'' @ padded 2 m @ ''-'' @ padded 2 d @ ''T'' @ padded 2 (s div 3600) @ '':''
         @ padded 2 (s div 60 mod 60) @ '':'' @ padded 2 (s mod 60)
         @ (if f = 0 then [] else ''.'' @ padded 6 f) @ ''+00:00'')"

text \<open>The string escapes of \<open>json.dumps(..., ensure_ascii=False)\<close>.\<close>

definition json_escape_char :: "char \<Rightarrow> string" where
  "json_escape_char c =
     (let n = of_char c :: nat; bs = char_of (92 :: nat)
      in if n = 34 \<or> n = 92 then [bs, c]
         else if n = 10 then [bs, CHR ''n'']
         else if n = 13 then [bs, CHR ''r'']
         else if n = 9 then [bs, CHR ''t'']
         else if n = 8 then [bs, CHR ''b'']
         else if n = 12 then [bs, CHR ''f'']
         else if n < 32 then bs # ''u00'' @ [hex_char (n div 16), hex_char (n mod 16)]
         else [c])"

definition json_str :: "string \<Rightarrow> string" where
  "json_str s = [char_of (34 :: nat)] @ concat (map json_escape_char s) @ [char_of (34 :: nat)]"

subsection \<open>Parameters\<close>

text \<open>
  What the service calls and does not define: SHA-256 in hexadecimal, the shortest
  decimal form of a float, \<open>datetime.fromisoformat\<close> (\<open>None\<close> for its ValueError), and the
  JSON Schema validator, applied to a schema and a value.
\<close>

datatype iso_time = Naive time | Aware time

record platform =
  sha256 :: "char list \<Rightarrow> string"
  float_repr :: "rat \<Rightarrow> string"
  fromisoformat :: "string \<Rightarrow> iso_time option"
  schema_valid :: "pyval \<Rightarrow> pyval \<Rightarrow> bool"

subsection \<open>Canonical JSON\<close>

text \<open>
  \<open>json.dumps(value, ensure_ascii=False, sort_keys=True, separators=(",", ":"),
  allow_nan=False)\<close>: the keys of every object are sorted. \<open>None\<close> is the TypeError a
  \<open>datetime\<close> raises there.
\<close>

definition join :: "string \<Rightarrow> string list \<Rightarrow> string" where
  "join sep xs = (case xs of [] \<Rightarrow> [] | y # ys \<Rightarrow> y @ concat (map (\<lambda>z. sep @ z) ys))"

fun all_some :: "'a option list \<Rightarrow> 'a list option" where
  "all_some [] = Some []"
| "all_some (None # _) = None"
| "all_some (Some x # xs) = map_option ((#) x) (all_some xs)"

definition render_member :: "string \<times> string \<Rightarrow> string" where
  "render_member kv = json_str (fst kv) @ '':'' @ snd kv"

definition render_object :: "(string \<times> string) list \<Rightarrow> string" where
  "render_object members = ''{'' @ join '','' (map render_member (sort_key fst members)) @ ''}''"

fun dumps :: "platform \<Rightarrow> pyval \<Rightarrow> string option"
  and dumps_list :: "platform \<Rightarrow> pyval list \<Rightarrow> string list option"
  and dumps_members :: "platform \<Rightarrow> (string \<times> pyval) list \<Rightarrow> (string \<times> string) list option" where
  "dumps P PNone = Some ''null''"
| "dumps P (PBool b) = Some (if b then ''true'' else ''false'')"
| "dumps P (PInt n) = Some (show_int n)"
| "dumps P (PFloat q) = Some (float_repr P q)"
| "dumps P (PStr s) = Some (json_str s)"
| "dumps P (PTime t) = None"
| "dumps P (PList xs) = map_option (\<lambda>ys. ''['' @ join '','' ys @ '']'') (dumps_list P xs)"
| "dumps P (PDict d) = map_option render_object (dumps_members P d)"
| "dumps_list P [] = Some []"
| "dumps_list P (x # xs) =
     (case dumps P x of None \<Rightarrow> None | Some s \<Rightarrow> map_option ((#) s) (dumps_list P xs))"
| "dumps_members P [] = Some []"
| "dumps_members P ((k, x) # d) =
     (case dumps P x of None \<Rightarrow> None | Some s \<Rightarrow> map_option ((#) (k, s)) (dumps_members P d))"

text \<open>
  The bytes of a value that is JSON. Requests are parsed JSON and hold no \<open>datetime\<close>,
  so the empty result of the other case is not reached by the handlers.
\<close>

definition canonical :: "platform \<Rightarrow> pyval \<Rightarrow> char list" where
  "canonical P v = (case dumps P v of None \<Rightarrow> [] | Some s \<Rightarrow> utf8 s)"

definition digest :: "platform \<Rightarrow> pyval \<Rightarrow> string" where
  "digest P v = ''sha256:'' @ sha256 P (canonical P v)"

definition token_digest :: "platform \<Rightarrow> string \<Rightarrow> string" where
  "token_digest P token = sha256 P (utf8 token)"

subsection \<open>The order of keys does not matter\<close>

lemma dumps_members_eq:
  "dumps_members P d = all_some (map (\<lambda>(k, x). map_option (Pair k) (dumps P x)) d)"
  by (induction d) (auto split: option.splits)

lemma all_some_eq_Some_iff: "all_some xs = Some ys \<longleftrightarrow> xs = map Some ys"
proof (induction xs arbitrary: ys)
  case (Cons x xs)
  show ?case by (cases x) (auto simp: Cons.IH)
qed auto

lemma all_some_None_iff: "all_some xs = None \<longleftrightarrow> None \<in> set xs"
proof (induction xs)
  case (Cons x xs)
  show ?case by (cases x) (auto simp: Cons.IH)
qed simp

lemma dumps_members_keys: "dumps_members P d = Some m \<Longrightarrow> map fst m = map fst d"
  by (induction d arbitrary: m) (auto split: option.splits)

text \<open>Sorting by a key that occurs once has one result for every arrangement of the list.\<close>

lemma sort_key_mset_unique:
  assumes "mset xs = mset ys" and "distinct (map f xs)"
  shows "sort_key f xs = sort_key f ys"
proof (rule properties_for_sort_key)
  show "mset (sort_key f ys) = mset xs" using assms(1) by simp
  show "sorted (map f (sort_key f ys))" by simp
next
  fix k assume k: "k \<in> set (sort_key f ys)"
  have one: "filter (\<lambda>x. f k = f x) zs = [k]" if "distinct (map f zs)" "k \<in> set zs" for zs
    using that by (induction zs) (auto simp: filter_empty_conv image_iff)
  have "mset (map f (sort_key f ys)) = mset (map f xs)" using assms(1) by simp
  then have "distinct (map f (sort_key f ys))"
    using assms(2) by (rule mset_eq_imp_distinct_iff [THEN iffD2])
  moreover have "k \<in> set xs" using k assms(1) by (metis set_mset_mset set_sort)
  ultimately show "filter (\<lambda>x. f k = f x) (sort_key f ys) = filter (\<lambda>x. f k = f x) xs"
    using one k assms(2) by metis
qed

lemma sum_list_sort_key: "sum_list (map f (sort_key k xs)) = sum_list (map (f :: 'a \<Rightarrow> nat) xs)"
  by (metis mset_map mset_sort sum_mset_sum_list)

lemma dumps_PDict_perm:
  assumes "mset d = mset e" and "distinct (map fst d)"
  shows "dumps P (PDict d) = dumps P (PDict e)"
proof -
  let ?f = "\<lambda>(k, x). map_option (Pair k) (dumps P x)"
  have m: "mset (map ?f d) = mset (map ?f e)" using assms(1) by simp
  show ?thesis
  proof (cases "dumps_members P d")
    case None
    then have "None \<in> set (map ?f d)" by (simp add: dumps_members_eq all_some_None_iff)
    then have "None \<in> set (map ?f e)" using m by (metis set_mset_mset)
    then have "dumps_members P e = None" by (simp only: dumps_members_eq all_some_None_iff)
    with None show ?thesis by simp
  next
    case (Some a)
    then have a: "map ?f d = map Some a" by (simp add: dumps_members_eq all_some_eq_Some_iff)
    have "None \<notin> set (map ?f e)" using m a by (metis ex_map_conv option.distinct(1) set_mset_mset)
    then obtain b where b: "dumps_members P e = Some b"
      by (metis all_some_None_iff dumps_members_eq not_Some_eq)
    then have "map ?f e = map Some b" by (simp add: dumps_members_eq all_some_eq_Some_iff)
    then have "mset (map Some a) = mset (map Some b)" using a m by metis
    then have "image_mset the (mset (map Some a)) = image_mset the (mset (map Some b))" by (rule arg_cong)
    then have "mset a = mset b" by (simp add: multiset.map_comp comp_def)
    moreover have "distinct (map fst a)" using dumps_members_keys [OF Some] assms(2) by simp
    ultimately have "sort_key fst a = sort_key fst b" by (rule sort_key_mset_unique)
    then show ?thesis using Some b by (simp add: render_object_def)
  qed
qed

lemma canonical_PDict_perm:
  "mset d = mset e \<Longrightarrow> distinct (map fst d) \<Longrightarrow> canonical P (PDict d) = canonical P (PDict e)"
  by (simp only: canonical_def dumps_PDict_perm)

lemma digest_PDict_perm:
  "mset d = mset e \<Longrightarrow> distinct (map fst d) \<Longrightarrow> digest P (PDict d) = digest P (PDict e)"
  by (simp only: digest_def canonical_PDict_perm)

end
