(* ===== verification/Fencing.thy ===== *)
theory Fencing
  imports Prelude
begin

text \<open>
  The contracts that several parts of the service share, stated once as locales:
  runs of a component as sequences of timed steps, fenced ownership (a generation
  number that grows whenever a resource changes hands), leases (no other owner before
  the deadline), idempotency receipts, versioned records changed by
  compare-and-swap, and tables whose rows only move along a preorder. The components that provide them interpret the locales on their own
  operations, in their own theories.
\<close>

subsection \<open>Runs\<close>

text \<open>
  A step of a component is one transaction; its label is the clock of the transaction.
  \<open>run step s ts s'\<close> is a sequence of steps from \<open>s\<close> to \<open>s'\<close>.
\<close>

inductive run :: "('t \<Rightarrow> 's \<Rightarrow> 's \<Rightarrow> bool) \<Rightarrow> 's \<Rightarrow> 't list \<Rightarrow> 's \<Rightarrow> bool" for step where
  run_nil [intro]: "run step s [] s"
| run_cons [intro]: "step t s u \<Longrightarrow> run step u ts s' \<Longrightarrow> run step s (t # ts) s'"

inductive_cases run_nilE [elim!]: "run step s [] s'"
inductive_cases run_consE [elim!]: "run step s (t # ts) s'"

lemma run_Nil_iff [simp]: "run step s [] s' \<longleftrightarrow> s' = s"
  by auto

lemma run_Cons_iff: "run step s (t # ts) s' \<longleftrightarrow> (\<exists>u. step t s u \<and> run step u ts s')"
  by auto

lemma run_append: "run step s ts u \<Longrightarrow> run step u us s' \<Longrightarrow> run step s (ts @ us) s'"
  by (induction rule: run.induct) auto

lemma run_invariant:
  assumes "run step s ts s'" and "I s"
    and "\<And>t s s'. I s \<Longrightarrow> step t s s' \<Longrightarrow> I s'"
  shows "I s'"
  using assms(1,2) by (induction rule: run.induct) (auto intro: assms(3))

text \<open>A step relation that keeps a binary relation keeps its reflexive transitive closure.\<close>

lemma run_relates:
  assumes "run step s ts s'" and "I s"
    and "\<And>t s s'. I s \<Longrightarrow> step t s s' \<Longrightarrow> I s'"
    and "\<And>t s s'. I s \<Longrightarrow> step t s s' \<Longrightarrow> R s s'"
    and "\<And>s. R s s" and "\<And>a b c. R a b \<Longrightarrow> R b c \<Longrightarrow> R a c"
  shows "R s s'"
  using assms(1,2)
proof (induction rule: run.induct)
  case (run_nil s)
  then show ?case by (simp add: assms(5))
next
  case (run_cons t s u ts s')
  then have "R s u" and "I u" using assms(3,4) by blast+
  then show ?case using run_cons.IH assms(6) by blast
qed

subsection \<open>Fenced ownership\<close>

text \<open>
  \<open>gen s k\<close> is the generation of resource \<open>k\<close> (\<open>None\<close> when there is no such resource)
  and \<open>owner s k\<close> who holds it. A step never lowers a generation, and whoever becomes
  the owner does so under a new one.
\<close>

locale fenced =
  fixes step :: "'t \<Rightarrow> 's \<Rightarrow> 's \<Rightarrow> bool"
    and inv :: "'s \<Rightarrow> bool"
    and gen :: "'s \<Rightarrow> 'k \<Rightarrow> nat option"
    and owner :: "'s \<Rightarrow> 'k \<Rightarrow> 'o option"
  assumes inv_step: "inv s \<Longrightarrow> step t s s' \<Longrightarrow> inv s'"
    and gen_step: "inv s \<Longrightarrow> step t s s' \<Longrightarrow> gen s k = Some g \<Longrightarrow> \<exists>g' \<ge> g. gen s' k = Some g'"
    and owner_step: "inv s \<Longrightarrow> step t s s' \<Longrightarrow> gen s k = Some g \<Longrightarrow> gen s' k = Some g
      \<Longrightarrow> owner s' k = Some p \<Longrightarrow> owner s k = Some p"
begin

lemma inv_run: "run step s ts s' \<Longrightarrow> inv s \<Longrightarrow> inv s'"
  by (erule run_invariant) (blast intro: inv_step)+

lemma gen_run:
  assumes "run step s ts s'" and "inv s" and "gen s k = Some g"
  shows "\<exists>g' \<ge> g. gen s' k = Some g'"
  using assms
proof (induction arbitrary: g rule: run.induct)
  case (run_nil s)
  then show ?case by blast
next
  case (run_cons t s u ts s')
  then obtain h where h: "g \<le> h" "gen u k = Some h" using gen_step by blast
  moreover have "inv u" using run_cons inv_step by blast
  ultimately obtain g' where "h \<le> g'" "gen s' k = Some g'" using run_cons.IH by blast
  with h show ?case by (meson le_trans)
qed

text \<open>Within one generation a resource never gets another owner, however long the run.\<close>

lemma owner_run:
  assumes "run step s ts s'" and "inv s"
    and "gen s k = Some g" and "gen s' k = Some g" and "owner s' k = Some p"
  shows "owner s k = Some p"
  using assms
proof (induction rule: run.induct)
  case (run_nil s)
  then show ?case by simp
next
  case (run_cons t s u ts s')
  have inv_u: "inv u" using run_cons inv_step by blast
  obtain h where h: "g \<le> h" "gen u k = Some h" using run_cons gen_step by blast
  obtain g' where "h \<le> g'" "gen s' k = Some g'"
    using gen_run [OF run_cons.hyps(2) inv_u h(2)] by blast
  with run_cons.prems have "h \<le> g" by simp
  with h have gu: "gen u k = Some g" by simp
  then have "owner u k = Some p" using run_cons.IH inv_u run_cons.prems by blast
  then show ?case using owner_step run_cons gu by blast
qed

lemma one_owner_per_generation:
  assumes "run step s ts s'" and "inv s"
    and "gen s k = Some g" and "gen s' k = Some g"
    and "owner s k = Some p" and "owner s' k = Some q"
  shows "p = q"
  using owner_run [OF assms(1-4,6)] assms(5) by simp

end

text \<open>
  A lease adds a deadline: \<open>live s k now\<close> says the owner's lease is running. A step that
  starts while the lease runs leaves the owner in place, or no owner at all.
\<close>

locale leased = fenced step inv gen owner
  for step :: "clock \<Rightarrow> 's \<Rightarrow> 's \<Rightarrow> bool"
    and inv :: "'s \<Rightarrow> bool"
    and gen :: "'s \<Rightarrow> 'k \<Rightarrow> nat option"
    and owner :: "'s \<Rightarrow> 'k \<Rightarrow> 'o option" +
  fixes live :: "'s \<Rightarrow> 'k \<Rightarrow> time \<Rightarrow> bool"
  assumes live_step: "inv s \<Longrightarrow> step clk s s' \<Longrightarrow> live s k (clk 0)
      \<Longrightarrow> owner s' k = owner s k \<or> owner s' k = None"
begin

lemma takeover_needs_expiry:
  assumes "inv s" and "step clk s s'" and "owner s k = Some p" and "owner s' k = Some q" and "p \<noteq> q"
  shows "\<not> live s k (clk 0)"
  using live_step [OF assms(1,2), of k] assms(3-5) by auto

lemma takeover_new_generation:
  assumes "inv s" and "step clk s s'" and "owner s k = Some p" and "owner s' k = Some q" and "p \<noteq> q"
    and "gen s k = Some g"
  shows "\<exists>g' > g. gen s' k = Some g'"
proof -
  obtain g' where g': "g \<le> g'" "gen s' k = Some g'" using gen_step assms(1,2,6) by blast
  have "g' \<noteq> g" using owner_step [OF assms(1,2,6)] g' assms(3-5) by auto
  with g' show ?thesis by auto
qed

end

subsection \<open>Idempotency receipts\<close>

text \<open>
  A store of receipts: what was answered under a key, with the digest of the request.
  An operation that looks its receipt up first and stores it last answers a repeated
  request from the receipt and changes nothing.
\<close>

locale receipt_store =
  fixes find_receipt :: "'s \<Rightarrow> 'k \<Rightarrow> ('d \<times> 'r) option"
    and put_receipt :: "'s \<Rightarrow> 'k \<Rightarrow> 'd \<times> 'r \<Rightarrow> 's"
  assumes find_put: "find_receipt s k = None \<Longrightarrow> find_receipt (put_receipt s k v) k = Some v"
    and find_put_other: "k' \<noteq> k \<Longrightarrow> find_receipt (put_receipt s k v) k' = find_receipt s k'"
    and put_keeps: "find_receipt s k = Some w \<Longrightarrow> find_receipt (put_receipt s k' v) k = Some w"
begin

text \<open>Steps that only add receipts, for keys of their own, keep the answers already given.\<close>

lemma run_keeps:
  assumes "run step s ts s'" and "find_receipt s k = Some w"
    and "\<And>t s s'. step t s s' \<Longrightarrow>
      find_receipt s' = find_receipt s \<or> (\<exists>k' v s1. find_receipt s1 = find_receipt s \<and> s' = put_receipt s1 k' v)"
  shows "find_receipt s' k = Some w"
  using assms(1,2)
proof (induction rule: run.induct)
  case (run_cons t s u ts s')
  then have "find_receipt u k = Some w" using assms(3) [OF run_cons.hyps(1)] put_keeps by metis
  then show ?case by (rule run_cons.IH)
qed

end

subsection \<open>Versioned records\<close>

text \<open>
  A record changed by compare-and-swap: a change succeeds only for the version the
  caller saw, and the new version is its successor.
\<close>

locale versioned =
  fixes version :: "'s \<Rightarrow> 'k \<Rightarrow> nat"
    and change :: "'k \<Rightarrow> nat \<Rightarrow> 's \<Rightarrow> 's \<Rightarrow> bool"
  assumes change_expected: "change k v s s' \<Longrightarrow> version s k = v"
    and change_bumps: "change k v s s' \<Longrightarrow> version s' k = Suc v"
begin

text \<open>Of two changes that expect the same version, one after the other, the second fails.\<close>

lemma no_lost_update: "change k v s s' \<Longrightarrow> \<not> change k v s' s''"
  using change_expected change_bumps by fastforce

lemma change_version_less: "change k v s s' \<Longrightarrow> version s k < version s' k"
  using change_expected change_bumps by fastforce

end

subsection \<open>Rows with a history\<close>

text \<open>
  A table whose rows are never deleted and change only along a preorder (what the triggers
  of the database allow): a row read at one time is found ever after, further along.
\<close>

locale row_history =
  fixes step :: "'t \<Rightarrow> 's \<Rightarrow> 's \<Rightarrow> bool"
    and inv :: "'s \<Rightarrow> bool"
    and lookup :: "'s \<Rightarrow> 'k \<Rightarrow> 'r option"
    and evolves :: "'r \<Rightarrow> 'r \<Rightarrow> bool"
  assumes inv_step: "inv s \<Longrightarrow> step t s s' \<Longrightarrow> inv s'"
    and row_step: "inv s \<Longrightarrow> step t s s' \<Longrightarrow> lookup s k = Some r \<Longrightarrow> \<exists>r'. lookup s' k = Some r' \<and> evolves r r'"
    and evolves_refl: "evolves r r"
    and evolves_trans: "evolves a b \<Longrightarrow> evolves b c \<Longrightarrow> evolves a c"
begin

lemma inv_run: "run step s ts s' \<Longrightarrow> inv s \<Longrightarrow> inv s'"
  by (erule run_invariant) (blast intro: inv_step)+

lemma row_run:
  assumes "run step s ts s'" and "inv s" and "lookup s k = Some r"
  shows "\<exists>r'. lookup s' k = Some r' \<and> evolves r r'"
  using assms
proof (induction arbitrary: r rule: run.induct)
  case (run_nil s)
  then show ?case using evolves_refl by blast
next
  case (run_cons t s u ts s')
  then obtain r1 where "lookup u k = Some r1" "evolves r r1" using row_step by blast
  moreover have "inv u" using run_cons inv_step by blast
  ultimately show ?case using run_cons.IH evolves_trans by blast
qed

end

end
