(* ===== verification/Handoff_Store.thy ===== *)
theory Handoff_Store
  imports Py_Json Fencing
begin

text \<open>
  The handoff tables and the queries of store/queries.py and
  handoff/collaboration_store.py over them: publication, listing, the legacy one-shot
  pull, and the recoverable claim protocol (claim, replay, acknowledge, reject, renew).
  Every query is one transaction; it takes the clock of that transaction.
\<close>

subsection \<open>Rows\<close>

datatype hstatus = H_pending | H_claimed | H_acknowledged | H_expired

datatype disposition = D_acknowledged | D_nacked

text \<open>The columns a handoff is published with; no later statement writes them.\<close>

record handoff_content =
  hc_project_id :: string
  hc_unit_id :: string
  hc_phase_attempt_id :: string
  hc_phase_id :: string
  hc_from_user :: string
  hc_result_status :: string
  hc_classification :: classification
  hc_task_summary :: "string option"
  hc_passed_checks :: pyval
  hc_artifacts_produced :: pyval
  hc_handoff_note :: "string option"
  hc_task_envelope :: pyval
  hc_result_envelope :: pyval
  hc_context_digest :: string
  hc_raw_output :: "string option"
  hc_lock_snapshot_digest :: string
  hc_envelope_digest :: string
  hc_payload_digest :: string
  hc_handoff_version :: nat
  hc_recipient_user_id :: "string option"
  hc_continuation :: "pyval option"
  hc_continuation_digest :: "string option"
  hc_compatibility_digest :: "string option"

record handoff =
  h_id :: uuid
  h_content :: handoff_content
  h_created_at :: time
  h_expires_at :: "time option"
  h_status :: hstatus
  h_claimed_by :: "string option"
  h_claimed_at :: "time option"
  h_claim_token_digest :: "string option"
  h_claim_lease_expires_at :: "time option"
  h_claim_generation :: nat
  h_claim_disposition :: "disposition option"
  h_claim_reason_code :: "string option"
  h_continuity_managed :: bool

record claim_receipt =
  cr_handoff_id :: uuid
  cr_project_id :: string
  cr_actor_id :: string
  cr_claim_token_digest :: string
  cr_claim_generation :: nat
  cr_operation :: disposition
  cr_reason_code :: "string option"

text \<open>
  \<open>hdb_members\<close> is the view \<open>memory_eligible_members\<close>, pairs of project and user.
\<close>

record hdb =
  hdb_handoffs :: "handoff list"
  hdb_receipts :: "claim_receipt list"
  hdb_members :: "(string \<times> string) list"

abbreviation h_project_id :: "handoff \<Rightarrow> string" where
  "h_project_id r \<equiv> hc_project_id (h_content r)"

abbreviation h_recipient :: "handoff \<Rightarrow> string option" where
  "h_recipient r \<equiv> hc_recipient_user_id (h_content r)"

abbreviation h_version :: "handoff \<Rightarrow> nat" where
  "h_version r \<equiv> hc_handoff_version (h_content r)"

definition after :: "time option \<Rightarrow> time \<Rightarrow> bool" where
  \<comment> \<open>\<open>column > now\<close> in SQL: not true of NULL\<close>
  "after c now = (case c of None \<Rightarrow> False | Some t \<Rightarrow> now < t)"

definition upto :: "time option \<Rightarrow> time \<Rightarrow> bool" where
  \<comment> \<open>\<open>column <= now\<close> in SQL: not true of NULL\<close>
  "upto c now = (case c of None \<Rightarrow> False | Some t \<Rightarrow> t \<le> now)"

lemma after_simps [simp]: "after None now = False" "after (Some t) now = (now < t)"
  by (simp_all add: after_def)

lemma upto_simps [simp]: "upto None now = False" "upto (Some t) now = (t \<le> now)"
  by (simp_all add: upto_def)

lemma after_iff: "after c now \<longleftrightarrow> (\<exists>t. c = Some t \<and> now < t)"
  by (cases c) auto

lemma upto_iff: "upto c now \<longleftrightarrow> (\<exists>t. c = Some t \<and> t \<le> now)"
  by (cases c) auto

definition recipient_allows :: "handoff \<Rightarrow> string \<Rightarrow> bool" where
  "recipient_allows r actor = (case h_recipient r of None \<Rightarrow> True | Some u \<Rightarrow> u = actor)"

subsection \<open>Publication\<close>

definition new_handoff :: "uuid \<Rightarrow> handoff_content \<Rightarrow> time \<Rightarrow> time \<Rightarrow> handoff" where
  "new_handoff i c now expires =
     \<lparr>h_id = i, h_content = c, h_created_at = now, h_expires_at = Some expires,
      h_status = H_pending, h_claimed_by = None, h_claimed_at = None,
      h_claim_token_digest = None, h_claim_lease_expires_at = None, h_claim_generation = 0,
      h_claim_disposition = None, h_claim_reason_code = None, h_continuity_managed = False\<rparr>"

definition same_attempt :: "string \<Rightarrow> string \<Rightarrow> handoff \<Rightarrow> bool" where
  "same_attempt project attempt r \<longleftrightarrow>
     h_project_id r = project \<and> hc_phase_attempt_id (h_content r) = attempt"

text \<open>
  \<open>insert_handoff\<close>: \<open>i\<close> is the identifier the database generates. Under the advisory
  lock the conflict clause of the INSERT cannot apply.
\<close>

definition insert_handoff ::
    "uuid \<Rightarrow> time \<Rightarrow> handoff_content \<Rightarrow> time \<Rightarrow> hdb \<Rightarrow> mem_error + hdb \<times> handoff option" where
  "insert_handoff i now c expires db =
     (if exists_row (same_attempt (hc_project_id c) (hc_phase_attempt_id c)) (hdb_handoffs db)
      then Inr (db, None)
      else if (case hc_recipient_user_id c of None \<Rightarrow> False
               | Some u \<Rightarrow> (hc_project_id c, u) \<notin> set (hdb_members db))
      then Inl (memory_tool_error ''Recipient is not available for handoff in this project''
                  ''MEM-HANDOFF-0013'' [] 400)
      else let r = new_handoff i c now expires
           in Inr (db\<lparr>hdb_handoffs := insert_row r (hdb_handoffs db)\<rparr>, Some r))"

definition get_handoff_by_attempt :: "string \<Rightarrow> string \<Rightarrow> hdb \<Rightarrow> handoff option" where
  "get_handoff_by_attempt project attempt db = fetchrow (same_attempt project attempt) (hdb_handoffs db)"

subsection \<open>Listing\<close>

definition expirable :: "string \<Rightarrow> time \<Rightarrow> handoff \<Rightarrow> bool" where
  "expirable project now r \<longleftrightarrow>
     h_project_id r = project \<and> h_status r = H_pending \<and> upto (h_expires_at r) now
     \<and> h_version r = 1 \<and> \<not> h_continuity_managed r"

definition listed :: "string \<Rightarrow> string option \<Rightarrow> (time \<times> uuid) option option \<Rightarrow> string option \<Rightarrow> time
    \<Rightarrow> handoff \<Rightarrow> bool" where
  "listed project unit after_key exclude_actor now r \<longleftrightarrow>
     h_project_id r = project
     \<and> (h_status r = H_pending
        \<or> h_status r = H_claimed \<and> h_claim_token_digest r \<noteq> None
          \<and> upto (h_claim_lease_expires_at r) now)
     \<and> after (h_expires_at r) now \<and> h_version r = 1 \<and> \<not> h_continuity_managed r
     \<and> (case unit of None \<Rightarrow> True | Some u \<Rightarrow> hc_unit_id (h_content r) = u)
     \<and> (case after_key of None \<Rightarrow> True
        | Some None \<Rightarrow> False
        | Some (Some key) \<Rightarrow> (h_created_at r, h_id r) < key)
     \<and> (case exclude_actor of None \<Rightarrow> True | Some a \<Rightarrow> hc_from_user (h_content r) \<noteq> a)"

text \<open>
  \<open>list_pending_handoffs\<close>: \<open>now()\<close> is the start of the transaction. \<open>after_id\<close> names the
  last row of the page before; an unknown one selects nothing.
\<close>

definition list_pending_handoffs ::
    "time \<Rightarrow> string \<Rightarrow> string option \<Rightarrow> nat \<Rightarrow> uuid option \<Rightarrow> string option \<Rightarrow> hdb
     \<Rightarrow> hdb \<times> handoff list" where
  "list_pending_handoffs now project unit limit after_id exclude_actor db =
     (let t = update_where (expirable project now) (\<lambda>r. r\<lparr>h_status := H_expired\<rparr>) (hdb_handoffs db);
          key = map_option (\<lambda>i. map_option (\<lambda>r. (h_created_at r, h_id r))
                  (fetchrow (\<lambda>r. h_id r = i \<and> h_project_id r = project) t)) after_id
      in (db\<lparr>hdb_handoffs := t\<rparr>,
          take limit (newest_first (\<lambda>r. (h_created_at r, h_id r))
            (filter (listed project unit key exclude_actor now) t))))"

subsection \<open>The legacy one-shot pull\<close>

definition pullable :: "uuid \<Rightarrow> string option \<Rightarrow> time \<Rightarrow> handoff \<Rightarrow> bool" where
  "pullable i project now r \<longleftrightarrow>
     h_id r = i \<and> h_status r = H_pending \<and> after (h_expires_at r) now \<and> h_version r = 1
     \<and> \<not> h_continuity_managed r
     \<and> (case project of None \<Rightarrow> True | Some p \<Rightarrow> h_project_id r = p)"

definition legacy_claimed :: "string \<Rightarrow> time \<Rightarrow> handoff \<Rightarrow> handoff" where
  "legacy_claimed actor now r =
     r\<lparr>h_status := H_claimed, h_claimed_by := Some actor, h_claimed_at := Some now,
       h_claim_token_digest := None, h_claim_lease_expires_at := None,
       h_claim_generation := h_claim_generation r + 1,
       h_claim_disposition := None, h_claim_reason_code := None\<rparr>"

definition claim_handoff :: "time \<Rightarrow> uuid \<Rightarrow> string \<Rightarrow> string option \<Rightarrow> hdb \<Rightarrow> hdb \<times> handoff option" where
  "claim_handoff now i actor project db =
     (db\<lparr>hdb_handoffs := update_where (pullable i project now) (legacy_claimed actor now) (hdb_handoffs db)\<rparr>,
      map_option (legacy_claimed actor now) (fetchrow (pullable i project now) (hdb_handoffs db)))"

subsection \<open>Recoverable claims\<close>

definition locked_row :: "uuid \<Rightarrow> string \<Rightarrow> hdb \<Rightarrow> handoff option" where
  \<comment> \<open>SELECT ... WHERE id=$1 AND project_id=$2 FOR UPDATE\<close>
  "locked_row i project db = fetchrow (\<lambda>r. h_id r = i \<and> h_project_id r = project) (hdb_handoffs db)"

definition is_replay :: "string \<Rightarrow> string \<Rightarrow> time \<Rightarrow> handoff \<Rightarrow> bool" where
  "is_replay actor token now r \<longleftrightarrow>
     h_status r = H_claimed \<and> after (h_claim_lease_expires_at r) now
     \<and> h_claimed_by r = Some actor \<and> h_claim_token_digest r = Some token"

definition is_recoverable :: "time \<Rightarrow> handoff \<Rightarrow> bool" where
  "is_recoverable now r \<longleftrightarrow>
     h_status r = H_pending \<or> h_status r = H_claimed \<and> upto (h_claim_lease_expires_at r) now"

definition token_completed :: "uuid \<Rightarrow> string \<Rightarrow> string \<Rightarrow> string \<Rightarrow> hdb \<Rightarrow> bool" where
  "token_completed i project actor token db =
     exists_row (\<lambda>c. cr_handoff_id c = i \<and> cr_project_id c = project \<and> cr_actor_id c = actor
       \<and> cr_claim_token_digest c = token) (hdb_receipts db)"

definition leased_to :: "string \<Rightarrow> string \<Rightarrow> time \<Rightarrow> time \<Rightarrow> int \<Rightarrow> handoff \<Rightarrow> handoff" where
  \<comment> \<open>\<open>LEAST\<close> ignores a NULL argument\<close>
  "leased_to actor token stamp base lease_seconds r =
     r\<lparr>h_status := H_claimed, h_claimed_by := Some actor, h_claimed_at := Some stamp,
       h_claim_token_digest := Some token,
       h_claim_lease_expires_at := Some (case h_expires_at r of
           None \<Rightarrow> base + seconds lease_seconds
         | Some e \<Rightarrow> min (base + seconds lease_seconds) e),
       h_claim_generation := h_claim_generation r + 1,
       h_claim_disposition := None, h_claim_reason_code := None\<rparr>"

text \<open>
  \<open>claim_handoff_lease\<close> samples the clock after the row lock and twice in the UPDATE. The
  boolean of the result is \<open>claim_replayed\<close>.
\<close>

definition claim_handoff_lease ::
    "clock \<Rightarrow> uuid \<Rightarrow> string \<Rightarrow> string \<Rightarrow> string \<Rightarrow> int \<Rightarrow> nat \<Rightarrow> hdb \<Rightarrow> hdb \<times> (handoff \<times> bool) option" where
  "claim_handoff_lease clk i project actor token lease_seconds accept_version db =
     (case locked_row i project db of
        None \<Rightarrow> (db, None)
      | Some r \<Rightarrow>
          if \<not> after (h_expires_at r) (clk 0) then (db, None)
          else if h_continuity_managed r \<or> accept_version < h_version r \<or> \<not> recipient_allows r actor
          then (db, None)
          else if is_replay actor token (clk 0) r then (db, Some (r, True))
          else if \<not> is_recoverable (clk 0) r then (db, None)
          else if token_completed i project actor token db then (db, None)
          else let f = leased_to actor token (clk 1) (clk 2) lease_seconds
               in (db\<lparr>hdb_handoffs := update_where (\<lambda>x. h_id x = i) f (hdb_handoffs db)\<rparr>,
                   Some (f r, False)))"

definition get_claimed_handoff :: "clock \<Rightarrow> uuid \<Rightarrow> string \<Rightarrow> string \<Rightarrow> string \<Rightarrow> hdb \<Rightarrow> handoff option" where
  "get_claimed_handoff clk i project actor token db =
     fetchrow (\<lambda>r. h_id r = i \<and> h_project_id r = project \<and> h_status r = H_claimed
       \<and> \<not> h_continuity_managed r \<and> h_claimed_by r = Some actor
       \<and> h_claim_token_digest r = Some token \<and> recipient_allows r actor
       \<and> after (h_claim_lease_expires_at r) (clk 0) \<and> after (h_expires_at r) (clk 1))
       (hdb_handoffs db)"

definition receipt_of :: "uuid \<Rightarrow> string \<Rightarrow> string \<Rightarrow> string \<Rightarrow> nat \<Rightarrow> disposition \<Rightarrow> hdb \<Rightarrow> claim_receipt option" where
  "receipt_of i project actor token generation operation db =
     fetchrow (\<lambda>c. cr_handoff_id c = i \<and> cr_project_id c = project \<and> cr_actor_id c = actor
       \<and> cr_claim_token_digest c = token \<and> cr_claim_generation c = generation
       \<and> cr_operation c = operation) (hdb_receipts db)"

definition insert_claim_receipt :: "claim_receipt \<Rightarrow> claim_receipt list \<Rightarrow> claim_receipt list" where
  \<comment> \<open>INSERT ... ON CONFLICT (handoff, project, actor, token, operation) DO NOTHING\<close>
  "insert_claim_receipt c t =
     (if exists_row (\<lambda>x. cr_handoff_id x = cr_handoff_id c \<and> cr_project_id x = cr_project_id c
           \<and> cr_actor_id x = cr_actor_id c \<and> cr_claim_token_digest x = cr_claim_token_digest c
           \<and> cr_operation x = cr_operation c) t
      then t else insert_row c t)"

definition claim_matches :: "string \<Rightarrow> string \<Rightarrow> nat \<Rightarrow> handoff \<Rightarrow> bool" where
  "claim_matches actor token generation r \<longleftrightarrow>
     h_claimed_by r = Some actor \<and> h_claim_token_digest r = Some token
     \<and> h_claim_generation r = generation"

definition claim_active :: "time \<Rightarrow> handoff \<Rightarrow> bool" where
  "claim_active now r \<longleftrightarrow>
     h_status r = H_claimed \<and> after (h_claim_lease_expires_at r) now \<and> after (h_expires_at r) now"

definition close_claim :: "(handoff \<Rightarrow> handoff) \<Rightarrow> uuid \<Rightarrow> nat \<Rightarrow> claim_receipt \<Rightarrow> hdb
    \<Rightarrow> hdb \<times> (nat \<times> bool) option" where
  \<comment> \<open>the UPDATE ... RETURNING and the receipt that acknowledgement and rejection share\<close>
  "close_claim f i generation c db =
     (case fetchrow (\<lambda>r. h_id r = i \<and> h_claim_generation r = generation) (hdb_handoffs db) of
        None \<Rightarrow> (db, None)
      | Some r \<Rightarrow>
          (db\<lparr>hdb_handoffs := update_where (\<lambda>r. h_id r = i \<and> h_claim_generation r = generation) f (hdb_handoffs db),
              hdb_receipts := insert_claim_receipt c (hdb_receipts db)\<rparr>,
           Some (generation, False)))"

definition acknowledged_row :: "handoff \<Rightarrow> handoff" where
  "acknowledged_row r = r\<lparr>h_status := H_acknowledged, h_claim_disposition := Some D_acknowledged,
     h_claim_reason_code := None\<rparr>"

definition nacked_row :: "string \<Rightarrow> handoff \<Rightarrow> handoff" where
  "nacked_row reason r = r\<lparr>h_status := H_pending, h_claim_lease_expires_at := None,
     h_claim_disposition := Some D_nacked, h_claim_reason_code := Some reason\<rparr>"

text \<open>
  \<open>acknowledge_handoff\<close> and \<open>nack_handoff\<close>: the result is the generation and whether the
  claim was closed before.
\<close>

definition acknowledge_handoff ::
    "clock \<Rightarrow> uuid \<Rightarrow> string \<Rightarrow> string \<Rightarrow> string \<Rightarrow> nat \<Rightarrow> hdb \<Rightarrow> hdb \<times> (nat \<times> bool) option" where
  "acknowledge_handoff clk i project actor token generation db =
     (case receipt_of i project actor token generation D_acknowledged db of
        Some c \<Rightarrow> (db, Some (cr_claim_generation c, True))
      | None \<Rightarrow>
         (case locked_row i project db of
            None \<Rightarrow> (db, None)
          | Some r \<Rightarrow>
              if \<not> claim_matches actor token generation r then (db, None)
              else if h_status r = H_acknowledged \<and> h_claim_disposition r = Some D_acknowledged
              then (db, Some (h_claim_generation r, True))
              else if \<not> claim_active (clk 0) r then (db, None)
              else close_claim acknowledged_row i generation
                     \<lparr>cr_handoff_id = i, cr_project_id = project, cr_actor_id = actor,
                      cr_claim_token_digest = token, cr_claim_generation = generation,
                      cr_operation = D_acknowledged, cr_reason_code = None\<rparr> db))"

definition nack_handoff ::
    "clock \<Rightarrow> uuid \<Rightarrow> string \<Rightarrow> string \<Rightarrow> string \<Rightarrow> nat \<Rightarrow> string \<Rightarrow> hdb \<Rightarrow> hdb \<times> (nat \<times> bool) option" where
  "nack_handoff clk i project actor token generation reason db =
     (case receipt_of i project actor token generation D_nacked db of
        Some c \<Rightarrow> if cr_reason_code c \<noteq> Some reason then (db, None)
                  else (db, Some (cr_claim_generation c, True))
      | None \<Rightarrow>
         (case locked_row i project db of
            None \<Rightarrow> (db, None)
          | Some r \<Rightarrow>
              if \<not> claim_matches actor token generation r then (db, None)
              else if h_status r = H_pending \<and> h_claim_disposition r = Some D_nacked
              then (if h_claim_reason_code r \<noteq> Some reason then (db, None)
                    else (db, Some (h_claim_generation r, True)))
              else if \<not> claim_active (clk 0) r then (db, None)
              else close_claim (nacked_row reason) i generation
                     \<lparr>cr_handoff_id = i, cr_project_id = project, cr_actor_id = actor,
                      cr_claim_token_digest = token, cr_claim_generation = generation,
                      cr_operation = D_nacked, cr_reason_code = Some reason\<rparr> db))"

subsection \<open>Renewal\<close>

record renewal =
  rn_handoff_id :: uuid
  rn_claim_generation :: nat
  rn_lease_expires_at :: time
  rn_expires_at :: time
  rn_observed_at :: time
  rn_extended :: bool

definition lease_unavailable :: mem_error where
  "lease_unavailable = memory_tool_error
     ''No active lease matches this project, actor, token and generation'' ''MEM-HANDOFF-0010'' [] 409"

definition renew_lease ::
    "clock \<Rightarrow> string \<Rightarrow> uuid \<Rightarrow> string \<Rightarrow> string \<Rightarrow> nat \<Rightarrow> time \<Rightarrow> int \<Rightarrow> hdb \<Rightarrow> mem_error + hdb \<times> renewal" where
  "renew_lease clk project i actor token generation deadline max_seconds db =
     (case locked_row i project db of
        None \<Rightarrow> Inl lease_unavailable
      | Some r \<Rightarrow>
         (case (h_claim_lease_expires_at r, h_expires_at r) of
            (Some current, Some expires) \<Rightarrow>
              if h_status r \<noteq> H_claimed \<or> h_continuity_managed r
                 \<or> h_claimed_by r \<noteq> Some actor \<or> h_claim_token_digest r \<noteq> Some token
                 \<or> h_claim_generation r \<noteq> generation \<or> \<not> recipient_allows r actor
                 \<or> current \<le> clk 0 \<or> expires \<le> clk 0
              then Inl lease_unavailable
              else if current < deadline \<and> clk 0 + seconds max_seconds < deadline
              then Inl (memory_tool_error ''Requested deadline exceeds the configured maximum lease duration''
                          ''MEM-HANDOFF-0011'' [(''maximum_seconds'', PInt max_seconds)] 400)
              else let effective = max current (min deadline expires);
                       extended = current < effective;
                       t = (if extended
                            then update_where (\<lambda>x. h_id x = i)
                                   (\<lambda>x. x\<lparr>h_claim_lease_expires_at := Some effective\<rparr>) (hdb_handoffs db)
                            else hdb_handoffs db)
                   in Inr (db\<lparr>hdb_handoffs := t\<rparr>,
                        \<lparr>rn_handoff_id = i, rn_claim_generation = generation,
                         rn_lease_expires_at = effective, rn_expires_at = expires,
                         rn_observed_at = clk 0, rn_extended = extended\<rparr>)
          | _ \<Rightarrow> Inl lease_unavailable))"

text \<open>
  The UPDATE of continuity/delivery.py that hands a published handoff over to the
  continuity service, and the condition it is made under.
\<close>

definition promotable :: "time \<Rightarrow> handoff \<Rightarrow> bool" where
  "promotable now r \<longleftrightarrow> \<not> h_continuity_managed r \<and> is_recoverable now r"

definition promoted :: "handoff \<Rightarrow> handoff" where
  "promoted r = r\<lparr>h_continuity_managed := True, h_claim_generation := h_claim_generation r + 1,
     h_claim_token_digest := None, h_claim_lease_expires_at := None, h_claimed_by := None,
     h_claimed_at := None, h_status := H_pending, h_claim_disposition := None,
     h_claim_reason_code := None\<rparr>"

definition promote_handoff :: "uuid \<Rightarrow> hdb \<Rightarrow> hdb" where
  "promote_handoff i db = db\<lparr>hdb_handoffs := update_where (\<lambda>x. h_id x = i) promoted (hdb_handoffs db)\<rparr>"

end
