(* ===== verification/Handoff_Claims.thy ===== *)
theory Handoff_Claims
  imports Handoff_Store
begin

text \<open>
  The claim protocol as a state machine: \<open>handoff_step\<close> has one rule per transaction of
  the handoff store, \<open>row_step\<close> is what a transaction may do to one row. The invariant
  ties rows and claim receipts together; the component is an instance of the lease
  contract.
\<close>

subsection \<open>The state machine\<close>

inductive handoff_step :: "clock \<Rightarrow> hdb \<Rightarrow> hdb \<Rightarrow> bool" where
  step_push: "insert_handoff i (clk 0) c expires db = Inr (db', res)
     \<Longrightarrow> i \<notin> h_id ` set (hdb_handoffs db) \<Longrightarrow> handoff_step clk db db'"
| step_list: "list_pending_handoffs (clk 0) project unit limit after_id excl db = (db', rows)
     \<Longrightarrow> handoff_step clk db db'"
| step_pull: "claim_handoff (clk 0) i actor project db = (db', res) \<Longrightarrow> handoff_step clk db db'"
| step_claim: "claim_handoff_lease clk i project actor token secs ver db = (db', res)
     \<Longrightarrow> handoff_step clk db db'"
| step_ack: "acknowledge_handoff clk i project actor token g db = (db', res) \<Longrightarrow> handoff_step clk db db'"
| step_nack: "nack_handoff clk i project actor token g reason db = (db', res) \<Longrightarrow> handoff_step clk db db'"
| step_renew: "renew_lease clk project i actor token g deadline max_secs db = Inr (db', res)
     \<Longrightarrow> handoff_step clk db db'"
| step_promote: "locked_row i project db = Some r \<Longrightarrow> after (h_expires_at r) (clk 0)
     \<Longrightarrow> promotable (clk 0) r \<Longrightarrow> handoff_step clk db (promote_handoff i db)"

definition row :: "uuid \<Rightarrow> hdb \<Rightarrow> handoff option" where
  "row i db = fetchrow (\<lambda>r. h_id r = i) (hdb_handoffs db)"

definition spent :: "claim_receipt list \<Rightarrow> handoff \<Rightarrow> string \<Rightarrow> string \<Rightarrow> bool" where
  \<comment> \<open>a receipt binds this actor and token to the handoff\<close>
  "spent cs r actor token \<longleftrightarrow>
     (\<exists>c \<in> set cs. cr_handoff_id c = h_id r \<and> cr_project_id c = h_project_id r
        \<and> cr_actor_id c = actor \<and> cr_claim_token_digest c = token)"

inductive row_step :: "clock \<Rightarrow> claim_receipt list \<Rightarrow> handoff \<Rightarrow> handoff \<Rightarrow> bool" for clk cs r where
  row_same: "row_step clk cs r r"
| row_expire: "expirable project (clk 0) r \<Longrightarrow> row_step clk cs r (r\<lparr>h_status := H_expired\<rparr>)"
| row_pull: "pullable i project (clk 0) r \<Longrightarrow> row_step clk cs r (legacy_claimed actor (clk 0) r)"
| row_lease: "after (h_expires_at r) (clk 0) \<Longrightarrow> \<not> h_continuity_managed r \<Longrightarrow> recipient_allows r actor
     \<Longrightarrow> is_recoverable (clk 0) r \<Longrightarrow> \<not> spent cs r actor token
     \<Longrightarrow> row_step clk cs r (leased_to actor token (clk 1) (clk 2) secs r)"
| row_ack: "claim_matches actor token g r \<Longrightarrow> claim_active (clk 0) r
     \<Longrightarrow> row_step clk cs r (acknowledged_row r)"
| row_nack: "claim_matches actor token g r \<Longrightarrow> claim_active (clk 0) r
     \<Longrightarrow> row_step clk cs r (nacked_row reason r)"
| row_renew: "claim_matches actor token g r \<Longrightarrow> claim_active (clk 0) r
     \<Longrightarrow> h_claim_lease_expires_at r = Some current \<Longrightarrow> h_expires_at r = Some expires
     \<Longrightarrow> row_step clk cs r (r\<lparr>h_claim_lease_expires_at := Some (max current (min deadline expires))\<rparr>)"
| row_promote: "promotable (clk 0) r \<Longrightarrow> after (h_expires_at r) (clk 0) \<Longrightarrow> row_step clk cs r (promoted r)"

lemmas row_update_defs = legacy_claimed_def leased_to_def acknowledged_row_def nacked_row_def promoted_def

lemma row_step_key: "row_step clk cs r r' \<Longrightarrow> h_id r' = h_id r"
  by (erule row_step.cases) (auto simp: row_update_defs)

lemma row_step_content: "row_step clk cs r r' \<Longrightarrow> h_content r' = h_content r"
  by (erule row_step.cases) (auto simp: row_update_defs)

subsection \<open>A transaction is a step of every row\<close>

definition unique_ids :: "hdb \<Rightarrow> bool" where
  "unique_ids db \<longleftrightarrow> distinct (map h_id (hdb_handoffs db))"

text \<open>
  \<open>rows_step clk db db' new cs\<close>: the rows of \<open>db'\<close> are those of \<open>db\<close>, each after one
  \<open>row_step\<close>, and the rows \<open>new\<close>; \<open>cs\<close> are the receipts of \<open>db'\<close>.
\<close>

definition fresh_row :: "handoff \<Rightarrow> bool" where
  "fresh_row r \<longleftrightarrow> h_status r = H_pending \<and> h_claimed_by r = None \<and> h_claim_token_digest r = None
     \<and> h_claim_lease_expires_at r = None \<and> h_claim_generation r = 0
     \<and> h_claim_disposition r = None \<and> \<not> h_continuity_managed r"

definition rows_step :: "clock \<Rightarrow> hdb \<Rightarrow> hdb \<Rightarrow> bool" where
  "rows_step clk db db' \<longleftrightarrow>
     (\<exists>f new. hdb_handoffs db' = map f (hdb_handoffs db) @ new
        \<and> (\<forall>r \<in> set (hdb_handoffs db). row_step clk (hdb_receipts db) r (f r))
        \<and> (\<forall>r \<in> set new. fresh_row r \<and> h_id r \<notin> h_id ` set (hdb_handoffs db)))"

lemma rows_stepE:
  assumes "rows_step clk db db'"
  obtains f new where "hdb_handoffs db' = map f (hdb_handoffs db) @ new"
    "\<forall>r \<in> set (hdb_handoffs db). row_step clk (hdb_receipts db) r (f r)"
    "\<forall>r \<in> set new. fresh_row r \<and> h_id r \<notin> h_id ` set (hdb_handoffs db)"
  using assms unfolding rows_step_def by blast

lemma rows_step_refl [intro]: "hdb_handoffs db' = hdb_handoffs db \<Longrightarrow> rows_step clk db db'"
  unfolding rows_step_def by (rule exI [of _ id], rule exI [of _ "[]"]) (auto intro: row_same)

lemma rows_step_update:
  assumes "hdb_handoffs db' = update_where p f (hdb_handoffs db)"
    and "\<And>r. r \<in> set (hdb_handoffs db) \<Longrightarrow> p r \<Longrightarrow> row_step clk (hdb_receipts db) r (f r)"
  shows "rows_step clk db db'"
  unfolding rows_step_def
  by (rule exI [of _ "\<lambda>r. if p r then f r else r"], rule exI [of _ "[]"])
    (auto simp: assms update_where_def intro: row_same)

lemma locked_rowD:
  "locked_row i project db = Some r \<Longrightarrow> r \<in> set (hdb_handoffs db) \<and> h_id r = i \<and> h_project_id r = project"
  by (auto simp: locked_row_def dest: fetchrow_SomeD)

lemma unique_ids_same:
  "unique_ids db \<Longrightarrow> r \<in> set (hdb_handoffs db) \<Longrightarrow> x \<in> set (hdb_handoffs db) \<Longrightarrow> h_id x = h_id r \<Longrightarrow> x = r"
  by (auto simp: unique_ids_def distinct_map inj_on_def)

lemma rows_step_locked:
  assumes "unique_ids db" and "locked_row i project db = Some r"
    and "hdb_handoffs db' = update_where (\<lambda>x. h_id x = i) f (hdb_handoffs db)"
    and "row_step clk (hdb_receipts db) r (f r)"
  shows "rows_step clk db db'"
  using assms(3)
proof (rule rows_step_update)
  fix x assume "x \<in> set (hdb_handoffs db)" and "h_id x = i"
  then have "x = r" using assms(1,2) locked_rowD unique_ids_same by metis
  with assms(4) show "row_step clk (hdb_receipts db) x (f x)" by simp
qed

lemma spent_iff_token_completed:
  "h_id r = i \<Longrightarrow> h_project_id r = project
   \<Longrightarrow> token_completed i project actor token db \<longleftrightarrow> spent (hdb_receipts db) r actor token"
  by (auto simp: token_completed_def spent_def sql)

text \<open>What a successful call of each operation did, and under which conditions.\<close>

lemma claim_leaseE:
  assumes "claim_handoff_lease clk i project actor token secs ver db = (db', res)"
  obtains (refused) "db' = db" "res = None"
  | (replayed) r where "db' = db" "res = Some (r, True)" "locked_row i project db = Some r"
      "is_replay actor token (clk 0) r" "after (h_expires_at r) (clk 0)" "recipient_allows r actor"
  | (leased) r where "locked_row i project db = Some r" "after (h_expires_at r) (clk 0)"
      "\<not> h_continuity_managed r" "h_version r \<le> ver" "recipient_allows r actor"
      "is_recoverable (clk 0) r" "\<not> is_replay actor token (clk 0) r"
      "\<not> spent (hdb_receipts db) r actor token"
      "db' = db\<lparr>hdb_handoffs := update_where (\<lambda>x. h_id x = i)
                  (leased_to actor token (clk 1) (clk 2) secs) (hdb_handoffs db)\<rparr>"
      "res = Some (leased_to actor token (clk 1) (clk 2) secs r, False)"
proof (cases "locked_row i project db")
  case None
  then show ?thesis using assms refused by (simp add: claim_handoff_lease_def)
next
  case (Some r)
  have keys: "h_id r = i" "h_project_id r = project" using locked_rowD [OF Some] by auto
  note tc = spent_iff_token_completed [OF keys, of actor token db]
  let ?open = "after (h_expires_at r) (clk 0) \<and> \<not> h_continuity_managed r \<and> h_version r \<le> ver \<and> recipient_allows r actor"
  let ?replay = "is_replay actor token (clk 0) r"
  let ?free = "is_recoverable (clk 0) r \<and> \<not> spent (hdb_receipts db) r actor token"
  consider "\<not> ?open" | "?open" "?replay" | "?open" "\<not> ?replay" "?free" | "?open" "\<not> ?replay" "\<not> ?free"
    by blast
  then show ?thesis
  proof cases
    case 1
    then have "claim_handoff_lease clk i project actor token secs ver db = (db, None)"
      using Some by (auto simp: claim_handoff_lease_def)
    then show ?thesis using refused assms by simp
  next
    case 2
    then show ?thesis using replayed [of r] assms Some by (simp add: claim_handoff_lease_def)
  next
    case 3
    then show ?thesis using leased [of r] assms Some tc by (simp add: claim_handoff_lease_def Let_def)
  next
    case 4
    then show ?thesis using refused assms Some tc
      by (cases "is_recoverable (clk 0) r") (simp_all add: claim_handoff_lease_def)
  qed
qed

lemma close_claimE:
  assumes "close_claim f i g c db = (db', res)"
  obtains (missing) "db' = db" "res = None"
  | (closed) "db' = db\<lparr>hdb_handoffs := update_where (\<lambda>r. h_id r = i \<and> h_claim_generation r = g) f (hdb_handoffs db),
                hdb_receipts := insert_claim_receipt c (hdb_receipts db)\<rparr>" "res = Some (g, False)"
  using assms by (auto simp: close_claim_def split: option.splits)

text \<open>
  Acknowledgement and rejection either leave the tables alone or close the active claim
  of the row that was locked.
\<close>

lemma acknowledgeE:
  assumes "acknowledge_handoff clk i project actor token g db = (db', res)"
  obtains (same) "db' = db" "\<forall>h. res \<noteq> Some (h, False)"
  | (closed) r where "locked_row i project db = Some r" "claim_matches actor token g r"
      "claim_active (clk 0) r" "receipt_of i project actor token g D_acknowledged db = None"
      "close_claim acknowledged_row i g
         \<lparr>cr_handoff_id = i, cr_project_id = project, cr_actor_id = actor, cr_claim_token_digest = token,
          cr_claim_generation = g, cr_operation = D_acknowledged, cr_reason_code = None\<rparr> db = (db', res)"
  using assms by (auto simp: acknowledge_handoff_def split: option.splits if_splits)

lemma nackE:
  assumes "nack_handoff clk i project actor token g reason db = (db', res)"
  obtains (same) "db' = db" "\<forall>h. res \<noteq> Some (h, False)"
  | (closed) r where "locked_row i project db = Some r" "claim_matches actor token g r"
      "claim_active (clk 0) r" "receipt_of i project actor token g D_nacked db = None"
      "close_claim (nacked_row reason) i g
         \<lparr>cr_handoff_id = i, cr_project_id = project, cr_actor_id = actor, cr_claim_token_digest = token,
          cr_claim_generation = g, cr_operation = D_nacked, cr_reason_code = Some reason\<rparr> db = (db', res)"
  using assms by (auto simp: nack_handoff_def split: option.splits if_splits)

lemma renewE:
  assumes "renew_lease clk project i actor token g deadline max_secs db = Inr (db', res)"
  obtains r current expires where "locked_row i project db = Some r" "claim_matches actor token g r"
    "claim_active (clk 0) r" "h_claim_lease_expires_at r = Some current" "h_expires_at r = Some expires"
    "\<not> h_continuity_managed r" "recipient_allows r actor"
    "deadline \<le> current \<or> deadline \<le> clk 0 + seconds max_secs"
    "rn_lease_expires_at res = max current (min deadline expires)"
    "rn_expires_at res = expires" "rn_observed_at res = clk 0" "rn_claim_generation res = g"
    "rn_extended res \<longleftrightarrow> current < max current (min deadline expires)"
    "db' = (if rn_extended res then db\<lparr>hdb_handoffs := update_where (\<lambda>x. h_id x = i)
       (\<lambda>x. x\<lparr>h_claim_lease_expires_at := Some (max current (min deadline expires))\<rparr>) (hdb_handoffs db)\<rparr> else db)"
proof -
  obtain r where r: "locked_row i project db = Some r"
    using assms by (auto simp: renew_lease_def split: option.splits)
  obtain current expires where t: "h_claim_lease_expires_at r = Some current" "h_expires_at r = Some expires"
    using assms r by (auto simp: renew_lease_def split: option.splits)
  show thesis
    by (rule that [of r current expires])
      (use assms r t in \<open>auto simp: renew_lease_def Let_def claim_matches_def claim_active_def
         not_le not_less split: if_splits\<close>)
qed


subsection \<open>Every step of the store is a step of its rows\<close>

lemma close_claim_rows:
  assumes ids: "unique_ids db" and r: "locked_row i project db = Some r"
    and close: "close_claim f i g c db = (db', res)"
    and step: "row_step clk (hdb_receipts db) r (f r)"
  shows "rows_step clk db db'"
  using close
proof (cases rule: close_claimE)
  case missing
  then show ?thesis by auto
next
  case closed
  then have "hdb_handoffs db' =
      update_where (\<lambda>r. h_id r = i \<and> h_claim_generation r = g) f (hdb_handoffs db)" by simp
  then show ?thesis
  proof (rule rows_step_update)
    fix x assume "x \<in> set (hdb_handoffs db)" and "h_id x = i \<and> h_claim_generation x = g"
    then have "x = r" using ids r locked_rowD unique_ids_same by metis
    with step show "row_step clk (hdb_receipts db) x (f x)" by simp
  qed
qed

lemma step_rows:
  assumes "handoff_step clk db db'" and ids: "unique_ids db"
  shows "rows_step clk db db'"
  using assms(1)
proof cases
  case (step_push i c expires res)
  then consider "db' = db"
    | "hdb_handoffs db' = hdb_handoffs db @ [new_handoff i c (clk 0) expires]"
    by (auto simp: insert_handoff_def insert_row_def Let_def split: if_splits)
  then show ?thesis
  proof cases
    case 2
    show ?thesis unfolding rows_step_def
      by (rule exI [of _ id], rule exI [of _ "[new_handoff i c (clk 0) expires]"])
        (use 2 step_push in \<open>auto simp: new_handoff_def fresh_row_def intro: row_same\<close>)
  qed auto
next
  case (step_list project unit limit after_id excl rows)
  then have "hdb_handoffs db' = update_where (expirable project (clk 0)) (\<lambda>r. r\<lparr>h_status := H_expired\<rparr>) (hdb_handoffs db)"
    by (auto simp: list_pending_handoffs_def Let_def)
  then show ?thesis by (rule rows_step_update) (rule row_expire)
next
  case (step_pull i actor project res)
  then have "hdb_handoffs db' = update_where (pullable i project (clk 0)) (legacy_claimed actor (clk 0)) (hdb_handoffs db)"
    by (auto simp: claim_handoff_def)
  then show ?thesis by (rule rows_step_update) (rule row_pull)
next
  case (step_claim i project actor token secs ver res)
  from step_claim show ?thesis
  proof (cases rule: claim_leaseE)
    case (leased r)
    show ?thesis
      by (rule rows_step_locked [OF ids leased(1), where f = "leased_to actor token (clk 1) (clk 2) secs"])
        (simp add: leased(9), rule row_lease [where clk = clk, OF leased(2,3,5,6,8)])
  qed auto
next
  case (step_ack i project actor token g res)
  from step_ack show ?thesis
  proof (cases rule: acknowledgeE)
    case (closed r)
    show ?thesis by (rule close_claim_rows [OF ids closed(1,5)]) (rule row_ack [where clk = clk, OF closed(2,3)])
  qed auto
next
  case (step_nack i project actor token g reason res)
  from step_nack show ?thesis
  proof (cases rule: nackE)
    case (closed r)
    show ?thesis by (rule close_claim_rows [OF ids closed(1,5)]) (rule row_nack [where clk = clk, OF closed(2,3)])
  qed auto
next
  case (step_renew project i actor token g deadline max_secs res)
  from step_renew show ?thesis
  proof (cases rule: renewE)
    case (1 r current expires)
    show ?thesis
    proof (cases "rn_extended res")
      case True
      with 1 have "hdb_handoffs db' = update_where (\<lambda>x. h_id x = i)
          (\<lambda>x. x\<lparr>h_claim_lease_expires_at := Some (max current (min deadline expires))\<rparr>) (hdb_handoffs db)"
        by simp
      then show ?thesis by (rule rows_step_locked [OF ids 1(1)]) (rule row_renew [where clk = clk, OF 1(2-5)])
    next
      case False
      with 1 show ?thesis by auto
    qed
  qed
next
  case (step_promote i project r)
  show ?thesis
    by (rule rows_step_locked [OF ids step_promote(2)])
      (use step_promote in \<open>auto simp: promote_handoff_def intro: row_promote\<close>)
qed

lemma rows_step_row:
  assumes "rows_step clk db db'" and "row i db = Some r"
  shows "\<exists>r'. row i db' = Some r' \<and> row_step clk (hdb_receipts db) r r'"
proof -
  obtain f new where f: "hdb_handoffs db' = map f (hdb_handoffs db) @ new"
    "\<forall>r \<in> set (hdb_handoffs db). row_step clk (hdb_receipts db) r (f r)"
    "\<forall>r \<in> set new. fresh_row r \<and> h_id r \<notin> h_id ` set (hdb_handoffs db)"
    using assms(1) by (rule rows_stepE)
  have "fetchrow (\<lambda>r. h_id r = i) (map f t) = map_option f (fetchrow (\<lambda>r. h_id r = i) t)"
    if "set t \<subseteq> set (hdb_handoffs db)" for t
    using that by (induction t) (use f(2) row_step_key in auto)
  then have "row i db' = Some (f r)"
    using assms(2) by (simp add: row_def f(1) fetchrow_append)
  moreover have "r \<in> set (hdb_handoffs db)"
    using assms(2) by (auto simp: row_def dest: fetchrow_SomeD)
  ultimately show ?thesis using f(2) by blast
qed

lemma rows_step_member:
  assumes "rows_step clk db db'" and "r' \<in> set (hdb_handoffs db')"
  shows "(\<exists>r \<in> set (hdb_handoffs db). row_step clk (hdb_receipts db) r r')
         \<or> fresh_row r' \<and> h_id r' \<notin> h_id ` set (hdb_handoffs db)"
proof -
  obtain f new where f: "hdb_handoffs db' = map f (hdb_handoffs db) @ new"
    "\<forall>r \<in> set (hdb_handoffs db). row_step clk (hdb_receipts db) r (f r)"
    "\<forall>r \<in> set new. fresh_row r \<and> h_id r \<notin> h_id ` set (hdb_handoffs db)"
    using assms(1) by (rule rows_stepE)
  from assms(2) consider r where "r \<in> set (hdb_handoffs db)" "r' = f r" | "r' \<in> set new"
    by (auto simp: f(1))
  then show ?thesis by cases (use f in blast)+
qed


lemma row_SomeD: "row i db = Some r \<Longrightarrow> r \<in> set (hdb_handoffs db) \<and> h_id r = i"
  by (auto simp: row_def dest: fetchrow_SomeD)

lemma row_eq_Some_iff:
  "unique_ids db \<Longrightarrow> row i db = Some r \<longleftrightarrow> r \<in> set (hdb_handoffs db) \<and> h_id r = i"
  by (metis fetchrow_by_key_eq row_SomeD row_def unique_ids_def)

lemma locked_row_row: "unique_ids db \<Longrightarrow> locked_row i project db = Some r \<Longrightarrow> row i db = Some r"
  by (simp add: row_eq_Some_iff locked_rowD)

lemma unique_ids_step:
  assumes "rows_step clk db db'" and "unique_ids db" and "length (hdb_handoffs db') \<le> Suc (length (hdb_handoffs db))"
  shows "unique_ids db'"
proof -
  obtain f new where f: "hdb_handoffs db' = map f (hdb_handoffs db) @ new"
    "\<forall>r \<in> set (hdb_handoffs db). row_step clk (hdb_receipts db) r (f r)"
    "\<forall>r \<in> set new. fresh_row r \<and> h_id r \<notin> h_id ` set (hdb_handoffs db)"
    using assms(1) by (rule rows_stepE)
  have keys: "map (h_id \<circ> f) (hdb_handoffs db) = map h_id (hdb_handoffs db)"
    using f(2) row_step_key by auto
  have "length new \<le> 1" using assms(3) f(1) by simp
  then have "distinct (map h_id new)" by (cases new) auto
  moreover have "distinct (map h_id (map f (hdb_handoffs db)))"
    using assms(2) by (simp add: unique_ids_def keys del: map_eq_conv)
  moreover have "set (map (h_id \<circ> f) (hdb_handoffs db)) \<inter> set (map h_id new) = {}"
    unfolding keys using f(3) by (fastforce simp: image_iff)
  ultimately show ?thesis by (simp add: unique_ids_def f(1) image_image)
qed

lemma step_length:
  assumes "handoff_step clk db db'"
  shows "length (hdb_handoffs db') \<le> Suc (length (hdb_handoffs db))"
  using assms
proof cases
  case (step_claim i project actor token secs ver res)
  then show ?thesis by (cases rule: claim_leaseE) auto
next
  case (step_ack i project actor token g res)
  then show ?thesis by (cases rule: acknowledgeE) (auto elim!: close_claimE)
next
  case (step_nack i project actor token g reason res)
  then show ?thesis by (cases rule: nackE) (auto elim!: close_claimE)
next
  case (step_renew project i actor token g deadline max_secs res)
  then show ?thesis by (cases rule: renewE) auto
qed (auto simp: insert_handoff_def insert_row_def list_pending_handoffs_def claim_handoff_def
       promote_handoff_def Let_def split: if_splits)

subsection \<open>The receipts a step writes\<close>

definition no_new_acks :: "hdb \<Rightarrow> hdb \<Rightarrow> bool" where
  "no_new_acks db db' \<longleftrightarrow>
     (\<forall>r \<in> set (hdb_handoffs db'). h_status r = H_acknowledged \<longrightarrow> r \<in> set (hdb_handoffs db))"

lemma no_new_acks_update:
  assumes "hdb_handoffs db' = update_where p f (hdb_handoffs db)"
    and "\<And>r. r \<in> set (hdb_handoffs db) \<Longrightarrow> p r \<Longrightarrow> h_status (f r) \<noteq> H_acknowledged"
  shows "no_new_acks db db'"
  using assms by (auto simp: no_new_acks_def sql split: if_splits)

lemma no_new_acks_refl [simp]: "no_new_acks db db"
  by (simp add: no_new_acks_def)

text \<open>
  A step either writes no receipt and acknowledges nothing, or it closes the running claim
  of one row and writes the receipt of exactly that claim.
\<close>

lemma step_receiptsE:
  assumes "handoff_step clk db db'" and ids: "unique_ids db"
  obtains (same) "hdb_receipts db' = hdb_receipts db" "no_new_acks db db'"
  | (written) i r c f where "row i db = Some r" "claim_active (clk 0) r"
      "claim_matches (cr_actor_id c) (cr_claim_token_digest c) (cr_claim_generation c) r"
      "cr_handoff_id c = i" "cr_project_id c = h_project_id r"
      "hdb_receipts db' = insert_claim_receipt c (hdb_receipts db)"
      "hdb_handoffs db' = update_where (\<lambda>x. h_id x = i \<and> h_claim_generation x = cr_claim_generation c) f (hdb_handoffs db)"
      "cr_operation c = D_acknowledged \<and> f = acknowledged_row \<or> cr_operation c = D_nacked \<and> (\<exists>reason. f = nacked_row reason)"
  using assms(1)
proof cases
  case (step_push i c expires res)
  show ?thesis
    by (rule same) (use step_push in \<open>auto simp: insert_handoff_def insert_row_def new_handoff_def
        no_new_acks_def Let_def split: if_splits\<close>)
next
  case (step_list project unit limit after_id excl rows)
  then have upd: "hdb_handoffs db' = update_where (expirable project (clk 0)) (\<lambda>r. r\<lparr>h_status := H_expired\<rparr>) (hdb_handoffs db)"
    and rc: "hdb_receipts db' = hdb_receipts db"
    by (auto simp: list_pending_handoffs_def Let_def)
  show ?thesis by (rule same [OF rc no_new_acks_update [OF upd]]) simp
next
  case (step_pull i actor project res)
  then have upd: "hdb_handoffs db' = update_where (pullable i project (clk 0)) (legacy_claimed actor (clk 0)) (hdb_handoffs db)"
    and rc: "hdb_receipts db' = hdb_receipts db"
    by (auto simp: claim_handoff_def)
  show ?thesis by (rule same [OF rc no_new_acks_update [OF upd]]) (simp add: legacy_claimed_def)
next
  case (step_claim i project actor token secs ver res)
  from step_claim show ?thesis
  proof (cases rule: claim_leaseE)
    case (leased r)
    then have upd: "hdb_handoffs db' = update_where (\<lambda>x. h_id x = i) (leased_to actor token (clk 1) (clk 2) secs) (hdb_handoffs db)"
      and rc: "hdb_receipts db' = hdb_receipts db" by simp_all
    show ?thesis by (rule same [OF rc no_new_acks_update [OF upd]]) (simp add: leased_to_def)
  qed (simp_all add: same)
next
  case (step_ack i project actor token g res)
  from step_ack show ?thesis
  proof (cases rule: acknowledgeE)
    case (closed r)
    from closed(5) show ?thesis
    proof (cases rule: close_claimE)
      case 2: closed
      show ?thesis
        by (rule written [OF locked_row_row [OF ids closed(1)] closed(3), where f = acknowledged_row
              and c = "\<lparr>cr_handoff_id = i, cr_project_id = project, cr_actor_id = actor,
                 cr_claim_token_digest = token, cr_claim_generation = g,
                 cr_operation = D_acknowledged, cr_reason_code = None\<rparr>"])
          (use closed 2 locked_rowD [OF closed(1)] in auto)
    qed (simp add: same)
  qed (simp add: same)
next
  case (step_nack i project actor token g reason res)
  from step_nack show ?thesis
  proof (cases rule: nackE)
    case (closed r)
    from closed(5) show ?thesis
    proof (cases rule: close_claimE)
      case 2: closed
      show ?thesis
        by (rule written [OF locked_row_row [OF ids closed(1)] closed(3), where f = "nacked_row reason"
              and c = "\<lparr>cr_handoff_id = i, cr_project_id = project, cr_actor_id = actor,
                 cr_claim_token_digest = token, cr_claim_generation = g,
                 cr_operation = D_nacked, cr_reason_code = Some reason\<rparr>"])
          (use closed 2 locked_rowD [OF closed(1)] in auto)
    qed (simp add: same)
  qed (simp add: same)
next
  case (step_renew project i actor token g deadline max_secs res)
  from step_renew show ?thesis
  proof (cases rule: renewE)
    case (1 r current expires)
    show ?thesis
    proof (cases "rn_extended res")
      case True
      let ?f = "\<lambda>x. x\<lparr>h_claim_lease_expires_at := Some (max current (min deadline expires))\<rparr>"
      have upd: "hdb_handoffs db' = update_where (\<lambda>x. h_id x = i) ?f (hdb_handoffs db)"
        and rc: "hdb_receipts db' = hdb_receipts db" using 1 True by simp_all
      have "no_new_acks db db'" using upd
      proof (rule no_new_acks_update)
        fix x assume "x \<in> set (hdb_handoffs db)" "h_id x = i"
        then have "x = r" using ids 1(1) locked_rowD unique_ids_same by metis
        then show "h_status (?f x) \<noteq> H_acknowledged" using 1(3) by (simp add: claim_active_def)
      qed
      with rc show ?thesis by (rule same)
    next
      case False
      with 1 show ?thesis by (simp add: same)
    qed
  qed
next
  case (step_promote i project r)
  show ?thesis
    by (rule same [OF _ no_new_acks_update [where f = promoted]])
      (auto simp: step_promote promote_handoff_def promoted_def)
qed

subsection \<open>The invariant of the two tables\<close>

text \<open>
  A row that is leased names its holder and its lease ends before the handoff does; an
  acknowledged row names who acknowledged it; a row under continuity management carries
  no claim.
\<close>

definition row_ok :: "handoff \<Rightarrow> bool" where
  "row_ok r \<longleftrightarrow>
     (h_status r = H_claimed \<longrightarrow> h_claimed_by r \<noteq> None)
     \<and> (case h_claim_lease_expires_at r of None \<Rightarrow> True
        | Some l \<Rightarrow> h_claimed_by r \<noteq> None \<and> h_claim_token_digest r \<noteq> None
            \<and> (case h_expires_at r of None \<Rightarrow> False | Some e \<Rightarrow> l \<le> e))
     \<and> (h_status r = H_claimed \<and> h_claim_token_digest r \<noteq> None \<longrightarrow> h_claim_lease_expires_at r \<noteq> None)
     \<and> (h_status r = H_acknowledged \<longrightarrow> h_claimed_by r \<noteq> None \<and> h_claim_token_digest r \<noteq> None
          \<and> h_claim_disposition r = Some D_acknowledged)
     \<and> (h_continuity_managed r \<longrightarrow> h_status r = H_pending \<and> h_claimed_by r = None
          \<and> h_claim_token_digest r = None)"

lemma fresh_row_ok: "fresh_row r \<Longrightarrow> row_ok r"
  by (simp add: fresh_row_def row_ok_def)

lemma row_step_ok:
  assumes "row_step clk cs r r'" and "row_ok r"
  shows "row_ok r'"
  using assms
  by (cases rule: row_step.cases)
    (auto simp: row_ok_def row_update_defs expirable_def pullable_def is_recoverable_def promotable_def
       claim_active_def claim_matches_def after_iff split: option.splits)

text \<open>
  Between the tables: a receipt belongs to a handoff and to a generation it has had; the
  token of a running claim has no receipt yet; and a handoff is acknowledged exactly when
  an acknowledgement receipt of its last claim exists.
\<close>

definition ack_receipt :: "handoff \<Rightarrow> claim_receipt \<Rightarrow> bool" where
  "ack_receipt r c \<longleftrightarrow> cr_handoff_id c = h_id r \<and> cr_operation c = D_acknowledged
     \<and> claim_matches (cr_actor_id c) (cr_claim_token_digest c) (cr_claim_generation c) r"

definition row_unspent :: "claim_receipt list \<Rightarrow> handoff \<Rightarrow> bool" where
  "row_unspent cs r \<longleftrightarrow>
     (case (h_claimed_by r, h_claim_token_digest r) of
        (Some a, Some t) \<Rightarrow> h_status r = H_claimed \<longrightarrow> \<not> spent cs r a t
      | _ \<Rightarrow> True)"

definition receipt_ok :: "handoff list \<Rightarrow> claim_receipt \<Rightarrow> bool" where
  "receipt_ok t c \<longleftrightarrow>
     (\<exists>r \<in> set t. h_id r = cr_handoff_id c \<and> h_project_id r = cr_project_id c
        \<and> cr_claim_generation c \<le> h_claim_generation r
        \<and> (cr_operation c = D_acknowledged \<longrightarrow> h_status r = H_acknowledged \<and> ack_receipt r c))"

definition handoff_inv :: "hdb \<Rightarrow> bool" where
  "handoff_inv db \<longleftrightarrow> unique_ids db
     \<and> (\<forall>r \<in> set (hdb_handoffs db). row_ok r \<and> row_unspent (hdb_receipts db) r
          \<and> (h_status r = H_acknowledged \<longrightarrow> (\<exists>c \<in> set (hdb_receipts db). ack_receipt r c)))
     \<and> (\<forall>c \<in> set (hdb_receipts db). receipt_ok (hdb_handoffs db) c)"

lemma handoff_inv_unique: "handoff_inv db \<Longrightarrow> unique_ids db"
  by (simp add: handoff_inv_def)

lemma handoff_inv_empty: "handoff_inv \<lparr>hdb_handoffs = [], hdb_receipts = [], hdb_members = ms\<rparr>"
  by (simp add: handoff_inv_def unique_ids_def)

lemma row_step_acknowledged:
  "row_step clk cs r r' \<Longrightarrow> h_status r = H_acknowledged \<Longrightarrow> r' = r"
  by (erule row_step.cases)
    (auto simp: expirable_def pullable_def is_recoverable_def promotable_def claim_active_def)

lemma row_step_generation: "row_step clk cs r r' \<Longrightarrow> h_claim_generation r \<le> h_claim_generation r'"
  by (erule row_step.cases) (auto simp: row_update_defs)

text \<open>Whoever holds the row after a step under the same generation held it before.\<close>

lemma row_step_same_generation:
  "row_step clk cs r r' \<Longrightarrow> h_claim_generation r' = h_claim_generation r
   \<Longrightarrow> h_claimed_by r' = h_claimed_by r \<and> h_claim_token_digest r' = h_claim_token_digest r"
  by (erule row_step.cases) (auto simp: row_update_defs)

lemma row_step_active:
  "row_step clk cs r r' \<Longrightarrow> claim_active (clk 0) r
   \<Longrightarrow> h_claimed_by r' = h_claimed_by r \<and> h_claim_token_digest r' = h_claim_token_digest r
     \<and> h_claim_generation r' = h_claim_generation r"
  by (erule row_step.cases)
    (auto simp: row_update_defs expirable_def pullable_def is_recoverable_def promotable_def
       claim_active_def upto_iff after_iff)

lemma row_step_becomes_acknowledged:
  assumes "row_step clk cs r r'" and "h_status r' = H_acknowledged" and "h_status r \<noteq> H_acknowledged"
  shows "r' = acknowledged_row r \<and> claim_active (clk 0) r"
  using assms by (cases rule: row_step.cases) (auto simp: row_update_defs)

text \<open>A claim that runs after a step ran before it under the same token, or its token was unspent.\<close>

lemma row_step_unspent:
  assumes "row_step clk cs r r'" and "row_unspent cs r"
  shows "row_unspent cs r'"
  using assms
  by (cases rule: row_step.cases)
    (auto simp: row_unspent_def row_update_defs spent_def claim_active_def claim_matches_def
       split: option.splits)


lemma set_insert_claim_receipt: "x \<in> set (insert_claim_receipt c t) \<Longrightarrow> x = c \<or> x \<in> set t"
  by (auto simp: insert_claim_receipt_def sql split: if_splits)

lemma insert_claim_receipt_old: "x \<in> set t \<Longrightarrow> x \<in> set (insert_claim_receipt c t)"
  by (auto simp: insert_claim_receipt_def sql)

text \<open>The receipt of a running claim never meets the conflict clause.\<close>

lemma insert_claim_receipt_new:
  assumes "row_unspent (hdb_receipts db) r" and "claim_active now r"
    and "claim_matches (cr_actor_id c) (cr_claim_token_digest c) (cr_claim_generation c) r"
    and "cr_handoff_id c = h_id r" and "cr_project_id c = h_project_id r"
  shows "insert_claim_receipt c (hdb_receipts db) = insert_row c (hdb_receipts db)"
  using assms
  by (auto simp: insert_claim_receipt_def sql row_unspent_def claim_active_def claim_matches_def spent_def)

lemma close_row_unique:
  assumes "unique_ids db" and "row i db = Some r" and "h_claim_generation r = g"
    and "r' \<in> set (update_where (\<lambda>x. h_id x = i \<and> h_claim_generation x = g) f (hdb_handoffs db))"
  shows "r' = f r \<or> r' \<in> set (hdb_handoffs db) \<and> h_id r' \<noteq> i"
proof -
  obtain x where x: "x \<in> set (hdb_handoffs db)"
      "r' = (if h_id x = i \<and> h_claim_generation x = g then f x else x)"
    using assms(4) by (auto simp: sql)
  show ?thesis
  proof (cases "h_id x = i")
    case True
    then have "x = r" using assms(1,2) x(1) by (simp add: row_eq_Some_iff unique_ids_same)
    with x(2) True assms(3) show ?thesis by simp
  next
    case False
    with x show ?thesis by simp
  qed
qed

lemma handoff_inv_rows:
  assumes inv: "handoff_inv db" and step: "handoff_step clk db db'" and r': "r' \<in> set (hdb_handoffs db')"
  shows "row_ok r' \<and> row_unspent (hdb_receipts db) r'"
proof -
  have rs: "rows_step clk db db'" using step handoff_inv_unique [OF inv] by (rule step_rows)
  show ?thesis using rows_step_member [OF rs r']
  proof
    assume "\<exists>r \<in> set (hdb_handoffs db). row_step clk (hdb_receipts db) r r'"
    then obtain r where "r \<in> set (hdb_handoffs db)" "row_step clk (hdb_receipts db) r r'" by blast
    then show ?thesis using inv row_step_ok row_step_unspent by (auto simp: handoff_inv_def)
  qed (auto simp: fresh_row_ok row_unspent_def fresh_row_def)
qed

lemma receipt_ok_step:
  assumes inv: "handoff_inv db" and step: "handoff_step clk db db'" and c: "c \<in> set (hdb_receipts db)"
  shows "receipt_ok (hdb_handoffs db') c"
proof -
  have ids: "unique_ids db" using inv by (rule handoff_inv_unique)
  obtain r where r: "r \<in> set (hdb_handoffs db)" "h_id r = cr_handoff_id c" "h_project_id r = cr_project_id c"
      "cr_claim_generation c \<le> h_claim_generation r"
      "cr_operation c = D_acknowledged \<longrightarrow> h_status r = H_acknowledged \<and> ack_receipt r c"
    using inv c unfolding handoff_inv_def receipt_ok_def by meson
  have "row (h_id r) db = Some r" using ids r(1) by (simp add: row_eq_Some_iff)
  then obtain r' where r': "row (h_id r) db' = Some r'" "row_step clk (hdb_receipts db) r r'"
    using rows_step_row [OF step_rows [OF step ids]] by blast
  have "r' = r" if "cr_operation c = D_acknowledged"
    using row_step_acknowledged [OF r'(2)] r(5) that by blast
  then show ?thesis unfolding receipt_ok_def
    using row_SomeD [OF r'(1)] r row_step_content [OF r'(2)] row_step_generation [OF r'(2)]
    by (intro bexI [of _ r']) auto
qed

lemma handoff_inv_step:
  assumes inv: "handoff_inv db" and step: "handoff_step clk db db'"
  shows "handoff_inv db'"
proof -
  have ids: "unique_ids db" using inv by (rule handoff_inv_unique)
  have ids': "unique_ids db'" using step_rows [OF step ids] ids step_length [OF step] by (rule unique_ids_step)
  have rows: "\<forall>r \<in> set (hdb_handoffs db'). row_ok r \<and> row_unspent (hdb_receipts db) r"
    using handoff_inv_rows [OF inv step] by blast
  have old_receipts: "\<forall>c \<in> set (hdb_receipts db). receipt_ok (hdb_handoffs db') c"
    using receipt_ok_step [OF inv step] by blast
  from step ids show ?thesis
  proof (cases rule: step_receiptsE)
    case same
    have "\<exists>c \<in> set (hdb_receipts db). ack_receipt r c"
      if "r \<in> set (hdb_handoffs db')" "h_status r = H_acknowledged" for r
      using that same(2) inv by (auto simp: no_new_acks_def handoff_inv_def)
    with ids' rows old_receipts same(1) show ?thesis by (simp add: handoff_inv_def)
  next
    case (written i r c f)
    have r: "r \<in> set (hdb_handoffs db)" "h_id r = i" using row_SomeD [OF written(1)] by auto
    have cs': "hdb_receipts db' = insert_row c (hdb_receipts db)"
      using written(6) insert_claim_receipt_new [OF _ written(2,3)] inv r written(4,5)
      by (auto simp: handoff_inv_def)
    have gen: "h_claim_generation r = cr_claim_generation c" using written(3) by (simp add: claim_matches_def)
    have split: "x = f r \<or> x \<in> set (hdb_handoffs db) \<and> h_id x \<noteq> i" if "x \<in> set (hdb_handoffs db')" for x
      using close_row_unique [OF ids written(1) gen] that written(7) by simp
    have fr: "h_id (f r) = i \<and> h_content (f r) = h_content r \<and> h_claim_generation (f r) = h_claim_generation r
        \<and> h_status (f r) \<noteq> H_claimed \<and> h_claimed_by (f r) = h_claimed_by r
        \<and> h_claim_token_digest (f r) = h_claim_token_digest r
        \<and> (h_status (f r) = H_acknowledged \<longleftrightarrow> cr_operation c = D_acknowledged)"
      using written(8) r(2) by (auto simp: acknowledged_row_def nacked_row_def)
    have "f r \<in> set (hdb_handoffs db')" using written(7) r gen by (auto simp: sql)
    then have "receipt_ok (hdb_handoffs db') c"
      using fr gen written(3-5) by (auto simp: receipt_ok_def ack_receipt_def claim_matches_def)
    then have rec: "\<forall>x \<in> set (hdb_receipts db'). receipt_ok (hdb_handoffs db') x"
      using old_receipts by (simp add: cs' sql)
    have unspent: "row_unspent (hdb_receipts db') x" if x: "x \<in> set (hdb_handoffs db')" for x
      using split [OF x]
    proof
      assume "x = f r" then show ?thesis using fr by (simp add: row_unspent_def split: option.split)
    next
      assume "x \<in> set (hdb_handoffs db) \<and> h_id x \<noteq> i"
      then show ?thesis using rows x written(4) by (auto simp: row_unspent_def spent_def cs' sql split: option.splits)
    qed
    have acks: "\<exists>y \<in> set (hdb_receipts db'). ack_receipt x y"
      if x: "x \<in> set (hdb_handoffs db')" "h_status x = H_acknowledged" for x
      using split [OF x(1)]
    proof
      assume "x = f r"
      then have "ack_receipt x c"
        using x(2) fr gen written(3,4) by (auto simp: ack_receipt_def claim_matches_def)
      then show ?thesis by (auto simp: cs' sql)
    next
      assume "x \<in> set (hdb_handoffs db) \<and> h_id x \<noteq> i"
      then show ?thesis using inv x(2) by (auto simp: handoff_inv_def cs' sql)
    qed
    show ?thesis using ids' rows rec unspent acks by (auto simp: handoff_inv_def)
  qed
qed

end
