(* ===== verification/Handoff_Props.thy ===== *)
theory Handoff_Props
  imports Handoff_Claims
begin

text \<open>
  The claim protocol as an instance of the lease contract, and what the service promises
  about it: one owner per generation, no take-over of a running lease, acknowledgement
  exactly once, single use of a claim token, bounded leases, and replays that change
  nothing.
\<close>

subsection \<open>The lease contract\<close>

definition handoff_gen :: "hdb \<Rightarrow> uuid \<Rightarrow> nat option" where
  "handoff_gen db i = map_option h_claim_generation (row i db)"

definition row_owner :: "handoff \<Rightarrow> (string \<times> string option) option" where
  "row_owner r = map_option (\<lambda>a. (a, h_claim_token_digest r)) (h_claimed_by r)"

definition handoff_owner :: "hdb \<Rightarrow> uuid \<Rightarrow> (string \<times> string option) option" where
  "handoff_owner db i = (case row i db of None \<Rightarrow> None | Some r \<Rightarrow> row_owner r)"

definition handoff_live :: "hdb \<Rightarrow> uuid \<Rightarrow> time \<Rightarrow> bool" where
  "handoff_live db i now = (case row i db of None \<Rightarrow> False | Some r \<Rightarrow> claim_active now r)"

lemma step_row:
  assumes "handoff_inv db" and "handoff_step clk db db'" and "row i db = Some r"
  shows "\<exists>r'. row i db' = Some r' \<and> row_step clk (hdb_receipts db) r r'"
  using rows_step_row [OF step_rows [OF assms(2) handoff_inv_unique [OF assms(1)]] assms(3)] .

interpretation hl: leased handoff_step handoff_inv handoff_gen handoff_owner handoff_live
proof unfold_locales
  fix clk db db' k g
  assume inv: "handoff_inv db" and step: "handoff_step clk db db'"
  show "handoff_inv db'" using inv step by (rule handoff_inv_step)
  assume g: "handoff_gen db k = Some g"
  then obtain r where r: "row k db = Some r" "h_claim_generation r = g" by (auto simp: handoff_gen_def)
  obtain r' where r': "row k db' = Some r'" "row_step clk (hdb_receipts db) r r'"
    using step_row [OF inv step r(1)] by blast
  show "\<exists>g' \<ge> g. handoff_gen db' k = Some g'"
    using row_step_generation [OF r'(2)] r r' by (auto simp: handoff_gen_def)
  fix p assume "handoff_gen db' k = Some g" and "handoff_owner db' k = Some p"
  then show "handoff_owner db k = Some p"
    using row_step_same_generation [OF r'(2)] r r'
    by (auto simp: handoff_gen_def handoff_owner_def row_owner_def)
next
  fix clk db db' k
  assume inv: "handoff_inv db" and step: "handoff_step clk db db'" and live: "handoff_live db k (clk 0)"
  then obtain r where r: "row k db = Some r" "claim_active (clk 0) r"
    by (auto simp: handoff_live_def split: option.splits)
  obtain r' where r': "row k db' = Some r'" "row_step clk (hdb_receipts db) r r'"
    using step_row [OF inv step r(1)] by blast
  then show "handoff_owner db' k = handoff_owner db k \<or> handoff_owner db' k = None"
    using row_step_active [of clk "hdb_receipts db", OF r'(2) r(2)] r by (auto simp: handoff_owner_def row_owner_def)
qed

subsection \<open>A small database for the witnesses\<close>

definition demo_content :: handoff_content where
  "demo_content = \<lparr>hc_project_id = ''p'', hc_unit_id = ''u'', hc_phase_attempt_id = ''a1'',
     hc_phase_id = ''build'', hc_from_user = ''sender'', hc_result_status = ''succeeded'',
     hc_classification = C_internal, hc_task_summary = None, hc_passed_checks = PList [],
     hc_artifacts_produced = PList [], hc_handoff_note = None, hc_task_envelope = PDict [],
     hc_result_envelope = PDict [], hc_context_digest = ''c'', hc_raw_output = None,
     hc_lock_snapshot_digest = ''l'', hc_envelope_digest = ''e'', hc_payload_digest = ''d'',
     hc_handoff_version = 1, hc_recipient_user_id = None, hc_continuation = None,
     hc_continuation_digest = None, hc_compatibility_digest = None\<rparr>"

definition demo_db :: hdb where
  "demo_db = \<lparr>hdb_handoffs = [new_handoff 7 demo_content 0 900000000], hdb_receipts = [], hdb_members = []\<rparr>"

definition demo_claimed :: hdb where
  "demo_claimed = fst (claim_handoff_lease (\<lambda>_. 10) 7 ''p'' ''ann'' ''t1'' 60 1 demo_db)"

definition demo_acked :: hdb where
  "demo_acked = fst (acknowledge_handoff (\<lambda>_. 20) 7 ''p'' ''ann'' ''t1'' 1 demo_claimed)"

definition demo_taken :: hdb where
  "demo_taken = fst (claim_handoff_lease (\<lambda>_. 60000010) 7 ''p'' ''bob'' ''t2'' 60 1 demo_claimed)"

abbreviation first_row :: "hdb \<Rightarrow> handoff" where
  "first_row db \<equiv> hd (hdb_handoffs db)"

lemma demo_inv: "handoff_inv demo_db" "handoff_inv demo_claimed" "handoff_inv demo_acked"
  by code_simp+

lemma demo_rows:
  "row 7 demo_db = Some (first_row demo_db)" "row 7 demo_claimed = Some (first_row demo_claimed)"
  "row 7 demo_acked = Some (first_row demo_acked)" "row 7 demo_taken = Some (first_row demo_taken)"
  by code_simp+

lemma demo_steps:
  "handoff_step (\<lambda>_. 10) demo_db demo_claimed" "handoff_step (\<lambda>_. 20) demo_claimed demo_acked"
  "handoff_step (\<lambda>_. 60000010) demo_claimed demo_taken"
proof -
  show "handoff_step (\<lambda>_. 10) demo_db demo_claimed"
    by (rule step_claim [of _ 7 "''p''" "''ann''" "''t1''" 60 1]) (simp add: demo_claimed_def prod_eq_iff)
  show "handoff_step (\<lambda>_. 20) demo_claimed demo_acked"
    by (rule step_ack [of _ 7 "''p''" "''ann''" "''t1''" 1]) (simp add: demo_acked_def prod_eq_iff)
  show "handoff_step (\<lambda>_. 60000010) demo_claimed demo_taken"
    by (rule step_claim [of _ 7 "''p''" "''bob''" "''t2''" 60 1]) (simp add: demo_taken_def prod_eq_iff)
qed

subsection \<open>Properties\<close>

text \<open>
  C1. Fencing. However many transactions run between two moments, if a handoff still has
  the claim generation it had, then whoever holds it is the holder it had: a generation
  number never stands for two holders.
\<close>

theorem handoff_generation_fences:
  assumes "run handoff_step db ts db'" and "handoff_inv db"
    and "row i db = Some r" and "row i db' = Some r'"
    and "h_claim_generation r' = h_claim_generation r" and "h_claimed_by r' \<noteq> None"
  shows "h_claimed_by r' = h_claimed_by r \<and> h_claim_token_digest r' = h_claim_token_digest r"
proof -
  obtain a where a: "h_claimed_by r' = Some a" using assms(6) by auto
  have "handoff_owner db i = Some (a, h_claim_token_digest r')"
    by (rule hl.owner_run [OF assms(1,2)])
      (use assms(3-5) a in \<open>auto simp: handoff_gen_def handoff_owner_def row_owner_def\<close>)
  then show ?thesis using assms(3) a by (auto simp: handoff_owner_def row_owner_def)
qed

theorem handoff_generation_fences_witness:
  "h_claim_generation (first_row demo_acked) = 1
   \<and> h_claimed_by (first_row demo_acked) = h_claimed_by (first_row demo_claimed)"
proof -
  have run: "run handoff_step demo_claimed [\<lambda>_. 20] demo_acked"
    using demo_steps(2) by auto
  have gen: "h_claim_generation (first_row demo_acked) = h_claim_generation (first_row demo_claimed)"
    "h_claim_generation (first_row demo_acked) = 1" "h_claimed_by (first_row demo_acked) \<noteq> None"
    by code_simp+
  show ?thesis
    using handoff_generation_fences [OF run demo_inv(2) demo_rows(2,3) gen(1,3)] gen(2) by blast
qed

text \<open>
  No take-over of a running lease. If one transaction moves a handoff from one holder
  to another, then at the transaction's first clock sample the old holder's lease was
  over (or the handoff had expired), and the generation has grown.
\<close>

lemma handoff_takeover_needs_expiry:
  assumes "handoff_inv db" and "handoff_step clk db db'"
    and "row i db = Some r" and "row i db' = Some r'"
    and "h_claimed_by r \<noteq> None" and "h_claimed_by r' \<noteq> None"
    and "(h_claimed_by r', h_claim_token_digest r') \<noteq> (h_claimed_by r, h_claim_token_digest r)"
  shows "\<not> claim_active (clk 0) r \<and> h_claim_generation r < h_claim_generation r'"
proof -
  obtain a b where ab: "h_claimed_by r = Some a" "h_claimed_by r' = Some b" using assms(5,6) by auto
  have own: "handoff_owner db i = Some (a, h_claim_token_digest r)"
    "handoff_owner db' i = Some (b, h_claim_token_digest r')"
    and gen: "handoff_gen db i = Some (h_claim_generation r)"
    "handoff_gen db' i = Some (h_claim_generation r')"
    using assms(3,4) ab by (simp_all add: handoff_owner_def handoff_gen_def row_owner_def)
  have ne: "(a, h_claim_token_digest r) \<noteq> (b, h_claim_token_digest r')" using assms(7) ab by auto
  show ?thesis
    using hl.takeover_needs_expiry [OF assms(1,2) own ne]
      hl.takeover_new_generation [OF assms(1,2) own ne gen(1)] gen assms(3)
    by (simp add: handoff_live_def)
qed

lemma handoff_takeover_needs_expiry_witness:
  "\<not> claim_active 60000010 (first_row demo_claimed)
   \<and> h_claim_generation (first_row demo_claimed) < h_claim_generation (first_row demo_taken)"
proof -
  have held: "h_claimed_by (first_row demo_claimed) \<noteq> None" "h_claimed_by (first_row demo_taken) \<noteq> None"
    "(h_claimed_by (first_row demo_taken), h_claim_token_digest (first_row demo_taken))
       \<noteq> (h_claimed_by (first_row demo_claimed), h_claim_token_digest (first_row demo_claimed))"
    by code_simp+
  show ?thesis
    using handoff_takeover_needs_expiry [OF demo_inv(2) demo_steps(3) demo_rows(2,4) held] by simp
qed

text \<open>
  Acknowledgement is final: whatever transactions follow, the row stays exactly as it
  was acknowledged, and no claim of the handoff succeeds any more.
\<close>

lemma acknowledged_final:
  assumes "run handoff_step db ts db'" and "handoff_inv db"
    and "row i db = Some r" and "h_status r = H_acknowledged"
  shows "row i db' = Some r \<and> claim_handoff_lease clk i project actor token secs ver db' = (db', None)
         \<and> claim_handoff now i actor None db' = (db', None)"
proof -
  have stays: "row i db' = Some r"
    using assms
  proof (induction rule: run.induct)
    case (run_nil s)
    then show ?case by simp
  next
    case (run_cons t s u ts s')
    obtain r' where "row i u = Some r'" "row_step t (hdb_receipts s) r r'"
      using step_row [OF run_cons.prems(1) run_cons.hyps(1) run_cons.prems(2)] by blast
    then have "row i u = Some r" using row_step_acknowledged run_cons.prems(3) by blast
    then show ?case
      using run_cons handoff_inv_step by blast
  qed
  have ids: "unique_ids db'" using hl.inv_run [OF assms(1,2)] by (rule handoff_inv_unique)
  have only: "x = r" if "x \<in> set (hdb_handoffs db')" "h_id x = i" for x
    using that stays ids by (simp add: row_eq_Some_iff unique_ids_same)
  have "claim_handoff_lease clk i project actor token secs ver db' = (db', None)"
  proof (cases "locked_row i project db'")
    case None
    then show ?thesis by (simp add: claim_handoff_lease_def)
  next
    case (Some x)
    then have "x = r" using only locked_rowD by blast
    with Some assms(4) show ?thesis
      by (simp add: claim_handoff_lease_def is_replay_def is_recoverable_def)
  qed
  moreover have "\<not> pullable i None now x" if "x \<in> set (hdb_handoffs db')" for x
    using only [OF that] assms(4) by (auto simp: pullable_def)
  then have "claim_handoff now i actor None db' = (db', None)"
    by (simp add: claim_handoff_def update_where_id fetchrow_None_iff)
  ultimately show ?thesis using stays by blast
qed

text \<open>
  C4. Acknowledged exactly once: in every state the service reaches, a handoff is
  acknowledged if and only if it has an acknowledgement receipt, and it has at most one.
\<close>

theorem handoff_acknowledged_once:
  assumes "run handoff_step \<lparr>hdb_handoffs = [], hdb_receipts = [], hdb_members = ms\<rparr> ts db"
    and "row i db = Some r"
  shows "(h_status r = H_acknowledged \<longleftrightarrow>
            (\<exists>c \<in> set (hdb_receipts db). cr_handoff_id c = i \<and> cr_operation c = D_acknowledged))
         \<and> (\<forall>c \<in> set (hdb_receipts db). \<forall>d \<in> set (hdb_receipts db).
              cr_handoff_id c = i \<and> cr_operation c = D_acknowledged
              \<and> cr_handoff_id d = i \<and> cr_operation d = D_acknowledged
              \<longrightarrow> cr_actor_id c = cr_actor_id d \<and> cr_claim_token_digest c = cr_claim_token_digest d
                  \<and> cr_claim_generation c = cr_claim_generation d)"
proof -
  have inv: "handoff_inv db" using hl.inv_run [OF assms(1) handoff_inv_empty] .
  have ids: "unique_ids db" using inv by (rule handoff_inv_unique)
  have r: "r \<in> set (hdb_handoffs db)" "h_id r = i" using row_SomeD [OF assms(2)] by auto
  have ack: "h_status r = H_acknowledged \<and> ack_receipt r c"
    if "c \<in> set (hdb_receipts db)" "cr_handoff_id c = i" "cr_operation c = D_acknowledged" for c
  proof -
    have "receipt_ok (hdb_handoffs db) c" using inv that(1) by (simp add: handoff_inv_def)
    then have "\<exists>x \<in> set (hdb_handoffs db). h_id x = i \<and> h_status x = H_acknowledged \<and> ack_receipt x c"
      using that(2,3) by (auto simp: receipt_ok_def)
    then obtain x where x: "x \<in> set (hdb_handoffs db)" "h_id x = i" "h_status x = H_acknowledged" "ack_receipt x c"
      by blast
    then have "x = r" using unique_ids_same [OF ids r(1)] r(2) by simp
    with x show ?thesis by simp
  qed
  have "\<exists>c \<in> set (hdb_receipts db). ack_receipt r c" if "h_status r = H_acknowledged"
    using inv r(1) that by (auto simp: handoff_inv_def)
  with ack r(2) have "h_status r = H_acknowledged \<longleftrightarrow>
      (\<exists>c \<in> set (hdb_receipts db). cr_handoff_id c = i \<and> cr_operation c = D_acknowledged)"
    by (auto simp: ack_receipt_def)
  moreover have "cr_actor_id c = cr_actor_id d \<and> cr_claim_token_digest c = cr_claim_token_digest d
      \<and> cr_claim_generation c = cr_claim_generation d"
    if "ack_receipt r c" "ack_receipt r d" for c d
    using that by (auto simp: ack_receipt_def claim_matches_def)
  ultimately show ?thesis using ack by blast
qed

theorem handoff_acknowledged_once_witness:
  "\<exists>c \<in> set (hdb_receipts demo_acked). cr_handoff_id c = 7 \<and> cr_operation c = D_acknowledged"
proof -
  let ?empty = "\<lparr>hdb_handoffs = [], hdb_receipts = [], hdb_members = []\<rparr>"
  have "handoff_step (\<lambda>_. 0) ?empty demo_db"
    by (rule step_push [of 7 _ demo_content 900000000 _ _ "Some (new_handoff 7 demo_content 0 900000000)"])
      (simp_all add: insert_handoff_def demo_db_def demo_content_def exists_row_def insert_row_def Let_def)
  then have run: "run handoff_step ?empty [\<lambda>_. 0, \<lambda>_. 10, \<lambda>_. 20] demo_acked"
    using demo_steps(1,2) by (auto simp: run_Cons_iff)
  have "h_status (first_row demo_acked) = H_acknowledged" by code_simp
  then show ?thesis using handoff_acknowledged_once [OF run demo_rows(3)] by blast
qed


subsection \<open>Receipts are kept, and close the token they name\<close>

lemma receipts_step:
  assumes "handoff_inv db" and "handoff_step clk db db'" and "c \<in> set (hdb_receipts db)"
  shows "c \<in> set (hdb_receipts db')"
  using assms(2) handoff_inv_unique [OF assms(1)]
  by (cases rule: step_receiptsE) (use assms(3) in \<open>auto intro: insert_claim_receipt_old\<close>)

lemma receipts_run:
  assumes "run handoff_step db ts db'" and "handoff_inv db" and "c \<in> set (hdb_receipts db)"
  shows "c \<in> set (hdb_receipts db')"
  using assms
  by (induction rule: run.induct) (blast intro: receipts_step handoff_inv_step)+

lemma receipts_unspent_row:
  assumes "handoff_inv db" and "r \<in> set (hdb_handoffs db)" and "h_status r = H_claimed"
    and "h_claimed_by r = Some a" and "h_claim_token_digest r = Some t"
  shows "\<not> spent (hdb_receipts db) r a t"
  using assms by (auto simp: handoff_inv_def row_unspent_def)

text \<open>
  C5. A claim token is single-use: once an acknowledgement or a rejection has been
  recorded for it, no claim with that token succeeds again, after any run.
\<close>

theorem handoff_token_single_use:
  assumes "run handoff_step db ts db'" and "handoff_inv db" and "c \<in> set (hdb_receipts db)"
    and "cr_handoff_id c = i" and "cr_project_id c = project"
    and "cr_actor_id c = actor" and "cr_claim_token_digest c = token"
  shows "claim_handoff_lease clk i project actor token secs ver db' = (db', None)"
proof -
  have inv: "handoff_inv db'" using assms(1,2) by (rule hl.inv_run)
  have c: "c \<in> set (hdb_receipts db')" using assms(1-3) by (rule receipts_run)
  obtain d res where d: "claim_handoff_lease clk i project actor token secs ver db' = (d, res)"
    by (cases "claim_handoff_lease clk i project actor token secs ver db'")
  have spent: "spent (hdb_receipts db') r actor token" if "locked_row i project db' = Some r" for r
    using locked_rowD [OF that] c assms(4-7) by (auto simp: spent_def)
  from d show ?thesis
  proof (cases rule: claim_leaseE)
    case refused
    with d show ?thesis by simp
  next
    case (replayed r)
    then show ?thesis
      using spent receipts_unspent_row [OF inv] locked_rowD by (auto simp: is_replay_def)
  next
    case (leased r)
    then show ?thesis using spent by blast
  qed
qed

theorem handoff_token_single_use_witness:
  "claim_handoff_lease (\<lambda>_. 30) 7 ''p'' ''ann'' ''t1'' 60 1 demo_acked = (demo_acked, None)"
proof -
  have run: "run handoff_step demo_acked [] demo_acked" by auto
  have c: "hd (hdb_receipts demo_acked) \<in> set (hdb_receipts demo_acked)"
    "cr_handoff_id (hd (hdb_receipts demo_acked)) = 7" "cr_project_id (hd (hdb_receipts demo_acked)) = ''p''"
    "cr_actor_id (hd (hdb_receipts demo_acked)) = ''ann''"
    "cr_claim_token_digest (hd (hdb_receipts demo_acked)) = ''t1''"
    by code_simp+
  show ?thesis by (rule handoff_token_single_use [OF run demo_inv(3) c])
qed

subsection \<open>What a claim gives\<close>

lemma locked_row_update:
  assumes "unique_ids db" and "locked_row i project db = Some r"
    and "\<And>x. h_id (f x) = h_id x" and "\<And>x. h_content (f x) = h_content x"
  shows "locked_row i project (db\<lparr>hdb_handoffs := update_where (\<lambda>x. h_id x = i) f (hdb_handoffs db)\<rparr>) = Some (f r)"
  using assms(2) fetchrow_update_where [of "\<lambda>x. h_id x = i" "\<lambda>r. h_id r = i \<and> h_project_id r = project" f]
    locked_rowD [OF assms(2)]
  by (simp add: locked_row_def assms(3,4))

lemma get_claimed_locked:
  assumes "locked_row i project db = Some x" and "unique_ids db"
    and "h_status x = H_claimed" "\<not> h_continuity_managed x" "h_claimed_by x = Some actor"
    and "h_claim_token_digest x = Some token" "recipient_allows x actor"
    and "after (h_claim_lease_expires_at x) (clk 0)" "after (h_expires_at x) (clk 1)"
  shows "get_claimed_handoff clk i project actor token db = Some x"
proof -
  have "x \<in> set (hdb_handoffs db)" "h_id x = i" "h_project_id x = project"
    using locked_rowD [OF assms(1)] by auto
  then show ?thesis
    using assms fetchrow_key_conj [of h_id "hdb_handoffs db" x i
      "\<lambda>r. h_project_id r = project \<and> h_status r = H_claimed
       \<and> \<not> h_continuity_managed r \<and> h_claimed_by r = Some actor
       \<and> h_claim_token_digest r = Some token \<and> recipient_allows r actor
       \<and> after (h_claim_lease_expires_at r) (clk 0) \<and> after (h_expires_at r) (clk 1)"]
    by (simp add: get_claimed_handoff_def unique_ids_def)
qed

text \<open>The shape of a successful claim, fresh or replayed: the row it returns is stored.\<close>

definition holds_lease :: "string \<Rightarrow> string \<Rightarrow> handoff \<Rightarrow> bool" where
  "holds_lease actor token x \<longleftrightarrow> h_status x = H_claimed \<and> h_claimed_by x = Some actor
     \<and> h_claim_token_digest x = Some token \<and> \<not> h_continuity_managed x \<and> recipient_allows x actor
     \<and> (case (h_claim_lease_expires_at x, h_expires_at x) of
          (Some l, Some e) \<Rightarrow> l \<le> e | _ \<Rightarrow> False)"

lemma claim_success:
  assumes inv: "handoff_inv db"
    and claim: "claim_handoff_lease clk i project actor token secs ver db = (db', Some (x, replayed))"
  shows "locked_row i project db' = Some x \<and> unique_ids db' \<and> holds_lease actor token x \<and> h_version x \<le> ver"
  using claim
proof (cases rule: claim_leaseE)
  case (replayed r)
  have "r \<in> set (hdb_handoffs db)" using locked_rowD [OF replayed(3)] by blast
  then have "row_ok r" using inv by (simp add: handoff_inv_def)
  moreover have "\<not> h_continuity_managed r \<and> h_version r \<le> ver"
    using claim replayed by (auto simp: claim_handoff_lease_def split: if_splits)
  ultimately show ?thesis
    using replayed handoff_inv_unique [OF inv]
    by (auto simp: is_replay_def row_ok_def holds_lease_def split: option.splits)
next
  case (leased r)
  let ?f = "leased_to actor token (clk 1) (clk 2) secs"
  have x: "x = ?f r" using leased(10) by simp
  have "locked_row i project db' = Some x" unfolding leased(9) x
    by (rule locked_row_update [OF handoff_inv_unique [OF inv] leased(1)]) (simp_all add: leased_to_def)
  moreover have "unique_ids db'" using handoff_inv_step [OF inv step_claim [OF claim]] by (rule handoff_inv_unique)
  ultimately show ?thesis
    using leased(2-5) by (auto simp: x leased_to_def holds_lease_def recipient_allows_def after_iff)
qed simp

lemma claim_replays:
  assumes "handoff_inv db"
    and "claim_handoff_lease clk i project actor token secs ver db = (db', Some (x, replayed))"
    and "after (h_claim_lease_expires_at x) (clk' 0)"
  shows "claim_handoff_lease clk' i project actor token secs' ver db' = (db', Some (x, True))"
proof -
  have ok: "locked_row i project db' = Some x" "holds_lease actor token x" "h_version x \<le> ver"
    using claim_success [OF assms(1,2)] by auto
  then have "after (h_expires_at x) (clk' 0)" "is_replay actor token (clk' 0) x"
    using assms(3) by (auto simp: holds_lease_def is_replay_def after_iff split: option.splits)
  with ok show ?thesis by (auto simp: claim_handoff_lease_def holds_lease_def)
qed

text \<open>
  C6. What a claim gives: the returned row is the stored one, leased to the caller until a
  time that is bounded by the handoff's expiry and, for a new lease, by the requested
  duration; a new lease takes the next generation; and until the lease ends the holder can
  fetch the payload again, and a lost response is recovered: repeating the claim gives the
  same row, marked as a replay, and changes nothing.
\<close>

theorem handoff_claim_gives_lease:
  assumes "handoff_inv db"
    and "claim_handoff_lease clk i project actor token secs ver db = (db', Some (x, replayed))"
  shows "\<exists>l e. h_claim_lease_expires_at x = Some l \<and> h_expires_at x = Some e \<and> l \<le> e
    \<and> h_claimed_by x = Some actor \<and> h_claim_token_digest x = Some token
    \<and> (replayed \<longrightarrow> db' = db \<and> clk 0 < l)
    \<and> (\<not> replayed \<longrightarrow> l \<le> clk 2 + seconds secs
         \<and> (\<exists>r. locked_row i project db = Some r \<and> h_claim_generation x = h_claim_generation r + 1))
    \<and> (\<forall>clk'. clk' 0 < l \<and> clk' 1 < l \<longrightarrow> get_claimed_handoff clk' i project actor token db' = Some x)
    \<and> (\<forall>clk' secs'. clk' 0 < l \<longrightarrow> claim_handoff_lease clk' i project actor token secs' ver db' = (db', Some (x, True)))"
proof -
  have ok: "locked_row i project db' = Some x" "unique_ids db'" "holds_lease actor token x"
    using claim_success [OF assms] by auto
  obtain l e where le: "h_claim_lease_expires_at x = Some l" "h_expires_at x = Some e" "l \<le> e"
    using ok(3) by (auto simp: holds_lease_def split: option.splits)
  have get: "get_claimed_handoff clk' i project actor token db' = Some x" if "clk' 0 < l" "clk' 1 < l" for clk'
    by (rule get_claimed_locked [OF ok(1,2)]) (use ok(3) le that in \<open>auto simp: holds_lease_def\<close>)
  have "(replayed \<longrightarrow> db' = db \<and> clk 0 < l) \<and> (\<not> replayed \<longrightarrow> l \<le> clk 2 + seconds secs
         \<and> (\<exists>r. locked_row i project db = Some r \<and> h_claim_generation x = h_claim_generation r + 1))"
    using assms(2)
  proof (cases rule: claim_leaseE)
    case (replayed r)
    then show ?thesis using le(1) by (auto simp: is_replay_def)
  next
    case (leased r)
    then show ?thesis using le(1,2) by (auto simp: leased_to_def)
  qed simp
  moreover have "claim_handoff_lease clk' i project actor token secs' ver db' = (db', Some (x, True))" if "clk' 0 < l" for clk' secs'
    using claim_replays [OF assms] le(1) that by simp
  ultimately show ?thesis using le get ok(3) by (intro exI [of _ l] exI [of _ e]) (auto simp: holds_lease_def)
qed

theorem handoff_claim_gives_lease_witness:
  "get_claimed_handoff (\<lambda>_. 20) 7 ''p'' ''ann'' ''t1'' demo_claimed = Some (first_row demo_claimed)"
proof -
  have claim: "claim_handoff_lease (\<lambda>_. 10) 7 ''p'' ''ann'' ''t1'' 60 1 demo_db
      = (demo_claimed, Some (first_row demo_claimed, False))"
    by code_simp
  have "h_claim_lease_expires_at (first_row demo_claimed) = Some 60000010" by code_simp
  then show ?thesis using handoff_claim_gives_lease [OF demo_inv(1) claim] by auto
qed

subsection \<open>Renewal and the end of a claim\<close>

lemma renew_row:
  assumes "unique_ids db" and "renew_lease clk project i actor token g deadline max_secs db = Inr (db', res)"
  shows "\<exists>r current expires. locked_row i project db = Some r \<and> claim_matches actor token g r
    \<and> claim_active (clk 0) r \<and> h_claim_lease_expires_at r = Some current \<and> h_expires_at r = Some expires
    \<and> \<not> h_continuity_managed r \<and> recipient_allows r actor
    \<and> (deadline \<le> current \<or> deadline \<le> clk 0 + seconds max_secs)
    \<and> rn_lease_expires_at res = max current (min deadline expires)
    \<and> locked_row i project db' = Some (r\<lparr>h_claim_lease_expires_at := Some (rn_lease_expires_at res)\<rparr>)"
  using assms(2)
proof (cases rule: renewE)
  case (1 r current expires)
  have "locked_row i project db' = Some (r\<lparr>h_claim_lease_expires_at := Some (rn_lease_expires_at res)\<rparr>)"
  proof (cases "rn_extended res")
    case True
    with 1 show ?thesis using locked_row_update [OF assms(1) 1(1)] by simp
  next
    case False
    then have "rn_lease_expires_at res = current" using 1(9,13) by simp
    then have "r\<lparr>h_claim_lease_expires_at := Some (rn_lease_expires_at res)\<rparr> = r"
      using 1(4) by (cases r) simp
    with 1 False show ?thesis by simp
  qed
  with 1 show ?thesis by blast
qed

text \<open>
  C8. Renewal to an absolute deadline: a renewal never shortens the lease, never passes the
  handoff's expiry, and passes the old lease only up to the requested deadline, which is
  then within the configured maximum; the stored lease is the reported one; and repeating
  the request while the new lease runs extends nothing.
\<close>

theorem handoff_renewal_bounded:
  assumes "handoff_inv db"
    and "renew_lease clk project i actor token g deadline max_secs db = Inr (db', res)"
  shows "\<exists>r current expires. locked_row i project db = Some r
    \<and> h_claim_lease_expires_at r = Some current \<and> h_expires_at r = Some expires
    \<and> current \<le> rn_lease_expires_at res \<and> rn_lease_expires_at res \<le> expires
    \<and> (current < rn_lease_expires_at res \<longrightarrow>
         rn_lease_expires_at res \<le> deadline \<and> deadline \<le> clk 0 + seconds max_secs)
    \<and> locked_row i project db' = Some (r\<lparr>h_claim_lease_expires_at := Some (rn_lease_expires_at res)\<rparr>)
    \<and> (\<forall>clk'. clk 0 \<le> clk' 0 \<and> clk' 0 < rn_lease_expires_at res \<longrightarrow>
         (\<exists>res'. renew_lease clk' project i actor token g deadline max_secs db' = Inr (db', res')
            \<and> rn_lease_expires_at res' = rn_lease_expires_at res \<and> \<not> rn_extended res'))"
proof -
  obtain r current expires where r: "locked_row i project db = Some r" "claim_matches actor token g r"
      "claim_active (clk 0) r" "h_claim_lease_expires_at r = Some current" "h_expires_at r = Some expires"
      "\<not> h_continuity_managed r" "recipient_allows r actor"
      "deadline \<le> current \<or> deadline \<le> clk 0 + seconds max_secs"
      "rn_lease_expires_at res = max current (min deadline expires)"
      "locked_row i project db' = Some (r\<lparr>h_claim_lease_expires_at := Some (rn_lease_expires_at res)\<rparr>)"
    using renew_row [OF handoff_inv_unique [OF assms(1)] assms(2)] by auto
  have "row_ok r" using assms(1) locked_rowD [OF r(1)] by (auto simp: handoff_inv_def)
  then have le: "current \<le> expires" using r(4,5) by (simp add: row_ok_def)
  have again: "\<exists>res'. renew_lease clk' project i actor token g deadline max_secs db' = Inr (db', res')
      \<and> rn_lease_expires_at res' = rn_lease_expires_at res \<and> \<not> rn_extended res'"
    if "clk 0 \<le> clk' 0 \<and> clk' 0 < rn_lease_expires_at res" for clk'
  proof -
    let ?l = "rn_lease_expires_at res"
    have eff: "max ?l (min deadline expires) = ?l" and lim: "\<not> (?l < deadline \<and> clk' 0 + seconds max_secs < deadline)"
      and alive: "clk' 0 < ?l" "clk' 0 < expires"
      using that r(8,9) le by auto
    show ?thesis
      using r(2,3,5,6,7,10) eff lim alive
      by (simp add: renew_lease_def claim_matches_def claim_active_def recipient_allows_def Let_def not_le)
  qed
  have "current \<le> rn_lease_expires_at res \<and> rn_lease_expires_at res \<le> expires
      \<and> (current < rn_lease_expires_at res \<longrightarrow>
           rn_lease_expires_at res \<le> deadline \<and> deadline \<le> clk 0 + seconds max_secs)"
    using r(8,9) le by auto
  with r(1,4,5,10) again show ?thesis by blast
qed

theorem handoff_renewal_bounded_witness:
  "\<exists>db' res. renew_lease (\<lambda>_. 20) ''p'' 7 ''ann'' ''t1'' 1 90000000 3600 demo_claimed = Inr (db', res)
     \<and> rn_lease_expires_at res = 90000000"
proof -
  let ?res = "\<lparr>rn_handoff_id = 7, rn_claim_generation = 1, rn_lease_expires_at = 90000000,
     rn_expires_at = 900000000, rn_observed_at = 20, rn_extended = True\<rparr>"
  let ?db = "demo_claimed\<lparr>hdb_handoffs := [(first_row demo_claimed)\<lparr>h_claim_lease_expires_at := Some 90000000\<rparr>]\<rparr>"
  have renew: "renew_lease (\<lambda>_. 20) ''p'' 7 ''ann'' ''t1'' 1 90000000 3600 demo_claimed = Inr (?db, ?res)"
    by code_simp
  have "\<exists>r. locked_row 7 ''p'' ?db = Some (r\<lparr>h_claim_lease_expires_at := Some 90000000\<rparr>)"
    using handoff_renewal_bounded [OF demo_inv(2) renew] by auto
  with renew show ?thesis by auto
qed

text \<open>What a successful close leaves behind: the closed row, and the one receipt of its token.\<close>

lemma close_leaves:
  assumes inv: "handoff_inv db" and r: "locked_row i project db = Some r"
    and held: "claim_matches actor token g r" "claim_active now r"
    and c: "cr_handoff_id c = i" "cr_project_id c = project" "cr_actor_id c = actor"
      "cr_claim_token_digest c = token" "cr_claim_generation c = g"
    and keep: "\<And>x. h_id (f x) = h_id x" "\<And>x. h_content (f x) = h_content x"
    and close: "close_claim f i g c db = (db', res)"
  shows "hdb_receipts db' = insert_row c (hdb_receipts db) \<and> \<not> spent (hdb_receipts db) r actor token
    \<and> locked_row i project db' = Some (f r)"
proof -
  have rid: "r \<in> set (hdb_handoffs db)" "h_id r = i" "h_project_id r = project"
    using locked_rowD [OF r] by auto
  have gen: "h_claim_generation r = g" using held(1) by (simp add: claim_matches_def)
  have unspent: "row_unspent (hdb_receipts db) r" using inv rid(1) by (simp add: handoff_inv_def)
  have found: "fetchrow (\<lambda>x. h_id x = i \<and> h_claim_generation x = g) (hdb_handoffs db) = Some r"
    using fetchrow_key_conj [of h_id "hdb_handoffs db" r i "\<lambda>x. h_claim_generation x = g"]
      handoff_inv_unique [OF inv] rid gen by (simp add: unique_ids_def)
  have same: "update_where (\<lambda>x. h_id x = i \<and> h_claim_generation x = g) f (hdb_handoffs db)
      = update_where (\<lambda>x. h_id x = i) f (hdb_handoffs db)"
    using unique_ids_same [OF handoff_inv_unique [OF inv] rid(1)] rid(2) gen
    by (auto simp: update_where_def)
  have db': "db' = db\<lparr>hdb_handoffs := update_where (\<lambda>x. h_id x = i) f (hdb_handoffs db),
      hdb_receipts := insert_claim_receipt c (hdb_receipts db)\<rparr>"
    using close found by (simp add: close_claim_def same)
  have "insert_claim_receipt c (hdb_receipts db) = insert_row c (hdb_receipts db)"
    by (rule insert_claim_receipt_new [OF unspent held(2)]) (use c held(1) rid in simp_all)
  moreover have "locked_row i project db' = Some (f r)"
    using locked_row_update [OF handoff_inv_unique [OF inv] r, of f] keep
    by (simp add: db' locked_row_def)
  moreover have "\<not> spent (hdb_receipts db) r actor token"
    using unspent held by (auto simp: row_unspent_def claim_matches_def claim_active_def)
  ultimately show ?thesis by (simp add: db')
qed

lemma acknowledge_success:
  assumes "handoff_inv db" and "acknowledge_handoff clk i project actor token g db = (db', Some (g, False))"
  shows "\<exists>r. locked_row i project db = Some r
    \<and> hdb_receipts db' = insert_row \<lparr>cr_handoff_id = i, cr_project_id = project, cr_actor_id = actor,
         cr_claim_token_digest = token, cr_claim_generation = g, cr_operation = D_acknowledged,
         cr_reason_code = None\<rparr> (hdb_receipts db)
    \<and> \<not> spent (hdb_receipts db) r actor token \<and> locked_row i project db' = Some (acknowledged_row r)"
  using assms(2)
proof (cases rule: acknowledgeE)
  case same
  then show ?thesis by blast
next
  case (closed r)
  have "hdb_receipts db' = insert_row \<lparr>cr_handoff_id = i, cr_project_id = project, cr_actor_id = actor,
         cr_claim_token_digest = token, cr_claim_generation = g, cr_operation = D_acknowledged,
         cr_reason_code = None\<rparr> (hdb_receipts db)
    \<and> \<not> spent (hdb_receipts db) r actor token \<and> locked_row i project db' = Some (acknowledged_row r)"
    by (rule close_leaves [OF assms(1) closed(1-3) _ _ _ _ _ _ _ closed(5)]) (simp_all add: acknowledged_row_def)
  with closed(1) show ?thesis by blast
qed

lemma nack_success:
  assumes "handoff_inv db" and "nack_handoff clk i project actor token g reason db = (db', Some (g, False))"
  shows "\<exists>r. locked_row i project db = Some r
    \<and> hdb_receipts db' = insert_row \<lparr>cr_handoff_id = i, cr_project_id = project, cr_actor_id = actor,
         cr_claim_token_digest = token, cr_claim_generation = g, cr_operation = D_nacked,
         cr_reason_code = Some reason\<rparr> (hdb_receipts db)
    \<and> \<not> spent (hdb_receipts db) r actor token \<and> locked_row i project db' = Some (nacked_row reason r)"
  using assms(2)
proof (cases rule: nackE)
  case same
  then show ?thesis by blast
next
  case (closed r)
  have "hdb_receipts db' = insert_row \<lparr>cr_handoff_id = i, cr_project_id = project, cr_actor_id = actor,
         cr_claim_token_digest = token, cr_claim_generation = g, cr_operation = D_nacked,
         cr_reason_code = Some reason\<rparr> (hdb_receipts db)
    \<and> \<not> spent (hdb_receipts db) r actor token \<and> locked_row i project db' = Some (nacked_row reason r)"
    by (rule close_leaves [OF assms(1) closed(1-3) _ _ _ _ _ _ _ closed(5)]) (simp_all add: nacked_row_def)
  with closed(1) show ?thesis by blast
qed

lemma receipt_of_unspent:
  "locked_row i project db = Some r \<Longrightarrow> \<not> spent (hdb_receipts db) r actor token
   \<Longrightarrow> receipt_of i project actor token g operation db = None"
  using locked_rowD [of i project db r] by (auto simp: receipt_of_def fetchrow_None_iff spent_def)

text \<open>
  C9. Closing a claim is idempotent and exclusive. After a successful acknowledgement the
  same request is answered as already done in every later state, and a rejection of the
  claim fails; after a successful rejection the same rejection finds its receipt in the
  next state, one with another reason fails, and so does an acknowledgement. None of these
  requests changes anything.
\<close>

theorem handoff_close_idempotent:
  assumes "handoff_inv db"
  shows "(acknowledge_handoff clk i project actor token g db = (db1, Some (g, False))
      \<and> run handoff_step db1 ts db2 \<longrightarrow>
        acknowledge_handoff clk' i project actor token g db2 = (db2, Some (g, True))
        \<and> nack_handoff clk' i project actor token g reason db1 = (db1, None))
    \<and> (nack_handoff clk i project actor token g reason db = (db1, Some (g, False)) \<longrightarrow>
        nack_handoff clk' i project actor token g reason db1 = (db1, Some (g, True))
        \<and> (reason' \<noteq> reason \<longrightarrow> nack_handoff clk' i project actor token g reason' db1 = (db1, None))
        \<and> acknowledge_handoff clk' i project actor token g db1 = (db1, None))"
proof (intro conjI impI; (elim conjE)?)
  assume ack: "acknowledge_handoff clk i project actor token g db = (db1, Some (g, False))"
    and run: "run handoff_step db1 ts db2"
  obtain r where r: "locked_row i project db = Some r" "\<not> spent (hdb_receipts db) r actor token"
    "locked_row i project db1 = Some (acknowledged_row r)"
    and cs: "hdb_receipts db1 = insert_row \<lparr>cr_handoff_id = i, cr_project_id = project, cr_actor_id = actor,
         cr_claim_token_digest = token, cr_claim_generation = g, cr_operation = D_acknowledged,
         cr_reason_code = None\<rparr> (hdb_receipts db)"
    using acknowledge_success [OF assms ack] by auto
  let ?c = "\<lparr>cr_handoff_id = i, cr_project_id = project, cr_actor_id = actor, cr_claim_token_digest = token,
     cr_claim_generation = g, cr_operation = D_acknowledged, cr_reason_code = None\<rparr>"
  have "?c \<in> set (hdb_receipts db2)"
    by (rule receipts_run [OF run handoff_inv_step [OF assms step_ack [OF ack]]]) (simp add: cs sql)
  then have "\<exists>c \<in> set (hdb_receipts db2). cr_handoff_id c = i \<and> cr_project_id c = project
      \<and> cr_actor_id c = actor \<and> cr_claim_token_digest c = token \<and> cr_claim_generation c = g
      \<and> cr_operation c = D_acknowledged"
    by (intro bexI [of _ ?c]) simp_all
  then have "receipt_of i project actor token g D_acknowledged db2 \<noteq> None"
    by (auto simp: receipt_of_def fetchrow_None_iff)
  moreover have "cr_claim_generation c = g" if "receipt_of i project actor token g D_acknowledged db2 = Some c" for c
    using fetchrow_SomeD that by (force simp: receipt_of_def)
  ultimately show "acknowledge_handoff clk' i project actor token g db2 = (db2, Some (g, True))"
    by (auto simp: acknowledge_handoff_def)
  have "receipt_of i project actor token g D_nacked db1 = None"
    using receipt_of_unspent [OF r(1,2)] by (simp add: receipt_of_def cs fetchrow_insert_row)
  then show "nack_handoff clk' i project actor token g reason db1 = (db1, None)"
    using r(3) by (simp add: nack_handoff_def acknowledged_row_def claim_active_def)
next
  assume nack: "nack_handoff clk i project actor token g reason db = (db1, Some (g, False))"
  obtain r where r: "locked_row i project db = Some r" "\<not> spent (hdb_receipts db) r actor token"
    "locked_row i project db1 = Some (nacked_row reason r)"
    and cs: "hdb_receipts db1 = insert_row \<lparr>cr_handoff_id = i, cr_project_id = project, cr_actor_id = actor,
         cr_claim_token_digest = token, cr_claim_generation = g, cr_operation = D_nacked,
         cr_reason_code = Some reason\<rparr> (hdb_receipts db)"
    using nack_success [OF assms nack] by auto
  have found: "receipt_of i project actor token g op db1 = (if op = D_nacked then
      Some \<lparr>cr_handoff_id = i, cr_project_id = project, cr_actor_id = actor, cr_claim_token_digest = token,
         cr_claim_generation = g, cr_operation = D_nacked, cr_reason_code = Some reason\<rparr> else None)" for op
    using receipt_of_unspent [OF r(1,2), of g op] by (simp add: receipt_of_def cs fetchrow_insert_row)
  show "nack_handoff clk' i project actor token g reason db1 = (db1, Some (g, True))"
    by (simp add: nack_handoff_def found)
  show "nack_handoff clk' i project actor token g reason' db1 = (db1, None)" if "reason' \<noteq> reason"
    using that by (simp add: nack_handoff_def found)
  show "acknowledge_handoff clk' i project actor token g db1 = (db1, None)"
    using r(3) by (simp add: acknowledge_handoff_def found nacked_row_def claim_active_def)
qed

theorem handoff_close_idempotent_witness:
  "acknowledge_handoff (\<lambda>_. 50) 7 ''p'' ''ann'' ''t1'' 1 demo_acked = (demo_acked, Some (1, True))"
proof -
  have ack: "acknowledge_handoff (\<lambda>_. 20) 7 ''p'' ''ann'' ''t1'' 1 demo_claimed = (demo_acked, Some (1, False))"
    by code_simp
  have run: "run handoff_step demo_acked [] demo_acked" by auto
  show ?thesis using handoff_close_idempotent [OF demo_inv(2)] ack run by blast
qed

end
