(* ===== verification/Handoff_Refine.thy ===== *)
theory Handoff_Refine
  imports Handoff_Props
begin

text \<open>
  The contract of the delivery of one handoff, as an abstract machine, and the proof that
  the store of handoffs implements it: every transaction of the service moves the slot of
  every handoff by one step of the machine. With it, that a handoff can always be delivered.
\<close>

subsection \<open>The abstract machine\<close>

text \<open>
  A slot is empty, open to takers, held until a deadline (a holder without deadline keeps
  it), delivered, or withdrawn. Each state carries the number of times it changed hands.
\<close>

type_synonym holder = "string \<times> string option"

datatype slot =
    Empty
  | Open nat
  | Held nat holder "time option"
  | Delivered nat holder
  | Withdrawn nat

inductive slot_step :: "time \<Rightarrow> slot \<Rightarrow> slot \<Rightarrow> bool" for now where
  slot_stay: "slot_step now s s"
| slot_offer: "slot_step now Empty (Open 0)"
| slot_take: "slot_step now (Open g) (Held (Suc g) h d)"
| slot_take_over: "d \<le> now \<Longrightarrow> slot_step now (Held g h (Some d)) (Held (Suc g) h' d')"
| slot_extend: "now < d \<Longrightarrow> d \<le> d' \<Longrightarrow> slot_step now (Held g h (Some d)) (Held g h (Some d'))"
| slot_deliver: "now < d \<Longrightarrow> slot_step now (Held g h (Some d)) (Delivered g h)"
| slot_release: "now < d \<Longrightarrow> slot_step now (Held g h (Some d)) (Open g)"
| slot_expire: "slot_step now (Open g) (Withdrawn g)"
| slot_withdraw: "slot_step now (Open g) (Withdrawn (Suc g))"
| slot_withdraw_lapsed: "d \<le> now \<Longrightarrow> slot_step now (Held g h (Some d)) (Withdrawn (Suc g))"

inductive_cases slot_delivered: "slot_step now (Delivered g h) s"
inductive_cases slot_withdrawn: "slot_step now (Withdrawn g) s"

lemma slot_final:
  assumes "run (\<lambda>t. slot_step (f t)) s ts s'"
  shows "s = Delivered g h \<Longrightarrow> s' = Delivered g h" "s = Withdrawn g \<Longrightarrow> s' = Withdrawn g"
  using assms by (induction rule: run.induct) (auto elim: slot_delivered slot_withdrawn)

subsection \<open>The slot of a handoff\<close>

definition slot_of :: "handoff \<Rightarrow> slot" where
  "slot_of r =
     (if h_continuity_managed r then Withdrawn (h_claim_generation r)
      else case h_status r of
        H_pending \<Rightarrow> Open (h_claim_generation r)
      | H_claimed \<Rightarrow> Held (h_claim_generation r) (the (h_claimed_by r), h_claim_token_digest r) (h_claim_lease_expires_at r)
      | H_acknowledged \<Rightarrow> Delivered (h_claim_generation r) (the (h_claimed_by r), h_claim_token_digest r)
      | H_expired \<Rightarrow> Withdrawn (h_claim_generation r))"

definition slot_at :: "hdb \<Rightarrow> uuid \<Rightarrow> slot" where
  "slot_at db i = (case row i db of None \<Rightarrow> Empty | Some r \<Rightarrow> slot_of r)"

lemma slot_row_step:
  assumes "row_step clk cs r r'"
  shows "slot_step (clk 0) (slot_of r) (slot_of r')"
proof (cases "h_continuity_managed r")
  case True
  have "slot_of r' = slot_of r"
    using assms by cases (use True in \<open>auto simp: slot_of_def expirable_def pullable_def promotable_def
      acknowledged_row_def nacked_row_def\<close>)
  then show ?thesis by (simp add: slot_stay)
next
  case False
  show ?thesis using assms
  proof cases
    case row_same
    then show ?thesis by (simp add: slot_stay)
  next
    case (row_expire project)
    then show ?thesis using False by (auto simp: slot_of_def expirable_def intro: slot_expire)
  next
    case (row_pull i project actor)
    then show ?thesis using False by (auto simp: slot_of_def pullable_def legacy_claimed_def intro: slot_take)
  next
    case (row_lease actor token secs)
    then show ?thesis using False
      by (auto simp: slot_of_def is_recoverable_def leased_to_def upto_iff intro: slot_take slot_take_over)
  next
    case (row_ack actor token g)
    then show ?thesis using False
      by (auto simp: slot_of_def claim_active_def acknowledged_row_def after_iff intro: slot_deliver)
  next
    case (row_nack actor token g reason)
    then show ?thesis using False
      by (auto simp: slot_of_def claim_active_def nacked_row_def after_iff intro: slot_release)
  next
    case (row_renew actor token g current expires deadline)
    then show ?thesis using False
      by (auto simp: slot_of_def claim_active_def intro: slot_extend)
  next
    case row_promote
    then show ?thesis using False
      by (auto simp: slot_of_def promotable_def is_recoverable_def promoted_def upto_iff intro: slot_withdraw slot_withdraw_lapsed)
  qed
qed

lemma slot_handoff_step:
  assumes "handoff_inv db" and "handoff_step clk db db'"
  shows "slot_step (clk 0) (slot_at db i) (slot_at db' i)"
proof (cases "row i db")
  case (Some r)
  then obtain r' where "row i db' = Some r'" "row_step clk (hdb_receipts db) r r'" using step_row [OF assms] by blast
  then show ?thesis using Some slot_row_step by (simp add: slot_at_def)
next
  case None
  show ?thesis
  proof (cases "row i db'")
    case (Some r)
    have "rows_step clk db db'" using step_rows [OF assms(2) handoff_inv_unique [OF assms(1)]] .
    then obtain f new where u: "hdb_handoffs db' = map f (hdb_handoffs db) @ new"
        "\<forall>r \<in> set (hdb_handoffs db). row_step clk (hdb_receipts db) r (f r)" "\<forall>r \<in> set new. fresh_row r"
      by (elim rows_stepE) blast
    have "r \<in> set (hdb_handoffs db')" "h_id r = i" using row_SomeD [OF Some] by auto
    moreover have "h_id (f x) \<noteq> i" if "x \<in> set (hdb_handoffs db)" for x
    proof -
      have "h_id x \<noteq> i" using None that by (auto simp: row_def fetchrow_None_iff)
      then show ?thesis using u(2) that row_step_key by metis
    qed
    ultimately have "fresh_row r" using u(1,3) by auto
    then have "slot_of r = Open 0" by (simp add: slot_of_def fresh_row_def)
    then show ?thesis using None Some by (simp add: slot_at_def slot_offer)
  qed (use None in \<open>simp add: slot_at_def slot_stay\<close>)
qed

text \<open>
  C3. Refinement. Every run of the service is, seen from one handoff, a run of the abstract
  slot: it is taken when open or after the deadline of its holder, extended, delivered or
  released only before that deadline, changes hands under a new number, and once delivered
  or withdrawn never changes again.
\<close>

theorem handoff_refines_slot:
  assumes "run handoff_step db ts db'" and "handoff_inv db"
  shows "run (\<lambda>clk. slot_step (clk 0)) (slot_at db i) ts (slot_at db' i)
    \<and> (\<forall>g h. slot_at db i = Delivered g h \<longrightarrow> slot_at db' i = Delivered g h)"
proof -
  have sim: "run (\<lambda>clk. slot_step (clk 0)) (slot_at db i) ts (slot_at db' i)"
    using assms
  proof (induction rule: run.induct)
    case (run_cons t s u ts s')
    then show ?case using slot_handoff_step handoff_inv_step by (blast intro: run.run_cons)
  qed auto
  have "slot_at db' i = Delivered g h" if "slot_at db i = Delivered g h" for g h
    using sim that by (rule slot_final(1) [where f = "\<lambda>clk. clk 0"])
  with sim show ?thesis by blast
qed

theorem handoff_refines_slot_witness:
  "run (\<lambda>clk :: clock. slot_step (clk 0)) (Open 0) [\<lambda>_. 10, \<lambda>_. 20] (Delivered 1 (''ann'', Some ''t1''))"
proof -
  have r: "run handoff_step demo_db [\<lambda>_. 10, \<lambda>_. 20] demo_acked" using demo_steps(1,2) by (auto simp: run_Cons_iff)
  have "slot_at demo_db 7 = Open 0" "slot_at demo_acked 7 = Delivered 1 (''ann'', Some ''t1'')" by code_simp+
  then show ?thesis using handoff_refines_slot [OF r demo_inv(1), of 7] by simp
qed

subsection \<open>Delivery is always possible\<close>

text \<open>Tokens never run out: one longer than all tokens of the receipts is new.\<close>

lemma fresh_token: "\<exists>token. \<not> spent (hdb_receipts db) r actor token"
proof -
  let ?n = "Suc (Max (insert 0 (length ` cr_claim_token_digest ` set (hdb_receipts db))))"
  have "length (cr_claim_token_digest c) < ?n" if "c \<in> set (hdb_receipts db)" for c
    using that by (simp add: less_Suc_eq_le)
  then have "\<not> spent (hdb_receipts db) r actor (replicate ?n CHR ''x'')"
    unfolding spent_def by (metis length_replicate less_irrefl)
  then show ?thesis by blast
qed

lemma claim_free:
  assumes "handoff_inv db" and "locked_row i project db = Some r" and "h_expires_at r = Some e" and "t < e"
    and "\<not> h_continuity_managed r" and "recipient_allows r actor" and "is_recoverable t r"
    and "\<not> spent (hdb_receipts db) r actor token"
  shows "claim_handoff_lease (\<lambda>_. t) i project actor token secs (h_version r) db
    = (db\<lparr>hdb_handoffs := update_where (\<lambda>x. h_id x = i) (leased_to actor token t t secs) (hdb_handoffs db)\<rparr>,
       Some (leased_to actor token t t secs r, False))"
proof -
  have "\<not> is_replay actor token t r" using assms(7) by (auto simp: is_replay_def is_recoverable_def after_iff upto_iff)
  moreover have "\<not> token_completed i project actor token db"
    using assms(2,8) spent_iff_token_completed locked_rowD by metis
  ultimately show ?thesis using assms(2-7) by (simp add: claim_handoff_lease_def Let_def)
qed

lemma acknowledge_held:
  assumes "handoff_inv db" and "locked_row i project db = Some r"
    and "claim_matches actor token g r" and "claim_active (clk 0) r" and "receipt_of i project actor token g D_acknowledged db = None"
  shows "\<exists>db'. acknowledge_handoff clk i project actor token g db = (db', Some (g, False))"
proof -
  have "\<not> (h_status r = H_acknowledged)" using assms(4) by (simp add: claim_active_def)
  moreover have "fetchrow (\<lambda>x. h_id x = i \<and> h_claim_generation x = g) (hdb_handoffs db) \<noteq> None"
    using locked_rowD [OF assms(2)] assms(3) by (auto simp: fetchrow_None_iff claim_matches_def)
  ultimately show ?thesis using assms(2-5) by (auto simp: acknowledge_handoff_def close_claim_def)
qed

text \<open>
  C7. No handoff gets stuck. In every reachable state, a handoff that is pending, or whose
  claim ends before the handoff does, can be delivered before it expires by everybody it is
  meant for: at the time the claim ends, a claim under a new token and its acknowledgement
  go through.
\<close>

theorem handoff_never_stuck:
  assumes "handoff_inv db" and "row i db = Some r" and "h_expires_at r = Some e" and "now < e"
    and "\<not> h_continuity_managed r" and "recipient_allows r actor"
    and "h_status r = H_pending \<or> h_status r = H_claimed \<and> h_claim_lease_expires_at r = Some d \<and> d < e"
  shows "\<exists>ts db' r'. run handoff_step db ts db' \<and> (\<forall>clk \<in> set ts. now \<le> clk 0 \<and> clk 0 < e)
    \<and> row i db' = Some r' \<and> h_status r' = H_acknowledged \<and> h_claimed_by r' = Some actor
    \<and> h_claim_generation r' = Suc (h_claim_generation r)"
proof -
  let ?t = "if h_status r = H_pending then now else max now d" and ?p = "h_project_id r"
  obtain token where fresh: "\<not> spent (hdb_receipts db) r actor token" using fresh_token by blast
  have t: "now \<le> ?t" "?t < e" using assms(4,7) by auto
  have lr: "locked_row i ?p db = Some r" unfolding locked_row_def
    by (rule fetchrow_key_conj) (use row_SomeD [OF assms(2)] handoff_inv_unique [OF assms(1)] in \<open>auto simp: unique_ids_def\<close>)
  have "is_recoverable ?t r" using assms(7) by (auto simp: is_recoverable_def upto_iff)
  note claim = claim_free [OF assms(1) lr assms(3) t(2) assms(5,6) this fresh, of 60]
  let ?x = "leased_to actor token ?t ?t 60 r"
  let ?db1 = "db\<lparr>hdb_handoffs := update_where (\<lambda>x. h_id x = i) (leased_to actor token ?t ?t 60) (hdb_handoffs db)\<rparr>"
  have s1: "handoff_step (\<lambda>_. ?t) db ?db1" using claim by (rule step_claim)
  have inv1: "handoff_inv ?db1" using assms(1) s1 by (rule handoff_inv_step)
  have lr1: "locked_row i ?p ?db1 = Some ?x" using claim_success [OF assms(1) claim] by blast
  have held: "claim_matches actor token (Suc (h_claim_generation r)) ?x" "claim_active ?t ?x"
    using assms(3) t(2) seconds_pos [of 60] by (auto simp: claim_matches_def claim_active_def leased_to_def)
  have "\<not> spent (hdb_receipts ?db1) r actor token" using fresh by simp
  then have "receipt_of i ?p actor token (Suc (h_claim_generation r)) D_acknowledged ?db1 = None"
    using locked_rowD [OF lr] by (auto simp: receipt_of_def fetchrow_None_iff spent_def)
  then obtain db2 where ack: "acknowledge_handoff (\<lambda>_. ?t) i ?p actor token (Suc (h_claim_generation r)) ?db1
      = (db2, Some (Suc (h_claim_generation r), False))"
    using acknowledge_held [OF inv1 lr1 held(1), of "\<lambda>_. ?t"] held(2) by blast
  then have s2: "handoff_step (\<lambda>_. ?t) ?db1 db2" by (rule step_ack)
  have "locked_row i ?p db2 = Some (acknowledged_row ?x)" using acknowledge_success [OF inv1 ack] lr1 by auto
  moreover have "unique_ids db2" using handoff_inv_step [OF inv1 s2] by (rule handoff_inv_unique)
  ultimately have "row i db2 = Some (acknowledged_row ?x)" using locked_rowD row_eq_Some_iff by metis
  moreover have "run handoff_step db [\<lambda>_. ?t, \<lambda>_. ?t] db2" using s1 s2 by (auto simp: run_Cons_iff)
  ultimately show ?thesis using t
    by (intro exI [of _ "[\<lambda>_. ?t, \<lambda>_. ?t]"] exI [of _ db2] exI [of _ "acknowledged_row ?x"])
      (simp add: acknowledged_row_def leased_to_def)
qed

theorem handoff_never_stuck_witness:
  "\<exists>ts db' r'. run handoff_step demo_claimed ts db' \<and> row 7 db' = Some r' \<and> h_claimed_by r' = Some ''bob''"
proof -
  let ?r = "first_row demo_claimed"
  have "h_expires_at ?r = Some 900000000" "\<not> h_continuity_managed ?r" "recipient_allows ?r ''bob''"
      "h_status ?r = H_claimed" "h_claim_lease_expires_at ?r = Some 60000010"
    by code_simp+
  then show ?thesis
    using handoff_never_stuck [OF demo_inv(2) demo_rows(2), of 900000000 30 "''bob''" 60000010] by auto
qed

end
