(* ===== verification/Settings.thy ===== *)
theory Settings
  imports Py_Json
begin

text \<open>
  The settings of config.py that the modelled services read, with the field bounds and the
  cross-field checks every loaded configuration has passed, and the translation of a nested
  configuration file into fields. Reading the environment and the file is I/O.
\<close>

datatype retrieval_strategy = Postgres_lexical | Postgres_weighted_lexical

record settings =
  db_pool_min :: int
  db_pool_max :: int
  port :: int
  max_archive_bytes :: int
  max_archive_uncompressed_bytes :: int
  max_archive_members :: int
  max_http_request_bytes :: int
  auth_enabled :: bool
  entra_enabled :: bool
  github_enabled :: bool
  handoff_default_expiry_hours :: int
  handoff_max_raw_output_bytes :: int
  handoff_claim_lease_min_seconds :: int
  handoff_claim_lease_default_seconds :: int
  handoff_claim_lease_max_seconds :: int
  strategy :: retrieval_strategy
  generation_enabled :: bool
  generation_max_input_chars :: int
  generation_max_output_chars :: int
  generation_timeout_seconds :: int
  generation_lease_seconds :: int
  repos :: "pyval list"

definition between :: "int \<Rightarrow> int \<Rightarrow> int \<Rightarrow> bool" where
  "between lo hi n \<longleftrightarrow> lo \<le> n \<and> n \<le> hi"

definition fields_ok :: "settings \<Rightarrow> bool" where
  "fields_ok s \<longleftrightarrow>
     1 \<le> db_pool_min s \<and> 1 \<le> db_pool_max s \<and> between 1 65535 (port s)
     \<and> 1 \<le> max_archive_bytes s \<and> 1 \<le> max_archive_uncompressed_bytes s
     \<and> between 1 100000 (max_archive_members s) \<and> 1 \<le> max_http_request_bytes s
     \<and> between 1 8760 (handoff_default_expiry_hours s)
     \<and> 0 \<le> handoff_max_raw_output_bytes s
     \<and> between 1 86400 (handoff_claim_lease_min_seconds s)
     \<and> between 1 86400 (handoff_claim_lease_default_seconds s)
     \<and> between 1 86400 (handoff_claim_lease_max_seconds s)
     \<and> between 256 16384 (generation_max_input_chars s)
     \<and> between 256 4296 (generation_max_output_chars s)
     \<and> between 1 30 (generation_timeout_seconds s)
     \<and> between 10 300 (generation_lease_seconds s)
     \<and> list_all is_dict (repos s)"

definition validate_bounds :: "settings \<Rightarrow> string option" where
  \<comment> \<open>the first violated bound\<close>
  "validate_bounds s = first_error
     [(github_enabled s \<and> \<not> auth_enabled s, ''GitHub authentication requires auth_enabled=true''),
      (entra_enabled s \<and> \<not> auth_enabled s, ''Entra authentication requires auth_enabled=true''),
      (generation_lease_seconds s \<le> generation_timeout_seconds s + 5,
         ''generation lease must exceed timeout by more than five seconds''),
      (db_pool_max s < db_pool_min s, ''db_pool_max must be greater than or equal to db_pool_min''),
      (max_archive_uncompressed_bytes s < max_archive_bytes s,
         ''max_archive_uncompressed_bytes must be >= max_archive_bytes''),
      (\<not> (handoff_claim_lease_min_seconds s \<le> handoff_claim_lease_default_seconds s
          \<and> handoff_claim_lease_default_seconds s \<le> handoff_claim_lease_max_seconds s),
         ''handoff claim lease bounds must satisfy min <= default <= max'')]"

definition valid_settings :: "settings \<Rightarrow> bool" where
  "valid_settings s \<longleftrightarrow> fields_ok s \<and> validate_bounds s = None"

definition default_settings :: settings where
  "default_settings = \<lparr>db_pool_min = 2, db_pool_max = 10, port = 8100, max_archive_bytes = 50 * 1024 * 1024,
     max_archive_uncompressed_bytes = 1024 * 1024 * 1024, max_archive_members = 10000,
     max_http_request_bytes = 70 * 1024 * 1024, auth_enabled = True, entra_enabled = False, github_enabled = False,
     handoff_default_expiry_hours = 168, handoff_max_raw_output_bytes = 1024 * 1024,
     handoff_claim_lease_min_seconds = 30, handoff_claim_lease_default_seconds = 300,
     handoff_claim_lease_max_seconds = 3600, strategy = Postgres_lexical, generation_enabled = False,
     generation_max_input_chars = 8192, generation_max_output_chars = 4296,
     generation_timeout_seconds = 10, generation_lease_seconds = 60, repos = []\<rparr>"

lemma default_settings_valid: "valid_settings default_settings"
  by (simp add: valid_settings_def fields_ok_def validate_bounds_def between_def default_settings_def)

lemma valid_lease_bounds:
  assumes "valid_settings s"
  shows "0 < handoff_claim_lease_min_seconds s"
    and "handoff_claim_lease_min_seconds s \<le> handoff_claim_lease_default_seconds s"
    and "handoff_claim_lease_default_seconds s \<le> handoff_claim_lease_max_seconds s"
    and "handoff_claim_lease_max_seconds s \<le> 86400"
  using assms by (auto simp: valid_settings_def fields_ok_def validate_bounds_def between_def split: if_splits)

subsection \<open>Configuration files\<close>

text \<open>
  \<open>_flatten_dict\<close> with the entries in the order Python inserts them; a later entry for a
  key replaces the value of the earlier one.
\<close>

fun flatten_dict :: "string \<Rightarrow> dict \<Rightarrow> dict"
  and flatten_value :: "string \<Rightarrow> pyval \<Rightarrow> dict \<Rightarrow> dict" where
  "flatten_dict prefix [] = []"
| "flatten_dict prefix ((k, v) # d) =
     flatten_value (if prefix = [] then k else prefix @ ''.'' @ k) v (flatten_dict prefix d)"
| "flatten_value path (PDict e) rest = flatten_dict path e @ rest"
| "flatten_value path v rest = (path, v) # rest"

definition last_value :: "dict \<Rightarrow> string \<Rightarrow> pyval option" where
  "last_value d k = map_of (rev d) k"

definition CONFIG_KEYS :: "(string \<times> string) list" where
  "CONFIG_KEYS =
     [(''database_url'', ''database_url''), (''server.mode'', ''mode''), (''server.host'', ''host''),
      (''server.port'', ''port''), (''storage.max_archive_bytes'', ''max_archive_bytes''),
      (''storage.max_archive_uncompressed_bytes'', ''max_archive_uncompressed_bytes''),
      (''storage.max_archive_members'', ''max_archive_members''),
      (''server.max_http_request_bytes'', ''max_http_request_bytes''), (''auth.enabled'', ''auth_enabled''),
      (''auth.token_header'', ''auth_token_header''), (''auth.static_token'', ''auth_static_token''),
      (''handoff.default_expiry_hours'', ''handoff_default_expiry_hours''),
      (''handoff.max_raw_output_bytes'', ''handoff_max_raw_output_bytes''),
      (''handoff.claim_lease_min_seconds'', ''handoff_claim_lease_min_seconds''),
      (''handoff.claim_lease_default_seconds'', ''handoff_claim_lease_default_seconds''),
      (''handoff.claim_lease_max_seconds'', ''handoff_claim_lease_max_seconds''),
      (''db.pool_min'', ''db_pool_min''), (''db.pool_max'', ''db_pool_max''), (''repos'', ''repos''),
      (''retrieval.strategy'', ''retrieval_strategy''), (''generation.enabled'', ''generation_enabled''),
      (''generation.max_input_chars'', ''generation_max_input_chars''),
      (''generation.max_output_chars'', ''generation_max_output_chars''),
      (''generation.timeout_seconds'', ''generation_timeout_seconds''),
      (''generation.lease_seconds'', ''generation_lease_seconds'')]"

definition MODEL_FIELDS :: "string list" where
  "MODEL_FIELDS = map snd CONFIG_KEYS @ [''entra'', ''github'']"

definition flatten_config :: "dict \<Rightarrow> dict" where
  "flatten_config d =
     (let flat = flatten_dict [] d;
          mapped = List.map_filter (\<lambda>(j, s). map_option (Pair s) (last_value flat j)) CONFIG_KEYS;
          auth = dict_of (py_get d ''auth'');
          nested = mapped @ List.map_filter (\<lambda>k. map_option (Pair k) (map_of auth k)) [''entra'', ''github'']
      in nested @ filter (\<lambda>e. fst e \<in> set MODEL_FIELDS \<and> fst e \<notin> fst ` set nested) d)"

end
