(* ===== verification/Handoff_Validation.thy ===== *)
theory Handoff_Validation
  imports Settings
begin

text \<open>
  The checks a handoff passes before it is stored: the Task and Result envelopes
  (handoff/validation.py) and the continuation package (handoff/continuation.py). A check
  list gives the checks in the order of the code, each with its error.
\<close>

subsection \<open>The arguments of a push\<close>

text \<open>
  The arguments after the tool schema has accepted them: required fields are present,
  optional ones may be missing.
\<close>

record push_args =
  pa_project_id :: string
  pa_unit_id :: string
  pa_phase_attempt_id :: string
  pa_phase_id :: string
  pa_result_status :: string
  pa_classification :: classification
  pa_task_summary :: "string option"
  pa_passed_checks :: "string list option"
  pa_artifacts_produced :: "pyval option"
  pa_handoff_note :: "string option"
  pa_task_envelope :: pyval
  pa_result_envelope :: pyval
  pa_context_digest :: string
  pa_raw_output :: "string option"
  pa_lock_snapshot_digest :: string
  pa_envelope_digest :: string
  pa_recipient_user_id :: "string option"
  pa_continuation :: "pyval option"
  pa_compatibility_digest :: "string option"

subsection \<open>Envelopes\<close>

definition validation_error :: "string \<Rightarrow> (string \<times> pyval) list \<Rightarrow> mem_error" where
  "validation_error msg details = memory_tool_error msg ''MEM-HANDOFF-0003'' details 400"

text \<open>
  \<open>_COMMON_REQUIRED\<close> is a Python set; where the code iterates over it, the order decides
  only which of several missing values the error names.
\<close>

definition COMMON_REQUIRED :: "string list" where
  "COMMON_REQUIRED = [''correlation_id'', ''operation_id'', ''work_bundle_id'', ''unit_id'', ''phase_attempt_id'']"

definition TASK_REQUIRED :: "string list" where
  "TASK_REQUIRED = COMMON_REQUIRED @
     [''type'', ''task_id'', ''role'', ''objective'', ''acceptance_criteria'', ''allowed_actions'',
      ''forbidden_actions'', ''required_outputs'', ''workspace_root'', ''lock_snapshot_digest'',
      ''context_bundle_ref'', ''context_bundle_digest'', ''result_path'', ''deadline'']"

definition RESULT_REQUIRED :: "string list" where
  "RESULT_REQUIRED = COMMON_REQUIRED @
     [''type'', ''task_id'', ''status'', ''summary'', ''outputs'', ''evidence_refs'', ''unresolved'',
      ''context_usage'', ''raw_output_ref'', ''raw_output_digest'', ''started_at'', ''ended_at'']"

definition missing_keys :: "string list \<Rightarrow> (string \<times> pyval) list \<Rightarrow> string list" where
  "missing_keys required d = sort (filter (\<lambda>k. k \<notin> fst ` set d) required)"

definition require_object :: "pyval \<Rightarrow> string list \<Rightarrow> string \<Rightarrow> (bool \<times> mem_error) list" where
  "require_object v required expected =
     (let d = dict_of v
      in [(\<not> is_dict v, validation_error (expected @ '' must be an object'') []),
          (missing_keys required d \<noteq> [],
             validation_error (expected @ '' is missing required fields'')
               [(''missing'', strs (missing_keys required d))]),
          (\<not> py_eq (py_get d ''type'') (PStr expected),
             validation_error (''envelope type must be '' @ expected) [])]
         @ map (\<lambda>k. (\<not> nonempty_str (py_get d k),
                       validation_error (expected @ ''.'' @ k @ '' must be a non-empty string'') []))
             (COMMON_REQUIRED @ [''task_id'']))"

definition zulu_to_offset :: "string \<Rightarrow> string" where
  \<comment> \<open>\<open>value.replace("Z", "+00:00")\<close>\<close>
  "zulu_to_offset s = concat (map (\<lambda>c. if c = CHR ''Z'' then ''+00:00'' else [c]) s)"

definition ends_with_Z :: "pyval \<Rightarrow> bool" where
  "ends_with_Z v = (case v of PStr s \<Rightarrow> s \<noteq> [] \<and> last s = CHR ''Z'' | _ \<Rightarrow> False)"

definition parse_zulu :: "platform \<Rightarrow> pyval \<Rightarrow> iso_time option" where
  "parse_zulu P v = fromisoformat P (zulu_to_offset (str_of v))"

definition validate_timestamp :: "platform \<Rightarrow> pyval \<Rightarrow> string \<Rightarrow> (bool \<times> mem_error) list" where
  "validate_timestamp P v field =
     [(\<not> ends_with_Z v, validation_error (field @ '' must be a UTC timestamp'') []),
      (parse_zulu P v = None, validation_error (field @ '' is not a valid timestamp'') [])]"

definition is_hex_digit :: "char \<Rightarrow> bool" where
  "is_hex_digit c \<longleftrightarrow> CHR ''0'' \<le> c \<and> c \<le> CHR ''9'' \<or> CHR ''a'' \<le> c \<and> c \<le> CHR ''f''"

definition is_digest :: "string \<Rightarrow> bool" where
  \<comment> \<open>\<open>^sha256:[0-9a-f]{64}$\<close>\<close>
  "is_digest s \<longleftrightarrow> take 7 s = ''sha256:'' \<and> length s = 71 \<and> list_all is_hex_digit (drop 7 s)"

definition validate_digest :: "pyval \<Rightarrow> string \<Rightarrow> (bool \<times> mem_error) list" where
  "validate_digest v field =
     [(\<not> (is_str v \<and> is_digest (str_of v)), validation_error (field @ '' must be a sha256 digest'') [])]"

definition validate_strings :: "string \<Rightarrow> (string \<times> pyval) list \<Rightarrow> string \<Rightarrow> (bool \<times> mem_error) list" where
  "validate_strings name d field =
     (let v = py_get d field; xs = list_of v
      in [(\<not> ((case v of PList _ \<Rightarrow> True | _ \<Rightarrow> False) \<and> list_all nonempty_str xs),
             validation_error (name @ ''.'' @ field @ '' must be an array of non-empty strings'') []),
          (\<not> distinct (map str_of xs),
             validation_error (name @ ''.'' @ field @ '' must contain unique values'') [])])"

definition negative_int :: "pyval \<Rightarrow> bool" where
  "negative_int v = (case v of PInt n \<Rightarrow> n < 0 | _ \<Rightarrow> False)"

definition context_usage_ok :: "pyval \<Rightarrow> bool" where
  "context_usage_ok v =
     (let d = dict_of v
      in is_dict v \<and> fst ` set d = {''mode'', ''used'', ''capacity''}
         \<and> py_get d ''mode'' \<in> {PStr ''exact'', PStr ''estimated'', PStr ''unavailable''}
         \<and> is_int (py_get d ''used'') \<and> is_int (py_get d ''capacity'')
         \<and> \<not> negative_int (py_get d ''used'') \<and> \<not> negative_int (py_get d ''capacity''))"

definition bytes_digest :: "platform \<Rightarrow> string \<Rightarrow> string" where
  \<comment> \<open>the digest of a text, encoded as it is\<close>
  "bytes_digest P s = ''sha256:'' @ sha256 P (utf8 s)"

text \<open>
  Comparing a naive with an aware time raises a TypeError; a date without a time, as
  \<open>2024-01-01Z\<close>, parses as naive.
\<close>

definition ended_before :: "iso_time option \<Rightarrow> iso_time option \<Rightarrow> bool" where
  "ended_before ended started =
     (case (ended, started) of
        (Some (Naive e), Some (Naive s)) \<Rightarrow> e < s
      | (Some (Aware e), Some (Aware s)) \<Rightarrow> e < s
      | _ \<Rightarrow> False)"

definition incomparable :: "iso_time option \<Rightarrow> iso_time option \<Rightarrow> bool" where
  "incomparable ended started =
     (case (ended, started) of
        (Some (Naive _), Some (Aware _)) \<Rightarrow> True
      | (Some (Aware _), Some (Naive _)) \<Rightarrow> True
      | _ \<Rightarrow> False)"

definition CORRELATED :: "string list" where
  "CORRELATED = [''correlation_id'', ''work_bundle_id'', ''unit_id'', ''phase_attempt_id'', ''session_id'', ''task_id'']"

definition envelope_checks :: "platform \<Rightarrow> push_args \<Rightarrow> (bool \<times> mem_error) list" where
  "envelope_checks P a =
     (let tv = pa_task_envelope a; rv = pa_result_envelope a; t = dict_of tv; r = dict_of rv;
          ended = parse_zulu P (py_get r ''ended_at''); started = parse_zulu P (py_get r ''started_at'')
      in require_object tv TASK_REQUIRED ''task_envelope''
         @ require_object rv RESULT_REQUIRED ''result_envelope''
         @ map (\<lambda>k. (\<not> py_eq (py_get t k) (py_get r k),
              validation_error ''Task/Result correlation mismatch'' [(''field'', PStr k)])) CORRELATED
         @ [(\<not> py_eq (py_get t ''unit_id'') (PStr (pa_unit_id a)),
              validation_error ''Handoff scope differs from Task envelope'' [(''field'', PStr ''unit_id'')]),
            (\<not> py_eq (py_get t ''phase_attempt_id'') (PStr (pa_phase_attempt_id a)),
              validation_error ''Handoff scope differs from Task envelope'' [(''field'', PStr ''phase_attempt_id'')]),
            (py_get r ''status'' \<notin> {PStr ''succeeded'', PStr ''failed'', PStr ''cancelled'', PStr ''lost''},
              validation_error ''Result status is invalid'' []),
            (\<not> py_eq (py_get r ''status'') (PStr (pa_result_status a)),
              validation_error ''result_status differs from Result envelope status'' [])]
         @ validate_digest (py_get t ''lock_snapshot_digest'') ''task_envelope.lock_snapshot_digest''
         @ validate_digest (py_get t ''context_bundle_digest'') ''task_envelope.context_bundle_digest''
         @ validate_digest (py_get r ''raw_output_digest'') ''result_envelope.raw_output_digest''
         @ [(\<not> py_eq (py_get t ''lock_snapshot_digest'') (PStr (pa_lock_snapshot_digest a)),
              validation_error ''lock_snapshot_digest differs from Task envelope'' []),
            (\<not> py_eq (py_get t ''context_bundle_digest'') (PStr (pa_context_digest a)),
              validation_error ''context_digest differs from Task context bundle digest'' [])]
         @ validate_timestamp P (py_get t ''deadline'') ''task_envelope.deadline''
         @ validate_timestamp P (py_get r ''started_at'') ''result_envelope.started_at''
         @ validate_timestamp P (py_get r ''ended_at'') ''result_envelope.ended_at''
         @ [(incomparable ended started, unhandled ''TypeError''),
            (ended_before ended started, validation_error ''Result ended_at precedes started_at'' [])]
         @ concat (map (validate_strings ''task_envelope'' t)
              [''acceptance_criteria'', ''allowed_actions'', ''forbidden_actions'', ''required_outputs''])
         @ concat (map (validate_strings ''result_envelope'' r) [''outputs'', ''evidence_refs'', ''unresolved''])
         @ [(\<not> context_usage_ok (py_get r ''context_usage''),
              validation_error ''result_envelope.context_usage is invalid'' []),
            ((case pa_raw_output a of None \<Rightarrow> False
              | Some raw \<Rightarrow> \<not> py_eq (py_get r ''raw_output_digest'') (PStr (bytes_digest P raw))),
              validation_error ''raw_output does not match Result raw_output_digest''
                [(''computed'', PStr (bytes_digest P (case pa_raw_output a of None \<Rightarrow> [] | Some raw \<Rightarrow> raw)))])])"

definition validate_envelopes :: "platform \<Rightarrow> push_args \<Rightarrow> unit outcome" where
  "validate_envelopes P a = checked (envelope_checks P a) ()"

end
