(* ===== verification/Handoff_Continuation.thy ===== *)
theory Handoff_Continuation
  imports Handoff_Validation Handoff_Store
begin

text \<open>
  The continuation package of a version-2 handoff (handoff/continuation.py): its JSON
  schema, the checks the schema cannot express, and the delivery fields of a claimed row.
\<close>

subsection \<open>Schemas\<close>

definition backslash :: char where "backslash = char_of (92 :: nat)"

definition regex_escape :: "char \<Rightarrow> string" where "regex_escape c = [backslash, c]"

definition not_pattern :: "string \<Rightarrow> string \<times> pyval" where
  "not_pattern p = (''not'', PDict [(''pattern'', PStr p)])"

definition str_schema :: "int \<Rightarrow> int \<Rightarrow> string \<Rightarrow> (string \<times> pyval) list" where
  "str_schema lo hi p = [(''type'', PStr ''string''), (''minLength'', PInt lo), (''maxLength'', PInt hi), (''pattern'', PStr p)]"

definition OPAQUE_SCHEMA :: pyval where
  "OPAQUE_SCHEMA = PDict (str_schema 1 128 ''^[A-Za-z0-9][A-Za-z0-9_.-]*$'' @ [not_pattern (regex_escape CHR ''s'')])"

definition TEXT_SCHEMA :: pyval where
  "TEXT_SCHEMA = PDict (str_schema 1 2048 (regex_escape CHR ''S''))"

definition TEXT_LIST_SCHEMA :: "(string \<times> pyval) list" where
  "TEXT_LIST_SCHEMA = [(''type'', PStr ''array''), (''items'', TEXT_SCHEMA), (''maxItems'', PInt 20), (''uniqueItems'', PBool True)]"

definition control_chars :: string where
  "control_chars = regex_escape CHR ''x'' @ ''00-'' @ regex_escape CHR ''x'' @ ''1f'' @ regex_escape CHR ''x'' @ ''7f''"

definition RECIPIENT_SCHEMA :: pyval where
  "RECIPIENT_SCHEMA = PDict (str_schema 1 128 (''^[^'' @ regex_escape CHR ''s'' @ control_chars @ '']+$'')
     @ [not_pattern (regex_escape CHR ''s'')])"

definition closed_object :: "string list \<Rightarrow> (string \<times> pyval) list \<Rightarrow> pyval" where
  "closed_object required props = PDict [(''type'', PStr ''object''), (''additionalProperties'', PBool False),
     (''required'', strs required), (''properties'', PDict props)]"

definition pattern_schema :: "string \<Rightarrow> (string \<times> pyval) list" where
  "pattern_schema p = [(''type'', PStr ''string''), (''pattern'', PStr p)]"

definition const_schema :: "string \<Rightarrow> pyval" where
  "const_schema s = PDict [(''const'', PStr s)]"

definition GIT_SOURCE :: pyval where
  "GIT_SOURCE = closed_object [''source_id'', ''commit'']
     [(''source_id'', OPAQUE_SCHEMA),
      (''commit'', PDict (pattern_schema ''^(?:[0-9a-f]{40}|[0-9a-f]{64})$'' @ [not_pattern (regex_escape CHR ''s'')])),
      (''branch'', PDict (str_schema 1 128 (''^[^'' @ control_chars @ '']+$'')))]"

definition DIRECTORY_SOURCE :: pyval where
  "DIRECTORY_SOURCE = closed_object [''source_id'', ''kind'']
     [(''source_id'', OPAQUE_SCHEMA), (''kind'', const_schema ''directory'')]"

definition WORKSPACE_SCHEMA :: pyval where
  "WORKSPACE_SCHEMA = PDict [(''oneOf'', PList
     [closed_object [''state''] [(''state'', const_schema ''clean'')],
      closed_object [''state'', ''snapshot_artifact_id'']
        [(''state'', const_schema ''captured''), (''snapshot_artifact_id'', OPAQUE_SCHEMA)],
      closed_object [''state'', ''reason''] [(''state'', const_schema ''unavailable''), (''reason'', TEXT_SCHEMA)]])]"

definition ARTIFACTS_SCHEMA :: pyval where
  "ARTIFACTS_SCHEMA = PDict [(''type'', PStr ''array''), (''maxItems'', PInt 20), (''items'',
     closed_object [''id'', ''source_id'', ''reference'', ''kind'', ''digest'', ''size_bytes'']
       [(''id'', OPAQUE_SCHEMA), (''source_id'', OPAQUE_SCHEMA), (''reference'', OPAQUE_SCHEMA),
        (''kind'', PDict [(''enum'', strs [''workspace_snapshot'', ''output'', ''evidence''])]),
        (''digest'', PDict (pattern_schema ''^sha256:[0-9a-f]{64}$'' @ [not_pattern (regex_escape CHR ''s'')])),
        (''size_bytes'', PDict [(''type'', PStr ''integer''), (''minimum'', PInt 1), (''maximum'', PInt 104857600)])])]"

definition CONTINUATION_SCHEMA :: pyval where
  "CONTINUATION_SCHEMA = PDict
     [(''type'', PStr ''object''), (''additionalProperties'', PBool False),
      (''required'', strs [''schema_version'', ''goal'', ''verified_state'', ''repository'', ''workspace'',
         ''artifacts'', ''remaining_work'', ''next_steps'', ''blockers'']),
      (''properties'', PDict
        [(''schema_version'', PDict [(''type'', PStr ''integer''), (''enum'', PList [PInt 1, PInt 2])]),
         (''compatibility_digest'', PDict (pattern_schema ''^sha256:[0-9a-f]{64}$'')),
         (''goal'', TEXT_SCHEMA), (''verified_state'', TEXT_SCHEMA), (''remaining_work'', PDict TEXT_LIST_SCHEMA),
         (''next_steps'', PDict (TEXT_LIST_SCHEMA @ [(''minItems'', PInt 1)])),
         (''blockers'', PDict TEXT_LIST_SCHEMA), (''decisions'', PDict TEXT_LIST_SCHEMA),
         (''repository'', PDict [(''oneOf'', PList [GIT_SOURCE, DIRECTORY_SOURCE])]),
         (''workspace'', WORKSPACE_SCHEMA), (''artifacts'', ARTIFACTS_SCHEMA)]),
      (''allOf'', PList [PDict
        [(''if'', PDict [(''properties'', PDict [(''schema_version'', PDict [(''const'', PInt 1)])])]),
         (''then'', PDict [(''properties'', PDict [(''repository'', GIT_SOURCE)])]),
         (''else'', PDict [(''properties'', PDict [(''repository'', DIRECTORY_SOURCE),
            (''workspace'', PDict [(''properties'', PDict [(''state'',
               PDict [(''enum'', strs [''captured'', ''unavailable''])])])])])])]])]"

subsection \<open>Validation\<close>

definition continuation_invalid :: "string \<Rightarrow> mem_error" where
  "continuation_invalid msg = memory_tool_error msg ''MEM-HANDOFF-0012'' [] 400"

definition artifact_ids :: "pyval \<Rightarrow> string list" where
  "artifact_ids package = map (\<lambda>x. str_of (py_get (dict_of x) ''id'')) (list_of (py_get (dict_of package) ''artifacts''))"

text \<open>The dict comprehension keeps the last item of an id.\<close>

definition artifact_named :: "pyval \<Rightarrow> string \<Rightarrow> pyval option" where
  "artifact_named package i =
     fetchrow (\<lambda>x. str_of (py_get (dict_of x) ''id'') = i)
       (rev (list_of (py_get (dict_of package) ''artifacts'')))"

definition workspace_of :: "pyval \<Rightarrow> (string \<times> pyval) list" where
  "workspace_of package = dict_of (py_get (dict_of package) ''workspace'')"

definition snapshot_declared :: "pyval \<Rightarrow> bool" where
  "snapshot_declared package =
     (case artifact_named package (str_of (py_get (workspace_of package) ''snapshot_artifact_id'')) of
        None \<Rightarrow> False
      | Some x \<Rightarrow> py_eq (py_get (dict_of x) ''kind'') (PStr ''workspace_snapshot''))"

definition validate_continuation :: "platform \<Rightarrow> pyval \<Rightarrow> string outcome" where
  "validate_continuation P package =
     checked
       [(\<not> schema_valid P CONTINUATION_SCHEMA package, continuation_invalid ''Invalid continuation schema''),
        (65536 < length (canonical P package),
           continuation_invalid ''Continuation exceeds the 64 KiB canonical payload limit''),
        (length (remdups (artifact_ids package)) \<noteq> length (artifact_ids package),
           continuation_invalid ''Continuation artifact IDs must be unique''),
        (py_eq (py_get (workspace_of package) ''state'') (PStr ''captured'') \<and> \<not> snapshot_declared package,
           continuation_invalid ''Captured workspace must reference a declared workspace snapshot'')]
       (digest P package)"

lemma validate_continuation_Inr_iff:
  "validate_continuation P package = Inr d \<longleftrightarrow>
     d = digest P package \<and> schema_valid P CONTINUATION_SCHEMA package
     \<and> length (canonical P package) \<le> 65536 \<and> distinct (artifact_ids package)
     \<and> (py_get (workspace_of package) ''state'' = PStr ''captured'' \<longrightarrow> snapshot_declared package)"
  by (auto simp: validate_continuation_def distinct_card length_remdups_card_conv
      intro: card_distinct)

subsection \<open>Delivery\<close>

definition blocked_reasons :: "pyval option \<Rightarrow> string list" where
  "blocked_reasons package =
     (case package of
        None \<Rightarrow> [''continuation_missing'']
      | Some p \<Rightarrow>
          (if py_eq (py_get (workspace_of p) ''state'') (PStr ''unavailable'') then [''workspace_unavailable''] else [])
          @ (if list_of (py_get (dict_of p) ''blockers'') \<noteq> [] then [''sender_blockers''] else []))"

definition opt_val :: "pyval option \<Rightarrow> pyval" where
  "opt_val v = (case v of None \<Rightarrow> PNone | Some x \<Rightarrow> x)"

definition delivery_fields :: "handoff \<Rightarrow> (string \<times> pyval) list" where
  "delivery_fields r =
     (let c = h_content r; reasons = blocked_reasons (hc_continuation c)
      in if hc_handoff_version c = 1 then []
         else [(''handoff_version'', PInt 2), (''recipient_user_id'', opt_str (hc_recipient_user_id c)),
           (''continuation'', opt_val (hc_continuation c)),
           (''continuation_digest'', opt_str (hc_continuation_digest c)),
           (''payload_digest'', PStr (hc_payload_digest c)),
           (''preflight'', PDict
             [(''status'', PStr (if reasons \<noteq> [] then ''blocked'' else ''verification_required'')),
              (''blocked_reasons'', strs reasons),
              (''required_checks'', strs [''claim_identity_and_lease'', ''payload_integrity'', ''source_lock_policy'',
                 ''repository_commit'', ''artifact_access_size_digest'', ''isolated_workspace'',
                 ''local_checks_and_approval'', ''lease_recheck'']),
              (''automatic_resume'', PBool False)])])"

end
