(* ===== verification/Handoff_Service.thy ===== *)
theory Handoff_Service
  imports Handoff_Continuation
begin

text \<open>
  The handoff operations of handoff/service.py: what a client calls, from the validated
  arguments to the answer. A datetime in an answer stands for its ISO form; \<open>now\<close> is the
  application's clock, \<open>clk\<close> that of the database transaction.
\<close>

subsection \<open>Push\<close>

definition compute_envelope_digest :: "platform \<Rightarrow> pyval \<Rightarrow> pyval \<Rightarrow> string" where
  "compute_envelope_digest P task result = ''sha256:'' @ sha256 P (canonical P task @ canonical P result)"

definition push_version :: "push_args \<Rightarrow> nat" where
  "push_version a = (if pa_recipient_user_id a \<noteq> None \<or> pa_continuation a \<noteq> None then 2 else 1)"

definition checks_val :: "push_args \<Rightarrow> pyval" where
  "checks_val a = (case pa_passed_checks a of None \<Rightarrow> PList [] | Some xs \<Rightarrow> strs xs)"

definition artifacts_val :: "push_args \<Rightarrow> pyval" where
  "artifacts_val a = (case pa_artifacts_produced a of None \<Rightarrow> PList [] | Some v \<Rightarrow> v)"

definition payload_material :: "push_args \<Rightarrow> string \<Rightarrow> string option \<Rightarrow> (string \<times> pyval) list" where
  "payload_material a from_user continuation_digest =
     [(''project_id'', PStr (pa_project_id a)), (''unit_id'', PStr (pa_unit_id a)),
      (''phase_attempt_id'', PStr (pa_phase_attempt_id a)), (''phase_id'', PStr (pa_phase_id a)),
      (''from_user'', PStr from_user), (''result_status'', PStr (pa_result_status a)),
      (''classification'', PStr (class_str (pa_classification a))),
      (''task_summary'', opt_str (pa_task_summary a)), (''passed_checks'', checks_val a),
      (''artifacts_produced'', artifacts_val a), (''handoff_note'', opt_str (pa_handoff_note a)),
      (''task_envelope'', pa_task_envelope a), (''result_envelope'', pa_result_envelope a),
      (''context_digest'', PStr (pa_context_digest a)), (''raw_output'', opt_str (pa_raw_output a)),
      (''lock_snapshot_digest'', PStr (pa_lock_snapshot_digest a)),
      (''envelope_digest'', PStr (pa_envelope_digest a))]
     @ (if push_version a = 2
        then [(''handoff_version'', PInt 2), (''recipient_user_id'', opt_str (pa_recipient_user_id a)),
              (''continuation'', opt_val (pa_continuation a)),
              (''continuation_digest'', opt_str continuation_digest)]
        else [])
     @ opt_entry ''compatibility_digest'' PStr (pa_compatibility_digest a)"

definition push_content :: "platform \<Rightarrow> push_args \<Rightarrow> string \<Rightarrow> string option \<Rightarrow> handoff_content" where
  "push_content P a from_user continuation_digest =
     \<lparr>hc_project_id = pa_project_id a, hc_unit_id = pa_unit_id a,
      hc_phase_attempt_id = pa_phase_attempt_id a, hc_phase_id = pa_phase_id a,
      hc_from_user = from_user, hc_result_status = pa_result_status a,
      hc_classification = pa_classification a, hc_task_summary = pa_task_summary a,
      hc_passed_checks = checks_val a, hc_artifacts_produced = artifacts_val a,
      hc_handoff_note = pa_handoff_note a, hc_task_envelope = pa_task_envelope a,
      hc_result_envelope = pa_result_envelope a, hc_context_digest = pa_context_digest a,
      hc_raw_output = pa_raw_output a, hc_lock_snapshot_digest = pa_lock_snapshot_digest a,
      hc_envelope_digest = pa_envelope_digest a,
      hc_payload_digest = digest P (PDict (payload_material a from_user continuation_digest)),
      hc_handoff_version = push_version a, hc_recipient_user_id = pa_recipient_user_id a,
      hc_continuation = pa_continuation a, hc_continuation_digest = continuation_digest,
      hc_compatibility_digest = pa_compatibility_digest a\<rparr>"

definition validate_package :: "platform \<Rightarrow> push_args \<Rightarrow> string option outcome" where
  "validate_package P a =
     (case pa_continuation a of
        None \<Rightarrow> Inr None
      | Some package \<Rightarrow> and_then (validate_continuation P package) (\<lambda>d. Inr (Some d)))"

definition prepare_push :: "platform \<Rightarrow> settings \<Rightarrow> string \<Rightarrow> push_args \<Rightarrow> handoff_content outcome" where
  \<comment> \<open>everything \<open>push_handoff\<close> does before it opens a transaction\<close>
  "prepare_push P s from_user a =
     and_then (validate_envelopes P a) (\<lambda>_.
     and_then (checked [((case pa_recipient_user_id a of None \<Rightarrow> False
                  | Some u \<Rightarrow> \<not> schema_valid P RECIPIENT_SCHEMA (PStr u)),
                 continuation_invalid ''Invalid recipient identity'')] ()) (\<lambda>_.
     and_then (validate_package P a) (\<lambda>continuation_digest.
     checked
       [(compute_envelope_digest P (pa_task_envelope a) (pa_result_envelope a) \<noteq> pa_envelope_digest a,
           memory_tool_error ''envelope_digest verification failed'' ''MEM-HANDOFF-0002''
             [(''expected'', PStr (pa_envelope_digest a)),
              (''computed'', PStr (compute_envelope_digest P (pa_task_envelope a) (pa_result_envelope a)))] 400),
        ((case pa_raw_output a of None \<Rightarrow> False
          | Some raw \<Rightarrow> handoff_max_raw_output_bytes s < int (length (utf8 raw))),
           memory_tool_error ''raw_output exceeds configured size limit'' ''MEM-HANDOFF-0004''
             [(''max_bytes'', PInt (handoff_max_raw_output_bytes s))] 400)]
       (push_content P a from_user continuation_digest))))"

definition push_answer :: "handoff_content \<Rightarrow> handoff \<Rightarrow> bool \<Rightarrow> (string \<times> pyval) list" where
  "push_answer c r exists =
     [(''handoff_id'', PStr (uuid_str (h_id r))), (''created_at'', PTime (h_created_at r)),
      (''expires_at'', (case h_expires_at r of None \<Rightarrow> PNone | Some t \<Rightarrow> PTime t)),
      (''already_exists'', PBool exists)]
     @ (if hc_handoff_version c = 2
        then [(''handoff_version'', PInt 2), (''recipient_user_id'', opt_str (hc_recipient_user_id c)),
              (''continuation_digest'', opt_str (hc_continuation_digest c))]
        else [])"

definition push_handoff ::
    "platform \<Rightarrow> settings \<Rightarrow> time \<Rightarrow> clock \<Rightarrow> uuid \<Rightarrow> string \<Rightarrow> push_args \<Rightarrow> hdb
     \<Rightarrow> (hdb \<times> (string \<times> pyval) list) outcome" where
  "push_handoff P s now clk i from_user a db =
     and_then (prepare_push P s from_user a) (\<lambda>c.
     and_then (insert_handoff i (clk 0) c (now + hours (handoff_default_expiry_hours s)) db) (\<lambda>(db', res).
       case res of
         Some r \<Rightarrow> Inr (db', push_answer c r False)
       | None \<Rightarrow>
           (case get_handoff_by_attempt (pa_project_id a) (pa_phase_attempt_id a) db' of
              None \<Rightarrow> Inl (memory_tool_error ''handoff conflict row disappeared'' ''MEM-HANDOFF-0005'' [] 400)
            | Some e \<Rightarrow>
                if hc_payload_digest (h_content e) \<noteq> hc_payload_digest c
                then Inl (memory_tool_error ''phase_attempt_id already exists with a different handoff payload''
                       ''MEM-HANDOFF-0005'' [(''handoff_id'', PStr (uuid_str (h_id e)))] 400)
                else Inr (db', push_answer c e True))))"

subsection \<open>List and legacy pull\<close>

definition list_handoffs ::
    "time \<Rightarrow> string \<Rightarrow> string \<Rightarrow> string option \<Rightarrow> nat option \<Rightarrow> uuid option \<Rightarrow> bool option \<Rightarrow> hdb
     \<Rightarrow> hdb \<times> (string \<times> pyval) list list" where
  "list_handoffs now actor project unit limit after_id exclude_own db =
     (let (db', rows) = list_pending_handoffs now project unit (case limit of None \<Rightarrow> 100 | Some n \<Rightarrow> n) after_id
                          (if exclude_own = Some True then Some actor else None) db
      in (db', map (\<lambda>r. let c = h_content r in
           [(''id'', PStr (uuid_str (h_id r))), (''unit_id'', PStr (hc_unit_id c)),
            (''phase_id'', PStr (hc_phase_id c)), (''from_user'', PStr (hc_from_user c)),
            (''result_status'', PStr (hc_result_status c)),
            (''classification'', PStr (class_str (hc_classification c))),
            (''task_summary'', opt_str (hc_task_summary c)), (''handoff_note'', opt_str (hc_handoff_note c)),
            (''created_at'', PTime (h_created_at r)),
            (''expires_at'', (case h_expires_at r of None \<Rightarrow> PNone | Some t \<Rightarrow> PTime t))]) rows))"

definition opt_time :: "time option \<Rightarrow> pyval" where
  "opt_time t = (case t of None \<Rightarrow> PNone | Some x \<Rightarrow> PTime x)"

definition content_fields :: "handoff \<Rightarrow> (string \<times> pyval) list" where
  \<comment> \<open>the entries both claim answers have, from \<open>handoff_id\<close> to \<open>claimed_at\<close>\<close>
  "content_fields r =
     (let c = h_content r in
      (case hc_compatibility_digest c of None \<Rightarrow> [] | Some d \<Rightarrow>
         if d = [] then [] else [(''compatibility_digest'', PStr d)])
      @ [(''handoff_id'', PStr (uuid_str (h_id r))), (''project_id'', PStr (hc_project_id c)),
       (''unit_id'', PStr (hc_unit_id c)), (''phase_attempt_id'', PStr (hc_phase_attempt_id c)),
       (''phase_id'', PStr (hc_phase_id c)), (''from_user'', PStr (hc_from_user c)),
       (''result_status'', PStr (hc_result_status c)),
       (''classification'', PStr (class_str (hc_classification c))),
       (''task_summary'', opt_str (hc_task_summary c)), (''handoff_note'', opt_str (hc_handoff_note c)),
       (''passed_checks'', hc_passed_checks c), (''artifacts_produced'', hc_artifacts_produced c),
       (''task_envelope'', hc_task_envelope c), (''result_envelope'', hc_result_envelope c),
       (''context_digest'', PStr (hc_context_digest c)), (''raw_output'', opt_str (hc_raw_output c)),
       (''lock_snapshot_digest'', PStr (hc_lock_snapshot_digest c)),
       (''envelope_digest'', PStr (hc_envelope_digest c)),
       (''claimed_by'', opt_str (h_claimed_by r)), (''claimed_at'', opt_time (h_claimed_at r))])"

definition scope_project :: "string option \<Rightarrow> string \<Rightarrow> string" where
  \<comment> \<open>\<open>authorized_project_id or arguments["project_id"]\<close>: an empty string is false\<close>
  "scope_project authorized project =
     (case authorized of None \<Rightarrow> project | Some p \<Rightarrow> if p = [] then project else p)"

definition no_handoff :: "string \<Rightarrow> string \<Rightarrow> uuid \<Rightarrow> mem_error" where
  "no_handoff msg code i = memory_tool_error msg code [(''handoff_id'', PStr (uuid_str i))] 400"

definition pull_handoff ::
    "time \<Rightarrow> string \<Rightarrow> string option \<Rightarrow> string option \<Rightarrow> uuid \<Rightarrow> hdb \<Rightarrow> (hdb \<times> (string \<times> pyval) list) outcome" where
  "pull_handoff now actor authorized project i db =
     (let scope = (case authorized of None \<Rightarrow> project | Some p \<Rightarrow> if p = [] then project else Some p)
      in case claim_handoff now i actor scope db of
           (db', None) \<Rightarrow> Inl (no_handoff ''Handoff not found, expired, outside project scope, or already claimed''
                              ''MEM-HANDOFF-0001'' i)
         | (db', Some r) \<Rightarrow> Inr (db', content_fields r @ [(''expires_at'', opt_time (h_expires_at r))]))"

subsection \<open>Recoverable claims\<close>

record claim_args =
  ca_project_id :: string
  ca_handoff_id :: uuid
  ca_claim_token :: string
  ca_lease_seconds :: "int option"
  ca_accept_handoff_version :: "nat option"

definition recoverable_result :: "handoff \<Rightarrow> (string \<times> pyval) list" where
  "recoverable_result r =
     delivery_fields r @ content_fields r
     @ [(''lease_expires_at'', opt_time (h_claim_lease_expires_at r)),
        (''claim_generation'', PInt (int (h_claim_generation r))),
        (''expires_at'', opt_time (h_expires_at r))]"

definition lease_of :: "settings \<Rightarrow> claim_args \<Rightarrow> int" where
  "lease_of s a = (case ca_lease_seconds a of None \<Rightarrow> handoff_claim_lease_default_seconds s | Some n \<Rightarrow> n)"

definition claim_handoff_recoverable ::
    "platform \<Rightarrow> settings \<Rightarrow> clock \<Rightarrow> string \<Rightarrow> string option \<Rightarrow> claim_args \<Rightarrow> hdb
     \<Rightarrow> (hdb \<times> (string \<times> pyval) list) outcome" where
  "claim_handoff_recoverable P s clk actor authorized a db =
     (if \<not> (handoff_claim_lease_min_seconds s \<le> lease_of s a \<and> lease_of s a \<le> handoff_claim_lease_max_seconds s)
      then Inl (memory_tool_error ''Requested handoff lease is outside configured bounds'' ''MEM-HANDOFF-0006''
             [(''minimum_seconds'', PInt (handoff_claim_lease_min_seconds s)),
              (''maximum_seconds'', PInt (handoff_claim_lease_max_seconds s))] 400)
      else case claim_handoff_lease clk (ca_handoff_id a) (scope_project authorized (ca_project_id a)) actor
                  (token_digest P (ca_claim_token a)) (lease_of s a)
                  (case ca_accept_handoff_version a of None \<Rightarrow> 1 | Some v \<Rightarrow> v) db of
             (db', None) \<Rightarrow> Inl (no_handoff ''Handoff is unavailable for this project, actor, and claim token''
                                ''MEM-HANDOFF-0007'' (ca_handoff_id a))
           | (db', Some (r, replayed)) \<Rightarrow>
               Inr (db', recoverable_result r @ [(''claim_replayed'', PBool replayed)]))"

definition get_claimed ::
    "platform \<Rightarrow> clock \<Rightarrow> string \<Rightarrow> string option \<Rightarrow> string \<Rightarrow> uuid \<Rightarrow> string \<Rightarrow> hdb \<Rightarrow> (string \<times> pyval) list outcome" where
  "get_claimed P clk actor authorized project i token db =
     (case get_claimed_handoff clk i (scope_project authorized project) actor (token_digest P token) db of
        None \<Rightarrow> Inl (no_handoff ''No active handoff lease matches this project, actor, and claim token''
                      ''MEM-HANDOFF-0007'' i)
      | Some r \<Rightarrow> Inr (recoverable_result r))"

definition acknowledge_claimed_handoff ::
    "platform \<Rightarrow> clock \<Rightarrow> string \<Rightarrow> string option \<Rightarrow> string \<Rightarrow> uuid \<Rightarrow> string \<Rightarrow> nat \<Rightarrow> hdb
     \<Rightarrow> (hdb \<times> (string \<times> pyval) list) outcome" where
  "acknowledge_claimed_handoff P clk actor authorized project i token generation db =
     (case acknowledge_handoff clk i (scope_project authorized project) actor (token_digest P token) generation db of
        (db', None) \<Rightarrow> Inl (no_handoff ''Handoff acknowledgement does not match an active or completed claim''
                           ''MEM-HANDOFF-0008'' i)
      | (db', Some (g, already)) \<Rightarrow>
          Inr (db', [(''handoff_id'', PStr (uuid_str i)), (''claim_generation'', PInt (int g)),
            (''acknowledged'', PBool True), (''already_acknowledged'', PBool already)]))"

definition nack_claimed_handoff ::
    "platform \<Rightarrow> clock \<Rightarrow> string \<Rightarrow> string option \<Rightarrow> string \<Rightarrow> uuid \<Rightarrow> string \<Rightarrow> nat \<Rightarrow> string \<Rightarrow> hdb
     \<Rightarrow> (hdb \<times> (string \<times> pyval) list) outcome" where
  "nack_claimed_handoff P clk actor authorized project i token generation reason db =
     (case nack_handoff clk i (scope_project authorized project) actor (token_digest P token) generation reason db of
        (db', None) \<Rightarrow> Inl (no_handoff ''Handoff rejection does not match an active or completed claim''
                           ''MEM-HANDOFF-0008'' i)
      | (db', Some (g, already)) \<Rightarrow>
          Inr (db', [(''handoff_id'', PStr (uuid_str i)), (''claim_generation'', PInt (int g)),
            (''nacked'', PBool True), (''already_nacked'', PBool already), (''reason_code'', PStr reason)]))"

end
