(* ===== verification/Pagination.thy ===== *)
theory Pagination
  imports Py_Json
begin

text \<open>
  Keyset pages, newest first, and the cursors that continue them (experience/pagination.py).
  A cursor is the payload \<open>encode\<close> writes; its URL-safe base64 form is not modelled, so the
  text errors of \<open>decode\<close> are not either.
\<close>

subsection \<open>Cursors\<close>

record cursor =
  cur_v :: int
  cur_scope :: "string list"
  cur_at :: time
  cur_id :: uuid

definition encode_cursor :: "time \<times> uuid \<Rightarrow> string list \<Rightarrow> cursor" where
  "encode_cursor pos scope = \<lparr>cur_v = 1, cur_scope = scope, cur_at = fst pos, cur_id = snd pos\<rparr>"

definition cursor_error :: mem_error where
  "cursor_error = memory_tool_error ''Invalid cursor for this project and view'' ''MEM-EXPERIENCE-0010'' [] 400"

definition decode_cursor :: "cursor option \<Rightarrow> string list \<Rightarrow> (time \<times> uuid) option outcome" where
  "decode_cursor c scope =
     (case c of
        None \<Rightarrow> Inr None
      | Some p \<Rightarrow> if cur_v p \<noteq> 1 \<or> cur_scope p \<noteq> scope then Inl cursor_error
                  else Inr (Some (cur_at p, cur_id p)))"

lemma decode_encode_cursor [simp]:
  "decode_cursor (Some (encode_cursor pos scope)) scope' =
     (if scope' = scope then Inr (Some pos) else Inl cursor_error)"
  by (simp add: decode_cursor_def encode_cursor_def)

subsection \<open>Pages\<close>

record 'r page =
  pg_items :: "'r list"
  pg_has_more :: bool
  pg_next_cursor :: "cursor option"

definition page :: "('r \<Rightarrow> time \<times> uuid) \<Rightarrow> 'r list \<Rightarrow> nat \<Rightarrow> string list \<Rightarrow> 'r page" where
  "page key rows limit scope =
     (let more = limit < length rows
      in \<lparr>pg_items = take limit rows, pg_has_more = more,
          pg_next_cursor = if more then Some (encode_cursor (key (rows ! (limit - 1))) scope) else None\<rparr>)"

text \<open>The page size an operation asks for, 20 unless it names one.\<close>

definition page_limit :: "dict \<Rightarrow> nat" where
  "page_limit a = nat (int_of (get_or a ''limit'' (PInt 20)))"

definition before_position :: "('r \<Rightarrow> time \<times> uuid) \<Rightarrow> (time \<times> uuid) option \<Rightarrow> 'r \<Rightarrow> bool" where
  \<comment> \<open>\<open>$5 IS NULL OR (created_at, id) < ($5, $6)\<close>\<close>
  "before_position key pos r = (case pos of None \<Rightarrow> True | Some k \<Rightarrow> key r < k)"

definition keyset_rows :: "('r \<Rightarrow> time \<times> uuid) \<Rightarrow> (time \<times> uuid) option \<Rightarrow> nat \<Rightarrow> 'r list \<Rightarrow> 'r list" where
  "keyset_rows key pos limit t = take (limit + 1) (newest_first key (filter (before_position key pos) t))"

definition keyset_page ::
    "('r \<Rightarrow> time \<times> uuid) \<Rightarrow> string list \<Rightarrow> cursor option \<Rightarrow> nat \<Rightarrow> 'r list \<Rightarrow> 'r page outcome" where
  "keyset_page key scope c limit t =
     and_then (decode_cursor c scope) (\<lambda>pos. Inr (page key (keyset_rows key pos limit t) limit scope))"

text \<open>A client that follows the cursors, for at most \<open>fuel\<close> pages.\<close>

fun follow_pages :: "nat \<Rightarrow> (cursor option \<Rightarrow> 'r page outcome) \<Rightarrow> cursor option \<Rightarrow> 'r list outcome" where
  "follow_pages 0 read c = Inr []"
| "follow_pages (Suc fuel) read c =
     and_then (read c) (\<lambda>p.
       if pg_next_cursor p = None then Inr (pg_items p)
       else and_then (follow_pages fuel read (pg_next_cursor p)) (\<lambda>xs. Inr (pg_items p @ xs)))"

subsection \<open>Following the cursors reads every row once\<close>

lemma mset_newest_first [simp]: "mset (newest_first key t) = mset t"
  by (simp add: newest_first_def)

lemma newest_first_eqI:
  assumes "mset xs = mset t" and "sorted_wrt (\<lambda>a b. key b < key a) xs"
  shows "newest_first key t = xs"
proof -
  have "sorted_wrt (<) (map key (rev xs))" using assms(2) by (simp add: sorted_wrt_rev sorted_wrt_map)
  then have d: "distinct (map key (rev xs))" and "sorted (map key (rev xs))"
    unfolding strict_sorted_iff by blast+
  from this(2) have "sort_key key (rev xs) = rev xs" by (rule sort_key_id_if_sorted)
  moreover have "sort_key key (rev xs) = sort_key key t"
    using assms(1) d by (intro sort_key_mset_unique) simp_all
  ultimately show ?thesis by (simp add: newest_first_def)
qed

lemma newest_first_strict:
  assumes "distinct (map key t)"
  shows "sorted_wrt (\<lambda>a b. key b < key a) (newest_first key t)"
proof -
  have "distinct (map key (sort_key key t))"
    using assms by (metis mset_eq_imp_distinct_iff mset_map mset_sort)
  then have "sorted_wrt (<) (map key (sort_key key t))" by (simp add: strict_sorted_iff)
  then show ?thesis by (simp add: newest_first_def sorted_wrt_rev sorted_wrt_map)
qed

lemma newest_first_filter:
  assumes "distinct (map key t)"
  shows "newest_first key (filter p t) = filter p (newest_first key t)"
proof (rule newest_first_eqI)
  show "mset (filter p (newest_first key t)) = mset (filter p t)" by simp
  show "sorted_wrt (\<lambda>a b. key b < key a) (filter p (newest_first key t))"
    using newest_first_strict [OF assms] by (rule sorted_wrt_filter)
qed

lemma filter_before_nth:
  assumes "sorted_wrt (\<lambda>a b. key b < (key a :: 'k :: linorder)) xs" and "n < length xs"
  shows "filter (\<lambda>r. key r < key (xs ! n)) xs = drop (Suc n) xs"
  using assms
proof (induction xs arbitrary: n)
  case (Cons x xs)
  show ?case
  proof (cases n)
    case 0
    have "filter (\<lambda>r. key r < key x) xs = xs" using Cons.prems by (auto simp: filter_id_conv)
    with 0 show ?thesis by simp
  next
    case (Suc m)
    then have "m < length xs" using Cons.prems(2) by simp
    then have "key (xs ! m) < key x" using Cons.prems(1) by simp
    then have "\<not> key x < key (xs ! m)" by simp
    then show ?thesis using Cons Suc \<open>m < length xs\<close> by simp
  qed
qed simp

lemma keyset_page_at:
  assumes "distinct (map key t)" and "xs = newest_first key t" and "n \<le> length xs"
    and "c = (if n = 0 then None else Some (encode_cursor (key (xs ! (n - 1))) scope))"
  shows "keyset_page key scope c limit t = Inr (page key (take (limit + 1) (drop n xs)) limit scope)"
proof -
  have strict: "sorted_wrt (\<lambda>a b. key b < key a) xs" using newest_first_strict assms(1,2) by blast
  have "newest_first key (filter (before_position key (if n = 0 then None else Some (key (xs ! (n - 1))))) t)
      = drop n xs"
  proof (cases n)
    case (Suc m)
    then have "m < length xs" using assms(3) by simp
    have "before_position key (Some (key (xs ! m))) = (\<lambda>r. key r < key (xs ! m))"
      by (rule ext) (simp add: before_position_def)
    with Suc \<open>m < length xs\<close> show ?thesis
      using newest_first_filter [OF assms(1)] filter_before_nth [OF strict] assms(2) by simp
  qed (simp add: before_position_def assms(2))
  moreover have "decode_cursor c scope = Inr (if n = 0 then None else Some (key (xs ! (n - 1))))"
    by (simp add: assms(4)) (simp add: decode_cursor_def)
  ultimately show ?thesis by (simp add: keyset_page_def keyset_rows_def)
qed

text \<open>From any position, following the cursors gives the rest of the rows, newest first.\<close>

lemma follow_pages_from:
  assumes "distinct (map key t)" and "xs = newest_first key t" and "n \<le> length xs" and "0 < limit"
    and "c = (if n = 0 then None else Some (encode_cursor (key (xs ! (n - 1))) scope))"
    and "length xs - n < fuel"
  shows "follow_pages fuel (\<lambda>c. keyset_page key scope c limit t) c = Inr (drop n xs)"
  using assms
proof (induction fuel arbitrary: n c)
  case (Suc fuel)
  have page: "keyset_page key scope c limit t = Inr (page key (take (limit + 1) (drop n xs)) limit scope)"
    using Suc.prems by (intro keyset_page_at) auto
  show ?case
  proof (cases "limit < length xs - n")
    case False
    then have "length (drop n xs) \<le> limit" by simp
    with page show ?thesis by (simp add: page_def Let_def)
  next
    case True
    have next_cursor: "take (limit + 1) (drop n xs) ! (limit - 1) = xs ! (n + limit - 1)"
      using True Suc.prems(4) by (simp add: add.commute)
    have rest: "follow_pages fuel (\<lambda>c. keyset_page key scope c limit t)
        (Some (encode_cursor (key (xs ! (n + limit - 1))) scope)) = Inr (drop (n + limit) xs)"
      by (rule Suc.IH) (use Suc.prems True in auto)
    have "take limit (drop n xs) @ drop (n + limit) xs = drop n xs"
      by (metis add.commute append_take_drop_id drop_drop)
    with page rest next_cursor True show ?thesis
      by (simp add: page_def Let_def min_def)
  qed
qed simp

lemma follow_pages_complete:
  assumes "distinct (map key t)" and "0 < limit" and "length t < fuel"
  shows "follow_pages fuel (\<lambda>c. keyset_page key scope c limit t) None = Inr (newest_first key t)"
  using follow_pages_from [OF assms(1) refl _ assms(2), of 0 None scope fuel] assms(3) by simp

text \<open>Pages whose items are rendered are followed to the rendered rows.\<close>

definition map_page :: "('r \<Rightarrow> 'i) \<Rightarrow> 'r page \<Rightarrow> 'i page" where
  "map_page f p = \<lparr>pg_items = map f (pg_items p), pg_has_more = pg_has_more p, pg_next_cursor = pg_next_cursor p\<rparr>"

lemma follow_pages_map:
  assumes "follow_pages fuel read c = Inr xs"
    and "\<And>c p. read c = Inr p \<Longrightarrow> read' c = Inr (map_page f p)"
  shows "follow_pages fuel read' c = Inr (map f xs)"
  using assms(1)
proof (induction fuel arbitrary: c xs)
  case (Suc fuel)
  then obtain p where p: "read c = Inr p" by (auto simp: and_then_Inr_iff)
  show ?case
  proof (cases "pg_next_cursor p")
    case None
    then show ?thesis using Suc.prems p assms(2) [OF p] by (simp add: map_page_def)
  next
    case (Some d)
    then obtain ys where "follow_pages fuel read (Some d) = Inr ys" "xs = pg_items p @ ys"
      using Suc.prems p by (auto simp: and_then_Inr_iff)
    then show ?thesis using Suc.IH Some assms(2) [OF p] by (simp add: map_page_def)
  qed
qed simp

end
