(* ===== verification/Handoff_Inbox.thy ===== *)
theory Handoff_Inbox
  imports Handoff_Service Pagination Handoff_Claims
begin

text \<open>
  The read-only views of handoff/collaboration.py and handoff/collaboration_store.py: the
  inbox with its four SQL filters, the status of one handoff, the delivery state that a
  view reports, and the renewal tool.
\<close>

datatype inbox_view = V_available | V_claimed | V_sent | V_received

fun view_str :: "inbox_view \<Rightarrow> string" where
  "view_str V_available = ''available''"
| "view_str V_claimed = ''claimed''"
| "view_str V_sent = ''sent''"
| "view_str V_received = ''received''"

text \<open>\<open>VIEW_FILTERS\<close>, with \<open>$2\<close> the actor and \<open>$7\<close> the observation time.\<close>

fun view_filter :: "inbox_view \<Rightarrow> string \<Rightarrow> time \<Rightarrow> handoff \<Rightarrow> bool" where
  "view_filter V_available actor now r \<longleftrightarrow>
     \<not> h_continuity_managed r \<and> after (h_expires_at r) now
     \<and> (h_recipient r = None \<or> h_recipient r = Some actor)
     \<and> (h_status r = H_pending \<or> h_status r = H_claimed \<and> upto (h_claim_lease_expires_at r) now)"
| "view_filter V_claimed actor now r \<longleftrightarrow>
     after (h_expires_at r) now \<and> h_status r = H_claimed \<and> h_claimed_by r = Some actor
     \<and> after (h_claim_lease_expires_at r) now"
| "view_filter V_sent actor now r \<longleftrightarrow> hc_from_user (h_content r) = actor"
| "view_filter V_received actor now r \<longleftrightarrow>
     \<not> h_continuity_managed r \<and> h_status r = H_acknowledged \<and> h_claimed_by r = Some actor"

definition classifications_of :: "classification option \<Rightarrow> classification list" where
  "classifications_of max_class = levels_upto (case max_class of None \<Rightarrow> C_internal | Some c \<Rightarrow> c)"

subsection \<open>Delivery state\<close>

datatype delivery_state = DS_continuity_managed | DS_acknowledged | DS_expired | DS_available
  | DS_legacy_claimed | DS_leased | DS_lease_expired

definition delivery_state :: "handoff \<Rightarrow> time \<Rightarrow> delivery_state" where
  "delivery_state r now =
     (if h_continuity_managed r then DS_continuity_managed
      else if h_status r = H_acknowledged then DS_acknowledged
      else if \<not> after (h_expires_at r) now \<or> h_status r = H_expired then DS_expired
      else if h_status r = H_pending then DS_available
      else case h_claim_lease_expires_at r of
             None \<Rightarrow> DS_legacy_claimed
           | Some l \<Rightarrow> if now < l then DS_leased else DS_lease_expired)"

text \<open>What \<open>_metadata\<close> adds to the columns of a row.\<close>

record inbox_item =
  it_row :: handoff
  it_delivery_state :: delivery_state
  it_can_claim :: bool

definition metadata :: "handoff \<Rightarrow> time \<Rightarrow> string \<Rightarrow> inbox_item" where
  "metadata r observed_at actor =
     \<lparr>it_row = r, it_delivery_state = delivery_state r observed_at,
      it_can_claim = (delivery_state r observed_at \<in> {DS_available, DS_lease_expired}
        \<and> recipient_allows r actor)\<rparr>"

subsection \<open>Inbox and status\<close>

record inbox_args =
  ia_project_id :: string
  ia_view :: "inbox_view option"
  ia_unit_id :: "string option"
  ia_max_classification :: "classification option"
  ia_cursor :: "cursor option"
  ia_limit :: "nat option"

definition inbox_key :: "handoff \<Rightarrow> time \<times> uuid" where
  "inbox_key r = (h_created_at r, h_id r)"

definition in_inbox :: "string \<Rightarrow> string \<Rightarrow> inbox_view \<Rightarrow> string option \<Rightarrow> classification list \<Rightarrow> time \<Rightarrow> handoff \<Rightarrow> bool" where
  "in_inbox project actor view unit levels now r \<longleftrightarrow>
     h_project_id r = project \<and> (unit = None \<or> Some (hc_unit_id (h_content r)) = unit)
     \<and> hc_classification (h_content r) \<in> set levels \<and> view_filter view actor now r"

definition inbox_view_of :: "inbox_args \<Rightarrow> inbox_view" where
  "inbox_view_of a = (case ia_view a of None \<Rightarrow> V_available | Some v \<Rightarrow> v)"

definition inbox_scope :: "inbox_args \<Rightarrow> string \<Rightarrow> string list" where
  "inbox_scope a actor =
     [''handoff-inbox-v1'', ia_project_id a, actor, view_str (inbox_view_of a),
      (case ia_unit_id a of None \<Rightarrow> [] | Some u \<Rightarrow> u),
      class_str (case ia_max_classification a of None \<Rightarrow> C_internal | Some c \<Rightarrow> c)]"

definition inbox_rows :: "inbox_args \<Rightarrow> string \<Rightarrow> time \<Rightarrow> hdb \<Rightarrow> handoff list" where
  "inbox_rows a actor observed_at db =
     filter (in_inbox (ia_project_id a) actor (inbox_view_of a) (ia_unit_id a)
         (classifications_of (ia_max_classification a)) observed_at) (hdb_handoffs db)"

definition inbox_cursor_error :: mem_error where
  "inbox_cursor_error = memory_tool_error ''Invalid inbox cursor for this project, actor and view''
     ''MEM-HANDOFF-0009'' [] 400"

definition inbox :: "clock \<Rightarrow> string \<Rightarrow> inbox_args \<Rightarrow> hdb \<Rightarrow> inbox_item page outcome" where
  "inbox clk actor a db =
     (let scope = inbox_scope a actor; limit = (case ia_limit a of None \<Rightarrow> 20 | Some n \<Rightarrow> n)
      in case decode_cursor (ia_cursor a) scope of
           Inl _ \<Rightarrow> Inl inbox_cursor_error
         | Inr pos \<Rightarrow>
             let p = page inbox_key (keyset_rows inbox_key pos limit (inbox_rows a actor (clk 0) db)) limit scope
             in Inr \<lparr>pg_items = map (\<lambda>r. metadata r (clk 0) actor) (pg_items p),
                     pg_has_more = pg_has_more p, pg_next_cursor = pg_next_cursor p\<rparr>)"

definition handoff_status ::
    "time \<Rightarrow> string \<Rightarrow> string \<Rightarrow> uuid \<Rightarrow> classification option \<Rightarrow> hdb \<Rightarrow> inbox_item outcome" where
  "handoff_status now actor project i max_class db =
     (case fetchrow (\<lambda>r. h_project_id r = project \<and> h_id r = i
              \<and> hc_classification (h_content r) \<in> set (classifications_of max_class)) (hdb_handoffs db) of
        None \<Rightarrow> Inl (memory_tool_error ''Handoff is not available in this project and classification view''
                      ''MEM-HANDOFF-0001'' [] 404)
      | Some r \<Rightarrow> Inr (metadata r now actor))"

text \<open>\<open>renew\<close>: the schema has accepted the deadline as a timestamp.\<close>

definition renew_handoff ::
    "platform \<Rightarrow> settings \<Rightarrow> clock \<Rightarrow> string \<Rightarrow> string \<Rightarrow> uuid \<Rightarrow> string \<Rightarrow> nat \<Rightarrow> time \<Rightarrow> hdb
     \<Rightarrow> (hdb \<times> renewal) outcome" where
  "renew_handoff P s clk actor project i token generation deadline db =
     renew_lease clk project i actor (token_digest P token) generation deadline
       (handoff_claim_lease_max_seconds s) db"

subsection \<open>The views and the claim operation agree\<close>

lemma recipient_allows_alt: "recipient_allows r actor \<longleftrightarrow> h_recipient r = None \<or> h_recipient r = Some actor"
  by (auto simp: recipient_allows_def split: option.splits)

lemma delivery_open_iff:
  "delivery_state r now \<in> {DS_available, DS_lease_expired} \<longleftrightarrow>
     \<not> h_continuity_managed r \<and> after (h_expires_at r) now \<and> is_recoverable now r"
  by (cases "h_status r")
    (auto simp: delivery_state_def is_recoverable_def not_less split: option.splits)

lemma delivery_leased_iff:
  "delivery_state r now = DS_leased \<longleftrightarrow>
     \<not> h_continuity_managed r \<and> claim_active now r"
  by (cases "h_status r") (auto simp: delivery_state_def claim_active_def split: option.splits)

lemma can_claim_iff:
  "it_can_claim (metadata r now actor) \<longleftrightarrow>
     \<not> h_continuity_managed r \<and> after (h_expires_at r) now \<and> recipient_allows r actor \<and> is_recoverable now r"
  unfolding metadata_def by (simp only: delivery_open_iff inbox_item.select_convs conj_ac)

lemma view_available_iff: "view_filter V_available actor now r \<longleftrightarrow> it_can_claim (metadata r now actor)"
  unfolding can_claim_iff view_filter.simps recipient_allows_alt is_recoverable_def by blast

lemma view_available_state:
  "view_filter V_available actor now r \<Longrightarrow> delivery_state r now \<in> {DS_available, DS_lease_expired}"
  unfolding delivery_open_iff view_available_iff can_claim_iff by blast

text \<open>A claim the reader was told it can make succeeds, if its token is unused and it accepts the version.\<close>

lemma claim_lease_iff:
  assumes "locked_row i project db = Some r"
  shows "(\<exists>db' x. claim_handoff_lease clk i project actor token secs ver db = (db', Some (x, False)))
     \<longleftrightarrow> it_can_claim (metadata r (clk 0) actor) \<and> h_version r \<le> ver
         \<and> \<not> spent (hdb_receipts db) r actor token"
proof -
  have keys: "h_id r = i" "h_project_id r = project" using locked_rowD [OF assms] by auto
  note tc = spent_iff_token_completed [OF keys, of actor token db]
  have excl: "\<not> is_replay actor token (clk 0) r" if "is_recoverable (clk 0) r"
    using that by (auto simp: is_replay_def is_recoverable_def after_iff upto_iff)
  let ?open = "after (h_expires_at r) (clk 0) \<and> \<not> h_continuity_managed r \<and> h_version r \<le> ver \<and> recipient_allows r actor"
  show ?thesis
  proof (cases ?open)
    case False
    then have "claim_handoff_lease clk i project actor token secs ver db = (db, None)"
      using assms by (auto simp: claim_handoff_lease_def)
    with False show ?thesis by (auto simp: can_claim_iff)
  next
    case True
    then show ?thesis
    proof (cases "is_recoverable (clk 0) r")
      case rec: True
      then show ?thesis using True assms excl [OF rec] tc
        by (simp add: claim_handoff_lease_def can_claim_iff Let_def)
    next
      case False
      then show ?thesis using True assms by (simp add: claim_handoff_lease_def can_claim_iff)
    qed
  qed
qed

end
