(* ===== verification/Handoff_Service_Props.thy ===== *)
theory Handoff_Service_Props
  imports Handoff_Inbox Handoff_Props
begin

text \<open>
  What the handoff service promises its callers: a push is idempotent and never replaces
  what was pushed, a stored handoff has passed every check, the views agree with the claim
  operation, and following the cursors of the inbox shows every row once.
\<close>

subsection \<open>Pushed rows are found again, unchanged\<close>

lemma row_step_times: "row_step clk cs r r' \<Longrightarrow> h_created_at r' = h_created_at r \<and> h_expires_at r' = h_expires_at r"
  by (erule row_step.cases) (auto simp: row_update_defs)

definition same_publication :: "handoff \<Rightarrow> handoff \<Rightarrow> bool" where
  "same_publication r r' \<longleftrightarrow> h_id r' = h_id r \<and> h_content r' = h_content r
     \<and> h_created_at r' = h_created_at r \<and> h_expires_at r' = h_expires_at r"

lemma row_step_same_publication: "row_step clk cs r r' \<Longrightarrow> same_publication r r'"
  by (simp add: same_publication_def row_step_key row_step_content row_step_times)

lemma rows_step_attempt:
  assumes "rows_step clk db db'" and "get_handoff_by_attempt project attempt db = Some r"
  shows "\<exists>r'. get_handoff_by_attempt project attempt db' = Some r' \<and> same_publication r r'"
proof -
  obtain f new where f: "hdb_handoffs db' = map f (hdb_handoffs db) @ new"
    "\<forall>r \<in> set (hdb_handoffs db). row_step clk (hdb_receipts db) r (f r)"
    using assms(1) by (rule rows_stepE)
  let ?p = "same_attempt project attempt"
  have "h_content (f x) = h_content x" if "x \<in> set (hdb_handoffs db)" for x
    using f(2) that by (blast intro: row_step_content)
  then have keep: "?p (f x) = ?p x" if "x \<in> set (hdb_handoffs db)" for x
    using that by (simp add: same_attempt_def)
  have "fetchrow ?p (map f t) = map_option f (fetchrow ?p t)" if "set t \<subseteq> set (hdb_handoffs db)" for t
    using that by (induction t) (use keep in auto)
  then have "get_handoff_by_attempt project attempt db' = Some (f r)"
    using assms(2) by (simp add: get_handoff_by_attempt_def f(1) fetchrow_append)
  moreover have "r \<in> set (hdb_handoffs db)"
    using assms(2) by (auto simp: get_handoff_by_attempt_def dest: fetchrow_SomeD)
  ultimately show ?thesis using f(2) row_step_same_publication by blast
qed

lemma run_attempt:
  assumes "run handoff_step db ts db'" and "handoff_inv db"
    and "get_handoff_by_attempt project attempt db = Some r"
  shows "\<exists>r'. get_handoff_by_attempt project attempt db' = Some r' \<and> same_publication r r'"
  using assms
proof (induction arbitrary: r rule: run.induct)
  case (run_nil s)
  then show ?case by (simp add: same_publication_def)
next
  case (run_cons t s u ts s')
  obtain x where x: "get_handoff_by_attempt project attempt u = Some x" "same_publication r x"
    using rows_step_attempt [OF step_rows [OF run_cons.hyps(1) handoff_inv_unique [OF run_cons.prems(1)]]
        run_cons.prems(2)] by blast
  moreover have "handoff_inv u" using run_cons handoff_inv_step by blast
  ultimately obtain r' where "get_handoff_by_attempt project attempt s' = Some r'" "same_publication x r'"
    using run_cons.IH by blast
  with x show ?case by (auto simp: same_publication_def)
qed

lemma get_by_attempt_iff:
  "get_handoff_by_attempt project attempt db = None \<longleftrightarrow>
     \<not> exists_row (same_attempt project attempt) (hdb_handoffs db)"
  by (simp add: get_handoff_by_attempt_def fetchrow_None_iff sql)

lemma prepare_push_keys:
  "prepare_push P s from a = Inr c \<Longrightarrow>
     hc_project_id c = pa_project_id a \<and> hc_phase_attempt_id c = pa_phase_attempt_id a"
  by (auto simp: prepare_push_def and_then_Inr_iff push_content_def)

text \<open>The answer of a push, fresh or repeated, is about the row stored for its attempt.\<close>

lemma push_handoffE:
  assumes "push_handoff P s now clk i from a db = Inr (db', ans)"
  obtains c r b where "prepare_push P s from a = Inr c" "ans = push_answer c r b"
    "get_handoff_by_attempt (pa_project_id a) (pa_phase_attempt_id a) db' = Some r"
    "hc_payload_digest (h_content r) = hc_payload_digest c"
    "\<exists>res. insert_handoff i (clk 0) c (now + hours (handoff_default_expiry_hours s)) db = Inr (db', res)"
    "\<not> b \<longrightarrow> r = new_handoff i c (clk 0) (now + hours (handoff_default_expiry_hours s))
       \<and> hdb_handoffs db' = insert_row r (hdb_handoffs db)"
proof -
  let ?ex = "now + hours (handoff_default_expiry_hours s)"
  obtain c where c: "prepare_push P s from a = Inr c" using assms by (auto simp: push_handoff_def and_then_Inr_iff)
  obtain db1 res where ins: "insert_handoff i (clk 0) c ?ex db = Inr (db1, res)"
    using assms c by (cases "insert_handoff i (clk 0) c ?ex db") (auto simp: push_handoff_def)
  have keys: "hc_project_id c = pa_project_id a" "hc_phase_attempt_id c = pa_phase_attempt_id a"
    using prepare_push_keys [OF c] by auto
  show thesis
  proof (cases res)
    case None
    then show ?thesis using assms c ins
      by (auto simp: push_handoff_def split: option.splits if_splits intro!: that [of c _ True])
  next
    case (Some r)
    have r: "r = new_handoff i c (clk 0) ?ex" "hdb_handoffs db1 = insert_row r (hdb_handoffs db)"
      "\<not> exists_row (same_attempt (pa_project_id a) (pa_phase_attempt_id a)) (hdb_handoffs db)"
      using ins Some by (auto simp: insert_handoff_def keys Let_def split: if_splits)
    have "get_handoff_by_attempt (pa_project_id a) (pa_phase_attempt_id a) db1 = Some r"
      using r(3) get_by_attempt_iff [of "pa_project_id a" "pa_phase_attempt_id a" db]
      by (simp add: get_handoff_by_attempt_def r(2) fetchrow_insert_row r(1) new_handoff_def same_attempt_def keys)
    moreover have "db1 = db'" "ans = push_answer c r False" using assms c ins Some by (auto simp: push_handoff_def)
    moreover have "hc_payload_digest (h_content r) = hc_payload_digest c" by (simp add: r(1) new_handoff_def)
    ultimately show ?thesis using that [of c r False] c ins r by blast
  qed
qed

lemma push_existing:
  assumes "prepare_push P s from a = Inr c"
    and "get_handoff_by_attempt (pa_project_id a) (pa_phase_attempt_id a) db = Some e"
  shows "push_handoff P s now clk i from a db =
     (if hc_payload_digest (h_content e) \<noteq> hc_payload_digest c
      then Inl (memory_tool_error ''phase_attempt_id already exists with a different handoff payload''
             ''MEM-HANDOFF-0005'' [(''handoff_id'', PStr (uuid_str (h_id e)))] 400)
      else Inr (db, push_answer c e True))"
proof -
  have "exists_row (same_attempt (pa_project_id a) (pa_phase_attempt_id a)) (hdb_handoffs db)"
    using assms(2) get_by_attempt_iff by (metis option.distinct(1))
  then show ?thesis
    using assms prepare_push_keys [OF assms(1)] by (simp add: push_handoff_def insert_handoff_def)
qed

subsection \<open>A platform and a push for the witnesses\<close>

definition demo_platform :: platform where
  "demo_platform = \<lparr>sha256 = (\<lambda>bs. replicate 60 CHR ''0'' @ hex_digits (length bs) [3, 2, 1, 0]),
     float_repr = (\<lambda>_. ''0.5''),
     fromisoformat = (\<lambda>s. if s = ''2024-01-01T00:00:00+00:00'' then Some (Aware 0) else None),
     schema_valid = (\<lambda>_ _. True)\<rparr>"

definition demo_digest :: string where
  "demo_digest = ''sha256:'' @ replicate 64 CHR ''a''"

definition demo_common :: "(string \<times> pyval) list" where
  "demo_common = [(''correlation_id'', PStr ''c''), (''operation_id'', PStr ''o''), (''work_bundle_id'', PStr ''w''),
     (''unit_id'', PStr ''u''), (''phase_attempt_id'', PStr ''a1''), (''task_id'', PStr ''t'')]"

definition demo_task :: pyval where
  "demo_task = PDict (demo_common @
     [(''type'', PStr ''task_envelope''), (''role'', PStr ''r''), (''objective'', PStr ''x''),
      (''acceptance_criteria'', strs [''ok'']), (''allowed_actions'', strs []), (''forbidden_actions'', strs []),
      (''required_outputs'', strs []), (''workspace_root'', PStr ''/''), (''lock_snapshot_digest'', PStr demo_digest),
      (''context_bundle_ref'', PStr ''b''), (''context_bundle_digest'', PStr demo_digest),
      (''result_path'', PStr ''p''), (''deadline'', PStr ''2024-01-01T00:00:00Z'')])"

definition demo_result :: pyval where
  "demo_result = PDict (demo_common @
     [(''type'', PStr ''result_envelope''), (''status'', PStr ''succeeded''), (''summary'', PStr ''s''),
      (''outputs'', strs []), (''evidence_refs'', strs []), (''unresolved'', strs []),
      (''context_usage'', PDict [(''mode'', PStr ''exact''), (''used'', PInt 1), (''capacity'', PInt 2)]),
      (''raw_output_ref'', PStr ''raw''), (''raw_output_digest'', PStr demo_digest),
      (''started_at'', PStr ''2024-01-01T00:00:00Z''), (''ended_at'', PStr ''2024-01-01T00:00:00Z'')])"

definition demo_args :: push_args where
  "demo_args = \<lparr>pa_project_id = ''p'', pa_unit_id = ''u'', pa_phase_attempt_id = ''a1'', pa_phase_id = ''build'',
     pa_result_status = ''succeeded'', pa_classification = C_internal, pa_task_summary = None,
     pa_passed_checks = None, pa_artifacts_produced = None, pa_handoff_note = None,
     pa_task_envelope = demo_task, pa_result_envelope = demo_result, pa_context_digest = demo_digest,
     pa_raw_output = None, pa_lock_snapshot_digest = demo_digest, pa_envelope_digest = [],
     pa_recipient_user_id = None, pa_continuation = None, pa_compatibility_digest = None\<rparr>"

definition demo_push :: push_args where
  "demo_push = demo_args\<lparr>pa_envelope_digest := compute_envelope_digest demo_platform demo_task demo_result\<rparr>"

lemma demo_envelopes: "list_all (\<lambda>c. \<not> fst c) (envelope_checks demo_platform demo_args)"
  by code_simp

lemma envelope_checks_digest [simp]:
  "envelope_checks P (a\<lparr>pa_envelope_digest := d\<rparr>) = envelope_checks P a"
  by (simp add: envelope_checks_def)

lemma demo_push_fields:
  "pa_recipient_user_id demo_push = None" "pa_continuation demo_push = None" "pa_raw_output demo_push = None"
  "compute_envelope_digest demo_platform (pa_task_envelope demo_push) (pa_result_envelope demo_push)
     = pa_envelope_digest demo_push"
  by (simp_all add: demo_push_def demo_args_def)

lemma demo_prepared:
  "prepare_push demo_platform default_settings ''sender'' demo_push
     = Inr (push_content demo_platform demo_push ''sender'' None)"
proof -
  have "validate_envelopes demo_platform demo_push = Inr ()"
    using demo_envelopes by (simp add: validate_envelopes_def demo_push_def list_all_iff)
  then show ?thesis by (simp add: prepare_push_def validate_package_def demo_push_fields checked_def)
qed

definition empty_hdb :: hdb where
  "empty_hdb = \<lparr>hdb_handoffs = [], hdb_receipts = [], hdb_members = []\<rparr>"

definition demo_stored :: handoff where
  "demo_stored = new_handoff 7 (push_content demo_platform demo_push ''sender'' None) 0 (hours 168)"

definition demo_pushed :: hdb where
  "demo_pushed = empty_hdb\<lparr>hdb_handoffs := [demo_stored]\<rparr>"

lemma demo_push_ok:
  "push_handoff demo_platform default_settings 0 (\<lambda>_. 0) 7 ''sender'' demo_push empty_hdb
     = Inr (demo_pushed, push_answer (push_content demo_platform demo_push ''sender'' None) demo_stored False)"
proof -
  let ?c = "push_content demo_platform demo_push ''sender'' None"
  have "hc_recipient_user_id ?c = None" by (simp add: push_content_def demo_push_def demo_args_def)
  then have "insert_handoff 7 0 ?c (hours 168) empty_hdb = Inr (demo_pushed, Some demo_stored)"
    by (simp add: insert_handoff_def empty_hdb_def demo_pushed_def demo_stored_def exists_row_def insert_row_def Let_def)
  moreover have "handoff_default_expiry_hours default_settings = 168" by (simp add: default_settings_def)
  ultimately show ?thesis by (simp add: push_handoff_def demo_prepared)
qed

lemma empty_hdb_inv: "handoff_inv empty_hdb"
  by (simp add: empty_hdb_def handoff_inv_empty)

subsection \<open>Push\<close>

text \<open>
  C10. A push is idempotent. Whatever happens to the handoff after a successful push, the
  same push answers with the same handoff, marked as existing, and changes nothing; a push
  for the same attempt with another payload is refused with \<open>MEM-HANDOFF-0005\<close>.
\<close>

theorem handoff_push_idempotent:
  assumes "handoff_inv db" and "i \<notin> h_id ` set (hdb_handoffs db)"
    and push: "push_handoff P s now clk i from a db = Inr (db1, ans)"
    and run: "run handoff_step db1 ts db2"
    and c: "prepare_push P s from a = Inr c"
  shows "(\<exists>ans'. push_handoff P s now' clk' j from a db2 = Inr (db2, ans')
      \<and> py_get ans' ''already_exists'' = PBool True
      \<and> (\<forall>k. k \<noteq> ''already_exists'' \<longrightarrow> py_get ans' k = py_get ans k))
    \<and> (prepare_push P s from' b = Inr c' \<and> pa_project_id b = pa_project_id a
       \<and> pa_phase_attempt_id b = pa_phase_attempt_id a \<and> hc_payload_digest c' \<noteq> hc_payload_digest c
       \<longrightarrow> (\<exists>e. push_handoff P s now' clk' j from' b db2 = Inl e \<and> err_code e = ''MEM-HANDOFF-0005''))"
proof -
  obtain r x where r: "ans = push_answer c r x"
      "get_handoff_by_attempt (pa_project_id a) (pa_phase_attempt_id a) db1 = Some r"
      "hc_payload_digest (h_content r) = hc_payload_digest c"
      "\<exists>res. insert_handoff i (clk 0) c (now + hours (handoff_default_expiry_hours s)) db = Inr (db1, res)"
    using push
  proof (rule push_handoffE)
    fix d r x
    assume "prepare_push P s from a = Inr d" and "ans = push_answer d r x"
      and "get_handoff_by_attempt (pa_project_id a) (pa_phase_attempt_id a) db1 = Some r"
      and "hc_payload_digest (h_content r) = hc_payload_digest d"
      and "\<exists>res. insert_handoff i (clk 0) d (now + hours (handoff_default_expiry_hours s)) db = Inr (db1, res)"
    then show thesis using that [of r x] c by simp
  qed
  have "handoff_inv db1"
    using r(4) assms(1,2) by (auto intro: handoff_inv_step [of db clk] step_push)
  then obtain e where e: "get_handoff_by_attempt (pa_project_id a) (pa_phase_attempt_id a) db2 = Some e"
      "same_publication r e"
    using run_attempt [OF run _ r(2)] by blast
  have "push_handoff P s now' clk' j from a db2 = Inr (db2, push_answer c e True)"
    using push_existing [OF c e(1)] e(2) r(3) by (simp add: same_publication_def)
  moreover have "py_get (push_answer c e True) ''already_exists'' = PBool True"
    by (simp add: push_answer_def py_get_def)
  moreover have "py_get (push_answer c e True) k = py_get ans k" if "k \<noteq> ''already_exists''" for k
    using e(2) that by (simp add: r(1) push_answer_def py_get_def same_publication_def)
  moreover have "\<exists>er. push_handoff P s now' clk' j from' b db2 = Inl er \<and> err_code er = ''MEM-HANDOFF-0005''"
    if b: "prepare_push P s from' b = Inr c'" "pa_project_id b = pa_project_id a"
      "pa_phase_attempt_id b = pa_phase_attempt_id a" "hc_payload_digest c' \<noteq> hc_payload_digest c"
    using push_existing [OF b(1), of db2 e] b e r(3) by (simp add: same_publication_def)
  ultimately show ?thesis by blast
qed

theorem handoff_push_idempotent_witness:
  "\<exists>ans. push_handoff demo_platform default_settings 5 (\<lambda>_. 5) 8 ''sender'' demo_push demo_pushed
     = Inr (demo_pushed, ans) \<and> py_get ans ''already_exists'' = PBool True"
proof -
  have run: "run handoff_step demo_pushed [] demo_pushed" by auto
  have "(7 :: uuid) \<notin> h_id ` set (hdb_handoffs empty_hdb)" by (simp add: empty_hdb_def)
  from handoff_push_idempotent [OF empty_hdb_inv this demo_push_ok run demo_prepared]
  show ?thesis by blast
qed

lemma envelope_checks_pass:
  assumes "validate_envelopes P a = Inr u"
  shows "py_get (dict_of (pa_task_envelope a)) ''unit_id'' = PStr (pa_unit_id a)
    \<and> py_get (dict_of (pa_task_envelope a)) ''phase_attempt_id'' = PStr (pa_phase_attempt_id a)
    \<and> py_eq (py_get (dict_of (pa_task_envelope a)) ''unit_id'') (py_get (dict_of (pa_result_envelope a)) ''unit_id'')
    \<and> py_eq (py_get (dict_of (pa_task_envelope a)) ''phase_attempt_id'')
        (py_get (dict_of (pa_result_envelope a)) ''phase_attempt_id'')
    \<and> py_get (dict_of (pa_result_envelope a)) ''status'' = PStr (pa_result_status a)
    \<and> py_get (dict_of (pa_task_envelope a)) ''lock_snapshot_digest'' = PStr (pa_lock_snapshot_digest a)
    \<and> py_get (dict_of (pa_task_envelope a)) ''context_bundle_digest'' = PStr (pa_context_digest a)
    \<and> is_digest (str_of (py_get (dict_of (pa_task_envelope a)) ''lock_snapshot_digest''))
    \<and> is_digest (str_of (py_get (dict_of (pa_task_envelope a)) ''context_bundle_digest''))
    \<and> \<not> (case pa_raw_output a of None \<Rightarrow> False
         | Some raw \<Rightarrow> \<not> py_eq (py_get (dict_of (pa_result_envelope a)) ''raw_output_digest'') (PStr (bytes_digest P raw)))"
proof -
  note checks = assms [unfolded validate_envelopes_def checked_Inr_iff envelope_checks_def CORRELATED_def
      validate_digest_def Let_def, simplified]
  show ?thesis using checks by (elim conjE) (intro conjI; assumption)
qed

text \<open>What a handoff that was pushed guarantees about its content.\<close>

definition verified_content :: "platform \<Rightarrow> settings \<Rightarrow> handoff_content \<Rightarrow> bool" where
  "verified_content P s c \<longleftrightarrow>
     (let task = dict_of (hc_task_envelope c); result = dict_of (hc_result_envelope c) in
      hc_envelope_digest c = compute_envelope_digest P (hc_task_envelope c) (hc_result_envelope c)
      \<and> py_get task ''unit_id'' = PStr (hc_unit_id c) \<and> py_get result ''unit_id'' = PStr (hc_unit_id c)
      \<and> py_get task ''phase_attempt_id'' = PStr (hc_phase_attempt_id c)
      \<and> py_get result ''phase_attempt_id'' = PStr (hc_phase_attempt_id c)
      \<and> py_get result ''status'' = PStr (hc_result_status c)
      \<and> py_get task ''lock_snapshot_digest'' = PStr (hc_lock_snapshot_digest c)
      \<and> py_get task ''context_bundle_digest'' = PStr (hc_context_digest c)
      \<and> is_digest (hc_lock_snapshot_digest c) \<and> is_digest (hc_context_digest c)
      \<and> (\<forall>raw. hc_raw_output c = Some raw \<longrightarrow>
           py_get result ''raw_output_digest'' = PStr (bytes_digest P raw)
           \<and> int (length (utf8 raw)) \<le> handoff_max_raw_output_bytes s)
      \<and> (hc_handoff_version c = 1 \<longleftrightarrow> hc_recipient_user_id c = None \<and> hc_continuation c = None)
      \<and> (\<forall>p. hc_continuation c = Some p \<longrightarrow>
           hc_continuation_digest c = Some (digest P p) \<and> length (canonical P p) \<le> 65536
           \<and> distinct (artifact_ids p)
           \<and> (py_get (workspace_of p) ''state'' = PStr ''captured'' \<longrightarrow> snapshot_declared p)))"

lemma prepare_push_verified:
  assumes "prepare_push P s from a = Inr c"
  shows "verified_content P s c"
proof -
  obtain d where env: "validate_envelopes P a = Inr ()" and pkg: "validate_package P a = Inr d"
    and dig: "compute_envelope_digest P (pa_task_envelope a) (pa_result_envelope a) = pa_envelope_digest a"
    and limit: "\<not> (case pa_raw_output a of None \<Rightarrow> False
        | Some raw \<Rightarrow> handoff_max_raw_output_bytes s < int (length (utf8 raw)))"
    and c: "c = push_content P a from d"
    using assms by (auto simp: prepare_push_def and_then_Inr_iff)
  have raw: "int (length (utf8 raw)) \<le> handoff_max_raw_output_bytes s" if "pa_raw_output a = Some raw" for raw
    using limit that by simp
  have pkg_ok: "d = Some (digest P p) \<and> length (canonical P p) \<le> 65536 \<and> distinct (artifact_ids p)
      \<and> (py_get (workspace_of p) ''state'' = PStr ''captured'' \<longrightarrow> snapshot_declared p)"
    if "pa_continuation a = Some p" for p
    using pkg that by (auto simp: validate_package_def and_then_Inr_iff validate_continuation_Inr_iff)
  have flip: "v = PStr t" if "py_eq (PStr t) v" for t v using that by (cases v) auto
  note pass = envelope_checks_pass [OF env]
  have "py_get (dict_of (pa_result_envelope a)) ''raw_output_digest'' = PStr (bytes_digest P raw)"
    if "pa_raw_output a = Some raw" for raw
    using pass that by simp
  moreover have "py_get (dict_of (pa_result_envelope a)) ''unit_id'' = PStr (pa_unit_id a)"
    and "py_get (dict_of (pa_result_envelope a)) ''phase_attempt_id'' = PStr (pa_phase_attempt_id a)"
    using pass flip by metis+
  moreover have "is_digest (pa_lock_snapshot_digest a)" and "is_digest (pa_context_digest a)"
    using pass by (metis str_of_PStr)+
  ultimately show ?thesis
    using pass dig raw pkg_ok
    by (simp add: verified_content_def Let_def c push_content_def push_version_def)
qed

text \<open>
  C11. What is stored was verified: a push that creates a handoff stores, under the new
  identifier and unclaimed, exactly the content it was given; its envelope digest is the
  digest of the stored envelopes, both envelopes name its unit and attempt, the result
  envelope its status, its digests are well formed, a raw output matches its digest and
  the size limit, and a continuation package its digest. No later transaction changes the
  content.
\<close>

theorem handoff_push_verified:
  assumes "handoff_inv db" and "i \<notin> h_id ` set (hdb_handoffs db)"
    and "push_handoff P s now clk i from a db = Inr (db', ans)"
    and "py_get ans ''already_exists'' = PBool False" and "run handoff_step db' ts db2"
  shows "\<exists>c r r2. row i db' = Some r \<and> h_content r = c \<and> h_status r = H_pending \<and> h_claimed_by r = None
    \<and> hc_from_user c = from \<and> hc_project_id c = pa_project_id a
    \<and> hc_task_envelope c = pa_task_envelope a \<and> hc_result_envelope c = pa_result_envelope a
    \<and> verified_content P s c \<and> row i db2 = Some r2 \<and> h_content r2 = c"
  using assms(3)
proof (rule push_handoffE)
  fix c r x
  assume c: "prepare_push P s from a = Inr c" and ans: "ans = push_answer c r x"
    and ins: "\<exists>res. insert_handoff i (clk 0) c (now + hours (handoff_default_expiry_hours s)) db = Inr (db', res)"
    and new: "\<not> x \<longrightarrow> r = new_handoff i c (clk 0) (now + hours (handoff_default_expiry_hours s))
       \<and> hdb_handoffs db' = insert_row r (hdb_handoffs db)"
  have "\<not> x" using assms(4) by (simp add: ans push_answer_def py_get_def)
  with new have r: "r = new_handoff i c (clk 0) (now + hours (handoff_default_expiry_hours s))"
    and rows: "hdb_handoffs db' = insert_row r (hdb_handoffs db)" by auto
  have inv: "handoff_inv db'" using ins assms(1,2) by (auto intro: handoff_inv_step [of db clk] step_push)
  have row: "row i db' = Some r"
    using inv by (simp add: row_eq_Some_iff handoff_inv_unique rows sql r new_handoff_def)
  have content: "hc_from_user c = from \<and> hc_project_id c = pa_project_id a
    \<and> hc_task_envelope c = pa_task_envelope a \<and> hc_result_envelope c = pa_result_envelope a"
    using c by (auto simp: prepare_push_def and_then_Inr_iff push_content_def)
  have "\<exists>r2. row i db2 = Some r2 \<and> h_content r2 = h_content r"
    using assms(5) inv row
  proof (induction arbitrary: r rule: run.induct)
    case (run_cons t s u ts s')
    obtain y where y: "row i u = Some y" "row_step t (hdb_receipts s) r y"
      using step_row [OF run_cons.prems(1) run_cons.hyps(1) run_cons.prems(2)] by blast
    moreover have "handoff_inv u" using run_cons handoff_inv_step by blast
    ultimately show ?case using run_cons.IH row_step_content by metis
  qed auto
  with row content prepare_push_verified [OF c] show ?thesis by (auto simp: r new_handoff_def)
qed

theorem handoff_push_verified_witness:
  "\<exists>r. row 7 demo_pushed = Some r \<and> verified_content demo_platform default_settings (h_content r)"
proof -
  have run: "run handoff_step demo_pushed [] demo_pushed" by auto
  have fresh: "(7 :: uuid) \<notin> h_id ` set (hdb_handoffs empty_hdb)" by (simp add: empty_hdb_def)
  have new: "py_get (push_answer (push_content demo_platform demo_push ''sender'' None) demo_stored False)
      ''already_exists'' = PBool False"
    by (simp add: push_answer_def py_get_def)
  show ?thesis using handoff_push_verified [OF empty_hdb_inv fresh demo_push_ok new run] by blast
qed

subsection \<open>Views\<close>

text \<open>
  C12. The views tell the truth about the next claim: a row is in the inbox view
  \<open>available\<close> exactly when its metadata says it can be claimed, and a claim at that time,
  with an unused token and accepting the row's version, succeeds as a new lease exactly
  then.
\<close>

theorem handoff_view_predicts_claim:
  assumes "locked_row i project db = Some r"
  shows "(view_filter V_available actor (clk 0) r \<longleftrightarrow> it_can_claim (metadata r (clk 0) actor))
    \<and> (h_version r \<le> ver \<and> \<not> token_completed i project actor token db \<longrightarrow>
        (it_can_claim (metadata r (clk 0) actor) \<longleftrightarrow>
          (\<exists>db' x. claim_handoff_lease clk i project actor token secs ver db = (db', Some (x, False)))))"
  using claim_lease_iff [OF assms, of clk actor token secs ver] view_available_iff
    spent_iff_token_completed [of r i project actor token db] locked_rowD [OF assms] by blast

theorem handoff_view_predicts_claim_witness:
  "\<exists>db' x. claim_handoff_lease (\<lambda>_. 10) 7 ''p'' ''ann'' ''t1'' 60 1 demo_db = (db', Some (x, False))"
proof -
  have row: "locked_row 7 ''p'' demo_db = Some (first_row demo_db)" by code_simp
  have ok: "h_version (first_row demo_db) \<le> 1" "\<not> token_completed 7 ''p'' ''ann'' ''t1'' demo_db"
    "it_can_claim (metadata (first_row demo_db) 10 ''ann'')"
    by code_simp+
  show ?thesis using handoff_view_predicts_claim [OF row, of "''ann''" "\<lambda>_. 10" 1 "''t1''" 60] ok by blast
qed

text \<open>Reading the whole inbox of one moment, page by page.\<close>

definition inbox_at :: "time \<Rightarrow> string \<Rightarrow> inbox_args \<Rightarrow> hdb \<Rightarrow> cursor option \<Rightarrow> inbox_item page outcome" where
  "inbox_at now actor a db c = inbox (\<lambda>_. now) actor (a\<lparr>ia_cursor := c\<rparr>) db"

definition inbox_limit :: "inbox_args \<Rightarrow> nat" where
  "inbox_limit a = (case ia_limit a of None \<Rightarrow> 20 | Some n \<Rightarrow> n)"

lemma inbox_at_page:
  "inbox_at now actor a db c =
     (case keyset_page inbox_key (inbox_scope a actor) c (inbox_limit a) (inbox_rows a actor now db) of
        Inl _ \<Rightarrow> Inl inbox_cursor_error
      | Inr p \<Rightarrow> Inr (map_page (\<lambda>r. metadata r now actor) p))"
  by (auto simp: inbox_at_def inbox_def keyset_page_def inbox_limit_def inbox_scope_def inbox_rows_def
      inbox_view_of_def map_page_def and_then_def Let_def split: sum.splits)

text \<open>
  C13. The inbox is complete: a client that follows the cursors reads, newest first,
  exactly the rows of its view, each once, with their metadata; and a cursor of another
  project, actor or view is refused.
\<close>

theorem handoff_inbox_complete:
  assumes "unique_ids db" and "0 < inbox_limit a" and "length (hdb_handoffs db) < fuel"
    and "cur_scope cur \<noteq> inbox_scope a actor"
  shows "follow_pages fuel (inbox_at now actor a db) None
      = Inr (map (\<lambda>r. metadata r now actor) (newest_first inbox_key (inbox_rows a actor now db)))
    \<and> inbox_at now actor a db (Some cur) = Inl inbox_cursor_error"
proof -
  let ?t = "inbox_rows a actor now db"
  have d: "distinct (map inbox_key ?t)"
  proof -
    have "distinct (map h_id ?t)"
      using assms(1) by (simp add: inbox_rows_def unique_ids_def distinct_map_filter)
    then show ?thesis by (auto simp: distinct_map inj_on_def inbox_key_def)
  qed
  have "length ?t < fuel" using assms(3) by (simp add: inbox_rows_def le_less_trans [OF length_filter_le])
  from follow_pages_complete [OF d assms(2) this]
  have "follow_pages fuel (inbox_at now actor a db) None = Inr (map (\<lambda>r. metadata r now actor) (newest_first inbox_key ?t))"
    by (rule follow_pages_map [where read = "\<lambda>c. keyset_page inbox_key (inbox_scope a actor) c (inbox_limit a) ?t"])
      (simp add: inbox_at_page)
  then show ?thesis using assms(4) by (simp add: inbox_at_page keyset_page_def decode_cursor_def)
qed

definition demo_inbox :: inbox_args where
  "demo_inbox = \<lparr>ia_project_id = ''p'', ia_view = None, ia_unit_id = None, ia_max_classification = None,
     ia_cursor = None, ia_limit = None\<rparr>"

theorem handoff_inbox_complete_witness:
  "follow_pages 2 (inbox_at 10 ''ann'' demo_inbox demo_db) None = Inr [metadata (first_row demo_db) 10 ''ann'']"
proof -
  let ?cur = "\<lparr>cur_v = 1, cur_scope = [], cur_at = 0, cur_id = 0\<rparr>"
  have ids: "unique_ids demo_db" using demo_inv(1) by (rule handoff_inv_unique)
  have pre: "0 < inbox_limit demo_inbox" "length (hdb_handoffs demo_db) < 2"
    "cur_scope ?cur \<noteq> inbox_scope demo_inbox ''ann''"
    by (simp_all add: inbox_limit_def demo_inbox_def demo_db_def inbox_scope_def)
  have "newest_first inbox_key (inbox_rows demo_inbox ''ann'' 10 demo_db) = [first_row demo_db]"
    by code_simp
  then show ?thesis using handoff_inbox_complete [OF ids pre] by simp
qed

end
