(* ===== verification/Auth.thy ===== *)
theory Auth
  imports Py_Json
begin

text \<open>
  Principals, access tokens and tool authorization (server/auth.py, the token queries of
  store/queries.py, and the scope tables of the tool modules).
\<close>

subsection \<open>Principals and tokens\<close>

record principal =
  p_user_id :: string
  p_project_id :: "string option"
  p_scopes :: "string list"
  p_local :: bool
  p_provider :: string
  p_organization_id :: "string option"

definition local_stdio :: principal where
  "local_stdio = \<lparr>p_user_id = ''local-stdio'', p_project_id = None,
     p_scopes = [''read'', ''write'', ''admin''], p_local = True, p_provider = ''token'', p_organization_id = None\<rparr>"

record access_token =
  at_id :: uuid
  at_token_hash :: string
  at_project_id :: string
  at_user_id :: string
  at_scopes :: "string list"
  at_expires_at :: "time option"
  at_revoked_at :: "time option"

definition get_token_by_hash :: "string \<Rightarrow> access_token list \<Rightarrow> access_token option" where
  "get_token_by_hash h t = fetchrow (\<lambda>r. at_token_hash r = h) t"

definition create_token ::
    "uuid \<Rightarrow> string \<Rightarrow> string \<Rightarrow> string \<Rightarrow> string list \<Rightarrow> time option \<Rightarrow> access_token list \<Rightarrow> access_token list" where
  "create_token i h project user scopes expires t =
     insert_row \<lparr>at_id = i, at_token_hash = h, at_project_id = project, at_user_id = user,
       at_scopes = scopes, at_expires_at = expires, at_revoked_at = None\<rparr> t"

definition revoke_token :: "time \<Rightarrow> uuid \<Rightarrow> access_token list \<Rightarrow> access_token list \<times> bool" where
  "revoke_token now i t =
     (update_where (\<lambda>r. at_id r = i \<and> at_revoked_at r = None) (\<lambda>r. r\<lparr>at_revoked_at := Some now\<rparr>) t,
      length (filter (\<lambda>r. at_id r = i \<and> at_revoked_at r = None) t) = 1)"

definition auth_error :: "string \<Rightarrow> mem_error" where
  "auth_error msg = memory_tool_error msg ''MEM-AUTH-0001'' [] 401"

definition verify_token :: "platform \<Rightarrow> time \<Rightarrow> string option \<Rightarrow> access_token list \<Rightarrow> principal outcome" where
  "verify_token P now raw t =
     (case raw of
        None \<Rightarrow> Inl (auth_error ''Authentication token is required'')
      | Some token \<Rightarrow>
          if token = [] then Inl (auth_error ''Authentication token is required'')
          else case get_token_by_hash (token_digest P token) t of
                 None \<Rightarrow> Inl (auth_error ''Invalid or revoked authentication token'')
               | Some r \<Rightarrow>
                   if at_revoked_at r \<noteq> None then Inl (auth_error ''Invalid or revoked authentication token'')
                   else if (case at_expires_at r of None \<Rightarrow> False | Some e \<Rightarrow> e \<le> now)
                   then Inl (auth_error ''Authentication token has expired'')
                   else Inr \<lparr>p_user_id = at_user_id r, p_project_id = Some (at_project_id r),
                          p_scopes = at_scopes r, p_local = False,
                          p_provider = ''token'', p_organization_id = None\<rparr>)"

subsection \<open>Scopes of the tools\<close>

definition with_scope :: "string \<Rightarrow> string list \<Rightarrow> (string \<times> string) list" where
  "with_scope s names = map (\<lambda>n. (n, s)) names"

definition REPO_SCOPES :: "(string \<times> string) list" where
  "REPO_SCOPES = with_scope ''read'' [''memory_repo_list'', ''memory_repo_check_updates'']"

definition BASE_SCOPES :: "(string \<times> string) list" where
  "BASE_SCOPES =
     [(''memory_handoff_push'', ''write''), (''memory_handoff_list'', ''read''),
      (''memory_handoff_pull'', ''write''), (''memory_handoff_claim'', ''write''),
      (''memory_handoff_get_claimed'', ''write''), (''memory_handoff_ack'', ''write''),
      (''memory_handoff_nack'', ''write''), (''memory_experience_propose'', ''write''),
      (''memory_experience_list'', ''admin''), (''memory_experience_review'', ''admin''),
      (''memory_experience_revise'', ''admin''), (''memory_experience_history'', ''admin''),
      (''memory_experience_suppression_release'', ''admin''), (''memory_search'', ''read''),
      (''memory_read'', ''read''), (''memory_generation_enqueue'', ''admin''),
      (''memory_generation_list'', ''admin''), (''memory_generation_retry'', ''admin''),
      (''memory_summary_read'', ''read''), (''memory_skill_generate'', ''admin''),
      (''memory_skill_propose'', ''write''), (''memory_skill_revise'', ''admin''),
      (''memory_skill_review'', ''admin''), (''memory_skill_list'', ''admin''),
      (''memory_skill_inspect'', ''admin''), (''memory_skill_read'', ''read''),
      (''memory_skill_export'', ''admin'')]"

definition TEAM_SCOPES :: "(string \<times> string) list" where
  "TEAM_SCOPES =
     with_scope ''read'' [''memory_shared_read'', ''memory_knowledge_read'']
     @ with_scope ''write'' [''memory_feedback_record'']
     @ with_scope ''admin'' [''memory_grant_create'', ''memory_grant_revoke'', ''memory_grant_list'',
         ''memory_knowledge_sync'', ''memory_knowledge_delete'', ''memory_knowledge_list'', ''memory_skill_import'',
         ''memory_skill_import_inspect'', ''memory_skill_import_list'', ''memory_skill_import_forget'',
         ''memory_feedback_list'']"

definition COLLABORATION_SCOPES :: "(string \<times> string) list" where
  "COLLABORATION_SCOPES =
     [(''memory_handoff_inbox'', ''read''), (''memory_handoff_status'', ''read''), (''memory_handoff_renew'', ''write'')]"

definition PRESENCE_SCOPES :: "(string \<times> string) list" where
  "PRESENCE_SCOPES =
     with_scope ''write'' [''memory_presence_register'', ''memory_presence_heartbeat'', ''memory_presence_end'']
     @ with_scope ''admin'' [''memory_presence_policy_set'', ''memory_presence_prune'']
     @ with_scope ''read'' [''memory_presence_policy_get'', ''memory_presence_list'', ''memory_presence_users'']"

definition USAGE_SCOPES :: "(string \<times> string) list" where
  "USAGE_SCOPES =
     with_scope ''write'' [''memory_usage_register'', ''memory_usage_report'']
     @ with_scope ''admin'' [''memory_usage_policy_set'', ''memory_usage_prune'']
     @ with_scope ''read'' [''memory_usage_policy_get'', ''memory_usage_summary'', ''memory_usage_list'']"

definition CONTINUITY_SCOPES :: "(string \<times> string) list" where
  "CONTINUITY_SCOPES =
     with_scope ''admin'' [''memory_continuity_policy_set'', ''memory_continuity_members'', ''memory_checkpoint_forget'',
         ''memory_continuity_reassign'', ''memory_continuity_history'', ''memory_collaboration_events_prune'']
     @ with_scope ''write'' [''memory_checkpoint_save'', ''memory_continuity_publish'', ''memory_continuity_ack'',
         ''memory_continuity_claim'', ''memory_continuity_renew'', ''memory_continuity_release'']
     @ with_scope ''read'' [''memory_collaboration_events'', ''memory_collaboration_overview'',
         ''memory_collaboration_list'', ''memory_continuity_policy_get'', ''memory_checkpoint_list'',
         ''memory_checkpoint_read'', ''memory_continuity_inbox'', ''memory_continuity_status'', ''memory_continuity_read'']
     @ PRESENCE_SCOPES @ USAGE_SCOPES"

definition PROJECT_SCOPES :: "(string \<times> string) list" where
  "PROJECT_SCOPES =
     [(''memory_project_list'', ''read''), (''memory_project_get'', ''read''),
      (''memory_project_register'', ''write''), (''memory_project_assign'', ''write'')]"

definition RECORD_SCOPES :: "(string \<times> string) list" where
  "RECORD_SCOPES =
     [(''memory_project_record_put'', ''write''), (''memory_project_record_list'', ''read''),
      (''memory_project_record_remove'', ''write'')]"

definition TOOL_SCOPES :: "(string \<times> string) list" where
  "TOOL_SCOPES = REPO_SCOPES @ BASE_SCOPES @ TEAM_SCOPES @ COLLABORATION_SCOPES @ CONTINUITY_SCOPES
     @ PROJECT_SCOPES @ RECORD_SCOPES"

definition PROJECT_SCOPED_TOOLS :: "string list" where
  "PROJECT_SCOPED_TOOLS = map fst BASE_SCOPES @ map fst TEAM_SCOPES @ map fst COLLABORATION_SCOPES
     @ map fst CONTINUITY_SCOPES @ filter (\<lambda>n. n \<noteq> ''memory_project_list'') (map fst PROJECT_SCOPES)
     @ map fst RECORD_SCOPES"

subsection \<open>Authorization\<close>

definition unknown_tool :: "string \<Rightarrow> mem_error" where
  "unknown_tool name = (memory_tool_error (''Unknown tool: '' @ name) ''MEM-TOOL-0001'' [] 404)\<lparr>err_rpc := -32602\<rparr>"

definition authorize_tool :: "principal \<Rightarrow> string \<Rightarrow> string option \<Rightarrow> unit outcome" where
  \<comment> \<open>\<open>project\<close> is \<open>arguments.get("project_id")\<close>\<close>
  "authorize_tool p name project =
     (case map_of TOOL_SCOPES name of
        None \<Rightarrow> Inl (unknown_tool name)
      | Some required \<Rightarrow>
          checked
            [(\<not> p_local p \<and> required \<notin> set (p_scopes p) \<and> ''admin'' \<notin> set (p_scopes p),
                memory_tool_error (''Scope '' @ [CHR 0x27] @ required @ [CHR 0x27] @ '' is required'')
                  ''MEM-AUTH-0002'' [(''required_scope'', PStr required)] 403),
             (name \<in> set PROJECT_SCOPED_TOOLS \<and> \<not> p_local p
                \<and> (project = None \<or> project = Some [] \<or> project \<noteq> p_project_id p),
                memory_tool_error ''Request project does not match token project'' ''MEM-AUTH-0003'' [] 403)]
            ())"

lemma authorize_tool_Inr_iff:
  "authorize_tool p name project = Inr () \<longleftrightarrow>
     (\<exists>required. map_of TOOL_SCOPES name = Some required
        \<and> (p_local p \<or> required \<in> set (p_scopes p) \<or> ''admin'' \<in> set (p_scopes p))
        \<and> (p_local p \<or> name \<notin> set PROJECT_SCOPED_TOOLS
           \<or> (\<exists>q. q \<noteq> [] \<and> project = Some q \<and> p_project_id p = Some q)))"
  by (auto simp: authorize_tool_def split: option.splits)

subsection \<open>Properties\<close>

text \<open>The project a token may not leave, for every tool but those that list repositories or projects.\<close>

lemma unscoped_tools:
  assumes "(name, s) \<in> set TOOL_SCOPES" and "name \<notin> set PROJECT_SCOPED_TOOLS"
  shows "name \<in> {''memory_repo_list'', ''memory_repo_check_updates'', ''memory_project_list''}"
proof -
  have fst_in: "name \<in> fst ` set g" if "(name, s) \<in> set g" for g :: "(string \<times> string) list"
    using that by (metis fst_conv image_eqI)
  have scoped: "name \<notin> fst ` set BASE_SCOPES" "name \<notin> fst ` set TEAM_SCOPES" "name \<notin> fst ` set COLLABORATION_SCOPES"
    "name \<notin> fst ` set CONTINUITY_SCOPES" "name \<notin> fst ` set RECORD_SCOPES"
    "name \<in> fst ` set PROJECT_SCOPES \<longrightarrow> name = ''memory_project_list''"
    using assms(2) by (simp_all only: PROJECT_SCOPED_TOOLS_def set_append set_map set_filter Un_iff mem_Collect_eq de_Morgan_disj de_Morgan_conj not_not) simp_all
  have "(name, s) \<notin> set BASE_SCOPES" "(name, s) \<notin> set TEAM_SCOPES" "(name, s) \<notin> set COLLABORATION_SCOPES"
    "(name, s) \<notin> set CONTINUITY_SCOPES" "(name, s) \<notin> set RECORD_SCOPES"
    using fst_in scoped(1-5) by fast+
  then have "(name, s) \<in> set REPO_SCOPES \<or> (name, s) \<in> set PROJECT_SCOPES"
    using assms(1) by (simp add: TOOL_SCOPES_def)
  then have "(name, s) \<in> set REPO_SCOPES \<or> name = ''memory_project_list''"
    using fst_in [of PROJECT_SCOPES] scoped(6) by (elim disjE) simp_all
  then show ?thesis by (auto simp: REPO_SCOPES_def with_scope_def)
qed

definition auth_platform :: platform where
  "auth_platform = \<lparr>sha256 = (\<lambda>bs. bs), float_repr = (\<lambda>_. []), fromisoformat = (\<lambda>_. None), schema_valid = (\<lambda>_ _. True)\<rparr>"

definition auth_table :: "access_token list" where
  "auth_table = create_token 1 ''secret'' ''p'' ''ann'' [''read''] (Some 100) []"

text \<open>
  C15. Revocation: after a token has been revoked it is refused at every time, whatever
  tokens are created later under other hashes, and every other token is accepted or
  refused as before.
\<close>

theorem auth_revocation:
  assumes "distinct (map at_id t)" and "distinct (map at_token_hash t)"
    and "r \<in> set t" and "at_id r = i" and "at_token_hash r = token_digest P raw" and "raw \<noteq> []"
    and "token_digest P other \<noteq> token_digest P raw"
  shows "verify_token P now (Some raw) (fst (revoke_token stamp i t) @ later)
      = Inl (auth_error ''Invalid or revoked authentication token'')
    \<and> verify_token P now (Some other) (fst (revoke_token stamp i t)) = verify_token P now (Some other) t"
proof -
  let ?f = "\<lambda>x. if at_id x = i \<and> at_revoked_at x = None then x\<lparr>at_revoked_at := Some stamp\<rparr> else x"
  have keep: "fetchrow (\<lambda>x. at_token_hash x = h) (fst (revoke_token stamp i t))
      = map_option ?f (fetchrow (\<lambda>x. at_token_hash x = h) t)" for h
    using fetchrow_update_where [of "\<lambda>x. at_id x = i \<and> at_revoked_at x = None" "\<lambda>x. at_token_hash x = h"
        "\<lambda>x. x\<lparr>at_revoked_at := Some stamp\<rparr>" t]
    by (simp add: revoke_token_def)
  have "fetchrow (\<lambda>x. at_token_hash x = token_digest P raw) t = Some r"
    using assms(2,3,5) by (rule fetchrow_by_key_eq)
  moreover have "at_revoked_at (?f r) \<noteq> None" using assms(4) by auto
  ultimately have "verify_token P now (Some raw) (fst (revoke_token stamp i t) @ later)
      = Inl (auth_error ''Invalid or revoked authentication token'')"
    using assms(6) keep [of "token_digest P raw"]
    by (simp add: verify_token_def get_token_by_hash_def fetchrow_append)
  moreover have "?f x = x" if "fetchrow (\<lambda>x. at_token_hash x = token_digest P other) t = Some x" for x
  proof -
    have x: "x \<in> set t" "at_token_hash x = token_digest P other" using fetchrow_SomeD [OF that] by auto
    then have "x \<noteq> r" using assms(5,7) by auto
    then have "at_id x \<noteq> i" using assms(1,3,4) x(1) by (auto simp: distinct_map inj_on_def)
    then show ?thesis by simp
  qed
  then have "fetchrow (\<lambda>x. at_token_hash x = token_digest P other) (fst (revoke_token stamp i t))
      = fetchrow (\<lambda>x. at_token_hash x = token_digest P other) t"
    by (cases "fetchrow (\<lambda>x. at_token_hash x = token_digest P other) t") (simp_all add: keep)
  ultimately show ?thesis by (simp add: verify_token_def get_token_by_hash_def)
qed

theorem auth_revocation_witness:
  "verify_token auth_platform 5 (Some ''secret'') (fst (revoke_token 4 1 auth_table) @ [])
     = Inl (auth_error ''Invalid or revoked authentication token'')"
proof -
  have "auth_table = [hd auth_table]" by code_simp
  then have "distinct (map at_id auth_table)" "distinct (map at_token_hash auth_table)" "hd auth_table \<in> set auth_table"
    by (metis distinct_singleton list.simps(8,9), metis distinct_singleton list.simps(8,9), metis list.set_intros(1))
  moreover have "at_id (hd auth_table) = 1" "at_token_hash (hd auth_table) = token_digest auth_platform ''secret''"
    "''secret'' \<noteq> []" "token_digest auth_platform ''other'' \<noteq> token_digest auth_platform ''secret''"
    by code_simp+
  ultimately show ?thesis using auth_revocation by blast
qed

end
