(* ===== verification/Continuity_State.thy ===== *)
theory Continuity_State
  imports Handoff_Continuation Auth
begin

text \<open>
  The tables of the continuity service and what all of its operations share
  (continuity/common.py): errors, policies, idempotency receipts, audit events, and the
  notification log with its contiguous positions and its bounded purge
  (continuity/events.py). Identifiers are UUIDs in their canonical text form; the
  arguments of an operation are the dict its tool schema has accepted.
\<close>

subsection \<open>Rows\<close>

record policy_row =
  pr_project_id :: string
  pr_version :: nat
  pr_policy :: dict
  pr_updated_by :: string

record cont_receipt =
  rc_project_id :: string
  rc_actor_id :: string
  rc_operation :: string
  rc_idempotency_key :: string
  rc_request_digest :: string
  rc_result :: dict

record audit_event =
  ae_project_id :: string
  ae_actor_id :: string
  ae_action :: string
  ae_target_id :: string
  ae_details :: dict

record event_head =
  eh_project_id :: string
  eh_position :: nat
  eh_pruned_through :: nat

record notification =
  nt_project_id :: string
  nt_position :: nat
  nt_topic :: string
  nt_resource_kind :: string
  nt_resource_id :: "string option"
  nt_classification :: classification
  nt_audience :: "string list"
  nt_revision :: "int option"
  nt_broadcast :: bool
  nt_created_at :: time

record checkpoint =
  ck_id :: string
  ck_project_id :: string
  ck_work_id :: string
  ck_from_user :: string
  ck_version :: nat
  ck_classification :: classification
  ck_lock_snapshot_digest :: string
  ck_continuation :: pyval
  ck_continuation_digest :: string
  ck_snapshot :: pyval
  ck_snapshot_digest :: "string option"
  ck_payload_digest :: string
  ck_policy_version :: nat
  ck_created_at :: time
  ck_expires_at :: time
  ck_forgotten_at :: "time option"

record cont_bundle =
  bn_id :: string
  bn_project_id :: string
  bn_source_checkpoint_id :: "string option"
  bn_source_handoff_id :: "string option"
  bn_from_user :: string
  bn_classification :: classification
  bn_source_digest :: string
  bn_version :: nat
  bn_policy_version :: nat
  bn_expires_at :: time
  bn_created_by :: string
  bn_revoked_at :: "time option"

record delivery =
  dl_id :: string
  dl_project_id :: string
  dl_bundle_id :: string
  dl_recipient_user_id :: string
  dl_routing_version :: nat
  dl_acknowledged_at :: "time option"
  dl_revoked_at :: "time option"

datatype unit_state = U_available | U_claimed | U_completed | U_cancelled

record work_unit =
  wu_id :: string
  wu_project_id :: string
  wu_bundle_id :: string
  wu_unit_key :: string
  wu_summary :: string
  wu_assignee_user_ids :: "string list"
  wu_state :: unit_state
  wu_claimed_by :: "string option"
  wu_claim_token_digest :: "string option"
  wu_lease_expires_at :: "time option"
  wu_claim_generation :: nat

record work_claim =
  wc_unit_id :: string
  wc_project_id :: string
  wc_actor_id :: string
  wc_claim_token_digest :: string
  wc_claim_generation :: nat

record presence_session =
  ps_id :: string
  ps_project_id :: string
  ps_actor_id :: string
  ps_client_instance_id :: string
  ps_session_token_digest :: string
  ps_register_digest :: string
  ps_host_kind :: string
  ps_session_kind :: string
  ps_parent_session_id :: "string option"
  ps_classification :: classification
  ps_sequence :: int
  ps_state_sequence :: int
  ps_report_digest :: "string option"
  ps_reported_policy_version :: int
  ps_reported_state :: string
  ps_observation_scope :: string
  ps_state_observation_available :: bool
  ps_active_work_count :: int
  ps_work_unit_id :: "string option"
  ps_checkpoint_id :: "string option"
  ps_created_at :: time
  ps_last_seen_at :: time
  ps_state_since_at :: time
  ps_idle_since_at :: "time option"
  ps_ended_at :: "time option"
  ps_retired_at :: "time option"

record usage_session =
  us_id :: string
  us_project_id :: string
  us_actor_id :: string
  us_execution_attempt_id :: string
  us_meter_epoch :: string
  us_session_token_digest :: string
  us_register_digest :: string
  us_host_kind :: string
  us_host_version :: string
  us_adapter_version :: string
  us_provider :: string
  us_model_id :: string
  us_classification :: classification
  us_parent_session_id :: "string option"
  us_work_unit_id :: "string option"
  us_claim_generation :: "int option"
  us_created_at :: time
  us_accepts_until :: time
  us_sequence :: int
  us_metrics :: "pyval option"
  us_coverage :: string
  us_completion_state :: string
  us_first_received_at :: "time option"
  us_last_received_at :: "time option"
  us_bucket_at :: "time option"
  us_bucket_basis :: "string option"
  us_source_occurred_at :: "time option"
  us_finalized_at :: "time option"
  us_retired_at :: "time option"

record usage_receipt =
  ur_session_id :: string
  ur_project_id :: string
  ur_sequence :: int
  ur_request_digest :: string
  ur_received_at :: time
  ur_bucket_at :: time
  ur_completion_state :: string

text \<open>The three policy tables have the same columns.\<close>

record cdb =
  cd_policies :: "policy_row list"
  cd_presence_policies :: "policy_row list"
  cd_usage_policies :: "policy_row list"
  cd_receipts :: "cont_receipt list"
  cd_audit :: "audit_event list"
  cd_heads :: "event_head list"
  cd_notifications :: "notification list"
  cd_checkpoints :: "checkpoint list"
  cd_bundles :: "cont_bundle list"
  cd_deliveries :: "delivery list"
  cd_units :: "work_unit list"
  cd_claims :: "work_claim list"
  cd_presence :: "presence_session list"
  cd_usage :: "usage_session list"
  cd_usage_receipts :: "usage_receipt list"
  cd_members :: "(string \<times> string) list"
  cd_handoffs :: "handoff list"

definition empty_cdb :: cdb where
  "empty_cdb = \<lparr>cd_policies = [], cd_presence_policies = [], cd_usage_policies = [], cd_receipts = [],
     cd_audit = [], cd_heads = [], cd_notifications = [], cd_checkpoints = [], cd_bundles = [],
     cd_deliveries = [], cd_units = [], cd_claims = [], cd_presence = [], cd_usage = [],
     cd_usage_receipts = [], cd_members = [], cd_handoffs = []\<rparr>"

subsection \<open>Errors, authority and ceilings\<close>

definition cont_fail :: "string \<Rightarrow> string \<Rightarrow> int \<Rightarrow> mem_error" where
  "cont_fail msg code status = memory_tool_error msg code [] status"

definition out_of_scope :: mem_error where
  "out_of_scope = cont_fail ''Continuity record is unavailable in this scope'' ''MEM-CONTINUITY-0001'' 404"

definition cont_conflict :: "string \<Rightarrow> mem_error" where
  "cont_conflict msg = cont_fail msg ''MEM-CONTINUITY-0002'' 409"

definition version_conflict :: mem_error where
  "version_conflict = cont_conflict ''Continuity version, identity or receipt conflicts''"

definition cont_invalid :: "string \<Rightarrow> mem_error" where
  "cont_invalid msg = cont_fail msg ''MEM-CONTINUITY-0003'' 400"

definition is_admin :: "principal \<Rightarrow> bool" where
  "is_admin p \<longleftrightarrow> p_local p \<or> ''admin'' \<in> set (p_scopes p)"

definition not_admin :: mem_error where
  "not_admin = cont_fail ''Project admin authority is required'' ''MEM-CONTINUITY-0004'' 403"

definition max_classification :: "dict \<Rightarrow> classification" where
  \<comment> \<open>\<open>arguments.get("max_classification", "internal")\<close>\<close>
  "max_classification a = class_of (str_of (get_or a ''max_classification'' (PStr ''internal'')))"

definition over_ceiling :: "classification \<Rightarrow> dict \<Rightarrow> bool" where
  "over_ceiling c a \<longleftrightarrow> class_index (max_classification a) < class_index c"

subsection \<open>Receipts\<close>

definition receipt_material :: "platform \<Rightarrow> dict \<Rightarrow> dict" where
  "receipt_material P a =
     (let m = dict_drop ''idempotency_key'' a
      in if has_key m ''claim_token'' then dict_put ''claim_token'' (PStr (token_digest P (arg_str m ''claim_token''))) m
         else m)"

definition fingerprint :: "platform \<Rightarrow> dict \<Rightarrow> string" where
  "fingerprint P a = digest P (PDict (receipt_material P a))"

type_synonym receipt_key = "string \<times> string \<times> string \<times> string"

definition receipt_key :: "dict \<Rightarrow> principal \<Rightarrow> string \<Rightarrow> receipt_key" where
  "receipt_key a p operation = (arg_str a ''project_id'', p_user_id p, operation, arg_str a ''idempotency_key'')"

definition key_of :: "cont_receipt \<Rightarrow> receipt_key" where
  "key_of r = (rc_project_id r, rc_actor_id r, rc_operation r, rc_idempotency_key r)"

definition find_receipt :: "cdb \<Rightarrow> receipt_key \<Rightarrow> (string \<times> dict) option" where
  "find_receipt db k = map_option (\<lambda>r. (rc_request_digest r, rc_result r)) (fetchrow (\<lambda>r. key_of r = k) (cd_receipts db))"

definition put_receipt :: "cdb \<Rightarrow> receipt_key \<Rightarrow> string \<times> dict \<Rightarrow> cdb" where
  "put_receipt db k v =
     db\<lparr>cd_receipts := insert_row \<lparr>rc_project_id = fst k, rc_actor_id = fst (snd k),
        rc_operation = fst (snd (snd k)), rc_idempotency_key = snd (snd (snd k)),
        rc_request_digest = fst v, rc_result = snd v\<rparr> (cd_receipts db)\<rparr>"

definition replay :: "platform \<Rightarrow> dict \<Rightarrow> principal \<Rightarrow> string \<Rightarrow> cdb \<Rightarrow> dict option outcome" where
  \<comment> \<open>\<open>receipt\<close> without a result\<close>
  "replay P a p operation db =
     (case find_receipt db (receipt_key a p operation) of
        None \<Rightarrow> Inr None
      | Some (d, res) \<Rightarrow>
          if d \<noteq> fingerprint P a then Inl version_conflict
          else Inr (Some (dict_put ''replayed'' (PBool True) res)))"

definition record_receipt :: "platform \<Rightarrow> dict \<Rightarrow> principal \<Rightarrow> string \<Rightarrow> dict \<Rightarrow> cdb \<Rightarrow> cdb \<times> dict" where
  \<comment> \<open>\<open>receipt\<close> with the result of the operation\<close>
  "record_receipt P a p operation res db =
     (let r = dict_put ''replayed'' (PBool False) res
      in (put_receipt db (receipt_key a p operation) (fingerprint P a, r), r))"

text \<open>
  The frame every mutation has: answer from the receipt, or run the body and store its
  result as the receipt, in one transaction.
\<close>

definition receipted ::
    "platform \<Rightarrow> dict \<Rightarrow> principal \<Rightarrow> string \<Rightarrow> (cdb \<Rightarrow> (cdb \<times> dict) outcome) \<Rightarrow> cdb \<Rightarrow> (cdb \<times> dict) outcome" where
  "receipted P a p operation body db =
     and_then (replay P a p operation db) (\<lambda>r. case r of
       Some res \<Rightarrow> Inr (db, res)
     | None \<Rightarrow> and_then (body db) (\<lambda>(db', res). Inr (record_receipt P a p operation res db')))"

subsection \<open>Policies and members\<close>

definition policy_of :: "string \<Rightarrow> policy_row list \<Rightarrow> policy_row option" where
  "policy_of project t = fetchrow (\<lambda>r. pr_project_id r = project) t"

definition no_policy :: mem_error where
  "no_policy = cont_fail ''Project continuity policy is absent or disabled'' ''MEM-CONTINUITY-0006'' 409"

definition policy :: "string \<Rightarrow> bool \<Rightarrow> cdb \<Rightarrow> policy_row outcome" where
  "policy project enabled db =
     (case policy_of project (cd_policies db) of
        None \<Rightarrow> Inl no_policy
      | Some r \<Rightarrow> if enabled \<and> \<not> truthy (py_get (pr_policy r) ''enabled'') then Inl no_policy else Inr r)"

definition eligible :: "string \<Rightarrow> string list \<Rightarrow> string option \<Rightarrow> cdb \<Rightarrow> unit outcome" where
  "eligible project users sender db =
     checked
       [((case sender of None \<Rightarrow> False | Some s \<Rightarrow> s \<in> set users),
           cont_invalid ''A handover user cannot be their own successor''),
        (\<not> list_all (\<lambda>u. (project, u) \<in> set (cd_members db)) users,
           cont_fail ''All recipients must have live project read/write or admin authority'' ''MEM-CONTINUITY-0007'' 409)]
       ()"

text \<open>INSERT ... ON CONFLICT(project_id) DO UPDATE of a policy table.\<close>

definition upsert_policy :: "string \<Rightarrow> nat \<Rightarrow> dict \<Rightarrow> string \<Rightarrow> policy_row list \<Rightarrow> policy_row list" where
  "upsert_policy project version body actor t =
     (let r = \<lparr>pr_project_id = project, pr_version = version, pr_policy = body, pr_updated_by = actor\<rparr>
      in if exists_row (\<lambda>x. pr_project_id x = project) t
         then update_where (\<lambda>x. pr_project_id x = project) (\<lambda>_. r) t
         else insert_row r t)"

definition policy_version :: "string \<Rightarrow> policy_row list \<Rightarrow> nat" where
  "policy_version project t = (case policy_of project t of None \<Rightarrow> 0 | Some r \<Rightarrow> pr_version r)"

subsection \<open>Notifications\<close>

definition RETENTION_SECONDS :: int where "RETENTION_SECONDS = 7 * 86400"
definition MAX_EVENTS :: nat where "MAX_EVENTS = 50000"
definition PURGE_BATCH :: nat where "PURGE_BATCH = 200"

definition TOPICS :: "string list" where
  "TOPICS = [''checkpoint_saved'', ''handover_changed'', ''intake_acknowledged'', ''work_claimed'', ''work_released'',
     ''work_completed'', ''access_changed'', ''policy_changed'', ''session_registered'', ''session_state_changed'',
     ''session_ended'', ''usage_finalized'', ''maintenance'']"

definition head_of :: "string \<Rightarrow> cdb \<Rightarrow> event_head option" where
  "head_of project db = fetchrow (\<lambda>h. eh_project_id h = project) (cd_heads db)"

definition purgeable :: "string \<Rightarrow> time \<Rightarrow> nat \<Rightarrow> notification \<Rightarrow> bool" where
  "purgeable project now head n \<longleftrightarrow> nt_project_id n = project
     \<and> (nt_created_at n < now - seconds RETENTION_SECONDS \<or> nt_position n \<le> head - MAX_EVENTS)"

definition purged_positions :: "string \<Rightarrow> time \<Rightarrow> nat \<Rightarrow> notification list \<Rightarrow> nat list" where
  \<comment> \<open>ORDER BY position LIMIT\<close>
  "purged_positions project now head t =
     take PURGE_BATCH (sort (map nt_position (filter (purgeable project now head) t)))"

definition purge :: "string \<Rightarrow> time \<Rightarrow> cdb \<Rightarrow> cdb \<times> nat" where
  "purge project now db =
     (case head_of project db of
        None \<Rightarrow> (db, 0)
      | Some h \<Rightarrow>
          (let ps = purged_positions project now (eh_position h) (cd_notifications db)
           in if ps = [] then (db, 0)
              else (db\<lparr>cd_notifications := filter (\<lambda>n. \<not> (nt_project_id n = project \<and> nt_position n \<in> set ps))
                          (cd_notifications db),
                       cd_heads := update_where (\<lambda>x. eh_project_id x = project)
                          (\<lambda>x. x\<lparr>eh_pruned_through := max (eh_pruned_through x) (Max (set ps))\<rparr>) (cd_heads db)\<rparr>,
                    length ps)))"

definition bump_head :: "string \<Rightarrow> event_head list \<Rightarrow> event_head list" where
  "bump_head project t =
     (if exists_row (\<lambda>h. eh_project_id h = project) t
      then update_where (\<lambda>h. eh_project_id h = project) (\<lambda>h. h\<lparr>eh_position := eh_position h + 1\<rparr>) t
      else insert_row \<lparr>eh_project_id = project, eh_position = 1, eh_pruned_through = 0\<rparr> t)"

definition append_event ::
    "time \<Rightarrow> string \<Rightarrow> string \<Rightarrow> string \<Rightarrow> string option \<Rightarrow> classification \<Rightarrow> string list \<Rightarrow> int option \<Rightarrow> bool
     \<Rightarrow> cdb \<Rightarrow> cdb outcome" where
  "append_event now project topic kind resource level audience revision broadcast db =
     (let users = remdups (sort audience)
      in checked
           [(topic \<notin> set TOPICS, cont_invalid ''Unsupported notification projection''),
            (128 < length users, cont_invalid ''Notification audience exceeds the project handover limit'')]
           (let db1 = db\<lparr>cd_heads := bump_head project (cd_heads db)\<rparr>;
                position = (case head_of project db1 of None \<Rightarrow> 0 | Some h \<Rightarrow> eh_position h);
                n = \<lparr>nt_project_id = project, nt_position = position, nt_topic = topic, nt_resource_kind = kind,
                     nt_resource_id = resource, nt_classification = level, nt_audience = users,
                     nt_revision = revision, nt_broadcast = broadcast, nt_created_at = now\<rparr>
            in fst (purge project now (db1\<lparr>cd_notifications := insert_row n (cd_notifications db1)\<rparr>))))"

end
