(* ===== verification/Text_Codec.thy ===== *)
theory Text_Codec
  imports Py_Json
begin

text \<open>
  Text as several components take it apart: splitting at a character, prefixes and
  suffixes, letter case, strict base64, and the patterns of recognizable credentials that
  checkpoints (continuity/snapshots.py) and shared records (projects/records.py) refuse.
  Lemmas: joining undoes splitting, and base64 decodes what it encodes.
\<close>

subsection \<open>Parts of a string\<close>

fun split_on :: "'a \<Rightarrow> 'a list \<Rightarrow> 'a list list" where
  \<comment> \<open>\<open>split\<close> of a string at one character\<close>
  "split_on d [] = [[]]"
| "split_on d (x # xs) =
     (if x = d then [] # split_on d xs
      else case split_on d xs of [] \<Rightarrow> [[x]] | p # ps \<Rightarrow> (x # p) # ps)"

fun join_on :: "'a \<Rightarrow> 'a list list \<Rightarrow> 'a list" where
  "join_on d [] = []"
| "join_on d [p] = p"
| "join_on d (p # q # ps) = p @ d # join_on d (q # ps)"

definition code :: "char \<Rightarrow> nat" where "code c = of_char c"

definition starts_with :: "'a list \<Rightarrow> 'a list \<Rightarrow> bool" where
  "starts_with p s \<longleftrightarrow> take (length p) s = p"

definition ends_with :: "'a list \<Rightarrow> 'a list \<Rightarrow> bool" where
  "ends_with p s \<longleftrightarrow> length p \<le> length s \<and> drop (length s - length p) s = p"

text \<open>
  \<open>lower\<close> and \<open>casefold\<close> on code points below 256; the case fold of the micro sign is the
  Greek letter, that of sharp s is two letters.
\<close>

definition lower_code :: "nat \<Rightarrow> nat" where
  "lower_code n = (if 65 \<le> n \<and> n \<le> 90 \<or> 192 \<le> n \<and> n \<le> 222 \<and> n \<noteq> 215 then n + 32 else n)"

definition lower :: "string \<Rightarrow> string" where
  "lower s = map (\<lambda>c. char_of (lower_code (code c))) s"

definition casefold :: "string \<Rightarrow> nat list" where
  "casefold s = concat (map (\<lambda>c. if code c = 181 then [956] else if code c = 223 then [115, 115]
     else [lower_code (code c)]) s)"

subsection \<open>Base64\<close>

text \<open>
  The encoder and the strict decoder of the standard library, byte by byte: the decoder
  keeps its position in the quad, the bits left over, the number of padding characters
  since the last data character, and whether padding has started. \<open>None\<close> is an error.
\<close>

definition b64_char :: "nat \<Rightarrow> char" where
  "b64_char n = char_of (if n < 26 then 65 + n else if n < 52 then 71 + n else if n < 62 then n - 4
     else if n = 62 then 43 else 47)"

definition b64_value :: "char \<Rightarrow> nat option" where
  "b64_value c =
     (let n = code c
      in if 65 \<le> n \<and> n \<le> 90 then Some (n - 65) else if 97 \<le> n \<and> n \<le> 122 then Some (n - 71)
         else if 48 \<le> n \<and> n \<le> 57 then Some (n + 4) else if n = 43 then Some 62
         else if n = 47 then Some 63 else None)"

fun b64_encode :: "char list \<Rightarrow> string" where
  "b64_encode [] = []"
| "b64_encode [a] = [b64_char (code a div 4), b64_char ((code a mod 4) * 16), CHR ''='', CHR ''='']"
| "b64_encode [a, b] = [b64_char (code a div 4), b64_char ((code a mod 4) * 16 + code b div 16),
     b64_char ((code b mod 16) * 4), CHR ''='']"
| "b64_encode (a # b # c # r) = b64_char (code a div 4) # b64_char ((code a mod 4) * 16 + code b div 16)
     # b64_char ((code b mod 16) * 4 + code c div 64) # b64_char (code c mod 64) # b64_encode r"

fun b64_scan :: "nat \<Rightarrow> nat \<Rightarrow> nat \<Rightarrow> bool \<Rightarrow> string \<Rightarrow> char list option" where
  \<comment> \<open>position in the quad, bits left, pads, padding started\<close>
  "b64_scan q l k started [] = (if q = 0 then Some [] else None)"
| "b64_scan q l k started (c # r) =
     (if c = CHR ''='' then
        if 2 \<le> q then (if 4 \<le> q + (k + 1) then (if r = [] then Some [] else None)
                       else b64_scan q l (k + 1) True r)
        else b64_scan q l k True r
      else case b64_value c of
        None \<Rightarrow> None
      | Some v \<Rightarrow>
          if started then None
          else if q = 0 then b64_scan 1 v 0 started r
          else if q = 1 then map_option ((#) (char_of (l * 4 + v div 16))) (b64_scan 2 (v mod 16) 0 started r)
          else if q = 2 then map_option ((#) (char_of (l * 16 + v div 4))) (b64_scan 3 (v mod 4) 0 started r)
          else map_option ((#) (char_of (l * 64 + v))) (b64_scan 0 0 0 started r))"

definition b64_decode :: "string \<Rightarrow> char list option" where
  "b64_decode s = (case s of [] \<Rightarrow> Some [] | c # r \<Rightarrow> if c = CHR ''='' then None else b64_scan 0 0 0 False s)"

subsection \<open>Recognizable credentials\<close>

fun after_run :: "(char \<Rightarrow> bool) \<Rightarrow> (char list \<Rightarrow> bool) \<Rightarrow> char list \<Rightarrow> bool" where
  \<comment> \<open>a run of the class, then the rest of the pattern\<close>
  "after_run cls rest [] = rest []"
| "after_run cls rest (c # r) = (rest (c # r) \<or> cls c \<and> after_run cls rest r)"

definition upper_char :: "char \<Rightarrow> bool" where "upper_char c \<longleftrightarrow> 65 \<le> code c \<and> code c \<le> 90"
definition digit :: "char \<Rightarrow> bool" where "digit c \<longleftrightarrow> 48 \<le> code c \<and> code c \<le> 57"
definition lower_char :: "char \<Rightarrow> bool" where "lower_char c \<longleftrightarrow> 97 \<le> code c \<and> code c \<le> 122"

definition ascii_lower :: "string \<Rightarrow> string" where
  "ascii_lower s = map (\<lambda>c. if upper_char c then char_of ((of_char c :: nat) + 32) else c) s"

definition counted :: "nat \<Rightarrow> (char \<Rightarrow> bool) \<Rightarrow> char list \<Rightarrow> bool" where
  "counted n cls s \<longleftrightarrow> n \<le> length s \<and> list_all cls (take n s)"

definition private_key_at :: "char list \<Rightarrow> bool" where
  "private_key_at s \<longleftrightarrow> starts_with ''-----BEGIN '' s
     \<and> after_run (\<lambda>c. upper_char c \<or> c = CHR '' '') (starts_with ''PRIVATE KEY-----'') (drop 11 s)"

definition access_key_at :: "char list \<Rightarrow> bool" where
  "access_key_at s \<longleftrightarrow> (starts_with ''AKIA'' s \<or> starts_with ''ASIA'' s)
     \<and> counted 16 (\<lambda>c. upper_char c \<or> digit c) (drop 4 s)"

definition github_token_at :: "char list \<Rightarrow> bool" where
  "github_token_at s \<longleftrightarrow> list_ex (\<lambda>p. starts_with p s) [''ghp_'', ''gho_'', ''ghu_'', ''ghs_'', ''ghr_'']
     \<and> counted 30 (\<lambda>c. upper_char c \<or> lower_char c \<or> digit c) (drop 4 s)"

fun search :: "(char list \<Rightarrow> bool) \<Rightarrow> char list \<Rightarrow> bool" where
  "search m [] = m []"
| "search m (c # r) = (m (c # r) \<or> search m r)"

definition credential_material :: "char list \<Rightarrow> bool" where
  "credential_material raw = search (\<lambda>s. private_key_at s \<or> access_key_at s \<or> github_token_at s) raw"

definition raw_digest :: "platform \<Rightarrow> char list \<Rightarrow> string" where
  "raw_digest P raw = ''sha256:'' @ sha256 P raw"

subsection \<open>Splitting and joining\<close>

lemma split_on_not_Nil [simp]: "split_on d s \<noteq> []"
  by (induction s) (auto split: list.split)

lemma split_on_append: "split_on d (s @ d # t) = split_on d s @ split_on d t"
proof (induction s)
  case (Cons x s)
  show ?case
  proof (cases "x = d")
    case False
    then show ?thesis using Cons by (cases "split_on d s") auto
  qed (simp add: Cons)
qed simp

lemma join_on_Cons: "ps \<noteq> [] \<Longrightarrow> join_on d (p # ps) = p @ d # join_on d ps"
  by (cases ps) simp_all

lemma join_on_split [simp]: "join_on d (split_on d s) = s"
proof (induction s)
  case (Cons x s)
  show ?case
  proof (cases "x = d")
    case True
    then show ?thesis by (simp add: join_on_Cons Cons)
  next
    case False
    obtain p ps where "split_on d s = p # ps" by (cases "split_on d s") auto
    then show ?thesis using Cons False by (cases ps) auto
  qed
qed simp

subsection \<open>Base64 round trip\<close>

lemma code_less [simp]: "code c < 256"
  by (simp add: code_def)

lemma code_char_of [simp]: "code (char_of n) = n mod 256"
  by (simp add: code_def)

lemma char_of_code [simp]: "char_of (code c) = c"
  by (simp add: code_def)

lemma b64_value_char [simp]: "n < 64 \<Longrightarrow> b64_value (b64_char n) = Some n"
  by (auto simp: b64_value_def b64_char_def Let_def)

lemma b64_value_pad [simp]: "b64_value CHR ''='' = None"
  by (simp add: b64_value_def code_def)

lemma b64_char_not_pad [simp]: "n < 64 \<Longrightarrow> b64_char n \<noteq> CHR ''=''"
  using b64_value_char [of n] b64_value_pad by (metis option.distinct(1))

lemma code_parts [simp]:
  "code c div 4 < 64" "code c div 16 < 16" "code c div 64 < 4" "code c mod 64 < 64"
  by (simp_all add: less_mult_imp_div_less)

lemma sextets [simp]:
  "(code a mod 4) * 16 + code b div 16 < 64" "(code b mod 16) * 4 + code c div 64 < 64"
  "(code a mod 4) * 16 < 64" "(code b mod 16) * 4 < 64"
proof -
  have "code a mod 4 \<le> 3" "code b mod 16 \<le> 15" "code b div 16 < 16" "code c div 64 < 4" by simp_all
  then show "(code a mod 4) * 16 + code b div 16 < 64" "(code b mod 16) * 4 + code c div 64 < 64"
    "(code a mod 4) * 16 < 64" "(code b mod 16) * 4 < 64"
    by linarith+
qed

lemma b64_scan_encode: "b64_scan 0 0 0 False (b64_encode raw) = Some raw"
  by (induction raw rule: b64_encode.induct) simp_all

lemma b64_decode_encode: "b64_decode (b64_encode raw) = Some raw"
proof (cases "b64_encode raw")
  case Nil
  then show ?thesis by (cases raw rule: b64_encode.cases) (simp_all add: b64_decode_def)
next
  case (Cons c r)
  have "c \<noteq> CHR ''=''" using Cons by (cases raw rule: b64_encode.cases) (use b64_char_not_pad code_parts(1) in fastforce)+
  then show ?thesis using Cons b64_scan_encode [of raw] by (simp add: b64_decode_def)
qed

definition from_keys :: "'a list \<Rightarrow> 'a list" where
  \<comment> \<open>\<open>list(dict.fromkeys(xs))\<close>\<close>
  "from_keys xs = rev (remdups (rev xs))"

end
