(* ===== verification/Continuity_Snapshots.thy ===== *)
theory Continuity_Snapshots
  imports Continuity_State Text_Codec "HOL-Library.Sublist"
begin

text \<open>
  Bounded snapshots of explicitly allowed project files (continuity/snapshots.py): paths,
  file contents, collisions, and the descriptor of the continuation package that binds the
  stored bytes. Lemmas: a file of an accepted snapshot is reached by walking down from an
  allowed root.
\<close>

subsection \<open>Paths\<close>

definition FORBIDDEN :: "string list" where
  "FORBIDDEN = [''.git'', ''.isekai'', ''.ssh'', ''.aws'', ''.azure'', ''.kube'', ''.codex'', ''.claude'',
     ''.agents'', ''node_modules'', ''.venv'', ''credentials'', ''credentials.json'', ''id_rsa'', ''id_ed25519'',
     ''.netrc'', ''.npmrc'']"

definition unsafe_part :: "string \<Rightarrow> bool" where
  "unsafe_part part \<longleftrightarrow> part \<in> {[], ''.'', ''..''} \<or> lower part \<in> set FORBIDDEN
     \<or> starts_with ''.env'' (lower part)
     \<or> list_ex (\<lambda>e. ends_with e (lower part)) [''.pem'', ''.key'', ''.p12'', ''.pfx'']"

definition unsafe_path :: "string \<Rightarrow> bool" where
  "unsafe_path v \<longleftrightarrow> v = [] \<or> backslash \<in> set v \<or> CHR '':'' \<in> set v \<or> starts_with ''/'' v
     \<or> list_ex unsafe_part (split_on CHR ''/'' v)
     \<or> list_ex (\<lambda>c. code c < 32 \<or> code c = 127) v"

definition safe_path :: "string \<Rightarrow> string outcome" where
  "safe_path v = checked [(unsafe_path v, cont_invalid ''Unsafe or credential-bearing snapshot path'')] v"

subsection \<open>Validation\<close>

definition under_root :: "string \<Rightarrow> string \<Rightarrow> bool" where
  "under_root path d \<longleftrightarrow> path = d \<or> starts_with (d @ ''/'') path"

definition file_checks :: "platform \<Rightarrow> bool \<Rightarrow> dict \<Rightarrow> unit outcome" where
  \<comment> \<open>the body of a file of the snapshot, for a directory package or not\<close>
  "file_checks P directory f =
     (case py_get f ''content_base64'' of
        PStr s \<Rightarrow>
          (case b64_decode s of
             None \<Rightarrow> Inl (cont_invalid ''Invalid snapshot base64'')
           | Some raw \<Rightarrow> checked
               [(b64_encode raw \<noteq> s, cont_invalid ''Snapshot base64 must be canonical''),
                (py_get f ''digest'' \<noteq> PStr (raw_digest P raw), cont_invalid ''Snapshot file digest mismatch''),
                (credential_material raw,
                   cont_invalid ''Recognizable credential material is not allowed in checkpoints'')] ())
      | _ \<Rightarrow> checked
          [(directory, cont_invalid ''Directory snapshots cannot contain Git-relative deletions''),
           (py_get f ''digest'' \<noteq> PNone \<or> truthy (get_or f ''executable'' (PBool False)),
              cont_invalid ''Deleted files have no content digest'')] ())"

fun snapshot_files :: "platform \<Rightarrow> bool \<Rightarrow> string list \<Rightarrow> nat list list \<Rightarrow> dict list \<Rightarrow> nat list list outcome" where
  "snapshot_files P directory roots seen [] = Inr seen"
| "snapshot_files P directory roots seen (f # fs) =
     and_then (safe_path (arg_str f ''path'')) (\<lambda>path.
     and_then (checked [(casefold path \<in> set seen \<or> \<not> list_ex (under_root path) roots,
          cont_invalid ''Duplicate or non-allowlisted snapshot path'')] ()) (\<lambda>_.
     and_then (file_checks P directory f) (\<lambda>_.
       snapshot_files P directory roots (casefold path # seen) fs)))"

definition parents :: "nat list \<Rightarrow> nat list list" where
  "parents path = map (\<lambda>i. join_on 47 (take i (split_on 47 path))) [1..<length (split_on 47 path)]"

definition collision :: "nat list list \<Rightarrow> bool" where
  "collision seen \<longleftrightarrow> list_ex (\<lambda>path. list_ex (\<lambda>q. q \<in> set seen) (parents path)) seen"

definition snapshot_dicts :: "pyval \<Rightarrow> dict list" where
  "snapshot_dicts snapshot = map dict_of (list_of (py_get (dict_of snapshot) ''files''))"

text \<open>
  \<open>package\<close> has been through \<open>validate_continuation\<close>; \<open>next\<close> of an empty generator is a
  RuntimeError in a coroutine.
\<close>

definition validate_snapshot :: "platform \<Rightarrow> pyval option \<Rightarrow> pyval \<Rightarrow> dict \<Rightarrow> string option outcome" where
  "validate_snapshot P snapshot package body =
     (let captured = (py_get (workspace_of package) ''state'' = PStr ''captured'');
          s = (case snapshot of None \<Rightarrow> PNone | Some v \<Rightarrow> v)
      in if s = PNone
         then checked [(captured,
            cont_invalid ''Captured checkpoints require their snapshot bytes, not only a descriptor'')] None
         else
          and_then (checked
            [(\<not> captured, cont_invalid ''Snapshot bytes require captured workspace state''),
             (arg_int body ''checkpoint_max_bytes'' < int (length (canonical P s)),
                cont_invalid ''Snapshot exceeds project checkpoint byte budget'')] ()) (\<lambda>_.
          and_then (snapshot_files P (py_eq (py_get (dict_of package) ''schema_version'') (PInt 2))
            (arg_strs body ''checkpoint_allowed_paths'') [] (snapshot_dicts s)) (\<lambda>seen.
          and_then (checked [(collision seen, cont_invalid ''Snapshot contains a file/directory path collision'')] ()) (\<lambda>_.
            (case fetchrow (\<lambda>x. arg_str (dict_of x) ''id'' = arg_str (workspace_of package) ''snapshot_artifact_id'')
                (list_of (py_get (dict_of package) ''artifacts'')) of
               None \<Rightarrow> Inl (unhandled ''RuntimeError'')
             | Some x \<Rightarrow>
                 checked [(py_get (dict_of x) ''digest'' \<noteq> PStr (digest P s)
                     \<or> \<not> py_eq (py_get (dict_of x) ''size_bytes'') (PInt (int (length (canonical P s))))
                     \<or> py_get (dict_of x) ''source_id'' \<noteq> PStr ''memory-checkpoint''
                     \<or> py_get (dict_of x) ''reference'' \<noteq> PStr (''snapshot-'' @ drop 7 (digest P s)),
                   cont_invalid ''Snapshot descriptor must bind the stored Memory checkpoint bytes'')]
                   (Some (digest P s)))))))"

subsection \<open>Accepted snapshots\<close>

definition file_path :: "dict \<Rightarrow> string" where "file_path f = arg_str f ''path''"

lemma snapshot_files_ok:
  assumes "snapshot_files P directory roots seen fs = Inr out"
  shows "out = rev (map (\<lambda>f. casefold (file_path f)) fs) @ seen \<and> (distinct seen \<longrightarrow> distinct out)
    \<and> (\<forall>f \<in> set fs. \<not> unsafe_path (file_path f) \<and> (\<exists>d \<in> set roots. under_root (file_path f) d)
         \<and> file_checks P directory f = Inr ())"
  using assms
proof (induction fs arbitrary: seen)
  case (Cons f fs)
  from Cons.prems obtain u where safe: "\<not> unsafe_path (file_path f)"
    and new: "casefold (file_path f) \<notin> set seen" "list_ex (under_root (file_path f)) roots"
    and body: "file_checks P directory f = Inr u"
    and rest: "snapshot_files P directory roots (casefold (file_path f) # seen) fs = Inr out"
    by (auto simp: and_then_Inr_iff safe_path_def file_path_def)
  note IH = Cons.IH [OF rest]
  have "distinct out" if "distinct seen" using IH that new(1) by (metis distinct.simps(2))
  moreover have "file_checks P directory f = Inr ()" using body by simp
  ultimately show ?case using IH safe new by (simp add: list_ex_iff)
qed simp

text \<open>
  What a POSIX system does with a relative path: it walks from a directory (the list of
  names from the root), where empty names and dots stay and two dots go up.
\<close>

fun walk :: "string list \<Rightarrow> string list \<Rightarrow> string list" where
  "walk d [] = d"
| "walk d (n # ns) = walk (if n = [] \<or> n = ''.'' then d else if n = ''..'' then butlast d else d @ [n]) ns"

lemma walk_down: "\<forall>n \<in> set ns. n \<noteq> [] \<and> n \<noteq> ''.'' \<and> n \<noteq> ''..'' \<Longrightarrow> walk d ns = d @ ns"
  by (induction ns arbitrary: d) simp_all

lemma walk_safe_path:
  assumes "\<not> unsafe_path path" and "under_root path d"
  shows "\<exists>rest. walk base (split_on CHR ''/'' path) = walk base (split_on CHR ''/'' d) @ rest
    \<and> walk base (split_on CHR ''/'' d) = base @ split_on CHR ''/'' d"
proof -
  have names: "\<forall>n \<in> set (split_on CHR ''/'' path). n \<noteq> [] \<and> n \<noteq> ''.'' \<and> n \<noteq> ''..''"
    using assms(1) by (auto simp: unsafe_path_def unsafe_part_def list_ex_iff)
  obtain rest where split: "split_on CHR ''/'' path = split_on CHR ''/'' d @ rest"
  proof (cases "path = d")
    case False
    then have "take (length (d @ ''/'')) path = d @ ''/''" using assms(2) by (simp add: under_root_def starts_with_def)
    then have "path = d @ CHR ''/'' # drop (length (d @ ''/'')) path"
      by (metis append.assoc append_Cons append_Nil append_take_drop_id)
    then show thesis using that split_on_append by metis
  qed (use that in simp)
  have "walk base (split_on CHR ''/'' path) = base @ split_on CHR ''/'' path" using names by (rule walk_down)
  moreover have "walk base (split_on CHR ''/'' d) = base @ split_on CHR ''/'' d"
    using names split by (intro walk_down) simp
  ultimately show ?thesis using split by simp
qed

lemma no_collision_prefix:
  assumes "\<not> collision seen" and "p \<in> set seen" and "q \<in> set seen" and "p \<noteq> q"
  shows "\<not> prefix (split_on 47 q) (split_on 47 p)"
proof
  assume "prefix (split_on 47 q) (split_on 47 p)"
  then obtain r where r: "split_on 47 p = split_on 47 q @ r" by (auto simp: prefix_def)
  have "r \<noteq> []" using r assms(4) by (metis append_Nil2 join_on_split)
  let ?n = "length (split_on 47 q)"
  have n: "?n \<in> set [1..<length (split_on 47 p)]" using r \<open>r \<noteq> []\<close> by (simp add: Suc_le_eq)
  have "join_on 47 (take ?n (split_on 47 p)) = q" using r by simp
  then have "q \<in> set (parents p)" using n by (force simp: parents_def)
  then show False using assms(1-3) by (auto simp: collision_def list_ex_iff)
qed

lemma validate_snapshotE:
  assumes "validate_snapshot P snapshot package body = Inr (Some d)"
  obtains s seen x where "snapshot = Some s" "py_get (workspace_of package) ''state'' = PStr ''captured''"
    "int (length (canonical P s)) \<le> arg_int body ''checkpoint_max_bytes''"
    "snapshot_files P (py_eq (py_get (dict_of package) ''schema_version'') (PInt 2))
       (arg_strs body ''checkpoint_allowed_paths'') [] (snapshot_dicts s) = Inr seen"
    "\<not> collision seen" "d = digest P s" "x \<in> set (list_of (py_get (dict_of package) ''artifacts''))"
    "py_get (dict_of x) ''digest'' = PStr d"
proof -
  obtain s where s: "snapshot = Some s" "s \<noteq> PNone"
    using assms by (cases snapshot) (auto simp: validate_snapshot_def Let_def split: if_splits)
  from assms obtain seen x where
    "py_get (workspace_of package) ''state'' = PStr ''captured''"
    "int (length (canonical P s)) \<le> arg_int body ''checkpoint_max_bytes''"
    "snapshot_files P (py_eq (py_get (dict_of package) ''schema_version'') (PInt 2))
       (arg_strs body ''checkpoint_allowed_paths'') [] (snapshot_dicts s) = Inr seen"
    "\<not> collision seen" "d = digest P s" "x \<in> set (list_of (py_get (dict_of package) ''artifacts''))"
    "py_get (dict_of x) ''digest'' = PStr d"
    by (auto simp: validate_snapshot_def Let_def s and_then_Inr_iff dest: fetchrow_SomeD split: option.splits)
  then show thesis using that s(1) by blast
qed

subsection \<open>Properties\<close>

text \<open>
  C17. Extraction of an accepted snapshot is contained: whatever directory it starts from,
  each file is reached by walking down from an allowed root, no two files meet and no file
  is a directory on the way to another one (letter case ignored), so nothing is overwritten
  and nothing outside the allowed roots is touched.
\<close>

theorem snapshot_extraction_contained:
  assumes "validate_snapshot P (Some s) package body = Inr (Some d)"
  shows "(\<forall>f \<in> set (snapshot_dicts s). \<exists>r \<in> set (arg_strs body ''checkpoint_allowed_paths''). \<exists>rest.
        walk base (split_on CHR ''/'' (file_path f)) = walk base (split_on CHR ''/'' r) @ rest
        \<and> walk base (split_on CHR ''/'' r) = base @ split_on CHR ''/'' r)
    \<and> (\<forall>i < length (snapshot_dicts s). \<forall>j < length (snapshot_dicts s). i \<noteq> j \<longrightarrow>
        \<not> prefix (split_on 47 (casefold (file_path (snapshot_dicts s ! i))))
                (split_on 47 (casefold (file_path (snapshot_dicts s ! j)))))"
proof -
  let ?fs = "snapshot_dicts s" and ?key = "\<lambda>f. casefold (file_path f)"
  obtain seen where files: "snapshot_files P (py_eq (py_get (dict_of package) ''schema_version'') (PInt 2))
       (arg_strs body ''checkpoint_allowed_paths'') [] ?fs = Inr seen" and free: "\<not> collision seen"
    using assms by (rule validate_snapshotE) blast
  note ok = snapshot_files_ok [OF files]
  have seen: "seen = rev (map ?key ?fs)" and d: "distinct seen" using ok by auto
  have "distinct (map ?key ?fs)" using d seen by (metis distinct_rev)
  then have ne: "?key (?fs ! i) \<noteq> ?key (?fs ! j)" if "i < length ?fs" "j < length ?fs" "i \<noteq> j" for i j
    using that by (simp add: distinct_conv_nth)
  have mem: "?key (?fs ! i) \<in> set seen" if "i < length ?fs" for i using that by (simp add: seen)
  have "\<exists>r \<in> set (arg_strs body ''checkpoint_allowed_paths''). \<exists>rest.
        walk base (split_on CHR ''/'' (file_path f)) = walk base (split_on CHR ''/'' r) @ rest
        \<and> walk base (split_on CHR ''/'' r) = base @ split_on CHR ''/'' r" if f: "f \<in> set ?fs" for f
    using ok f walk_safe_path by blast
  moreover have "\<not> prefix (split_on 47 (?key (?fs ! i))) (split_on 47 (?key (?fs ! j)))"
    if "i < length ?fs" "j < length ?fs" "i \<noteq> j" for i j
    using no_collision_prefix [OF free mem [OF that(2)] mem [OF that(1)]] ne that by metis
  ultimately show ?thesis by blast
qed

definition demo_file :: dict where
  "demo_file = [(''path'', PStr ''src/a''), (''content_base64'', PStr (b64_encode ''x'')),
     (''digest'', PStr (raw_digest auth_platform ''x''))]"

definition demo_snapshot :: pyval where
  "demo_snapshot = PDict [(''schema_version'', PInt 1), (''files'', PList [PDict demo_file])]"

definition demo_policy :: dict where
  "demo_policy = [(''enabled'', PBool True), (''default_recipient_user_ids'', strs [''bob'']),
     (''default_backup_user_ids'', strs []), (''sender_rules'', PList []), (''retention_hours'', PInt 24),
     (''lease_seconds'', PInt 60), (''checkpoint_max_bytes'', PInt 2048),
     (''checkpoint_allowed_paths'', strs [''src'']), (''allow_emergency_takeover'', PBool False)]"

definition demo_package :: pyval where
  "demo_package = PDict [(''schema_version'', PInt 1), (''workspace'', PDict [(''state'', PStr ''captured''),
       (''snapshot_artifact_id'', PStr ''snap'')]),
     (''artifacts'', PList [PDict [(''id'', PStr ''snap''), (''kind'', PStr ''workspace_snapshot''),
        (''source_id'', PStr ''memory-checkpoint''),
        (''reference'', PStr (''snapshot-'' @ drop 7 (digest auth_platform demo_snapshot))),
        (''digest'', PStr (digest auth_platform demo_snapshot)),
        (''size_bytes'', PInt (int (length (canonical auth_platform demo_snapshot))))]])]"

lemma demo_path_safe: "\<not> unsafe_path ''src/a''"
  by (simp add: unsafe_path_def unsafe_part_def lower_def lower_code_def code_def FORBIDDEN_def starts_with_def
      ends_with_def backslash_def char_of_def)

lemma demo_file_ok: "file_checks auth_platform False demo_file = Inr ()" "arg_str demo_file ''path'' = ''src/a''"
  by code_simp+

lemma demo_files_ok: "snapshot_files auth_platform False [''src''] [] (snapshot_dicts demo_snapshot) = Inr [casefold ''src/a'']"
  by (simp add: snapshot_dicts_def demo_snapshot_def py_get_def list_of_def safe_path_def demo_path_safe demo_file_ok
      checked_def under_root_def starts_with_def)

lemma demo_snapshot_length: "int (length (canonical auth_platform demo_snapshot)) \<le> 2048"
  by code_simp

lemma demo_snapshot_ok:
  "validate_snapshot auth_platform (Some demo_snapshot) demo_package demo_policy
     = Inr (Some (digest auth_platform demo_snapshot))"
proof -
  have "demo_snapshot \<noteq> PNone" by (simp add: demo_snapshot_def)
  moreover have "\<not> collision [casefold ''src/a'']" by code_simp
  moreover have "py_get (workspace_of demo_package) ''state'' = PStr ''captured''"
    "py_get (dict_of demo_package) ''schema_version'' = PInt 1" "arg_int demo_policy ''checkpoint_max_bytes'' = 2048"
    "arg_strs demo_policy ''checkpoint_allowed_paths'' = [''src'']"
    "arg_str (workspace_of demo_package) ''snapshot_artifact_id'' = ''snap''"
    by (simp_all add: demo_package_def demo_policy_def workspace_of_def py_get_def arg_int_def int_of_def arg_strs_def
        strs_of_def strs_def list_of_def arg_str_def)
  moreover have "list_of (py_get (dict_of demo_package) ''artifacts'') = [PDict [(''id'', PStr ''snap''),
        (''kind'', PStr ''workspace_snapshot''), (''source_id'', PStr ''memory-checkpoint''),
        (''reference'', PStr (''snapshot-'' @ drop 7 (digest auth_platform demo_snapshot))),
        (''digest'', PStr (digest auth_platform demo_snapshot)),
        (''size_bytes'', PInt (int (length (canonical auth_platform demo_snapshot))))]]"
    by (simp add: demo_package_def py_get_def list_of_def)
  ultimately show ?thesis
    using demo_files_ok demo_snapshot_length
    by (simp add: validate_snapshot_def arg_str_def py_get_def checked_def)
qed

theorem snapshot_extraction_contained_witness:
  "\<exists>rest. walk [''tmp''] (split_on CHR ''/'' ''src/a'') = walk [''tmp''] (split_on CHR ''/'' ''src'') @ rest"
proof -
  have "demo_file \<in> set (snapshot_dicts demo_snapshot)" "file_path demo_file = ''src/a''"
    "arg_strs demo_policy ''checkpoint_allowed_paths'' = [''src'']"
    by code_simp+
  then show ?thesis using snapshot_extraction_contained [OF demo_snapshot_ok, of "[''tmp'']"] by fastforce
qed

text \<open>
  C18. Stored bytes: the contents of a file are accepted iff they are the base64 text of
  some bytes that have the declared digest and hold no recognizable credential; the bytes
  are unique, and every byte string that is not a credential can be stored.
\<close>

theorem snapshot_bytes_roundtrip:
  assumes "py_get f ''content_base64'' = PStr s"
  shows "(file_checks P directory f = Inr () \<longleftrightarrow>
       (\<exists>raw. s = b64_encode raw \<and> py_get f ''digest'' = PStr (raw_digest P raw) \<and> \<not> credential_material raw))
     \<and> (\<forall>raw raw'. s = b64_encode raw \<longrightarrow> s = b64_encode raw' \<longrightarrow> raw = raw')"
proof -
  have inj: "raw = raw'" if "s = b64_encode raw" "s = b64_encode raw'" for raw raw'
    using that by (metis b64_decode_encode option.inject)
  have "file_checks P directory f = Inr () \<longleftrightarrow>
      (\<exists>raw. b64_decode s = Some raw \<and> b64_encode raw = s \<and> py_get f ''digest'' = PStr (raw_digest P raw)
        \<and> \<not> credential_material raw)"
    by (auto simp: file_checks_def assms split: option.splits)
  with inj show ?thesis by (metis b64_decode_encode)
qed

theorem snapshot_bytes_roundtrip_witness:
  "\<exists>raw. b64_encode ''x'' = b64_encode raw \<and> \<not> credential_material raw"
proof -
  have "py_get demo_file ''content_base64'' = PStr (b64_encode ''x'')" "file_checks auth_platform False demo_file = Inr ()"
    by code_simp+
  then show ?thesis using snapshot_bytes_roundtrip [of demo_file "b64_encode ''x''" auth_platform False] by blast
qed

end
