(* ===== verification/Continuity_Log.thy ===== *)
theory Continuity_Log
  imports Continuity_Events
begin

text \<open>
  Correctness of the shared machinery of the continuity service: the receipt store as an
  instance of its contract, and the notification log.
\<close>

subsection \<open>Receipts\<close>

lemma key_of_put: "key_of \<lparr>rc_project_id = fst k, rc_actor_id = fst (snd k), rc_operation = fst (snd (snd k)),
    rc_idempotency_key = snd (snd (snd k)), rc_request_digest = d, rc_result = r\<rparr> = k"
  by (cases k) (simp add: key_of_def)

interpretation rs: receipt_store find_receipt put_receipt
proof
  fix s :: cdb and k k' :: receipt_key and v :: "string \<times> dict"
  show "find_receipt s k = None \<Longrightarrow> find_receipt (put_receipt s k v) k = Some v"
    by (auto simp: find_receipt_def put_receipt_def fetchrow_insert_row key_of_put)
  show "k' \<noteq> k \<Longrightarrow> find_receipt (put_receipt s k v) k' = find_receipt s k'"
    by (auto simp: find_receipt_def put_receipt_def fetchrow_insert_row key_of_put split: option.split)
  show "find_receipt s k = Some w \<Longrightarrow> find_receipt (put_receipt s k' v) k = Some w" for w
    by (auto simp: find_receipt_def put_receipt_def fetchrow_insert_row split: option.split)
qed

text \<open>The keys and the result of a fresh run of a receipted operation.\<close>

lemma receiptedE:
  assumes "receipted P a p op body db = Inr (db', res)"
  obtains (replayed) r where "db' = db" "res = dict_put ''replayed'' (PBool True) r"
      "find_receipt db (receipt_key a p op) = Some (fingerprint P a, r)"
  | (fresh) db1 r where "find_receipt db (receipt_key a p op) = None" "body db = Inr (db1, r)"
      "db' = put_receipt db1 (receipt_key a p op) (fingerprint P a, dict_put ''replayed'' (PBool False) r)"
      "res = dict_put ''replayed'' (PBool False) r"
proof (cases "find_receipt db (receipt_key a p op)")
  case None
  then obtain db1 r where "body db = Inr (db1, r)" "record_receipt P a p op r db1 = (db', res)"
    using assms by (auto simp: receipted_def replay_def and_then_Inr_iff)
  with None show ?thesis by (intro fresh) (auto simp: record_receipt_def Let_def)
next
  case (Some x)
  then show ?thesis using assms by (cases x) (auto simp: receipted_def replay_def split: if_splits intro: replayed)
qed

text \<open>
  The shared reason for idempotence: while the receipt is kept, the same request is
  answered from it, in any state, and another request under the key is refused.
\<close>

lemma receipted_kept:
  assumes "find_receipt db (receipt_key a p op) = Some (d, r)" and "receipt_key b p op = receipt_key a p op"
  shows "receipted P b p op body db =
    (if d = fingerprint P b then Inr (db, dict_put ''replayed'' (PBool True) r) else Inl version_conflict)"
  using assms by (simp add: receipted_def replay_def)

lemma receipted_records:
  assumes "receipted P a p op body db = Inr (db', res)"
    and "\<And>db1 r. body db = Inr (db1, r) \<Longrightarrow> find_receipt db1 = find_receipt db"
  shows "\<exists>r. find_receipt db' (receipt_key a p op) = Some (fingerprint P a, r)
    \<and> dict_put ''replayed'' (PBool True) res = dict_put ''replayed'' (PBool True) r"
  using assms(1)
proof (cases rule: receiptedE)
  case (replayed r)
  then show ?thesis by auto
next
  case (fresh db1 r)
  have "find_receipt db1 (receipt_key a p op) = None" using fresh(1) assms(2) [OF fresh(2)] by simp
  then have "find_receipt db' (receipt_key a p op) = Some (fingerprint P a, dict_put ''replayed'' (PBool False) r)"
    unfolding fresh(3) by (rule rs.find_put)
  with fresh(4) show ?thesis by auto
qed

subsection \<open>The notification log\<close>

definition log_ok :: "cdb \<Rightarrow> bool" where
  "log_ok db \<longleftrightarrow>
     distinct (map (\<lambda>n. (nt_project_id n, nt_position n)) (cd_notifications db))
     \<and> (\<forall>n \<in> set (cd_notifications db). \<exists>h. head_of (nt_project_id n) db = Some h \<and> nt_position n \<le> eh_position h)
     \<and> (\<forall>p h. head_of p db = Some h \<longrightarrow> eh_pruned_through h \<le> eh_position h
          \<and> (\<forall>q. eh_pruned_through h < q \<and> q \<le> eh_position h \<longrightarrow>
               (\<exists>n \<in> set (cd_notifications db). nt_project_id n = p \<and> nt_position n = q)))"

text \<open>
  \<open>log_ext db db'\<close>: from \<open>db\<close> to \<open>db'\<close> a notification is kept or pruned, the heads only
  move forward, and what is new has a position above the old head.
\<close>

definition head_le :: "event_head \<Rightarrow> event_head \<Rightarrow> bool" where
  "head_le h h' \<longleftrightarrow> eh_position h \<le> eh_position h' \<and> eh_pruned_through h \<le> eh_pruned_through h'"

definition log_ext :: "cdb \<Rightarrow> cdb \<Rightarrow> bool" where
  "log_ext db db' \<longleftrightarrow>
     (\<forall>n \<in> set (cd_notifications db). n \<in> set (cd_notifications db')
        \<or> (\<exists>h. head_of (nt_project_id n) db' = Some h \<and> nt_position n \<le> eh_pruned_through h))
     \<and> (\<forall>p h. head_of p db = Some h \<longrightarrow> (\<exists>h'. head_of p db' = Some h' \<and> head_le h h'))
     \<and> (\<forall>n \<in> set (cd_notifications db'). n \<in> set (cd_notifications db)
        \<or> (\<forall>h. head_of (nt_project_id n) db = Some h \<longrightarrow> eh_position h < nt_position n))"

lemma log_ext_refl [intro]: "cd_notifications db' = cd_notifications db \<Longrightarrow> cd_heads db' = cd_heads db \<Longrightarrow> log_ext db db'"
  by (auto simp: log_ext_def head_of_def head_le_def)

lemma log_ok_cong: "cd_notifications db' = cd_notifications db \<Longrightarrow> cd_heads db' = cd_heads db \<Longrightarrow> log_ok db' = log_ok db"
  by (simp add: log_ok_def head_of_def)

lemma log_ext_cong:
  "log_ext db db1 \<Longrightarrow> cd_notifications db2 = cd_notifications db1 \<Longrightarrow> cd_heads db2 = cd_heads db1 \<Longrightarrow> log_ext db db2"
  by (simp add: log_ext_def head_of_def)

lemma log_ext_trans:
  assumes "log_ext a b" and "log_ext b c"
  shows "log_ext a c"
  unfolding log_ext_def
proof (intro conjI ballI allI impI)
  fix n assume n: "n \<in> set (cd_notifications a)"
  then consider "n \<in> set (cd_notifications b)"
    | h where "head_of (nt_project_id n) b = Some h" "nt_position n \<le> eh_pruned_through h"
    using assms(1) unfolding log_ext_def by blast
  then show "n \<in> set (cd_notifications c) \<or> (\<exists>h. head_of (nt_project_id n) c = Some h \<and> nt_position n \<le> eh_pruned_through h)"
  proof cases
    case 1
    then show ?thesis using assms(2) unfolding log_ext_def by blast
  next
    case 2
    then obtain h' where "head_of (nt_project_id n) c = Some h'" "head_le h h'"
      using assms(2) unfolding log_ext_def by blast
    with 2 show ?thesis by (auto simp: head_le_def)
  qed
next
  fix p h assume "head_of p a = Some h"
  then obtain h1 where h1: "head_of p b = Some h1" "head_le h h1" using assms(1) unfolding log_ext_def by blast
  then obtain h2 where "head_of p c = Some h2" "head_le h1 h2" using assms(2) unfolding log_ext_def by blast
  with h1 show "\<exists>h'. head_of p c = Some h' \<and> head_le h h'" by (auto simp: head_le_def)
next
  fix n assume n: "n \<in> set (cd_notifications c)"
  show "n \<in> set (cd_notifications a) \<or> (\<forall>h. head_of (nt_project_id n) a = Some h \<longrightarrow> eh_position h < nt_position n)"
  proof (cases "n \<in> set (cd_notifications b)")
    case True
    then show ?thesis using assms(1) unfolding log_ext_def by blast
  next
    case False
    then have above: "\<forall>h. head_of (nt_project_id n) b = Some h \<longrightarrow> eh_position h < nt_position n"
      using assms(2) n unfolding log_ext_def by blast
    have "eh_position h < nt_position n" if hd: "head_of (nt_project_id n) a = Some h" for h
    proof -
      obtain h1 where "head_of (nt_project_id n) b = Some h1" "head_le h h1"
        using hd assms(1) unfolding log_ext_def by blast
      with above show ?thesis by (auto simp: head_le_def)
    qed
    then show ?thesis by blast
  qed
qed

lemma heads_update:
  assumes "\<And>x. eh_project_id (f x) = eh_project_id x"
  shows "fetchrow (\<lambda>h. eh_project_id h = p) (update_where (\<lambda>x. eh_project_id x = q) f t)
     = (if p = q then map_option f (fetchrow (\<lambda>h. eh_project_id h = p) t) else fetchrow (\<lambda>h. eh_project_id h = p) t)"
  by (induction t) (auto simp: update_where_def assms)

lemma head_of_project: "head_of p db = Some h \<Longrightarrow> eh_project_id h = p"
  by (auto simp: head_of_def dest: fetchrow_SomeD)

subsection \<open>Purging\<close>

lemma purged_positions_mem:
  "q \<in> set (purged_positions project now head t) \<Longrightarrow> \<exists>n \<in> set t. nt_project_id n = project \<and> nt_position n = q"
  using set_take_subset by (fastforce simp: purged_positions_def purgeable_def)

lemma purgeE:
  assumes "purge project now db = (db', k)"
  obtains (same) "db' = db"
  | (purged) h ps where "head_of project db = Some h" "ps \<noteq> []"
      "ps = purged_positions project now (eh_position h) (cd_notifications db)"
      "cd_notifications db' = filter (\<lambda>n. \<not> (nt_project_id n = project \<and> nt_position n \<in> set ps)) (cd_notifications db)"
      "\<And>p. head_of p db' = (if p = project then map_option (\<lambda>x. x\<lparr>eh_pruned_through := max (eh_pruned_through x) (Max (set ps))\<rparr>)
          (head_of p db) else head_of p db)"
proof (cases "head_of project db")
  case None
  with assms same show ?thesis by (simp add: purge_def)
next
  case (Some h)
  let ?ps = "purged_positions project now (eh_position h) (cd_notifications db)"
  show ?thesis
  proof (cases "?ps = []")
    case True
    with assms Some same show ?thesis by (simp add: purge_def)
  next
    case False
    let ?f = "\<lambda>x. x\<lparr>eh_pruned_through := max (eh_pruned_through x) (Max (set ?ps))\<rparr>"
    have db': "db' = db\<lparr>cd_notifications := filter (\<lambda>n. \<not> (nt_project_id n = project \<and> nt_position n \<in> set ?ps)) (cd_notifications db),
        cd_heads := update_where (\<lambda>x. eh_project_id x = project) ?f (cd_heads db)\<rparr>"
      using assms Some False by (simp add: purge_def Let_def)
    have "head_of p db' = (if p = project then map_option ?f (head_of p db) else head_of p db)" for p
      by (simp add: db' head_of_def heads_update)
    with db' Some False show ?thesis by (intro purged [of h ?ps]) simp_all
  qed
qed

lemma purge_log:
  assumes "purge project now db = (db', k)" and "log_ok db"
  shows "log_ok db' \<and> log_ext db db'"
  using assms(1)
proof (cases rule: purgeE)
  case same
  with assms(2) show ?thesis by auto
next
  case (purged h ps)
  have le_max: "q \<le> Max (set ps)" if "q \<in> set ps" for q using that by simp
  have mem: "\<exists>n \<in> set (cd_notifications db). nt_project_id n = project \<and> nt_position n = q" if "q \<in> set ps" for q
    using that purged(3) purged_positions_mem by blast
  have "Max (set ps) \<in> set ps" using purged(2) by simp
  then obtain n where "n \<in> set (cd_notifications db)" "nt_project_id n = project" "nt_position n = Max (set ps)"
    using mem by blast
  then have max_le: "Max (set ps) \<le> eh_position h" using assms(2) purged(1) by (force simp: log_ok_def)
  have ok: "log_ok db'"
    unfolding log_ok_def
  proof (intro conjI ballI allI impI)
    show "distinct (map (\<lambda>n. (nt_project_id n, nt_position n)) (cd_notifications db'))"
      using assms(2) by (simp add: log_ok_def purged(4) distinct_map_filter)
    show "\<exists>h. head_of (nt_project_id n) db' = Some h \<and> nt_position n \<le> eh_position h"
      if "n \<in> set (cd_notifications db')" for n
      using that assms(2) by (auto simp: log_ok_def purged(4,5))
    fix p g assume g: "head_of p db' = Some g"
    then obtain f where f: "head_of p db = Some f"
        "g = (if p = project then f\<lparr>eh_pruned_through := max (eh_pruned_through f) (Max (set ps))\<rparr> else f)"
      by (auto simp: purged(5) split: if_splits)
    then show "eh_pruned_through g \<le> eh_position g" using assms(2) max_le purged(1) by (auto simp: log_ok_def)
    fix q assume q: "eh_pruned_through g < q \<and> q \<le> eh_position g"
    have "eh_pruned_through f < q \<and> q \<le> eh_position f" using q f(2) by (auto split: if_splits)
    then obtain n where n: "n \<in> set (cd_notifications db)" "nt_project_id n = p" "nt_position n = q"
      using assms(2) f(1) by (force simp: log_ok_def)
    moreover have "q \<notin> set ps" if "p = project"
    proof
      assume "q \<in> set ps"
      then have "q \<le> Max (set ps)" by (rule le_max)
      with q f(2) that show False by simp
    qed
    ultimately show "\<exists>n \<in> set (cd_notifications db'). nt_project_id n = p \<and> nt_position n = q"
      by (auto simp: purged(4))
  qed
  have "log_ext db db'"
    unfolding log_ext_def using purged(1) le_max
    by (auto simp: purged(4,5) head_le_def le_max_iff_disj)
  with ok show ?thesis by blast
qed

subsection \<open>Appending\<close>

definition append_state :: "string \<Rightarrow> notification \<Rightarrow> cdb \<Rightarrow> cdb" where
  "append_state project n db =
     db\<lparr>cd_heads := bump_head project (cd_heads db), cd_notifications := insert_row n (cd_notifications db)\<rparr>"

definition next_position :: "string \<Rightarrow> cdb \<Rightarrow> nat" where
  "next_position project db = (case head_of project db of None \<Rightarrow> 1 | Some h \<Rightarrow> eh_position h + 1)"

definition next_head :: "string \<Rightarrow> cdb \<Rightarrow> event_head" where
  "next_head project db = (case head_of project db of
     None \<Rightarrow> \<lparr>eh_project_id = project, eh_position = 1, eh_pruned_through = 0\<rparr>
   | Some h \<Rightarrow> h\<lparr>eh_position := eh_position h + 1\<rparr>)"

lemma head_of_bump:
  "fetchrow (\<lambda>h. eh_project_id h = p) (bump_head project (cd_heads db))
     = (if p = project then Some (next_head project db) else head_of p db)"
proof (cases "exists_row (\<lambda>h. eh_project_id h = project) (cd_heads db)")
  case True
  let ?f = "\<lambda>h. h\<lparr>eh_position := eh_position h + 1\<rparr>"
  have some: "head_of project db \<noteq> None" using True by (simp add: head_of_def fetchrow_None_iff sql)
  have "fetchrow (\<lambda>h. eh_project_id h = p) (update_where (\<lambda>h. eh_project_id h = project) ?f (cd_heads db))
      = (if p = project then map_option ?f (head_of p db) else head_of p db)"
    by (simp add: head_of_def heads_update)
  with True some show ?thesis by (auto simp: bump_head_def next_head_def)
next
  case False
  then have "head_of project db = None" by (simp add: head_of_def fetchrow_None_iff sql)
  then show ?thesis using False
    by (auto simp: bump_head_def next_head_def fetchrow_insert_row head_of_def split: option.split)
qed

lemma head_of_append_state:
  "head_of p (append_state project n db) = (if p = project then Some (next_head project db) else head_of p db)"
  using head_of_bump by (simp add: head_of_def append_state_def)

lemma next_head_position [simp]: "eh_position (next_head project db) = next_position project db"
  by (simp add: next_head_def next_position_def split: option.split)

lemma append_state_log:
  assumes "log_ok db" and n: "nt_project_id n = project" "nt_position n = next_position project db"
  shows "log_ok (append_state project n db) \<and> log_ext db (append_state project n db)"
proof -
  let ?db = "append_state project n db"
  have nts: "cd_notifications ?db = insert_row n (cd_notifications db)" by (simp add: append_state_def)
  have below: "nt_position m < next_position project db"
    if "m \<in> set (cd_notifications db)" "nt_project_id m = project" for m
    using assms(1) that by (fastforce simp: log_ok_def next_position_def)
  have ok: "log_ok ?db"
    unfolding log_ok_def
  proof (intro conjI ballI allI impI)
    show "distinct (map (\<lambda>n. (nt_project_id n, nt_position n)) (cd_notifications ?db))"
      using assms(1) below by (force simp: log_ok_def nts insert_row_def n)
    show "\<exists>h. head_of (nt_project_id m) ?db = Some h \<and> nt_position m \<le> eh_position h"
      if "m \<in> set (cd_notifications ?db)" for m
    proof (cases "nt_project_id m = project")
      case True
      then show ?thesis using that below [of m] n by (auto simp: nts sql head_of_append_state)
    next
      case False
      then show ?thesis using that assms(1) n by (auto simp: nts sql head_of_append_state log_ok_def)
    qed
    fix p g assume g: "head_of p ?db = Some g"
    have old: "eh_pruned_through g \<le> eh_position g \<and> (\<forall>q. eh_pruned_through g < q \<and> q \<le> eh_position g \<longrightarrow>
        (\<exists>m \<in> set (cd_notifications ?db). nt_project_id m = p \<and> nt_position m = q))"
    proof (cases "p = project")
      case False
      then show ?thesis using g assms(1) by (auto simp: head_of_append_state log_ok_def nts sql)
    next
      case True
      then have gg: "g = next_head project db" using g by (simp add: head_of_append_state)
      show ?thesis
      proof (cases "head_of project db")
        case None
        then show ?thesis using True n by (auto simp: gg next_head_def next_position_def nts sql)
      next
        case (Some h)
        then have h: "g = h\<lparr>eh_position := eh_position h + 1\<rparr>" "next_position project db = eh_position h + 1"
          by (simp_all add: gg next_head_def next_position_def)
        show ?thesis using assms(1) Some True n h(2)
          by (auto simp: h(1) log_ok_def nts sql le_Suc_eq)
      qed
    qed
    show "eh_pruned_through g \<le> eh_position g" using old by blast
    fix q assume "eh_pruned_through g < q \<and> q \<le> eh_position g"
    with old show "\<exists>m \<in> set (cd_notifications ?db). nt_project_id m = p \<and> nt_position m = q" by blast
  qed
  have "log_ext db ?db"
    unfolding log_ext_def using n
    by (auto simp: nts sql head_of_append_state head_le_def next_head_def next_position_def split: option.splits)
  with ok show ?thesis by blast
qed

lemma append_eventE:
  assumes "append_event now project topic kind resource level audience revision broadcast db = Inr db'"
  obtains n k where "nt_project_id n = project" "nt_position n = next_position project db"
    "purge project now (append_state project n db) = (db', k)"
    "nt_topic n = topic" "nt_classification n = level" "nt_broadcast n = broadcast" "set (nt_audience n) = set audience"
    "nt_resource_kind n = kind" "nt_resource_id n = resource"
proof -
  let ?db1 = "db\<lparr>cd_heads := bump_head project (cd_heads db)\<rparr>"
  let ?n = "\<lparr>nt_project_id = project, nt_position = next_position project db, nt_topic = topic, nt_resource_kind = kind,
      nt_resource_id = resource, nt_classification = level, nt_audience = remdups (sort audience),
      nt_revision = revision, nt_broadcast = broadcast, nt_created_at = now\<rparr>"
  have "head_of project ?db1 = Some (next_head project db)"
    using head_of_bump [of project project db] by (simp add: head_of_def)
  then have "fst (purge project now (append_state project ?n db)) = db'"
    using assms by (simp add: append_event_def append_state_def Let_def)
  then show thesis
    by (intro that [of ?n "snd (purge project now (append_state project ?n db))"]) (simp_all add: prod_eq_iff)
qed

lemma append_event_log:
  assumes "append_event now project topic kind resource level audience revision broadcast db = Inr db'" and "log_ok db"
  shows "log_ok db' \<and> log_ext db db'"
  using assms(1)
proof (rule append_eventE)
  fix n k
  assume n: "nt_project_id n = project" "nt_position n = next_position project db"
    and p: "purge project now (append_state project n db) = (db', k)"
  have a: "log_ok (append_state project n db)" "log_ext db (append_state project n db)"
    using append_state_log [OF assms(2) n] by auto
  then show ?thesis using purge_log [OF p a(1)] log_ext_trans by blast
qed

subsection \<open>Events touch only their own tables\<close>

definition without_log :: "cdb \<Rightarrow> cdb" where
  "without_log db = db\<lparr>cd_audit := [], cd_heads := [], cd_notifications := []\<rparr>"

definition log_frame :: "cdb \<Rightarrow> cdb \<Rightarrow> bool" where
  "log_frame db db' \<longleftrightarrow> without_log db' = without_log db"

lemma log_frame_refl [intro]: "log_frame db db"
  by (simp add: log_frame_def)

lemma log_frame_trans: "log_frame a b \<Longrightarrow> log_frame b c \<Longrightarrow> log_frame a c"
  by (simp add: log_frame_def)

lemma log_frame_fields:
  assumes "log_frame db db'"
  shows "cd_policies db' = cd_policies db" "cd_presence_policies db' = cd_presence_policies db"
    "cd_usage_policies db' = cd_usage_policies db" "cd_receipts db' = cd_receipts db"
    "cd_checkpoints db' = cd_checkpoints db" "cd_bundles db' = cd_bundles db"
    "cd_deliveries db' = cd_deliveries db" "cd_units db' = cd_units db" "cd_claims db' = cd_claims db"
    "cd_presence db' = cd_presence db" "cd_usage db' = cd_usage db"
    "cd_usage_receipts db' = cd_usage_receipts db" "cd_members db' = cd_members db" "cd_handoffs db' = cd_handoffs db"
  using assms by (cases db; cases db'; simp add: log_frame_def without_log_def)+

lemma log_frame_find_receipt: "log_frame db db' \<Longrightarrow> find_receipt db' = find_receipt db"
  by (rule ext) (simp add: find_receipt_def log_frame_fields)

lemma purge_frame: "purge project now db = (db', k) \<Longrightarrow> log_frame db db'"
  by (auto simp: purge_def log_frame_def without_log_def Let_def split: option.splits if_splits)

lemma append_event_frame:
  assumes "append_event now project topic kind resource level audience revision broadcast db = Inr db'"
  shows "log_frame db db'"
  using assms
proof (rule append_eventE)
  fix n k
  assume "purge project now (append_state project n db) = (db', k)"
  moreover have "log_frame db (append_state project n db)"
    by (simp add: append_state_def log_frame_def without_log_def)
  ultimately show ?thesis using purge_frame log_frame_trans by blast
qed

text \<open>What every transaction leaves of the log, from a good state.\<close>

definition log_good :: "cdb \<Rightarrow> cdb \<Rightarrow> bool" where
  "log_good db db' \<longleftrightarrow> log_frame db db' \<and> (log_ok db \<longrightarrow> log_ok db' \<and> log_ext db db')"

lemma log_good_refl [intro]: "log_good db db"
  by (auto simp: log_good_def)

lemma log_good_trans: "log_good a b \<Longrightarrow> log_good b c \<Longrightarrow> log_good a c"
  using log_frame_trans log_ext_trans unfolding log_good_def by blast

lemma append_event_good:
  "append_event now project topic kind resource level audience revision broadcast db = Inr db' \<Longrightarrow> log_good db db'"
  unfolding log_good_def by (blast intro: append_event_frame dest: append_event_log)

definition good_out :: "cdb \<Rightarrow> cdb outcome \<Rightarrow> bool" where
  "good_out db r \<longleftrightarrow> (\<forall>db'. r = Inr db' \<longrightarrow> log_good db db')"

named_theorems good \<open>the log stays good through an operation\<close>

lemma good_out_Inr [good]: "good_out db (Inr db)"
  by (auto simp: good_out_def)

lemma good_out_append [good]: "good_out db (append_event now project topic kind resource level audience revision broadcast db)"
  by (auto simp: good_out_def dest: append_event_good)

lemma good_out_if [good]: "good_out db x \<Longrightarrow> good_out db y \<Longrightarrow> good_out db (if c then x else y)"
  by simp

lemma good_out_option [good]:
  "good_out db x \<Longrightarrow> (\<And>v. good_out db (f v)) \<Longrightarrow> good_out db (case w of None \<Rightarrow> x | Some v \<Rightarrow> f v)"
  by (cases w) simp_all

lemma good_out_then [good]: "good_out db r \<Longrightarrow> (\<And>db1. good_out db1 (f db1)) \<Longrightarrow> good_out db (and_then r f)"
  unfolding good_out_def by (blast elim: and_then_InrE intro: log_good_trans)

lemma project_event_out: "good_out db (project_event now project actor action target details db)"
  unfolding project_event_def project_checkpoint_event_def project_bundle_event_def project_presence_event_def
    project_usage_event_def Let_def
  by (intro good)

lemma project_event_good: "project_event now project actor action target details db = Inr db' \<Longrightarrow> log_good db db'"
  using project_event_out unfolding good_out_def by blast

lemma event_good:
  assumes "event now project actor action target details db = Inr db'"
  shows "log_good db db'"
proof -
  let ?db = "insert_audit project actor action target details db"
  have "log_frame db ?db"
    by (simp add: insert_audit_def log_frame_def without_log_def)
  then have "log_good db ?db" by (auto simp: log_good_def insert_audit_def log_ok_def log_ext_def head_of_def head_le_def)
  then show ?thesis using project_event_good assms log_good_trans unfolding event_def by blast
qed

subsection \<open>Runs of the log\<close>

text \<open>
  The transactions of the service, as the log sees them: an audit event, a purge, or one
  that writes no event.
\<close>

inductive log_step :: "clock \<Rightarrow> cdb \<Rightarrow> cdb \<Rightarrow> bool" where
  ls_event: "event (clk 0) project actor action target details db = Inr db' \<Longrightarrow> log_step clk db db'"
| ls_purge: "purge project (clk 0) db = (db', k) \<Longrightarrow> log_step clk db db'"
| ls_other: "cd_heads db' = cd_heads db \<Longrightarrow> cd_notifications db' = cd_notifications db \<Longrightarrow> log_step clk db db'"

lemma log_step_ok: "log_ok db \<Longrightarrow> log_step clk db db' \<Longrightarrow> log_ok db'"
  by (erule log_step.cases) (use event_good purge_log log_ok_cong in \<open>unfold log_good_def, blast+\<close>)

lemma log_step_ext: "log_ok db \<Longrightarrow> log_step clk db db' \<Longrightarrow> log_ext db db'"
  by (erule log_step.cases) (use event_good purge_log in \<open>unfold log_good_def, blast+\<close>)

lemma log_run_ok: "run log_step db ts db' \<Longrightarrow> log_ok db \<Longrightarrow> log_ok db'"
  by (erule run_invariant) (blast intro: log_step_ok)+

lemma log_run_ext: "run log_step db ts db' \<Longrightarrow> log_ok db \<Longrightarrow> log_ext db db'"
  by (erule run_relates [where I = log_ok]) (blast intro: log_step_ok log_step_ext log_ext_trans)+

lemma log_ok_empty: "log_ok empty_cdb"
  by (simp add: log_ok_def empty_cdb_def head_of_def)

subsection \<open>Catch-up reads\<close>

definition event_limit :: "dict \<Rightarrow> nat" where
  "event_limit a = nat (int_of (get_or a ''limit'' (PInt 50)))"

definition head_position :: "string \<Rightarrow> cdb \<Rightarrow> nat" where
  "head_position project db = (case head_of project db of None \<Rightarrow> 0 | Some h \<Rightarrow> eh_position h)"

definition reader_sees :: "time \<Rightarrow> principal \<Rightarrow> dict \<Rightarrow> cdb \<Rightarrow> nat \<Rightarrow> notification \<Rightarrow> bool" where
  \<comment> \<open>visible to the reader and after a position\<close>
  "reader_sees now p a db position n \<longleftrightarrow>
     event_visible (arg_str a ''project_id'') position (head_position (arg_str a ''project_id'') db)
       (levels_upto (max_classification a)) (str_of (get_or a ''scope'' (PStr ''mine'')) = ''project'')
       (p_user_id p) now db n"

definition low_water :: "string \<Rightarrow> time \<Rightarrow> cdb \<Rightarrow> nat" where
  "low_water project now db =
     max (case head_of project db of None \<Rightarrow> 0 | Some h \<Rightarrow> eh_pruned_through h) (expired_through project now db)"

definition readable_rows :: "time \<Rightarrow> principal \<Rightarrow> dict \<Rightarrow> cdb \<Rightarrow> nat \<Rightarrow> notification list" where
  "readable_rows now p a db position = sort_key nt_position (filter (reader_sees now p a db position) (cd_notifications db))"

definition page_after :: "time \<Rightarrow> principal \<Rightarrow> dict \<Rightarrow> cdb \<Rightarrow> nat \<Rightarrow> event_page" where
  \<comment> \<open>the page for a cursor still inside the log\<close>
  "page_after now p a db q =
     \<lparr>ep_items = take (event_limit a) (readable_rows now p a db q),
      ep_has_more = event_limit a < length (readable_rows now p a db q),
      ep_next_position = (if event_limit a < length (readable_rows now p a db q)
         then nt_position (last (take (event_limit a) (readable_rows now p a db q)))
         else head_position (arg_str a ''project_id'') db),
      ep_reset_required = False, ep_reset_reason = None\<rparr>"

lemma list_events_after:
  assumes "authorize_tool p ''memory_collaboration_events'' (Some (arg_str a ''project_id'')) = Inr ()"
    and "\<not> (str_of (get_or a ''scope'' (PStr ''mine'')) = ''project'' \<and> \<not> is_admin p)"
    and "decode_event_cursor (event_binding P a p) k now = Inr (Some q, None)"
    and "low_water (arg_str a ''project_id'') now db \<le> q" and "q \<le> head_position (arg_str a ''project_id'') db"
  shows "list_events P now p a (Some k) db = Inr (page_after now p a db q)"
proof -
  have "event_visible (arg_str a ''project_id'') q (case head_of (arg_str a ''project_id'') db of None \<Rightarrow> 0 | Some h \<Rightarrow> eh_position h)
      (levels_upto (max_classification a)) (str_of (get_or a ''scope'' (PStr ''mine'')) = ''project'') (p_user_id p) now db
      = reader_sees now p a db q"
    by (rule ext) (simp add: reader_sees_def head_position_def)
  moreover have "(str_of (get_or a ''scope'' (PStr ''mine'')) = ''project'' \<and> \<not> is_admin p) = False" using assms(2) by blast
  ultimately show ?thesis
    using assms(1,3-5)
    by (simp only: list_events_def Let_def low_water_def [symmetric] head_position_def [symmetric] event_limit_def [symmetric]
        page_after_def readable_rows_def [symmetric] and_then_simps option.case prod.case checked_def first_error.simps)
      (auto simp: readable_rows_def [symmetric] take_take min_def simp del: One_nat_def)
qed

lemma list_eventsE:
  assumes "list_events P now p a (Some k) db = Inr pg" and "\<not> ep_reset_required pg"
  obtains q where "decode_event_cursor (event_binding P a p) k now = Inr (Some q, None)"
    and "low_water (arg_str a ''project_id'') now db \<le> q" and "pg = page_after now p a db q"
proof -
  let ?high = "head_position (arg_str a ''project_id'') db"
  have auth: "authorize_tool p ''memory_collaboration_events'' (Some (arg_str a ''project_id'')) = Inr ()"
    using assms(1) by (simp add: list_events_def Let_def and_then_Inr_iff)
  have adm: "\<not> (str_of (get_or a ''scope'' (PStr ''mine'')) = ''project'' \<and> \<not> is_admin p)"
    using assms(1) by (simp only: list_events_def Let_def and_then_Inr_iff checked_Inr_iff) force
  obtain position reason where dec: "decode_event_cursor (event_binding P a p) k now = Inr (position, reason)"
    using assms(1) by (simp only: list_events_def Let_def and_then_Inr_iff option.case) force
  have page: "ep_reset_required pg = (case position of None \<Rightarrow> True
      | Some q \<Rightarrow> q < low_water (arg_str a ''project_id'') now db \<or> ?high < q)"
    using assms(1) dec
    by (simp only: list_events_def Let_def low_water_def [symmetric] head_position_def [symmetric] and_then_Inr_iff
        option.case prod.case) (auto split: option.splits if_splits)
  obtain q where q: "position = Some q" "low_water (arg_str a ''project_id'') now db \<le> q" "q \<le> ?high"
    using page assms(2) by (cases position) auto
  have "reason = None" using dec q(1) by (auto simp: decode_event_cursor_def split: option.splits if_splits)
  then have "pg = page_after now p a db q"
    using list_events_after [OF auth adm _ q(2,3)] dec q(1) assms(1) by simp
  with that show thesis using dec q \<open>reason = None\<close> by simp
qed

lemma sorted_prefix_complete:
  assumes "sorted (map f xs)" and "distinct (map f xs)" and "x \<in> set xs" and "0 < n"
    and "n < length xs" and "f x \<le> (f (last (take n xs)) :: nat)"
  shows "x \<in> set (take n xs)"
proof (rule ccontr)
  assume "x \<notin> set (take n xs)"
  then have x: "x \<in> set (drop n xs)" using assms(3) by (metis Un_iff append_take_drop_id set_append)
  have "sorted_wrt (<) (map f xs)" using assms(1,2) by (simp add: strict_sorted_iff)
  then have "sorted_wrt (\<lambda>a b. f a < f b) (take n xs @ drop n xs)" by (simp add: sorted_wrt_map)
  then have "\<forall>a\<in>set (take n xs). \<forall>b\<in>set (drop n xs). f a < f b" unfolding sorted_wrt_append by blast
  moreover have "last (take n xs) \<in> set (take n xs)" using assms(4,5) by (intro last_in_set) auto
  ultimately have "f (last (take n xs)) < f x" using x by blast
  with assms(6) show False by simp
qed

text \<open>
  C16. No silent gap. A reader comes back with a cursor, after any number of transactions
  of other clients, retention purges included. Unless it is told to resync, the page it
  gets and the next cursor leave nothing out: every notification that was in the log at
  any time in between, is visible to the reader, and lies between the two cursors, is on
  the page.
\<close>

theorem events_no_silent_gap:
  assumes "run log_step db0 ts1 db1" and "run log_step db1 ts2 db" and "log_ok db0"
    and "list_events P now p a (Some (Some c)) db = Inr pg" and "\<not> ep_reset_required pg"
    and "0 < event_limit a" and "n \<in> set (cd_notifications db1)"
    and "reader_sees now p a db (ec_position c) n" and "nt_position n \<le> ep_next_position pg"
  shows "n \<in> set (ep_items pg)"
proof -
  have ok1: "log_ok db1" and ok: "log_ok db" using log_run_ok assms(1-3) by blast+
  obtain q where dec: "decode_event_cursor (event_binding P a p) (Some c) now = Inr (Some q, None)"
    and low: "low_water (arg_str a ''project_id'') now db \<le> q" and "pg = page_after now p a db q"
    using assms(4,5) by (rule list_eventsE)
  moreover have q: "q = ec_position c" using dec by (auto simp: decode_event_cursor_def split: if_splits)
  ultimately have pg: "pg = page_after now p a db (ec_position c)" by simp
  let ?rows = "readable_rows now p a db (ec_position c)"
  have after: "nt_project_id n = arg_str a ''project_id''" "ec_position c < nt_position n"
    using assms(8) by (auto simp: reader_sees_def event_visible_def)
  have "log_ext db1 db" using assms(2) ok1 by (rule log_run_ext)
  then consider "n \<in> set (cd_notifications db)"
    | h where "head_of (nt_project_id n) db = Some h" "nt_position n \<le> eh_pruned_through h"
    using assms(7) unfolding log_ext_def by blast
  then have "n \<in> set (cd_notifications db)"
  proof cases
    case (2 h)
    then have "nt_position n \<le> low_water (arg_str a ''project_id'') now db" by (simp add: after low_water_def)
    with low q after(2) show ?thesis by simp
  qed
  then have n: "n \<in> set ?rows" using assms(8) by (simp add: readable_rows_def)
  show ?thesis
  proof (cases "event_limit a < length ?rows")
    case False
    then show ?thesis using pg n by (simp add: page_after_def)
  next
    case True
    have "distinct (map nt_position (filter (reader_sees now p a db (ec_position c)) (cd_notifications db)))"
      using ok by (auto simp: log_ok_def reader_sees_def event_visible_def distinct_map inj_on_def)
    then have "distinct (map nt_position ?rows)"
      by (metis readable_rows_def mset_eq_imp_distinct_iff mset_map mset_sort)
    moreover have "sorted (map nt_position ?rows)" by (simp add: readable_rows_def)
    ultimately show ?thesis
      using sorted_prefix_complete [OF _ _ n assms(6) True] pg True assms(9) by (simp add: page_after_def)
  qed
qed

definition demo_reader :: principal where
  "demo_reader = \<lparr>p_user_id = ''ann'', p_project_id = Some ''p'', p_scopes = [''read''], p_local = False, p_provider = ''token'', p_organization_id = None\<rparr>"

definition demo_notification :: notification where
  "demo_notification = \<lparr>nt_project_id = ''p'', nt_position = 1, nt_topic = ''policy_changed'',
     nt_resource_kind = ''signal'', nt_resource_id = None, nt_classification = C_public, nt_audience = [],
     nt_revision = Some 1, nt_broadcast = True, nt_created_at = 10\<rparr>"

definition demo_logged :: cdb where
  "demo_logged = (insert_audit ''p'' ''root'' ''policy_set'' ''p'' [(''version'', PInt 1)] empty_cdb)
     \<lparr>cd_heads := [\<lparr>eh_project_id = ''p'', eh_position = 1, eh_pruned_through = 0\<rparr>],
      cd_notifications := [demo_notification]\<rparr>"

lemma demo_logged_event:
  "event 10 ''p'' ''root'' ''policy_set'' ''p'' [(''version'', PInt 1)] empty_cdb = Inr demo_logged"
  by (simp add: event_def insert_audit_def project_event_def append_event_def empty_cdb_def TOPICS_def demo_logged_def
      demo_notification_def bump_head_def head_of_def purge_def purged_positions_def purgeable_def insert_row_def
      exists_row_def fetchrow_def checked_def arg_int_def py_get_def Let_def MAX_EVENTS_def RETENTION_SECONDS_def
      seconds_def int_of_def)

theorem events_no_silent_gap_witness:
  "hd (cd_notifications demo_logged) \<in> set (ep_items (page_after 30 demo_reader [(''project_id'', PStr ''p'')] demo_logged 0))"
proof -
  let ?a = "[(''project_id'', PStr ''p'')]"
  let ?c = "\<lparr>ec_version = 1, ec_scope = event_binding auth_platform ?a demo_reader, ec_position = 0, ec_issued = 20\<rparr>"
  let ?n = "hd (cd_notifications demo_logged)"
  have runs: "run log_step empty_cdb [\<lambda>_. 10] demo_logged" "run log_step demo_logged [] demo_logged"
    using ls_event [of "\<lambda>_. 10"] demo_logged_event by (auto simp: run_Cons_iff)
  have auth: "authorize_tool demo_reader ''memory_collaboration_events'' (Some (arg_str ?a ''project_id'')) = Inr ()"
    by code_simp
  have dec: "decode_event_cursor (event_binding auth_platform ?a demo_reader) (Some ?c) 30 = Inr (Some 0, None)"
    by (simp add: decode_event_cursor_def RETENTION_SECONDS_def seconds_def)
  have mine: "\<not> (str_of (get_or ?a ''scope'' (PStr ''mine'')) = ''project'' \<and> \<not> is_admin demo_reader)"
    and low: "low_water (arg_str ?a ''project_id'') 30 demo_logged \<le> 0"
    and high: "0 \<le> head_position (arg_str ?a ''project_id'') demo_logged"
    by code_simp+
  have facts: "\<not> ep_reset_required (page_after 30 demo_reader ?a demo_logged 0)" "0 < event_limit ?a"
    "?n \<in> set (cd_notifications demo_logged)" "reader_sees 30 demo_reader ?a demo_logged 0 ?n"
    "nt_position ?n \<le> ep_next_position (page_after 30 demo_reader ?a demo_logged 0)"
    by code_simp+
  show ?thesis
    by (rule events_no_silent_gap [OF runs log_ok_empty list_events_after [OF auth mine dec low high]])
      (simp_all add: facts)
qed

end
