(* ===== verification/Continuity_Policies.thy ===== *)
theory Continuity_Policies
  imports Continuity_Snapshots Continuity_Log
begin

text \<open>
  Project continuity policies (continuity/policies.py): validation, the resolution of a
  sender's recipients, and the version-fenced replacement of a policy, which provides the
  contract of a versioned record.
\<close>

subsection \<open>Operations\<close>

definition overlap :: "string list \<Rightarrow> string list \<Rightarrow> bool" where
  "overlap xs ys = list_ex (\<lambda>x. x \<in> set ys) xs"

definition rule_error :: mem_error where
  "rule_error = cont_invalid ''Duplicate sender, self recipient or overlapping recipient roles''"

fun validate_rules :: "string list \<Rightarrow> string list \<Rightarrow> dict list \<Rightarrow> string list outcome" where
  "validate_rules seen users [] = Inr users"
| "validate_rules seen users (r # rs) =
     (let sender = arg_str r ''from_user_id''; recipients = arg_strs r ''recipient_user_ids'';
          backups = arg_strs r ''backup_user_ids''
      in if sender \<in> set seen \<or> sender \<in> set recipients \<union> set backups \<or> overlap recipients backups
         then Inl rule_error
         else validate_rules (sender # seen) (users @ recipients @ backups) rs)"

fun safe_paths :: "string list \<Rightarrow> unit outcome" where
  "safe_paths [] = Inr ()"
| "safe_paths (p # ps) = and_then (safe_path p) (\<lambda>_. safe_paths ps)"

definition sender_rules :: "dict \<Rightarrow> dict list" where
  "sender_rules body = map dict_of (list_of (py_get body ''sender_rules''))"

definition validate_policy :: "dict \<Rightarrow> string list outcome" where
  "validate_policy body =
     (let active = arg_strs body ''default_recipient_user_ids''; backup = arg_strs body ''default_backup_user_ids''
      in and_then (checked [(overlap active backup,
             cont_invalid ''Active and backup recipient sets must not overlap'')] ()) (\<lambda>_.
         and_then (validate_rules [] (active @ backup) (sender_rules body)) (\<lambda>users.
         and_then (safe_paths (arg_strs body ''checkpoint_allowed_paths'')) (\<lambda>_. Inr users))))"

definition resolve :: "dict \<Rightarrow> string \<Rightarrow> string list \<times> string list" where
  "resolve body sender =
     (case fetchrow (\<lambda>r. arg_str r ''from_user_id'' = sender) (sender_rules body) of
        Some r \<Rightarrow> (arg_strs r ''recipient_user_ids'', arg_strs r ''backup_user_ids'')
      | None \<Rightarrow> (arg_strs body ''default_recipient_user_ids'', arg_strs body ''default_backup_user_ids''))"

definition set_policy_body ::
    "time \<Rightarrow> principal \<Rightarrow> dict \<Rightarrow> string list \<Rightarrow> cdb \<Rightarrow> (cdb \<times> dict) outcome" where
  \<comment> \<open>what runs when the request has no receipt yet\<close>
  "set_policy_body now p a users db =
     (let project = arg_str a ''project_id''; body = arg_dict a ''policy'';
          version = policy_version project (cd_policies db)
      in and_then (checked [(int version \<noteq> arg_int a ''expected_version'', version_conflict)] ()) (\<lambda>_.
         and_then (if truthy (py_get body ''enabled'') then eligible project users None db else Inr ()) (\<lambda>_.
         and_then (event now project (p_user_id p) ''policy_set'' project
             [(''version'', PInt (int (version + 1))), (''policy'', PDict body), (''reason'', py_get a ''reason'')]
             (db\<lparr>cd_policies := upsert_policy project (version + 1) body (p_user_id p) (cd_policies db)\<rparr>)) (\<lambda>db1.
           Inr (db1, [(''project_id'', PStr project), (''version'', PInt (int (version + 1)))])))))"

definition set_policy :: "platform \<Rightarrow> clock \<Rightarrow> principal \<Rightarrow> dict \<Rightarrow> cdb \<Rightarrow> (cdb \<times> dict) outcome" where
  "set_policy P clk p a db =
     and_then (validate_policy (arg_dict a ''policy'')) (\<lambda>users.
       receipted P a p ''policy_set'' (set_policy_body (clk 0) p a users) db)"

definition get_policy :: "principal \<Rightarrow> dict \<Rightarrow> cdb \<Rightarrow> dict" where
  "get_policy p a db =
     (let r = policy_of (arg_str a ''project_id'') (cd_policies db)
      in [(''configured'', PBool (r \<noteq> None)),
          (''version'', PInt (case r of None \<Rightarrow> 0 | Some x \<Rightarrow> int (pr_version x))),
          (''policy'', case r of None \<Rightarrow> PNone | Some x \<Rightarrow> PDict (pr_policy x)),
          (''actor_id'', PStr (p_user_id p)), (''project_id'', py_get a ''project_id''),
          (''cache_policy'', PStr ''no_store'')])"

subsection \<open>Policies are versioned\<close>

lemma fetchrow_replaced:
  assumes "k r = i" and "exists_row (\<lambda>x. k x = i) t"
  shows "fetchrow (\<lambda>x. k x = j) (update_where (\<lambda>x. k x = i) (\<lambda>_. r) t)
     = (if j = i then Some r else fetchrow (\<lambda>x. k x = j) t)"
proof -
  have other: "j \<noteq> i \<Longrightarrow> fetchrow (\<lambda>x. k x = j) (update_where (\<lambda>x. k x = i) (\<lambda>_. r) u) = fetchrow (\<lambda>x. k x = j) u" for u
    by (induction u) (auto simp: update_where_def assms(1))
  have "\<exists>x \<in> set u. k x = i \<Longrightarrow> fetchrow (\<lambda>x. k x = i) (update_where (\<lambda>x. k x = i) (\<lambda>_. r) u) = Some r" for u
    by (induction u) (auto simp: update_where_def assms(1))
  with other assms(2) show ?thesis by (simp add: exists_row_iff)
qed

lemma policy_of_upsert:
  "policy_of q (upsert_policy project v body actor t) =
     (if q = project then Some \<lparr>pr_project_id = project, pr_version = v, pr_policy = body, pr_updated_by = actor\<rparr>
      else policy_of q t)"
proof (cases "exists_row (\<lambda>x. pr_project_id x = project) t")
  case True
  then show ?thesis by (simp add: policy_of_def upsert_policy_def Let_def fetchrow_replaced)
next
  case False
  then have "policy_of project t = None" by (auto simp: policy_of_def fetchrow_None_iff sql)
  then show ?thesis using False
    by (auto simp: policy_of_def upsert_policy_def fetchrow_insert_row split: option.split)
qed

lemma set_policyE:
  assumes "set_policy P clk p a db = Inr (db', res)" and "find_receipt db (receipt_key a p ''policy_set'') = None"
  obtains users where "validate_policy (arg_dict a ''policy'') = Inr users"
    "int (policy_version (arg_str a ''project_id'') (cd_policies db)) = arg_int a ''expected_version''"
    "truthy (py_get (arg_dict a ''policy'') ''enabled'') \<Longrightarrow>
       \<forall>u \<in> set users. (arg_str a ''project_id'', u) \<in> set (cd_members db)"
    "cd_policies db' = upsert_policy (arg_str a ''project_id'')
       (policy_version (arg_str a ''project_id'') (cd_policies db) + 1) (arg_dict a ''policy'') (p_user_id p) (cd_policies db)"
proof -
  obtain users where users: "validate_policy (arg_dict a ''policy'') = Inr users"
    and r: "receipted P a p ''policy_set'' (set_policy_body (clk 0) p a users) db = Inr (db', res)"
    using assms(1) by (auto simp: set_policy_def and_then_Inr_iff)
  from r show thesis
  proof (cases rule: receiptedE)
    case (replayed r)
    with assms(2) show ?thesis by simp
  next
    case (fresh db1 r)
    let ?db = "db\<lparr>cd_policies := upsert_policy (arg_str a ''project_id'')
       (policy_version (arg_str a ''project_id'') (cd_policies db) + 1) (arg_dict a ''policy'') (p_user_id p) (cd_policies db)\<rparr>"
    from fresh(2) obtain d where
      v: "int (policy_version (arg_str a ''project_id'') (cd_policies db)) = arg_int a ''expected_version''"
      and el: "truthy (py_get (arg_dict a ''policy'') ''enabled'') \<Longrightarrow> eligible (arg_str a ''project_id'') users None db = Inr ()"
      and ev: "event (clk 0) (arg_str a ''project_id'') (p_user_id p) ''policy_set'' (arg_str a ''project_id'') d ?db = Inr db1"
      by (auto simp: set_policy_body_def Let_def and_then_Inr_iff split: if_splits)
    have "cd_policies db1 = cd_policies ?db" using event_good [OF ev] log_frame_fields(1) by (auto simp: log_good_def)
    then have "cd_policies db' = cd_policies ?db" by (simp add: fresh(3) put_receipt_def)
    with users v el show ?thesis by (intro that) (auto simp: eligible_def list_all_iff)
  qed
qed

definition policy_change :: "string \<Rightarrow> nat \<Rightarrow> cdb \<Rightarrow> cdb \<Rightarrow> bool" where
  \<comment> \<open>a fresh request that expects version \<open>v\<close> succeeds\<close>
  "policy_change project v db db' \<longleftrightarrow>
     (\<exists>P clk p a res. set_policy P clk p a db = Inr (db', res) \<and> find_receipt db (receipt_key a p ''policy_set'') = None
        \<and> arg_str a ''project_id'' = project \<and> arg_int a ''expected_version'' = int v)"

interpretation pv: versioned "\<lambda>db project. policy_version project (cd_policies db)" policy_change
proof
  fix project :: string and v :: nat and db db' :: cdb
  assume "policy_change project v db db'"
  then obtain P clk p a res where c: "set_policy P clk p a db = Inr (db', res)"
      "find_receipt db (receipt_key a p ''policy_set'') = None" "arg_str a ''project_id'' = project"
      "arg_int a ''expected_version'' = int v"
    unfolding policy_change_def by blast
  obtain users where v: "int (policy_version project (cd_policies db)) = int v"
    and pol: "cd_policies db' = upsert_policy project (policy_version project (cd_policies db) + 1) (arg_dict a ''policy'')
       (p_user_id p) (cd_policies db)"
    using c(1,2) by (rule set_policyE) (use c(3,4) in simp)
  show "policy_version project (cd_policies db) = v" using v by simp
  with pol show "policy_version project (cd_policies db') = Suc v" by (simp add: policy_version_def policy_of_upsert)
qed

lemma policy_event_ok: "\<exists>db1. event now project actor ''policy_set'' project d db = Inr db1"
  by (simp add: event_def project_event_def append_event_def TOPICS_def checked_def Let_def)

lemma set_policy_succeeds:
  assumes "validate_policy (arg_dict a ''policy'') = Inr users"
    and "find_receipt db (receipt_key a p ''policy_set'') = None"
    and "int (policy_version (arg_str a ''project_id'') (cd_policies db)) = arg_int a ''expected_version''"
    and "truthy (py_get (arg_dict a ''policy'') ''enabled'') \<Longrightarrow> eligible (arg_str a ''project_id'') users None db = Inr ()"
  shows "\<exists>db' res. set_policy P clk p a db = Inr (db', res)"
proof -
  obtain db1 where "event (clk 0) (arg_str a ''project_id'') (p_user_id p) ''policy_set'' (arg_str a ''project_id'')
      [(''version'', PInt (int (policy_version (arg_str a ''project_id'') (cd_policies db) + 1))),
       (''policy'', PDict (arg_dict a ''policy'')), (''reason'', py_get a ''reason'')]
      (db\<lparr>cd_policies := upsert_policy (arg_str a ''project_id'')
         (policy_version (arg_str a ''project_id'') (cd_policies db) + 1) (arg_dict a ''policy'') (p_user_id p) (cd_policies db)\<rparr>) = Inr db1"
    using policy_event_ok by blast
  then have "\<exists>r. set_policy_body (clk 0) p a users db = Inr r"
    using assms(3,4) by (simp add: set_policy_body_def Let_def checked_def)
  then show ?thesis using assms(1,2) by (auto simp: set_policy_def receipted_def replay_def)
qed

lemma validate_rules_sound:
  assumes "validate_rules seen users rs = Inr all"
  shows "set users \<subseteq> set all \<and> (\<forall>r \<in> set rs.
      set (arg_strs r ''recipient_user_ids'') \<inter> set (arg_strs r ''backup_user_ids'') = {}
    \<and> set (arg_strs r ''recipient_user_ids'') \<union> set (arg_strs r ''backup_user_ids'') \<subseteq> set all
    \<and> arg_str r ''from_user_id'' \<notin> set (arg_strs r ''recipient_user_ids'') \<union> set (arg_strs r ''backup_user_ids''))"
  using assms
proof (induction rs arbitrary: seen users)
  case (Cons r rs)
  let ?sender = "arg_str r ''from_user_id''" and ?to = "arg_strs r ''recipient_user_ids''"
    and ?backup = "arg_strs r ''backup_user_ids''"
  have ok: "?sender \<notin> set ?to \<union> set ?backup" "\<not> overlap ?to ?backup"
    and rest: "validate_rules (?sender # seen) (users @ ?to @ ?backup) rs = Inr all"
    using Cons.prems by (simp_all add: Let_def split: if_splits)
  have "set ?to \<inter> set ?backup = {}" using ok(2) by (auto simp: overlap_def list_ex_iff)
  then show ?case using Cons.IH [OF rest] ok(1) by simp
qed simp

lemma safe_paths_ok: "safe_paths ps = Inr () \<Longrightarrow> \<forall>q \<in> set ps. \<not> unsafe_path q"
  by (induction ps) (auto simp: and_then_Inr_iff safe_path_def)

lemma validate_policyE:
  assumes "validate_policy body = Inr users"
  shows "set (arg_strs body ''default_recipient_user_ids'') \<inter> set (arg_strs body ''default_backup_user_ids'') = {}"
    and "validate_rules [] (arg_strs body ''default_recipient_user_ids'' @ arg_strs body ''default_backup_user_ids'')
      (sender_rules body) = Inr users"
    and "\<forall>q \<in> set (arg_strs body ''checkpoint_allowed_paths''). \<not> unsafe_path q"
  using assms safe_paths_ok
  by (auto simp: validate_policy_def Let_def and_then_Inr_iff overlap_def list_ex_iff)

lemma resolve_sound:
  assumes "validate_policy body = Inr users"
  shows "set (fst (resolve body sender)) \<inter> set (snd (resolve body sender)) = {}
    \<and> set (fst (resolve body sender)) \<union> set (snd (resolve body sender)) \<subseteq> set users
    \<and> (sender \<in> set (map (\<lambda>r. arg_str r ''from_user_id'') (sender_rules body)) \<longrightarrow>
        sender \<notin> set (fst (resolve body sender)) \<union> set (snd (resolve body sender)))"
proof (cases "fetchrow (\<lambda>r. arg_str r ''from_user_id'' = sender) (sender_rules body)")
  case None
  then show ?thesis
    using validate_policyE(1) [OF assms] validate_rules_sound [OF validate_policyE(2) [OF assms]]
    by (simp add: resolve_def None) (use None in \<open>auto simp: fetchrow_None_iff\<close>)
next
  case (Some r)
  then have "r \<in> set (sender_rules body)" "arg_str r ''from_user_id'' = sender" by (auto dest: fetchrow_SomeD)
  with Some show ?thesis using validate_rules_sound [OF validate_policyE(2) [OF assms]]
    by (auto simp: resolve_def)
qed

subsection \<open>Properties\<close>

text \<open>
  No lost update of a policy: a successful replacement stores exactly the given policy
  under the next version, which is what is read back, leaves the other projects alone, and
  a second administrator who decided on the same version is refused.
\<close>

lemma policy_no_lost_update:
  assumes "set_policy P clk p a db = Inr (db', res)" and "find_receipt db (receipt_key a p ''policy_set'') = None"
  shows "py_get (get_policy q a db') ''policy'' = PDict (arg_dict a ''policy'')
    \<and> py_get (get_policy q a db') ''version'' = PInt (arg_int a ''expected_version'' + 1)
    \<and> (\<forall>project. project \<noteq> arg_str a ''project_id'' \<longrightarrow>
         policy_of project (cd_policies db') = policy_of project (cd_policies db))
    \<and> (\<forall>P' clk' p' b. arg_str b ''project_id'' = arg_str a ''project_id''
         \<and> arg_int b ''expected_version'' = arg_int a ''expected_version''
         \<and> find_receipt db' (receipt_key b p' ''policy_set'') = None
         \<longrightarrow> \<not> is_ok (set_policy P' clk' p' b db'))"
proof -
  let ?project = "arg_str a ''project_id''"
  obtain users where v: "int (policy_version ?project (cd_policies db)) = arg_int a ''expected_version''"
    and pol: "cd_policies db' = upsert_policy ?project (policy_version ?project (cd_policies db) + 1) (arg_dict a ''policy'')
       (p_user_id p) (cd_policies db)"
    using assms by (rule set_policyE)
  have first: "policy_change ?project (policy_version ?project (cd_policies db)) db db'"
    unfolding policy_change_def using assms v by metis
  have second: "\<not> is_ok (set_policy P' clk' p' b db')"
    if b: "arg_str b ''project_id'' = ?project" "arg_int b ''expected_version'' = arg_int a ''expected_version''"
      "find_receipt db' (receipt_key b p' ''policy_set'') = None" for P' clk' p' b
  proof
    assume "is_ok (set_policy P' clk' p' b db')"
    then obtain db'' res' where "set_policy P' clk' p' b db' = Inr (db'', res')" by (auto simp: is_ok_iff)
    then have "policy_change ?project (policy_version ?project (cd_policies db)) db' db''"
      unfolding policy_change_def using b v by metis
    with first show False using pv.no_lost_update by blast
  qed
  have "policy_of ?project (cd_policies db') = Some \<lparr>pr_project_id = ?project,
      pr_version = policy_version ?project (cd_policies db) + 1, pr_policy = arg_dict a ''policy'', pr_updated_by = p_user_id p\<rparr>"
    by (simp add: pol policy_of_upsert)
  moreover have "\<forall>project. project \<noteq> ?project \<longrightarrow> policy_of project (cd_policies db') = policy_of project (cd_policies db)"
    by (simp add: pol policy_of_upsert)
  ultimately show ?thesis using second v by (auto simp: get_policy_def py_get_def)
qed

definition demo_admin :: principal where
  "demo_admin = \<lparr>p_user_id = ''root'', p_project_id = Some ''p'', p_scopes = [''admin''], p_local = False, p_provider = ''token'', p_organization_id = None\<rparr>"

definition demo_project :: cdb where
  "demo_project = empty_cdb\<lparr>cd_members := [(''p'', ''ann''), (''p'', ''bob''), (''p'', ''cat'')]\<rparr>"

definition demo_set :: dict where
  "demo_set = [(''project_id'', PStr ''p''), (''policy'', PDict demo_policy), (''expected_version'', PInt 0),
     (''idempotency_key'', PStr ''k1''), (''reason'', PStr ''setup'')]"

lemma demo_policy_valid: "validate_policy demo_policy = Inr [''bob'']"
  by (simp add: validate_policy_def demo_policy_def overlap_def sender_rules_def arg_strs_def strs_of_def strs_def
      py_get_def list_of_def checked_def Let_def safe_path_def unsafe_path_def unsafe_part_def lower_def lower_code_def
      code_def FORBIDDEN_def starts_with_def ends_with_def backslash_def char_of_def)

lemma demo_set_fields:
  "arg_str demo_set ''project_id'' = ''p''" "arg_dict demo_set ''policy'' = demo_policy"
  "arg_int demo_set ''expected_version'' = 0"
  by (simp_all add: demo_set_def arg_str_def arg_dict_def arg_int_def int_of_def py_get_def)

lemma demo_set_ok:
  shows "\<exists>db' res. set_policy auth_platform clk demo_admin demo_set demo_project = Inr (db', res)"
    and "find_receipt demo_project (receipt_key demo_set demo_admin ''policy_set'') = None"
proof -
  show none: "find_receipt demo_project (receipt_key demo_set demo_admin ''policy_set'') = None"
    by (simp add: find_receipt_def demo_project_def empty_cdb_def)
  have "eligible ''p'' [''bob''] None demo_project = Inr ()" by (simp add: eligible_def demo_project_def)
  moreover have "policy_version ''p'' (cd_policies demo_project) = 0"
    by (simp add: demo_project_def empty_cdb_def policy_version_def policy_of_def)
  ultimately show "\<exists>db' res. set_policy auth_platform clk demo_admin demo_set demo_project = Inr (db', res)"
    using none by (intro set_policy_succeeds) (simp_all add: demo_set_fields demo_policy_valid)
qed

lemma policy_no_lost_update_witness:
  "\<exists>db' res. set_policy auth_platform (\<lambda>_. 5) demo_admin demo_set demo_project = Inr (db', res)
    \<and> py_get (get_policy demo_admin demo_set db') ''version'' = PInt 1"
proof -
  obtain db' res where ok: "set_policy auth_platform (\<lambda>_. 5) demo_admin demo_set demo_project = Inr (db', res)"
    using demo_set_ok(1) by blast
  then show ?thesis using policy_no_lost_update [OF ok demo_set_ok(2)] demo_set_fields by auto
qed

text \<open>
  What an enabled policy promises: for every sender it names disjoint sets of active
  and backup recipients, all of them members of the project when the policy was set, a
  sender with a rule of its own is never its own successor, and no allowed checkpoint path
  is unsafe.
\<close>

lemma policy_recipients_sound:
  assumes "set_policy P clk p a db = Inr (db', res)" and "find_receipt db (receipt_key a p ''policy_set'') = None"
    and "policy (arg_str a ''project_id'') True db' = Inr row"
  shows "set (fst (resolve (pr_policy row) sender)) \<inter> set (snd (resolve (pr_policy row) sender)) = {}
    \<and> (\<forall>u \<in> set (fst (resolve (pr_policy row) sender)) \<union> set (snd (resolve (pr_policy row) sender)).
        (arg_str a ''project_id'', u) \<in> set (cd_members db))
    \<and> (sender \<in> set (map (\<lambda>r. arg_str r ''from_user_id'') (sender_rules (pr_policy row))) \<longrightarrow>
        sender \<notin> set (fst (resolve (pr_policy row) sender)) \<union> set (snd (resolve (pr_policy row) sender)))
    \<and> (\<forall>q \<in> set (arg_strs (pr_policy row) ''checkpoint_allowed_paths''). \<not> unsafe_path q)"
proof -
  let ?project = "arg_str a ''project_id''" and ?body = "arg_dict a ''policy''"
  obtain users where users: "validate_policy ?body = Inr users"
    and members: "truthy (py_get ?body ''enabled'') \<Longrightarrow> \<forall>u \<in> set users. (?project, u) \<in> set (cd_members db)"
    and pol: "cd_policies db' = upsert_policy ?project (policy_version ?project (cd_policies db) + 1) ?body
       (p_user_id p) (cd_policies db)"
    using assms(1,2) by (rule set_policyE) blast
  have body: "pr_policy row = ?body" "truthy (py_get ?body ''enabled'')"
    using assms(3) by (auto simp: policy_def pol policy_of_upsert split: if_splits)
  show ?thesis
    unfolding body(1) using resolve_sound [OF users] validate_policyE(3) [OF users] members [OF body(2)] by blast
qed

lemma policy_recipients_sound_witness:
  "set (fst (resolve demo_policy ''ann'')) \<inter> set (snd (resolve demo_policy ''ann'')) = {}"
proof -
  obtain db' res where ok: "set_policy auth_platform (\<lambda>_. 5) demo_admin demo_set demo_project = Inr (db', res)"
    using demo_set_ok(1) by blast
  obtain v u where "policy_of ''p'' (cd_policies db') = Some \<lparr>pr_project_id = ''p'', pr_version = v, pr_policy = demo_policy, pr_updated_by = u\<rparr>"
    by (rule set_policyE [OF ok demo_set_ok(2)]) (simp add: demo_set_fields policy_of_upsert)
  then have "policy (arg_str demo_set ''project_id'') True db'
      = Inr \<lparr>pr_project_id = ''p'', pr_version = v, pr_policy = demo_policy, pr_updated_by = u\<rparr>"
    by (simp add: policy_def demo_set_fields demo_policy_def py_get_def truthy_def)
  then show ?thesis using policy_recipients_sound [OF ok demo_set_ok(2), of _ "''ann''"] by force
qed

end
