(* ===== verification/Continuity_Checkpoints.thy ===== *)
theory Continuity_Checkpoints
  imports Continuity_Policies Handoff_Service
begin

text \<open>
  Immutable checkpoints of a user's own work (continuity/checkpoints.py): saving under
  compare-and-swap of the version, reading, and the erasure of a body with everything that
  was delivered from it. \<open>i\<close> is the fresh UUID of an inserted row.
\<close>

definition checkpoint_payload :: "checkpoint \<Rightarrow> dict" where
  "checkpoint_payload c =
     [(''project_id'', PStr (ck_project_id c)), (''work_id'', PStr (ck_work_id c)), (''from_user'', PStr (ck_from_user c)),
      (''version'', PInt (int (ck_version c))), (''classification'', PStr (class_str (ck_classification c))),
      (''lock_snapshot_digest'', PStr (ck_lock_snapshot_digest c)), (''continuation'', ck_continuation c),
      (''continuation_digest'', PStr (ck_continuation_digest c)), (''snapshot_digest'', opt_str (ck_snapshot_digest c))]"

definition locate_checkpoint :: "time \<Rightarrow> string \<Rightarrow> string \<Rightarrow> bool \<Rightarrow> cdb \<Rightarrow> checkpoint outcome" where
  "locate_checkpoint now project i retained db =
     (case fetchrow (\<lambda>c. ck_project_id c = project \<and> ck_id c = i) (cd_checkpoints db) of
        None \<Rightarrow> Inl out_of_scope
      | Some c \<Rightarrow> checked [(retained \<and> (ck_forgotten_at c \<noteq> None \<or> ck_expires_at c \<le> now), out_of_scope)] c)"

subsection \<open>Saving\<close>

definition own_work :: "string \<Rightarrow> string \<Rightarrow> string \<Rightarrow> checkpoint \<Rightarrow> bool" where
  "own_work project user work c \<longleftrightarrow> ck_project_id c = project \<and> ck_from_user c = user \<and> ck_work_id c = work"

definition latest_checkpoint :: "string \<Rightarrow> string \<Rightarrow> string \<Rightarrow> checkpoint list \<Rightarrow> checkpoint option" where
  \<comment> \<open>ORDER BY version DESC LIMIT 1\<close>
  "latest_checkpoint project user work t =
     (case rev (sort_key ck_version (filter (own_work project user work) t)) of [] \<Rightarrow> None | c # _ \<Rightarrow> Some c)"

definition latest_version :: "string \<Rightarrow> string \<Rightarrow> string \<Rightarrow> checkpoint list \<Rightarrow> nat" where
  "latest_version project user work t =
     (case latest_checkpoint project user work t of None \<Rightarrow> 0 | Some c \<Rightarrow> ck_version c)"

definition saved_checkpoint ::
    "platform \<Rightarrow> time \<Rightarrow> time \<Rightarrow> string \<Rightarrow> principal \<Rightarrow> dict \<Rightarrow> nat \<Rightarrow> string \<Rightarrow> string option \<Rightarrow> policy_row \<Rightarrow> checkpoint" where
  \<comment> \<open>the inserted row: its expiry is counted from one clock sample, its creation is another\<close>
  "saved_checkpoint P now created i p a version package_digest snapshot_digest configured =
     (let c = \<lparr>ck_id = i, ck_project_id = arg_str a ''project_id'', ck_work_id = arg_str a ''work_id'',
            ck_from_user = p_user_id p, ck_version = version, ck_classification = arg_class a ''classification'',
            ck_lock_snapshot_digest = arg_str a ''lock_snapshot_digest'', ck_continuation = py_get a ''continuation'',
            ck_continuation_digest = package_digest, ck_snapshot = py_get a ''snapshot'',
            ck_snapshot_digest = snapshot_digest, ck_payload_digest = [], ck_policy_version = pr_version configured,
            ck_created_at = created, ck_expires_at = now + hours (arg_int (pr_policy configured) ''retention_hours''),
            ck_forgotten_at = None\<rparr>
      in c\<lparr>ck_payload_digest := digest P (PDict (checkpoint_payload c))\<rparr>)"

definition save_body ::
    "platform \<Rightarrow> clock \<Rightarrow> string \<Rightarrow> principal \<Rightarrow> dict \<Rightarrow> string \<Rightarrow> cdb \<Rightarrow> (cdb \<times> dict) outcome" where
  "save_body P clk i p a package_digest db =
     (let project = arg_str a ''project_id''; work = arg_str a ''work_id'';
          latest = latest_checkpoint project (p_user_id p) work (cd_checkpoints db);
          version = latest_version project (p_user_id p) work (cd_checkpoints db)
      in and_then (policy project True db) (\<lambda>configured.
         and_then (validate_snapshot P (map_of a ''snapshot'') (py_get a ''continuation'') (pr_policy configured)) (\<lambda>snapshot_digest.
         and_then (checked
           [(int version \<noteq> arg_int a ''expected_version'', version_conflict),
            (case latest of None \<Rightarrow> False
               | Some c \<Rightarrow> class_index (arg_class a ''classification'') < class_index (ck_classification c),
             cont_conflict ''Checkpoint classification cannot be lowered'')] ()) (\<lambda>_.
         let row = saved_checkpoint P (clk 0) (clk 1) i p a (version + 1) package_digest snapshot_digest configured
         in and_then (event (clk 2) project (p_user_id p) ''checkpoint_save'' i
               [(''work_id'', py_get a ''work_id''), (''version'', PInt (int (version + 1))),
                (''payload_digest'', PStr (ck_payload_digest row))]
               (db\<lparr>cd_checkpoints := insert_row row (cd_checkpoints db)\<rparr>)) (\<lambda>db1.
             Inr (db1, [(''checkpoint_id'', PStr i), (''version'', PInt (int (version + 1))),
                (''payload_digest'', PStr (ck_payload_digest row)), (''created_at'', PTime (clk 1)),
                (''expires_at'', PTime (ck_expires_at row))]))))))"

definition save_checkpoint ::
    "platform \<Rightarrow> clock \<Rightarrow> string \<Rightarrow> principal \<Rightarrow> dict \<Rightarrow> cdb \<Rightarrow> (cdb \<times> dict) outcome" where
  "save_checkpoint P clk i p a db =
     and_then (validate_continuation P (py_get a ''continuation'')) (\<lambda>package_digest.
       receipted P a p ''checkpoint_save'' (save_body P clk i p a package_digest) db)"

subsection \<open>Reading\<close>

definition read_checkpoint :: "time \<Rightarrow> principal \<Rightarrow> dict \<Rightarrow> cdb \<Rightarrow> dict outcome" where
  "read_checkpoint now p a db =
     and_then (locate_checkpoint now (arg_str a ''project_id'') (arg_str a ''checkpoint_id'') True db) (\<lambda>c.
       checked
         [(ck_from_user c \<noteq> p_user_id p \<and> \<not> is_admin p, out_of_scope),
          (over_ceiling (ck_classification c) a, out_of_scope)]
         [(''checkpoint_id'', PStr (ck_id c)), (''source'', PDict (checkpoint_payload c)), (''snapshot'', ck_snapshot c),
          (''payload_digest'', PStr (ck_payload_digest c)), (''created_at'', PTime (ck_created_at c)),
          (''expires_at'', PTime (ck_expires_at c)), (''cache_policy'', PStr ''no_store''),
          (''automatic_resume'', PBool False)])"

subsection \<open>Erasure\<close>

definition dependent_users :: "string \<Rightarrow> cdb \<Rightarrow> string list" where
  \<comment> \<open>deliveries joined to the bundles of the checkpoint\<close>
  "dependent_users i db =
     map dl_recipient_user_id (filter (\<lambda>d. dl_revoked_at d = None
       \<and> exists_row (\<lambda>b. bn_id b = dl_bundle_id d \<and> bn_source_checkpoint_id b = Some i) (cd_bundles db)) (cd_deliveries db))"

definition erased :: "time \<Rightarrow> checkpoint \<Rightarrow> checkpoint" where
  "erased now c = c\<lparr>ck_continuation := PDict [], ck_snapshot := PNone, ck_forgotten_at := Some now\<rparr>"

definition cancelled :: "work_unit \<Rightarrow> work_unit" where
  "cancelled u = u\<lparr>wu_state := U_cancelled, wu_claim_token_digest := None, wu_lease_expires_at := None,
     wu_claimed_by := None, wu_claim_generation := wu_claim_generation u + 1\<rparr>"

definition revoke_bundle :: "time \<Rightarrow> string \<Rightarrow> cdb \<Rightarrow> cdb" where
  "revoke_bundle now b db =
     db\<lparr>cd_deliveries := update_where (\<lambda>d. dl_bundle_id d = b \<and> dl_revoked_at d = None)
          (\<lambda>d. d\<lparr>dl_revoked_at := Some now\<rparr>) (cd_deliveries db),
        cd_units := update_where (\<lambda>u. wu_bundle_id u = b) cancelled (cd_units db)\<rparr>"

definition dependent_bundle :: "string \<Rightarrow> cont_bundle \<Rightarrow> bool" where
  "dependent_bundle i b \<longleftrightarrow> bn_source_checkpoint_id b = Some i \<and> bn_revoked_at b = None"

definition erase_checkpoint :: "clock \<Rightarrow> string \<Rightarrow> cdb \<Rightarrow> cdb" where
  "erase_checkpoint clk i db =
     (let bundles = map bn_id (filter (dependent_bundle i) (cd_bundles db));
          db1 = db\<lparr>cd_checkpoints := update_where (\<lambda>c. ck_id c = i) (erased (clk 0)) (cd_checkpoints db),
            cd_bundles := update_where (dependent_bundle i)
              (\<lambda>b. b\<lparr>bn_revoked_at := Some (clk 1), bn_version := bn_version b + 1\<rparr>) (cd_bundles db)\<rparr>
      in fold (\<lambda>x. revoke_bundle (clk (fst x)) (snd x)) (enumerate 2 bundles) db1)"

definition forget_body :: "clock \<Rightarrow> time \<Rightarrow> principal \<Rightarrow> dict \<Rightarrow> cdb \<Rightarrow> (cdb \<times> dict) outcome" where
  \<comment> \<open>\<open>later\<close> is the clock of the event, after the statements of the erasure\<close>
  "forget_body clk later p a db =
     (let project = arg_str a ''project_id'' in
      and_then (locate_checkpoint (clk 0) project (arg_str a ''checkpoint_id'') False db) (\<lambda>c.
      let fresh = (ck_forgotten_at c = None);
          revoked = (if fresh then dependent_users (ck_id c) db else []);
          db1 = (if fresh then erase_checkpoint clk (ck_id c) db else db)
      in and_then (event later project (p_user_id p) ''checkpoint_forget'' (ck_id c)
             [(''reason'', py_get a ''reason''), (''revoked_user_ids'', strs revoked)] db1) (\<lambda>db2.
           Inr (db2, [(''checkpoint_id'', PStr (ck_id c)), (''forgotten'', PBool True)]))))"

definition forget_checkpoint ::
    "platform \<Rightarrow> clock \<Rightarrow> time \<Rightarrow> principal \<Rightarrow> dict \<Rightarrow> cdb \<Rightarrow> (cdb \<times> dict) outcome" where
  "forget_checkpoint P clk later p a db = receipted P a p ''checkpoint_forget'' (forget_body clk later p a) db"

end
