(* ===== verification/Continuity_Delivery.thy ===== *)
theory Continuity_Delivery
  imports Continuity_Checkpoints
begin

text \<open>
  Fan-out of a source to several recipients with work units of its own, recipient intake,
  and administrative reassignment (continuity/delivery.py). \<open>ids\<close> supplies the UUIDs of
  the inserted rows in the order of the inserts.
\<close>

type_synonym id_supply = "nat \<Rightarrow> string"

subsection \<open>Shared lookups\<close>

fun validate_unit_keys :: "string list \<Rightarrow> string list \<Rightarrow> dict list \<Rightarrow> unit outcome" where
  "validate_unit_keys recipients keys [] = Inr ()"
| "validate_unit_keys recipients keys (u # us) =
     (if arg_str u ''key'' \<in> set keys \<or> \<not> set (arg_strs u ''assignee_user_ids'') \<subseteq> set recipients
      then Inl (cont_invalid ''Work keys must be unique and assignees must be active recipients'')
      else validate_unit_keys recipients (arg_str u ''key'' # keys) us)"

definition validate_units :: "dict list \<Rightarrow> string list \<Rightarrow> unit outcome" where
  "validate_units units recipients = validate_unit_keys recipients [] units"

definition bundle_row :: "time \<Rightarrow> string \<Rightarrow> string \<Rightarrow> bool \<Rightarrow> cdb \<Rightarrow> cont_bundle outcome" where
  "bundle_row now project i retained db =
     (case fetchrow (\<lambda>b. bn_project_id b = project \<and> bn_id b = i) (cd_bundles db) of
        None \<Rightarrow> Inl out_of_scope
      | Some b \<Rightarrow> checked [(retained \<and> (bn_revoked_at b \<noteq> None \<or> bn_expires_at b \<le> now), out_of_scope)] b)"

definition own_delivery :: "time \<Rightarrow> string \<Rightarrow> string \<Rightarrow> string \<Rightarrow> cdb \<Rightarrow> (delivery \<times> cont_bundle) outcome" where
  "own_delivery now project i actor db =
     (case fetchrow (\<lambda>d. dl_project_id d = project \<and> dl_id d = i \<and> dl_recipient_user_id d = actor
          \<and> dl_revoked_at d = None) (cd_deliveries db) of
        None \<Rightarrow> Inl out_of_scope
      | Some d \<Rightarrow> and_then (bundle_row now project (dl_bundle_id d) True db) (\<lambda>b. Inr (d, b)))"

definition insert_delivery :: "string \<Rightarrow> string \<Rightarrow> nat \<Rightarrow> string \<times> string \<Rightarrow> cdb \<Rightarrow> cdb" where
  "insert_delivery project bundle_id version iu db =
     db\<lparr>cd_deliveries := insert_row \<lparr>dl_id = fst iu, dl_project_id = project, dl_bundle_id = bundle_id,
        dl_recipient_user_id = snd iu, dl_routing_version = version, dl_acknowledged_at = None,
        dl_revoked_at = None\<rparr> (cd_deliveries db)\<rparr>"

definition new_unit :: "string \<Rightarrow> string \<Rightarrow> string \<Rightarrow> dict \<Rightarrow> work_unit" where
  "new_unit i project bundle_id u =
     \<lparr>wu_id = i, wu_project_id = project, wu_bundle_id = bundle_id, wu_unit_key = arg_str u ''key'',
      wu_summary = arg_str u ''summary'', wu_assignee_user_ids = sort (arg_strs u ''assignee_user_ids''),
      wu_state = U_available, wu_claimed_by = None, wu_claim_token_digest = None, wu_lease_expires_at = None,
      wu_claim_generation = 0\<rparr>"

definition insert_unit :: "string \<Rightarrow> string \<Rightarrow> string \<times> dict \<Rightarrow> cdb \<Rightarrow> cdb" where
  "insert_unit project bundle_id iu db =
     db\<lparr>cd_units := insert_row (new_unit (fst iu) project bundle_id (snd iu)) (cd_units db)\<rparr>"

definition supplied :: "id_supply \<Rightarrow> nat \<Rightarrow> 'a list \<Rightarrow> (string \<times> 'a) list" where
  "supplied ids n xs = map (\<lambda>(k, x). (ids k, x)) (enumerate n xs)"

definition insert_deliveries :: "string \<Rightarrow> string \<Rightarrow> nat \<Rightarrow> (string \<times> string) list \<Rightarrow> cdb \<Rightarrow> cdb" where
  "insert_deliveries project bundle_id version us db = fold (insert_delivery project bundle_id version) us db"

definition insert_units :: "string \<Rightarrow> string \<Rightarrow> (string \<times> dict) list \<Rightarrow> cdb \<Rightarrow> cdb" where
  "insert_units project bundle_id us db = fold (insert_unit project bundle_id) us db"

subsection \<open>Publication\<close>

record source =
  so_from_user :: string
  so_classification :: classification
  so_payload_digest :: string
  so_expires_at :: time

definition handoff_source :: "handoff \<Rightarrow> time \<Rightarrow> source" where
  "handoff_source h expires = \<lparr>so_from_user = hc_from_user (h_content h), so_classification = hc_classification (h_content h),
     so_payload_digest = hc_payload_digest (h_content h), so_expires_at = expires\<rparr>"

definition checkpoint_source :: "checkpoint \<Rightarrow> source" where
  "checkpoint_source c = \<lparr>so_from_user = ck_from_user c, so_classification = ck_classification c,
     so_payload_digest = ck_payload_digest c, so_expires_at = ck_expires_at c\<rparr>"

definition publish_source :: "time \<Rightarrow> principal \<Rightarrow> dict \<Rightarrow> cdb \<Rightarrow> source outcome" where
  "publish_source now p a db =
     (let project = arg_str a ''project_id''; i = arg_str a ''source_id'' in
      if py_get a ''source_kind'' = PStr ''checkpoint'' then
        and_then (locate_checkpoint now project i True db) (\<lambda>c.
          checked [(ck_from_user c \<noteq> p_user_id p \<and> \<not> is_admin p, out_of_scope)] (checkpoint_source c))
      else if \<not> is_admin p then Inl not_admin
      else case fetchrow (\<lambda>h. h_project_id h = project \<and> uuid_str (h_id h) = i) (cd_handoffs db) of
          None \<Rightarrow> Inl out_of_scope
        | Some h \<Rightarrow> (case h_expires_at h of
              None \<Rightarrow> Inl out_of_scope
            | Some e \<Rightarrow> checked
                [(e \<le> now, out_of_scope),
                 (\<not> promotable now h, cont_conflict ''Only pending or expired recoverable legacy leases can be promoted'')]
                (handoff_source h e)))"

definition has_bundle :: "string \<Rightarrow> string \<Rightarrow> cdb \<Rightarrow> bool" where
  "has_bundle project i db =
     exists_row (\<lambda>b. bn_project_id b = project \<and> (bn_source_checkpoint_id b = Some i \<or> bn_source_handoff_id b = Some i))
       (cd_bundles db)"

definition default_units :: "string list \<Rightarrow> dict list" where
  "default_units recipients =
     [[(''key'', PStr ''continue''), (''summary'', PStr ''Continue the pinned source after local preflight''),
       (''assignee_user_ids'', strs recipients)]]"

definition arg_units :: "dict \<Rightarrow> dict list" where
  "arg_units a = map dict_of (list_of (py_get a ''work_units''))"

definition opt_recipients :: "dict \<Rightarrow> string list \<Rightarrow> string list" where
  "opt_recipients a defaults = (if has_key a ''recipient_user_ids'' then arg_strs a ''recipient_user_ids'' else defaults)"

definition opt_units :: "dict \<Rightarrow> string list \<Rightarrow> dict list" where
  "opt_units a recipients = (if has_key a ''work_units'' then arg_units a else default_units recipients)"

definition published_bundle :: "time \<Rightarrow> string \<Rightarrow> principal \<Rightarrow> dict \<Rightarrow> source \<Rightarrow> policy_row \<Rightarrow> cont_bundle" where
  "published_bundle now i p a s configured =
     (let checkpoint = (py_get a ''source_kind'' = PStr ''checkpoint'') in
      \<lparr>bn_id = i, bn_project_id = arg_str a ''project_id'',
       bn_source_checkpoint_id = (if checkpoint then Some (arg_str a ''source_id'') else None),
       bn_source_handoff_id = (if checkpoint then None else Some (arg_str a ''source_id'')),
       bn_from_user = so_from_user s, bn_classification = so_classification s, bn_source_digest = so_payload_digest s,
       bn_version = 1, bn_policy_version = pr_version configured,
       bn_expires_at = min (so_expires_at s) (now + hours (arg_int (pr_policy configured) ''retention_hours'')),
       bn_created_by = p_user_id p, bn_revoked_at = None\<rparr>)"

definition publish_rows :: "id_supply \<Rightarrow> dict \<Rightarrow> cont_bundle \<Rightarrow> string list \<Rightarrow> dict list \<Rightarrow> cdb \<Rightarrow> cdb" where
  "publish_rows ids a b recipients units db =
     (let project = arg_str a ''project_id'';
          db1 = db\<lparr>cd_bundles := insert_row b (cd_bundles db)\<rparr>;
          db2 = (if py_get a ''source_kind'' = PStr ''checkpoint'' then db1
                 else db1\<lparr>cd_handoffs := update_where (\<lambda>h. uuid_str (h_id h) = arg_str a ''source_id'') promoted (cd_handoffs db1)\<rparr>);
          db3 = insert_deliveries project (bn_id b) 1 (supplied ids 1 (sort recipients)) db2
      in insert_units project (bn_id b) (supplied ids (1 + length recipients) units) db3)"

definition publish_body :: "clock \<Rightarrow> id_supply \<Rightarrow> principal \<Rightarrow> dict \<Rightarrow> cdb \<Rightarrow> (cdb \<times> dict) outcome" where
  "publish_body clk ids p a db =
     (let project = arg_str a ''project_id'' in
      and_then (policy project True db) (\<lambda>configured.
      and_then (checked [(int (pr_version configured) \<noteq> arg_int a ''expected_policy_version'', version_conflict)] ()) (\<lambda>_.
      and_then (publish_source (clk 0) p a db) (\<lambda>s.
      let defaults = fst (resolve (pr_policy configured) (so_from_user s));
          recipients = opt_recipients a defaults;
          units = opt_units a recipients
      in and_then (checked
           [(has_bundle project (arg_str a ''source_id'') db,
               cont_conflict ''This source already has a continuity bundle; use explicit reassignment''),
            (\<not> is_admin p \<and> \<not> set recipients \<subseteq> set defaults,
               cont_fail (''Publisher recipients must be allowed by the admin'' @ [CHR 0x27] @ ''s sender policy'')
                 ''MEM-CONTINUITY-0004'' 403)] ()) (\<lambda>_.
         and_then (eligible project recipients (Some (so_from_user s)) db) (\<lambda>_.
         and_then (validate_units units recipients) (\<lambda>_.
         let b = published_bundle (clk 1) (ids 0) p a s configured
         in and_then (event (clk 2) project (p_user_id p) ''publish'' (bn_id b)
              [(''source_kind'', py_get a ''source_kind''), (''source_id'', py_get a ''source_id''),
               (''source_digest'', PStr (so_payload_digest s)), (''recipient_user_ids'', strs (sort recipients)),
               (''work_units'', PList (map PDict units)), (''policy_version'', PInt (int (pr_version configured))),
               (''version'', PInt 1), (''reason'', py_get a ''reason'')]
              (publish_rows ids a b recipients units db)) (\<lambda>db1.
            Inr (db1, [(''bundle_id'', PStr (bn_id b)), (''version'', PInt 1), (''continuity_version'', PInt 1),
               (''recipient_user_ids'', strs (sort recipients)), (''expires_at'', PTime (bn_expires_at b))])))))))))"

definition publish :: "platform \<Rightarrow> clock \<Rightarrow> id_supply \<Rightarrow> principal \<Rightarrow> dict \<Rightarrow> cdb \<Rightarrow> (cdb \<times> dict) outcome" where
  "publish P clk ids p a db = receipted P a p ''publish'' (publish_body clk ids p a) db"

subsection \<open>Reading and intake\<close>

definition legacy_payload :: "handoff \<Rightarrow> dict" where
  \<comment> \<open>\<open>handoff_payload\<close>\<close>
  "legacy_payload h =
     (let c = h_content h in
      [(''project_id'', PStr (hc_project_id c)), (''unit_id'', PStr (hc_unit_id c)),
       (''phase_attempt_id'', PStr (hc_phase_attempt_id c)), (''phase_id'', PStr (hc_phase_id c)),
       (''from_user'', PStr (hc_from_user c)), (''result_status'', PStr (hc_result_status c)),
       (''classification'', PStr (class_str (hc_classification c))), (''task_summary'', opt_str (hc_task_summary c)),
       (''passed_checks'', hc_passed_checks c), (''artifacts_produced'', hc_artifacts_produced c),
       (''handoff_note'', opt_str (hc_handoff_note c)), (''task_envelope'', hc_task_envelope c),
       (''result_envelope'', hc_result_envelope c), (''context_digest'', PStr (hc_context_digest c)),
       (''raw_output'', opt_str (hc_raw_output c)), (''lock_snapshot_digest'', PStr (hc_lock_snapshot_digest c)),
       (''envelope_digest'', PStr (hc_envelope_digest c))]
      @ (case hc_compatibility_digest c of None \<Rightarrow> [] | Some d \<Rightarrow> if d = [] then [] else [(''compatibility_digest'', PStr d)])
      @ (if hc_handoff_version c = 2
         then [(''handoff_version'', PInt 2), (''recipient_user_id'', opt_str (hc_recipient_user_id c)),
           (''continuation'', opt_val (hc_continuation c)), (''continuation_digest'', opt_str (hc_continuation_digest c))]
         else []))"

definition delivered_source :: "time \<Rightarrow> string \<Rightarrow> cont_bundle \<Rightarrow> cdb \<Rightarrow> dict outcome" where
  \<comment> \<open>the source part of the answer of \<open>read\<close>\<close>
  "delivered_source now project b db =
     (case bn_source_checkpoint_id b of
        Some i \<Rightarrow> and_then (locate_checkpoint now project i True db) (\<lambda>c.
          Inr [(''source_kind'', PStr ''checkpoint''), (''source_id'', PStr (ck_id c)), (''source'', PDict (checkpoint_payload c)),
            (''snapshot'', ck_snapshot c), (''source_created_at'', PTime (ck_created_at c))])
      | None \<Rightarrow> (case fetchrow (\<lambda>h. h_project_id h = project \<and> Some (uuid_str (h_id h)) = bn_source_handoff_id b) (cd_handoffs db) of
            None \<Rightarrow> Inl out_of_scope
          | Some h \<Rightarrow> (case h_expires_at h of
                None \<Rightarrow> Inl (unhandled ''TypeError'')
              | Some e \<Rightarrow> checked [(e \<le> now, out_of_scope)]
                  [(''source_kind'', PStr ''handoff''), (''source_id'', PStr (uuid_str (h_id h))),
                   (''source'', PDict (legacy_payload h)), (''snapshot'', PNone), (''source_created_at'', PTime (h_created_at h))])))"

definition read_delivery :: "clock \<Rightarrow> principal \<Rightarrow> dict \<Rightarrow> cdb \<Rightarrow> dict outcome" where
  "read_delivery clk p a db =
     (let project = arg_str a ''project_id'' in
      and_then (own_delivery (clk 0) project (arg_str a ''delivery_id'') (p_user_id p) db) (\<lambda>(d, b).
      and_then (checked [(over_ceiling (bn_classification b) a, out_of_scope)] ()) (\<lambda>_.
      and_then (delivered_source (clk 1) project b db) (\<lambda>s.
        Inr ([(''continuity_version'', PInt 1), (''bundle_id'', PStr (bn_id b)), (''routing_version'', PInt (int (bn_version b))),
          (''delivery_id'', PStr (dl_id d)), (''recipient_user_id'', PStr (p_user_id p)),
          (''source_digest'', PStr (bn_source_digest b)), (''expires_at'', PTime (bn_expires_at b)),
          (''cache_policy'', PStr ''no_store''),
          (''preflight'', PDict [(''status'', PStr ''verification_required''), (''automatic_resume'', PBool False)])] @ s)))))"

definition ack_body :: "clock \<Rightarrow> principal \<Rightarrow> dict \<Rightarrow> cdb \<Rightarrow> (cdb \<times> dict) outcome" where
  "ack_body clk p a db =
     (let project = arg_str a ''project_id'' in
      and_then (own_delivery (clk 0) project (arg_str a ''delivery_id'') (p_user_id p) db) (\<lambda>(d, b).
      and_then (if dl_acknowledged_at d = None
          then event (clk 2) project (p_user_id p) ''ack'' (bn_id b) [(''delivery_id'', PStr (dl_id d))]
            (db\<lparr>cd_deliveries := update_where (\<lambda>x. dl_id x = dl_id d) (\<lambda>x. x\<lparr>dl_acknowledged_at := Some (clk 1)\<rparr>)
               (cd_deliveries db)\<rparr>)
          else Inr db) (\<lambda>db1.
        Inr (db1, [(''delivery_id'', PStr (dl_id d)), (''acknowledged'', PBool True), (''work_completed'', PBool False)]))))"

definition ack_delivery :: "platform \<Rightarrow> clock \<Rightarrow> principal \<Rightarrow> dict \<Rightarrow> cdb \<Rightarrow> (cdb \<times> dict) outcome" where
  "ack_delivery P clk p a db = receipted P a p ''ack'' (ack_body clk p a) db"

subsection \<open>Reassignment\<close>

definition bundle_units :: "string \<Rightarrow> work_unit list \<Rightarrow> work_unit list" where
  \<comment> \<open>ORDER BY unit_key\<close>
  "bundle_units b t = sort_key wu_unit_key (filter (\<lambda>u. wu_bundle_id u = b) t)"

definition generations :: "work_unit list \<Rightarrow> dict" where
  "generations us = map (\<lambda>u. (wu_unit_key u, PInt (int (wu_claim_generation u)))) us"

definition selected :: "dict list \<Rightarrow> string \<Rightarrow> dict option" where
  "selected units k = fetchrow (\<lambda>u. arg_str u ''key'' = k) units"

definition reassigned :: "dict option \<Rightarrow> work_unit \<Rightarrow> work_unit" where
  "reassigned updated u =
     u\<lparr>wu_state := (if updated = None then U_cancelled else U_available),
       wu_summary := (case updated of None \<Rightarrow> wu_summary u | Some x \<Rightarrow> arg_str x ''summary''),
       wu_assignee_user_ids := (case updated of None \<Rightarrow> wu_assignee_user_ids u
          | Some x \<Rightarrow> sort (arg_strs x ''assignee_user_ids'')),
       wu_claimed_by := None, wu_claim_token_digest := None, wu_lease_expires_at := None,
       wu_claim_generation := wu_claim_generation u + 1\<rparr>"

definition differs :: "dict option \<Rightarrow> work_unit \<Rightarrow> bool" where
  "differs updated u \<longleftrightarrow>
     (case updated of None \<Rightarrow> True
      | Some x \<Rightarrow> wu_summary u \<noteq> arg_str x ''summary''
          \<or> set (wu_assignee_user_ids u) \<noteq> set (arg_strs x ''assignee_user_ids''))"

definition reassign_row :: "time \<Rightarrow> string list \<Rightarrow> dict option \<Rightarrow> work_unit \<Rightarrow> bool outcome" where
  \<comment> \<open>whether the row is updated\<close>
  "reassign_row now takeover updated u =
     (let force = (wu_unit_key u \<in> set takeover \<and> wu_state u = U_claimed)
      in if \<not> differs updated u \<and> \<not> force then Inr False
         else if wu_state u \<in> {U_completed, U_cancelled}
         then checked [(updated \<noteq> None, cont_conflict ''Terminal work cannot be reassigned or reopened'')] False
         else checked [(wu_state u = U_claimed \<and> after (wu_lease_expires_at u) now \<and> \<not> force,
                 cont_conflict ''Active work must expire or be explicitly emergency-reassigned'')] True)"

fun reassign_rows :: "time \<Rightarrow> string list \<Rightarrow> dict list \<Rightarrow> work_unit list \<Rightarrow> cdb \<Rightarrow> cdb outcome" where
  "reassign_rows now takeover units [] db = Inr db"
| "reassign_rows now takeover units (u # us) db =
     and_then (reassign_row now takeover (selected units (wu_unit_key u)) u) (\<lambda>update.
       reassign_rows now takeover units us
         (if update then db\<lparr>cd_units := update_where (\<lambda>x. wu_id x = wu_id u)
            (reassigned (selected units (wu_unit_key u))) (cd_units db)\<rparr> else db))"

definition live_deliveries :: "string \<Rightarrow> cdb \<Rightarrow> delivery list" where
  "live_deliveries b db = filter (\<lambda>d. dl_bundle_id d = b \<and> dl_revoked_at d = None) (cd_deliveries db)"

definition reroute :: "clock \<Rightarrow> id_supply \<Rightarrow> string \<Rightarrow> cont_bundle \<Rightarrow> string list \<Rightarrow> cdb \<Rightarrow> cdb" where
  \<comment> \<open>revoke the deliveries of removed users, one statement each, then deliver to the added ones\<close>
  "reroute clk ids project b recipients db =
     (let old = live_deliveries (bn_id b) db;
          gone = filter (\<lambda>d. dl_recipient_user_id d \<notin> set recipients) old;
          added = filter (\<lambda>u. u \<notin> set (map dl_recipient_user_id old)) (sort (remdups recipients));
          db1 = fold (\<lambda>g db. db\<lparr>cd_deliveries := update_where (\<lambda>x. dl_id x = dl_id (snd g))
             (\<lambda>x. x\<lparr>dl_revoked_at := Some (clk (fst g))\<rparr>) (cd_deliveries db)\<rparr>) (enumerate 0 gone) db
      in insert_deliveries project (bn_id b) (bn_version b + 1) (supplied ids 0 added) db1)"

definition takeover_checks :: "policy_row \<Rightarrow> dict \<Rightarrow> work_unit list \<Rightarrow> (bool \<times> mem_error) list" where
  "takeover_checks configured a existing =
     (let emergency = truthy (get_or a ''emergency_takeover'' (PBool False));
          takeover = arg_strs a ''takeover_unit_keys''
      in [(emergency \<and> \<not> (truthy (py_get (pr_policy configured) ''allow_emergency_takeover'')
               \<and> py_get a ''confirm_running_work_may_continue'' = PBool True),
            cont_conflict ''Emergency takeover requires enabled policy and explicit running-process confirmation''),
          (emergency \<and> takeover = [] \<or> takeover \<noteq> [] \<and> \<not> emergency
             \<or> \<not> set takeover \<subseteq> set (map wu_unit_key existing),
            cont_invalid ''Emergency takeover must name existing affected work units explicitly'')])"

definition reassign_body ::
    "clock \<Rightarrow> clock \<Rightarrow> id_supply \<Rightarrow> id_supply \<Rightarrow> principal \<Rightarrow> dict \<Rightarrow> cdb \<Rightarrow> (cdb \<times> dict) outcome" where
  \<comment> \<open>\<open>later\<close> is the clock of the statements after the unit updates\<close>
  "reassign_body clk later unit_ids delivery_ids p a db =
     (let project = arg_str a ''project_id''; recipients = arg_strs a ''recipient_user_ids''; units = arg_units a;
          takeover = arg_strs a ''takeover_unit_keys'' in
      and_then (policy project True db) (\<lambda>configured.
      and_then (bundle_row (clk 0) project (arg_str a ''bundle_id'') True db) (\<lambda>b.
      and_then (checked [(int (bn_version b) \<noteq> arg_int a ''expected_version'', version_conflict)] ()) (\<lambda>_.
      and_then (validate_units units recipients) (\<lambda>_.
      and_then (eligible project recipients (Some (bn_from_user b)) db) (\<lambda>_.
      let existing = bundle_units (bn_id b) (cd_units db);
          old_users = map dl_recipient_user_id (live_deliveries (bn_id b) db)
      in and_then (checked
           ((\<not> py_eq (py_get a ''expected_generations'') (PDict (generations existing)),
               cont_conflict ''Expected generations must match every existing work unit'')
            # takeover_checks configured a existing) ()) (\<lambda>_.
         and_then (reassign_rows (clk 1) takeover units existing db) (\<lambda>db1.
         let added = filter (\<lambda>u. arg_str u ''key'' \<notin> set (map wu_unit_key existing)) units in
         and_then (checked [(32 < length existing + length added,
             cont_invalid ''A bundle may contain at most 32 lifetime work units, including terminal history'')] ()) (\<lambda>_.
         let db2 = insert_units project (bn_id b) (supplied unit_ids 0 added) db1;
             db3 = reroute later delivery_ids project b recipients db2;
             db4 = db3\<lparr>cd_bundles := update_where (\<lambda>x. bn_id x = bn_id b)
               (\<lambda>x. x\<lparr>bn_version := bn_version x + 1, bn_policy_version := pr_version configured\<rparr>) (cd_bundles db3)\<rparr>
         in and_then (event (clk 2) project (p_user_id p) ''reassign'' (bn_id b)
              [(''old_recipient_user_ids'', strs (sort (remdups old_users))), (''recipient_user_ids'', strs (sort recipients)),
               (''work_units'', py_get a ''work_units''), (''expected_generations'', PDict (generations existing)),
               (''version'', PInt (int (bn_version b + 1))), (''policy_version'', PInt (int (pr_version configured))),
               (''emergency_takeover'', get_or a ''emergency_takeover'' (PBool False)),
               (''takeover_unit_keys'', strs (sort (remdups takeover))), (''reason'', py_get a ''reason'')] db4) (\<lambda>db5.
            Inr (db5, [(''bundle_id'', PStr (bn_id b)), (''version'', PInt (int (bn_version b + 1))),
              (''running_processes_stopped'', PBool False), (''recipient_user_ids'', strs (sort recipients))])))))))))))"

definition reassign ::
    "platform \<Rightarrow> clock \<Rightarrow> clock \<Rightarrow> id_supply \<Rightarrow> id_supply \<Rightarrow> principal \<Rightarrow> dict \<Rightarrow> cdb \<Rightarrow> (cdb \<times> dict) outcome" where
  "reassign P clk later unit_ids delivery_ids p a db =
     receipted P a p ''reassign'' (reassign_body clk later unit_ids delivery_ids p a) db"

end
