(* ===== verification/Continuity_Work.thy ===== *)
theory Continuity_Work
  imports Continuity_Delivery
begin

text \<open>
  Execution ownership of work units (continuity/work.py): claiming under a token, renewal
  of the lease, release and completion.
\<close>

definition locate_unit :: "time \<Rightarrow> principal \<Rightarrow> dict \<Rightarrow> cdb \<Rightarrow> (work_unit \<times> cont_bundle) outcome" where
  "locate_unit now p a db =
     (case fetchrow (\<lambda>u. wu_project_id u = arg_str a ''project_id'' \<and> wu_id u = arg_str a ''unit_id'') (cd_units db) of
        None \<Rightarrow> Inl out_of_scope
      | Some u \<Rightarrow>
          if p_user_id p \<notin> set (wu_assignee_user_ids u) then Inl out_of_scope
          else and_then (bundle_row now (arg_str a ''project_id'') (wu_bundle_id u) True db) (\<lambda>b.
            checked [(\<not> exists_row (\<lambda>d. dl_bundle_id d = wu_bundle_id u \<and> dl_recipient_user_id d = p_user_id p
                \<and> dl_revoked_at d = None) (cd_deliveries db), out_of_scope)] (u, b)))"

definition opt_time :: "time option \<Rightarrow> pyval" where
  "opt_time t = (case t of None \<Rightarrow> PNone | Some x \<Rightarrow> PTime x)"

definition unit_result :: "work_unit \<Rightarrow> cont_bundle \<Rightarrow> dict" where
  "unit_result u b =
     [(''unit_id'', PStr (wu_id u)), (''bundle_id'', PStr (wu_bundle_id u)), (''unit_key'', PStr (wu_unit_key u)),
      (''claimed_by'', opt_str (wu_claimed_by u)), (''claim_generation'', PInt (int (wu_claim_generation u))),
      (''lease_expires_at'', opt_time (wu_lease_expires_at u)), (''expires_at'', PTime (bn_expires_at b)),
      (''routing_version'', PInt (int (bn_version b))), (''automatic_resume'', PBool False)]"

definition arg_token :: "platform \<Rightarrow> dict \<Rightarrow> string" where
  "arg_token P a = token_digest P (arg_str a ''claim_token'')"

definition inactive :: "platform \<Rightarrow> work_unit \<Rightarrow> dict \<Rightarrow> string \<Rightarrow> time \<Rightarrow> bool" where
  \<comment> \<open>the condition under which \<open>active\<close> raises\<close>
  "inactive P u a actor now \<longleftrightarrow> wu_state u \<noteq> U_claimed \<or> wu_claimed_by u \<noteq> Some actor
     \<or> wu_claim_token_digest u \<noteq> Some (arg_token P a)
     \<or> int (wu_claim_generation u) \<noteq> arg_int a ''claim_generation'' \<or> \<not> after (wu_lease_expires_at u) now"

definition no_active_lease :: mem_error where
  "no_active_lease = cont_conflict ''No active work lease matches this actor, token and generation''"

subsection \<open>Claiming\<close>

definition claimed_unit :: "string \<Rightarrow> string \<Rightarrow> time \<Rightarrow> work_unit \<Rightarrow> work_unit" where
  "claimed_unit actor token until u =
     u\<lparr>wu_state := U_claimed, wu_claimed_by := Some actor, wu_claim_token_digest := Some token,
       wu_claim_generation := wu_claim_generation u + 1, wu_lease_expires_at := Some until\<rparr>"

definition token_used :: "string \<Rightarrow> string \<Rightarrow> string \<Rightarrow> cdb \<Rightarrow> bool" where
  "token_used unit actor token db =
     exists_row (\<lambda>c. wc_unit_id c = unit \<and> wc_actor_id c = actor \<and> wc_claim_token_digest c = token) (cd_claims db)"

definition unit_held :: "work_unit \<Rightarrow> time \<Rightarrow> bool" where
  "unit_held u now \<longleftrightarrow> wu_state u = U_claimed \<and> after (wu_lease_expires_at u) now"

definition claim_checks :: "platform \<Rightarrow> principal \<Rightarrow> dict \<Rightarrow> work_unit \<Rightarrow> cdb \<Rightarrow> (bool \<times> mem_error) list" where
  \<comment> \<open>the refusals for a unit nobody holds\<close>
  "claim_checks P p a u db =
     [(has_key a ''expected_generation'' \<and> int (wu_claim_generation u) \<noteq> arg_int a ''expected_generation'',
         cont_conflict ''Work ownership generation changed since selection''),
      (wu_state u \<notin> {U_available, U_claimed}, cont_conflict ''Terminal work cannot be claimed''),
      (token_used (wu_id u) (p_user_id p) (arg_token P a) db,
         cont_conflict ''A previously used claim token cannot start a new generation'')]"

definition claim_unit :: "platform \<Rightarrow> clock \<Rightarrow> principal \<Rightarrow> dict \<Rightarrow> cdb \<Rightarrow> (cdb \<times> dict) outcome" where
  "claim_unit P clk p a db =
     (let project = arg_str a ''project_id''; now = clk 1; token = arg_token P a in
      and_then (policy project True db) (\<lambda>configured.
      and_then (locate_unit (clk 0) p a db) (\<lambda>(u, b).
      and_then (checked [(has_key a ''expected_routing_version'' \<and> int (bn_version b) \<noteq> arg_int a ''expected_routing_version'',
          cont_conflict ''Work routing changed since selection'')] ()) (\<lambda>_.
      if unit_held u now then
        checked
          [(\<not> (wu_claimed_by u = Some (p_user_id p) \<and> wu_claim_token_digest u = Some token),
              cont_conflict ''Work unit already has an active owner''),
           (has_key a ''expected_generation'' \<and> arg_int a ''expected_generation'' \<noteq> int (wu_claim_generation u) - 1,
              cont_conflict ''Claim receipt belongs to another selected generation'')]
          (db, unit_result u b @ [(''replayed'', PBool True)])
      else
        and_then (checked (claim_checks P p a u db) ()) (\<lambda>_.
        let until = min (bn_expires_at b) (now + seconds (arg_int (pr_policy configured) ''lease_seconds''));
            u1 = claimed_unit (p_user_id p) token until u;
            db1 = db\<lparr>cd_units := update_where (\<lambda>x. wu_id x = wu_id u) (claimed_unit (p_user_id p) token until) (cd_units db),
              cd_claims := insert_row \<lparr>wc_unit_id = wu_id u, wc_project_id = project, wc_actor_id = p_user_id p,
                wc_claim_token_digest = token, wc_claim_generation = wu_claim_generation u1\<rparr> (cd_claims db)\<rparr>
        in and_then (event (clk 2) project (p_user_id p) ''claim'' (bn_id b)
             [(''unit_id'', PStr (wu_id u)), (''claim_generation'', PInt (int (wu_claim_generation u1)))] db1) (\<lambda>db2.
           Inr (db2, unit_result u1 b @ [(''replayed'', PBool False)])))))))"

subsection \<open>Renewal, release and completion\<close>

text \<open>
  The argument is upper-cased and parsed; a naive time is read as UTC, the zone the
  service runs in. \<open>None\<close> is the ValueError of a text that does not parse.
\<close>

definition parse_deadline :: "platform \<Rightarrow> string \<Rightarrow> time option" where
  "parse_deadline P s =
     (case fromisoformat P (concat (map (\<lambda>c. if c = CHR ''Z'' then ''+00:00'' else [c])
          (map (\<lambda>c. if 97 \<le> code c \<and> code c \<le> 122 then char_of (code c - 32) else c) s))) of
        None \<Rightarrow> None | Some (Aware t) \<Rightarrow> Some t | Some (Naive t) \<Rightarrow> Some t)"

definition renew_unit :: "platform \<Rightarrow> clock \<Rightarrow> principal \<Rightarrow> dict \<Rightarrow> cdb \<Rightarrow> (cdb \<times> dict) outcome" where
  "renew_unit P clk p a db =
     (let project = arg_str a ''project_id''; now = clk 1 in
      and_then (policy project False db) (\<lambda>configured.
      and_then (locate_unit (clk 0) p a db) (\<lambda>(u, b).
      and_then (checked [(inactive P u a (p_user_id p) now, no_active_lease)] ()) (\<lambda>_.
      case parse_deadline P (arg_str a ''lease_expires_at'') of None \<Rightarrow> Inl (unhandled ''ValueError'')
      | Some deadline \<Rightarrow> (case wu_lease_expires_at u of None \<Rightarrow> Inl (unhandled ''TypeError'')
        | Some lease \<Rightarrow>
          and_then (checked [(lease < deadline
              \<and> now + seconds (arg_int (pr_policy configured) ''lease_seconds'') < deadline,
              cont_conflict ''Requested work lease exceeds the current project maximum'')] ()) (\<lambda>_.
          let effective = max lease (min deadline (bn_expires_at b));
              u1 = u\<lparr>wu_lease_expires_at := Some effective\<rparr>
          in Inr (db\<lparr>cd_units := update_where (\<lambda>x. wu_id x = wu_id u)
                (\<lambda>x. x\<lparr>wu_lease_expires_at := Some effective\<rparr>) (cd_units db)\<rparr>,
             unit_result u1 b @ [(''extended'', PBool (lease < effective))])))))))"

definition released_unit :: "unit_state \<Rightarrow> work_unit \<Rightarrow> work_unit" where
  "released_unit s u = u\<lparr>wu_state := s, wu_claim_token_digest := None, wu_lease_expires_at := None, wu_claimed_by := None\<rparr>"

definition release_state :: "dict \<Rightarrow> unit_state" where
  "release_state a = (if py_get a ''action'' = PStr ''complete'' then U_completed else U_available)"

definition state_str :: "unit_state \<Rightarrow> string" where
  "state_str s = (case s of U_available \<Rightarrow> ''available'' | U_claimed \<Rightarrow> ''claimed'' | U_completed \<Rightarrow> ''completed''
     | U_cancelled \<Rightarrow> ''cancelled'')"

definition release_body :: "platform \<Rightarrow> clock \<Rightarrow> principal \<Rightarrow> dict \<Rightarrow> cdb \<Rightarrow> (cdb \<times> dict) outcome" where
  "release_body P clk p a db =
     (let project = arg_str a ''project_id'' in
      and_then (locate_unit (clk 0) p a db) (\<lambda>(u, b).
      and_then (checked [(inactive P u a (p_user_id p) (clk 1), no_active_lease)] ()) (\<lambda>_.
      and_then (event (clk 2) project (p_user_id p) (''work_'' @ arg_str a ''action'') (bn_id b)
          [(''unit_id'', PStr (wu_id u)), (''claim_generation'', PInt (int (wu_claim_generation u))),
           (''reason'', py_get a ''reason'')]
          (db\<lparr>cd_units := update_where (\<lambda>x. wu_id x = wu_id u) (released_unit (release_state a)) (cd_units db)\<rparr>)) (\<lambda>db1.
        Inr (db1, [(''unit_id'', PStr (wu_id u)), (''state'', PStr (state_str (release_state a))),
          (''claim_generation'', PInt (int (wu_claim_generation u))), (''execution_verified'', PBool False)])))))"

definition release_unit :: "platform \<Rightarrow> clock \<Rightarrow> principal \<Rightarrow> dict \<Rightarrow> cdb \<Rightarrow> (cdb \<times> dict) outcome" where
  "release_unit P clk p a db = receipted P a p ''work_release'' (release_body P clk p a) db"

end
