(* ===== verification/Continuity_Steps.thy ===== *)
theory Continuity_Steps
  imports Continuity_Work
begin

text \<open>
  The transactions of the continuity service as one step relation, and what each of them
  does to the tables of checkpoints, bundles, deliveries, work units and claims. The
  effect lemmas of this theory carry the invariants of \<open>Continuity_Props\<close>.
\<close>

subsection \<open>The tables behind the work\<close>

definition core :: "cdb \<Rightarrow> checkpoint list \<times> cont_bundle list \<times> delivery list \<times> work_unit list \<times> work_claim list" where
  "core db = (cd_checkpoints db, cd_bundles db, cd_deliveries db, cd_units db, cd_claims db)"

lemma core_fields:
  assumes "core db' = core db"
  shows "cd_checkpoints db' = cd_checkpoints db" "cd_bundles db' = cd_bundles db" "cd_deliveries db' = cd_deliveries db"
    "cd_units db' = cd_units db" "cd_claims db' = cd_claims db"
  using assms by (simp_all add: core_def)

lemma event_core: "event now project actor action target details db = Inr db' \<Longrightarrow> core db' = core db"
  by (drule event_good) (simp add: log_good_def core_def log_frame_fields)

lemma event_receipts: "event now project actor action target details db = Inr db' \<Longrightarrow> cd_receipts db' = cd_receipts db"
  using event_good log_frame_fields(4) unfolding log_good_def by blast

lemma put_receipt_core [simp]: "core (put_receipt db k v) = core db"
  by (simp add: core_def put_receipt_def)

lemma purge_core: "purge project now db = (db', k) \<Longrightarrow> core db' = core db"
  by (drule purge_frame) (simp add: core_def log_frame_fields)

text \<open>A receipted operation changes the core tables only by a fresh run of its body.\<close>

lemma receipted_core:
  assumes "receipted P a p op body db = Inr (db', res)"
  obtains "core db' = core db" | db1 r where "body db = Inr (db1, r)" "core db' = core db1"
  using assms by (cases rule: receiptedE) auto

subsection \<open>Steps\<close>

definition fresh_ids :: "id_supply \<Rightarrow> ('r \<Rightarrow> string) \<Rightarrow> 'r list \<Rightarrow> bool" where
  "fresh_ids ids k t \<longleftrightarrow> inj ids \<and> (\<forall>n. \<forall>r \<in> set t. k r \<noteq> ids n)"

text \<open>
  The label is the clock from the sample on which the operation decides about leases. The
  UUIDs a transaction inserts are fresh. The transactions of the other components
  (presence, usage, handoffs, tokens) and reads leave the core tables alone.
\<close>

inductive cont_step :: "clock \<Rightarrow> cdb \<Rightarrow> cdb \<Rightarrow> bool" where
  cs_policy: "set_policy P clk p a db = Inr (db', res) \<Longrightarrow> cont_step clk db db'"
| cs_save: "save_checkpoint P clk i p a db = Inr (db', res) \<Longrightarrow> i \<notin> set (map ck_id (cd_checkpoints db))
    \<Longrightarrow> cont_step clk db db'"
| cs_forget: "forget_checkpoint P clk later p a db = Inr (db', res) \<Longrightarrow> cont_step clk db db'"
| cs_publish: "publish P clk ids p a db = Inr (db', res) \<Longrightarrow> fresh_ids ids bn_id (cd_bundles db)
    \<Longrightarrow> fresh_ids ids dl_id (cd_deliveries db) \<Longrightarrow> fresh_ids ids wu_id (cd_units db) \<Longrightarrow> cont_step clk db db'"
| cs_ack: "ack_delivery P clk p a db = Inr (db', res) \<Longrightarrow> cont_step clk db db'"
| cs_reassign: "reassign P clk later unit_ids delivery_ids p a db = Inr (db', res)
    \<Longrightarrow> fresh_ids unit_ids wu_id (cd_units db) \<Longrightarrow> fresh_ids delivery_ids dl_id (cd_deliveries db)
    \<Longrightarrow> cont_step (\<lambda>n. clk (Suc n)) db db'"
| cs_claim: "claim_unit P clk p a db = Inr (db', res) \<Longrightarrow> cont_step (\<lambda>n. clk (Suc n)) db db'"
| cs_renew: "renew_unit P clk p a db = Inr (db', res) \<Longrightarrow> cont_step (\<lambda>n. clk (Suc n)) db db'"
| cs_release: "release_unit P clk p a db = Inr (db', res) \<Longrightarrow> cont_step (\<lambda>n. clk (Suc n)) db db'"
| cs_prune: "prune_events P clk p a db = Inr (db', res) \<Longrightarrow> cont_step clk db db'"
| cs_other: "core db' = core db \<Longrightarrow> cd_receipts db' = cd_receipts db \<or>
      (\<exists>k v. find_receipt db k = None \<and> cd_receipts db' = cd_receipts (put_receipt db k v)) \<Longrightarrow> cont_step clk db db'"

subsection \<open>What the operations do\<close>

lemma set_policy_core: "set_policy P clk p a db = Inr (db', res) \<Longrightarrow> core db' = core db"
  by (auto simp: set_policy_def set_policy_body_def and_then_Inr_iff Let_def core_def
      elim!: receipted_core dest!: event_core split: if_splits)

lemma prune_core: "prune_events P clk p a db = Inr (db', res) \<Longrightarrow> core db' = core db"
  by (auto simp: prune_events_def and_then_Inr_iff Let_def
      elim!: receipted_core dest!: event_core purge_core split: prod.splits)

lemma save_effect:
  assumes "save_checkpoint P clk i p a db = Inr (db', res)"
  obtains (same) "core db' = core db"
  | (saved) d sd configured where
      "validate_continuation P (py_get a ''continuation'') = Inr d"
      "policy (arg_str a ''project_id'') True db = Inr configured"
      "validate_snapshot P (map_of a ''snapshot'') (py_get a ''continuation'') (pr_policy configured) = Inr sd"
      "\<And>c. latest_checkpoint (arg_str a ''project_id'') (p_user_id p) (arg_str a ''work_id'') (cd_checkpoints db) = Some c
         \<Longrightarrow> ck_classification c \<le> arg_class a ''classification''"
      "core db' = core (db\<lparr>cd_checkpoints := insert_row (saved_checkpoint P (clk 0) (clk 1) i p a
         (latest_version (arg_str a ''project_id'') (p_user_id p) (arg_str a ''work_id'') (cd_checkpoints db) + 1)
         d sd configured) (cd_checkpoints db)\<rparr>)"
proof -
  obtain d where d: "validate_continuation P (py_get a ''continuation'') = Inr d"
    and r: "receipted P a p ''checkpoint_save'' (save_body P clk i p a d) db = Inr (db', res)"
    using assms by (auto simp: save_checkpoint_def and_then_Inr_iff)
  from r show thesis
  proof (cases rule: receipted_core)
    case 1
    then show ?thesis by (rule same)
  next
    case (2 db1 r)
    from 2(1) obtain configured sd details
      where pol: "policy (arg_str a ''project_id'') True db = Inr configured"
      and snap: "validate_snapshot P (map_of a ''snapshot'') (py_get a ''continuation'') (pr_policy configured) = Inr sd"
      and level: "\<not> (case latest_checkpoint (arg_str a ''project_id'') (p_user_id p) (arg_str a ''work_id'') (cd_checkpoints db) of
           None \<Rightarrow> False | Some c \<Rightarrow> class_index (arg_class a ''classification'') < class_index (ck_classification c))"
      and ev: "event (clk 2) (arg_str a ''project_id'') (p_user_id p) ''checkpoint_save'' i details
         (db\<lparr>cd_checkpoints := insert_row (saved_checkpoint P (clk 0) (clk 1) i p a
           (latest_version (arg_str a ''project_id'') (p_user_id p) (arg_str a ''work_id'') (cd_checkpoints db) + 1)
           d sd configured) (cd_checkpoints db)\<rparr>) = Inr db1"
      by (auto simp: save_body_def and_then_Inr_iff Let_def)
    show ?thesis
      by (rule saved [OF d pol snap])
        (use event_core [OF ev] 2(2) level in \<open>simp_all add: less_eq_classification_def not_less\<close>)
  qed
qed

text \<open>The erasure of a checkpoint, statement by statement, as one change of each table.\<close>

definition revoked_now :: "string set \<Rightarrow> delivery \<Rightarrow> bool" where
  "revoked_now bs d \<longleftrightarrow> dl_bundle_id d \<in> bs \<and> dl_revoked_at d = None"

lemma revoke_bundles_units:
  "cd_units (fold (\<lambda>x. revoke_bundle (clk (fst x)) (snd x)) bs db)
     = map (\<lambda>u. fold (\<lambda>x u. if wu_bundle_id u = snd x then cancelled u else u) bs u) (cd_units db)"
proof (induction bs arbitrary: db)
  case (Cons x bs)
  have "cd_units (revoke_bundle (clk (fst x)) (snd x) db) = map (\<lambda>u. if wu_bundle_id u = snd x then cancelled u else u) (cd_units db)"
    by (simp add: revoke_bundle_def update_where_def)
  then show ?case by (simp add: Cons)
qed simp

lemma cancel_fold:
  "wu_bundle_id u \<notin> snd ` set bs \<Longrightarrow> fold (\<lambda>x u. if wu_bundle_id u = snd x then cancelled u else u) bs u = u"
  by (induction bs) auto

lemma cancel_fold_bundle:
  "wu_bundle_id (fold (\<lambda>x u. if wu_bundle_id u = snd x then cancelled u else u) bs u) = wu_bundle_id u"
  by (induction bs arbitrary: u) (auto simp: cancelled_def)

lemma cancel_fold_once:
  assumes "distinct (map snd bs)" and "wu_bundle_id u \<in> snd ` set bs"
  shows "fold (\<lambda>x u. if wu_bundle_id u = snd x then cancelled u else u) bs u = cancelled u"
  using assms
proof (induction bs)
  case (Cons x bs)
  show ?case
  proof (cases "wu_bundle_id u = snd x")
    case True
    then have "wu_bundle_id (cancelled u) \<notin> snd ` set bs" using Cons.prems(1) by (auto simp: cancelled_def)
    then have "fold (\<lambda>x u. if wu_bundle_id u = snd x then cancelled u else u) bs (cancelled u) = cancelled u"
      by (rule cancel_fold)
    with True show ?thesis by simp
  next
    case False
    then show ?thesis using Cons by auto
  qed
qed simp

lemma revoke_bundles_deliveries:
  "\<exists>f. cd_deliveries (fold (\<lambda>x. revoke_bundle (clk (fst x)) (snd x)) bs db)
      = map (\<lambda>d. if revoked_now (snd ` set bs) d then d\<lparr>dl_revoked_at := Some (f d)\<rparr> else d) (cd_deliveries db)"
proof (induction bs arbitrary: db)
  case Nil
  then show ?case by (simp add: revoked_now_def)
next
  case (Cons x bs)
  let ?u = "\<lambda>d. if dl_bundle_id d = snd x \<and> dl_revoked_at d = None then d\<lparr>dl_revoked_at := Some (clk (fst x))\<rparr> else d"
  have step: "cd_deliveries (revoke_bundle (clk (fst x)) (snd x) db) = map ?u (cd_deliveries db)"
    by (simp add: revoke_bundle_def update_where_def)
  obtain f where f: "cd_deliveries (fold (\<lambda>x. revoke_bundle (clk (fst x)) (snd x)) bs (revoke_bundle (clk (fst x)) (snd x) db))
      = map (\<lambda>d. if revoked_now (snd ` set bs) d then d\<lparr>dl_revoked_at := Some (f d)\<rparr> else d)
          (cd_deliveries (revoke_bundle (clk (fst x)) (snd x) db))"
    using Cons by blast
  let ?f = "\<lambda>d. if dl_bundle_id d = snd x then clk (fst x) else f d"
  have "(if revoked_now (snd ` set bs) (?u d) then (?u d)\<lparr>dl_revoked_at := Some (f (?u d))\<rparr> else ?u d)
      = (if revoked_now (snd ` set (x # bs)) d then d\<lparr>dl_revoked_at := Some (?f d)\<rparr> else d)" for d
    by (auto simp: revoked_now_def)
  then have "cd_deliveries (fold (\<lambda>x. revoke_bundle (clk (fst x)) (snd x)) (x # bs) db)
      = map (\<lambda>d. if revoked_now (snd ` set (x # bs)) d then d\<lparr>dl_revoked_at := Some (?f d)\<rparr> else d) (cd_deliveries db)"
    by (simp add: f step)
  then show ?case by (intro exI [of _ ?f])
qed

lemma revoke_bundles_other:
  "cd_checkpoints (fold (\<lambda>x. revoke_bundle (clk (fst x)) (snd x)) bs db) = cd_checkpoints db"
  "cd_bundles (fold (\<lambda>x. revoke_bundle (clk (fst x)) (snd x)) bs db) = cd_bundles db"
  "cd_claims (fold (\<lambda>x. revoke_bundle (clk (fst x)) (snd x)) bs db) = cd_claims db"
  "cd_receipts (fold (\<lambda>x. revoke_bundle (clk (fst x)) (snd x)) bs db) = cd_receipts db"
  by (induction bs arbitrary: db) (auto simp: revoke_bundle_def)

subsection \<open>Units\<close>

definition unit_of :: "string \<Rightarrow> cdb \<Rightarrow> work_unit option" where
  "unit_of k db = fetchrow (\<lambda>u. wu_id u = k) (cd_units db)"

definition ids_ok :: "cdb \<Rightarrow> bool" where
  "ids_ok db \<longleftrightarrow> distinct (map ck_id (cd_checkpoints db)) \<and> distinct (map bn_id (cd_bundles db))
     \<and> distinct (map dl_id (cd_deliveries db)) \<and> distinct (map wu_id (cd_units db))"

lemma unit_of_core: "core db' = core db \<Longrightarrow> unit_of k db' = unit_of k db"
  by (drule core_fields(4)) (simp add: unit_of_def)

lemma ids_ok_core: "core db' = core db \<Longrightarrow> ids_ok db' = ids_ok db"
  by (frule core_fields(1), frule core_fields(2), frule core_fields(3), drule core_fields(4)) (simp add: ids_ok_def)

lemma unit_ofD: "unit_of k db = Some u \<Longrightarrow> u \<in> set (cd_units db) \<and> wu_id u = k"
  by (auto simp: unit_of_def dest: fetchrow_SomeD)

lemma unit_ofI: "ids_ok db \<Longrightarrow> u \<in> set (cd_units db) \<Longrightarrow> unit_of (wu_id u) db = Some u"
  by (simp add: unit_of_def ids_ok_def fetchrow_unique)

text \<open>
  The ways a transaction other than a claim changes a unit, and what a claim does;
  \<open>now\<close> is when the transaction decides about leases.
\<close>

inductive quiet_change :: "time \<Rightarrow> work_unit \<Rightarrow> work_unit \<Rightarrow> bool" for now where
  qc_same: "quiet_change now u u"
| qc_renew: "unit_held u now \<Longrightarrow> wu_lease_expires_at u = Some l \<Longrightarrow> l \<le> t \<Longrightarrow> quiet_change now u (u\<lparr>wu_lease_expires_at := Some t\<rparr>)"
| qc_release: "unit_held u now \<Longrightarrow> s \<in> {U_available, U_completed} \<Longrightarrow> quiet_change now u (released_unit s u)"
| qc_reassign: "wu_state u \<in> {U_available, U_claimed} \<Longrightarrow> quiet_change now u (reassigned updated u)"
| qc_cancel: "quiet_change now u (cancelled u)"

inductive_cases quiet_changeE: "quiet_change now u u'"

definition units_to :: "(work_unit \<Rightarrow> work_unit \<Rightarrow> bool) \<Rightarrow> cdb \<Rightarrow> cdb \<Rightarrow> bool" where
  "units_to R db db' \<longleftrightarrow>
     (\<exists>f new. cd_units db' = map f (cd_units db) @ new \<and> (\<forall>u. wu_id (f u) = wu_id u)
        \<and> (\<forall>u \<in> set (cd_units db). R u (f u))
        \<and> (\<forall>u \<in> set new. wu_state u = U_available \<and> wu_claimed_by u = None \<and> wu_claim_generation u = 0))"

definition claim_step :: "time \<Rightarrow> cdb \<Rightarrow> cdb \<Rightarrow> bool" where
  "claim_step now db db' \<longleftrightarrow>
     (\<exists>u actor token until project. u \<in> set (cd_units db) \<and> \<not> unit_held u now \<and> wu_state u \<in> {U_available, U_claimed}
        \<and> \<not> token_used (wu_id u) actor token db
        \<and> cd_units db' = update_where (\<lambda>x. wu_id x = wu_id u) (claimed_unit actor token until) (cd_units db)
        \<and> cd_claims db' = insert_row \<lparr>wc_unit_id = wu_id u, wc_project_id = project, wc_actor_id = actor,
             wc_claim_token_digest = token, wc_claim_generation = wu_claim_generation u + 1\<rparr> (cd_claims db))"

lemma units_to_map:
  assumes "cd_units db' = map f (cd_units db) @ new" and "\<And>u. wu_id (f u) = wu_id u"
    and "\<And>u. u \<in> set (cd_units db) \<Longrightarrow> R u (f u)"
    and "\<And>u. u \<in> set new \<Longrightarrow> wu_state u = U_available \<and> wu_claimed_by u = None \<and> wu_claim_generation u = 0"
  shows "units_to R db db'"
  unfolding units_to_def using assms by blast

lemma units_to_same: "cd_units db' = cd_units db \<Longrightarrow> units_to (quiet_change now) db db'"
  by (rule units_to_map [where f = "\<lambda>u. u" and new = "[]"]) (simp_all add: qc_same)

lemma unit_of_map:
  assumes "cd_units db' = map f (cd_units db) @ new" and "\<And>u. wu_id (f u) = wu_id u" and "unit_of k db = Some u"
  shows "unit_of k db' = Some (f u)"
  using assms(3) by (simp add: unit_of_def assms(1) fetchrow_append fetchrow_map [where k = wu_id and f = f, OF assms(2)])

lemma units_to_lookup:
  assumes "units_to R db db'" and "unit_of k db = Some u"
  shows "\<exists>u'. unit_of k db' = Some u' \<and> R u u'"
proof -
  obtain f new where f: "cd_units db' = map f (cd_units db) @ new" "\<And>u. wu_id (f u) = wu_id u"
      "\<forall>u \<in> set (cd_units db). R u (f u)"
    using assms(1) unfolding units_to_def by blast
  have "unit_of k db' = Some (f u)"
    using f(1,2) assms(2) by (rule unit_of_map)
  then show ?thesis using f(3) unit_ofD [OF assms(2)] by blast
qed

lemma new_unit_fields [simp]:
  "wu_state (new_unit i project b u) = U_available" "wu_claimed_by (new_unit i project b u) = None"
  "wu_claim_generation (new_unit i project b u) = 0" "wu_id (new_unit i project b u) = i"
  "wu_bundle_id (new_unit i project b u) = b" "wu_unit_key (new_unit i project b u) = arg_str u ''key''"
  "wu_assignee_user_ids (new_unit i project b u) = sort (arg_strs u ''assignee_user_ids'')"
  by (simp_all add: new_unit_def)

lemma unit_ids [simp]:
  "wu_id (claimed_unit actor token until u) = wu_id u" "wu_id (released_unit s u) = wu_id u"
  "wu_id (reassigned updated u) = wu_id u" "wu_id (cancelled u) = wu_id u"
  by (simp_all add: claimed_unit_def released_unit_def reassigned_def cancelled_def)

subsection \<open>Claims, renewals and releases\<close>

lemma locate_unitE:
  assumes "locate_unit now p a db = Inr (u, b)" and "ids_ok db"
  shows "unit_of (arg_str a ''unit_id'') db = Some u" "wu_id u = arg_str a ''unit_id''" "u \<in> set (cd_units db)"
    "p_user_id p \<in> set (wu_assignee_user_ids u)"
    "\<exists>d \<in> set (cd_deliveries db). dl_bundle_id d = wu_bundle_id u \<and> dl_recipient_user_id d = p_user_id p \<and> dl_revoked_at d = None"
    "b \<in> set (cd_bundles db)" "bn_id b = wu_bundle_id u" "bn_revoked_at b = None" "now < bn_expires_at b"
proof -
  obtain u' where u': "fetchrow (\<lambda>u. wu_project_id u = arg_str a ''project_id'' \<and> wu_id u = arg_str a ''unit_id'') (cd_units db) = Some u'"
    using assms(1) by (auto simp: locate_unit_def split: option.splits)
  then have rest: "p_user_id p \<in> set (wu_assignee_user_ids u')"
      "bundle_row now (arg_str a ''project_id'') (wu_bundle_id u') True db = Inr b" "u = u'"
      "exists_row (\<lambda>d. dl_bundle_id d = wu_bundle_id u' \<and> dl_recipient_user_id d = p_user_id p \<and> dl_revoked_at d = None) (cd_deliveries db)"
    using assms(1) by (auto simp: locate_unit_def and_then_Inr_iff split: if_splits)
  from fetchrow_SomeD [OF u'] show u: "wu_id u = arg_str a ''unit_id''" "u \<in> set (cd_units db)" using rest(3) by auto
  show "unit_of (arg_str a ''unit_id'') db = Some u" using unit_ofI [OF assms(2) u(2)] u(1) by simp
  show "p_user_id p \<in> set (wu_assignee_user_ids u)" using rest by simp
  show "\<exists>d \<in> set (cd_deliveries db). dl_bundle_id d = wu_bundle_id u \<and> dl_recipient_user_id d = p_user_id p \<and> dl_revoked_at d = None"
    using rest(3,4) by (simp add: exists_row_iff)
  show "b \<in> set (cd_bundles db)" "bn_id b = wu_bundle_id u" "bn_revoked_at b = None" "now < bn_expires_at b"
    using rest(2,3) by (auto simp: bundle_row_def split: option.splits dest: fetchrow_SomeD)
qed

lemma claim_unitE:
  assumes "claim_unit P clk p a db = Inr (db', res)"
  obtains (replayed) u b where "locate_unit (clk 0) p a db = Inr (u, b)" "unit_held u (clk 1)"
      "wu_claimed_by u = Some (p_user_id p)" "wu_claim_token_digest u = Some (arg_token P a)" "db' = db"
      "res = unit_result u b @ [(''replayed'', PBool True)]"
  | (claimed) u b configured until u1 where "policy (arg_str a ''project_id'') True db = Inr configured"
      "locate_unit (clk 0) p a db = Inr (u, b)" "\<not> unit_held u (clk 1)"
      "wu_state u \<in> {U_available, U_claimed}" "\<not> token_used (wu_id u) (p_user_id p) (arg_token P a) db"
      "until = min (bn_expires_at b) (clk 1 + seconds (arg_int (pr_policy configured) ''lease_seconds''))"
      "u1 = claimed_unit (p_user_id p) (arg_token P a) until u" "res = unit_result u1 b @ [(''replayed'', PBool False)]"
      "core db' = core (db\<lparr>cd_units := update_where (\<lambda>x. wu_id x = wu_id u) (claimed_unit (p_user_id p) (arg_token P a) until) (cd_units db),
         cd_claims := insert_row \<lparr>wc_unit_id = wu_id u, wc_project_id = arg_str a ''project_id'', wc_actor_id = p_user_id p,
           wc_claim_token_digest = arg_token P a, wc_claim_generation = wu_claim_generation u1\<rparr> (cd_claims db)\<rparr>)"
      "cd_receipts db' = cd_receipts db"
proof -
  obtain configured where pol: "policy (arg_str a ''project_id'') True db = Inr configured"
    using assms by (auto simp: claim_unit_def Let_def and_then_Inr_iff)
  obtain u b where loc: "locate_unit (clk 0) p a db = Inr (u, b)"
    using assms by (auto simp: claim_unit_def Let_def and_then_Inr_iff)
  show thesis
  proof (cases "unit_held u (clk 1)")
    case True
    then show ?thesis using assms pol loc
      by (intro replayed [of u b]) (auto simp: claim_unit_def Let_def and_then_Inr_iff)
  next
    case False
    let ?until = "min (bn_expires_at b) (clk 1 + seconds (arg_int (pr_policy configured) ''lease_seconds''))"
    let ?u1 = "claimed_unit (p_user_id p) (arg_token P a) ?until u"
    obtain details where c: "wu_state u \<in> {U_available, U_claimed}" "\<not> token_used (wu_id u) (p_user_id p) (arg_token P a) db"
      and ev: "event (clk 2) (arg_str a ''project_id'') (p_user_id p) ''claim'' (bn_id b) details
         (db\<lparr>cd_units := update_where (\<lambda>x. wu_id x = wu_id u) (claimed_unit (p_user_id p) (arg_token P a) ?until) (cd_units db),
         cd_claims := insert_row \<lparr>wc_unit_id = wu_id u, wc_project_id = arg_str a ''project_id'', wc_actor_id = p_user_id p,
           wc_claim_token_digest = arg_token P a, wc_claim_generation = wu_claim_generation ?u1\<rparr> (cd_claims db)\<rparr>) = Inr db'"
      and res: "res = unit_result ?u1 b @ [(''replayed'', PBool False)]"
      using assms pol loc False by (auto simp: claim_unit_def Let_def and_then_Inr_iff claim_checks_def)
    show ?thesis
      by (rule claimed [OF pol loc False c refl refl res]) (use event_core [OF ev] event_receipts [OF ev] in simp_all)
  qed
qed

lemma renew_unitE:
  assumes "renew_unit P clk p a db = Inr (db', res)"
  obtains u b configured deadline lease effective where "policy (arg_str a ''project_id'') False db = Inr configured"
    "locate_unit (clk 0) p a db = Inr (u, b)" "\<not> inactive P u a (p_user_id p) (clk 1)"
    "parse_deadline P (arg_str a ''lease_expires_at'') = Some deadline" "wu_lease_expires_at u = Some lease"
    "lease < deadline \<longrightarrow> deadline \<le> clk 1 + seconds (arg_int (pr_policy configured) ''lease_seconds'')"
    "effective = max lease (min deadline (bn_expires_at b))"
    "db' = db\<lparr>cd_units := update_where (\<lambda>x. wu_id x = wu_id u) (\<lambda>x. x\<lparr>wu_lease_expires_at := Some effective\<rparr>) (cd_units db)\<rparr>"
    "res = unit_result (u\<lparr>wu_lease_expires_at := Some effective\<rparr>) b @ [(''extended'', PBool (lease < effective))]"
proof -
  obtain configured u b where pol: "policy (arg_str a ''project_id'') False db = Inr configured"
    and loc: "locate_unit (clk 0) p a db = Inr (u, b)" and act: "\<not> inactive P u a (p_user_id p) (clk 1)"
    using assms by (auto simp: renew_unit_def Let_def and_then_Inr_iff)
  obtain deadline where d: "parse_deadline P (arg_str a ''lease_expires_at'') = Some deadline"
    using assms pol loc act
    by (cases "parse_deadline P (arg_str a ''lease_expires_at'')") (auto simp: renew_unit_def Let_def and_then_Inr_iff)
  obtain lease where l: "wu_lease_expires_at u = Some lease" using act by (auto simp: inactive_def after_iff)
  show thesis
    using assms pol loc act d l
    by (intro that [of configured u b deadline lease]) (auto simp: renew_unit_def Let_def and_then_Inr_iff)
qed

lemma release_unitE:
  assumes "release_unit P clk p a db = Inr (db', res)"
  obtains (same) "core db' = core db"
  | (released) u b where "locate_unit (clk 0) p a db = Inr (u, b)" "\<not> inactive P u a (p_user_id p) (clk 1)"
      "core db' = core (db\<lparr>cd_units := update_where (\<lambda>x. wu_id x = wu_id u) (released_unit (release_state a)) (cd_units db)\<rparr>)"
proof -
  from assms have "receipted P a p ''work_release'' (release_body P clk p a) db = Inr (db', res)"
    by (simp add: release_unit_def)
  then show thesis
  proof (cases rule: receipted_core)
    case 1
    then show ?thesis by (rule same)
  next
    case (2 db1 r)
    from 2(1) obtain u b action details where loc: "locate_unit (clk 0) p a db = Inr (u, b)" "\<not> inactive P u a (p_user_id p) (clk 1)"
      and ev: "event (clk 2) (arg_str a ''project_id'') (p_user_id p) action (bn_id b) details
        (db\<lparr>cd_units := update_where (\<lambda>x. wu_id x = wu_id u) (released_unit (release_state a)) (cd_units db)\<rparr>) = Inr db1"
      by (auto simp: release_body_def Let_def and_then_Inr_iff)
    show ?thesis by (rule released [OF loc]) (use event_core [OF ev] 2(2) in simp)
  qed
qed

subsection \<open>Reassignment\<close>

text \<open>What the loop over the existing units does to one row of the table.\<close>

definition reassign_to :: "time \<Rightarrow> string list \<Rightarrow> dict list \<Rightarrow> work_unit list \<Rightarrow> work_unit \<Rightarrow> work_unit" where
  "reassign_to now takeover units us x =
     (case fetchrow (\<lambda>u. wu_id u = wu_id x) us of
        None \<Rightarrow> x
      | Some u \<Rightarrow> if reassign_row now takeover (selected units (wu_unit_key u)) u = Inr True
                  then reassigned (selected units (wu_unit_key u)) x else x)"

lemma reassign_to_id [simp]: "wu_id (reassign_to now takeover units us x) = wu_id x"
  by (simp add: reassign_to_def split: option.split)

lemma reassign_rows_effect:
  assumes "reassign_rows now takeover units us db = Inr db'" and "distinct (map wu_id us)"
  shows "db' = db\<lparr>cd_units := map (reassign_to now takeover units us) (cd_units db)\<rparr>
    \<and> (\<forall>u \<in> set us. is_ok (reassign_row now takeover (selected units (wu_unit_key u)) u))"
  using assms
proof (induction us arbitrary: db)
  case Nil
  then show ?case by (simp add: reassign_to_def map_idI)
next
  case (Cons u us)
  let ?sel = "selected units (wu_unit_key u)"
  obtain update where row: "reassign_row now takeover ?sel u = Inr update"
    and rest: "reassign_rows now takeover units us
      (if update then db\<lparr>cd_units := update_where (\<lambda>x. wu_id x = wu_id u) (reassigned ?sel) (cd_units db)\<rparr> else db) = Inr db'"
    using Cons.prems(1) by (auto simp: and_then_Inr_iff)
  let ?f = "\<lambda>x. if update \<and> wu_id x = wu_id u then reassigned ?sel x else x"
  have mid: "(if update then db\<lparr>cd_units := update_where (\<lambda>x. wu_id x = wu_id u) (reassigned ?sel) (cd_units db)\<rparr> else db)
      = db\<lparr>cd_units := map ?f (cd_units db)\<rparr>"
    by (simp add: update_where_def)
  have "wu_id u \<notin> wu_id ` set us" using Cons.prems(2) by simp
  then have none: "fetchrow (\<lambda>v. wu_id v = wu_id u) us = None" unfolding fetchrow_None_iff by (metis image_eqI)
  have "reassign_to now takeover units us (?f x) = reassign_to now takeover units (u # us) x" for x
  proof (cases "wu_id x = wu_id u")
    case True
    then have "wu_id (?f x) = wu_id u" by simp
    then have "reassign_to now takeover units us (?f x) = ?f x" by (simp add: reassign_to_def none)
    then show ?thesis using True row by (simp add: reassign_to_def)
  next
    case False
    then show ?thesis by (simp add: reassign_to_def)
  qed
  then have "map (reassign_to now takeover units us) (map ?f (cd_units db)) = map (reassign_to now takeover units (u # us)) (cd_units db)"
    by simp
  then show ?case using Cons.IH [OF rest [unfolded mid]] Cons.prems(2) row by simp
qed

lemma insert_units_effect:
  "insert_units project b us db = db\<lparr>cd_units := cd_units db @ map (\<lambda>x. new_unit (fst x) project b (snd x)) us\<rparr>"
  unfolding insert_units_def
  by (induction us arbitrary: db) (simp_all add: insert_unit_def insert_row_def)

definition new_delivery :: "string \<Rightarrow> string \<Rightarrow> nat \<Rightarrow> string \<times> string \<Rightarrow> delivery" where
  "new_delivery project b version x = \<lparr>dl_id = fst x, dl_project_id = project, dl_bundle_id = b,
     dl_recipient_user_id = snd x, dl_routing_version = version, dl_acknowledged_at = None, dl_revoked_at = None\<rparr>"

lemma insert_deliveries_effect:
  "insert_deliveries project b version us db
     = db\<lparr>cd_deliveries := cd_deliveries db @ map (new_delivery project b version) us\<rparr>"
  unfolding insert_deliveries_def
  by (induction us arbitrary: db) (simp_all add: insert_delivery_def insert_row_def new_delivery_def)

definition revoke_at :: "(string \<Rightarrow> time option) \<Rightarrow> delivery \<Rightarrow> delivery" where
  "revoke_at f d = (case f (dl_id d) of None \<Rightarrow> d | Some t \<Rightarrow> d\<lparr>dl_revoked_at := Some t\<rparr>)"

lemma revoke_deliveries:
  "\<exists>f. fold (\<lambda>g db. db\<lparr>cd_deliveries := update_where (\<lambda>x. dl_id x = dl_id (snd g))
        (\<lambda>x. x\<lparr>dl_revoked_at := Some (clk (fst g))\<rparr>) (cd_deliveries db)\<rparr>) gs db
      = db\<lparr>cd_deliveries := map (revoke_at f) (cd_deliveries db)\<rparr>
    \<and> (\<forall>i. f i = None \<longleftrightarrow> i \<notin> dl_id ` snd ` set gs)"
proof (induction gs arbitrary: db)
  case Nil
  show ?case by (intro exI [of _ "\<lambda>_. None"]) (simp add: revoke_at_def)
next
  case (Cons g gs)
  let ?db = "db\<lparr>cd_deliveries := update_where (\<lambda>x. dl_id x = dl_id (snd g)) (\<lambda>x. x\<lparr>dl_revoked_at := Some (clk (fst g))\<rparr>) (cd_deliveries db)\<rparr>"
  obtain f where f: "fold (\<lambda>g db. db\<lparr>cd_deliveries := update_where (\<lambda>x. dl_id x = dl_id (snd g))
        (\<lambda>x. x\<lparr>dl_revoked_at := Some (clk (fst g))\<rparr>) (cd_deliveries db)\<rparr>) gs ?db
      = ?db\<lparr>cd_deliveries := map (revoke_at f) (cd_deliveries ?db)\<rparr>" "\<forall>i. f i = None \<longleftrightarrow> i \<notin> dl_id ` snd ` set gs"
    using Cons by blast
  let ?f = "\<lambda>i. if f i = None \<and> i = dl_id (snd g) then Some (clk (fst g)) else f i"
  have "revoke_at f (if dl_id x = dl_id (snd g) then x\<lparr>dl_revoked_at := Some (clk (fst g))\<rparr> else x) = revoke_at ?f x" for x
    by (auto simp: revoke_at_def split: option.split)
  then show ?case using f by (intro exI [of _ ?f]) (simp add: update_where_def)
qed

lemma revoke_at_id [simp]: "dl_id (revoke_at f d) = dl_id d"
  by (simp add: revoke_at_def split: option.split)

lemma reroute_effect:
  "\<exists>f. reroute clk ids project b recipients db
      = db\<lparr>cd_deliveries := map (revoke_at f) (cd_deliveries db) @ map (new_delivery project (bn_id b) (bn_version b + 1))
          (supplied ids 0 (filter (\<lambda>u. u \<notin> set (map dl_recipient_user_id (live_deliveries (bn_id b) db))) (sort (remdups recipients))))\<rparr>
    \<and> (\<forall>i. f i = None \<longleftrightarrow> i \<notin> dl_id ` {d \<in> set (live_deliveries (bn_id b) db). dl_recipient_user_id d \<notin> set recipients})"
proof -
  let ?old = "live_deliveries (bn_id b) db"
  let ?gone = "filter (\<lambda>d. dl_recipient_user_id d \<notin> set recipients) ?old"
  obtain f where "fold (\<lambda>g db. db\<lparr>cd_deliveries := update_where (\<lambda>x. dl_id x = dl_id (snd g))
        (\<lambda>x. x\<lparr>dl_revoked_at := Some (clk (fst g))\<rparr>) (cd_deliveries db)\<rparr>) (enumerate 0 ?gone) db
      = db\<lparr>cd_deliveries := map (revoke_at f) (cd_deliveries db)\<rparr>"
    "\<forall>i. f i = None \<longleftrightarrow> i \<notin> dl_id ` snd ` set (enumerate 0 ?gone)"
    using revoke_deliveries [of clk "enumerate 0 ?gone" db] by (elim exE conjE)
  moreover have "snd ` set (enumerate 0 ?gone) = set ?gone" by (metis list.set_map map_snd_enumerate)
  moreover have "set ?gone = {d \<in> set ?old. dl_recipient_user_id d \<notin> set recipients}" by auto
  ultimately have "reroute clk ids project b recipients db
      = db\<lparr>cd_deliveries := map (revoke_at f) (cd_deliveries db) @ map (new_delivery project (bn_id b) (bn_version b + 1))
          (supplied ids 0 (filter (\<lambda>u. u \<notin> set (map dl_recipient_user_id ?old)) (sort (remdups recipients))))\<rparr>"
    "\<forall>i. f i = None \<longleftrightarrow> i \<notin> dl_id ` {d \<in> set ?old. dl_recipient_user_id d \<notin> set recipients}"
    unfolding reroute_def Let_def insert_deliveries_effect by simp_all
  then show ?thesis by blast
qed

lemma reassignE:
  assumes "reassign P clk later unit_ids delivery_ids p a db = Inr (db', res)"
  obtains (same) "core db' = core db"
  | (reassigned) configured b existing takeover added f where
      "policy (arg_str a ''project_id'') True db = Inr configured"
      "bundle_row (clk 0) (arg_str a ''project_id'') (arg_str a ''bundle_id'') True db = Inr b"
      "existing = bundle_units (bn_id b) (cd_units db)" "takeover = arg_strs a ''takeover_unit_keys''"
      "validate_units (arg_units a) (arg_strs a ''recipient_user_ids'') = Inr ()"
      "\<forall>c \<in> set (takeover_checks configured a existing). \<not> fst c"
      "\<exists>db1. reassign_rows (clk 1) takeover (arg_units a) existing db = Inr db1"
      "added = filter (\<lambda>u. arg_str u ''key'' \<notin> set (map wu_unit_key existing)) (arg_units a)"
      "\<forall>i. f i = None \<longleftrightarrow> i \<notin> dl_id ` {d \<in> set (live_deliveries (bn_id b) db).
          dl_recipient_user_id d \<notin> set (arg_strs a ''recipient_user_ids'')}"
      "distinct (map wu_id existing) \<Longrightarrow> core db' = core (db\<lparr>
         cd_units := map (reassign_to (clk 1) takeover (arg_units a) existing) (cd_units db)
           @ map (\<lambda>x. new_unit (fst x) (arg_str a ''project_id'') (bn_id b) (snd x)) (supplied unit_ids 0 added),
         cd_deliveries := map (revoke_at f) (cd_deliveries db)
           @ map (new_delivery (arg_str a ''project_id'') (bn_id b) (bn_version b + 1)) (supplied delivery_ids 0
               (filter (\<lambda>u. u \<notin> set (map dl_recipient_user_id (live_deliveries (bn_id b) db)))
                 (sort (remdups (arg_strs a ''recipient_user_ids''))))),
         cd_bundles := update_where (\<lambda>x. bn_id x = bn_id b)
           (\<lambda>x. x\<lparr>bn_version := bn_version x + 1, bn_policy_version := pr_version configured\<rparr>) (cd_bundles db)\<rparr>)"
proof -
  let ?project = "arg_str a ''project_id''" and ?takeover = "arg_strs a ''takeover_unit_keys''"
    and ?to = "arg_strs a ''recipient_user_ids''"
  from assms have "receipted P a p ''reassign'' (reassign_body clk later unit_ids delivery_ids p a) db = Inr (db', res)"
    by (simp add: reassign_def)
  then show thesis
  proof (cases rule: receipted_core)
    case 1
    then show ?thesis by (rule same)
  next
    case (2 db5 r)
    from 2(1) obtain configured b where pol: "policy ?project True db = Inr configured"
      and b: "bundle_row (clk 0) ?project (arg_str a ''bundle_id'') True db = Inr b"
      by (auto simp: reassign_body_def Let_def and_then_Inr_iff)
    let ?existing = "bundle_units (bn_id b) (cd_units db)"
    let ?added = "filter (\<lambda>u. arg_str u ''key'' \<notin> set (map wu_unit_key ?existing)) (arg_units a)"
    let ?rest = "\<lambda>db1. let db3 = reroute later delivery_ids ?project b ?to (insert_units ?project (bn_id b) (supplied unit_ids 0 ?added) db1)
      in db3\<lparr>cd_bundles := update_where (\<lambda>x. bn_id x = bn_id b)
        (\<lambda>x. x\<lparr>bn_version := bn_version x + 1, bn_policy_version := pr_version configured\<rparr>) (cd_bundles db3)\<rparr>"
    from 2(1) obtain db1 details where val: "validate_units (arg_units a) ?to = Inr ()"
      and chk: "\<forall>c \<in> set (takeover_checks configured a ?existing). \<not> fst c"
      and rows: "reassign_rows (clk 1) ?takeover (arg_units a) ?existing db = Inr db1"
      and ev: "event (clk 2) ?project (p_user_id p) ''reassign'' (bn_id b) details (?rest db1) = Inr db5"
      using pol b by (auto simp: reassign_body_def Let_def and_then_Inr_iff)
    let ?new = "supplied delivery_ids 0 (filter (\<lambda>u. u \<notin> set (map dl_recipient_user_id (live_deliveries (bn_id b) db)))
                 (sort (remdups ?to)))"
    let ?db2 = "insert_units ?project (bn_id b) (supplied unit_ids 0 ?added)
       (db\<lparr>cd_units := map (reassign_to (clk 1) ?takeover (arg_units a) ?existing) (cd_units db)\<rparr>)"
    have live: "live_deliveries (bn_id b) ?db2 = live_deliveries (bn_id b) db"
      by (simp add: live_deliveries_def insert_units_effect)
    obtain f where f: "reroute later delivery_ids ?project b ?to ?db2
        = ?db2\<lparr>cd_deliveries := map (revoke_at f) (cd_deliveries ?db2) @ map (new_delivery ?project (bn_id b) (bn_version b + 1)) ?new\<rparr>"
      "\<forall>i. f i = None \<longleftrightarrow> i \<notin> dl_id ` {d \<in> set (live_deliveries (bn_id b) db). dl_recipient_user_id d \<notin> set ?to}"
      using reroute_effect [of later delivery_ids ?project b ?to ?db2] unfolding live by blast
    have "core db' = core (db\<lparr>
         cd_units := map (reassign_to (clk 1) ?takeover (arg_units a) ?existing) (cd_units db)
           @ map (\<lambda>x. new_unit (fst x) ?project (bn_id b) (snd x)) (supplied unit_ids 0 ?added),
         cd_deliveries := map (revoke_at f) (cd_deliveries db) @ map (new_delivery ?project (bn_id b) (bn_version b + 1)) ?new,
         cd_bundles := update_where (\<lambda>x. bn_id x = bn_id b)
           (\<lambda>x. x\<lparr>bn_version := bn_version x + 1, bn_policy_version := pr_version configured\<rparr>) (cd_bundles db)\<rparr>)"
      if d: "distinct (map wu_id ?existing)"
    proof -
      have "db1 = db\<lparr>cd_units := map (reassign_to (clk 1) ?takeover (arg_units a) ?existing) (cd_units db)\<rparr>"
        using reassign_rows_effect [OF rows d] by blast
      then show ?thesis using event_core [OF ev] 2(2) f(1) by (simp add: core_def Let_def insert_units_effect)
    qed
    with pol b val chk rows f(2) show ?thesis by (intro reassigned [of configured b ?existing ?takeover ?added f]) blast+
  qed
qed

lemma publishE:
  assumes "publish P clk ids p a db = Inr (db', res)"
  obtains (same) "core db' = core db"
  | (published) configured s recipients units b where
      "policy (arg_str a ''project_id'') True db = Inr configured" "publish_source (clk 0) p a db = Inr s"
      "recipients = opt_recipients a (fst (resolve (pr_policy configured) (so_from_user s)))"
      "units = opt_units a recipients" "\<not> has_bundle (arg_str a ''project_id'') (arg_str a ''source_id'') db"
      "is_admin p \<or> set recipients \<subseteq> set (fst (resolve (pr_policy configured) (so_from_user s)))"
      "so_from_user s \<notin> set recipients" "\<forall>u \<in> set recipients. (arg_str a ''project_id'', u) \<in> set (cd_members db)"
      "validate_units units recipients = Inr ()"
      "b = published_bundle (clk 1) (ids 0) p a s configured"
      "core db' = core (db\<lparr>cd_bundles := insert_row b (cd_bundles db),
         cd_deliveries := cd_deliveries db @ map (new_delivery (arg_str a ''project_id'') (ids 0) 1) (supplied ids 1 (sort recipients)),
         cd_units := cd_units db @ map (\<lambda>x. new_unit (fst x) (arg_str a ''project_id'') (ids 0) (snd x))
           (supplied ids (1 + length recipients) units)\<rparr>)"
proof -
  let ?project = "arg_str a ''project_id''"
  from assms have "receipted P a p ''publish'' (publish_body clk ids p a) db = Inr (db', res)" by (simp add: publish_def)
  then show thesis
  proof (cases rule: receipted_core)
    case 1
    then show ?thesis by (rule same)
  next
    case (2 db1 r)
    from 2(1) obtain configured s where pol: "policy ?project True db = Inr configured" and s: "publish_source (clk 0) p a db = Inr s"
      by (auto simp: publish_body_def Let_def and_then_Inr_iff)
    let ?recipients = "opt_recipients a (fst (resolve (pr_policy configured) (so_from_user s)))"
    let ?units = "opt_units a ?recipients" and ?b = "published_bundle (clk 1) (ids 0) p a s configured"
    from 2(1) obtain details where facts: "\<not> has_bundle ?project (arg_str a ''source_id'') db"
        "is_admin p \<or> set ?recipients \<subseteq> set (fst (resolve (pr_policy configured) (so_from_user s)))"
        "so_from_user s \<notin> set ?recipients" "\<forall>u \<in> set ?recipients. (?project, u) \<in> set (cd_members db)"
        "validate_units ?units ?recipients = Inr ()"
      and ev: "event (clk 2) ?project (p_user_id p) ''publish'' (bn_id ?b) details (publish_rows ids a ?b ?recipients ?units db) = Inr db1"
      using pol s by (auto simp: publish_body_def Let_def and_then_Inr_iff eligible_def list_all_iff)
    have "bn_id ?b = ids 0" by (simp add: published_bundle_def Let_def)
    then have "core (publish_rows ids a ?b ?recipients ?units db) = core (db\<lparr>cd_bundles := insert_row ?b (cd_bundles db),
         cd_deliveries := cd_deliveries db @ map (new_delivery ?project (ids 0) 1) (supplied ids 1 (sort ?recipients)),
         cd_units := cd_units db @ map (\<lambda>x. new_unit (fst x) ?project (ids 0) (snd x)) (supplied ids (1 + length ?recipients) ?units)\<rparr>)"
      by (simp add: publish_rows_def Let_def core_def insert_units_effect insert_deliveries_effect)
    then show ?thesis
      using event_core [OF ev] 2(2) by (intro published [OF pol s refl refl facts refl]) simp
  qed
qed

lemma ackE:
  assumes "ack_delivery P clk p a db = Inr (db', res)"
  obtains (same) "core db' = core db"
  | (acked) d where "d \<in> set (cd_deliveries db)" "dl_recipient_user_id d = p_user_id p" "dl_revoked_at d = None"
      "core db' = core (db\<lparr>cd_deliveries := update_where (\<lambda>x. dl_id x = dl_id d) (\<lambda>x. x\<lparr>dl_acknowledged_at := Some (clk 1)\<rparr>)
         (cd_deliveries db)\<rparr>)"
proof -
  from assms have "receipted P a p ''ack'' (ack_body clk p a) db = Inr (db', res)" by (simp add: ack_delivery_def)
  then show thesis
  proof (cases rule: receipted_core)
    case 1
    then show ?thesis by (rule same)
  next
    case (2 db1 r)
    from 2(1) obtain d b where own: "own_delivery (clk 0) (arg_str a ''project_id'') (arg_str a ''delivery_id'') (p_user_id p) db = Inr (d, b)"
      by (auto simp: ack_body_def Let_def and_then_Inr_iff)
    then have d: "d \<in> set (cd_deliveries db)" "dl_recipient_user_id d = p_user_id p" "dl_revoked_at d = None"
      by (auto simp: own_delivery_def and_then_Inr_iff split: option.splits dest!: fetchrow_SomeD)
    show ?thesis
    proof (cases "dl_acknowledged_at d = None")
      case True
      then have "core db1 = core (db\<lparr>cd_deliveries := update_where (\<lambda>x. dl_id x = dl_id d) (\<lambda>x. x\<lparr>dl_acknowledged_at := Some (clk 1)\<rparr>)
         (cd_deliveries db)\<rparr>)"
        using 2(1) own by (auto simp: ack_body_def Let_def and_then_Inr_iff dest!: event_core)
      with 2(2) d show ?thesis by (intro acked) simp_all
    next
      case False
      then have "db1 = db" using 2(1) own by (auto simp: ack_body_def Let_def and_then_Inr_iff)
      with 2(2) show ?thesis by (intro same) simp
    qed
  qed
qed

lemma forgetE:
  assumes "forget_checkpoint P clk later p a db = Inr (db', res)"
  obtains (same) "core db' = core db"
  | (forgot) c where "c \<in> set (cd_checkpoints db)" "ck_id c = arg_str a ''checkpoint_id''" "ck_forgotten_at c = None"
      "core db' = core (erase_checkpoint clk (ck_id c) db)"
proof -
  from assms have "receipted P a p ''checkpoint_forget'' (forget_body clk later p a) db = Inr (db', res)"
    by (simp add: forget_checkpoint_def)
  then show thesis
  proof (cases rule: receipted_core)
    case 1
    then show ?thesis by (rule same)
  next
    case (2 db1 r)
    from 2(1) obtain c where loc: "locate_checkpoint (clk 0) (arg_str a ''project_id'') (arg_str a ''checkpoint_id'') False db = Inr c"
      by (auto simp: forget_body_def Let_def and_then_Inr_iff)
    then have c: "c \<in> set (cd_checkpoints db)" "ck_id c = arg_str a ''checkpoint_id''"
      by (auto simp: locate_checkpoint_def split: option.splits dest: fetchrow_SomeD)
    have "core db1 = core (if ck_forgotten_at c = None then erase_checkpoint clk (ck_id c) db else db)"
      using 2(1) loc by (auto simp: forget_body_def Let_def and_then_Inr_iff dest!: event_core)
    then show ?thesis
      using 2(2) c forgot [of c] same by (cases "ck_forgotten_at c") auto
  qed
qed

subsection \<open>Every step changes units in these ways only\<close>

lemma existing_rows:
  assumes "ids_ok db"
  shows "distinct (map wu_id (bundle_units b (cd_units db)))"
    and "x \<in> set (cd_units db) \<Longrightarrow>
      fetchrow (\<lambda>u. wu_id u = wu_id x) (bundle_units b (cd_units db)) = (if wu_bundle_id x = b then Some x else None)"
proof -
  have "distinct (map wu_id (filter (\<lambda>u. wu_bundle_id u = b) (cd_units db)))"
    using assms by (simp add: ids_ok_def distinct_map_filter)
  then show d: "distinct (map wu_id (bundle_units b (cd_units db)))"
    by (simp add: bundle_units_def distinct_map)
  assume x: "x \<in> set (cd_units db)"
  show "fetchrow (\<lambda>u. wu_id u = wu_id x) (bundle_units b (cd_units db)) = (if wu_bundle_id x = b then Some x else None)"
  proof (cases "wu_bundle_id x = b")
    case True
    then have "x \<in> set (bundle_units b (cd_units db))" using x by (simp add: bundle_units_def)
    then show ?thesis using True fetchrow_unique [OF d] by simp
  next
    case False
    have "u = x" if "u \<in> set (cd_units db)" "wu_id u = wu_id x" for u
      using assms that x by (simp add: ids_ok_def distinct_map inj_on_def)
    then have "fetchrow (\<lambda>u. wu_id u = wu_id x) (bundle_units b (cd_units db)) = None"
      using False by (auto simp: fetchrow_None_iff bundle_units_def)
    with False show ?thesis by simp
  qed
qed

lemma reassign_to_row:
  assumes "ids_ok db" and "x \<in> set (cd_units db)"
  shows "reassign_to now takeover units (bundle_units b (cd_units db)) x =
    (if wu_bundle_id x = b \<and> reassign_row now takeover (selected units (wu_unit_key x)) x = Inr True
     then reassigned (selected units (wu_unit_key x)) x else x)"
  by (simp add: reassign_to_def existing_rows(2) [OF assms])

lemma reassign_row_True:
  assumes "reassign_row now takeover updated u = Inr True"
  shows "wu_state u \<in> {U_available, U_claimed} \<and> (unit_held u now \<longrightarrow> wu_unit_key u \<in> set takeover)"
  using assms
  by (cases "wu_state u") (auto simp: reassign_row_def Let_def unit_held_def split: if_splits)

definition dependents :: "string \<Rightarrow> cdb \<Rightarrow> string set" where
  "dependents i db = {bn_id b |b. b \<in> set (cd_bundles db) \<and> dependent_bundle i b}"

lemma erase_tables:
  assumes "ids_ok db"
  shows "cd_units (erase_checkpoint clk i db)
      = map (\<lambda>u. if wu_bundle_id u \<in> dependents i db then cancelled u else u) (cd_units db)"
    and "\<exists>f. cd_deliveries (erase_checkpoint clk i db)
      = map (\<lambda>d. if revoked_now (dependents i db) d then d\<lparr>dl_revoked_at := Some (f d)\<rparr> else d) (cd_deliveries db)"
    and "cd_bundles (erase_checkpoint clk i db) = update_where (dependent_bundle i)
      (\<lambda>b. b\<lparr>bn_revoked_at := Some (clk 1), bn_version := bn_version b + 1\<rparr>) (cd_bundles db)"
    and "cd_checkpoints (erase_checkpoint clk i db) = update_where (\<lambda>c. ck_id c = i) (erased (clk 0)) (cd_checkpoints db)"
    and "cd_claims (erase_checkpoint clk i db) = cd_claims db"
    and "cd_receipts (erase_checkpoint clk i db) = cd_receipts db"
proof -
  let ?bs = "enumerate 2 (map bn_id (filter (dependent_bundle i) (cd_bundles db)))"
  have ids: "snd ` set ?bs = dependents i db"
  proof -
    have "snd ` set ?bs = set (map snd ?bs)" by (simp only: set_map)
    also have "\<dots> = bn_id ` {b \<in> set (cd_bundles db). dependent_bundle i b}" by (simp only: map_snd_enumerate set_map set_filter)
    also have "\<dots> = dependents i db" by (auto simp: dependents_def)
    finally show ?thesis .
  qed
  have d: "distinct (map snd ?bs)" using assms by (simp add: ids_ok_def distinct_map_filter)
  have cancel: "fold (\<lambda>x u. if wu_bundle_id u = snd x then cancelled u else u) ?bs u
      = (if wu_bundle_id u \<in> dependents i db then cancelled u else u)" for u
    using cancel_fold_once [OF d, of u] cancel_fold [of u ?bs] unfolding ids by simp
  show "cd_units (erase_checkpoint clk i db)
      = map (\<lambda>u. if wu_bundle_id u \<in> dependents i db then cancelled u else u) (cd_units db)"
    by (simp add: erase_checkpoint_def Let_def revoke_bundles_units cancel)
  show "\<exists>f. cd_deliveries (erase_checkpoint clk i db)
      = map (\<lambda>d. if revoked_now (dependents i db) d then d\<lparr>dl_revoked_at := Some (f d)\<rparr> else d) (cd_deliveries db)"
  proof -
    let ?db1 = "db\<lparr>cd_checkpoints := update_where (\<lambda>c. ck_id c = i) (erased (clk 0)) (cd_checkpoints db),
        cd_bundles := update_where (dependent_bundle i)
          (\<lambda>b. b\<lparr>bn_revoked_at := Some (clk 1), bn_version := bn_version b + 1\<rparr>) (cd_bundles db)\<rparr>"
    have "cd_deliveries ?db1 = cd_deliveries db" by simp
    then show ?thesis
      using revoke_bundles_deliveries [of clk ?bs ?db1] unfolding erase_checkpoint_def Let_def ids by simp
  qed
  show "cd_bundles (erase_checkpoint clk i db) = update_where (dependent_bundle i)
      (\<lambda>b. b\<lparr>bn_revoked_at := Some (clk 1), bn_version := bn_version b + 1\<rparr>) (cd_bundles db)"
    "cd_checkpoints (erase_checkpoint clk i db) = update_where (\<lambda>c. ck_id c = i) (erased (clk 0)) (cd_checkpoints db)"
    "cd_claims (erase_checkpoint clk i db) = cd_claims db"
    "cd_receipts (erase_checkpoint clk i db) = cd_receipts db"
    by (simp_all add: erase_checkpoint_def Let_def revoke_bundles_other)
qed

lemma units_to_update:
  assumes "u \<in> set (cd_units db)" and "ids_ok db"
    and "cd_units db' = update_where (\<lambda>x. wu_id x = wu_id u) f (cd_units db)"
    and "\<And>x. wu_id (f x) = wu_id x" and "quiet_change now u (f u)"
  shows "units_to (quiet_change now) db db'"
proof (rule units_to_map)
  show "cd_units db' = map (\<lambda>x. if wu_id x = wu_id u then f x else x) (cd_units db) @ []"
    using assms(3) by (simp add: update_where_def)
  show "wu_id (if wu_id x = wu_id u then f x else x) = wu_id x" for x using assms(4) by simp
  show "quiet_change now x (if wu_id x = wu_id u then f x else x)" if x: "x \<in> set (cd_units db)" for x
  proof -
    have "wu_id x = wu_id u \<Longrightarrow> x = u" using x assms(1,2) by (simp add: ids_ok_def distinct_map inj_on_def)
    then show ?thesis using assms(5) qc_same by auto
  qed
qed simp

lemma inactive_held: "\<not> inactive P u a actor now \<Longrightarrow> unit_held u now"
  by (simp add: inactive_def unit_held_def)

definition quiet_step :: "time \<Rightarrow> cdb \<Rightarrow> cdb \<Rightarrow> bool" where
  "quiet_step now db db' \<longleftrightarrow> units_to (quiet_change now) db db' \<and> cd_claims db' = cd_claims db"

lemma quiet_core: "core db' = core db \<Longrightarrow> quiet_step now db db'"
  unfolding quiet_step_def using core_fields(4,5) units_to_same by blast

lemma cont_step_units:
  assumes "cont_step clk db db'" and "ids_ok db"
  shows "quiet_step (clk 0) db db' \<or> claim_step (clk 0) db db'"
  using assms(1)
proof cases
  case (cs_policy P p a res)
  then show ?thesis using quiet_core set_policy_core by blast
next
  case (cs_save P i p a res)
  have "cd_units db' = cd_units db \<and> cd_claims db' = cd_claims db"
    by (cases rule: save_effect [OF cs_save(1)]) (auto simp: core_def)
  then show ?thesis unfolding quiet_step_def using units_to_same by blast
next
  case (cs_forget P later p a res)
  then show ?thesis
  proof (cases rule: forgetE [OF cs_forget])
    case 1
    then show ?thesis using quiet_core by blast
  next
    case (2 c)
    have "cd_units db' = map (\<lambda>u. if wu_bundle_id u \<in> dependents (ck_id c) db then cancelled u else u) (cd_units db) @ []"
      using core_fields(4) [OF 2(4)] erase_tables(1) [OF assms(2)] by simp
    then have "units_to (quiet_change (clk 0)) db db'" by (rule units_to_map) (auto intro: quiet_change.intros)
    then show ?thesis using core_fields(5) [OF 2(4)] erase_tables(5) [OF assms(2)] by (simp add: quiet_step_def)
  qed
next
  case (cs_publish P ids p a res)
  show ?thesis
  proof (cases rule: publishE [OF cs_publish(1)])
    case 1
    then show ?thesis using quiet_core by blast
  next
    case (2 configured s recipients units b)
    have "units_to (quiet_change (clk 0)) db db'"
      by (rule units_to_map [where f = "\<lambda>u. u"]) (use 2(11) in \<open>auto simp: core_def intro: qc_same\<close>)
    then show ?thesis using 2(11) by (simp add: quiet_step_def core_def)
  qed
next
  case (cs_ack P p a res)
  have "cd_units db' = cd_units db \<and> cd_claims db' = cd_claims db"
    by (cases rule: ackE [OF cs_ack]) (auto simp: core_def)
  then show ?thesis unfolding quiet_step_def using units_to_same by blast
next
  case (cs_reassign P clk1 later unit_ids delivery_ids p a res)
  show ?thesis
  proof (cases rule: reassignE [OF cs_reassign(2)])
    case 1
    then show ?thesis using quiet_core by blast
  next
    case (2 configured b existing takeover added f)
    have "distinct (map wu_id existing)" unfolding 2(3) by (rule existing_rows(1) [OF assms(2)])
    note eff = 2(10) [OF this]
    have "units_to (quiet_change (clk 0)) db db'"
    proof (rule units_to_map)
      show "cd_units db' = map (reassign_to (clk1 1) takeover (arg_units a) existing) (cd_units db)
           @ map (\<lambda>x. new_unit (fst x) (arg_str a ''project_id'') (bn_id b) (snd x)) (supplied unit_ids 0 added)"
        using core_fields(4) [OF eff] by simp
      fix u assume u: "u \<in> set (cd_units db)"
      have c0: "clk 0 = clk1 1" using cs_reassign(1) by simp
      show "quiet_change (clk 0) u (reassign_to (clk1 1) takeover (arg_units a) existing u)"
        unfolding 2(3) reassign_to_row [OF assms(2) u] c0
        using reassign_row_True [of "clk1 1" takeover "selected (arg_units a) (wu_unit_key u)" u]
        by (auto intro!: qc_same qc_reassign)
    qed auto
    then show ?thesis using core_fields(5) [OF eff] by (simp add: quiet_step_def)
  qed
next
  case (cs_claim P clk1 p a res)
  have c0: "clk 0 = clk1 1" using cs_claim(1) by simp
  show ?thesis
  proof (cases rule: claim_unitE [OF cs_claim(2)])
    case (1 u b)
    then show ?thesis by (intro disjI1 quiet_core) simp
  next
    case (2 u b configured until u1)
    have "wu_claim_generation u1 = wu_claim_generation u + 1" by (simp add: 2(7) claimed_unit_def)
    then have "claim_step (clk 0) db db'"
      unfolding claim_step_def c0
      using locate_unitE(3) [OF 2(2) assms(2)] 2(3-5) core_fields(4,5) [OF 2(9)]
      by (intro exI [of _ u] exI [of _ "p_user_id p"] exI [of _ "arg_token P a"] exI [of _ until]
          exI [of _ "arg_str a ''project_id''"]) simp
    then show ?thesis by blast
  qed
next
  case (cs_renew P clk1 p a res)
  have c0: "clk 0 = clk1 1" using cs_renew(1) by simp
  obtain u b deadline lease effective where r: "locate_unit (clk1 0) p a db = Inr (u, b)" "\<not> inactive P u a (p_user_id p) (clk1 1)"
      "wu_lease_expires_at u = Some lease" "effective = max lease (min deadline (bn_expires_at b))"
      "db' = db\<lparr>cd_units := update_where (\<lambda>x. wu_id x = wu_id u) (\<lambda>x. x\<lparr>wu_lease_expires_at := Some effective\<rparr>) (cd_units db)\<rparr>"
    by (rule renew_unitE [OF cs_renew(2)]) blast
  have "units_to (quiet_change (clk 0)) db db'"
    by (rule units_to_update [where f = "\<lambda>x. x\<lparr>wu_lease_expires_at := Some effective\<rparr>", OF locate_unitE(3) [OF r(1) assms(2)] assms(2)])
      (use r(3-5) c0 inactive_held [OF r(2)] in \<open>simp_all add: qc_renew\<close>)
  then show ?thesis by (simp add: quiet_step_def r(5))
next
  case (cs_release P clk1 p a res)
  have c0: "clk 0 = clk1 1" using cs_release(1) by simp
  show ?thesis
  proof (cases rule: release_unitE [OF cs_release(2)])
    case 1
    then show ?thesis using quiet_core by blast
  next
    case (2 u b)
    have "units_to (quiet_change (clk 0)) db db'"
      by (rule units_to_update [where f = "released_unit (release_state a)", OF locate_unitE(3) [OF 2(1) assms(2)] assms(2)])
        (use c0 core_fields(4) [OF 2(3)] inactive_held [OF 2(2)] in \<open>simp_all add: qc_release release_state_def\<close>)
    then show ?thesis using core_fields(5) [OF 2(3)] by (simp add: quiet_step_def)
  qed
next
  case (cs_prune P p a res)
  then show ?thesis using quiet_core prune_core by blast
next
  case cs_other
  then show ?thesis using quiet_core by blast
qed

end
