(* ===== verification/Continuity_Invariants.thy ===== *)
theory Continuity_Invariants
  imports Continuity_Steps
begin

text \<open>
  Invariants of the continuity service along runs of its transactions: unique
  identifiers, fenced and leased ownership of work units, claim receipts, and terminal
  work.
\<close>

subsection \<open>Unique identifiers\<close>

lemma map_fst_supplied: "map fst (supplied ids n xs) = map ids [n..<n + length xs]"
  by (simp add: supplied_def comp_def case_prod_beta map_fst_enumerate [symmetric] del: map_fst_enumerate)

lemma distinct_supplied:
  assumes "distinct (map k t)" and "fresh_ids ids k t" and "\<And>x. k (f x) = fst x"
  shows "distinct (map k (t @ map f (supplied ids n xs)))"
proof -
  have new: "map k (map f (supplied ids n xs)) = map ids [n..<n + length xs]"
    by (simp add: comp_def assms(3) map_fst_supplied)
  have "distinct (map ids [n..<n + length xs])"
    using assms(2) by (simp add: fresh_ids_def distinct_map inj_on_def inj_def)
  moreover have "set (map k t) \<inter> set (map ids [n..<n + length xs]) = {}"
    using assms(2) unfolding fresh_ids_def set_map by blast
  ultimately show ?thesis using assms(1) unfolding map_append new distinct_append by blast
qed

lemma ids_ok_maps:
  assumes "ids_ok db" and "map ck_id (cd_checkpoints db') = map ck_id (cd_checkpoints db)"
    and "map bn_id (cd_bundles db') = map bn_id (cd_bundles db)"
    and "map dl_id (cd_deliveries db') = map dl_id (cd_deliveries db)"
    and "map wu_id (cd_units db') = map wu_id (cd_units db)"
  shows "ids_ok db'"
  using assms by (simp add: ids_ok_def)

lemma new_delivery_id [simp]: "dl_id (new_delivery project b v x) = fst x"
  by (simp add: new_delivery_def)

lemma cont_step_ids:
  assumes "cont_step clk db db'" and "ids_ok db"
  shows "ids_ok db'"
  using assms(1)
proof cases
  case (cs_policy P p a res)
  then show ?thesis using ids_ok_core set_policy_core assms(2) by blast
next
  case (cs_save P i p a res)
  show ?thesis
  proof (cases rule: save_effect [OF cs_save(1)])
    case 1
    then show ?thesis using ids_ok_core assms(2) by blast
  next
    case (2 d sd configured)
    then show ?thesis using assms(2) cs_save(2)
      by (auto simp: ids_ok_def core_def insert_row_def saved_checkpoint_def Let_def)
  qed
next
  case (cs_forget P later p a res)
  then show ?thesis
  proof (cases rule: forgetE [OF cs_forget])
    case 1
    then show ?thesis using ids_ok_core assms(2) by blast
  next
    case (2 c)
    obtain f where "cd_deliveries (erase_checkpoint clk (ck_id c) db)
      = map (\<lambda>d. if revoked_now (dependents (ck_id c) db) d then d\<lparr>dl_revoked_at := Some (f d)\<rparr> else d) (cd_deliveries db)"
      using erase_tables(2) [OF assms(2)] by blast
    then have "ids_ok (erase_checkpoint clk (ck_id c) db)"
      by (intro ids_ok_maps [OF assms(2)])
        (simp_all add: erase_tables [OF assms(2)] map_update_where erased_def cancelled_def update_where_def)
    then show ?thesis using ids_ok_core [OF 2(4)] by simp
  qed
next
  case (cs_publish P ids p a res)
  show ?thesis
  proof (cases rule: publishE [OF cs_publish(1)])
    case 1
    then show ?thesis using ids_ok_core assms(2) by blast
  next
    case (2 configured s recipients units b)
    have b: "bn_id b = ids 0" by (simp add: 2(10) published_bundle_def Let_def)
    have "ids 0 \<notin> bn_id ` set (cd_bundles db)" using cs_publish(2) unfolding fresh_ids_def by (metis imageE)
    then have "distinct (map bn_id (insert_row b (cd_bundles db)))"
      using assms(2) by (simp add: ids_ok_def insert_row_def b)
    moreover have "distinct (map dl_id (cd_deliveries db @ map (new_delivery (arg_str a ''project_id'') (ids 0) 1) (supplied ids 1 (sort recipients))))"
      using assms(2) cs_publish(3) by (intro distinct_supplied) (simp_all add: ids_ok_def)
    moreover have "distinct (map wu_id (cd_units db @ map (\<lambda>x. new_unit (fst x) (arg_str a ''project_id'') (ids 0) (snd x))
           (supplied ids (1 + length recipients) units)))"
      using assms(2) cs_publish(4) by (intro distinct_supplied) (simp_all add: ids_ok_def)
    ultimately show ?thesis using 2(11) assms(2) by (simp add: ids_ok_def core_def)
  qed
next
  case (cs_ack P p a res)
  show ?thesis
    by (cases rule: ackE [OF cs_ack])
      (use assms(2) in \<open>auto simp: ids_ok_def core_def map_update_where\<close>)
next
  case (cs_reassign P clk1 later unit_ids delivery_ids p a res)
  show ?thesis
  proof (cases rule: reassignE [OF cs_reassign(2)])
    case 1
    then show ?thesis using ids_ok_core assms(2) by blast
  next
    case (2 configured b existing takeover added f)
    have "distinct (map wu_id existing)" unfolding 2(3) by (rule existing_rows(1) [OF assms(2)])
    note eff = 2(10) [OF this]
    let ?new = "filter (\<lambda>u. u \<notin> set (map dl_recipient_user_id (live_deliveries (bn_id b) db)))
                 (sort (remdups (arg_strs a ''recipient_user_ids'')))"
    have "distinct (map dl_id (cd_deliveries db @ map (new_delivery (arg_str a ''project_id'') (bn_id b) (bn_version b + 1))
        (supplied delivery_ids 0 ?new)))"
      using assms(2) cs_reassign(4) by (intro distinct_supplied) (simp_all add: ids_ok_def)
    moreover have "distinct (map wu_id (cd_units db @ map (\<lambda>x. new_unit (fst x) (arg_str a ''project_id'') (bn_id b) (snd x))
           (supplied unit_ids 0 added)))"
      using assms(2) cs_reassign(3) by (intro distinct_supplied) (simp_all add: ids_ok_def)
    ultimately show ?thesis using eff assms(2)
      by (simp add: ids_ok_def core_def map_update_where comp_def)
  qed
next
  case (cs_claim P clk1 p a res)
  show ?thesis
    by (cases rule: claim_unitE [OF cs_claim(2)])
      (use assms(2) in \<open>auto simp: ids_ok_def core_def map_update_where\<close>)
next
  case (cs_renew P clk1 p a res)
  show ?thesis
    by (rule renew_unitE [OF cs_renew(2)]) (use assms(2) in \<open>simp add: ids_ok_def map_update_where\<close>)
next
  case (cs_release P clk1 p a res)
  show ?thesis
    by (cases rule: release_unitE [OF cs_release(2)])
      (use assms(2) in \<open>auto simp: ids_ok_def core_def map_update_where\<close>)
next
  case (cs_prune P p a res)
  then show ?thesis using ids_ok_core prune_core assms(2) by blast
next
  case cs_other
  then show ?thesis using ids_ok_core assms(2) by blast
qed

subsection \<open>Ownership is fenced and leased\<close>

definition unit_generation :: "cdb \<Rightarrow> string \<Rightarrow> nat option" where
  "unit_generation db k = map_option wu_claim_generation (unit_of k db)"

definition unit_owner :: "cdb \<Rightarrow> string \<Rightarrow> string option" where
  "unit_owner db k = (case unit_of k db of None \<Rightarrow> None | Some u \<Rightarrow> wu_claimed_by u)"

definition unit_live :: "cdb \<Rightarrow> string \<Rightarrow> time \<Rightarrow> bool" where
  "unit_live db k now \<longleftrightarrow> (\<exists>u. unit_of k db = Some u \<and> unit_held u now)"

definition unit_change :: "time \<Rightarrow> work_unit \<Rightarrow> work_unit \<Rightarrow> bool" where
  "unit_change now u u' \<longleftrightarrow> quiet_change now u u'
     \<or> (\<exists>actor token until. \<not> unit_held u now \<and> wu_state u \<in> {U_available, U_claimed} \<and> u' = claimed_unit actor token until u)"

lemma cont_step_unit:
  assumes "cont_step clk db db'" and "ids_ok db" and "unit_of k db = Some u"
  shows "\<exists>u'. unit_of k db' = Some u' \<and> unit_change (clk 0) u u'"
proof (cases "quiet_step (clk 0) db db'")
  case True
  then show ?thesis using units_to_lookup assms(3) unfolding quiet_step_def unit_change_def by blast
next
  case False
  then obtain v actor token until where v: "v \<in> set (cd_units db)" "\<not> unit_held v (clk 0)" "wu_state v \<in> {U_available, U_claimed}"
      "cd_units db' = update_where (\<lambda>x. wu_id x = wu_id v) (claimed_unit actor token until) (cd_units db)"
    using cont_step_units [OF assms(1,2)] unfolding claim_step_def by blast
  have "unit_of k db' = Some (if wu_id u = wu_id v then claimed_unit actor token until u else u)"
    using assms(3) by (simp add: unit_of_def v(4) fetchrow_update_where)
  moreover have "wu_id u = wu_id v \<Longrightarrow> u = v"
    using unit_ofI [OF assms(2) v(1)] assms(3) unit_ofD [OF assms(3)] by simp
  ultimately show ?thesis using v(2,3) qc_same unfolding unit_change_def by auto
qed

lemma unit_change_generation: "unit_change now u u' \<Longrightarrow> wu_claim_generation u \<le> wu_claim_generation u'"
  by (auto simp: unit_change_def claimed_unit_def released_unit_def reassigned_def cancelled_def elim!: quiet_changeE)

lemma unit_change_owner:
  "unit_change now u u' \<Longrightarrow> wu_claim_generation u' = wu_claim_generation u \<Longrightarrow> wu_claimed_by u' = Some p \<Longrightarrow> wu_claimed_by u = Some p"
  by (auto simp: unit_change_def claimed_unit_def released_unit_def reassigned_def cancelled_def elim!: quiet_changeE)

lemma unit_change_held:
  "unit_change now u u' \<Longrightarrow> unit_held u now \<Longrightarrow> wu_claimed_by u' = wu_claimed_by u \<or> wu_claimed_by u' = None"
  by (auto simp: unit_change_def claimed_unit_def released_unit_def reassigned_def cancelled_def elim!: quiet_changeE)

interpretation wl: leased cont_step ids_ok unit_generation unit_owner unit_live
proof
  fix clk :: clock and db db' :: cdb and k :: string and g :: nat and p :: string
  assume inv: "ids_ok db" and step: "cont_step clk db db'"
  then show "ids_ok db'" by (blast intro: cont_step_ids)
  note change = cont_step_unit [OF step inv]
  show "\<exists>g' \<ge> g. unit_generation db' k = Some g'" if "unit_generation db k = Some g"
    using that change unit_change_generation by (fastforce simp: unit_generation_def)
  show "unit_owner db k = Some p"
    if "unit_generation db k = Some g" "unit_generation db' k = Some g" "unit_owner db' k = Some p"
    using that change unit_change_owner by (fastforce simp: unit_generation_def unit_owner_def)
  show "unit_owner db' k = unit_owner db k \<or> unit_owner db' k = None" if "unit_live db k (clk 0)"
    using that change unit_change_held by (fastforce simp: unit_live_def unit_owner_def)
qed

end
