(* ===== verification/Continuity_Props.thy ===== *)
theory Continuity_Props
  imports Continuity_Invariants
begin

text \<open>
  Properties of work ownership: what runs of the continuity service keep of claims,
  leases and terminal work, and what a single claim or renewal achieves.
\<close>

subsection \<open>Fencing\<close>

lemma run_ids: "run cont_step db ts db' \<Longrightarrow> ids_ok db \<Longrightarrow> ids_ok db'"
  by (rule wl.inv_run)

lemma unit_generationI: "unit_of k db = Some u \<Longrightarrow> unit_generation db k = Some (wu_claim_generation u)"
  by (simp add: unit_generation_def)

lemma unit_ownerI: "unit_of k db = Some u \<Longrightarrow> unit_owner db k = wu_claimed_by u"
  by (simp add: unit_owner_def)

text \<open>A holder who has lost a unit never comes back under the same generation.\<close>

lemma lost_generation:
  assumes "run cont_step db ts db1" and "run cont_step db1 ts' db2" and "ids_ok db"
    and u: "unit_of k db = Some u" "wu_claimed_by u = Some p"
    and u1: "unit_of k db1 = Some u1" "wu_claimed_by u1 \<noteq> Some p"
    and u2: "unit_of k db2 = Some u2" "wu_claimed_by u2 = Some q" "wu_claim_generation u2 = wu_claim_generation u"
  shows False
proof -
  let ?g = "wu_claim_generation u"
  have ok1: "ids_ok db1" using run_ids [OF assms(1,3)] .
  have g: "unit_generation db k = Some ?g" "unit_generation db2 k = Some ?g"
    using u(1) u2 by (simp_all add: unit_generationI)
  obtain g1 where g1: "?g \<le> g1" "unit_generation db1 k = Some g1" using wl.gen_run [OF assms(1,3) g(1)] by blast
  obtain g2 where "g1 \<le> g2" "unit_generation db2 k = Some g2" using wl.gen_run [OF assms(2) ok1 g1(2)] by blast
  with g(2) g1 have gen1: "unit_generation db1 k = Some ?g" by simp
  have owner2: "unit_owner db2 k = Some q" using u2 by (simp add: unit_ownerI)
  have "unit_owner db1 k = Some q" using wl.owner_run [OF assms(2) ok1 gen1 g(2) owner2] .
  moreover have "unit_owner db k = Some q"
    using wl.owner_run [OF run_append [OF assms(1,2)] assms(3) g(1) g(2) owner2] .
  ultimately show False using u u1 by (simp add: unit_ownerI)
qed

lemma not_inactiveD:
  assumes "\<not> inactive P u a actor now"
  shows "wu_state u = U_claimed" "wu_claimed_by u = Some actor" "wu_claim_token_digest u = Some (arg_token P a)"
    "int (wu_claim_generation u) = arg_int a ''claim_generation''" "after (wu_lease_expires_at u) now"
  using assms by (simp_all add: inactive_def)

text \<open>
  C21. A lost claim is dead: once somebody who held a work unit is no longer its owner (by
  expiry and takeover, release, reassignment or erasure), no transaction of any later state
  renews or releases the unit under the generation of that claim, whoever sends it and
  whatever token it carries.
\<close>

theorem work_lost_claim_is_dead:
  assumes "run cont_step db ts db1" and "run cont_step db1 ts' db2" and "ids_ok db"
    and "unit_of k db = Some u" and "wu_claimed_by u = Some p"
    and "unit_of k db1 = Some u1" and "wu_claimed_by u1 \<noteq> Some p"
    and "arg_str a ''unit_id'' = k" and "arg_int a ''claim_generation'' = int (wu_claim_generation u)"
  shows "\<not> is_ok (renew_unit P clk q a db2)
    \<and> (\<forall>db3 res. release_unit P clk q a db2 = Inr (db3, res) \<longrightarrow> cd_units db3 = cd_units db2)"
proof -
  have ok2: "ids_ok db2" using run_ids assms(1-3) by blast
  have dead: False if "locate_unit (clk 0) q a db2 = Inr (u2, b)" "\<not> inactive P u2 a (p_user_id q) (clk 1)" for u2 b
  proof (rule lost_generation [OF assms(1-7)])
    show "unit_of k db2 = Some u2" using locate_unitE(1) [OF that(1) ok2] assms(8) by simp
    show "wu_claimed_by u2 = Some (p_user_id q)" using not_inactiveD(2) [OF that(2)] .
    show "wu_claim_generation u2 = wu_claim_generation u" using not_inactiveD(4) [OF that(2)] assms(9) by simp
  qed
  have "\<not> is_ok (renew_unit P clk q a db2)"
  proof
    assume "is_ok (renew_unit P clk q a db2)"
    then obtain db3 res where "renew_unit P clk q a db2 = Inr (db3, res)" by (auto simp: is_ok_iff)
    then show False by (rule renew_unitE) (use dead in blast)
  qed
  moreover have "cd_units db3 = cd_units db2" if "release_unit P clk q a db2 = Inr (db3, res)" for db3 res
    using that by (cases rule: release_unitE) (use dead core_fields(4) in blast)+
  ultimately show ?thesis by blast
qed

subsection \<open>Interruption\<close>

lemma takeover_allowed:
  assumes "\<forall>c \<in> set (takeover_checks configured a existing). \<not> fst c" and "arg_strs a ''takeover_unit_keys'' \<noteq> []"
  shows "truthy (py_get (pr_policy configured) ''allow_emergency_takeover'')
    \<and> py_get a ''confirm_running_work_may_continue'' = PBool True"
proof -
  let ?e = "truthy (get_or a ''emergency_takeover'' (PBool False))"
  have "\<not> (?e \<and> \<not> (truthy (py_get (pr_policy configured) ''allow_emergency_takeover'')
        \<and> py_get a ''confirm_running_work_may_continue'' = PBool True))"
    using assms(1) unfolding takeover_checks_def Let_def set_simps ball_simps fst_conv by blast
  moreover have "\<not> (arg_strs a ''takeover_unit_keys'' \<noteq> [] \<and> \<not> ?e)"
    using assms(1) unfolding takeover_checks_def Let_def set_simps ball_simps fst_conv by blast
  ultimately show ?thesis using assms(2) by blast
qed

text \<open>
  Nobody is interrupted by another claim: in one transaction a unit passes from one
  owner to another only when the lease of the first is over at the time the transaction
  decides on, and then under a higher generation. And a reassignment takes a unit from a
  holder whose lease is running only as an emergency takeover that names the unit, is
  allowed by the policy and confirms that running work may continue.
\<close>

lemma work_takeover_needs_expiry:
  assumes "ids_ok db"
  shows "(cont_step clk db db' \<and> unit_owner db k = Some p \<and> unit_owner db' k = Some q \<and> p \<noteq> q \<longrightarrow>
       \<not> unit_live db k (clk 0) \<and> (\<exists>g g'. unit_generation db k = Some g \<and> unit_generation db' k = Some g' \<and> g < g'))
    \<and> (reassign P clk later unit_ids delivery_ids r a db = Inr (db', res) \<and> unit_live db k (clk 1)
        \<and> unit_owner db' k \<noteq> unit_owner db k \<longrightarrow>
       (\<exists>u configured. unit_of k db = Some u \<and> wu_unit_key u \<in> set (arg_strs a ''takeover_unit_keys'')
         \<and> policy (arg_str a ''project_id'') True db = Inr configured
         \<and> truthy (py_get (pr_policy configured) ''allow_emergency_takeover'')
         \<and> py_get a ''confirm_running_work_may_continue'' = PBool True))"
proof (intro conjI impI)
  assume h: "cont_step clk db db' \<and> unit_owner db k = Some p \<and> unit_owner db' k = Some q \<and> p \<noteq> q"
  then have step: "cont_step clk db db'" "unit_owner db k = Some p" "unit_owner db' k = Some q" "p \<noteq> q" by auto
  show "\<not> unit_live db k (clk 0)" using wl.takeover_needs_expiry [OF assms step] .
  obtain u where "unit_of k db = Some u" using step(2) by (auto simp: unit_owner_def split: option.splits)
  then have "unit_generation db k = Some (wu_claim_generation u)" by (rule unit_generationI)
  then show "\<exists>g g'. unit_generation db k = Some g \<and> unit_generation db' k = Some g' \<and> g < g'"
    using wl.takeover_new_generation [OF assms step] by blast
next
  assume h: "reassign P clk later unit_ids delivery_ids r a db = Inr (db', res) \<and> unit_live db k (clk 1)
        \<and> unit_owner db' k \<noteq> unit_owner db k"
  then obtain u where u: "unit_of k db = Some u" "unit_held u (clk 1)" by (auto simp: unit_live_def)
  from h have "reassign P clk later unit_ids delivery_ids r a db = Inr (db', res)" by blast
  then show "\<exists>u configured. unit_of k db = Some u \<and> wu_unit_key u \<in> set (arg_strs a ''takeover_unit_keys'')
         \<and> policy (arg_str a ''project_id'') True db = Inr configured
         \<and> truthy (py_get (pr_policy configured) ''allow_emergency_takeover'')
         \<and> py_get a ''confirm_running_work_may_continue'' = PBool True"
  proof (cases rule: reassignE)
    case same
    then show ?thesis using h unit_of_core [OF same] by (simp add: unit_owner_def)
  next
    case (reassigned configured b existing takeover added f)
    have mem: "u \<in> set (cd_units db)" "wu_id u = k" using unit_ofD [OF u(1)] by auto
    have d: "distinct (map wu_id existing)" unfolding reassigned(3) by (rule existing_rows(1) [OF assms])
    let ?to = "reassign_to (clk 1) takeover (arg_units a) existing"
    have "cd_units db' = map ?to (cd_units db)
        @ map (\<lambda>x. new_unit (fst x) (arg_str a ''project_id'') (bn_id b) (snd x)) (supplied unit_ids 0 added)"
      using core_fields(4) [OF reassigned(10) [OF d]] by simp
    then have "unit_of k db' = Some (?to u)" by (rule unit_of_map [OF _ reassign_to_id u(1)])
    then have "?to u \<noteq> u" using h u(1) by (auto simp: unit_owner_def)
    then have "reassign_row (clk 1) takeover (selected (arg_units a) (wu_unit_key u)) u = Inr True"
      unfolding reassigned(3) by (simp add: reassign_to_row [OF assms mem(1)] split: if_splits)
    then have key: "wu_unit_key u \<in> set takeover" using reassign_row_True u(2) by blast
    then have "takeover \<noteq> []" by auto
    then have "truthy (py_get (pr_policy configured) ''allow_emergency_takeover'')"
        "py_get a ''confirm_running_work_may_continue'' = PBool True"
      using takeover_allowed reassigned(4,6) by blast+
    then show ?thesis using u(1) key reassigned(1,4) by blast
  qed
qed

subsection \<open>Claim receipts\<close>

definition claims_ok :: "cdb \<Rightarrow> bool" where
  "claims_ok db \<longleftrightarrow> ids_ok db
     \<and> (\<forall>u \<in> set (cd_units db). \<forall>a t. wu_claimed_by u = Some a \<longrightarrow> wu_claim_token_digest u = Some t \<longrightarrow>
          (\<exists>c \<in> set (cd_claims db). wc_unit_id c = wu_id u \<and> wc_actor_id c = a \<and> wc_claim_token_digest c = t
             \<and> wc_claim_generation c = wu_claim_generation u))
     \<and> (\<forall>c \<in> set (cd_claims db). \<forall>d \<in> set (cd_claims db). wc_unit_id c = wc_unit_id d \<longrightarrow> wc_actor_id c = wc_actor_id d
          \<longrightarrow> wc_claim_token_digest c = wc_claim_token_digest d \<longrightarrow> wc_claim_generation c = wc_claim_generation d)"

lemma claims_okD:
  assumes "claims_ok db" and "u \<in> set (cd_units db)" and "wu_claimed_by u = Some a" and "wu_claim_token_digest u = Some t"
  shows "\<exists>c \<in> set (cd_claims db). wc_unit_id c = wu_id u \<and> wc_actor_id c = a \<and> wc_claim_token_digest c = t
     \<and> wc_claim_generation c = wu_claim_generation u"
  using assms unfolding claims_ok_def by blast

lemma claims_okI:
  assumes "ids_ok db'"
    and "\<And>u a t. u \<in> set (cd_units db') \<Longrightarrow> wu_claimed_by u = Some a \<Longrightarrow> wu_claim_token_digest u = Some t \<Longrightarrow>
       \<exists>c \<in> set (cd_claims db'). wc_unit_id c = wu_id u \<and> wc_actor_id c = a \<and> wc_claim_token_digest c = t
         \<and> wc_claim_generation c = wu_claim_generation u"
    and "\<And>c d. c \<in> set (cd_claims db') \<Longrightarrow> d \<in> set (cd_claims db') \<Longrightarrow> wc_unit_id c = wc_unit_id d \<Longrightarrow>
       wc_actor_id c = wc_actor_id d \<Longrightarrow> wc_claim_token_digest c = wc_claim_token_digest d \<Longrightarrow> wc_claim_generation c = wc_claim_generation d"
  shows "claims_ok db'"
  unfolding claims_ok_def using assms by blast

lemma claims_ok_unique:
  assumes "claims_ok db" and "c \<in> set (cd_claims db)" and "d \<in> set (cd_claims db)"
    and "wc_unit_id c = wc_unit_id d" and "wc_actor_id c = wc_actor_id d" and "wc_claim_token_digest c = wc_claim_token_digest d"
  shows "wc_claim_generation c = wc_claim_generation d"
  using assms unfolding claims_ok_def by blast

lemma quiet_change_claim:
  "quiet_change now u u' \<Longrightarrow> wu_claimed_by u' = Some a \<Longrightarrow>
     wu_claimed_by u = Some a \<and> wu_claim_token_digest u' = wu_claim_token_digest u \<and> wu_claim_generation u' = wu_claim_generation u"
  by (auto simp: released_unit_def reassigned_def cancelled_def elim!: quiet_changeE)

lemma claims_ok_quiet:
  assumes "claims_ok db" and "quiet_step now db db'" and "ids_ok db'"
  shows "claims_ok db'"
proof -
  obtain f new where f: "cd_units db' = map f (cd_units db) @ new" "\<And>u. wu_id (f u) = wu_id u"
      "\<And>u. u \<in> set (cd_units db) \<Longrightarrow> quiet_change now u (f u)" "\<And>u. u \<in> set new \<Longrightarrow> wu_claimed_by u = None"
    and claims: "cd_claims db' = cd_claims db"
    using assms(2) unfolding quiet_step_def units_to_def by blast
  show ?thesis
  proof (rule claims_okI [OF assms(3)])
    fix v a t assume v: "v \<in> set (cd_units db')" "wu_claimed_by v = Some a" "wu_claim_token_digest v = Some t"
    have "v \<notin> set new" using f(4) v(2) by auto
    then obtain u where u: "u \<in> set (cd_units db)" "v = f u" using v(1) by (auto simp: f(1))
    have "wu_claimed_by u = Some a" "wu_claim_token_digest u = Some t" "wu_claim_generation v = wu_claim_generation u" "wu_id v = wu_id u"
      using quiet_change_claim [OF f(3) [OF u(1)]] v(2,3) u(2) f(2) by simp_all
    then show "\<exists>c \<in> set (cd_claims db'). wc_unit_id c = wu_id v \<and> wc_actor_id c = a \<and> wc_claim_token_digest c = t
         \<and> wc_claim_generation c = wu_claim_generation v"
      using claims_okD [OF assms(1) u(1)] by (simp add: claims)
  next
    fix c d assume "c \<in> set (cd_claims db')" "d \<in> set (cd_claims db')" "wc_unit_id c = wc_unit_id d"
       "wc_actor_id c = wc_actor_id d" "wc_claim_token_digest c = wc_claim_token_digest d"
    then show "wc_claim_generation c = wc_claim_generation d" unfolding claims by (rule claims_ok_unique [OF assms(1)])
  qed
qed

lemma claims_ok_claim:
  assumes "claims_ok db" and "claim_step now db db'" and "ids_ok db'"
  shows "claims_ok db'"
proof -
  obtain u actor token until project where u: "u \<in> set (cd_units db)" "\<not> token_used (wu_id u) actor token db"
      "cd_units db' = update_where (\<lambda>x. wu_id x = wu_id u) (claimed_unit actor token until) (cd_units db)"
      "cd_claims db' = insert_row \<lparr>wc_unit_id = wu_id u, wc_project_id = project, wc_actor_id = actor,
         wc_claim_token_digest = token, wc_claim_generation = wu_claim_generation u + 1\<rparr> (cd_claims db)"
    using assms(2) unfolding claim_step_def by blast
  let ?c = "\<lparr>wc_unit_id = wu_id u, wc_project_id = project, wc_actor_id = actor,
         wc_claim_token_digest = token, wc_claim_generation = wu_claim_generation u + 1\<rparr>"
  have ids: "ids_ok db" using assms(1) by (simp add: claims_ok_def)
  have claims: "set (cd_claims db') = insert ?c (set (cd_claims db))" by (simp add: u(4) sql)
  have unused: "\<not> (wc_unit_id c = wu_id u \<and> wc_actor_id c = actor \<and> wc_claim_token_digest c = token)"
    if "c \<in> set (cd_claims db)" for c
    using u(2) that by (auto simp: token_used_def sql)
  show ?thesis
  proof (rule claims_okI [OF assms(3)])
    fix v a t assume v: "v \<in> set (cd_units db')" "wu_claimed_by v = Some a" "wu_claim_token_digest v = Some t"
    obtain x where x: "x \<in> set (cd_units db)" "v = (if wu_id x = wu_id u then claimed_unit actor token until x else x)"
      using v(1) by (auto simp: u(3) sql)
    show "\<exists>c \<in> set (cd_claims db'). wc_unit_id c = wu_id v \<and> wc_actor_id c = a \<and> wc_claim_token_digest c = t
         \<and> wc_claim_generation c = wu_claim_generation v"
    proof (cases "wu_id x = wu_id u")
      case True
      then have "x = u" using unit_ofI [OF ids x(1)] unit_ofI [OF ids u(1)] by (metis option.inject)
      then have "v = claimed_unit actor token until u" using x(2) by simp
      then have "wu_id v = wu_id u" "a = actor" "t = token" "wu_claim_generation v = wu_claim_generation u + 1"
        using v(2,3) by (simp_all add: claimed_unit_def)
      then show ?thesis unfolding claims by (intro bexI [of _ ?c]) simp_all
    next
      case False
      then have "v = x" using x(2) by simp
      then show ?thesis using claims_okD [OF assms(1) x(1)] v(2,3) unfolding claims by blast
    qed
  next
    fix c d assume "c \<in> set (cd_claims db')" "d \<in> set (cd_claims db')" and e: "wc_unit_id c = wc_unit_id d"
       "wc_actor_id c = wc_actor_id d" "wc_claim_token_digest c = wc_claim_token_digest d"
    then have "c = ?c \<or> c \<in> set (cd_claims db)" "d = ?c \<or> d \<in> set (cd_claims db)"
      by (simp_all only: claims insert_iff)
    then show "wc_claim_generation c = wc_claim_generation d"
    proof (elim disjE)
      assume "c = ?c" "d = ?c"
      then show ?thesis by simp
    next
      assume "c = ?c" "d \<in> set (cd_claims db)"
      then show ?thesis using unused [of d] e by simp
    next
      assume "c \<in> set (cd_claims db)" "d = ?c"
      then show ?thesis using unused [of c] e by simp
    next
      assume "c \<in> set (cd_claims db)" "d \<in> set (cd_claims db)"
      then show ?thesis using e by (rule claims_ok_unique [OF assms(1)])
    qed
  qed
qed

lemma claim_step_keeps: "claim_step now db db' \<Longrightarrow> set (cd_claims db) \<subseteq> set (cd_claims db')"
  unfolding claim_step_def by (elim exE conjE) (simp add: sql subset_insertI)

lemma cont_step_claims:
  assumes "claims_ok db" and "cont_step clk db db'"
  shows "claims_ok db'" and "set (cd_claims db) \<subseteq> set (cd_claims db')"
proof -
  have ids: "ids_ok db" using assms(1) by (simp add: claims_ok_def)
  have ids': "ids_ok db'" using cont_step_ids [OF assms(2) ids] .
  consider "quiet_step (clk 0) db db'" | "claim_step (clk 0) db db'" using cont_step_units [OF assms(2) ids] by blast
  then have "claims_ok db' \<and> set (cd_claims db) \<subseteq> set (cd_claims db')"
  proof cases
    case 1
    then show ?thesis using claims_ok_quiet [OF assms(1) 1 ids'] unfolding quiet_step_def by simp
  next
    case 2
    then show ?thesis using claims_ok_claim [OF assms(1) _ ids'] claim_step_keeps by blast
  qed
  then show "claims_ok db'" and "set (cd_claims db) \<subseteq> set (cd_claims db')" by auto
qed

text \<open>
  Single use of claim tokens: a token under which somebody once claimed a unit never
  stands for another claim of it. Whenever the unit is held by that user under that token,
  however many transactions later, it is the same claim, with the same generation.
\<close>

lemma work_token_single_use:
  assumes "run cont_step db ts db'" and "claims_ok db" and "c \<in> set (cd_claims db)"
    and "unit_of (wc_unit_id c) db' = Some u" and "wu_claimed_by u = Some (wc_actor_id c)"
    and "wu_claim_token_digest u = Some (wc_claim_token_digest c)"
  shows "wu_claim_generation u = wc_claim_generation c"
proof -
  have "claims_ok db' \<and> set (cd_claims db) \<subseteq> set (cd_claims db')"
    using assms(1,2)
  proof (induction rule: run.induct)
    case (run_cons t s u ts s')
    then show ?case using cont_step_claims [OF run_cons.prems run_cons.hyps(1)] by blast
  qed simp
  then have ok: "claims_ok db'" and c: "c \<in> set (cd_claims db')" using assms(3) by blast+
  obtain d where d: "d \<in> set (cd_claims db')" "wc_unit_id d = wu_id u" "wc_actor_id d = wc_actor_id c"
      "wc_claim_token_digest d = wc_claim_token_digest c" "wc_claim_generation d = wu_claim_generation u"
    using claims_okD [OF ok _ assms(5,6)] unit_ofD [OF assms(4)] by blast
  have "wc_unit_id d = wc_unit_id c" using d(2) unit_ofD [OF assms(4)] by simp
  with d show ?thesis using claims_ok_unique [OF ok d(1) c] by simp
qed

subsection \<open>Terminal work\<close>

definition terminal :: "work_unit \<Rightarrow> bool" where
  "terminal u \<longleftrightarrow> wu_state u = U_completed \<or> wu_state u = U_cancelled"

lemma terminal_not_held: "terminal u \<Longrightarrow> \<not> unit_held u now"
  by (auto simp: terminal_def unit_held_def)

lemma unit_change_terminal:
  "unit_change now u u' \<Longrightarrow> terminal u \<Longrightarrow> wu_state u' = wu_state u \<or> wu_state u' = U_cancelled"
  by (auto simp: unit_change_def terminal_def unit_held_def cancelled_def elim!: quiet_changeE)

lemma terminal_run:
  assumes "run cont_step db ts db'" and "ids_ok db" and "unit_of k db = Some u" and "terminal u"
  shows "\<exists>u'. unit_of k db' = Some u' \<and> (wu_state u' = wu_state u \<or> wu_state u' = U_cancelled)"
  using assms
proof (induction arbitrary: u rule: run.induct)
  case (run_cons t s v ts s')
  obtain u1 where u1: "unit_of k v = Some u1" "unit_change (t 0) u u1"
    using cont_step_unit [OF run_cons.hyps(1) run_cons.prems(1,2)] by blast
  have st: "wu_state u1 = wu_state u \<or> wu_state u1 = U_cancelled" using unit_change_terminal u1(2) run_cons.prems(3) by blast
  then have "terminal u1" using run_cons.prems(3) by (auto simp: terminal_def)
  then obtain u' where "unit_of k s' = Some u'" "wu_state u' = wu_state u1 \<or> wu_state u' = U_cancelled"
    using run_cons.IH [OF _ u1(1)] cont_step_ids [OF run_cons.hyps(1) run_cons.prems(1)] by blast
  with st show ?case by auto
qed simp

text \<open>
  Terminal work stays terminal: a unit that was reported completed or was cancelled
  never leaves these states (a completed one can only become cancelled, by the erasure of
  its source), and no claim and no renewal of it succeeds in any later state.
\<close>

lemma terminal_final:
  assumes "run cont_step db ts db'" and "ids_ok db" and "unit_of k db = Some u" and "terminal u"
    and "arg_str a ''unit_id'' = k"
  shows "(\<exists>u'. unit_of k db' = Some u' \<and> (wu_state u' = wu_state u \<or> wu_state u' = U_cancelled))
    \<and> \<not> is_ok (claim_unit P clk p a db') \<and> \<not> is_ok (renew_unit P clk p a db')"
proof -
  obtain u' where u': "unit_of k db' = Some u'" "wu_state u' = wu_state u \<or> wu_state u' = U_cancelled"
    using terminal_run [OF assms(1-4)] by blast
  then have t: "terminal u'" using assms(4) by (auto simp: terminal_def)
  have ids: "ids_ok db'" using run_ids assms(1,2) .
  have loc: "v = u'" if "locate_unit now p a db' = Inr (v, b)" for now v b
    using locate_unitE(1) [OF that ids] u'(1) assms(5) by simp
  have "\<not> is_ok (claim_unit P clk p a db')"
  proof
    assume "is_ok (claim_unit P clk p a db')"
    then obtain db3 res where ok: "claim_unit P clk p a db' = Inr (db3, res)" by (auto simp: is_ok_iff)
    show False
    proof (cases rule: claim_unitE [OF ok])
      case (1 v b)
      then show False using loc [OF 1(1)] terminal_not_held [OF t] by blast
    next
      case (2 v b configured until u1)
      then show False using loc [OF 2(2)] t by (auto simp: terminal_def)
    qed
  qed
  moreover have "\<not> is_ok (renew_unit P clk p a db')"
  proof
    assume "is_ok (renew_unit P clk p a db')"
    then obtain db3 res where "renew_unit P clk p a db' = Inr (db3, res)" by (auto simp: is_ok_iff)
    then show False
      by (rule renew_unitE) (use loc inactive_held terminal_not_held [OF t] in blast)
  qed
  ultimately show ?thesis using u' by blast
qed

subsection \<open>What one claim and one renewal achieve\<close>

lemma locate_unit_again:
  assumes "locate_unit now p a db = Inr (u, b)" and "now' < bn_expires_at b"
    and "core db' = core (db\<lparr>cd_units := update_where (\<lambda>x. wu_id x = wu_id u) f (cd_units db), cd_claims := claims\<rparr>)"
    and "\<And>x. wu_id (f x) = wu_id x \<and> wu_project_id (f x) = wu_project_id x \<and> wu_bundle_id (f x) = wu_bundle_id x
      \<and> wu_assignee_user_ids (f x) = wu_assignee_user_ids x"
  shows "locate_unit now' p a db' = Inr (f u, b)"
proof -
  let ?q = "\<lambda>u. wu_project_id u = arg_str a ''project_id'' \<and> wu_id u = arg_str a ''unit_id''"
  obtain u' where u': "fetchrow ?q (cd_units db) = Some u'"
    using assms(1) by (auto simp: locate_unit_def split: option.splits)
  then have loc: "p_user_id p \<in> set (wu_assignee_user_ids u)" "bundle_row now (arg_str a ''project_id'') (wu_bundle_id u) True db = Inr b" "u' = u"
      "exists_row (\<lambda>d. dl_bundle_id d = wu_bundle_id u \<and> dl_recipient_user_id d = p_user_id p \<and> dl_revoked_at d = None) (cd_deliveries db)"
    using assms(1) by (auto simp: locate_unit_def and_then_Inr_iff split: if_splits)
  have fetch: "fetchrow ?q (cd_units db') = Some (f u)"
    using u' fetchrow_update_where [of "\<lambda>x. wu_id x = wu_id u" ?q f "cd_units db"] assms(4) core_fields(4) [OF assms(3)] loc(3)
    by simp
  have "bundle_row now' (arg_str a ''project_id'') (wu_bundle_id u) True db' = Inr b"
    using loc(2) assms(2) core_fields(2) [OF assms(3)] by (auto simp: bundle_row_def split: option.splits)
  then show ?thesis using fetch loc(1,4) assms(4) core_fields(3) [OF assms(3)]
    by (simp add: locate_unit_def checked_def)
qed

lemma claim_unit_policies:
  assumes "claim_unit P clk p a db = Inr (db', res)"
  shows "cd_policies db' = cd_policies db"
proof -
  obtain configured u b where loc: "policy (arg_str a ''project_id'') True db = Inr configured" "locate_unit (clk 0) p a db = Inr (u, b)"
    using assms by (auto simp: claim_unit_def Let_def and_then_Inr_iff)
  show ?thesis
  proof (cases "unit_held u (clk 1)")
    case True
    then show ?thesis using assms loc by (auto simp: claim_unit_def Let_def and_then_Inr_iff)
  next
    case False
    obtain actor target details units claims where ev: "event (clk 2) (arg_str a ''project_id'') actor ''claim'' target details
        (db\<lparr>cd_units := units, cd_claims := claims\<rparr>) = Inr db'"
      using assms loc False by (auto simp: claim_unit_def Let_def and_then_Inr_iff)
    then show ?thesis using event_good [OF ev] log_frame_fields(1) unfolding log_good_def by fastforce
  qed
qed

text \<open>
  What a claim achieves: the unit is held by the caller under the token of the request
  and is what the answer shows; a fresh claim goes to the next generation and its lease ends
  within the expiry of the bundle and the lease time of the policy; and repeating the
  request while the lease runs gives the same answer, marked as a replay, and changes
  nothing.
\<close>

lemma work_claim_gives_lease:
  assumes "claim_unit P clk p a db = Inr (db', res)" and "ids_ok db"
  shows "\<exists>u u' b lease. unit_of (arg_str a ''unit_id'') db = Some u \<and> unit_of (arg_str a ''unit_id'') db' = Some u'
    \<and> wu_state u' = U_claimed \<and> wu_claimed_by u' = Some (p_user_id p) \<and> wu_claim_token_digest u' = Some (arg_token P a)
    \<and> wu_lease_expires_at u' = Some lease \<and> p_user_id p \<in> set (wu_assignee_user_ids u')
    \<and> (db' \<noteq> db \<longrightarrow> wu_claim_generation u' = wu_claim_generation u + 1 \<and> lease \<le> bn_expires_at b
         \<and> (\<exists>configured. policy (arg_str a ''project_id'') True db = Inr configured
              \<and> lease \<le> clk 1 + seconds (arg_int (pr_policy configured) ''lease_seconds'')))
    \<and> (\<forall>clk'. clk' 0 < bn_expires_at b \<and> clk' 1 < lease \<longrightarrow>
         claim_unit P clk' p a db' = Inr (db', unit_result u' b @ [(''replayed'', PBool True)]))"
proof (cases rule: claim_unitE [OF assms(1)])
  case (1 u b)
  obtain configured where pol: "policy (arg_str a ''project_id'') True db = Inr configured"
    and route: "\<not> (has_key a ''expected_routing_version'' \<and> int (bn_version b) \<noteq> arg_int a ''expected_routing_version'')"
    and gen: "\<not> (has_key a ''expected_generation'' \<and> arg_int a ''expected_generation'' \<noteq> int (wu_claim_generation u) - 1)"
    using assms(1) 1(1,2) by (auto simp: claim_unit_def Let_def and_then_Inr_iff)
  note u = locate_unitE [OF 1(1) assms(2)]
  obtain lease where l: "wu_lease_expires_at u = Some lease" "wu_state u = U_claimed"
    using 1(2) by (auto simp: unit_held_def after_iff)
  have "claim_unit P clk' p a db = Inr (db, unit_result u b @ [(''replayed'', PBool True)])"
    if t: "clk' 0 < bn_expires_at b" "clk' 1 < lease" for clk'
  proof -
    have "core db = core (db\<lparr>cd_units := update_where (\<lambda>x. wu_id x = wu_id u) (\<lambda>x. x) (cd_units db), cd_claims := cd_claims db\<rparr>)"
      by (simp add: core_def update_where_def)
    then have "locate_unit (clk' 0) p a db = Inr ((\<lambda>x. x) u, b)"
      by (rule locate_unit_again [OF 1(1) t(1), where f = "\<lambda>x. x"]) simp
    then have "locate_unit (clk' 0) p a db = Inr (u, b)" .
    moreover have "unit_held u (clk' 1)" using l t(2) by (simp add: unit_held_def)
    ultimately show ?thesis using pol route gen 1(3,4) by (simp add: claim_unit_def checked_def)
  qed
  then show ?thesis using u(1,4) l 1(3-5) by (intro exI [of _ u] exI [of _ b] exI [of _ lease]) auto
next
  case (2 u b configured until u1)
  have route: "\<not> (has_key a ''expected_routing_version'' \<and> int (bn_version b) \<noteq> arg_int a ''expected_routing_version'')"
    and gen: "\<not> (has_key a ''expected_generation'' \<and> int (wu_claim_generation u) \<noteq> arg_int a ''expected_generation'')"
    using assms(1) 2(1-3) by (auto simp: claim_unit_def Let_def and_then_Inr_iff claim_checks_def)
  note u = locate_unitE [OF 2(2) assms(2)]
  have u1: "wu_state u1 = U_claimed" "wu_claimed_by u1 = Some (p_user_id p)" "wu_claim_token_digest u1 = Some (arg_token P a)"
      "wu_lease_expires_at u1 = Some until" "wu_claim_generation u1 = wu_claim_generation u + 1"
      "wu_assignee_user_ids u1 = wu_assignee_user_ids u"
    by (simp_all add: 2(7) claimed_unit_def)
  have now: "unit_of (arg_str a ''unit_id'') db' = Some u1"
    using u(1,2) core_fields(4) [OF 2(9)] by (simp add: unit_of_def fetchrow_update_where 2(7))
  have pol: "policy (arg_str a ''project_id'') True db' = Inr configured"
    using 2(1) claim_unit_policies [OF assms(1)] by (simp add: policy_def)
  have replay: "claim_unit P clk' p a db' = Inr (db', unit_result u1 b @ [(''replayed'', PBool True)])"
    if t: "clk' 0 < bn_expires_at b" "clk' 1 < until" for clk'
  proof -
    have "locate_unit (clk' 0) p a db' = Inr (u1, b)"
      unfolding 2(7) by (rule locate_unit_again [OF 2(2) t(1) 2(9)]) (simp add: claimed_unit_def)
    moreover have "unit_held u1 (clk' 1)" using u1 t(2) by (simp add: unit_held_def)
    ultimately show ?thesis using pol route gen u1 by (auto simp: claim_unit_def checked_def)
  qed
  show ?thesis
    using u(1,4) now u1 2(1,6) replay
    by (intro exI [of _ u] exI [of _ u1] exI [of _ b] exI [of _ until]) auto
qed

lemma renew_unit_same:
  assumes "policy (arg_str a ''project_id'') False db = Inr configured"
    and "locate_unit (clk 0) p a db = Inr (u, b)" and "\<not> inactive P u a (p_user_id p) (clk 1)"
    and "parse_deadline P (arg_str a ''lease_expires_at'') = Some deadline" and lease: "wu_lease_expires_at u = Some lease"
    and same: "max lease (min deadline (bn_expires_at b)) = lease"
    and "\<not> (lease < deadline \<and> clk 1 + seconds (arg_int (pr_policy configured) ''lease_seconds'') < deadline)"
    and rows: "update_where (\<lambda>x. wu_id x = wu_id u) (\<lambda>x. x\<lparr>wu_lease_expires_at := Some lease\<rparr>) (cd_units db) = cd_units db"
  shows "renew_unit P clk p a db = Inr (db, unit_result u b @ [(''extended'', PBool False)])"
proof -
  have "unit_result (u\<lparr>wu_lease_expires_at := Some lease\<rparr>) b = unit_result u b" using lease by (simp add: unit_result_def)
  then show ?thesis using assms by (simp add: renew_unit_def checked_def del: max.absorb1 max.absorb2)
qed

text \<open>
  Bounds of a renewal: only the owner of a running lease renews it; the lease never
  gets shorter, ends after the expiry of the bundle only if it did before, is extended
  only up to the requested deadline and the lease time of the policy counted from now, the
  stored lease is the one answered, and asking again extends nothing.
\<close>

lemma work_renewal_bounded:
  assumes "renew_unit P clk p a db = Inr (db', res)" and "ids_ok db"
  shows "\<exists>u u' b lease lease' configured deadline. unit_of (arg_str a ''unit_id'') db = Some u
    \<and> unit_of (arg_str a ''unit_id'') db' = Some u' \<and> u' = u\<lparr>wu_lease_expires_at := Some lease'\<rparr>
    \<and> wu_lease_expires_at u = Some lease \<and> clk 1 < lease \<and> wu_claimed_by u = Some (p_user_id p)
    \<and> wu_claim_token_digest u = Some (arg_token P a)
    \<and> policy (arg_str a ''project_id'') False db = Inr configured
    \<and> parse_deadline P (arg_str a ''lease_expires_at'') = Some deadline
    \<and> lease \<le> lease' \<and> lease' \<le> max lease (bn_expires_at b)
    \<and> (lease < lease' \<longrightarrow> lease' \<le> deadline \<and> lease' \<le> clk 1 + seconds (arg_int (pr_policy configured) ''lease_seconds''))
    \<and> res = unit_result u' b @ [(''extended'', PBool (lease < lease'))]
    \<and> (\<forall>clk'. clk' 0 < bn_expires_at b \<and> clk' 1 < lease' \<and> clk 1 \<le> clk' 1 \<longrightarrow>
         renew_unit P clk' p a db' = Inr (db', unit_result u' b @ [(''extended'', PBool False)]))"
  using assms(1)
proof (rule renew_unitE)
  fix u b configured deadline lease effective
  assume r: "policy (arg_str a ''project_id'') False db = Inr configured"
    "locate_unit (clk 0) p a db = Inr (u, b)" "\<not> inactive P u a (p_user_id p) (clk 1)"
    "parse_deadline P (arg_str a ''lease_expires_at'') = Some deadline" "wu_lease_expires_at u = Some lease"
    "lease < deadline \<longrightarrow> deadline \<le> clk 1 + seconds (arg_int (pr_policy configured) ''lease_seconds'')"
    "effective = max lease (min deadline (bn_expires_at b))"
    "db' = db\<lparr>cd_units := update_where (\<lambda>x. wu_id x = wu_id u) (\<lambda>x. x\<lparr>wu_lease_expires_at := Some effective\<rparr>) (cd_units db)\<rparr>"
    "res = unit_result (u\<lparr>wu_lease_expires_at := Some effective\<rparr>) b @ [(''extended'', PBool (lease < effective))]"
  let ?u = "u\<lparr>wu_lease_expires_at := Some effective\<rparr>"
  note u = locate_unitE [OF r(2) assms(2)]
  note act = not_inactiveD [OF r(3)]
  have now: "unit_of (arg_str a ''unit_id'') db' = Some ?u"
    using u(1,2) by (simp add: unit_of_def fetchrow_update_where r(8))
  have again: "renew_unit P clk' p a db' = Inr (db', unit_result ?u b @ [(''extended'', PBool False)])"
    if t: "clk' 0 < bn_expires_at b" "clk' 1 < effective" "clk 1 \<le> clk' 1" for clk'
  proof -
    have c: "core db' = core (db\<lparr>cd_units := update_where (\<lambda>x. wu_id x = wu_id u)
        (\<lambda>x. x\<lparr>wu_lease_expires_at := Some effective\<rparr>) (cd_units db), cd_claims := cd_claims db\<rparr>)"
      by (simp add: r(8))
    have loc: "locate_unit (clk' 0) p a db' = Inr (?u, b)" by (rule locate_unit_again [OF r(2) t(1) c]) simp
    show ?thesis
    proof (rule renew_unit_same)
      show "locate_unit (clk' 0) p a db' = Inr (?u, b)" by (rule loc)
      show "parse_deadline P (arg_str a ''lease_expires_at'') = Some deadline" by (rule r(4))
      show "\<not> inactive P ?u a (p_user_id p) (clk' 1)" using act t(2) by (simp add: inactive_def)
      show "policy (arg_str a ''project_id'') False db' = Inr configured" using r(1) by (simp add: policy_def r(8))
      show "wu_lease_expires_at ?u = Some effective" by simp
      show "max effective (min deadline (bn_expires_at b)) = effective" by (simp add: r(7))
      show "\<not> (effective < deadline \<and> clk' 1 + seconds (arg_int (pr_policy configured) ''lease_seconds'') < deadline)"
        using r(6,7) t(3) by auto
      show "update_where (\<lambda>x. wu_id x = wu_id ?u) (\<lambda>x. x\<lparr>wu_lease_expires_at := Some effective\<rparr>) (cd_units db') = cd_units db'"
        by (simp add: r(8) update_where_def)
    qed
  qed
  have "clk 1 < lease" using act(5) r(5) by (simp add: after_iff)
  moreover have "lease \<le> effective" "effective \<le> max lease (bn_expires_at b)" by (auto simp: r(7))
  moreover have "lease < effective \<longrightarrow> effective \<le> deadline
      \<and> effective \<le> clk 1 + seconds (arg_int (pr_policy configured) ''lease_seconds'')"
    using r(6,7) by auto
  ultimately have facts: "unit_of (arg_str a ''unit_id'') db = Some u \<and> unit_of (arg_str a ''unit_id'') db' = Some ?u \<and> ?u = ?u
    \<and> wu_lease_expires_at u = Some lease \<and> clk 1 < lease \<and> wu_claimed_by u = Some (p_user_id p)
    \<and> wu_claim_token_digest u = Some (arg_token P a)
    \<and> policy (arg_str a ''project_id'') False db = Inr configured
    \<and> parse_deadline P (arg_str a ''lease_expires_at'') = Some deadline
    \<and> lease \<le> effective \<and> effective \<le> max lease (bn_expires_at b)
    \<and> (lease < effective \<longrightarrow> effective \<le> deadline \<and> effective \<le> clk 1 + seconds (arg_int (pr_policy configured) ''lease_seconds''))
    \<and> res = unit_result ?u b @ [(''extended'', PBool (lease < effective))]"
    using u(1) now act r(1,4,5,9) by blast
  show ?thesis
    by (intro exI [of _ u] exI [of _ ?u] exI [of _ b] exI [of _ lease] exI [of _ effective] exI [of _ configured] exI [of _ deadline])
      (use facts again in blast)
qed

end
