(* ===== verification/Continuity_Witness.thy ===== *)
theory Continuity_Witness
  imports Continuity_Props
begin

text \<open>
  When the operations succeed: a claim of a free unit goes through. On one concrete bundle
  with a unit assigned to two users this gives a run in which the first claims the unit and
  the second takes it over after the lease, which instantiates the properties of
  \<open>Continuity_Props\<close>.
\<close>

subsection \<open>A claim of a free unit succeeds\<close>

lemma append_event_ok:
  assumes "topic \<in> set TOPICS" and "length audience \<le> 128"
  shows "is_ok (append_event now project topic kind resource level audience revision broadcast db)"
proof -
  have "length (remdups (sort audience)) \<le> 128" using length_remdups_leq [of "sort audience"] assms(2) by simp
  then show ?thesis using assms(1) by (simp add: append_event_def Let_def is_ok_iff checked_def)
qed

lemma claim_event_ok:
  assumes "length (cd_deliveries db) < 128"
  shows "is_ok (event now project actor ''claim'' target details db)"
proof -
  let ?db = "insert_audit project actor ''claim'' target details db"
  have users: "length (active_recipients project target ?db) < 128"
  proof -
    have "length (active_recipients project target ?db) \<le> length (cd_deliveries db)"
      by (simp add: active_recipients_def insert_audit_def)
    then show ?thesis using assms by simp
  qed
  have topic: "bundle_topic ''claim'' \<in> set TOPICS" by (simp add: bundle_topic_def TOPICS_def)
  have "is_ok (project_bundle_event now project ''claim'' target details ?db)"
  proof (cases "fetchrow (\<lambda>b. bn_project_id b = project \<and> bn_id b = target) (cd_bundles ?db)")
    case None
    then show ?thesis by (simp add: project_bundle_event_def is_ok_iff)
  next
    case (Some b)
    have "is_ok (append_event now project (bundle_topic ''claim'') ''bundle'' (Some target) (bn_classification b)
        (bn_from_user b # active_recipients project target ?db)
        (Some (opt_int details ''claim_generation'' (int (bn_version b)))) False ?db)"
      by (rule append_event_ok [OF topic]) (use users in simp)
    with Some show ?thesis by (auto simp: project_bundle_event_def is_ok_iff Let_def)
  qed
  then show ?thesis by (simp add: event_def project_event_def)
qed

lemma claim_succeeds:
  assumes "policy (arg_str a ''project_id'') True db = Inr configured" and "locate_unit (clk 0) p a db = Inr (u, b)"
    and "\<not> unit_held u (clk 1)" and "wu_state u \<in> {U_available, U_claimed}"
    and "\<not> token_used (wu_id u) (p_user_id p) (arg_token P a) db"
    and "\<not> has_key a ''expected_generation''" and "\<not> has_key a ''expected_routing_version''"
    and "length (cd_deliveries db) < 128"
  shows "is_ok (claim_unit P clk p a db)"
proof -
  let ?token = "arg_token P a" and ?until = "min (bn_expires_at b) (clk 1 + seconds (arg_int (pr_policy configured) ''lease_seconds''))"
  let ?db = "db\<lparr>cd_units := update_where (\<lambda>x. wu_id x = wu_id u) (claimed_unit (p_user_id p) ?token ?until) (cd_units db),
      cd_claims := insert_row \<lparr>wc_unit_id = wu_id u, wc_project_id = arg_str a ''project_id'', wc_actor_id = p_user_id p,
        wc_claim_token_digest = ?token, wc_claim_generation = wu_claim_generation (claimed_unit (p_user_id p) ?token ?until u)\<rparr>
        (cd_claims db)\<rparr>"
  obtain db2 where e: "event (clk 2) (arg_str a ''project_id'') (p_user_id p) ''claim'' (bn_id b) [(''unit_id'', PStr (wu_id u)),
      (''claim_generation'', PInt (int (wu_claim_generation (claimed_unit (p_user_id p) ?token ?until u))))] ?db = Inr db2"
    using claim_event_ok [of ?db] assms(8) unfolding is_ok_iff by fastforce
  have "claim_checks P p a u db = [(False, cont_conflict ''Work ownership generation changed since selection''),
      (False, cont_conflict ''Terminal work cannot be claimed''),
      (False, cont_conflict ''A previously used claim token cannot start a new generation'')]"
    unfolding claim_checks_def using assms(4-6) by simp
  then show ?thesis using assms(1-3,7) e by (simp add: claim_unit_def checked_def is_ok_iff)
qed

subsection \<open>A bundle for two users\<close>

definition demo_unit :: work_unit where
  "demo_unit = \<lparr>wu_id = ''u'', wu_project_id = ''p'', wu_bundle_id = ''b'', wu_unit_key = ''k'', wu_summary = ''todo'',
     wu_assignee_user_ids = [''bob'', ''cat''], wu_state = U_available, wu_claimed_by = None, wu_claim_token_digest = None,
     wu_lease_expires_at = None, wu_claim_generation = 0\<rparr>"

definition demo_bundle :: cont_bundle where
  "demo_bundle = \<lparr>bn_id = ''b'', bn_project_id = ''p'', bn_source_checkpoint_id = Some ''c'', bn_source_handoff_id = None,
     bn_from_user = ''ann'', bn_classification = C_internal, bn_source_digest = ''d'', bn_version = 1, bn_policy_version = 1,
     bn_expires_at = seconds 1000, bn_created_by = ''ann'', bn_revoked_at = None\<rparr>"

definition demo_delivery :: "string \<Rightarrow> string \<Rightarrow> delivery" where
  "demo_delivery i user = \<lparr>dl_id = i, dl_project_id = ''p'', dl_bundle_id = ''b'', dl_recipient_user_id = user,
     dl_routing_version = 1, dl_acknowledged_at = None, dl_revoked_at = None\<rparr>"

definition demo_row :: policy_row where
  "demo_row = \<lparr>pr_project_id = ''p'', pr_version = 1, pr_policy = demo_policy, pr_updated_by = ''root''\<rparr>"

definition demo_work :: cdb where
  "demo_work = empty_cdb\<lparr>cd_policies := [demo_row], cd_bundles := [demo_bundle],
     cd_deliveries := [demo_delivery ''x'' ''bob'', demo_delivery ''y'' ''cat''], cd_units := [demo_unit]\<rparr>"

definition demo_user :: "string \<Rightarrow> principal" where
  "demo_user u = \<lparr>p_user_id = u, p_project_id = Some ''p'', p_scopes = [''write''], p_local = False, p_provider = ''token'', p_organization_id = None\<rparr>"

definition demo_request :: "string \<Rightarrow> dict" where
  "demo_request token = [(''project_id'', PStr ''p''), (''unit_id'', PStr ''u''), (''claim_token'', PStr token),
     (''claim_generation'', PInt 1), (''lease_expires_at'', PStr ''t'')]"

lemma demo_request_fields [simp]:
  "arg_str (demo_request t) ''project_id'' = ''p''" "arg_str (demo_request t) ''unit_id'' = ''u''"
  "arg_str (demo_request t) ''claim_token'' = t" "arg_int (demo_request t) ''claim_generation'' = 1"
  "arg_str (demo_request t) ''lease_expires_at'' = ''t''"
  "\<not> has_key (demo_request t) ''expected_generation''" "\<not> has_key (demo_request t) ''expected_routing_version''"
  by (simp_all add: demo_request_def arg_str_def arg_int_def int_of_def py_get_def has_key_def)

text \<open>What the states of the example share, whoever holds the unit.\<close>

definition demo_state :: "work_unit \<Rightarrow> work_claim list \<Rightarrow> cdb \<Rightarrow> bool" where
  "demo_state u claims db \<longleftrightarrow> cd_policies db = [demo_row] \<and> cd_checkpoints db = [] \<and> cd_bundles db = [demo_bundle]
     \<and> cd_deliveries db = [demo_delivery ''x'' ''bob'', demo_delivery ''y'' ''cat''] \<and> cd_units db = [u] \<and> cd_claims db = claims
     \<and> wu_id u = ''u'' \<and> wu_project_id u = ''p'' \<and> wu_bundle_id u = ''b'' \<and> wu_assignee_user_ids u = [''bob'', ''cat'']"

lemma demo_stateD:
  assumes "demo_state u claims db"
  shows "cd_units db = [u]" "cd_claims db = claims" "wu_id u = ''u''" "ids_ok db" "unit_of ''u'' db = Some u"
  using assms by (simp_all add: demo_state_def ids_ok_def unit_of_def demo_delivery_def)

lemma demo_work_state: "demo_state demo_unit [] demo_work"
  by (simp add: demo_state_def demo_work_def empty_cdb_def demo_unit_def)

lemma demo_located:
  assumes "demo_state u claims db" and "user \<in> {''bob'', ''cat''}" and "now < seconds 1000"
  shows "locate_unit now (demo_user user) (demo_request t) db = Inr (u, demo_bundle)"
  using assms by (auto simp: locate_unit_def demo_state_def demo_user_def bundle_row_def demo_bundle_def demo_delivery_def sql checked_def)

lemma demo_policy_row: "demo_state u claims db \<Longrightarrow> policy ''p'' e db = Inr demo_row"
  by (simp add: demo_state_def policy_def policy_of_def demo_row_def demo_policy_def py_get_def truthy_def)

lemma demo_lease_seconds: "arg_int (pr_policy demo_row) ''lease_seconds'' = 60"
  by (simp add: demo_row_def demo_policy_def arg_int_def int_of_def py_get_def)

definition demo_claim :: "platform \<Rightarrow> string \<Rightarrow> string \<Rightarrow> nat \<Rightarrow> work_claim" where
  "demo_claim P user token g = \<lparr>wc_unit_id = ''u'', wc_project_id = ''p'', wc_actor_id = user,
     wc_claim_token_digest = arg_token P (demo_request token), wc_claim_generation = g\<rparr>"

lemma demo_claims:
  assumes db: "demo_state u claims db" and user: "user \<in> {''bob'', ''cat''}"
    and free: "\<not> unit_held u now" "wu_state u \<in> {U_available, U_claimed}"
    and unused: "\<forall>c \<in> set claims. wc_actor_id c \<noteq> user" and now: "now + seconds 60 \<le> seconds 1000"
  shows "\<exists>db' res. claim_unit P (\<lambda>_. now) (demo_user user) (demo_request t) db = Inr (db', res)
    \<and> demo_state (claimed_unit user (arg_token P (demo_request t)) (now + seconds 60) u)
        (insert_row (demo_claim P user t (wu_claim_generation u + 1)) claims) db'"
proof -
  let ?p = "demo_user user" and ?a = "demo_request t" and ?clk = "\<lambda>_::nat. now"
  have uid: "p_user_id ?p = user" by (simp add: demo_user_def)
  have loc: "locate_unit (?clk 0) ?p ?a db = Inr (u, demo_bundle)"
    by (rule demo_located [OF db user]) (use now in \<open>simp add: seconds_def\<close>)
  have pol: "policy (arg_str ?a ''project_id'') True db = Inr demo_row" by (simp add: demo_policy_row [OF db])
  have tok: "\<not> token_used (wu_id u) (p_user_id ?p) (arg_token P ?a) db"
    using unused by (auto simp: token_used_def sql uid demo_stateD(2) [OF db])
  have "length (cd_deliveries db) < 128" using db by (simp add: demo_state_def)
  then obtain db' res where ok: "claim_unit P ?clk ?p ?a db = Inr (db', res)"
    using claim_succeeds [where clk = ?clk, OF pol loc free tok] by (auto simp: is_ok_iff)
  have same: "cd_policies db' = cd_policies db" using claim_unit_policies [OF ok] .
  have until: "min (bn_expires_at demo_bundle) (now + seconds (arg_int (pr_policy demo_row) ''lease_seconds'')) = now + seconds 60"
    using now by (simp add: demo_bundle_def demo_lease_seconds)
  show ?thesis
  proof (cases rule: claim_unitE [OF ok])
    case (1 v b)
    then show ?thesis using loc free(1) by simp
  next
    case (2 v b configured until u1)
    then have v: "v = u" "b = demo_bundle" "configured = demo_row" using loc pol by simp_all
    have core: "core db' = core (db\<lparr>cd_units := update_where (\<lambda>x. wu_id x = wu_id u)
        (claimed_unit user (arg_token P ?a) (now + seconds 60)) (cd_units db),
        cd_claims := insert_row (demo_claim P user t (wu_claim_generation u + 1)) (cd_claims db)\<rparr>)"
      using 2(9) unfolding 2(6,7) v until by (simp add: uid demo_claim_def demo_stateD(3) [OF db] claimed_unit_def)
    have "demo_state (claimed_unit user (arg_token P ?a) (now + seconds 60) u)
        (insert_row (demo_claim P user t (wu_claim_generation u + 1)) claims) db'"
      using db core same by (simp add: demo_state_def core_def claimed_unit_def update_where_def)
    with ok show ?thesis by blast
  qed
qed

subsection \<open>Witnesses\<close>

definition demo_holding :: "platform \<Rightarrow> work_unit" where
  \<comment> \<open>the unit in bob's hands\<close>
  "demo_holding P = claimed_unit ''bob'' (arg_token P (demo_request ''t1'')) (seconds 61) demo_unit"

lemma demo_holding_fields [simp]:
  "wu_id (demo_holding P) = ''u''" "wu_state (demo_holding P) = U_claimed" "wu_claimed_by (demo_holding P) = Some ''bob''"
  "wu_claim_generation (demo_holding P) = 1" "wu_lease_expires_at (demo_holding P) = Some (seconds 61)"
  "wu_claim_token_digest (demo_holding P) = Some (arg_token P (demo_request ''t1''))"
  by (simp_all add: demo_holding_def claimed_unit_def demo_unit_def)

lemma demo_holds:
  "\<exists>db res. claim_unit P (\<lambda>_. seconds 1) (demo_user ''bob'') (demo_request ''t1'') demo_work = Inr (db, res)
    \<and> demo_state (demo_holding P) [demo_claim P ''bob'' ''t1'' 1] db"
proof -
  have "seconds 1 + seconds 60 = seconds 61" by (simp add: seconds_def)
  then show ?thesis
    using demo_claims [OF demo_work_state, of "''bob''" "seconds 1" P "''t1''"]
    by (simp add: demo_holding_def unit_held_def demo_unit_def after_iff insert_row_def)
qed

lemma demo_passed:
  assumes "demo_state (demo_holding P) [demo_claim P ''bob'' ''t1'' 1] db"
  shows "\<exists>db2 res u2 claims. claim_unit P (\<lambda>_. seconds 70) (demo_user ''cat'') (demo_request ''t2'') db = Inr (db2, res)
    \<and> demo_state u2 claims db2 \<and> wu_claimed_by u2 = Some ''cat'' \<and> wu_claim_generation u2 = 2"
proof -
  have "\<not> unit_held (demo_holding P) (seconds 70)" by (simp add: unit_held_def after_iff)
  then show ?thesis
    using demo_claims [OF assms, of "''cat''" "seconds 70" P "''t2''"]
    by (fastforce simp: demo_claim_def claimed_unit_def seconds_def)
qed

theorem work_lost_claim_is_dead_witness:
  "\<exists>db1 db2. unit_owner db1 ''u'' = Some ''bob'' \<and> unit_owner db2 ''u'' = Some ''cat''
    \<and> \<not> is_ok (renew_unit auth_platform (\<lambda>_. seconds 71) (demo_user ''bob'') (demo_request ''t1'') db2)"
proof -
  let ?P = auth_platform
  obtain db1 r1 where c1: "claim_unit ?P (\<lambda>_. seconds 1) (demo_user ''bob'') (demo_request ''t1'') demo_work = Inr (db1, r1)"
    and s1: "demo_state (demo_holding ?P) [demo_claim ?P ''bob'' ''t1'' 1] db1"
    using demo_holds by blast
  obtain db2 r2 u2 cl where c2: "claim_unit ?P (\<lambda>_. seconds 70) (demo_user ''cat'') (demo_request ''t2'') db1 = Inr (db2, r2)"
    and s2: "demo_state u2 cl db2" "wu_claimed_by u2 = Some ''cat''"
    using demo_passed [OF s1] by blast
  have r: "run cont_step db1 [\<lambda>n. seconds 70] db2" using cs_claim [OF c2] by blast
  have "\<not> is_ok (renew_unit ?P (\<lambda>_. seconds 71) (demo_user ''bob'') (demo_request ''t1'') db2)"
    using work_lost_claim_is_dead [OF r run_nil demo_stateD(4) [OF s1] demo_stateD(5) [OF s1] _ demo_stateD(5) [OF s2(1)],
        of "''bob''" "demo_request ''t1''"] s2(2) by simp
  moreover have "unit_owner db1 ''u'' = Some ''bob''" using unit_ownerI [OF demo_stateD(5) [OF s1]] by simp
  moreover have "unit_owner db2 ''u'' = Some ''cat''" using unit_ownerI [OF demo_stateD(5) [OF s2(1)]] s2(2) by simp
  ultimately show ?thesis by blast
qed

lemma work_takeover_needs_expiry_witness:
  "\<exists>db1 db2 g g'. unit_owner db1 ''u'' = Some ''bob'' \<and> unit_owner db2 ''u'' = Some ''cat'' \<and> \<not> unit_live db1 ''u'' (seconds 70)
    \<and> unit_generation db1 ''u'' = Some g \<and> unit_generation db2 ''u'' = Some g' \<and> g < g'"
proof -
  let ?P = auth_platform
  obtain db1 where s1: "demo_state (demo_holding ?P) [demo_claim ?P ''bob'' ''t1'' 1] db1" using demo_holds by blast
  obtain db2 r2 u2 cl where c2: "claim_unit ?P (\<lambda>_. seconds 70) (demo_user ''cat'') (demo_request ''t2'') db1 = Inr (db2, r2)"
    and s2: "demo_state u2 cl db2" "wu_claimed_by u2 = Some ''cat''"
    using demo_passed [OF s1] by blast
  have "unit_owner db1 ''u'' = Some ''bob''" "unit_owner db2 ''u'' = Some ''cat''"
    using unit_ownerI [OF demo_stateD(5) [OF s1]] unit_ownerI [OF demo_stateD(5) [OF s2(1)]] s2(2) by simp_all
  then show ?thesis
    using work_takeover_needs_expiry [OF demo_stateD(4) [OF s1], of "\<lambda>_. seconds 70" db2 "''u''" "''bob''" "''cat''"] cs_claim [OF c2]
    by force
qed

lemma work_token_single_use_witness:
  "\<exists>db u c. c \<in> set (cd_claims db) \<and> unit_of ''u'' db = Some u \<and> wu_claimed_by u = Some ''bob''
    \<and> wu_claim_generation u = wc_claim_generation c"
proof -
  let ?P = auth_platform and ?c = "demo_claim auth_platform ''bob'' ''t1'' 1"
  obtain db1 where s1: "demo_state (demo_holding ?P) [?c] db1" using demo_holds by blast
  have ok: "claims_ok db1"
    by (rule claims_okI [OF demo_stateD(4) [OF s1]]) (auto simp: demo_stateD [OF s1] demo_claim_def)
  have c: "?c \<in> set (cd_claims db1)" by (simp add: demo_stateD(2) [OF s1])
  have "wu_claim_generation (demo_holding ?P) = wc_claim_generation ?c"
    by (rule work_token_single_use [OF run_nil ok c]) (simp_all add: demo_claim_def demo_stateD(5) [OF s1])
  then show ?thesis using c demo_stateD(5) [OF s1] demo_holding_fields(3) by blast
qed


lemma work_claim_gives_lease_witness:
  "\<exists>db u lease. unit_of ''u'' db = Some u \<and> wu_claimed_by u = Some ''bob'' \<and> wu_lease_expires_at u = Some lease"
proof -
  obtain db res where "claim_unit auth_platform (\<lambda>_. seconds 1) (demo_user ''bob'') (demo_request ''t1'') demo_work = Inr (db, res)"
    using demo_holds by blast
  from work_claim_gives_lease [OF this demo_stateD(4) [OF demo_work_state]] show ?thesis
    by (auto simp: demo_user_def)
qed

text \<open>A platform that reads every text as the deadline two minutes after the epoch.\<close>

definition demo_dates :: platform where
  "demo_dates = auth_platform\<lparr>fromisoformat := (\<lambda>_. Some (Aware (seconds 65)))\<rparr>"

lemma work_renewal_bounded_witness:
  "\<exists>db db' u' res lease'. renew_unit demo_dates (\<lambda>_. seconds 10) (demo_user ''bob'') (demo_request ''t1'') db = Inr (db', res)
    \<and> unit_of ''u'' db' = Some u' \<and> wu_lease_expires_at u' = Some lease' \<and> seconds 61 \<le> lease' \<and> lease' \<le> seconds 1000"
proof -
  let ?P = demo_dates and ?clk = "\<lambda>_::nat. seconds 10" and ?p = "demo_user ''bob''" and ?a = "demo_request ''t1''"
  obtain db where s: "demo_state (demo_holding ?P) [demo_claim ?P ''bob'' ''t1'' 1] db" using demo_holds by blast
  have loc: "locate_unit (?clk 0) ?p ?a db = Inr (demo_holding ?P, demo_bundle)"
    by (rule demo_located [OF s]) (simp_all add: seconds_def)
  have act: "\<not> inactive ?P (demo_holding ?P) ?a (p_user_id ?p) (?clk 1)"
    by (simp add: inactive_def demo_user_def after_iff)
  have "is_ok (renew_unit ?P ?clk ?p ?a db)"
    using demo_policy_row [OF s] loc act
    by (simp add: renew_unit_def checked_def is_ok_iff Let_def parse_deadline_def demo_dates_def demo_lease_seconds seconds_def)
  then obtain db' res where ok: "renew_unit ?P ?clk ?p ?a db = Inr (db', res)" by (auto simp: is_ok_iff)
  obtain u u' b lease lease' where r: "unit_of ''u'' db = Some u" "unit_of ''u'' db' = Some u'" "u' = u\<lparr>wu_lease_expires_at := Some lease'\<rparr>"
      "wu_lease_expires_at u = Some lease" "lease \<le> lease'"
      "lease < lease' \<longrightarrow> (\<exists>c. policy ''p'' False db = Inr c \<and> lease' \<le> seconds 10 + seconds (arg_int (pr_policy c) ''lease_seconds''))"
    using work_renewal_bounded [OF ok demo_stateD(4) [OF s]] unfolding demo_request_fields by blast
  have "u = demo_holding ?P" using r(1) demo_stateD(5) [OF s] by simp
  then have lease: "lease = seconds 61" using r(4) by simp
  have "lease' \<le> seconds 1000"
  proof (cases "lease < lease'")
    case True
    then have "lease' \<le> seconds 10 + seconds 60" using r(6) demo_policy_row [OF s] by (auto simp: demo_lease_seconds)
    then show ?thesis by (simp add: seconds_def)
  next
    case False
    then show ?thesis using lease by (simp add: seconds_def)
  qed
  moreover have "wu_lease_expires_at u' = Some lease'" by (simp add: r(3))
  ultimately show ?thesis using ok r(2,5) lease by blast
qed

end
