(* ===== verification/Row_Changes.thy ===== *)
theory Row_Changes
  imports Prelude
begin

text \<open>
  Tables whose transactions rewrite rows in place and append new ones: what a lookup by key
  returns afterwards. Shared by the observation services (presence and usage) and the experiences.
\<close>

text \<open>\<open>R\<close> holds of every old row and its new form, \<open>N\<close> of every row appended.\<close>

definition rows_to :: "('r \<Rightarrow> 'k) \<Rightarrow> ('r \<Rightarrow> 'r \<Rightarrow> bool) \<Rightarrow> ('r \<Rightarrow> bool) \<Rightarrow> 'r list \<Rightarrow> 'r list \<Rightarrow> bool" where
  "rows_to key R N t t' \<longleftrightarrow>
     (\<exists>f new. t' = map f t @ new \<and> (\<forall>r. key (f r) = key r) \<and> (\<forall>r \<in> set t. R r (f r)) \<and> (\<forall>r \<in> set new. N r)
        \<and> distinct (map key new) \<and> key ` set new \<inter> key ` set t = {})"

lemma rows_to_lookup:
  assumes "rows_to key R N t t'" and "fetchrow (\<lambda>r. key r = k) t = Some r"
  shows "\<exists>r'. fetchrow (\<lambda>r. key r = k) t' = Some r' \<and> R r r'"
proof -
  obtain f new where f: "t' = map f t @ new" "\<And>r. key (f r) = key r" "\<forall>r \<in> set t. R r (f r)"
    using assms(1) unfolding rows_to_def by blast
  have "fetchrow (\<lambda>r. key r = k) (map f t) = map_option f (fetchrow (\<lambda>r. key r = k) t)"
    using fetchrow_map [of key f, OF f(2)] by simp
  then have "fetchrow (\<lambda>r. key r = k) t' = Some (f r)"
    using assms(2) unfolding f(1) fetchrow_append by simp
  then show ?thesis using f(3) fetchrow_SomeD [OF assms(2)] by blast
qed

lemma rows_to_distinct:
  assumes "rows_to key R N t t'" and "distinct (map key t)"
  shows "distinct (map key t')"
proof -
  obtain f new where f: "t' = map f t @ new" "\<And>r. key (f r) = key r" "distinct (map key new)"
      "key ` set new \<inter> key ` set t = {}"
    using assms(1) unfolding rows_to_def by blast
  have "map key (map f t) = map key t" by (simp add: f(2))
  moreover have "map key t' = map key (map f t) @ map key new" by (simp add: f(1))
  ultimately have "map key t' = map key t @ map key new" by simp
  moreover have "set (map key t) \<inter> set (map key new) = {}" using f(4) by auto
  ultimately show ?thesis using f(3) assms(2) by (simp only: distinct_append)
qed

lemma rows_to_same: "(\<And>r. R r r) \<Longrightarrow> rows_to key R N t t"
  unfolding rows_to_def by (rule exI [of _ "\<lambda>r. r"], rule exI [of _ "[]"]) simp

lemma rows_to_insert: "(\<And>r. R r r) \<Longrightarrow> N r \<Longrightarrow> key r \<notin> key ` set t \<Longrightarrow> rows_to key R N t (insert_row r t)"
  unfolding rows_to_def by (rule exI [of _ "\<lambda>r. r"], rule exI [of _ "[r]"]) (simp add: insert_row_def)

lemma rows_to_update:
  assumes "\<And>r. R r r" and "\<And>r. key (f r) = key r" and "\<And>r. r \<in> set t \<Longrightarrow> p r \<Longrightarrow> R r (f r)"
  shows "rows_to key R N t (update_where p f t)"
  unfolding rows_to_def update_where_def
  by (rule exI [of _ "\<lambda>r. if p r then f r else r"], rule exI [of _ "[]"]) (auto simp: assms)

lemma rows_to_all:
  assumes "rows_to key R N t t'" and "\<forall>r \<in> set t. I r" and "\<And>r r'. R r r' \<Longrightarrow> I r \<Longrightarrow> I r'" and "\<And>r. N r \<Longrightarrow> I r"
  shows "\<forall>r \<in> set t'. I r"
proof -
  obtain f new where f: "t' = map f t @ new" "\<forall>r \<in> set t. R r (f r)" "\<forall>r \<in> set new. N r"
    using assms(1) unfolding rows_to_def by blast
  then show ?thesis using assms(2-4) by auto
qed

text \<open>The row an operation has read by its key and by other conditions.\<close>

lemma fetchrow_key:
  assumes "distinct (map key t)" and "fetchrow (\<lambda>r. key r = k \<and> q r) t = Some r"
  shows "fetchrow (\<lambda>r. key r = k) t = Some r"
  using fetchrow_by_key_eq [OF assms(1)] fetchrow_SomeD [OF assms(2)] by blast

lemma update_one:
  assumes "distinct (map key t)" and "r \<in> set t" and "x \<in> set t" and "key x = key r"
  shows "x = r"
  using assms by (meson distinct_map inj_onD)

end
