(* ===== verification/Presence_State.thy ===== *)
theory Presence_State
  imports Continuity_State
begin

text \<open>
  The decisions about observed work (continuity/presence_state.py), all of them pure: the
  limits of a policy, the interval a report opens or continues, what a session is taken to
  be doing at a given time, and the aggregate over the sessions of a user. A row is the dict
  of its columns, as the functions read it with \<open>get\<close>; the ValueError of a function is
  \<open>None\<close>.
\<close>

subsection \<open>Limits\<close>

record presence_limits =
  pl_heartbeat_seconds :: int
  pl_stale_after_seconds :: int
  pl_idle_after_seconds :: int

definition REPORTED_STATES :: "string list" where
  "REPORTED_STATES = [''running'', ''waiting_approval'', ''blocked'', ''idle'', ''unknown'']"

fun bounded_int :: "pyval \<times> int \<times> int \<Rightarrow> bool" where
  \<comment> \<open>\<open>type(value) is int and low <= value <= high\<close>\<close>
  "bounded_int (PInt n, low, high) \<longleftrightarrow> low \<le> n \<and> n \<le> high"
| "bounded_int _ \<longleftrightarrow> False"

definition presence_policy :: "pyval \<Rightarrow> pyval \<Rightarrow> pyval \<Rightarrow> presence_limits option" where
  "presence_policy heartbeat stale idle =
     (if \<not> list_all bounded_int [(heartbeat, 10, 60), (stale, 45, 300), (idle, 60, 3600)] then None
      else if int_of stale < int_of heartbeat * 3 then None
      else Some \<lparr>pl_heartbeat_seconds = int_of heartbeat, pl_stale_after_seconds = int_of stale,
        pl_idle_after_seconds = int_of idle\<rparr>)"

definition default_limits :: presence_limits where
  "default_limits = \<lparr>pl_heartbeat_seconds = 15, pl_stale_after_seconds = 60, pl_idle_after_seconds = 300\<rparr>"

subsection \<open>Intervals\<close>

definition aware :: "pyval \<Rightarrow> bool" where
  "aware v = (case v of PTime _ \<Rightarrow> True | _ \<Rightarrow> False)"

definition time_of :: "pyval \<Rightarrow> time" where
  "time_of v = (case v of PTime t \<Rightarrow> t | _ \<Rightarrow> 0)"

lemma aware_iff: "aware v \<longleftrightarrow> v = PTime (time_of v)"
  by (cases v) (simp_all add: aware_def time_of_def)

lemma aware_PTime [simp]: "aware (PTime t)" "time_of (PTime t) = t"
  by (simp_all add: aware_def time_of_def)

definition prev_get :: "dict option \<Rightarrow> string \<Rightarrow> pyval" where
  \<comment> \<open>\<open>previous.get(key) if previous else None\<close>\<close>
  "prev_get previous k = (case previous of None \<Rightarrow> PNone | Some row \<Rightarrow> py_get row k)"

definition discontinuity :: "dict option \<Rightarrow> time \<Rightarrow> presence_limits \<Rightarrow> bool" where
  "discontinuity previous now limits \<longleftrightarrow>
     (let last_seen = prev_get previous ''last_seen_at''
      in \<not> aware last_seen \<or> now < time_of last_seen
         \<or> seconds (pl_stale_after_seconds limits) \<le> now - time_of last_seen)"

definition next_times ::
    "dict option \<Rightarrow> string \<Rightarrow> pyval \<Rightarrow> presence_limits \<Rightarrow> bool \<Rightarrow> (pyval \<times> pyval) option" where
  \<comment> \<open>the new \<open>state_since_at\<close> and \<open>idle_since_at\<close>\<close>
  "next_times previous reported now limits state_changed =
     (if \<not> aware now \<or> reported \<notin> set REPORTED_STATES then None
      else let changed = (previous = None \<or> state_changed \<or> discontinuity previous (time_of now) limits
                 \<or> prev_get previous ''reported_state'' \<noteq> PStr reported)
           in Some (if changed then now else prev_get previous ''state_since_at'',
                if reported = ''idle'' then (if changed then now else prev_get previous ''idle_since_at'') else PNone))"

subsection \<open>The state of a session\<close>

record presence_view =
  pv_reported_state :: string
  pv_freshness :: string
  pv_effective_state :: string
  pv_reason :: string
  pv_state_seconds :: "int option"
  pv_idle_seconds :: "int option"
  pv_is_idle :: bool

definition known_state :: "pyval \<Rightarrow> bool" where
  "known_state v \<longleftrightarrow> is_str v \<and> str_of v \<in> set REPORTED_STATES"

definition whole_seconds :: "time \<Rightarrow> int" where
  \<comment> \<open>\<open>int(delta.total_seconds())\<close> of a delta that is not negative\<close>
  "whole_seconds d = d div 1000000"

definition unobserved :: "pyval \<Rightarrow> presence_view" where
  \<comment> \<open>the initial \<open>result\<close>\<close>
  "unobserved reported =
     \<lparr>pv_reported_state = (if known_state reported then str_of reported else ''unknown''), pv_freshness = ''unknown'',
      pv_effective_state = ''unknown'', pv_reason = ''not_observed'', pv_state_seconds = None, pv_idle_seconds = None,
      pv_is_idle = False\<rparr>"

definition incomplete_observation :: "dict \<Rightarrow> bool" where
  "incomplete_observation row \<longleftrightarrow>
     py_get row ''state_observation_available'' \<noteq> PBool True
     \<or> py_get row ''observation_scope'' \<notin> {PStr ''worker'', PStr ''controller''}
     \<or> \<not> known_state (get_or row ''reported_state'' (PStr ''unknown''))
     \<or> \<not> aware (py_get row ''state_since_at'') \<or> \<not> bounded_int (py_get row ''active_work_count'', 0, 128)"

definition fresh_state :: "dict \<Rightarrow> time \<Rightarrow> presence_limits \<Rightarrow> presence_view \<Rightarrow> presence_view" where
  \<comment> \<open>the part of \<open>session_state\<close> after the report was found fresh\<close>
  "fresh_state row now limits result =
     (let reported = str_of (get_or row ''reported_state'' (PStr ''unknown''));
          state_since = time_of (py_get row ''state_since_at''); active = int_of (py_get row ''active_work_count'')
      in if incomplete_observation row then result\<lparr>pv_reason := ''observation_incomplete''\<rparr>
         else if reported = ''unknown'' then result\<lparr>pv_reason := ''state_unknown''\<rparr>
         else if reported = ''running'' \<and> active = 0 \<or> reported = ''idle'' \<and> active \<noteq> 0
         then result\<lparr>pv_reason := ''inconsistent_report''\<rparr>
         else let timed = result\<lparr>pv_state_seconds := Some (whole_seconds (now - state_since))\<rparr>
              in if reported \<noteq> ''idle'' then timed\<lparr>pv_effective_state := reported, pv_reason := ''reported_state''\<rparr>
                 else let since = py_get row ''idle_since_at''
                      in if \<not> aware since \<or> time_of since < state_since
                            \<or> time_of (py_get row ''last_seen_at'') < time_of since \<or> now < time_of since
                         then timed\<lparr>pv_reason := ''idle_interval_unknown''\<rparr>
                         else let elapsed = whole_seconds (now - time_of since);
                                  idle = (pl_idle_after_seconds limits \<le> elapsed)
                              in timed\<lparr>pv_effective_state := (if idle then ''idle'' else ''waiting''),
                                   pv_reason := (if idle then ''idle_threshold_reached'' else ''idle_threshold_pending''),
                                   pv_idle_seconds := Some elapsed, pv_is_idle := idle\<rparr>)"

definition session_state :: "dict \<Rightarrow> pyval \<Rightarrow> presence_limits \<Rightarrow> presence_view option" where
  "session_state row now limits =
     (if \<not> aware now then None
      else let t = time_of now; result = unobserved (get_or row ''reported_state'' (PStr ''unknown''));
               last_seen = py_get row ''last_seen_at''; state_since = py_get row ''state_since_at''
           in Some
             (if py_get row ''ended_at'' \<noteq> PNone
              then result\<lparr>pv_freshness := ''ended'', pv_effective_state := ''ended'', pv_reason := ''session_ended''\<rparr>
              else if \<not> aware last_seen then result
              else if t < time_of last_seen \<or> aware state_since \<and> t < time_of state_since
              then result\<lparr>pv_reason := ''clock_discontinuity''\<rparr>
              else if seconds (pl_stale_after_seconds limits) \<le> t - time_of last_seen
              then result\<lparr>pv_freshness := ''stale'', pv_effective_state := ''stale'', pv_reason := ''report_delayed''\<rparr>
              else fresh_state row t limits (result\<lparr>pv_freshness := ''fresh''\<rparr>)))"

subsection \<open>Aggregates\<close>

record presence_total =
  pt_effective_state :: string
  pt_idle_seconds :: "int option"
  pt_is_idle :: bool
  pt_coverage :: string
  pt_observed_sessions :: nat
  pt_open_sessions :: nat
  pt_counts :: "(string \<times> nat) list"
  pt_has_uncertainty :: bool

fun tally :: "string list \<Rightarrow> (string \<times> nat) list" where
  \<comment> \<open>\<open>dict(Counter(...))\<close>: the keys in the order they are first seen\<close>
  "tally [] = []"
| "tally (x # xs) = (x, 1 + length (filter ((=) x) xs)) # filter (\<lambda>e. fst e \<noteq> x) (tally xs)"

definition uncertain :: "presence_view \<Rightarrow> bool" where
  "uncertain v \<longleftrightarrow> pv_freshness v \<in> {''stale'', ''unknown''} \<or> pv_effective_state v = ''unknown''"

definition reports :: "string \<Rightarrow> presence_view \<Rightarrow> bool" where
  "reports s v \<longleftrightarrow> pv_freshness v = ''fresh'' \<and> pv_effective_state v = s"

definition aggregate_states :: "presence_view list \<Rightarrow> bool \<Rightarrow> presence_total option" where
  "aggregate_states states full =
     (if 10000 < length states then None
      else let opened = filter (\<lambda>v. pv_freshness v \<noteq> ''ended'') states;
               result = \<lparr>pt_effective_state = ''unknown'', pt_idle_seconds = None, pt_is_idle = False,
                 pt_coverage = (if full then ''complete'' else ''partial''), pt_observed_sessions = length states,
                 pt_open_sessions = length opened, pt_counts = tally (map pv_effective_state states),
                 pt_has_uncertainty = (\<not> full \<or> list_ex uncertain opened)\<rparr>
           in Some
             (case fetchrow (\<lambda>s. list_ex (reports s) opened) [''running'', ''waiting_approval'', ''blocked''] of
                Some status \<Rightarrow> result\<lparr>pt_effective_state := status\<rparr>
              | None \<Rightarrow>
                  if pt_has_uncertainty result then result\<lparr>pt_effective_state := ''partially_unknown''\<rparr>
                  else if opened = []
                  then result\<lparr>pt_effective_state := (if states = [] then ''not_observed'' else ''ended'')\<rparr>
                  else if list_all (\<lambda>v. reports ''idle'' v \<or> reports ''waiting'' v) opened
                  then let idle = list_all pv_is_idle opened
                       in result\<lparr>pt_effective_state := (if idle then ''idle'' else ''waiting''),
                            pt_idle_seconds := Some (min_list (map (the \<circ> pv_idle_seconds) opened)), pt_is_idle := idle\<rparr>
                  else result\<lparr>pt_effective_state := ''partially_unknown'', pt_has_uncertainty := True\<rparr>))"

end
