(* ===== verification/Presence.thy ===== *)
theory Presence
  imports Presence_State Continuity_Steps
begin

text \<open>
  The presence service (continuity/presence.py): the observation policy of a project,
  observer sessions, their reports under transport and state sequences, their end and
  their retirement. The rows are those of \<open>Continuity_State\<close>; \<open>clk n\<close> is the n-th sample
  of the database clock in a transaction and \<open>i\<close> the UUID of the inserted row.
\<close>

subsection \<open>Policy\<close>

definition DEFAULT_POLICY :: dict where
  "DEFAULT_POLICY = [(''enabled'', PBool False), (''heartbeat_seconds'', PInt 15), (''stale_after_seconds'', PInt 60),
     (''idle_after_seconds'', PInt 300), (''retention_hours'', PInt 168)]"

definition MAX_OPEN_PER_USER :: nat where "MAX_OPEN_PER_USER = 64"
definition MAX_LIVE_PER_PROJECT :: nat where "MAX_LIVE_PER_PROJECT = 10000"
definition MAX_REGISTRATIONS_PER_MINUTE :: nat where "MAX_REGISTRATIONS_PER_MINUTE = 10"

definition policy_values :: "dict \<Rightarrow> presence_limits option" where
  "policy_values body = presence_policy (py_get body ''heartbeat_seconds'') (py_get body ''stale_after_seconds'')
     (py_get body ''idle_after_seconds'')"

definition presence_policy_row :: "string \<Rightarrow> cdb \<Rightarrow> nat \<times> dict" where
  \<comment> \<open>\<open>policy\<close>\<close>
  "presence_policy_row project db =
     (case policy_of project (cd_presence_policies db) of
        None \<Rightarrow> (0, DEFAULT_POLICY) | Some r \<Rightarrow> (pr_version r, pr_policy r))"

definition envelope :: "string \<Rightarrow> principal \<Rightarrow> time \<Rightarrow> dict" where
  "envelope project p now =
     [(''contract_version'', PInt 1), (''project_id'', PStr project), (''actor_id'', PStr (p_user_id p)),
      (''observed_at'', PTime now), (''cache_policy'', PStr ''no_store'')]"

definition report_fingerprint :: "platform \<Rightarrow> dict \<Rightarrow> string" where
  "report_fingerprint P a =
     digest P (PDict (map (\<lambda>e. if fst e = ''session_token'' then (fst e, PStr (token_digest P (str_of (snd e)))) else e) a))"

definition state_fields :: "presence_session \<Rightarrow> dict" where
  \<comment> \<open>the columns \<open>STATE_FIELDS\<close> of a row\<close>
  "state_fields s =
     [(''reported_state'', PStr (ps_reported_state s)), (''observation_scope'', PStr (ps_observation_scope s)),
      (''state_observation_available'', PBool (ps_state_observation_available s)),
      (''active_work_count'', PInt (ps_active_work_count s)), (''work_unit_id'', opt_str (ps_work_unit_id s))]"

definition presence_time :: "time option \<Rightarrow> pyval" where
  "presence_time t = (case t of None \<Rightarrow> PNone | Some x \<Rightarrow> PTime x)"

definition presence_response ::
    "platform \<Rightarrow> presence_session \<Rightarrow> string \<Rightarrow> principal \<Rightarrow> time \<Rightarrow> nat \<times> dict \<Rightarrow> bool \<Rightarrow> dict" where
  "presence_response P s project p now pol replayed =
     envelope project p now @
     [(''session_id'', PStr (ps_id s)), (''sequence'', PInt (ps_sequence s)), (''state_sequence'', PInt (ps_state_sequence s)),
      (''state_fingerprint'', PStr (digest P (PDict (state_fields s)))), (''last_seen_at'', PTime (ps_last_seen_at s)),
      (''ended_at'', presence_time (ps_ended_at s)), (''policy_version'', PInt (int (fst pol))),
      (''policy'', PDict (snd pol)), (''replayed'', PBool replayed)]"

definition presence_policy_get :: "time \<Rightarrow> principal \<Rightarrow> dict \<Rightarrow> cdb \<Rightarrow> dict outcome" where
  "presence_policy_get now p a db =
     (let project = arg_str a ''project_id''; pol = presence_policy_row project db
      in and_then (authorize_tool p ''memory_presence_policy_get'' (Some project)) (\<lambda>_.
         Inr (envelope project p now @ [(''configured'', PBool (0 < fst pol)), (''policy_version'', PInt (int (fst pol))),
           (''policy'', PDict (snd pol))])))"

definition presence_policy_body :: "clock \<Rightarrow> principal \<Rightarrow> dict \<Rightarrow> cdb \<Rightarrow> (cdb \<times> dict) outcome" where
  "presence_policy_body clk p a db =
     (let project = arg_str a ''project_id''; body = arg_dict a ''policy''; version = fst (presence_policy_row project db)
      in and_then (checked [(int version \<noteq> arg_int a ''expected_version'', version_conflict)] ()) (\<lambda>_.
         and_then (event (clk 0) project (p_user_id p) ''presence_policy_set'' project
             [(''version'', PInt (int (version + 1))), (''policy'', PDict body), (''reason'', py_get a ''reason'')]
             (db\<lparr>cd_presence_policies := upsert_policy project (version + 1) body (p_user_id p) (cd_presence_policies db)\<rparr>)) (\<lambda>db1.
           Inr (db1, [(''project_id'', PStr project), (''version'', PInt (int (version + 1)))]))))"

definition presence_policy_set :: "platform \<Rightarrow> clock \<Rightarrow> principal \<Rightarrow> dict \<Rightarrow> cdb \<Rightarrow> (cdb \<times> dict) outcome" where
  "presence_policy_set P clk p a db =
     and_then (authorize_tool p ''memory_presence_policy_set'' (Some (arg_str a ''project_id''))) (\<lambda>_.
     and_then (checked [(policy_values (arg_dict a ''policy'') = None, cont_invalid ''Presence thresholds are invalid'')] ()) (\<lambda>_.
       receipted P a p ''presence_policy_set'' (presence_policy_body clk p a) db))"

subsection \<open>Registration\<close>

definition presence_unavailable :: "string \<Rightarrow> mem_error" where
  "presence_unavailable msg = cont_fail msg ''MEM-PRESENCE-0001'' 404"

definition presence_retired :: "string \<Rightarrow> mem_error" where
  "presence_retired msg = cont_fail msg ''MEM-PRESENCE-0002'' 410"

definition presence_disabled :: mem_error where
  "presence_disabled = cont_fail ''Project observation is disabled'' ''MEM-PRESENCE-0003'' 409"

definition owned_session :: "platform \<Rightarrow> dict \<Rightarrow> principal \<Rightarrow> cdb \<Rightarrow> presence_session outcome" where
  \<comment> \<open>\<open>_owned\<close>\<close>
  "owned_session P a p db =
     (case fetchrow (\<lambda>s. ps_id s = arg_str a ''session_id'' \<and> ps_project_id s = arg_str a ''project_id''
          \<and> ps_actor_id s = p_user_id p) (cd_presence db) of
        None \<Rightarrow> Inl (presence_unavailable ''Presence session is unavailable'')
      | Some s \<Rightarrow> checked
          [(ps_session_token_digest s \<noteq> token_digest P (arg_str a ''session_token''),
              presence_unavailable ''Presence session is unavailable''),
           (ps_retired_at s \<noteq> None, presence_retired ''Presence session has been retired; use a new observer instance'')] s)"

definition count_rows :: "('r \<Rightarrow> bool) \<Rightarrow> 'r list \<Rightarrow> nat" where
  "count_rows q t = length (filter q t)"

definition registration_limit :: "string \<Rightarrow> string \<Rightarrow> time \<Rightarrow> cdb \<Rightarrow> bool" where
  "registration_limit project actor now db \<longleftrightarrow>
     (let t = filter (\<lambda>s. ps_project_id s = project) (cd_presence db)
      in MAX_LIVE_PER_PROJECT \<le> count_rows (\<lambda>s. ps_retired_at s = None) t
         \<or> MAX_OPEN_PER_USER \<le> count_rows (\<lambda>s. ps_actor_id s = actor \<and> ps_retired_at s = None \<and> ps_ended_at s = None) t
         \<or> MAX_REGISTRATIONS_PER_MINUTE \<le> count_rows (\<lambda>s. ps_actor_id s = actor \<and> now - minutes 1 < ps_created_at s) t)"

definition registered_class :: "principal \<Rightarrow> dict \<Rightarrow> cdb \<Rightarrow> classification outcome" where
  \<comment> \<open>the classification of a new session: at least that of its parent\<close>
  "registered_class p a db =
     (if py_get a ''parent_session_id'' = PNone then Inr (arg_class a ''classification'')
      else case fetchrow (\<lambda>s. ps_id s = arg_str a ''parent_session_id'' \<and> ps_project_id s = arg_str a ''project_id''
          \<and> ps_actor_id s = p_user_id p \<and> ps_ended_at s = None \<and> ps_retired_at s = None) (cd_presence db) of
        None \<Rightarrow> Inl (presence_unavailable ''Parent observation is unavailable'')
      | Some parent \<Rightarrow> Inr (max_level (arg_class a ''classification'') (ps_classification parent)))"

definition new_session :: "platform \<Rightarrow> string \<Rightarrow> time \<Rightarrow> principal \<Rightarrow> dict \<Rightarrow> classification \<Rightarrow> presence_session" where
  \<comment> \<open>the inserted row, the columns not named at their defaults\<close>
  "new_session P i now p a level =
     \<lparr>ps_id = i, ps_project_id = arg_str a ''project_id'', ps_actor_id = p_user_id p,
      ps_client_instance_id = arg_str a ''client_instance_id'', ps_session_token_digest = token_digest P (arg_str a ''session_token''),
      ps_register_digest = report_fingerprint P a, ps_host_kind = arg_str a ''host_kind'', ps_session_kind = arg_str a ''session_kind'',
      ps_parent_session_id = arg_opt_str a ''parent_session_id'', ps_classification = level, ps_sequence = 0, ps_state_sequence = 0,
      ps_report_digest = None, ps_reported_policy_version = 0, ps_reported_state = ''unknown'', ps_observation_scope = ''partial'',
      ps_state_observation_available = False, ps_active_work_count = 0, ps_work_unit_id = None, ps_checkpoint_id = None,
      ps_created_at = now, ps_last_seen_at = now, ps_state_since_at = now, ps_idle_since_at = None, ps_ended_at = None,
      ps_retired_at = None\<rparr>"

definition presence_register :: "platform \<Rightarrow> clock \<Rightarrow> string \<Rightarrow> principal \<Rightarrow> dict \<Rightarrow> cdb \<Rightarrow> (cdb \<times> dict) outcome" where
  "presence_register P clk i p a db =
     (let project = arg_str a ''project_id''; now = clk 0; pol = presence_policy_row project db in
      and_then (authorize_tool p ''memory_presence_register'' (Some project)) (\<lambda>_.
      case fetchrow (\<lambda>s. ps_project_id s = project \<and> ps_actor_id s = p_user_id p
          \<and> ps_client_instance_id s = arg_str a ''client_instance_id'') (cd_presence db) of
        Some s \<Rightarrow> checked
          [(ps_register_digest s \<noteq> report_fingerprint P a, cont_conflict ''Observer instance is bound to a different registration''),
           (ps_retired_at s \<noteq> None, presence_retired ''Observer instance is retired'')]
          (db, presence_response P s project p now pol True)
      | None \<Rightarrow>
          and_then (checked
            [(\<not> truthy (py_get (snd pol) ''enabled''), presence_disabled),
             (registration_limit project (p_user_id p) now db,
                cont_fail ''Observation registration limit reached'' ''MEM-PRESENCE-0004'' 429)] ()) (\<lambda>_.
          and_then (registered_class p a db) (\<lambda>level.
          let s = new_session P i now p a level
          in and_then (event (clk 1) project (p_user_id p) ''presence_register'' i [(''session_kind'', PStr (ps_session_kind s))]
               (db\<lparr>cd_presence := insert_row s (cd_presence db)\<rparr>)) (\<lambda>db1.
             Inr (db1, presence_response P s project p now pol False))))))"

subsection \<open>Reports\<close>

definition bound_unit_level :: "dict \<Rightarrow> principal \<Rightarrow> time \<Rightarrow> cdb \<Rightarrow> classification list outcome" where
  \<comment> \<open>the level of the work unit a report names\<close>
  "bound_unit_level a p now db =
     (if \<not> truthy (py_get a ''work_unit_id'') then Inr []
      else case fetchrow (\<lambda>(u, b). wu_id u = arg_str a ''work_unit_id'' \<and> wu_project_id u = arg_str a ''project_id''
          \<and> p_user_id p \<in> set (wu_assignee_user_ids u) \<and> bn_revoked_at b = None \<and> now < bn_expires_at b
          \<and> exists_row (\<lambda>d. dl_bundle_id d = bn_id b \<and> dl_project_id d = bn_project_id b \<and> dl_recipient_user_id d = p_user_id p
               \<and> dl_revoked_at d = None) (cd_deliveries db))
          (concat (map (\<lambda>u. map (Pair u) (filter (\<lambda>b. bn_id b = wu_bundle_id u \<and> bn_project_id b = wu_project_id u)
             (cd_bundles db))) (cd_units db))) of
        None \<Rightarrow> Inl (presence_unavailable ''Work observation binding is unavailable'')
      | Some (u, b) \<Rightarrow> Inr [bn_classification b])"

definition bound_checkpoint_level :: "dict \<Rightarrow> principal \<Rightarrow> time \<Rightarrow> cdb \<Rightarrow> classification list outcome" where
  "bound_checkpoint_level a p now db =
     (if \<not> truthy (py_get a ''checkpoint_id'') then Inr []
      else case fetchrow (\<lambda>c. ck_id c = arg_str a ''checkpoint_id'' \<and> ck_project_id c = arg_str a ''project_id''
          \<and> ck_from_user c = p_user_id p \<and> ck_forgotten_at c = None \<and> now < ck_expires_at c) (cd_checkpoints db) of
        None \<Rightarrow> Inl (presence_unavailable ''Checkpoint observation binding is unavailable'')
      | Some c \<Rightarrow> Inr [ck_classification c])"

definition parent_level :: "presence_session \<Rightarrow> cdb \<Rightarrow> classification list outcome" where
  "parent_level s db =
     (case ps_parent_session_id s of
        None \<Rightarrow> Inr []
      | Some i \<Rightarrow> (case fetchrow (\<lambda>x. ps_id x = i) (cd_presence db) of
            None \<Rightarrow> Inl (unhandled ''ValueError'') | Some parent \<Rightarrow> Inr [ps_classification parent]))"

definition report_class :: "presence_session \<Rightarrow> dict \<Rightarrow> principal \<Rightarrow> time \<Rightarrow> cdb \<Rightarrow> classification outcome" where
  \<comment> \<open>\<open>_classification\<close>\<close>
  "report_class s a p now db =
     and_then (bound_unit_level a p now db) (\<lambda>unit.
     and_then (bound_checkpoint_level a p now db) (\<lambda>ckpt.
     and_then (parent_level s db) (\<lambda>parent.
       Inr (fold (\<lambda>x m. max_level m x) (arg_class a ''classification'' # unit @ ckpt @ parent) (ps_classification s)))))"

definition inconsistent_report :: "dict \<Rightarrow> bool" where
  \<comment> \<open>the condition of \<open>_validate_report\<close>\<close>
  "inconsistent_report a \<longleftrightarrow>
     (let state = arg_str a ''reported_state''; active = arg_int a ''active_work_count'';
          available = (truthy (py_get a ''state_observation_available'') \<and> arg_str a ''observation_scope'' \<noteq> ''partial'')
      in state \<noteq> ''unknown'' \<and> \<not> available \<or> state = ''running'' \<and> active = 0 \<or> state = ''idle'' \<and> active \<noteq> 0)"

definition state_differs :: "dict \<Rightarrow> presence_session \<Rightarrow> bool" where
  \<comment> \<open>\<open>changed\<close>: a reported field differs from its column\<close>
  "state_differs a s \<longleftrightarrow> list_ex (\<lambda>e. \<not> py_eq (py_get a (fst e)) (snd e)) (state_fields s)"

definition session_dict :: "presence_session \<Rightarrow> dict" where
  "session_dict s =
     [(''id'', PStr (ps_id s)), (''project_id'', PStr (ps_project_id s)), (''actor_id'', PStr (ps_actor_id s)),
      (''host_kind'', PStr (ps_host_kind s)), (''session_kind'', PStr (ps_session_kind s)),
      (''classification'', PStr (class_str (ps_classification s))), (''sequence'', PInt (ps_sequence s)),
      (''state_sequence'', PInt (ps_state_sequence s)), (''reported_policy_version'', PInt (ps_reported_policy_version s)),
      (''reported_state'', PStr (ps_reported_state s)), (''observation_scope'', PStr (ps_observation_scope s)),
      (''state_observation_available'', PBool (ps_state_observation_available s)),
      (''active_work_count'', PInt (ps_active_work_count s)), (''created_at'', PTime (ps_created_at s)),
      (''last_seen_at'', PTime (ps_last_seen_at s)), (''state_since_at'', PTime (ps_state_since_at s)),
      (''idle_since_at'', presence_time (ps_idle_since_at s)), (''ended_at'', presence_time (ps_ended_at s)),
      (''parent_session_id'', opt_str (ps_parent_session_id s)), (''work_unit_id'', opt_str (ps_work_unit_id s)),
      (''checkpoint_id'', opt_str (ps_checkpoint_id s))]"

definition opt_time_of :: "pyval \<Rightarrow> time option" where
  "opt_time_of v = (case v of PTime t \<Rightarrow> Some t | _ \<Rightarrow> None)"

definition reported_session ::
    "platform \<Rightarrow> time \<Rightarrow> dict \<Rightarrow> classification \<Rightarrow> pyval \<times> pyval \<Rightarrow> presence_session \<Rightarrow> presence_session" where
  \<comment> \<open>the updated row\<close>
  "reported_session P now a level since s =
     s\<lparr>ps_sequence := arg_int a ''sequence'', ps_state_sequence := arg_int a ''state_sequence'',
       ps_report_digest := Some (report_fingerprint P a), ps_reported_policy_version := arg_int a ''policy_version'',
       ps_reported_state := arg_str a ''reported_state'', ps_observation_scope := arg_str a ''observation_scope'',
       ps_state_observation_available := truthy (py_get a ''state_observation_available''),
       ps_active_work_count := arg_int a ''active_work_count'', ps_work_unit_id := arg_opt_str a ''work_unit_id'',
       ps_checkpoint_id := arg_opt_str a ''checkpoint_id'', ps_classification := level, ps_last_seen_at := now,
       ps_state_since_at := time_of (fst since), ps_idle_since_at := opt_time_of (snd since)\<rparr>"

definition set_session :: "string \<Rightarrow> (presence_session \<Rightarrow> presence_session) \<Rightarrow> cdb \<Rightarrow> cdb" where
  \<comment> \<open>UPDATE ... WHERE id=\<close>
  "set_session i f db = db\<lparr>cd_presence := update_where (\<lambda>x. ps_id x = i) f (cd_presence db)\<rparr>"

definition resumed :: "presence_session \<Rightarrow> time \<Rightarrow> int \<Rightarrow> bool" where
  "resumed s now stale \<longleftrightarrow> now < ps_last_seen_at s \<or> seconds stale \<le> now - ps_last_seen_at s"

definition report_checks :: "presence_session \<Rightarrow> dict \<Rightarrow> dict \<Rightarrow> (bool \<times> mem_error) list" where
  \<comment> \<open>the refusals of a report that is not a retry\<close>
  "report_checks s a body =
     [(arg_int a ''sequence'' \<le> ps_sequence s, cont_conflict ''Presence sequence is stale or conflicts''),
      (\<not> truthy (py_get body ''enabled''), presence_disabled),
      (arg_str a ''observation_scope'' \<notin> {ps_session_kind s, ''partial''},
         cont_invalid ''Report scope must match the registered observer kind''),
      (arg_int a ''state_sequence'' \<noteq> ps_state_sequence s + (if state_differs a s then 1 else 0),
         cont_conflict ''State sequence must advance only for an observed state change'')]"

definition presence_heartbeat :: "platform \<Rightarrow> clock \<Rightarrow> principal \<Rightarrow> dict \<Rightarrow> cdb \<Rightarrow> (cdb \<times> dict) outcome" where
  "presence_heartbeat P clk p a db =
     (let project = arg_str a ''project_id''; now = clk 0; pol = presence_policy_row project db; body = snd pol in
      and_then (authorize_tool p ''memory_presence_heartbeat'' (Some project)) (\<lambda>_.
      and_then (checked [(inconsistent_report a, cont_invalid ''Observed work state and coverage are inconsistent'')] ()) (\<lambda>_.
      and_then (owned_session P a p db) (\<lambda>s.
      and_then (checked [(ps_ended_at s \<noteq> None, cont_conflict ''Ended observations cannot be refreshed'')] ()) (\<lambda>_.
      if arg_int a ''sequence'' = ps_sequence s \<and> ps_report_digest s = Some (report_fingerprint P a)
      then Inr (db, presence_response P s project p now pol True)
      else and_then (checked (report_checks s a body) ()) (\<lambda>_.
        and_then (report_class s a p now db) (\<lambda>level.
        case policy_values body of None \<Rightarrow> Inl (unhandled ''ValueError'')
        | Some limits \<Rightarrow>
          (case next_times (Some (session_dict s)) (arg_str a ''reported_state'') (PTime now) limits (state_differs a s) of
             None \<Rightarrow> Inl (unhandled ''ValueError'')
           | Some since \<Rightarrow>
              let again = resumed s now (pl_stale_after_seconds limits); s1 = reported_session P now a level since s;
                  db1 = set_session (ps_id s) (reported_session P now a level since) db
              in and_then (if state_differs a s \<or> again \<or> level \<noteq> ps_classification s
                   then event (clk 1) project (p_user_id p) ''presence_state'' (ps_id s)
                     [(''sequence'', PInt (ps_sequence s1)), (''resumed'', PBool again),
                      (''previous_classification'', PStr (class_str (ps_classification s)))] db1
                   else Inr db1) (\<lambda>db2.
                 Inr (db2, presence_response P s1 project p now pol False))))))))))"

subsection \<open>End and retirement\<close>

definition ended_session :: "platform \<Rightarrow> time \<Rightarrow> dict \<Rightarrow> presence_session \<Rightarrow> presence_session" where
  "ended_session P now a s =
     s\<lparr>ps_sequence := arg_int a ''sequence'', ps_report_digest := Some (report_fingerprint P a), ps_ended_at := Some now\<rparr>"

definition presence_end :: "platform \<Rightarrow> clock \<Rightarrow> principal \<Rightarrow> dict \<Rightarrow> cdb \<Rightarrow> (cdb \<times> dict) outcome" where
  "presence_end P clk p a db =
     (let project = arg_str a ''project_id''; now = clk 0; pol = presence_policy_row project db in
      and_then (authorize_tool p ''memory_presence_end'' (Some project)) (\<lambda>_.
      and_then (owned_session P a p db) (\<lambda>s.
      if ps_ended_at s \<noteq> None
      then checked [(\<not> (arg_int a ''sequence'' = ps_sequence s \<and> ps_report_digest s = Some (report_fingerprint P a)),
             cont_conflict ''Observation already ended'')] (db, presence_response P s project p now pol True)
      else and_then (checked [(arg_int a ''sequence'' \<le> ps_sequence s, cont_conflict ''Presence sequence is stale'')] ()) (\<lambda>_.
        let s1 = ended_session P now a s
        in and_then (event (clk 1) project (p_user_id p) ''presence_end'' (ps_id s) [(''sequence'', PInt (ps_sequence s1))]
             (set_session (ps_id s) (ended_session P now a) db)) (\<lambda>db1.
           Inr (db1, presence_response P s1 project p now pol False))))))"

definition last_activity :: "presence_session \<Rightarrow> time" where
  \<comment> \<open>COALESCE(ended_at,last_seen_at)\<close>
  "last_activity s = (case ps_ended_at s of None \<Rightarrow> ps_last_seen_at s | Some t \<Rightarrow> t)"

definition prunable_sessions :: "string \<Rightarrow> time \<Rightarrow> nat \<Rightarrow> presence_session list \<Rightarrow> string list" where
  "prunable_sessions project cutoff limit t =
     map ps_id (take limit (sort_key (\<lambda>s. (ps_last_seen_at s, ps_id s))
       (filter (\<lambda>s. ps_project_id s = project \<and> ps_retired_at s = None \<and> last_activity s < cutoff) t)))"

definition retired_session :: "time \<Rightarrow> presence_session \<Rightarrow> presence_session" where
  "retired_session now s =
     s\<lparr>ps_retired_at := Some now, ps_ended_at := (case ps_ended_at s of None \<Rightarrow> Some now | Some t \<Rightarrow> Some t),
       ps_host_kind := ''unknown'', ps_reported_state := ''unknown'', ps_observation_scope := ''partial'',
       ps_state_observation_available := False, ps_active_work_count := 0, ps_work_unit_id := None, ps_checkpoint_id := None,
       ps_idle_since_at := None\<rparr>"

definition presence_prune_body :: "clock \<Rightarrow> principal \<Rightarrow> dict \<Rightarrow> cdb \<Rightarrow> (cdb \<times> dict) outcome" where
  "presence_prune_body clk p a db =
     (let project = arg_str a ''project_id''; now = clk 0; body = snd (presence_policy_row project db);
          ids = prunable_sessions project (now - hours (arg_int body ''retention_hours''))
            (nat (int_of (get_or a ''limit'' (PInt 100)))) (cd_presence db)
      in and_then (event (clk 1) project (p_user_id p) ''presence_prune'' project
             [(''retired'', PInt (int (length ids))), (''reason'', py_get a ''reason'')]
             (db\<lparr>cd_presence := update_where (\<lambda>s. ps_id s \<in> set ids) (retired_session now) (cd_presence db)\<rparr>)) (\<lambda>db1.
           Inr (db1, [(''project_id'', PStr project), (''retired'', PInt (int (length ids)))])))"

definition presence_prune :: "platform \<Rightarrow> clock \<Rightarrow> principal \<Rightarrow> dict \<Rightarrow> cdb \<Rightarrow> (cdb \<times> dict) outcome" where
  "presence_prune P clk p a db =
     and_then (authorize_tool p ''memory_presence_prune'' (Some (arg_str a ''project_id''))) (\<lambda>_.
       receipted P a p ''presence_prune'' (presence_prune_body clk p a) db)"

end
