(* ===== verification/Presence_Props.thy ===== *)
theory Presence_Props
  imports Row_Changes Presence
begin

text \<open>
  Properties of the presence service: sessions move only forward, exactly as the trigger of
  the database demands; a report is effective once; nobody is called idle without a fresh
  and complete observation; and observation never touches work.
\<close>

subsection \<open>What the database allows\<close>

definition presence_identity :: "presence_session \<Rightarrow> presence_session" where
  \<comment> \<open>a row less the columns an update may change\<close>
  "presence_identity s =
     s\<lparr>ps_host_kind := [], ps_classification := C_public, ps_sequence := 0, ps_state_sequence := 0, ps_report_digest := None,
       ps_reported_policy_version := 0, ps_reported_state := [], ps_observation_scope := [],
       ps_state_observation_available := False, ps_active_work_count := 0, ps_work_unit_id := None, ps_checkpoint_id := None,
       ps_last_seen_at := 0, ps_state_since_at := 0, ps_idle_since_at := None, ps_ended_at := None, ps_retired_at := None\<rparr>"

definition guard_presence_session :: "presence_session \<Rightarrow> presence_session \<Rightarrow> bool" where
  \<comment> \<open>the trigger lets the update pass\<close>
  "guard_presence_session old new \<longleftrightarrow>
     \<not> presence_identity new \<noteq> presence_identity old
     \<and> \<not> (ps_retired_at old \<noteq> None \<or> ps_sequence new < ps_sequence old \<or> ps_state_sequence new < ps_state_sequence old
          \<or> ps_ended_at old \<noteq> None \<and> ps_ended_at new \<noteq> ps_ended_at old)
     \<and> \<not> (ps_ended_at old \<noteq> None \<and> ps_retired_at new = None \<and> new \<noteq> old)
     \<and> \<not> class_index (ps_classification new) < class_index (ps_classification old)"

definition session_evolves :: "presence_session \<Rightarrow> presence_session \<Rightarrow> bool" where
  \<comment> \<open>unchanged, or updated as the trigger allows\<close>
  "session_evolves s s' \<longleftrightarrow> s' = s \<or> guard_presence_session s s'"

lemma session_evolves_refl: "session_evolves s s"
  by (simp add: session_evolves_def)

lemma session_evolves_trans: "session_evolves a b \<Longrightarrow> session_evolves b c \<Longrightarrow> session_evolves a c"
  unfolding session_evolves_def guard_presence_session_def by auto

definition session_of :: "cdb \<Rightarrow> string \<Rightarrow> presence_session option" where
  "session_of db k = fetchrow (\<lambda>s. ps_id s = k) (cd_presence db)"

definition presence_ok :: "cdb \<Rightarrow> bool" where
  "presence_ok db \<longleftrightarrow> distinct (map ps_id (cd_presence db))"

subsection \<open>Steps\<close>

inductive presence_step :: "clock \<Rightarrow> cdb \<Rightarrow> cdb \<Rightarrow> bool" where
  ps_policy: "presence_policy_set P clk p a db = Inr (db', res) \<Longrightarrow> presence_step clk db db'"
| ps_register: "presence_register P clk i p a db = Inr (db', res) \<Longrightarrow> i \<notin> ps_id ` set (cd_presence db)
    \<Longrightarrow> presence_step clk db db'"
| ps_heartbeat: "presence_heartbeat P clk p a db = Inr (db', res) \<Longrightarrow> presence_step clk db db'"
| ps_end: "presence_end P clk p a db = Inr (db', res) \<Longrightarrow> presence_step clk db db'"
| ps_prune: "presence_prune P clk p a db = Inr (db', res) \<Longrightarrow> presence_step clk db db'"
| ps_other: "cd_presence db' = cd_presence db \<Longrightarrow> core db' = core db \<Longrightarrow> cd_receipts db' = cd_receipts db
    \<Longrightarrow> presence_step clk db db'"

text \<open>Everything an operation changes but its own tables, the receipts and the log.\<close>

lemma event_frame: "event now project actor action target details db = Inr db' \<Longrightarrow> log_frame db db'"
  using event_good unfolding log_good_def by blast

lemma ownedE:
  assumes "owned_session P a p db = Inr s"
  shows "s \<in> set (cd_presence db)" "ps_id s = arg_str a ''session_id''" "ps_retired_at s = None"
    "fetchrow (\<lambda>s. ps_id s = arg_str a ''session_id'' \<and> ps_project_id s = arg_str a ''project_id''
          \<and> ps_actor_id s = p_user_id p) (cd_presence db) = Some s"
  using assms by (auto simp: owned_session_def split: option.splits dest: fetchrow_SomeD)

lemma owned_session_of: "presence_ok db \<Longrightarrow> owned_session P a p db = Inr s \<Longrightarrow> session_of db (arg_str a ''session_id'') = Some s"
  unfolding presence_ok_def session_of_def by (rule fetchrow_key [OF _ ownedE(4)])

lemma fold_max_level: "class_index c \<le> class_index (fold (\<lambda>x m. max_level m x) ls c)"
proof (induction ls arbitrary: c)
  case (Cons l ls)
  have "class_index c \<le> class_index (max_level c l)" by (simp add: max_level_def)
  also have "\<dots> \<le> class_index (fold (\<lambda>x m. max_level m x) ls (max_level c l))" by (rule Cons)
  finally show ?case by simp
qed simp

lemma report_class_ge: "report_class s a p now db = Inr level \<Longrightarrow> class_index (ps_classification s) \<le> class_index level"
proof -
  assume "report_class s a p now db = Inr level"
  then obtain ls where "level = fold (\<lambda>x m. max_level m x) ls (ps_classification s)"
    unfolding report_class_def and_then_Inr_iff sum.inject by blast
  then show ?thesis using fold_max_level by simp
qed

lemma heartbeatE:
  assumes "presence_heartbeat P clk p a db = Inr (db', res)"
  obtains (replayed) s where "owned_session P a p db = Inr s" "ps_ended_at s = None" "arg_int a ''sequence'' = ps_sequence s"
      "ps_report_digest s = Some (report_fingerprint P a)" "db' = db"
  | (reported) s level limits since where "owned_session P a p db = Inr s" "ps_ended_at s = None"
      "report_class s a p (clk 0) db = Inr level" "policy_values (snd (presence_policy_row (arg_str a ''project_id'') db)) = Some limits"
      "next_times (Some (session_dict s)) (arg_str a ''reported_state'') (PTime (clk 0)) limits (state_differs a s) = Some since"
      "ps_sequence s < arg_int a ''sequence''" "arg_int a ''state_sequence'' = ps_state_sequence s + (if state_differs a s then 1 else 0)"
      "log_frame (set_session (ps_id s) (reported_session P (clk 0) a level since) db) db'"
      "res = presence_response P (reported_session P (clk 0) a level since s) (arg_str a ''project_id'') p (clk 0)
         (presence_policy_row (arg_str a ''project_id'') db) False"
      "\<not> inconsistent_report a" "arg_str a ''observation_scope'' \<in> {ps_session_kind s, ''partial''}"
proof -
  have consistent: "\<not> inconsistent_report a" using assms by (auto simp: presence_heartbeat_def Let_def and_then_Inr_iff)
  obtain s where s: "owned_session P a p db = Inr s" "ps_ended_at s = None"
    using assms by (auto simp: presence_heartbeat_def Let_def and_then_Inr_iff)
  show thesis
  proof (cases "arg_int a ''sequence'' = ps_sequence s \<and> ps_report_digest s = Some (report_fingerprint P a)")
    case True
    then show thesis using assms s by (intro replayed [of s]) (auto simp: presence_heartbeat_def Let_def and_then_Inr_iff)
  next
    case False
    let ?pol = "presence_policy_row (arg_str a ''project_id'') db"
    obtain level where l: "report_class s a p (clk 0) db = Inr level"
      and checks: "checked (report_checks s a (snd ?pol)) () = Inr ()"
      using assms s False by (auto simp: presence_heartbeat_def Let_def and_then_Inr_iff)
    obtain limits where lim: "policy_values (snd ?pol) = Some limits"
      using assms s False l by (auto simp: presence_heartbeat_def Let_def and_then_Inr_iff split: option.splits)
    obtain since where since: "next_times (Some (session_dict s)) (arg_str a ''reported_state'') (PTime (clk 0)) limits (state_differs a s) = Some since"
      using assms s False l lim by (auto simp: presence_heartbeat_def Let_def and_then_Inr_iff split: option.splits)
    have res: "log_frame (set_session (ps_id s) (reported_session P (clk 0) a level since) db) db'
      \<and> res = presence_response P (reported_session P (clk 0) a level since s) (arg_str a ''project_id'') p (clk 0) ?pol False"
      using assms s False l lim since
      by (auto simp: presence_heartbeat_def Let_def and_then_Inr_iff intro: event_frame split: if_splits)
    show thesis
      by (rule reported [OF s l lim since _ _ conjunct1 [OF res] conjunct2 [OF res] consistent])
        (use checks in \<open>auto simp: report_checks_def split: if_splits\<close>)
  qed
qed

lemma registerE:
  assumes "presence_register P clk i p a db = Inr (db', res)"
  obtains (replayed) s where "s \<in> set (cd_presence db)" "ps_register_digest s = report_fingerprint P a" "ps_retired_at s = None" "db' = db"
  | (registered) level where "registered_class p a db = Inr level"
      "log_frame (db\<lparr>cd_presence := insert_row (new_session P i (clk 0) p a level) (cd_presence db)\<rparr>) db'"
proof -
  let ?found = "fetchrow (\<lambda>s. ps_project_id s = arg_str a ''project_id'' \<and> ps_actor_id s = p_user_id p
          \<and> ps_client_instance_id s = arg_str a ''client_instance_id'') (cd_presence db)"
  show thesis
  proof (cases ?found)
    case None
    then obtain level where "registered_class p a db = Inr level"
      and e: "\<exists>details. event (clk 1) (arg_str a ''project_id'') (p_user_id p) ''presence_register'' i details
          (db\<lparr>cd_presence := insert_row (new_session P i (clk 0) p a level) (cd_presence db)\<rparr>) = Inr db'"
      using assms by (auto simp: presence_register_def Let_def and_then_Inr_iff)
    then show thesis using registered event_frame by blast
  next
    case (Some s)
    then show thesis using assms
      by (intro replayed [of s]) (auto simp: presence_register_def Let_def and_then_Inr_iff dest: fetchrow_SomeD)
  qed
qed

lemma endE:
  assumes "presence_end P clk p a db = Inr (db', res)"
  obtains (replayed) "db' = db"
  | (ended) s where "owned_session P a p db = Inr s" "ps_ended_at s = None" "ps_sequence s < arg_int a ''sequence''"
      "log_frame (set_session (ps_id s) (ended_session P (clk 0) a) db) db'"
proof -
  obtain s where s: "owned_session P a p db = Inr s"
    using assms by (auto simp: presence_end_def Let_def and_then_Inr_iff)
  show thesis
  proof (cases "ps_ended_at s = None")
    case True
    have "ps_sequence s < arg_int a ''sequence'' \<and> log_frame (set_session (ps_id s) (ended_session P (clk 0) a) db) db'"
      using assms s True by (auto simp: presence_end_def Let_def and_then_Inr_iff intro: event_frame)
    then show thesis by (intro ended [OF s True]) auto
  next
    case False
    then show thesis using assms s replayed by (auto simp: presence_end_def Let_def and_then_Inr_iff)
  qed
qed

text \<open>How an operation changes one session, and the sessions it adds.\<close>

inductive session_change :: "presence_session \<Rightarrow> presence_session \<Rightarrow> bool" where
  sc_same: "session_change s s"
| sc_report: "ps_retired_at s = None \<Longrightarrow> ps_ended_at s = None \<Longrightarrow> \<not> inconsistent_report a
    \<Longrightarrow> ps_sequence s < arg_int a ''sequence'' \<Longrightarrow> ps_state_sequence s \<le> arg_int a ''state_sequence''
    \<Longrightarrow> arg_str a ''observation_scope'' \<in> {ps_session_kind s, ''partial''}
    \<Longrightarrow> class_index (ps_classification s) \<le> class_index level
    \<Longrightarrow> next_times (Some (session_dict s)) (arg_str a ''reported_state'') (PTime now) limits (state_differs a s) = Some since
    \<Longrightarrow> session_change s (reported_session P now a level since s)"
| sc_end: "ps_retired_at s = None \<Longrightarrow> ps_ended_at s = None \<Longrightarrow> ps_sequence s < arg_int a ''sequence''
    \<Longrightarrow> session_change s (ended_session P now a s)"
| sc_retire: "ps_retired_at s = None \<Longrightarrow> session_change s (retired_session now s)"

inductive_cases session_changeE: "session_change s s'"

definition added_session :: "presence_session \<Rightarrow> bool" where
  "added_session s \<longleftrightarrow> (\<exists>P i now p a level. s = new_session P i now p a level)"

abbreviation sessions_to :: "presence_session list \<Rightarrow> presence_session list \<Rightarrow> bool" where
  "sessions_to \<equiv> rows_to ps_id session_change added_session"

lemma session_change_evolves: "session_change s s' \<Longrightarrow> session_evolves s s'"
  by (erule session_changeE)
    (auto simp: session_evolves_def guard_presence_session_def reported_session_def ended_session_def retired_session_def
      presence_identity_def split: option.split)

lemma sessions_same: "sessions_to t t"
  by (rule rows_to_same) (rule sc_same)

lemma set_session_change:
  assumes "presence_ok db" and "s \<in> set (cd_presence db)" and "\<And>x. ps_id (f x) = ps_id x" and "session_change s (f s)"
    and "log_frame (set_session (ps_id s) f db) db'"
  shows "sessions_to (cd_presence db) (cd_presence db')"
proof -
  have "cd_presence db' = update_where (\<lambda>x. ps_id x = ps_id s) f (cd_presence db)"
    using log_frame_fields(10) [OF assms(5)] by (simp add: set_session_def)
  moreover have "sessions_to (cd_presence db) (update_where (\<lambda>x. ps_id x = ps_id s) f (cd_presence db))"
  proof (rule rows_to_update)
    show "session_change x x" for x by (rule sc_same)
    show "ps_id (f x) = ps_id x" for x by (rule assms(3))
    fix x assume x: "x \<in> set (cd_presence db)" "ps_id x = ps_id s"
    have "x = s" by (rule update_one [OF _ assms(2) x]) (use assms(1) in \<open>simp add: presence_ok_def\<close>)
    then show "session_change x (f x)" using assms(4) by simp
  qed
  ultimately show ?thesis by simp
qed

lemma prune_rows:
  assumes "presence_ok db"
  shows "sessions_to (cd_presence db)
     (update_where (\<lambda>s. ps_id s \<in> set (prunable_sessions project cutoff n (cd_presence db))) (retired_session now) (cd_presence db))"
proof (rule rows_to_update)
  show "session_change s s" for s by (rule sc_same)
  show "ps_id (retired_session now r) = ps_id r" for r by (simp add: retired_session_def)
  fix s assume s: "s \<in> set (cd_presence db)" "ps_id s \<in> set (prunable_sessions project cutoff n (cd_presence db))"
  then obtain x where "x \<in> set (cd_presence db)" "ps_retired_at x = None" "ps_id x = ps_id s"
    by (auto simp: prunable_sessions_def dest!: in_set_takeD)
  then have "ps_retired_at s = None" using update_one s(1) assms unfolding presence_ok_def by metis
  then show "session_change s (retired_session now s)" by (rule sc_retire)
qed

lemma receipted_presence:
  assumes "receipted P a p op body db = Inr (db', res)"
  obtains "db' = db" | db1 r k v where "body db = Inr (db1, r)" "find_receipt db k = None" "db' = put_receipt db1 k v"
  using assms by (cases rule: receiptedE) auto

lemma presence_step_rows:
  assumes "presence_step clk db db'" and "presence_ok db"
  shows "sessions_to (cd_presence db) (cd_presence db')"
  using assms(1)
proof cases
  case (ps_policy P p a res)
  then have "receipted P a p ''presence_policy_set'' (presence_policy_body clk p a) db = Inr (db', res)"
    by (auto simp: presence_policy_set_def and_then_Inr_iff)
  then have "cd_presence db' = cd_presence db"
    by (rule receipted_presence)
      (auto simp: presence_policy_body_def Let_def and_then_Inr_iff put_receipt_def log_frame_fields dest!: event_frame)
  then show ?thesis by (simp add: sessions_same)
next
  case (ps_register P i p a res)
  then show ?thesis
  proof (cases rule: registerE)
    case (registered level)
    have "cd_presence db' = insert_row (new_session P i (clk 0) p a level) (cd_presence db)"
      using log_frame_fields(10) [OF registered(2)] by simp
    moreover have "ps_id (new_session P i (clk 0) p a level) = i" by (simp add: new_session_def)
    moreover have "added_session (new_session P i (clk 0) p a level)" unfolding added_session_def by blast
    ultimately show ?thesis
      using ps_register(2) rows_to_insert [where R = session_change and key = ps_id and N = added_session, OF sc_same] by simp
  qed (simp add: sessions_same)
next
  case (ps_heartbeat P p a res)
  then show ?thesis
  proof (cases rule: heartbeatE)
    case (reported s level limits since)
    note s = ownedE [OF reported(1)]
    show ?thesis
    proof (rule set_session_change [OF assms(2) s(1) _ _ reported(8)])
      show "ps_id (reported_session P (clk 0) a level since x) = ps_id x" for x by (simp add: reported_session_def)
      show "session_change s (reported_session P (clk 0) a level since s)"
        using s(3) reported(2,5,6,7,10,11) report_class_ge [OF reported(3)] by (intro sc_report) (simp_all split: if_splits)
    qed
  qed (simp add: sessions_same)
next
  case (ps_end P p a res)
  then show ?thesis
  proof (cases rule: endE)
    case (ended s)
    note s = ownedE [OF ended(1)]
    show ?thesis
      by (rule set_session_change [OF assms(2) s(1) _ sc_end [OF s(3) ended(2,3)] ended(4)]) (simp add: ended_session_def)
  qed (simp add: sessions_same)
next
  case (ps_prune P p a res)
  then have "receipted P a p ''presence_prune'' (presence_prune_body clk p a) db = Inr (db', res)"
    by (auto simp: presence_prune_def and_then_Inr_iff)
  then show ?thesis
  proof (rule receipted_presence)
    assume "db' = db"
    then show ?thesis by (simp add: sessions_same)
  next
    fix db1 r k v assume b: "presence_prune_body clk p a db = Inr (db1, r)" "db' = put_receipt db1 k v"
    then obtain project cutoff n details where "event (clk 1) (arg_str a ''project_id'') (p_user_id p) ''presence_prune''
        (arg_str a ''project_id'') details (db\<lparr>cd_presence := update_where
           (\<lambda>s. ps_id s \<in> set (prunable_sessions project cutoff n (cd_presence db))) (retired_session (clk 0)) (cd_presence db)\<rparr>) = Inr db1"
      unfolding presence_prune_body_def Let_def and_then_Inr_iff by blast
    from log_frame_fields(10) [OF event_frame [OF this]] have "cd_presence db' = update_where (\<lambda>s. ps_id s \<in> set (prunable_sessions project cutoff n (cd_presence db)))
        (retired_session (clk 0)) (cd_presence db)"
      by (simp add: b(2) put_receipt_def)
    then show ?thesis using prune_rows [OF assms(2)] by metis
  qed
next
  case ps_other
  then show ?thesis by (simp add: sessions_same)
qed

interpretation ph: row_history presence_step presence_ok session_of session_evolves
proof
  show "presence_ok db \<Longrightarrow> presence_step clk db db' \<Longrightarrow> presence_ok db'" for clk db db'
    using rows_to_distinct [OF presence_step_rows] unfolding presence_ok_def by blast
  show "\<exists>r'. session_of db' k = Some r' \<and> session_evolves r r'"
    if "presence_ok db" "presence_step clk db db'" "session_of db k = Some r" for clk db db' k r
    using rows_to_lookup [OF presence_step_rows [OF that(2,1)]] that(3) session_change_evolves unfolding session_of_def by blast
qed (rule session_evolves_refl, erule session_evolves_trans)

subsection \<open>Properties of sessions\<close>

lemma presence_identity_fields:
  assumes "presence_identity s' = presence_identity s"
  shows "ps_id s' = ps_id s" "ps_project_id s' = ps_project_id s" "ps_actor_id s' = ps_actor_id s"
    "ps_session_token_digest s' = ps_session_token_digest s" "ps_client_instance_id s' = ps_client_instance_id s"
    "ps_created_at s' = ps_created_at s"
  using assms by (cases s; cases s'; simp add: presence_identity_def)+

text \<open>
  C27. Sessions only move forward: whatever the operations of the service do, in any order,
  a session is never deleted; every update of it is one that the trigger
  \<open>guard_presence_session\<close> of the database lets pass, so that none fails there. It stays
  bound to its actor and its token, its sequence and its classification never decrease, its
  end is final, and once retired it is a tombstone that never changes again.
\<close>

theorem presence_sessions_move_forward:
  assumes "run presence_step db ts db'" and "presence_ok db" and "session_of db k = Some s"
  shows "\<exists>s'. session_of db' k = Some s' \<and> (s' = s \<or> guard_presence_session s s')
    \<and> ps_actor_id s' = ps_actor_id s \<and> ps_session_token_digest s' = ps_session_token_digest s
    \<and> ps_sequence s \<le> ps_sequence s' \<and> ps_classification s \<le> ps_classification s'
    \<and> (ps_ended_at s \<noteq> None \<longrightarrow> ps_ended_at s' = ps_ended_at s) \<and> (ps_retired_at s \<noteq> None \<longrightarrow> s' = s)"
proof -
  obtain s' where s': "session_of db' k = Some s'" "session_evolves s s'"
    using ph.row_run [OF assms] by blast
  moreover have "ps_actor_id s' = ps_actor_id s" "ps_session_token_digest s' = ps_session_token_digest s"
    using s'(2) presence_identity_fields(3,4) unfolding session_evolves_def guard_presence_session_def by blast+
  ultimately show ?thesis
    by (intro exI [of _ s']) (auto simp: session_evolves_def guard_presence_session_def less_eq_classification_def)
qed

lemma heartbeat_again:
  assumes "owned_session P a p db = Inr s" and "ps_ended_at s = None" and "arg_int a ''sequence'' = ps_sequence s"
    and "ps_report_digest s = Some (report_fingerprint P a)" and "\<not> inconsistent_report a"
    and "authorize_tool p ''memory_presence_heartbeat'' (Some (arg_str a ''project_id'')) = Inr ()"
  shows "presence_heartbeat P clk p a db = Inr (db, presence_response P s (arg_str a ''project_id'') p (clk 0)
      (presence_policy_row (arg_str a ''project_id'') db) True)"
  using assms by (simp add: presence_heartbeat_def Let_def checked_def)

lemma response_replayed: "py_get (presence_response P s project p now pol r) ''replayed'' = PBool r"
  by (simp add: presence_response_def envelope_def py_get_def)

text \<open>
  A report counts once: repeating it at once is answered as a replay and changes
  nothing, and after any further transactions no report for the session whose sequence is
  not above the one accepted changes anything, whoever sends it.
\<close>

lemma presence_report_counts_once:
  assumes "presence_heartbeat P clk p a db = Inr (db1, res)" and "presence_ok db" and "run presence_step db1 ts db2"
    and "arg_str b ''session_id'' = arg_str a ''session_id''" and "arg_int b ''sequence'' \<le> arg_int a ''sequence''"
  shows "(\<forall>Q q clk' db3 r. presence_heartbeat Q clk' q b db2 = Inr (db3, r) \<longrightarrow> db3 = db2)
    \<and> (\<forall>clk'. \<exists>r. presence_heartbeat P clk' p a db1 = Inr (db1, r) \<and> py_get r ''replayed'' = PBool True)"
proof -
  let ?k = "arg_str a ''session_id''"
  have "presence_step clk db db1" using assms(1) by (rule ps_heartbeat)
  then have ok: "presence_ok db1" "presence_ok db2"
    using ph.inv_step [OF assms(2)] ph.inv_run [OF assms(3)] by blast+
  have a: "\<not> inconsistent_report a" "authorize_tool p ''memory_presence_heartbeat'' (Some (arg_str a ''project_id'')) = Inr ()"
    using assms(1) by (auto simp: presence_heartbeat_def Let_def and_then_Inr_iff)
  obtain s1 where s1: "owned_session P a p db1 = Inr s1" "ps_ended_at s1 = None" "arg_int a ''sequence'' = ps_sequence s1"
      "ps_report_digest s1 = Some (report_fingerprint P a)"
    using assms(1)
  proof (cases rule: heartbeatE)
    case (replayed s)
    then show ?thesis using that by blast
  next
    case (reported s level limits since)
    let ?f = "reported_session P (clk 0) a level since"
    have f: "ps_id (?f x) = ps_id x" "ps_project_id (?f x) = ps_project_id x" "ps_actor_id (?f x) = ps_actor_id x"
        "ps_ended_at (?f x) = ps_ended_at x" "ps_retired_at (?f x) = ps_retired_at x"
        "ps_session_token_digest (?f x) = ps_session_token_digest x" "ps_sequence (?f x) = arg_int a ''sequence''"
        "ps_report_digest (?f x) = Some (report_fingerprint P a)" for x
      by (simp_all add: reported_session_def)
    have "cd_presence db1 = update_where (\<lambda>x. ps_id x = ps_id s) ?f (cd_presence db)"
      using log_frame_fields(10) [OF reported(8)] by (simp add: set_session_def)
    then have "owned_session P a p db1 = Inr (?f s)"
      using reported(1) ownedE(4) [OF reported(1)]
      by (simp add: owned_session_def fetchrow_update_where f)
    then show ?thesis using that f reported(2) by simp
  qed
  have "session_of db1 ?k = Some s1" by (rule owned_session_of [OF ok(1) s1(1)])
  then obtain s2 where s2: "session_of db2 ?k = Some s2" "ps_sequence s1 \<le> ps_sequence s2"
    using ph.row_run [OF assms(3) ok(1)] unfolding session_evolves_def guard_presence_session_def by fastforce
  have "db3 = db2" if "presence_heartbeat Q clk' q b db2 = Inr (db3, r)" for Q clk' q db3 r
    using that
  proof (cases rule: heartbeatE)
    case (reported s level limits since)
    have "s = s2" using owned_session_of [OF ok(2) reported(1)] s2(1) assms(4) by simp
    then show ?thesis using reported(6) s2(2) s1(3) assms(5) by simp
  qed
  then show ?thesis using heartbeat_again [OF s1 a] response_replayed by blast
qed

subsection \<open>What the reports are worth\<close>

definition report_ok :: "presence_session \<Rightarrow> bool" where
  \<comment> \<open>the columns of a session agree with each other\<close>
  "report_ok s \<longleftrightarrow> ps_reported_state s \<in> set REPORTED_STATES \<and> ps_state_since_at s \<le> ps_last_seen_at s
     \<and> (ps_reported_state s \<noteq> ''unknown'' \<longrightarrow>
          ps_state_observation_available s \<and> ps_observation_scope s = ps_session_kind s)
     \<and> (ps_reported_state s = ''running'' \<longrightarrow> ps_active_work_count s \<noteq> 0)
     \<and> (ps_reported_state s = ''idle'' \<longrightarrow> ps_active_work_count s = 0
          \<and> (\<exists>i. ps_idle_since_at s = Some i \<and> ps_state_since_at s \<le> i \<and> i \<le> ps_last_seen_at s))"

lemma session_dict_get:
  "py_get (session_dict s) ''last_seen_at'' = PTime (ps_last_seen_at s)"
  "py_get (session_dict s) ''state_since_at'' = PTime (ps_state_since_at s)"
  "py_get (session_dict s) ''idle_since_at'' = presence_time (ps_idle_since_at s)"
  "py_get (session_dict s) ''ended_at'' = presence_time (ps_ended_at s)"
  "py_get (session_dict s) ''reported_state'' = PStr (ps_reported_state s)"
  "get_or (session_dict s) ''reported_state'' v = PStr (ps_reported_state s)"
  "py_get (session_dict s) ''observation_scope'' = PStr (ps_observation_scope s)"
  "py_get (session_dict s) ''state_observation_available'' = PBool (ps_state_observation_available s)"
  "py_get (session_dict s) ''active_work_count'' = PInt (ps_active_work_count s)"
  by (simp_all add: session_dict_def py_get_def get_or_def)

lemma presence_time_simps [simp]:
  "presence_time None = PNone" "presence_time (Some t) = PTime t" "opt_time_of (PTime t) = Some t" "opt_time_of PNone = None"
  "opt_time_of (presence_time x) = x" "presence_time x = PNone \<longleftrightarrow> x = None"
  by (cases x; simp add: presence_time_def opt_time_of_def)+

lemma next_times_session:
  "next_times (Some (session_dict s)) r (PTime now) limits changed = Some since \<longleftrightarrow>
     r \<in> set REPORTED_STATES
     \<and> (let fresh = (changed \<or> resumed s now (pl_stale_after_seconds limits) \<or> ps_reported_state s \<noteq> r)
        in since = (PTime (if fresh then now else ps_state_since_at s),
             if r = ''idle'' then (if fresh then PTime now else presence_time (ps_idle_since_at s)) else PNone))"
  by (auto simp: next_times_def discontinuity_def resumed_def prev_get_def session_dict_get Let_def)

lemma report_ok_reported:
  assumes "report_ok s" and "\<not> inconsistent_report a" and "arg_str a ''observation_scope'' \<in> {ps_session_kind s, ''partial''}"
    and "next_times (Some (session_dict s)) (arg_str a ''reported_state'') (PTime now) limits (state_differs a s) = Some since"
  shows "report_ok (reported_session P now a level since s)"
proof -
  let ?fresh = "state_differs a s \<or> resumed s now (pl_stale_after_seconds limits) \<or> ps_reported_state s \<noteq> arg_str a ''reported_state''"
  have since: "arg_str a ''reported_state'' \<in> set REPORTED_STATES"
      "since = (PTime (if ?fresh then now else ps_state_since_at s),
         if arg_str a ''reported_state'' = ''idle'' then (if ?fresh then PTime now else presence_time (ps_idle_since_at s)) else PNone)"
    using assms(4) unfolding next_times_session Let_def by blast+
  have a: "arg_str a ''reported_state'' \<noteq> ''unknown'' \<longrightarrow> truthy (py_get a ''state_observation_available'')
      \<and> arg_str a ''observation_scope'' = ps_session_kind s"
    "arg_str a ''reported_state'' = ''running'' \<longrightarrow> arg_int a ''active_work_count'' \<noteq> 0"
    "arg_str a ''reported_state'' = ''idle'' \<longrightarrow> arg_int a ''active_work_count'' = 0"
    using assms(2,3) by (auto simp: inconsistent_report_def Let_def)
  show ?thesis
  proof (cases ?fresh)
    case True
    then have "since = (PTime now, if arg_str a ''reported_state'' = ''idle'' then PTime now else PNone)"
      using since(2) by (simp only: if_True)
    then show ?thesis using since(1) a by (simp add: report_ok_def reported_session_def)
  next
    case False
    then have "ps_last_seen_at s \<le> now" by (simp add: resumed_def)
    with False show ?thesis using since a assms(1) by (auto simp: report_ok_def reported_session_def)
  qed
qed

lemma session_change_report_ok: "session_change s s' \<Longrightarrow> report_ok s \<Longrightarrow> report_ok s'"
  by (erule session_changeE)
    (auto simp: report_ok_reported, auto simp: report_ok_def ended_session_def retired_session_def REPORTED_STATES_def)

lemma added_report_ok: "added_session s \<Longrightarrow> report_ok s"
  by (auto simp: added_session_def new_session_def report_ok_def REPORTED_STATES_def)

lemma run_report_ok:
  assumes "run presence_step db ts db'" and "presence_ok db" and "\<forall>s \<in> set (cd_presence db). report_ok s"
  shows "\<forall>s \<in> set (cd_presence db'). report_ok s"
proof -
  have "presence_ok db' \<and> (\<forall>s \<in> set (cd_presence db'). report_ok s)"
  proof (rule run_invariant [OF assms(1)])
    show "presence_ok db \<and> (\<forall>s \<in> set (cd_presence db). report_ok s)" using assms(2,3) by blast
    fix t s s' assume "presence_ok s \<and> (\<forall>r \<in> set (cd_presence s). report_ok r)" "presence_step t s s'"
    then show "presence_ok s' \<and> (\<forall>r \<in> set (cd_presence s'). report_ok r)"
      using ph.inv_step rows_to_all [OF presence_step_rows, of t s s' report_ok] session_change_report_ok added_report_ok by blast
  qed
  then show ?thesis by blast
qed

text \<open>
  Reports are believed while they are fresh: in every state the operations reach, the
  columns of a session agree with each other, so that within the stale bound a session is
  shown in exactly the state it reported, never as inconsistent or discontinuous. An idle
  report counts from the start of its interval, and is called idle exactly when that
  interval has reached the threshold of the policy.
\<close>

lemma presence_fresh_reports_believed:
  assumes "run presence_step db ts db'" and "presence_ok db" and "\<forall>s \<in> set (cd_presence db). report_ok s"
    and "s \<in> set (cd_presence db')" and "ps_session_kind s \<in> {''worker'', ''controller''}" and "0 \<le> ps_active_work_count s"
    and "ps_active_work_count s \<le> 128" and "ps_ended_at s = None" and "ps_last_seen_at s \<le> now"
    and "now < ps_last_seen_at s + seconds (pl_stale_after_seconds limits)"
  shows "\<exists>v. session_state (session_dict s) (PTime now) limits = Some v \<and> pv_freshness v = ''fresh''
    \<and> (ps_reported_state s \<noteq> ''idle'' \<longrightarrow> pv_effective_state v = ps_reported_state s \<and> \<not> pv_is_idle v)
    \<and> (ps_reported_state s = ''idle'' \<longrightarrow> (\<exists>i. ps_idle_since_at s = Some i
         \<and> pv_idle_seconds v = Some ((now - i) div 1000000)
         \<and> (pv_is_idle v \<longleftrightarrow> i + seconds (pl_idle_after_seconds limits) \<le> now)
         \<and> pv_effective_state v = (if pv_is_idle v then ''idle'' else ''waiting'')))"
proof -
  have ok: "report_ok s" using run_report_ok [OF assms(1-3)] assms(4) by blast
  let ?u = "unobserved (PStr (ps_reported_state s))\<lparr>pv_freshness := ''fresh''\<rparr>"
  have v: "session_state (session_dict s) (PTime now) limits = Some (fresh_state (session_dict s) now limits ?u)"
    using assms(8-10) ok by (auto simp: session_state_def session_dict_get report_ok_def)
  have known: "known_state (PStr (ps_reported_state s))" using ok by (simp add: known_state_def is_str_def report_ok_def)
  show ?thesis
  proof (cases "ps_reported_state s = ''unknown''")
    case True
    have "pv_freshness (fresh_state (session_dict s) now limits ?u) = ''fresh''
      \<and> pv_effective_state (fresh_state (session_dict s) now limits ?u) = ''unknown'' \<and> \<not> pv_is_idle (fresh_state (session_dict s) now limits ?u)"
      by (simp add: fresh_state_def session_dict_get True unobserved_def Let_def)
    then show ?thesis using v True by auto
  next
    case False
    have complete_obs: "\<not> incomplete_observation (session_dict s)"
      using False known ok assms(5-7) by (auto simp: incomplete_observation_def session_dict_get report_ok_def)
    show ?thesis
    proof (cases "ps_reported_state s = ''idle''")
      case True
      then obtain i where i: "ps_idle_since_at s = Some i" "ps_state_since_at s \<le> i" "i \<le> ps_last_seen_at s" "ps_active_work_count s = 0"
        using ok by (auto simp: report_ok_def)
      have th: "pl_idle_after_seconds limits \<le> (now - i) div 1000000 \<longleftrightarrow> i + seconds (pl_idle_after_seconds limits) \<le> now"
        by (auto simp: seconds_def)
      show ?thesis
        using v i assms(9) complete_obs
        by (intro exI [of _ "fresh_state (session_dict s) now limits ?u"])
          (simp add: fresh_state_def session_dict_get True int_of_def unobserved_def whole_seconds_def th Let_def)
    next
      case idle: False
      have "\<not> (ps_reported_state s = ''running'' \<and> ps_active_work_count s = 0)" using ok by (auto simp: report_ok_def)
      then show ?thesis
        using v complete_obs False idle
        by (intro exI [of _ "fresh_state (session_dict s) now limits ?u"])
          (auto simp: fresh_state_def session_dict_get int_of_def unobserved_def Let_def)
    qed
  qed
qed

lemma fresh_state_idle:
  assumes "pv_is_idle (fresh_state row now limits u)" and "\<not> pv_is_idle u" and "pv_freshness u = ''fresh''"
  shows "get_or row ''reported_state'' (PStr ''unknown'') = PStr ''idle''
    \<and> py_get row ''active_work_count'' = PInt 0 \<and> py_get row ''state_observation_available'' = PBool True
    \<and> (\<exists>i. py_get row ''idle_since_at'' = PTime i \<and> i \<le> time_of (py_get row ''last_seen_at'')
         \<and> i + seconds (pl_idle_after_seconds limits) \<le> now)
    \<and> pv_freshness (fresh_state row now limits u) = ''fresh'' \<and> pv_effective_state (fresh_state row now limits u) = ''idle''"
proof -
  let ?r = "get_or row ''reported_state'' (PStr ''unknown'')" and ?i = "py_get row ''idle_since_at''"
  have c: "\<not> incomplete_observation row" and r: "str_of ?r = ''idle''" and a: "int_of (py_get row ''active_work_count'') = 0"
    and i: "aware ?i" "time_of ?i \<le> time_of (py_get row ''last_seen_at'')" "pl_idle_after_seconds limits \<le> whole_seconds (now - time_of ?i)"
    and res: "pv_freshness (fresh_state row now limits u) = ''fresh''" "pv_effective_state (fresh_state row now limits u) = ''idle''"
    using assms by (auto simp: fresh_state_def Let_def split: if_splits)
  have "bounded_int (py_get row ''active_work_count'', 0, 128)" using c by (simp add: incomplete_observation_def)
  then have "py_get row ''active_work_count'' = PInt 0" using a by (cases "py_get row ''active_work_count''") (auto simp: int_of_def)
  moreover have "?r = PStr ''idle''" using c r by (simp add: incomplete_observation_def known_state_def is_str_iff)
  moreover have "py_get row ''state_observation_available'' = PBool True" using c by (simp add: incomplete_observation_def)
  moreover have "?i = PTime (time_of ?i)" using i(1) by (simp add: aware_iff)
  moreover have "time_of ?i + seconds (pl_idle_after_seconds limits) \<le> now" using i(3) by (auto simp: whole_seconds_def seconds_def)
  ultimately show ?thesis using i(2) res by blast
qed

lemma aggregate_idle:
  assumes "aggregate_states states full = Some agg" and "pt_is_idle agg"
  shows "full \<and> (\<exists>s \<in> set states. pv_freshness s \<noteq> ''ended'')
    \<and> (\<forall>s \<in> set states. pv_freshness s \<noteq> ''ended'' \<longrightarrow> pv_is_idle s \<and> pv_freshness s = ''fresh'')"
proof -
  let ?opened = "filter (\<lambda>v. pv_freshness v \<noteq> ''ended'') states"
  have "full" "?opened \<noteq> []" "list_all (\<lambda>v. reports ''idle'' v \<or> reports ''waiting'' v) ?opened" "list_all pv_is_idle ?opened"
    using assms by (auto simp: aggregate_states_def Let_def split: if_splits)
  then show ?thesis by (auto simp: list_all_iff reports_def filter_empty_conv)
qed

lemma aggregate_running:
  assumes "aggregate_states states full = Some agg" and "\<exists>s \<in> set states. reports ''running'' s"
  shows "pt_effective_state agg = ''running'' \<and> \<not> pt_is_idle agg"
proof -
  have "list_ex (reports ''running'') (filter (\<lambda>v. pv_freshness v \<noteq> ''ended'') states)"
    using assms(2) by (auto simp: list_ex_iff reports_def)
  then show ?thesis using assms(1) by (auto simp: aggregate_states_def Let_def split: if_splits)
qed

text \<open>
  Nobody is called idle without evidence: a session read as idle has not ended, was
  heard of within the stale bound, reported itself idle with no active work under a complete
  observation, and its idle interval began no later than its last report and has reached the
  threshold. An aggregate is idle only when it is complete, has an open session, and every
  open session is idle; a fresh running session always shows.
\<close>

lemma presence_idle_sound:
  "(session_state row (PTime now) limits = Some v \<and> pv_is_idle v \<longrightarrow>
      (\<exists>seen i. py_get row ''ended_at'' = PNone \<and> py_get row ''last_seen_at'' = PTime seen \<and> seen \<le> now
        \<and> now - seen < seconds (pl_stale_after_seconds limits) \<and> get_or row ''reported_state'' (PStr ''unknown'') = PStr ''idle''
        \<and> py_get row ''active_work_count'' = PInt 0 \<and> py_get row ''state_observation_available'' = PBool True
        \<and> py_get row ''idle_since_at'' = PTime i \<and> i \<le> seen \<and> i + seconds (pl_idle_after_seconds limits) \<le> now
        \<and> pv_freshness v = ''fresh'' \<and> pv_effective_state v = ''idle''))
   \<and> (aggregate_states states full = Some agg \<longrightarrow>
      (pt_is_idle agg \<longrightarrow> full \<and> (\<exists>s \<in> set states. pv_freshness s \<noteq> ''ended'')
        \<and> (\<forall>s \<in> set states. pv_freshness s \<noteq> ''ended'' \<longrightarrow> pv_is_idle s \<and> pv_freshness s = ''fresh''))
      \<and> ((\<exists>s \<in> set states. reports ''running'' s) \<longrightarrow> pt_effective_state agg = ''running'' \<and> \<not> pt_is_idle agg))"
proof (intro conjI impI; (elim conjE)?)
  assume v: "session_state row (PTime now) limits = Some v" "pv_is_idle v"
  let ?r = "get_or row ''reported_state'' (PStr ''unknown'')" and ?seen = "py_get row ''last_seen_at''"
  have base: "\<not> pv_is_idle (unobserved ?r)" "\<not> pv_is_idle (unobserved ?r\<lparr>pv_freshness := x\<rparr>)" for x
    by (simp_all add: unobserved_def)
  have open_row: "py_get row ''ended_at'' = PNone" "aware ?seen" "\<not> now < time_of ?seen"
      "\<not> seconds (pl_stale_after_seconds limits) \<le> now - time_of ?seen"
      "v = fresh_state row now limits (unobserved ?r\<lparr>pv_freshness := ''fresh''\<rparr>)"
    using v base by (auto simp: session_state_def Let_def split: if_splits)
  then show "\<exists>seen i. py_get row ''ended_at'' = PNone \<and> ?seen = PTime seen \<and> seen \<le> now
        \<and> now - seen < seconds (pl_stale_after_seconds limits) \<and> ?r = PStr ''idle''
        \<and> py_get row ''active_work_count'' = PInt 0 \<and> py_get row ''state_observation_available'' = PBool True
        \<and> py_get row ''idle_since_at'' = PTime i \<and> i \<le> seen \<and> i + seconds (pl_idle_after_seconds limits) \<le> now
        \<and> pv_freshness v = ''fresh'' \<and> pv_effective_state v = ''idle''"
    using fresh_state_idle [of row now limits "unobserved ?r\<lparr>pv_freshness := ''fresh''\<rparr>"] v(2) base
    by (fastforce simp: aware_iff)
next
  assume "aggregate_states states full = Some agg" "pt_is_idle agg"
  then show "full" "\<exists>s \<in> set states. pv_freshness s \<noteq> ''ended''"
    and "\<forall>s \<in> set states. pv_freshness s \<noteq> ''ended'' \<longrightarrow> pv_is_idle s \<and> pv_freshness s = ''fresh''"
    using aggregate_idle by blast+
next
  assume "aggregate_states states full = Some agg" "\<exists>s \<in> set states. reports ''running'' s"
  then show "pt_effective_state agg = ''running''" "\<not> pt_is_idle agg"
    using aggregate_running by blast+
qed

subsection \<open>Witnesses\<close>

definition demo_bob :: principal where
  "demo_bob = \<lparr>p_user_id = ''bob'', p_project_id = Some ''p'', p_scopes = [''read'', ''write''], p_local = False, p_provider = ''token'', p_organization_id = None\<rparr>"

definition demo_observer :: presence_session where
  "demo_observer = new_session auth_platform ''s'' (seconds 100) demo_bob
     [(''project_id'', PStr ''p''), (''client_instance_id'', PStr ''c''), (''session_token'', PStr ''tok''),
      (''host_kind'', PStr ''codex''), (''session_kind'', PStr ''worker''), (''parent_session_id'', PNone)] C_internal"

definition demo_observed :: cdb where
  "demo_observed = empty_cdb\<lparr>cd_presence := [demo_observer], cd_presence_policies :=
     [\<lparr>pr_project_id = ''p'', pr_version = 1, pr_policy = dict_put ''enabled'' (PBool True) DEFAULT_POLICY, pr_updated_by = ''root''\<rparr>]\<rparr>"

definition demo_report :: dict where
  "demo_report = [(''project_id'', PStr ''p''), (''session_id'', PStr ''s''), (''session_token'', PStr ''tok''), (''sequence'', PInt 1),
     (''state_sequence'', PInt 1), (''reported_state'', PStr ''idle''), (''observation_scope'', PStr ''worker''),
     (''state_observation_available'', PBool True), (''active_work_count'', PInt 0), (''policy_version'', PInt 1),
     (''classification'', PStr ''internal''), (''work_unit_id'', PNone), (''checkpoint_id'', PNone)]"

lemma demo_observed_ok: "presence_ok demo_observed" "\<forall>s \<in> set (cd_presence demo_observed). report_ok s"
    "session_of demo_observed ''s'' = Some demo_observer"
  by (simp_all add: presence_ok_def demo_observed_def session_of_def demo_observer_def new_session_def report_ok_def REPORTED_STATES_def)

lemma demo_report_authorized: "authorize_tool demo_bob ''memory_presence_heartbeat'' (Some ''p'') = Inr ()"
  by code_simp

lemma demo_report_fields:
  "arg_str demo_report ''project_id'' = ''p''" "arg_str demo_report ''session_id'' = ''s''"
  "arg_str demo_report ''session_token'' = ''tok''" "arg_int demo_report ''sequence'' = 1"
  "arg_int demo_report ''state_sequence'' = 1" "arg_str demo_report ''reported_state'' = ''idle''"
  "arg_str demo_report ''observation_scope'' = ''worker''" "arg_int demo_report ''active_work_count'' = 0"
  "arg_int demo_report ''policy_version'' = 1" "arg_class demo_report ''classification'' = C_internal"
  "py_get demo_report ''state_observation_available'' = PBool True" "py_get demo_report ''work_unit_id'' = PNone"
  "py_get demo_report ''checkpoint_id'' = PNone" "py_get demo_report ''reported_state'' = PStr ''idle''"
  by (simp_all add: demo_report_def arg_str_def arg_int_def int_of_def py_get_def arg_class_def)

lemma demo_observer_fields [simp]:
  "ps_id demo_observer = ''s''" "ps_project_id demo_observer = ''p''" "ps_actor_id demo_observer = ''bob''"
  "ps_session_token_digest demo_observer = token_digest auth_platform ''tok''" "ps_sequence demo_observer = 0"
  "ps_state_sequence demo_observer = 0" "ps_session_kind demo_observer = ''worker''" "ps_classification demo_observer = C_internal"
  "ps_ended_at demo_observer = None" "ps_retired_at demo_observer = None" "ps_report_digest demo_observer = None"
  "ps_parent_session_id demo_observer = None" "ps_reported_state demo_observer = ''unknown''"
  "ps_last_seen_at demo_observer = seconds 100"
  by (simp_all add: demo_observer_def new_session_def arg_str_def py_get_def arg_opt_str_def demo_bob_def)

lemma demo_observed_policy: "snd (presence_policy_row ''p'' demo_observed) = dict_put ''enabled'' (PBool True) DEFAULT_POLICY"
  by (simp add: presence_policy_row_def demo_observed_def policy_of_def)

lemma presence_event_ok:
  assumes "action \<in> {''presence_register'', ''presence_state'', ''presence_end''}"
  shows "is_ok (event now project actor action target details db)"
proof -
  let ?db = "insert_audit project actor action target details db"
  have topics: "presence_topic action \<in> set TOPICS" "''access_changed'' \<in> set TOPICS"
    by (simp_all add: presence_topic_def TOPICS_def)
  have one: "is_ok (append_event now project topic kind resource level [u] revision b x)" if "topic \<in> set TOPICS"
    for topic kind resource level u revision b x
    using that by (simp add: append_event_def Let_def checked_def)
  have "is_ok (project_presence_event now project action target details ?db)"
  proof (cases "fetchrow (\<lambda>s. ps_project_id s = project \<and> ps_id s = target) (cd_presence ?db)")
    case None
    then show ?thesis by (simp add: project_presence_event_def)
  next
    case (Some s)
    obtain db1 where "append_event now project (presence_topic action) ''presence'' (Some target) (ps_classification s)
        [ps_actor_id s] (Some (max 1 (ps_sequence s))) False ?db = Inr db1"
      using one [OF topics(1)] unfolding is_ok_iff by blast
    then show ?thesis using Some one [OF topics(2)] by (simp add: project_presence_event_def Let_def)
  qed
  moreover have "event now project actor action target details db = project_presence_event now project action target details ?db"
  proof -
    from assms have "action = ''presence_register'' \<or> action = ''presence_state'' \<or> action = ''presence_end''" by blast
    then show ?thesis by (elim disjE) (simp_all only: event_def project_event_def, simp_all)
  qed
  ultimately show ?thesis by simp
qed

lemma demo_state_differs: "state_differs demo_report demo_observer"
  by (simp add: state_differs_def state_fields_def demo_report_fields)

lemma demo_heartbeat:
  "\<exists>db res. presence_heartbeat auth_platform (\<lambda>_. seconds 110) demo_bob demo_report demo_observed = Inr (db, res)"
proof -
  let ?P = auth_platform and ?pol = "dict_put ''enabled'' (PBool True) DEFAULT_POLICY"
  have owned: "owned_session ?P demo_report demo_bob demo_observed = Inr demo_observer"
    by (simp add: owned_session_def demo_observed_def demo_report_fields demo_bob_def checked_def)
  have level: "report_class demo_observer demo_report demo_bob (seconds 110) demo_observed = Inr C_internal"
    by (simp add: report_class_def bound_unit_level_def bound_checkpoint_level_def parent_level_def demo_report_fields truthy_def
        max_level_def)
  have lim: "policy_values ?pol = Some default_limits"
    by (simp add: policy_values_def presence_policy_def default_limits_def dict_put_def has_key_def DEFAULT_POLICY_def py_get_def int_of_def)
  have on: "py_get ?pol ''enabled'' = PBool True" by (simp add: py_get_dict_put)
  have checks: "checked (report_checks demo_observer demo_report ?pol) () = Inr ()"
    using demo_state_differs by (simp add: report_checks_def demo_report_fields checked_def on truthy_def)
  obtain since where since: "next_times (Some (session_dict demo_observer)) ''idle'' (PTime (seconds 110)) default_limits True = Some since"
    by (simp add: next_times_session REPORTED_STATES_def Let_def)
  obtain db2 where e: "event (seconds 110) ''p'' ''bob'' ''presence_state'' ''s''
      [(''sequence'', PInt (ps_sequence (reported_session ?P (seconds 110) demo_report C_internal since demo_observer))),
       (''resumed'', PBool (resumed demo_observer (seconds 110) (pl_stale_after_seconds default_limits))),
       (''previous_classification'', PStr (class_str C_internal))]
      (set_session ''s'' (reported_session ?P (seconds 110) demo_report C_internal since) demo_observed) = Inr db2"
    using presence_event_ok [of "''presence_state''"] unfolding is_ok_iff by fast
  have "\<not> inconsistent_report demo_report" by (simp add: inconsistent_report_def demo_report_fields truthy_def)
  moreover have "p_user_id demo_bob = ''bob''" by (simp add: demo_bob_def)
  ultimately show ?thesis
    using demo_report_authorized owned level lim checks since e demo_state_differs demo_observed_policy
    by (simp add: presence_heartbeat_def Let_def demo_report_fields checked_def)
qed

theorem presence_sessions_move_forward_witness:
  "\<exists>db' s'. session_of db' ''s'' = Some s' \<and> ps_actor_id s' = ''bob'' \<and> ps_sequence s' \<ge> 0"
proof -
  obtain db' res where "presence_heartbeat auth_platform (\<lambda>_. seconds 110) demo_bob demo_report demo_observed = Inr (db', res)"
    using demo_heartbeat by blast
  then have "run presence_step demo_observed [\<lambda>_. seconds 110] db'" by (blast intro: ps_heartbeat)
  from presence_sessions_move_forward [OF this demo_observed_ok(1,3)] show ?thesis by auto
qed

lemma presence_report_counts_once_witness:
  "\<exists>db r. presence_heartbeat auth_platform (\<lambda>_. seconds 111) demo_bob demo_report db = Inr (db, r)
    \<and> py_get r ''replayed'' = PBool True"
proof -
  obtain db res where ok: "presence_heartbeat auth_platform (\<lambda>_. seconds 110) demo_bob demo_report demo_observed = Inr (db, res)"
    using demo_heartbeat by blast
  show ?thesis using presence_report_counts_once [OF ok demo_observed_ok(1) run_nil refl order_refl] by blast
qed

lemma presence_fresh_reports_believed_witness:
  "\<exists>v. session_state (session_dict demo_observer) (PTime (seconds 110)) default_limits = Some v
    \<and> pv_freshness v = ''fresh'' \<and> \<not> pv_is_idle v"
proof -
  have "demo_observer \<in> set (cd_presence demo_observed)" "ps_active_work_count demo_observer = 0"
    by (simp_all add: demo_observed_def demo_observer_def new_session_def)
  then show ?thesis
    using presence_fresh_reports_believed [OF run_nil demo_observed_ok(1,2), of demo_observer "seconds 110" default_limits]
    by (auto simp: default_limits_def seconds_def)
qed

definition demo_idle_row :: dict where
  "demo_idle_row = [(''last_seen_at'', PTime (seconds 400)), (''reported_state'', PStr ''idle''), (''active_work_count'', PInt 0),
     (''state_observation_available'', PBool True), (''observation_scope'', PStr ''worker''), (''state_since_at'', PTime (seconds 100)),
     (''idle_since_at'', PTime (seconds 100))]"

lemma presence_idle_sound_witness:
  "\<exists>v agg. session_state demo_idle_row (PTime (seconds 405)) default_limits = Some v \<and> pv_is_idle v
    \<and> pv_effective_state v = ''idle'' \<and> aggregate_states [v] True = Some agg \<and> pt_is_idle agg"
proof -
  obtain v where v: "session_state demo_idle_row (PTime (seconds 405)) default_limits = Some v" "pv_is_idle v"
    "pv_freshness v = ''fresh''"
    by (simp add: session_state_def demo_idle_row_def py_get_def get_or_def default_limits_def fresh_state_def
        incomplete_observation_def known_state_def is_str_def REPORTED_STATES_def int_of_def whole_seconds_def unobserved_def Let_def seconds_def)
  have e: "pv_effective_state v = ''idle''" using presence_idle_sound [of demo_idle_row "seconds 405" default_limits v] v by blast
  have "\<exists>agg. aggregate_states [v] True = Some agg \<and> pt_is_idle agg"
    using v(2,3) e by (simp add: aggregate_states_def reports_def uncertain_def Let_def)
  with v e show ?thesis by blast
qed

end
