(* ===== verification/Presence_Reads.thy ===== *)
theory Presence_Reads
  imports Presence_Props Pagination
begin

text \<open>
  The reads of the presence service (continuity/presence_reads.py): which sessions a caller
  sees and what of them, the paged list of sessions, and the aggregate over the sessions of
  every user of a page.
\<close>

definition AGGREGATE_LIMIT :: nat where "AGGREGATE_LIMIT = 10000"

record read_scope =
  rs_kind :: string
  rs_max_classification :: string
  rs_host_kind :: "string option"
  rs_include_ended :: bool

definition scope_for :: "dict \<Rightarrow> principal \<Rightarrow> string \<Rightarrow> read_scope outcome" where
  "scope_for a p view =
     (let kind = str_of (get_or a ''scope'' (PStr ''mine''))
      in checked [(kind = ''project'' \<and> \<not> is_admin p,
           cont_fail ''Project presence requires admin authority'' ''MEM-PRESENCE-0005'' 403)]
         \<lparr>rs_kind = kind, rs_max_classification = str_of (get_or a ''max_classification'' (PStr ''internal'')),
          rs_host_kind = arg_opt_str a ''host_kind'',
          rs_include_ended = truthy (get_or a ''include_ended'' (PBool (view = ''users'')))\<rparr>)"

definition py_bool :: "bool \<Rightarrow> string" where
  "py_bool b = (if b then ''True'' else ''False'')"

definition presence_binding :: "dict \<Rightarrow> principal \<Rightarrow> read_scope \<Rightarrow> string \<Rightarrow> string list" where
  "presence_binding a p scope view =
     [''presence-v1'', arg_str a ''project_id'', p_user_id p, join '','' (sort (remdups (p_scopes p))), py_bool (p_local p), view,
      rs_kind scope, rs_max_classification scope, (case rs_host_kind scope of None \<Rightarrow> ''None'' | Some h \<Rightarrow> h),
      py_bool (rs_include_ended scope)]"

text \<open>The parameters every query gets.\<close>

record read_params =
  rp_project :: string
  rp_actor :: string
  rp_all_users :: bool
  rp_levels :: "classification list"
  rp_host_kind :: "string option"
  rp_cutoff :: time
  rp_include_ended :: bool
  rp_now :: time

definition parameters :: "dict \<Rightarrow> principal \<Rightarrow> read_scope \<Rightarrow> time \<Rightarrow> dict \<Rightarrow> read_params" where
  "parameters a p scope now body =
     \<lparr>rp_project = arg_str a ''project_id'', rp_actor = p_user_id p, rp_all_users = (rs_kind scope = ''project''),
      rp_levels = levels_upto (class_of (rs_max_classification scope)), rp_host_kind = rs_host_kind scope,
      rp_cutoff = now - hours (arg_int body ''retention_hours''), rp_include_ended = rs_include_ended scope, rp_now = now\<rparr>"

definition visible_session :: "read_params \<Rightarrow> presence_session \<Rightarrow> bool" where
  \<comment> \<open>the WHERE of \<open>VISIBLE\<close>\<close>
  "visible_session r s \<longleftrightarrow> ps_project_id s = rp_project r \<and> (rp_all_users r \<or> ps_actor_id s = rp_actor r)
     \<and> ps_classification s \<in> set (rp_levels r) \<and> (rp_host_kind r = None \<or> rp_host_kind r = Some (ps_host_kind s))
     \<and> rp_cutoff r < last_activity s \<and> (rp_include_ended r \<or> ps_ended_at s = None) \<and> ps_retired_at s = None"

definition shown_parent :: "read_params \<Rightarrow> cdb \<Rightarrow> presence_session \<Rightarrow> string option" where
  "shown_parent r db s =
     (if exists_row (\<lambda>x. Some (ps_id x) = ps_parent_session_id s \<and> ps_classification x \<in> set (rp_levels r)
         \<and> ps_retired_at x = None) (cd_presence db) then ps_parent_session_id s else None)"

definition shown_unit :: "read_params \<Rightarrow> cdb \<Rightarrow> presence_session \<Rightarrow> string option" where
  "shown_unit r db s =
     (if exists_row (\<lambda>u. Some (wu_id u) = ps_work_unit_id s \<and> exists_row (\<lambda>b. bn_id b = wu_bundle_id u
           \<and> bn_classification b \<in> set (rp_levels r) \<and> bn_revoked_at b = None \<and> rp_now r < bn_expires_at b
           \<and> (rp_all_users r \<or> ps_actor_id s \<in> set (wu_assignee_user_ids u) \<and> exists_row (\<lambda>d. dl_bundle_id d = bn_id b
                \<and> dl_recipient_user_id d = ps_actor_id s \<and> dl_revoked_at d = None) (cd_deliveries db))) (cd_bundles db))
         (cd_units db) then ps_work_unit_id s else None)"

definition shown_checkpoint :: "read_params \<Rightarrow> cdb \<Rightarrow> presence_session \<Rightarrow> string option" where
  "shown_checkpoint r db s =
     (if exists_row (\<lambda>c. Some (ck_id c) = ps_checkpoint_id s \<and> ck_classification c \<in> set (rp_levels r)
         \<and> ck_forgotten_at c = None \<and> rp_now r < ck_expires_at c) (cd_checkpoints db) then ps_checkpoint_id s else None)"

definition visible_row :: "read_params \<Rightarrow> cdb \<Rightarrow> presence_session \<Rightarrow> presence_session" where
  \<comment> \<open>the columns \<open>VISIBLE\<close> selects: links the caller may not see are null\<close>
  "visible_row r db s =
     s\<lparr>ps_parent_session_id := shown_parent r db s, ps_work_unit_id := shown_unit r db s, ps_checkpoint_id := shown_checkpoint r db s\<rparr>"

definition visible_sessions :: "read_params \<Rightarrow> cdb \<Rightarrow> presence_session list" where
  "visible_sessions r db = map (visible_row r db) (filter (visible_session r) (cd_presence db))"

definition view_entries :: "presence_view \<Rightarrow> dict" where
  "view_entries v =
     [(''reported_state'', PStr (pv_reported_state v)), (''freshness'', PStr (pv_freshness v)),
      (''effective_state'', PStr (pv_effective_state v)), (''reason'', PStr (pv_reason v)),
      (''state_seconds'', (case pv_state_seconds v of None \<Rightarrow> PNone | Some n \<Rightarrow> PInt n)),
      (''idle_seconds'', (case pv_idle_seconds v of None \<Rightarrow> PNone | Some n \<Rightarrow> PInt n)), (''is_idle'', PBool (pv_is_idle v))]"

definition observed_state :: "presence_session \<Rightarrow> time \<Rightarrow> dict \<Rightarrow> presence_view outcome" where
  \<comment> \<open>\<open>session_state(row, now, policy_values(body))\<close>\<close>
  "observed_state s now body =
     (case policy_values body of None \<Rightarrow> Inl (unhandled ''ValueError'')
      | Some limits \<Rightarrow> (case session_state (session_dict s) (PTime now) limits of
            None \<Rightarrow> Inl (unhandled ''ValueError'') | Some v \<Rightarrow> Inr v))"

definition presence_metadata :: "presence_session \<Rightarrow> time \<Rightarrow> nat \<Rightarrow> dict \<Rightarrow> dict outcome" where
  "presence_metadata s now version body =
     and_then (observed_state s now body) (\<lambda>v.
       Inr (fold (\<lambda>(k, x) d. dict_put k x d)
         (view_entries v @ [(''policy_version'', PInt (int version)),
            (''policy_mismatch'', PBool (ps_reported_policy_version s \<noteq> int version))]) (session_dict s)))"

definition session_key :: "presence_session \<Rightarrow> time \<times> uuid" where
  "session_key s = (ps_created_at s, uuid_of (ps_id s))"

definition presence_list ::
    "time \<Rightarrow> principal \<Rightarrow> dict \<Rightarrow> cursor option \<Rightarrow> cdb \<Rightarrow> (read_scope \<times> (presence_session \<times> dict) page) outcome" where
  \<comment> \<open>\<open>listing\<close>; every item with the row it is the metadata of\<close>
  "presence_list now p a c db =
     (let project = arg_str a ''project_id''; pol = presence_policy_row project db in
      and_then (authorize_tool p ''memory_presence_list'' (Some project)) (\<lambda>_.
      and_then (scope_for a p ''sessions'') (\<lambda>scope.
      let key = presence_binding a p scope ''sessions''
      in and_then (decode_cursor c key) (\<lambda>pos.
         let r = parameters a p scope now (snd pol);
             rows = keyset_rows session_key pos (page_limit a) (visible_sessions r db)
         in and_then (collect (\<lambda>s. and_then (presence_metadata s now (fst pol) (snd pol)) (\<lambda>m. Inr (s, m))) rows) (\<lambda>items.
            Inr (scope, page (session_key \<circ> fst) items (page_limit a) key))))))"

subsection \<open>Users\<close>

record person =
  pn_user_id :: string
  pn_id :: uuid
  pn_created_at :: time

definition people :: "(string \<Rightarrow> uuid) \<Rightarrow> presence_session list \<Rightarrow> person list" where
  \<comment> \<open>GROUP BY actor_id, with \<open>md5(actor_id)::uuid\<close>\<close>
  "people md5 rows =
     map (\<lambda>u. \<lparr>pn_user_id = u, pn_id = md5 u,
        pn_created_at = min_list (map ps_created_at (filter (\<lambda>s. ps_actor_id s = u) rows))\<rparr>)
       (remdups (map ps_actor_id rows))"

definition ranked :: "string \<Rightarrow> presence_session list \<Rightarrow> presence_session list" where
  \<comment> \<open>the sessions of one user by rank: open ones first, then the latest seen\<close>
  "ranked u rows =
     rev (sort_key (\<lambda>s. (ps_ended_at s = None, ps_last_seen_at s, uuid_of (ps_id s))) (filter (\<lambda>s. ps_actor_id s = u) rows))"

definition open_or_latest :: "presence_session list \<Rightarrow> presence_session list" where
  \<comment> \<open>ended_at IS NULL OR rank=1\<close>
  "open_or_latest rs = map snd (filter (\<lambda>(k, s). ps_ended_at s = None \<or> k = 0) (enumerate 0 rs))"

definition aggregated_rows :: "string list \<Rightarrow> presence_session list \<Rightarrow> presence_session list" where
  "aggregated_rows users rows =
     take (AGGREGATE_LIMIT + 1) (concat (map (\<lambda>u. open_or_latest (ranked u rows)) (sort (remdups users))))"

definition user_aggregate ::
    "time \<Rightarrow> dict \<Rightarrow> presence_session list \<Rightarrow> bool \<Rightarrow> string \<Rightarrow> (string \<times> presence_total) outcome" where
  "user_aggregate now body rows full u =
     and_then (collect (\<lambda>s. observed_state s now body) (filter (\<lambda>s. ps_actor_id s = u) rows)) (\<lambda>states.
       case aggregate_states states full of None \<Rightarrow> Inl (unhandled ''ValueError'') | Some agg \<Rightarrow> Inr (u, agg))"

definition presence_users ::
    "(string \<Rightarrow> uuid) \<Rightarrow> time \<Rightarrow> principal \<Rightarrow> dict \<Rightarrow> cursor option \<Rightarrow> cdb
     \<Rightarrow> (read_scope \<times> (string \<times> presence_total) list \<times> person page) outcome" where
  "presence_users md5 now p a c db =
     (let project = arg_str a ''project_id''; pol = presence_policy_row project db in
      and_then (authorize_tool p ''memory_presence_users'' (Some project)) (\<lambda>_.
      and_then (scope_for a p ''users'') (\<lambda>scope.
      let key = presence_binding a p scope ''users''
      in and_then (decode_cursor c key) (\<lambda>pos.
         let r = parameters a p scope now (snd pol); visible = visible_sessions r db;
             people_key = (\<lambda>x. (pn_created_at x, pn_id x));
             pg = page people_key (keyset_rows people_key pos (page_limit a) (people md5 visible)) (page_limit a) key;
             users = (let us = map pn_user_id (pg_items pg)
                      in if us = [] \<and> rs_kind scope = ''mine'' \<and> c = None then [p_user_id p] else us);
             rows = aggregated_rows users visible; full = (length rows \<le> AGGREGATE_LIMIT)
         in and_then (collect (user_aggregate now (snd pol) (take AGGREGATE_LIMIT rows) full) users) (\<lambda>items.
            Inr (scope, items, pg))))))"

subsection \<open>What a list shows\<close>

lemma collect_items:
  assumes "collect f xs = Inr ys" and "y \<in> set ys"
  shows "\<exists>x \<in> set xs. f x = Inr y"
  using assms by (induction xs arbitrary: ys) (auto simp: and_then_Inr_iff)

lemma visible_sessions_of:
  assumes "v \<in> set (visible_sessions r db)"
  obtains s where "s \<in> set (cd_presence db)" "visible_session r s" "v = visible_row r db s"
  using assms by (auto simp: visible_sessions_def)

lemma set_keyset_rows: "set (keyset_rows key pos n t) \<subseteq> set t"
  by (auto simp: keyset_rows_def dest: in_set_takeD)

lemma presence_listE:
  assumes "presence_list now p a c db = Inr (scope, pg)" and "(v, m) \<in> set (pg_items pg)"
  obtains "scope_for a p ''sessions'' = Inr scope"
    "v \<in> set (visible_sessions (parameters a p scope now (snd (presence_policy_row (arg_str a ''project_id'') db))) db)"
proof -
  let ?pol = "presence_policy_row (arg_str a ''project_id'') db"
  obtain pos items where r: "scope_for a p ''sessions'' = Inr scope"
      "collect (\<lambda>s. and_then (presence_metadata s now (fst ?pol) (snd ?pol)) (\<lambda>m. Inr (s, m)))
         (keyset_rows session_key pos (page_limit a) (visible_sessions (parameters a p scope now (snd ?pol)) db)) = Inr items"
      "pg = page (session_key \<circ> fst) items (page_limit a) (presence_binding a p scope ''sessions'')"
    using assms(1) by (auto simp: presence_list_def Let_def and_then_Inr_iff)
  have "(v, m) \<in> set items" using assms(2) by (auto simp: r(3) page_def Let_def dest: in_set_takeD)
  from collect_items [OF r(2) this] obtain x where
    "x \<in> set (keyset_rows session_key pos (page_limit a) (visible_sessions (parameters a p scope now (snd ?pol)) db))" "x = v"
    by (auto simp: and_then_Inr_iff)
  then have "v \<in> set (visible_sessions (parameters a p scope now (snd ?pol)) db)" by (auto dest: subsetD [OF set_keyset_rows])
  then show thesis by (rule that [OF r(1)])
qed

text \<open>
  Lists of sessions leak nothing: every item of a page is a live session of the
  project within the ceiling of the request, of the caller unless an administrator asked for
  the whole project; and a work unit, a checkpoint or a parent it is linked to is named only
  if it lies within that ceiling and is still retained.
\<close>

lemma presence_list_scoped:
  assumes "presence_list now p a c db = Inr (scope, pg)" and "(v, m) \<in> set (pg_items pg)"
  shows "\<exists>s \<in> set (cd_presence db). ps_id v = ps_id s \<and> ps_project_id s = arg_str a ''project_id'' \<and> ps_retired_at s = None
    \<and> ps_classification s \<le> class_of (rs_max_classification scope)
    \<and> (ps_actor_id s = p_user_id p \<or> rs_kind scope = ''project'' \<and> is_admin p)
    \<and> (\<forall>i. ps_work_unit_id v = Some i \<longrightarrow> (\<exists>u \<in> set (cd_units db). \<exists>b \<in> set (cd_bundles db). wu_id u = i \<and> bn_id b = wu_bundle_id u
         \<and> bn_classification b \<le> class_of (rs_max_classification scope) \<and> bn_revoked_at b = None \<and> now < bn_expires_at b))
    \<and> (\<forall>i. ps_checkpoint_id v = Some i \<longrightarrow> (\<exists>k \<in> set (cd_checkpoints db). ck_id k = i
         \<and> ck_classification k \<le> class_of (rs_max_classification scope) \<and> ck_forgotten_at k = None \<and> now < ck_expires_at k))
    \<and> (\<forall>i. ps_parent_session_id v = Some i \<longrightarrow> (\<exists>x \<in> set (cd_presence db). ps_id x = i
         \<and> ps_classification x \<le> class_of (rs_max_classification scope)))"
  using assms
proof (rule presence_listE)
  let ?r = "parameters a p scope now (snd (presence_policy_row (arg_str a ''project_id'') db))"
  assume scope: "scope_for a p ''sessions'' = Inr scope" and "v \<in> set (visible_sessions ?r db)"
  then obtain s where s: "s \<in> set (cd_presence db)" "visible_session ?r s" "v = visible_row ?r db s"
    by (auto elim: visible_sessions_of)
  have kind: "rs_kind scope = ''project'' \<Longrightarrow> is_admin p" using scope by (auto simp: scope_for_def Let_def)
  have r: "rp_levels ?r = levels_upto (class_of (rs_max_classification scope))" "rp_now ?r = now"
    by (simp_all add: parameters_def)
  have base: "ps_project_id s = arg_str a ''project_id''" "ps_retired_at s = None"
      "ps_classification s \<le> class_of (rs_max_classification scope)" "ps_actor_id s = p_user_id p \<or> rs_kind scope = ''project''"
    using s(2) by (auto simp: visible_session_def parameters_def)
  have unit: "\<exists>u \<in> set (cd_units db). \<exists>b \<in> set (cd_bundles db). wu_id u = i \<and> bn_id b = wu_bundle_id u
         \<and> bn_classification b \<le> class_of (rs_max_classification scope) \<and> bn_revoked_at b = None \<and> now < bn_expires_at b"
    if "shown_unit ?r db s = Some i" for i
    using that by (auto simp: shown_unit_def exists_row_iff r simp del: class_of.simps split: if_splits)
  have ckpt: "\<exists>k \<in> set (cd_checkpoints db). ck_id k = i
         \<and> ck_classification k \<le> class_of (rs_max_classification scope) \<and> ck_forgotten_at k = None \<and> now < ck_expires_at k"
    if "shown_checkpoint ?r db s = Some i" for i
    using that by (auto simp: shown_checkpoint_def exists_row_iff r simp del: class_of.simps split: if_splits)
  have par: "\<exists>x \<in> set (cd_presence db). ps_id x = i \<and> ps_classification x \<le> class_of (rs_max_classification scope)"
    if "shown_parent ?r db s = Some i" for i
    using that by (auto simp: shown_parent_def exists_row_iff r simp del: class_of.simps split: if_splits)
  show ?thesis
    by (rule bexI [OF _ s(1)]) (use base kind unit ckpt par in \<open>auto simp: s(3) visible_row_def simp del: class_of.simps\<close>)
qed

definition demo_list_args :: dict where
  "demo_list_args = [(''project_id'', PStr ''p'')]"

lemma demo_listed:
  "\<exists>scope pg v m. presence_list (seconds 110) demo_bob demo_list_args None demo_observed = Inr (scope, pg)
    \<and> (v, m) \<in> set (pg_items pg)"
proof -
  let ?pol = "dict_put ''enabled'' (PBool True) DEFAULT_POLICY"
  have auth: "authorize_tool demo_bob ''memory_presence_list'' (Some ''p'') = Inr ()" by code_simp
  have pol: "presence_policy_row ''p'' demo_observed = (1, ?pol)"
    by (simp add: presence_policy_row_def demo_observed_def policy_of_def)
  have body: "policy_values ?pol = Some default_limits" "arg_int ?pol ''retention_hours'' = 168"
    by (simp_all add: policy_values_def presence_policy_def default_limits_def dict_put_def has_key_def DEFAULT_POLICY_def py_get_def
        int_of_def arg_int_def)
  let ?scope = "\<lparr>rs_kind = ''mine'', rs_max_classification = ''internal'', rs_host_kind = None, rs_include_ended = False\<rparr>"
  have "scope_for demo_list_args demo_bob ''sessions'' = Inr ?scope"
    by (simp add: scope_for_def demo_list_args_def get_or_def arg_opt_str_def py_get_def Let_def truthy_def checked_def)
  then obtain scope where scope: "scope_for demo_list_args demo_bob ''sessions'' = Inr scope" "rs_kind scope = ''mine''"
      "rs_max_classification scope = ''internal''" "rs_host_kind scope = None" "\<not> rs_include_ended scope"
    by (intro that [of ?scope]) simp_all
  let ?r = "parameters demo_list_args demo_bob scope (seconds 110) ?pol"
  have vis: "visible_sessions ?r demo_observed = [visible_row ?r demo_observed demo_observer]"
    using scope(2-5) by (simp add: visible_sessions_def demo_observed_def visible_session_def parameters_def demo_list_args_def arg_str_def
        py_get_def demo_bob_def last_activity_def body(2) hours_def seconds_def less_eq_classification_def)
  have "keyset_rows session_key None 20 [x] = [x]" for x :: presence_session
    by (simp add: keyset_rows_def newest_first_def before_position_def)
  moreover have "\<exists>m. presence_metadata x (seconds 110) 1 ?pol = Inr m" for x
    by (simp add: presence_metadata_def observed_state_def body(1) session_state_def Let_def)
  then obtain m where "presence_metadata (visible_row ?r demo_observed demo_observer) (seconds 110) 1 ?pol = Inr m" by blast
  moreover have "page_limit demo_list_args = 20" by (simp add: page_limit_def demo_list_args_def get_or_def int_of_def)
  moreover have "arg_str demo_list_args ''project_id'' = ''p''" by (simp add: demo_list_args_def arg_str_def py_get_def)
  ultimately show ?thesis
    using auth pol scope(1) vis by (simp add: presence_list_def decode_cursor_def Let_def page_def)
qed

lemma presence_list_scoped_witness:
  "\<exists>scope pg v m. presence_list (seconds 110) demo_bob demo_list_args None demo_observed = Inr (scope, pg)
    \<and> (v, m) \<in> set (pg_items pg) \<and> (\<exists>s \<in> set (cd_presence demo_observed). ps_id v = ps_id s)"
proof -
  obtain scope pg v m where r: "presence_list (seconds 110) demo_bob demo_list_args None demo_observed = Inr (scope, pg)"
      "(v, m) \<in> set (pg_items pg)"
    using demo_listed by blast
  then show ?thesis using presence_list_scoped [OF r] by blast
qed

end
