(* ===== verification/Usage_Metrics.thy ===== *)
theory Usage_Metrics
  imports Presence_State
begin

text \<open>
  Token counters (continuity/usage_metrics.py): validated counters and snapshots of six of
  them, revisions of a snapshot, and totals over snapshots. A value of the classes
  \<open>Counter\<close> and \<open>Metrics\<close> exists only if its \<open>__post_init__\<close> accepts it: \<open>mk_counter\<close> and
  \<open>mk_metrics\<close> return \<open>None\<close> for its ValueError.
\<close>

subsection \<open>Counters\<close>

definition MAX_TOKENS :: int where "MAX_TOKENS = 10 ^ 12"
definition MAX_AGGREGATE_UNITS :: nat where "MAX_AGGREGATE_UNITS = 10000"

definition FIELDS :: "string list" where
  "FIELDS = [''input_total_tokens'', ''output_total_tokens'', ''total_tokens'', ''cache_read_input_tokens'',
     ''cache_write_input_tokens'', ''reasoning_output_tokens'']"

definition QUALITIES :: "string list" where
  "QUALITIES = [''reported'', ''estimated'', ''unavailable'']"

definition METHODS :: "string list" where
  "METHODS = [''prompt_length_div4'', ''provider_estimate'']"

definition REASONS :: "string list" where
  "REASONS = [''not_reported'', ''unsupported'', ''truncated'', ''ambiguous'', ''not_observed'', ''awaiting_result'',
     ''invalid_report'', ''not_applicable'', ''outside_scope'']"

record counter =
  ct_value :: "int option"
  ct_quality :: string
  ct_estimate_method :: "string option"
  ct_omission_reason :: "string option"

definition one_of :: "string list \<Rightarrow> pyval \<Rightarrow> bool" where
  \<comment> \<open>\<open>value in names\<close>\<close>
  "one_of names v \<longleftrightarrow> is_str v \<and> str_of v \<in> set names"

definition mk_counter :: "pyval \<Rightarrow> pyval \<Rightarrow> pyval \<Rightarrow> pyval \<Rightarrow> counter option" where
  "mk_counter v quality estimate_method reason =
     (if \<not> one_of QUALITIES quality then None
      else if str_of quality = ''unavailable''
      then if v \<noteq> PNone \<or> estimate_method \<noteq> PNone \<or> \<not> one_of REASONS reason then None
           else Some \<lparr>ct_value = None, ct_quality = ''unavailable'', ct_estimate_method = None,
             ct_omission_reason = Some (str_of reason)\<rparr>
      else if \<not> bounded_int (v, 0, MAX_TOKENS) \<or> reason \<noteq> PNone then None
      else if str_of quality = ''reported'' \<and> estimate_method \<noteq> PNone
           \<or> str_of quality = ''estimated'' \<and> \<not> one_of METHODS estimate_method then None
      else Some \<lparr>ct_value = Some (int_of v), ct_quality = str_of quality,
        ct_estimate_method = (if estimate_method = PNone then None else Some (str_of estimate_method)), ct_omission_reason = None\<rparr>)"

definition comparable :: "counter \<Rightarrow> counter \<Rightarrow> bool" where
  "comparable c d \<longleftrightarrow> ct_quality c \<noteq> ''unavailable'' \<and> ct_quality c = ct_quality d
     \<and> ct_estimate_method c = ct_estimate_method d"

definition opt_num :: "int option \<Rightarrow> pyval" where
  "opt_num v = (case v of None \<Rightarrow> PNone | Some n \<Rightarrow> PInt n)"

definition counter_dict :: "counter \<Rightarrow> dict" where
  "counter_dict c = [(''value'', opt_num (ct_value c)), (''quality'', PStr (ct_quality c)),
     (''estimate_method'', opt_str (ct_estimate_method c)), (''omission_reason'', opt_str (ct_omission_reason c))]"

definition counter_of :: "pyval \<Rightarrow> counter option" where
  "counter_of v =
     (case v of
        PDict d \<Rightarrow>
          if set (map fst d) \<noteq> {''value'', ''quality'', ''estimate_method'', ''omission_reason''} then None
          else mk_counter (py_get d ''value'') (py_get d ''quality'') (py_get d ''estimate_method'') (py_get d ''omission_reason'')
      | _ \<Rightarrow> None)"

definition unavailable_counter :: "string \<Rightarrow> counter" where
  "unavailable_counter reason =
     \<lparr>ct_value = None, ct_quality = ''unavailable'', ct_estimate_method = None, ct_omission_reason = Some reason\<rparr>"

definition tokens :: "counter \<Rightarrow> int" where
  \<comment> \<open>\<open>value\<close> where it is a number\<close>
  "tokens c = (case ct_value c of None \<Rightarrow> 0 | Some n \<Rightarrow> n)"

subsection \<open>Snapshots\<close>

text \<open>The six counters in the order of \<open>FIELDS\<close>.\<close>

type_synonym metrics = "counter list"

definition exceeds :: "counter \<times> counter \<Rightarrow> bool" where
  \<comment> \<open>a comparable subset above its parent\<close>
  "exceeds pc \<longleftrightarrow> comparable (fst pc) (snd pc) \<and> tokens (fst pc) < tokens (snd pc)"

fun mk_metrics :: "counter list \<Rightarrow> metrics option" where
  "mk_metrics [incoming, outgoing, whole, cache_read, cache_write, reasoning] =
     (if comparable incoming outgoing \<and> comparable whole incoming \<and> tokens whole \<noteq> tokens incoming + tokens outgoing then None
      else if list_ex exceeds [(whole, incoming), (whole, outgoing), (incoming, cache_read), (incoming, cache_write), (outgoing, reasoning)]
      then None
      else if comparable incoming cache_read \<and> comparable incoming cache_write
          \<and> tokens incoming < tokens cache_read + tokens cache_write then None
      else Some [incoming, outgoing, whole, cache_read, cache_write, reasoning])"
| "mk_metrics _ = None"

definition metrics_dict :: "metrics \<Rightarrow> dict" where
  "metrics_dict m = map (\<lambda>(k, c). (k, PDict (counter_dict c))) (zip FIELDS m)"

definition metrics_of :: "pyval \<Rightarrow> metrics option" where
  "metrics_of v =
     (case v of
        PDict d \<Rightarrow>
          if set (map fst d) \<noteq> set FIELDS then None
          else Option.bind (all_some (map (\<lambda>k. counter_of (py_get d k)) FIELDS)) mk_metrics
      | _ \<Rightarrow> None)"

definition normalize :: "(string \<times> counter) list \<Rightarrow> metrics option" where
  "normalize given =
     (if \<not> set (map fst given) \<subseteq> set FIELDS then None
      else let field = (\<lambda>k. case map_of given k of None \<Rightarrow> unavailable_counter ''not_reported'' | Some c \<Rightarrow> c);
               incoming = field ''input_total_tokens''; outgoing = field ''output_total_tokens'';
               derived =
                 (if map_of given ''total_tokens'' \<noteq> None then Some (field ''total_tokens'')
                  else if comparable incoming outgoing
                  then mk_counter (PInt (tokens incoming + tokens outgoing)) (PStr (ct_quality incoming))
                         (opt_str (ct_estimate_method incoming)) PNone
                  else if ct_value incoming \<noteq> None \<and> ct_value outgoing \<noteq> None then Some (unavailable_counter ''ambiguous'')
                  else Some (field ''total_tokens''))
           in Option.bind derived (\<lambda>t.
                mk_metrics (map (\<lambda>k. if k = ''total_tokens'' then t else field k) FIELDS)))"

subsection \<open>Revisions\<close>

definition revises :: "counter \<Rightarrow> counter \<Rightarrow> bool" where
  \<comment> \<open>the loop body of \<open>validate_revision\<close> raises nothing\<close>
  "revises old new \<longleftrightarrow> ct_quality old = ''unavailable''
     \<or> ct_quality old = ''estimated'' \<and> ct_quality new = ''reported''
     \<or> comparable old new \<and> tokens old \<le> tokens new"

definition valid_revision :: "metrics \<Rightarrow> metrics \<Rightarrow> bool" where
  \<comment> \<open>\<open>validate_revision\<close> accepts\<close>
  "valid_revision previous current \<longleftrightarrow> list_all (\<lambda>(old, new). revises old new) (zip previous current)"

subsection \<open>Totals\<close>

record metric_total =
  mt_value :: "int option"
  mt_known_units :: nat
  mt_missing_units :: nat
  mt_coverage :: string
  mt_estimate_methods :: "string list"

definition known :: "string \<Rightarrow> nat \<Rightarrow> metrics list \<Rightarrow> counter list" where
  "known quality i snapshots = filter (\<lambda>c. ct_quality c = quality) (map (\<lambda>m. m ! i) snapshots)"

definition metric_total_of :: "string \<Rightarrow> metrics list \<Rightarrow> nat \<Rightarrow> metric_total" where
  "metric_total_of quality snapshots i =
     (let k = known quality i snapshots
      in \<lparr>mt_value = (if k = [] then None else Some (sum_list (map tokens k))), mt_known_units = length k,
          mt_missing_units = length snapshots - length k,
          mt_coverage = (if snapshots = [] then ''no_observations'' else if length k = length snapshots then ''complete'' else ''partial''),
          mt_estimate_methods = (if quality = ''estimated'' then sort (remdups (map (the \<circ> ct_estimate_method) k)) else [])\<rparr>)"

record usage_total =
  ut_observed_units :: nat
  ut_reported :: "(string \<times> metric_total) list"
  ut_estimated :: "(string \<times> metric_total) list"
  ut_unavailable_fields :: "(string \<times> nat) list"

definition quality_totals :: "string \<Rightarrow> metrics list \<Rightarrow> (string \<times> metric_total) list" where
  "quality_totals quality snapshots = map (\<lambda>(i, k). (k, metric_total_of quality snapshots i)) (enumerate 0 FIELDS)"

definition usage_aggregate :: "metrics list \<Rightarrow> usage_total option" where
  \<comment> \<open>\<open>aggregate\<close>\<close>
  "usage_aggregate snapshots =
     (if MAX_AGGREGATE_UNITS < length snapshots then None
      else Some \<lparr>ut_observed_units = length snapshots, ut_reported = quality_totals ''reported'' snapshots,
        ut_estimated = quality_totals ''estimated'' snapshots,
        ut_unavailable_fields = tally (map (the \<circ> ct_omission_reason)
          (filter (\<lambda>c. ct_quality c = ''unavailable'') (concat snapshots)))\<rparr>)"

end
