(* ===== verification/Usage.thy ===== *)
theory Usage
  imports Usage_Metrics Presence
begin

text \<open>
  The usage ledger (continuity/usage.py) and its periods (continuity/usage_periods.py):
  the collection policy, run attempts with a private reporter each, reports of absolute
  counters under a sequence with an immutable receipt each, and retirement. The tz
  database is a parameter: \<open>zone_of name\<close> is the zone of a known name.
\<close>

subsection \<open>Periods\<close>

text \<open>
  A zone: the local time a UTC time is shown as, and the UTC time of a local one, both in
  microseconds from their epoch.
\<close>

record zone =
  zn_to_local :: "time \<Rightarrow> time"
  zn_from_local :: "time \<Rightarrow> time"

type_synonym zones = "string \<Rightarrow> zone option"

definition timestamp :: "platform \<Rightarrow> string \<Rightarrow> time option" where
  "timestamp P s =
     (case fromisoformat P (concat (map (\<lambda>c. if c = CHR ''Z'' then ''+00:00'' else [c]) s)) of
        Some (Aware t) \<Rightarrow> Some t | _ \<Rightarrow> None)"

record usage_period =
  up_kind :: string
  up_timezone :: string
  up_start_at :: time
  up_end_at :: time

definition local_midnight :: "zone \<Rightarrow> time \<Rightarrow> bool \<Rightarrow> time" where
  \<comment> \<open>the UTC time of midnight of the local day, or of the Monday of its week; day 0 is a Thursday\<close>
  "local_midnight z now week =
     (let day = zn_to_local z now div days 1; first = (if week then day - (day + 3) mod 7 else day)
      in zn_from_local z (first * days 1))"

definition period_bounds :: "platform \<Rightarrow> dict \<Rightarrow> time \<Rightarrow> zone \<Rightarrow> (time \<times> time) option" where
  "period_bounds P a now z =
     (let kind = str_of (get_or a ''period'' (PStr ''today''))
      in if kind = ''custom''
         then (case (timestamp P (arg_str a ''start_at''), timestamp P (arg_str a ''end_at'')) of
                 (Some s, Some e) \<Rightarrow> Some (s, e) | _ \<Rightarrow> None)
         else if has_key a ''start_at'' \<or> has_key a ''end_at'' then None
         else if kind = ''week'' then Some (local_midnight z now True, now)
         else if kind \<noteq> ''today'' then None
         else Some (local_midnight z now False, now))"

definition period :: "platform \<Rightarrow> zones \<Rightarrow> dict \<Rightarrow> time \<Rightarrow> string \<Rightarrow> usage_period option" where
  "period P zone_of a now default_timezone =
     (let name = str_of (get_or a ''timezone'' (PStr default_timezone))
      in case zone_of name of None \<Rightarrow> None
         | Some z \<Rightarrow> (case period_bounds P a now z of None \<Rightarrow> None
             | Some (s, e) \<Rightarrow>
                 if \<not> s < e \<or> days 93 < e - s then None
                 else Some \<lparr>up_kind = str_of (get_or a ''period'' (PStr ''today'')), up_timezone = name,
                        up_start_at = s, up_end_at = e\<rparr>))"

definition source_time :: "platform \<Rightarrow> string option \<Rightarrow> time \<Rightarrow> int \<Rightarrow> time \<Rightarrow> (time \<times> string) option" where
  "source_time P v now late fallback =
     (case v of
        None \<Rightarrow> Some (fallback, ''server_first_received'')
      | Some s \<Rightarrow> (case timestamp P s of None \<Rightarrow> None
          | Some t \<Rightarrow> Some (if now - hours late \<le> t \<and> t \<le> now + minutes 5 then (t, ''source_reported'')
                            else (fallback, ''server_first_received''))))"

subsection \<open>Policy\<close>

definition USAGE_DEFAULT_POLICY :: dict where
  "USAGE_DEFAULT_POLICY = [(''enabled'', PBool False), (''retention_days'', PInt 30), (''late_report_hours'', PInt 168),
     (''timezone'', PStr ''UTC''), (''project_alert_tokens'', PNone), (''user_alert_tokens'', PNone)]"

definition MAX_LIVE :: nat where "MAX_LIVE = 10000"
definition MAX_IDENTITIES :: nat where "MAX_IDENTITIES = 200000"
definition MAX_RECEIPTS :: nat where "MAX_RECEIPTS = 200000"
definition MAX_REGISTER_MINUTE :: nat where "MAX_REGISTER_MINUTE = 10"
definition MAX_REPORT_MINUTE :: nat where "MAX_REPORT_MINUTE = 120"
definition MAX_REVISIONS :: nat where "MAX_REVISIONS = 512"

definition usage_policy :: "string \<Rightarrow> cdb \<Rightarrow> nat \<times> dict" where
  "usage_policy project db =
     (case policy_of project (cd_usage_policies db) of
        None \<Rightarrow> (0, USAGE_DEFAULT_POLICY) | Some r \<Rightarrow> (pr_version r, pr_policy r))"

definition usage_policy_get :: "time \<Rightarrow> principal \<Rightarrow> dict \<Rightarrow> cdb \<Rightarrow> dict outcome" where
  "usage_policy_get now p a db =
     (let project = arg_str a ''project_id''; pol = usage_policy project db
      in and_then (authorize_tool p ''memory_usage_policy_get'' (Some project)) (\<lambda>_.
         Inr (envelope project p now @ [(''configured'', PBool (0 < fst pol)), (''policy_version'', PInt (int (fst pol))),
           (''policy'', PDict (snd pol))])))"

definition usage_policy_body :: "clock \<Rightarrow> principal \<Rightarrow> dict \<Rightarrow> cdb \<Rightarrow> (cdb \<times> dict) outcome" where
  "usage_policy_body clk p a db =
     (let project = arg_str a ''project_id''; body = arg_dict a ''policy''; version = fst (usage_policy project db)
      in and_then (checked [(int version \<noteq> arg_int a ''expected_version'', version_conflict)] ()) (\<lambda>_.
         and_then (event (clk 0) project (p_user_id p) ''usage_policy_set'' project
             [(''version'', PInt (int (version + 1))), (''policy'', PDict body), (''reason'', py_get a ''reason'')]
             (db\<lparr>cd_usage_policies := upsert_policy project (version + 1) body (p_user_id p) (cd_usage_policies db)\<rparr>)) (\<lambda>db1.
           Inr (db1, [(''project_id'', PStr project), (''version'', PInt (int (version + 1)))]))))"

definition usage_policy_set :: "platform \<Rightarrow> zones \<Rightarrow> clock \<Rightarrow> principal \<Rightarrow> dict \<Rightarrow> cdb \<Rightarrow> (cdb \<times> dict) outcome" where
  "usage_policy_set P zone_of clk p a db =
     and_then (authorize_tool p ''memory_usage_policy_set'' (Some (arg_str a ''project_id''))) (\<lambda>_.
     and_then (checked [(zone_of (arg_str (arg_dict a ''policy'') ''timezone'') = None,
         cont_invalid ''Invalid usage policy timezone'')] ()) (\<lambda>_.
       receipted P a p ''usage_policy_set'' (usage_policy_body clk p a) db))"

subsection \<open>Registration\<close>

definition usage_fingerprint :: "platform \<Rightarrow> dict \<Rightarrow> string" where
  "usage_fingerprint P a =
     (let hide = (\<lambda>k d. dict_put k (PStr (token_digest P (arg_str d k))) d);
          m = hide ''session_token'' a
      in digest P (PDict (if truthy (py_get m ''work_binding'')
           then dict_put ''work_binding'' (PDict (hide ''claim_token'' (arg_dict m ''work_binding''))) m else m)))"

definition usage_unavailable :: mem_error where
  "usage_unavailable = cont_fail ''Usage reporter is unavailable in this scope'' ''MEM-USAGE-0001'' 404"

definition usage_limited :: mem_error where
  "usage_limited = cont_fail ''Usage ledger limit reached; no report was silently dropped'' ''MEM-USAGE-0004'' 429"

definition usage_disabled :: mem_error where
  "usage_disabled = cont_fail ''Usage collection is disabled'' ''MEM-USAGE-0003'' 409"

definition usage_gone :: "string \<Rightarrow> mem_error" where
  "usage_gone msg = cont_fail msg ''MEM-USAGE-0002'' 410"

definition usage_registration :: "usage_session \<Rightarrow> principal \<Rightarrow> nat \<times> dict \<Rightarrow> bool \<Rightarrow> dict" where
  "usage_registration s p pol replayed =
     envelope (us_project_id s) p (us_created_at s) @
     [(''session_id'', PStr (us_id s)), (''execution_attempt_id'', PStr (us_execution_attempt_id s)),
      (''meter_epoch'', PStr (us_meter_epoch s)), (''accepts_until'', PTime (us_accepts_until s)),
      (''policy_version'', PInt (int (fst pol))), (''policy'', PDict (snd pol)), (''replayed'', PBool replayed)]"

definition usage_register_limit :: "string \<Rightarrow> string \<Rightarrow> time \<Rightarrow> cdb \<Rightarrow> bool" where
  "usage_register_limit project actor now db \<longleftrightarrow>
     (let t = filter (\<lambda>s. us_project_id s = project) (cd_usage db)
      in MAX_IDENTITIES \<le> length t \<or> MAX_LIVE \<le> count_rows (\<lambda>s. us_retired_at s = None) t
         \<or> MAX_REGISTER_MINUTE \<le> count_rows (\<lambda>s. us_actor_id s = actor \<and> now - minutes 1 < us_created_at s) t)"

definition usage_parent_class :: "principal \<Rightarrow> dict \<Rightarrow> cdb \<Rightarrow> classification outcome" where
  "usage_parent_class p a db =
     (if \<not> truthy (py_get a ''parent_session_id'') then Inr (arg_class a ''classification'')
      else case fetchrow (\<lambda>s. us_id s = arg_str a ''parent_session_id'' \<and> us_project_id s = arg_str a ''project_id''
          \<and> us_actor_id s = p_user_id p \<and> us_retired_at s = None) (cd_usage db) of
        None \<Rightarrow> Inl usage_unavailable
      | Some parent \<Rightarrow> Inr (max_level (arg_class a ''classification'') (us_classification parent)))"

definition usage_bound_class ::
    "platform \<Rightarrow> clock \<Rightarrow> principal \<Rightarrow> dict \<Rightarrow> classification \<Rightarrow> cdb \<Rightarrow> classification outcome" where
  \<comment> \<open>the lease the attempt is bound to is active now\<close>
  "usage_bound_class P clk p a level db =
     (let binding = arg_dict a ''work_binding''
      in if binding = [] then Inr level
         else and_then (locate_unit (clk 1) p [(''project_id'', py_get a ''project_id''), (''unit_id'', py_get binding ''work_unit_id'')] db)
           (\<lambda>(u, b). and_then (checked [(inactive P u binding (p_user_id p) (clk 0), no_active_lease)] ()) (\<lambda>_.
              Inr (max_level level (bn_classification b)))))"

definition new_usage_session ::
    "platform \<Rightarrow> string \<Rightarrow> time \<Rightarrow> principal \<Rightarrow> dict \<Rightarrow> dict \<Rightarrow> classification \<Rightarrow> usage_session" where
  "new_usage_session P i now p a body level =
     (let binding = arg_dict a ''work_binding'' in
      \<lparr>us_id = i, us_project_id = arg_str a ''project_id'', us_actor_id = p_user_id p,
       us_execution_attempt_id = arg_str a ''execution_attempt_id'', us_meter_epoch = arg_str a ''meter_epoch'',
       us_session_token_digest = token_digest P (arg_str a ''session_token''), us_register_digest = usage_fingerprint P a,
       us_host_kind = arg_str a ''host_kind'', us_host_version = arg_str a ''host_version'',
       us_adapter_version = arg_str a ''adapter_version'', us_provider = arg_str a ''provider'', us_model_id = arg_str a ''model_id'',
       us_classification = level, us_parent_session_id = arg_opt_str a ''parent_session_id'',
       us_work_unit_id = (if binding = [] then None else Some (arg_str binding ''work_unit_id'')),
       us_claim_generation = (if binding = [] then None else Some (arg_int binding ''claim_generation'')),
       us_created_at = now, us_accepts_until = now + hours (arg_int body ''late_report_hours''), us_sequence = 0, us_metrics = None,
       us_coverage = ''partial'', us_completion_state = ''in_progress'', us_first_received_at = None, us_last_received_at = None,
       us_bucket_at = None, us_bucket_basis = None, us_source_occurred_at = None, us_finalized_at = None, us_retired_at = None\<rparr>)"

definition usage_register :: "platform \<Rightarrow> clock \<Rightarrow> string \<Rightarrow> principal \<Rightarrow> dict \<Rightarrow> cdb \<Rightarrow> (cdb \<times> dict) outcome" where
  "usage_register P clk i p a db =
     (let project = arg_str a ''project_id''; now = clk 0; pol = usage_policy project db in
      and_then (authorize_tool p ''memory_usage_register'' (Some project)) (\<lambda>_.
      case fetchrow (\<lambda>s. us_project_id s = project \<and> us_actor_id s = p_user_id p
          \<and> us_execution_attempt_id s = arg_str a ''execution_attempt_id'') (cd_usage db) of
        Some s \<Rightarrow> checked
          [(us_register_digest s \<noteq> usage_fingerprint P a, cont_conflict ''This attempt already has a different observer or epoch''),
           (us_retired_at s \<noteq> None, usage_gone ''Usage attempt is retired and cannot be resurrected'')]
          (db, usage_registration s p pol True)
      | None \<Rightarrow>
          and_then (checked [(\<not> truthy (py_get (snd pol) ''enabled''), usage_disabled),
            (usage_register_limit project (p_user_id p) now db, usage_limited)] ()) (\<lambda>_.
          and_then (usage_parent_class p a db) (\<lambda>level.
          and_then (usage_bound_class P clk p a level db) (\<lambda>level1.
          let s = new_usage_session P i now p a (snd pol) level1
          in Inr (db\<lparr>cd_usage := insert_row s (cd_usage db)\<rparr>, usage_registration s p pol False))))))"

subsection \<open>Reports\<close>

definition owned_usage :: "platform \<Rightarrow> dict \<Rightarrow> principal \<Rightarrow> cdb \<Rightarrow> usage_session outcome" where
  \<comment> \<open>\<open>owned\<close>\<close>
  "owned_usage P a p db =
     (case fetchrow (\<lambda>s. us_id s = arg_str a ''session_id'' \<and> us_project_id s = arg_str a ''project_id''
          \<and> us_actor_id s = p_user_id p) (cd_usage db) of
        None \<Rightarrow> Inl usage_unavailable
      | Some s \<Rightarrow> checked
          [(us_session_token_digest s \<noteq> token_digest P (arg_str a ''session_token''), usage_unavailable),
           (us_retired_at s \<noteq> None, usage_gone ''Usage reporter was retired'')] s)"

definition report_receipt :: "usage_receipt \<Rightarrow> principal \<Rightarrow> bool \<Rightarrow> dict" where
  "report_receipt r p replayed =
     envelope (ur_project_id r) p (ur_received_at r) @
     [(''session_id'', PStr (ur_session_id r)), (''sequence'', PInt (ur_sequence r)), (''bucket_at'', PTime (ur_bucket_at r)),
      (''completion_state'', PStr (ur_completion_state r)), (''replayed'', PBool replayed)]"

definition receipt_at :: "string \<Rightarrow> int \<Rightarrow> cdb \<Rightarrow> usage_receipt option" where
  "receipt_at session sequence db =
     fetchrow (\<lambda>r. ur_session_id r = session \<and> ur_sequence r = sequence) (cd_usage_receipts db)"

definition usage_report_limit :: "string \<Rightarrow> string \<Rightarrow> string \<Rightarrow> time \<Rightarrow> cdb \<Rightarrow> bool" where
  "usage_report_limit project session actor now db \<longleftrightarrow>
     (let t = filter (\<lambda>r. ur_project_id r = project) (cd_usage_receipts db);
          of_actor = (\<lambda>r. exists_row (\<lambda>s. us_id s = ur_session_id r \<and> us_actor_id s = actor) (cd_usage db))
      in MAX_RECEIPTS \<le> length t \<or> MAX_REVISIONS \<le> count_rows (\<lambda>r. ur_session_id r = session) t
         \<or> MAX_REPORT_MINUTE \<le> count_rows (\<lambda>r. of_actor r \<and> now - minutes 1 < ur_received_at r) t)"

definition is_final :: "string \<Rightarrow> bool" where "is_final s \<longleftrightarrow> s = ''final''"

definition usage_report_checks ::
    "usage_session \<Rightarrow> metrics \<Rightarrow> dict \<Rightarrow> dict \<Rightarrow> time \<Rightarrow> bool \<Rightarrow> (bool \<times> mem_error) list" where
  \<comment> \<open>the refusals of a report without a receipt\<close>
  "usage_report_checks s current a body now limit =
     [(arg_int a ''sequence'' \<le> us_sequence s, cont_conflict ''Unrecognized older usage revision''),
      (\<not> truthy (py_get body ''enabled''), usage_disabled),
      (min (us_accepts_until s) (us_created_at s + hours (arg_int body ''late_report_hours'')) < now,
         usage_gone ''Usage late-report window has expired''),
      ((case us_metrics s of None \<Rightarrow> False | Some v \<Rightarrow>
          (case metrics_of v of None \<Rightarrow> True | Some previous \<Rightarrow> \<not> valid_revision previous current)),
         cont_conflict ''Usage counters cannot reset or downgrade in this epoch''),
      (is_final (us_completion_state s) \<and> \<not> is_final (arg_str a ''completion_state''),
         cont_conflict ''Final usage cannot return to in-progress''),
      (us_coverage s = ''complete'' \<and> arg_str a ''coverage'' \<noteq> ''complete'', cont_conflict ''Complete usage coverage cannot regress''),
      (limit, usage_limited)]"

definition source_arg :: "dict \<Rightarrow> string option" where
  "source_arg a = arg_opt_str a ''source_occurred_at''"

definition attributed ::
    "platform \<Rightarrow> usage_session \<Rightarrow> dict \<Rightarrow> dict \<Rightarrow> time \<Rightarrow> time option \<Rightarrow> (time \<times> string option \<times> time option) outcome" where
  \<comment> \<open>the bucket of a report, its basis, and when the attempt was finalized\<close>
  "attributed P s a body now source =
     (case us_finalized_at s of
        Some f \<Rightarrow>
          if source \<noteq> us_source_occurred_at s then Inl (cont_conflict ''Final usage attribution is pinned'')
          else (case us_bucket_at s of None \<Rightarrow> Inl (unhandled ''TypeError'') | Some b \<Rightarrow> Inr (b, us_bucket_basis s, Some f))
      | None \<Rightarrow>
          if is_final (arg_str a ''completion_state'')
          then (case source_time P (source_arg a) now (arg_int body ''late_report_hours'') now of
                  None \<Rightarrow> Inl (unhandled ''ValueError'') | Some (b, basis) \<Rightarrow> Inr (b, Some basis, Some now))
          else Inr (case us_first_received_at s of None \<Rightarrow> now | Some f \<Rightarrow> f, Some ''provisional'', None))"

definition reported_usage ::
    "dict \<Rightarrow> metrics \<Rightarrow> time \<Rightarrow> time option \<Rightarrow> time \<times> string option \<times> time option \<Rightarrow> usage_session \<Rightarrow> usage_session" where
  "reported_usage a current now source attribution s =
     s\<lparr>us_sequence := arg_int a ''sequence'', us_metrics := Some (PDict (metrics_dict current)), us_coverage := arg_str a ''coverage'',
       us_completion_state := arg_str a ''completion_state'',
       us_first_received_at := (case us_first_received_at s of None \<Rightarrow> Some now | Some f \<Rightarrow> Some f), us_last_received_at := Some now,
       us_bucket_at := Some (fst attribution), us_bucket_basis := fst (snd attribution), us_source_occurred_at := source,
       us_finalized_at := snd (snd attribution)\<rparr>"

definition current_metrics :: "dict \<Rightarrow> metrics outcome" where
  "current_metrics a =
     (case metrics_of (py_get a ''metrics'') of None \<Rightarrow> Inl (cont_invalid ''Invalid normalized usage counters'')
      | Some m \<Rightarrow> checked [(arg_str a ''coverage'' = ''complete'' \<and> ct_value (m ! 2) = None,
          cont_invalid ''Invalid normalized usage counters'')] m)"

definition usage_receipt_row :: "platform \<Rightarrow> dict \<Rightarrow> time \<Rightarrow> string \<Rightarrow> time \<Rightarrow> usage_receipt" where
  "usage_receipt_row P a now session bucket =
     \<lparr>ur_session_id = session, ur_project_id = arg_str a ''project_id'', ur_sequence = arg_int a ''sequence'',
      ur_request_digest = usage_fingerprint P a, ur_received_at = now, ur_bucket_at = bucket,
      ur_completion_state = arg_str a ''completion_state''\<rparr>"

definition record_usage ::
    "platform \<Rightarrow> clock \<Rightarrow> principal \<Rightarrow> dict \<Rightarrow> usage_session \<Rightarrow> metrics \<Rightarrow> time option \<Rightarrow> time \<times> string option \<times> time option
     \<Rightarrow> cdb \<Rightarrow> (cdb \<times> dict) outcome" where
  \<comment> \<open>the writes of a report that counts\<close>
  "record_usage P clk p a s current source attribution db =
     (let r = usage_receipt_row P a (clk 0) (us_id s) (fst attribution);
          db1 = db\<lparr>cd_usage := update_where (\<lambda>x. us_id x = us_id s) (reported_usage a current (clk 0) source attribution) (cd_usage db),
            cd_usage_receipts := insert_row r (cd_usage_receipts db)\<rparr>
      in and_then (if \<not> is_final (us_completion_state s) \<and> is_final (arg_str a ''completion_state'')
           then event (clk 1) (arg_str a ''project_id'') (p_user_id p) ''usage_finalized'' (us_id s)
             [(''sequence'', PInt (arg_int a ''sequence''))] db1
           else Inr db1) (\<lambda>db2.
         Inr (db2, report_receipt r p False)))"

definition usage_report :: "platform \<Rightarrow> clock \<Rightarrow> principal \<Rightarrow> dict \<Rightarrow> cdb \<Rightarrow> (cdb \<times> dict) outcome" where
  "usage_report P clk p a db =
     (let project = arg_str a ''project_id''; sequence = arg_int a ''sequence''; now = clk 0; body = snd (usage_policy project db) in
      and_then (authorize_tool p ''memory_usage_report'' (Some project)) (\<lambda>_.
      and_then (current_metrics a) (\<lambda>current.
      and_then (owned_usage P a p db) (\<lambda>s.
      case receipt_at (us_id s) sequence db of
        Some r \<Rightarrow> checked [(ur_request_digest r \<noteq> usage_fingerprint P a, cont_conflict ''Same usage sequence has different content'')]
          (db, report_receipt r p True)
      | None \<Rightarrow>
          and_then (checked (usage_report_checks s current a body now (usage_report_limit project (us_id s) (p_user_id p) now db)) ()) (\<lambda>_.
          and_then (case source_arg a of None \<Rightarrow> Inr None
            | Some v \<Rightarrow> (case timestamp P v of None \<Rightarrow> Inl (unhandled ''ValueError'') | Some t \<Rightarrow> Inr (Some t))) (\<lambda>source.
          and_then (attributed P s a body now source) (\<lambda>attribution.
            record_usage P clk p a s current source attribution db)))))))"

subsection \<open>Retirement\<close>

definition prunable_usage :: "string \<Rightarrow> time \<Rightarrow> nat \<Rightarrow> usage_session list \<Rightarrow> string list" where
  "prunable_usage project cutoff limit t =
     map us_id (take limit (sort_key (\<lambda>s. (us_created_at s, us_id s))
       (filter (\<lambda>s. us_project_id s = project \<and> us_retired_at s = None
          \<and> (case us_bucket_at s of None \<Rightarrow> us_created_at s | Some b \<Rightarrow> b) < cutoff) t)))"

definition retired_usage :: "time \<Rightarrow> usage_session \<Rightarrow> usage_session" where
  "retired_usage now s =
     s\<lparr>us_retired_at := Some now, us_host_kind := ''unknown'', us_host_version := ''unknown'', us_adapter_version := ''unknown'',
       us_provider := ''unknown'', us_model_id := ''unknown'', us_metrics := None\<rparr>"

definition usage_prune_body :: "clock \<Rightarrow> principal \<Rightarrow> dict \<Rightarrow> cdb \<Rightarrow> (cdb \<times> dict) outcome" where
  "usage_prune_body clk p a db =
     (let project = arg_str a ''project_id''; now = clk 0; body = snd (usage_policy project db);
          ids = prunable_usage project (now - days (arg_int body ''retention_days''))
            (nat (int_of (get_or a ''limit'' (PInt 100)))) (cd_usage db)
      in and_then (event (clk 1) project (p_user_id p) ''usage_prune'' project
             [(''retired'', PInt (int (length ids))), (''reason'', py_get a ''reason'')]
             (db\<lparr>cd_usage := update_where (\<lambda>s. us_id s \<in> set ids) (retired_usage now) (cd_usage db)\<rparr>)) (\<lambda>db1.
           Inr (db1, [(''project_id'', PStr project), (''retired'', PInt (int (length ids)))])))"

definition usage_prune :: "platform \<Rightarrow> clock \<Rightarrow> principal \<Rightarrow> dict \<Rightarrow> cdb \<Rightarrow> (cdb \<times> dict) outcome" where
  "usage_prune P clk p a db =
     and_then (authorize_tool p ''memory_usage_prune'' (Some (arg_str a ''project_id''))) (\<lambda>_.
       receipted P a p ''usage_prune'' (usage_prune_body clk p a) db)"

end
