(* ===== verification/Usage_Props.thy ===== *)
theory Usage_Props
  imports Row_Changes Usage Presence_Props
begin

text \<open>
  Properties of the usage ledger: counters read back as they were stored, revisions never
  reset, every report counts exactly once, and sessions change only as the trigger of the
  database allows.
\<close>

subsection \<open>Counters and snapshots\<close>

definition valid_counter :: "counter \<Rightarrow> bool" where
  "valid_counter c \<longleftrightarrow> (\<exists>v q e r. mk_counter v q e r = Some c)"

lemma bounded_int_iff: "bounded_int (v, low, high) \<longleftrightarrow> (\<exists>n. v = PInt n \<and> low \<le> n \<and> n \<le> high)"
  by (cases v) auto

lemma mk_counter_cases:
  assumes "mk_counter v q e r = Some c"
  obtains (unavailable) s where "s \<in> set REASONS" "c = unavailable_counter s"
  | (reported) n where "0 \<le> n" "n \<le> MAX_TOKENS" "c = \<lparr>ct_value = Some n, ct_quality = ''reported'', ct_estimate_method = None, ct_omission_reason = None\<rparr>"
  | (estimated) n k where "0 \<le> n" "n \<le> MAX_TOKENS" "k \<in> set METHODS"
      "c = \<lparr>ct_value = Some n, ct_quality = ''estimated'', ct_estimate_method = Some k, ct_omission_reason = None\<rparr>"
proof -
  have q: "q = PStr (str_of q)" "str_of q \<in> set QUALITIES" using assms by (auto simp: mk_counter_def one_of_def is_str_iff split: if_splits)
  show thesis
  proof (cases "str_of q = ''unavailable''")
    case True
    then have "one_of REASONS r" "c = unavailable_counter (str_of r)"
      using assms by (auto simp: mk_counter_def unavailable_counter_def split: if_splits)
    then show thesis by (intro unavailable [of "str_of r"]) (simp_all add: one_of_def)
  next
    case False
    then obtain n where n: "v = PInt n" "0 \<le> n" "n \<le> MAX_TOKENS"
      using assms by (auto simp: mk_counter_def bounded_int_iff split: if_splits)
    show thesis
    proof (cases "str_of q = ''reported''")
      case True
      then have "c = \<lparr>ct_value = Some n, ct_quality = ''reported'', ct_estimate_method = None, ct_omission_reason = None\<rparr>"
        using assms n(1) by (auto simp: mk_counter_def int_of_def split: if_splits)
      then show thesis using n reported by blast
    next
      case no: False
      then have est: "str_of q = ''estimated''" using q(2) False by (auto simp: QUALITIES_def)
      then have k: "one_of METHODS e" using assms False by (auto simp: mk_counter_def split: if_splits)
      then have "e \<noteq> PNone" by (auto simp: one_of_def is_str_def)
      then have "c = \<lparr>ct_value = Some n, ct_quality = ''estimated'', ct_estimate_method = Some (str_of e), ct_omission_reason = None\<rparr>"
        using assms n(1) est by (auto simp: mk_counter_def int_of_def split: if_splits)
      then show thesis using n k estimated by (auto simp: one_of_def)
    qed
  qed
qed

lemma counter_of_dict: "valid_counter c \<Longrightarrow> counter_of (PDict (counter_dict c)) = Some c"
proof -
  have d: "py_get (counter_dict c) ''value'' = opt_num (ct_value c)" "py_get (counter_dict c) ''quality'' = PStr (ct_quality c)"
    "py_get (counter_dict c) ''estimate_method'' = opt_str (ct_estimate_method c)"
    "py_get (counter_dict c) ''omission_reason'' = opt_str (ct_omission_reason c)" for c
    by (simp_all add: counter_dict_def py_get_def)
  have keys: "set (map fst (counter_dict c)) = {''value'', ''quality'', ''estimate_method'', ''omission_reason''}" for c
    by (simp add: counter_dict_def insert_commute)
  have one: "one_of xs (PStr s) \<longleftrightarrow> s \<in> set xs" for xs s by (simp add: one_of_def is_str_def)
  assume "valid_counter c"
  then obtain v q e r where "mk_counter v q e r = Some c" by (auto simp: valid_counter_def)
  then show ?thesis
  proof (cases rule: mk_counter_cases)
    case (unavailable s)
    then show ?thesis
      unfolding counter_of_def pyval.case keys d by (simp add: mk_counter_def one QUALITIES_def unavailable_counter_def opt_num_def)
  next
    case (reported n)
    then show ?thesis
      unfolding counter_of_def pyval.case keys d by (simp add: mk_counter_def one QUALITIES_def opt_num_def int_of_def)
  next
    case (estimated n k)
    then show ?thesis
      unfolding counter_of_def pyval.case keys d by (simp add: mk_counter_def one QUALITIES_def opt_num_def int_of_def)
  qed
qed

lemma mk_metrics_id: "mk_metrics cs = Some m \<Longrightarrow> m = cs \<and> length cs = 6"
  by (cases cs rule: mk_metrics.cases) (auto split: if_splits)

lemma metrics_ofE:
  assumes "metrics_of v = Some m"
  obtains "mk_metrics m = Some m" "length m = 6" "\<forall>c \<in> set m. valid_counter c"
proof -
  obtain d cs where r: "all_some (map (\<lambda>k. counter_of (py_get d k)) FIELDS) = Some cs" "mk_metrics cs = Some m"
    using assms by (auto simp: metrics_of_def bind_eq_Some_conv split: pyval.splits if_splits)
  have m: "m = cs" "length cs = 6" using mk_metrics_id [OF r(2)] by auto
  have "valid_counter c" if "c \<in> set cs" for c
  proof -
    have "Some c \<in> set (map (\<lambda>k. counter_of (py_get d k)) FIELDS)" using r(1) that by (simp only: all_some_eq_Some_iff set_map image_eqI)
    then obtain x where "counter_of x = Some c" by auto
    then show ?thesis by (auto simp: counter_of_def valid_counter_def split: pyval.splits if_splits)
  qed
  then show thesis using that r(2) m by blast
qed

lemma metrics_of_dict:
  assumes "mk_metrics m = Some m" and "length m = 6" and "\<forall>c \<in> set m. valid_counter c"
  shows "metrics_of (PDict (metrics_dict m)) = Some m"
proof -
  obtain a b c d e f where m: "m = [a, b, c, d, e, f]" using assms(2) by (auto simp: numeral_eq_Suc length_Suc_conv)
  have "map fst (metrics_dict m) = FIELDS" by (simp add: m metrics_dict_def FIELDS_def)
  moreover have "map (\<lambda>k. counter_of (py_get (metrics_dict m) k)) FIELDS = map Some m"
    using assms(3) by (simp add: m metrics_dict_def FIELDS_def py_get_def counter_of_dict)
  then have "all_some (map (\<lambda>k. counter_of (py_get (metrics_dict m) k)) FIELDS) = Some m"
    by (simp only: all_some_eq_Some_iff)
  ultimately show ?thesis using assms(1) by (simp add: metrics_of_def)
qed

lemma valid_counter_tokens: "valid_counter c \<Longrightarrow> 0 \<le> tokens c \<and> tokens c \<le> MAX_TOKENS"
  unfolding valid_counter_def
  by (elim exE) (erule mk_counter_cases; simp add: tokens_def unavailable_counter_def MAX_TOKENS_def)

text \<open>
  Snapshots round trip and add up: a snapshot accepted from a request is read back from
  its stored form unchanged; its counters are between 0 and \<open>MAX_TOKENS\<close>, the total is the
  sum of input and output wherever the three were measured alike, no part exceeds its
  whole, and the two disjoint cache parts together do not exceed the input.
\<close>

lemma metrics_roundtrip:
  assumes "metrics_of v = Some m"
  shows "metrics_of (PDict (metrics_dict m)) = Some m \<and> (\<forall>c \<in> set m. 0 \<le> tokens c \<and> tokens c \<le> MAX_TOKENS)
    \<and> (\<exists>i out t rd wr rs. m = [i, out, t, rd, wr, rs]
        \<and> (comparable i out \<and> comparable t i \<longrightarrow> tokens t = tokens i + tokens out)
        \<and> (\<forall>(whole, part) \<in> {(t, i), (t, out), (i, rd), (i, wr), (out, rs)}. comparable whole part \<longrightarrow> tokens part \<le> tokens whole)
        \<and> (comparable i rd \<and> comparable i wr \<longrightarrow> tokens rd + tokens wr \<le> tokens i))"
  using assms
proof (rule metrics_ofE)
  assume m: "mk_metrics m = Some m" "length m = 6" "\<forall>c \<in> set m. valid_counter c"
  then obtain i out t rd wr rs where s: "m = [i, out, t, rd, wr, rs]" by (auto simp: numeral_eq_Suc length_Suc_conv)
  then have e: "\<not> (comparable i out \<and> comparable t i \<and> tokens t \<noteq> tokens i + tokens out)"
      "\<not> list_ex exceeds [(t, i), (t, out), (i, rd), (i, wr), (out, rs)]"
      "\<not> (comparable i rd \<and> comparable i wr \<and> tokens i < tokens rd + tokens wr)"
    using m(1) by (auto split: if_splits)
  have "\<forall>(whole, part) \<in> {(t, i), (t, out), (i, rd), (i, wr), (out, rs)}. comparable whole part \<longrightarrow> tokens part \<le> tokens whole"
    using e(2) by (auto simp: exceeds_def)
  then show ?thesis using metrics_of_dict [OF m] valid_counter_tokens m(3) s e(1,3) by fastforce
qed

definition demo_counter :: "int \<Rightarrow> counter" where
  "demo_counter n = \<lparr>ct_value = Some n, ct_quality = ''reported'', ct_estimate_method = None, ct_omission_reason = None\<rparr>"

definition demo_metrics :: metrics where
  "demo_metrics = [demo_counter 7, demo_counter 5, demo_counter 12, demo_counter 2, demo_counter 3, unavailable_counter ''unsupported'']"

lemma demo_metrics_of: "metrics_of (PDict (metrics_dict demo_metrics)) = Some demo_metrics"
proof (rule metrics_of_dict)
  show "mk_metrics demo_metrics = Some demo_metrics"
    by (simp add: demo_metrics_def demo_counter_def comparable_def tokens_def exceeds_def unavailable_counter_def)
  have "valid_counter (demo_counter n)" if "0 \<le> n" "n \<le> 12" for n
    unfolding valid_counter_def using that
    by (intro exI [of _ "PInt n"] exI [of _ "PStr ''reported''"] exI [of _ PNone])
      (simp add: mk_counter_def one_of_def is_str_def QUALITIES_def demo_counter_def MAX_TOKENS_def int_of_def)
  moreover have "valid_counter (unavailable_counter ''unsupported'')"
    unfolding valid_counter_def
    by (intro exI [of _ PNone] exI [of _ "PStr ''unavailable''"] exI [of _ "PStr ''unsupported''"])
      (simp add: mk_counter_def one_of_def is_str_def QUALITIES_def REASONS_def unavailable_counter_def)
  ultimately show "\<forall>c \<in> set demo_metrics. valid_counter c" by (simp add: demo_metrics_def)
qed (simp add: demo_metrics_def)


subsection \<open>Revisions\<close>

lemma comparable_trans: "comparable a b \<Longrightarrow> comparable b c \<Longrightarrow> comparable a c"
  unfolding comparable_def by metis

lemma revises_refl: "revises c c"
  unfolding revises_def comparable_def by blast

lemma revises_trans:
  assumes ab: "revises a b" and bc: "revises b c"
  shows "revises a c"
proof (cases "ct_quality a = ''unavailable''")
  case False
  have q: "''reported'' \<noteq> ''unavailable''" "''reported'' \<noteq> ''estimated''" by simp_all
  have b: "ct_quality b \<noteq> ''unavailable''" using ab False q(1) unfolding revises_def comparable_def by metis
  show ?thesis
  proof (cases "ct_quality a = ''estimated'' \<and> ct_quality b = ''reported''")
    case True
    then have "ct_quality c = ''reported''" using bc q unfolding revises_def comparable_def by metis
    then show ?thesis using True unfolding revises_def by blast
  next
    case no: False
    then have ab': "comparable a b" "tokens a \<le> tokens b" using ab False unfolding revises_def by blast+
    show ?thesis
    proof (cases "ct_quality b = ''estimated'' \<and> ct_quality c = ''reported''")
      case True
      then show ?thesis using ab'(1) unfolding revises_def comparable_def by simp
    next
      case False
      then have "comparable b c" "tokens b \<le> tokens c" using bc b unfolding revises_def by blast+
      then have "comparable a c" "tokens a \<le> tokens c" using ab' comparable_trans by fastforce+
      then show ?thesis unfolding revises_def by blast
    qed
  qed
qed (simp add: revises_def)

lemma valid_revision_nth:
  "length a = length b \<Longrightarrow> valid_revision a b \<longleftrightarrow> (\<forall>i < length a. revises (a ! i) (b ! i))"
  by (auto simp: valid_revision_def list_all_length)

lemma valid_revision_refl: "valid_revision m m"
  by (simp add: valid_revision_nth revises_refl)

lemma valid_revision_trans:
  "length a = length b \<Longrightarrow> length b = length c \<Longrightarrow> valid_revision a b \<Longrightarrow> valid_revision b c \<Longrightarrow> valid_revision a c"
  by (auto simp: valid_revision_nth intro: revises_trans)

subsection \<open>What the database allows\<close>

definition usage_identity :: "usage_session \<Rightarrow> usage_session" where
  \<comment> \<open>a row less the columns an update may change\<close>
  "usage_identity s =
     s\<lparr>us_host_kind := [], us_host_version := [], us_adapter_version := [], us_provider := [], us_model_id := [], us_metrics := None,
       us_coverage := [], us_completion_state := [], us_sequence := 0, us_first_received_at := None, us_last_received_at := None,
       us_bucket_at := None, us_bucket_basis := None, us_source_occurred_at := None, us_finalized_at := None, us_retired_at := None\<rparr>"

definition source_labels :: "usage_session \<Rightarrow> string list" where
  "source_labels s = [us_host_kind s, us_host_version s, us_adapter_version s, us_provider s, us_model_id s]"

definition guard_usage_session :: "usage_session \<Rightarrow> usage_session \<Rightarrow> bool" where
  \<comment> \<open>the trigger lets the update pass\<close>
  "guard_usage_session old new \<longleftrightarrow>
     \<not> usage_identity new \<noteq> usage_identity old
     \<and> \<not> (us_retired_at old \<noteq> None \<or> us_sequence new < us_sequence old
          \<or> us_first_received_at old \<noteq> None \<and> us_first_received_at new \<noteq> us_first_received_at old
          \<or> us_finalized_at old \<noteq> None \<and> (us_finalized_at new \<noteq> us_finalized_at old \<or> us_bucket_at new \<noteq> us_bucket_at old
               \<or> us_completion_state new \<noteq> us_completion_state old))
     \<and> \<not> (us_retired_at new = None \<and> source_labels new \<noteq> source_labels old)"

definition counters_of :: "usage_session \<Rightarrow> metrics option" where
  "counters_of s = Option.bind (us_metrics s) metrics_of"

definition usage_evolves :: "usage_session \<Rightarrow> usage_session \<Rightarrow> bool" where
  \<comment> \<open>unchanged, or updated as the trigger allows and without losing counters while the row is live\<close>
  "usage_evolves s s' \<longleftrightarrow> s' = s \<or> guard_usage_session s s'
     \<and> (us_retired_at s' = None \<longrightarrow> (\<forall>m. counters_of s = Some m \<longrightarrow> (\<exists>m'. counters_of s' = Some m' \<and> valid_revision m m')))"

lemma counters_length: "counters_of s = Some m \<Longrightarrow> length m = 6"
  by (auto simp: counters_of_def bind_eq_Some_conv elim: metrics_ofE)

lemma guard_usage_trans:
  assumes "guard_usage_session a b" and "guard_usage_session b c"
  shows "guard_usage_session a c"
  using assms unfolding guard_usage_session_def by auto

lemma usage_evolves_refl: "usage_evolves s s"
  by (simp add: usage_evolves_def)

lemma usage_evolves_trans:
  assumes ab: "usage_evolves a b" and bc: "usage_evolves b c"
  shows "usage_evolves a c"
proof (cases "b = a \<or> c = b")
  case False
  then have g: "guard_usage_session a b" "guard_usage_session b c" using ab bc unfolding usage_evolves_def by blast+
  then have live: "us_retired_at b = None" by (simp add: guard_usage_session_def)
  have "\<exists>m'. counters_of c = Some m' \<and> valid_revision m m'" if m: "us_retired_at c = None" "counters_of a = Some m" for m
  proof -
    obtain m1 where m1: "counters_of b = Some m1" "valid_revision m m1" using ab False live m(2) unfolding usage_evolves_def by blast
    obtain m2 where m2: "counters_of c = Some m2" "valid_revision m1 m2" using bc False m(1) m1(1) unfolding usage_evolves_def by blast
    have "valid_revision m m2"
      by (rule valid_revision_trans [OF _ _ m1(2) m2(2)]) (simp_all add: counters_length [OF m(2)] counters_length [OF m1(1)] counters_length [OF m2(1)])
    with m2(1) show ?thesis by blast
  qed
  then show ?thesis using guard_usage_trans [OF g] unfolding usage_evolves_def by blast
qed (use ab bc in auto)

subsection \<open>Steps\<close>

inductive usage_step :: "clock \<Rightarrow> cdb \<Rightarrow> cdb \<Rightarrow> bool" where
  us_policy: "usage_policy_set P zone_of clk p a db = Inr (db', res) \<Longrightarrow> usage_step clk db db'"
| us_register: "usage_register P clk i p a db = Inr (db', res) \<Longrightarrow> i \<notin> us_id ` set (cd_usage db) \<Longrightarrow> usage_step clk db db'"
| us_report: "usage_report P clk p a db = Inr (db', res) \<Longrightarrow> usage_step clk db db'"
| us_prune: "usage_prune P clk p a db = Inr (db', res) \<Longrightarrow> usage_step clk db db'"
| us_other: "cd_usage db' = cd_usage db \<Longrightarrow> cd_usage_receipts db' = cd_usage_receipts db \<Longrightarrow> core db' = core db
    \<Longrightarrow> cd_receipts db' = cd_receipts db \<Longrightarrow> usage_step clk db db'"

definition usage_row_ok :: "usage_session \<Rightarrow> bool" where
  "usage_row_ok s \<longleftrightarrow> (us_finalized_at s \<noteq> None \<longrightarrow> us_completion_state s = ''final'')"

definition usage_ok :: "cdb \<Rightarrow> bool" where
  "usage_ok db \<longleftrightarrow> distinct (map us_id (cd_usage db)) \<and> (\<forall>s \<in> set (cd_usage db). usage_row_ok s)"

definition usage_of :: "cdb \<Rightarrow> string \<Rightarrow> usage_session option" where
  "usage_of db k = fetchrow (\<lambda>s. us_id s = k) (cd_usage db)"

lemma owned_usageE:
  assumes "owned_usage P a p db = Inr s"
  shows "s \<in> set (cd_usage db)" "us_id s = arg_str a ''session_id''" "us_retired_at s = None"
    "fetchrow (\<lambda>s. us_id s = arg_str a ''session_id'' \<and> us_project_id s = arg_str a ''project_id''
          \<and> us_actor_id s = p_user_id p) (cd_usage db) = Some s"
  using assms by (auto simp: owned_usage_def split: option.splits dest: fetchrow_SomeD)

lemma usage_reportE:
  assumes "usage_report P clk p a db = Inr (db', res)"
  obtains (replayed) s r where "owned_usage P a p db = Inr s" "receipt_at (us_id s) (arg_int a ''sequence'') db = Some r"
      "ur_request_digest r = usage_fingerprint P a" "db' = db" "res = report_receipt r p True"
  | (counted) s current source attribution r where "owned_usage P a p db = Inr s" "current_metrics a = Inr current"
      "receipt_at (us_id s) (arg_int a ''sequence'') db = None"
      "checked (usage_report_checks s current a (snd (usage_policy (arg_str a ''project_id'') db)) (clk 0)
         (usage_report_limit (arg_str a ''project_id'') (us_id s) (p_user_id p) (clk 0) db)) () = Inr ()"
      "attributed P s a (snd (usage_policy (arg_str a ''project_id'') db)) (clk 0) source = Inr attribution"
      "r = usage_receipt_row P a (clk 0) (us_id s) (fst attribution)"
      "log_frame (db\<lparr>cd_usage := update_where (\<lambda>x. us_id x = us_id s) (reported_usage a current (clk 0) source attribution) (cd_usage db),
         cd_usage_receipts := insert_row r (cd_usage_receipts db)\<rparr>) db'"
      "res = report_receipt r p False"
proof -
  obtain current s where c: "current_metrics a = Inr current" and s: "owned_usage P a p db = Inr s"
    using assms by (auto simp: usage_report_def Let_def and_then_Inr_iff)
  show thesis
  proof (cases "receipt_at (us_id s) (arg_int a ''sequence'') db")
    case (Some r)
    then show thesis using assms c s replayed by (auto simp: usage_report_def Let_def and_then_Inr_iff)
  next
    case None
    let ?body = "snd (usage_policy (arg_str a ''project_id'') db)"
    obtain source attribution where checks: "\<forall>c \<in> set (usage_report_checks s current a ?body (clk 0)
         (usage_report_limit (arg_str a ''project_id'') (us_id s) (p_user_id p) (clk 0) db)). \<not> fst c"
      and att: "attributed P s a ?body (clk 0) source = Inr attribution"
      and rest: "record_usage P clk p a s current source attribution db = Inr (db', res)"
      using assms c s None by (auto simp: usage_report_def Let_def and_then_Inr_iff)
    have "log_frame (db\<lparr>cd_usage := update_where (\<lambda>x. us_id x = us_id s) (reported_usage a current (clk 0) source attribution) (cd_usage db),
         cd_usage_receipts := insert_row (usage_receipt_row P a (clk 0) (us_id s) (fst attribution)) (cd_usage_receipts db)\<rparr>) db'"
      "res = report_receipt (usage_receipt_row P a (clk 0) (us_id s) (fst attribution)) p False"
      using rest by (auto simp: record_usage_def Let_def and_then_Inr_iff intro: event_frame split: if_splits)
    then show thesis using counted [OF s c None _ att refl] checks by (simp add: checked_Inr_iff)
  qed
qed

definition usage_change :: "usage_session \<Rightarrow> usage_session \<Rightarrow> bool" where
  "usage_change s s' \<longleftrightarrow> (usage_row_ok s \<longrightarrow> usage_evolves s s' \<and> usage_row_ok s')"

lemma usage_change_refl: "usage_change s s"
  by (simp add: usage_change_def usage_evolves_refl)

abbreviation usage_to :: "usage_session list \<Rightarrow> usage_session list \<Rightarrow> bool" where
  "usage_to \<equiv> rows_to us_id usage_change usage_row_ok"

lemma usage_same: "usage_to t t"
  by (rule rows_to_same) (rule usage_change_refl)

lemma current_metricsE:
  assumes "current_metrics a = Inr m"
  shows "metrics_of (py_get a ''metrics'') = Some m" "metrics_of (PDict (metrics_dict m)) = Some m"
proof -
  show "metrics_of (py_get a ''metrics'') = Some m" using assms by (auto simp: current_metrics_def split: option.splits)
  then show "metrics_of (PDict (metrics_dict m)) = Some m" by (rule metrics_ofE) (rule metrics_of_dict)
qed

lemma attributedE:
  assumes "attributed P s a body now source = Inr (bucket, basis, final)"
  shows "us_finalized_at s \<noteq> None \<longrightarrow> final = us_finalized_at s \<and> us_bucket_at s = Some bucket"
    and "final \<noteq> None \<longrightarrow> us_finalized_at s \<noteq> None \<or> arg_str a ''completion_state'' = ''final''"
  using assms by (auto simp: attributed_def is_final_def split: option.splits if_splits)

lemma report_change:
  assumes s: "us_retired_at s = None" and m: "current_metrics a = Inr current"
    and checks: "checked (usage_report_checks s current a body now limit) () = Inr ()"
    and att: "attributed P s a body now source = Inr attribution"
  shows "usage_change s (reported_usage a current now source attribution s)"
proof -
  obtain bucket basis final where t: "attribution = (bucket, basis, final)" by (cases attribution)
  let ?s = "reported_usage a current now source attribution s"
  have seq: "us_sequence s < arg_int a ''sequence''"
    and rev: "\<forall>v. us_metrics s = Some v \<longrightarrow> (\<exists>old. metrics_of v = Some old \<and> valid_revision old current)"
    and fin: "us_completion_state s = ''final'' \<longrightarrow> arg_str a ''completion_state'' = ''final''"
    using checks by (auto simp: usage_report_checks_def is_final_def split: option.splits if_splits)
  have new: "counters_of ?s = Some current"
    using current_metricsE(2) [OF m] by (simp add: counters_of_def reported_usage_def)
  have "guard_usage_session s ?s \<and> usage_row_ok ?s" if "usage_row_ok s"
    using that s seq fin attributedE [OF att [unfolded t]]
    by (auto simp: guard_usage_session_def reported_usage_def usage_identity_def source_labels_def usage_row_ok_def t split: option.split)
  moreover have "\<forall>old. counters_of s = Some old \<longrightarrow> valid_revision old current"
    using rev by (auto simp: counters_of_def bind_eq_Some_conv)
  ultimately show ?thesis using new by (auto simp: usage_change_def usage_evolves_def)
qed

lemma retire_change: "us_retired_at s = None \<Longrightarrow> usage_change s (retired_usage now s)"
  by (simp add: usage_change_def usage_evolves_def guard_usage_session_def retired_usage_def usage_identity_def usage_row_ok_def)

lemma usage_prune_rows:
  assumes "distinct (map us_id t)"
  shows "usage_to t (update_where (\<lambda>s. us_id s \<in> set (prunable_usage project cutoff n t)) (retired_usage now) t)"
proof (rule rows_to_update)
  show "usage_change s s" for s by (rule usage_change_refl)
  show "us_id (retired_usage now r) = us_id r" for r by (simp add: retired_usage_def)
  fix s assume s: "s \<in> set t" "us_id s \<in> set (prunable_usage project cutoff n t)"
  then obtain x where "x \<in> set t" "us_retired_at x = None" "us_id x = us_id s"
    by (auto simp: prunable_usage_def dest!: in_set_takeD)
  then have "us_retired_at s = None" using update_one s(1) assms by metis
  then show "usage_change s (retired_usage now s)" by (rule retire_change)
qed

lemma usage_registerE:
  assumes "usage_register P clk i p a db = Inr (db', res)"
  obtains "db' = db" | level body where "db' = db\<lparr>cd_usage := insert_row (new_usage_session P i (clk 0) p a body level) (cd_usage db)\<rparr>"
  using assms by (auto simp: usage_register_def Let_def and_then_Inr_iff split: option.splits)

text \<open>Receipts are only added, and under new keys.\<close>

definition receipts_grow :: "usage_receipt list \<Rightarrow> usage_receipt list \<Rightarrow> bool" where
  "receipts_grow t t' \<longleftrightarrow> (\<exists>new. t' = t @ new)"

lemma usage_step_rows:
  assumes "usage_step clk db db'" and "usage_ok db"
  shows "usage_to (cd_usage db) (cd_usage db') \<and> receipts_grow (cd_usage_receipts db) (cd_usage_receipts db')"
  using assms(1)
proof cases
  case (us_policy P zone_of p a res)
  then have "receipted P a p ''usage_policy_set'' (usage_policy_body clk p a) db = Inr (db', res)"
    by (auto simp: usage_policy_set_def and_then_Inr_iff)
  then have "cd_usage db' = cd_usage db \<and> cd_usage_receipts db' = cd_usage_receipts db"
    by (rule receipted_presence)
      (auto simp: usage_policy_body_def Let_def and_then_Inr_iff put_receipt_def log_frame_fields dest!: event_frame)
  then show ?thesis by (simp add: usage_same receipts_grow_def)
next
  case (us_register P i p a res)
  then show ?thesis
  proof (cases rule: usage_registerE)
    case (2 level body)
    let ?s = "new_usage_session P i (clk 0) p a body level"
    have "us_id ?s = i" "usage_row_ok ?s" by (simp_all add: new_usage_session_def usage_row_ok_def Let_def)
    then show ?thesis using us_register(2) rows_to_insert [where R = usage_change and key = us_id and N = usage_row_ok, OF usage_change_refl]
      by (simp add: 2 receipts_grow_def)
  qed (simp add: usage_same receipts_grow_def)
next
  case (us_report P p a res)
  then show ?thesis
  proof (cases rule: usage_reportE)
    case (counted s current source attribution r)
    note s = owned_usageE [OF counted(1)]
    let ?f = "reported_usage a current (clk 0) source attribution"
    have t: "cd_usage db' = update_where (\<lambda>x. us_id x = us_id s) ?f (cd_usage db)" "cd_usage_receipts db' = insert_row r (cd_usage_receipts db)"
      using log_frame_fields(11,12) [OF counted(7)] by simp_all
    have "usage_to (cd_usage db) (update_where (\<lambda>x. us_id x = us_id s) ?f (cd_usage db))"
    proof (rule rows_to_update)
      show "usage_change x x" for x by (rule usage_change_refl)
      show "us_id (?f x) = us_id x" for x by (simp add: reported_usage_def)
      fix x assume x: "x \<in> set (cd_usage db)" "us_id x = us_id s"
      have "x = s" by (rule update_one [OF _ s(1) x]) (use assms(2) in \<open>simp add: usage_ok_def\<close>)
      then show "usage_change x (?f x)" using report_change [OF s(3) counted(2,4,5)] by simp
    qed
    then show ?thesis by (simp add: t receipts_grow_def insert_row_def)
  qed (simp add: usage_same receipts_grow_def)
next
  case (us_prune P p a res)
  then have "receipted P a p ''usage_prune'' (usage_prune_body clk p a) db = Inr (db', res)"
    by (auto simp: usage_prune_def and_then_Inr_iff)
  then show ?thesis
  proof (rule receipted_presence)
    assume "db' = db"
    then show ?thesis by (simp add: usage_same receipts_grow_def)
  next
    fix db1 r k v assume b: "usage_prune_body clk p a db = Inr (db1, r)" "db' = put_receipt db1 k v"
    then obtain project cutoff n details where "event (clk 1) (arg_str a ''project_id'') (p_user_id p) ''usage_prune''
        (arg_str a ''project_id'') details (db\<lparr>cd_usage := update_where
           (\<lambda>s. us_id s \<in> set (prunable_usage project cutoff n (cd_usage db))) (retired_usage (clk 0)) (cd_usage db)\<rparr>) = Inr db1"
      unfolding usage_prune_body_def Let_def and_then_Inr_iff by blast
    from log_frame_fields(11,12) [OF event_frame [OF this]]
    have "cd_usage db' = update_where (\<lambda>s. us_id s \<in> set (prunable_usage project cutoff n (cd_usage db))) (retired_usage (clk 0)) (cd_usage db)"
      "cd_usage_receipts db' = cd_usage_receipts db"
      by (simp_all add: b(2) put_receipt_def)
    then show ?thesis using usage_prune_rows assms(2) by (simp add: receipts_grow_def usage_ok_def)
  qed
next
  case us_other
  then show ?thesis by (simp add: usage_same receipts_grow_def)
qed

lemma usage_step_ok:
  assumes "usage_ok db" and "usage_step clk db db'"
  shows "usage_ok db'"
proof -
  have t: "usage_to (cd_usage db) (cd_usage db')" using usage_step_rows [OF assms(2,1)] by blast
  have "distinct (map us_id (cd_usage db'))" by (rule rows_to_distinct [OF t]) (use assms(1) in \<open>simp add: usage_ok_def\<close>)
  moreover have "\<forall>s \<in> set (cd_usage db'). usage_row_ok s"
    by (rule rows_to_all [OF t]) (use assms(1) in \<open>auto simp: usage_ok_def usage_change_def\<close>)
  ultimately show ?thesis by (simp add: usage_ok_def)
qed

interpretation uh: row_history usage_step usage_ok usage_of usage_evolves
proof
  show "usage_ok db \<Longrightarrow> usage_step clk db db' \<Longrightarrow> usage_ok db'" for clk db db' by (rule usage_step_ok)
  show "\<exists>r'. usage_of db' k = Some r' \<and> usage_evolves r r'"
    if "usage_ok db" "usage_step clk db db'" "usage_of db k = Some r" for clk db db' k r
  proof -
    have "usage_row_ok r" using that(1,3) fetchrow_SomeD unfolding usage_ok_def usage_of_def by fast
    then show ?thesis
      using rows_to_lookup [OF conjunct1 [OF usage_step_rows [OF that(2,1)]]] that(3) unfolding usage_of_def usage_change_def by blast
  qed
qed (rule usage_evolves_refl, erule usage_evolves_trans)

interpretation ur: row_history usage_step usage_ok "\<lambda>db k. receipt_at (fst k) (snd k) db" "(=)"
proof
  show "usage_ok db \<Longrightarrow> usage_step clk db db' \<Longrightarrow> usage_ok db'" for clk db db' by (rule usage_step_ok)
  show "\<exists>r'. receipt_at (fst k) (snd k) db' = Some r' \<and> r = r'"
    if "usage_ok db" "usage_step clk db db'" "receipt_at (fst k) (snd k) db = Some r" for clk db db' k r
    using conjunct2 [OF usage_step_rows [OF that(2,1)]] that(3) by (auto simp: receipts_grow_def receipt_at_def fetchrow_append)
qed simp_all

subsection \<open>Properties of the ledger\<close>

text \<open>
  C33. The ledger never loses what it knows: along any run a usage session is never deleted
  and is updated only as the trigger \<open>guard_usage_session\<close> of the database allows; while it
  is live its counters only move to a valid revision, so that no reported count decreases,
  disappears or turns into an estimate; once final, its bucket and completion are pinned;
  once retired it never changes again.
\<close>

theorem usage_ledger_monotone:
  assumes "run usage_step db ts db'" and "usage_ok db" and "usage_of db k = Some s"
  shows "\<exists>s'. usage_of db' k = Some s' \<and> (s' = s \<or> guard_usage_session s s')
    \<and> (us_retired_at s' = None \<longrightarrow> (\<forall>m i. counters_of s = Some m \<and> i < 6 \<longrightarrow>
          (\<exists>m'. counters_of s' = Some m' \<and> valid_revision m m'
             \<and> (ct_quality (m ! i) = ''reported'' \<longrightarrow> ct_quality (m' ! i) = ''reported'' \<and> tokens (m ! i) \<le> tokens (m' ! i)))))
    \<and> (us_finalized_at s \<noteq> None \<longrightarrow> us_bucket_at s' = us_bucket_at s \<and> us_completion_state s' = us_completion_state s)
    \<and> (us_retired_at s \<noteq> None \<longrightarrow> s' = s)"
proof -
  obtain s' where s': "usage_of db' k = Some s'" "usage_evolves s s'" using uh.row_run [OF assms] by blast
  have kept: "\<exists>m'. counters_of s' = Some m' \<and> valid_revision m m'
      \<and> (ct_quality (m ! i) = ''reported'' \<longrightarrow> ct_quality (m' ! i) = ''reported'' \<and> tokens (m ! i) \<le> tokens (m' ! i))"
    if live: "us_retired_at s' = None" and m: "counters_of s = Some m" and i: "i < 6" for m i
  proof -
    obtain m' where m': "counters_of s' = Some m'" "valid_revision m m'"
      using s'(2) live m valid_revision_refl unfolding usage_evolves_def by blast
    then have "revises (m ! i) (m' ! i)"
      using i counters_length [OF m] counters_length [OF m'(1)] by (simp add: valid_revision_nth)
    moreover have "''reported'' \<noteq> ''unavailable''" "''reported'' \<noteq> ''estimated''" by simp_all
    ultimately have "ct_quality (m ! i) = ''reported'' \<longrightarrow> ct_quality (m' ! i) = ''reported'' \<and> tokens (m ! i) \<le> tokens (m' ! i)"
      unfolding revises_def comparable_def by metis
    with m' show ?thesis by blast
  qed
  have "s' = s \<or> guard_usage_session s s'" using s'(2) unfolding usage_evolves_def by blast
  moreover have "us_finalized_at s \<noteq> None \<longrightarrow> us_bucket_at s' = us_bucket_at s \<and> us_completion_state s' = us_completion_state s"
    "us_retired_at s \<noteq> None \<longrightarrow> s' = s"
    using s'(2) unfolding usage_evolves_def guard_usage_session_def by blast+
  ultimately show ?thesis using s'(1) kept by blast
qed

text \<open>
  A report counts exactly once: in every later state the session, the sequence and the
  content of a report that was accepted are answered from its receipt, with the time and the
  bucket it had, and nothing changes; and other content under the same sequence of the
  session is always refused.
\<close>

lemma usage_report_counts_once:
  assumes "usage_report P clk p a db = Inr (db1, res)" and "usage_ok db" and "run usage_step db1 ts db2"
    and "arg_str b ''session_id'' = arg_str a ''session_id''" and "arg_int b ''sequence'' = arg_int a ''sequence''"
  shows "\<exists>r. res \<in> {report_receipt r p False, report_receipt r p True} \<and> ur_request_digest r = usage_fingerprint P a
    \<and> (\<forall>clk' q db3 res'. usage_report P clk' q b db2 = Inr (db3, res') \<longrightarrow>
         usage_fingerprint P b = usage_fingerprint P a \<and> db3 = db2 \<and> res' = report_receipt r q True)"
proof -
  have "usage_step clk db db1" using assms(1) by (rule us_report)
  then have ok1: "usage_ok db1" by (rule usage_step_ok [OF assms(2)])
  obtain r where r: "receipt_at (arg_str a ''session_id'') (arg_int a ''sequence'') db1 = Some r"
      "ur_request_digest r = usage_fingerprint P a" "res \<in> {report_receipt r p False, report_receipt r p True}"
    using assms(1)
  proof (cases rule: usage_reportE)
    case (replayed s r)
    then show ?thesis using that owned_usageE(2) [OF replayed(1)] by simp
  next
    case (counted s current source attribution r)
    have "receipt_at (us_id s) (arg_int a ''sequence'') db1 = Some r"
      using log_frame_fields(12) [OF counted(7)] counted(3)
      by (simp add: receipt_at_def fetchrow_insert_row counted(6) usage_receipt_row_def)
    then show ?thesis using that counted(6,8) owned_usageE(2) [OF counted(1)] by (simp add: usage_receipt_row_def)
  qed
  have r2: "receipt_at (arg_str a ''session_id'') (arg_int a ''sequence'') db2 = Some r"
    using ur.row_run [OF assms(3) ok1, of "(arg_str a ''session_id'', arg_int a ''sequence'')"] r(1) by simp
  have "usage_fingerprint P b = usage_fingerprint P a \<and> db3 = db2 \<and> res' = report_receipt r q True"
    if "usage_report P clk' q b db2 = Inr (db3, res')" for clk' q db3 res'
    using that
  proof (cases rule: usage_reportE)
    case (replayed s x)
    then have "x = r" using owned_usageE(2) [OF replayed(1)] r2 assms(4,5) by simp
    then show ?thesis using replayed(3-5) r(2) by simp
  next
    case (counted s current source attribution x)
    then show ?thesis using owned_usageE(2) [OF counted(1)] r2 assms(4,5) by simp
  qed
  then show ?thesis using r(2,3) by blast
qed

lemma known_append: "known q i (xs @ ys) = known q i xs @ known q i ys"
  by (simp add: known_def)

lemma known_mset: "mset xs = mset ys \<Longrightarrow> mset (known q i xs) = mset (known q i ys)"
  by (simp add: known_def)

definition amount :: "metric_total \<Rightarrow> int" where
  "amount t = (case mt_value t of None \<Rightarrow> 0 | Some n \<Rightarrow> n)"

lemma amount_total: "amount (metric_total_of q xs i) = sum_list (map tokens (known q i xs))"
  by (simp add: amount_def metric_total_of_def Let_def)

lemma known_all: "\<forall>m \<in> set xs. ct_quality (m ! i) = q \<Longrightarrow> known q i xs = map (\<lambda>m. m ! i) xs"
  by (auto simp: known_def filter_id_conv)

lemma length_known: "length (known q i xs) \<le> length xs"
  unfolding known_def using length_filter_le [of _ "map (\<lambda>m. m ! i) xs"] by simp

text \<open>
  Totals are consistent: the reported total of a field is the sum over the snapshots in
  which it was reported, the known and the missing units make up all of them; the total of
  two sets of snapshots is the sum of their totals, in whatever order they come; and where
  every snapshot reports input, output and total, the totals add up as well.
\<close>

lemma totals_consistent:
  "mt_known_units (metric_total_of q xs i) + mt_missing_units (metric_total_of q xs i) = length xs
   \<and> amount (metric_total_of q (xs @ ys) i) = amount (metric_total_of q xs i) + amount (metric_total_of q ys i)
   \<and> (mset xs = mset ys \<longrightarrow> amount (metric_total_of q xs i) = amount (metric_total_of q ys i)
        \<and> mt_known_units (metric_total_of q xs i) = mt_known_units (metric_total_of q ys i))
   \<and> ((\<forall>m \<in> set xs. mk_metrics m = Some m \<and> ct_quality (m ! 0) = ''reported'' \<and> ct_quality (m ! 1) = ''reported''
          \<and> ct_quality (m ! 2) = ''reported'' \<and> ct_estimate_method (m ! 0) = None \<and> ct_estimate_method (m ! 1) = None
          \<and> ct_estimate_method (m ! 2) = None) \<longrightarrow>
        amount (metric_total_of ''reported'' xs 2) = amount (metric_total_of ''reported'' xs 0) + amount (metric_total_of ''reported'' xs 1))"
proof (intro conjI impI)
  show "mt_known_units (metric_total_of q xs i) + mt_missing_units (metric_total_of q xs i) = length xs"
    using length_known [of q i xs] by (simp add: metric_total_of_def Let_def)
  show "amount (metric_total_of q (xs @ ys) i) = amount (metric_total_of q xs i) + amount (metric_total_of q ys i)"
    by (simp add: amount_total known_append)
next
  assume "mset xs = mset ys"
  then have k: "mset (known q i xs) = mset (known q i ys)" by (rule known_mset)
  then have "mset (map tokens (known q i xs)) = mset (map tokens (known q i ys))" by simp
  then show "amount (metric_total_of q xs i) = amount (metric_total_of q ys i)"
    unfolding amount_total by (metis sum_mset_sum_list)
  show "mt_known_units (metric_total_of q xs i) = mt_known_units (metric_total_of q ys i)"
    using mset_eq_length [OF k] by (simp add: metric_total_of_def Let_def)
next
  assume all: "\<forall>m \<in> set xs. mk_metrics m = Some m \<and> ct_quality (m ! 0) = ''reported'' \<and> ct_quality (m ! 1) = ''reported''
          \<and> ct_quality (m ! 2) = ''reported'' \<and> ct_estimate_method (m ! 0) = None \<and> ct_estimate_method (m ! 1) = None
          \<and> ct_estimate_method (m ! 2) = None"
  have one: "tokens (m ! 2) = tokens (m ! 0) + tokens (m ! 1)" if "m \<in> set xs" for m
  proof -
    have "length m = 6" using all that mk_metrics_id by blast
    then obtain a b c d e f where m: "m = [a, b, c, d, e, f]" by (auto simp: numeral_eq_Suc length_Suc_conv)
    then have "comparable a b" "comparable c a" using all that by (auto simp: comparable_def)
    then show ?thesis using all that by (auto simp: m split: if_splits)
  qed
  then have "sum_list (map (\<lambda>m. tokens (m ! 2)) xs) = sum_list (map (\<lambda>m. tokens (m ! 0) + tokens (m ! 1)) xs)"
    by (intro arg_cong [where f = sum_list]) simp
  then show "amount (metric_total_of ''reported'' xs 2) = amount (metric_total_of ''reported'' xs 0) + amount (metric_total_of ''reported'' xs 1)"
    using all by (simp add: amount_total known_all sum_list_addf comp_def)
qed

subsection \<open>Witnesses\<close>

definition demo_attempt :: usage_session where
  "demo_attempt = new_usage_session auth_platform ''s'' (seconds 100) demo_bob
     [(''project_id'', PStr ''p''), (''execution_attempt_id'', PStr ''e''), (''session_token'', PStr ''tok'')] USAGE_DEFAULT_POLICY C_internal"

definition demo_ledger :: cdb where
  "demo_ledger = empty_cdb\<lparr>cd_usage := [demo_attempt], cd_usage_policies :=
     [\<lparr>pr_project_id = ''p'', pr_version = 1, pr_policy = dict_put ''enabled'' (PBool True) USAGE_DEFAULT_POLICY, pr_updated_by = ''root''\<rparr>]\<rparr>"

definition demo_usage :: dict where
  "demo_usage = [(''project_id'', PStr ''p''), (''session_id'', PStr ''s''), (''session_token'', PStr ''tok''), (''sequence'', PInt 1),
     (''metrics'', PDict (metrics_dict demo_metrics)), (''completion_state'', PStr ''in_progress''), (''coverage'', PStr ''complete''),
     (''source_occurred_at'', PNone)]"

lemma demo_attempt_fields [simp]:
  "us_id demo_attempt = ''s''" "us_project_id demo_attempt = ''p''" "us_actor_id demo_attempt = ''bob''"
  "us_session_token_digest demo_attempt = token_digest auth_platform ''tok''" "us_sequence demo_attempt = 0"
  "us_metrics demo_attempt = None" "us_retired_at demo_attempt = None" "us_finalized_at demo_attempt = None"
  "us_completion_state demo_attempt = ''in_progress''" "us_coverage demo_attempt = ''partial''" "us_created_at demo_attempt = seconds 100"
  "us_accepts_until demo_attempt = seconds 100 + hours 168"
  by (simp_all add: demo_attempt_def new_usage_session_def Let_def arg_str_def py_get_def demo_bob_def USAGE_DEFAULT_POLICY_def arg_int_def int_of_def)

lemma demo_usage_fields [simp]:
  "arg_str demo_usage ''project_id'' = ''p''" "arg_str demo_usage ''session_id'' = ''s''" "arg_str demo_usage ''session_token'' = ''tok''"
  "arg_int demo_usage ''sequence'' = 1" "py_get demo_usage ''metrics'' = PDict (metrics_dict demo_metrics)"
  "arg_str demo_usage ''completion_state'' = ''in_progress''" "arg_str demo_usage ''coverage'' = ''complete''" "source_arg demo_usage = None"
  by (simp_all add: demo_usage_def arg_str_def arg_int_def int_of_def py_get_def source_arg_def arg_opt_str_def)

lemma demo_ledger_ok: "usage_ok demo_ledger" "usage_of demo_ledger ''s'' = Some demo_attempt"
  by (simp_all add: usage_ok_def demo_ledger_def usage_row_ok_def usage_of_def)

lemma demo_reported: "\<exists>db res. usage_report auth_platform (\<lambda>_. seconds 110) demo_bob demo_usage demo_ledger = Inr (db, res)"
proof -
  have auth: "authorize_tool demo_bob ''memory_usage_report'' (Some ''p'') = Inr ()" by code_simp
  have m: "current_metrics demo_usage = Inr demo_metrics"
    by (simp add: current_metrics_def demo_metrics_of checked_def) (simp add: demo_metrics_def demo_counter_def)
  have s: "owned_usage auth_platform demo_usage demo_bob demo_ledger = Inr demo_attempt"
    by (simp add: owned_usage_def demo_ledger_def demo_bob_def checked_def)
  have pol: "snd (usage_policy ''p'' demo_ledger) = dict_put ''enabled'' (PBool True) USAGE_DEFAULT_POLICY"
    by (simp add: usage_policy_def demo_ledger_def policy_of_def)
  have body: "py_get (dict_put ''enabled'' (PBool True) USAGE_DEFAULT_POLICY) ''enabled'' = PBool True"
    "arg_int (dict_put ''enabled'' (PBool True) USAGE_DEFAULT_POLICY) ''late_report_hours'' = 168"
    by (simp_all add: py_get_dict_put arg_int_def) (simp add: USAGE_DEFAULT_POLICY_def py_get_def int_of_def)
  have none: "receipt_at ''s'' 1 demo_ledger = None" "\<not> usage_report_limit ''p'' ''s'' ''bob'' (seconds 110) demo_ledger"
    by (simp_all add: receipt_at_def demo_ledger_def empty_cdb_def usage_report_limit_def count_rows_def
        MAX_RECEIPTS_def MAX_REVISIONS_def MAX_REPORT_MINUTE_def)
  have checks: "checked (usage_report_checks demo_attempt demo_metrics demo_usage (dict_put ''enabled'' (PBool True) USAGE_DEFAULT_POLICY)
      (seconds 110) False) () = Inr ()"
    by (simp add: usage_report_checks_def checked_def body truthy_def is_final_def hours_def seconds_def)
  obtain attribution where att: "attributed auth_platform demo_attempt demo_usage (dict_put ''enabled'' (PBool True) USAGE_DEFAULT_POLICY)
      (seconds 110) None = Inr attribution"
    by (simp add: attributed_def is_final_def)
  have "\<exists>r. record_usage auth_platform (\<lambda>_. seconds 110) demo_bob demo_usage demo_attempt demo_metrics None attribution demo_ledger = Inr r"
    by (simp add: record_usage_def is_final_def Let_def)
  moreover have "p_user_id demo_bob = ''bob''" by (simp add: demo_bob_def)
  ultimately show ?thesis by (simp add: usage_report_def Let_def auth m s pol none checks att)
qed

theorem usage_ledger_monotone_witness:
  "\<exists>db s'. usage_of db ''s'' = Some s' \<and> (s' = demo_attempt \<or> guard_usage_session demo_attempt s')"
proof -
  obtain db res where "usage_report auth_platform (\<lambda>_. seconds 110) demo_bob demo_usage demo_ledger = Inr (db, res)"
    using demo_reported by blast
  then have "run usage_step demo_ledger [\<lambda>_. seconds 110] db" by (blast intro: us_report)
  from usage_ledger_monotone [OF this demo_ledger_ok] show ?thesis by blast
qed

lemma usage_report_counts_once_witness:
  "\<exists>db r. ur_request_digest r = usage_fingerprint auth_platform demo_usage
    \<and> (\<forall>clk' q db3 res'. usage_report auth_platform clk' q demo_usage db = Inr (db3, res') \<longrightarrow> db3 = db \<and> res' = report_receipt r q True)"
proof -
  obtain db res where ok: "usage_report auth_platform (\<lambda>_. seconds 110) demo_bob demo_usage demo_ledger = Inr (db, res)"
    using demo_reported by blast
  show ?thesis using usage_report_counts_once [OF ok demo_ledger_ok(1) run_nil refl refl] by blast
qed


end
