(* ===== verification/Experience_Store.thy ===== *)
theory Experience_Store
  imports Row_Changes Handoff_Service
begin

text \<open>
  The project experiences and the transactions on them: proposals and corrections
  (experience/submissions.py), review with replacement and erasure, and the release of a
  suppression (experience/lifecycle.py, experience/persistence.py). Each operation is one
  transaction under the lock of the project; \<open>clk 0\<close> is the time of the transaction.
\<close>

subsection \<open>Rows\<close>

datatype exp_status = X_pending | X_active | X_rejected | X_archived | X_superseded | X_forgotten

datatype exp_action = A_approve | A_reject | A_archive | A_forget | A_supersede

record experience =
  xp_id :: uuid
  xp_project_id :: string
  xp_source_handoff_id :: "uuid option"
  xp_source :: dict
  xp_source_lock_digest :: string
  xp_classification :: classification
  xp_kind :: string
  xp_title :: string
  xp_content :: string
  xp_tags :: "string list"
  xp_search_text :: string
  xp_status :: exp_status
  xp_version :: nat
  xp_created_by :: string
  xp_idempotency_key :: string
  xp_submission_digest :: string
  xp_expires_at :: "time option"
  xp_created_at :: time
  xp_updated_at :: time
  xp_source_payload_digest :: string
  xp_content_fingerprint :: string
  xp_valid_from :: "time option"
  xp_supersedes_id :: "uuid option"
  xp_supersedes_version :: "nat option"
  xp_revision_root_id :: "uuid option"
  xp_revision_number :: nat
  xp_is_correction :: bool

record exp_event =
  xe_memory_id :: uuid
  xe_version :: nat
  xe_actor_id :: string
  xe_action :: exp_action
  xe_previous_status :: exp_status
  xe_applied_status :: exp_status
  xe_related_memory_id :: "uuid option"
  xe_created_at :: time

record suppression =
  sp_project_id :: string
  sp_source_payload_digest :: string
  sp_content_fingerprint :: string
  sp_memory_id :: uuid
  sp_reason :: exp_status
  sp_version :: nat
  sp_updated_by :: string
  sp_updated_at :: time
  sp_released_at :: "time option"

record xdb =
  xd_experiences :: "experience list"
  xd_events :: "exp_event list"
  xd_suppressions :: "suppression list"
  xd_handoffs :: "handoff list"

text \<open>The family of a revision: the memory its line of corrections started from.\<close>

definition family :: "experience \<Rightarrow> uuid" where
  "family x = (case xp_revision_root_id x of Some r \<Rightarrow> r | None \<Rightarrow> xp_id x)"

fun status_str :: "exp_status \<Rightarrow> string" where
  "status_str X_pending = ''pending''"
| "status_str X_active = ''active''"
| "status_str X_rejected = ''rejected''"
| "status_str X_archived = ''archived''"
| "status_str X_superseded = ''superseded''"
| "status_str X_forgotten = ''forgotten''"

subsection \<open>Shared guards\<close>

definition exp_error :: "string \<Rightarrow> string \<Rightarrow> int \<Rightarrow> mem_error" where
  "exp_error msg code status = memory_tool_error msg code [] status"

definition exp_missing :: mem_error where
  "exp_missing = exp_error ''Experience or source is not available in this project'' ''MEM-EXPERIENCE-0001'' 404"

text \<open>What a suppression is about: a claim, made from one source.\<close>

definition claim_of :: "experience \<Rightarrow> string \<times> string" where
  "claim_of x = (xp_source_payload_digest x, xp_content_fingerprint x)"

definition suppresses :: "string \<Rightarrow> string \<times> string \<Rightarrow> suppression \<Rightarrow> bool" where
  "suppresses project claim s \<longleftrightarrow>
     sp_project_id s = project \<and> (sp_source_payload_digest s, sp_content_fingerprint s) = claim"

definition suppressed :: "string \<Rightarrow> string \<times> string \<Rightarrow> xdb \<Rightarrow> bool" where
  "suppressed project claim db \<longleftrightarrow>
     exists_row (\<lambda>s. suppresses project claim s \<and> sp_released_at s = None) (xd_suppressions db)"

definition ensure_not_suppressed :: "string \<Rightarrow> string \<times> string \<Rightarrow> xdb \<Rightarrow> unit outcome" where
  "ensure_not_suppressed project claim db = checked
     [(suppressed project claim db,
       exp_error ''This source-backed claim is suppressed; admin release is required before proposing it again''
         ''MEM-EXPERIENCE-0007'' 409)] ()"

text \<open>The upsert: \<open>now\<close> is the transaction, \<open>later\<close> the moment of the conflicting update.\<close>

definition suppress :: "experience \<Rightarrow> string \<Rightarrow> exp_status \<Rightarrow> time \<Rightarrow> time \<Rightarrow> xdb \<Rightarrow> xdb" where
  "suppress x actor reason now later db =
     (let same = suppresses (xp_project_id x) (claim_of x)
      in if exists_row same (xd_suppressions db)
         then db\<lparr>xd_suppressions := update_where same
             (\<lambda>s. s\<lparr>sp_memory_id := xp_id x, sp_reason := reason, sp_updated_by := actor, sp_version := sp_version s + 1,
                    sp_updated_at := later, sp_released_at := None\<rparr>) (xd_suppressions db)\<rparr>
         else db\<lparr>xd_suppressions := insert_row
             \<lparr>sp_project_id = xp_project_id x, sp_source_payload_digest = xp_source_payload_digest x,
              sp_content_fingerprint = xp_content_fingerprint x, sp_memory_id = xp_id x, sp_reason = reason,
              sp_version = 1, sp_updated_by = actor, sp_updated_at = now, sp_released_at = None\<rparr> (xd_suppressions db)\<rparr>)"

definition experience_row :: "string \<Rightarrow> uuid \<Rightarrow> xdb \<Rightarrow> experience option" where
  "experience_row project i db = fetchrow (\<lambda>x. xp_id x = i \<and> xp_project_id x = project) (xd_experiences db)"

subsection \<open>Proposals and corrections\<close>

text \<open>The arguments of \<open>propose\<close>; \<open>sb_parent\<close> is the memory a correction revises, at a version.\<close>

record submission =
  sb_project_id :: string
  sb_actor_id :: string
  sb_source_handoff_id :: "uuid option"
  sb_idempotency_key :: string
  sb_kind :: string
  sb_title :: string
  sb_content :: string
  sb_tags :: "string list"
  sb_search_text :: string
  sb_submission_digest :: string
  sb_content_fingerprint :: string
  sb_expires_at :: "time option"
  sb_valid_from :: "time option"
  sb_parent :: "(uuid \<times> int) option"

definition proposal_answer :: "uuid \<Rightarrow> bool \<Rightarrow> dict" where
  "proposal_answer i existing = [(''memory_id'', PStr (uuid_str i)), (''already_exists'', PBool existing)]"

definition parent_changed :: mem_error where
  "parent_changed = exp_error ''The revision's parent has changed or retired'' ''MEM-EXPERIENCE-0008'' 409"

definition proposal_parent :: "submission \<Rightarrow> xdb \<Rightarrow> experience option outcome" where
  "proposal_parent s db =
     (case sb_parent s of
        None \<Rightarrow> Inr None
      | Some (i, expected) \<Rightarrow> (case experience_row (sb_project_id s) i db of
            None \<Rightarrow> Inl exp_missing
          | Some parent \<Rightarrow> checked
              [(xp_status parent \<noteq> X_active \<or> int (xp_version parent) \<noteq> expected, parent_changed)] (Some parent)))"

definition proposal_source :: "submission \<Rightarrow> experience option \<Rightarrow> xdb \<Rightarrow> handoff option" where
  "proposal_source s parent db =
     (let wanted = (case sb_source_handoff_id s of Some i \<Rightarrow> Some i
                    | None \<Rightarrow> (case parent of None \<Rightarrow> None | Some x \<Rightarrow> xp_source_handoff_id x))
      in case wanted of
           None \<Rightarrow> None
         | Some i \<Rightarrow> fetchrow (\<lambda>h. h_id h = i \<and> h_project_id h = sb_project_id s) (xd_handoffs db))"

definition invalid_interval :: "submission \<Rightarrow> time \<Rightarrow> bool" where
  "invalid_interval s now \<longleftrightarrow> upto (sb_expires_at s) now
     \<or> (case (sb_expires_at s, sb_valid_from s) of (Some e, Some v) \<Rightarrow> e \<le> v | _ \<Rightarrow> False)"

definition attribution :: "handoff \<Rightarrow> dict" where
  "attribution h =
     (let c = h_content h
      in [(''id'', PStr (uuid_str (h_id h))), (''unit_id'', PStr (hc_unit_id c)),
          (''phase_attempt_id'', PStr (hc_phase_attempt_id c)), (''phase_id'', PStr (hc_phase_id c)),
          (''result_status'', PStr (hc_result_status c)), (''classification'', PStr (class_str (hc_classification c))),
          (''envelope_digest'', PStr (hc_envelope_digest c)), (''payload_digest'', PStr (hc_payload_digest c)),
          (''lock_snapshot_digest'', PStr (hc_lock_snapshot_digest c))])"

definition proposed_row :: "uuid \<Rightarrow> time \<Rightarrow> submission \<Rightarrow> experience option \<Rightarrow> handoff \<Rightarrow> experience" where
  \<comment> \<open>the inserted row, the columns not named at their defaults\<close>
  "proposed_row i now s parent h =
     (let c = h_content h
      in \<lparr>xp_id = i, xp_project_id = sb_project_id s, xp_source_handoff_id = Some (h_id h), xp_source = attribution h,
          xp_source_lock_digest = hc_lock_snapshot_digest c,
          xp_classification = (case parent of None \<Rightarrow> hc_classification c
            | Some x \<Rightarrow> max_level (hc_classification c) (xp_classification x)),
          xp_kind = sb_kind s, xp_title = sb_title s, xp_content = sb_content s, xp_tags = sb_tags s,
          xp_search_text = sb_search_text s, xp_status = X_pending, xp_version = 1, xp_created_by = sb_actor_id s,
          xp_idempotency_key = sb_idempotency_key s, xp_submission_digest = sb_submission_digest s,
          xp_expires_at = sb_expires_at s, xp_created_at = now, xp_updated_at = now,
          xp_source_payload_digest = hc_payload_digest c, xp_content_fingerprint = sb_content_fingerprint s,
          xp_valid_from = sb_valid_from s, xp_supersedes_id = map_option xp_id parent,
          xp_supersedes_version = map_option xp_version parent,
          xp_revision_root_id = map_option (\<lambda>x. case xp_revision_root_id x of Some r \<Rightarrow> r | None \<Rightarrow> xp_id x) parent,
          xp_revision_number = (case parent of None \<Rightarrow> 1 | Some x \<Rightarrow> xp_revision_number x + 1),
          xp_is_correction = (parent \<noteq> None)\<rparr>)"

definition same_submission :: "submission \<Rightarrow> experience \<Rightarrow> bool" where
  "same_submission s x \<longleftrightarrow> xp_project_id x = sb_project_id s \<and> xp_created_by x = sb_actor_id s
     \<and> xp_idempotency_key x = sb_idempotency_key s"

definition propose :: "clock \<Rightarrow> uuid \<Rightarrow> submission \<Rightarrow> xdb \<Rightarrow> (xdb \<times> dict) outcome" where
  "propose clk i s db =
     (case fetchrow (same_submission s) (xd_experiences db) of
        Some x \<Rightarrow> checked [(xp_submission_digest x \<noteq> sb_submission_digest s,
            exp_error ''Idempotency key already identifies a different proposal'' ''MEM-EXPERIENCE-0002'' 409)]
          (db, proposal_answer (xp_id x) True)
      | None \<Rightarrow> and_then (proposal_parent s db) (\<lambda>parent.
          case proposal_source s parent db of
            None \<Rightarrow> Inl exp_missing
          | Some h \<Rightarrow> and_then (checked [(invalid_interval s (clk 1),
                exp_error ''Experience validity interval is invalid or expired'' ''MEM-EXPERIENCE-0004'' 400)] ())
              (\<lambda>_. and_then (ensure_not_suppressed (sb_project_id s)
                  (hc_payload_digest (h_content h), sb_content_fingerprint s) db)
              (\<lambda>_. Inr (db\<lparr>xd_experiences := insert_row (proposed_row i (clk 0) s parent h) (xd_experiences db)\<rparr>,
                        proposal_answer i False)))))"

subsection \<open>Review\<close>

fun status_before :: "exp_action \<Rightarrow> exp_status option" where
  "status_before A_approve = Some X_pending"
| "status_before A_reject = Some X_pending"
| "status_before A_archive = Some X_active"
| "status_before _ = None"

fun status_after :: "exp_action \<Rightarrow> exp_status" where
  "status_after A_approve = X_active"
| "status_after A_reject = X_rejected"
| "status_after A_archive = X_archived"
| "status_after A_forget = X_forgotten"
| "status_after A_supersede = X_superseded"

definition event_receipt :: "uuid \<Rightarrow> exp_event \<Rightarrow> bool \<Rightarrow> dict" where
  "event_receipt i e replay =
     [(''memory_id'', PStr (uuid_str i)), (''applied_status'', PStr (status_str (xe_applied_status e))),
      (''applied_version'', PInt (int (xe_version e))), (''already_applied'', PBool replay)]
     @ opt_entry ''related_memory_id'' (\<lambda>j. PStr (uuid_str j)) (xe_related_memory_id e)"

text \<open>The event of a row, as the service read it before its update.\<close>

definition review_event :: "experience \<Rightarrow> string \<Rightarrow> exp_action \<Rightarrow> uuid option \<Rightarrow> time \<Rightarrow> exp_event" where
  "review_event x actor action related now =
     \<lparr>xe_memory_id = xp_id x, xe_version = xp_version x + 1, xe_actor_id = actor, xe_action = action,
      xe_previous_status = xp_status x, xe_applied_status = status_after action, xe_related_memory_id = related,
      xe_created_at = now\<rparr>"

definition transition :: "experience \<Rightarrow> exp_action \<Rightarrow> time \<Rightarrow> exp_event \<Rightarrow> xdb \<Rightarrow> xdb" where
  "transition x action now e db =
     db\<lparr>xd_experiences := update_where (\<lambda>y. xp_id y = xp_id x)
          (\<lambda>y. y\<lparr>xp_status := status_after action, xp_version := xp_version y + 1, xp_updated_at := now\<rparr>) (xd_experiences db),
        xd_events := insert_row e (xd_events db)\<rparr>"

definition erased_body :: "experience \<Rightarrow> experience" where
  "erased_body x = x\<lparr>xp_status := X_forgotten, xp_title := ''[forgotten]'', xp_content := ''[forgotten]'', xp_tags := [],
     xp_search_text := [], xp_source := [], xp_source_handoff_id := None\<rparr>"

definition erase_row :: "experience \<Rightarrow> xdb \<Rightarrow> xdb" where
  "erase_row x db = db\<lparr>xd_experiences := update_where (\<lambda>y. xp_id y = xp_id x) erased_body (xd_experiences db)\<rparr>"

definition review_receipt :: "uuid \<Rightarrow> string \<Rightarrow> exp_action \<Rightarrow> int \<Rightarrow> xdb \<Rightarrow> exp_event option" where
  "review_receipt i actor action expected db =
     (case fetchrow (\<lambda>e. xe_memory_id e = i \<and> int (xe_version e) = expected + 1) (xd_events db) of
        None \<Rightarrow> None
      | Some e \<Rightarrow> if xe_actor_id e = actor \<and> xe_action e = action then Some e else None)"

definition review_conflict :: "experience \<Rightarrow> exp_action \<Rightarrow> int \<Rightarrow> bool" where
  "review_conflict x action expected \<longleftrightarrow> int (xp_version x) \<noteq> expected \<or> xp_status x = X_forgotten
     \<or> (case status_before action of None \<Rightarrow> False | Some b \<Rightarrow> xp_status x \<noteq> b)"

definition review_parent :: "experience \<Rightarrow> string \<Rightarrow> exp_action \<Rightarrow> xdb \<Rightarrow> experience option outcome" where
  "review_parent x project action db =
     (case xp_supersedes_id x of
        None \<Rightarrow> Inr None
      | Some j \<Rightarrow>
          if action \<noteq> A_approve then Inr None
          else (case experience_row project j db of
                  None \<Rightarrow> Inl parent_changed
                | Some q \<Rightarrow> checked [(xp_status q \<noteq> X_active \<or> Some (xp_version q) \<noteq> xp_supersedes_version x, parent_changed)]
                    (Some q)))"

definition outside_validity :: "experience \<Rightarrow> time \<Rightarrow> bool" where
  "outside_validity x now \<longleftrightarrow> upto (xp_expires_at x) now \<or> after (xp_valid_from x) now"

text \<open>What an approval checks, and how it retires the parent it replaces.\<close>

definition replace_parent :: "clock \<Rightarrow> string \<Rightarrow> experience \<Rightarrow> experience option \<Rightarrow> xdb \<Rightarrow> xdb" where
  "replace_parent clk actor x parent db =
     (case parent of
        None \<Rightarrow> db
      | Some q \<Rightarrow>
          let db1 = (if claim_of q \<noteq> claim_of x then suppress q actor X_superseded (clk 0) (clk 2) db else db)
          in transition q A_supersede (clk 1) (review_event q actor A_supersede (Some (xp_id x)) (clk 0)) db1)"

definition approve :: "clock \<Rightarrow> string \<Rightarrow> string \<Rightarrow> experience \<Rightarrow> experience option \<Rightarrow> xdb \<Rightarrow> xdb outcome" where
  "approve clk project actor x parent db =
     and_then (checked [(outside_validity x (clk 1),
         exp_error ''An experience outside its validity interval cannot be approved'' ''MEM-EXPERIENCE-0004'' 409)] ())
     (\<lambda>_. and_then (ensure_not_suppressed project (claim_of x) db) (\<lambda>_. Inr (replace_parent clk actor x parent db)))"

definition apply_review ::
    "clock \<Rightarrow> string \<Rightarrow> exp_action \<Rightarrow> experience \<Rightarrow> experience option \<Rightarrow> xdb \<Rightarrow> xdb \<times> dict" where
  "apply_review clk actor action x parent db =
     (let db1 = (if action = A_reject \<or> action = A_forget then suppress x actor (status_after action) (clk 0) (clk 2) db else db);
          db2 = (if action = A_forget then erase_row x db1 else db1);
          e = review_event x actor action (map_option xp_id parent) (clk 0)
      in (transition x action (clk 1) e db2, event_receipt (xp_id x) e False))"

definition review ::
    "clock \<Rightarrow> string \<Rightarrow> uuid \<Rightarrow> string \<Rightarrow> exp_action \<Rightarrow> int \<Rightarrow> xdb \<Rightarrow> (xdb \<times> dict) outcome" where
  "review clk project i actor action expected db =
     (case experience_row project i db of
        None \<Rightarrow> Inl exp_missing
      | Some x \<Rightarrow> (case review_receipt i actor action expected db of
          Some e \<Rightarrow> Inr (db, event_receipt i e True)
        | None \<Rightarrow> and_then (checked [(review_conflict x action expected,
              exp_error ''Experience version or lifecycle transition conflicts'' ''MEM-EXPERIENCE-0003'' 409)] ())
            (\<lambda>_. and_then (review_parent x project action db) (\<lambda>parent.
              and_then (if action = A_approve then approve clk project actor x parent db else Inr db)
                (\<lambda>db1. Inr (apply_review clk actor action x parent db1))))))"

subsection \<open>Release of a suppression\<close>

definition release_answer :: "uuid \<Rightarrow> int \<Rightarrow> bool \<Rightarrow> dict" where
  "release_answer i expected replay =
     [(''memory_id'', PStr (uuid_str i)), (''suppression_version'', PInt (expected + 1)), (''released'', PBool True),
      (''already_released'', PBool replay)]"

definition released :: "clock \<Rightarrow> string \<Rightarrow> suppression \<Rightarrow> suppression" where
  "released clk actor s =
     s\<lparr>sp_released_at := Some (clk 1), sp_updated_at := clk 2, sp_updated_by := actor, sp_version := sp_version s + 1\<rparr>"

definition release_suppression ::
    "clock \<Rightarrow> string \<Rightarrow> uuid \<Rightarrow> string \<Rightarrow> int \<Rightarrow> xdb \<Rightarrow> (xdb \<times> dict) outcome" where
  "release_suppression clk project i actor expected db =
     (case experience_row project i db of
        None \<Rightarrow> Inl exp_missing
      | Some x \<Rightarrow> (case fetchrow (suppresses project (claim_of x)) (xd_suppressions db) of
          None \<Rightarrow> Inl exp_missing
        | Some s \<Rightarrow>
            if sp_released_at s \<noteq> None \<and> int (sp_version s) = expected + 1 \<and> sp_updated_by s = actor
            then Inr (db, release_answer i expected True)
            else checked [(int (sp_version s) \<noteq> expected \<or> sp_released_at s \<noteq> None,
                exp_error ''Suppression version conflicts'' ''MEM-EXPERIENCE-0009'' 409)]
              (db\<lparr>xd_suppressions := update_where (suppresses project (claim_of x)) (released clk actor) (xd_suppressions db)\<rparr>,
               release_answer i expected False)))"

end
