(* ===== verification/Experience_Props.thy ===== *)
theory Experience_Props
  imports Experience_Store
begin

text \<open>
  Properties of the experiences: in every reachable state the unique indexes of the database
  hold (with all other constraints in \<open>Experience_Tables\<close>); rows change only as
  the trigger \<open>guard_experience_content\<close> allows and along the lifecycle (C37); and a claim
  that was rejected or forgotten stays out until an administrator releases it (C38).
\<close>

subsection \<open>Steps\<close>

text \<open>
  One transaction; the identifier of a new row is fresh. The handoffs may change in between.
\<close>

inductive exp_step :: "clock \<Rightarrow> xdb \<Rightarrow> xdb \<Rightarrow> bool" where
  ex_propose: "propose clk i s db = Inr (db', res) \<Longrightarrow> i \<notin> xp_id ` set (xd_experiences db) \<Longrightarrow> exp_step clk db db'"
| ex_review: "review clk project i actor action expected db = Inr (db', res) \<Longrightarrow> action \<noteq> A_supersede \<Longrightarrow> exp_step clk db db'"
| ex_release: "release_suppression clk project i actor expected db = Inr (db', res) \<Longrightarrow> exp_step clk db db'"
| ex_handoffs: "exp_step clk db (db\<lparr>xd_handoffs := hs\<rparr>)"

text \<open>What a row keeps for ever, and how its status moves.\<close>

definition exp_identity :: "experience \<Rightarrow> experience" where
  "exp_identity x = x\<lparr>xp_source_handoff_id := None, xp_source := [], xp_title := [], xp_content := [], xp_tags := [],
     xp_search_text := [], xp_status := X_pending, xp_version := 0, xp_updated_at := 0\<rparr>"

definition exp_body :: "experience \<Rightarrow> string \<times> string \<times> string list \<times> string \<times> dict \<times> uuid option" where
  "exp_body x = (xp_title x, xp_content x, xp_tags x, xp_search_text x, xp_source x, xp_source_handoff_id x)"

text \<open>The trigger on updates of the table: what it lets pass.\<close>

definition exp_attribution where
  "exp_attribution x =
     (xp_kind x, xp_source_lock_digest x, claim_of x, xp_classification x, xp_supersedes_id x, xp_supersedes_version x,
      xp_revision_root_id x, xp_revision_number x, xp_is_correction x, xp_submission_digest x, xp_idempotency_key x,
      xp_created_by x, xp_created_at x)"

definition guard_experience_content :: "experience \<Rightarrow> experience \<Rightarrow> bool" where
  "guard_experience_content a b \<longleftrightarrow> exp_attribution b = exp_attribution a
     \<and> (xp_status b \<noteq> X_forgotten \<or> xp_status a = X_forgotten \<longrightarrow> exp_body b = exp_body a)"

fun later_status :: "exp_status \<Rightarrow> exp_status \<Rightarrow> bool" where
  "later_status X_pending b = True"
| "later_status X_active b = (b \<in> {X_active, X_archived, X_superseded, X_forgotten})"
| "later_status a b = (b = a \<or> b = X_forgotten)"

text \<open>The check constraint \<open>ck_experience_forgotten\<close>, and its converse for the other rows.\<close>

definition body_ok :: "experience \<Rightarrow> bool" where
  "body_ok x \<longleftrightarrow> (if xp_status x = X_forgotten
     then exp_body x = (''[forgotten]'', ''[forgotten]'', [], [], [], None) else xp_source_handoff_id x \<noteq> None)"

definition exp_evolves :: "experience \<Rightarrow> experience \<Rightarrow> bool" where
  "exp_evolves a b \<longleftrightarrow> exp_identity b = exp_identity a \<and> guard_experience_content a b \<and> later_status (xp_status a) (xp_status b)
     \<and> xp_version a \<le> xp_version b \<and> (xp_status b \<noteq> xp_status a \<longrightarrow> xp_version a < xp_version b)
     \<and> (xp_status a = X_forgotten \<longrightarrow> b = a) \<and> (body_ok a \<longrightarrow> body_ok b)"

lemma later_status_refl [simp]: "later_status a a"
  by (cases a) simp_all

lemma later_status_trans: "later_status a b \<Longrightarrow> later_status b c \<Longrightarrow> later_status a c"
  by (cases a; cases b; cases c) simp_all

lemma later_forgotten [simp]: "later_status X_forgotten b \<longleftrightarrow> b = X_forgotten"
  by simp

lemma exp_evolves_refl: "exp_evolves a a"
  by (simp add: exp_evolves_def guard_experience_content_def)

lemma exp_evolvesD:
  assumes "exp_evolves a b"
  shows "exp_identity b = exp_identity a" "exp_attribution b = exp_attribution a"
    "xp_status b \<noteq> X_forgotten \<or> xp_status a = X_forgotten \<Longrightarrow> exp_body b = exp_body a"
    "later_status (xp_status a) (xp_status b)" "xp_version a \<le> xp_version b"
    "xp_status b \<noteq> xp_status a \<Longrightarrow> xp_version a < xp_version b" "xp_status a = X_forgotten \<Longrightarrow> b = a" "body_ok a \<Longrightarrow> body_ok b"
  using assms unfolding exp_evolves_def guard_experience_content_def by blast+

lemma exp_evolves_trans:
  assumes ab: "exp_evolves a b" and bc: "exp_evolves b c"
  shows "exp_evolves a c"
  unfolding exp_evolves_def guard_experience_content_def
proof (intro conjI impI)
  show "exp_identity c = exp_identity a" "exp_attribution c = exp_attribution a"
    using exp_evolvesD(1,2) [OF ab] exp_evolvesD(1,2) [OF bc] by argo+
  show "later_status (xp_status a) (xp_status c)" using exp_evolvesD(4) [OF ab] exp_evolvesD(4) [OF bc] later_status_trans by blast
  show "xp_version a \<le> xp_version c" using exp_evolvesD(5) [OF ab] exp_evolvesD(5) [OF bc] by linarith
  show fa: "c = a" if "xp_status a = X_forgotten" using exp_evolvesD(7) [OF ab that] exp_evolvesD(7) [OF bc] that by metis
  show "exp_body c = exp_body a" if "xp_status c \<noteq> X_forgotten \<or> xp_status a = X_forgotten"
  proof (cases "xp_status a = X_forgotten")
    case True
    then show ?thesis using fa by simp
  next
    case False
    then have "xp_status c \<noteq> X_forgotten" using that by simp
    moreover from this have "xp_status b \<noteq> X_forgotten" using exp_evolvesD(7) [OF bc] by metis
    ultimately show ?thesis using exp_evolvesD(3) [OF ab] exp_evolvesD(3) [OF bc] by metis
  qed
  show "xp_version a < xp_version c" if "xp_status c \<noteq> xp_status a"
    using that exp_evolvesD(5,6) [OF ab] exp_evolvesD(5,6) [OF bc] by (metis le_less_trans less_le_trans)
  show "body_ok c" if "body_ok a" using that exp_evolvesD(8) [OF ab] exp_evolvesD(8) [OF bc] by blast
qed

subsection \<open>What an operation does\<close>

lemma proposeE:
  assumes "propose clk i s db = Inr (db', res)"
  obtains (existing) x where "db' = db" "fetchrow (same_submission s) (xd_experiences db) = Some x"
      "xp_submission_digest x = sb_submission_digest s" "res = proposal_answer (xp_id x) True"
    | (created) parent h where "fetchrow (same_submission s) (xd_experiences db) = None"
      "proposal_parent s db = Inr parent" "proposal_source s parent db = Some h" "\<not> invalid_interval s (clk 1)"
      "\<not> suppressed (sb_project_id s) (hc_payload_digest (h_content h), sb_content_fingerprint s) db"
      "db' = db\<lparr>xd_experiences := insert_row (proposed_row i (clk 0) s parent h) (xd_experiences db)\<rparr>"
      "res = proposal_answer i False"
  using assms that unfolding propose_def ensure_not_suppressed_def
  by (auto simp: and_then_Inr_iff split: option.splits)

definition moved :: "exp_action \<Rightarrow> time \<Rightarrow> experience \<Rightarrow> experience" where
  "moved action now y = y\<lparr>xp_status := status_after action, xp_version := xp_version y + 1, xp_updated_at := now\<rparr>"

definition reviewed_row :: "exp_action \<Rightarrow> experience \<Rightarrow> experience option \<Rightarrow> time \<Rightarrow> experience \<Rightarrow> experience" where
  "reviewed_row action x parent now y =
     (if xp_id y = xp_id x then moved action now (if action = A_forget then erased_body y else y)
      else if map_option xp_id parent = Some (xp_id y) then moved A_supersede now y else y)"

lemma erased_body_id [simp]: "xp_id (erased_body y) = xp_id y"
  by (simp add: erased_body_def)

lemma moved_id [simp]: "xp_id (moved action now y) = xp_id y"
  by (simp add: moved_def)

lemma reviewed_row_id [simp]: "xp_id (reviewed_row action x parent now y) = xp_id y"
  by (simp add: reviewed_row_def)

lemma suppress_frame [simp]:
  "xd_experiences (suppress x actor r now later db) = xd_experiences db" "xd_events (suppress x actor r now later db) = xd_events db"
  "xd_handoffs (suppress x actor r now later db) = xd_handoffs db"
  by (simp_all add: suppress_def Let_def)

lemma erase_row_frame [simp]:
  "xd_events (erase_row x db) = xd_events db" "xd_suppressions (erase_row x db) = xd_suppressions db"
  "xd_handoffs (erase_row x db) = xd_handoffs db"
  "xd_experiences (erase_row x db) = map (\<lambda>y. if xp_id y = xp_id x then erased_body y else y) (xd_experiences db)"
  by (simp_all add: erase_row_def update_where_def)

lemma transition_frame [simp]:
  "xd_events (transition x action now e db) = xd_events db @ [e]" "xd_suppressions (transition x action now e db) = xd_suppressions db"
  "xd_handoffs (transition x action now e db) = xd_handoffs db"
  "xd_experiences (transition x action now e db) = map (\<lambda>y. if xp_id y = xp_id x then moved action now y else y) (xd_experiences db)"
  by (simp_all add: transition_def update_where_def insert_row_def moved_def)

definition events_of :: "string \<Rightarrow> exp_action \<Rightarrow> experience \<Rightarrow> experience option \<Rightarrow> time \<Rightarrow> exp_event list" where
  "events_of actor action x parent now =
     (case parent of None \<Rightarrow> [] | Some q \<Rightarrow> [review_event q actor A_supersede (Some (xp_id x)) now])
     @ [review_event x actor action (map_option xp_id parent) now]"

lemma review_parent_Some:
  assumes "review_parent x project action db = Inr (Some q)"
  shows "action = A_approve" "xp_supersedes_id x = Some (xp_id q)" "experience_row project (xp_id q) db = Some q"
    "xp_status q = X_active" "xp_supersedes_version x = Some (xp_version q)"
proof -
  obtain j where j: "xp_supersedes_id x = Some j" "action = A_approve" "experience_row project j db = Some q"
      "xp_status q = X_active" "xp_supersedes_version x = Some (xp_version q)"
    using assms unfolding review_parent_def by (auto split: option.splits if_splits)
  have "xp_id q = j" using j(3) fetchrow_SomeD unfolding experience_row_def by fastforce
  with j show "action = A_approve" "xp_supersedes_id x = Some (xp_id q)" "experience_row project (xp_id q) db = Some q"
    "xp_status q = X_active" "xp_supersedes_version x = Some (xp_version q)" by auto
qed

lemma review_parent_other:
  assumes "experience_row project i db = Some x" and "\<not> review_conflict x action expected"
    and "review_parent x project action db = Inr (Some q)"
  shows "xp_id q \<noteq> xp_id x"
proof -
  have "xp_status x = X_pending" using assms(2) review_parent_Some(1) [OF assms(3)] by (auto simp: review_conflict_def)
  then have "q \<noteq> x" using review_parent_Some(4) [OF assms(3)] by auto
  moreover have "xp_id x = i" using assms(1) fetchrow_SomeD unfolding experience_row_def by fastforce
  ultimately show ?thesis using review_parent_Some(3) [OF assms(3)] assms(1) by (metis option.inject)
qed

lemma review_parent_None:
  "review_parent x project A_approve db = Inr None \<Longrightarrow> xp_supersedes_id x = None"
  unfolding review_parent_def by (auto split: option.splits)

lemma apply_review_frame:
  "xd_experiences (fst (apply_review clk actor action x parent db)) =
     map (\<lambda>y. if xp_id y = xp_id x then moved action (clk 1) (if action = A_forget then erased_body y else y) else y) (xd_experiences db)"
  "xd_events (fst (apply_review clk actor action x parent db)) =
     xd_events db @ [review_event x actor action (map_option xp_id parent) (clk 0)]"
  "xd_handoffs (fst (apply_review clk actor action x parent db)) = xd_handoffs db"
  "snd (apply_review clk actor action x parent db) =
     event_receipt (xp_id x) (review_event x actor action (map_option xp_id parent) (clk 0)) False"
  by (simp_all add: apply_review_def Let_def)

lemma replace_parent_frame:
  "xd_experiences (replace_parent clk actor x parent db) =
     map (\<lambda>y. if map_option xp_id parent = Some (xp_id y) then moved A_supersede (clk 1) y else y) (xd_experiences db)"
  "xd_events (replace_parent clk actor x parent db) = xd_events db
     @ (case parent of None \<Rightarrow> [] | Some q \<Rightarrow> [review_event q actor A_supersede (Some (xp_id x)) (clk 0)])"
  "xd_handoffs (replace_parent clk actor x parent db) = xd_handoffs db"
  by (cases parent; force simp: replace_parent_def Let_def)+

lemma reviewE:
  assumes "review clk project i actor action expected db = Inr (db', res)"
  obtains (replay) x e where "db' = db" "experience_row project i db = Some x" "review_receipt i actor action expected db = Some e"
      "res = event_receipt i e True"
    | (applied) x parent where "experience_row project i db = Some x" "review_receipt i actor action expected db = None"
      "\<not> review_conflict x action expected" "review_parent x project action db = Inr parent"
      "action = A_approve \<Longrightarrow> \<not> outside_validity x (clk 1) \<and> \<not> suppressed project (claim_of x) db"
      "xd_experiences db' = map (reviewed_row action x parent (clk 1)) (xd_experiences db)"
      "xd_events db' = xd_events db @ events_of actor action x parent (clk 0)"
      "xd_handoffs db' = xd_handoffs db"
      "db' = fst (apply_review clk actor action x parent (if action = A_approve then replace_parent clk actor x parent db else db))"
      "res = event_receipt i (review_event x actor action (map_option xp_id parent) (clk 0)) False"
proof (cases "experience_row project i db")
  case None
  then show thesis using assms by (simp add: review_def)
next
  case (Some x)
  show thesis
  proof (cases "review_receipt i actor action expected db")
    case (Some e)
    then show thesis using replay assms \<open>experience_row project i db = Some x\<close> by (simp add: review_def)
  next
    case None
    have id: "xp_id x = i" using Some fetchrow_SomeD unfolding experience_row_def by fastforce
    obtain parent db1 where p: "\<not> review_conflict x action expected" "review_parent x project action db = Inr parent"
        "(if action = A_approve then approve clk project actor x parent db else Inr db) = Inr db1"
        "(db', res) = apply_review clk actor action x parent db1"
      using assms Some None by (auto simp: review_def and_then_Inr_iff)
    have ok: "\<not> outside_validity x (clk 1) \<and> \<not> suppressed project (claim_of x) db" if "action = A_approve"
      using p(3) that by (auto simp: approve_def ensure_not_suppressed_def and_then_Inr_iff)
    have db1: "db1 = (if action = A_approve then replace_parent clk actor x parent db else db)"
      using p(3) by (auto simp: approve_def and_then_Inr_iff split: if_splits)
    have parent: "action = A_approve \<and> xp_id q \<noteq> xp_id x" if "parent = Some q" for q
      using review_parent_other [OF \<open>experience_row project i db = Some x\<close> p(1)] review_parent_Some(1) p(2) that by blast
    let ?db = "if action = A_approve then replace_parent clk actor x parent db else db"
    have db': "db' = fst (apply_review clk actor action x parent ?db)"
      using p(4) unfolding db1 by (metis fst_conv)
    have none: "action \<noteq> A_approve \<Longrightarrow> parent = None" using parent by (cases parent) auto
    have exps: "xd_experiences db' = map (reviewed_row action x parent (clk 1)) (xd_experiences db)"
    proof (cases "action = A_approve")
      case True
      then show ?thesis using parent by (cases parent) (auto simp: db' apply_review_frame replace_parent_frame reviewed_row_def)
    next
      case False
      then show ?thesis using none by (simp add: db' apply_review_frame reviewed_row_def)
    qed
    have events: "xd_events db' = xd_events db @ events_of actor action x parent (clk 0)"
    proof (cases "action = A_approve")
      case True
      then show ?thesis by (simp add: db' apply_review_frame replace_parent_frame events_of_def)
    next
      case False
      then show ?thesis using none by (simp add: db' apply_review_frame events_of_def)
    qed
    have hs: "xd_handoffs db' = xd_handoffs db" by (simp add: db' apply_review_frame replace_parent_frame)
    have "res = event_receipt i (review_event x actor action (map_option xp_id parent) (clk 0)) False"
      using p(4) id apply_review_frame(4) by (metis snd_conv)
    then show thesis using applied [OF Some None p(1,2) ok exps events hs db'] by blast
  qed
qed

subsection \<open>The invariant\<close>

definition submission_key :: "experience \<Rightarrow> string \<times> string \<times> string" where
  "submission_key x = (xp_project_id x, xp_created_by x, xp_idempotency_key x)"

definition event_key :: "exp_event \<Rightarrow> uuid \<times> nat" where
  "event_key e = (xe_memory_id e, xe_version e)"

text \<open>A correction belongs to the family of the memory it revises, whose root is no longer a proposal.\<close>

definition lineage_ok :: "experience list \<Rightarrow> bool" where
  "lineage_ok t \<longleftrightarrow> (\<forall>y \<in> set t. case xp_supersedes_id y of
      None \<Rightarrow> xp_revision_root_id y = None
    | Some j \<Rightarrow> xp_revision_root_id y \<noteq> None \<and> (\<exists>q \<in> set t. xp_id q = j \<and> family q = family y))
     \<and> (\<forall>y \<in> set t. \<forall>r. xp_revision_root_id y = Some r \<longrightarrow> (\<exists>x \<in> set t. xp_id x = r \<and> xp_status x \<noteq> X_pending))"

definition one_active :: "experience list \<Rightarrow> bool" where
  "one_active t \<longleftrightarrow> (\<forall>y \<in> set t. \<forall>z \<in> set t. xp_status y = X_active \<longrightarrow> xp_status z = X_active
      \<longrightarrow> family y = family z \<longrightarrow> xp_id y = xp_id z)"

definition exp_ok :: "xdb \<Rightarrow> bool" where
  "exp_ok db \<longleftrightarrow> distinct (map xp_id (xd_experiences db)) \<and> distinct (map submission_key (xd_experiences db))
     \<and> distinct (map event_key (xd_events db))
     \<and> (\<forall>e \<in> set (xd_events db). \<exists>x \<in> set (xd_experiences db). xp_id x = xe_memory_id e \<and> xe_version e \<le> xp_version x)
     \<and> lineage_ok (xd_experiences db) \<and> one_active (xd_experiences db) \<and> (\<forall>x \<in> set (xd_experiences db). body_ok x)"

definition experience_of :: "xdb \<Rightarrow> uuid \<Rightarrow> experience option" where
  "experience_of db i = fetchrow (\<lambda>x. xp_id x = i) (xd_experiences db)"

lemma experience_of_row:
  "exp_ok db \<Longrightarrow> experience_row project i db = Some x \<Longrightarrow> experience_of db i = Some x"
  unfolding experience_row_def experience_of_def exp_ok_def using fetchrow_key [where key = xp_id and q = "\<lambda>x. xp_project_id x = project"] by blast

lemma experience_rowD:
  "experience_row project i db = Some x \<Longrightarrow> x \<in> set (xd_experiences db) \<and> xp_id x = i \<and> xp_project_id x = project"
  unfolding experience_row_def by (blast dest: fetchrow_SomeD)

text \<open>What \<open>moved\<close> and \<open>erased_body\<close> leave of a row.\<close>

lemma moved_fields [simp]:
  "xp_status (moved a now y) = status_after a" "xp_version (moved a now y) = xp_version y + 1"
  "exp_identity (moved a now y) = exp_identity y" "exp_attribution (moved a now y) = exp_attribution y"
  "exp_body (moved a now y) = exp_body y" "family (moved a now y) = family y" "claim_of (moved a now y) = claim_of y"
  "xp_supersedes_id (moved a now y) = xp_supersedes_id y" "xp_revision_root_id (moved a now y) = xp_revision_root_id y"
  "submission_key (moved a now y) = submission_key y" "xp_project_id (moved a now y) = xp_project_id y"
  "xp_source_handoff_id (moved a now y) = xp_source_handoff_id y"
  by (simp_all add: moved_def exp_identity_def exp_attribution_def exp_body_def family_def claim_of_def submission_key_def split: option.split)

lemma erased_body_fields [simp]:
  "xp_status (erased_body y) = X_forgotten" "xp_version (erased_body y) = xp_version y"
  "exp_identity (erased_body y) = exp_identity y" "exp_attribution (erased_body y) = exp_attribution y"
  "exp_body (erased_body y) = (''[forgotten]'', ''[forgotten]'', [], [], [], None)" "family (erased_body y) = family y"
  "claim_of (erased_body y) = claim_of y"
  "xp_supersedes_id (erased_body y) = xp_supersedes_id y" "xp_revision_root_id (erased_body y) = xp_revision_root_id y"
  "submission_key (erased_body y) = submission_key y" "xp_project_id (erased_body y) = xp_project_id y"
  by (simp_all add: erased_body_def exp_identity_def exp_attribution_def exp_body_def family_def claim_of_def submission_key_def split: option.split)

lemma reviewed_row_fields [simp]:
  "family (reviewed_row a x q now y) = family y" "claim_of (reviewed_row a x q now y) = claim_of y"
  "xp_supersedes_id (reviewed_row a x q now y) = xp_supersedes_id y"
  "xp_revision_root_id (reviewed_row a x q now y) = xp_revision_root_id y"
  "submission_key (reviewed_row a x q now y) = submission_key y" "xp_project_id (reviewed_row a x q now y) = xp_project_id y"
  "xp_version y \<le> xp_version (reviewed_row a x q now y)"
  by (simp_all add: reviewed_row_def)

lemma status_after_not_pending [simp]: "status_after a \<noteq> X_pending"
  by (cases a) simp_all

lemma reviewed_row_pending: "xp_status (reviewed_row a x q now y) = X_pending \<Longrightarrow> xp_status y = X_pending"
  by (auto simp: reviewed_row_def split: if_splits)

lemma moved_evolves:
  assumes "xp_status y \<noteq> X_forgotten" and "later_status (xp_status y) (status_after a)" and "a \<noteq> A_forget"
  shows "exp_evolves y (moved a now y)"
  using assms unfolding exp_evolves_def guard_experience_content_def body_ok_def
  by (cases a) auto

lemma forgotten_evolves:
  assumes "xp_status y \<noteq> X_forgotten"
  shows "exp_evolves y (moved A_forget now (erased_body y))"
  using assms unfolding exp_evolves_def guard_experience_content_def body_ok_def by (cases "xp_status y") auto

text \<open>The two rows a review changes, and how.\<close>

lemma reviewed_evolves:
  assumes "exp_ok db" and "experience_row project i db = Some x" and "\<not> review_conflict x action expected"
    and "review_parent x project action db = Inr parent" and "action \<noteq> A_supersede" and "y \<in> set (xd_experiences db)"
  shows "exp_evolves y (reviewed_row action x parent now y)"
proof -
  have unique: "\<And>a b. a \<in> set (xd_experiences db) \<Longrightarrow> b \<in> set (xd_experiences db) \<Longrightarrow> xp_id a = xp_id b \<Longrightarrow> a = b"
    using assms(1) unfolding exp_ok_def by (meson distinct_map inj_onD)
  have x: "x \<in> set (xd_experiences db)" "xp_status x \<noteq> X_forgotten" "\<And>b. status_before action = Some b \<Longrightarrow> xp_status x = b"
    using experience_rowD [OF assms(2)] assms(3) by (auto simp: review_conflict_def)
  show ?thesis
  proof (cases "xp_id y = xp_id x")
    case True
    then have y: "y = x" using unique assms(6) x(1) by blast
    show ?thesis
    proof (cases "action = A_forget")
      case True
      then show ?thesis using y x(2) forgotten_evolves by (simp add: reviewed_row_def)
    next
      case False
      then have "later_status (xp_status x) (status_after action)" using x(3) assms(5) by (cases action) auto
      then show ?thesis using y x(2) False moved_evolves by (simp add: reviewed_row_def)
    qed
  next
    case other: False
    show ?thesis
    proof (cases parent)
      case None
      then show ?thesis using other by (simp add: reviewed_row_def exp_evolves_refl)
    next
      case (Some q)
      have q: "xp_status q = X_active" "q \<in> set (xd_experiences db)"
        using review_parent_Some [of x project action db q] assms(4) Some experience_rowD by blast+
      show ?thesis
      proof (cases "xp_id y = xp_id q")
        case True
        then have "y = q" using unique assms(6) q(2) by blast
        moreover have "exp_evolves q (moved A_supersede now q)" by (rule moved_evolves) (simp_all add: q(1))
        ultimately show ?thesis using Some other by (simp add: reviewed_row_def)
      next
        case False
        then show ?thesis using Some other by (simp add: reviewed_row_def exp_evolves_refl)
      qed
    qed
  qed
qed

text \<open>A new row: a proposal with a fresh identifier.\<close>

definition pending_row :: "experience \<Rightarrow> bool" where
  "pending_row x \<longleftrightarrow> xp_status x = X_pending \<and> xp_version x = 1 \<and> body_ok x"

lemma fresh_proposed: "pending_row (proposed_row i now s parent h)"
  by (simp add: pending_row_def proposed_row_def Let_def body_ok_def)

lemma proposed_row_id [simp]: "xp_id (proposed_row i now s parent h) = i"
  by (simp add: proposed_row_def Let_def)

lemma exp_step_rows:
  assumes "exp_step clk db db'" and "exp_ok db"
  shows "rows_to xp_id exp_evolves pending_row (xd_experiences db) (xd_experiences db')"
  using assms
proof cases
  case (ex_propose i s res)
  from ex_propose(1) show ?thesis
  proof (cases rule: proposeE)
    case existing
    then show ?thesis using rows_to_same [of exp_evolves] exp_evolves_refl by simp
  next
    case (created parent h)
    then show ?thesis using ex_propose(2) fresh_proposed by (auto intro!: rows_to_insert exp_evolves_refl)
  qed
next
  case (ex_review project i actor action expected res)
  from ex_review(1) show ?thesis
  proof (cases rule: reviewE)
    case replay
    then show ?thesis using rows_to_same [of exp_evolves] exp_evolves_refl by simp
  next
    case (applied x parent)
    have "exp_evolves y (reviewed_row action x parent (clk 1) y)" if "y \<in> set (xd_experiences db)" for y
      using reviewed_evolves [OF assms(2) applied(1,3,4) ex_review(2) that] .
    then show ?thesis unfolding applied(6) rows_to_def
      by (intro exI [of _ "reviewed_row action x parent (clk 1)"] exI [of _ "[]"]) simp
  qed
next
  case (ex_release project i actor expected res)
  then have "xd_experiences db' = xd_experiences db" by (auto simp: release_suppression_def split: option.splits if_splits)
  then show ?thesis using rows_to_same [of exp_evolves] exp_evolves_refl by simp
next
  case (ex_handoffs hs)
  then show ?thesis using rows_to_same [of exp_evolves] exp_evolves_refl by simp
qed

lemma proposed_row_fields [simp]:
  "xp_status (proposed_row i now s parent h) = X_pending" "xp_version (proposed_row i now s parent h) = 1"
  "xp_project_id (proposed_row i now s parent h) = sb_project_id s"
  "submission_key (proposed_row i now s parent h) = (sb_project_id s, sb_actor_id s, sb_idempotency_key s)"
  "claim_of (proposed_row i now s parent h) = (hc_payload_digest (h_content h), sb_content_fingerprint s)"
  "xp_supersedes_id (proposed_row i now s parent h) = map_option xp_id parent"
  "xp_revision_root_id (proposed_row i now s parent h) = map_option family parent"
  by (simp_all add: proposed_row_def Let_def submission_key_def claim_of_def family_def [abs_def])

lemma family_proposed: "family (proposed_row i now s (Some q) h) = family q"
  by (subst family_def) simp

lemma proposal_parent_Some:
  assumes "proposal_parent s db = Inr (Some q)"
  shows "q \<in> set (xd_experiences db)" "xp_status q = X_active" "xp_project_id q = sb_project_id s"
  using assms unfolding proposal_parent_def
  by (auto split: option.splits prod.splits dest: experience_rowD)

text \<open>A root is no longer pending where somebody of its family is active or revised.\<close>

lemma family_root:
  assumes "lineage_ok t" and "q \<in> set t" and "xp_status q \<noteq> X_pending"
  shows "\<exists>x \<in> set t. xp_id x = family q \<and> xp_status x \<noteq> X_pending"
proof (cases "xp_revision_root_id q")
  case None
  then show ?thesis using assms(2,3) by (auto simp: family_def)
next
  case (Some r)
  then have "\<exists>x \<in> set t. xp_id x = r \<and> xp_status x \<noteq> X_pending" using assms(1,2) unfolding lineage_ok_def by blast
  then show ?thesis using Some by (simp add: family_def)
qed

lemma lineage_proposed:
  assumes ok: "exp_ok db" and parent: "proposal_parent s db = Inr parent"
  shows "lineage_ok (insert_row (proposed_row i now s parent h) (xd_experiences db))"
proof -
  let ?t = "xd_experiences db" and ?new = "proposed_row i now s parent h"
  have old: "lineage_ok ?t" using ok by (simp add: exp_ok_def)
  have q: "q \<in> set ?t \<and> xp_status q = X_active" if "parent = Some q" for q
    using proposal_parent_Some [of s db q] parent that by auto
  have new: "case xp_supersedes_id ?new of None \<Rightarrow> xp_revision_root_id ?new = None
    | Some j \<Rightarrow> xp_revision_root_id ?new \<noteq> None \<and> (\<exists>q \<in> set ?t. xp_id q = j \<and> family q = family ?new)"
  proof (cases parent)
    case (Some p)
    then show ?thesis using q [OF Some] by (auto simp: family_proposed)
  qed simp
  have root: "\<exists>x \<in> set ?t. xp_id x = r \<and> xp_status x \<noteq> X_pending" if "xp_revision_root_id ?new = Some r" for r
  proof -
    obtain p where p: "parent = Some p" "family p = r" using \<open>xp_revision_root_id ?new = Some r\<close> by auto
    show ?thesis using family_root [OF old, of p] q [OF p(1)] p(2) by auto
  qed
  show ?thesis unfolding lineage_ok_def set_insert_row
  proof (intro conjI ballI allI impI)
    fix y assume y: "y \<in> insert ?new (set ?t)"
    show "case xp_supersedes_id y of None \<Rightarrow> xp_revision_root_id y = None
      | Some j \<Rightarrow> xp_revision_root_id y \<noteq> None \<and> (\<exists>q \<in> insert ?new (set ?t). xp_id q = j \<and> family q = family y)"
    proof (cases "y = ?new")
      case True
      then show ?thesis using new by (cases "xp_supersedes_id ?new") (simp_all only: option.case, blast)
    next
      case False
      then show ?thesis using y old unfolding lineage_ok_def by (fastforce split: option.split)
    qed
    fix r assume "xp_revision_root_id y = Some r"
    then have "\<exists>x \<in> set ?t. xp_id x = r \<and> xp_status x \<noteq> X_pending"
      using y root old unfolding lineage_ok_def by blast
    then show "\<exists>x \<in> insert ?new (set ?t). xp_id x = r \<and> xp_status x \<noteq> X_pending" by blast
  qed
qed

lemma lineage_reviewed:
  assumes "lineage_ok t"
  shows "lineage_ok (map (reviewed_row a x q now) t)"
  unfolding lineage_ok_def
proof (intro conjI ballI allI impI)
  fix y assume "y \<in> set (map (reviewed_row a x q now) t)"
  then obtain z where z: "z \<in> set t" "y = reviewed_row a x q now z" by auto
  have "case xp_supersedes_id z of None \<Rightarrow> xp_revision_root_id z = None
      | Some j \<Rightarrow> xp_revision_root_id z \<noteq> None \<and> (\<exists>q \<in> set t. xp_id q = j \<and> family q = family z)"
    using assms z(1) unfolding lineage_ok_def by blast
  then show "case xp_supersedes_id y of None \<Rightarrow> xp_revision_root_id y = None
    | Some j \<Rightarrow> xp_revision_root_id y \<noteq> None \<and> (\<exists>q' \<in> set (map (reviewed_row a x q now) t). xp_id q' = j \<and> family q' = family y)"
    using z(2) by (cases "xp_supersedes_id z") simp_all
  fix r assume "xp_revision_root_id y = Some r"
  then have "xp_revision_root_id z = Some r" using z(2) by simp
  then obtain w where "w \<in> set t" "xp_id w = r" "xp_status w \<noteq> X_pending" using assms z(1) unfolding lineage_ok_def by blast
  then show "\<exists>w \<in> set (map (reviewed_row a x q now) t). xp_id w = r \<and> xp_status w \<noteq> X_pending"
    by (intro bexI [of _ "reviewed_row a x q now w"]) (auto dest: reviewed_row_pending)
qed

lemma one_active_insert: "one_active t \<Longrightarrow> xp_status r \<noteq> X_active \<Longrightarrow> one_active (insert_row r t)"
  unfolding one_active_def set_insert_row by blast

text \<open>An approval makes its row the one active member of its family.\<close>

lemma approved_alone:
  assumes ok: "exp_ok db" and x: "experience_row project i db = Some x" "\<not> review_conflict x A_approve expected"
    and parent: "review_parent x project A_approve db = Inr parent"
    and z: "z \<in> set (xd_experiences db)" "xp_status z = X_active" "family z = family x" "map_option xp_id parent \<noteq> Some (xp_id z)"
  shows False
proof -
  let ?t = "xd_experiences db"
  have lin: "lineage_ok ?t" and one: "one_active ?t" and ids: "distinct (map xp_id ?t)" using ok by (auto simp: exp_ok_def)
  have xt: "x \<in> set ?t" "xp_status x = X_pending" using experience_rowD [OF x(1)] x(2) by (auto simp: review_conflict_def)
  have lx: "case xp_supersedes_id x of None \<Rightarrow> xp_revision_root_id x = None
      | Some j \<Rightarrow> xp_revision_root_id x \<noteq> None \<and> (\<exists>q \<in> set ?t. xp_id q = j \<and> family q = family x)"
    using lin xt(1) unfolding lineage_ok_def by blast
  show False
  proof (cases parent)
    case None
    then have "xp_supersedes_id x = None" using parent review_parent_None by blast
    then have "family x = xp_id x" using lx by (simp add: family_def)
    moreover obtain w where "w \<in> set ?t" "xp_id w = family z" "xp_status w \<noteq> X_pending"
      using family_root [OF lin z(1)] z(2) by auto
    ultimately show False using update_one [OF ids xt(1), of w] xt(2) z(3) by auto
  next
    case (Some q)
    then have q: "xp_supersedes_id x = Some (xp_id q)" "q \<in> set ?t" "xp_status q = X_active"
      using review_parent_Some [of x project A_approve db q] parent experience_rowD by blast+
    then obtain q' where "q' \<in> set ?t" "xp_id q' = xp_id q" "family q' = family x" using lx by auto
    then have "family q = family x" using update_one [OF ids q(2), of q'] by blast
    then have "xp_id z = xp_id q" using one z(1-3) q(2,3) unfolding one_active_def by metis
    then show False using z(4) Some by simp
  qed
qed

lemma one_active_reviewed:
  assumes ok: "exp_ok db" and x: "experience_row project i db = Some x" "\<not> review_conflict x action expected"
    and parent: "review_parent x project action db = Inr parent"
  shows "one_active (map (reviewed_row action x parent now) (xd_experiences db))"
  unfolding one_active_def
proof (intro ballI impI)
  let ?t = "xd_experiences db" and ?f = "reviewed_row action x parent now"
  have one: "one_active ?t" using ok by (simp add: exp_ok_def)
  have other: "xp_status y = X_active \<and> map_option xp_id parent \<noteq> Some (xp_id y)" if "xp_status (?f y) = X_active" "xp_id y \<noteq> xp_id x" for y
    using that by (auto simp: reviewed_row_def split: if_splits)
  have self: "action = A_approve" if "xp_status (?f y) = X_active" "xp_id y = xp_id x" for y
    using that by (cases action) (auto simp: reviewed_row_def split: if_splits)
  have clash: False if y: "y \<in> set ?t" "xp_status (?f y) = X_active" "xp_id y \<noteq> xp_id x" and z: "xp_status (?f z) = X_active" "xp_id z = xp_id x"
    "family y = family z" "z \<in> set ?t" for y z
  proof -
    have "x \<in> set ?t" "distinct (map xp_id ?t)" using experience_rowD [OF x(1)] ok by (auto simp: exp_ok_def)
    then have "z = x" using update_one [of xp_id ?t x z] z(2,4) by blast
    then show False using approved_alone [OF ok x(1) _ _ y(1)] x(2) parent self [OF z(1,2)] other [OF y(2,3)] z(3) by blast
  qed
  fix y' z' assume a: "y' \<in> set (map ?f ?t)" "z' \<in> set (map ?f ?t)" "xp_status y' = X_active" "xp_status z' = X_active"
    "family y' = family z'"
  then obtain y z where yz: "y \<in> set ?t" "z \<in> set ?t" "y' = ?f y" "z' = ?f z" by auto
  then have fam: "family y = family z" using a(5) by simp
  consider "xp_id y = xp_id x" "xp_id z = xp_id x" | "xp_id y \<noteq> xp_id x" "xp_id z \<noteq> xp_id x"
    | "xp_id y \<noteq> xp_id x" "xp_id z = xp_id x" | "xp_id y = xp_id x" "xp_id z \<noteq> xp_id x" by blast
  then show "xp_id y' = xp_id z'"
  proof cases
    case 1
    then show ?thesis using yz(3,4) by simp
  next
    case 2
    then have "xp_status y = X_active" "xp_status z = X_active" using other a(3,4) yz(3,4) by blast+
    then show ?thesis using one yz fam unfolding one_active_def by (metis reviewed_row_id)
  next
    case 3
    then show ?thesis using clash [of y z] yz a(3,4) fam by blast
  next
    case 4
    then show ?thesis using clash [of z y] yz a(3,4) fam by metis
  qed
qed

text \<open>An event of a row carries a version the row has reached.\<close>

definition events_ok :: "experience list \<Rightarrow> exp_event list \<Rightarrow> bool" where
  "events_ok t es \<longleftrightarrow> distinct (map event_key es)
     \<and> (\<forall>e \<in> set es. \<exists>x \<in> set t. xp_id x = xe_memory_id e \<and> xe_version e \<le> xp_version x)"

lemma exp_ok_iff:
  "exp_ok db \<longleftrightarrow> distinct (map xp_id (xd_experiences db)) \<and> distinct (map submission_key (xd_experiences db))
     \<and> events_ok (xd_experiences db) (xd_events db) \<and> lineage_ok (xd_experiences db) \<and> one_active (xd_experiences db)
     \<and> (\<forall>x \<in> set (xd_experiences db). body_ok x)"
  unfolding exp_ok_def events_ok_def by blast

lemma event_key_review [simp]: "event_key (review_event x actor action related now) = (xp_id x, xp_version x + 1)"
  by (simp add: review_event_def event_key_def)

lemma events_ok_snoc:
  assumes "events_ok t es" and "\<forall>e \<in> set es. xe_memory_id e = xp_id x \<longrightarrow> xe_version e \<le> xp_version x"
    and "\<And>y. y \<in> set t \<Longrightarrow> \<exists>y' \<in> set t'. xp_id y' = xp_id y \<and> xp_version y \<le> xp_version y'"
    and "\<exists>y' \<in> set t'. xp_id y' = xp_id x \<and> xp_version x + 1 \<le> xp_version y'"
  shows "events_ok t' (es @ [review_event x actor action related now])"
proof -
  let ?e = "review_event x actor action related now"
  have "event_key ?e \<notin> event_key ` set es" using assms(2) by (force simp: event_key_def [of "_ :: exp_event"] review_event_def)
  moreover have "\<exists>y \<in> set t'. xp_id y = xe_memory_id e \<and> xe_version e \<le> xp_version y" if "e \<in> set es" for e
  proof -
    obtain y where y: "y \<in> set t" "xp_id y = xe_memory_id e" "xe_version e \<le> xp_version y"
      using assms(1) \<open>e \<in> set es\<close> unfolding events_ok_def by blast
    obtain y' where "y' \<in> set t'" "xp_id y' = xp_id y" "xp_version y \<le> xp_version y'" using assms(3) [OF y(1)] by blast
    then show ?thesis using y by (metis le_trans)
  qed
  moreover have "xe_memory_id ?e = xp_id x" "xe_version ?e = xp_version x + 1" by (simp_all add: review_event_def)
  ultimately show ?thesis using assms(1,4) unfolding events_ok_def by auto
qed

lemma events_reviewed:
  assumes ok: "exp_ok db" and x: "experience_row project i db = Some x"
    and parent: "review_parent x project action db = Inr parent" "\<And>q. parent = Some q \<Longrightarrow> xp_id q \<noteq> xp_id x"
  shows "events_ok (map (reviewed_row action x parent now) (xd_experiences db)) (xd_events db @ events_of actor action x parent now')"
proof -
  let ?t = "xd_experiences db" and ?f = "reviewed_row action x parent now"
  have ids: "distinct (map xp_id ?t)" and es: "events_ok ?t (xd_events db)" using ok by (auto simp: exp_ok_iff)
  have reached: "\<forall>e \<in> set (xd_events db). xe_memory_id e = xp_id y \<longrightarrow> xe_version e \<le> xp_version y" if "y \<in> set ?t" for y
    using es update_one [OF ids that] unfolding events_ok_def by metis
  have grow: "\<exists>y' \<in> set (map ?f ?t). xp_id y' = xp_id y \<and> xp_version y \<le> xp_version y'" if "y \<in> set ?t" for y
    using that by (intro bexI [of _ "?f y"]) simp_all
  have bump: "\<exists>y' \<in> set (map ?f ?t). xp_id y' = xp_id y \<and> xp_version y + 1 \<le> xp_version y'"
    if "y \<in> set ?t" "y = x \<or> parent = Some y" for y
    using that by (intro bexI [of _ "?f y"]) (auto simp: reviewed_row_def)
  have xt: "x \<in> set ?t" using experience_rowD [OF x] by blast
  show ?thesis
  proof (cases parent)
    case None
    then show ?thesis using events_ok_snoc [OF es reached [OF xt] grow bump [OF xt]] by (simp add: events_of_def)
  next
    case (Some q)
    have qt: "q \<in> set ?t" using review_parent_Some(3) [of x project action db q] parent(1) Some experience_rowD by blast
    let ?eq = "review_event q actor A_supersede (Some (xp_id x)) now'"
    have first: "events_ok (map ?f ?t) (xd_events db @ [?eq])"
      by (rule events_ok_snoc [OF es reached [OF qt] grow bump [OF qt]]) (simp_all add: Some)
    have "\<forall>e \<in> set (xd_events db @ [?eq]). xe_memory_id e = xp_id x \<longrightarrow> xe_version e \<le> xp_version x"
      using reached [OF xt] parent(2) [OF Some] by (simp add: review_event_def)
    then have "events_ok (map ?f ?t) ((xd_events db @ [?eq]) @ [review_event x actor action (Some (xp_id q)) now'])"
      by (rule events_ok_snoc [OF first]) (use bump [OF xt] in auto)
    then show ?thesis using Some by (simp add: events_of_def)
  qed
qed

lemma exp_step_ok:
  assumes ok: "exp_ok db" and step: "exp_step clk db db'"
  shows "exp_ok db'"
proof -
  have rows: "rows_to xp_id exp_evolves pending_row (xd_experiences db) (xd_experiences db')" using exp_step_rows [OF step ok] .
  have ids: "distinct (map xp_id (xd_experiences db'))" using rows_to_distinct [OF rows] ok by (simp add: exp_ok_iff)
  have bodies: "\<forall>x \<in> set (xd_experiences db'). body_ok x"
    using rows_to_all [OF rows, of body_ok] ok exp_evolvesD(8) unfolding exp_ok_iff pending_row_def by blast
  have same: ?thesis if "xd_experiences db' = xd_experiences db" "xd_events db' = xd_events db"
    using ok that by (simp add: exp_ok_iff)
  show ?thesis using step
  proof cases
    case (ex_propose i s res)
    from ex_propose(1) show ?thesis
    proof (cases rule: proposeE)
      case existing
      then show ?thesis using ok by simp
    next
      case (created parent h)
      let ?new = "proposed_row i (clk 0) s parent h"
      have exps: "xd_experiences db' = insert_row ?new (xd_experiences db)" "xd_events db' = xd_events db" using created(6) by simp_all
      have "same_submission s y" if "submission_key ?new = submission_key y" for y
        using that by (simp add: submission_key_def [of y] same_submission_def)
      then have "submission_key ?new \<notin> submission_key ` set (xd_experiences db)"
        using created(1) unfolding fetchrow_None_iff by blast
      then have keys: "distinct (map submission_key (xd_experiences db'))" using ok by (simp add: exps exp_ok_iff insert_row_def)
      have "one_active (xd_experiences db')" unfolding exps(1)
        by (rule one_active_insert) (use ok in \<open>simp_all add: exp_ok_iff\<close>)
      moreover have "events_ok (xd_experiences db') (xd_events db')"
        using ok unfolding exp_ok_iff events_ok_def exps set_insert_row by blast
      ultimately show ?thesis using ids keys bodies lineage_proposed [OF ok created(2)] by (simp add: exps(1) exp_ok_iff)
    qed
  next
    case (ex_review project i actor action expected res)
    from ex_review(1) show ?thesis
    proof (cases rule: reviewE)
      case replay
      then show ?thesis using ok by simp
    next
      case (applied x parent)
      have "\<And>q. parent = Some q \<Longrightarrow> xp_id q \<noteq> xp_id x" using review_parent_other applied(1,3,4) by blast
      then have "events_ok (xd_experiences db') (xd_events db')"
        unfolding applied(6,7) by (rule events_reviewed [OF ok applied(1,4)])
      moreover have "distinct (map submission_key (xd_experiences db'))" using ok by (simp add: applied(6) exp_ok_iff comp_def)
      moreover have "lineage_ok (xd_experiences db')" using lineage_reviewed ok by (simp add: applied(6) exp_ok_iff)
      moreover have "one_active (xd_experiences db')" using one_active_reviewed [OF ok applied(1,3,4)] by (simp add: applied(6))
      ultimately show ?thesis using ids bodies by (simp add: exp_ok_iff)
    qed
  next
    case (ex_release project i actor expected res)
    then show ?thesis using same by (auto simp: release_suppression_def split: option.splits if_splits)
  next
    case (ex_handoffs hs)
    then show ?thesis using same by simp
  qed
qed

interpretation xp: row_history exp_step exp_ok experience_of exp_evolves
proof
  show "exp_ok db \<Longrightarrow> exp_step clk db db' \<Longrightarrow> exp_ok db'" for clk db db' by (rule exp_step_ok)
  show "\<exists>r'. experience_of db' k = Some r' \<and> exp_evolves r r'"
    if "exp_ok db" "exp_step clk db db'" "experience_of db k = Some r" for clk db db' k r
    using rows_to_lookup [OF exp_step_rows [OF that(2,1)]] that(3) unfolding experience_of_def by blast
qed (rule exp_evolves_refl, erule (1) exp_evolves_trans)

text \<open>The index \<open>uq_experience_active_family\<close>.\<close>

lemma active_families:
  assumes ok: "exp_ok db"
  shows "distinct (map family (filter (\<lambda>x. xp_status x = X_active) (xd_experiences db)))"
proof -
  let ?t = "xd_experiences db"
  have "inj_on family (set (filter (\<lambda>x. xp_status x = X_active) ?t))"
  proof (rule inj_onI)
    fix y z assume "y \<in> set (filter (\<lambda>x. xp_status x = X_active) ?t)" "z \<in> set (filter (\<lambda>x. xp_status x = X_active) ?t)" "family y = family z"
    then have "xp_id y = xp_id z" "y \<in> set ?t" "z \<in> set ?t" using ok unfolding exp_ok_iff one_active_def by auto
    then show "y = z" using update_one [of xp_id ?t z y] ok by (simp add: exp_ok_iff)
  qed
  moreover have "distinct (filter (\<lambda>x. xp_status x = X_active) ?t)" using ok by (simp add: exp_ok_iff distinct_map)
  ultimately show ?thesis by (simp add: distinct_map)
qed

text \<open>
  C37. A memory keeps its attribution and its text for ever, until it is forgotten: along any
  run every memory is still there, each update of it is one the trigger
  \<open>guard_experience_content\<close> lets pass, its status only moves along the lifecycle and its
  version with it; one that was forgotten never changes again, and one that is no longer
  pending or active never becomes active.
\<close>

theorem experience_lifecycle:
  assumes "run exp_step db ts db'" and "exp_ok db" and "experience_of db i = Some x"
  shows "\<exists>x'. experience_of db' i = Some x' \<and> guard_experience_content x x' \<and> later_status (xp_status x) (xp_status x')
    \<and> (xp_status x' \<noteq> xp_status x \<longrightarrow> xp_version x < xp_version x') \<and> (xp_status x = X_forgotten \<longrightarrow> x' = x)
    \<and> (xp_status x \<notin> {X_pending, X_active} \<longrightarrow> xp_status x' \<noteq> X_active)"
proof -
  obtain x' where x': "experience_of db' i = Some x'" "exp_evolves x x'" using xp.row_run [OF assms] by blast
  have "xp_status x \<notin> {X_pending, X_active} \<Longrightarrow> xp_status x' \<noteq> X_active"
    using exp_evolvesD(4) [OF x'(2)] by (cases "xp_status x") auto
  then show ?thesis using x' unfolding exp_evolves_def by blast
qed

subsection \<open>Suppressed claims\<close>

lemma suppressed_iff:
  "suppressed p c db \<longleftrightarrow> (\<exists>s \<in> set (xd_suppressions db). suppresses p c s \<and> sp_released_at s = None)"
  by (simp add: suppressed_def sql)

lemma suppressed_suppress:
  "suppressed p c (suppress x actor r now later db) \<longleftrightarrow> suppressed p c db \<or> (p = xp_project_id x \<and> c = claim_of x)"
proof -
  let ?same = "suppresses (xp_project_id x) (claim_of x)"
  let ?f = "\<lambda>s. s\<lparr>sp_memory_id := xp_id x, sp_reason := r, sp_updated_by := actor, sp_version := Suc (sp_version s),
      sp_updated_at := later, sp_released_at := None\<rparr>"
  have key: "suppresses p c (?f s) = suppresses p c s" "sp_released_at (?f s) = None" for s by (simp_all add: suppresses_def)
  have only: "p = xp_project_id x \<and> c = claim_of x" if "?same s'" "suppresses p c s'" for s'
    using that by (auto simp: suppresses_def)
  show ?thesis
  proof (cases "exists_row ?same (xd_suppressions db)")
    case True
    then obtain s0 where s0: "s0 \<in> set (xd_suppressions db)" "?same s0" by (auto simp: sql)
    have "suppressed p c (suppress x actor r now later db) \<longleftrightarrow>
        (\<exists>s \<in> set (xd_suppressions db). suppresses p c (if ?same s then ?f s else s) \<and> sp_released_at (if ?same s then ?f s else s) = None)"
    proof -
      have "xd_suppressions (suppress x actor r now later db) = map (\<lambda>s. if ?same s then ?f s else s) (xd_suppressions db)"
        using True by (simp add: suppress_def update_where_def Let_def)
      then show ?thesis by (simp only: suppressed_iff set_map bex_simps)
    qed
    also have "\<dots> \<longleftrightarrow> (\<exists>s \<in> set (xd_suppressions db). suppresses p c s \<and> (?same s \<or> sp_released_at s = None))"
      by (intro bex_cong refl) (simp add: key if_distrib [of "suppresses p c"])
    also have "\<dots> \<longleftrightarrow> suppressed p c db \<or> (p = xp_project_id x \<and> c = claim_of x)"
      unfolding suppressed_iff using only s0 by blast
    finally show ?thesis .
  next
    case False
    then show ?thesis by (auto simp: suppress_def suppressed_iff set_insert_row suppresses_def claim_of_def Let_def)
  qed
qed

lemma suppressed_simps [simp]:
  "suppressed p c (transition x action now e db) = suppressed p c db" "suppressed p c (erase_row x db) = suppressed p c db"
  "suppressed p c (db\<lparr>xd_experiences := es\<rparr>) = suppressed p c db" "suppressed p c (db\<lparr>xd_handoffs := hs\<rparr>) = suppressed p c db"
  by (simp_all add: suppressed_def)

lemma suppressed_apply_review:
  "suppressed p c (fst (apply_review clk actor action x parent db)) \<longleftrightarrow>
     suppressed p c db \<or> (action \<in> {A_reject, A_forget} \<and> p = xp_project_id x \<and> c = claim_of x)"
  by (auto simp: apply_review_def Let_def suppressed_suppress)

lemma suppressed_replace_parent: "suppressed p c db \<Longrightarrow> suppressed p c (replace_parent clk actor x parent db)"
  by (auto simp: replace_parent_def Let_def suppressed_suppress split: option.split)

lemma review_keeps_suppressed:
  assumes "review clk project i actor action expected db = Inr (db', res)" and "suppressed p c db"
  shows "suppressed p c db'"
  using assms(1)
proof (cases rule: reviewE)
  case replay
  then show ?thesis using assms(2) by simp
next
  case (applied x parent)
  then show ?thesis using assms(2) suppressed_replace_parent by (simp add: suppressed_apply_review)
qed

lemma release_other:
  assumes "release_suppression clk project i actor expected db = Inr (db', res)" and "experience_row project i db = Some y"
    and "(project, claim_of y) \<noteq> (p, c)" and "suppressed p c db"
  shows "suppressed p c db'"
proof -
  obtain s where s: "s \<in> set (xd_suppressions db)" "suppresses p c s" "sp_released_at s = None"
    using assms(4) by (auto simp: suppressed_iff)
  then have "\<not> suppresses project (claim_of y) s" using assms(3) by (auto simp: suppresses_def)
  then have "s \<in> set (update_where (suppresses project (claim_of y)) f (xd_suppressions db))" for f
    using s(1) by (force simp: set_update_where)
  moreover have "db' = db \<or> (\<exists>f. db' = db\<lparr>xd_suppressions := update_where (suppresses project (claim_of y)) f (xd_suppressions db)\<rparr>)"
    using assms(1,2) by (auto simp: release_suppression_def split: option.splits if_splits)
  ultimately show ?thesis using s by (auto simp: suppressed_iff)
qed

text \<open>The transactions that do not release the suppression of claim \<open>c\<close> in project \<open>p\<close>.\<close>

inductive unreleased_step :: "string \<Rightarrow> string \<times> string \<Rightarrow> clock \<Rightarrow> xdb \<Rightarrow> xdb \<Rightarrow> bool" for p c where
  un_propose: "propose clk i s db = Inr (db', res) \<Longrightarrow> i \<notin> xp_id ` set (xd_experiences db) \<Longrightarrow> unreleased_step p c clk db db'"
| un_review: "review clk project i actor action expected db = Inr (db', res) \<Longrightarrow> action \<noteq> A_supersede
    \<Longrightarrow> unreleased_step p c clk db db'"
| un_release: "release_suppression clk project i actor expected db = Inr (db', res) \<Longrightarrow> experience_row project i db = Some y
    \<Longrightarrow> (project, claim_of y) \<noteq> (p, c) \<Longrightarrow> unreleased_step p c clk db db'"
| un_handoffs: "unreleased_step p c clk db (db\<lparr>xd_handoffs := hs\<rparr>)"

lemma unreleased_exp_step: "unreleased_step p c clk db db' \<Longrightarrow> exp_step clk db db'"
  by (cases rule: unreleased_step.cases) (auto intro: exp_step.intros)

lemma unreleased_suppressed:
  assumes "unreleased_step p c clk db db'" and "suppressed p c db"
  shows "suppressed p c db'"
  using assms(1)
proof cases
  case (un_propose i s res)
  from this(1) show ?thesis by (cases rule: proposeE) (simp_all add: assms(2))
next
  case (un_review project i actor action expected res)
  then show ?thesis using review_keeps_suppressed assms(2) by blast
next
  case (un_release project i actor expected res y)
  then show ?thesis using release_other assms(2) by blast
next
  case (un_handoffs hs)
  then show ?thesis using assms(2) by simp
qed

definition of_claim :: "string \<Rightarrow> string \<times> string \<Rightarrow> experience \<Rightarrow> bool" where
  "of_claim p c x \<longleftrightarrow> xp_project_id x = p \<and> claim_of x = c"

text \<open>While it is in force, a claim gets no new memory and none of its memories becomes active.\<close>

definition no_comeback :: "string \<Rightarrow> string \<times> string \<Rightarrow> xdb \<Rightarrow> xdb \<Rightarrow> bool" where
  "no_comeback p c db db' \<longleftrightarrow> (\<forall>y' \<in> set (xd_experiences db'). of_claim p c y' \<longrightarrow>
     (\<exists>y \<in> set (xd_experiences db). xp_id y = xp_id y' \<and> of_claim p c y \<and> (xp_status y' = X_active \<longrightarrow> xp_status y = X_active)))"

lemma no_comeback_refl: "xd_experiences db' = xd_experiences db \<Longrightarrow> no_comeback p c db db'"
  unfolding no_comeback_def by auto

lemma no_comeback_trans: "no_comeback p c a b \<Longrightarrow> no_comeback p c b d \<Longrightarrow> no_comeback p c a d"
  unfolding no_comeback_def by metis

lemma step_no_comeback:
  assumes ok: "exp_ok db" and step: "exp_step clk db db'" and held: "suppressed p c db"
  shows "no_comeback p c db db'"
  using step
proof cases
  case (ex_propose i s res)
  from ex_propose(1) show ?thesis
  proof (cases rule: proposeE)
    case existing
    then show ?thesis by (simp add: no_comeback_refl)
  next
    case (created parent h)
    have "\<not> of_claim p c (proposed_row i (clk 0) s parent h)" using created(5) held by (auto simp: of_claim_def)
    then show ?thesis unfolding created(6) no_comeback_def by (auto simp: set_insert_row)
  qed
next
  case (ex_review project i actor action expected res)
  from ex_review(1) show ?thesis
  proof (cases rule: reviewE)
    case replay
    then show ?thesis by (simp add: no_comeback_refl)
  next
    case (applied x parent)
    have x: "x \<in> set (xd_experiences db)" "xp_project_id x = project" using experience_rowD [OF applied(1)] by auto
    have "xp_status (reviewed_row action x parent (clk 1) y) = X_active \<longrightarrow> xp_status y = X_active"
      if y: "y \<in> set (xd_experiences db)" "of_claim p c y" for y
    proof (cases "xp_id y = xp_id x")
      case True
      then have "y = x" using update_one [of xp_id "xd_experiences db" x y] y(1) x(1) ok by (simp add: exp_ok_iff)
      then have "action \<noteq> A_approve" using applied(5) held y(2) x(2) by (auto simp: of_claim_def)
      then show ?thesis using True by (cases action) (auto simp: reviewed_row_def)
    next
      case False
      then show ?thesis by (auto simp: reviewed_row_def)
    qed
    then show ?thesis unfolding applied(6) no_comeback_def by (auto simp: of_claim_def)
  qed
next
  case (ex_release project i actor expected res)
  then have "xd_experiences db' = xd_experiences db" by (auto simp: release_suppression_def split: option.splits if_splits)
  then show ?thesis by (rule no_comeback_refl)
next
  case (ex_handoffs hs)
  then show ?thesis by (simp add: no_comeback_refl)
qed

text \<open>
  C38. What an administrator rejects or forgets does not come back by itself: from that
  review on, and as long as nobody releases the suppression of its claim, the claim stays
  suppressed, no memory with the claim is added to the project under whatever identity,
  none becomes active, and a proposal of it is refused.
\<close>

theorem experience_rejected_stays_out:
  assumes "exp_ok db0" and "review clk p i actor action expected db0 = Inr (db, res)" and "action \<in> {A_reject, A_forget}"
    and "experience_row p i db0 = Some x" and "py_get res ''already_applied'' = PBool False"
    and "run (unreleased_step p (claim_of x)) db ts db'"
  shows "suppressed p (claim_of x) db' \<and> no_comeback p (claim_of x) db db'
    \<and> (\<forall>clk' j s h. sb_project_id s = p \<and> proposal_parent s db' = Inr None \<and> proposal_source s None db' = Some h
         \<and> (hc_payload_digest (h_content h), sb_content_fingerprint s) = claim_of x
         \<and> fetchrow (same_submission s) (xd_experiences db') = None \<longrightarrow> \<not> is_ok (propose clk' j s db'))"
proof -
  let ?c = "claim_of x"
  have ok: "exp_ok db" using exp_step_ok [OF assms(1) ex_review [OF assms(2)]] assms(3) by auto
  have held: "suppressed p ?c db" using assms(2)
  proof (cases rule: reviewE)
    case replay
    then show ?thesis using assms(5) by (simp add: event_receipt_def py_get_def)
  next
    case (applied x1 parent)
    then have "x1 = x" using assms(4) by simp
    moreover have "xp_project_id x = p" using experience_rowD [OF assms(4)] by simp
    ultimately show ?thesis using applied(9) assms(3) by (simp add: suppressed_apply_review)
  qed
  have "suppressed p ?c db' \<and> no_comeback p ?c db db'" using assms(6) held ok
  proof (induction rule: run.induct)
    case (run_nil db)
    then show ?case by (simp add: no_comeback_refl)
  next
    case (run_cons clk db db1 ts db')
    have step: "exp_step clk db db1" using unreleased_exp_step run_cons.hyps(1) by blast
    have "suppressed p ?c db1" "exp_ok db1"
      using unreleased_suppressed [OF run_cons.hyps(1)] exp_step_ok [OF _ step] run_cons.prems by blast+
    then have "suppressed p ?c db' \<and> no_comeback p ?c db1 db'" using run_cons.IH by blast
    then show ?case using no_comeback_trans step_no_comeback [OF _ step] run_cons.prems by blast
  qed
  moreover from this have "\<not> is_ok (propose clk' j s db')"
    if "sb_project_id s = p" "proposal_parent s db' = Inr None" "proposal_source s None db' = Some h"
      "(hc_payload_digest (h_content h), sb_content_fingerprint s) = ?c" "fetchrow (same_submission s) (xd_experiences db') = None"
    for clk' j s h
    using that by (auto simp: is_ok_iff elim!: proposeE)
  ultimately show ?thesis by blast
qed

subsection \<open>Witnesses\<close>

definition demo_source :: handoff where
  "demo_source = new_handoff 1 \<lparr>hc_project_id = ''p'', hc_unit_id = ''u'', hc_phase_attempt_id = ''a'', hc_phase_id = ''ph'',
     hc_from_user = ''bob'', hc_result_status = ''done'', hc_classification = C_internal, hc_task_summary = None,
     hc_passed_checks = PNone, hc_artifacts_produced = PNone, hc_handoff_note = None, hc_task_envelope = PNone,
     hc_result_envelope = PNone, hc_context_digest = ''c'', hc_raw_output = None, hc_lock_snapshot_digest = ''l'',
     hc_envelope_digest = ''e'', hc_payload_digest = ''d'', hc_handoff_version = 1, hc_recipient_user_id = None,
     hc_continuation = None, hc_continuation_digest = None, hc_compatibility_digest = None\<rparr> 0 (hours 1)"

definition demo_submission :: submission where
  "demo_submission = \<lparr>sb_project_id = ''p'', sb_actor_id = ''bob'', sb_source_handoff_id = Some 1, sb_idempotency_key = ''k'',
     sb_kind = ''fact'', sb_title = ''t'', sb_content = ''c'', sb_tags = [], sb_search_text = ''t c'', sb_submission_digest = ''s'',
     sb_content_fingerprint = ''f'', sb_expires_at = None, sb_valid_from = None, sb_parent = None\<rparr>"

definition demo_empty :: xdb where
  "demo_empty = \<lparr>xd_experiences = [], xd_events = [], xd_suppressions = [], xd_handoffs = [demo_source]\<rparr>"

definition demo_memory :: experience where
  "demo_memory = proposed_row 7 0 demo_submission None demo_source"

definition demo_proposed :: xdb where
  "demo_proposed = demo_empty\<lparr>xd_experiences := [demo_memory]\<rparr>"

lemma demo_memory_fields [simp]:
  "xp_id demo_memory = 7" "xp_project_id demo_memory = ''p''" "xp_status demo_memory = X_pending" "xp_version demo_memory = 1"
  "xp_supersedes_id demo_memory = None" "claim_of demo_memory = (''d'', ''f'')" "submission_key demo_memory = (''p'', ''bob'', ''k'')"
  "xp_revision_root_id demo_memory = None" "body_ok demo_memory"
  by (simp_all add: demo_memory_def demo_submission_def demo_source_def new_handoff_def proposed_row_def Let_def claim_of_def
      submission_key_def body_ok_def)

lemma demo_propose: "propose (\<lambda>_. 0) 7 demo_submission demo_empty = Inr (demo_proposed, proposal_answer 7 False)"
  by (simp add: propose_def demo_empty_def demo_submission_def proposal_parent_def proposal_source_def demo_source_def new_handoff_def
      invalid_interval_def ensure_not_suppressed_def checked_def suppressed_def exists_row_def demo_proposed_def demo_memory_def insert_row_def)

lemma demo_run: "run exp_step demo_empty [\<lambda>_. 0] demo_proposed"
  using ex_propose [OF demo_propose] by (auto simp: demo_empty_def)

lemma demo_proposed_ok: "exp_ok demo_proposed"
  by (simp add: exp_ok_iff demo_proposed_def demo_empty_def events_ok_def lineage_ok_def one_active_def)

lemma demo_memory_row:
  "experience_row ''p'' 7 demo_proposed = Some demo_memory" "experience_of demo_proposed 7 = Some demo_memory"
  by (simp_all add: experience_row_def experience_of_def demo_proposed_def)

definition demo_out :: xdb where
  "demo_out = fst (apply_review (\<lambda>_. 5) ''root'' A_reject demo_memory None demo_proposed)"

lemma demo_rejected:
  "review (\<lambda>_. 5) ''p'' 7 ''root'' A_reject 1 demo_proposed
     = Inr (demo_out, event_receipt 7 (review_event demo_memory ''root'' A_reject None 5) False)"
proof -
  have "review_receipt 7 ''root'' A_reject 1 demo_proposed = None"
    by (simp add: review_receipt_def demo_proposed_def demo_empty_def)
  moreover have "\<not> review_conflict demo_memory A_reject 1" by (simp add: review_conflict_def)
  ultimately show ?thesis
    by (simp add: review_def demo_memory_row review_parent_def checked_def apply_review_def Let_def demo_out_def)
qed

theorem experience_lifecycle_witness:
  "\<exists>x'. experience_of demo_out 7 = Some x' \<and> guard_experience_content demo_memory x' \<and> xp_status demo_memory = X_pending"
proof -
  have "run exp_step demo_proposed [\<lambda>_. 5] demo_out" using demo_rejected by (auto intro: ex_review)
  from experience_lifecycle [OF this demo_proposed_ok demo_memory_row(2)] show ?thesis by auto
qed

definition demo_again :: submission where
  "demo_again = demo_submission\<lparr>sb_idempotency_key := ''again''\<rparr>"

theorem experience_rejected_stays_out_witness:
  "suppressed ''p'' (''d'', ''f'') demo_out \<and> \<not> is_ok (propose (\<lambda>_. 9) 8 demo_again demo_out)"
proof -
  have "py_get (event_receipt 7 (review_event demo_memory ''root'' A_reject None 5) False) ''already_applied'' = PBool False"
    by (simp add: event_receipt_def py_get_def)
  note stays = experience_rejected_stays_out [OF demo_proposed_ok demo_rejected _ demo_memory_row(1) this run_nil]
  have new: "sb_project_id demo_again = ''p''" "proposal_parent demo_again demo_out = Inr None"
    "proposal_source demo_again None demo_out = Some demo_source"
    "(hc_payload_digest (h_content demo_source), sb_content_fingerprint demo_again) = claim_of demo_memory"
    by (simp_all add: demo_again_def demo_submission_def proposal_parent_def proposal_source_def demo_out_def apply_review_frame
        demo_proposed_def demo_empty_def demo_source_def new_handoff_def)
  have "submission_key x = (''p'', ''bob'', ''k'')" if "x \<in> set (xd_experiences demo_out)" for x
    using that by (simp add: demo_out_def apply_review_frame demo_proposed_def)
  then have "fetchrow (same_submission demo_again) (xd_experiences demo_out) = None"
    by (auto simp: fetchrow_None_iff same_submission_def submission_key_def demo_again_def)
  with stays new show ?thesis by auto
qed

end
