(* ===== verification/Experience.thy ===== *)
theory Experience
  imports Experience_Store Pagination Auth
begin

text \<open>
  The experience service (experience/service.py): normalization and identity of a proposal,
  review and release on validated arguments, and the reads of experience/repository.py with
  the citations of retrieval/citations.py. The Unicode tables of Python are a parameter:
  \<open>nfc\<close> is \<open>unicodedata.normalize("NFC", _)\<close>, \<open>nfkc\<close> the form "NFKC", \<open>folded\<close> the full case fold.
\<close>

record unicode =
  nfc :: "string \<Rightarrow> string"
  nfkc :: "string \<Rightarrow> string"
  folded :: "string \<Rightarrow> string"

subsection \<open>Submissions\<close>

definition too_long :: mem_error where
  "too_long = (memory_tool_error ''Normalized experience text exceeds its field limit'' ''MEM-EXPERIENCE-0005'' [] 400)
     \<lparr>err_rpc := -32602\<rparr>"

definition normalize_text :: "unicode \<Rightarrow> nat \<Rightarrow> string \<Rightarrow> string outcome" where
  "normalize_text U limit s = (let n = py_strip (nfc U s) in checked [(limit < length n, too_long)] n)"

definition search_fold :: "unicode \<Rightarrow> string \<Rightarrow> string" where
  "search_fold U s = folded U (nfkc U s)"

text \<open>\<open>datetime.fromisoformat(value.upper().replace("Z", "+00:00")).astimezone(UTC)\<close>; the schema has accepted the text.\<close>

definition ascii_upper :: "string \<Rightarrow> string" where
  "ascii_upper s = map (\<lambda>c. let n = of_char c :: nat in if 97 \<le> n \<and> n \<le> 122 then char_of (n - 32) else c) s"

definition utc_time :: "platform \<Rightarrow> string \<Rightarrow> time outcome" where
  "utc_time P s =
     (case fromisoformat P (concat (map (\<lambda>c. if c = CHR ''Z'' then ''+00:00'' else [c]) (ascii_upper s))) of
        Some (Aware t) \<Rightarrow> Inr t | Some (Naive t) \<Rightarrow> Inr t | None \<Rightarrow> Inl (unhandled ''ValueError''))"

definition opt_utc :: "platform \<Rightarrow> dict \<Rightarrow> string \<Rightarrow> time option outcome" where
  "opt_utc P a k = (if has_key a k then and_then (utc_time P (arg_str a k)) (\<lambda>t. Inr (Some t)) else Inr None)"

definition arg_uuid :: "dict \<Rightarrow> string \<Rightarrow> uuid" where
  "arg_uuid a k = uuid_of (arg_str a k)"

record exp_material =
  em_source :: "uuid option"
  em_kind :: string
  em_title :: string
  em_content :: string
  em_tags :: "string list"
  em_expires_at :: "time option"
  em_valid_from :: "time option"
  em_parent :: "(uuid \<times> int) option"

definition exp_material_of :: "unicode \<Rightarrow> platform \<Rightarrow> dict \<Rightarrow> bool \<Rightarrow> exp_material outcome" where
  "exp_material_of U P a correction =
     and_then (normalize_text U 200 (arg_str a ''title'')) (\<lambda>title.
     and_then (normalize_text U 4096 (arg_str a ''content'')) (\<lambda>content.
     and_then (collect (normalize_text U 64) (arg_strs a ''tags'')) (\<lambda>tags.
     and_then (opt_utc P a ''expires_at'') (\<lambda>expires.
     and_then (opt_utc P a ''valid_from'') (\<lambda>valid.
       Inr \<lparr>em_source = (if has_key a ''source_handoff_id'' then Some (arg_uuid a ''source_handoff_id'') else None),
            em_kind = arg_str a ''kind'', em_title = title, em_content = content, em_tags = sort (remdups tags),
            em_expires_at = expires, em_valid_from = valid,
            em_parent = (if correction then Some (arg_uuid a ''memory_id'', arg_int a ''expected_version'') else None)\<rparr>)))))"

definition opt_iso :: "time option \<Rightarrow> pyval" where
  "opt_iso t = (case t of None \<Rightarrow> PNone | Some u \<Rightarrow> PStr (isoformat u))"

definition material_dict :: "exp_material \<Rightarrow> dict" where
  "material_dict m =
     [(''source_handoff_id'', (case em_source m of None \<Rightarrow> PNone | Some i \<Rightarrow> PStr (uuid_str i))), (''kind'', PStr (em_kind m)),
      (''title'', PStr (em_title m)), (''content'', PStr (em_content m)), (''tags'', strs (em_tags m)),
      (''expires_at'', opt_iso (em_expires_at m))]
     @ opt_entry ''valid_from'' (\<lambda>t. PStr (isoformat t)) (em_valid_from m)
     @ (case em_parent m of None \<Rightarrow> []
        | Some (i, v) \<Rightarrow> [(''memory_id'', PStr (uuid_str i)), (''expected_version'', PInt v)])"

definition fingerprint_of :: "unicode \<Rightarrow> platform \<Rightarrow> string \<Rightarrow> string \<Rightarrow> string" where
  "fingerprint_of U P kind content =
     ''sha256:'' @ sha256 P (utf8 (kind @ [char_of (10 :: nat)] @ join '' '' (py_words (search_fold U content))))"

definition submit :: "unicode \<Rightarrow> platform \<Rightarrow> clock \<Rightarrow> uuid \<Rightarrow> string \<Rightarrow> dict \<Rightarrow> bool \<Rightarrow> xdb \<Rightarrow> (xdb \<times> dict) outcome" where
  "submit U P clk i actor a correction db =
     and_then (exp_material_of U P a correction) (\<lambda>m.
       propose clk i
         \<lparr>sb_project_id = arg_str a ''project_id'', sb_actor_id = actor, sb_source_handoff_id = em_source m,
          sb_idempotency_key = arg_str a ''idempotency_key'', sb_kind = em_kind m, sb_title = em_title m,
          sb_content = em_content m, sb_tags = em_tags m,
          sb_search_text = search_fold U (join '' '' (em_title m # em_content m # em_tags m)),
          sb_submission_digest = digest P (PDict (material_dict m)),
          sb_content_fingerprint = fingerprint_of U P (em_kind m) (em_content m),
          sb_expires_at = em_expires_at m, sb_valid_from = em_valid_from m, sb_parent = em_parent m\<rparr> db)"

definition propose_experience where
  "propose_experience U P clk i actor a db = submit U P clk i actor a False db"

definition revise_experience where
  "revise_experience U P clk i actor a db = submit U P clk i actor a True db"

subsection \<open>Review\<close>

definition action_of :: "string \<Rightarrow> exp_action" where
  "action_of s = (if s = ''approve'' then A_approve else if s = ''reject'' then A_reject
     else if s = ''archive'' then A_archive else A_forget)"

fun action_str :: "exp_action \<Rightarrow> string" where
  "action_str A_approve = ''approve''"
| "action_str A_reject = ''reject''"
| "action_str A_archive = ''archive''"
| "action_str A_forget = ''forget''"
| "action_str A_supersede = ''supersede''"

definition review_experience :: "clock \<Rightarrow> string \<Rightarrow> dict \<Rightarrow> xdb \<Rightarrow> (xdb \<times> dict) outcome" where
  "review_experience clk actor a db =
     review clk (arg_str a ''project_id'') (arg_uuid a ''memory_id'') actor (action_of (arg_str a ''action''))
       (arg_int a ''expected_version'') db"

definition release_experience :: "clock \<Rightarrow> string \<Rightarrow> dict \<Rightarrow> xdb \<Rightarrow> (xdb \<times> dict) outcome" where
  "release_experience clk actor a db =
     release_suppression clk (arg_str a ''project_id'') (arg_uuid a ''memory_id'') actor
       (arg_int a ''expected_suppression_version'') db"

subsection \<open>Citations\<close>

definition text_digest :: "platform \<Rightarrow> string \<Rightarrow> string" where
  "text_digest P s = ''sha256:'' @ sha256 P (utf8 s)"

definition excerpt :: "experience \<Rightarrow> string" where
  "excerpt x = take 512 (xp_content x)"

definition citation_base :: "platform \<Rightarrow> experience \<Rightarrow> dict" where
  "citation_base P x =
     [(''schema_version'', PInt 1),
      (''content_digest'', PStr (digest P (PDict [(''kind'', PStr (xp_kind x)), (''title'', PStr (xp_title x)),
         (''content'', PStr (xp_content x)), (''tags'', strs (xp_tags x))]))),
      (''excerpt_digest'', PStr (text_digest P (excerpt x)))]"

definition opt_uuid :: "uuid option \<Rightarrow> pyval" where
  "opt_uuid i = (case i of None \<Rightarrow> PNone | Some j \<Rightarrow> PStr (uuid_str j))"

definition binding_fields :: "experience \<Rightarrow> dict" where
  "binding_fields x =
     [(''project_id'', PStr (xp_project_id x)), (''memory_id'', PStr (uuid_str (xp_id x))), (''version'', PInt (int (xp_version x))),
      (''classification'', PStr (class_str (xp_classification x))), (''kind'', PStr (xp_kind x)), (''title'', PStr (xp_title x)),
      (''source_handoff_id'', opt_uuid (xp_source_handoff_id x)), (''source_lock_digest'', PStr (xp_source_lock_digest x)),
      (''source_payload_digest'', PStr (xp_source_payload_digest x))]"

definition binding_digest :: "platform \<Rightarrow> experience \<Rightarrow> string" where
  "binding_digest P x = digest P (PDict (binding_fields x @ citation_base P x))"

definition citation :: "platform \<Rightarrow> experience \<Rightarrow> dict" where
  "citation P x = citation_base P x @ [(''binding_digest'', PStr (binding_digest P x))]"

subsection \<open>Reads\<close>

text \<open>The public columns of a row, as \<open>_serialize\<close> renders them.\<close>

definition public_columns :: "experience \<Rightarrow> dict" where
  "public_columns x =
     [(''memory_id'', PStr (uuid_str (xp_id x))), (''project_id'', PStr (xp_project_id x)),
      (''source_handoff_id'', opt_uuid (xp_source_handoff_id x)), (''source'', PDict (xp_source x)),
      (''source_lock_digest'', PStr (xp_source_lock_digest x)), (''classification'', PStr (class_str (xp_classification x))),
      (''kind'', PStr (xp_kind x)), (''title'', PStr (xp_title x)), (''content'', PStr (xp_content x)), (''tags'', strs (xp_tags x)),
      (''status'', PStr (status_str (xp_status x))), (''version'', PInt (int (xp_version x))), (''created_by'', PStr (xp_created_by x)),
      (''expires_at'', opt_iso (xp_expires_at x)), (''created_at'', PStr (isoformat (xp_created_at x))),
      (''updated_at'', PStr (isoformat (xp_updated_at x))), (''source_payload_digest'', PStr (xp_source_payload_digest x)),
      (''valid_from'', opt_iso (xp_valid_from x)), (''supersedes_id'', opt_uuid (xp_supersedes_id x)),
      (''supersedes_version'', (case xp_supersedes_version x of None \<Rightarrow> PNone | Some n \<Rightarrow> PInt (int n))),
      (''revision_root_id'', opt_uuid (xp_revision_root_id x)), (''revision_number'', PInt (int (xp_revision_number x))),
      (''is_correction'', PBool (xp_is_correction x))]"

definition in_validity :: "time \<Rightarrow> experience \<Rightarrow> bool" where
  "in_validity now x \<longleftrightarrow> (case xp_valid_from x of None \<Rightarrow> True | Some v \<Rightarrow> v \<le> now)
     \<and> (case xp_expires_at x of None \<Rightarrow> True | Some e \<Rightarrow> now < e)"

definition readable :: "dict \<Rightarrow> time \<Rightarrow> experience \<Rightarrow> bool" where
  "readable a now x \<longleftrightarrow> xp_project_id x = arg_str a ''project_id'' \<and> xp_status x = X_active \<and> in_validity now x
     \<and> xp_classification x \<in> set (levels_upto (class_of (str_of (get_or a ''max_classification'' (PStr ''internal'')))))
     \<and> (case arg_opt_str a ''source_lock_digest'' of None \<Rightarrow> True | Some d \<Rightarrow> xp_source_lock_digest x = d)"

definition read_experience :: "platform \<Rightarrow> time \<Rightarrow> dict \<Rightarrow> xdb \<Rightarrow> dict outcome" where
  "read_experience P now a db =
     (case fetchrow (\<lambda>x. xp_id x = arg_uuid a ''memory_id'' \<and> readable a now x) (xd_experiences db) of
        None \<Rightarrow> Inl exp_missing
      | Some x \<Rightarrow> Inr [(''memory'', PDict (public_columns x @ [(''citation'', PDict (citation P x))])),
                       (''usage'', PStr ''reference_only'')])"

definition exp_key :: "experience \<Rightarrow> time \<times> uuid" where
  "exp_key x = (xp_created_at x, xp_id x)"

text \<open>The scope of a cursor of the review queue; an absent part is the empty text.\<close>

definition queue_scope :: "dict \<Rightarrow> string option \<Rightarrow> string list" where
  "queue_scope a actor =
     [''queue-v2'', arg_str a ''project_id'', (case actor of None \<Rightarrow> [] | Some u \<Rightarrow> u), str_of (get_or a ''status'' (PStr ''pending'')),
      str_of (get_or a ''max_classification'' (PStr ''restricted'')),
      (if truthy (get_or a ''metadata_only'' (PBool False)) then ''True'' else ''False''), arg_str a ''memory_id'']"

definition in_queue :: "dict \<Rightarrow> experience \<Rightarrow> bool" where
  "in_queue a x \<longleftrightarrow> xp_project_id x = arg_str a ''project_id''
     \<and> status_str (xp_status x) = str_of (get_or a ''status'' (PStr ''pending''))
     \<and> xp_classification x \<in> set (levels_upto (class_of (str_of (get_or a ''max_classification'' (PStr ''restricted'')))))
     \<and> (case arg_opt_str a ''memory_id'' of None \<Rightarrow> True | Some m \<Rightarrow> xp_id x = uuid_of m)"

definition queue_item :: "dict \<Rightarrow> time \<Rightarrow> experience \<Rightarrow> dict" where
  "queue_item a now x =
     (if truthy (get_or a ''metadata_only'' (PBool False))
      then filter (\<lambda>e. fst e \<notin> {''source'', ''content'', ''tags''}) (public_columns x) else public_columns x)
     @ [(''expired'', PBool (upto (xp_expires_at x) now))]"

definition next_offset :: "dict \<Rightarrow> cursor option \<Rightarrow> bool \<Rightarrow> int option" where
  "next_offset a c has_more =
     (let n = int_of (get_or a ''offset'' (PInt 0)) + int (page_limit a)
      in if c = None \<and> has_more \<and> n \<le> 10000 then Some n else None)"

definition list_for_review ::
    "time \<Rightarrow> string option \<Rightarrow> dict \<Rightarrow> cursor option \<Rightarrow> xdb \<Rightarrow> (dict page \<times> int option) outcome" where
  \<comment> \<open>the page and the next offset; the echo of project, actor and observation time is left out\<close>
  "list_for_review now actor a c db =
     and_then (decode_cursor c (queue_scope a actor)) (\<lambda>pos.
       let rows = take (page_limit a + 1) (drop (nat (int_of (get_or a ''offset'' (PInt 0))))
             (newest_first exp_key (filter (\<lambda>x. in_queue a x \<and> before_position exp_key pos x) (xd_experiences db))));
           pg = page exp_key rows (page_limit a) (queue_scope a actor)
       in Inr (map_page (queue_item a now) pg, next_offset a c (pg_has_more pg)))"

definition event_dict :: "exp_event \<Rightarrow> dict" where
  "event_dict e =
     [(''memory_id'', PStr (uuid_str (xe_memory_id e))), (''version'', PInt (int (xe_version e))),
      (''actor_id'', PStr (xe_actor_id e)), (''action'', PStr (action_str (xe_action e))),
      (''previous_status'', PStr (status_str (xe_previous_status e))),
      (''applied_status'', PStr (status_str (xe_applied_status e))),
      (''related_memory_id'', opt_uuid (xe_related_memory_id e)), (''created_at'', PStr (isoformat (xe_created_at e)))]"

definition suppression_dict :: "suppression \<Rightarrow> dict" where
  "suppression_dict s =
     [(''memory_id'', PStr (uuid_str (sp_memory_id s))), (''reason'', PStr (status_str (sp_reason s))),
      (''version'', PInt (int (sp_version s))), (''updated_by'', PStr (sp_updated_by s)),
      (''updated_at'', PStr (isoformat (sp_updated_at s))), (''released_at'', opt_iso (sp_released_at s))]"

definition history_item :: "xdb \<Rightarrow> experience \<Rightarrow> dict" where
  "history_item db x = public_columns x
     @ [(''events'', PList (map (\<lambda>e. PDict (event_dict e)) (sort_key xe_version (filter (\<lambda>e. xe_memory_id e = xp_id x) (xd_events db)))))]"

definition history ::
    "dict \<Rightarrow> cursor option \<Rightarrow> xdb \<Rightarrow> (dict page \<times> dict) outcome" where
  "history a c db =
     (case experience_row (arg_str a ''project_id'') (arg_uuid a ''memory_id'') db of
        None \<Rightarrow> Inl exp_missing
      | Some x \<Rightarrow>
          let scope = [''history'', arg_str a ''project_id'', uuid_str (family x)]
          in and_then (decode_cursor c scope) (\<lambda>pos.
               let rows = keyset_rows exp_key pos (page_limit a)
                     (filter (\<lambda>y. xp_project_id y = arg_str a ''project_id'' \<and> family y = family x) (xd_experiences db))
               in Inr (map_page (history_item db) (page exp_key rows (page_limit a) scope),
                    [(''memory_id'', PStr (uuid_str (xp_id x))), (''revision_root_id'', PStr (uuid_str (family x))),
                     (''suppression'', (case fetchrow (suppresses (arg_str a ''project_id'') (claim_of x)) (xd_suppressions db) of
                        None \<Rightarrow> PNone | Some s \<Rightarrow> PDict (suppression_dict s)))])))"

end
