(* ===== verification/Generation.thy ===== *)
theory Generation
  imports Experience
begin

text \<open>
  Background generation (generation/queue.py, generation/summaries.py, the constants of
  generation/contracts.py): the durable queue of extraction, summary and skill jobs with its
  leases, retries and redrive, and the reference manifests of summaries. \<open>clk n\<close> is the n-th
  sample of the database clock in a transaction, \<open>clk 0\<close> its start.
\<close>

subsection \<open>Tables\<close>

datatype job_kind = G_extract | G_summary | G_skill

datatype job_status = J_queued | J_running | J_succeeded | J_dead

record gen_job =
  gj_id :: uuid
  gj_project_id :: string
  gj_kind :: job_kind
  gj_source_key :: string
  gj_source_watermark :: string
  gj_recipe :: string
  gj_provider :: string
  gj_model_version :: string
  gj_prompt_version :: string
  gj_parameters :: dict
  gj_enqueued_by :: string
  gj_status :: job_status
  gj_version :: nat
  gj_attempts :: nat
  gj_max_attempts :: nat
  gj_lease_token :: "uuid option"
  gj_lease_until :: "time option"
  gj_available_at :: time
  gj_error_code :: "string option"
  gj_outcome :: "dict option"
  gj_redrive_version :: "nat option"
  gj_redrive_actor :: "string option"
  gj_created_at :: time
  gj_updated_at :: time

record gen_attempt =
  ga_job_id :: uuid
  ga_attempt :: nat
  ga_started_at :: time
  ga_finished_at :: "time option"
  ga_outcome_code :: "string option"
  ga_input_chars :: int
  ga_output_chars :: int

record summary_snapshot =
  ss_job_id :: uuid
  ss_project_id :: string
  ss_source_watermark :: string
  ss_scope :: dict
  ss_source_count :: nat
  ss_dependencies :: pyval
  ss_created_at :: time

text \<open>\<open>gd_store\<close> holds the experiences and the handoffs the jobs read.\<close>

record gdb =
  gd_jobs :: "gen_job list"
  gd_attempts :: "gen_attempt list"
  gd_snapshots :: "summary_snapshot list"
  gd_store :: xdb

fun job_status_str :: "job_status \<Rightarrow> string" where
  "job_status_str J_queued = ''queued''"
| "job_status_str J_running = ''running''"
| "job_status_str J_succeeded = ''succeeded''"
| "job_status_str J_dead = ''dead''"

definition PROVIDER :: string where "PROVIDER = ''local_structured''"
definition MODEL_VERSION :: string where "MODEL_VERSION = ''extractive-v1''"
definition PROMPT_VERSION :: string where "PROMPT_VERSION = ''result-summary-v1''"
definition RECIPE :: string where "RECIPE = PROVIDER @ ''/'' @ MODEL_VERSION @ ''/'' @ PROMPT_VERSION"
definition SUMMARY_RECIPE :: string where "SUMMARY_RECIPE = ''local_structured/approved-references-v1/no-prompt''"

definition source_watermark :: "platform \<Rightarrow> handoff \<Rightarrow> string" where
  "source_watermark P h =
     (let c = h_content h
      in digest P (PDict [(''id'', PStr (uuid_str (h_id h))), (''payload_digest'', PStr (hc_payload_digest c)),
           (''envelope_digest'', PStr (hc_envelope_digest c)), (''classification'', PStr (class_str (hc_classification c))),
           (''lock_snapshot_digest'', PStr (hc_lock_snapshot_digest c)), (''phase_id'', PStr (hc_phase_id c))]))"

subsection \<open>Summaries\<close>

definition summary_scope :: "dict \<Rightarrow> dict" where
  "summary_scope a =
     [(''phase_id'', get_or a ''phase_id'' PNone), (''max_classification'', get_or a ''max_classification'' (PStr ''internal'')),
      (''source_lock_digest'', get_or a ''source_lock_digest'' PNone)]"

record summary_view =
  sv_items :: "experience list"
  sv_dependencies :: pyval
  sv_source_count :: nat
  sv_source_watermark :: string

definition summarised :: "string \<Rightarrow> dict \<Rightarrow> time \<Rightarrow> handoff list \<Rightarrow> experience \<Rightarrow> bool" where
  "summarised project view now hs x \<longleftrightarrow>
     (let levels = levels_upto (class_of (arg_str view ''max_classification''))
      in xp_project_id x = project \<and> xp_status x = X_active \<and> in_validity now x \<and> xp_classification x \<in> set levels
       \<and> (case arg_opt_str view ''source_lock_digest'' of None \<Rightarrow> True | Some d \<Rightarrow> xp_source_lock_digest x = d)
       \<and> exists_row (\<lambda>h. let c = h_content h in
            Some (h_id h) = xp_source_handoff_id x \<and> hc_project_id c = xp_project_id x \<and> hc_classification c \<in> set levels
            \<and> (case arg_opt_str view ''phase_id'' of None \<Rightarrow> True | Some ph \<Rightarrow> hc_phase_id c = ph)
            \<and> xp_source_payload_digest x = hc_payload_digest c \<and> xp_source_lock_digest x = hc_lock_snapshot_digest c
            \<and> arg_opt_str (xp_source x) ''envelope_digest'' = Some (hc_envelope_digest c)
            \<and> arg_opt_str (xp_source x) ''classification'' = Some (class_str (hc_classification c))) hs)"

definition dependency :: "platform \<Rightarrow> experience \<Rightarrow> pyval" where
  "dependency P x = PDict [(''memory_id'', PStr (uuid_str (xp_id x))), (''version'', PInt (int (xp_version x))),
     (''binding_digest'', PStr (binding_digest P x))]"

definition materialize :: "platform \<Rightarrow> time \<Rightarrow> string \<Rightarrow> dict \<Rightarrow> xdb \<Rightarrow> summary_view" where
  "materialize P now project view db =
     (let rows = filter (summarised project view now (xd_handoffs db)) (xd_experiences db);
          items = take 50 (newest_first (\<lambda>x. (xp_updated_at x, xp_id x)) rows);
          deps = PList (map (dependency P) items)
      in \<lparr>sv_items = items, sv_dependencies = deps, sv_source_count = length rows,
          sv_source_watermark = digest P (PDict [(''project_id'', PStr project), (''scope'', PDict view),
            (''total'', PInt (int (length rows))), (''sources'', deps)])\<rparr>)"

text \<open>An item as the reader gets it: the citation binds the excerpt to its source.\<close>

definition summary_item :: "platform \<Rightarrow> experience \<Rightarrow> pyval" where
  "summary_item P x = PDict
     ([(''memory_id'', PStr (uuid_str (xp_id x))), (''project_id'', PStr (xp_project_id x)), (''version'', PInt (int (xp_version x))),
       (''classification'', PStr (class_str (xp_classification x))), (''kind'', PStr (xp_kind x)), (''title'', PStr (xp_title x)),
       (''source_handoff_id'', opt_uuid (xp_source_handoff_id x)), (''source_lock_digest'', PStr (xp_source_lock_digest x)),
       (''source_payload_digest'', PStr (xp_source_payload_digest x)), (''excerpt'', PStr (excerpt x)),
       (''citation'', PDict (citation P x))])"

definition text_size :: "platform \<Rightarrow> pyval \<Rightarrow> nat" where
  "text_size P v = (case dumps P v of None \<Rightarrow> 0 | Some s \<Rightarrow> length s)"

text \<open>The items that fit a budget of characters, with what they use of it.\<close>

fun fitting :: "platform \<Rightarrow> int \<Rightarrow> int \<Rightarrow> bool \<Rightarrow> pyval list \<Rightarrow> pyval list \<times> int" where
  "fitting P budget used any [] = ([], used)"
| "fitting P budget used any (v # vs) =
     (let size = int (text_size P v) + (if any then 1 else 0)
      in if budget < used + size then ([], used)
         else let (items, total) = fitting P budget (used + size) True vs in (v # items, total))"

definition snapshot_for :: "string \<Rightarrow> dict \<Rightarrow> string \<Rightarrow> summary_snapshot list \<Rightarrow> summary_snapshot option" where
  \<comment> \<open>the newest snapshot of the scope, those of the current watermark first\<close>
  "snapshot_for project view watermark t =
     (let rows = newest_first (\<lambda>s. (ss_created_at s, ss_job_id s))
           (filter (\<lambda>s. ss_project_id s = project \<and> py_eq (PDict (ss_scope s)) (PDict view)) t)
      in case filter (\<lambda>s. ss_source_watermark s = watermark) rows of
           s # _ \<Rightarrow> Some s
         | [] \<Rightarrow> (case rows of s # _ \<Rightarrow> Some s | [] \<Rightarrow> None))"

definition read_summary :: "platform \<Rightarrow> time \<Rightarrow> dict \<Rightarrow> gdb \<Rightarrow> dict" where
  "read_summary P now a db =
     (let project = arg_str a ''project_id''; view = summary_scope a; current = materialize P now project view (gd_store db);
          snapshot = snapshot_for project view (sv_source_watermark current) (gd_snapshots db);
          status = (case snapshot of None \<Rightarrow> ''missing''
            | Some s \<Rightarrow> if ss_source_watermark s = sv_source_watermark current then ''ready'' else ''stale'');
          ready = (status = ''ready''); budget = int_of (get_or a ''max_chars'' (PInt 8000));
          (items, used) = (if ready then fitting P budget 2 False (map (summary_item P) (sv_items current)) else ([], 2))
      in [(''status'', PStr status), (''snapshot_id'', (case snapshot of Some s \<Rightarrow> if ready then PStr (uuid_str (ss_job_id s)) else PNone | None \<Rightarrow> PNone)),
          (''scope'', PDict view), (''source_watermark'', if ready then PStr (sv_source_watermark current) else PNone),
          (''items'', PList items), (''source_count'', PInt (if ready then int (sv_source_count current) else 0)),
          (''returned'', PInt (int (length items))),
          (''truncated'', PBool (ready \<and> length items < sv_source_count current)), (''result_chars'', PInt used),
          (''max_chars'', PInt budget), (''usage'', PStr ''reference_only''), (''citation_schema_version'', PInt 1),
          (''strategy'', PStr ''approved_references_v1'')])"

subsection \<open>Enqueue\<close>

definition same_job :: "string \<Rightarrow> job_kind \<Rightarrow> string \<Rightarrow> string \<Rightarrow> string \<Rightarrow> gen_job \<Rightarrow> bool" where
  "same_job project kind key watermark recipe j \<longleftrightarrow> gj_project_id j = project \<and> gj_kind j = kind \<and> gj_source_key j = key
     \<and> gj_source_watermark j = watermark \<and> gj_recipe j = recipe"

definition new_job :: "uuid \<Rightarrow> time \<Rightarrow> string \<Rightarrow> job_kind \<Rightarrow> string \<Rightarrow> string \<Rightarrow> string \<Rightarrow> dict \<Rightarrow> string \<Rightarrow> gen_job" where
  "new_job i now project kind key watermark recipe params actor =
     \<lparr>gj_id = i, gj_project_id = project, gj_kind = kind, gj_source_key = key, gj_source_watermark = watermark, gj_recipe = recipe,
      gj_provider = PROVIDER,
      gj_model_version = (case kind of G_extract \<Rightarrow> MODEL_VERSION | G_skill \<Rightarrow> ''skill-scaffold-v1'' | G_summary \<Rightarrow> ''approved-references-v1''),
      gj_prompt_version = (if kind = G_extract then PROMPT_VERSION else ''no-prompt''), gj_parameters = params, gj_enqueued_by = actor,
      gj_status = J_queued, gj_version = 1, gj_attempts = 0, gj_max_attempts = 3, gj_lease_token = None, gj_lease_until = None,
      gj_available_at = now, gj_error_code = None, gj_outcome = None, gj_redrive_version = None, gj_redrive_actor = None,
      gj_created_at = now, gj_updated_at = now\<rparr>"

definition job_answer :: "gen_job \<Rightarrow> bool \<Rightarrow> dict" where
  "job_answer j existing =
     [(''job_id'', PStr (uuid_str (gj_id j))), (''status'', PStr (job_status_str (gj_status j))), (''already_exists'', PBool existing)]"

definition insert_job ::
    "uuid \<Rightarrow> time \<Rightarrow> string \<Rightarrow> job_kind \<Rightarrow> string \<Rightarrow> string \<Rightarrow> string \<Rightarrow> dict \<Rightarrow> string \<Rightarrow> gdb \<Rightarrow> gdb \<times> dict" where
  "insert_job i now project kind key watermark recipe params actor db =
     (case fetchrow (same_job project kind key watermark recipe) (gd_jobs db) of
        Some j \<Rightarrow> (db, job_answer j True)
      | None \<Rightarrow> let j = new_job i now project kind key watermark recipe params actor
                in (db\<lparr>gd_jobs := insert_row j (gd_jobs db)\<rparr>, job_answer j False))"

definition unextracted :: "string \<Rightarrow> gdb \<Rightarrow> handoff list" where
  "unextracted project db =
     sort_key (\<lambda>h. (h_created_at h, h_id h)) (filter (\<lambda>h. h_project_id h = project
       \<and> \<not> exists_row (same_job project G_extract (uuid_str (h_id h)) (hc_payload_digest (h_content h)) RECIPE) (gd_jobs db))
       (xd_handoffs (gd_store db)))"

definition extract_parameters :: "platform \<Rightarrow> settings \<Rightarrow> handoff \<Rightarrow> dict" where
  "extract_parameters P s h =
     [(''source_handoff_id'', PStr (uuid_str (h_id h))), (''source_binding'', PStr (source_watermark P h)),
      (''max_input_chars'', PInt (generation_max_input_chars s)), (''max_output_chars'', PInt (generation_max_output_chars s)),
      (''cost_budget_microusd'', PInt 0)]"

fun insert_extracts :: "platform \<Rightarrow> settings \<Rightarrow> (nat \<Rightarrow> uuid) \<Rightarrow> time \<Rightarrow> string \<Rightarrow> string \<Rightarrow> handoff list \<Rightarrow> gdb \<Rightarrow> gdb \<times> dict list" where
  "insert_extracts P s ids now project actor [] db = (db, [])"
| "insert_extracts P s ids now project actor (h # hs) db =
     (let (db1, r) = insert_job (ids 0) now project G_extract (uuid_str (h_id h)) (hc_payload_digest (h_content h)) RECIPE
            (extract_parameters P s h) actor db;
          (db2, rs) = insert_extracts P s (\<lambda>n. ids (Suc n)) now project actor hs db1
      in (db2, r # rs))"

definition enqueue_answer :: "dict list \<Rightarrow> bool \<Rightarrow> dict" where
  "enqueue_answer jobs has_more =
     [(''jobs'', PList (map PDict jobs)), (''has_more'', PBool has_more), (''coverage'', PStr ''durable_source_receipts'')]"

definition enqueue ::
    "platform \<Rightarrow> settings \<Rightarrow> clock \<Rightarrow> (nat \<Rightarrow> uuid) \<Rightarrow> string \<Rightarrow> dict \<Rightarrow> gdb \<Rightarrow> gdb \<times> dict" where
  "enqueue P s clk ids actor a db =
     (let project = arg_str a ''project_id''; limit = page_limit a
      in if arg_str a ''kind'' = ''extract''
         then let sources = take (limit + 1) (unextracted project db);
                  (db1, jobs) = insert_extracts P s ids (clk 0) project actor (take limit sources) db
              in (db1, enqueue_answer jobs (limit < length sources))
         else let view = summary_scope a; current = materialize P (clk 1) project view (gd_store db);
                  (db1, job) = insert_job (ids 0) (clk 0) project G_summary (digest P (PDict view)) (sv_source_watermark current)
                    SUMMARY_RECIPE view actor db
              in (db1, enqueue_answer [job] False))"

subsection \<open>Reads and redrive\<close>

definition job_key :: "gen_job \<Rightarrow> time \<times> uuid" where
  "job_key j = (gj_created_at j, gj_id j)"

definition list_jobs :: "dict \<Rightarrow> cursor option \<Rightarrow> gdb \<Rightarrow> gen_job page outcome" where
  "list_jobs a c db =
     (let project = arg_str a ''project_id''; status = str_of (get_or a ''status'' (PStr ''dead''))
      in keyset_page job_key [''generation'', project, status] c (page_limit a)
           (filter (\<lambda>j. gj_project_id j = project \<and> job_status_str (gj_status j) = status) (gd_jobs db)))"

definition MAX_LIFETIME_ATTEMPTS :: nat where "MAX_LIFETIME_ATTEMPTS = 30"

definition set_job :: "uuid \<Rightarrow> (gen_job \<Rightarrow> gen_job) \<Rightarrow> gdb \<Rightarrow> gdb" where
  "set_job i f db = db\<lparr>gd_jobs := update_where (\<lambda>j. gj_id j = i) f (gd_jobs db)\<rparr>"

definition redriven :: "clock \<Rightarrow> string \<Rightarrow> gen_job \<Rightarrow> gen_job" where
  "redriven clk actor j = j\<lparr>gj_status := J_queued, gj_version := gj_version j + 1,
     gj_max_attempts := min MAX_LIFETIME_ATTEMPTS (gj_max_attempts j + 3), gj_available_at := clk 1, gj_error_code := None,
     gj_updated_at := clk 1, gj_redrive_version := Some (gj_version j + 1), gj_redrive_actor := Some actor\<rparr>"

definition redrive_answer :: "gen_job \<Rightarrow> int \<Rightarrow> bool \<Rightarrow> dict" where
  "redrive_answer j expected replay =
     [(''job_id'', PStr (uuid_str (gj_id j))), (''applied_version'', PInt (expected + 1)), (''already_applied'', PBool replay)]"

definition redrive_refused :: "gen_job \<Rightarrow> int \<Rightarrow> bool" where
  "redrive_refused j expected \<longleftrightarrow> gj_status j \<noteq> J_dead \<or> int (gj_version j) \<noteq> expected \<or> MAX_LIFETIME_ATTEMPTS \<le> gj_max_attempts j"

definition redrive :: "clock \<Rightarrow> string \<Rightarrow> dict \<Rightarrow> gdb \<Rightarrow> (gdb \<times> dict) outcome" where
  "redrive clk actor a db =
     (let expected = arg_int a ''expected_version'';
          refused = exp_error ''Job is unavailable, changed, or has exhausted its lifetime retry budget'' ''MEM-GENERATION-0002'' 409
      in case fetchrow (\<lambda>j. gj_project_id j = arg_str a ''project_id'' \<and> gj_id j = arg_uuid a ''job_id'') (gd_jobs db) of
           None \<Rightarrow> Inl refused
         | Some j \<Rightarrow>
             if map_option int (gj_redrive_version j) = Some (expected + 1) \<and> gj_redrive_actor j = Some actor
             then Inr (db, redrive_answer j expected True)
             else checked [(redrive_refused j expected, refused)] (set_job (gj_id j) (redriven clk actor) db, redrive_answer j expected False))"

subsection \<open>Leases\<close>

definition finish_attempt :: "time \<Rightarrow> uuid \<Rightarrow> nat \<Rightarrow> string \<Rightarrow> int \<Rightarrow> int \<Rightarrow> gdb \<Rightarrow> gdb" where
  "finish_attempt now i n outcome_code inp out db =
     db\<lparr>gd_attempts := update_where (\<lambda>t. ga_job_id t = i \<and> ga_attempt t = n \<and> ga_finished_at t = None)
       (\<lambda>t. t\<lparr>ga_finished_at := Some now, ga_outcome_code := Some outcome_code, ga_input_chars := inp, ga_output_chars := out\<rparr>)
       (gd_attempts db)\<rparr>"

definition lapsed :: "time \<Rightarrow> gen_job \<Rightarrow> bool" where
  "lapsed now j \<longleftrightarrow> gj_status j = J_running \<and> upto (gj_lease_until j) now"

definition exhausted :: "string \<Rightarrow> time \<Rightarrow> gdb \<Rightarrow> gen_job list" where
  "exhausted project now db = take 100 (sort_key job_key
     (filter (\<lambda>j. gj_project_id j = project \<and> lapsed now j \<and> gj_max_attempts j \<le> gj_attempts j) (gd_jobs db)))"

definition buried :: "time \<Rightarrow> gen_job \<Rightarrow> gen_job" where
  "buried now j = j\<lparr>gj_status := J_dead, gj_version := gj_version j + 1, gj_lease_token := None, gj_lease_until := None,
     gj_error_code := Some ''lease_expired'', gj_updated_at := now\<rparr>"

fun bury_all :: "time \<Rightarrow> gen_job list \<Rightarrow> gdb \<Rightarrow> gdb" where
  "bury_all now [] db = db"
| "bury_all now (j # js) db =
     bury_all now js (set_job (gj_id j) (buried now) (finish_attempt now (gj_id j) (gj_attempts j) ''lease_expired'' 0 0 db))"

definition runnable :: "string \<Rightarrow> time \<Rightarrow> gen_job \<Rightarrow> bool" where
  "runnable project now j \<longleftrightarrow> gj_project_id j = project \<and> gj_attempts j < gj_max_attempts j
     \<and> ((gj_status j = J_queued \<and> gj_available_at j \<le> now) \<or> lapsed now j)"

definition next_job :: "string \<Rightarrow> time \<Rightarrow> gdb \<Rightarrow> gen_job option" where
  "next_job project now db =
     (case sort_key job_key (filter (runnable project now) (gd_jobs db)) of [] \<Rightarrow> None | j # _ \<Rightarrow> Some j)"

definition claimed_job :: "time \<Rightarrow> uuid \<Rightarrow> int \<Rightarrow> gen_job \<Rightarrow> gen_job" where
  "claimed_job now token lease j = j\<lparr>gj_status := J_running, gj_version := gj_version j + 1, gj_attempts := gj_attempts j + 1,
     gj_lease_token := Some token, gj_lease_until := Some (now + seconds lease), gj_updated_at := now\<rparr>"

definition new_attempt :: "time \<Rightarrow> gen_job \<Rightarrow> gen_attempt" where
  "new_attempt now j = \<lparr>ga_job_id = gj_id j, ga_attempt = gj_attempts j, ga_started_at = now, ga_finished_at = None,
     ga_outcome_code = None, ga_input_chars = 0, ga_output_chars = 0\<rparr>"

text \<open>\<open>claim\<close>: \<open>token\<close> is the random lease token of the worker; the answer is the row it got.\<close>

definition claim_job :: "clock \<Rightarrow> uuid \<Rightarrow> string \<Rightarrow> int \<Rightarrow> gdb \<Rightarrow> gdb \<times> gen_job option" where
  "claim_job clk token project lease db =
     (let db1 = bury_all (clk 2) (exhausted project (clk 1) db) db
      in case next_job project (clk 3) db1 of
           None \<Rightarrow> (db1, None)
         | Some j \<Rightarrow>
             let db2 = (if gj_status j = J_running then finish_attempt (clk 4) (gj_id j) (gj_attempts j) ''lease_expired'' 0 0 db1 else db1);
                 db3 = set_job (gj_id j) (claimed_job (clk 5) token lease) db2;
                 got = claimed_job (clk 5) token lease j
             in (db3\<lparr>gd_attempts := insert_row (new_attempt (clk 6) got) (gd_attempts db3)\<rparr>, Some got))"

definition job_fenced :: "time \<Rightarrow> gen_job \<Rightarrow> gdb \<Rightarrow> bool" where
  "job_fenced now job db \<longleftrightarrow> exists_row (\<lambda>j. gj_id j = gj_id job \<and> gj_project_id j = gj_project_id job \<and> gj_status j = J_running
     \<and> gj_lease_token j \<noteq> None \<and> gj_lease_token j = gj_lease_token job \<and> gj_attempts j = gj_attempts job
     \<and> after (gj_lease_until j) now) (gd_jobs db)"

definition failed_job :: "time \<Rightarrow> gen_job \<Rightarrow> string \<Rightarrow> bool \<Rightarrow> gen_job \<Rightarrow> gen_job" where
  "failed_job now job error retry j = j\<lparr>gj_status := (if retry then J_queued else J_dead), gj_version := gj_version j + 1,
     gj_error_code := Some error, gj_lease_token := None, gj_lease_until := None,
     gj_available_at := now + seconds (min 300 (2 ^ gj_attempts job)), gj_updated_at := now\<rparr>"

definition fail_job :: "clock \<Rightarrow> gen_job \<Rightarrow> string \<Rightarrow> bool \<Rightarrow> int \<Rightarrow> int \<Rightarrow> gdb \<Rightarrow> gdb \<times> bool" where
  "fail_job clk job error retryable inp out db =
     (if \<not> job_fenced (clk 1) job db then (db, False)
      else (set_job (gj_id job) (failed_job (clk 3) job error (retryable \<and> gj_attempts job < gj_max_attempts job))
              (finish_attempt (clk 2) (gj_id job) (gj_attempts job) error inp out db), True))"

text \<open>
  How a worker completes a job: the end of \<open>_complete\<close>, which checks the lease again after
  the work of the transaction and once more in the update; without it, \<open>lease_lost\<close> undoes
  the transaction.
\<close>

definition succeeded_job :: "time \<Rightarrow> dict \<Rightarrow> gen_job \<Rightarrow> gen_job" where
  "succeeded_job now result j = j\<lparr>gj_status := J_succeeded, gj_version := gj_version j + 1, gj_lease_token := None,
     gj_lease_until := None, gj_error_code := None, gj_outcome := Some result, gj_updated_at := now\<rparr>"

definition finish_job :: "clock \<Rightarrow> gen_job \<Rightarrow> string \<Rightarrow> dict \<Rightarrow> int \<Rightarrow> int \<Rightarrow> gdb \<Rightarrow> gdb option" where
  "finish_job clk job outcome_code result inp out db =
     (if \<not> job_fenced (clk 1) job db then None
      else let db1 = finish_attempt (clk 2) (gj_id job) (gj_attempts job) outcome_code inp out db
           in if exists_row (\<lambda>j. gj_id j = gj_id job \<and> after (gj_lease_until j) (clk 3)) (gd_jobs db1)
              then Some (set_job (gj_id job) (succeeded_job (clk 3) result) db1) else None)"

end
