(* ===== verification/Skills.thy ===== *)
theory Skills
  imports Generation Handoff_Continuation
begin

text \<open>
  Reviewed skills (skills/sources.py, skills/submissions.py, skills/lifecycle.py,
  skills/reads.py and the tables and triggers of migration 007): immutable revisions that
  quote approved experiences, their review with one active revision per skill, and their
  invalidation when a quoted experience changes. \<open>clk n\<close> is the n-th sample of the
  database clock in a transaction.
\<close>

subsection \<open>Tables\<close>

datatype skill_status = K_pending | K_active | K_rejected | K_archived | K_superseded | K_stale | K_forgotten

datatype skill_origin = O_manual | O_generated

record skill =
  sk_id :: uuid
  sk_project_id :: string
  sk_name :: string
  sk_latest_revision :: nat
  sk_active_revision :: "nat option"
  sk_classification :: classification
  sk_created_at :: time

record skill_revision =
  kr_id :: uuid
  kr_skill_id :: uuid
  kr_project_id :: string
  kr_revision :: nat
  kr_base_active_revision :: "nat option"
  kr_version :: nat
  kr_status :: skill_status
  kr_origin :: skill_origin
  kr_body :: dict
  kr_classification :: classification
  kr_source_lock_digest :: string
  kr_source_watermark :: string
  kr_content_digest :: string
  kr_created_by :: string
  kr_idempotency_key :: string
  kr_submission_digest :: string
  kr_approved_at :: "time option"
  kr_created_at :: time
  kr_updated_at :: time

record skill_source =
  ks_revision_id :: uuid
  ks_project_id :: string
  ks_memory_id :: uuid
  ks_memory_version :: nat
  ks_binding :: dict

record skill_event =
  ke_revision_id :: uuid
  ke_version :: nat
  ke_actor_id :: string
  ke_action :: string
  ke_previous_status :: skill_status
  ke_applied_status :: skill_status
  ke_cause_memory_id :: "uuid option"
  ke_created_at :: time

text \<open>\<open>kd_gen\<close> holds the job queue and the experiences the revisions quote.\<close>

record skdb =
  kd_gen :: gdb
  kd_skills :: "skill list"
  kd_revisions :: "skill_revision list"
  kd_sources :: "skill_source list"
  kd_events :: "skill_event list"

abbreviation kd_store :: "skdb \<Rightarrow> xdb" where
  "kd_store db \<equiv> gd_store (kd_gen db)"

fun skill_status_str :: "skill_status \<Rightarrow> string" where
  "skill_status_str K_pending = ''pending''"
| "skill_status_str K_active = ''active''"
| "skill_status_str K_rejected = ''rejected''"
| "skill_status_str K_archived = ''archived''"
| "skill_status_str K_superseded = ''superseded''"
| "skill_status_str K_stale = ''stale''"
| "skill_status_str K_forgotten = ''forgotten''"

fun origin_str :: "skill_origin \<Rightarrow> string" where
  "origin_str O_manual = ''manual''"
| "origin_str O_generated = ''generated''"

definition skill_error :: "string \<Rightarrow> string \<Rightarrow> int \<Rightarrow> mem_error" where
  "skill_error msg c status = memory_tool_error msg c [] status"

definition skill_missing :: "int \<Rightarrow> mem_error" where
  "skill_missing status = skill_error ''Skill or its exact approved sources are unavailable'' ''MEM-SKILL-0001'' status"

subsection \<open>Sources\<close>

text \<open>A reference names a version of an experience; ids of the fixed width sort like their text.\<close>

type_synonym skill_ref = "uuid \<times> int"

definition skill_refs :: "pyval list \<Rightarrow> skill_ref list outcome" where
  "skill_refs vs =
     (let refs = sort_key fst (map (\<lambda>v. (arg_uuid (dict_of v) ''memory_id'', arg_int (dict_of v) ''version'')) vs)
      in checked [(\<not> (1 \<le> length refs \<and> length refs \<le> 8) \<or> \<not> distinct (map fst refs),
           skill_error ''Skill sources must contain 1-8 distinct experiences'' ''MEM-SKILL-0002'' 400)] refs)"

definition ref_dict :: "skill_ref \<Rightarrow> pyval" where
  "ref_dict r = PDict [(''memory_id'', PStr (uuid_str (fst r))), (''version'', PInt (snd r))]"

definition bound_source :: "experience \<Rightarrow> handoff \<Rightarrow> bool" where
  \<comment> \<open>the handoff still is what the experience was attributed to\<close>
  "bound_source x h \<longleftrightarrow>
     (let c = h_content h
      in xp_source_handoff_id x = Some (h_id h) \<and> hc_project_id c = xp_project_id x
         \<and> xp_source_payload_digest x = hc_payload_digest c \<and> xp_source_lock_digest x = hc_lock_snapshot_digest c
         \<and> arg_opt_str (xp_source x) ''envelope_digest'' = Some (hc_envelope_digest c)
         \<and> arg_opt_str (xp_source x) ''classification'' = Some (class_str (hc_classification c)))"

definition has_evidence :: "handoff \<Rightarrow> bool" where
  "has_evidence h \<longleftrightarrow> list_of (py_get (dict_of (hc_result_envelope (h_content h))) ''evidence_refs'') \<noteq> []"

definition live_memory :: "string \<Rightarrow> time \<Rightarrow> experience \<Rightarrow> bool" where
  "live_memory project now x \<longleftrightarrow> xp_project_id x = project \<and> xp_status x = X_active \<and> in_validity now x"

definition citable :: "string \<Rightarrow> time \<Rightarrow> handoff list \<Rightarrow> experience \<Rightarrow> bool" where
  "citable project now hs x \<longleftrightarrow> live_memory project now x
     \<and> exists_row (\<lambda>h. bound_source x h \<and> hc_result_status (h_content h) = ''succeeded'' \<and> has_evidence h) hs"

record captured =
  cp_bindings :: "dict list"
  cp_watermark :: string
  cp_classification :: classification
  cp_lock_digest :: string
  cp_evidence :: "pyval list"

definition binding_of :: "platform \<Rightarrow> experience \<Rightarrow> dict" where
  "binding_of P x =
     [(''project_id'', PStr (xp_project_id x)), (''memory_id'', PStr (uuid_str (xp_id x))), (''version'', PInt (int (xp_version x))),
      (''classification'', PStr (class_str (xp_classification x))), (''kind'', PStr (xp_kind x)),
      (''source_handoff_id'', opt_uuid (xp_source_handoff_id x)), (''source_lock_digest'', PStr (xp_source_lock_digest x)),
      (''source_payload_digest'', PStr (xp_source_payload_digest x)), (''citation'', PDict (citation P x))]"

definition watermark_of :: "platform \<Rightarrow> dict list \<Rightarrow> string" where
  "watermark_of P bs = digest P (PList (map PDict bs))"

definition highest_level :: "experience list \<Rightarrow> classification" where
  "highest_level xs = fold (\<lambda>x c. max_level c (xp_classification x)) xs C_public"

definition cited_rows :: "string \<Rightarrow> time \<Rightarrow> skill_ref list \<Rightarrow> xdb \<Rightarrow> experience list" where
  "cited_rows project now refs db = sort_key xp_id
     (filter (\<lambda>x. citable project now (xd_handoffs db) x \<and> xp_id x \<in> set (map fst refs)) (xd_experiences db))"

definition capture_sources :: "platform \<Rightarrow> time \<Rightarrow> string \<Rightarrow> pyval list \<Rightarrow> xdb \<Rightarrow> captured outcome" where
  "capture_sources P now project vs db =
     and_then (skill_refs vs) (\<lambda>refs.
       let rows = cited_rows project now refs db; bindings = map (binding_of P) rows
       in checked
         [(map (\<lambda>x. (xp_id x, int (xp_version x))) rows \<noteq> refs, skill_missing 409),
          (''procedure'' \<notin> set (map xp_kind rows) \<or> length (remdups (map xp_source_lock_digest rows)) \<noteq> 1,
             skill_error ''Skill needs an approved procedure and sources from exactly one Lock'' ''MEM-SKILL-0002'' 409)]
         \<lparr>cp_bindings = bindings, cp_watermark = watermark_of P bindings, cp_classification = highest_level rows,
          cp_lock_digest = xp_source_lock_digest (hd rows), cp_evidence = map (summary_item P) rows\<rparr>)"

definition saved_bindings :: "uuid \<Rightarrow> skdb \<Rightarrow> dict list" where
  "saved_bindings i db = map ks_binding (sort_key ks_memory_id (filter (\<lambda>s. ks_revision_id s = i) (kd_sources db)))"

definition freshness :: "platform \<Rightarrow> time \<Rightarrow> skill_revision \<Rightarrow> dict list \<Rightarrow> xdb \<Rightarrow> bool \<times> pyval list" where
  "freshness P now r bs db =
     (case capture_sources P now (kr_project_id r) (map PDict bs) db of
        Inl _ \<Rightarrow> (False, [])
      | Inr c \<Rightarrow> (cp_watermark c = kr_source_watermark r, cp_evidence c))"

subsection \<open>Bodies\<close>

definition TEXT_PATTERNS :: dict where
  "TEXT_PATTERNS = [(''type'', PStr ''string''), (''minLength'', PInt 1), (''pattern'', PStr (regex_escape CHR ''S'')),
     (''not'', PDict [(''pattern'', PStr (''['' @ regex_escape CHR ''u'' @ ''0000'' @ regex_escape CHR ''u'' @ ''D800-''
        @ regex_escape CHR ''u'' @ ''DFFF]''))])]"

definition text_upto :: "int \<Rightarrow> pyval" where
  "text_upto n = PDict (TEXT_PATTERNS @ [(''maxLength'', PInt n)])"

definition array_schema :: "int \<Rightarrow> int \<Rightarrow> pyval \<Rightarrow> dict" where
  "array_schema lo hi items = [(''type'', PStr ''array''), (''minItems'', PInt lo), (''maxItems'', PInt hi), (''items'', items)]"

definition unique_schema :: "int \<Rightarrow> int \<Rightarrow> pyval \<Rightarrow> pyval" where
  "unique_schema lo hi items = PDict (array_schema lo hi items @ [(''uniqueItems'', PBool True)])"

definition UUID_SCHEMA :: pyval where
  "UUID_SCHEMA = PDict [(''type'', PStr ''string''), (''format'', PStr ''uuid'')]"

definition NAME_SCHEMA :: pyval where
  "NAME_SCHEMA = PDict (str_schema 1 64 ''^[a-z][a-z0-9]*(?:-[a-z0-9]+)*$'')"

definition BODY_SCHEMA :: pyval where
  "BODY_SCHEMA = closed_object [''title'', ''description'', ''triggers'', ''steps'', ''validation'']
     [(''title'', text_upto 200), (''description'', text_upto 512),
      (''triggers'', unique_schema 1 8 (text_upto 256)), (''validation'', unique_schema 1 8 (text_upto 512)),
      (''steps'', PDict (array_schema 1 12 (closed_object [''instruction'', ''sources'']
         [(''instruction'', text_upto 1024), (''sources'', unique_schema 1 8 UUID_SCHEMA)]))),
      (''resources'', PDict [(''type'', PStr ''array''), (''maxItems'', PInt 4), (''items'',
         closed_object [''name'', ''content''] [(''name'', NAME_SCHEMA), (''content'', text_upto 4096)])])]"

fun normalize_value :: "unicode \<Rightarrow> pyval \<Rightarrow> pyval" where
  "normalize_value U (PStr s) = PStr (py_strip (nfc U s))"
| "normalize_value U (PList vs) = PList (map (normalize_value U) vs)"
| "normalize_value U (PDict d) = PDict (map (\<lambda>(k, v). (k, normalize_value U v)) d)"
| "normalize_value U v = v"

definition normalized_step :: "pyval \<Rightarrow> pyval" where
  "normalized_step v =
     (let ids = sort (remdups (map (uuid_str \<circ> uuid_of) (arg_strs (dict_of v) ''sources'')))
      in PDict (dict_put ''sources'' (strs ids) (dict_of v)))"

definition normalized_body :: "unicode \<Rightarrow> pyval \<Rightarrow> dict" where
  "normalized_body U v =
     (let d = dict_of (normalize_value U v)
      in if has_key d ''steps'' then dict_put ''steps'' (PList (map normalized_step (list_of (py_get d ''steps'')))) d else d)"

definition step_sources :: "pyval \<Rightarrow> uuid list" where
  "step_sources v = map uuid_of (arg_strs (dict_of v) ''sources'')"

record prepared =
  pp_body :: dict
  pp_refs :: "skill_ref list"
  pp_digest :: string

definition skill_material :: "dict \<Rightarrow> dict \<Rightarrow> skill_ref list \<Rightarrow> dict" where
  "skill_material a body refs =
     (if has_key a ''name'' then [(''name'', py_get a ''name'')] else [])
     @ (if has_key a ''skill_id'' then [(''skill_id'', PStr (uuid_str (arg_uuid a ''skill_id'')))] else [])
     @ (if has_key a ''expected_revision'' then [(''expected_revision'', py_get a ''expected_revision'')] else [])
     @ [(''body'', PDict body), (''sources'', PList (map ref_dict refs))]"

definition body_errors :: "platform \<Rightarrow> dict \<Rightarrow> skill_ref list \<Rightarrow> (bool \<times> mem_error) list" where
  "body_errors P body refs =
     [(\<not> schema_valid P BODY_SCHEMA (PDict body) \<or> 24000 < text_size P (PDict body),
         skill_error ''Skill body violates normalized schema or 24000-character budget'' ''MEM-SKILL-0002'' 400),
      (list_ex (\<lambda>v. \<not> list_all (\<lambda>i. i \<in> set (map fst refs)) (step_sources v)) (list_of (py_get body ''steps'')),
         skill_error ''Every step must bind declared sources'' ''MEM-SKILL-0002'' 400),
      (\<not> distinct (map (\<lambda>v. arg_str (dict_of v) ''name'') (list_of (py_get body ''resources''))),
         skill_error ''Duplicate resource name'' ''MEM-SKILL-0002'' 400)]"

definition prepare_skill :: "unicode \<Rightarrow> platform \<Rightarrow> dict \<Rightarrow> prepared outcome" where
  "prepare_skill U P a =
     (let body = normalized_body U (py_get a ''body'')
      in and_then (skill_refs (list_of (py_get a ''sources''))) (\<lambda>refs. checked (body_errors P body refs)
        \<lparr>pp_body = body, pp_refs = refs, pp_digest = digest P (PDict (skill_material a body refs))\<rparr>))"

subsection \<open>Submissions\<close>

definition same_skill_request :: "string \<Rightarrow> string \<Rightarrow> string \<Rightarrow> skill_revision \<Rightarrow> bool" where
  "same_skill_request project actor key r \<longleftrightarrow>
     kr_project_id r = project \<and> kr_created_by r = actor \<and> kr_idempotency_key r = key"

definition skill_answer :: "skill_revision \<Rightarrow> bool \<Rightarrow> dict" where
  "skill_answer r existing = [(''revision_id'', PStr (uuid_str (kr_id r))), (''skill_id'', PStr (uuid_str (kr_skill_id r))),
     (''revision'', PInt (int (kr_revision r))), (''already_exists'', PBool existing)]"

definition revision_row :: "uuid \<Rightarrow> nat \<Rightarrow> skdb \<Rightarrow> skill_revision option" where
  "revision_row skill_id n db = fetchrow (\<lambda>r. kr_skill_id r = skill_id \<and> kr_revision r = n) (kd_revisions db)"

definition unauthored :: "dict \<Rightarrow> dict \<Rightarrow> bool" where
  \<comment> \<open>the parts a person has to write are still those of the scaffold\<close>
  "unauthored body previous \<longleftrightarrow>
     list_all (\<lambda>k. py_eq (py_get body k) (py_get previous k)) [''triggers'', ''steps'', ''validation'']"

definition new_skill :: "uuid \<Rightarrow> time \<Rightarrow> dict \<Rightarrow> captured \<Rightarrow> skill" where
  "new_skill i now a c =
     \<lparr>sk_id = i, sk_project_id = arg_str a ''project_id'', sk_name = arg_str a ''name'', sk_latest_revision = 0,
      sk_active_revision = None, sk_classification = cp_classification c, sk_created_at = now\<rparr>"

text \<open>The skill a revision is for, locked or inserted.\<close>

definition target_skill ::
    "clock \<Rightarrow> uuid \<Rightarrow> skill_origin \<Rightarrow> dict \<Rightarrow> prepared \<Rightarrow> captured \<Rightarrow> skdb \<Rightarrow> (skdb \<times> skill) outcome" where
  "target_skill clk si origin a m c db =
     (if has_key a ''skill_id''
      then let conflict = skill_error ''Skill latest revision conflicts'' ''MEM-SKILL-0004'' 409
           in case fetchrow (\<lambda>s. sk_id s = arg_uuid a ''skill_id'' \<and> sk_project_id s = arg_str a ''project_id'') (kd_skills db) of
                None \<Rightarrow> Inl conflict
              | Some s \<Rightarrow>
                  if int (sk_latest_revision s) \<noteq> arg_int a ''expected_revision'' then Inl conflict
                  else (case revision_row (sk_id s) (sk_latest_revision s) db of
                    None \<Rightarrow> Inl (unhandled ''TypeError'')
                  | Some p \<Rightarrow> checked
                      [(origin = O_manual \<and> kr_origin p = O_generated \<and> unauthored (pp_body m) (kr_body p),
                        skill_error ''Author the scaffold's applicability, procedure or validation before review''
                          ''MEM-SKILL-0005'' 409)] (db, s))
      else if exists_row (\<lambda>s. sk_project_id s = arg_str a ''project_id'' \<and> sk_name s = arg_str a ''name'') (kd_skills db)
      then Inl (skill_error ''Skill name exists; explicitly revise its latest revision'' ''MEM-SKILL-0004'' 409)
      else let s = new_skill si (clk 2) a c in Inr (db\<lparr>kd_skills := insert_row s (kd_skills db)\<rparr>, s))"

definition content_material :: "dict \<Rightarrow> dict list \<Rightarrow> classification \<Rightarrow> dict" where
  "content_material body bs level =
     [(''body'', PDict body), (''sources'', PList (map PDict bs)), (''classification'', PStr (class_str level))]"

definition new_revision ::
    "platform \<Rightarrow> clock \<Rightarrow> uuid \<Rightarrow> string \<Rightarrow> skill_origin \<Rightarrow> dict \<Rightarrow> prepared \<Rightarrow> captured \<Rightarrow> skill \<Rightarrow> skill_revision" where
  "new_revision P clk i actor origin a m c s =
     (let level = max_level (sk_classification s) (cp_classification c)
      in \<lparr>kr_id = i, kr_skill_id = sk_id s, kr_project_id = arg_str a ''project_id'', kr_revision = sk_latest_revision s + 1,
          kr_base_active_revision = sk_active_revision s, kr_version = 1, kr_status = K_pending, kr_origin = origin,
          kr_body = pp_body m, kr_classification = level, kr_source_lock_digest = cp_lock_digest c,
          kr_source_watermark = cp_watermark c,
          kr_content_digest = digest P (PDict (content_material (pp_body m) (cp_bindings c) level)),
          kr_created_by = actor, kr_idempotency_key = arg_str a ''idempotency_key'', kr_submission_digest = pp_digest m,
          kr_approved_at = None, kr_created_at = clk 3, kr_updated_at = clk 4\<rparr>)"

definition source_row :: "skill_revision \<Rightarrow> dict \<Rightarrow> skill_source" where
  "source_row r b =
     \<lparr>ks_revision_id = kr_id r, ks_project_id = kr_project_id r, ks_memory_id = arg_uuid b ''memory_id'',
      ks_memory_version = nat (arg_int b ''version''), ks_binding = b\<rparr>"

definition advanced_skill :: "skill_revision \<Rightarrow> skill \<Rightarrow> skill" where
  "advanced_skill r s = s\<lparr>sk_latest_revision := kr_revision r, sk_classification := kr_classification r\<rparr>"

definition store_revision :: "skill_revision \<Rightarrow> dict list \<Rightarrow> skdb \<Rightarrow> skdb" where
  "store_revision r bs db =
     db\<lparr>kd_revisions := insert_row r (kd_revisions db), kd_sources := kd_sources db @ map (source_row r) bs,
        kd_skills := update_where (\<lambda>s. sk_id s = kr_skill_id r) (advanced_skill r) (kd_skills db)\<rparr>"

definition submit_skill ::
    "unicode \<Rightarrow> platform \<Rightarrow> clock \<Rightarrow> uuid \<Rightarrow> uuid \<Rightarrow> string \<Rightarrow> skill_origin \<Rightarrow> dict \<Rightarrow> skdb \<Rightarrow> (skdb \<times> dict) outcome" where
  "submit_skill U P clk si i actor origin a db =
     and_then (prepare_skill U P a) (\<lambda>m.
     case fetchrow (same_skill_request (arg_str a ''project_id'') actor (arg_str a ''idempotency_key'')) (kd_revisions db) of
       Some r \<Rightarrow> checked [(kr_submission_digest r \<noteq> pp_digest m,
           skill_error ''Submission key identifies different Skill content'' ''MEM-SKILL-0003'' 409)] (db, skill_answer r True)
     | None \<Rightarrow> and_then (capture_sources P (clk 1) (arg_str a ''project_id'') (map ref_dict (pp_refs m)) (kd_store db)) (\<lambda>c.
         and_then (target_skill clk si origin a m c db) (\<lambda>(db1, s).
           let r = new_revision P clk i actor origin a m c s
           in Inr (store_revision r (cp_bindings c) db1, skill_answer r False))))"

subsection \<open>Review\<close>

fun action_before :: "exp_action \<Rightarrow> skill_status option" where
  "action_before A_approve = Some K_pending"
| "action_before A_reject = Some K_pending"
| "action_before A_archive = Some K_active"
| "action_before _ = None"

fun action_after :: "exp_action \<Rightarrow> skill_status" where
  "action_after A_approve = K_active"
| "action_after A_reject = K_rejected"
| "action_after A_archive = K_archived"
| "action_after A_forget = K_forgotten"
| "action_after A_supersede = K_superseded"

definition moved_revision :: "time \<Rightarrow> skill_status \<Rightarrow> skill_revision \<Rightarrow> skill_revision" where
  "moved_revision now st r =
     r\<lparr>kr_status := st, kr_version := kr_version r + 1, kr_updated_at := now,
       kr_body := (if st = K_forgotten then [] else kr_body r),
       kr_approved_at := (if st = K_active then Some now else kr_approved_at r)\<rparr>"

definition skill_event_row :: "skill_revision \<Rightarrow> string \<Rightarrow> string \<Rightarrow> skill_status \<Rightarrow> uuid option \<Rightarrow> time \<Rightarrow> skill_event" where
  "skill_event_row r actor action st cause now =
     \<lparr>ke_revision_id = kr_id r, ke_version = kr_version r + 1, ke_actor_id = actor, ke_action = action,
      ke_previous_status = kr_status r, ke_applied_status = st, ke_cause_memory_id = cause, ke_created_at = now\<rparr>"

definition transition_revision :: "time \<Rightarrow> skill_revision \<Rightarrow> string \<Rightarrow> string \<Rightarrow> skill_status \<Rightarrow> skdb \<Rightarrow> skdb" where
  "transition_revision now r actor action st db =
     db\<lparr>kd_revisions := update_where (\<lambda>x. kr_id x = kr_id r) (moved_revision now st) (kd_revisions db),
        kd_events := insert_row (skill_event_row r actor action st None now) (kd_events db)\<rparr>"

definition point_active :: "uuid \<Rightarrow> nat option \<Rightarrow> skdb \<Rightarrow> skdb" where
  "point_active i n db = db\<lparr>kd_skills := update_where (\<lambda>s. sk_id s = i) (\<lambda>s. s\<lparr>sk_active_revision := n\<rparr>) (kd_skills db)\<rparr>"

definition skill_receipt :: "uuid \<Rightarrow> nat \<Rightarrow> skill_status \<Rightarrow> bool \<Rightarrow> dict" where
  "skill_receipt i version st replay = [(''revision_id'', PStr (uuid_str i)), (''applied_version'', PInt (int version)),
     (''applied_status'', PStr (skill_status_str st)), (''already_applied'', PBool replay)]"

definition skill_replay :: "skill_revision \<Rightarrow> string \<Rightarrow> exp_action \<Rightarrow> int \<Rightarrow> skdb \<Rightarrow> skill_event option" where
  "skill_replay r actor action expected db =
     (case fetchrow (\<lambda>e. ke_revision_id e = kr_id r \<and> int (ke_version e) = expected + 1) (kd_events db) of
        None \<Rightarrow> None
      | Some e \<Rightarrow> if ke_actor_id e = actor \<and> ke_action e = action_str action then Some e else None)"

definition skill_conflict :: "skill_revision \<Rightarrow> exp_action \<Rightarrow> int \<Rightarrow> bool" where
  "skill_conflict r action expected \<longleftrightarrow> int (kr_version r) \<noteq> expected \<or> kr_status r = K_forgotten
     \<or> (case action_before action of None \<Rightarrow> False | Some b \<Rightarrow> kr_status r \<noteq> b)"

definition supersede_active :: "clock \<Rightarrow> string \<Rightarrow> skill \<Rightarrow> skdb \<Rightarrow> skdb outcome" where
  "supersede_active clk actor s db =
     (case sk_active_revision s of
        None \<Rightarrow> Inr db
      | Some n \<Rightarrow> (case revision_row (sk_id s) n db of
            None \<Rightarrow> Inl (unhandled ''TypeError'')
          | Some q \<Rightarrow> Inr (transition_revision (clk 2) q actor ''supersede'' K_superseded db)))"

definition approve_revision :: "platform \<Rightarrow> clock \<Rightarrow> string \<Rightarrow> skill_revision \<Rightarrow> skill \<Rightarrow> skdb \<Rightarrow> skdb outcome" where
  "approve_revision P clk actor r s db =
     and_then (checked
       [(kr_origin r \<noteq> O_manual,
           skill_error ''Generated scaffolds require a manual revision before approval'' ''MEM-SKILL-0005'' 409),
        (\<not> fst (freshness P (clk 1) r (saved_bindings (kr_id r) db) (kd_store db)), skill_missing 409),
        (kr_base_active_revision r \<noteq> sk_active_revision s,
           skill_error ''The captured active Skill revision changed'' ''MEM-SKILL-0004'' 409)] ())
     (\<lambda>_. and_then (supersede_active clk actor s db) (\<lambda>db1. Inr (point_active (sk_id s) (Some (kr_revision r)) db1)))"

definition review_skill :: "platform \<Rightarrow> clock \<Rightarrow> string \<Rightarrow> dict \<Rightarrow> skdb \<Rightarrow> (skdb \<times> dict) outcome" where
  "review_skill P clk actor a db =
     (let action = action_of (arg_str a ''action''); expected = arg_int a ''expected_version''
      in case fetchrow (\<lambda>r. kr_id r = arg_uuid a ''revision_id'' \<and> kr_project_id r = arg_str a ''project_id'') (kd_revisions db) of
        None \<Rightarrow> Inl (skill_missing 404)
      | Some r \<Rightarrow> (case skill_replay r actor action expected db of
          Some e \<Rightarrow> Inr (db, skill_receipt (kr_id r) (ke_version e) (ke_applied_status e) True)
        | None \<Rightarrow>
            if skill_conflict r action expected
            then Inl (skill_error ''Skill review version or state conflicts'' ''MEM-SKILL-0004'' 409)
            else (case fetchrow (\<lambda>s. sk_id s = kr_skill_id r) (kd_skills db) of
                None \<Rightarrow> Inl (unhandled ''TypeError'')
              | Some s \<Rightarrow> and_then
                  (if action = A_approve then approve_revision P clk actor r s db
                   else Inr (if sk_active_revision s = Some (kr_revision r) then point_active (sk_id s) None db else db))
                  (\<lambda>db1. Inr (transition_revision (clk 3) r actor (action_str action) (action_after action) db1,
                     skill_receipt (kr_id r) (kr_version r + 1) (action_after action) False)))))"

subsection \<open>Invalidation\<close>

text \<open>The trigger \<open>invalidate_source_skills\<close>: \<open>x\<close> is the new row of a changed experience.\<close>

definition stale_target :: "experience \<Rightarrow> skdb \<Rightarrow> skill_revision \<Rightarrow> bool" where
  "stale_target x db r \<longleftrightarrow> kr_status r \<noteq> K_forgotten
     \<and> exists_row (\<lambda>s. ks_revision_id s = kr_id r \<and> ks_memory_id s = xp_id x
          \<and> (xp_status x = X_forgotten
             \<or> (kr_status r = K_pending \<or> kr_status r = K_active) \<and> (xp_status x \<noteq> X_active \<or> xp_version x \<noteq> ks_memory_version s)))
        (kd_sources db)"

definition stale_status :: "experience \<Rightarrow> skill_status" where
  "stale_status x = (if xp_status x = X_forgotten then K_forgotten else K_stale)"

definition invalidate_revision :: "time \<Rightarrow> experience \<Rightarrow> skill_revision \<Rightarrow> skdb \<Rightarrow> skdb" where
  "invalidate_revision now x r db =
     db\<lparr>kd_revisions := update_where (\<lambda>y. kr_id y = kr_id r) (moved_revision now (stale_status x)) (kd_revisions db),
        kd_skills := update_where (\<lambda>s. sk_id s = kr_skill_id r \<and> sk_active_revision s = Some (kr_revision r))
          (\<lambda>s. s\<lparr>sk_active_revision := None\<rparr>) (kd_skills db),
        kd_events := insert_row (skill_event_row r ''source-lifecycle'' ''invalidate'' (stale_status x) (Some (xp_id x)) now)
          (kd_events db)\<rparr>"

definition invalidate :: "time \<Rightarrow> experience \<Rightarrow> skdb \<Rightarrow> skdb" where
  "invalidate now x db = fold (invalidate_revision now x) (sort_key kr_id (filter (stale_target x db) (kd_revisions db))) db"

definition changed_memories :: "xdb \<Rightarrow> xdb \<Rightarrow> experience list" where
  "changed_memories old new = filter (\<lambda>x. exists_row (\<lambda>y. xp_id y = xp_id x
     \<and> (xp_status y \<noteq> xp_status x \<or> xp_version y \<noteq> xp_version x)) (xd_experiences old)) (xd_experiences new)"

text \<open>
  A transaction on the experiences that ends in \<open>new\<close>. It reads no skill, so the trigger may
  run after it; a row that two of its statements update is forgotten by the first of them,
  and the trigger of the second finds nothing left to do.
\<close>

definition memories_changed :: "time \<Rightarrow> xdb \<Rightarrow> skdb \<Rightarrow> skdb" where
  "memories_changed now new db =
     fold (invalidate now) (changed_memories (kd_store db) new) (db\<lparr>kd_gen := (kd_gen db)\<lparr>gd_store := new\<rparr>\<rparr>)"

subsection \<open>Reads\<close>

definition revision_columns :: "skill \<Rightarrow> skill_revision \<Rightarrow> dict" where
  "revision_columns s r =
     [(''skill_id'', PStr (uuid_str (kr_skill_id r))), (''project_id'', PStr (kr_project_id r)),
      (''revision'', PInt (int (kr_revision r))),
      (''base_active_revision'', (case kr_base_active_revision r of None \<Rightarrow> PNone | Some n \<Rightarrow> PInt (int n))),
      (''version'', PInt (int (kr_version r))), (''status'', PStr (skill_status_str (kr_status r))),
      (''origin'', PStr (origin_str (kr_origin r))), (''body'', PDict (kr_body r)),
      (''classification'', PStr (class_str (kr_classification r))), (''source_lock_digest'', PStr (kr_source_lock_digest r)),
      (''source_watermark'', PStr (kr_source_watermark r)), (''content_digest'', PStr (kr_content_digest r)),
      (''created_by'', PStr (kr_created_by r)), (''approved_at'', opt_iso (kr_approved_at r)),
      (''created_at'', PStr (isoformat (kr_created_at r))), (''updated_at'', PStr (isoformat (kr_updated_at r))),
      (''name'', PStr (sk_name s))]"

definition skill_hidden :: "dict \<Rightarrow> skill_revision \<Rightarrow> bool" where
  "skill_hidden a r \<longleftrightarrow> kr_status r \<noteq> K_active
     \<or> class_of (str_of (get_or a ''max_classification'' (PStr ''internal''))) < kr_classification r
     \<or> truthy (py_get a ''source_lock_digest'') \<and> py_get a ''source_lock_digest'' \<noteq> PStr (kr_source_lock_digest r)
     \<or> has_key a ''expected_version'' \<and> py_get a ''expected_version'' \<noteq> PInt (int (kr_version r))"

definition skill_event_dict :: "skill_event \<Rightarrow> dict" where
  "skill_event_dict e =
     [(''version'', PInt (int (ke_version e))), (''actor_id'', PStr (ke_actor_id e)), (''action'', PStr (ke_action e)),
      (''previous_status'', PStr (skill_status_str (ke_previous_status e))),
      (''applied_status'', PStr (skill_status_str (ke_applied_status e))), (''cause_memory_id'', opt_uuid (ke_cause_memory_id e)),
      (''created_at'', PStr (isoformat (ke_created_at e)))]"

definition get_skill :: "platform \<Rightarrow> time \<Rightarrow> bool \<Rightarrow> dict \<Rightarrow> skdb \<Rightarrow> dict outcome" where
  "get_skill P now admin a db =
     (case fetchrow (\<lambda>r. kr_id r = arg_uuid a ''revision_id'' \<and> kr_project_id r = arg_str a ''project_id''
             \<and> exists_row (\<lambda>s. sk_id s = kr_skill_id r) (kd_skills db)) (kd_revisions db) of
        None \<Rightarrow> Inl (skill_missing 404)
      | Some r \<Rightarrow> (case fetchrow (\<lambda>s. sk_id s = kr_skill_id r) (kd_skills db) of
            None \<Rightarrow> Inl (skill_missing 404)
          | Some s \<Rightarrow>
              let bs = saved_bindings (kr_id r) db; (fresh, evidence) = freshness P now r bs (kd_store db)
              in if \<not> admin \<and> (skill_hidden a r \<or> \<not> fresh) then Inl (skill_missing 404)
                 else Inr (revision_columns s r
                   @ [(''revision_id'', PStr (uuid_str (kr_id r))), (''sources'', PList (map PDict bs)), (''fresh'', PBool fresh)]
                   @ (if admin then
                        [(''source_evidence'', PList (if fresh then evidence else [])),
                         (''events'', PList (map (PDict \<circ> skill_event_dict)
                            (sort_key ke_version (filter (\<lambda>e. ke_revision_id e = kr_id r) (kd_events db)))))]
                      else []))))"

definition read_skill :: "platform \<Rightarrow> time \<Rightarrow> bool \<Rightarrow> dict \<Rightarrow> skdb \<Rightarrow> dict outcome" where
  "read_skill P now admin a db = and_then (get_skill P now admin a db) (\<lambda>d.
     Inr [(''skill'', PDict d), (''usage'', PStr (if admin then ''review_only'' else ''reference_only''))])"

definition revision_key :: "skill_revision \<Rightarrow> time \<times> uuid" where
  "revision_key r = (kr_created_at r, kr_id r)"

definition listed_revision :: "dict \<Rightarrow> skdb \<Rightarrow> skill_revision \<Rightarrow> bool" where
  "listed_revision a db r \<longleftrightarrow> kr_project_id r = arg_str a ''project_id''
     \<and> (truthy (py_get a ''skill_id'') \<longrightarrow> kr_skill_id r = arg_uuid a ''skill_id'')
     \<and> (truthy (py_get a ''skill_id'') \<and> \<not> has_key a ''status''
        \<or> skill_status_str (kr_status r) = str_of (get_or a ''status'' (PStr ''pending'')))
     \<and> exists_row (\<lambda>s. sk_id s = kr_skill_id r) (kd_skills db)"

definition revision_scope :: "dict \<Rightarrow> string list" where
  "revision_scope a =
     (let by_skill = truthy (py_get a ''skill_id'')
      in [''skills'', arg_str a ''project_id'', if by_skill then arg_str a ''skill_id'' else ''*'',
          str_of (get_or a ''status'' (PStr (if by_skill then ''*'' else ''pending'')))])"

definition list_revisions :: "dict \<Rightarrow> cursor option \<Rightarrow> skdb \<Rightarrow> skill_revision page outcome" where
  "list_revisions a c db =
     keyset_page revision_key (revision_scope a) c (nat (int_of (get_or a ''limit'' (PInt 10))))
       (filter (listed_revision a db) (kd_revisions db))"

subsection \<open>The guard of a row\<close>

text \<open>The trigger \<open>guard_skill_revision\<close> on an update.\<close>

definition revision_identity :: "skill_revision \<Rightarrow> skill_revision" where
  "revision_identity r = r\<lparr>kr_status := K_pending, kr_version := 0, kr_body := [], kr_approved_at := None, kr_updated_at := 0\<rparr>"

definition guard_skill_revision :: "skill_revision \<Rightarrow> skill_revision \<Rightarrow> bool" where
  "guard_skill_revision old new \<longleftrightarrow> revision_identity new = revision_identity old
     \<and> (kr_body new = kr_body old \<or> kr_status new = K_forgotten \<and> kr_body new = [])
     \<and> (kr_status old = K_forgotten \<longrightarrow> kr_status new = K_forgotten)
     \<and> (kr_approved_at old \<noteq> None \<longrightarrow> kr_approved_at new = kr_approved_at old)"

definition revision_row_ok :: "skill_revision \<Rightarrow> bool" where
  \<comment> \<open>the checks of the table\<close>
  "revision_row_ok r \<longleftrightarrow> 0 < kr_revision r \<and> 0 < kr_version r \<and> (kr_status r = K_forgotten \<longleftrightarrow> kr_body r = [])
     \<and> (kr_status r = K_active \<longrightarrow> kr_origin r = O_manual \<and> kr_approved_at r \<noteq> None)"

end
