(* ===== verification/Generation_Worker.thy ===== *)
theory Generation_Worker
  imports Skills Text_Codec
begin

text \<open>
  The offline worker (generation/worker.py), its deterministic extractor
  (generation/provider.py) and the scaffolding of skills (skills/generation.py). A job is
  prepared without a transaction, completed in one, and reported failed in another; the three
  may start in different states. \<open>clk n\<close> is the n-th sample of the database clock. \<open>T\<close> prints
  a JSON value that is not a string, as the operator \<open>->>\<close> of the database does.
\<close>

subsection \<open>Failures\<close>

datatype work_error = Generation_failure string bool | Timed_out | Tool_refused mem_error | Crashed

definition from_tool :: "'a outcome \<Rightarrow> work_error + 'a" where
  "from_tool r = (case r of Inl e \<Rightarrow> Inl (if err_code e = [] then Crashed else Tool_refused e) | Inr x \<Rightarrow> Inr x)"

fun failure_code :: "work_error \<Rightarrow> string \<times> bool" where
  "failure_code (Generation_failure c retryable) = (c, retryable)"
| "failure_code Timed_out = (''timeout'', True)"
| "failure_code (Tool_refused e) = (''invalid_candidate'', False)"
| "failure_code Crashed = (''processing_failed'', True)"

definition generation_failure :: "string \<Rightarrow> work_error" where
  "generation_failure c = Generation_failure c False"

subsection \<open>The extractor\<close>

record extraction =
  ei_summary :: string
  ei_objective :: string
  ei_result_status :: string

record candidate =
  ca_kind :: string
  ca_title :: string
  ca_content :: string

text \<open>Code points below 256 that a regular expression counts as part of a word.\<close>

definition word_char :: "char \<Rightarrow> bool" where
  "word_char c \<longleftrightarrow> upper_char c \<or> lower_char c \<or> digit c \<or> c = CHR ''_''
     \<or> (let n = of_char c :: nat in n \<in> set [170, 178, 179, 181, 185, 186, 188, 189, 190]
          \<or> 192 \<le> n \<and> n \<noteq> 215 \<and> n \<noteq> 247)"

text \<open>A search in which the pattern also sees the character before its place.\<close>

fun search_from :: "(char option \<Rightarrow> char list \<Rightarrow> bool) \<Rightarrow> char option \<Rightarrow> char list \<Rightarrow> bool" where
  "search_from m before [] = m before []"
| "search_from m before (c # r) = (m before (c # r) \<or> search_from m (Some c) r)"

definition word_start :: "char option \<Rightarrow> bool" where
  "word_start before \<longleftrightarrow> (case before of None \<Rightarrow> True | Some c \<Rightarrow> \<not> word_char c)"

definition some_text :: "char list \<Rightarrow> bool" where
  "some_text s \<longleftrightarrow> s \<noteq> [] \<and> \<not> py_space (hd s)"

definition SECRET_NAMES :: "string list" where
  "SECRET_NAMES = [''password'', ''passwd'', ''apikey'', ''api_key'', ''api-key'', ''secret'', ''token'']"

definition assigned_at :: "char list \<Rightarrow> bool" where
  "assigned_at s \<longleftrightarrow> s \<noteq> [] \<and> (hd s = CHR '':'' \<or> hd s = CHR ''='') \<and> after_run py_space some_text (tl s)"

definition secret_at :: "char option \<Rightarrow> char list \<Rightarrow> bool" where
  "secret_at before s \<longleftrightarrow> word_start before
     \<and> list_ex (\<lambda>k. starts_with k s \<and> after_run py_space assigned_at (drop (length k) s)) SECRET_NAMES"

definition bearer_at :: "char option \<Rightarrow> char list \<Rightarrow> bool" where
  "bearer_at before s \<longleftrightarrow> word_start before \<and> starts_with ''bearer'' s
     \<and> (case drop 6 s of [] \<Rightarrow> False | c # r \<Rightarrow> py_space c \<and> after_run py_space some_text r)"

definition key_block_at :: "char list \<Rightarrow> bool" where
  "key_block_at s \<longleftrightarrow> list_ex (\<lambda>k. starts_with (''-----begin '' @ k @ ''private key-----'') s)
     [[], ''rsa '', ''ec '', ''openssh '']"

definition sensitive :: "string \<Rightarrow> bool" where
  "sensitive s = search_from (\<lambda>before t. key_block_at t \<or> secret_at before t \<or> bearer_at before t) None (ascii_lower s)"

record extractor =
  pv_recipe :: string
  pv_extract :: "extraction \<Rightarrow> work_error + candidate option"

definition structured_extract :: "unicode \<Rightarrow> extraction \<Rightarrow> work_error + candidate option" where
  "structured_extract U x =
     (let content = py_strip (nfc U (ei_summary x)); found = take 200 (py_strip (nfc U (ei_objective x)));
          title = (if found = [] then ''Recorded work result'' else found)
      in if sensitive (content @ [char_of (10 :: nat)] @ title) then Inl (generation_failure ''sensitive_source'')
         else Inr (if content = [] then None
                   else Some \<lparr>ca_kind = ''fact'', ca_title = title, ca_content = content\<rparr>))"

definition structured_extractor :: "unicode \<Rightarrow> extractor" where
  "structured_extractor U = \<lparr>pv_recipe = RECIPE, pv_extract = structured_extract U\<rparr>"

subsection \<open>Sources of a job\<close>

definition json_text :: "(pyval \<Rightarrow> string) \<Rightarrow> pyval \<Rightarrow> string option" where
  "json_text T v = (case v of PNone \<Rightarrow> None | PStr s \<Rightarrow> Some s | _ \<Rightarrow> Some (T v))"

definition job_source :: "gen_job \<Rightarrow> xdb \<Rightarrow> handoff option" where
  "job_source j db = fetchrow (\<lambda>h. h_project_id h = gj_project_id j \<and> h_id h = uuid_of (gj_source_key j)) (xd_handoffs db)"

definition check_source :: "platform \<Rightarrow> gen_job \<Rightarrow> handoff option \<Rightarrow> work_error + handoff" where
  "check_source P j found =
     (case found of None \<Rightarrow> Inl (generation_failure ''source_changed'')
      | Some h \<Rightarrow> checked [(hc_payload_digest (h_content h) \<noteq> gj_source_watermark j
           \<or> PStr (source_watermark P h) \<noteq> py_get (gj_parameters j) ''source_binding'',
           generation_failure ''source_changed'')] h)"

definition left_text :: "(pyval \<Rightarrow> string) \<Rightarrow> pyval \<Rightarrow> string \<Rightarrow> int \<Rightarrow> string" where
  \<comment> \<open>\<open>left(v->>k, n)\<close>, a missing value read as the empty text\<close>
  "left_text T v k n = (case json_text T (py_get (dict_of v) k) of None \<Rightarrow> [] | Some s \<Rightarrow> take (nat n) s)"

definition extraction_of :: "(pyval \<Rightarrow> string) \<Rightarrow> int \<Rightarrow> handoff \<Rightarrow> extraction" where
  "extraction_of T limit h = \<lparr>ei_summary = left_text T (hc_result_envelope (h_content h)) ''summary'' (limit + 1),
     ei_objective = left_text T (hc_task_envelope (h_content h)) ''objective'' 201,
     ei_result_status = hc_result_status (h_content h)\<rparr>"

subsection \<open>Scaffolds\<close>

definition SCAFFOLD_RECIPE :: string where
  "SCAFFOLD_RECIPE = ''local_structured/skill-scaffold-v1/no-prompt''"

definition generation_actor :: "gen_job \<Rightarrow> string" where
  "generation_actor j = ''generation:'' @ uuid_str (gj_id j)"

definition scaffold_body :: "pyval list \<Rightarrow> dict" where
  "scaffold_body refs =
     [(''title'', PStr ''Procedure Skill scaffold''),
      (''description'', PStr ''Human authoring required: derive a scoped procedure from the approved evidence.''),
      (''triggers'', strs [''Replace this scaffold with concrete applicability conditions before review.'']),
      (''steps'', PList (map (\<lambda>v. PDict
         [(''instruction'', PStr ''Inspect the bound source as evidence and author a concrete, authorized step.''),
          (''sources'', PList [py_get (dict_of v) ''memory_id''])]) refs)),
      (''validation'', strs [''Replace this scaffold with observable success and failure criteria.''])]"

definition scaffold :: "gen_job \<Rightarrow> work_error + dict" where
  "scaffold j =
     (let refs = list_of (py_get (gj_parameters j) ''sources'')
      in checked [(gj_recipe j \<noteq> SCAFFOLD_RECIPE, generation_failure ''unsupported_recipe'')]
        [(''project_id'', PStr (gj_project_id j)),
         (''name'', PStr (''draft-'' @ filter (\<lambda>c. c \<noteq> CHR ''-'') (uuid_str (gj_id j)))),
         (''idempotency_key'', PStr (generation_actor j)), (''sources'', PList refs), (''body'', PDict (scaffold_body refs))])"

text \<open>\<open>skills.generation.enqueue\<close>: a scaffold job for exactly captured sources.\<close>

definition enqueue_scaffold :: "platform \<Rightarrow> settings \<Rightarrow> clock \<Rightarrow> uuid \<Rightarrow> string \<Rightarrow> dict \<Rightarrow> gdb \<Rightarrow> (gdb \<times> dict) outcome" where
  "enqueue_scaffold P s clk i actor a db =
     and_then (skill_refs (list_of (py_get a ''sources''))) (\<lambda>refs.
     and_then (capture_sources P (clk 1) (arg_str a ''project_id'') (map ref_dict refs) (gd_store db)) (\<lambda>c.
       let params = [(''sources'', PList (map ref_dict refs)), (''max_input_chars'', PInt (generation_max_input_chars s)),
             (''max_output_chars'', PInt (generation_max_output_chars s)), (''cost_budget_microusd'', PInt 0)];
           (db1, job) = insert_job i (clk 0) (arg_str a ''project_id'') G_skill (digest P (PList (map ref_dict refs)))
             (cp_watermark c) SCAFFOLD_RECIPE params actor db
       in Inr (db1, [(''job'', PDict job)])))"

subsection \<open>Preparation\<close>

text \<open>What the preparation hands to the completing transaction.\<close>

datatype product = Scaffold dict | Manifest pyval | Quoted "candidate option"

type_synonym counts = "int \<times> int"

definition min_param :: "int \<Rightarrow> gen_job \<Rightarrow> string \<Rightarrow> int" where
  "min_param configured j k = min configured (arg_int (gj_parameters j) k)"

definition prepare_scaffold :: "platform \<Rightarrow> settings \<Rightarrow> gen_job \<Rightarrow> counts \<times> (work_error + product)" where
  "prepare_scaffold P s j =
     (case scaffold j of
        Inl e \<Rightarrow> ((0, 0), Inl e)
      | Inr a \<Rightarrow>
          let inp = int (text_size P (PDict (gj_parameters j))); out = int (text_size P (py_get a ''body''))
          in ((inp, out), checked
            [(min_param (generation_max_input_chars s) j ''max_input_chars'' < inp, generation_failure ''input_budget''),
             (min_param (generation_max_output_chars s) j ''max_output_chars'' < out, generation_failure ''output_budget'')]
            (Scaffold a)))"

definition prepare_manifest :: "platform \<Rightarrow> time \<Rightarrow> gen_job \<Rightarrow> skdb \<Rightarrow> counts \<times> (work_error + product)" where
  "prepare_manifest P now j db =
     (let current = materialize P now (gj_project_id j) (gj_parameters j) (kd_store db)
      in ((0, 0), checked [(gj_recipe j \<noteq> SUMMARY_RECIPE, generation_failure ''unsupported_recipe''),
           (sv_source_watermark current \<noteq> gj_source_watermark j, generation_failure ''source_changed'')]
           (Manifest (sv_dependencies current))))"

definition prepare_quote ::
    "platform \<Rightarrow> (pyval \<Rightarrow> string) \<Rightarrow> settings \<Rightarrow> extractor \<Rightarrow> gen_job \<Rightarrow> skdb \<Rightarrow> counts \<times> (work_error + product)" where
  "prepare_quote P T s pv j db =
     (let most_in = min_param (generation_max_input_chars s) j ''max_input_chars'';
          most_out = min_param (generation_max_output_chars s) j ''max_output_chars''
      in case and_then (checked [(gj_recipe j \<noteq> RECIPE \<or> pv_recipe pv \<noteq> RECIPE
                 \<or> arg_int (gj_parameters j) ''cost_budget_microusd'' \<noteq> 0, generation_failure ''unsupported_recipe'')] ())
               (\<lambda>_. check_source P j (job_source j (kd_store db))) of
           Inl e \<Rightarrow> ((0, 0), Inl e)
         | Inr h \<Rightarrow>
             let x = extraction_of T most_in h; inp = int (length (ei_summary x) + length (ei_objective x))
             in if most_in < inp then ((inp, 0), Inl (generation_failure ''input_budget''))
                else (case pv_extract pv x of
                    Inl e \<Rightarrow> ((inp, 0), Inl e)
                  | Inr c \<Rightarrow>
                      let out = (case c of None \<Rightarrow> 0 | Some y \<Rightarrow> int (length (ca_title y) + length (ca_content y)))
                      in ((inp, out), checked [(most_out < out, generation_failure ''output_budget'')] (Quoted c))))"

definition prepare_work ::
    "platform \<Rightarrow> (pyval \<Rightarrow> string) \<Rightarrow> time \<Rightarrow> settings \<Rightarrow> extractor \<Rightarrow> gen_job \<Rightarrow> skdb \<Rightarrow> counts \<times> (work_error + product)" where
  "prepare_work P T now s pv j db =
     (case gj_kind j of
        G_skill \<Rightarrow> prepare_scaffold P s j
      | G_summary \<Rightarrow> prepare_manifest P now j db
      | G_extract \<Rightarrow> prepare_quote P T s pv j db)"

subsection \<open>Completion\<close>

definition enum_schema :: "string list \<Rightarrow> dict" where
  "enum_schema vs = [(''enum'', strs vs)]"

definition KIND_SCHEMA :: pyval where
  "KIND_SCHEMA = PDict (enum_schema [''fact'', ''decision'', ''constraint'', ''lesson'', ''procedure''])"

definition DATE_SCHEMA :: pyval where
  "DATE_SCHEMA = PDict [(''type'', PStr ''string''), (''format'', PStr ''date-time''), (''maxLength'', PInt 64)]"

definition EXPERIENCE_BODY :: dict where
  "EXPERIENCE_BODY =
     [(''source_handoff_id'', UUID_SCHEMA), (''idempotency_key'', text_upto 128), (''kind'', KIND_SCHEMA),
      (''title'', text_upto 200), (''content'', text_upto 4096), (''tags'', unique_schema 0 16 (text_upto 64)),
      (''valid_from'', DATE_SCHEMA), (''expires_at'', DATE_SCHEMA)]"

definition PROPOSE_SCHEMA :: pyval where
  "PROPOSE_SCHEMA = closed_object [''project_id'', ''source_handoff_id'', ''idempotency_key'', ''kind'', ''title'', ''content'']
     ((''project_id'', text_upto 128) # EXPERIENCE_BODY)"

definition invalid_arguments :: mem_error where
  \<comment> \<open>without the list of violations\<close>
  "invalid_arguments = (memory_tool_error ''Tool arguments failed schema validation'' ''MEM-TOOL-0002'' [] 400)\<lparr>err_rpc := -32602\<rparr>"

definition proposal_of :: "gen_job \<Rightarrow> candidate \<Rightarrow> dict" where
  "proposal_of j c =
     [(''project_id'', PStr (gj_project_id j)), (''source_handoff_id'', PStr (gj_source_key j)),
      (''idempotency_key'', PStr (generation_actor j)), (''kind'', PStr (ca_kind c)), (''title'', PStr (ca_title c)),
      (''content'', PStr (ca_content c))]"

definition protected_source :: "gen_job \<Rightarrow> handoff \<Rightarrow> xdb \<Rightarrow> bool" where
  \<comment> \<open>somebody rejected a claim on this payload, or corrected one\<close>
  "protected_source j h db \<longleftrightarrow>
     exists_row (\<lambda>p. sp_project_id p = gj_project_id j \<and> sp_source_payload_digest p = hc_payload_digest (h_content h)
        \<and> sp_released_at p = None) (xd_suppressions db)
     \<or> exists_row (\<lambda>x. xp_project_id x = gj_project_id j \<and> xp_source_payload_digest x = hc_payload_digest (h_content h)
        \<and> xp_is_correction x) (xd_experiences db)"

definition duplicate_of :: "unicode \<Rightarrow> platform \<Rightarrow> gen_job \<Rightarrow> handoff \<Rightarrow> candidate \<Rightarrow> xdb \<Rightarrow> experience option" where
  "duplicate_of U P j h c db = fetchrow (\<lambda>x. xp_project_id x = gj_project_id j
     \<and> xp_source_payload_digest x = hc_payload_digest (h_content h)
     \<and> xp_content_fingerprint x = fingerprint_of U P (ca_kind c) (ca_content c)) (xd_experiences db)"

definition set_memories :: "xdb \<Rightarrow> skdb \<Rightarrow> skdb" where
  "set_memories x db = db\<lparr>kd_gen := (kd_gen db)\<lparr>gd_store := x\<rparr>\<rparr>"

text \<open>The state, the code of the outcome and its other entries.\<close>

type_synonym applied = "skdb \<times> string \<times> dict"

definition apply_quote ::
    "unicode \<Rightarrow> platform \<Rightarrow> clock \<Rightarrow> uuid \<Rightarrow> gen_job \<Rightarrow> candidate option \<Rightarrow> skdb \<Rightarrow> work_error + applied" where
  "apply_quote U P clk i j found db =
     and_then (check_source P j (job_source j (kd_store db))) (\<lambda>h.
       if protected_source j h (kd_store db) then Inr (db, ''protected_source'', [])
       else (case found of
           None \<Rightarrow> Inr (db, ''empty'', [])
         | Some c \<Rightarrow>
             and_then (checked [(\<not> schema_valid P PROPOSE_SCHEMA (PDict (proposal_of j c)), Tool_refused invalid_arguments)] ()) (\<lambda>_.
             case duplicate_of U P j h c (kd_store db) of
               Some x \<Rightarrow> Inr (db, ''duplicate'', [(''memory_id'', PStr (uuid_str (xp_id x)))])
             | None \<Rightarrow> and_then (from_tool (propose_experience U P clk i (generation_actor j) (proposal_of j c) (kd_store db)))
                 (\<lambda>(x, receipt). Inr (set_memories x db, ''proposed'', [(''memory_id'', py_get receipt ''memory_id'')])))))"

definition apply_manifest :: "platform \<Rightarrow> clock \<Rightarrow> gen_job \<Rightarrow> pyval \<Rightarrow> skdb \<Rightarrow> work_error + applied" where
  "apply_manifest P clk j deps db =
     (let current = materialize P (clk 1) (gj_project_id j) (gj_parameters j) (kd_store db)
      in if sv_source_watermark current \<noteq> gj_source_watermark j \<or> deps \<noteq> sv_dependencies current
         then Inl (generation_failure ''source_changed'')
         else if exists_row (\<lambda>s. ss_job_id s = gj_id j) (gd_snapshots (kd_gen db)) then Inl Crashed
         else Inr (db\<lparr>kd_gen := (kd_gen db)\<lparr>gd_snapshots := insert_row
                 \<lparr>ss_job_id = gj_id j, ss_project_id = gj_project_id j, ss_source_watermark = gj_source_watermark j,
                  ss_scope = gj_parameters j, ss_source_count = sv_source_count current,
                  ss_dependencies = sv_dependencies current, ss_created_at = clk 2\<rparr> (gd_snapshots (kd_gen db))\<rparr>\<rparr>,
               ''snapshot'', [(''source_count'', PInt (int (sv_source_count current))),
                 (''captured_count'', PInt (int (length (list_of deps))))]))"

definition apply_scaffold ::
    "unicode \<Rightarrow> platform \<Rightarrow> clock \<Rightarrow> uuid \<Rightarrow> uuid \<Rightarrow> gen_job \<Rightarrow> dict \<Rightarrow> skdb \<Rightarrow> work_error + applied" where
  "apply_scaffold U P clk si i j a db =
     (case capture_sources P (clk 1) (gj_project_id j) (list_of (py_get (gj_parameters j) ''sources'')) (kd_store db) of
        Inl e \<Rightarrow> Inl (generation_failure ''source_changed'')
      | Inr c \<Rightarrow>
          if cp_watermark c \<noteq> gj_source_watermark j then Inl (generation_failure ''source_changed'')
          else and_then (from_tool (submit_skill U P (\<lambda>n. clk (n + 1)) si i (generation_actor j) O_generated a db))
            (\<lambda>(db1, receipt). Inr (db1, ''skill_proposed'', receipt)))"

definition apply_product ::
    "unicode \<Rightarrow> platform \<Rightarrow> clock \<Rightarrow> uuid \<Rightarrow> uuid \<Rightarrow> gen_job \<Rightarrow> product \<Rightarrow> skdb \<Rightarrow> work_error + applied" where
  "apply_product U P clk si i j w db =
     (case w of
        Scaffold a \<Rightarrow> apply_scaffold U P clk si i j a db
      | Manifest deps \<Rightarrow> apply_manifest P clk j deps db
      | Quoted c \<Rightarrow> apply_quote U P clk i j c db)"

definition outcome_dict :: "string \<Rightarrow> counts \<Rightarrow> dict \<Rightarrow> dict" where
  "outcome_dict c n extra = [(''code'', PStr c), (''input_chars'', PInt (fst n)), (''output_chars'', PInt (snd n)),
     (''cost_microusd'', PInt 0)] @ extra"

definition work_answer :: "gen_job \<Rightarrow> string \<Rightarrow> dict \<Rightarrow> dict" where
  "work_answer j status extra = [(''job_id'', PStr (uuid_str (gj_id j))), (''status'', PStr status)] @ extra"

definition complete_work ::
    "unicode \<Rightarrow> platform \<Rightarrow> clock \<Rightarrow> uuid \<Rightarrow> uuid \<Rightarrow> gen_job \<Rightarrow> product \<Rightarrow> counts \<Rightarrow> skdb \<Rightarrow> work_error + skdb \<times> dict" where
  "complete_work U P clk si i j w n db =
     (if \<not> job_fenced (clk 1) j (kd_gen db) then Inr (db, work_answer j ''lease_lost'' [])
      else and_then (apply_product U P (\<lambda>n. clk (n + 1)) si i j w db) (\<lambda>(db1, c, extra).
        let result = outcome_dict c n extra
        in case finish_job (\<lambda>n. clk (n + 10)) j c result (fst n) (snd n) (kd_gen db1) of
             None \<Rightarrow> Inl (generation_failure ''lease_lost'')
           | Some g \<Rightarrow> Inr (db1\<lparr>kd_gen := g\<rparr>, work_answer j ''succeeded'' result)))"

subsection \<open>Processing\<close>

text \<open>
  \<open>process\<close>: it reads \<open>seen\<close>, completes in \<open>db\<close> and reports a failure in \<open>later\<close>. \<open>stop\<close> is the
  expiry of the time budget before a commit, with the counts reached by then.
\<close>

definition process_job ::
    "unicode \<Rightarrow> platform \<Rightarrow> (pyval \<Rightarrow> string) \<Rightarrow> clock \<Rightarrow> uuid \<Rightarrow> uuid \<Rightarrow> settings \<Rightarrow> extractor \<Rightarrow> gen_job \<Rightarrow> counts option
      \<Rightarrow> skdb \<Rightarrow> skdb \<Rightarrow> skdb \<Rightarrow> skdb \<times> dict" where
  "process_job U P T clk si i s pv j stop seen db later =
     (let (n, r) = (case stop of
            Some reached \<Rightarrow> (reached, Inl Timed_out)
          | None \<Rightarrow> let (n, w) = prepare_work P T (clk 0) s pv j seen
                    in (n, and_then w (\<lambda>w. complete_work U P (\<lambda>n. clk (n + 1)) si i j w n db)))
      in case r of
           Inr done \<Rightarrow> done
         | Inl e \<Rightarrow>
             let (c, retryable) = failure_code e;
                 (g, applied) = fail_job (\<lambda>n. clk (n + 20)) j c retryable (fst n) (snd n) (kd_gen later)
             in (later\<lparr>kd_gen := g\<rparr>, work_answer j (if applied then ''failed'' else ''lease_lost'') [(''error_code'', PStr c)]))"

text \<open>
  \<open>run\<close>: at most \<open>n\<close> jobs, one after the other. A job brings the identifiers, the clock and
  the fate of its processing; nothing else runs in between.
\<close>

record work_env =
  we_clock :: clock
  we_token :: uuid
  we_skill :: uuid
  we_id :: uuid
  we_stop :: "counts option"

fun work_loop ::
    "unicode \<Rightarrow> platform \<Rightarrow> (pyval \<Rightarrow> string) \<Rightarrow> (nat \<Rightarrow> work_env) \<Rightarrow> settings \<Rightarrow> string \<Rightarrow> nat \<Rightarrow> skdb \<Rightarrow> skdb \<times> dict list" where
  "work_loop U P T env s project 0 db = (db, [])"
| "work_loop U P T env s project (Suc n) db =
     (let e = env 0; (g, got) = claim_job (we_clock e) (we_token e) project (generation_lease_seconds s) (kd_gen db);
          db1 = db\<lparr>kd_gen := g\<rparr>
      in case got of
           None \<Rightarrow> (db1, [])
         | Some j \<Rightarrow>
             let (db2, r) = process_job U P T (\<lambda>n. we_clock e (n + 10)) (we_skill e) (we_id e) s (structured_extractor U) j
                   (we_stop e) db1 db1 db1;
                 (db3, rs) = work_loop U P T (\<lambda>n. env (Suc n)) s project n db2
             in (db3, r # rs))"

definition run_worker ::
    "unicode \<Rightarrow> platform \<Rightarrow> (pyval \<Rightarrow> string) \<Rightarrow> (nat \<Rightarrow> work_env) \<Rightarrow> settings \<Rightarrow> string \<Rightarrow> int \<Rightarrow> skdb \<Rightarrow> (skdb \<times> dict) outcome" where
  "run_worker U P T env s project max_jobs db =
     (if \<not> generation_enabled s
      then Inl (memory_tool_error ''Generation worker is disabled; explicitly enable generation.enabled'' ''MEM-GENERATION-0001'' [] 400)
      else if py_strip project = [] \<or> 128 < length project \<or> max_jobs < 1 \<or> 100 < max_jobs then Inl (unhandled ''ValueError'')
      else let (db1, rs) = work_loop U P T env s project (nat max_jobs) db
           in Inr (db1, [(''project_id'', PStr project), (''processed'', PInt (int (length rs))),
                (''results'', PList (map PDict rs)), (''cost_microusd'', PInt 0)]))"

end
