(* ===== verification/Experience_Tables.thy ===== *)
theory Experience_Tables
  imports Experience_Props Generation_Worker
begin

text \<open>
  The tables of the experiences under every transaction of the service: the keys, the checks
  and the foreign keys of the migrations 004 and 005 (C36). A transaction is a call of the
  service with arguments the schema of its tool accepts; \<open>Experience_Props\<close> has the
  invariant of the single transactions it builds on.
\<close>

subsection \<open>Accepted arguments\<close>

text \<open>The schema of \<open>memory_experience_revise\<close>; that of the proposal is \<open>PROPOSE_SCHEMA\<close>.\<close>

definition EXPECTED_VERSION :: pyval where
  "EXPECTED_VERSION = PDict [(''type'', PStr ''integer''), (''minimum'', PInt 1), (''maximum'', PInt 2147483646)]"

definition REVISE_SCHEMA :: pyval where
  "REVISE_SCHEMA = closed_object [''project_id'', ''memory_id'', ''expected_version'', ''idempotency_key'', ''kind'', ''title'', ''content'']
     ((''project_id'', text_upto 128) # EXPERIENCE_BODY @ [(''memory_id'', UUID_SCHEMA), (''expected_version'', EXPECTED_VERSION)])"

definition EXPERIENCE_KINDS :: "string list" where
  "EXPERIENCE_KINDS = [''fact'', ''decision'', ''constraint'', ''lesson'', ''procedure'']"

definition has_text :: "string \<Rightarrow> bool" where
  \<comment> \<open>the pattern \<open>\S\<close>\<close>
  "has_text s \<longleftrightarrow> list_ex (\<lambda>c. \<not> py_space c) s"

definition proposal_shape :: "dict \<Rightarrow> bool" where
  "proposal_shape a \<longleftrightarrow> arg_str a ''kind'' \<in> set EXPERIENCE_KINDS \<and> has_text (arg_str a ''title'') \<and> has_text (arg_str a ''content'')
     \<and> length (arg_strs a ''tags'') \<le> 16"

text \<open>
  What the service relies on of the validator, which accepts only what the two schemas
  describe, and of the normal form C, which leaves no text blank.
\<close>

definition proposals_checked :: "platform \<Rightarrow> bool" where
  "proposals_checked P \<longleftrightarrow> (\<forall>a. schema_valid P PROPOSE_SCHEMA (PDict a) \<or> schema_valid P REVISE_SCHEMA (PDict a) \<longrightarrow> proposal_shape a)"

definition keeps_text :: "unicode \<Rightarrow> bool" where
  "keeps_text U \<longleftrightarrow> (\<forall>s. has_text s \<longrightarrow> has_text (nfc U s))"

subsection \<open>The constraints\<close>

text \<open>\<open>ck_experience_revision\<close>, \<open>ck_experience_validity\<close> and \<open>ck_experience_forgotten\<close>.\<close>

definition revision_check :: "experience \<Rightarrow> bool" where
  "revision_check x \<longleftrightarrow>
     xp_supersedes_id x = None \<and> xp_supersedes_version x = None \<and> xp_revision_root_id x = None \<and> xp_revision_number x = 1
       \<and> \<not> xp_is_correction x
     \<or> (\<exists>j v r. xp_supersedes_id x = Some j \<and> j \<noteq> xp_id x \<and> xp_supersedes_version x = Some v \<and> 1 \<le> v
         \<and> xp_revision_root_id x = Some r \<and> r \<noteq> xp_id x \<and> 1 < xp_revision_number x \<and> xp_is_correction x)"

definition validity_check :: "experience \<Rightarrow> bool" where
  "validity_check x \<longleftrightarrow> (\<forall>v e. xp_valid_from x = Some v \<and> xp_expires_at x = Some e \<longrightarrow> v < e)"

definition forgotten_check :: "experience \<Rightarrow> bool" where
  "forgotten_check x \<longleftrightarrow>
     xp_status x = X_forgotten \<and> xp_source_handoff_id x = None \<and> xp_source x = [] \<and> xp_title x = ''[forgotten]''
       \<and> xp_content x = ''[forgotten]'' \<and> xp_tags x = [] \<and> xp_search_text x = []
     \<or> xp_status x \<noteq> X_forgotten \<and> xp_source_handoff_id x \<noteq> None"

text \<open>All checks of a row, of an event and of a suppression.\<close>

definition row_checks :: "experience \<Rightarrow> bool" where
  "row_checks x \<longleftrightarrow> xp_kind x \<in> set EXPERIENCE_KINDS \<and> 1 \<le> xp_version x
     \<and> 1 \<le> length (xp_title x) \<and> length (xp_title x) \<le> 200 \<and> 1 \<le> length (xp_content x) \<and> length (xp_content x) \<le> 4096
     \<and> length (xp_tags x) \<le> 16 \<and> revision_check x \<and> validity_check x \<and> forgotten_check x"

definition event_checks :: "exp_event \<Rightarrow> bool" where
  "event_checks e \<longleftrightarrow> 2 \<le> xe_version e \<and>
     (xe_action e = A_approve \<and> xe_previous_status e = X_pending \<and> xe_applied_status e = X_active
      \<or> xe_action e = A_reject \<and> xe_previous_status e = X_pending \<and> xe_applied_status e = X_rejected
      \<or> xe_action e = A_archive \<and> xe_previous_status e = X_active \<and> xe_applied_status e = X_archived
      \<or> xe_action e = A_supersede \<and> xe_previous_status e = X_active \<and> xe_applied_status e = X_superseded
      \<or> xe_action e = A_forget \<and> xe_previous_status e \<noteq> X_forgotten \<and> xe_applied_status e = X_forgotten)"

definition suppression_key :: "suppression \<Rightarrow> string \<times> string \<times> string" where
  "suppression_key s = (sp_project_id s, sp_source_payload_digest s, sp_content_fingerprint s)"

definition suppression_checks :: "suppression \<Rightarrow> bool" where
  "suppression_checks s \<longleftrightarrow> sp_reason s \<in> {X_rejected, X_superseded, X_forgotten} \<and> 1 \<le> sp_version s"

text \<open>The foreign keys: of a row to its source, its parent and its root, and of the other tables to a row.\<close>

definition row_at :: "string \<Rightarrow> uuid \<Rightarrow> xdb \<Rightarrow> bool" where
  "row_at project i db \<longleftrightarrow> (\<exists>x \<in> set (xd_experiences db). xp_id x = i \<and> xp_project_id x = project)"

definition source_at :: "string \<Rightarrow> uuid \<Rightarrow> xdb \<Rightarrow> bool" where
  "source_at project i db \<longleftrightarrow> (\<exists>h \<in> set (xd_handoffs db). h_id h = i \<and> h_project_id h = project)"

definition exp_references :: "xdb \<Rightarrow> bool" where
  "exp_references db \<longleftrightarrow>
     (\<forall>x \<in> set (xd_experiences db).
        (\<forall>i. xp_source_handoff_id x = Some i \<longrightarrow> source_at (xp_project_id x) i db)
        \<and> (\<forall>i. xp_supersedes_id x = Some i \<longrightarrow> row_at (xp_project_id x) i db)
        \<and> (\<forall>i. xp_revision_root_id x = Some i \<longrightarrow> row_at (xp_project_id x) i db))
     \<and> (\<forall>e \<in> set (xd_events db). \<exists>x \<in> set (xd_experiences db). xp_id x = xe_memory_id e)
     \<and> (\<forall>s \<in> set (xd_suppressions db). \<exists>x \<in> set (xd_experiences db). xp_id x = sp_memory_id s)"

definition exp_tables :: "xdb \<Rightarrow> bool" where
  "exp_tables db \<longleftrightarrow> (\<forall>x \<in> set (xd_experiences db). row_checks x) \<and> (\<forall>e \<in> set (xd_events db). event_checks e)
     \<and> (\<forall>s \<in> set (xd_suppressions db). suppression_checks s) \<and> distinct (map suppression_key (xd_suppressions db))
     \<and> exp_references db"

subsection \<open>Transactions\<close>

text \<open>A call of the service; no statement of the program deletes a handoff or changes its project.\<close>

definition handoffs_kept :: "handoff list \<Rightarrow> handoff list \<Rightarrow> bool" where
  "handoffs_kept old new \<longleftrightarrow> (\<forall>h \<in> set old. \<exists>k \<in> set new. h_id k = h_id h \<and> h_project_id k = h_project_id h)"

inductive exp_transaction :: "unicode \<Rightarrow> platform \<Rightarrow> clock \<Rightarrow> xdb \<Rightarrow> xdb \<Rightarrow> bool" for U P where
  et_propose: "schema_valid P PROPOSE_SCHEMA (PDict a) \<Longrightarrow> propose_experience U P clk i actor a db = Inr (db', res)
    \<Longrightarrow> i \<notin> xp_id ` set (xd_experiences db) \<Longrightarrow> exp_transaction U P clk db db'"
| et_revise: "schema_valid P REVISE_SCHEMA (PDict a) \<Longrightarrow> revise_experience U P clk i actor a db = Inr (db', res)
    \<Longrightarrow> i \<notin> xp_id ` set (xd_experiences db) \<Longrightarrow> exp_transaction U P clk db db'"
| et_review: "review_experience clk actor a db = Inr (db', res) \<Longrightarrow> exp_transaction U P clk db db'"
| et_release: "release_experience clk actor a db = Inr (db', res) \<Longrightarrow> exp_transaction U P clk db db'"
| et_handoffs: "handoffs_kept (xd_handoffs db) hs \<Longrightarrow> exp_transaction U P clk db (db\<lparr>xd_handoffs := hs\<rparr>)"

lemma action_of_no_supersede [simp]: "action_of s \<noteq> A_supersede"
  by (simp add: action_of_def)

lemma submit_propose:
  assumes "submit U P clk i actor a c db = Inr (db', res)"
  obtains m s where "exp_material_of U P a c = Inr m" "propose clk i s db = Inr (db', res)"
    "sb_kind s = em_kind m" "sb_title s = em_title m" "sb_content s = em_content m" "sb_tags s = em_tags m"
proof -
  obtain m where m: "exp_material_of U P a c = Inr m" using assms by (auto simp: submit_def and_then_Inr_iff)
  show thesis
    by (rule that [OF m, of "\<lparr>sb_project_id = arg_str a ''project_id'', sb_actor_id = actor, sb_source_handoff_id = em_source m,
          sb_idempotency_key = arg_str a ''idempotency_key'', sb_kind = em_kind m, sb_title = em_title m,
          sb_content = em_content m, sb_tags = em_tags m,
          sb_search_text = search_fold U (join '' '' (em_title m # em_content m # em_tags m)),
          sb_submission_digest = digest P (PDict (material_dict m)),
          sb_content_fingerprint = fingerprint_of U P (em_kind m) (em_content m),
          sb_expires_at = em_expires_at m, sb_valid_from = em_valid_from m, sb_parent = em_parent m\<rparr>"])
      (use assms m in \<open>simp_all add: submit_def and_then_Inr_iff\<close>)
qed

lemma exp_transaction_step:
  assumes "exp_transaction U P clk db db'"
  shows "exp_step clk db db'"
  using assms
proof cases
  case (et_propose a i actor res)
  from et_propose(2) show ?thesis unfolding propose_experience_def
    by (rule submit_propose) (rule ex_propose [OF _ et_propose(3)])
next
  case (et_revise a i actor res)
  from et_revise(2) show ?thesis unfolding revise_experience_def
    by (rule submit_propose) (rule ex_propose [OF _ et_revise(3)])
next
  case (et_review actor a res)
  then show ?thesis unfolding review_experience_def by (rule ex_review) simp
next
  case (et_release actor a res)
  then show ?thesis unfolding release_experience_def by (rule ex_release)
next
  case (et_handoffs hs)
  then show ?thesis by (simp add: ex_handoffs)
qed

subsection \<open>Rows\<close>

lemma forgotten_check_iff: "forgotten_check x \<longleftrightarrow> body_ok x"
  by (auto simp: forgotten_check_def body_ok_def exp_body_def)

lemma exp_identity_fields:
  assumes "exp_identity b = exp_identity a"
  shows "xp_id b = xp_id a" "xp_project_id b = xp_project_id a" "xp_kind b = xp_kind a" "xp_valid_from b = xp_valid_from a"
    "xp_expires_at b = xp_expires_at a" "xp_supersedes_id b = xp_supersedes_id a" "xp_supersedes_version b = xp_supersedes_version a"
    "xp_revision_root_id b = xp_revision_root_id a" "xp_revision_number b = xp_revision_number a"
    "xp_is_correction b = xp_is_correction a"
  using assms by (cases a; cases b; simp add: exp_identity_def)+

lemma row_checks_evolve:
  assumes ab: "exp_evolves a b" and a: "row_checks a"
  shows "row_checks b"
proof -
  note same = exp_identity_fields [OF exp_evolvesD(1) [OF ab]]
  have body: "body_ok b" using exp_evolvesD(8) [OF ab] a by (simp add: row_checks_def forgotten_check_iff)
  have "exp_body b = exp_body a \<or> exp_body b = (''[forgotten]'', ''[forgotten]'', [], [], [], None)"
    using exp_evolvesD(3) [OF ab] body by (cases "xp_status b = X_forgotten") (simp_all add: body_ok_def)
  then have "1 \<le> length (xp_title b) \<and> length (xp_title b) \<le> 200 \<and> 1 \<le> length (xp_content b) \<and> length (xp_content b) \<le> 4096
      \<and> length (xp_tags b) \<le> 16"
    using a by (auto simp: exp_body_def row_checks_def)
  moreover have "1 \<le> xp_version b" using exp_evolvesD(5) [OF ab] a by (simp add: row_checks_def)
  moreover have "revision_check b" "validity_check b" using a by (simp_all add: row_checks_def revision_check_def validity_check_def same)
  ultimately show ?thesis using a body by (simp add: row_checks_def same(3) forgotten_check_iff)
qed

lemma py_strip_text: "has_text s \<Longrightarrow> py_strip s \<noteq> []"
proof -
  assume "has_text s"
  then obtain c where c: "c \<in> set s" "\<not> py_space c" by (auto simp: has_text_def list_ex_iff)
  have "c \<in> set (dropWhile py_space s)" using c by (metis Un_iff set_append set_takeWhileD takeWhile_dropWhile_id)
  then show ?thesis using c(2) by (auto simp: py_strip_def dropWhile_eq_Nil_conv)
qed

lemma normalized_text:
  assumes "normalize_text U n s = Inr t" and "has_text s" and "keeps_text U"
  shows "1 \<le> length t \<and> length t \<le> n"
proof -
  have t: "t = py_strip (nfc U s)" "length t \<le> n" using assms(1) by (auto simp: normalize_text_def Let_def)
  have "has_text (nfc U s)" using assms(2,3) by (simp add: keeps_text_def)
  then have "t \<noteq> []" unfolding t(1) by (rule py_strip_text)
  then show ?thesis using t(2) by (simp add: Suc_le_eq)
qed

lemma length_collect: "collect f xs = Inr ys \<Longrightarrow> length ys = length xs"
  by (induction xs arbitrary: ys) (auto simp: and_then_Inr_iff)

text \<open>What the material of a proposal brings into the row.\<close>

definition texts_fit :: "submission \<Rightarrow> bool" where
  "texts_fit s \<longleftrightarrow> sb_kind s \<in> set EXPERIENCE_KINDS \<and> 1 \<le> length (sb_title s) \<and> length (sb_title s) \<le> 200
     \<and> 1 \<le> length (sb_content s) \<and> length (sb_content s) \<le> 4096 \<and> length (sb_tags s) \<le> 16"

lemma submitted_texts:
  assumes sub: "submit U P clk i actor a c db = Inr (db', res)" and shape: "proposal_shape a" and U: "keeps_text U"
  obtains s where "propose clk i s db = Inr (db', res)" "texts_fit s"
proof -
  obtain m s where m: "exp_material_of U P a c = Inr m" and s: "propose clk i s db = Inr (db', res)"
    "sb_kind s = em_kind m" "sb_title s = em_title m" "sb_content s = em_content m" "sb_tags s = em_tags m"
    using sub by (rule submit_propose)
  obtain tags where t: "normalize_text U 200 (arg_str a ''title'') = Inr (em_title m)"
      "normalize_text U 4096 (arg_str a ''content'') = Inr (em_content m)"
      "collect (normalize_text U 64) (arg_strs a ''tags'') = Inr tags" "em_tags m = sort (remdups tags)" "em_kind m = arg_str a ''kind''"
    using m by (auto simp: exp_material_of_def and_then_Inr_iff)
  have "length (em_tags m) \<le> length (arg_strs a ''tags'')"
    using length_collect [OF t(3)] length_remdups_leq [of tags] by (simp add: t(4))
  then have "texts_fit s"
    using normalized_text [OF t(1) _ U] normalized_text [OF t(2) _ U] shape by (simp add: texts_fit_def s t(5) proposal_shape_def)
  then show thesis using that s(1) by blast
qed

lemma proposed_checks:
  assumes tab: "exp_tables db" and ok: "exp_ok db" and fit: "texts_fit s"
    and parent: "proposal_parent s db = Inr parent" and interval: "\<not> invalid_interval s now2" and i: "i \<notin> xp_id ` set (xd_experiences db)"
  shows "row_checks (proposed_row i now s parent h)"
proof -
  let ?x = "proposed_row i now s parent h"
  have cols: "xp_kind ?x = sb_kind s" "xp_title ?x = sb_title s" "xp_content ?x = sb_content s" "xp_tags ?x = sb_tags s"
      "xp_valid_from ?x = sb_valid_from s" "xp_expires_at ?x = sb_expires_at s" "xp_supersedes_version ?x = map_option xp_version parent"
      "xp_revision_number ?x = (case parent of None \<Rightarrow> 1 | Some x \<Rightarrow> xp_revision_number x + 1)" "xp_is_correction ?x = (parent \<noteq> None)"
    by (simp_all add: proposed_row_def Let_def)
  have "revision_check ?x"
  proof (cases parent)
    case None
    then show ?thesis unfolding revision_check_def cols by simp
  next
    case (Some q)
    then have q: "q \<in> set (xd_experiences db)" "xp_status q = X_active" using proposal_parent_Some parent by blast+
    then have "row_checks q" using tab by (simp add: exp_tables_def)
    then have "1 \<le> xp_version q" "1 \<le> xp_revision_number q" by (auto simp: row_checks_def revision_check_def)
    moreover have "\<exists>y \<in> set (xd_experiences db). xp_id y = family q"
      using family_root [of "xd_experiences db" q] ok q by (auto simp: exp_ok_def)
    then have "family q \<noteq> i" "xp_id q \<noteq> i" using i q(1) by (metis image_eqI)+
    ultimately show ?thesis using Some unfolding revision_check_def cols by simp
  qed
  moreover have "validity_check ?x"
    using interval by (auto simp: validity_check_def cols invalid_interval_def)
  moreover have "body_ok ?x" using fresh_proposed by (simp add: pending_row_def)
  ultimately show ?thesis using fit by (simp add: row_checks_def texts_fit_def cols forgotten_check_iff)
qed

subsection \<open>Preservation\<close>

lemma proposed_references:
  assumes ref: "exp_references db" and ok: "exp_ok db" and parent: "proposal_parent s db = Inr parent"
    and source: "proposal_source s parent db = Some h"
  shows "exp_references (db\<lparr>xd_experiences := insert_row (proposed_row i now s parent h) (xd_experiences db)\<rparr>)"
proof -
  let ?x = "proposed_row i now s parent h"
  let ?db = "db\<lparr>xd_experiences := insert_row ?x (xd_experiences db)\<rparr>"
  have keep: "row_at p j db \<Longrightarrow> row_at p j ?db" "source_at p j ?db = source_at p j db" for p j
    by (auto simp: row_at_def source_at_def set_insert_row)
  have h: "source_at (sb_project_id s) (h_id h) db"
    using source fetchrow_SomeD unfolding proposal_source_def source_at_def by (fastforce split: option.splits simp: Let_def)
  have src: "xp_source_handoff_id ?x = Some (h_id h)" by (simp add: proposed_row_def Let_def)
  have q: "row_at (sb_project_id s) (xp_id q) db \<and> row_at (sb_project_id s) (family q) db" if "parent = Some q" for q
  proof -
    have m: "q \<in> set (xd_experiences db)" "xp_project_id q = sb_project_id s" using proposal_parent_Some parent that by blast+
    then have own: "row_at (sb_project_id s) (xp_id q) db" by (auto simp: row_at_def)
    show ?thesis
    proof (cases "xp_revision_root_id q")
      case None
      then show ?thesis using own by (simp add: family_def)
    next
      case (Some r)
      then have "row_at (sb_project_id s) r db" using ref m unfolding exp_references_def by metis
      then show ?thesis using own Some by (simp add: family_def)
    qed
  qed
  have "(\<forall>j. xp_supersedes_id ?x = Some j \<longrightarrow> row_at (xp_project_id ?x) j db) \<and> (\<forall>j. xp_revision_root_id ?x = Some j \<longrightarrow> row_at (xp_project_id ?x) j db)"
    using q by (cases parent) simp_all
  then show ?thesis
    using ref h keep src unfolding exp_references_def by (auto simp: set_insert_row)
qed

text \<open>Rows that are rewritten in place keep their references.\<close>

lemma rewritten_references:
  assumes ref: "exp_references db" and rows: "xd_experiences db' = map f (xd_experiences db)" "xd_handoffs db' = xd_handoffs db"
    and f: "\<And>y. y \<in> set (xd_experiences db) \<Longrightarrow> exp_evolves y (f y) \<and> body_ok y"
    and events: "\<And>e. e \<in> set (xd_events db') \<Longrightarrow> e \<in> set (xd_events db) \<or> (\<exists>x \<in> set (xd_experiences db). xp_id x = xe_memory_id e)"
    and supp: "\<And>s. s \<in> set (xd_suppressions db') \<Longrightarrow> \<exists>x \<in> set (xd_experiences db). xp_id x = sp_memory_id s"
  shows "exp_references db'"
proof -
  have same: "xp_id (f y) = xp_id y" "xp_project_id (f y) = xp_project_id y" "xp_supersedes_id (f y) = xp_supersedes_id y"
      "xp_revision_root_id (f y) = xp_revision_root_id y" if "y \<in> set (xd_experiences db)" for y
    using exp_identity_fields [OF exp_evolvesD(1)] f [OF that] by blast+
  have src: "xp_source_handoff_id (f y) = xp_source_handoff_id y \<or> xp_source_handoff_id (f y) = None"
    if "y \<in> set (xd_experiences db)" for y
  proof -
    have "exp_body (f y) = exp_body y \<or> xp_status (f y) = X_forgotten" using exp_evolvesD(3) f [OF that] by blast
    moreover have "body_ok (f y)" using exp_evolvesD(8) f [OF that] by blast
    ultimately show ?thesis by (auto simp: exp_body_def body_ok_def)
  qed
  have at: "row_at p j db' \<longleftrightarrow> row_at p j db" "source_at p j db' = source_at p j db" for p j
    using same by (auto simp: row_at_def source_at_def rows)
  have ids: "(\<exists>x \<in> set (xd_experiences db'). xp_id x = j) \<longleftrightarrow> (\<exists>x \<in> set (xd_experiences db). xp_id x = j)" for j
    using same by (auto simp: rows)
  show ?thesis unfolding exp_references_def ids at
  proof (intro conjI ballI allI impI)
    fix x j assume "x \<in> set (xd_experiences db')" and j: "xp_source_handoff_id x = Some j"
    then obtain y where y: "y \<in> set (xd_experiences db)" "x = f y" unfolding rows by auto
    then have "xp_source_handoff_id y = Some j" using src [OF y(1)] j by auto
    then show "source_at (xp_project_id x) j db" using ref y same unfolding exp_references_def by metis
  next
    fix x j assume "x \<in> set (xd_experiences db')" and j: "xp_supersedes_id x = Some j"
    then obtain y where y: "y \<in> set (xd_experiences db)" "x = f y" unfolding rows by auto
    then show "row_at (xp_project_id x) j db" using ref j same unfolding exp_references_def by metis
  next
    fix x j assume "x \<in> set (xd_experiences db')" and j: "xp_revision_root_id x = Some j"
    then obtain y where y: "y \<in> set (xd_experiences db)" "x = f y" unfolding rows by auto
    then show "row_at (xp_project_id x) j db" using ref j same unfolding exp_references_def by metis
  next
    fix e assume "e \<in> set (xd_events db')"
    then show "\<exists>x \<in> set (xd_experiences db). xp_id x = xe_memory_id e"
      using events ref unfolding exp_references_def by blast
  next
    fix s assume "s \<in> set (xd_suppressions db')"
    then show "\<exists>x \<in> set (xd_experiences db). xp_id x = sp_memory_id s" by (rule supp)
  qed
qed

lemma suppressions_suppress:
  assumes "\<forall>s \<in> set (xd_suppressions db). suppression_checks s \<and> (\<exists>x \<in> T. xp_id x = sp_memory_id s)"
    and "distinct (map suppression_key (xd_suppressions db))"
    and "r \<in> {X_rejected, X_superseded, X_forgotten}" and "x \<in> T"
  shows "(\<forall>s \<in> set (xd_suppressions (suppress x actor r now later db)). suppression_checks s \<and> (\<exists>x \<in> T. xp_id x = sp_memory_id s))
    \<and> distinct (map suppression_key (xd_suppressions (suppress x actor r now later db)))"
proof -
  let ?same = "suppresses (xp_project_id x) (claim_of x)"
  let ?f = "\<lambda>s. s\<lparr>sp_memory_id := xp_id x, sp_reason := r, sp_updated_by := actor, sp_version := sp_version s + 1,
                    sp_updated_at := later, sp_released_at := None\<rparr>"
  show ?thesis
  proof (cases "exists_row ?same (xd_suppressions db)")
    case True
    then have t: "xd_suppressions (suppress x actor r now later db) = map (\<lambda>s. if ?same s then ?f s else s) (xd_suppressions db)"
      by (simp add: suppress_def update_where_def Let_def)
    have "map suppression_key (map (\<lambda>s. if ?same s then ?f s else s) (xd_suppressions db)) = map suppression_key (xd_suppressions db)"
      by (simp add: suppression_key_def)
    then have "distinct (map suppression_key (xd_suppressions (suppress x actor r now later db)))" unfolding t using assms(2) by argo
    moreover have "suppression_checks (?f s) \<and> (\<exists>x \<in> T. xp_id x = sp_memory_id (?f s))" for s
      using assms(3,4) by (auto simp: suppression_checks_def)
    ultimately show ?thesis unfolding t set_map using assms(1) by (auto split: if_splits)
  next
    case False
    let ?n = "\<lparr>sp_project_id = xp_project_id x, sp_source_payload_digest = xp_source_payload_digest x,
              sp_content_fingerprint = xp_content_fingerprint x, sp_memory_id = xp_id x, sp_reason = r,
              sp_version = 1, sp_updated_by = actor, sp_updated_at = now, sp_released_at = None\<rparr>"
    have t: "xd_suppressions (suppress x actor r now later db) = xd_suppressions db @ [?n]"
      using False by (simp add: suppress_def Let_def insert_row_def)
    have "suppression_key ?n \<notin> suppression_key ` set (xd_suppressions db)"
      using False by (auto simp: sql suppresses_def claim_of_def suppression_key_def)
    moreover have "suppression_checks ?n \<and> (\<exists>x \<in> T. xp_id x = sp_memory_id ?n)"
      using assms(3,4) by (auto simp: suppression_checks_def)
    ultimately show ?thesis unfolding t using assms(1,2) by simp
  qed
qed

text \<open>What a review does to the suppressions and the events.\<close>

definition suppressions_fit :: "experience list \<Rightarrow> suppression list \<Rightarrow> bool" where
  "suppressions_fit t ss \<longleftrightarrow> (\<forall>s \<in> set ss. suppression_checks s \<and> (\<exists>x \<in> set t. xp_id x = sp_memory_id s))
     \<and> distinct (map suppression_key ss)"

lemma exp_tables_fit: "exp_tables db \<Longrightarrow> suppressions_fit (xd_experiences db) (xd_suppressions db)"
  by (simp add: exp_tables_def suppressions_fit_def exp_references_def)

lemma review_suppressions_fit:
  assumes fit: "suppressions_fit t (xd_suppressions db)" and x: "x \<in> set t" and parent: "\<And>q. parent = Some q \<Longrightarrow> q \<in> set t"
    and action: "action \<noteq> A_supersede"
  shows "suppressions_fit t (xd_suppressions (fst (apply_review clk actor action x parent
    (if action = A_approve then replace_parent clk actor x parent db else db))))"
proof -
  note one = suppressions_suppress [where T = "set t", folded suppressions_fit_def]
  have replaced: "suppressions_fit t (xd_suppressions (replace_parent clk actor x parent db))"
  proof (cases parent)
    case (Some q)
    then show ?thesis using fit one [of db X_superseded q] parent
      by (simp add: replace_parent_def Let_def suppressions_fit_def)
  qed (simp add: replace_parent_def fit)
  have "suppressions_fit t (xd_suppressions (suppress x actor (status_after action) (clk 0) (clk 2) db))"
    if "action = A_reject \<or> action = A_forget"
    using fit one [of db "status_after action" x] x that by (auto simp: suppressions_fit_def)
  then show ?thesis using replaced fit by (cases action) (auto simp: apply_review_def Let_def)
qed

lemma review_event_checks:
  assumes "1 \<le> xp_version x" and "\<not> review_conflict x action expected" and "action \<noteq> A_supersede"
  shows "event_checks (review_event x actor action related now)"
  using assms by (cases action) (auto simp: event_checks_def review_event_def review_conflict_def)

lemma supersede_event_checks:
  assumes "1 \<le> xp_version q" and "xp_status q = X_active"
  shows "event_checks (review_event q actor A_supersede related now)"
  using assms by (simp add: event_checks_def review_event_def)

lemma review_exp_tables:
  assumes tab: "exp_tables db" and ok: "exp_ok db" and rev: "review clk project i actor action expected db = Inr (db', res)"
    and action: "action \<noteq> A_supersede"
  shows "exp_tables db'"
  using rev
proof (cases rule: reviewE)
  case replay
  then show ?thesis using tab by simp
next
  case (applied x parent)
  let ?t = "xd_experiences db"
  have x: "x \<in> set ?t" using experience_rowD [OF applied(1)] by simp
  have q: "q \<in> set ?t \<and> xp_status q = X_active" if "parent = Some q" for q
    using review_parent_Some(3,4) [of x project action db q] applied(4) that experience_rowD by blast
  have rows: "\<forall>y \<in> set ?t. row_checks y" and old: "\<forall>e \<in> set (xd_events db). event_checks e" and ref: "exp_references db"
    using tab by (simp_all add: exp_tables_def)
  have ev: "exp_evolves y (reviewed_row action x parent (clk 1) y) \<and> body_ok y" if "y \<in> set ?t" for y
    using reviewed_evolves [OF ok applied(1,3,4) action that] ok that by (simp add: exp_ok_def)
  then have "\<forall>y \<in> set (xd_experiences db'). row_checks y"
    unfolding applied(6) set_map using row_checks_evolve rows by blast
  moreover have version: "1 \<le> xp_version y" if "y \<in> set ?t" for y using rows that by (simp add: row_checks_def)
  have fresh: "event_checks e \<and> (\<exists>y \<in> set ?t. xp_id y = xe_memory_id e)" if "e \<in> set (events_of actor action x parent (clk 0))" for e
    using that q supersede_event_checks version x review_event_checks [OF version [OF x] applied(3) action]
    by (auto simp: events_of_def review_event_def [of _ _ _ _ "clk 0", THEN arg_cong, of xe_memory_id] split: option.splits)
  then have "\<forall>e \<in> set (xd_events db'). event_checks e" using old unfolding applied(7) by auto
  moreover have fit: "suppressions_fit ?t (xd_suppressions db')"
    unfolding applied(9) by (rule review_suppressions_fit [OF exp_tables_fit [OF tab] x _ action]) (use q in blast)
  moreover have "exp_references db'"
    by (rule rewritten_references [OF ref applied(6,8) ev])
      (use fresh fit in \<open>auto simp: applied(7) suppressions_fit_def\<close>)
  ultimately show ?thesis by (simp add: exp_tables_def suppressions_fit_def)
qed

lemma release_tables:
  assumes tab: "exp_tables db" and rel: "release_suppression clk project i actor expected db = Inr (db', res)"
  shows "exp_tables db'"
proof (cases "db' = db")
  case True
  then show ?thesis using tab by simp
next
  case False
  then obtain c where db': "db' = db\<lparr>xd_suppressions := update_where (suppresses project c) (released clk actor) (xd_suppressions db)\<rparr>"
    using rel by (auto simp: release_suppression_def split: option.splits if_splits)
  let ?f = "\<lambda>s. if suppresses project c s then released clk actor s else s"
  have t: "xd_suppressions db' = map ?f (xd_suppressions db)" by (simp add: db' update_where_def)
  have f: "suppression_key (?f s) = suppression_key s" "sp_memory_id (?f s) = sp_memory_id s"
      "suppression_checks s \<Longrightarrow> suppression_checks (?f s)" for s
    by (auto simp: suppression_key_def released_def suppression_checks_def)
  have "map suppression_key (map ?f (xd_suppressions db)) = map suppression_key (xd_suppressions db)" using f(1) by simp
  then have "distinct (map suppression_key (xd_suppressions db'))" unfolding t using tab by (simp only: exp_tables_def)
  moreover have "\<forall>s \<in> set (xd_suppressions db'). suppression_checks s" unfolding t set_map using tab f(3) unfolding exp_tables_def by blast
  moreover have rest: "xd_experiences db' = xd_experiences db" "xd_events db' = xd_events db" "xd_handoffs db' = xd_handoffs db"
    by (simp_all add: db')
  then have "exp_references db'"
    using tab f(2) unfolding exp_tables_def exp_references_def row_at_def source_at_def rest t set_map by (auto simp: released_def)
  ultimately show ?thesis using tab by (simp add: exp_tables_def rest)
qed

lemma handoffs_tables:
  assumes "exp_tables db" and "handoffs_kept (xd_handoffs db) hs"
  shows "exp_tables (db\<lparr>xd_handoffs := hs\<rparr>)"
proof -
  have "source_at p i db \<Longrightarrow> source_at p i (db\<lparr>xd_handoffs := hs\<rparr>)" for p i
    using assms(2) by (auto simp: source_at_def handoffs_kept_def)
  then have "exp_references (db\<lparr>xd_handoffs := hs\<rparr>)"
    using assms(1) unfolding exp_tables_def exp_references_def by (simp add: row_at_def)
  then show ?thesis using assms(1) by (simp add: exp_tables_def)
qed

lemma submit_exp_tables:
  assumes tab: "exp_tables db" and ok: "exp_ok db" and U: "keeps_text U" and shape: "proposal_shape a"
    and sub: "submit U P clk i actor a c db = Inr (db', res)" and i: "i \<notin> xp_id ` set (xd_experiences db)"
  shows "exp_tables db'"
proof -
  obtain s where s: "propose clk i s db = Inr (db', res)" "texts_fit s" using sub shape U by (rule submitted_texts)
  from s(1) show ?thesis
  proof (cases rule: proposeE)
    case existing
    then show ?thesis using tab by simp
  next
    case (created parent h)
    have "exp_references db'" unfolding created(6)
      by (rule proposed_references [OF _ ok created(2,3)]) (use tab in \<open>simp add: exp_tables_def\<close>)
    moreover have "row_checks (proposed_row i (clk 0) s parent h)" by (rule proposed_checks [OF tab ok s(2) created(2,4) i])
    ultimately show ?thesis using tab by (simp add: exp_tables_def created(6) set_insert_row)
  qed
qed

lemma exp_transaction_tables:
  assumes "exp_ok db \<and> exp_tables db" and "exp_transaction U P clk db db'" and U: "keeps_text U" and P: "proposals_checked P"
  shows "exp_ok db' \<and> exp_tables db'"
proof -
  have ok: "exp_ok db" and tab: "exp_tables db" using assms(1) by simp_all
  have "exp_ok db'" using exp_step_ok [OF ok exp_transaction_step [OF assms(2)]] .
  moreover from assms(2) have "exp_tables db'"
  proof cases
    case (et_propose a i actor res)
    then show ?thesis using submit_exp_tables [OF tab ok U] P unfolding propose_experience_def proposals_checked_def by blast
  next
    case (et_revise a i actor res)
    then show ?thesis using submit_exp_tables [OF tab ok U] P unfolding revise_experience_def proposals_checked_def by blast
  next
    case (et_review actor a res)
    then show ?thesis unfolding review_experience_def by (rule review_exp_tables [OF tab ok]) simp
  next
    case (et_release actor a res)
    then show ?thesis unfolding release_experience_def by (rule release_tables [OF tab])
  next
    case (et_handoffs hs)
    then show ?thesis using handoffs_tables [OF tab] by simp
  qed
  ultimately show ?thesis by blast
qed

subsection \<open>The property\<close>

definition no_experiences :: "handoff list \<Rightarrow> xdb" where
  "no_experiences hs = \<lparr>xd_experiences = [], xd_events = [], xd_suppressions = [], xd_handoffs = hs\<rparr>"

lemma no_experiences_ok: "exp_ok (no_experiences hs) \<and> exp_tables (no_experiences hs)"
  by (simp add: no_experiences_def exp_ok_def lineage_ok_def one_active_def exp_tables_def exp_references_def)

text \<open>
  C36. The constraints of the experience tables hold by themselves. From an empty store, in
  every state that calls of the service with accepted arguments reach, an idempotency key
  names one proposal of its author, a revision family has at most one active memory, a memory
  one event of a version, and a claim one suppression; every row passes all checks of its
  table (kind, version, lengths, revision, validity and erasure), every event records a
  transition of the lifecycle, every suppression has a reason and a version, and every
  reference is to a row of the same project. So no transaction of the service fails on a
  constraint of the migrations 004 and 005.
\<close>

theorem experience_indexes_hold:
  assumes "run (exp_transaction U P) (no_experiences hs) ts db" and "keeps_text U" and "proposals_checked P"
  shows "distinct (map xp_id (xd_experiences db)) \<and> distinct (map submission_key (xd_experiences db))
    \<and> distinct (map family (filter (\<lambda>x. xp_status x = X_active) (xd_experiences db)))
    \<and> distinct (map event_key (xd_events db)) \<and> distinct (map suppression_key (xd_suppressions db))
    \<and> (\<forall>x \<in> set (xd_experiences db). row_checks x) \<and> (\<forall>e \<in> set (xd_events db). event_checks e)
    \<and> (\<forall>s \<in> set (xd_suppressions db). suppression_checks s) \<and> exp_references db"
proof -
  have ok: "exp_ok db \<and> exp_tables db"
    using run_invariant [OF assms(1), of "\<lambda>db. exp_ok db \<and> exp_tables db"] exp_transaction_tables assms(2,3) no_experiences_ok
    by blast
  then show ?thesis using active_families by (simp add: exp_ok_def exp_tables_def)
qed

subsection \<open>Witness\<close>

definition plain_texts :: unicode where
  "plain_texts = \<lparr>nfc = (\<lambda>s. s), nfkc = (\<lambda>s. s), folded = (\<lambda>s. s)\<rparr>"

definition demo_schemas :: platform where
  "demo_schemas = auth_platform\<lparr>schema_valid := \<lambda>schema v. proposal_shape (dict_of v)\<rparr>"

definition demo_arguments :: dict where
  "demo_arguments = [(''project_id'', PStr ''p''), (''source_handoff_id'', PStr ''1''), (''idempotency_key'', PStr ''k''),
     (''kind'', PStr ''fact''), (''title'', PStr ''Port''), (''content'', PStr ''It is 443'')]"

theorem experience_indexes_hold_witness:
  "\<exists>db. run (exp_transaction plain_texts demo_schemas) (no_experiences [demo_source]) [\<lambda>_. 0] db
     \<and> xd_experiences db \<noteq> [] \<and> (\<forall>x \<in> set (xd_experiences db). row_checks x) \<and> exp_references db"
proof -
  have checked: "proposals_checked demo_schemas" "keeps_text plain_texts"
    by (simp_all add: proposals_checked_def demo_schemas_def dict_of_def keeps_text_def plain_texts_def)
  let ?s = "no_experiences [demo_source]"
  let ?m = "\<lparr>em_source = Some 1, em_kind = ''fact'', em_title = ''Port'', em_content = ''It is 443'', em_tags = [],
     em_expires_at = None, em_valid_from = None, em_parent = None\<rparr>"
  have m: "exp_material_of plain_texts demo_schemas demo_arguments False = Inr ?m" by code_simp
  have shape: "proposal_shape demo_arguments" and ids: "arg_str demo_arguments ''project_id'' = ''p''" by code_simp+
  obtain db res where db: "propose_experience plain_texts demo_schemas (\<lambda>_. 0) 7 ''bob'' demo_arguments ?s = Inr (db, res)"
      "xd_experiences db \<noteq> []"
    by (simp add: propose_experience_def submit_def m ids propose_def no_experiences_def proposal_parent_def proposal_source_def
        demo_source_def new_handoff_def invalid_interval_def ensure_not_suppressed_def suppressed_def exists_row_def checked_def insert_row_def)
  have "exp_transaction plain_texts demo_schemas (\<lambda>_. 0) ?s db"
    by (rule et_propose [OF _ db(1)]) (simp_all add: demo_schemas_def dict_of_def shape no_experiences_def)
  then have r: "run (exp_transaction plain_texts demo_schemas) ?s [\<lambda>_. 0] db" by blast
  show ?thesis using experience_indexes_hold [OF r checked(2,1)] r db(2) by blast
qed

end
