(* ===== verification/Skills_Props.thy ===== *)
theory Skills_Props
  imports Skills Fencing
begin

text \<open>
  Properties of the reviewed skills: in every reachable state a skill has at most one
  active revision and points at it, the rows satisfy their checks (\<open>Skill_Tables\<close> adds the keys
  and references of the tables), revisions
  change only as their trigger allows, and what a reader gets quotes experiences that are
  approved, valid and backed by evidence at that moment.
\<close>

subsection \<open>Steps\<close>

inductive skill_step :: "unicode \<Rightarrow> platform \<Rightarrow> clock \<Rightarrow> skdb \<Rightarrow> skdb \<Rightarrow> bool" for U P where
  step_submit: "submit_skill U P clk si i actor origin a db = Inr (db', answer)
    \<Longrightarrow> si \<notin> sk_id ` set (kd_skills db) \<Longrightarrow> i \<notin> kr_id ` set (kd_revisions db) \<Longrightarrow> skill_step U P clk db db'"
| step_review: "review_skill P clk actor a db = Inr (db', answer) \<Longrightarrow> skill_step U P clk db db'"
| step_memories: "skill_step U P clk db (memories_changed (clk 0) new db)"

text \<open>The validator requires the keys of the body schema: it refuses the empty object.\<close>

definition body_schema_sound :: "platform \<Rightarrow> bool" where
  "body_schema_sound P \<longleftrightarrow> \<not> schema_valid P BODY_SCHEMA (PDict [])"

subsection \<open>The invariant\<close>

definition skill_keys :: "skdb \<Rightarrow> bool" where
  "skill_keys db \<longleftrightarrow> distinct (map kr_id (kd_revisions db)) \<and> distinct (map sk_id (kd_skills db))
     \<and> distinct (map (\<lambda>r. (kr_skill_id r, kr_revision r)) (kd_revisions db))"

definition skill_rows :: "skdb \<Rightarrow> bool" where
  "skill_rows db \<longleftrightarrow> (\<forall>r \<in> set (kd_revisions db). revision_row_ok r \<and> (kr_status r = K_pending \<longrightarrow> kr_approved_at r = None)
     \<and> (\<exists>s \<in> set (kd_skills db). sk_id s = kr_skill_id r \<and> kr_revision r \<le> sk_latest_revision s))"

definition points_at :: "skill \<Rightarrow> skill_revision list \<Rightarrow> bool" where
  "points_at s rs \<longleftrightarrow>
     (\<forall>r \<in> set rs. kr_skill_id r = sk_id s \<longrightarrow> (kr_status r = K_active \<longleftrightarrow> sk_active_revision s = Some (kr_revision r)))
     \<and> (\<forall>n. sk_active_revision s = Some n \<longrightarrow> (\<exists>r \<in> set rs. kr_skill_id r = sk_id s \<and> kr_revision r = n))"

definition skill_pointers :: "skdb \<Rightarrow> bool" where
  "skill_pointers db \<longleftrightarrow> (\<forall>s \<in> set (kd_skills db). points_at s (kd_revisions db))"

definition sources_bound :: "skdb \<Rightarrow> bool" where
  "sources_bound db \<longleftrightarrow> (\<forall>k \<in> set (kd_sources db). ks_memory_id k = arg_uuid (ks_binding k) ''memory_id''
     \<and> int (ks_memory_version k) = arg_int (ks_binding k) ''version'')"

definition skills_ok :: "skdb \<Rightarrow> bool" where
  "skills_ok db \<longleftrightarrow> skill_keys db \<and> skill_rows db \<and> skill_pointers db \<and> sources_bound db"

lemma skill_key_eq:
  assumes "skill_keys db" and "r \<in> set (kd_revisions db)" and "y \<in> set (kd_revisions db)"
    and "kr_id y = kr_id r \<or> kr_skill_id y = kr_skill_id r \<and> kr_revision y = kr_revision r"
  shows "y = r"
  using assms by (auto simp: skill_keys_def distinct_map dest: inj_onD)

lemma skill_eq:
  assumes "skill_keys db" and "s \<in> set (kd_skills db)" and "t \<in> set (kd_skills db)" and "sk_id t = sk_id s"
  shows "t = s"
  using assms by (auto simp: skill_keys_def distinct_map dest: inj_onD)

lemma skill_rowsE:
  assumes "skill_rows db" and "r \<in> set (kd_revisions db)"
  obtains t where "t \<in> set (kd_skills db)" "sk_id t = kr_skill_id r" "kr_revision r \<le> sk_latest_revision t"
  using assms unfolding skill_rows_def by blast

lemma revision_upto_latest:
  assumes "skill_keys db" and "skill_rows db" and "s \<in> set (kd_skills db)" and "r \<in> set (kd_revisions db)"
    and "kr_skill_id r = sk_id s"
  shows "kr_revision r \<le> sk_latest_revision s"
  using skill_rowsE [OF assms(2,4)] skill_eq [OF assms(1,3)] assms(5) by metis

lemma moved_revision_fields [simp]:
  "kr_id (moved_revision now st r) = kr_id r" "kr_skill_id (moved_revision now st r) = kr_skill_id r"
  "kr_revision (moved_revision now st r) = kr_revision r" "kr_status (moved_revision now st r) = st"
  "kr_origin (moved_revision now st r) = kr_origin r" "kr_version (moved_revision now st r) = kr_version r + 1"
  "kr_body (moved_revision now st r) = (if st = K_forgotten then [] else kr_body r)"
  "kr_approved_at (moved_revision now st r) = (if st = K_active then Some now else kr_approved_at r)"
  by (simp_all add: moved_revision_def)

text \<open>A transaction that rewrites rows of the two tables in place.\<close>

lemma skills_ok_map:
  assumes ok: "skills_ok db"
    and tables: "kd_revisions db' = map f (kd_revisions db)" "kd_skills db' = map g (kd_skills db)"
      "kd_sources db' = kd_sources db"
    and f: "\<And>r. kr_id (f r) = kr_id r \<and> kr_skill_id (f r) = kr_skill_id r \<and> kr_revision (f r) = kr_revision r"
    and g: "\<And>s. sk_id (g s) = sk_id s \<and> sk_latest_revision (g s) = sk_latest_revision s"
    and row: "\<And>r. r \<in> set (kd_revisions db) \<Longrightarrow>
      revision_row_ok (f r) \<and> (kr_status (f r) = K_pending \<longrightarrow> kr_approved_at (f r) = None)"
    and active: "\<And>r s. r \<in> set (kd_revisions db) \<Longrightarrow> s \<in> set (kd_skills db) \<Longrightarrow> kr_skill_id r = sk_id s \<Longrightarrow>
      kr_status (f r) = K_active \<longleftrightarrow> sk_active_revision (g s) = Some (kr_revision r)"
    and exists: "\<And>s n. s \<in> set (kd_skills db) \<Longrightarrow> sk_active_revision (g s) = Some n \<Longrightarrow>
      \<exists>r \<in> set (kd_revisions db). kr_skill_id r = sk_id s \<and> kr_revision r = n"
  shows "skills_ok db'"
proof -
  have keys: "map kr_id (map f (kd_revisions db)) = map kr_id (kd_revisions db)"
      "map (\<lambda>r. (kr_skill_id r, kr_revision r)) (map f (kd_revisions db))
        = map (\<lambda>r. (kr_skill_id r, kr_revision r)) (kd_revisions db)"
      "map sk_id (map g (kd_skills db)) = map sk_id (kd_skills db)"
    using f g by simp_all
  have "skill_keys db'" using ok unfolding skills_ok_def skill_keys_def tables keys by blast
  moreover have "skill_rows db'"
    using ok row f g unfolding skills_ok_def skill_rows_def tables by (fastforce simp: ball_simps)
  moreover have "points_at (g s) (map f (kd_revisions db))" if "s \<in> set (kd_skills db)" for s
    using active [OF _ that] exists [OF that] f g unfolding points_at_def by (auto simp: ball_simps)
  then have "skill_pointers db'" unfolding skill_pointers_def tables by simp
  moreover have "sources_bound db'" using ok by (simp add: skills_ok_def sources_bound_def tables)
  ultimately show ?thesis by (simp add: skills_ok_def)
qed

subsection \<open>Histories\<close>

definition revision_at :: "skdb \<Rightarrow> uuid \<Rightarrow> skill_revision option" where
  "revision_at db i = fetchrow (\<lambda>r. kr_id r = i) (kd_revisions db)"

definition skill_history :: "skdb \<Rightarrow> skdb \<Rightarrow> bool" where
  "skill_history db db' \<longleftrightarrow>
     (\<forall>i r. revision_at db i = Some r \<longrightarrow> (\<exists>r'. revision_at db' i = Some r' \<and> guard_skill_revision r r'))"

lemma guard_skill_refl: "guard_skill_revision r r"
  by (simp add: guard_skill_revision_def)

lemma guard_skill_trans: "guard_skill_revision a b \<Longrightarrow> guard_skill_revision b c \<Longrightarrow> guard_skill_revision a c"
  by (auto simp: guard_skill_revision_def)

lemma skill_history_refl: "skill_history db db"
  using guard_skill_refl by (auto simp: skill_history_def)

lemma skill_history_trans: "skill_history a b \<Longrightarrow> skill_history b c \<Longrightarrow> skill_history a c"
  unfolding skill_history_def by (meson guard_skill_trans)

lemma skill_history_same: "kd_revisions db' = kd_revisions db \<Longrightarrow> skill_history db db'"
  using skill_history_refl by (simp add: skill_history_def revision_at_def)

lemma skill_history_map:
  assumes "kd_revisions db' = map f (kd_revisions db) @ new" and "\<And>r. kr_id (f r) = kr_id r"
    and "\<And>r. r \<in> set (kd_revisions db) \<Longrightarrow> guard_skill_revision r (f r)"
  shows "skill_history db db'"
proof -
  have "\<exists>r'. revision_at db' i = Some r' \<and> guard_skill_revision r r'" if "revision_at db i = Some r" for i r
  proof -
    have "fetchrow (\<lambda>r. kr_id r = i) (map f (kd_revisions db)) = Some (f r)"
      using fetchrow_map [of kr_id f, OF assms(2)] that by (simp add: revision_at_def)
    then have "revision_at db' i = Some (f r)" by (simp add: revision_at_def assms(1) fetchrow_append)
    then show ?thesis using that assms(3) fetchrow_SomeD by (fastforce simp: revision_at_def)
  qed
  then show ?thesis by (simp add: skill_history_def)
qed

lemma guard_moved:
  assumes "kr_status r \<noteq> K_forgotten" and "st = K_active \<Longrightarrow> kr_approved_at r = None"
  shows "guard_skill_revision r (moved_revision now st r)"
  using assms by (auto simp: guard_skill_revision_def revision_identity_def moved_revision_def)

subsection \<open>Retirement of a revision\<close>

text \<open>What an invalidation, a rejection, an archive and an erasure do to the two tables.\<close>

definition retire :: "time \<Rightarrow> skill_status \<Rightarrow> skill_revision \<Rightarrow> skdb \<Rightarrow> skdb \<Rightarrow> bool" where
  "retire now st r db db' \<longleftrightarrow>
     kd_revisions db' = update_where (\<lambda>y. kr_id y = kr_id r) (moved_revision now st) (kd_revisions db)
     \<and> kd_skills db' = update_where (\<lambda>s. sk_id s = kr_skill_id r \<and> sk_active_revision s = Some (kr_revision r))
         (\<lambda>s. s\<lparr>sk_active_revision := None\<rparr>) (kd_skills db)
     \<and> kd_sources db' = kd_sources db"

lemma row_ok_moved:
  assumes "revision_row_ok r" and "kr_status r \<noteq> K_forgotten"
    and "st = K_active \<Longrightarrow> kr_origin r = O_manual" and "st = K_pending \<Longrightarrow> False"
  shows "revision_row_ok (moved_revision now st r)"
  using assms by (auto simp: revision_row_ok_def)

lemma retire_ok:
  assumes ok: "skills_ok db" and r: "r \<in> set (kd_revisions db)" "kr_status r \<noteq> K_forgotten"
    and st: "st \<noteq> K_active" "st \<noteq> K_pending" and ret: "retire now st r db db'"
  shows "skills_ok db'" and "skill_history db db'"
proof -
  have keys: "skill_keys db" and rows: "skill_rows db" and ptr: "skill_pointers db"
    using ok by (simp_all add: skills_ok_def)
  let ?f = "\<lambda>y. if kr_id y = kr_id r then moved_revision now st y else y"
  let ?g = "\<lambda>s. if sk_id s = kr_skill_id r \<and> sk_active_revision s = Some (kr_revision r) then s\<lparr>sk_active_revision := None\<rparr> else s"
  have tables: "kd_revisions db' = map ?f (kd_revisions db)" "kd_skills db' = map ?g (kd_skills db)"
      "kd_sources db' = kd_sources db"
    using ret by (simp_all add: retire_def update_where_def)
  have only: "y = r" if "y \<in> set (kd_revisions db)" "kr_id y = kr_id r" for y
    using skill_key_eq [OF keys r(1) that(1)] that(2) by blast
  show "skills_ok db'"
  proof (rule skills_ok_map [OF ok tables])
    show "revision_row_ok (?f y) \<and> (kr_status (?f y) = K_pending \<longrightarrow> kr_approved_at (?f y) = None)"
      if "y \<in> set (kd_revisions db)" for y
      using that rows only [OF that] r(2) st by (auto simp: skill_rows_def intro: row_ok_moved)
    show "kr_status (?f y) = K_active \<longleftrightarrow> sk_active_revision (?g s) = Some (kr_revision y)"
      if y: "y \<in> set (kd_revisions db)" and s: "s \<in> set (kd_skills db)" and own: "kr_skill_id y = sk_id s" for y s
    proof -
      have p: "kr_status y = K_active \<longleftrightarrow> sk_active_revision s = Some (kr_revision y)"
        using ptr s y own by (auto simp: skill_pointers_def points_at_def)
      show ?thesis
      proof (cases "kr_id y = kr_id r")
        case True
        then show ?thesis using only [OF y True] own st by auto
      next
        case False
        then have "\<not> (kr_skill_id y = kr_skill_id r \<and> kr_revision y = kr_revision r)"
          using skill_key_eq [OF keys r(1) y] by blast
        then show ?thesis using False p own by auto
      qed
    qed
    show "\<exists>r \<in> set (kd_revisions db). kr_skill_id r = sk_id s \<and> kr_revision r = n"
      if "s \<in> set (kd_skills db)" "sk_active_revision (?g s) = Some n" for s n
      using ptr that by (auto simp: skill_pointers_def points_at_def split: if_splits)
  qed auto
  show "skill_history db db'"
  proof (rule skill_history_map [where f = ?f and new = "[]"])
    show "guard_skill_revision y (?f y)" if "y \<in> set (kd_revisions db)" for y
      using only [OF that] r(2) st guard_moved guard_skill_refl by auto
  qed (auto simp: tables)
qed

lemma retire_others: "retire now st r db db' \<Longrightarrow> y \<in> set (kd_revisions db) \<Longrightarrow> kr_id y \<noteq> kr_id r \<Longrightarrow> y \<in> set (kd_revisions db')"
  by (auto simp: retire_def update_where_def image_iff intro: bexI [of _ y])

lemma retire_invalidate: "retire now (stale_status x) r db (invalidate_revision now x r db)"
  by (simp add: retire_def invalidate_revision_def)

lemma invalidate_fold:
  assumes "skills_ok db" and "distinct (map kr_id rs)"
    and "\<And>r. r \<in> set rs \<Longrightarrow> r \<in> set (kd_revisions db) \<and> kr_status r \<noteq> K_forgotten"
  shows "skills_ok (fold (invalidate_revision now x) rs db) \<and> skill_history db (fold (invalidate_revision now x) rs db)"
  using assms
proof (induction rs arbitrary: db)
  case Nil
  then show ?case using skill_history_refl by simp
next
  case (Cons r rs)
  let ?db = "invalidate_revision now x r db"
  have st: "stale_status x \<noteq> K_active" "stale_status x \<noteq> K_pending" by (simp_all add: stale_status_def)
  have r: "r \<in> set (kd_revisions db)" "kr_status r \<noteq> K_forgotten" using Cons.prems(3) by auto
  note one = retire_ok [OF Cons.prems(1) r st retire_invalidate]
  have "skills_ok (fold (invalidate_revision now x) rs ?db) \<and> skill_history ?db (fold (invalidate_revision now x) rs ?db)"
  proof (rule Cons.IH [OF one(1)])
    show "y \<in> set (kd_revisions ?db) \<and> kr_status y \<noteq> K_forgotten" if "y \<in> set rs" for y
      using retire_others [OF retire_invalidate] Cons.prems(2,3) that by (auto simp: image_iff)
  qed (use Cons.prems(2) in simp)
  then show ?case using one(2) skill_history_trans by auto
qed

lemma invalidate_ok:
  assumes "skills_ok db"
  shows "skills_ok (invalidate now x db) \<and> skill_history db (invalidate now x db)"
  unfolding invalidate_def
proof (rule invalidate_fold [OF assms])
  have "distinct (map kr_id (kd_revisions db))" using assms by (simp add: skills_ok_def skill_keys_def)
  then show "distinct (map kr_id (sort_key kr_id (filter (stale_target x db) (kd_revisions db))))"
    by (simp add: distinct_map inj_on_def)
qed (auto simp: stale_target_def)

lemma invalidate_all_ok:
  "skills_ok db \<Longrightarrow> skills_ok (fold (invalidate now) xs db) \<and> skill_history db (fold (invalidate now) xs db)"
proof (induction xs arbitrary: db)
  case (Cons x xs)
  then show ?case using invalidate_ok [OF Cons.prems, of now x] skill_history_trans by fastforce
qed (simp add: skill_history_refl)

lemma memories_changed_ok:
  assumes "skills_ok db"
  shows "skills_ok (memories_changed now new db) \<and> skill_history db (memories_changed now new db)"
proof -
  let ?d = "db\<lparr>kd_gen := (kd_gen db)\<lparr>gd_store := new\<rparr>\<rparr>"
  have "skills_ok ?d"
    using assms by (simp add: skills_ok_def skill_keys_def skill_rows_def skill_pointers_def sources_bound_def)
  moreover have "skill_history db ?d" by (rule skill_history_same) simp
  ultimately show ?thesis unfolding memories_changed_def using invalidate_all_ok skill_history_trans by blast
qed

subsection \<open>Review\<close>

lemma skill_of_revision:
  assumes "skills_ok db" and "r \<in> set (kd_revisions db)" and "fetchrow (\<lambda>s. sk_id s = kr_skill_id r) (kd_skills db) = Some s"
  shows "s \<in> set (kd_skills db)" "sk_id s = kr_skill_id r" "points_at s (kd_revisions db)"
  using fetchrow_SomeD [OF assms(3)] assms(1) by (auto simp: skills_ok_def skill_pointers_def)

lemma retire_review:
  assumes "skills_ok db" and "s \<in> set (kd_skills db)" and "sk_id s = kr_skill_id r"
  shows "retire now st r db (transition_revision now r actor name st
    (if sk_active_revision s = Some (kr_revision r) then point_active (sk_id s) None db else db))"
proof -
  have one: "t = s" if "t \<in> set (kd_skills db)" "sk_id t = sk_id s" for t
    using skill_eq [OF _ assms(2) that] assms(1) by (simp add: skills_ok_def)
  have "update_where (\<lambda>t. sk_id t = kr_skill_id r \<and> sk_active_revision t = Some (kr_revision r))
      (\<lambda>s. s\<lparr>sk_active_revision := None\<rparr>) (kd_skills db)
    = (if sk_active_revision s = Some (kr_revision r)
       then update_where (\<lambda>t. sk_id t = sk_id s) (\<lambda>s. s\<lparr>sk_active_revision := None\<rparr>) (kd_skills db) else kd_skills db)"
    using one assms(3) by (auto simp: update_where_def intro!: map_cong map_idI)
  then show ?thesis by (simp add: retire_def transition_revision_def point_active_def)
qed

lemma approve_ok:
  assumes ok: "skills_ok db" and r: "r \<in> set (kd_revisions db)" "kr_status r = K_pending"
    and s: "s \<in> set (kd_skills db)" "sk_id s = kr_skill_id r"
    and appr: "approve_revision P clk actor r s db = Inr db1"
    and db2: "db2 = transition_revision now r actor name K_active db1"
  shows "skills_ok db2" and "skill_history db db2"
proof -
  have keys: "skill_keys db" and rows: "skill_rows db" and ptr: "points_at s (kd_revisions db)"
    and ptrs: "skill_pointers db"
    using ok s by (auto simp: skills_ok_def skill_pointers_def)
  obtain dbs where manual: "kr_origin r = O_manual" and sup: "supersede_active clk actor s db = Inr dbs"
    and db1: "db1 = point_active (sk_id s) (Some (kr_revision r)) dbs"
    using appr by (auto simp: approve_revision_def and_then_Inr_iff)
  let ?old = "\<lambda>y. kr_skill_id y = sk_id s \<and> Some (kr_revision y) = sk_active_revision s"
  let ?sup = "\<lambda>y. if ?old y then moved_revision (clk 2) K_superseded y else y"
  let ?f = "\<lambda>y. if kr_id y = kr_id r then moved_revision now K_active y else ?sup y"
  let ?g = "\<lambda>t. if sk_id t = sk_id s then t\<lparr>sk_active_revision := Some (kr_revision r)\<rparr> else t"
  have only: "y = r" if "y \<in> set (kd_revisions db)" "kr_id y = kr_id r" for y
    using skill_key_eq [OF keys r(1) that(1)] that(2) by blast
  have active: "kr_status y = K_active" if "y \<in> set (kd_revisions db)" "?old y" for y
    using ptr that by (auto simp: points_at_def)
  have sup': "kd_revisions dbs = map ?sup (kd_revisions db) \<and> kd_skills dbs = kd_skills db \<and> kd_sources dbs = kd_sources db"
  proof (cases "sk_active_revision s")
    case None
    then show ?thesis using sup by (auto simp: supersede_active_def map_idI)
  next
    case (Some n)
    then obtain q where q: "revision_row (sk_id s) n db = Some q" "dbs = transition_revision (clk 2) q actor ''supersede'' K_superseded db"
      using sup by (auto simp: supersede_active_def split: option.splits)
    have qr: "q \<in> set (kd_revisions db)" "kr_skill_id q = sk_id s" "kr_revision q = n"
      using fetchrow_SomeD q(1) by (fastforce simp: revision_row_def)+
    have "kr_id y = kr_id q \<longleftrightarrow> ?old y" if "y \<in> set (kd_revisions db)" for y
      using skill_key_eq [OF keys qr(1) that] qr Some by auto
    then show ?thesis using q(2) by (auto simp: transition_revision_def update_where_def)
  qed
  have nold: "\<not> ?old r" using active [OF r(1)] r(2) by auto
  have "update_where (\<lambda>y. kr_id y = kr_id r) (moved_revision now K_active) (map ?sup (kd_revisions db)) = map ?f (kd_revisions db)"
    using only nold by (auto simp: update_where_def)
  then have tables: "kd_revisions db2 = map ?f (kd_revisions db)" "kd_skills db2 = map ?g (kd_skills db)"
      "kd_sources db2 = kd_sources db"
    using sup' by (simp_all add: db2 db1 transition_revision_def point_active_def update_where_def)
  have row: "revision_row_ok y" if "y \<in> set (kd_revisions db)" for y using rows that by (simp add: skill_rows_def)
  show "skills_ok db2"
  proof (rule skills_ok_map [OF ok tables])
    show "revision_row_ok (?f y) \<and> (kr_status (?f y) = K_pending \<longrightarrow> kr_approved_at (?f y) = None)"
      if y: "y \<in> set (kd_revisions db)" for y
      using y rows row [OF y] only [OF y] r(2) manual active [OF y] nold
      by (auto simp: skill_rows_def intro!: row_ok_moved)
    show "kr_status (?f y) = K_active \<longleftrightarrow> sk_active_revision (?g t) = Some (kr_revision y)"
      if y: "y \<in> set (kd_revisions db)" and t: "t \<in> set (kd_skills db)" and own: "kr_skill_id y = sk_id t" for y t
    proof (cases "sk_id t = sk_id s")
      case True
      then have ts: "t = s" using skill_eq [OF keys s(1) t] by blast
      show ?thesis
      proof (cases "kr_id y = kr_id r")
        case True
        then show ?thesis using only [OF y] ts by simp
      next
        case False
        then have "kr_revision y \<noteq> kr_revision r" using skill_key_eq [OF keys r(1) y] own ts s(2) by auto
        moreover have "kr_status y = K_active \<longleftrightarrow> ?old y" using ptr y own ts by (auto simp: points_at_def)
        ultimately show ?thesis using False ts by auto
      qed
    next
      case False
      then have "kr_id y \<noteq> kr_id r" using only [OF y] own s(2) by auto
      moreover have "kr_status y = K_active \<longleftrightarrow> sk_active_revision t = Some (kr_revision y)"
        using ptrs t y own by (auto simp: skill_pointers_def points_at_def)
      ultimately show ?thesis using False own by simp
    qed
    show "\<exists>y \<in> set (kd_revisions db). kr_skill_id y = sk_id t \<and> kr_revision y = n"
      if t: "t \<in> set (kd_skills db)" and n: "sk_active_revision (?g t) = Some n" for t n
      using ptrs t n r(1) s(2) by (auto simp: skill_pointers_def points_at_def split: if_splits)
  qed auto
  show "skill_history db db2"
  proof (rule skill_history_map [where f = ?f and new = "[]"])
    have "kr_approved_at r = None" using rows r by (auto simp: skill_rows_def)
    then show "guard_skill_revision y (?f y)" if "y \<in> set (kd_revisions db)" for y
      using only [OF that] r(2) active [OF that] by (auto intro!: guard_moved guard_skill_refl)
  qed (auto simp: tables)
qed

lemma review_ok:
  assumes ok: "skills_ok db" and rev: "review_skill P clk actor a db = Inr (db', answer)"
  shows "skills_ok db' \<and> skill_history db db'"
proof (cases "db' = db")
  case True
  then show ?thesis using ok skill_history_refl by blast
next
  case False
  let ?action = "action_of (arg_str a ''action'')"
  obtain r s db1 where r: "r \<in> set (kd_revisions db)" "\<not> skill_conflict r ?action (arg_int a ''expected_version'')"
    and s: "fetchrow (\<lambda>s. sk_id s = kr_skill_id r) (kd_skills db) = Some s"
    and db1: "(if ?action = A_approve then approve_revision P clk actor r s db
               else Inr (if sk_active_revision s = Some (kr_revision r) then point_active (sk_id s) None db else db)) = Inr db1"
    and db': "db' = transition_revision (clk 3) r actor (action_str ?action) (action_after ?action) db1"
    using rev False
    by (auto simp: review_skill_def Let_def and_then_Inr_iff dest: fetchrow_SomeD split: option.splits if_splits)
  note sk = skill_of_revision [OF ok r(1) s]
  show ?thesis
  proof (cases "?action = A_approve")
    case True
    then have "kr_status r = K_pending" using r(2) by (simp add: skill_conflict_def)
    then show ?thesis using approve_ok [OF ok r(1) _ sk(1,2)] db1 True unfolding db' by auto
  next
    case False
    have "retire (clk 3) (action_after ?action) r db db'"
      using retire_review [OF ok sk(1,2)] db1 False unfolding db' by auto
    moreover have "action_after ?action \<noteq> K_active" "action_after ?action \<noteq> K_pending" "kr_status r \<noteq> K_forgotten"
      using False r(2) by (auto simp: action_of_def skill_conflict_def)
    ultimately show ?thesis using retire_ok [OF ok r(1)] by blast
  qed
qed

subsection \<open>Submissions\<close>

lemma capture_sourcesE:
  assumes "capture_sources P now project vs db = Inr c"
  obtains refs rows where "skill_refs vs = Inr refs" "map (\<lambda>x. (xp_id x, int (xp_version x))) rows = refs"
    "cp_bindings c = map (binding_of P) rows" "cp_watermark c = watermark_of P (cp_bindings c)"
    "\<forall>x \<in> set rows. x \<in> set (xd_experiences db) \<and> citable project now (xd_handoffs db) x"
    "''procedure'' \<in> set (map xp_kind rows)"
proof -
  obtain refs where refs: "skill_refs vs = Inr refs"
    and c: "map (\<lambda>x. (xp_id x, int (xp_version x))) (cited_rows project now refs db) = refs"
      "cp_bindings c = map (binding_of P) (cited_rows project now refs db)" "cp_watermark c = watermark_of P (cp_bindings c)"
      "''procedure'' \<in> set (map xp_kind (cited_rows project now refs db))"
    using assms by (auto simp: capture_sources_def Let_def and_then_Inr_iff)
  then show thesis using that [OF refs c(1,2,3) _ c(4)] by (auto simp: cited_rows_def)
qed

lemma binding_version: "arg_int (binding_of P x) ''version'' = int (xp_version x)"
  by (simp add: binding_of_def arg_int_def py_get_def int_of_def)

lemma target_skillE:
  assumes "target_skill clk si origin a m c db = Inr (db1, s)"
  obtains (known) "db1 = db" "s \<in> set (kd_skills db)"
    | (fresh) "db1 = db\<lparr>kd_skills := insert_row s (kd_skills db)\<rparr>" "s = new_skill si (clk 2) a c"
proof (cases "has_key a ''skill_id''")
  case True
  obtain t where t: "fetchrow (\<lambda>s. sk_id s = arg_uuid a ''skill_id'' \<and> sk_project_id s = arg_str a ''project_id'') (kd_skills db) = Some t"
      "int (sk_latest_revision t) = arg_int a ''expected_revision''"
    using assms True by (cases "fetchrow (\<lambda>s. sk_id s = arg_uuid a ''skill_id'' \<and> sk_project_id s = arg_str a ''project_id'') (kd_skills db)")
      (simp_all add: target_skill_def Let_def split: if_splits)
  then have "db1 = db \<and> s = t"
    using assms True by (cases "revision_row (sk_id t) (sk_latest_revision t) db") (simp_all add: target_skill_def Let_def)
  then show thesis using known fetchrow_SomeD [OF t(1)] by blast
next
  case False
  then have "db1 = db\<lparr>kd_skills := insert_row s (kd_skills db)\<rparr> \<and> s = new_skill si (clk 2) a c"
    using assms by (auto simp: target_skill_def Let_def split: if_splits)
  then show thesis using fresh by blast
qed

lemma prepare_body:
  assumes "prepare_skill U P a = Inr m" and "body_schema_sound P"
  shows "pp_body m \<noteq> []"
  using assms by (auto simp: prepare_skill_def body_errors_def Let_def and_then_Inr_iff body_schema_sound_def)

lemma submit_skillE:
  assumes "submit_skill U P clk si i actor origin a db = Inr (db', answer)"
  obtains (known) "db' = db"
    | (stored) m c db1 s where "prepare_skill U P a = Inr m"
        "capture_sources P (clk 1) (arg_str a ''project_id'') (map ref_dict (pp_refs m)) (kd_store db) = Inr c"
        "target_skill clk si origin a m c db = Inr (db1, s)"
        "db' = store_revision (new_revision P clk i actor origin a m c s) (cp_bindings c) db1"
  using assms by (auto simp: submit_skill_def Let_def and_then_Inr_iff split: option.splits)

lemma new_revision_fields [simp]:
  "kr_id (new_revision P clk i actor origin a m c s) = i"
  "kr_skill_id (new_revision P clk i actor origin a m c s) = sk_id s"
  "kr_revision (new_revision P clk i actor origin a m c s) = sk_latest_revision s + 1"
  "kr_status (new_revision P clk i actor origin a m c s) = K_pending"
  "kr_version (new_revision P clk i actor origin a m c s) = 1"
  "kr_body (new_revision P clk i actor origin a m c s) = pp_body m"
  "kr_approved_at (new_revision P clk i actor origin a m c s) = None"
  by (simp_all add: new_revision_def Let_def)

lemma stored_keys:
  assumes "skill_keys db" and "skill_rows db" and "s \<in> set (kd_skills db)"
    and "i \<notin> kr_id ` set (kd_revisions db)"
  shows "skill_keys (store_revision (new_revision P clk i actor origin a m c s) bs db)"
proof -
  let ?r = "new_revision P clk i actor origin a m c s"
  have "kr_revision y \<le> sk_latest_revision s" if "y \<in> set (kd_revisions db)" "kr_skill_id y = sk_id s" for y
    using revision_upto_latest [OF assms(1-3) that] .
  then have "(sk_id s, sk_latest_revision s + 1) \<notin> (\<lambda>r. (kr_skill_id r, kr_revision r)) ` set (kd_revisions db)"
    by force
  moreover have "map sk_id (update_where (\<lambda>t. sk_id t = kr_skill_id ?r) (advanced_skill ?r) (kd_skills db)) = map sk_id (kd_skills db)"
    by (rule map_update_where) (simp add: advanced_skill_def)
  ultimately show ?thesis
    using assms(1,4) by (simp add: skill_keys_def store_revision_def insert_row_def)
qed

lemma stored_points:
  assumes "skills_ok db" and "s \<in> set (kd_skills db)" and "t \<in> set (kd_skills db)"
    and r_def: "r = new_revision P clk i actor origin a m c s"
  shows "points_at (if sk_id t = sk_id s then advanced_skill r t else t) (kd_revisions db @ [r])"
proof -
  have keys: "skill_keys db" and pt: "points_at t (kd_revisions db)"
    using assms(1,3) by (auto simp: skills_ok_def skill_pointers_def)
  have "sk_active_revision t \<noteq> Some (kr_revision r)" if "sk_id t = sk_id s"
  proof
    assume "sk_active_revision t = Some (kr_revision r)"
    then obtain y where y: "y \<in> set (kd_revisions db)" "kr_skill_id y = sk_id t" "kr_revision y = kr_revision r"
      using pt unfolding points_at_def by blast
    then show False using revision_upto_latest [OF keys _ assms(2) y(1)] assms(1) that by (simp add: skills_ok_def r_def)
  qed
  then show ?thesis using pt by (auto simp: points_at_def advanced_skill_def r_def)
qed

lemma stored_ok:
  assumes ok: "skills_ok db" and s: "s \<in> set (kd_skills db)" and i: "i \<notin> kr_id ` set (kd_revisions db)"
    and body: "pp_body m \<noteq> []" and bs: "bs = map (binding_of P) rows"
    and r_def: "r = new_revision P clk i actor origin a m c s"
  shows "skills_ok (store_revision r bs db) \<and> skill_history db (store_revision r bs db)"
proof -
  have keys: "skill_keys db" and rows: "skill_rows db" and src: "sources_bound db"
    using ok by (simp_all add: skills_ok_def)
  let ?g = "\<lambda>t. if sk_id t = sk_id s then advanced_skill r t else t"
  have tables: "kd_revisions (store_revision r bs db) = kd_revisions db @ [r]" "kd_skills (store_revision r bs db) = map ?g (kd_skills db)"
      "kd_sources (store_revision r bs db) = kd_sources db @ map (source_row r) bs"
    by (simp_all add: store_revision_def insert_row_def update_where_def r_def)
  have "skill_rows (store_revision r bs db)"
  proof -
    have g: "\<exists>u \<in> set (map ?g (kd_skills db)). sk_id u = kr_skill_id y \<and> kr_revision y \<le> sk_latest_revision u"
      if t: "t \<in> set (kd_skills db)" "sk_id t = kr_skill_id y" "kr_revision y \<le> sk_latest_revision (?g t)" for y t
      using t by (intro bexI [of _ "?g t"]) (auto simp: advanced_skill_def)
    have grows: "sk_latest_revision t \<le> sk_latest_revision (?g t)" if "t \<in> set (kd_skills db)" for t
      using skill_eq [OF keys s that] by (auto simp: advanced_skill_def r_def)
    show ?thesis unfolding skill_rows_def tables
    proof
      fix y assume "y \<in> set (kd_revisions db @ [r])"
      then consider "y \<in> set (kd_revisions db)" | "y = r" by auto
      then show "revision_row_ok y \<and> (kr_status y = K_pending \<longrightarrow> kr_approved_at y = None)
        \<and> (\<exists>u \<in> set (map ?g (kd_skills db)). sk_id u = kr_skill_id y \<and> kr_revision y \<le> sk_latest_revision u)"
      proof cases
        case 1
        obtain t where t: "t \<in> set (kd_skills db)" "sk_id t = kr_skill_id y" "kr_revision y \<le> sk_latest_revision t"
          using skill_rowsE [OF rows 1] .
        then have "kr_revision y \<le> sk_latest_revision (?g t)" using grows by (meson le_trans)
        then show ?thesis using g [OF t(1,2)] rows 1 unfolding skill_rows_def by blast
      next
        case 2
        then have "revision_row_ok y \<and> kr_approved_at y = None" using body by (simp add: revision_row_ok_def r_def)
        then show ?thesis using g [OF s, of y] 2 by (simp add: r_def advanced_skill_def)
      qed
    qed
  qed
  moreover have "skill_pointers (store_revision r bs db)"
    using stored_points [OF ok s _ r_def] unfolding skill_pointers_def tables set_map by blast
  moreover have "sources_bound (store_revision r bs db)"
    using src binding_version unfolding sources_bound_def tables by (auto simp: source_row_def bs)
  moreover have "skill_history db (store_revision r bs db)"
    by (rule skill_history_map [where f = "\<lambda>x. x" and new = "[r]"]) (simp_all add: tables guard_skill_refl)
  ultimately show ?thesis using stored_keys [OF keys rows s i] by (simp add: skills_ok_def r_def)
qed

lemma skills_ok_new_skill:
  assumes ok: "skills_ok db" and s: "sk_id s \<notin> sk_id ` set (kd_skills db)" "sk_active_revision s = None"
  shows "skills_ok (db\<lparr>kd_skills := insert_row s (kd_skills db)\<rparr>)"
proof -
  have rows: "skill_rows db" using ok by (simp add: skills_ok_def)
  have "kr_skill_id r \<noteq> sk_id s" if "r \<in> set (kd_revisions db)" for r
    using skill_rowsE [OF rows that] s(1) by (metis imageI)
  then have "points_at s (kd_revisions db)" using s(2) by (simp add: points_at_def)
  moreover have "skill_rows (db\<lparr>kd_skills := insert_row s (kd_skills db)\<rparr>)"
    using rows unfolding skill_rows_def by (simp add: insert_row_def)
  ultimately show ?thesis
    using ok s(1) by (simp add: skills_ok_def skill_keys_def skill_pointers_def sources_bound_def insert_row_def)
qed

lemma submit_ok:
  assumes ok: "skills_ok db" and sub: "submit_skill U P clk si i actor origin a db = Inr (db', answer)"
    and fresh: "si \<notin> sk_id ` set (kd_skills db)" "i \<notin> kr_id ` set (kd_revisions db)" and sound: "body_schema_sound P"
  shows "skills_ok db' \<and> skill_history db db'"
  using sub
proof (cases rule: submit_skillE)
  case known
  then show ?thesis using ok skill_history_refl by simp
next
  case (stored m c db1 s)
  obtain rows where bs: "cp_bindings c = map (binding_of P) rows" using stored(2) by (rule capture_sourcesE)
  note body = prepare_body [OF stored(1) sound]
  from stored(3) show ?thesis
  proof (cases rule: target_skillE)
    case known
    then show ?thesis using stored_ok [OF ok _ fresh(2) body bs refl] stored(4) by simp
  next
    case fresh': fresh
    have "skills_ok db1" unfolding fresh'(1)
      by (rule skills_ok_new_skill [OF ok]) (use fresh(1) in \<open>simp_all add: fresh'(2) new_skill_def\<close>)
    moreover have "kd_revisions db1 = kd_revisions db" "s \<in> set (kd_skills db1)" by (simp_all add: fresh'(1) insert_row_def)
    ultimately have "skills_ok db' \<and> skill_history db1 db'"
      unfolding stored(4) using fresh(2) by (intro stored_ok [OF _ _ _ body bs refl]) simp_all
    moreover have "skill_history db db1" by (rule skill_history_same) (simp add: fresh'(1))
    ultimately show ?thesis using skill_history_trans by blast
  qed
qed

lemma skill_step_ok:
  assumes "skills_ok db" and "skill_step U P clk db db'" and "body_schema_sound P"
  shows "skills_ok db' \<and> skill_history db db'"
  using assms(2)
proof cases
  case step_submit
  then show ?thesis using submit_ok assms(1,3) by blast
next
  case step_review
  then show ?thesis using review_ok assms(1) by blast
next
  case step_memories
  then show ?thesis using memories_changed_ok assms(1) by blast
qed

subsection \<open>Reads\<close>

lemma freshness_sources:
  assumes "sources_bound db" and "fst (freshness P now r (saved_bindings (kr_id r) db) (kd_store db))"
    and "k \<in> set (kd_sources db)" and "ks_revision_id k = kr_id r"
  shows "\<exists>x \<in> set (xd_experiences (kd_store db)). xp_id x = ks_memory_id k \<and> xp_version x = ks_memory_version k
    \<and> citable (kr_project_id r) now (xd_handoffs (kd_store db)) x"
proof -
  let ?bs = "saved_bindings (kr_id r) db"
  obtain c where cap: "capture_sources P now (kr_project_id r) (map PDict ?bs) (kd_store db) = Inr c"
    using assms(2) by (auto simp: freshness_def split: sum.splits)
  then obtain refs rows where refs: "skill_refs (map PDict ?bs) = Inr refs"
      "map (\<lambda>x. (xp_id x, int (xp_version x))) rows = refs"
    and rows: "\<forall>x \<in> set rows. x \<in> set (xd_experiences (kd_store db)) \<and> citable (kr_project_id r) now (xd_handoffs (kd_store db)) x"
    by (rule capture_sourcesE)
  have "ks_binding k \<in> set ?bs" using assms(3,4) by (auto simp: saved_bindings_def)
  moreover have "set refs = (\<lambda>b. (arg_uuid b ''memory_id'', arg_int b ''version'')) ` set ?bs"
    using refs(1) by (auto simp: skill_refs_def Let_def dict_of_def)
  moreover have "arg_uuid (ks_binding k) ''memory_id'' = ks_memory_id k" "arg_int (ks_binding k) ''version'' = int (ks_memory_version k)"
    using assms(1,3) by (auto simp: sources_bound_def)
  ultimately have "(ks_memory_id k, int (ks_memory_version k)) \<in> set refs" by force
  then obtain x where "x \<in> set rows" "xp_id x = ks_memory_id k" "xp_version x = ks_memory_version k"
    using refs(2) by auto
  then show ?thesis using rows by blast
qed

text \<open>What a reader of a skill gets is approved, within its level and backed by its sources now.\<close>

definition skill_backed :: "time \<Rightarrow> skill_revision \<Rightarrow> skdb \<Rightarrow> bool" where
  "skill_backed now r db \<longleftrightarrow> kr_status r = K_active \<and> kr_origin r = O_manual \<and> kr_approved_at r \<noteq> None
     \<and> (\<forall>k \<in> set (kd_sources db). ks_revision_id k = kr_id r \<longrightarrow>
          (\<exists>x \<in> set (xd_experiences (kd_store db)). xp_id x = ks_memory_id k \<and> xp_version x = ks_memory_version k
            \<and> citable (kr_project_id r) now (xd_handoffs (kd_store db)) x))"

lemma get_skill_dataE:
  assumes "get_skill P now False a db = Inr d"
  obtains r s where "r \<in> set (kd_revisions db)" "kr_id r = arg_uuid a ''revision_id''" "kr_project_id r = arg_str a ''project_id''"
    "\<not> skill_hidden a r" "fst (freshness P now r (saved_bindings (kr_id r) db) (kd_store db))"
    "d = revision_columns s r @ [(''revision_id'', PStr (uuid_str (kr_id r))),
      (''sources'', PList (map PDict (saved_bindings (kr_id r) db))), (''fresh'', PBool True)]"
    "s \<in> set (kd_skills db)" "sk_id s = kr_skill_id r"
proof -
  let ?p = "\<lambda>r. kr_project_id r = arg_str a ''project_id'' \<and> exists_row (\<lambda>s. sk_id s = kr_skill_id r) (kd_skills db)"
  obtain r where f: "fetchrow (\<lambda>r. kr_id r = arg_uuid a ''revision_id'' \<and> ?p r) (kd_revisions db) = Some r"
    using assms by (fastforce simp: get_skill_def split: option.splits)
  obtain s where s: "fetchrow (\<lambda>s. sk_id s = kr_skill_id r) (kd_skills db) = Some s"
    using assms f by (fastforce simp: get_skill_def split: option.splits)
  have "\<not> skill_hidden a r" "fst (freshness P now r (saved_bindings (kr_id r) db) (kd_store db))"
    "d = revision_columns s r @ [(''revision_id'', PStr (uuid_str (kr_id r))),
      (''sources'', PList (map PDict (saved_bindings (kr_id r) db))), (''fresh'', PBool True)]"
    using assms f s by (auto simp: get_skill_def Let_def split: prod.splits if_splits)
  then show thesis using that [of r s] fetchrow_SomeD [OF f] fetchrow_SomeD [OF s] by blast
qed

lemma get_skillE:
  assumes ok: "skills_ok db" and get: "get_skill P now False a db = Inr d"
  obtains r s where "revision_at db (arg_uuid a ''revision_id'') = Some r" "kr_project_id r = arg_str a ''project_id''"
    "skill_backed now r db" "kr_classification r \<le> class_of (str_of (get_or a ''max_classification'' (PStr ''internal'')))"
    "\<not> skill_hidden a r"
    "py_get d ''content_digest'' = PStr (kr_content_digest r)" "py_get d ''body'' = PDict (kr_body r)"
    "py_get d ''classification'' = PStr (class_str (kr_classification r))" "s \<in> set (kd_skills db)" "sk_id s = kr_skill_id r"
    "d = revision_columns s r @ [(''revision_id'', PStr (uuid_str (kr_id r))),
      (''sources'', PList (map PDict (saved_bindings (kr_id r) db))), (''fresh'', PBool True)]"
proof -
  obtain r s where r: "r \<in> set (kd_revisions db)" "kr_id r = arg_uuid a ''revision_id''" "kr_project_id r = arg_str a ''project_id''"
    and vis: "\<not> skill_hidden a r" "fst (freshness P now r (saved_bindings (kr_id r) db) (kd_store db))"
    and d: "d = revision_columns s r @ [(''revision_id'', PStr (uuid_str (kr_id r))),
      (''sources'', PList (map PDict (saved_bindings (kr_id r) db))), (''fresh'', PBool True)]"
    and s: "s \<in> set (kd_skills db)" "sk_id s = kr_skill_id r"
    using get by (rule get_skill_dataE)
  have keys: "distinct (map kr_id (kd_revisions db))" and src: "sources_bound db" and row: "revision_row_ok r"
    using ok r(1) by (auto simp: skills_ok_def skill_keys_def skill_rows_def)
  have "skill_backed now r db"
    using vis(1) row freshness_sources [OF src vis(2)] by (auto simp: skill_backed_def skill_hidden_def revision_row_ok_def)
  moreover have "kr_classification r \<le> class_of (str_of (get_or a ''max_classification'' (PStr ''internal'')))"
    using vis(1) by (auto simp: skill_hidden_def)
  moreover have "revision_at db (arg_uuid a ''revision_id'') = Some r"
    using fetchrow_by_key_eq [OF keys r(1,2)] by (simp add: revision_at_def)
  ultimately show thesis using that [of r s] r(3) vis(1) s by (simp add: d revision_columns_def py_get_def)
qed

subsection \<open>Properties\<close>

interpretation sv: row_history "skill_step U P" "\<lambda>db. skills_ok db \<and> body_schema_sound P" revision_at guard_skill_revision for U P
proof
  show "skills_ok db \<and> body_schema_sound P \<Longrightarrow> skill_step U P clk db db' \<Longrightarrow> skills_ok db' \<and> body_schema_sound P"
    for clk db db' using skill_step_ok by blast
  show "\<exists>r'. revision_at db' i = Some r' \<and> guard_skill_revision r r'"
    if "skills_ok db \<and> body_schema_sound P" "skill_step U P clk db db'" "revision_at db i = Some r" for clk db db' i r
    using skill_step_ok that by (auto simp: skill_history_def)
qed (fact guard_skill_refl guard_skill_trans)+

lemma invalidate_fold_sources [simp]: "kd_sources (fold (invalidate_revision now x) rs db) = kd_sources db"
  by (induction rs arbitrary: db) (simp_all add: invalidate_revision_def)

lemma invalidate_sources [simp]: "kd_sources (invalidate now x db) = kd_sources db"
  by (simp add: invalidate_def)

lemma forgotten_stays:
  assumes "skill_history db db'" and "revision_at db i = Some r" and "kr_status r = K_forgotten"
  shows "\<exists>r'. revision_at db' i = Some r' \<and> kr_status r' = K_forgotten"
  using assms unfolding skill_history_def guard_skill_revision_def by blast

lemma invalidate_forgets:
  assumes "skills_ok db" and "distinct (map kr_id rs)"
    and "\<And>r. r \<in> set rs \<Longrightarrow> r \<in> set (kd_revisions db) \<and> kr_status r \<noteq> K_forgotten"
    and "xp_status x = X_forgotten" and "r \<in> set rs"
  shows "\<exists>r'. revision_at (fold (invalidate_revision now x) rs db) (kr_id r) = Some r' \<and> kr_status r' = K_forgotten"
  using assms
proof (induction rs arbitrary: db)
  case (Cons y ys)
  let ?db = "invalidate_revision now x y db"
  have st: "stale_status x = K_forgotten" using Cons.prems(4) by (simp add: stale_status_def)
  have y: "y \<in> set (kd_revisions db)" "kr_status y \<noteq> K_forgotten" using Cons.prems(3) by auto
  have ok: "skills_ok ?db" by (rule retire_ok(1) [OF Cons.prems(1) y _ _ retire_invalidate]) (simp_all add: st)
  have ys: "z \<in> set (kd_revisions ?db) \<and> kr_status z \<noteq> K_forgotten" if "z \<in> set ys" for z
    using retire_others [OF retire_invalidate] Cons.prems(2,3) that by (auto simp: image_iff)
  have dist: "distinct (map kr_id ys)" using Cons.prems(2) by simp
  show ?case
  proof (cases "r = y")
    case True
    have "distinct (map kr_id (kd_revisions db))" using Cons.prems(1) by (simp add: skills_ok_def skill_keys_def)
    then have "revision_at db (kr_id y) = Some y" using fetchrow_unique y(1) by (simp add: revision_at_def)
    then have "revision_at ?db (kr_id y) = Some (moved_revision now K_forgotten y)"
      by (simp add: revision_at_def invalidate_revision_def st fetchrow_update_where)
    then show ?thesis using invalidate_fold [OF ok dist ys] forgotten_stays True by fastforce
  next
    case False
    then show ?thesis using Cons.IH [OF ok dist ys Cons.prems(4)] Cons.prems(5) by simp
  qed
qed simp

lemma memory_forgets:
  assumes ok: "skills_ok db" and x: "xp_status x = X_forgotten" and k: "k \<in> set (kd_sources db)" "ks_memory_id k = xp_id x"
    and r: "revision_at db (ks_revision_id k) = Some r"
  shows "\<exists>r'. revision_at (invalidate now x db) (ks_revision_id k) = Some r' \<and> kr_status r' = K_forgotten"
proof (cases "kr_status r = K_forgotten")
  case True
  then show ?thesis using invalidate_ok [OF ok] forgotten_stays r by blast
next
  case False
  let ?rs = "sort_key kr_id (filter (stale_target x db) (kd_revisions db))"
  have rr: "r \<in> set (kd_revisions db)" "kr_id r = ks_revision_id k" using fetchrow_SomeD r by (fastforce simp: revision_at_def)+
  then have "stale_target x db r" using False x k by (auto simp: stale_target_def exists_row_iff)
  then have "r \<in> set ?rs" using rr by simp
  moreover have "distinct (map kr_id ?rs)" using ok by (simp add: skills_ok_def skill_keys_def distinct_map inj_on_def)
  ultimately have "\<exists>r'. revision_at (fold (invalidate_revision now x) ?rs db) (kr_id r) = Some r' \<and> kr_status r' = K_forgotten"
    by (intro invalidate_forgets [OF ok _ _ x]) (auto simp: stale_target_def)
  then show ?thesis by (simp only: invalidate_def rr(2))
qed

lemma memories_forget:
  assumes "skills_ok db" and "x \<in> set xs" and "xp_status x = X_forgotten" and "k \<in> set (kd_sources db)"
    and "ks_memory_id k = xp_id x" and "revision_at db (ks_revision_id k) = Some r"
  shows "\<exists>r'. revision_at (fold (invalidate now) xs db) (ks_revision_id k) = Some r' \<and> kr_status r' = K_forgotten"
  using assms
proof (induction xs arbitrary: db r)
  case (Cons y ys)
  let ?db = "invalidate now y db"
  have ok: "skills_ok ?db" "skill_history db ?db" using invalidate_ok [OF Cons.prems(1)] by blast+
  obtain r1 where r1: "revision_at ?db (ks_revision_id k) = Some r1" using ok(2) Cons.prems(6) by (auto simp: skill_history_def)
  have rest: "skill_history ?db (fold (invalidate now) ys ?db)" using invalidate_all_ok [OF ok(1)] by blast
  show ?case
  proof (cases "x = y")
    case True
    then show ?thesis using memory_forgets [OF Cons.prems(1,3,4,5,6)] forgotten_stays [OF rest] by fastforce
  next
    case False
    then show ?thesis using Cons.IH [OF ok(1) _ Cons.prems(3) _ Cons.prems(5) r1] Cons.prems(2,4) by simp
  qed
qed simp

text \<open>
  C31. Erasure reaches the skills. When a transaction forgets an experience, every revision
  that quotes it is forgotten with it, whatever its status: its text is gone, no skill
  points at it and no reader gets it, and so it stays in every later state.
\<close>

theorem skill_erasure_final:
  assumes "skills_ok db" and "body_schema_sound P"
    and "k \<in> set (kd_sources db)" and "ks_memory_id k = xp_id x" and "revision_at db (ks_revision_id k) = Some r"
    and "x \<in> set (changed_memories (kd_store db) new)" and "xp_status x = X_forgotten"
    and "run (skill_step U P) (memories_changed now new db) ts db'"
  shows "\<exists>r'. revision_at db' (ks_revision_id k) = Some r' \<and> kr_status r' = K_forgotten \<and> kr_body r' = []
    \<and> (\<forall>s \<in> set (kd_skills db'). sk_id s = kr_skill_id r' \<longrightarrow> sk_active_revision s \<noteq> Some (kr_revision r'))
    \<and> (\<forall>t a. arg_uuid a ''revision_id'' = ks_revision_id k \<longrightarrow> \<not> is_ok (read_skill P t False a db'))"
proof -
  let ?d = "db\<lparr>kd_gen := (kd_gen db)\<lparr>gd_store := new\<rparr>\<rparr>"
  have "skills_ok ?d" using assms(1)
    by (simp add: skills_ok_def skill_keys_def skill_rows_def skill_pointers_def sources_bound_def)
  then obtain r1 where r1: "revision_at (memories_changed now new db) (ks_revision_id k) = Some r1" "kr_status r1 = K_forgotten"
    using memories_forget [of ?d x "changed_memories (kd_store db) new" k r now] assms(3-7)
    by (auto simp: memories_changed_def revision_at_def)
  have inv: "skills_ok (memories_changed now new db) \<and> body_schema_sound P" using memories_changed_ok assms(1,2) by blast
  obtain r' where r': "revision_at db' (ks_revision_id k) = Some r'" "kr_status r' = K_forgotten"
    using sv.row_run [OF assms(8) inv r1(1)] r1(2) by (auto simp: guard_skill_revision_def)
  have ok: "skills_ok db'" using sv.inv_run [OF assms(8) inv] by blast
  have mem: "r' \<in> set (kd_revisions db')" using r'(1) fetchrow_SomeD by (fastforce simp: revision_at_def)
  have "kr_body r' = []" using ok mem r'(2) by (auto simp: skills_ok_def skill_rows_def revision_row_ok_def)
  moreover have "sk_active_revision s \<noteq> Some (kr_revision r')" if s: "s \<in> set (kd_skills db')" "sk_id s = kr_skill_id r'" for s
  proof -
    have "points_at s (kd_revisions db')" using ok s(1) by (simp add: skills_ok_def skill_pointers_def)
    then have "kr_status r' = K_active \<longleftrightarrow> sk_active_revision s = Some (kr_revision r')"
      using mem s(2) by (simp add: points_at_def)
    then show ?thesis using r'(2) by simp
  qed
  moreover have "\<not> is_ok (read_skill P t False a db')" if "arg_uuid a ''revision_id'' = ks_revision_id k" for t a
  proof
    assume "is_ok (read_skill P t False a db')"
    then obtain d where "get_skill P t False a db' = Inr d" by (auto simp: read_skill_def and_then_Inr_iff is_ok_def split: sum.splits)
    then show False using r' that by (elim get_skillE [OF ok]) (simp add: skill_backed_def)
  qed
  ultimately show ?thesis using r' by blast
qed

subsection \<open>Witnesses\<close>

definition demo_checker :: platform where
  "demo_checker = \<lparr>sha256 = (\<lambda>_. []), float_repr = (\<lambda>_. []), fromisoformat = (\<lambda>_. None),
     schema_valid = (\<lambda>_ v. v \<noteq> PDict [])\<rparr>"

definition plain_unicode :: unicode where
  "plain_unicode = \<lparr>nfc = id, nfkc = id, folded = id\<rparr>"

definition demo_experience :: "exp_status \<Rightarrow> nat \<Rightarrow> experience" where
  "demo_experience status version = \<lparr>xp_id = 3, xp_project_id = ''web'', xp_source_handoff_id = None, xp_source = [],
     xp_source_lock_digest = ''l1'', xp_classification = C_public, xp_kind = ''procedure'', xp_title = ''Release'',
     xp_content = ''Tag, then build'', xp_tags = [], xp_search_text = [], xp_status = status, xp_version = version,
     xp_created_by = ''ann'', xp_idempotency_key = ''k1'', xp_submission_digest = [], xp_expires_at = None, xp_created_at = 1,
     xp_updated_at = 1, xp_source_payload_digest = ''p1'', xp_content_fingerprint = ''f1'', xp_valid_from = None,
     xp_supersedes_id = None, xp_supersedes_version = None, xp_revision_root_id = None, xp_revision_number = 1,
     xp_is_correction = False\<rparr>"

definition demo_experiences :: "exp_status \<Rightarrow> nat \<Rightarrow> xdb" where
  "demo_experiences status version = \<lparr>xd_experiences = [demo_experience status version], xd_events = [],
     xd_suppressions = [], xd_handoffs = []\<rparr>"

definition demo_revision :: skill_revision where
  "demo_revision = \<lparr>kr_id = 7, kr_skill_id = 5, kr_project_id = ''web'', kr_revision = 1, kr_base_active_revision = None,
     kr_version = 2, kr_status = K_active, kr_origin = O_manual, kr_body = [(''title'', PStr ''Release'')],
     kr_classification = C_public, kr_source_lock_digest = ''l1'', kr_source_watermark = [], kr_content_digest = [],
     kr_created_by = ''ann'', kr_idempotency_key = ''k2'', kr_submission_digest = [], kr_approved_at = Some 4,
     kr_created_at = 3, kr_updated_at = 4\<rparr>"

definition demo_skills :: skdb where
  "demo_skills = \<lparr>kd_gen = \<lparr>gd_jobs = [], gd_attempts = [], gd_snapshots = [], gd_store = demo_experiences X_active 2\<rparr>,
     kd_skills = [\<lparr>sk_id = 5, sk_project_id = ''web'', sk_name = ''release'', sk_latest_revision = 1, sk_active_revision = Some 1,
       sk_classification = C_public, sk_created_at = 2\<rparr>],
     kd_revisions = [demo_revision],
     kd_sources = [\<lparr>ks_revision_id = 7, ks_project_id = ''web'', ks_memory_id = 3, ks_memory_version = 2,
       ks_binding = [(''memory_id'', PStr ''3''), (''version'', PInt 2)]\<rparr>],
     kd_events = []\<rparr>"

lemma demo_skills_ok: "skills_ok demo_skills" "body_schema_sound demo_checker"
proof -
  have "skill_keys demo_skills" "skill_rows demo_skills" "sources_bound demo_skills" by code_simp+
  moreover have "skill_pointers demo_skills" by (simp add: skill_pointers_def points_at_def demo_skills_def demo_revision_def)
  ultimately show "skills_ok demo_skills" by (simp add: skills_ok_def)
  show "body_schema_sound demo_checker" by (simp add: body_schema_sound_def demo_checker_def)
qed

theorem skill_erasure_final_witness:
  "\<exists>r'. revision_at (memories_changed 9 (demo_experiences X_forgotten 3) demo_skills) 7 = Some r' \<and> kr_body r' = []"
proof -
  let ?k = "hd (kd_sources demo_skills)"
  have "demo_experience X_forgotten 3 \<in> set (changed_memories (kd_store demo_skills) (demo_experiences X_forgotten 3))"
    by (simp add: changed_memories_def demo_skills_def demo_experiences_def demo_experience_def exists_row_def)
  moreover have "?k \<in> set (kd_sources demo_skills)" "ks_memory_id ?k = xp_id (demo_experience X_forgotten 3)"
      "revision_at demo_skills (ks_revision_id ?k) = Some demo_revision" "ks_revision_id ?k = 7"
    by (simp_all add: demo_skills_def demo_experience_def revision_at_def demo_revision_def)
  ultimately show ?thesis
    using skill_erasure_final [OF demo_skills_ok, of ?k "demo_experience X_forgotten 3" demo_revision
      "demo_experiences X_forgotten 3" undefined 9 "[]"]
    by (auto simp: demo_experience_def)
qed

end
