(* ===== verification/Identities.thy ===== *)
theory Identities
  imports Auth Text_Codec
begin

text \<open>
  Company and GitHub accounts: the configuration of both providers (server/entra_config.py,
  server/github_config.py), and the tables that bind an external subject to a user for good
  (store/identities.py, store/github_identities.py, migrations 015 and 016) with the
  operator commands on them (server/identity_admin.py, server/github_admin.py). Both tables
  have the same columns; their key is a tenant with an object id, or a GitHub id.
\<close>

subsection \<open>UUID texts\<close>

text \<open>
  \<open>str(UUID(hex))\<close> for a text: what the constructor strips, then \<open>int(hex, 16)\<close> of what must
  be 32 characters. \<open>None\<close> is its ValueError.
\<close>

fun without_sub :: "string \<Rightarrow> nat \<Rightarrow> string \<Rightarrow> string" where
  \<comment> \<open>\<open>replace(p, "")\<close>; the number counts the characters of an occurrence still to drop\<close>
  "without_sub p k [] = []"
| "without_sub p (Suc k) (c # r) = without_sub p k r"
| "without_sub p 0 (c # r) = (if starts_with p (c # r) then without_sub p (length p - 1) r else c # without_sub p 0 r)"

definition strip_chars :: "string \<Rightarrow> string \<Rightarrow> string" where
  "strip_chars cs s = rev (dropWhile (\<lambda>c. c \<in> set cs) (rev (dropWhile (\<lambda>c. c \<in> set cs) s)))"

definition hex_digit :: "char \<Rightarrow> bool" where
  "hex_digit c \<longleftrightarrow> digit c \<or> c \<in> set ''abcdefABCDEF''"

definition int_base16 :: "string \<Rightarrow> int option" where
  \<comment> \<open>white space around, a sign, a prefix, and single underscores between the digits\<close>
  "int_base16 s =
     (let t = py_strip s;
          signed = t \<noteq> [] \<and> hd t \<in> set ''+-'';
          u = (if signed then tl t else t);
          prefixed = starts_with ''0x'' u \<or> starts_with ''0X'' u;
          v = (if prefixed then drop 2 u else u);
          w = (if prefixed \<and> starts_with ''_'' v then tl v else v);
          n = int (fold (\<lambda>c n. 16 * n + hex_value c) (filter (\<lambda>c. c \<noteq> CHR ''_'') w) 0)
      in if list_all (\<lambda>g. g \<noteq> [] \<and> list_all hex_digit g) (split_on CHR ''_'' w)
         then Some (if signed \<and> hd t = CHR ''-'' then - n else n) else None)"

definition uuid_text :: "string \<Rightarrow> string option" where
  "uuid_text s =
     (let h = without_sub ''-'' 0 (strip_chars [CHR 0x7B, CHR 0x7D] (without_sub ''uuid:'' 0 (without_sub ''urn:'' 0 s)))
      in if length h \<noteq> 32 then None
         else case int_base16 h of
             None \<Rightarrow> None
           | Some n \<Rightarrow> if n < 0 then None else Some (uuid_str (nat n)))"

subsection \<open>Configuration\<close>

record entra_settings =
  es_enabled :: bool
  es_allow_legacy_tokens :: bool
  es_tenant_id :: string
  es_audience :: string
  es_client_id :: string
  es_scope :: string
  es_required_role :: string
  es_organization_id :: string
  es_clock_skew_seconds :: int

definition validate_entra :: "entra_settings \<Rightarrow> entra_settings option" where
  \<comment> \<open>\<open>None\<close> is a ValueError of the validation\<close>
  "validate_entra s =
     (if es_clock_skew_seconds s < 0 \<or> 120 < es_clock_skew_seconds s then None
      else if \<not> es_enabled s then Some s
      else case (uuid_text (es_tenant_id s), uuid_text (es_client_id s), uuid_text (es_audience s)) of
          (Some t, Some c, Some a) \<Rightarrow>
            if list_ex (\<lambda>v. v = [] \<or> 128 < length v \<or> list_ex py_space v) [es_scope s, es_required_role s, es_organization_id s]
            then None
            else Some (s\<lparr>es_tenant_id := t, es_client_id := c, es_audience := a\<rparr>)
        | _ \<Rightarrow> None)"

record github_settings =
  gs_enabled :: bool
  gs_allow_legacy_tokens :: bool
  gs_client_id :: string
  gs_client_secret :: string
  gs_allowed_user_ids :: "string list"
  gs_organization_id :: string

definition subject_text :: "string \<Rightarrow> bool" where
  \<comment> \<open>\<open>[1-9][0-9]{0,19}\<close>\<close>
  "subject_text s \<longleftrightarrow> s \<noteq> [] \<and> length s \<le> 20 \<and> list_all digit s \<and> hd s \<noteq> CHR ''0''"

definition github_subject :: "string \<Rightarrow> string option" where
  "github_subject s = (if subject_text s then Some s else None)"

definition alnum_char :: "char \<Rightarrow> bool" where
  "alnum_char c \<longleftrightarrow> upper_char c \<or> lower_char c \<or> digit c"

definition allowed_user :: "string \<Rightarrow> string option" where
  "allowed_user value =
     (let v = py_strip value; username = (if starts_with ''@'' v then tl v else v)
      in if v \<noteq> [] \<and> list_all digit v then github_subject v
         else if username = [] \<or> 39 < length username
                 \<or> \<not> list_all (\<lambda>g. g \<noteq> [] \<and> list_all alnum_char g) (split_on CHR ''-'' username)
         then None
         else Some (CHR ''@'' # ascii_lower username))"

definition client_id_text :: "string \<Rightarrow> bool" where
  "client_id_text s \<longleftrightarrow> s \<noteq> [] \<and> length s \<le> 128 \<and> list_all (\<lambda>c. alnum_char c \<or> c \<in> set ''_.-'') s"

definition validate_github :: "github_settings \<Rightarrow> github_settings option" where
  "validate_github s =
     (if 1000 < length (gs_allowed_user_ids s) then None
      else if \<not> gs_enabled s then Some s
      else if \<not> client_id_text (gs_client_id s) \<or> gs_client_secret s = [] then None
      else if gs_allowed_user_ids s = [] \<or> gs_organization_id s \<noteq> ''DevSecOps'' then None
      else map_option (\<lambda>us. s\<lparr>gs_allowed_user_ids := from_keys us\<rparr>) (all_some (map allowed_user (gs_allowed_user_ids s))))"

definition permits :: "github_settings \<Rightarrow> string \<Rightarrow> string \<Rightarrow> bool" where
  "permits s identifier username \<longleftrightarrow>
     identifier \<in> set (gs_allowed_user_ids s) \<or> CHR ''@'' # lower username \<in> set (gs_allowed_user_ids s)"

subsection \<open>Identity tables\<close>

record 'k identity =
  id_subject :: 'k
  id_user_id :: string
  id_organization_id :: string
  id_disabled_at :: "time option"

definition identity_row :: "'k \<Rightarrow> 'k identity list \<Rightarrow> 'k identity option" where
  "identity_row k t = fetchrow (\<lambda>r. id_subject r = k) t"

definition new_identity :: "'k \<Rightarrow> string \<Rightarrow> string \<Rightarrow> 'k identity" where
  "new_identity k user org = \<lparr>id_subject = k, id_user_id = user, id_organization_id = org, id_disabled_at = None\<rparr>"

definition account_disabled :: "string \<Rightarrow> mem_error" where
  "account_disabled account = memory_tool_error (account @ '' account access is disabled'') ''MEM-AUTH-DISABLED'' [] 403"

definition ensure_identity :: "'k \<Rightarrow> string \<Rightarrow> string \<Rightarrow> 'k identity list \<Rightarrow> 'k identity list outcome" where
  \<comment> \<open>INSERT ... ON CONFLICT(key) DO NOTHING; a user of another subject violates the unique column\<close>
  "ensure_identity k actor org t =
     (if identity_row k t \<noteq> None then Inr t
      else if exists_row (\<lambda>r. id_user_id r = actor) t then Inl (unhandled ''UniqueViolationError'')
      else Inr (insert_row (new_identity k actor org) t))"

definition resolve_identity :: "string \<Rightarrow> 'k \<Rightarrow> string \<Rightarrow> string \<Rightarrow> 'k identity list \<Rightarrow> 'k identity list \<times> string outcome" where
  \<comment> \<open>\<open>resolve\<close> of both stores; \<open>actor\<close> is the user a first login gets\<close>
  "resolve_identity account k actor org t =
     (case ensure_identity k actor org t of
        Inl e \<Rightarrow> (t, Inl e)
      | Inr t' \<Rightarrow>
          (t', case identity_row k t' of
                 None \<Rightarrow> Inl (unhandled ''TypeError'')
               | Some r \<Rightarrow> if id_disabled_at r \<noteq> None \<or> id_organization_id r \<noteq> org then Inl (account_disabled account)
                           else Inr (id_user_id r)))"

type_synonym entra_identities = "(string \<times> string) identity list"
type_synonym github_identities = "string identity list"

definition resolve_entra :: "string \<Rightarrow> string \<Rightarrow> string \<Rightarrow> entra_identities \<Rightarrow> entra_identities \<times> string outcome" where
  "resolve_entra tenant object_id org t =
     resolve_identity ''Company'' (tenant, object_id) (''entra:'' @ tenant @ '':'' @ object_id) org t"

definition resolve_github :: "string \<Rightarrow> string \<Rightarrow> github_identities \<Rightarrow> github_identities \<times> string outcome" where
  "resolve_github github_id org t =
     (case github_subject github_id of
        None \<Rightarrow> (t, Inl (unhandled ''ValueError''))
      | Some k \<Rightarrow> resolve_identity ''GitHub'' k (''github:'' @ k) org t)"

definition bind_identity :: "'k \<Rightarrow> string \<Rightarrow> string \<Rightarrow> 'k identity list \<Rightarrow> 'k identity list option" where
  \<comment> \<open>INSERT ... ON CONFLICT DO NOTHING RETURNING; \<open>None\<close> is the ValueError\<close>
  "bind_identity k user org t =
     (if identity_row k t \<noteq> None \<or> exists_row (\<lambda>r. id_user_id r = user) t then None
      else Some (insert_row (new_identity k user org) t))"

definition bind_entra :: "string \<Rightarrow> string \<Rightarrow> string \<Rightarrow> string \<Rightarrow> entra_identities \<Rightarrow> entra_identities option" where
  "bind_entra tenant object_id user org t =
     (case (uuid_text tenant, uuid_text object_id) of
        (Some tn, Some oi) \<Rightarrow>
          if user = [] \<or> 128 < length user \<or> org = [] \<or> 128 < length org then None else bind_identity (tn, oi) user org t
      | _ \<Rightarrow> None)"

definition bind_github :: "string \<Rightarrow> string \<Rightarrow> string \<Rightarrow> github_identities \<Rightarrow> github_identities option" where
  "bind_github github_id user org t =
     (case github_subject github_id of
        None \<Rightarrow> None
      | Some k \<Rightarrow> if user = [] \<or> 128 < length user \<or> org \<noteq> ''DevSecOps'' then None else bind_identity k user org t)"

definition set_disabled :: "time \<Rightarrow> 'k \<Rightarrow> bool \<Rightarrow> 'k identity list \<Rightarrow> ('k identity list \<times> string) option" where
  "set_disabled now k off t =
     (case identity_row k t of
        None \<Rightarrow> None
      | Some r \<Rightarrow> Some (update_where (\<lambda>r. id_subject r = k) (\<lambda>r. r\<lparr>id_disabled_at := if off then Some now else None\<rparr>) t,
                        id_user_id r))"

text \<open>
  The command line of an operator: exactly one of binding, disabling and enabling a
  subject; \<open>None\<close> is an error. Printing the result is left out.
\<close>

datatype admin_command = Bind string string | Disable string | Enable string

definition administer_github :: "github_settings \<Rightarrow> time \<Rightarrow> admin_command \<Rightarrow> github_identities \<Rightarrow> (github_identities \<times> dict) option" where
  "administer_github s now cmd t =
     (case cmd of
        Bind i user \<Rightarrow> map_option (\<lambda>t'. (t', [(''user_id'', PStr user), (''bound'', PBool True)])) (bind_github i user (gs_organization_id s) t)
      | Disable i \<Rightarrow> Option.bind (github_subject i) (\<lambda>k.
          map_option (\<lambda>(t', u). (t', [(''user_id'', PStr u), (''disabled'', PBool True)])) (set_disabled now k True t))
      | Enable i \<Rightarrow> Option.bind (github_subject i) (\<lambda>k.
          map_option (\<lambda>(t', u). (t', [(''user_id'', PStr u), (''disabled'', PBool False)])) (set_disabled now k False t)))"

definition administer_entra ::
    "entra_settings \<Rightarrow> string option \<Rightarrow> time \<Rightarrow> admin_command \<Rightarrow> entra_identities \<Rightarrow> (entra_identities \<times> dict) option" where
  "administer_entra s tenant_arg now cmd t =
     Option.bind (uuid_text (case tenant_arg of None \<Rightarrow> es_tenant_id s | Some x \<Rightarrow> if x = [] then es_tenant_id s else x)) (\<lambda>tenant.
     case cmd of
        Bind i user \<Rightarrow> map_option (\<lambda>t'. (t', [(''user_id'', PStr user), (''bound'', PBool True)]))
          (bind_entra tenant i user (es_organization_id s) t)
      | Disable i \<Rightarrow> Option.bind (uuid_text i) (\<lambda>oi.
          map_option (\<lambda>(t', u). (t', [(''user_id'', PStr u), (''disabled'', PBool True)])) (set_disabled now (tenant, oi) True t))
      | Enable i \<Rightarrow> Option.bind (uuid_text i) (\<lambda>oi.
          map_option (\<lambda>(t', u). (t', [(''user_id'', PStr u), (''disabled'', PBool False)])) (set_disabled now (tenant, oi) False t)))"

end
