(* ===== verification/Uuid_Texts.thy ===== *)
theory Uuid_Texts
  imports Identities
begin

text \<open>
  The texts of UUIDs: what \<open>str\<close> prints of a UUID is read back as the same UUID, and the
  constructor of the UUID class takes it unchanged.
\<close>

lemma hex_chars: "map hex_char [0..<16] = ''0123456789abcdef''"
  by code_simp

lemma hex_char_facts:
  assumes "d < 16"
  shows "hex_value (hex_char d) = d" and "hex_digit (hex_char d)" and "hex_char d \<notin> set ''-{}u_x+''" and "\<not> py_space (hex_char d)"
proof -
  have "map hex_value ''0123456789abcdef'' = [0..<16]" by (simp add: hex_value_def upt_rec)
  then have "map (hex_value \<circ> hex_char) [0..<16] ! d = [0..<16] ! d" unfolding map_map [symmetric] hex_chars by (rule arg_cong)
  then show "hex_value (hex_char d) = d" using assms by simp
  have mem: "hex_char d \<in> set ''0123456789abcdef''" unfolding hex_chars [symmetric] using assms by auto
  have "list_all hex_digit ''0123456789abcdef''"
    by (simp add: hex_digit_def digit_def code_def)
  then show "hex_digit (hex_char d)" using mem unfolding list_all_iff by blast
  have "list_all (\<lambda>c. c \<notin> set ''-{}u_x+'' \<and> \<not> py_space c) ''0123456789abcdef''"
    by (simp add: py_space_def)
  then show "hex_char d \<notin> set ''-{}u_x+''" "\<not> py_space (hex_char d)" using mem unfolding list_all_iff by blast+
qed

lemma hex_digits_chars: "c \<in> set (hex_digits n ks) \<Longrightarrow> \<exists>d < 16. c = hex_char d"
  by (auto simp: hex_digits_def intro: exI [where x = "n div 16 ^ _ mod 16"])

lemma fold_hex_digits:
  "fold (\<lambda>c m. 16 * m + hex_value c) (hex_digits n (rev [0..<j])) a = a * 16 ^ j + n mod 16 ^ j"
proof (induction j arbitrary: a)
  case (Suc j)
  have m: "n mod (16 ^ j * 16) = 16 ^ j * (n div 16 ^ j mod 16) + n mod 16 ^ j" by (rule mod_mult2_eq)
  show ?case using Suc [of "16 * a + n div 16 ^ j mod 16"] m
    by (simp add: hex_digits_def hex_char_facts(1) algebra_simps)
qed (simp add: hex_digits_def)

lemma hex_digits_mod:
  assumes "m = 16 ^ 32" and "\<forall>k \<in> set ks. k < 32"
  shows "hex_digits (n mod m) ks = hex_digits n ks"
  unfolding hex_digits_def
proof (rule map_cong [OF refl])
  fix k assume "k \<in> set ks"
  then have "k < 32" using assms(2) by blast
  then have p: "m = 16 ^ k * (16 * 16 ^ (31 - k))" unfolding assms(1) by (simp flip: power_Suc power_add)
  have "n mod m div 16 ^ k = n div 16 ^ k mod (16 * 16 ^ (31 - k))"
    unfolding p mod_mult2_eq by simp
  then show "hex_char (n mod m div 16 ^ k mod 16) = hex_char (n div 16 ^ k mod 16)"
    by (simp add: mod_mod_cancel)
qed

lemma uuid_str_mod: "m = 16 ^ 32 \<Longrightarrow> uuid_str (n mod m) = uuid_str n"
  by (simp add: uuid_str_def hex_digits_mod)

lemma uuid_digits: "filter (\<lambda>c. c \<noteq> CHR ''-'') (uuid_str n) = hex_digits n (rev [0..<32])"
proof -
  have f: "filter (\<lambda>c. c \<noteq> CHR ''-'') (hex_digits n ks) = hex_digits n ks" for ks
    using hex_digits_chars hex_char_facts(3) by (fastforce simp: filter_id_conv)
  have "rev [0..<32] = rev [24..<32] @ rev [20..<24] @ rev [16..<20] @ rev [12..<16] @ rev [0..<12 :: nat]"
    by (simp add: upt_rec)
  then show ?thesis unfolding uuid_str_def by (simp add: f) (simp add: hex_digits_def)
qed

lemma uuid_of_str: "uuid_of (uuid_str n) = n mod 16 ^ 32"
  by (simp add: uuid_of_def uuid_digits fold_hex_digits)

lemma uuid_str_of_str [simp]: "uuid_str (uuid_of (uuid_str n)) = uuid_str n"
  by (simp only: uuid_of_str uuid_str_mod [OF refl])

lemma without_sub_none: "hd p \<notin> set s \<Longrightarrow> p \<noteq> [] \<Longrightarrow> without_sub p 0 s = s"
proof (induction s)
  case (Cons c s)
  then have "\<not> starts_with p (c # s)" by (cases p) (auto simp: starts_with_def)
  then show ?case using Cons by simp
qed simp

lemma without_sub_single: "without_sub [d] 0 s = filter (\<lambda>c. c \<noteq> d) s"
  by (induction s) (auto simp: starts_with_def)

lemma dropWhile_none: "(\<And>c. c \<in> set s \<Longrightarrow> \<not> p c) \<Longrightarrow> dropWhile p s = s"
  by (cases s) auto

lemma strip_chars_none: "set s \<inter> set cs = {} \<Longrightarrow> strip_chars cs s = s"
  unfolding strip_chars_def by (subst (1 2) dropWhile_none) auto

lemma split_on_none: "d \<notin> set s \<Longrightarrow> split_on d s = [s]"
  by (induction s) auto

lemma uuid_str_chars: "c \<in> set (uuid_str n) \<Longrightarrow> c = CHR ''-'' \<or> (\<exists>d < 16. c = hex_char d)"
  by (auto simp: uuid_str_def dest: hex_digits_chars)

lemma int_base16_digits: "int_base16 (hex_digits n (rev [0..<32])) = Some (int (n mod 16 ^ 32))"
proof -
  let ?h = "hex_digits n (rev [0..<32])"
  have chars: "hex_digit c" "c \<notin> set ''-{}u_x+''" "\<not> py_space c" if "c \<in> set ?h" for c
    using hex_digits_chars [OF that] hex_char_facts by blast+
  have "length ?h = 32" by (simp add: hex_digits_def)
  then obtain a b r where h: "?h = a # b # r" by (cases ?h rule: remdups_adj.cases) auto
  have strip: "py_strip ?h = ?h" unfolding py_strip_def using chars(3) by (subst (1 2) dropWhile_none) auto
  have ab: "a \<notin> set ''-{}u_x+''" "b \<notin> set ''-{}u_x+''" "hex_digit b" using chars unfolding h by auto
  have bX: "b \<noteq> CHR ''X''" using ab(3) by (auto simp: hex_digit_def digit_def code_def)
  have u: "CHR ''_'' \<notin> set ?h" using chars(2) by auto
  have v: "hd ?h \<notin> set ''+-''" "\<not> starts_with ''0x'' ?h" "\<not> starts_with ''0X'' ?h" "\<not> starts_with ''_'' ?h"
    using ab bX unfolding h by (auto simp: starts_with_def)
  have f: "filter (\<lambda>c. c \<noteq> CHR ''_'') ?h = ?h" using u by (auto simp: filter_id_conv)
  have all: "list_all (\<lambda>g. g \<noteq> [] \<and> list_all hex_digit g) (split_on CHR ''_'' ?h)"
    unfolding split_on_none [OF u] list_all_iff using chars(1) by (auto simp: h)
  show ?thesis
    using v all unfolding int_base16_def Let_def strip by (simp only: f fold_hex_digits simp_thms if_False if_True) simp
qed

lemma uuid_text_str [simp]: "uuid_text (uuid_str n) = Some (uuid_str n)"
proof -
  have c: "c \<notin> set ''{}u''" if "c \<in> set (uuid_str n)" for c
    using uuid_str_chars [OF that] hex_char_facts(3) by auto
  then have "without_sub ''uuid:'' 0 (without_sub ''urn:'' 0 (uuid_str n)) = uuid_str n"
    by (subst (1 2) without_sub_none) auto
  moreover have "strip_chars [CHR 0x7B, CHR 0x7D] (uuid_str n) = uuid_str n"
    using c by (auto intro: strip_chars_none)
  moreover have "length (hex_digits n (rev [0..<32])) = 32" by (simp add: hex_digits_def)
  ultimately show ?thesis
    unfolding uuid_text_def Let_def
    by (simp only: without_sub_single uuid_digits int_base16_digits) (simp add: uuid_str_mod)
qed

lemma uuid_of_str_of [simp]: "uuid_of (uuid_str (uuid_of (uuid_str n))) = uuid_of (uuid_str n)"
  by simp

end
