(* ===== verification/Skill_Tables.thy ===== *)
theory Skill_Tables
  imports Skills_Props Uuid_Texts
begin

text \<open>
  The tables of the skills under every transaction: the unique keys, the foreign keys, the
  checks and the triggers of migration 007 (C34). \<open>Skills_Props\<close> has the invariant of
  revisions and pointers it builds on.
\<close>

subsection \<open>The constraints\<close>

text \<open>The unique keys of the four tables beyond the ids, and the foreign keys.\<close>

definition skill_unique :: "skdb \<Rightarrow> bool" where
  "skill_unique db \<longleftrightarrow> distinct (map (\<lambda>s. (sk_project_id s, sk_name s)) (kd_skills db))
     \<and> distinct (map (\<lambda>r. (kr_project_id r, kr_created_by r, kr_idempotency_key r)) (kd_revisions db))
     \<and> distinct (map (\<lambda>k. (ks_revision_id k, ks_memory_id k)) (kd_sources db))
     \<and> distinct (map (\<lambda>e. (ke_revision_id e, ke_version e)) (kd_events db))"

definition skill_references :: "skdb \<Rightarrow> bool" where
  "skill_references db \<longleftrightarrow>
     (\<forall>r \<in> set (kd_revisions db). \<exists>s \<in> set (kd_skills db). sk_id s = kr_skill_id r \<and> sk_project_id s = kr_project_id r)
     \<and> (\<forall>k \<in> set (kd_sources db). (\<exists>r \<in> set (kd_revisions db). kr_id r = ks_revision_id k \<and> kr_project_id r = ks_project_id k)
          \<and> (\<exists>x \<in> set (xd_experiences (kd_store db)). xp_id x = ks_memory_id k \<and> xp_project_id x = ks_project_id k))
     \<and> (\<forall>e \<in> set (kd_events db). \<exists>r \<in> set (kd_revisions db). kr_id r = ke_revision_id e \<and> ke_version e \<le> kr_version r)"

definition skill_tables :: "skdb \<Rightarrow> bool" where
  "skill_tables db \<longleftrightarrow> skill_unique db \<and> skill_references db"

text \<open>
  A transaction on the skills or on the experiences. No statement deletes an experience, which
  the foreign key of the sources would refuse for a quoted one.
\<close>

definition memories_kept :: "xdb \<Rightarrow> xdb \<Rightarrow> bool" where
  "memories_kept old new \<longleftrightarrow> (\<forall>x \<in> set (xd_experiences old). \<exists>y \<in> set (xd_experiences new). xp_id y = xp_id x \<and> xp_project_id y = xp_project_id x)"

definition skill_transaction :: "unicode \<Rightarrow> platform \<Rightarrow> clock \<Rightarrow> skdb \<Rightarrow> skdb \<Rightarrow> bool" where
  "skill_transaction U P clk db db' \<longleftrightarrow> skill_step U P clk db db' \<and> memories_kept (kd_store db) (kd_store db')"

subsection \<open>A moved revision\<close>

lemma map_keeps: "(\<And>x. k (g x) = k x) \<Longrightarrow> map k (map g xs) = map k xs"
  by simp

lemma moved_key:
  "(kr_project_id (moved_revision now st r), kr_created_by (moved_revision now st r), kr_idempotency_key (moved_revision now st r))
     = (kr_project_id r, kr_created_by r, kr_idempotency_key r)"
  "kr_project_id (moved_revision now st r) = kr_project_id r"
  by (simp_all add: moved_revision_def)

text \<open>Each transition appends the event of the next version of its revision.\<close>

definition moves :: "time \<Rightarrow> skill_status \<Rightarrow> skill_revision \<Rightarrow> skdb \<Rightarrow> skdb \<Rightarrow> bool" where
  "moves now st r db db' \<longleftrightarrow> r \<in> set (kd_revisions db)
     \<and> kd_revisions db' = update_where (\<lambda>y. kr_id y = kr_id r) (moved_revision now st) (kd_revisions db)
     \<and> (\<exists>g. kd_skills db' = map g (kd_skills db) \<and> (\<forall>s. sk_id (g s) = sk_id s \<and> sk_project_id (g s) = sk_project_id s \<and> sk_name (g s) = sk_name s))
     \<and> kd_sources db' = kd_sources db \<and> kd_gen db' = kd_gen db
     \<and> (\<exists>e. kd_events db' = kd_events db @ [e] \<and> ke_revision_id e = kr_id r \<and> ke_version e = kr_version r + 1)"

lemma moves_ids: "moves now st r db db' \<Longrightarrow> map kr_id (kd_revisions db') = map kr_id (kd_revisions db)"
  by (auto simp: moves_def update_where_def)

lemma moves_other:
  "moves now st r db db' \<Longrightarrow> y \<in> set (kd_revisions db) \<Longrightarrow> kr_id y \<noteq> kr_id r \<Longrightarrow> y \<in> set (kd_revisions db')"
  by (auto simp: moves_def update_where_def image_iff intro!: bexI [of _ y])

lemma moves_tables:
  assumes tab: "skill_tables db" and ids: "distinct (map kr_id (kd_revisions db))" and m: "moves now st r db db'"
  shows "skill_tables db'"
proof -
  let ?f = "\<lambda>y. if kr_id y = kr_id r then moved_revision now st y else y"
  obtain g e where r: "r \<in> set (kd_revisions db)" and rv: "kd_revisions db' = map ?f (kd_revisions db)"
    and g: "kd_skills db' = map g (kd_skills db)" "\<And>s. sk_id (g s) = sk_id s" "\<And>s. sk_project_id (g s) = sk_project_id s" "\<And>s. sk_name (g s) = sk_name s"
    and rest: "kd_sources db' = kd_sources db" "kd_gen db' = kd_gen db"
    and e: "kd_events db' = kd_events db @ [e]" "ke_revision_id e = kr_id r" "ke_version e = kr_version r + 1"
    using m unfolding moves_def update_where_def by blast
  have f: "kr_id (?f y) = kr_id y" "kr_skill_id (?f y) = kr_skill_id y" "kr_project_id (?f y) = kr_project_id y" for y
    by (simp_all add: moved_key)
  have key: "(kr_project_id (?f y), kr_created_by (?f y), kr_idempotency_key (?f y)) = (kr_project_id y, kr_created_by y, kr_idempotency_key y)" for y
    using moved_key(1) [of now st y] by simp
  have only: "y = r" if "y \<in> set (kd_revisions db)" "kr_id y = kr_id r" for y
    using ids r that by (auto simp: distinct_map dest: inj_onD)
  have uni: "skill_unique db" and ref: "skill_references db" using tab by (simp_all add: skill_tables_def)
  have old: "ke_version x \<le> kr_version r" if "x \<in> set (kd_events db)" "ke_revision_id x = kr_id r" for x
    using ref that only unfolding skill_references_def by metis
  have "(ke_revision_id e, ke_version e) \<notin> (\<lambda>e. (ke_revision_id e, ke_version e)) ` set (kd_events db)"
    using old e(2,3) by fastforce
  moreover have same: "map (\<lambda>s. (sk_project_id s, sk_name s)) (map g (kd_skills db)) = map (\<lambda>s. (sk_project_id s, sk_name s)) (kd_skills db)"
    "map (\<lambda>r. (kr_project_id r, kr_created_by r, kr_idempotency_key r)) (map ?f (kd_revisions db))
      = map (\<lambda>r. (kr_project_id r, kr_created_by r, kr_idempotency_key r)) (kd_revisions db)"
    using g(3,4) key by (intro map_keeps; simp)+
  ultimately have "skill_unique db'"
    using uni unfolding skill_unique_def rv g(1) rest(1) e(1) same by simp
  moreover have "skill_references db'"
    unfolding skill_references_def
  proof (intro conjI ballI)
    fix y assume "y \<in> set (kd_revisions db')"
    then obtain x where x: "x \<in> set (kd_revisions db)" "y = ?f x" unfolding rv by auto
    obtain s where "s \<in> set (kd_skills db)" "sk_id s = kr_skill_id x" "sk_project_id s = kr_project_id x"
      using ref x(1) unfolding skill_references_def by blast
    then show "\<exists>s \<in> set (kd_skills db'). sk_id s = kr_skill_id y \<and> sk_project_id s = kr_project_id y"
      unfolding g(1) x(2) f using g(2,3) by (intro bexI [of _ "g s"]) auto
  next
    fix k assume "k \<in> set (kd_sources db')"
    then obtain y where "y \<in> set (kd_revisions db)" "kr_id y = ks_revision_id k" "kr_project_id y = ks_project_id k"
      using ref unfolding skill_references_def rest by blast
    then show "\<exists>r \<in> set (kd_revisions db'). kr_id r = ks_revision_id k \<and> kr_project_id r = ks_project_id k"
      unfolding rv set_map using f by (intro bexI [of _ "?f y"] imageI) metis+
  next
    fix k assume "k \<in> set (kd_sources db')"
    then show "\<exists>x \<in> set (xd_experiences (kd_store db')). xp_id x = ks_memory_id k \<and> xp_project_id x = ks_project_id k"
      using ref unfolding skill_references_def rest by blast
  next
    fix x assume "x \<in> set (kd_events db')"
    then consider "x \<in> set (kd_events db)" | "x = e" unfolding e(1) by auto
    then show "\<exists>r \<in> set (kd_revisions db'). kr_id r = ke_revision_id x \<and> ke_version x \<le> kr_version r"
    proof cases
      case 1
      then obtain y where y: "y \<in> set (kd_revisions db)" "kr_id y = ke_revision_id x" "ke_version x \<le> kr_version y"
        using ref unfolding skill_references_def by blast
      then have "ke_version x \<le> kr_version (?f y)" by simp
      then show ?thesis unfolding rv using y f by (intro bexI [of _ "?f y"]) (auto simp: f)
    next
      case 2
      then show ?thesis unfolding rv using r e(2,3) by (intro bexI [of _ "?f r"]) auto
    qed
  qed
  ultimately show ?thesis by (simp add: skill_tables_def)
qed

lemma moves_transition: "r \<in> set (kd_revisions db) \<Longrightarrow> moves now st r db (transition_revision now r actor name st db)"
  unfolding moves_def transition_revision_def
  by (auto simp: insert_row_def skill_event_row_def intro!: exI [of _ "\<lambda>s. s"])

lemma moves_invalidate: "r \<in> set (kd_revisions db) \<Longrightarrow> moves now (stale_status x) r db (invalidate_revision now x r db)"
  unfolding moves_def invalidate_revision_def
  by (auto simp: insert_row_def skill_event_row_def update_where_def
      intro!: exI [of _ "\<lambda>s. if sk_id s = kr_skill_id r \<and> sk_active_revision s = Some (kr_revision r) then s\<lparr>sk_active_revision := None\<rparr> else s"])

lemma point_active_tables:
  assumes "skill_tables db"
  shows "skill_tables (point_active i n db)"
proof -
  let ?g = "\<lambda>s. if sk_id s = i then s\<lparr>sk_active_revision := n\<rparr> else s"
  have g: "kd_skills (point_active i n db) = map ?g (kd_skills db)" by (simp add: point_active_def update_where_def)
  have rest: "kd_revisions (point_active i n db) = kd_revisions db" "kd_sources (point_active i n db) = kd_sources db"
      "kd_events (point_active i n db) = kd_events db" "kd_gen (point_active i n db) = kd_gen db"
    by (simp_all add: point_active_def)
  have same: "map (\<lambda>s. (sk_project_id s, sk_name s)) (map ?g (kd_skills db)) = map (\<lambda>s. (sk_project_id s, sk_name s)) (kd_skills db)"
    by (rule map_keeps) simp
  have "skill_unique (point_active i n db)"
    using assms unfolding skill_tables_def skill_unique_def g rest same by simp
  moreover have "\<exists>s \<in> set (map ?g (kd_skills db)). sk_id s = a \<and> sk_project_id s = b"
    if known: "\<exists>s \<in> set (kd_skills db). sk_id s = a \<and> sk_project_id s = b" for a b
  proof -
    obtain s where "s \<in> set (kd_skills db)" "sk_id s = a" "sk_project_id s = b" using known by blast
    then show ?thesis unfolding set_map by (intro bexI [of _ "?g s"] imageI) simp_all
  qed
  then have "skill_references (point_active i n db)"
    using assms unfolding skill_tables_def skill_references_def g rest by blast
  ultimately show ?thesis by (simp add: skill_tables_def)
qed

subsection \<open>Reviews and invalidations\<close>

lemma transition_tables:
  "skill_tables db \<Longrightarrow> distinct (map kr_id (kd_revisions db)) \<Longrightarrow> r \<in> set (kd_revisions db)
     \<Longrightarrow> skill_tables (transition_revision now r actor name st db)"
  using moves_tables moves_transition by blast

lemma approve_tables:
  assumes ok: "skills_ok db" and tab: "skill_tables db" and r: "r \<in> set (kd_revisions db)" "kr_status r = K_pending"
    and s: "s \<in> set (kd_skills db)" "sk_id s = kr_skill_id r" and appr: "approve_revision P clk actor r s db = Inr db1"
  shows "skill_tables db1" "distinct (map kr_id (kd_revisions db1))" "r \<in> set (kd_revisions db1)"
proof -
  have ids: "distinct (map kr_id (kd_revisions db))" and ptr: "points_at s (kd_revisions db)"
    using ok s(1) by (auto simp: skills_ok_def skill_keys_def skill_pointers_def)
  obtain dbs where sup: "supersede_active clk actor s db = Inr dbs" and db1: "db1 = point_active (sk_id s) (Some (kr_revision r)) dbs"
    using appr by (auto simp: approve_revision_def and_then_Inr_iff)
  have "skill_tables dbs \<and> distinct (map kr_id (kd_revisions dbs)) \<and> r \<in> set (kd_revisions dbs)"
  proof (cases "sk_active_revision s")
    case None
    then show ?thesis using sup tab ids r(1) by (simp add: supersede_active_def)
  next
    case (Some n)
    then obtain q where q: "revision_row (sk_id s) n db = Some q" "dbs = transition_revision (clk 2) q actor ''supersede'' K_superseded db"
      using sup by (auto simp: supersede_active_def split: option.splits)
    have qr: "q \<in> set (kd_revisions db)" "kr_skill_id q = sk_id s" "kr_revision q = n"
      using fetchrow_SomeD q(1) by (fastforce simp: revision_row_def)+
    have m: "moves (clk 2) K_superseded q db dbs" unfolding q(2) by (rule moves_transition [OF qr(1)])
    have "kr_status q = K_active" using ptr qr Some by (simp add: points_at_def)
    then have "kr_id r \<noteq> kr_id q" using r ids qr(1) by (auto simp: distinct_map dest!: inj_onD)
    then show ?thesis using moves_tables [OF tab ids m] moves_ids [OF m] moves_other [OF m r(1)] ids by simp
  qed
  then show "skill_tables db1" "distinct (map kr_id (kd_revisions db1))" "r \<in> set (kd_revisions db1)"
    using point_active_tables by (simp_all add: db1) (simp_all add: point_active_def)
qed

lemma review_tables:
  assumes ok: "skills_ok db" and tab: "skill_tables db" and rev: "review_skill P clk actor a db = Inr (db', answer)"
  shows "skill_tables db'"
proof (cases "db' = db")
  case True
  then show ?thesis using tab by simp
next
  case False
  let ?action = "action_of (arg_str a ''action'')"
  obtain r s db1 where r: "r \<in> set (kd_revisions db)" "\<not> skill_conflict r ?action (arg_int a ''expected_version'')"
    and s: "fetchrow (\<lambda>s. sk_id s = kr_skill_id r) (kd_skills db) = Some s"
    and db1: "(if ?action = A_approve then approve_revision P clk actor r s db
               else Inr (if sk_active_revision s = Some (kr_revision r) then point_active (sk_id s) None db else db)) = Inr db1"
    and db': "db' = transition_revision (clk 3) r actor (action_str ?action) (action_after ?action) db1"
    using rev False
    by (auto simp: review_skill_def Let_def and_then_Inr_iff dest: fetchrow_SomeD split: option.splits if_splits)
  note sk = skill_of_revision [OF ok r(1) s]
  have "skill_tables db1 \<and> distinct (map kr_id (kd_revisions db1)) \<and> r \<in> set (kd_revisions db1)"
  proof (cases "?action = A_approve")
    case True
    then have "kr_status r = K_pending" using r(2) by (simp add: skill_conflict_def)
    then show ?thesis using approve_tables [OF ok tab r(1) _ sk(1,2)] db1 True by simp
  next
    case False
    have "distinct (map kr_id (kd_revisions db))" using ok by (simp add: skills_ok_def skill_keys_def)
    then show ?thesis using db1 False tab r(1) point_active_tables by (auto simp: point_active_def)
  qed
  then show ?thesis unfolding db' using transition_tables by blast
qed

lemma invalidate_fold_tables:
  assumes "skill_tables db" and "distinct (map kr_id (kd_revisions db))" and "distinct (map kr_id rs)"
    and "set rs \<subseteq> set (kd_revisions db)"
  shows "skill_tables (fold (invalidate_revision now x) rs db)"
  using assms
proof (induction rs arbitrary: db)
  case (Cons r rs)
  have m: "moves now (stale_status x) r db (invalidate_revision now x r db)" using Cons.prems(4) by (simp add: moves_invalidate)
  have "set rs \<subseteq> set (kd_revisions (invalidate_revision now x r db))"
  proof
    fix y assume y: "y \<in> set rs"
    then have "kr_id y \<noteq> kr_id r" using Cons.prems(3) by (metis distinct.simps(2) image_eqI image_set list.simps(9))
    then show "y \<in> set (kd_revisions (invalidate_revision now x r db))" using moves_other [OF m] Cons.prems(4) y by auto
  qed
  then show ?case
    using Cons.IH [OF moves_tables [OF Cons.prems(1,2) m]] moves_ids [OF m] Cons.prems(2,3) by simp
qed simp

lemma invalidate_tables:
  assumes "skills_ok db" and "skill_tables db"
  shows "skill_tables (invalidate now x db)"
proof -
  have ids: "distinct (map kr_id (kd_revisions db))" using assms(1) by (simp add: skills_ok_def skill_keys_def)
  let ?rs = "sort_key kr_id (filter (stale_target x db) (kd_revisions db))"
  have "distinct (filter (stale_target x db) (kd_revisions db))" "inj_on kr_id (set (filter (stale_target x db) (kd_revisions db)))"
    using ids by (auto simp: distinct_map intro: inj_on_subset)
  then have "distinct (map kr_id ?rs)" by (simp add: distinct_map)
  then show ?thesis unfolding invalidate_def by (intro invalidate_fold_tables [OF assms(2) ids]) auto
qed

lemma invalidate_all_tables:
  "skills_ok db \<Longrightarrow> skill_tables db \<Longrightarrow> skill_tables (fold (invalidate now) xs db)"
proof (induction xs arbitrary: db)
  case (Cons x xs)
  have "skills_ok (invalidate now x db)" using invalidate_all_ok [OF Cons.prems(1), of now "[x]"] by simp
  then show ?case using Cons.IH invalidate_tables [OF Cons.prems] by simp
qed simp

lemma invalidate_fold_gen [simp]: "kd_gen (fold (invalidate_revision now x) rs db) = kd_gen db"
  by (induction rs arbitrary: db) (simp_all add: invalidate_revision_def)

lemma memories_changed_store: "kd_store (memories_changed now new db) = new"
proof -
  have "kd_gen (fold (invalidate now) xs d) = kd_gen d" for xs d
    by (induction xs arbitrary: d) (simp_all add: invalidate_def)
  then show ?thesis by (simp add: memories_changed_def)
qed

lemma memories_changed_tables:
  assumes "skills_ok db" and "skill_tables db" and "memories_kept (kd_store db) new"
  shows "skill_tables (memories_changed now new db)"
proof -
  let ?d = "db\<lparr>kd_gen := (kd_gen db)\<lparr>gd_store := new\<rparr>\<rparr>"
  have "skills_ok ?d"
    using assms(1) by (simp add: skills_ok_def skill_keys_def skill_rows_def skill_pointers_def sources_bound_def)
  moreover have "skill_unique ?d" using assms(2) by (simp add: skill_tables_def skill_unique_def)
  moreover have "skill_references ?d"
    using assms(2,3) unfolding skill_tables_def skill_references_def memories_kept_def by fastforce
  ultimately show ?thesis unfolding memories_changed_def using invalidate_all_tables by (simp add: skill_tables_def)
qed

subsection \<open>Submissions\<close>

lemma submit_freshE:
  assumes "submit_skill U P clk si i actor origin a db = Inr (db', answer)"
  obtains (known) "db' = db"
    | (stored) m c db1 s where "prepare_skill U P a = Inr m"
        "\<forall>r \<in> set (kd_revisions db). \<not> same_skill_request (arg_str a ''project_id'') actor (arg_str a ''idempotency_key'') r"
        "capture_sources P (clk 1) (arg_str a ''project_id'') (map ref_dict (pp_refs m)) (kd_store db) = Inr c"
        "target_skill clk si origin a m c db = Inr (db1, s)"
        "db' = store_revision (new_revision P clk i actor origin a m c s) (cp_bindings c) db1"
proof (cases "fetchrow (same_skill_request (arg_str a ''project_id'') actor (arg_str a ''idempotency_key'')) (kd_revisions db)")
  case None
  then have "\<forall>r \<in> set (kd_revisions db). \<not> same_skill_request (arg_str a ''project_id'') actor (arg_str a ''idempotency_key'') r"
    by (simp only: fetchrow_None_iff)
  then show thesis using assms None stored by (auto simp: submit_skill_def Let_def and_then_Inr_iff)
next
  case (Some r)
  then show thesis using assms known by (auto simp: submit_skill_def and_then_Inr_iff)
qed

lemma target_skill_tables:
  assumes t: "target_skill clk si origin a m c db = Inr (db1, s)" and tab: "skill_tables db"
  shows "skill_tables db1" "s \<in> set (kd_skills db1)" "sk_project_id s = arg_str a ''project_id''"
    "kd_revisions db1 = kd_revisions db" "kd_sources db1 = kd_sources db" "kd_events db1 = kd_events db" "kd_gen db1 = kd_gen db"
proof -
  have "(db1 = db \<and> s \<in> set (kd_skills db) \<and> sk_project_id s = arg_str a ''project_id'')
    \<or> (db1 = db\<lparr>kd_skills := insert_row s (kd_skills db)\<rparr> \<and> s = new_skill si (clk 2) a c
        \<and> \<not> exists_row (\<lambda>s. sk_project_id s = arg_str a ''project_id'' \<and> sk_name s = arg_str a ''name'') (kd_skills db))"
  proof (cases "has_key a ''skill_id''")
    case True
    let ?q = "\<lambda>s. sk_id s = arg_uuid a ''skill_id'' \<and> sk_project_id s = arg_str a ''project_id''"
    obtain u where u: "fetchrow ?q (kd_skills db) = Some u" "int (sk_latest_revision u) = arg_int a ''expected_revision''"
      using t True by (cases "fetchrow ?q (kd_skills db)") (simp_all add: target_skill_def Let_def split: if_splits)
    then have "db1 = db \<and> s = u"
      using t True by (cases "revision_row (sk_id u) (sk_latest_revision u) db") (simp_all add: target_skill_def Let_def)
    then show ?thesis using fetchrow_SomeD [OF u(1)] by blast
  next
    case False
    then show ?thesis using t by (auto simp: target_skill_def Let_def split: if_splits)
  qed
  then show "skill_tables db1" "s \<in> set (kd_skills db1)" "sk_project_id s = arg_str a ''project_id''"
    "kd_revisions db1 = kd_revisions db" "kd_sources db1 = kd_sources db" "kd_events db1 = kd_events db" "kd_gen db1 = kd_gen db"
    using tab by (auto simp: skill_tables_def skill_unique_def skill_references_def insert_row_def new_skill_def exists_row_def list_ex_iff) blast
qed

text \<open>The captured sources are distinct experiences of the project.\<close>

lemma captured_sources:
  assumes "capture_sources P now project (map ref_dict refs) db = Inr c"
  shows "distinct (map (\<lambda>b. arg_uuid b ''memory_id'') (cp_bindings c))"
    and "\<And>b. b \<in> set (cp_bindings c) \<Longrightarrow> \<exists>x \<in> set (xd_experiences db). xp_id x = arg_uuid b ''memory_id'' \<and> xp_project_id x = project"
proof -
  obtain rs rows where rs: "skill_refs (map ref_dict refs) = Inr rs" "map (\<lambda>x. (xp_id x, int (xp_version x))) rows = rs"
    and c: "cp_bindings c = map (binding_of P) rows"
    and rows: "\<forall>x \<in> set rows. x \<in> set (xd_experiences db) \<and> citable project now (xd_handoffs db) x"
    using assms by (rule capture_sourcesE)
  have sorted: "rs = sort_key fst (map (\<lambda>v. (arg_uuid (dict_of v) ''memory_id'', arg_int (dict_of v) ''version'')) (map ref_dict refs))"
    and dist: "distinct (map fst rs)"
    using rs(1) by (auto simp: skill_refs_def Let_def)
  have "set (map fst rs) = (\<lambda>r. uuid_of (uuid_str (fst r))) ` set refs"
    unfolding sorted by (simp add: image_image ref_dict_def dict_of_def arg_uuid_def arg_str_def py_get_def)
  moreover have ids: "map fst rs = map xp_id rows" using arg_cong [OF rs(2), of "map fst"] by (simp add: o_def)
  ultimately have canon: "xp_id x \<in> (\<lambda>r. uuid_of (uuid_str (fst r))) ` set refs" if "x \<in> set rows" for x
    using that by (metis image_eqI image_set)
  have b: "arg_uuid (binding_of P x) ''memory_id'' = xp_id x" if "x \<in> set rows" for x
    using canon [OF that] by (auto simp: binding_of_def arg_uuid_def arg_str_def py_get_def)
  then have "map (\<lambda>b. arg_uuid b ''memory_id'') (cp_bindings c) = map xp_id rows" unfolding c by simp
  then show "distinct (map (\<lambda>b. arg_uuid b ''memory_id'') (cp_bindings c))" using dist ids by simp
  show "\<exists>x \<in> set (xd_experiences db). xp_id x = arg_uuid y ''memory_id'' \<and> xp_project_id x = project"
    if "y \<in> set (cp_bindings c)" for y
    using that rows b unfolding c by (fastforce simp: citable_def live_memory_def)
qed

lemma store_revision_tables:
  assumes tab: "skill_tables db" and ids: "kr_id r \<notin> kr_id ` set (kd_revisions db)"
    and request: "\<forall>y \<in> set (kd_revisions db). \<not> same_skill_request (kr_project_id r) (kr_created_by r) (kr_idempotency_key r) y"
    and s: "s \<in> set (kd_skills db)" "sk_id s = kr_skill_id r" "sk_project_id s = kr_project_id r"
    and bs: "distinct (map (\<lambda>b. arg_uuid b ''memory_id'') bs)"
      "\<And>b. b \<in> set bs \<Longrightarrow> \<exists>x \<in> set (xd_experiences (kd_store db)). xp_id x = arg_uuid b ''memory_id'' \<and> xp_project_id x = kr_project_id r"
  shows "skill_tables (store_revision r bs db)"
proof -
  let ?db = "store_revision r bs db" and ?g = "\<lambda>t. if sk_id t = kr_skill_id r then advanced_skill r t else t"
  have tables: "kd_revisions ?db = kd_revisions db @ [r]" "kd_sources ?db = kd_sources db @ map (source_row r) bs"
      "kd_skills ?db = map ?g (kd_skills db)" "kd_events ?db = kd_events db" "kd_gen ?db = kd_gen db"
    by (simp_all add: store_revision_def insert_row_def update_where_def)
  have g: "sk_id (?g t) = sk_id t" "sk_project_id (?g t) = sk_project_id t" "sk_name (?g t) = sk_name t" for t
    by (simp_all add: advanced_skill_def)
  have uni: "skill_unique db" and ref: "skill_references db" using tab by (simp_all add: skill_tables_def)
  have same: "map (\<lambda>s. (sk_project_id s, sk_name s)) (map ?g (kd_skills db)) = map (\<lambda>s. (sk_project_id s, sk_name s)) (kd_skills db)"
    by (rule map_keeps) (simp add: advanced_skill_def)
  have "(kr_project_id r, kr_created_by r, kr_idempotency_key r)
      \<notin> (\<lambda>r. (kr_project_id r, kr_created_by r, kr_idempotency_key r)) ` set (kd_revisions db)"
    using request by (auto simp: same_skill_request_def)
  moreover have "distinct (map (\<lambda>k. (ks_revision_id k, ks_memory_id k)) (map (source_row r) bs))"
    using bs(1) by (auto simp: source_row_def distinct_map inj_on_def)
  moreover have "ks_revision_id k \<noteq> kr_id r" if "k \<in> set (kd_sources db)" for k
    using ref ids that unfolding skill_references_def by (metis image_eqI)
  then have "(\<lambda>k. (ks_revision_id k, ks_memory_id k)) ` set (kd_sources db)
      \<inter> (\<lambda>k. (ks_revision_id k, ks_memory_id k)) ` set (map (source_row r) bs) = {}"
    by (auto simp: source_row_def)
  ultimately have "skill_unique ?db"
    using uni unfolding skill_unique_def tables same map_append distinct_append set_map by simp
  moreover have "skill_references ?db"
    unfolding skill_references_def
  proof (intro conjI ballI)
    fix y assume "y \<in> set (kd_revisions ?db)"
    then consider "y \<in> set (kd_revisions db)" | "y = r" unfolding tables by auto
    then obtain t where "t \<in> set (kd_skills db)" "sk_id t = kr_skill_id y" "sk_project_id t = kr_project_id y"
      using ref s unfolding skill_references_def by (cases; blast)
    then show "\<exists>s \<in> set (kd_skills ?db). sk_id s = kr_skill_id y \<and> sk_project_id s = kr_project_id y"
      unfolding tables set_map using g by (intro bexI [of _ "?g t"] imageI) metis+
  next
    fix k assume "k \<in> set (kd_sources ?db)"
    then consider "k \<in> set (kd_sources db)" | b where "b \<in> set bs" "k = source_row r b" unfolding tables by auto
    then show "\<exists>r \<in> set (kd_revisions ?db). kr_id r = ks_revision_id k \<and> kr_project_id r = ks_project_id k"
      using ref unfolding skill_references_def tables by cases (fastforce simp: source_row_def)+
  next
    fix k assume "k \<in> set (kd_sources ?db)"
    then consider "k \<in> set (kd_sources db)" | b where "b \<in> set bs" "k = source_row r b" unfolding tables by auto
    then show "\<exists>x \<in> set (xd_experiences (kd_store ?db)). xp_id x = ks_memory_id k \<and> xp_project_id x = ks_project_id k"
    proof cases
      case 1
      then show ?thesis using ref unfolding skill_references_def tables by blast
    next
      case (2 b)
      then show ?thesis using bs(2) [OF 2(1)] unfolding tables by (simp add: source_row_def)
    qed
  next
    fix e assume "e \<in> set (kd_events ?db)"
    then show "\<exists>r \<in> set (kd_revisions ?db). kr_id r = ke_revision_id e \<and> ke_version e \<le> kr_version r"
      using ref unfolding skill_references_def tables by auto
  qed
  ultimately show ?thesis by (simp add: skill_tables_def)
qed

lemma submit_tables:
  assumes tab: "skill_tables db" and sub: "submit_skill U P clk si i actor origin a db = Inr (db', answer)"
    and i: "i \<notin> kr_id ` set (kd_revisions db)"
  shows "skill_tables db'"
  using sub
proof (cases rule: submit_freshE)
  case known
  then show ?thesis using tab by simp
next
  case (stored m c db1 s)
  note t = target_skill_tables [OF stored(4) tab] and c = captured_sources [OF stored(3)]
  let ?r = "new_revision P clk i actor origin a m c s"
  have key: "kr_project_id ?r = arg_str a ''project_id''" "kr_created_by ?r = actor" "kr_idempotency_key ?r = arg_str a ''idempotency_key''"
    by (simp_all add: new_revision_def Let_def)
  show ?thesis unfolding stored(5)
    by (rule store_revision_tables [OF t(1) _ _ t(2)]) (use i stored(2) t c key in simp_all)
qed

subsection \<open>The property\<close>

definition skills_sound :: "skdb \<Rightarrow> bool" where
  "skills_sound db \<longleftrightarrow> skills_ok db \<and> skill_tables db"

lemma skills_sound_step:
  assumes "skills_sound db" and "skill_transaction U P clk db db'" and "body_schema_sound P"
  shows "skills_sound db'"
proof -
  have ok: "skills_ok db" "skill_tables db" using assms(1) by (simp_all add: skills_sound_def)
  have step: "skill_step U P clk db db'" and kept: "memories_kept (kd_store db) (kd_store db')"
    using assms(2) by (simp_all add: skill_transaction_def)
  from step have "skill_tables db'"
  proof cases
    case (step_submit si i actor origin a answer)
    then show ?thesis using submit_tables ok(2) by blast
  next
    case (step_review actor a answer)
    then show ?thesis using review_tables ok by blast
  next
    case (step_memories new)
    then show ?thesis using memories_changed_tables [OF ok] kept by (simp add: memories_changed_store)
  qed
  then show ?thesis using skill_step_ok [OF ok(1) step assms(3)] by (simp add: skills_sound_def)
qed

lemma sources_kept:
  assumes "skill_step U P clk db db'"
  shows "set (kd_sources db) \<subseteq> set (kd_sources db')"
  using assms
proof cases
  case (step_submit si i actor origin a answer)
  from step_submit(1) show ?thesis
  proof (cases rule: submit_skillE)
    case (stored m c db1 s)
    from stored(3) have "kd_sources db1 = kd_sources db" by (cases rule: target_skillE) simp_all
    then show ?thesis by (auto simp: stored(4) store_revision_def)
  qed simp
next
  case (step_review actor a answer)
  have "kd_sources db' = kd_sources db"
    using step_review unfolding review_skill_def
    by (auto simp: Let_def and_then_Inr_iff approve_revision_def supersede_active_def transition_revision_def point_active_def
        split: option.splits if_splits)
  then show ?thesis by simp
next
  case (step_memories new)
  have "kd_sources (fold (invalidate now) xs d) = kd_sources d" for now xs d
    by (induction xs arbitrary: d) simp_all
  then show ?thesis by (simp add: step_memories memories_changed_def)
qed

text \<open>
  C34. In every reachable state the tables of the skills satisfy their constraints, so no
  transaction fails on them. A project has one skill of a name, an actor one revision of an
  idempotency key, a revision one source of an experience and one event of a version; every
  revision belongs to a skill of its project, every source to a revision and an experience of
  that project, and every event to a revision that has reached its version. A skill points
  exactly at its active revision, of which there is at most one and which a person authored
  and somebody approved; exactly the forgotten revisions are empty. Every revision ever
  stored is still there, changed only as the trigger of its table allows, and the sources it
  was bound to are unchanged.
\<close>

theorem skill_revisions_guarded:
  assumes "run (skill_transaction U P) db ts db'" and "skills_ok db" and "skill_tables db" and "body_schema_sound P"
  shows "skills_ok db' \<and> skill_unique db' \<and> skill_references db'
    \<and> (\<forall>r \<in> set (kd_revisions db'). revision_row_ok r \<and> (kr_status r = K_active \<longrightarrow> kr_origin r = O_manual
        \<and> (\<forall>q \<in> set (kd_revisions db'). kr_status q = K_active \<and> kr_skill_id q = kr_skill_id r \<longrightarrow> q = r)))
    \<and> (\<forall>i r. revision_at db i = Some r \<longrightarrow> (\<exists>r'. revision_at db' i = Some r' \<and> guard_skill_revision r r'))
    \<and> set (kd_sources db) \<subseteq> set (kd_sources db')"
proof -
  have "skills_sound db" using assms(2,3) by (simp add: skills_sound_def)
  then have sound: "skills_sound db'"
    using run_invariant [OF assms(1), of skills_sound] skills_sound_step assms(4) by blast
  then have keys: "skill_keys db'" and rows: "skill_rows db'" and ptr: "skill_pointers db'"
    by (simp_all add: skills_sound_def skills_ok_def)
  have steps: "run (skill_step U P) db ts db'"
    using assms(1) by (induction rule: run.induct) (auto simp: skill_transaction_def intro: run.intros)
  have "q = r" if r: "r \<in> set (kd_revisions db')" "kr_status r = K_active"
    and q: "q \<in> set (kd_revisions db')" "kr_status q = K_active" "kr_skill_id q = kr_skill_id r" for r q
  proof -
    obtain s where s: "s \<in> set (kd_skills db')" "sk_id s = kr_skill_id r" using skill_rowsE [OF rows r(1)] .
    then have "points_at s (kd_revisions db')" using ptr by (simp add: skill_pointers_def)
    then have "kr_revision q = kr_revision r" using r q s(2) unfolding points_at_def by (metis option.inject)
    then show ?thesis using skill_key_eq [OF keys r(1) q(1)] q(3) by blast
  qed
  moreover have "revision_row_ok r" if "r \<in> set (kd_revisions db')" for r using rows that by (simp add: skill_rows_def)
  moreover have "set (kd_sources db) \<subseteq> set (kd_sources db')"
    using steps by (induction rule: run.induct) (auto dest: sources_kept)
  ultimately show ?thesis
    using sound sv.row_run [OF steps] assms(2,4) unfolding skills_sound_def skill_tables_def revision_row_ok_def by blast
qed

subsection \<open>Witness\<close>

lemma demo_skill_tables: "skill_tables demo_skills"
  by (simp add: skill_tables_def skill_unique_def skill_references_def demo_skills_def demo_revision_def demo_experiences_def
      demo_experience_def)

definition demo_archive_request :: dict where
  "demo_archive_request = [(''project_id'', PStr ''web''), (''revision_id'', PStr ''7''), (''action'', PStr ''archive''),
     (''expected_version'', PInt 2)]"

theorem skill_revisions_guarded_witness:
  "\<exists>db' r'. run (skill_transaction plain_unicode demo_checker) demo_skills [\<lambda>_. 9] db' \<and> revision_at db' 7 = Some r'
     \<and> kr_status r' = K_archived \<and> guard_skill_revision demo_revision r'"
proof -
  let ?a = demo_archive_request and ?s = "hd (kd_skills demo_skills)"
  let ?db = "transition_revision 9 demo_revision ''ann'' ''archive'' K_archived (point_active (sk_id ?s) None demo_skills)"
  have facts: "action_of (arg_str ?a ''action'') = A_archive" "arg_int ?a ''expected_version'' = 2"
      "fetchrow (\<lambda>r. kr_id r = arg_uuid ?a ''revision_id'' \<and> kr_project_id r = arg_str ?a ''project_id'') (kd_revisions demo_skills)
        = Some demo_revision"
      "skill_replay demo_revision ''ann'' A_archive 2 demo_skills = None" "\<not> skill_conflict demo_revision A_archive 2"
      "fetchrow (\<lambda>s. sk_id s = kr_skill_id demo_revision) (kd_skills demo_skills) = Some ?s"
      "sk_active_revision ?s = Some (kr_revision demo_revision)"
    by code_simp+
  have rev: "review_skill demo_checker (\<lambda>_. 9) ''ann'' ?a demo_skills
      = Inr (?db, skill_receipt (kr_id demo_revision) (kr_version demo_revision + 1) K_archived False)"
    unfolding review_skill_def Let_def facts by (simp add: facts)
  moreover have "memories_kept (kd_store demo_skills) (kd_store ?db)"
    by (auto simp: memories_kept_def transition_revision_def point_active_def)
  ultimately have r: "run (skill_transaction plain_unicode demo_checker) demo_skills [\<lambda>_. 9] ?db" 
    by (auto simp: run_Cons_iff skill_transaction_def intro: step_review)
  have "revision_at demo_skills 7 = Some demo_revision" by (simp add: revision_at_def demo_skills_def demo_revision_def)
  then obtain r' where r': "revision_at ?db 7 = Some r'" "guard_skill_revision demo_revision r'"
    using skill_revisions_guarded [OF r demo_skills_ok(1) demo_skill_tables demo_skills_ok(2)] by blast
  have "map_option kr_status (revision_at ?db 7) = Some K_archived" by code_simp
  then show ?thesis using r r' by auto
qed

end
