(* ===== verification/Generation_Props.thy ===== *)
theory Generation_Props
  imports Generation_Worker
begin

text \<open>
  Properties of the generation queue: attempts are counted exactly and bounded for the life
  of a job, so that workers that keep claiming come to an end (C39).
\<close>

subsection \<open>Steps\<close>

text \<open>
  One transaction of an administrator or a worker. Jobs enter the queue as extractions and
  summaries (\<open>enqueue\<close>) and as skill scaffolds (\<open>enqueue_scaffold\<close>). What else changes the
  store of experiences is \<open>gs_other\<close>.
\<close>

inductive gen_step :: "clock \<Rightarrow> gdb \<Rightarrow> gdb \<Rightarrow> bool" where
  gs_enqueue: "enqueue P s clk ids actor a db = (db', res) \<Longrightarrow> inj ids \<Longrightarrow> range ids \<inter> gj_id ` set (gd_jobs db) = {} \<Longrightarrow> gen_step clk db db'"
| gs_scaffold: "enqueue_scaffold P s clk i actor a db = Inr (db', res) \<Longrightarrow> i \<notin> gj_id ` set (gd_jobs db) \<Longrightarrow> gen_step clk db db'"
| gs_redrive: "redrive clk actor a db = Inr (db', res) \<Longrightarrow> gen_step clk db db'"
| gs_claim: "claim_job clk token project lease db = (db', got) \<Longrightarrow> gen_step clk db db'"
| gs_fail: "fail_job clk job error retryable inp out db = (db', applied) \<Longrightarrow> gen_step clk db db'"
| gs_finish: "finish_job clk job outcome_code result inp out db = Some db' \<Longrightarrow> gen_step clk db db'"
| gs_other: "gen_step clk db (db\<lparr>gd_snapshots := t, gd_store := x\<rparr>)"

text \<open>
  Workers at work: any number of claims, of which \<open>n\<close> get a job, failures and completions by
  anybody, while nothing is enqueued or redriven.
\<close>

inductive worked :: "nat \<Rightarrow> gdb \<Rightarrow> gdb \<Rightarrow> bool" where
  wk_none: "worked 0 db db"
| wk_claim: "claim_job clk token project lease db = (db1, Some j) \<Longrightarrow> worked n db1 db2 \<Longrightarrow> worked (Suc n) db db2"
| wk_idle: "claim_job clk token project lease db = (db1, None) \<Longrightarrow> worked n db1 db2 \<Longrightarrow> worked n db db2"
| wk_fail: "fail_job clk job error retryable inp out db = (db1, applied) \<Longrightarrow> worked n db1 db2 \<Longrightarrow> worked n db db2"
| wk_finish: "finish_job clk job outcome_code result inp out db = Some db1 \<Longrightarrow> worked n db1 db2 \<Longrightarrow> worked n db db2"

text \<open>The attempts the jobs of the queue have left.\<close>

definition budget :: "gen_job list \<Rightarrow> nat" where
  "budget t = sum_list (map (\<lambda>j. gj_max_attempts j - gj_attempts j) t)"

subsection \<open>The invariant\<close>

definition attempt_keys :: "gdb \<Rightarrow> (uuid \<times> nat) list" where
  "attempt_keys db = map (\<lambda>t. (ga_job_id t, ga_attempt t)) (gd_attempts db)"

definition attempts_of :: "(uuid \<times> nat) list \<Rightarrow> uuid \<Rightarrow> nat list" where
  "attempts_of ks i = map snd (filter (\<lambda>k. fst k = i) ks)"

definition lease_ok :: "gen_job \<Rightarrow> bool" where
  \<comment> \<open>the check constraint of the table\<close>
  "lease_ok j \<longleftrightarrow> (gj_status j = J_running) = (gj_lease_token j \<noteq> None \<and> gj_lease_until j \<noteq> None)"

definition job_ok :: "gen_job \<Rightarrow> bool" where
  "job_ok j \<longleftrightarrow> lease_ok j \<and> gj_attempts j \<le> gj_max_attempts j \<and> gj_max_attempts j \<le> MAX_LIFETIME_ATTEMPTS"

definition queue_ok :: "gdb \<Rightarrow> bool" where
  "queue_ok db \<longleftrightarrow> distinct (map gj_id (gd_jobs db)) \<and> (\<forall>j \<in> set (gd_jobs db). job_ok j)
     \<and> (\<forall>j \<in> set (gd_jobs db). attempts_of (attempt_keys db) (gj_id j) = [1..<Suc (gj_attempts j)])
     \<and> fst ` set (attempt_keys db) \<subseteq> gj_id ` set (gd_jobs db)"

lemma queue_okI:
  assumes "distinct (map gj_id (gd_jobs db))"
    and "\<And>j. j \<in> set (gd_jobs db) \<Longrightarrow> job_ok j \<and> attempts_of (attempt_keys db) (gj_id j) = [1..<Suc (gj_attempts j)]"
    and "fst ` set (attempt_keys db) \<subseteq> gj_id ` set (gd_jobs db)"
  shows "queue_ok db"
  using assms by (simp only: queue_ok_def) blast

text \<open>A transaction that rewrites jobs and records no new attempt.\<close>

definition recasts :: "(gen_job \<Rightarrow> gen_job \<Rightarrow> bool) \<Rightarrow> gdb \<Rightarrow> gdb \<Rightarrow> bool" where
  "recasts R db db' \<longleftrightarrow> attempt_keys db' = attempt_keys db \<and> (\<exists>f. gd_jobs db' = map f (gd_jobs db)
     \<and> (\<forall>j. gj_id (f j) = gj_id j) \<and> (\<forall>j \<in> set (gd_jobs db). job_ok j \<longrightarrow> R j (f j)))"

definition keeps_attempts :: "gen_job \<Rightarrow> gen_job \<Rightarrow> bool" where
  "keeps_attempts j j' \<longleftrightarrow> job_ok j' \<and> gj_attempts j' = gj_attempts j"

definition keeps_budget :: "gen_job \<Rightarrow> gen_job \<Rightarrow> bool" where
  "keeps_budget j j' \<longleftrightarrow> keeps_attempts j j' \<and> gj_max_attempts j' = gj_max_attempts j"

lemma recasts_refl: "(\<And>j. job_ok j \<Longrightarrow> R j j) \<Longrightarrow> gd_jobs db' = gd_jobs db \<Longrightarrow> attempt_keys db' = attempt_keys db \<Longrightarrow> recasts R db db'"
  unfolding recasts_def by (auto intro!: exI [of _ "\<lambda>j. j"])

lemma keeps_budget_refl: "job_ok j \<Longrightarrow> keeps_budget j j"
  by (simp add: keeps_budget_def keeps_attempts_def)

lemma recasts_budget_attempts: "recasts keeps_budget db db' \<Longrightarrow> recasts keeps_attempts db db'"
  unfolding recasts_def keeps_budget_def by blast

lemma recasts_trans:
  assumes "recasts keeps_budget a b" and "recasts keeps_budget b c"
  shows "recasts keeps_budget a c"
proof -
  obtain f where f: "attempt_keys b = attempt_keys a" "gd_jobs b = map f (gd_jobs a)" "\<And>j. gj_id (f j) = gj_id j"
      "\<forall>j \<in> set (gd_jobs a). job_ok j \<longrightarrow> keeps_budget j (f j)"
    using assms(1) unfolding recasts_def by blast
  obtain g where g: "attempt_keys c = attempt_keys b" "gd_jobs c = map g (gd_jobs b)" "\<And>j. gj_id (g j) = gj_id j"
      "\<forall>j \<in> set (gd_jobs b). job_ok j \<longrightarrow> keeps_budget j (g j)"
    using assms(2) unfolding recasts_def by blast
  have "keeps_budget j (g (f j))" if "j \<in> set (gd_jobs a)" "job_ok j" for j
  proof -
    have one: "keeps_budget j (f j)" using f(4) that by blast
    have "f j \<in> set (gd_jobs b)" using f(2) that(1) by simp
    then have "keeps_budget (f j) (g (f j))" using g(4) one unfolding keeps_budget_def keeps_attempts_def by blast
    then show ?thesis using one unfolding keeps_budget_def keeps_attempts_def by simp
  qed
  then show ?thesis unfolding recasts_def using f(1-3) g(1-3) by (auto intro!: exI [of _ "g \<circ> f"])
qed

lemma recasts_ok:
  assumes "queue_ok db" and "recasts keeps_attempts db db'"
  shows "queue_ok db'"
proof -
  obtain f where f: "attempt_keys db' = attempt_keys db" "gd_jobs db' = map f (gd_jobs db)" "\<And>j. gj_id (f j) = gj_id j"
      "\<forall>j \<in> set (gd_jobs db). job_ok j \<longrightarrow> keeps_attempts j (f j)"
    using assms(2) unfolding recasts_def by blast
  have k: "keeps_attempts j (f j)" if "j \<in> set (gd_jobs db)" for j using f(4) assms(1) that by (simp add: queue_ok_def)
  have ids: "map gj_id (gd_jobs db') = map gj_id (gd_jobs db)" by (simp add: f(2,3))
  then have "gj_id ` set (gd_jobs db') = gj_id ` set (gd_jobs db)" by (metis set_map)
  moreover have "job_ok j \<and> attempts_of (attempt_keys db') (gj_id j) = [1..<Suc (gj_attempts j)]" if new: "j \<in> set (gd_jobs db')" for j
  proof -
    obtain j0 where "j0 \<in> set (gd_jobs db)" "j = f j0" using new by (auto simp: f(2))
    then have "job_ok j" "gj_id j = gj_id j0" "gj_attempts j = gj_attempts j0" using k f(3) unfolding keeps_attempts_def by simp_all
    moreover have "attempts_of (attempt_keys db) (gj_id j0) = [1..<Suc (gj_attempts j0)]"
      using \<open>j0 \<in> set (gd_jobs db)\<close> assms(1) unfolding queue_ok_def by blast
    ultimately show ?thesis by (simp only: f(1) simp_thms)
  qed
  moreover have "distinct (map gj_id (gd_jobs db'))" "fst ` set (attempt_keys db') \<subseteq> gj_id ` set (gd_jobs db)"
    using assms(1) unfolding queue_ok_def ids f(1) by blast+
  ultimately show ?thesis by (intro queue_okI) simp_all
qed

lemma recasts_budget:
  assumes "queue_ok db" and "recasts keeps_budget db db'"
  shows "budget (gd_jobs db') = budget (gd_jobs db)" "length (gd_jobs db') = length (gd_jobs db)"
proof -
  obtain f where f: "gd_jobs db' = map f (gd_jobs db)" "\<forall>j \<in> set (gd_jobs db). job_ok j \<longrightarrow> keeps_budget j (f j)"
    using assms(2) unfolding recasts_def by blast
  then have "\<forall>j \<in> set (gd_jobs db). gj_max_attempts (f j) - gj_attempts (f j) = gj_max_attempts j - gj_attempts j"
    using assms(1) unfolding queue_ok_def keeps_budget_def keeps_attempts_def by simp
  then show "budget (gd_jobs db') = budget (gd_jobs db)" using f(1) by (simp add: budget_def comp_def cong: map_cong)
  show "length (gd_jobs db') = length (gd_jobs db)" using f(1) by simp
qed

text \<open>The single statements.\<close>

lemma finish_attempt_keys [simp]:
  "attempt_keys (finish_attempt now i n c inp out db) = attempt_keys db" "gd_jobs (finish_attempt now i n c inp out db) = gd_jobs db"
  by (auto simp: attempt_keys_def finish_attempt_def update_where_def)

lemma recasts_set_job:
  assumes "\<And>j. gj_id (g j) = gj_id j" and "\<And>j. j \<in> set (gd_jobs db) \<Longrightarrow> gj_id j = i \<Longrightarrow> job_ok j \<Longrightarrow> R j (g j)" and "\<And>j. job_ok j \<Longrightarrow> R j j"
    and "gd_jobs db1 = gd_jobs db" and "attempt_keys db1 = attempt_keys db"
  shows "recasts R db (set_job i g db1)"
  unfolding recasts_def
  by (auto simp: set_job_def update_where_def assms attempt_keys_def [of "gd_jobs_update _ _"] simp flip: attempt_keys_def
      intro!: exI [of _ "\<lambda>j. if gj_id j = i then g j else j"])

lemma gj_id_updates [simp]:
  "gj_id (buried now j) = gj_id j" "gj_id (failed_job now job e r j) = gj_id j" "gj_id (succeeded_job now result j) = gj_id j"
  "gj_id (redriven clk actor j) = gj_id j" "gj_id (claimed_job now token lease j) = gj_id j"
  by (simp_all add: buried_def failed_job_def succeeded_job_def redriven_def claimed_job_def)

lemma buried_keeps: "job_ok j \<Longrightarrow> keeps_budget j (buried now j)"
  by (simp add: keeps_budget_def keeps_attempts_def job_ok_def lease_ok_def buried_def)

lemma failed_keeps: "job_ok j \<Longrightarrow> keeps_budget j (failed_job now job e r j)"
  by (simp add: keeps_budget_def keeps_attempts_def job_ok_def lease_ok_def failed_job_def)

lemma succeeded_keeps: "job_ok j \<Longrightarrow> keeps_budget j (succeeded_job now result j)"
  by (simp add: keeps_budget_def keeps_attempts_def job_ok_def lease_ok_def succeeded_job_def)

lemma redriven_keeps: "job_ok j \<Longrightarrow> gj_status j = J_dead \<Longrightarrow> keeps_attempts j (redriven clk actor j)"
  by (auto simp: keeps_attempts_def job_ok_def lease_ok_def redriven_def)

lemma bury_all_recasts: "recasts keeps_budget db (bury_all now js db)"
proof (induction js arbitrary: db)
  case Nil
  then show ?case by (simp add: recasts_refl keeps_budget_refl)
next
  case (Cons j js)
  have "recasts keeps_budget db (set_job (gj_id j) (buried now) (finish_attempt now (gj_id j) (gj_attempts j) ''lease_expired'' 0 0 db))"
    by (rule recasts_set_job) (simp_all add: buried_keeps keeps_budget_refl)
  then show ?case using Cons.IH recasts_trans by simp
qed

lemma fail_recasts:
  assumes "fail_job clk job e retryable inp out db = (db', applied)"
  shows "recasts keeps_budget db db'"
proof (cases "job_fenced (clk 1) job db")
  case True
  then have "db' = set_job (gj_id job) (failed_job (clk 3) job e (retryable \<and> gj_attempts job < gj_max_attempts job))
      (finish_attempt (clk 2) (gj_id job) (gj_attempts job) e inp out db)"
    using assms by (simp add: fail_job_def)
  then show ?thesis by (auto intro!: recasts_set_job simp: failed_keeps keeps_budget_refl)
next
  case False
  then show ?thesis using assms by (auto simp: fail_job_def intro!: recasts_refl keeps_budget_refl)
qed

lemma finish_recasts:
  assumes "finish_job clk job c result inp out db = Some db'"
  shows "recasts keeps_budget db db'"
proof -
  have "db' = set_job (gj_id job) (succeeded_job (clk 3) result) (finish_attempt (clk 2) (gj_id job) (gj_attempts job) c inp out db)"
    using assms by (auto simp: finish_job_def Let_def split: if_splits)
  then show ?thesis by (auto intro!: recasts_set_job simp: succeeded_keeps keeps_budget_refl)
qed

subsection \<open>Claims\<close>

lemma next_jobD:
  assumes "next_job project now db = Some j"
  shows "j \<in> set (gd_jobs db)" "runnable project now j"
proof -
  obtain js where "sort_key job_key (filter (runnable project now) (gd_jobs db)) = j # js"
    using assms unfolding next_job_def by (auto split: list.splits)
  then have "j \<in> set (sort_key job_key (filter (runnable project now) (gd_jobs db)))" by simp
  then show "j \<in> set (gd_jobs db)" "runnable project now j" by simp_all
qed

lemma claim_jobE:
  assumes "claim_job clk token project lease db = (db', got)"
  obtains (idle) "got = None" "recasts keeps_budget db db'"
    | (taken) db1 j where "recasts keeps_budget db db1" "j \<in> set (gd_jobs db1)" "runnable project (clk 3) j"
      "got = Some (claimed_job (clk 5) token lease j)"
      "gd_jobs db' = update_where (\<lambda>k. gj_id k = gj_id j) (claimed_job (clk 5) token lease) (gd_jobs db1)"
      "attempt_keys db' = attempt_keys db1 @ [(gj_id j, Suc (gj_attempts j))]"
proof -
  let ?db1 = "bury_all (clk 2) (exhausted project (clk 1) db) db"
  have r: "recasts keeps_budget db ?db1" by (rule bury_all_recasts)
  show thesis
  proof (cases "next_job project (clk 3) ?db1")
    case None
    then show thesis using assms idle r by (simp add: claim_job_def Let_def)
  next
    case (Some j)
    let ?db2 = "if gj_status j = J_running then finish_attempt (clk 4) (gj_id j) (gj_attempts j) ''lease_expired'' 0 0 ?db1 else ?db1"
    have two: "gd_jobs ?db2 = gd_jobs ?db1" "attempt_keys ?db2 = attempt_keys ?db1" by simp_all
    have "got = Some (claimed_job (clk 5) token lease j)"
      "gd_jobs db' = gd_jobs (set_job (gj_id j) (claimed_job (clk 5) token lease) ?db2)"
      "gd_attempts db' = gd_attempts ?db2 @ [new_attempt (clk 6) (claimed_job (clk 5) token lease j)]"
      using assms Some by (auto simp: claim_job_def Let_def insert_row_def set_job_def)
    then have "got = Some (claimed_job (clk 5) token lease j)"
      "gd_jobs db' = update_where (\<lambda>k. gj_id k = gj_id j) (claimed_job (clk 5) token lease) (gd_jobs ?db1)"
      "attempt_keys db' = attempt_keys ?db1 @ [(gj_id j, Suc (gj_attempts j))]"
      using two by (simp_all add: set_job_def attempt_keys_def new_attempt_def claimed_job_def)
    then show thesis using taken [OF r next_jobD [OF Some]] by blast
  qed
qed

lemma attempts_of_append: "attempts_of (ks @ [(i, n)]) k = attempts_of ks k @ (if k = i then [n] else [])"
  by (simp add: attempts_of_def)

lemma claim_taken:
  assumes ok: "queue_ok db" and j: "j \<in> set (gd_jobs db)" "runnable project now j"
    and jobs: "gd_jobs db' = update_where (\<lambda>k. gj_id k = gj_id j) (claimed_job now' token lease) (gd_jobs db)"
    and keys: "attempt_keys db' = attempt_keys db @ [(gj_id j, Suc (gj_attempts j))]"
  shows "queue_ok db'" "Suc (budget (gd_jobs db')) = budget (gd_jobs db)" "length (gd_jobs db') = length (gd_jobs db)"
proof -
  let ?f = "\<lambda>k. if gj_id k = gj_id j then claimed_job now' token lease k else k"
  have map: "gd_jobs db' = map ?f (gd_jobs db)" by (simp add: jobs update_where_def)
  have ids: "distinct (map gj_id (gd_jobs db))" using ok by (simp add: queue_ok_def)
  have self: "k = j" if "k \<in> set (gd_jobs db)" "gj_id k = gj_id j" for k using update_one [OF ids j(1) that] .
  have room: "gj_attempts j < gj_max_attempts j" using j(2) by (simp add: runnable_def)
  have same_ids: "map gj_id (gd_jobs db') = map gj_id (gd_jobs db)" by (simp add: map)
  have good: "job_ok k \<and> attempts_of (attempt_keys db') (gj_id k) = [1..<Suc (gj_attempts k)]" if new: "k \<in> set (gd_jobs db')" for k
  proof -
    obtain k0 where k0: "k0 \<in> set (gd_jobs db)" "k = ?f k0" using new unfolding map by (auto simp del: if_image_distrib)
    have old: "job_ok k0" "attempts_of (attempt_keys db) (gj_id k0) = [1..<Suc (gj_attempts k0)]"
      using ok k0(1) unfolding queue_ok_def by blast+
    show ?thesis
    proof (cases "gj_id k0 = gj_id j")
      case True
      then have "k0 = j" using self k0(1) by blast
      then show ?thesis using k0(2) old room
        by (simp add: keys attempts_of_append claimed_job_def job_ok_def lease_ok_def)
    next
      case False
      then show ?thesis using k0(2) old by (simp add: keys attempts_of_append)
    qed
  qed
  have "gj_id ` set (gd_jobs db') = gj_id ` set (gd_jobs db)" using same_ids by (metis set_map)
  moreover have "fst ` set (attempt_keys db') = insert (gj_id j) (fst ` set (attempt_keys db))" by (simp add: keys)
  ultimately have "fst ` set (attempt_keys db') \<subseteq> gj_id ` set (gd_jobs db')" using ok j(1) by (simp add: queue_ok_def)
  moreover have "distinct (map gj_id (gd_jobs db'))" using ids same_ids by argo
  ultimately show "queue_ok db'" using good by (intro queue_okI)
  show "length (gd_jobs db') = length (gd_jobs db)" by (simp add: map)
  obtain xs ys where split: "gd_jobs db = xs @ j # ys" using j(1) by (meson split_list)
  have "gj_id j \<notin> gj_id ` (set xs \<union> set ys)" using ids by (simp add: split image_Un)
  then have "gj_id k \<noteq> gj_id j" if "k \<in> set xs \<union> set ys" for k using that by (metis image_eqI)
  then have "map ?f xs = xs" "map ?f ys = ys" by (auto intro!: map_idI)
  then have "gd_jobs db' = xs @ claimed_job now' token lease j # ys" by (simp add: map split)
  then show "Suc (budget (gd_jobs db')) = budget (gd_jobs db)"
    using room by (simp add: budget_def split claimed_job_def)
qed

lemma claim_step:
  assumes "claim_job clk token project lease db = (db', got)" and ok: "queue_ok db"
  shows "queue_ok db'" "(case got of None \<Rightarrow> 0 | Some _ \<Rightarrow> 1) + budget (gd_jobs db') = budget (gd_jobs db)"
    "length (gd_jobs db') = length (gd_jobs db)"
proof -
  have "queue_ok db' \<and> (case got of None \<Rightarrow> 0 | Some _ \<Rightarrow> 1) + budget (gd_jobs db') = budget (gd_jobs db)
      \<and> length (gd_jobs db') = length (gd_jobs db)"
    using assms(1)
  proof (cases rule: claim_jobE)
    case idle
    then show ?thesis using recasts_ok [OF ok] recasts_budget [OF ok] recasts_budget_attempts by simp
  next
    case (taken db1 j)
    have ok1: "queue_ok db1" using recasts_ok [OF ok] recasts_budget_attempts taken(1) by blast
    show ?thesis using claim_taken [OF ok1 taken(2,3,5,6)] recasts_budget [OF ok taken(1)] taken(4) by simp
  qed
  then show "queue_ok db'" "(case got of None \<Rightarrow> 0 | Some _ \<Rightarrow> 1) + budget (gd_jobs db') = budget (gd_jobs db)"
    "length (gd_jobs db') = length (gd_jobs db)" by auto
qed

subsection \<open>New jobs\<close>

lemma insert_job_ok:
  assumes "insert_job i now project kind key watermark recipe params actor db = (db', r)" and "queue_ok db"
    and "i \<notin> gj_id ` set (gd_jobs db)"
  shows "queue_ok db' \<and> gj_id ` set (gd_jobs db') \<subseteq> insert i (gj_id ` set (gd_jobs db))"
proof (cases "fetchrow (same_job project kind key watermark recipe) (gd_jobs db)")
  case None
  let ?j = "new_job i now project kind key watermark recipe params actor"
  have db': "gd_jobs db' = gd_jobs db @ [?j]" "attempt_keys db' = attempt_keys db"
    using assms(1) None by (auto simp: insert_job_def Let_def insert_row_def attempt_keys_def)
  have new: "gj_id ?j = i" "job_ok ?j" "gj_attempts ?j = 0"
    by (simp_all add: new_job_def job_ok_def lease_ok_def MAX_LIFETIME_ATTEMPTS_def)
  have "i \<notin> fst ` set (attempt_keys db)" using assms(2,3) unfolding queue_ok_def by blast
  then have "attempts_of (attempt_keys db) i = []" by (auto simp: attempts_of_def filter_empty_conv image_iff)
  moreover have "distinct (map gj_id (gd_jobs db'))" using assms(2,3) by (simp add: db' new queue_ok_def)
  ultimately have "queue_ok db'"
    using assms(2) by (intro queue_okI) (auto simp: db' new queue_ok_def)
  then show ?thesis by (simp add: db' new)
next
  case (Some j)
  then show ?thesis using assms by (auto simp: insert_job_def)
qed

lemma insert_extracts_ok:
  assumes "insert_extracts P s ids now project actor hs db = (db', rs)" and "queue_ok db" and "inj ids"
    and "range ids \<inter> gj_id ` set (gd_jobs db) = {}"
  shows "queue_ok db'"
  using assms
proof (induction hs arbitrary: ids db rs)
  case Nil
  then show ?case by simp
next
  case (Cons h hs)
  obtain db1 r where one: "insert_job (ids 0) now project G_extract (uuid_str (h_id h)) (hc_payload_digest (h_content h)) RECIPE
            (extract_parameters P s h) actor db = (db1, r)" by fastforce
  obtain rs' where rest: "insert_extracts P s (\<lambda>n. ids (Suc n)) now project actor hs db1 = (db', rs')"
    using Cons.prems(1) one by (auto split: prod.splits)
  have "ids 0 \<notin> gj_id ` set (gd_jobs db)" using Cons.prems(4) by blast
  then have ok: "queue_ok db1" "gj_id ` set (gd_jobs db1) \<subseteq> insert (ids 0) (gj_id ` set (gd_jobs db))"
    using insert_job_ok [OF one Cons.prems(2)] by blast+
  have inj: "inj (\<lambda>n. ids (Suc n))" using Cons.prems(3) by (auto intro!: injI dest: injD)
  have "ids (Suc n) \<noteq> ids 0" for n using Cons.prems(3) by (auto dest: injD)
  then have "range (\<lambda>n. ids (Suc n)) \<inter> gj_id ` set (gd_jobs db1) = {}" using ok(2) Cons.prems(4) by blast
  then show ?case using Cons.IH [OF rest ok(1) inj] by blast
qed

lemma enqueue_ok:
  assumes "enqueue P s clk ids actor a db = (db', res)" and "queue_ok db" and "inj ids"
    and "range ids \<inter> gj_id ` set (gd_jobs db) = {}"
  shows "queue_ok db'"
proof (cases "arg_str a ''kind'' = ''extract''")
  case True
  then show ?thesis using assms(1) insert_extracts_ok [OF _ assms(2-4)]
    by (auto simp: enqueue_def Let_def split: prod.splits)
next
  case False
  have "ids 0 \<notin> gj_id ` set (gd_jobs db)" using assms(4) by blast
  then show ?thesis using assms(1) False insert_job_ok [OF _ assms(2)]
    by (auto simp: enqueue_def Let_def split: prod.splits)
qed

lemma enqueue_scaffoldE:
  assumes "enqueue_scaffold P s clk i actor a db = Inr (db', res)"
  obtains key mark params job where
    "insert_job i (clk 0) (arg_str a ''project_id'') G_skill key mark SCAFFOLD_RECIPE params actor db = (db', job)"
proof -
  obtain key mark params where "(case insert_job i (clk 0) (arg_str a ''project_id'') G_skill key mark SCAFFOLD_RECIPE params actor db of
      (db1, job) \<Rightarrow> Inr (db1, [(''job'', PDict job)])) = (Inr (db', res) :: (gdb \<times> dict) outcome)"
    using assms by (simp only: enqueue_scaffold_def Let_def and_then_Inr_iff) blast
  moreover obtain db1 job where "insert_job i (clk 0) (arg_str a ''project_id'') G_skill key mark SCAFFOLD_RECIPE params actor db = (db1, job)"
    by fastforce
  ultimately show thesis using that by simp
qed

lemma enqueue_scaffold_ok:
  assumes "enqueue_scaffold P s clk i actor a db = Inr (db', res)" and "queue_ok db" and "i \<notin> gj_id ` set (gd_jobs db)"
  shows "queue_ok db'"
  using assms(1)
proof (cases rule: enqueue_scaffoldE)
  case (1 key mark params job)
  then show ?thesis using insert_job_ok assms(2,3) by blast
qed

lemma redrive_ok:
  assumes "redrive clk actor a db = Inr (db', res)" and "queue_ok db"
  shows "queue_ok db'"
proof -
  obtain j where j: "j \<in> set (gd_jobs db)" "db' = db \<or> (\<not> redrive_refused j (arg_int a ''expected_version'') \<and> db' = set_job (gj_id j) (redriven clk actor) db)"
    using assms(1) by (auto simp: redrive_def Let_def split: option.splits if_splits dest: fetchrow_SomeD)
  show ?thesis
  proof (cases "db' = db")
    case True
    then show ?thesis using assms(2) by simp
  next
    case False
    then have dead: "gj_status j = J_dead" "db' = set_job (gj_id j) (redriven clk actor) db"
      using j(2) by (auto simp: redrive_refused_def)
    have self: "k = j" if "k \<in> set (gd_jobs db)" "gj_id k = gj_id j" for k
      using update_one [OF _ j(1) that] assms(2) by (simp add: queue_ok_def)
    have "keeps_attempts k (redriven clk actor k)" if "k \<in> set (gd_jobs db)" "gj_id k = gj_id j" "job_ok k" for k
      using redriven_keeps [OF that(3)] self [OF that(1,2)] dead(1) by blast
    then have "recasts keeps_attempts db db'" unfolding dead(2)
      by (intro recasts_set_job) (simp_all add: keeps_attempts_def)
    then show ?thesis by (rule recasts_ok [OF assms(2)])
  qed
qed

lemma gen_step_ok:
  assumes "queue_ok db" and "gen_step clk db db'"
  shows "queue_ok db'"
  using assms(2)
proof cases
  case (gs_enqueue P s ids actor a res)
  show ?thesis by (rule enqueue_ok [OF gs_enqueue(1) assms(1) gs_enqueue(2,3)])
next
  case (gs_scaffold P s i actor a res)
  show ?thesis by (rule enqueue_scaffold_ok [OF gs_scaffold(1) assms(1) gs_scaffold(2)])
next
  case (gs_redrive actor a res)
  show ?thesis by (rule redrive_ok [OF gs_redrive assms(1)])
next
  case (gs_claim token project lease got)
  show ?thesis by (rule claim_step(1) [OF gs_claim assms(1)])
next
  case (gs_fail job error retryable inp out applied)
  show ?thesis by (rule recasts_ok [OF assms(1) recasts_budget_attempts [OF fail_recasts [OF gs_fail]]])
next
  case (gs_finish job outcome_code result inp out)
  show ?thesis by (rule recasts_ok [OF assms(1) recasts_budget_attempts [OF finish_recasts [OF gs_finish]]])
next
  case gs_other
  then show ?thesis using assms(1) by (simp add: queue_ok_def attempt_keys_def)
qed

lemma worked_budget:
  "worked n db db' \<Longrightarrow> queue_ok db \<Longrightarrow> queue_ok db' \<and> n + budget (gd_jobs db') = budget (gd_jobs db)"
proof (induction rule: worked.induct)
  case (wk_claim clk token project lease db db1 j n db2)
  then show ?case using claim_step [OF wk_claim.hyps(1)] by fastforce
next
  case (wk_idle clk token project lease db db1 n db2)
  then show ?case using claim_step [OF wk_idle.hyps(1)] by fastforce
next
  case (wk_fail clk job error retryable inp out db db1 applied n db2)
  then show ?case using recasts_ok [OF wk_fail.prems] recasts_budget [OF wk_fail.prems] recasts_budget_attempts
      fail_recasts [OF wk_fail.hyps(1)] by metis
next
  case (wk_finish clk job outcome_code result inp out db db1 n db2)
  then show ?case using recasts_ok [OF wk_finish.prems] recasts_budget [OF wk_finish.prems] recasts_budget_attempts
      finish_recasts [OF wk_finish.hyps(1)] by metis
qed simp

lemma sum_list_bounded: "(\<And>x. x \<in> set xs \<Longrightarrow> f x \<le> (c :: nat)) \<Longrightarrow> sum_list (map f xs) \<le> c * length xs"
  by (induction xs) (auto intro: add_mono)

text \<open>
  C39. The queue drains: in every state reachable from an empty queue each job, whether an
  extraction, a summary or a skill scaffold, has exactly one record for each of its
  attempts, of which it has at most \<open>MAX_LIFETIME_ATTEMPTS\<close>, its redrives included; and while nothing is enqueued or redriven, the workers obtain at most
  as many jobs as there are attempts left. So any loop that claims, processes and claims
  again, in any number of workers and however the jobs end, gets no job any more after a
  number of claims that is known in advance.
\<close>

theorem generation_queue_drains:
  assumes "run gen_step \<lparr>gd_jobs = [], gd_attempts = [], gd_snapshots = [], gd_store = x\<rparr> ts db" and "worked n db db'"
  shows "n + budget (gd_jobs db') = budget (gd_jobs db)
    \<and> budget (gd_jobs db) \<le> MAX_LIFETIME_ATTEMPTS * length (gd_jobs db)
    \<and> (\<forall>j \<in> set (gd_jobs db'). gj_attempts j \<le> gj_max_attempts j \<and> gj_max_attempts j \<le> MAX_LIFETIME_ATTEMPTS
         \<and> map ga_attempt (filter (\<lambda>t. ga_job_id t = gj_id j) (gd_attempts db')) = [1..<Suc (gj_attempts j)])"
proof -
  have "queue_ok \<lparr>gd_jobs = [], gd_attempts = [], gd_snapshots = [], gd_store = x\<rparr>"
    by (simp add: queue_ok_def attempt_keys_def)
  then have ok: "queue_ok db" using run_invariant [OF assms(1), of queue_ok] gen_step_ok by blast
  have keys: "attempts_of (attempt_keys d) i = map ga_attempt (filter (\<lambda>t. ga_job_id t = i) (gd_attempts d))" for d i
    by (simp add: attempts_of_def attempt_keys_def filter_map comp_def)
  have "budget (gd_jobs db) \<le> MAX_LIFETIME_ATTEMPTS * length (gd_jobs db)" unfolding budget_def
    by (rule sum_list_bounded) (use ok in \<open>auto simp: queue_ok_def job_ok_def\<close>)
  moreover have "queue_ok db' \<and> n + budget (gd_jobs db') = budget (gd_jobs db)" using worked_budget assms(2) ok by blast
  ultimately show ?thesis by (auto simp: queue_ok_def job_ok_def keys)
qed

subsection \<open>Witness\<close>

definition demo_queue :: gdb where
  "demo_queue = \<lparr>gd_jobs = [], gd_attempts = [], gd_snapshots = [],
     gd_store = \<lparr>xd_experiences = [], xd_events = [], xd_suppressions = [], xd_handoffs = []\<rparr>\<rparr>"

theorem generation_queue_drains_witness:
  "\<exists>(db :: gdb) (db' :: gdb). length (gd_jobs db) = 1 \<and> Suc (budget (gd_jobs db')) = budget (gd_jobs db)"
proof -
  let ?a = "[(''project_id'', PStr ''p''), (''kind'', PStr ''summary'')]"
  obtain db res where e: "enqueue auth_platform default_settings (\<lambda>_. 0) (\<lambda>n. n) ''root'' ?a demo_queue = (db, res)" by fastforce
  then have run: "run gen_step \<lparr>gd_jobs = [], gd_attempts = [], gd_snapshots = [], gd_store = gd_store demo_queue\<rparr> [\<lambda>_. 0] db"
    by (intro run_cons run_nil gs_enqueue) (auto simp: demo_queue_def)
  obtain k m v where j: "gd_jobs db = [new_job 0 0 ''p'' G_summary k m SUMMARY_RECIPE v ''root'']"
    using e by (auto simp: enqueue_def Let_def insert_job_def demo_queue_def insert_row_def arg_str_def py_get_def split: prod.splits)
  have "\<exists>db' g. claim_job (\<lambda>_. seconds 1) 9 ''p'' 60 db = (db', Some g)"
    by (simp add: claim_job_def exhausted_def lapsed_def next_job_def runnable_def j new_job_def seconds_def Let_def)
  then obtain db' g where "claim_job (\<lambda>_. seconds 1) 9 ''p'' 60 db = (db', Some g)" by blast
  then have "worked (Suc 0) db db'" using wk_none by (rule wk_claim)
  from generation_queue_drains [OF run this] have "Suc (budget (gd_jobs db')) = budget (gd_jobs db)" by simp
  moreover have "length (gd_jobs db) = 1" by (simp add: j)
  ultimately show ?thesis by blast
qed

end
