(* ===== verification/Registry_Versions.thy ===== *)
theory Registry_Versions
  imports Text_Codec
begin

text \<open>
  Semantic versions and version ranges of artifact policies (registry/policy.py): the
  grammar of a version, the order \<open>__lt__\<close> with what \<open>total_ordering\<close> derives from it, and
  the conditions of a range. Errors are the messages of the ValueErrors. Lemmas: on parsed
  versions the order is the precedence of Semantic Versioning, a linear order on keys.
\<close>

subsection \<open>Versions\<close>

record semver =
  sv_major :: nat
  sv_minor :: nat
  sv_patch :: nat
  sv_prerelease :: "string option"
  sv_build :: "string option"

definition release :: "nat \<Rightarrow> nat \<Rightarrow> nat \<Rightarrow> semver" where
  "release a b c = \<lparr>sv_major = a, sv_minor = b, sv_patch = c, sv_prerelease = None, sv_build = None\<rparr>"

definition digits_value :: "string \<Rightarrow> nat" where
  "digits_value s = fold (\<lambda>c n. 10 * n + (code c - 48)) s 0"

definition numeral_text :: "string \<Rightarrow> bool" where
  \<comment> \<open>\<open>0|[1-9]\d*\<close>\<close>
  "numeral_text s \<longleftrightarrow> s \<noteq> [] \<and> list_all digit s \<and> (hd s = CHR ''0'' \<longrightarrow> s = ''0'')"

definition take_number :: "string \<Rightarrow> (nat \<times> string) option" where
  "take_number s =
     (let n = takeWhile digit s
      in if numeral_text n then Some (digits_value n, drop (length n) s) else None)"

definition dot_number :: "string \<Rightarrow> nat \<times> string" where
  \<comment> \<open>\<open>(?:\.(0|[1-9]\d*))?\<close>, a missing group counting as 0\<close>
  "dot_number s =
     (case s of
        [] \<Rightarrow> (0, s)
      | c # r \<Rightarrow> if c = CHR ''.'' then (case take_number r of None \<Rightarrow> (0, s) | Some x \<Rightarrow> x) else (0, s))"

definition ident_char :: "char \<Rightarrow> bool" where
  "ident_char c \<longleftrightarrow> digit c \<or> upper_char c \<or> lower_char c \<or> c = CHR ''-''"

definition identifiers :: "string \<Rightarrow> bool" where
  \<comment> \<open>\<open>[0-9A-Za-z-]+(?:\.[0-9A-Za-z-]+)*\<close>\<close>
  "identifiers s \<longleftrightarrow> list_all (\<lambda>w. w \<noteq> [] \<and> list_all ident_char w) (split_on CHR ''.'' s)"

definition tagged :: "char \<Rightarrow> string \<Rightarrow> string option \<times> string" where
  \<comment> \<open>an optional group of identifiers behind its mark; only a build tag may follow it\<close>
  "tagged c s =
     (case s of
        [] \<Rightarrow> (None, s)
      | d # r \<Rightarrow>
          let t = takeWhile (\<lambda>x. x \<noteq> CHR ''+'') r
          in if d = c \<and> identifiers t then (Some t, drop (length t) r) else (None, s))"

definition leading_zero :: "string \<Rightarrow> bool" where
  "leading_zero w \<longleftrightarrow> list_all digit w \<and> 1 < length w \<and> hd w = CHR ''0''"

definition invalid_version :: "string \<Rightarrow> string" where
  "invalid_version v = ''invalid semantic version: '' @ v"

definition parse_version :: "string \<Rightarrow> string + semver" where
  "parse_version v =
     (case take_number (case v of [] \<Rightarrow> [] | c # r \<Rightarrow> if c = CHR ''v'' then r else v) of
        None \<Rightarrow> Inl (invalid_version v)
      | Some (major, s1) \<Rightarrow>
          let (minor, s2) = dot_number s1; (patch, s3) = dot_number s2;
              (pre, s4) = tagged CHR ''-'' s3; (build, s5) = tagged CHR ''+'' s4
          in checked
              [(s5 \<noteq> [], invalid_version v),
               (case pre of None \<Rightarrow> False | Some p \<Rightarrow> list_ex leading_zero (split_on CHR ''.'' p), invalid_version v)]
              \<lparr>sv_major = major, sv_minor = minor, sv_patch = patch, sv_prerelease = pre, sv_build = build\<rparr>)"

definition version_core :: "semver \<Rightarrow> nat \<times> nat \<times> nat" where
  "version_core v = (sv_major v, sv_minor v, sv_patch v)"

definition all_digits :: "string \<Rightarrow> bool" where
  "all_digits w \<longleftrightarrow> w \<noteq> [] \<and> list_all digit w"

fun prerelease_less :: "string list \<Rightarrow> string list \<Rightarrow> bool" where
  "prerelease_less (a # as) (b # bs) =
     (if a = b then prerelease_less as bs
      else if all_digits a \<and> all_digits b then digits_value a < digits_value b
      else if all_digits a \<noteq> all_digits b then all_digits a
      else a < b)"
| "prerelease_less as bs = (length as < length bs)"

definition version_less :: "semver \<Rightarrow> semver \<Rightarrow> bool" where
  "version_less v w =
     (if version_core v \<noteq> version_core w then version_core v < version_core w
      else case sv_prerelease v of
        None \<Rightarrow> False
      | Some p \<Rightarrow> (case sv_prerelease w of
            None \<Rightarrow> True
          | Some q \<Rightarrow> prerelease_less (split_on CHR ''.'' p) (split_on CHR ''.'' q)))"

definition version_eq :: "semver \<Rightarrow> semver \<Rightarrow> bool" where
  \<comment> \<open>the dataclass equality, without the build tag\<close>
  "version_eq v w \<longleftrightarrow> version_core v = version_core w \<and> sv_prerelease v = sv_prerelease w"

text \<open>What \<open>total_ordering\<close> defines from \<open>__lt__\<close> and \<open>__eq__\<close>.\<close>

definition version_le :: "semver \<Rightarrow> semver \<Rightarrow> bool" where
  "version_le v w \<longleftrightarrow> version_less v w \<or> version_eq v w"

definition version_gt :: "semver \<Rightarrow> semver \<Rightarrow> bool" where
  "version_gt v w \<longleftrightarrow> \<not> version_less v w \<and> \<not> version_eq v w"

definition version_ge :: "semver \<Rightarrow> semver \<Rightarrow> bool" where
  "version_ge v w \<longleftrightarrow> \<not> version_less v w"

subsection \<open>Ranges\<close>

definition OPERATORS :: "string list" where
  "OPERATORS = [''>='', ''<='', ''>'', ''<'', ''='', ''^'', ''~'']"

definition split_operator :: "string \<Rightarrow> (string \<times> string) option" where
  "split_operator s =
     map_option (\<lambda>op. (op, drop (length op) s))
       (find (\<lambda>op. starts_with op s \<and> length op < length s) OPERATORS)"

fun conditions_of :: "string \<Rightarrow> string list \<Rightarrow> string + (string \<times> semver \<times> string) list" where
  "conditions_of expression [] = Inr []"
| "conditions_of expression (w # ws) =
     (case split_operator w of
        None \<Rightarrow> Inl (''invalid version range: '' @ expression)
      | Some (op, raw) \<Rightarrow>
          and_then (parse_version raw) (\<lambda>v.
          and_then (conditions_of expression ws) (\<lambda>cs. Inr ((op, v, raw) # cs))))"

definition range_conditions :: "string \<Rightarrow> string + (string \<times> semver \<times> string) list" where
  "range_conditions expression =
     (if py_strip expression = [] then Inl ''version range must not be empty''
      else conditions_of expression (py_words expression))"

definition validate_version_range :: "string \<Rightarrow> string + unit" where
  "validate_version_range expression = and_then (range_conditions expression) (\<lambda>_. Inr ())"

definition caret_upper :: "semver \<Rightarrow> semver" where
  "caret_upper v =
     (if 0 < sv_major v then release (sv_major v + 1) 0 0
      else if 0 < sv_minor v then release 0 (sv_minor v + 1) 0
      else release 0 0 (sv_patch v + 1))"

definition tilde_upper :: "semver \<Rightarrow> string \<Rightarrow> semver" where
  "tilde_upper v raw =
     (let base = takeWhile (\<lambda>c. c \<noteq> CHR ''+'') (takeWhile (\<lambda>c. c \<noteq> CHR ''-'') raw)
      in if CHR ''.'' \<notin> set base then release (sv_major v + 1) 0 0
         else release (sv_major v) (sv_minor v + 1) 0)"

definition condition_holds :: "semver \<Rightarrow> string \<times> semver \<times> string \<Rightarrow> bool" where
  "condition_holds v c =
     (case c of (op, expected, raw) \<Rightarrow>
        if op = ''^'' then version_ge v expected \<and> version_less v (caret_upper expected)
        else if op = ''~'' then version_ge v expected \<and> version_less v (tilde_upper expected raw)
        else if op = ''>='' then version_ge v expected
        else if op = ''<='' then version_le v expected
        else if op = ''>'' then version_gt v expected
        else if op = ''<'' then version_less v expected
        else version_eq v expected)"

definition version_satisfies :: "string \<Rightarrow> string \<Rightarrow> string + bool" where
  "version_satisfies version expression =
     and_then (parse_version version) (\<lambda>v.
     and_then (range_conditions expression) (\<lambda>cs. Inr (list_all (condition_holds v) cs)))"

subsection \<open>The order is the precedence of Semantic Versioning\<close>

text \<open>
  Numeric identifiers come before alphanumeric ones and compare as numbers, a release comes
  after all its prereleases: the precedence of a version is its place in a linear order.
\<close>

datatype ident = Number nat | Word string

instantiation ident :: linorder
begin

fun less_ident :: "ident \<Rightarrow> ident \<Rightarrow> bool" where
  "less_ident (Number m) (Number n) = (m < n)"
| "less_ident (Number m) (Word b) = True"
| "less_ident (Word a) (Number n) = False"
| "less_ident (Word a) (Word b) = (a < b)"

definition less_eq_ident :: "ident \<Rightarrow> ident \<Rightarrow> bool" where
  "less_eq_ident a b \<longleftrightarrow> a < b \<or> a = b"

instance
proof
  fix a b c :: ident
  show "a < b \<longleftrightarrow> a \<le> b \<and> \<not> b \<le> a" by (cases a; cases b) (auto simp: less_eq_ident_def)
  show "a \<le> a" by (simp add: less_eq_ident_def)
  show "a \<le> c" if "a \<le> b" "b \<le> c" using that by (cases a; cases b; cases c) (auto simp: less_eq_ident_def)
  show "a = b" if "a \<le> b" "b \<le> a" using that by (cases a; cases b) (auto simp: less_eq_ident_def)
  show "a \<le> b \<or> b \<le> a" by (cases a; cases b) (auto simp: less_eq_ident_def)
qed

end

definition ident_of :: "string \<Rightarrow> ident" where
  "ident_of w = (if all_digits w then Number (digits_value w) else Word w)"

definition stage :: "string option \<Rightarrow> nat \<times> ident list" where
  "stage pre = (case pre of None \<Rightarrow> (1, []) | Some p \<Rightarrow> (0, map ident_of (split_on CHR ''.'' p)))"

definition precedence :: "semver \<Rightarrow> (nat \<times> nat \<times> nat) \<times> nat \<times> ident list" where
  "precedence v = (version_core v, stage (sv_prerelease v))"

lemma digits_value_snoc: "digits_value (s @ [c]) = 10 * digits_value s + (code c - 48)"
  by (simp add: digits_value_def)

lemma digits_value_lower:
  "s \<noteq> [] \<Longrightarrow> list_all digit s \<Longrightarrow> hd s \<noteq> CHR ''0'' \<Longrightarrow> 0 < digits_value s"
proof (induction s rule: rev_induct)
  case (snoc c s)
  show ?case
  proof (cases "s = []")
    case True
    have "code c \<noteq> code CHR ''0''" using snoc.prems True by (metis append_Nil char_of_code list.sel(1))
    then have "code c \<noteq> 48" by (simp add: code_def)
    then show ?thesis using True snoc.prems by (simp add: digits_value_def digit_def)
  next
    case False
    then have "0 < digits_value s" using snoc by (simp add: hd_append)
    then show ?thesis by (simp add: digits_value_snoc)
  qed
qed simp

lemma digits_value_inj:
  assumes "all_digits a" "all_digits b" "\<not> leading_zero a" "\<not> leading_zero b" "digits_value a = digits_value b"
  shows "a = b"
  using assms
proof (induction a arbitrary: b rule: rev_induct)
  case Nil
  then show ?case by (simp add: all_digits_def)
next
  case (snoc c a)
  obtain b' d where b: "b = b' @ [d]" using snoc.prems(2) by (cases b rule: rev_cases) (auto simp: all_digits_def)
  have dig: "list_all digit a" "digit c" "list_all digit b'" "digit d"
    using snoc.prems(1,2) b by (simp_all add: all_digits_def)
  then have small: "code c - 48 < 10" "code d - 48 < 10" unfolding digit_def by linarith+
  have eq: "10 * digits_value a + (code c - 48) = 10 * digits_value b' + (code d - 48)"
    using snoc.prems(5) b by (simp add: digits_value_snoc)
  have "(10 * m + i) div 10 = m" "(10 * m + i) mod 10 = i" if "i < 10" for m i :: nat using that by simp_all
  then have same: "digits_value a = digits_value b'" "code c - 48 = code d - 48" using small eq by metis+
  then have "code c = code d" using dig(2,4) unfolding digit_def by linarith
  then have cd: "c = d" by (metis char_of_code)
  have pos: "0 < digits_value x" if "x \<noteq> []" "list_all digit (x @ [y])" "\<not> leading_zero (x @ [y])" for x y
    using that digits_value_lower [of x] by (auto simp: leading_zero_def hd_append)
  have a_pos: "a \<noteq> [] \<Longrightarrow> 0 < digits_value a" using pos [of a c] snoc.prems(1,3) by (simp add: all_digits_def)
  have b_pos: "b' \<noteq> [] \<Longrightarrow> 0 < digits_value b'" using pos [of b' d] snoc.prems(2,4) b by (simp add: all_digits_def)
  have zero: "digits_value [] = 0" by (simp add: digits_value_def)
  show ?case
  proof (cases "a = [] \<or> b' = []")
    case True
    then show ?thesis using same(1) zero a_pos b_pos b cd by (cases "a = []"; cases "b' = []") auto
  next
    case False
    then have "a = b'"
      using snoc.IH [of b'] same(1) dig snoc.prems(3,4) b by (auto simp: all_digits_def leading_zero_def hd_append)
    then show ?thesis using b cd by simp
  qed
qed

definition plain :: "string \<Rightarrow> bool" where
  "plain w \<longleftrightarrow> w \<noteq> [] \<and> \<not> leading_zero w"

lemma ident_of_eq: "plain a \<Longrightarrow> plain b \<Longrightarrow> ident_of a = ident_of b \<longleftrightarrow> a = b"
  by (auto simp: ident_of_def plain_def intro: digits_value_inj)

lemma Nil_less_iff: "[] < (xs :: 'a :: order list) \<longleftrightarrow> xs \<noteq> []"
  by (cases xs) simp_all

lemma prerelease_less_iff:
  "list_all plain as \<Longrightarrow> list_all plain bs \<Longrightarrow> prerelease_less as bs \<longleftrightarrow> map ident_of as < map ident_of bs"
proof (induction as bs rule: prerelease_less.induct)
  case (1 a as b bs)
  then have ab: "ident_of a = ident_of b \<longleftrightarrow> a = b" by (simp add: ident_of_eq)
  show ?case
  proof (cases "a = b")
    case False
    have "ident_of a < ident_of b \<longleftrightarrow>
        (if all_digits a \<and> all_digits b then digits_value a < digits_value b
         else if all_digits a \<noteq> all_digits b then all_digits a else a < b)"
      by (auto simp: ident_of_def)
    then show ?thesis using False ab by simp
  qed (use 1 in simp)
qed (simp_all add: Nil_less_iff)

lemma map_ident_of_eq:
  "list_all plain as \<Longrightarrow> list_all plain bs \<Longrightarrow> map ident_of as = map ident_of bs \<longleftrightarrow> as = bs"
proof (induction as arbitrary: bs)
  case (Cons a as)
  then show ?case by (cases bs) (auto simp: ident_of_eq)
qed auto

definition well_formed :: "semver \<Rightarrow> bool" where
  "well_formed v \<longleftrightarrow> (\<forall>p. sv_prerelease v = Some p \<longrightarrow> list_all plain (split_on CHR ''.'' p))"

lemma well_formed_release [simp]: "well_formed (release a b c)"
  by (simp add: well_formed_def release_def)

lemma tagged_Some: "tagged c s = (Some p, t) \<Longrightarrow> identifiers p"
  by (auto simp: tagged_def Let_def split: list.splits if_splits)

lemma parse_version_well_formed:
  assumes "parse_version s = Inr v"
  shows "well_formed v"
proof -
  obtain major s1 minor s2 patch s3 pre s4 build s5 where
    steps: "dot_number s1 = (minor, s2)" "dot_number s2 = (patch, s3)" "tagged CHR ''-'' s3 = (pre, s4)"
      "tagged CHR ''+'' s4 = (build, s5)"
    and v: "sv_prerelease v = pre" "\<forall>p. pre = Some p \<longrightarrow> \<not> list_ex leading_zero (split_on CHR ''.'' p)"
    using assms by (auto simp: parse_version_def Let_def split: option.splits prod.splits)
  have "identifiers p" if "pre = Some p" for p using steps(3) that tagged_Some by blast
  then show ?thesis using v by (auto simp: well_formed_def identifiers_def plain_def list_all_iff list_ex_iff)
qed

lemma version_less_iff: "well_formed v \<Longrightarrow> well_formed w \<Longrightarrow> version_less v w \<longleftrightarrow> precedence v < precedence w"
  by (auto simp: version_less_def precedence_def stage_def well_formed_def prerelease_less_iff less_prod_def'
      split: option.splits)

lemma split_on_eq [simp]: "split_on d a = split_on d b \<longleftrightarrow> a = b"
  by (metis join_on_split)

lemma version_eq_iff: "well_formed v \<Longrightarrow> well_formed w \<Longrightarrow> version_eq v w \<longleftrightarrow> precedence v = precedence w"
  by (auto simp: version_eq_def precedence_def stage_def well_formed_def map_ident_of_eq split: option.splits)

lemmas version_order = version_less_iff version_eq_iff

end
