(* ===== verification/Registry_Archives.thy ===== *)
theory Registry_Archives
  imports Text_Codec
begin

text \<open>
  Verification of artifact archives (registry/verification.py): member names, the shape of
  the manifest, and the comparison of every member with its record, check by check. What
  \<open>tarfile\<close> reads from the bytes and what \<open>json.loads\<close> parses are parameters.
\<close>

subsection \<open>Parameters\<close>

text \<open>
  A member as \<open>tarfile\<close> yields it; its content is \<open>Inl\<close> the cause of an OSError or
  TarError, \<open>None\<close> where \<open>extractfile\<close> returns none, or the bytes that can be read. The
  iteration ends, or stops with such an error after the members it has yielded.
\<close>

record tar_member =
  tm_name :: string
  tm_isfile :: bool
  tm_size :: nat
  tm_mode :: nat
  tm_content :: "string + char list option"

record archive_reader =
  read_tar :: "char list \<Rightarrow> tar_member list \<times> string option"
  json_loads :: "char list \<Rightarrow> pyval option"

definition MAX_MANIFEST_BYTES :: int where "MAX_MANIFEST_BYTES = 4 * 1048576"

definition archive_fail :: "string \<Rightarrow> dict \<Rightarrow> mem_error" where
  "archive_fail msg details = memory_tool_error msg ''MEM-REGISTRY-0005'' details 400"

subsection \<open>Names and identifiers\<close>

definition posix_parts :: "string \<Rightarrow> string list" where
  \<comment> \<open>\<open>PurePosixPath(name).parts\<close> of a relative name\<close>
  "posix_parts name = filter (\<lambda>p. p \<noteq> [] \<and> p \<noteq> ''.'') (split_on CHR ''/'' name)"

definition as_posix :: "string \<Rightarrow> string" where
  "as_posix name = (if posix_parts name = [] then ''.'' else join_on CHR ''/'' (posix_parts name))"

definition safe_member_name :: "string \<Rightarrow> string outcome" where
  "safe_member_name name =
     checked
       [(name = [] \<or> CHR 0x5C \<in> set name \<or> starts_with ''/'' name \<or> ends_with ''/'' name,
           archive_fail ''archive member path is unsafe'' [(''path'', PStr name)]),
        (''..'' \<in> set (posix_parts name), archive_fail ''archive member path is unsafe'' [(''path'', PStr name)]),
        (1024 < length (as_posix name), archive_fail ''archive member path exceeds limit'' [(''path'', PStr name)])]
       (as_posix name)"

definition hex_lower :: "char \<Rightarrow> bool" where
  "hex_lower c \<longleftrightarrow> digit c \<or> 97 \<le> code c \<and> code c \<le> 102"

definition digest_text :: "string \<Rightarrow> bool" where
  \<comment> \<open>\<open>sha256:[0-9a-f]{64}\<close>\<close>
  "digest_text s \<longleftrightarrow> starts_with ''sha256:'' s \<and> length s = 71 \<and> list_all hex_lower (drop 7 s)"

definition id_text :: "string \<Rightarrow> bool" where
  \<comment> \<open>\<open>[a-z][a-z0-9]*(?:[._-][a-z0-9]+)*\<close>\<close>
  "id_text s \<longleftrightarrow> s \<noteq> [] \<and> lower_char (hd s)
     \<and> list_all (\<lambda>w. w \<noteq> [] \<and> list_all (\<lambda>c. lower_char c \<or> digit c) w)
         (split_on CHR ''.'' (map (\<lambda>c. if c = CHR ''_'' \<or> c = CHR ''-'' then CHR ''.'' else c) s))"

definition version_text :: "string \<Rightarrow> bool" where
  \<comment> \<open>\<open>[0-9]+(?:\.[0-9]+){0,2}(?:[-+][0-9A-Za-z.-]+)?\<close>\<close>
  "version_text s \<longleftrightarrow>
     (let n = takeWhile (\<lambda>c. c \<noteq> CHR ''-'' \<and> c \<noteq> CHR ''+'') s; rest = drop (length n) s
      in length (split_on CHR ''.'' n) \<le> 3
         \<and> list_all (\<lambda>w. w \<noteq> [] \<and> list_all digit w) (split_on CHR ''.'' n)
         \<and> (rest \<noteq> [] \<longrightarrow> tl rest \<noteq> []
              \<and> list_all (\<lambda>c. digit c \<or> upper_char c \<or> lower_char c \<or> c = CHR ''.'' \<or> c = CHR ''-'') (tl rest)))"

subsection \<open>The manifest\<close>

definition MANIFEST_REQUIRED :: "string list" where
  "MANIFEST_REQUIRED = [''schema_version'', ''kind'', ''id'', ''version'', ''protocol_major'', ''requires'',
     ''files'', ''content'', ''artifact_digest'', ''provenance'', ''created_at'']"

definition is_bool :: "pyval \<Rightarrow> bool" where
  "is_bool v = (case v of PBool _ \<Rightarrow> True | _ \<Rightarrow> False)"

definition str_with :: "(string \<Rightarrow> bool) \<Rightarrow> pyval \<Rightarrow> bool" where
  "str_with p v = (case v of PStr s \<Rightarrow> p s | _ \<Rightarrow> False)"

definition keys_are :: "string list \<Rightarrow> dict \<Rightarrow> bool" where
  "keys_are ks d \<longleftrightarrow> list_all (\<lambda>e. fst e \<in> set ks) d \<and> list_all (has_key d) ks"

definition manifest_head :: "dict \<Rightarrow> unit outcome" where
  "manifest_head m =
     checked
       [(\<not> list_all (has_key m) MANIFEST_REQUIRED, archive_fail ''artifact manifest is missing required fields''
           [(''missing'', strs (sort (filter (\<lambda>k. \<not> has_key m k) MANIFEST_REQUIRED)))]),
        (\<not> py_eq (py_get m ''schema_version'') (PInt 2), archive_fail ''unsupported artifact schema_version''
           [(''value'', py_get m ''schema_version'')]),
        (\<not> str_with (\<lambda>k. k \<in> {''foundation'', ''preset''}) (py_get m ''kind''),
           archive_fail ''unsupported artifact kind'' [(''value'', py_get m ''kind'')]),
        (\<not> str_with id_text (py_get m ''id''), archive_fail ''artifact id is invalid'' []),
        (\<not> str_with version_text (py_get m ''version''), archive_fail ''artifact version is invalid'' []),
        (\<not> is_int (py_get m ''protocol_major'') \<or> arg_int m ''protocol_major'' < 1,
           archive_fail ''artifact protocol_major is invalid'' []),
        (\<not> is_dict (py_get m ''requires'') \<or> \<not> is_str (py_get (arg_dict m ''requires'') ''core_protocol''),
           archive_fail ''artifact requires.core_protocol is invalid'' []),
        (\<not> is_dict (py_get m ''provenance''), archive_fail ''artifact provenance must be an object'' []),
        (\<not> str_with (ends_with ''Z'') (py_get m ''created_at''),
           archive_fail ''artifact created_at must be a UTC timestamp'' []),
        (\<not> str_with digest_text (py_get m ''artifact_digest''), archive_fail ''artifact_digest is invalid'' []),
        (\<not> is_dict (py_get m ''content'') \<or> \<not> keys_are [''path'', ''schema''] (arg_dict m ''content'')
           \<or> py_get (arg_dict m ''content'') ''schema'' \<noteq> PStr (''urn:isekai:schema:'' @ arg_str m ''kind'' @ ''-policy''),
           archive_fail ''artifact content descriptor is invalid'' []),
        ((case py_get m ''files'' of PList fs \<Rightarrow> \<not> (1 \<le> length fs \<and> length fs \<le> 10000) | _ \<Rightarrow> True),
           archive_fail ''artifact files must contain between 1 and 10000 records'' [])] ()"

definition FILE_KEYS :: "string list" where
  "FILE_KEYS = [''path'', ''digest'', ''size'', ''mode'', ''executable'']"

definition file_record :: "nat \<Rightarrow> string set \<Rightarrow> pyval \<Rightarrow> string outcome" where
  \<comment> \<open>one record of \<open>files\<close>: its normalized path\<close>
  "file_record index seen v =
     (let r = dict_of v; pos = [(''index'', PInt (int index))]
      in and_then (checked [(\<not> is_dict v \<or> \<not> keys_are FILE_KEYS r, archive_fail ''artifact file record is invalid'' pos)] ()) (\<lambda>_.
         and_then (case py_get r ''path'' of PStr s \<Rightarrow> safe_member_name s | _ \<Rightarrow> Inr []) (\<lambda>path.
         checked
           [(path = [] \<or> path = ''manifest.json'' \<or> path \<in> seen,
               archive_fail ''artifact file path is duplicate or reserved'' (pos @ [(''path'', PStr path)])),
            (\<not> str_with digest_text (py_get r ''digest''), archive_fail ''artifact file digest is invalid'' pos),
            (\<not> is_int (py_get r ''size'') \<or> \<not> (0 \<le> arg_int r ''size'' \<and> arg_int r ''size'' \<le> 1073741824),
               archive_fail ''artifact file size is invalid'' pos),
            (\<not> str_with (\<lambda>s. s \<in> {''data'', ''instruction'', ''executable''}) (py_get r ''mode''),
               archive_fail ''artifact file mode is invalid'' pos),
            (\<not> is_bool (py_get r ''executable'')
               \<or> (py_get r ''mode'' = PStr ''executable'') \<noteq> truthy (py_get r ''executable''),
               archive_fail ''artifact file executable flag is inconsistent'' pos)] path)))"

fun file_records :: "nat \<Rightarrow> string list \<Rightarrow> pyval list \<Rightarrow> string list outcome" where
  \<comment> \<open>the paths seen\<close>
  "file_records index seen [] = Inr seen"
| "file_records index seen (v # vs) =
     and_then (file_record index (set seen) v) (\<lambda>path. file_records (index + 1) (path # seen) vs)"

definition content_path :: "dict \<Rightarrow> string list \<Rightarrow> unit outcome" where
  \<comment> \<open>a list or an object as the path is not hashable\<close>
  "content_path m seen =
     (let v = py_get (arg_dict m ''content'') ''path''; bad = archive_fail ''artifact content path is not declared in files'' []
      in case v of
           PStr s \<Rightarrow> checked [(s \<notin> set seen, bad)] ()
         | PList _ \<Rightarrow> Inl (unhandled ''TypeError'')
         | PDict _ \<Rightarrow> Inl (unhandled ''TypeError'')
         | _ \<Rightarrow> Inl bad)"

definition validate_manifest_shape :: "dict \<Rightarrow> unit outcome" where
  "validate_manifest_shape m =
     and_then (manifest_head m) (\<lambda>_.
     and_then (file_records 0 [] (list_of (py_get m ''files''))) (\<lambda>seen. content_path m seen))"

subsection \<open>The archive\<close>

record member_facts =
  mf_size :: nat
  mf_digest :: string
  mf_executable :: bool

definition executable_mode :: "nat \<Rightarrow> bool" where
  "executable_mode mode \<longleftrightarrow> odd mode \<or> odd (mode div 8) \<or> odd (mode div 64)"

definition member_payload :: "string \<Rightarrow> tar_member \<Rightarrow> char list outcome" where
  \<comment> \<open>reading a member chunk by chunk up to its declared size, then one byte more\<close>
  "member_payload name m =
     (case tm_content m of
        Inl cause \<Rightarrow> Inl (archive_fail ''artifact archive cannot be parsed'' [(''cause'', PStr cause)])
      | Inr None \<Rightarrow> Inl (archive_fail ''archive member cannot be read'' [(''path'', PStr name)])
      | Inr (Some raw) \<Rightarrow> checked
          [(length raw < tm_size m, archive_fail ''archive member is truncated'' [(''path'', PStr name)]),
           (tm_size m < length raw, archive_fail ''archive member exceeds declared size'' [(''path'', PStr name)])] raw)"

record scan =
  observed :: "(string \<times> member_facts) list"
  manifest_payload :: "char list option"
  total_size :: nat

definition scan_member :: "platform \<Rightarrow> int \<Rightarrow> int \<Rightarrow> int \<Rightarrow> tar_member \<Rightarrow> scan \<Rightarrow> scan outcome" where
  "scan_member P max_members max_bytes index m st =
     and_then (checked [(max_members < index, archive_fail ''archive member count exceeds limit'' [])] ()) (\<lambda>_.
     and_then (safe_member_name (tm_name m)) (\<lambda>name.
     and_then (checked
       [(name \<in> fst ` set (observed st), archive_fail ''archive contains duplicate member'' [(''path'', PStr name)]),
        (\<not> tm_isfile m, archive_fail ''archive member is not a regular file'' [(''path'', PStr name)]),
        (max_bytes < int (total_size st + tm_size m), archive_fail ''archive uncompressed size exceeds limit'' []),
        (name = ''manifest.json'' \<and> MAX_MANIFEST_BYTES < int (tm_size m),
           archive_fail ''artifact manifest exceeds size limit'' [])] ()) (\<lambda>_.
     and_then (member_payload name m) (\<lambda>raw.
       Inr \<lparr>observed = observed st @ [(name, \<lparr>mf_size = tm_size m, mf_digest = raw_digest P raw,
                mf_executable = executable_mode (tm_mode m)\<rparr>)],
            manifest_payload = (if name = ''manifest.json'' then Some raw else manifest_payload st),
            total_size = total_size st + tm_size m\<rparr>))))"

fun scan_members :: "platform \<Rightarrow> int \<Rightarrow> int \<Rightarrow> int \<Rightarrow> tar_member list \<Rightarrow> string option \<Rightarrow> scan \<Rightarrow> scan outcome" where
  "scan_members P max_members max_bytes index [] failure st =
     (case failure of
        None \<Rightarrow> Inr st
      | Some cause \<Rightarrow> Inl (archive_fail ''artifact archive cannot be parsed'' [(''cause'', PStr cause)]))"
| "scan_members P max_members max_bytes index (m # ms) failure st =
     and_then (scan_member P max_members max_bytes index m st) (\<lambda>st'.
       scan_members P max_members max_bytes (index + 1) ms failure st')"

record verified_archive =
  va_manifest :: dict
  va_manifest_digest :: string
  va_artifact_digest :: string
  va_archive_digest :: string

definition record_path :: "pyval \<Rightarrow> string" where "record_path r = arg_str (dict_of r) ''path''"

definition member_names_match :: "dict \<Rightarrow> scan \<Rightarrow> unit outcome" where
  "member_names_match m st =
     (let expected = ''manifest.json'' # map record_path (list_of (py_get m ''files'')); names = map fst (observed st)
      in checked [(set names \<noteq> set expected, archive_fail ''archive members differ from manifest declarations''
           [(''missing'', strs (sort (remdups (filter (\<lambda>n. n \<notin> set names) expected)))),
            (''undeclared'', strs (sort (filter (\<lambda>n. n \<notin> set expected) names)))])] ())"

definition member_matches :: "scan \<Rightarrow> pyval \<Rightarrow> unit outcome" where
  "member_matches st v =
     (let r = dict_of v; path = record_path v; f = map_of (observed st) path
      in case f of
           None \<Rightarrow> Inl (unhandled ''KeyError'')
         | Some f \<Rightarrow> checked
             [(int (mf_size f) \<noteq> arg_int r ''size'' \<or> mf_digest f \<noteq> arg_str r ''digest'',
                 archive_fail ''artifact file size or digest mismatch'' [(''path'', PStr path)]),
              (mf_executable f \<noteq> truthy (py_get r ''executable''),
                 archive_fail ''artifact file executable mode mismatch'' [(''path'', PStr path)])] ())"

definition digest_material :: "dict \<Rightarrow> dict" where
  "digest_material m = dict_drop ''signatures'' (dict_drop ''artifact_digest'' m)"

definition payload_of :: "scan \<Rightarrow> char list outcome" where
  "payload_of st = (case manifest_payload st of
     None \<Rightarrow> Inl (archive_fail ''archive does not contain manifest.json'' []) | Some payload \<Rightarrow> Inr payload)"

definition parsed_manifest :: "archive_reader \<Rightarrow> char list \<Rightarrow> dict outcome" where
  "parsed_manifest A payload = (case json_loads A payload of
     None \<Rightarrow> Inl (archive_fail ''artifact manifest cannot be parsed'' [])
   | Some v \<Rightarrow> checked [(\<not> is_dict v, archive_fail ''artifact manifest must be an object'' [])] (dict_of v))"

definition verified :: "platform \<Rightarrow> char list \<Rightarrow> char list \<Rightarrow> dict \<Rightarrow> verified_archive" where
  "verified P raw payload m = \<lparr>va_manifest = m, va_manifest_digest = raw_digest P payload,
     va_artifact_digest = digest P (PDict (digest_material m)), va_archive_digest = raw_digest P raw\<rparr>"

definition verify_archive :: "platform \<Rightarrow> archive_reader \<Rightarrow> int \<Rightarrow> int \<Rightarrow> char list \<Rightarrow> verified_archive outcome" where
  "verify_archive P A max_members max_bytes raw =
     and_then (checked [(raw = [], archive_fail ''artifact archive is empty'' [])] ()) (\<lambda>_.
     and_then (scan_members P max_members max_bytes 1 (fst (read_tar A raw)) (snd (read_tar A raw))
         \<lparr>observed = [], manifest_payload = None, total_size = 0\<rparr>) (\<lambda>st.
     and_then (payload_of st) (\<lambda>payload.
     and_then (parsed_manifest A payload) (\<lambda>m.
     and_then (validate_manifest_shape m) (\<lambda>_.
     and_then (member_names_match m st) (\<lambda>_.
     and_then (collect (member_matches st) (list_of (py_get m ''files''))) (\<lambda>_.
     checked [(arg_str m ''artifact_digest'' \<noteq> digest P (PDict (digest_material m)),
         archive_fail ''manifest artifact_digest mismatch''
           [(''computed'', PStr (digest P (PDict (digest_material m))))])]
       (verified P raw payload m))))))))"

end
