(* ===== verification/Registry.thy ===== *)
theory Registry
  imports Registry_Versions Registry_Archives Settings
begin

text \<open>
  The artifact registry: shell patterns of projects and the resolution of organization
  policies (registry/policy.py), publication, resolution and download of artifacts
  (registry/catalog.py with the queries of store/queries.py), and the configured
  repositories (registry/repo.py).
\<close>

subsection \<open>Shell patterns\<close>

text \<open>
  \<open>fnmatch.fnmatchcase\<close> of the standard library. A set holds characters and ranges; ranges
  with reversed ends are dropped before a leading exclamation mark is read as a negation.
\<close>

datatype glob = G_star | G_one | G_set bool "(char \<times> char option) list" | G_char char

fun set_items :: "string \<Rightarrow> (char \<times> char option) list" where
  "set_items [] = []"
| "set_items [a] = [(a, None)]"
| "set_items [a, b] = [(a, None), (b, None)]"
| "set_items (a # d # b # r) =
     (if d = CHR ''-'' then (a, Some b) # set_items r else (a, None) # set_items (d # b # r))"

definition proper_item :: "char \<times> char option \<Rightarrow> bool" where
  "proper_item i = (case snd i of None \<Rightarrow> True | Some b \<Rightarrow> code (fst i) \<le> code b)"

definition glob_set :: "string \<Rightarrow> glob" where
  "glob_set stuff =
     (let items = filter proper_item
        (case stuff of [] \<Rightarrow> [] | c # r \<Rightarrow> if c = CHR ''!'' then (c, None) # set_items r else set_items stuff)
      in case items of
           [] \<Rightarrow> G_set False []
         | (c, to) # rest \<Rightarrow>
             if c = CHR ''!''
             then G_set True (case to of None \<Rightarrow> rest | Some b \<Rightarrow> (CHR ''-'', None) # (b, None) # rest)
             else G_set False items)"

definition closing :: "string \<Rightarrow> nat option" where
  \<comment> \<open>where the bracket that closes a set stands; one right after the opening is a member\<close>
  "closing s =
     (let k = (if starts_with ''!'' s then 1 else 0); k' = (if starts_with '']'' (drop k s) then k + 1 else k);
          j = k' + length (takeWhile (\<lambda>c. c \<noteq> CHR '']'') (drop k' s))
      in if j < length s then Some j else None)"

lemma closing_less: "closing s = Some j \<Longrightarrow> j < length s"
  by (auto simp: closing_def Let_def split: if_splits)

function glob_of :: "string \<Rightarrow> glob list" where
  "glob_of [] = []"
| "glob_of (c # r) =
     (if c = CHR ''*'' then G_star # glob_of r
      else if c = CHR ''?'' then G_one # glob_of r
      else if c = CHR ''['' then
        (case closing r of
           None \<Rightarrow> G_char c # glob_of r
         | Some j \<Rightarrow> glob_set (take j r) # glob_of (drop (j + 1) r))
      else G_char c # glob_of r)"
  by pat_completeness auto

termination
  by (relation "measure length") (auto dest: closing_less)

definition item_has :: "char \<Rightarrow> char \<times> char option \<Rightarrow> bool" where
  "item_has c i = (case snd i of None \<Rightarrow> c = fst i | Some b \<Rightarrow> code (fst i) \<le> code c \<and> code c \<le> code b)"

fun glob_admits :: "glob \<Rightarrow> char \<Rightarrow> bool" where
  "glob_admits (G_char d) c = (c = d)"
| "glob_admits (G_set negated items) c = (list_ex (item_has c) items \<noteq> negated)"
| "glob_admits _ c = True"

fun glob_match :: "glob list \<Rightarrow> string \<Rightarrow> bool" where
  "glob_match [] s = (s = [])"
| "glob_match (G_star # g) [] = glob_match g []"
| "glob_match (G_star # g) (c # s) = (glob_match g (c # s) \<or> glob_match (G_star # g) s)"
| "glob_match (p # g) [] = False"
| "glob_match (p # g) (c # s) = (glob_admits p c \<and> glob_match g s)"

definition match_project_pattern :: "string \<Rightarrow> string \<Rightarrow> bool" where
  "match_project_pattern project pattern = glob_match (glob_of pattern) project"

subsection \<open>Artifacts and policies\<close>

record artifact =
  ar_id :: uuid
  ar_artifact_id :: string
  ar_kind :: string
  ar_version :: string
  ar_manifest_digest :: string
  ar_artifact_digest :: string
  ar_archive_digest :: string
  ar_blob :: "char list option"
  ar_published_by :: string
  ar_published_at :: time
  ar_metadata :: dict

record artifact_policy =
  ap_id :: uuid
  ap_organization_id :: string
  ap_project_pattern :: string
  ap_kind :: string
  ap_artifact_id :: string
  ap_version_range :: string
  ap_required :: bool
  ap_priority :: int
  ap_created_at :: time
  ap_updated_at :: time

record registry =
  artifacts :: "artifact list"
  policies :: "artifact_policy list"

definition same_artifact :: "string \<Rightarrow> string \<Rightarrow> string \<Rightarrow> artifact \<Rightarrow> bool" where
  "same_artifact aid kind version r \<longleftrightarrow> ar_artifact_id r = aid \<and> ar_kind r = kind \<and> ar_version r = version"

definition artifact_row :: "string \<Rightarrow> string \<Rightarrow> string \<Rightarrow> registry \<Rightarrow> artifact option" where
  "artifact_row aid kind version db = fetchrow (same_artifact aid kind version) (artifacts db)"

definition insert_artifact :: "artifact \<Rightarrow> registry \<Rightarrow> registry \<times> artifact option" where
  \<comment> \<open>ON CONFLICT (artifact_id, kind, version) DO NOTHING\<close>
  "insert_artifact r db =
     (case artifact_row (ar_artifact_id r) (ar_kind r) (ar_version r) db of
        None \<Rightarrow> (db\<lparr>artifacts := insert_row r (artifacts db)\<rparr>, Some r)
      | Some _ \<Rightarrow> (db, None))"

definition list_artifact_versions :: "string \<times> string \<Rightarrow> registry \<Rightarrow> artifact list" where
  "list_artifact_versions key db = filter (\<lambda>r. (ar_artifact_id r, ar_kind r) = key) (artifacts db)"

definition get_policies_for_org :: "string \<Rightarrow> registry \<Rightarrow> artifact_policy list" where
  "get_policies_for_org organization db =
     sort_key (\<lambda>p. (- ap_priority p, - ap_updated_at p, ap_id p))
       (filter (\<lambda>p. ap_organization_id p = organization) (policies db))"

definition policy_conflicts :: "artifact_policy \<Rightarrow> artifact_policy \<Rightarrow> bool" where
  "policy_conflicts p q \<longleftrightarrow> ap_organization_id p = ap_organization_id q \<and> ap_project_pattern p = ap_project_pattern q
     \<and> ap_kind p = ap_kind q \<and> ap_artifact_id p = ap_artifact_id q"

definition put_artifact_policy :: "artifact_policy \<Rightarrow> registry \<Rightarrow> registry \<times> artifact_policy" where
  "put_artifact_policy p db =
     (case fetchrow (policy_conflicts p) (policies db) of
        None \<Rightarrow> (db\<lparr>policies := insert_row p (policies db)\<rparr>, p)
      | Some q \<Rightarrow>
          let q' = q\<lparr>ap_version_range := ap_version_range p, ap_required := ap_required p,
                ap_priority := ap_priority p, ap_updated_at := ap_updated_at p\<rparr>
          in (db\<lparr>policies := update_where (policy_conflicts p) (\<lambda>_. q') (policies db)\<rparr>, q'))"

definition delete_policy_row :: "uuid \<Rightarrow> string \<Rightarrow> registry \<Rightarrow> registry \<times> bool" where
  "delete_policy_row i organization db =
     (let hit = (\<lambda>p. ap_id p = i \<and> ap_organization_id p = organization)
      in (db\<lparr>policies := filter (\<lambda>p. \<not> hit p) (policies db)\<rparr>, length (filter hit (policies db)) = 1))"

subsection \<open>Resolution\<close>

text \<open>\<open>sorted(..., reverse=True)\<close>: stable, by the order the key's type defines.\<close>

fun insert_by :: "('a \<Rightarrow> 'a \<Rightarrow> bool) \<Rightarrow> 'a \<Rightarrow> 'a list \<Rightarrow> 'a list" where
  "insert_by lt x [] = [x]"
| "insert_by lt x (y # ys) = (if lt y x then y # insert_by lt x ys else x # y # ys)"

definition sorted_reverse :: "('a \<Rightarrow> 'a \<Rightarrow> bool) \<Rightarrow> 'a list \<Rightarrow> 'a list" where
  "sorted_reverse lt xs = rev (foldr (insert_by lt) (rev xs) [])"

fun parse_all :: "artifact list \<Rightarrow> string + (semver \<times> artifact) list" where
  "parse_all [] = Inr []"
| "parse_all (r # rs) = and_then (parse_version (ar_version r)) (\<lambda>v. and_then (parse_all rs) (\<lambda>vs. Inr ((v, r) # vs)))"

definition ranked_artifacts :: "artifact list \<Rightarrow> string + artifact list" where
  \<comment> \<open>the candidates, the highest version first\<close>
  "ranked_artifacts rs = and_then (parse_all rs) (\<lambda>vs. Inr (map snd (sorted_reverse (\<lambda>a b. version_less (fst a) (fst b)) vs)))"

fun first_satisfying :: "string \<Rightarrow> artifact list \<Rightarrow> string + artifact option" where
  "first_satisfying expression [] = Inr None"
| "first_satisfying expression (r # rs) =
     and_then (version_satisfies (ar_version r) expression) (\<lambda>ok.
       if ok then Inr (Some r) else first_satisfying expression rs)"

definition policy_broken :: "artifact_policy \<Rightarrow> string \<Rightarrow> mem_error" where
  "policy_broken p cause = memory_tool_error ''artifact policy contains an invalid semantic version or range''
     ''MEM-POLICY-0002'' [(''policy_id'', PStr (uuid_str (ap_id p))), (''cause'', PStr cause)] 400"

definition select_artifact :: "artifact_policy \<Rightarrow> artifact list \<Rightarrow> artifact option outcome" where
  "select_artifact p available =
     (case and_then (validate_version_range (ap_version_range p)) (\<lambda>_. ranked_artifacts available) of
        Inl cause \<Rightarrow> Inl (policy_broken p cause)
      | Inr candidates \<Rightarrow>
          (case first_satisfying (ap_version_range p) candidates of
             Inl cause \<Rightarrow> Inl (unhandled ''ValueError'')
           | Inr selected \<Rightarrow> Inr selected))"

definition policy_key :: "artifact_policy \<Rightarrow> string \<times> string" where
  "policy_key p = (ap_artifact_id p, ap_kind p)"

fun resolve_policies ::
    "string \<Rightarrow> (string \<times> string \<Rightarrow> artifact list) \<Rightarrow> (string \<times> string) list \<Rightarrow> artifact_policy list \<Rightarrow> artifact list outcome" where
  \<comment> \<open>the keys already decided are the second last argument\<close>
  "resolve_policies project available seen [] = Inr []"
| "resolve_policies project available seen (p # ps) =
     (if \<not> match_project_pattern project (ap_project_pattern p) \<or> policy_key p \<in> set seen
      then resolve_policies project available seen ps
      else if \<not> ap_required p then resolve_policies project available (policy_key p # seen) ps
      else and_then (select_artifact p (available (policy_key p))) (\<lambda>selected.
           and_then (resolve_policies project available (policy_key p # seen) ps) (\<lambda>rest.
             Inr (case selected of None \<Rightarrow> rest | Some r \<Rightarrow> r # rest))))"

definition resolved_dict :: "artifact \<Rightarrow> dict" where
  "resolved_dict r = [(''artifact_id'', PStr (ar_artifact_id r)), (''kind'', PStr (ar_kind r)),
     (''version'', PStr (ar_version r)), (''manifest_digest'', PStr (ar_manifest_digest r)),
     (''artifact_digest'', PStr (ar_artifact_digest r)), (''archive_digest'', PStr (ar_archive_digest r))]"

definition resolved_rows :: "dict \<Rightarrow> registry \<Rightarrow> artifact list outcome" where
  "resolved_rows a db = resolve_policies (arg_str a ''project_id'') (\<lambda>key. list_artifact_versions key db) []
     (get_policies_for_org (arg_str a ''organization_id'') db)"

definition resolve_artifacts :: "dict \<Rightarrow> registry \<Rightarrow> dict list outcome" where
  "resolve_artifacts a db = and_then (resolved_rows a db) (\<lambda>rows. Inr (map resolved_dict rows))"

definition upsert_artifact_policy :: "uuid \<Rightarrow> time \<Rightarrow> dict \<Rightarrow> registry \<Rightarrow> (registry \<times> artifact_policy) outcome" where
  \<comment> \<open>the stored row; its dict form is the answer\<close>
  "upsert_artifact_policy new_id now a db =
     (case validate_version_range (arg_str a ''version_range'') of
        Inl cause \<Rightarrow> Inl (memory_tool_error ''invalid artifact policy version_range'' ''MEM-POLICY-0002''
          [(''cause'', PStr cause)] 400)
      | Inr _ \<Rightarrow> Inr (put_artifact_policy
          \<lparr>ap_id = new_id, ap_organization_id = arg_str a ''organization_id'',
           ap_project_pattern = arg_str a ''project_pattern'', ap_kind = arg_str a ''kind'',
           ap_artifact_id = arg_str a ''artifact_id'', ap_version_range = arg_str a ''version_range'',
           ap_required = truthy (get_or a ''required'' (PBool True)),
           ap_priority = int_of (get_or a ''priority'' (PInt 0)), ap_created_at = now, ap_updated_at = now\<rparr> db))"

definition delete_artifact_policy :: "dict \<Rightarrow> registry \<Rightarrow> (registry \<times> dict) outcome" where
  "delete_artifact_policy a db =
     (let (db', deleted) = delete_policy_row (uuid_of (arg_str a ''policy_id'')) (arg_str a ''organization_id'') db
      in if \<not> deleted
         then Inl (memory_tool_error ''artifact policy not found'' ''MEM-POLICY-0001''
           [(''policy_id'', py_get a ''policy_id'')] 400)
         else Inr (db', [(''policy_id'', py_get a ''policy_id''), (''deleted'', PBool True)]))"

end
