(* ===== verification/Registry_Props.thy ===== *)
theory Registry_Props
  imports Registry_Catalog Fencing
begin

text \<open>
  Correctness of the registry. Resolution refines its specification: the first matching
  policy decides an artifact, and the admitted version of the highest precedence is
  delivered. Publication stores what it verified, under an identity nobody can change.
\<close>

subsection \<open>Sorting by a key\<close>

definition agrees :: "('a \<Rightarrow> 'a \<Rightarrow> bool) \<Rightarrow> ('a \<Rightarrow> 'k :: linorder) \<Rightarrow> 'a set \<Rightarrow> bool" where
  "agrees lt f A \<longleftrightarrow> (\<forall>x \<in> A. \<forall>y \<in> A. lt x y \<longleftrightarrow> f x < f y)"

lemma agreesD: "agrees lt f A \<Longrightarrow> x \<in> A \<Longrightarrow> y \<in> A \<Longrightarrow> lt x y \<longleftrightarrow> f x < f y"
  by (simp add: agrees_def)

lemma agrees_subset: "agrees lt f A \<Longrightarrow> B \<subseteq> A \<Longrightarrow> agrees lt f B"
  by (auto simp: agrees_def)

lemma set_insert_by [simp]: "set (insert_by lt x ys) = insert x (set ys)"
  by (induction ys) auto

lemma sorted_insert_by:
  "agrees lt f (insert x (set ys)) \<Longrightarrow> sorted (map f ys) \<Longrightarrow> sorted (map f (insert_by lt x ys))"
proof (induction ys)
  case (Cons y ys)
  have ys: "agrees lt f (insert x (set ys))" using Cons.prems(1) by (rule agrees_subset) auto
  have "lt y x \<longleftrightarrow> f y < f x" using Cons.prems(1) by (rule agreesD) auto
  then show ?case using Cons.IH [OF ys] Cons.prems(2) by auto
qed simp

lemma sort_by:
  "agrees lt f (set xs) \<Longrightarrow> set (foldr (insert_by lt) xs []) = set xs \<and> sorted (map f (foldr (insert_by lt) xs []))"
proof (induction xs)
  case (Cons x xs)
  have "agrees lt f (set xs)" using Cons.prems by (rule agrees_subset) auto
  then show ?case using Cons.IH Cons.prems sorted_insert_by [of lt f x] by auto
qed simp

lemma sorted_reverse_by:
  assumes "agrees lt f (set xs)"
  shows "set (sorted_reverse lt xs) = set xs" and "sorted_wrt (\<lambda>a b. f b \<le> f a) (sorted_reverse lt xs)"
  using sort_by [of lt f "rev xs"] assms
  by (simp_all add: sorted_reverse_def sorted_wrt_rev sorted_wrt_map)

subsection \<open>The candidates of a policy\<close>

definition rank_of :: "artifact \<Rightarrow> (nat \<times> nat \<times> nat) \<times> nat \<times> ident list" where
  "rank_of r = (case parse_version (ar_version r) of Inl _ \<Rightarrow> ((0, 0, 0), 0, []) | Inr v \<Rightarrow> precedence v)"

definition admitted :: "artifact_policy \<Rightarrow> artifact \<Rightarrow> bool" where
  "admitted p r \<longleftrightarrow> version_satisfies (ar_version r) (ap_version_range p) = Inr True"

lemma parse_all_Inr:
  "parse_all rs = Inr vs \<Longrightarrow> map snd vs = rs \<and> (\<forall>(v, r) \<in> set vs. parse_version (ar_version r) = Inr v)"
  by (induction rs arbitrary: vs) (auto elim!: and_then_InrE)

lemma ranked_Inr:
  assumes "ranked_artifacts rs = Inr cs"
  shows "set cs = set rs" and "sorted_wrt (\<lambda>a b. rank_of b \<le> rank_of a) cs"
proof -
  let ?lt = "\<lambda>a b :: semver \<times> artifact. version_less (fst a) (fst b)" and ?f = "\<lambda>a :: semver \<times> artifact. rank_of (snd a)"
  obtain vs where vs: "parse_all rs = Inr vs" and cs: "cs = map snd (sorted_reverse ?lt vs)"
    using assms by (auto simp: ranked_artifacts_def elim: and_then_InrE)
  have p: "\<And>v r. (v, r) \<in> set vs \<Longrightarrow> parse_version (ar_version r) = Inr v" and rs: "map snd vs = rs"
    using parse_all_Inr [OF vs] by auto
  have "rank_of r = precedence v" "well_formed v" if "(v, r) \<in> set vs" for v r
    using p [OF that] parse_version_well_formed by (auto simp: rank_of_def)
  then have a: "agrees ?lt ?f (set vs)" by (auto simp: agrees_def version_less_iff)
  show "set cs = set rs" using sorted_reverse_by(1) [OF a] by (simp add: cs rs [symmetric])
  show "sorted_wrt (\<lambda>a b. rank_of b \<le> rank_of a) cs"
    using sorted_reverse_by(2) [OF a] by (simp add: cs sorted_wrt_map)
qed

lemma first_satisfying_Some:
  "first_satisfying e rs = Inr (Some r) \<Longrightarrow>
     \<exists>before after. rs = before @ r # after \<and> version_satisfies (ar_version r) e = Inr True
       \<and> (\<forall>q \<in> set before. version_satisfies (ar_version q) e = Inr False)"
proof (induction rs)
  case (Cons x rs)
  obtain ok where ok: "version_satisfies (ar_version x) e = Inr ok"
      "(if ok then Inr (Some x) else first_satisfying e rs) = Inr (Some r)"
    using Cons.prems by (auto elim: and_then_InrE)
  show ?case
  proof (cases ok)
    case True
    then show ?thesis using ok by (intro exI [of _ "[]"] exI [of _ rs]) auto
  next
    case False
    then obtain before after where "rs = before @ r # after" "version_satisfies (ar_version r) e = Inr True"
        "\<forall>q \<in> set before. version_satisfies (ar_version q) e = Inr False"
      using Cons.IH ok(2) by auto
    then show ?thesis using ok(1) False by (intro exI [of _ "x # before"] exI [of _ after]) auto
  qed
qed simp

lemma first_satisfying_None:
  "first_satisfying e rs = Inr None \<Longrightarrow> q \<in> set rs \<Longrightarrow> version_satisfies (ar_version q) e = Inr False"
  by (induction rs) (auto elim!: and_then_InrE split: if_splits)

lemma select_artifact_Inr:
  assumes "select_artifact p rs = Inr sel"
  shows "case sel of
      None \<Rightarrow> \<forall>q \<in> set rs. \<not> admitted p q
    | Some r \<Rightarrow> r \<in> set rs \<and> admitted p r \<and> (\<forall>q \<in> set rs. admitted p q \<longrightarrow> rank_of q \<le> rank_of r)"
proof -
  obtain cs where cs: "ranked_artifacts rs = Inr cs" "first_satisfying (ap_version_range p) cs = Inr sel"
    using assms by (auto simp: select_artifact_def and_then_Inr_iff split: sum.splits)
  show ?thesis
  proof (cases sel)
    case None
    then show ?thesis using first_satisfying_None [of _ cs] cs ranked_Inr(1) [OF cs(1)] by (auto simp: admitted_def)
  next
    case (Some r)
    then obtain before after where s: "cs = before @ r # after" "admitted p r"
        "\<forall>q \<in> set before. \<not> admitted p q"
      using first_satisfying_Some [of "ap_version_range p" cs r] cs(2) by (auto simp: admitted_def)
    then have "rank_of q \<le> rank_of r" if "q \<in> set cs" "admitted p q" for q
      using ranked_Inr(2) [OF cs(1)] that by (auto simp: sorted_wrt_append)
    then show ?thesis using Some s ranked_Inr(1) [OF cs(1)] by auto
  qed
qed

subsection \<open>Resolution\<close>

definition applies :: "string \<Rightarrow> string \<times> string \<Rightarrow> artifact_policy \<Rightarrow> bool" where
  "applies project key p \<longleftrightarrow> match_project_pattern project (ap_project_pattern p) \<and> policy_key p = key"

definition artifact_key :: "artifact \<Rightarrow> string \<times> string" where
  "artifact_key r = (ar_artifact_id r, ar_kind r)"

text \<open>The specification: the first policy that applies to a key decides it.\<close>

definition decides :: "string \<Rightarrow> string \<times> string \<Rightarrow> artifact_policy list \<Rightarrow> artifact_policy option" where
  "decides project key ps = find (applies project key) ps"

definition delivered :: "string \<Rightarrow> (string \<times> string \<Rightarrow> artifact list) \<Rightarrow> artifact_policy list \<Rightarrow> artifact \<Rightarrow> bool" where
  "delivered project available ps r \<longleftrightarrow>
     (\<exists>p. decides project (artifact_key r) ps = Some p \<and> ap_required p
        \<and> select_artifact p (available (artifact_key r)) = Inr (Some r))"

definition resolved ::
    "string \<Rightarrow> (string \<times> string \<Rightarrow> artifact list) \<Rightarrow> (string \<times> string) list \<Rightarrow> artifact_policy list \<Rightarrow> artifact list \<Rightarrow> bool" where
  "resolved project available seen ps rows \<longleftrightarrow>
     (\<forall>r. r \<in> set rows \<longleftrightarrow> artifact_key r \<notin> set seen \<and> delivered project available ps r)
     \<and> distinct (map artifact_key rows)
     \<and> (\<forall>key p. decides project key ps = Some p \<longrightarrow> key \<notin> set seen \<longrightarrow> ap_required p
          \<longrightarrow> is_ok (select_artifact p (available key)))"

lemma decides_Cons:
  "decides project key (p # ps) = (if applies project key p then Some p else decides project key ps)"
  by (simp add: decides_def)

lemma delivered_same:
  "decides project (artifact_key r) ps = decides project (artifact_key r) qs \<Longrightarrow>
     delivered project available ps r \<longleftrightarrow> delivered project available qs r"
  by (simp add: delivered_def)

lemma resolve_policies_resolved:
  assumes "resolve_policies project available seen ps = Inr rows"
    and keys: "\<And>key r. r \<in> set (available key) \<Longrightarrow> artifact_key r = key"
  shows "resolved project available seen ps rows"
  using assms(1)
proof (induction ps arbitrary: seen rows)
  case Nil
  then show ?case by (simp add: resolved_def delivered_def decides_def)
next
  case (Cons p ps)
  let ?k = "policy_key p" and ?m = "match_project_pattern project (ap_project_pattern p)"
  have other: "decides project key (p # ps) = decides project key ps" if "key \<noteq> ?k \<or> \<not> ?m" for key
    using that by (auto simp: decides_Cons applies_def)
  consider (passed) "\<not> ?m \<or> ?k \<in> set seen" | (optional) "?m" "?k \<notin> set seen" "\<not> ap_required p"
    | (needed) "?m" "?k \<notin> set seen" "ap_required p"
    by blast
  then show ?case
  proof cases
    case passed
    then have same: "decides project key (p # ps) = decides project key ps" if "key \<notin> set seen" for key
      using that other by metis
    have "resolved project available seen ps rows" using Cons passed by (metis resolve_policies.simps(2))
    then show ?thesis using same delivered_same unfolding resolved_def by metis
  next
    case optional
    then have ih: "resolved project available (?k # seen) ps rows" using Cons by simp
    have here: "decides project ?k (p # ps) = Some p" using optional by (simp add: decides_Cons applies_def)
    then have "\<not> delivered project available (p # ps) r" if "artifact_key r = ?k" for r
      using that optional(3) by (simp add: delivered_def)
    then show ?thesis using ih here other delivered_same optional(3) unfolding resolved_def set_simps insert_iff
      by (metis option.inject)
  next
    case needed
    obtain sel rest where sel: "select_artifact p (available ?k) = Inr sel"
      and rec: "resolve_policies project available (?k # seen) ps = Inr rest"
      and rows: "rows = (case sel of None \<Rightarrow> rest | Some r \<Rightarrow> r # rest)"
      using Cons.prems needed by (auto elim!: and_then_InrE)
    have ih: "resolved project available (?k # seen) ps rest" using rec by (rule Cons.IH)
    have here: "decides project ?k (p # ps) = Some p" using needed by (simp add: decides_Cons applies_def)
    have rk: "artifact_key r = ?k" if "sel = Some r" for r
      using select_artifact_Inr [OF sel] that keys by simp
    have d: "delivered project available (p # ps) r \<longleftrightarrow>
        (if artifact_key r = ?k then sel = Some r else delivered project available ps r)" for r
      using here other sel needed(3) by (simp add: delivered_def)
    have mem: "r \<in> set rows \<longleftrightarrow> sel = Some r \<or> r \<in> set rest" for r by (auto simp: rows split: option.splits)
    have "r \<in> set rows \<longleftrightarrow> artifact_key r \<notin> set seen \<and> delivered project available (p # ps) r" for r
      using ih rk needed(2) unfolding mem d resolved_def set_simps insert_iff by metis
    moreover have "distinct (map artifact_key rows)"
      using ih rk by (auto simp: rows resolved_def split: option.splits)
    moreover have "is_ok (select_artifact q (available key))"
      if "decides project key (p # ps) = Some q" "key \<notin> set seen" "ap_required q" for key q
    proof (cases "key = ?k")
      case False
      then show ?thesis using that ih other [of key] unfolding resolved_def set_simps insert_iff by metis
    qed (use that here sel in simp)
    ultimately show ?thesis unfolding resolved_def by blast
  qed
qed

lemma decides_Some:
  assumes "decides project key (get_policies_for_org organization db) = Some p"
  shows "p \<in> set (policies db)" "ap_organization_id p = organization" "applies project key p"
    and "\<And>q. q \<in> set (policies db) \<Longrightarrow> ap_organization_id q = organization \<Longrightarrow> applies project key q
      \<Longrightarrow> ap_priority q \<le> ap_priority p"
proof -
  let ?f = "\<lambda>p. (- ap_priority p, - ap_updated_at p, ap_id p)" and ?ps = "get_policies_for_org organization db"
  obtain i where i: "i < length ?ps" "?ps ! i = p" "applies project key p" "\<forall>j < i. \<not> applies project key (?ps ! j)"
    using assms by (auto simp: decides_def find_Some_iff)
  have mem: "q \<in> set ?ps \<longleftrightarrow> q \<in> set (policies db) \<and> ap_organization_id q = organization" for q
    by (auto simp: get_policies_for_org_def)
  show "p \<in> set (policies db)" "ap_organization_id p = organization" using i(1,2) mem nth_mem by metis+
  show "applies project key p" by (rule i(3))
  fix q assume q: "q \<in> set (policies db)" "ap_organization_id q = organization" "applies project key q"
  then obtain j where j: "j < length ?ps" "?ps ! j = q" using mem by (metis in_set_conv_nth)
  then have "i \<le> j" using i(4) q(3) by (metis leI)
  then have "map ?f ?ps ! i \<le> map ?f ?ps ! j"
    using j(1) by (intro sorted_nth_mono) (simp_all add: get_policies_for_org_def)
  then show "ap_priority q \<le> ap_priority p" using i(1,2) j by (auto simp: less_eq_prod_def)
qed

text \<open>
  C35. Resolution refines its specification. Every delivered artifact belongs to a required
  policy of the organization that matches the project and that no matching policy for the
  same artifact outranks; it satisfies the version range, and no stored version that does
  has a higher precedence. Where such a version exists for the deciding policy, one is
  delivered, and no artifact is delivered twice.
\<close>

theorem registry_resolves_best:
  assumes "resolved_rows a db = Inr rows"
  shows "distinct (map artifact_key rows)
    \<and> (\<forall>r \<in> set rows. \<exists>p \<in> set (policies db).
         ap_organization_id p = arg_str a ''organization_id'' \<and> ap_required p
         \<and> applies (arg_str a ''project_id'') (artifact_key r) p
         \<and> (\<forall>q \<in> set (policies db). ap_organization_id q = ap_organization_id p
              \<and> applies (arg_str a ''project_id'') (artifact_key r) q \<longrightarrow> ap_priority q \<le> ap_priority p)
         \<and> r \<in> set (artifacts db) \<and> admitted p r
         \<and> (\<forall>r' \<in> set (artifacts db). artifact_key r' = artifact_key r \<and> admitted p r' \<longrightarrow> rank_of r' \<le> rank_of r))
    \<and> (\<forall>r p. decides (arg_str a ''project_id'') (artifact_key r) (get_policies_for_org (arg_str a ''organization_id'') db) = Some p
         \<and> ap_required p \<and> r \<in> set (artifacts db) \<and> admitted p r
         \<longrightarrow> (\<exists>r' \<in> set rows. artifact_key r' = artifact_key r \<and> rank_of r \<le> rank_of r'))"
proof -
  let ?available = "\<lambda>key. list_artifact_versions key db" and ?project = "arg_str a ''project_id''"
    and ?ps = "get_policies_for_org (arg_str a ''organization_id'') db"
  have mem: "r \<in> set (?available key) \<longleftrightarrow> r \<in> set (artifacts db) \<and> artifact_key r = key" for r key
    by (auto simp: list_artifact_versions_def artifact_key_def)
  have "resolved ?project ?available [] ?ps rows"
    using assms mem unfolding resolved_rows_def by (intro resolve_policies_resolved) blast+
  then have spec: "\<And>r. r \<in> set rows \<longleftrightarrow> delivered ?project ?available ?ps r" "distinct (map artifact_key rows)"
      "\<And>key p. decides ?project key ?ps = Some p \<Longrightarrow> ap_required p \<Longrightarrow> is_ok (select_artifact p (?available key))"
    by (simp_all add: resolved_def del: split_paired_All)
  have best: "\<exists>p \<in> set (policies db). ap_organization_id p = arg_str a ''organization_id'' \<and> ap_required p
      \<and> applies ?project (artifact_key r) p
      \<and> (\<forall>q \<in> set (policies db). ap_organization_id q = ap_organization_id p \<and> applies ?project (artifact_key r) q
           \<longrightarrow> ap_priority q \<le> ap_priority p)
      \<and> r \<in> set (artifacts db) \<and> admitted p r
      \<and> (\<forall>r' \<in> set (artifacts db). artifact_key r' = artifact_key r \<and> admitted p r' \<longrightarrow> rank_of r' \<le> rank_of r)"
    if r: "r \<in> set rows" for r
  proof -
    obtain p where p: "decides ?project (artifact_key r) ?ps = Some p" "ap_required p"
        "select_artifact p (?available (artifact_key r)) = Inr (Some r)"
      using r spec(1) by (auto simp: delivered_def)
    show ?thesis using decides_Some [OF p(1)] p(2) select_artifact_Inr [OF p(3)] by (auto simp: mem intro!: bexI [of _ p])
  qed
  have all: "\<exists>r' \<in> set rows. artifact_key r' = artifact_key r \<and> rank_of r \<le> rank_of r'"
    if p: "decides ?project (artifact_key r) ?ps = Some p" "ap_required p" and r: "r \<in> set (artifacts db)" "admitted p r" for r p
  proof -
    obtain sel where sel: "select_artifact p (?available (artifact_key r)) = Inr sel"
      using spec(3) [OF p] by (auto simp: is_ok_iff)
    then obtain r' where r': "sel = Some r'" using select_artifact_Inr [OF sel] r mem by (cases sel) auto
    then have "artifact_key r' = artifact_key r" "rank_of r \<le> rank_of r'"
      using select_artifact_Inr [OF sel] r mem by auto
    moreover have "r' \<in> set rows" using spec(1) p sel r' calculation(1) by (auto simp: delivered_def)
    ultimately show ?thesis by blast
  qed
  show ?thesis using best all spec(2) by blast
qed

definition demo_artifact :: "uuid \<Rightarrow> string \<Rightarrow> artifact" where
  "demo_artifact i version = \<lparr>ar_id = i, ar_artifact_id = ''base'', ar_kind = ''preset'', ar_version = version,
     ar_manifest_digest = ''m'', ar_artifact_digest = ''a'', ar_archive_digest = ''r'', ar_blob = None,
     ar_published_by = ''ann'', ar_published_at = 0, ar_metadata = []\<rparr>"

definition demo_artifact_policy :: artifact_policy where
  "demo_artifact_policy = \<lparr>ap_id = 7, ap_organization_id = ''org'', ap_project_pattern = ''web-[a-c]*'', ap_kind = ''preset'',
     ap_artifact_id = ''base'', ap_version_range = ''^1.2 <1.10.0'', ap_required = True, ap_priority = 1,
     ap_created_at = 0, ap_updated_at = 0\<rparr>"

definition demo_registry :: registry where
  "demo_registry = \<lparr>artifacts = [demo_artifact 1 ''1.2.0'', demo_artifact 2 ''1.10.0-rc.1'', demo_artifact 3 ''1.9.3''],
     policies = [demo_artifact_policy]\<rparr>"

definition demo_resolve :: dict where
  "demo_resolve = [(''organization_id'', PStr ''org''), (''project_id'', PStr ''web-backend'')]"

lemma demo_resolved: "resolved_rows demo_resolve demo_registry = Inr [demo_artifact 2 ''1.10.0-rc.1'']"
  by code_simp

theorem registry_resolves_best_witness:
  "\<exists>p \<in> set (policies demo_registry). admitted p (demo_artifact 2 ''1.10.0-rc.1'')
    \<and> applies ''web-backend'' (artifact_key (demo_artifact 2 ''1.10.0-rc.1'')) p"
proof -
  have "arg_str demo_resolve ''project_id'' = ''web-backend''" by code_simp
  then show ?thesis using registry_resolves_best [OF demo_resolved] by auto
qed

text \<open>
  Publication and resolution disagree on versions: a manifest may name a version that no
  range can be resolved over, and one such artifact breaks the resolution of its key.
\<close>

lemma published_version_breaks_resolution:
  "version_text ''01'' \<and> (\<forall>p rs. \<not> is_ok (select_artifact p (rs @ demo_artifact i ''01'' # rs')))"
proof -
  have "\<not> is_ok (parse_version ''01'')" and published: "version_text ''01''" by code_simp+
  then have bad: "\<exists>e. parse_version ''01'' = Inl e" by (cases "parse_version ''01''") auto
  have "\<not> is_ok (parse_all (rs @ demo_artifact i ''01'' # rs'))" for rs
  proof (induction rs)
    case Nil
    then show ?case using bad by (auto simp: demo_artifact_def)
  next
    case (Cons r rs)
    then show ?case by (cases "parse_version (ar_version r)") (auto simp: is_ok_iff and_then_Inr_iff)
  qed
  then have "\<not> is_ok (ranked_artifacts (rs @ demo_artifact i ''01'' # rs'))" for rs by (auto simp: ranked_artifacts_def is_ok_iff and_then_Inr_iff)
  then show ?thesis using published by (auto simp: select_artifact_def is_ok_iff and_then_Inr_iff split: sum.splits)
qed

subsection \<open>Publication\<close>

inductive reg_step :: "platform \<Rightarrow> archive_reader \<Rightarrow> settings \<Rightarrow> time \<Rightarrow> registry \<Rightarrow> registry \<Rightarrow> bool" for P A s where
  step_publish: "publish_artifact P A s i now publisher a db = Inr (db', answer) \<Longrightarrow> reg_step P A s now db db'"
| step_policy: "upsert_artifact_policy i now a db = Inr (db', p) \<Longrightarrow> reg_step P A s now db db'"
| step_unpolicy: "delete_artifact_policy a db = Inr (db', answer) \<Longrightarrow> reg_step P A s now db db'"

definition blob_ok :: "platform \<Rightarrow> artifact \<Rightarrow> bool" where
  "blob_ok P r \<longleftrightarrow> (\<exists>raw. ar_blob r = Some raw \<and> raw_digest P raw = ar_archive_digest r)"

definition blobs_ok :: "platform \<Rightarrow> registry \<Rightarrow> bool" where
  "blobs_ok P db \<longleftrightarrow> list_all (blob_ok P) (artifacts db)"

lemma verified_digests:
  assumes "verify_archive P A n b raw = Inr v"
  shows "va_archive_digest v = raw_digest P raw"
  using assms by (auto simp: verify_archive_def and_then_Inr_iff verified_def)

lemma digests_dict_eq [simp]: "digests_dict a b c = digests_dict a' b' c' \<longleftrightarrow> a = a' \<and> b = b' \<and> c = c'"
  by (simp add: digests_dict_def)

lemma publicationE:
  assumes "publication P A s a = Inr (raw, v)"
  shows "b64_decode (arg_str a ''archive_base64'') = Some raw"
    and "verify_archive P A (max_archive_members s) (max_archive_uncompressed_bytes s) raw = Inr v"
    and "declared_digests a = computed_digests v"
  using assms by (auto simp: publication_def decoded_archive_def and_then_Inr_iff split: option.splits)

lemma publish_artifactE:
  assumes "publish_artifact P A s i now publisher a db = Inr (db', answer)"
  obtains raw v where "publication P A s a = Inr (raw, v)"
      "artifact_row (arg_str a ''artifact_id'') (arg_str a ''kind'') (arg_str a ''version'') db = None"
      "db' = db\<lparr>artifacts := insert_row (new_artifact i now publisher a raw v) (artifacts db)\<rparr>"
    | raw v r where "publication P A s a = Inr (raw, v)"
      "artifact_row (arg_str a ''artifact_id'') (arg_str a ''kind'') (arg_str a ''version'') db = Some r"
      "db' = db" "stored_digests r = computed_digests v" "answer = publish_answer r True"
  using assms
  by (auto simp: publish_artifact_def insert_artifact_def new_artifact_def and_then_Inr_iff split: option.splits prod.splits)

lemma artifacts_policies:
  "upsert_artifact_policy i now a db = Inr (db', p) \<Longrightarrow> artifacts db' = artifacts db"
  "delete_artifact_policy a db = Inr (db', d) \<Longrightarrow> artifacts db' = artifacts db"
  by (auto simp: upsert_artifact_policy_def put_artifact_policy_def delete_artifact_policy_def delete_policy_row_def
      Let_def split: sum.splits option.splits if_splits)

lemma blob_ok_new: "publication P A s a = Inr (raw, v) \<Longrightarrow> blob_ok P (new_artifact i now publisher a raw v)"
  using verified_digests publicationE(2) by (fastforce simp: blob_ok_def new_artifact_def)

lemma reg_step_ok:
  assumes "blobs_ok P db" and "reg_step P A s t db db'"
  shows "blobs_ok P db'"
  using assms(2,1)
proof cases
  case (step_publish i publisher a answer)
  then show ?thesis using assms(1) blob_ok_new by (auto simp: blobs_ok_def insert_row_def elim!: publish_artifactE)
qed (use assms(1) artifacts_policies in \<open>auto simp: blobs_ok_def\<close>)

lemma reg_step_row:
  assumes "reg_step P A s t db db'" and "artifact_row x k n db = Some r"
  shows "artifact_row x k n db' = Some r"
  using assms(1)
proof cases
  case (step_publish i publisher a answer)
  then show ?thesis using assms(2)
    by (auto simp: artifact_row_def fetchrow_insert_row elim!: publish_artifactE)
qed (use assms(2) artifacts_policies in \<open>auto simp: artifact_row_def\<close>)

interpretation rg: row_history "reg_step P A s" "blobs_ok P" "\<lambda>db (x, k, n). artifact_row x k n db" "(=)" for P A s
  by unfold_locales (auto intro: reg_step_ok reg_step_row)

text \<open>
  C32. What was published is delivered. After a successful publication, whatever anybody
  publishes and whichever policies change since, a download under the published identity
  returns the declared digests and bytes with the declared archive digest; for a new
  artifact they are the very bytes of the request, and they passed every check.
\<close>

theorem registry_publication_intact:
  assumes "run (reg_step P A s) \<lparr>artifacts = [], policies = []\<rparr> ts db"
    and "publish_artifact P A s i now publisher a db = Inr (db1, answer)"
    and "run (reg_step P A s) db1 us db2"
    and "arg_str f ''artifact_id'' = arg_str a ''artifact_id''" "arg_str f ''kind'' = arg_str a ''kind''"
      "arg_str f ''version'' = arg_str a ''version''" "arg_str f ''expected_artifact_digest'' = arg_str a ''artifact_digest''"
  shows "\<exists>raw delivery. fetch_artifact P f db2 = Inr delivery
    \<and> map_of delivery ''archive_base64'' = Some (PStr (b64_encode raw))
    \<and> digests_dict (arg_str delivery ''manifest_digest'') (arg_str delivery ''artifact_digest'') (arg_str delivery ''archive_digest'')
        = declared_digests a
    \<and> raw_digest P raw = arg_str a ''archive_digest''
    \<and> (py_get answer ''already_exists'' = PBool False \<longrightarrow> b64_decode (arg_str a ''archive_base64'') = Some raw)
    \<and> is_ok (publication P A s a)"
proof -
  let ?x = "arg_str a ''artifact_id''" and ?k = "arg_str a ''kind''" and ?n = "arg_str a ''version''"
  have ok: "blobs_ok P db" using rg.inv_run [OF assms(1)] by (simp add: blobs_ok_def)
  have ok1: "blobs_ok P db1" using reg_step_ok [OF ok] assms(2) reg_step.step_publish by blast
  obtain raw v r where p: "publication P A s a = Inr (raw, v)" and r: "artifact_row ?x ?k ?n db1 = Some r"
    and d: "stored_digests r = computed_digests v"
    and fresh: "py_get answer ''already_exists'' = PBool False \<longrightarrow> ar_blob r = Some raw"
    using assms(2)
  proof (cases rule: publish_artifactE)
    case (1 raw v)
    let ?r = "new_artifact i now publisher a raw v"
    have "same_artifact ?x ?k ?n ?r" by (simp add: same_artifact_def new_artifact_def)
    then have "artifact_row ?x ?k ?n db1 = Some ?r" using 1 by (simp add: artifact_row_def fetchrow_insert_row)
    then show ?thesis using that [OF 1(1)] by (simp add: new_artifact_def stored_digests_def computed_digests_def)
  next
    case (2 raw v r)
    then show ?thesis using that [OF 2(1)] by (simp add: publish_answer_def py_get_def)
  qed
  have row2: "artifact_row ?x ?k ?n db2 = Some r" using rg.row_run [OF assms(3) ok1, of "(?x, ?k, ?n)"] r by auto
  have "r \<in> set (artifacts db1)" using r fetchrow_SomeD unfolding artifact_row_def by metis
  then obtain raw' where raw': "ar_blob r = Some raw'" "raw_digest P raw' = ar_archive_digest r"
    using ok1 by (auto simp: blobs_ok_def blob_ok_def list_all_iff)
  have decl: "ar_manifest_digest r = arg_str a ''manifest_digest''" "ar_artifact_digest r = arg_str a ''artifact_digest''"
      "ar_archive_digest r = arg_str a ''archive_digest''"
    using d publicationE(3) [OF p] by (simp_all add: stored_digests_def computed_digests_def declared_digests_def)
  let ?delivery = "[(''archive_base64'', PStr (b64_encode raw')), (''manifest_digest'', PStr (ar_manifest_digest r)),
    (''artifact_digest'', PStr (ar_artifact_digest r)), (''archive_digest'', PStr (ar_archive_digest r))]"
  have "fetch_artifact P f db2 = Inr ?delivery"
    using row2 raw' assms(4-7) decl by (simp add: fetch_artifact_def)
  moreover have "py_get answer ''already_exists'' = PBool False \<longrightarrow> b64_decode (arg_str a ''archive_base64'') = Some raw'"
    using fresh raw'(1) publicationE(1) [OF p] by auto
  ultimately show ?thesis using raw'(2) decl p
    by (intro exI [of _ raw'] exI [of _ ?delivery]) (simp add: declared_digests_def arg_str_def py_get_def)
qed

text \<open>A demonstration: a hash with one value, and an archive of a manifest and one file.\<close>

definition flat_digest :: string where "flat_digest = ''sha256:'' @ replicate 64 CHR ''0''"

definition flat_platform :: platform where
  "flat_platform = \<lparr>sha256 = (\<lambda>_. replicate 64 CHR ''0''), float_repr = (\<lambda>_. []), fromisoformat = (\<lambda>_. None),
     schema_valid = (\<lambda>_ _. True)\<rparr>"

definition demo_manifest :: dict where
  "demo_manifest = [(''schema_version'', PInt 2), (''kind'', PStr ''preset''), (''id'', PStr ''base''),
     (''version'', PStr ''1.2.0''), (''protocol_major'', PInt 1),
     (''requires'', PDict [(''core_protocol'', PStr ''1'')]), (''provenance'', PDict []), (''created_at'', PStr ''Z''),
     (''artifact_digest'', PStr flat_digest),
     (''content'', PDict [(''path'', PStr ''p.json''), (''schema'', PStr ''urn:isekai:schema:preset-policy'')]),
     (''files'', PList [PDict [(''path'', PStr ''p.json''), (''digest'', PStr flat_digest), (''size'', PInt 1),
        (''mode'', PStr ''data''), (''executable'', PBool False)]])]"

definition demo_archive :: archive_reader where
  "demo_archive = \<lparr>read_tar = (\<lambda>_.
       ([\<lparr>tm_name = ''./manifest.json'', tm_isfile = True, tm_size = 2, tm_mode = 420, tm_content = Inr (Some ''{}'')\<rparr>,
         \<lparr>tm_name = ''p.json'', tm_isfile = True, tm_size = 1, tm_mode = 420, tm_content = Inr (Some ''x'')\<rparr>], None)),
     json_loads = (\<lambda>_. Some (PDict demo_manifest))\<rparr>"

definition demo_publish :: dict where
  "demo_publish = [(''artifact_id'', PStr ''base''), (''kind'', PStr ''preset''), (''version'', PStr ''1.2.0''),
     (''archive_base64'', PStr ''eA==''), (''manifest_digest'', PStr flat_digest),
     (''artifact_digest'', PStr flat_digest), (''archive_digest'', PStr flat_digest),
     (''expected_artifact_digest'', PStr flat_digest)]"

lemma flat_digests: "digest flat_platform v = flat_digest" "raw_digest flat_platform raw = flat_digest"
  by (simp_all add: digest_def raw_digest_def flat_platform_def flat_digest_def)

definition demo_scan :: scan where
  "demo_scan = \<lparr>observed = [(''manifest.json'', \<lparr>mf_size = 2, mf_digest = flat_digest, mf_executable = False\<rparr>),
       (''p.json'', \<lparr>mf_size = 1, mf_digest = flat_digest, mf_executable = False\<rparr>)],
     manifest_payload = Some ''{}'', total_size = 3\<rparr>"

lemma demo_scanned:
  "scan_members flat_platform 10000 1073741824 1 (fst (read_tar demo_archive raw)) (snd (read_tar demo_archive raw))
     \<lparr>observed = [], manifest_payload = None, total_size = 0\<rparr> = Inr demo_scan"
  by code_simp

lemma demo_shape: "validate_manifest_shape demo_manifest = Inr ()"
  by code_simp

lemma demo_members: "member_names_match demo_manifest demo_scan = Inr ()"
    "is_ok (collect (member_matches demo_scan) (list_of (py_get demo_manifest ''files'')))"
  by code_simp+

lemma demo_verified:
  "verify_archive flat_platform demo_archive 10000 1073741824 ''x'' = Inr (verified flat_platform ''x'' ''{}'' demo_manifest)"
proof -
  have "payload_of demo_scan = Inr ''{}''" by (simp add: payload_of_def demo_scan_def)
  moreover have "parsed_manifest demo_archive ''{}'' = Inr demo_manifest"
    by (simp add: parsed_manifest_def demo_archive_def is_dict_def)
  moreover have "arg_str demo_manifest ''artifact_digest'' = flat_digest" by code_simp
  moreover obtain x where "collect (member_matches demo_scan) (list_of (py_get demo_manifest ''files'')) = Inr x"
    using demo_members(2) by (auto simp: is_ok_iff)
  ultimately show ?thesis
    using demo_scanned demo_shape demo_members(1) by (simp add: verify_archive_def flat_digests checked_def)
qed

lemma demo_published:
  "\<exists>db answer. publish_artifact flat_platform demo_archive default_settings 1 5 ''ann'' demo_publish
     \<lparr>artifacts = [], policies = []\<rparr> = Inr (db, answer)"
proof -
  have "b64_decode (arg_str demo_publish ''archive_base64'') = Some ''x''" by code_simp
  then have raw: "decoded_archive default_settings demo_publish = Inr ''x''"
    by (simp add: decoded_archive_def default_settings_def checked_def)
  have same: "identity_of demo_manifest ''id'' = identity_of demo_publish ''artifact_id''" by code_simp
  have "declared_digests demo_publish = digests_dict flat_digest flat_digest flat_digest" by code_simp
  then have "publication flat_platform demo_archive default_settings demo_publish
      = Inr (''x'', verified flat_platform ''x'' ''{}'' demo_manifest)"
    using raw same demo_verified by (simp add: publication_def computed_digests_def verified_def flat_digests default_settings_def checked_def)
  then show ?thesis by (simp add: publish_artifact_def insert_artifact_def artifact_row_def)
qed

theorem registry_publication_intact_witness:
  "\<exists>db. is_ok (fetch_artifact flat_platform demo_publish db) \<and> is_ok (publication flat_platform demo_archive default_settings demo_publish)"
proof -
  obtain db answer where d: "publish_artifact flat_platform demo_archive default_settings 1 5 ''ann'' demo_publish
     \<lparr>artifacts = [], policies = []\<rparr> = Inr (db, answer)"
    using demo_published by blast
  have "arg_str demo_publish ''expected_artifact_digest'' = arg_str demo_publish ''artifact_digest''" by code_simp
  then show ?thesis
    using registry_publication_intact [OF run_nil d run_nil, of demo_publish] by (auto simp: is_ok_iff)
qed

end
