(* ===== verification/Projects.thy ===== *)
theory Projects
  imports Auth Text_Codec
begin

text \<open>
  The project directory (projects/service.py, projects/legacy.py) with its tables of
  migrations 014, 017 and 019: projects with an owner and a revision, members with a role,
  the binding of a principal to its current membership, and registration and assignment
  under an exact revision.
\<close>

subsection \<open>URLs\<close>

text \<open>
  \<open>urlsplit\<close> of the standard library. A value of \<open>None\<close> is its ValueError; the check of a
  bracketed IP address is a parameter.
\<close>

record split_url =
  u_scheme :: string
  u_netloc :: string
  u_query :: string
  u_fragment :: string

definition until :: "string \<Rightarrow> string \<Rightarrow> string" where
  "until stops s = takeWhile (\<lambda>c. c \<notin> set stops) s"

definition cut :: "char \<Rightarrow> string \<Rightarrow> string \<times> string" where
  \<comment> \<open>\<open>split(c, 1)\<close> where the character occurs\<close>
  "cut c s = (takeWhile (\<lambda>x. x \<noteq> c) s, drop (Suc (length (takeWhile (\<lambda>x. x \<noteq> c) s))) s)"

definition url_clean :: "string \<Rightarrow> string" where
  "url_clean s = filter (\<lambda>c. code c \<notin> {9, 10, 13}) (dropWhile (\<lambda>c. code c \<le> 32) s)"

definition scheme_char :: "char \<Rightarrow> bool" where
  "scheme_char c \<longleftrightarrow> upper_char c \<or> lower_char c \<or> digit c \<or> c \<in> {CHR ''+'', CHR ''-'', CHR ''.''}"

definition url_scheme :: "string \<Rightarrow> string \<times> string" where
  "url_scheme s =
     (let p = until '':'' s
      in if p \<noteq> [] \<and> CHR '':'' \<in> set s \<and> (upper_char (hd p) \<or> lower_char (hd p)) \<and> list_all scheme_char p
         then (lower p, drop (Suc (length p)) s) else ([], s))"

definition urlsplit :: "(string \<Rightarrow> bool) \<Rightarrow> string \<Rightarrow> split_url option" where
  "urlsplit bracketed_ok url =
     (let (scheme, s1) = url_scheme (url_clean url);
          netloc = (if starts_with ''//'' s1 then until ''/?#'' (drop 2 s1) else []);
          s2 = (if starts_with ''//'' s1 then drop (2 + length netloc) s1 else s1);
          (s3, fragment) = cut CHR ''#'' s2; (s4, query) = cut CHR ''?'' s3;
          opened = CHR ''['' \<in> set netloc; closed = CHR '']'' \<in> set netloc
      in if opened \<noteq> closed \<or> opened \<and> closed \<and> \<not> bracketed_ok netloc then None
         else Some \<lparr>u_scheme = scheme, u_netloc = netloc, u_query = query, u_fragment = fragment\<rparr>)"

definition after_last_at :: "string \<Rightarrow> string" where
  "after_last_at s = rev (takeWhile (\<lambda>c. c \<noteq> CHR ''@'') (rev s))"

definition userinfo :: "split_url \<Rightarrow> string option" where
  "userinfo u =
     (if CHR ''@'' \<in> set (u_netloc u)
      then Some (take (length (u_netloc u) - length (after_last_at (u_netloc u)) - 1) (u_netloc u)) else None)"

definition username :: "split_url \<Rightarrow> string option" where
  "username u = map_option (until '':'') (userinfo u)"

definition password :: "split_url \<Rightarrow> string option" where
  "password u = (case userinfo u of
     Some i \<Rightarrow> if CHR '':'' \<in> set i then Some (snd (cut CHR '':'' i)) else None | None \<Rightarrow> None)"

definition hostname :: "split_url \<Rightarrow> string" where
  \<comment> \<open>empty where \<open>hostname\<close> is None\<close>
  "hostname u =
     (let h = after_last_at (u_netloc u)
      in lower (if CHR ''['' \<in> set h then until '']'' (snd (cut CHR ''['' h)) else until '':'' h))"

definition given :: "string option \<Rightarrow> bool" where
  "given v = (case v of None \<Rightarrow> False | Some s \<Rightarrow> s \<noteq> [])"

subsection \<open>Tables\<close>

record project =
  pr_id :: string
  pr_organization_id :: string
  pr_name :: string
  pr_git_url :: "string option"
  pr_git_ref :: "string option"
  pr_owner_id :: string
  pr_setup :: pyval
  pr_source_kind :: string
  pr_revision :: nat
  pr_created_at :: time
  pr_updated_at :: time

record project_member =
  pm_project_id :: string
  pm_user_id :: string
  pm_role :: string
  pm_assigned_by :: string

text \<open>The project ids that occur in the other tables are part of the state.\<close>

record pdb =
  projects :: "project list"
  members :: "project_member list"
  namespaces :: "string list"

definition project_fail :: "string \<Rightarrow> string \<Rightarrow> int \<Rightarrow> mem_error" where
  "project_fail msg c status = memory_tool_error msg c [] status"

definition no_access :: mem_error where
  "no_access = project_fail ''Project is unavailable for this actor'' ''MEM-PROJECT-0001'' 403"

definition bad_project :: "string \<Rightarrow> mem_error" where
  "bad_project msg = project_fail msg ''MEM-PROJECT-0002'' 400"

definition project_row :: "string \<Rightarrow> pdb \<Rightarrow> project option" where
  "project_row i db = fetchrow (\<lambda>r. pr_id r = i) (projects db)"

definition member_role :: "string \<Rightarrow> string \<Rightarrow> pdb \<Rightarrow> string option" where
  "member_role i user db = map_option pm_role (fetchrow (\<lambda>m. pm_project_id m = i \<and> pm_user_id m = user) (members db))"

definition role_in :: "project \<Rightarrow> string \<Rightarrow> pdb \<Rightarrow> string option" where
  "role_in r user db = (if pr_owner_id r = user then Some ''owner'' else member_role (pr_id r) user db)"

definition access :: "string \<Rightarrow> string \<Rightarrow> pdb \<Rightarrow> project option \<times> string option" where
  "access i user db = (case project_row i db of None \<Rightarrow> (None, None) | Some r \<Rightarrow> (Some r, role_in r user db))"

subsection \<open>Binding a principal\<close>

definition role_scopes :: "string \<Rightarrow> string list" where
  "role_scopes role = [''read'', ''projects'']
     @ (if role \<in> {''write'', ''owner''} then [''write''] else []) @ (if role = ''owner'' then [''admin''] else [])"

definition external :: "principal \<Rightarrow> bool" where
  "external p \<longleftrightarrow> p_provider p \<in> {''entra'', ''github''}"

definition widened_scopes :: "principal \<Rightarrow> string \<Rightarrow> string list" where
  \<comment> \<open>admin implies read and write; an owner with a company account is an administrator\<close>
  "widened_scopes p role = p_scopes p @ (if ''admin'' \<in> set (p_scopes p) then [''read'', ''write''] else [])
     @ (if external p \<and> role = ''owner'' then [''admin''] else [])"

definition bound_to :: "principal \<Rightarrow> string \<Rightarrow> string \<Rightarrow> principal" where
  "bound_to p i role = p\<lparr>p_project_id := Some i,
     p_scopes := filter (\<lambda>s. s \<in> set (role_scopes role)) (widened_scopes p role)\<rparr>"

definition other_organization :: "principal \<Rightarrow> string \<Rightarrow> dict \<Rightarrow> project option \<Rightarrow> bool" where
  "other_organization p tool a row \<longleftrightarrow>
     (case row of Some r \<Rightarrow> Some (pr_organization_id r) | None \<Rightarrow> arg_opt_str a ''organization_id'') \<noteq> p_organization_id p
     \<or> tool = ''memory_project_register'' \<and> arg_opt_str a ''organization_id'' \<noteq> p_organization_id p"

definition bind :: "principal \<Rightarrow> string \<Rightarrow> dict \<Rightarrow> pdb \<Rightarrow> principal outcome" where
  "bind p tool a db =
     (if p_local p \<or> tool = ''memory_project_list'' then Inr p
      else case py_get a ''project_id'' of
        PStr i \<Rightarrow>
          let multiple = ''projects'' \<in> set (p_scopes p); (row, role) = access i (p_user_id p) db
          in if \<not> multiple \<and> Some i \<noteq> p_project_id p then Inr p
             else if row = None \<and> \<not> multiple then Inr p
             else if external p \<and> other_organization p tool a row
             then Inl (project_fail ''Project organization does not match this company account'' ''MEM-PROJECT-0001'' 403)
             else (case (if row = None \<and> tool = ''memory_project_register''
                           \<and> py_eq (py_get a ''expected_revision'') (PInt 0) then Some ''owner'' else role) of
                     None \<Rightarrow> Inl no_access
                   | Some r \<Rightarrow> Inr (bound_to p i r))
      | _ \<Rightarrow> Inr p)"

definition admit :: "principal \<Rightarrow> string \<Rightarrow> dict \<Rightarrow> pdb \<Rightarrow> principal outcome" where
  \<comment> \<open>the two steps of the dispatcher before a handler runs\<close>
  "admit p tool a db =
     and_then (bind p tool a db) (\<lambda>q. and_then (authorize_tool q tool (arg_opt_str a ''project_id'')) (\<lambda>_. Inr q))"

subsection \<open>Metadata\<close>

definition scp_text :: "string \<Rightarrow> bool" where
  \<comment> \<open>\<open>[A-Za-z0-9_.-]+@[A-Za-z0-9.-]+:[A-Za-z0-9_./-]+\<close>\<close>
  "scp_text s \<longleftrightarrow>
     (let word = (\<lambda>extra c. upper_char c \<or> lower_char c \<or> digit c \<or> c \<in> set extra);
          (user, r) = cut CHR ''@'' s; (host, path) = cut CHR '':'' r
      in CHR ''@'' \<in> set s \<and> CHR '':'' \<in> set r \<and> user \<noteq> [] \<and> host \<noteq> [] \<and> path \<noteq> []
         \<and> list_all (word ''_.-'') user \<and> list_all (word ''.-'') host \<and> list_all (word ''_./-'') path)"

definition unsafe_url :: "split_url \<Rightarrow> bool" where
  "unsafe_url u \<longleftrightarrow> u_scheme u \<notin> {''https'', ''ssh''} \<or> hostname u = [] \<or> given (password u)
     \<or> u_scheme u = ''https'' \<and> given (username u) \<or> u_query u \<noteq> [] \<or> u_fragment u \<noteq> []"

definition contains :: "string \<Rightarrow> string \<Rightarrow> bool" where
  "contains part s \<longleftrightarrow> search (starts_with part) s"

definition unsafe_ref :: "string \<Rightarrow> bool" where
  "unsafe_ref r \<longleftrightarrow> starts_with ''-'' r \<or> list_ex (\<lambda>c. py_space c \<or> code c < 32) r
     \<or> contains ''..'' r \<or> contains [CHR 0x40, CHR 0x7B] r
     \<or> list_ex (\<lambda>c. c \<in> set r) [CHR 0x5C, CHR 0x7E, CHR 0x5E, CHR '':'', CHR ''?'', CHR ''*'', CHR ''['']"

definition validate_git :: "(string \<Rightarrow> bool) \<Rightarrow> dict \<Rightarrow> unit outcome" where
  "validate_git bracketed_ok a =
     (let url = py_get a ''git_url''; ref = py_get a ''git_ref''
      in if url = PNone \<and> ref = PNone then Inr ()
         else if \<not> nonempty_str url \<or> \<not> nonempty_str ref
         then Inl (bad_project ''Git URL and ref must be supplied together or both absent'')
         else case urlsplit bracketed_ok (str_of url) of
                None \<Rightarrow> Inl (unhandled ''ValueError'')
              | Some u \<Rightarrow> checked
                  [(\<not> scp_text (str_of url) \<and> unsafe_url u,
                      bad_project ''Git URL must be HTTPS or SSH without embedded secrets''),
                   (unsafe_ref (str_of ref), bad_project ''Git ref is invalid'')] ())"

definition SETUP_KEYS :: "string list" where
  "SETUP_KEYS = [''schema_version'', ''config'', ''artifacts'', ''digest'']"

definition CONFIG_ALLOWED :: "string list" where
  "CONFIG_ALLOWED = [''schema_version'', ''project_id'', ''project_root'', ''sources'', ''selection'', ''authority_scope'',
     ''agent_registry'', ''action_profiles'', ''stores'', ''context_profile'', ''execution_mode'',
     ''methodology_binding'', ''credential_refs'']"

definition exact_keys :: "string list \<Rightarrow> dict \<Rightarrow> bool" where
  "exact_keys ks d \<longleftrightarrow> list_all (\<lambda>e. fst e \<in> set ks) d \<and> list_all (has_key d) ks"

definition source_kind_of :: "dict \<Rightarrow> pyval" where
  "source_kind_of a = get_or a ''source_kind'' (PStr (if truthy (py_get a ''git_url'') then ''git'' else ''unknown''))"

definition validate_metadata :: "platform \<Rightarrow> (string \<Rightarrow> bool) \<Rightarrow> dict \<Rightarrow> unit outcome" where
  "validate_metadata P bracketed_ok a =
     and_then (validate_git bracketed_ok a) (\<lambda>_.
       let kind = source_kind_of a; setup = arg_dict a ''setup''; config = arg_dict setup ''config'';
           bytes = canonical P (PDict (dict_drop ''digest'' setup))
       in checked
         [(kind \<notin> PStr ` {''git'', ''directory'', ''unknown''} \<or> truthy (py_get a ''git_url'') \<and> kind \<noteq> PStr ''git'',
             bad_project ''Git clone coordinates require a Git source''),
          (\<not> exact_keys SETUP_KEYS setup \<or> \<not> py_eq (py_get setup ''schema_version'') (PInt 1),
             bad_project ''Unsupported setup manifest''),
          (\<not> is_dict (py_get setup ''config'') \<or> \<not> list_all (\<lambda>e. fst e \<in> set CONFIG_ALLOWED) config
             \<or> \<not> py_eq (py_get config ''project_id'') (py_get a ''project_id'')
             \<or> \<not> py_eq (py_get config ''credential_refs'') (PList []),
             bad_project ''Setup must bind this project and exclude credentials''),
          (512 * 1024 < int (length bytes) \<or> py_get setup ''digest'' \<noteq> PStr (''sha256:'' @ sha256 P bytes),
             bad_project ''Setup digest/size is invalid'')] ())"

subsection \<open>Directory operations\<close>

definition visible_project :: "principal \<Rightarrow> dict \<Rightarrow> pdb \<Rightarrow> project \<Rightarrow> bool" where
  "visible_project p a db r \<longleftrightarrow>
     role_in r (p_user_id p) db \<noteq> None
     \<and> (p_local p \<or> ''projects'' \<in> set (p_scopes p) \<or> p_project_id p = None \<or> Some (pr_id r) = p_project_id p)
     \<and> (p_organization_id p = None \<or> Some (pr_organization_id r) = p_organization_id p)
     \<and> str_of (get_or a ''after'' (PStr [])) < pr_id r"

definition listed_project :: "principal \<Rightarrow> pdb \<Rightarrow> project \<Rightarrow> pyval" where
  "listed_project p db r = PDict
     [(''project_id'', PStr (pr_id r)), (''organization_id'', PStr (pr_organization_id r)), (''name'', PStr (pr_name r)),
      (''git_url'', opt_str (pr_git_url r)), (''git_ref'', opt_str (pr_git_ref r)),
      (''source_kind'', PStr (pr_source_kind r)), (''owner_id'', PStr (pr_owner_id r)),
      (''revision'', PInt (int (pr_revision r))), (''updated_at'', PTime (pr_updated_at r)),
      (''role'', opt_str (role_in r (p_user_id p) db))]"

definition list_projects :: "dict \<Rightarrow> principal \<Rightarrow> pdb \<Rightarrow> dict" where
  "list_projects a p db =
     (let limit = nat (int_of (get_or a ''limit'' (PInt 50)));
          rows = take (limit + 1) (sort_key pr_id (filter (visible_project p a db) (projects db)))
      in [(''actor_id'', PStr (p_user_id p)), (''items'', PList (map (listed_project p db) (take limit rows))),
          (''next_cursor'', if limit < length rows then PStr (pr_id (rows ! (limit - 1))) else PNone)])"

definition project_dict :: "project \<Rightarrow> dict" where
  "project_dict r =
     [(''project_id'', PStr (pr_id r)), (''organization_id'', PStr (pr_organization_id r)), (''name'', PStr (pr_name r)),
      (''git_url'', opt_str (pr_git_url r)), (''git_ref'', opt_str (pr_git_ref r)), (''owner_id'', PStr (pr_owner_id r)),
      (''setup'', pr_setup r), (''source_kind'', PStr (pr_source_kind r)), (''revision'', PInt (int (pr_revision r))),
      (''created_at'', PTime (pr_created_at r)), (''updated_at'', PTime (pr_updated_at r))]"

definition get_project :: "dict \<Rightarrow> principal \<Rightarrow> pdb \<Rightarrow> dict outcome" where
  "get_project a p db =
     (case access (arg_str a ''project_id'') (p_user_id p) db of
        (None, _) \<Rightarrow> Inl no_access
      | (Some r, role) \<Rightarrow> checked [(role = None \<and> \<not> p_local p, no_access)]
          (project_dict r @ [(''role'', PStr (case role of None \<Rightarrow> ''local-admin'' | Some x \<Rightarrow> x))]))"

definition require_unclaimed_or_admin :: "principal \<Rightarrow> string \<Rightarrow> pdb \<Rightarrow> unit outcome" where
  "require_unclaimed_or_admin p i db =
     checked [(\<not> (p_local p \<or> ''projects'' \<notin> set (p_scopes p) \<and> ''admin'' \<in> set (p_scopes p)) \<and> i \<in> set (namespaces db),
         project_fail ''Existing project namespace requires registration by its project-scoped administrator''
           ''MEM-PROJECT-LEGACY'' 403)] ()"

definition with_git_defaults :: "dict \<Rightarrow> dict" where
  \<comment> \<open>\<open>{"git_url": None, "git_ref": None, **args}\<close>\<close>
  "with_git_defaults a = filter (\<lambda>e. \<not> has_key a (fst e)) [(''git_url'', PNone), (''git_ref'', PNone)] @ a"

definition with_source_kind :: "project option \<Rightarrow> dict \<Rightarrow> dict" where
  \<comment> \<open>\<open>setdefault\<close>\<close>
  "with_source_kind row a =
     (if has_key a ''source_kind'' then a
      else a @ [(''source_kind'', PStr (if truthy (py_get a ''git_url'') then ''git''
             else case row of Some r \<Rightarrow> pr_source_kind r | None \<Rightarrow> ''unknown''))])"

definition same_project :: "project \<Rightarrow> dict \<Rightarrow> bool" where
  "same_project r a \<longleftrightarrow> PStr (pr_organization_id r) = py_get a ''organization_id'' \<and> PStr (pr_name r) = py_get a ''name''
     \<and> opt_str (pr_git_url r) = py_get a ''git_url'' \<and> opt_str (pr_git_ref r) = py_get a ''git_ref''
     \<and> py_eq (pr_setup r) (py_get a ''setup'') \<and> PStr (pr_source_kind r) = py_get a ''source_kind''"

definition described :: "dict \<Rightarrow> project \<Rightarrow> project" where
  "described a r = r\<lparr>pr_organization_id := arg_str a ''organization_id'', pr_name := arg_str a ''name'',
     pr_git_url := arg_opt_str a ''git_url'', pr_git_ref := arg_opt_str a ''git_ref'',
     pr_setup := py_get a ''setup'', pr_source_kind := arg_str a ''source_kind''\<rparr>"

definition new_project :: "time \<Rightarrow> principal \<Rightarrow> dict \<Rightarrow> project" where
  "new_project now p a = described a \<lparr>pr_id = arg_str a ''project_id'', pr_organization_id = [], pr_name = [],
     pr_git_url = None, pr_git_ref = None, pr_owner_id = p_user_id p, pr_setup = PNone, pr_source_kind = [],
     pr_revision = 1, pr_created_at = now, pr_updated_at = now\<rparr>"

definition revised_project :: "time \<Rightarrow> dict \<Rightarrow> project \<Rightarrow> project" where
  "revised_project now a r = (described a r)\<lparr>pr_revision := pr_revision r + 1, pr_updated_at := now\<rparr>"

definition set_project :: "string \<Rightarrow> (project \<Rightarrow> project) \<Rightarrow> pdb \<Rightarrow> pdb" where
  "set_project i f db = db\<lparr>projects := update_where (\<lambda>r. pr_id r = i) f (projects db)\<rparr>"

definition revision_of :: "project option \<Rightarrow> nat" where
  "revision_of row = (case row of None \<Rightarrow> 0 | Some r \<Rightarrow> pr_revision r)"

definition register_project ::
    "platform \<Rightarrow> (string \<Rightarrow> bool) \<Rightarrow> time \<Rightarrow> dict \<Rightarrow> principal \<Rightarrow> pdb \<Rightarrow> (pdb \<times> dict) outcome" where
  "register_project P bracketed_ok now args p db =
     (let a = with_git_defaults args; i = arg_str a ''project_id''; row = project_row i db; b = with_source_kind row a
      in and_then (validate_metadata P bracketed_ok a) (\<lambda>_.
         and_then (checked [((case row of None \<Rightarrow> False | Some r \<Rightarrow> pr_owner_id r \<noteq> p_user_id p \<and> \<not> p_local p), no_access)] ()) (\<lambda>_.
         and_then (if row = None then require_unclaimed_or_admin p i db else Inr ()) (\<lambda>_.
         and_then (validate_metadata P bracketed_ok b) (\<lambda>_.
         case row of
           Some r \<Rightarrow>
             if same_project r b then Inr (db, project_dict r)
             else checked [(int (pr_revision r) \<noteq> arg_int b ''expected_revision'',
                     project_fail ''Project changed; reload before publishing'' ''MEM-PROJECT-CONFLICT'' 409)]
                   (set_project i (revised_project now b) db, project_dict (revised_project now b r))
         | None \<Rightarrow>
             checked [(0 \<noteq> arg_int b ''expected_revision'',
                 project_fail ''Project changed; reload before publishing'' ''MEM-PROJECT-CONFLICT'' 409)]
               (db\<lparr>projects := insert_row (new_project now p b) (projects db)\<rparr>, project_dict (new_project now p b)))))))"

definition desired_role :: "dict \<Rightarrow> string option" where
  "desired_role a = (if arg_str a ''role'' = ''remove'' then None else Some (arg_str a ''role''))"

definition set_member :: "string \<Rightarrow> string \<Rightarrow> string option \<Rightarrow> string \<Rightarrow> pdb \<Rightarrow> pdb" where
  "set_member i user role assigner db =
     (let hit = (\<lambda>m. pm_project_id m = i \<and> pm_user_id m = user)
      in case role of
           None \<Rightarrow> db\<lparr>members := filter (\<lambda>m. \<not> hit m) (members db)\<rparr>
         | Some x \<Rightarrow>
             if exists_row hit (members db)
             then db\<lparr>members := update_where hit (\<lambda>m. m\<lparr>pm_role := x, pm_assigned_by := assigner\<rparr>) (members db)\<rparr>
             else db\<lparr>members := insert_row \<lparr>pm_project_id = i, pm_user_id = user, pm_role = x,
                    pm_assigned_by = assigner\<rparr> (members db)\<rparr>)"

definition assign_answer :: "string \<Rightarrow> nat \<Rightarrow> bool \<Rightarrow> dict" where
  "assign_answer i revision changed = [(''project_id'', PStr i), (''revision'', PInt (int revision)), (''changed'', PBool changed)]"

definition assign_member :: "time \<Rightarrow> dict \<Rightarrow> principal \<Rightarrow> pdb \<Rightarrow> (pdb \<times> dict) outcome" where
  "assign_member now a p db =
     (let i = arg_str a ''project_id''; user = arg_str a ''user_id''
      in case project_row i db of
           None \<Rightarrow> Inl no_access
         | Some r \<Rightarrow>
             and_then (checked
               [(pr_owner_id r \<noteq> p_user_id p \<and> \<not> p_local p, no_access),
                (user = pr_owner_id r, bad_project ''Owner cannot be reassigned'')] ()) (\<lambda>_.
             if member_role i user db = desired_role a then Inr (db, assign_answer i (pr_revision r) False)
             else checked
               [(int (pr_revision r) \<noteq> arg_int a ''expected_revision'',
                   project_fail ''Project changed; reload assignments'' ''MEM-PROJECT-CONFLICT'' 409)]
               (set_project i (\<lambda>x. x\<lparr>pr_revision := pr_revision x + 1, pr_updated_at := now\<rparr>)
                  (set_member i user (desired_role a) (p_user_id p) db),
                assign_answer i (pr_revision r + 1) True)))"

end
