(* ===== verification/Projects_Props.thy ===== *)
theory Projects_Props
  imports Projects Fencing
begin

text \<open>
  Correctness of the project directory: a principal acts on a registered project only with
  its current membership there (C40), a stored token only for what its row and this
  membership allow (C14), and the revision of a project orders all its changes.
\<close>

subsection \<open>Access\<close>

lemma scopes_bound: "s \<in> set (p_scopes (bound_to p i role)) \<Longrightarrow> s \<in> set (role_scopes role) \<and> s \<in> set (widened_scopes p role)"
  by (simp add: bound_to_def)

lemma bound_to_fields [simp]:
  "p_user_id (bound_to p i role) = p_user_id p" "p_project_id (bound_to p i role) = Some i"
  "p_local (bound_to p i role) = p_local p"
  by (simp_all add: bound_to_def)

lemma bindE:
  assumes "bind p tool a db = Inr q" and "\<not> p_local p" and "tool \<noteq> ''memory_project_list''"
    and "py_get a ''project_id'' = PStr i" and "access i (p_user_id p) db = (row, role)"
  obtains (elsewhere) "q = p" "''projects'' \<notin> set (p_scopes p)" "Some i \<noteq> p_project_id p \<or> row = None"
    | (member) r where "q = bound_to p i r" "external p \<longrightarrow> \<not> other_organization p tool a row"
        "role = Some r \<or> row = None \<and> tool = ''memory_project_register'' \<and> r = ''owner''"
        "''projects'' \<in> set (p_scopes p) \<or> Some i = p_project_id p \<and> row \<noteq> None"
  using assms by (auto simp: bind_def Let_def split: if_splits option.splits)

subsection \<open>Requests with a token\<close>

text \<open>
  C14. A request with a stored token reaches a handler in three steps, the verification of
  the token, the binding of the principal to the project of the request and the
  authorization of the tool. One that passes them carries a token of the table which is
  neither revoked nor expired, acts as the user of that token, and the token holds the
  scope of the tool or the administrator's. But for three listing tools it acts on exactly
  the project it names: with a project token this is the project of the token, with a
  directory token any registered project or one the request registers; and on a registered
  project the user of the token holds, at that moment, a role which gives the scope.
\<close>

theorem auth_tenant_isolation:
  assumes "verify_token P now (Some raw) t = Inr p" and "admit p tool a db = Inr q"
  shows "\<exists>r \<in> set t. \<exists>s. at_token_hash r = token_digest P raw \<and> at_revoked_at r = None
    \<and> (\<forall>e. at_expires_at r = Some e \<longrightarrow> now < e) \<and> p_user_id q = at_user_id r
    \<and> map_of TOOL_SCOPES tool = Some s \<and> (s \<in> set (at_scopes r) \<or> ''admin'' \<in> set (at_scopes r))
    \<and> (tool \<notin> {''memory_repo_list'', ''memory_repo_check_updates'', ''memory_project_list''} \<longrightarrow>
        (\<exists>i. i \<noteq> [] \<and> py_get a ''project_id'' = PStr i \<and> p_project_id q = Some i
          \<and> (if ''projects'' \<in> set (at_scopes r) then project_row i db = None \<longrightarrow> tool = ''memory_project_register''
             else i = at_project_id r)
          \<and> (\<forall>pr. project_row i db = Some pr \<longrightarrow>
               (\<exists>role. role_in pr (at_user_id r) db = Some role \<and> (s \<in> set (role_scopes role) \<or> role = ''owner'')))))"
proof -
  obtain r where r: "get_token_by_hash (token_digest P raw) t = Some r" "at_revoked_at r = None"
      "\<not> (case at_expires_at r of None \<Rightarrow> False | Some e \<Rightarrow> e \<le> now)"
    and p: "p = \<lparr>p_user_id = at_user_id r, p_project_id = Some (at_project_id r), p_scopes = at_scopes r, p_local = False,
                          p_provider = ''token'', p_organization_id = None\<rparr>"
    using assms(1) by (auto simp: verify_token_def split: option.splits if_splits)
  have mem: "r \<in> set t" "at_token_hash r = token_digest P raw" "\<forall>e. at_expires_at r = Some e \<longrightarrow> now < e"
    using r(1,3) by (auto simp: get_token_by_hash_def dest: fetchrow_SomeD)
  have b: "bind p tool a db = Inr q" and auth: "authorize_tool q tool (arg_opt_str a ''project_id'') = Inr ()"
    using assms(2) by (auto simp: admit_def and_then_Inr_iff)
  have q: "p_user_id q = at_user_id r" "\<not> p_local q"
    "x \<in> set (p_scopes q) \<Longrightarrow> x \<in> set (at_scopes r) \<or> ''admin'' \<in> set (at_scopes r)" for x
    using b p by (auto simp: bind_def bound_to_def widened_scopes_def external_def Let_def split: if_splits option.splits pyval.splits prod.splits)
  obtain s where s: "map_of TOOL_SCOPES tool = Some s" "s \<in> set (p_scopes q) \<or> ''admin'' \<in> set (p_scopes q)"
    and scoped: "tool \<in> set PROJECT_SCOPED_TOOLS \<Longrightarrow> \<exists>i. i \<noteq> [] \<and> arg_opt_str a ''project_id'' = Some i \<and> p_project_id q = Some i"
    using auth q(2) by (auto simp: authorize_tool_Inr_iff)
  have "\<exists>i. i \<noteq> [] \<and> py_get a ''project_id'' = PStr i \<and> p_project_id q = Some i
      \<and> (if ''projects'' \<in> set (at_scopes r) then project_row i db = None \<longrightarrow> tool = ''memory_project_register'' else i = at_project_id r)
      \<and> (\<forall>pr. project_row i db = Some pr \<longrightarrow>
           (\<exists>role. role_in pr (at_user_id r) db = Some role \<and> (s \<in> set (role_scopes role) \<or> role = ''owner'')))"
    if listing: "tool \<notin> {''memory_repo_list'', ''memory_repo_check_updates'', ''memory_project_list''}"
  proof -
    have "tool \<in> set PROJECT_SCOPED_TOOLS" using unscoped_tools [OF map_of_SomeD [OF s(1)]] listing by blast
    then obtain i where i: "i \<noteq> []" "py_get a ''project_id'' = PStr i" "p_project_id q = Some i"
      using scoped by (auto simp: arg_opt_str_def split: pyval.splits)
    obtain row role where acc: "access i (p_user_id p) db = (row, role)" by fastforce
    then have row: "project_row i db = row" "role = (case row of None \<Rightarrow> None | Some pr \<Rightarrow> role_in pr (at_user_id r) db)"
      using p by (auto simp: access_def split: option.splits)
    have tok: "p_project_id p = Some (at_project_id r)" "p_scopes p = at_scopes r" "p_user_id p = at_user_id r" using p by simp_all
    have outside: "\<not> p_local p" "tool \<noteq> ''memory_project_list''" using p listing by auto
    show ?thesis using b outside i(2) acc
    proof (cases rule: bindE)
      case elsewhere
      have own: "i = at_project_id r" "row = None" "''projects'' \<notin> set (at_scopes r)" using elsewhere i(3) tok by auto
      show ?thesis
        using i(1,2) i(3) row(1) unfolding own by (intro exI [of _ "at_project_id r"]) (simp add: own(3))
    next
      case (member k)
      have "set (p_scopes q) \<subseteq> set (role_scopes k)" using scopes_bound member(1) by blast
      moreover have "''admin'' \<in> set (role_scopes k) \<Longrightarrow> k = ''owner''" by (simp add: role_scopes_def split: if_splits)
      ultimately have "s \<in> set (role_scopes k) \<or> k = ''owner''" using s(2) by blast
      moreover have reach: "if ''projects'' \<in> set (at_scopes r) then row = None \<longrightarrow> tool = ''memory_project_register'' else i = at_project_id r"
        using member(3,4) row(2) tok by (cases row) auto
      moreover have "role_in pr (at_user_id r) db = Some k" if "row = Some pr" for pr using member(3) row(2) that by auto
      ultimately show ?thesis using i row(1) by (intro exI [of _ i]) simp
    qed
  qed
  moreover have "s \<in> set (at_scopes r) \<or> ''admin'' \<in> set (at_scopes r)" using s(2) q(3) by blast
  ultimately show ?thesis using mem r(2) q(1) s(1) by (intro bexI [of _ r] exI [of _ s]) simp_all
qed

text \<open>
  C40. The dispatcher admits a request for a tool of a project only with the identity of
  its principal and for the project it names. On a registered project the principal holds a
  role there at that moment and gets no scope its role does not give: writing takes the
  role write or owner, administration the owner; a company account works only in projects
  of its organization. An unregistered project is reached only by a credential scoped to
  it, or registered.
\<close>

theorem project_access_bounded:
  assumes "admit p tool a db = Inr q" and "\<not> p_local p" and "tool \<in> set PROJECT_SCOPED_TOOLS"
  shows "\<exists>i s. py_get a ''project_id'' = PStr i \<and> i \<noteq> [] \<and> p_project_id q = Some i \<and> p_user_id q = p_user_id p
    \<and> map_of TOOL_SCOPES tool = Some s
    \<and> (\<forall>r. project_row i db = Some r \<longrightarrow> (external p \<longrightarrow> p_organization_id p = Some (pr_organization_id r))
        \<and> (\<exists>role. role_in r (p_user_id p) db = Some role \<and> set (p_scopes q) \<subseteq> set (role_scopes role)
             \<and> (s = ''write'' \<longrightarrow> role = ''write'' \<or> role = ''owner'') \<and> (s = ''admin'' \<longrightarrow> role = ''owner'')
             \<and> (\<forall>x \<in> set (p_scopes q). x \<in> set (p_scopes p) \<or> ''admin'' \<in> set (p_scopes p) \<or> external p \<and> role = ''owner'')))
    \<and> (project_row i db = None \<longrightarrow>
        (if ''projects'' \<in> set (p_scopes p) then tool = ''memory_project_register'' else p_project_id p = Some i))"
proof -
  have listing: "tool \<noteq> ''memory_project_list''" using assms(3) by (auto simp: PROJECT_SCOPED_TOOLS_def BASE_SCOPES_def
      TEAM_SCOPES_def COLLABORATION_SCOPES_def CONTINUITY_SCOPES_def PRESENCE_SCOPES_def USAGE_SCOPES_def RECORD_SCOPES_def with_scope_def)
  have b: "bind p tool a db = Inr q" and auth: "authorize_tool q tool (arg_opt_str a ''project_id'') = Inr ()"
    using assms(1) by (auto simp: admit_def and_then_Inr_iff)
  have "p_local q = p_local p" using b by (auto simp: bind_def Let_def split: if_splits option.splits pyval.splits prod.splits)
  then obtain i s where i: "py_get a ''project_id'' = PStr i" "i \<noteq> []" "p_project_id q = Some i"
    and s: "map_of TOOL_SCOPES tool = Some s" "s \<in> set (p_scopes q) \<or> ''admin'' \<in> set (p_scopes q)"
    using auth assms(2,3) by (auto simp: authorize_tool_Inr_iff arg_opt_str_def split: pyval.splits)
  obtain row role where acc: "access i (p_user_id p) db = (row, role)" by fastforce
  then have row: "project_row i db = row" "role = (case row of None \<Rightarrow> None | Some r \<Rightarrow> role_in r (p_user_id p) db)"
    by (auto simp: access_def split: option.splits)
  have admins: "''admin'' \<in> set (role_scopes x) \<Longrightarrow> x = ''owner''" "''write'' \<in> set (role_scopes x) \<Longrightarrow> x = ''write'' \<or> x = ''owner''" for x
    by (auto simp: role_scopes_def split: if_splits)
  show ?thesis using b assms(2) listing i(1) acc
  proof (cases rule: bindE)
    case elsewhere
    then show ?thesis using i s row by auto
  next
    case (member r)
    have sub: "set (p_scopes q) \<subseteq> set (role_scopes r)" using scopes_bound member(1) by blast
    have own: "x \<in> set (p_scopes p) \<or> ''admin'' \<in> set (p_scopes p) \<or> external p \<and> r = ''owner''" if "x \<in> set (p_scopes q)" for x
      using that member(1) scopes_bound [of x p i r] by (auto simp: widened_scopes_def split: if_splits)
    have need: "(s = ''write'' \<longrightarrow> r = ''write'' \<or> r = ''owner'') \<and> (s = ''admin'' \<longrightarrow> r = ''owner'')"
      using s(2) sub admins by blast
    have org: "external p \<longrightarrow> p_organization_id p = Some (pr_organization_id x)" if "row = Some x" for x
      using member(2) that by (auto simp: other_organization_def)
    have role: "role_in x (p_user_id p) db = Some r" if "row = Some x" for x using member(3) row(2) that by auto
    have user: "p_user_id q = p_user_id p" using member(1) by simp
    show ?thesis
    proof (cases row)
      case None
      then have "tool = ''memory_project_register''" "''projects'' \<in> set (p_scopes p)" using member(3,4) row(2) by auto
      then show ?thesis using i s(1) row(1) user None by auto
    next
      case (Some x)
      then show ?thesis using i s(1) row(1) sub own need org [OF Some] role [OF Some] user by auto
    qed
  qed
qed

subsection \<open>Revisions\<close>

inductive project_step :: "platform \<Rightarrow> (string \<Rightarrow> bool) \<Rightarrow> time \<Rightarrow> pdb \<Rightarrow> pdb \<Rightarrow> bool" for P B where
  step_register: "register_project P B now a p db = Inr (db', answer) \<Longrightarrow> project_step P B now db db'"
| step_assign: "assign_member now a p db = Inr (db', answer) \<Longrightarrow> project_step P B now db db'"
| step_occupy: "project_step P B now db (db\<lparr>namespaces := used\<rparr>)"

definition project_evolves :: "project \<Rightarrow> project \<Rightarrow> bool" where
  "project_evolves r r' \<longleftrightarrow> pr_id r' = pr_id r \<and> pr_owner_id r' = pr_owner_id r \<and> pr_created_at r' = pr_created_at r
     \<and> (pr_revision r < pr_revision r' \<or> r' = r)"

lemma project_evolves_refl: "project_evolves r r"
  by (simp add: project_evolves_def)

lemma project_evolves_trans: "project_evolves a b \<Longrightarrow> project_evolves b c \<Longrightarrow> project_evolves a c"
  by (auto simp: project_evolves_def)

lemma described_fields [simp]:
  "pr_id (described a r) = pr_id r" "pr_owner_id (described a r) = pr_owner_id r"
  "pr_created_at (described a r) = pr_created_at r" "pr_revision (described a r) = pr_revision r"
  by (simp_all add: described_def)

lemma revised_evolves: "project_evolves r (revised_project now a r)"
  by (simp add: project_evolves_def revised_project_def)

lemma new_project_fields [simp]:
  "pr_id (new_project now p a) = arg_str a ''project_id''" "pr_revision (new_project now p a) = 1"
  by (simp_all add: new_project_def)

lemma project_row_set:
  "(\<And>r. pr_id (f r) = pr_id r) \<Longrightarrow>
     project_row k (set_project i f db) = map_option (\<lambda>r. if pr_id r = i then f r else r) (project_row k db)"
  using fetchrow_update_where [of "\<lambda>r. pr_id r = i" "\<lambda>r. pr_id r = k" f "projects db"]
  by (simp add: project_row_def set_project_def)

lemma set_member_projects [simp]: "projects (set_member i user role who db) = projects db"
  by (simp add: set_member_def Let_def split: option.split)

lemma project_row_set_member [simp]: "project_row k (set_member i user role who db) = project_row k db"
  by (simp add: project_row_def)

lemma project_row_id: "project_row k db = Some r \<Longrightarrow> pr_id r = k"
  using fetchrow_SomeD by (fastforce simp: project_row_def)

lemma register_projectE:
  assumes "register_project P B now a p db = Inr (db', answer)"
  obtains (same) "db' = db"
    | (revised) r b where "project_row (arg_str a ''project_id'') db = Some r" "int (pr_revision r) = arg_int b ''expected_revision''"
        "db' = set_project (arg_str a ''project_id'') (revised_project now b) db" "pr_owner_id r = p_user_id p \<or> p_local p"
        "py_get b ''expected_revision'' = py_get a ''expected_revision''"
    | (created) b where "project_row (arg_str a ''project_id'') db = None" "arg_int b ''expected_revision'' = 0"
        "db' = db\<lparr>projects := insert_row (new_project now p b) (projects db)\<rparr>"
        "arg_str b ''project_id'' = arg_str a ''project_id''" "py_get b ''expected_revision'' = py_get a ''expected_revision''"
proof -
  let ?a = "with_git_defaults a" let ?i = "arg_str ?a ''project_id''" let ?row = "project_row ?i db"
  let ?b = "with_source_kind ?row ?a"
  have a: "py_get ?a k = py_get a k" if "k \<noteq> ''git_url''" "k \<noteq> ''git_ref''" for k
    using that by (auto simp: py_get_def with_git_defaults_def map_add_def split: option.splits)
  have b: "py_get ?b k = py_get ?a k" if "k \<noteq> ''source_kind''" for k
    using that by (auto simp: py_get_def with_source_kind_def map_add_def split: option.splits)
  have keys: "py_get ?b ''expected_revision'' = py_get a ''expected_revision''" "arg_str ?b ''project_id'' = arg_str a ''project_id''"
      "?i = arg_str a ''project_id''"
    using a b by (simp_all add: arg_str_def)
  show thesis
  proof (cases ?row)
    case None
    then show thesis using assms created [of ?b] keys
      by (auto simp: register_project_def Let_def and_then_Inr_iff)
  next
    case (Some r)
    then show thesis using assms same revised [of r ?b] keys
      by (auto simp: register_project_def Let_def and_then_Inr_iff split: if_splits)
  qed
qed

lemma assignE:
  assumes "assign_member now a p db = Inr (db', answer)"
  obtains (same) "db' = db"
    | (assigned) r where "project_row (arg_str a ''project_id'') db = Some r" "int (pr_revision r) = arg_int a ''expected_revision''"
        "db' = set_project (arg_str a ''project_id'') (\<lambda>x. x\<lparr>pr_revision := pr_revision x + 1, pr_updated_at := now\<rparr>)
           (set_member (arg_str a ''project_id'') (arg_str a ''user_id'') (desired_role a) (p_user_id p) db)"
        "pr_owner_id r = p_user_id p \<or> p_local p"
  using assms by (auto simp: assign_member_def Let_def and_then_Inr_iff split: option.splits if_splits)

lemma project_step_row:
  assumes "project_step P B now db db'" and "project_row k db = Some r"
  shows "\<exists>r'. project_row k db' = Some r' \<and> project_evolves r r'"
  using assms(1)
proof cases
  case (step_register a p answer)
  then show ?thesis
  proof (cases rule: register_projectE)
    case same
    then show ?thesis using assms(2) project_evolves_refl by blast
  next
    case (revised x b)
    then show ?thesis using assms(2) revised_evolves project_evolves_refl
      by (auto simp: project_row_set revised_project_def)
  next
    case (created b)
    then show ?thesis using assms(2) project_evolves_refl by (auto simp: project_row_def fetchrow_insert_row)
  qed
next
  case (step_assign a p answer)
  then show ?thesis
  proof (cases rule: assignE)
    case same
    then show ?thesis using assms(2) project_evolves_refl by blast
  next
    case (assigned x)
    then show ?thesis using assms(2) by (auto simp: project_row_set project_evolves_def)
  qed
next
  case (step_occupy used)
  then show ?thesis using assms(2) project_evolves_refl by (simp add: project_row_def)
qed

text \<open>An effective change of project \<open>i\<close> that expected revision \<open>v\<close>.\<close>

definition project_change :: "platform \<Rightarrow> (string \<Rightarrow> bool) \<Rightarrow> string \<Rightarrow> nat \<Rightarrow> pdb \<Rightarrow> pdb \<Rightarrow> bool" where
  "project_change P B i v db db' \<longleftrightarrow> db' \<noteq> db \<and>
     (\<exists>now a p answer. arg_str a ''project_id'' = i \<and> arg_int a ''expected_revision'' = int v
        \<and> (register_project P B now a p db = Inr (db', answer) \<or> assign_member now a p db = Inr (db', answer)))"

lemma project_changeE:
  assumes "project_change P B i v db db'"
  shows "revision_of (project_row i db) = v \<and> revision_of (project_row i db') = Suc v
    \<and> (\<exists>now. project_step P B now db db')"
proof -
  obtain now a p answer where a: "arg_str a ''project_id'' = i" "arg_int a ''expected_revision'' = int v"
    and d: "db' \<noteq> db" "register_project P B now a p db = Inr (db', answer) \<or> assign_member now a p db = Inr (db', answer)"
    using assms by (auto simp: project_change_def)
  have step: "\<exists>now. project_step P B now db db'" using d(2) by (blast intro: step_register step_assign)
  from d(2) show ?thesis
  proof
    assume "register_project P B now a p db = Inr (db', answer)"
    then show ?thesis
    proof (cases rule: register_projectE)
      case (revised r b)
      have "pr_id r = i" using revised(1) a(1) project_row_id by blast
      then show ?thesis using revised a step
        by (auto simp: project_row_set revised_project_def revision_of_def arg_int_def)
    next
      case (created b)
      then show ?thesis using a step
        by (auto simp: project_row_def fetchrow_insert_row revision_of_def arg_int_def)
    qed (use d(1) in simp)
  next
    assume "assign_member now a p db = Inr (db', answer)"
    then show ?thesis
    proof (cases rule: assignE)
      case (assigned r)
      have "pr_id r = i" using assigned(1) a(1) project_row_id by blast
      then show ?thesis using assigned a step by (auto simp: project_row_set revision_of_def)
    qed (use d(1) in simp)
  qed
qed

interpretation pj: row_history "project_step P B" "\<lambda>_. True" "\<lambda>db k. project_row k db" project_evolves for P B
  by unfold_locales (auto intro: project_step_row project_evolves_refl project_evolves_trans)

interpretation pv: versioned "\<lambda>db i. revision_of (project_row i db)" "project_change P B" for P B
  by unfold_locales (auto dest: project_changeE)

text \<open>
  No update is lost: after a change of a project that expected some revision
  has taken effect, whatever is registered and assigned since, no other change that expected
  the same revision ever does; the project keeps its owner and its revision has grown.
\<close>

lemma project_no_lost_update:
  assumes "project_change P B i v db db1" and "run (project_step P B) db1 ts db2"
  shows "\<not> project_change P B i v db2 db3
    \<and> (\<exists>r2. project_row i db2 = Some r2 \<and> v < pr_revision r2
        \<and> (\<forall>r. project_row i db = Some r \<longrightarrow> pr_owner_id r2 = pr_owner_id r))"
proof -
  have less: "revision_of (project_row i db) < revision_of (project_row i db1)" "revision_of (project_row i db) = v"
    using pv.change_version_less [OF assms(1)] project_changeE [OF assms(1)] by blast+
  then obtain r1 where r1: "project_row i db1 = Some r1" "v < pr_revision r1"
    by (cases "project_row i db1") (auto simp: revision_of_def)
  obtain r2 where r2: "project_row i db2 = Some r2" "project_evolves r1 r2"
    using pj.row_run [OF assms(2) TrueI r1(1)] by blast
  then have v: "v < pr_revision r2" using r1(2) by (auto simp: project_evolves_def)
  have "pr_owner_id r2 = pr_owner_id r" if "project_row i db = Some r" for r
  proof -
    obtain now where "project_step P B now db db1" using project_changeE [OF assms(1)] by blast
    then have "project_evolves r r1" using project_step_row that r1(1) by fastforce
    then show ?thesis using r2(2) by (simp add: project_evolves_def)
  qed
  moreover have "\<not> project_change P B i v db2 db3"
    using project_changeE [of P B i v db2 db3] r2(1) v by (auto simp: revision_of_def)
  ultimately show ?thesis using r2(1) v by blast
qed

subsection \<open>Witnesses\<close>

definition demo_registered :: project where
  "demo_registered = \<lparr>pr_id = ''web'', pr_organization_id = ''org'', pr_name = ''Web'', pr_git_url = None, pr_git_ref = None,
     pr_owner_id = ''ann'', pr_setup = PDict [], pr_source_kind = ''unknown'', pr_revision = 3,
     pr_created_at = 0, pr_updated_at = 0\<rparr>"

definition demo_directory :: pdb where
  "demo_directory = \<lparr>projects = [demo_registered],
     members = [\<lparr>pm_project_id = ''web'', pm_user_id = ''bob'', pm_role = ''write'', pm_assigned_by = ''ann''\<rparr>],
     namespaces = [''web'']\<rparr>"

definition demo_account :: "string \<Rightarrow> principal" where
  "demo_account user = \<lparr>p_user_id = user, p_project_id = None, p_scopes = [''projects'', ''admin''], p_local = False,
     p_provider = ''github'', p_organization_id = Some ''org''\<rparr>"

definition demo_assignment :: dict where
  "demo_assignment = [(''project_id'', PStr ''web''), (''user_id'', PStr ''eve''), (''role'', PStr ''read''),
     (''expected_revision'', PInt 3)]"

definition demo_directory_tokens :: "access_token list" where
  "demo_directory_tokens = create_token 1 ''secret'' ''shop'' ''bob'' [''projects'', ''admin''] (Some 100) []"

theorem auth_tenant_isolation_witness:
  "\<exists>p q. verify_token auth_platform 5 (Some ''secret'') demo_directory_tokens = Inr p
    \<and> admit p ''memory_handoff_push'' [(''project_id'', PStr ''web'')] demo_directory = Inr q
    \<and> p_user_id q = ''bob'' \<and> p_project_id q = Some ''web''"
proof -
  let ?a = "[(''project_id'', PStr ''web'')]"
  have "case verify_token auth_platform 5 (Some ''secret'') demo_directory_tokens of
      Inr p \<Rightarrow> is_ok (admit p ''memory_handoff_push'' ?a demo_directory) | _ \<Rightarrow> False" by code_simp
  then obtain p q where v: "verify_token auth_platform 5 (Some ''secret'') demo_directory_tokens = Inr p"
    and q: "admit p ''memory_handoff_push'' ?a demo_directory = Inr q"
    by (auto simp: is_ok_iff split: sum.splits)
  have user: "\<forall>r \<in> set demo_directory_tokens. at_user_id r = ''bob''" by code_simp
  obtain r where r: "r \<in> set demo_directory_tokens" "p_user_id q = at_user_id r"
      "\<exists>i. py_get ?a ''project_id'' = PStr i \<and> p_project_id q = Some i"
    using auth_tenant_isolation [OF v q] by auto
  then show ?thesis using v q user by (auto simp: py_get_def)
qed

theorem project_access_bounded_witness:
  "\<exists>q. admit (demo_account ''bob'') ''memory_handoff_push'' [(''project_id'', PStr ''web'')] demo_directory = Inr q
    \<and> set (p_scopes q) \<subseteq> set (role_scopes ''write'')"
proof -
  let ?a = "[(''project_id'', PStr ''web'')]" and ?p = "demo_account ''bob''"
  have "is_ok (admit ?p ''memory_handoff_push'' ?a demo_directory)" by code_simp
  then obtain q where q: "admit ?p ''memory_handoff_push'' ?a demo_directory = Inr q" by (auto simp: is_ok_iff)
  have f: "\<not> p_local ?p" "p_user_id ?p = ''bob''" "''memory_handoff_push'' \<in> set PROJECT_SCOPED_TOOLS" by code_simp+
  have r: "project_row ''web'' demo_directory = Some demo_registered" "role_in demo_registered ''bob'' demo_directory = Some ''write''"
    by code_simp+
  show ?thesis using project_access_bounded [OF q f(1,3)] q r f(2) by (auto simp: py_get_def)
qed

lemma project_no_lost_update_demo:
  "\<exists>db. project_change auth_platform (\<lambda>_. True) ''web'' 3 demo_directory db
    \<and> (\<forall>db3. \<not> project_change auth_platform (\<lambda>_. True) ''web'' 3 db db3)"
proof -
  let ?r = "assign_member 9 demo_assignment (demo_account ''ann'') demo_directory"
  have "is_ok ?r" "(case ?r of Inr (db, _) \<Rightarrow> length (members db) = 2 | _ \<Rightarrow> False)" by code_simp+
  then obtain db answer where db: "?r = Inr (db, answer)" "length (members db) = 2" by (auto simp: is_ok_iff)
  have "length (members demo_directory) = 1" by code_simp
  then have "db \<noteq> demo_directory" using db(2) by auto
  moreover have "arg_str demo_assignment ''project_id'' = ''web''" "arg_int demo_assignment ''expected_revision'' = int 3"
    by code_simp+
  ultimately have c: "project_change auth_platform (\<lambda>_. True) ''web'' 3 demo_directory db"
    using db(1) unfolding project_change_def by blast
  then show ?thesis using project_no_lost_update [OF c run_nil] by blast
qed

end
