(* ===== verification/Project_Records.thy ===== *)
theory Project_Records
  imports Projects
begin

text \<open>
  Reference records that members share in a project (projects/records.py, the table of
  migration 020): validation, the check of the author's current membership in the same
  transaction, publication under a client-chosen id, reading, and erasure.
\<close>

record shared_record =
  sr_sequence :: int
  sr_id :: uuid
  sr_project_id :: string
  sr_actor_id :: string
  sr_kind :: string
  sr_title :: string
  sr_body :: string
  sr_unit_id :: "string option"
  sr_refs :: pyval
  sr_occurred_at :: time
  sr_created_at :: time
  sr_payload_digest :: string
  sr_removed_at :: "time option"

record rdb = pdb +
  records :: "shared_record list"

definition bad_record :: "string \<Rightarrow> mem_error" where
  "bad_record msg = project_fail msg ''MEM-RECORD-INVALID'' 400"

definition unsafe_uri :: "(string \<Rightarrow> bool) \<Rightarrow> string \<Rightarrow> bool option" where
  \<comment> \<open>\<open>None\<close> is the ValueError of \<open>urlsplit\<close>\<close>
  "unsafe_uri bracketed_ok uri =
     map_option (\<lambda>u.
       let valid = (if u_scheme u \<noteq> []
             then u_scheme u = ''https'' \<and> hostname u \<noteq> [] \<and> \<not> given (username u) \<and> \<not> given (password u)
             else \<not> starts_with ''/'' uri \<and> CHR 0x5C \<notin> set uri \<and> ''..'' \<notin> set (split_on CHR ''/'' uri))
       in \<not> valid \<or> list_ex (\<lambda>c. code c < 32) uri \<or> credential_material uri)
     (urlsplit bracketed_ok uri)"

fun refs_ok :: "(string \<Rightarrow> bool) \<Rightarrow> pyval list \<Rightarrow> unit outcome" where
  "refs_ok bracketed_ok [] = Inr ()"
| "refs_ok bracketed_ok (r # rs) =
     (case unsafe_uri bracketed_ok (arg_str (dict_of r) ''uri'') of
        None \<Rightarrow> Inl (unhandled ''ValueError'')
      | Some unsafe \<Rightarrow>
          if unsafe then Inl (bad_record ''References must be relative paths or HTTPS URLs without credentials'')
          else refs_ok bracketed_ok rs)"

definition validate_content :: "platform \<Rightarrow> (string \<Rightarrow> bool) \<Rightarrow> dict \<Rightarrow> unit outcome" where
  "validate_content P bracketed_ok a =
     and_then (checked
       [(49152 < int (length (canonical P (PDict a))), bad_record ''Shared record exceeds the 48 KiB request budget''),
        (py_strip (arg_str a ''title'') = [] \<or> credential_material (arg_str a ''title'' @ [CHR 0x0A] @ arg_str a ''body''),
           bad_record ''Empty title or recognizable credentials in shared content'')] ())
     (\<lambda>_. refs_ok bracketed_ok (list_of (py_get a ''refs'')))"

definition sharing_role :: "dict \<Rightarrow> principal \<Rightarrow> ('x) pdb_scheme \<Rightarrow> string option outcome" where
  "sharing_role a p db =
     (if get_or a ''expected_actor'' (PStr (p_user_id p)) \<noteq> PStr (p_user_id p)
      then Inl (project_fail ''Sharing account changed; keep the local pending records'' ''MEM-RECORD-ACTOR'' 403)
      else case fetchrow (\<lambda>r. pr_id r = arg_str a ''project_id'') (projects db) of
        None \<Rightarrow> Inl (project_fail ''Register this project before sharing records'' ''MEM-RECORD-PROJECT'' 404)
      | Some r \<Rightarrow>
          let role = (if pr_owner_id r = p_user_id p then Some ''owner''
                else map_option pm_role (fetchrow (\<lambda>m. pm_project_id m = arg_str a ''project_id''
                       \<and> pm_user_id m = p_user_id p) (members db)))
          in checked [(role = None \<and> \<not> p_local p, no_access)] role)"

definition may_write :: "principal \<Rightarrow> string option \<Rightarrow> bool" where
  "may_write p role \<longleftrightarrow> role = Some ''write'' \<or> role = Some ''owner'' \<or> p_local p"

definition record_body :: "dict \<Rightarrow> dict" where
  "record_body a = map (\<lambda>k. (k, py_get a k)) [''kind'', ''title'', ''body'', ''unit_id'', ''refs'']"

definition record_at :: "uuid \<Rightarrow> rdb \<Rightarrow> shared_record option" where
  "record_at i db = fetchrow (\<lambda>r. sr_id r = i) (records db)"

definition put_answer :: "pyval \<Rightarrow> string \<Rightarrow> bool \<Rightarrow> bool \<Rightarrow> dict" where
  "put_answer i hashed removed existing = [(''record_id'', i), (''payload_digest'', PStr hashed),
     (''removed'', PBool removed), (''already_applied'', PBool existing)]"

definition occurred_at :: "platform \<Rightarrow> dict \<Rightarrow> time outcome" where
  "occurred_at P a =
     (case fromisoformat P (concat (map (\<lambda>c. if c = CHR ''Z'' then ''+00:00'' else [c]) (arg_str a ''occurred_at''))) of
        None \<Rightarrow> Inl (unhandled ''ValueError'')
      | Some (Aware t) \<Rightarrow> Inr t
      | Some (Naive _) \<Rightarrow> Inl (unhandled ''DataError''))"

definition new_record :: "int \<Rightarrow> time \<Rightarrow> time \<Rightarrow> string \<Rightarrow> dict \<Rightarrow> principal \<Rightarrow> shared_record" where
  "new_record seq now occurred hashed a p =
     \<lparr>sr_sequence = seq, sr_id = uuid_of (arg_str a ''record_id''), sr_project_id = arg_str a ''project_id'',
      sr_actor_id = p_user_id p, sr_kind = arg_str a ''kind'', sr_title = arg_str a ''title'',
      sr_body = arg_str a ''body'', sr_unit_id = arg_opt_str a ''unit_id'', sr_refs = py_get a ''refs'',
      sr_occurred_at = occurred, sr_created_at = now, sr_payload_digest = hashed, sr_removed_at = None\<rparr>"

definition put_record ::
    "platform \<Rightarrow> (string \<Rightarrow> bool) \<Rightarrow> int \<Rightarrow> time \<Rightarrow> dict \<Rightarrow> principal \<Rightarrow> rdb \<Rightarrow> (rdb \<times> dict) outcome" where
  "put_record P bracketed_ok seq now a p db =
     and_then (validate_content P bracketed_ok a) (\<lambda>_.
     let hashed = digest P (PDict (record_body a)); i = uuid_of (arg_str a ''record_id'')
     in and_then (sharing_role a p db) (\<lambda>role.
        and_then (checked [(\<not> may_write p role, no_access)] ()) (\<lambda>_.
        case record_at i db of
          Some r \<Rightarrow> checked
            [(sr_project_id r \<noteq> arg_str a ''project_id'' \<or> sr_actor_id r \<noteq> p_user_id p \<or> sr_payload_digest r \<noteq> hashed,
                project_fail ''Record ID already binds different content or identity'' ''MEM-RECORD-CONFLICT'' 409)]
            (db, put_answer (PStr (uuid_str (sr_id r))) hashed (sr_removed_at r \<noteq> None) True)
        | None \<Rightarrow>
            and_then (occurred_at P a) (\<lambda>occurred.
              Inr (db\<lparr>records := insert_row (new_record seq now occurred hashed a p) (records db)\<rparr>,
                   put_answer (py_get a ''record_id'') hashed False False)))))"

definition lower_contains :: "string \<Rightarrow> string \<Rightarrow> bool" where
  \<comment> \<open>\<open>ILIKE\<close> of the literal between two percent signs\<close>
  "lower_contains part s \<longleftrightarrow> search (starts_with (lower part)) (lower s)"

definition listed_record :: "(string \<Rightarrow> string \<Rightarrow> bool) \<Rightarrow> dict \<Rightarrow> shared_record \<Rightarrow> bool" where
  \<comment> \<open>the first argument is the full text search of the database\<close>
  "listed_record matches a r \<longleftrightarrow>
     (let query = py_strip (str_of (get_or a ''query'' (PStr [])))
      in sr_project_id r = arg_str a ''project_id'' \<and> sr_removed_at r = None
         \<and> (py_get a ''kind'' = PNone \<or> py_get a ''kind'' = PStr (sr_kind r))
         \<and> (py_get a ''unit_id'' = PNone \<or> py_get a ''unit_id'' = opt_str (sr_unit_id r))
         \<and> (py_get a ''before'' = PNone \<or> sr_sequence r < arg_int a ''before'')
         \<and> (query = [] \<or> matches (sr_title r @ '' '' @ sr_body r) query
            \<or> lower_contains query (sr_title r) \<or> lower_contains query (sr_body r)))"

definition wire :: "shared_record \<Rightarrow> pyval" where
  "wire r = PDict
     [(''sequence'', PInt (sr_sequence r)), (''project_id'', PStr (sr_project_id r)), (''actor_id'', PStr (sr_actor_id r)),
      (''kind'', PStr (sr_kind r)), (''title'', PStr (sr_title r)), (''body'', PStr (sr_body r)),
      (''unit_id'', opt_str (sr_unit_id r)), (''refs'', sr_refs r), (''occurred_at'', PTime (sr_occurred_at r)),
      (''created_at'', PTime (sr_created_at r)), (''payload_digest'', PStr (sr_payload_digest r)),
      (''record_id'', PStr (uuid_str (sr_id r))), (''citation'', PStr (''memory-project:'' @ uuid_str (sr_id r)))]"

definition sharing :: "principal \<Rightarrow> string option \<Rightarrow> bool" where
  "sharing p role \<longleftrightarrow> p_local p
     \<or> (''write'' \<in> set (p_scopes p) \<or> ''admin'' \<in> set (p_scopes p)) \<and> (role = Some ''write'' \<or> role = Some ''owner'')"

definition listed_rows :: "(string \<Rightarrow> string \<Rightarrow> bool) \<Rightarrow> dict \<Rightarrow> nat \<Rightarrow> rdb \<Rightarrow> shared_record list" where
  "listed_rows matches a n db = take n (rev (sort_key sr_sequence (filter (listed_record matches a) (records db))))"

definition list_records :: "(string \<Rightarrow> string \<Rightarrow> bool) \<Rightarrow> dict \<Rightarrow> principal \<Rightarrow> rdb \<Rightarrow> dict outcome" where
  "list_records matches a p db =
     and_then (sharing_role a p db) (\<lambda>role.
       let limit = nat (int_of (get_or a ''limit'' (PInt 30))); rows = listed_rows matches a (limit + 1) db
       in Inr
         [(''project_id'', py_get a ''project_id''), (''actor_id'', PStr (p_user_id p)), (''can_share'', PBool (sharing p role)),
          (''can_remove_any'', PBool (sharing p role \<and> (p_local p \<or> role = Some ''owner''))),
          (''items'', PList (map wire (take limit rows))),
          (''next_cursor'', if limit < length rows then PInt (sr_sequence (rows ! (limit - 1))) else PNone),
          (''usage'', PStr ''reference_only''), (''cache_policy'', PStr ''no_store'')])"

definition erased_record :: "time \<Rightarrow> shared_record \<Rightarrow> shared_record" where
  "erased_record now r = r\<lparr>sr_title := [], sr_body := [], sr_refs := PList [], sr_unit_id := None,
     sr_removed_at := (case sr_removed_at r of None \<Rightarrow> Some now | Some t \<Rightarrow> Some t)\<rparr>"

definition remove_record :: "time \<Rightarrow> dict \<Rightarrow> principal \<Rightarrow> rdb \<Rightarrow> (rdb \<times> dict) outcome" where
  "remove_record now a p db =
     (let i = uuid_of (arg_str a ''record_id'')
      in and_then (sharing_role a p db) (\<lambda>role.
         case fetchrow (\<lambda>r. sr_project_id r = arg_str a ''project_id'' \<and> sr_id r = i) (records db) of
           None \<Rightarrow> Inl no_access
         | Some r \<Rightarrow> checked
             [(sr_actor_id r \<noteq> p_user_id p \<and> role \<noteq> Some ''owner'' \<and> \<not> p_local p, no_access)]
             (db\<lparr>records := update_where (\<lambda>x. sr_id x = sr_id r) (erased_record now) (records db)\<rparr>,
              [(''record_id'', py_get a ''record_id''), (''removed'', PBool True)])))"

end
