(* ===== verification/Team_Assets.thy ===== *)
theory Team_Assets
  imports Skills
begin

text \<open>
  What a team shares (team/common.py, team/knowledge.py, team/assets.py, team/grants.py,
  team/feedback.py, the quarantine of team/exchange.py and the tables of migration 008):
  pushed knowledge snapshots, grants of one asset version to one consumer project, the live
  assets behind them, reported feedback, and imported skill archives. \<open>clk n\<close> is the n-th
  sample of the database clock in a transaction.
\<close>

subsection \<open>Tables\<close>

datatype doc_status = DC_active | DC_deleted

datatype doc_action = DA_sync | DA_delete

record document =
  do_id :: uuid
  do_project_id :: string
  do_provider :: string
  do_source_key :: string
  do_source_revision :: string
  do_version :: nat
  do_classification :: classification
  do_title :: string
  do_content :: string
  do_content_digest :: string
  do_status :: doc_status
  do_valid_until :: time
  do_created_at :: time
  do_updated_at :: time

record doc_event =
  de_document_id :: uuid
  de_version :: nat
  de_actor_id :: string
  de_action :: doc_action
  de_source_revision :: "string option"
  de_submission_digest :: string
  de_created_at :: time

record grant =
  gr_id :: uuid
  gr_project_id :: string
  gr_consumer_project_id :: string
  gr_asset_kind :: string
  gr_asset_id :: string
  gr_asset_version :: int
  gr_asset_digest :: string
  gr_classification :: classification
  gr_expires_at :: time
  gr_version :: nat
  gr_revoked_at :: "time option"
  gr_revoked_by :: "string option"
  gr_created_by :: string
  gr_idempotency_key :: string
  gr_submission_digest :: string
  gr_created_at :: time

record skill_import =
  im_id :: uuid
  im_project_id :: string
  im_origin_key :: string
  im_archive_digest :: string
  im_manifest_digest :: string
  im_artifact_digest :: string
  im_classification :: classification
  im_payload :: dict
  im_forgotten :: bool
  im_version :: nat
  im_created_by :: string
  im_idempotency_key :: string
  im_submission_digest :: string
  im_forgotten_by :: "string option"
  im_created_at :: time

record feedback =
  fb_id :: uuid
  fb_project_id :: string
  fb_actor_id :: string
  fb_asset_kind :: string
  fb_asset_id :: string
  fb_asset_version :: int
  fb_asset_digest :: string
  fb_owner_project_id :: string
  fb_grant_id :: "uuid option"
  fb_usefulness :: string
  fb_outcome :: string
  fb_handoff_id :: "uuid option"
  fb_evidence_digest :: "string option"
  fb_idempotency_key :: string
  fb_submission_digest :: string
  fb_created_at :: time

record tdb =
  td_skills :: skdb
  td_documents :: "document list"
  td_doc_events :: "doc_event list"
  td_grants :: "grant list"
  td_imports :: "skill_import list"
  td_feedback :: "feedback list"

abbreviation td_store :: "tdb \<Rightarrow> xdb" where
  "td_store db \<equiv> kd_store (td_skills db)"

subsection \<open>Shared guards\<close>

definition team_fail :: "string \<Rightarrow> string \<Rightarrow> int \<Rightarrow> mem_error" where
  "team_fail msg c status = memory_tool_error msg c [] status"

definition team_missing :: mem_error where
  "team_missing = team_fail ''Asset is unavailable in this scope'' ''MEM-TEAM-0001'' 404"

definition team_conflict :: mem_error where
  "team_conflict = team_fail ''Version, identity or receipt conflicts'' ''MEM-TEAM-0002'' 409"

definition team_fingerprint :: "platform \<Rightarrow> dict \<Rightarrow> string" where
  "team_fingerprint P a = digest P (PDict (dict_drop ''project_id'' (dict_drop ''idempotency_key'' a)))"

definition team_ceiling :: "classification \<Rightarrow> classification \<Rightarrow> unit outcome" where
  "team_ceiling level maximum = checked [(maximum < level, team_missing)] ()"

definition team_deadline :: "platform \<Rightarrow> time \<Rightarrow> int \<Rightarrow> string \<Rightarrow> time outcome" where
  "team_deadline P now n value = and_then (utc_time P value) (\<lambda>t. checked
     [(\<not> (now < t \<and> t \<le> now + days n),
       team_fail ''Validity must be in the future and within the allowed window'' ''MEM-TEAM-0003'' 400)] t)"

definition maximum_of :: "dict \<Rightarrow> classification" where
  "maximum_of a = class_of (str_of (get_or a ''max_classification'' (PStr ''internal'')))"

definition team_page :: "('r \<Rightarrow> time \<times> uuid) \<Rightarrow> string list \<Rightarrow> dict \<Rightarrow> cursor option \<Rightarrow> 'r list \<Rightarrow> 'r page outcome" where
  "team_page key scope a c rows = keyset_page key scope c (nat (int_of (get_or a ''limit'' (PInt 10)))) rows"

subsection \<open>Knowledge\<close>

text \<open>The normalized snapshot of a push, with the digest the caller declared.\<close>

definition snapshot_of :: "unicode \<Rightarrow> platform \<Rightarrow> dict \<Rightarrow> (string \<times> string \<times> string) outcome" where
  "snapshot_of U P a =
     (let title = py_strip (nfc U (arg_str a ''title'')); content = py_strip (nfc U (arg_str a ''content''));
          calculated = digest P (PDict [(''title'', PStr title), (''content'', PStr content)])
      in checked [(title = [] \<or> content = [] \<or> PStr calculated \<noteq> py_get a ''content_digest'',
           team_fail ''Normalized snapshot digest does not match'' ''MEM-TEAM-0003'' 400)] (title, content, calculated))"

definition sync_fingerprint :: "platform \<Rightarrow> dict \<Rightarrow> string \<Rightarrow> string \<Rightarrow> string" where
  "sync_fingerprint P a title content =
     team_fingerprint P (dict_put ''content'' (PStr content) (dict_put ''title'' (PStr title) a))"

definition document_of :: "dict \<Rightarrow> tdb \<Rightarrow> document option" where
  "document_of a db = fetchrow (\<lambda>d. do_project_id d = arg_str a ''project_id'' \<and> do_provider d = arg_str a ''provider''
     \<and> do_source_key d = arg_str a ''source_key'') (td_documents db)"

definition doc_receipt :: "uuid \<Rightarrow> int \<Rightarrow> tdb \<Rightarrow> doc_event option" where
  "doc_receipt i v db = fetchrow (\<lambda>e. de_document_id e = i \<and> int (de_version e) = v) (td_doc_events db)"

definition revision_used :: "uuid \<Rightarrow> string \<Rightarrow> tdb \<Rightarrow> bool" where
  "revision_used i source db = exists_row (\<lambda>e. de_document_id e = i \<and> de_source_revision e = Some source) (td_doc_events db)"

definition document_answer :: "uuid \<Rightarrow> int \<Rightarrow> bool \<Rightarrow> dict" where
  "document_answer i v replay = [(''document_id'', PStr (uuid_str i)), (''version'', PInt v), (''already_applied'', PBool replay)]"

definition is_sync_replay :: "doc_event option \<Rightarrow> string \<Rightarrow> string \<Rightarrow> bool" where
  "is_sync_replay receipt actor request \<longleftrightarrow> (case receipt of None \<Rightarrow> False
     | Some e \<Rightarrow> de_action e = DA_sync \<and> de_actor_id e = actor \<and> de_submission_digest e = request)"

definition synced_document :: "dict \<Rightarrow> string \<times> string \<times> string \<Rightarrow> time \<Rightarrow> time \<Rightarrow> document \<Rightarrow> document" where
  "synced_document a snap until now d = (case snap of (title, content, calculated) \<Rightarrow>
     d\<lparr>do_source_revision := arg_str a ''source_revision'', do_version := do_version d + 1,
       do_classification := class_of (arg_str a ''classification''), do_title := title, do_content := content,
       do_content_digest := calculated, do_status := DC_active, do_valid_until := until, do_updated_at := now\<rparr>)"

definition new_document :: "uuid \<Rightarrow> dict \<Rightarrow> string \<times> string \<times> string \<Rightarrow> time \<Rightarrow> time \<Rightarrow> document" where
  "new_document i a snap until now = (case snap of (title, content, calculated) \<Rightarrow>
     \<lparr>do_id = i, do_project_id = arg_str a ''project_id'', do_provider = arg_str a ''provider'',
      do_source_key = arg_str a ''source_key'', do_source_revision = arg_str a ''source_revision'', do_version = 1,
      do_classification = class_of (arg_str a ''classification''), do_title = title, do_content = content,
      do_content_digest = calculated, do_status = DC_active, do_valid_until = until, do_created_at = now, do_updated_at = now\<rparr>)"

definition sync_event :: "uuid \<Rightarrow> int \<Rightarrow> string \<Rightarrow> dict \<Rightarrow> string \<Rightarrow> time \<Rightarrow> doc_event" where
  "sync_event i v actor a request now =
     \<lparr>de_document_id = i, de_version = nat v, de_actor_id = actor, de_action = DA_sync,
      de_source_revision = Some (arg_str a ''source_revision''), de_submission_digest = request, de_created_at = now\<rparr>"

definition snapshot_fits :: "string \<times> string \<times> string \<Rightarrow> bool" where
  \<comment> \<open>the check of the table; normalization may have made a text longer than its schema allows\<close>
  "snapshot_fits snap \<longleftrightarrow> length (fst snap) \<le> 200 \<and> length (fst (snd snap)) \<le> 8192"

definition set_document :: "uuid \<Rightarrow> (document \<Rightarrow> document) \<Rightarrow> tdb \<Rightarrow> tdb" where
  "set_document i f db = db\<lparr>td_documents := update_where (\<lambda>d. do_id d = i) f (td_documents db)\<rparr>"

definition add_doc_event :: "doc_event \<Rightarrow> tdb \<Rightarrow> tdb" where
  "add_doc_event e db = db\<lparr>td_doc_events := insert_row e (td_doc_events db)\<rparr>"

definition sync_checks :: "dict \<Rightarrow> document option \<Rightarrow> tdb \<Rightarrow> unit outcome" where
  "sync_checks a old db =
     (let expected = arg_int a ''expected_version''
      in case old of
           None \<Rightarrow> checked [(expected \<noteq> 0, team_conflict)] ()
         | Some d \<Rightarrow> and_then (checked
             [(int (do_version d) \<noteq> expected, team_conflict),
              (revision_used (do_id d) (arg_str a ''source_revision'') db, team_conflict)] ())
             (\<lambda>_. team_ceiling (do_classification d) (class_of (arg_str a ''classification''))))"

definition sync_knowledge :: "unicode \<Rightarrow> platform \<Rightarrow> clock \<Rightarrow> uuid \<Rightarrow> string \<Rightarrow> dict \<Rightarrow> tdb \<Rightarrow> (tdb \<times> dict) outcome" where
  "sync_knowledge U P clk i actor a db =
     and_then (snapshot_of U P a) (\<lambda>snap.
     let request = sync_fingerprint P a (fst snap) (fst (snd snap)); old = document_of a db;
         v = arg_int a ''expected_version'' + 1
     in case (case old of None \<Rightarrow> None | Some d \<Rightarrow>
                if is_sync_replay (doc_receipt (do_id d) v db) actor request then Some d else None) of
          Some d \<Rightarrow> Inr (db, document_answer (do_id d) v True)
        | None \<Rightarrow> and_then (sync_checks a old db) (\<lambda>_.
            and_then (team_deadline P (clk 1) 7 (arg_str a ''valid_until'')) (\<lambda>until.
            if \<not> snapshot_fits snap then Inl (unhandled ''CheckViolationError'')
            else let j = (case old of None \<Rightarrow> i | Some d \<Rightarrow> do_id d);
                     db1 = (case old of
                         Some d \<Rightarrow> set_document (do_id d) (synced_document a snap until (clk 2)) db
                       | None \<Rightarrow> db\<lparr>td_documents := insert_row (new_document i a snap until (clk 2)) (td_documents db)\<rparr>)
                 in Inr (add_doc_event (sync_event j v actor a request (clk 3)) db1, document_answer j v False))))"

definition erased_document :: "time \<Rightarrow> document \<Rightarrow> document" where
  "erased_document now d = d\<lparr>do_title := [], do_content := [], do_status := DC_deleted, do_version := do_version d + 1,
     do_updated_at := now\<rparr>"

definition is_delete_replay :: "doc_event option \<Rightarrow> string \<Rightarrow> bool" where
  "is_delete_replay receipt actor \<longleftrightarrow> (case receipt of None \<Rightarrow> False
     | Some e \<Rightarrow> de_action e = DA_delete \<and> de_actor_id e = actor)"

definition delete_knowledge :: "platform \<Rightarrow> clock \<Rightarrow> string \<Rightarrow> dict \<Rightarrow> tdb \<Rightarrow> (tdb \<times> dict) outcome" where
  "delete_knowledge P clk actor a db =
     (let v = arg_int a ''expected_version'' + 1
      in case fetchrow (\<lambda>d. do_id d = arg_uuid a ''document_id'' \<and> do_project_id d = arg_str a ''project_id'') (td_documents db) of
        None \<Rightarrow> Inl team_missing
      | Some d \<Rightarrow>
          if is_delete_replay (doc_receipt (do_id d) v db) actor then Inr (db, document_answer (do_id d) v True)
          else if int (do_version d) \<noteq> arg_int a ''expected_version'' \<or> do_status d \<noteq> DC_active then Inl team_conflict
          else Inr (add_doc_event
              \<lparr>de_document_id = do_id d, de_version = nat v, de_actor_id = actor, de_action = DA_delete,
               de_source_revision = None, de_submission_digest = team_fingerprint P a, de_created_at = clk 2\<rparr>
              (set_document (do_id d) (erased_document (clk 1)) db), document_answer (do_id d) v False))"

definition doc_status_str :: "doc_status \<Rightarrow> string" where
  "doc_status_str s = (if s = DC_active then ''active'' else ''deleted'')"

definition document_dict :: "document \<Rightarrow> dict" where
  "document_dict d =
     [(''project_id'', PStr (do_project_id d)), (''provider'', PStr (do_provider d)), (''source_key'', PStr (do_source_key d)),
      (''source_revision'', PStr (do_source_revision d)), (''version'', PInt (int (do_version d))),
      (''classification'', PStr (class_str (do_classification d))), (''title'', PStr (do_title d)),
      (''content'', PStr (do_content d)), (''content_digest'', PStr (do_content_digest d)),
      (''status'', PStr (doc_status_str (do_status d))), (''valid_until'', PStr (isoformat (do_valid_until d))),
      (''created_at'', PStr (isoformat (do_created_at d))), (''updated_at'', PStr (isoformat (do_updated_at d))),
      (''document_id'', PStr (uuid_str (do_id d))), (''freshness'', PStr ''publisher_reported''),
      (''provider_revision_verified'', PBool False)]"

definition get_knowledge :: "time \<Rightarrow> dict \<Rightarrow> tdb \<Rightarrow> document outcome" where
  "get_knowledge now a db =
     (case fetchrow (\<lambda>d. do_id d = arg_uuid a ''document_id'' \<and> do_project_id d = arg_str a ''project_id''
             \<and> do_status d = DC_active \<and> now < do_valid_until d) (td_documents db) of
        None \<Rightarrow> Inl team_missing
      | Some d \<Rightarrow>
          if has_key a ''expected_version'' \<and> py_get a ''expected_version'' \<noteq> PInt (int (do_version d)) then Inl team_missing
          else and_then (team_ceiling (do_classification d) (maximum_of a)) (\<lambda>_. Inr d))"

definition read_knowledge :: "time \<Rightarrow> dict \<Rightarrow> tdb \<Rightarrow> dict outcome" where
  "read_knowledge now a db = and_then (get_knowledge now a db) (\<lambda>d.
     Inr [(''knowledge'', PDict (document_dict d)), (''usage'', PStr ''reference_only''), (''cache_policy'', PStr ''no_store'')])"

definition list_documents :: "dict \<Rightarrow> cursor option \<Rightarrow> tdb \<Rightarrow> document page outcome" where
  "list_documents a c db = team_page (\<lambda>d. (do_created_at d, do_id d)) [''knowledge'', arg_str a ''project_id''] a c
     (filter (\<lambda>d. do_project_id d = arg_str a ''project_id'') (td_documents db))"

subsection \<open>Live assets\<close>

record asset =
  as_kind :: string
  as_id :: string
  as_version :: int
  as_digest :: string
  as_classification :: classification
  as_data :: dict

definition asset_dict :: "asset \<Rightarrow> pyval" where
  "asset_dict x = PDict
     [(''asset_kind'', PStr (as_kind x)), (''asset_id'', PStr (as_id x)), (''asset_version'', PInt (as_version x)),
      (''asset_digest'', PStr (as_digest x)), (''classification'', PStr (class_str (as_classification x))),
      (''data'', PDict (as_data x))]"

definition skill_request :: "string \<Rightarrow> string \<Rightarrow> int \<Rightarrow> classification \<Rightarrow> string option \<Rightarrow> dict" where
  "skill_request project i v maximum lock =
     [(''project_id'', PStr project), (''revision_id'', PStr i), (''expected_version'', PInt v),
      (''max_classification'', PStr (class_str maximum)), (''source_lock_digest'', opt_str lock)]"

definition SKILL_FIELDS :: "string list" where
  "SKILL_FIELDS = [''project_id'', ''revision_id'', ''skill_id'', ''revision'', ''version'', ''name'', ''body'', ''classification'',
     ''source_lock_digest'', ''source_watermark'', ''content_digest'', ''sources'']"

definition skill_asset :: "platform \<Rightarrow> time \<Rightarrow> string \<Rightarrow> string \<Rightarrow> int \<Rightarrow> classification \<Rightarrow> string option \<Rightarrow> tdb \<Rightarrow> asset outcome" where
  "skill_asset P now project i v maximum lock db =
     and_then (get_skill P now False (skill_request project i v maximum lock) (td_skills db)) (\<lambda>row.
       Inr \<lparr>as_kind = ''skill'', as_id = i, as_version = v, as_digest = arg_str row ''content_digest'',
            as_classification = class_of (arg_str row ''classification''), as_data = map (\<lambda>k. (k, py_get row k)) SKILL_FIELDS\<rparr>)"

definition knowledge_request :: "string \<Rightarrow> string \<Rightarrow> int \<Rightarrow> classification \<Rightarrow> dict" where
  "knowledge_request project i v maximum =
     [(''project_id'', PStr project), (''document_id'', PStr i), (''expected_version'', PInt v),
      (''max_classification'', PStr (class_str maximum))]"

definition document_binding :: "document \<Rightarrow> dict" where
  "document_binding d = [(''document_id'', PStr (uuid_str (do_id d))), (''version'', PInt (int (do_version d))),
     (''source_revision'', PStr (do_source_revision d)), (''classification'', PStr (class_str (do_classification d))),
     (''content_digest'', PStr (do_content_digest d))]"

definition knowledge_asset :: "platform \<Rightarrow> time \<Rightarrow> string \<Rightarrow> string \<Rightarrow> int \<Rightarrow> classification \<Rightarrow> string option \<Rightarrow> tdb \<Rightarrow> asset outcome" where
  "knowledge_asset P now project i v maximum lock db =
     (if lock \<noteq> None then Inl team_missing
      else and_then (get_knowledge now (knowledge_request project i v maximum) db) (\<lambda>d.
        Inr \<lparr>as_kind = ''knowledge'', as_id = i, as_version = v, as_digest = digest P (PDict (document_binding d)),
             as_classification = do_classification d, as_data = document_dict d\<rparr>))"

definition shareable_memory :: "time \<Rightarrow> string \<Rightarrow> uuid \<Rightarrow> int \<Rightarrow> classification \<Rightarrow> string option \<Rightarrow> handoff list \<Rightarrow> experience \<Rightarrow> bool" where
  "shareable_memory now project i v maximum lock hs x \<longleftrightarrow>
     live_memory project now x \<and> xp_id x = i \<and> int (xp_version x) = v \<and> xp_classification x \<in> set (levels_upto maximum)
     \<and> (case lock of None \<Rightarrow> True | Some l \<Rightarrow> xp_source_lock_digest x = l) \<and> exists_row (bound_source x) hs"

definition experience_asset :: "platform \<Rightarrow> time \<Rightarrow> string \<Rightarrow> string \<Rightarrow> int \<Rightarrow> classification \<Rightarrow> string option \<Rightarrow> tdb \<Rightarrow> asset outcome" where
  "experience_asset P now project i v maximum lock db =
     (case fetchrow (shareable_memory now project (uuid_of i) v maximum lock (xd_handoffs (td_store db)))
             (xd_experiences (td_store db)) of
        None \<Rightarrow> Inl team_missing
      | Some x \<Rightarrow> Inr \<lparr>as_kind = ''experience'', as_id = i, as_version = v, as_digest = binding_digest P x,
          as_classification = xp_classification x,
          as_data = dict_of (summary_item P x) @ [(''content'', PStr (xp_content x)), (''tags'', strs (xp_tags x))]\<rparr>)"

definition resolve_asset ::
    "platform \<Rightarrow> time \<Rightarrow> string \<Rightarrow> string \<Rightarrow> string \<Rightarrow> int \<Rightarrow> classification \<Rightarrow> string option \<Rightarrow> tdb \<Rightarrow> asset outcome" where
  "resolve_asset P now project kind i v maximum lock db =
     (if kind = ''skill'' then skill_asset P now project i v maximum lock db
      else if kind = ''knowledge'' then knowledge_asset P now project i v maximum lock db
      else if kind = ''experience'' then experience_asset P now project i v maximum lock db
      else Inl team_missing)"

subsection \<open>Grants\<close>

definition grant_answer :: "uuid \<Rightarrow> int \<Rightarrow> string \<Rightarrow> bool \<Rightarrow> dict" where
  "grant_answer i v flag replay = [(''grant_id'', PStr (uuid_str i)), (''version'', PInt v), (flag, PBool replay)]"

definition canonical_id :: "string \<Rightarrow> string" where
  \<comment> \<open>the text of an id that went through a column of type uuid\<close>
  "canonical_id s = uuid_str (uuid_of s)"

definition new_grant :: "uuid \<Rightarrow> time \<Rightarrow> time \<Rightarrow> string \<Rightarrow> dict \<Rightarrow> asset \<Rightarrow> string \<Rightarrow> grant" where
  "new_grant i now expires actor a x request =
     \<lparr>gr_id = i, gr_project_id = arg_str a ''project_id'', gr_consumer_project_id = arg_str a ''consumer_project_id'',
      gr_asset_kind = as_kind x, gr_asset_id = canonical_id (as_id x), gr_asset_version = as_version x, gr_asset_digest = as_digest x,
      gr_classification = as_classification x, gr_expires_at = expires, gr_version = 1, gr_revoked_at = None,
      gr_revoked_by = None, gr_created_by = actor, gr_idempotency_key = arg_str a ''idempotency_key'',
      gr_submission_digest = request, gr_created_at = now\<rparr>"

definition create_grant :: "platform \<Rightarrow> clock \<Rightarrow> uuid \<Rightarrow> string \<Rightarrow> dict \<Rightarrow> tdb \<Rightarrow> (tdb \<times> dict) outcome" where
  "create_grant P clk i actor a db =
     (let project = arg_str a ''project_id''; request = team_fingerprint P a
      in if arg_str a ''consumer_project_id'' = project then Inl team_conflict
         else case fetchrow (\<lambda>g. gr_project_id g = project \<and> gr_created_by g = actor
                     \<and> gr_idempotency_key g = arg_str a ''idempotency_key'') (td_grants db) of
           Some g \<Rightarrow> checked [(gr_submission_digest g \<noteq> request, team_conflict)]
             (db, grant_answer (gr_id g) 1 ''already_exists'' True)
         | None \<Rightarrow> and_then (team_deadline P (clk 1) 30 (arg_str a ''expires_at'')) (\<lambda>expires.
             and_then (resolve_asset P (clk 2) project (arg_str a ''asset_kind'') (arg_str a ''asset_id'')
                 (arg_int a ''asset_version'') (maximum_of a) (arg_opt_str a ''source_lock_digest'') db) (\<lambda>x.
               Inr (db\<lparr>td_grants := insert_row (new_grant i (clk 3) expires actor a x request) (td_grants db)\<rparr>,
                    grant_answer i 1 ''already_exists'' False))))"

definition revoked_grant :: "time \<Rightarrow> string \<Rightarrow> grant \<Rightarrow> grant" where
  "revoked_grant now actor g = g\<lparr>gr_version := 2, gr_revoked_at := Some now, gr_revoked_by := Some actor\<rparr>"

definition revoke_grant :: "clock \<Rightarrow> string \<Rightarrow> dict \<Rightarrow> tdb \<Rightarrow> (tdb \<times> dict) outcome" where
  "revoke_grant clk actor a db =
     (case fetchrow (\<lambda>g. gr_id g = arg_uuid a ''grant_id'' \<and> gr_project_id g = arg_str a ''project_id'') (td_grants db) of
        None \<Rightarrow> Inl team_missing
      | Some g \<Rightarrow>
          if arg_int a ''expected_version'' = 1 \<and> gr_version g = 2 \<and> gr_revoked_by g = Some actor
          then Inr (db, grant_answer (gr_id g) 2 ''already_applied'' True)
          else if gr_version g \<noteq> 1 \<or> arg_int a ''expected_version'' \<noteq> 1 then Inl team_conflict
          else Inr (db\<lparr>td_grants := update_where (\<lambda>x. gr_id x = gr_id g) (revoked_grant (clk 1) actor) (td_grants db)\<rparr>,
                    grant_answer (gr_id g) 2 ''already_applied'' False))"

definition locate_grant :: "dict \<Rightarrow> tdb \<Rightarrow> grant outcome" where
  "locate_grant a db =
     (case fetchrow (\<lambda>g. gr_id g = arg_uuid a ''grant_id'' \<and> gr_consumer_project_id g = arg_str a ''project_id'') (td_grants db) of
        None \<Rightarrow> Inl team_missing | Some g \<Rightarrow> Inr g)"

definition resolve_grant :: "platform \<Rightarrow> clock \<Rightarrow> dict \<Rightarrow> tdb \<Rightarrow> (grant \<times> asset) outcome" where
  "resolve_grant P clk a db =
     and_then (locate_grant a db) (\<lambda>g.
     and_then (checked [(int (gr_version g) \<noteq> arg_int a ''grant_version'' \<or> gr_revoked_at g \<noteq> None, team_missing)] ()) (\<lambda>_.
     and_then (team_ceiling (gr_classification g) (maximum_of a)) (\<lambda>_.
     and_then (checked [(gr_expires_at g \<le> clk 1, team_missing)] ()) (\<lambda>_.
     and_then (resolve_asset P (clk 2) (gr_project_id g) (gr_asset_kind g) (gr_asset_id g) (gr_asset_version g)
         (gr_classification g) (arg_opt_str a ''source_lock_digest'') db) (\<lambda>x.
       checked [(as_digest x \<noteq> gr_asset_digest g, team_missing)] (g, x))))))"

definition read_shared :: "platform \<Rightarrow> clock \<Rightarrow> dict \<Rightarrow> tdb \<Rightarrow> dict outcome" where
  "read_shared P clk a db = and_then (resolve_grant P clk a db) (\<lambda>(g, x).
     Inr [(''grant_id'', PStr (uuid_str (gr_id g))), (''grant_version'', PInt (int (gr_version g))),
          (''owner_project_id'', PStr (gr_project_id g)), (''consumer_project_id'', PStr (gr_consumer_project_id g)),
          (''asset'', asset_dict x), (''usage'', PStr ''reference_only''), (''cache_policy'', PStr ''no_store'')])"

definition list_grants :: "dict \<Rightarrow> cursor option \<Rightarrow> tdb \<Rightarrow> grant page outcome" where
  "list_grants a c db = team_page (\<lambda>g. (gr_created_at g, gr_id g)) [''grants'', arg_str a ''project_id''] a c
     (filter (\<lambda>g. gr_project_id g = arg_str a ''project_id'') (td_grants db))"

subsection \<open>Feedback\<close>

definition missing_evidence :: "string \<Rightarrow> mem_error" where
  "missing_evidence msg = team_fail msg ''MEM-TEAM-0003'' 400"

definition feedback_evidence :: "dict \<Rightarrow> tdb \<Rightarrow> string option" where
  "feedback_evidence a db = map_option (\<lambda>h. hc_payload_digest (h_content h))
     (fetchrow (\<lambda>h. h_id h = arg_uuid a ''handoff_id'' \<and> h_project_id h = arg_str a ''project_id''
        \<and> hc_result_status (h_content h) = arg_str a ''outcome'' \<and> has_evidence h) (xd_handoffs (td_store db)))"

definition feedback_owner :: "dict \<Rightarrow> tdb \<Rightarrow> string outcome" where
  "feedback_owner a db = (if has_key a ''grant_id'' then and_then (locate_grant a db) (\<lambda>g. Inr (gr_project_id g))
     else Inr (arg_str a ''project_id''))"

definition feedback_asset :: "platform \<Rightarrow> clock \<Rightarrow> dict \<Rightarrow> tdb \<Rightarrow> asset outcome" where
  "feedback_asset P clk a db =
     (if has_key a ''grant_id''
      then and_then (resolve_grant P clk (dict_put ''max_classification'' (PStr ''restricted'') a) db) (\<lambda>(g, x). checked
        [(as_kind x \<noteq> arg_str a ''asset_kind'' \<or> as_id x \<noteq> arg_str a ''asset_id'' \<or> as_version x \<noteq> arg_int a ''asset_version'',
          team_missing)] x)
      else resolve_asset P (clk 2) (arg_str a ''project_id'') (arg_str a ''asset_kind'') (arg_str a ''asset_id'')
        (arg_int a ''asset_version'') C_restricted None db)"

definition new_feedback :: "uuid \<Rightarrow> time \<Rightarrow> string \<Rightarrow> dict \<Rightarrow> string \<Rightarrow> asset \<Rightarrow> string option \<Rightarrow> string \<Rightarrow> feedback" where
  "new_feedback i now actor a owner x evidence request =
     \<lparr>fb_id = i, fb_project_id = arg_str a ''project_id'', fb_actor_id = actor, fb_asset_kind = as_kind x, fb_asset_id = canonical_id (as_id x),
      fb_asset_version = as_version x, fb_asset_digest = as_digest x, fb_owner_project_id = owner,
      fb_grant_id = (if has_key a ''grant_id'' then Some (arg_uuid a ''grant_id'') else None),
      fb_usefulness = arg_str a ''usefulness'', fb_outcome = arg_str a ''outcome'',
      fb_handoff_id = (if has_key a ''handoff_id'' then Some (arg_uuid a ''handoff_id'') else None),
      fb_evidence_digest = evidence, fb_idempotency_key = arg_str a ''idempotency_key'', fb_submission_digest = request,
      fb_created_at = now\<rparr>"

definition record_feedback :: "platform \<Rightarrow> clock \<Rightarrow> uuid \<Rightarrow> string \<Rightarrow> dict \<Rightarrow> tdb \<Rightarrow> (tdb \<times> dict) outcome" where
  "record_feedback P clk i actor a db =
     (let attempted = arg_str a ''outcome'' \<noteq> ''not_attempted''; project = arg_str a ''project_id''; request = team_fingerprint P a
      in if attempted \<noteq> has_key a ''handoff_id'' \<or> has_key a ''grant_id'' \<noteq> has_key a ''grant_version''
         then Inl (missing_evidence ''Outcome requires evidence; shared feedback requires an exact grant version'')
         else and_then (feedback_owner a db) (\<lambda>owner.
           case fetchrow (\<lambda>f. fb_project_id f = project \<and> fb_actor_id f = actor
                  \<and> fb_idempotency_key f = arg_str a ''idempotency_key'') (td_feedback db) of
             Some f \<Rightarrow> checked [(fb_submission_digest f \<noteq> request, team_conflict)]
               (db, [(''feedback_id'', PStr (uuid_str (fb_id f))), (''already_exists'', PBool True)])
           | None \<Rightarrow> and_then (feedback_asset P clk a db) (\<lambda>x.
               if exists_row (\<lambda>f. fb_project_id f = project \<and> fb_actor_id f = actor \<and> fb_asset_kind f = as_kind x
                    \<and> fb_asset_id f = canonical_id (as_id x) \<and> fb_asset_version f = as_version x) (td_feedback db)
               then Inl team_conflict
               else let evidence = (if attempted then feedback_evidence a db else None)
                    in if attempted \<and> (evidence = None \<or> evidence = Some [])
                       then Inl (missing_evidence ''Reported outcome needs matching same-project handoff evidence'')
                       else Inr (db\<lparr>td_feedback := insert_row (new_feedback i (clk 3) actor a owner x evidence request) (td_feedback db)\<rparr>,
                         [(''feedback_id'', PStr (uuid_str i)), (''already_exists'', PBool False),
                          (''usage'', PStr ''reported_observation_only'')]))))"

definition list_feedback :: "dict \<Rightarrow> cursor option \<Rightarrow> tdb \<Rightarrow> feedback page outcome" where
  "list_feedback a c db =
     (let wanted = arg_opt_str a ''asset_id''
      in team_page (\<lambda>f. (fb_created_at f, fb_id f))
           [''feedback'', arg_str a ''project_id'', case wanted of None \<Rightarrow> ''None'' | Some i \<Rightarrow> i] a c
           (filter (\<lambda>f. fb_project_id f = arg_str a ''project_id'' \<and> (case wanted of None \<Rightarrow> True | Some i \<Rightarrow> fb_asset_id f = canonical_id i))
             (td_feedback db)))"

subsection \<open>Quarantined imports\<close>

text \<open>What the validation of an archive returns.\<close>

record import_artifact =
  ia_origin_key :: string
  ia_payload :: dict

definition import_answer :: "uuid \<Rightarrow> int \<Rightarrow> string \<Rightarrow> bool \<Rightarrow> dict" where
  "import_answer i v flag replay = [(''import_id'', PStr (uuid_str i)), (''version'', PInt v), (flag, PBool replay)]"

definition ingest_import :: "platform \<Rightarrow> clock \<Rightarrow> uuid \<Rightarrow> string \<Rightarrow> dict \<Rightarrow> import_artifact \<Rightarrow> tdb \<Rightarrow> (tdb \<times> dict) outcome" where
  "ingest_import P clk i actor a x db =
     (let project = arg_str a ''project_id''; request = team_fingerprint P (dict_drop ''archive_base64'' a)
      in case fetchrow (\<lambda>m. im_project_id m = project \<and> im_created_by m = actor
                \<and> im_idempotency_key m = arg_str a ''idempotency_key'') (td_imports db) of
           Some m \<Rightarrow> checked [(im_submission_digest m \<noteq> request, team_conflict)]
             (db, import_answer (im_id m) 1 ''already_exists'' True)
         | None \<Rightarrow>
             if exists_row (\<lambda>m. im_project_id m = project \<and> im_origin_key m = ia_origin_key x) (td_imports db) then Inl team_conflict
             else Inr (db\<lparr>td_imports := insert_row
                 \<lparr>im_id = i, im_project_id = project, im_origin_key = ia_origin_key x,
                  im_archive_digest = arg_str a ''archive_digest'', im_manifest_digest = arg_str a ''manifest_digest'',
                  im_artifact_digest = arg_str a ''artifact_digest'', im_classification = class_of (arg_str a ''classification''),
                  im_payload = ia_payload x, im_forgotten = False, im_version = 1, im_created_by = actor,
                  im_idempotency_key = arg_str a ''idempotency_key'', im_submission_digest = request, im_forgotten_by = None,
                  im_created_at = clk 1\<rparr> (td_imports db)\<rparr>,
               import_answer i 1 ''already_exists'' False
                 @ [(''status'', PStr ''quarantined''), (''usage'', PStr ''review_only''), (''trusted'', PBool False)]))"

definition import_row :: "dict \<Rightarrow> tdb \<Rightarrow> skill_import option" where
  "import_row a db = fetchrow (\<lambda>m. im_id m = arg_uuid a ''import_id'' \<and> im_project_id m = arg_str a ''project_id'') (td_imports db)"

definition inspect_import :: "dict \<Rightarrow> tdb \<Rightarrow> dict outcome" where
  "inspect_import a db =
     (case import_row a db of
        None \<Rightarrow> Inl team_missing
      | Some m \<Rightarrow> and_then (team_ceiling (im_classification m) (maximum_of a)) (\<lambda>_. Inr
          [(''import_id'', PStr (uuid_str (im_id m))), (''project_id'', PStr (im_project_id m)),
           (''origin_key'', PStr (im_origin_key m)), (''archive_digest'', PStr (im_archive_digest m)),
           (''artifact_digest'', PStr (im_artifact_digest m)), (''manifest_digest'', PStr (im_manifest_digest m)),
           (''classification'', PStr (class_str (im_classification m))), (''payload'', PDict (im_payload m)),
           (''status'', PStr (if im_forgotten m then ''forgotten'' else ''quarantined'')), (''version'', PInt (int (im_version m))),
           (''created_by'', PStr (im_created_by m)), (''forgotten_by'', opt_str (im_forgotten_by m)),
           (''created_at'', PStr (isoformat (im_created_at m))), (''usage'', PStr ''review_only''), (''trusted'', PBool False),
           (''cache_policy'', PStr ''no_store'')]))"

definition forgotten_import :: "string \<Rightarrow> skill_import \<Rightarrow> skill_import" where
  "forgotten_import actor m = m\<lparr>im_payload := [], im_forgotten := True, im_version := 2, im_forgotten_by := Some actor\<rparr>"

definition forget_import :: "string \<Rightarrow> dict \<Rightarrow> tdb \<Rightarrow> (tdb \<times> dict) outcome" where
  "forget_import actor a db =
     (case import_row a db of
        None \<Rightarrow> Inl team_missing
      | Some m \<Rightarrow>
          if arg_int a ''expected_version'' = 1 \<and> im_version m = 2 \<and> im_forgotten_by m = Some actor
          then Inr (db, import_answer (im_id m) 2 ''already_applied'' True)
          else if im_version m \<noteq> 1 \<or> arg_int a ''expected_version'' \<noteq> 1 then Inl team_conflict
          else Inr (db\<lparr>td_imports := update_where (\<lambda>x. im_id x = im_id m) (forgotten_import actor) (td_imports db)\<rparr>,
                    import_answer (im_id m) 2 ''already_applied'' False))"

definition list_imports :: "dict \<Rightarrow> cursor option \<Rightarrow> tdb \<Rightarrow> skill_import page outcome" where
  "list_imports a c db =
     (let wanted = str_of (get_or a ''status'' (PStr ''quarantined''))
      in team_page (\<lambda>m. (im_created_at m, im_id m)) [''imports'', arg_str a ''project_id'', wanted] a c
           (filter (\<lambda>m. im_project_id m = arg_str a ''project_id''
              \<and> (if im_forgotten m then ''forgotten'' else ''quarantined'') = wanted) (td_imports db)))"

end
