(* ===== verification/Team_Props.thy ===== *)
theory Team_Props
  imports Team_Assets Skills_Props
begin

text \<open>
  Properties of what a team shares: a shared read delivers only what its grant named, live
  at that moment, and never again after a revocation; and a published knowledge revision is
  never redefined.
\<close>

subsection \<open>Steps and the invariant\<close>

inductive team_step :: "unicode \<Rightarrow> platform \<Rightarrow> clock \<Rightarrow> tdb \<Rightarrow> tdb \<Rightarrow> bool" for U P where
  step_grant: "create_grant P clk i actor a db = Inr (db', answer) \<Longrightarrow> i \<notin> gr_id ` set (td_grants db)
    \<Longrightarrow> team_step U P clk db db'"
| step_revoke: "revoke_grant clk actor a db = Inr (db', answer) \<Longrightarrow> team_step U P clk db db'"
| step_sync: "sync_knowledge U P clk i actor a db = Inr (db', answer) \<Longrightarrow> i \<notin> do_id ` set (td_documents db)
    \<Longrightarrow> i \<notin> de_document_id ` set (td_doc_events db) \<Longrightarrow> team_step U P clk db db'"
| step_delete: "delete_knowledge P clk actor a db = Inr (db', answer) \<Longrightarrow> team_step U P clk db db'"
| step_feedback: "record_feedback P clk i actor a db = Inr (db', answer) \<Longrightarrow> team_step U P clk db db'"
| step_ingest: "ingest_import P clk i actor a x db = Inr (db', answer) \<Longrightarrow> team_step U P clk db db'"
| step_forget: "forget_import actor a db = Inr (db', answer) \<Longrightarrow> team_step U P clk db db'"
| step_skills: "skill_step U P clk (td_skills db) skills \<Longrightarrow> team_step U P clk db (db\<lparr>td_skills := skills\<rparr>)"

definition grant_row_ok :: "grant \<Rightarrow> bool" where
  \<comment> \<open>the checks of the table\<close>
  "grant_row_ok g \<longleftrightarrow> gr_project_id g \<noteq> gr_consumer_project_id g
     \<and> (gr_version g = 1 \<and> gr_revoked_at g = None \<and> gr_revoked_by g = None
        \<or> gr_version g = 2 \<and> gr_revoked_at g \<noteq> None \<and> gr_revoked_by g \<noteq> None)"

definition grants_ok :: "tdb \<Rightarrow> bool" where
  "grants_ok db \<longleftrightarrow> distinct (map gr_id (td_grants db)) \<and> (\<forall>g \<in> set (td_grants db). grant_row_ok g)"

definition doc_key :: "document \<Rightarrow> string \<times> string \<times> string" where
  "doc_key d = (do_project_id d, do_provider d, do_source_key d)"

definition events_bound :: "document list \<Rightarrow> doc_event list \<Rightarrow> bool" where
  "events_bound ds es \<longleftrightarrow> distinct (map (\<lambda>e. (de_document_id e, de_version e)) es)
     \<and> (\<forall>e \<in> set es. \<exists>d \<in> set ds. do_id d = de_document_id e \<and> de_version e \<le> do_version d)"

definition documents_ok :: "tdb \<Rightarrow> bool" where
  "documents_ok db \<longleftrightarrow> distinct (map do_id (td_documents db)) \<and> distinct (map doc_key (td_documents db))
     \<and> events_bound (td_documents db) (td_doc_events db)"

definition team_ok :: "tdb \<Rightarrow> bool" where
  "team_ok db \<longleftrightarrow> skills_ok (td_skills db) \<and> grants_ok db \<and> documents_ok db"

subsection \<open>Histories\<close>

definition grant_at :: "tdb \<Rightarrow> uuid \<Rightarrow> grant option" where
  "grant_at db i = fetchrow (\<lambda>g. gr_id g = i) (td_grants db)"

definition grant_evolves :: "grant \<Rightarrow> grant \<Rightarrow> bool" where
  "grant_evolves g g' \<longleftrightarrow> g' = g \<or> gr_version g = 1 \<and> (\<exists>t actor. g' = revoked_grant t actor g)"

definition document_at :: "tdb \<Rightarrow> string \<times> string \<times> string \<Rightarrow> document option" where
  "document_at db k = fetchrow (\<lambda>d. doc_key d = k) (td_documents db)"

definition doc_evolves :: "document \<Rightarrow> document \<Rightarrow> bool" where
  "doc_evolves d d' \<longleftrightarrow> do_id d' = do_id d \<and> do_classification d \<le> do_classification d' \<and> do_version d \<le> do_version d'
     \<and> (do_version d' = do_version d \<longrightarrow> d' = d)"

definition event_kept :: "tdb \<Rightarrow> doc_event \<Rightarrow> doc_event option" where
  "event_kept db e = (if e \<in> set (td_doc_events db) then Some e else None)"

lemma revoked_grant_fields [simp]:
  "gr_id (revoked_grant t actor g) = gr_id g" "gr_project_id (revoked_grant t actor g) = gr_project_id g"
  "gr_consumer_project_id (revoked_grant t actor g) = gr_consumer_project_id g" "gr_version (revoked_grant t actor g) = 2"
  "gr_revoked_at (revoked_grant t actor g) = Some t" "gr_revoked_by (revoked_grant t actor g) = Some actor"
  by (simp_all add: revoked_grant_def)

lemma grant_evolves_refl: "grant_evolves g g"
  by (simp add: grant_evolves_def)

lemma grant_evolves_trans: "grant_evolves a b \<Longrightarrow> grant_evolves b c \<Longrightarrow> grant_evolves a c"
  by (auto simp: grant_evolves_def)

lemma doc_evolves_refl: "doc_evolves d d"
  by (simp add: doc_evolves_def)

lemma doc_evolves_trans: "doc_evolves a b \<Longrightarrow> doc_evolves b c \<Longrightarrow> doc_evolves a c"
  by (auto simp: doc_evolves_def)

text \<open>The tables a step leaves alone, and how it changes the others.\<close>

lemma create_grantE:
  assumes "create_grant P clk i actor a db = Inr (db', answer)"
  obtains (same) "db' = db"
    | (granted) g where "db' = db\<lparr>td_grants := insert_row g (td_grants db)\<rparr>" "gr_id g = i" "grant_row_ok g"
proof -
  let ?p = "\<lambda>g. gr_project_id g = arg_str a ''project_id'' \<and> gr_created_by g = actor
    \<and> gr_idempotency_key g = arg_str a ''idempotency_key''"
  have own: "arg_str a ''consumer_project_id'' \<noteq> arg_str a ''project_id''"
    using assms by (auto simp: create_grant_def)
  show thesis
  proof (cases "fetchrow ?p (td_grants db)")
    case (Some g)
    then have "db' = db" using assms own by (simp add: create_grant_def Let_def)
    then show thesis by (rule same)
  next
    case None
    then obtain expires x where
      "db' = db\<lparr>td_grants := insert_row (new_grant i (clk 3) expires actor a x (team_fingerprint P a)) (td_grants db)\<rparr>"
      using assms own by (simp add: create_grant_def Let_def and_then_Inr_iff) blast
    then show thesis by (rule granted) (use own in \<open>simp_all add: new_grant_def grant_row_ok_def\<close>)
  qed
qed

lemma revoke_grantE:
  assumes "revoke_grant clk actor a db = Inr (db', answer)"
  obtains (replayed) g where "db' = db" "g \<in> set (td_grants db)" "gr_id g = arg_uuid a ''grant_id''" "gr_version g = 2"
    | (revoked) g where "g \<in> set (td_grants db)" "gr_id g = arg_uuid a ''grant_id''" "gr_version g = 1"
        "db' = db\<lparr>td_grants := update_where (\<lambda>x. gr_id x = gr_id g) (revoked_grant (clk 1) actor) (td_grants db)\<rparr>"
proof -
  obtain g where f: "fetchrow (\<lambda>g. gr_id g = arg_uuid a ''grant_id'' \<and> gr_project_id g = arg_str a ''project_id'') (td_grants db) = Some g"
    using assms by (fastforce simp: revoke_grant_def split: option.splits)
  then have g: "g \<in> set (td_grants db)" "gr_id g = arg_uuid a ''grant_id''" using fetchrow_SomeD by fastforce+
  show thesis
  proof (cases "arg_int a ''expected_version'' = 1 \<and> gr_version g = 2 \<and> gr_revoked_by g = Some actor")
    case True
    then have "db' = db" using assms f by (simp add: revoke_grant_def)
    then show thesis using replayed g True by blast
  next
    case False
    then have "gr_version g = 1 \<and>
        db' = db\<lparr>td_grants := update_where (\<lambda>x. gr_id x = gr_id g) (revoked_grant (clk 1) actor) (td_grants db)\<rparr>"
      using assms f by (auto simp: revoke_grant_def split: if_splits)
    then show thesis using revoked g by blast
  qed
qed

lemma feedback_frame: "record_feedback P clk i actor a db = Inr (db', answer) \<Longrightarrow> \<exists>fs. db' = db\<lparr>td_feedback := fs\<rparr>"
proof -
  assume r: "record_feedback P clk i actor a db = Inr (db', answer)"
  have same: "\<exists>fs. db = db\<lparr>td_feedback := fs\<rparr>" by (rule exI [of _ "td_feedback db"]) simp
  show ?thesis using r same
    by (auto simp: record_feedback_def Let_def and_then_Inr_iff split: if_splits option.splits)
qed

lemma imports_frame:
  "ingest_import P clk i actor a x db = Inr (db', answer) \<or> forget_import actor a db = Inr (db', answer)
    \<Longrightarrow> \<exists>ms. db' = db\<lparr>td_imports := ms\<rparr>"
proof -
  assume r: "ingest_import P clk i actor a x db = Inr (db', answer) \<or> forget_import actor a db = Inr (db', answer)"
  have same: "\<exists>ms. db = db\<lparr>td_imports := ms\<rparr>" by (rule exI [of _ "td_imports db"]) simp
  show ?thesis using r same
    by (auto simp: ingest_import_def forget_import_def Let_def split: if_splits option.splits)
qed

subsection \<open>Documents\<close>

lemma sync_knowledgeE:
  assumes "sync_knowledge U P clk i actor a db = Inr (db', answer)"
  obtains (replayed) d where "db' = db" "document_of a db = Some d"
      "answer = document_answer (do_id d) (arg_int a ''expected_version'' + 1) True"
    | (updated) d snap until request where "document_of a db = Some d" "int (do_version d) = arg_int a ''expected_version''"
        "\<not> revision_used (do_id d) (arg_str a ''source_revision'') db"
        "do_classification d \<le> class_of (arg_str a ''classification'')"
        "db' = add_doc_event (sync_event (do_id d) (arg_int a ''expected_version'' + 1) actor a request (clk 3))
          (set_document (do_id d) (synced_document a snap until (clk 2)) db)"
        "answer = document_answer (do_id d) (arg_int a ''expected_version'' + 1) False"
    | (created) snap until request where "document_of a db = None" "arg_int a ''expected_version'' = 0"
        "db' = add_doc_event (sync_event i 1 actor a request (clk 3))
          (db\<lparr>td_documents := insert_row (new_document i a snap until (clk 2)) (td_documents db)\<rparr>)"
        "answer = document_answer i 1 False"
proof -
  obtain snap where snap: "snapshot_of U P a = Inr snap" using assms by (auto simp: sync_knowledge_def and_then_Inr_iff)
  let ?request = "sync_fingerprint P a (fst snap) (fst (snd snap))" and ?v = "arg_int a ''expected_version'' + 1"
  show thesis
  proof (cases "document_of a db")
    case None
    then obtain until where "arg_int a ''expected_version'' = 0"
        "db' = add_doc_event (sync_event i 1 actor a ?request (clk 3))
          (db\<lparr>td_documents := insert_row (new_document i a snap until (clk 2)) (td_documents db)\<rparr>)" "answer = document_answer i 1 False"
      using assms snap by (auto simp: sync_knowledge_def sync_checks_def Let_def and_then_Inr_iff split: if_splits)
    then show thesis using created None by blast
  next
    case (Some d)
    show thesis
    proof (cases "is_sync_replay (doc_receipt (do_id d) ?v db) actor ?request")
      case True
      then have "db' = db \<and> answer = document_answer (do_id d) ?v True"
        using assms snap Some by (simp add: sync_knowledge_def Let_def)
      then show thesis using replayed Some by blast
    next
      case False
      then obtain until where "int (do_version d) = arg_int a ''expected_version''"
          "\<not> revision_used (do_id d) (arg_str a ''source_revision'') db" "do_classification d \<le> class_of (arg_str a ''classification'')"
          "db' = add_doc_event (sync_event (do_id d) ?v actor a ?request (clk 3))
            (set_document (do_id d) (synced_document a snap until (clk 2)) db)" "answer = document_answer (do_id d) ?v False"
        using assms snap Some
        by (auto simp: sync_knowledge_def sync_checks_def team_ceiling_def Let_def and_then_Inr_iff not_less
            simp del: class_of.simps split: if_splits)
      then show thesis using updated Some by blast
    qed
  qed
qed

lemma delete_knowledgeE:
  assumes "delete_knowledge P clk actor a db = Inr (db', answer)"
  obtains (replayed) "db' = db"
    | (deleted) d e where "d \<in> set (td_documents db)" "de_document_id e = do_id d" "de_version e = do_version d + 1"
        "de_source_revision e = None" "db' = add_doc_event e (set_document (do_id d) (erased_document (clk 1)) db)"
proof -
  obtain d where f: "fetchrow (\<lambda>d. do_id d = arg_uuid a ''document_id'' \<and> do_project_id d = arg_str a ''project_id'') (td_documents db) = Some d"
    using assms by (fastforce simp: delete_knowledge_def Let_def split: option.splits)
  then have d: "d \<in> set (td_documents db)" using fetchrow_SomeD by fastforce
  show thesis
  proof (cases "is_delete_replay (doc_receipt (do_id d) (arg_int a ''expected_version'' + 1) db) actor")
    case True
    then have "db' = db" using assms f by (simp add: delete_knowledge_def Let_def)
    then show thesis by (rule replayed)
  next
    case False
    let ?e = "\<lparr>de_document_id = do_id d, de_version = nat (arg_int a ''expected_version'' + 1), de_actor_id = actor, de_action = DA_delete,
      de_source_revision = None, de_submission_digest = team_fingerprint P a, de_created_at = clk 2\<rparr>"
    have "int (do_version d) = arg_int a ''expected_version'' \<and> db' = add_doc_event ?e (set_document (do_id d) (erased_document (clk 1)) db)"
      using assms f False by (auto simp: delete_knowledge_def Let_def split: if_splits)
    then show thesis using deleted [of d ?e] d by (auto simp: nat_eq_iff)
  qed
qed

definition doc_history :: "tdb \<Rightarrow> tdb \<Rightarrow> bool" where
  "doc_history db db' \<longleftrightarrow>
     (\<forall>k d. document_at db k = Some d \<longrightarrow> (\<exists>d'. document_at db' k = Some d' \<and> doc_evolves d d'))
     \<and> set (td_doc_events db) \<subseteq> set (td_doc_events db')"

lemma events_bound_append:
  assumes "events_bound ds es" and "d \<in> set ds" and "de_document_id e = do_id d" and "de_version e = do_version d + 1"
    and "distinct (map do_id ds)" and "\<And>x. x \<in> set ds \<Longrightarrow> \<exists>y \<in> set ds'. do_id y = do_id x \<and> do_version x \<le> do_version y"
    and "\<exists>y \<in> set ds'. do_id y = do_id d \<and> de_version e \<le> do_version y"
  shows "events_bound ds' (es @ [e])"
proof -
  have "(de_document_id e, de_version e) \<noteq> (de_document_id x, de_version x)" if x: "x \<in> set es" for x
  proof
    assume eq: "(de_document_id e, de_version e) = (de_document_id x, de_version x)"
    obtain y where y: "y \<in> set ds" "do_id y = de_document_id x" "de_version x \<le> do_version y"
      using assms(1) x unfolding events_bound_def by blast
    then have "y = d" using assms(2,3,5) eq by (metis distinct_map inj_onD prod.inject)
    then show False using y(3) eq assms(4) by simp
  qed
  then have "(de_document_id e, de_version e) \<notin> (\<lambda>e. (de_document_id e, de_version e)) ` set es" by blast
  moreover have "\<exists>y \<in> set ds'. do_id y = de_document_id x \<and> de_version x \<le> do_version y" if "x \<in> set es" for x
    using assms(1,6) that unfolding events_bound_def by (metis le_trans)
  ultimately show ?thesis using assms(1,3,7) by (auto simp: events_bound_def)
qed

lemma change_document:
  assumes ok: "documents_ok db" and d: "d \<in> set (td_documents db)"
    and f: "\<And>x. do_id (f x) = do_id x \<and> doc_key (f x) = doc_key x \<and> do_version (f x) = do_version x + 1"
    and c: "do_classification d \<le> do_classification (f d)"
    and e: "de_document_id e = do_id d" "de_version e = do_version d + 1"
  shows "documents_ok (add_doc_event e (set_document (do_id d) f db))" (is "documents_ok ?db")
    and "doc_history db (add_doc_event e (set_document (do_id d) f db))"
proof -
  let ?g = "\<lambda>x. if do_id x = do_id d then f x else x" and ?ds = "td_documents db"
  have docs: "td_documents ?db = map ?g ?ds" and evs: "td_doc_events ?db = td_doc_events db @ [e]"
    by (simp_all add: add_doc_event_def set_document_def update_where_def insert_row_def)
  have keys: "map do_id (map ?g ?ds) = map do_id ?ds" "map doc_key (map ?g ?ds) = map doc_key ?ds" using f by simp_all
  have dist: "distinct (map do_id ?ds)" using ok by (simp add: documents_ok_def)
  have only: "x = d" if "x \<in> set ?ds" "do_id x = do_id d" for x using dist d that by (auto simp: distinct_map dest: inj_onD)
  have "events_bound (map ?g ?ds) (td_doc_events db @ [e])"
  proof (rule events_bound_append [OF _ d e dist])
    show "events_bound ?ds (td_doc_events db)" using ok by (simp add: documents_ok_def)
    show "\<exists>y \<in> set (map ?g ?ds). do_id y = do_id x \<and> do_version x \<le> do_version y" if "x \<in> set ?ds" for x
      using that f by (intro bexI [of _ "?g x"]) auto
    show "\<exists>y \<in> set (map ?g ?ds). do_id y = do_id d \<and> de_version e \<le> do_version y"
      using d f e by (intro bexI [of _ "?g d"]) auto
  qed
  then show "documents_ok ?db" using ok unfolding documents_ok_def docs evs keys by blast
  have "\<exists>d'. document_at ?db k = Some d' \<and> doc_evolves d0 d'" if k: "document_at db k = Some d0" for k d0
  proof -
    have "fetchrow (\<lambda>x. doc_key x = k) (map ?g ?ds) = map_option ?g (fetchrow (\<lambda>x. doc_key x = k) ?ds)"
      by (rule fetchrow_map) (use f in simp)
    then have "document_at ?db k = Some (?g d0)" using k by (simp add: document_at_def docs)
    moreover have "d0 \<in> set ?ds" using k fetchrow_SomeD by (fastforce simp: document_at_def)
    then have "doc_evolves d0 (?g d0)" using only f c by (auto simp: doc_evolves_def)
    ultimately show ?thesis by blast
  qed
  then show "doc_history db ?db" by (auto simp: doc_history_def evs)
qed

lemma insert_document:
  assumes ok: "documents_ok db" and d: "do_id d \<notin> do_id ` set (td_documents db)" "document_at db (doc_key d) = None"
    and e: "de_document_id e = do_id d" "de_version e = do_version d" "do_id d \<notin> de_document_id ` set (td_doc_events db)"
  shows "documents_ok (add_doc_event e (db\<lparr>td_documents := insert_row d (td_documents db)\<rparr>))" (is "documents_ok ?db")
    and "doc_history db (add_doc_event e (db\<lparr>td_documents := insert_row d (td_documents db)\<rparr>))"
proof -
  have docs: "td_documents ?db = td_documents db @ [d]" and evs: "td_doc_events ?db = td_doc_events db @ [e]"
    by (simp_all add: add_doc_event_def insert_row_def)
  have "doc_key d \<notin> doc_key ` set (td_documents db)" using d(2) by (force simp: document_at_def fetchrow_None_iff)
  then show "documents_ok ?db" using ok d(1) e
    unfolding documents_ok_def docs evs events_bound_def by (auto simp: image_iff)
  show "doc_history db ?db"
    using doc_evolves_refl by (auto simp: doc_history_def evs document_at_def docs fetchrow_append)
qed

lemma team_step_documents:
  assumes ok: "documents_ok db" and step: "team_step U P clk db db'"
  shows "documents_ok db' \<and> doc_history db db'"
proof -
  have keep: "documents_ok x \<and> doc_history db x"
    if "td_documents x = td_documents db" "td_doc_events x = td_doc_events db" for x
    using that ok doc_evolves_refl by (simp add: documents_ok_def doc_history_def document_at_def)
  from step show ?thesis
  proof cases
    case (step_grant i actor a answer)
    from step_grant(1) show ?thesis by (cases rule: create_grantE) (simp_all add: keep)
  next
    case (step_revoke actor a answer)
    from step_revoke(1) show ?thesis by (cases rule: revoke_grantE) (simp_all add: keep)
  next
    case (step_sync i actor a answer)
    from step_sync(1) show ?thesis
    proof (cases rule: sync_knowledgeE)
      case (replayed d)
      then show ?thesis by (simp add: keep)
    next
      case (updated d snap until request)
      have "d \<in> set (td_documents db)" using updated(1) fetchrow_SomeD by (fastforce simp: document_of_def)
      then show ?thesis unfolding updated(5)
        by (intro conjI change_document [OF ok])
          (use updated(2,4) in \<open>auto simp: synced_document_def doc_key_def sync_event_def simp del: class_of.simps split: prod.splits\<close>)
    next
      case (created snap until request)
      have "document_at db (doc_key (new_document i a snap until (clk 2))) = None"
        using created(1) by (auto simp: document_of_def document_at_def doc_key_def new_document_def fetchrow_None_iff split: prod.splits)
      then show ?thesis unfolding created(3)
        by (intro conjI insert_document [OF ok])
          (use step_sync(2,3) in \<open>auto simp: new_document_def sync_event_def split: prod.splits\<close>)
    qed
  next
    case (step_delete actor a answer)
    from step_delete(1) show ?thesis
    proof (cases rule: delete_knowledgeE)
      case replayed
      then show ?thesis by (simp add: keep)
    next
      case (deleted d e)
      then show ?thesis unfolding deleted(5)
        by (intro conjI change_document [OF ok deleted(1)]) (auto simp: erased_document_def doc_key_def)
    qed
  next
    case (step_feedback i actor a answer)
    from feedback_frame [OF step_feedback(1)] show ?thesis by (elim exE) (simp add: keep)
  next
    case (step_ingest i actor a x answer)
    from imports_frame [OF disjI1 [OF step_ingest(1)]] show ?thesis by (elim exE) (simp add: keep)
  next
    case (step_forget actor a answer)
    from imports_frame [OF disjI2 [OF step_forget(1)]] show ?thesis by (elim exE) (simp add: keep)
  next
    case (step_skills skills)
    then show ?thesis by (simp add: keep)
  qed
qed

definition grant_history :: "tdb \<Rightarrow> tdb \<Rightarrow> bool" where
  "grant_history db db' \<longleftrightarrow> (\<forall>i g. grant_at db i = Some g \<longrightarrow> (\<exists>g'. grant_at db' i = Some g' \<and> grant_evolves g g'))"

lemma revoke_table:
  assumes ok: "grants_ok db" and g: "g \<in> set (td_grants db)" "gr_version g = 1"
    and db': "td_grants db' = update_where (\<lambda>x. gr_id x = gr_id g) (revoked_grant t actor) (td_grants db)"
  shows "grants_ok db' \<and> grant_history db db' \<and> grant_at db' (gr_id g) = Some (revoked_grant t actor g)"
proof -
  let ?f = "\<lambda>x. if gr_id x = gr_id g then revoked_grant t actor x else x"
  have dist: "distinct (map gr_id (td_grants db))" and rows: "\<forall>x \<in> set (td_grants db). grant_row_ok x"
    using ok by (simp_all add: grants_ok_def)
  have only: "x = g" if "x \<in> set (td_grants db)" "gr_id x = gr_id g" for x
    using update_one [OF dist g(1) that] .
  have tab: "td_grants db' = map ?f (td_grants db)" using db' by (simp add: update_where_def)
  have keys: "map gr_id (map ?f (td_grants db)) = map gr_id (td_grants db)" by simp
  have "grant_row_ok (?f x)" if "x \<in> set (td_grants db)" for x
    using rows only [OF that] that by (auto simp: grant_row_ok_def)
  then have "grants_ok db'" using dist unfolding grants_ok_def tab keys set_map by blast
  moreover have at: "grant_at db' i = map_option ?f (grant_at db i)" for i
    using fetchrow_map [of gr_id ?f i "td_grants db"] by (simp add: grant_at_def tab)
  have "grant_evolves x (?f x)" if "grant_at db i = Some x" for i x
    using only [of x] g(2) that fetchrow_SomeD [of _ "td_grants db" x] by (auto simp: grant_evolves_def grant_at_def)
  then have "grant_history db db'" using at by (auto simp: grant_history_def)
  moreover have "grant_at db (gr_id g) = Some g" using fetchrow_unique [OF dist g(1)] by (simp add: grant_at_def)
  ultimately show ?thesis using at by simp
qed

lemma team_step_grants:
  assumes ok: "grants_ok db" and step: "team_step U P clk db db'"
  shows "grants_ok db' \<and> grant_history db db'"
proof -
  have keep: "grants_ok x \<and> grant_history db x" if "td_grants x = td_grants db" for x
    using that ok grant_evolves_refl by (simp add: grants_ok_def grant_history_def grant_at_def)
  from step show ?thesis
  proof cases
    case (step_grant i actor a answer)
    from step_grant(1) show ?thesis
    proof (cases rule: create_grantE)
      case same
      then show ?thesis using ok grant_evolves_refl by (simp add: grant_history_def)
    next
      case (granted g)
      then show ?thesis using ok step_grant(2) grant_evolves_refl
        by (simp add: grants_ok_def grant_history_def grant_at_def insert_row_def fetchrow_append)
    qed
  next
    case (step_revoke actor a answer)
    from step_revoke show ?thesis
    proof (cases rule: revoke_grantE)
      case (replayed g)
      then show ?thesis by (simp add: keep)
    next
      case (revoked g)
      then show ?thesis using revoke_table [OF ok revoked(1,3), of db' "clk 1" actor] by simp
    qed
  next
    case (step_sync i actor a answer)
    from step_sync(1) show ?thesis by (cases rule: sync_knowledgeE) (simp_all add: keep add_doc_event_def set_document_def)
  next
    case (step_delete actor a answer)
    from step_delete(1) show ?thesis by (cases rule: delete_knowledgeE) (simp_all add: keep add_doc_event_def set_document_def)
  next
    case (step_feedback i actor a answer)
    from feedback_frame [OF step_feedback(1)] show ?thesis by (elim exE) (simp add: keep)
  next
    case (step_ingest i actor a x answer)
    from imports_frame [OF disjI1 [OF step_ingest(1)]] show ?thesis by (elim exE) (simp add: keep)
  next
    case (step_forget actor a answer)
    from imports_frame [OF disjI2 [OF step_forget(1)]] show ?thesis by (elim exE) (simp add: keep)
  next
    case (step_skills skills)
    then show ?thesis by (simp add: keep)
  qed
qed

lemma team_step_ok:
  assumes ok: "team_ok db" and step: "team_step U P clk db db'" and body: "body_schema_sound P"
  shows "team_ok db'"
proof -
  have "skills_ok (td_skills db')"
    using step
  proof cases
    case (step_grant i actor a answer)
    from step_grant(1) show ?thesis by (cases rule: create_grantE) (use ok in \<open>simp_all add: team_ok_def\<close>)
  next
    case (step_revoke actor a answer)
    from step_revoke(1) show ?thesis by (cases rule: revoke_grantE) (use ok in \<open>simp_all add: team_ok_def\<close>)
  next
    case (step_sync i actor a answer)
    from step_sync(1) show ?thesis
      by (cases rule: sync_knowledgeE) (use ok in \<open>simp_all add: team_ok_def add_doc_event_def set_document_def\<close>)
  next
    case (step_delete actor a answer)
    from step_delete(1) show ?thesis
      by (cases rule: delete_knowledgeE) (use ok in \<open>simp_all add: team_ok_def add_doc_event_def set_document_def\<close>)
  next
    case (step_feedback i actor a answer)
    from feedback_frame [OF step_feedback(1)] show ?thesis by (elim exE) (use ok in \<open>simp add: team_ok_def\<close>)
  next
    case (step_ingest i actor a x answer)
    from imports_frame [OF disjI1 [OF step_ingest(1)]] show ?thesis by (elim exE) (use ok in \<open>simp add: team_ok_def\<close>)
  next
    case (step_forget actor a answer)
    from imports_frame [OF disjI2 [OF step_forget(1)]] show ?thesis by (elim exE) (use ok in \<open>simp add: team_ok_def\<close>)
  next
    case (step_skills skills)
    then show ?thesis using skill_step_ok [OF _ step_skills(2) body] ok by (simp add: team_ok_def)
  qed
  then show ?thesis using team_step_documents [OF _ step] team_step_grants [OF _ step] ok by (simp add: team_ok_def)
qed

lemma team_step_histories:
  assumes "team_ok db" and "team_step U P clk db db'"
  shows "grant_history db db'" "doc_history db db'"
  using team_step_documents [OF _ assms(2)] team_step_grants [OF _ assms(2)] assms(1) by (simp_all add: team_ok_def)

interpretation gv: row_history "team_step U P" "\<lambda>db. team_ok db \<and> body_schema_sound P" grant_at grant_evolves for U P
proof
  show "team_ok db \<and> body_schema_sound P \<Longrightarrow> team_step U P clk db db' \<Longrightarrow> team_ok db' \<and> body_schema_sound P"
    for clk db db' using team_step_ok by blast
  show "\<exists>g'. grant_at db' i = Some g' \<and> grant_evolves g g'"
    if "team_ok db \<and> body_schema_sound P" "team_step U P clk db db'" "grant_at db i = Some g" for clk db db' i g
    using team_step_histories(1) that by (fastforce simp: grant_history_def)
qed (rule grant_evolves_refl grant_evolves_trans, assumption?)+

interpretation dv: row_history "team_step U P" "\<lambda>db. team_ok db \<and> body_schema_sound P" document_at doc_evolves for U P
proof
  show "team_ok db \<and> body_schema_sound P \<Longrightarrow> team_step U P clk db db' \<Longrightarrow> team_ok db' \<and> body_schema_sound P"
    for clk db db' using team_step_ok by blast
  show "\<exists>d'. document_at db' k = Some d' \<and> doc_evolves d d'"
    if "team_ok db \<and> body_schema_sound P" "team_step U P clk db db'" "document_at db k = Some d" for clk db db' k d
    using team_step_histories(2) that unfolding doc_history_def by blast
qed (rule doc_evolves_refl doc_evolves_trans, assumption?)+

interpretation ev: row_history "team_step U P" "\<lambda>db. team_ok db \<and> body_schema_sound P" event_kept "(=)" for U P
proof
  show "team_ok db \<and> body_schema_sound P \<Longrightarrow> team_step U P clk db db' \<Longrightarrow> team_ok db' \<and> body_schema_sound P"
    for clk db db' using team_step_ok by blast
  show "\<exists>e'. event_kept db' k = Some e' \<and> e = e'"
    if "team_ok db \<and> body_schema_sound P" "team_step U P clk db db'" "event_kept db k = Some e" for clk db db' k e
    using team_step_histories(2) that by (fastforce simp: doc_history_def event_kept_def split: if_splits)
qed auto

subsection \<open>Shared reads\<close>

text \<open>
  What a shared read may deliver of a grant: the asset the grant names, live in the tables at
  that moment, with its classification and its fields, each written out from the row.
\<close>

definition skill_data :: "skill \<Rightarrow> skill_revision \<Rightarrow> dict list \<Rightarrow> dict" where
  "skill_data s r bindings =
     [(''project_id'', PStr (kr_project_id r)), (''revision_id'', PStr (uuid_str (kr_id r))),
      (''skill_id'', PStr (uuid_str (sk_id s))), (''revision'', PInt (int (kr_revision r))), (''version'', PInt (int (kr_version r))),
      (''name'', PStr (sk_name s)), (''body'', PDict (kr_body r)), (''classification'', PStr (class_str (kr_classification r))),
      (''source_lock_digest'', PStr (kr_source_lock_digest r)), (''source_watermark'', PStr (kr_source_watermark r)),
      (''content_digest'', PStr (kr_content_digest r)), (''sources'', PList (map PDict bindings))]"

definition live_skill :: "time \<Rightarrow> grant \<Rightarrow> tdb \<Rightarrow> classification \<Rightarrow> dict \<Rightarrow> bool" where
  "live_skill now g db c data \<longleftrightarrow> (\<exists>r s. revision_at (td_skills db) (uuid_of (gr_asset_id g)) = Some r
     \<and> s \<in> set (kd_skills (td_skills db)) \<and> sk_id s = kr_skill_id r
     \<and> kr_project_id r = gr_project_id g \<and> int (kr_version r) = gr_asset_version g
     \<and> skill_backed now r (td_skills db) \<and> kr_classification r = c \<and> c \<le> gr_classification g
     \<and> kr_content_digest r = gr_asset_digest g \<and> data = skill_data s r (saved_bindings (kr_id r) (td_skills db)))"

definition live_document :: "platform \<Rightarrow> time \<Rightarrow> grant \<Rightarrow> tdb \<Rightarrow> classification \<Rightarrow> dict \<Rightarrow> bool" where
  "live_document P now g db c data \<longleftrightarrow> (\<exists>d \<in> set (td_documents db). do_id d = uuid_of (gr_asset_id g)
     \<and> do_project_id d = gr_project_id g \<and> int (do_version d) = gr_asset_version g \<and> do_status d = DC_active
     \<and> now < do_valid_until d \<and> do_classification d = c \<and> c \<le> gr_classification g
     \<and> digest P (PDict (document_binding d)) = gr_asset_digest g
     \<and> data = [(''project_id'', PStr (do_project_id d)), (''provider'', PStr (do_provider d)), (''source_key'', PStr (do_source_key d)),
        (''source_revision'', PStr (do_source_revision d)), (''version'', PInt (gr_asset_version g)),
        (''classification'', PStr (class_str c)), (''title'', PStr (do_title d)),
        (''content'', PStr (do_content d)), (''content_digest'', PStr (do_content_digest d)),
        (''status'', PStr ''active''), (''valid_until'', PStr (isoformat (do_valid_until d))),
        (''created_at'', PStr (isoformat (do_created_at d))), (''updated_at'', PStr (isoformat (do_updated_at d))),
        (''document_id'', PStr (uuid_str (do_id d))), (''freshness'', PStr ''publisher_reported''),
        (''provider_revision_verified'', PBool False)])"

definition live_experience :: "platform \<Rightarrow> time \<Rightarrow> grant \<Rightarrow> tdb \<Rightarrow> classification \<Rightarrow> dict \<Rightarrow> bool" where
  "live_experience P now g db c data \<longleftrightarrow> (\<exists>x \<in> set (xd_experiences (td_store db)). \<exists>lock.
     shareable_memory now (gr_project_id g) (uuid_of (gr_asset_id g)) (gr_asset_version g) (gr_classification g) lock
       (xd_handoffs (td_store db)) x \<and> xp_classification x = c \<and> c \<le> gr_classification g \<and> binding_digest P x = gr_asset_digest g
     \<and> data = [(''memory_id'', PStr (uuid_str (xp_id x))), (''project_id'', PStr (gr_project_id g)), (''version'', PInt (gr_asset_version g)),
        (''classification'', PStr (class_str c)), (''kind'', PStr (xp_kind x)), (''title'', PStr (xp_title x)),
        (''source_handoff_id'', opt_uuid (xp_source_handoff_id x)), (''source_lock_digest'', PStr (xp_source_lock_digest x)),
        (''source_payload_digest'', PStr (xp_source_payload_digest x)), (''excerpt'', PStr (take 512 (xp_content x))),
        (''citation'', PDict (citation P x)), (''content'', PStr (xp_content x)), (''tags'', PList (map PStr (xp_tags x)))])"

definition live_asset :: "platform \<Rightarrow> time \<Rightarrow> grant \<Rightarrow> tdb \<Rightarrow> classification \<Rightarrow> dict \<Rightarrow> bool" where
  "live_asset P now g db c data \<longleftrightarrow> gr_asset_kind g = ''skill'' \<and> live_skill now g db c data
     \<or> gr_asset_kind g = ''knowledge'' \<and> live_document P now g db c data
     \<or> gr_asset_kind g = ''experience'' \<and> live_experience P now g db c data"

definition granted_asset :: "grant \<Rightarrow> classification \<Rightarrow> dict \<Rightarrow> pyval" where
  \<comment> \<open>the asset of an answer: what the grant names, with the fields delivered\<close>
  "granted_asset g c data = PDict
     [(''asset_kind'', PStr (gr_asset_kind g)), (''asset_id'', PStr (gr_asset_id g)), (''asset_version'', PInt (gr_asset_version g)),
      (''asset_digest'', PStr (gr_asset_digest g)), (''classification'', PStr (class_str c)), (''data'', PDict data)]"

lemma class_of_class_str [simp]: "class_of (class_str c) = c"
  by (cases c) simp_all

lemma skill_data_fields:
  "sk_id s = kr_skill_id r \<Longrightarrow> map (\<lambda>k. (k, py_get (revision_columns s r @ [(''revision_id'', PStr (uuid_str (kr_id r))),
      (''sources'', PList (map PDict bs)), (''fresh'', PBool f)]) k)) SKILL_FIELDS = skill_data s r bs"
  by (simp add: SKILL_FIELDS_def skill_data_def revision_columns_def py_get_def)

lemma resolved_skill_live:
  assumes "team_ok db" and "skill_asset P now (gr_project_id g) (gr_asset_id g) (gr_asset_version g) (gr_classification g) lock db = Inr x"
    and "as_digest x = gr_asset_digest g" and "gr_asset_kind g = ''skill''"
  shows "\<exists>c data. live_skill now g db c data \<and> asset_dict x = granted_asset g c data"
proof -
  let ?a = "skill_request (gr_project_id g) (gr_asset_id g) (gr_asset_version g) (gr_classification g) lock"
  have args: "arg_uuid ?a ''revision_id'' = uuid_of (gr_asset_id g)" "arg_str ?a ''project_id'' = gr_project_id g"
      "str_of (get_or ?a ''max_classification'' (PStr ''internal'')) = class_str (gr_classification g)"
      "has_key ?a ''expected_version''" "py_get ?a ''expected_version'' = PInt (gr_asset_version g)"
    by (simp_all add: skill_request_def arg_uuid_def arg_str_def py_get_def get_or_def has_key_def)
  obtain d where get: "get_skill P now False ?a (td_skills db) = Inr d"
    and x: "x = \<lparr>as_kind = ''skill'', as_id = gr_asset_id g, as_version = gr_asset_version g, as_digest = arg_str d ''content_digest'',
            as_classification = class_of (arg_str d ''classification''), as_data = map (\<lambda>k. (k, py_get d k)) SKILL_FIELDS\<rparr>"
    using assms(2) by (auto simp: skill_asset_def and_then_Inr_iff)
  have ok: "skills_ok (td_skills db)" using assms(1) by (simp add: team_ok_def)
  obtain r s where r: "revision_at (td_skills db) (arg_uuid ?a ''revision_id'') = Some r" "kr_project_id r = arg_str ?a ''project_id''"
    "skill_backed now r (td_skills db)" "kr_classification r \<le> class_of (str_of (get_or ?a ''max_classification'' (PStr ''internal'')))"
    "\<not> skill_hidden ?a r" and s: "s \<in> set (kd_skills (td_skills db))" "sk_id s = kr_skill_id r"
    and d: "d = revision_columns s r @ [(''revision_id'', PStr (uuid_str (kr_id r))),
      (''sources'', PList (map PDict (saved_bindings (kr_id r) (td_skills db)))), (''fresh'', PBool True)]"
    using get_skillE [OF ok get] by blast
  have v: "int (kr_version r) = gr_asset_version g" using r(5) args(4,5) by (auto simp: skill_hidden_def)
  have cols: "arg_str d ''content_digest'' = kr_content_digest r" "arg_str d ''classification'' = class_str (kr_classification r)"
    by (simp_all add: d revision_columns_def arg_str_def py_get_def)
  let ?data = "skill_data s r (saved_bindings (kr_id r) (td_skills db))"
  have dig: "kr_content_digest r = gr_asset_digest g" using assms(3) x cols(1) by simp
  have "asset_dict x = granted_asset g (kr_classification r) ?data"
    unfolding asset_dict_def granted_asset_def x cols using assms(4) dig by (simp add: d skill_data_fields [OF s(2)] del: class_of.simps)
  moreover have "kr_classification r \<le> gr_classification g" using r(4) args(3) by (simp del: class_of.simps)
  then have "live_skill now g db (kr_classification r) ?data"
    unfolding live_skill_def using r(1-3) args(1,2) v dig s by (intro exI [of _ r] exI [of _ s]) simp
  ultimately show ?thesis by blast
qed

lemma resolved_document_live:
  assumes "knowledge_asset P now (gr_project_id g) (gr_asset_id g) (gr_asset_version g) (gr_classification g) lock db = Inr x"
    and "as_digest x = gr_asset_digest g" and "gr_asset_kind g = ''knowledge''"
  shows "\<exists>c data. live_document P now g db c data \<and> asset_dict x = granted_asset g c data"
proof -
  let ?a = "knowledge_request (gr_project_id g) (gr_asset_id g) (gr_asset_version g) (gr_classification g)"
  have args: "arg_uuid ?a ''document_id'' = uuid_of (gr_asset_id g)" "arg_str ?a ''project_id'' = gr_project_id g"
      "maximum_of ?a = gr_classification g" "has_key ?a ''expected_version''" "py_get ?a ''expected_version'' = PInt (gr_asset_version g)"
    by (cases "gr_classification g";
      simp add: knowledge_request_def arg_uuid_def arg_str_def py_get_def get_or_def has_key_def maximum_of_def)+
  obtain d where get: "get_knowledge now ?a db = Inr d"
    and x: "x = \<lparr>as_kind = ''knowledge'', as_id = gr_asset_id g, as_version = gr_asset_version g,
        as_digest = digest P (PDict (document_binding d)), as_classification = do_classification d, as_data = document_dict d\<rparr>"
    using assms(1) by (auto simp: knowledge_asset_def and_then_Inr_iff split: if_splits)
  let ?p = "\<lambda>d. do_id d = arg_uuid ?a ''document_id'' \<and> do_project_id d = arg_str ?a ''project_id''
    \<and> do_status d = DC_active \<and> now < do_valid_until d"
  have f: "fetchrow ?p (td_documents db) = Some d"
    using get by (auto simp: get_knowledge_def and_then_Inr_iff split: option.splits if_splits)
  then have "py_get ?a ''expected_version'' = PInt (int (do_version d)) \<and> do_classification d \<le> maximum_of ?a"
    using get args(4) unfolding get_knowledge_def f
    by (simp add: team_ceiling_def and_then_Inr_iff not_less split: if_splits)
  then have v: "int (do_version d) = gr_asset_version g" and c: "do_classification d \<le> gr_classification g"
    using args(3,5) by simp_all
  have row: "d \<in> set (td_documents db)" "do_id d = uuid_of (gr_asset_id g)" "do_project_id d = gr_project_id g" "do_status d = DC_active"
      "now < do_valid_until d"
    using fetchrow_SomeD [OF f] args(1,2) by simp_all
  have dig: "digest P (PDict (document_binding d)) = gr_asset_digest g" using assms(2) x by simp
  have "asset_dict x = granted_asset g (do_classification d) (document_dict d)"
    unfolding asset_dict_def granted_asset_def x using assms(3) dig by simp
  moreover have "live_document P now g db (do_classification d) (document_dict d)"
    unfolding live_document_def using row v c dig by (intro bexI [of _ d]) (simp_all add: document_dict_def doc_status_str_def)
  ultimately show ?thesis by blast
qed

lemma resolved_experience_live:
  assumes "experience_asset P now (gr_project_id g) (gr_asset_id g) (gr_asset_version g) (gr_classification g) lock db = Inr x"
    and "as_digest x = gr_asset_digest g" and "gr_asset_kind g = ''experience''"
  shows "\<exists>c data. live_experience P now g db c data \<and> asset_dict x = granted_asset g c data"
proof -
  let ?p = "shareable_memory now (gr_project_id g) (uuid_of (gr_asset_id g)) (gr_asset_version g) (gr_classification g) lock
    (xd_handoffs (td_store db))"
  obtain y where f: "fetchrow ?p (xd_experiences (td_store db)) = Some y"
    and x: "x = \<lparr>as_kind = ''experience'', as_id = gr_asset_id g, as_version = gr_asset_version g, as_digest = binding_digest P y,
          as_classification = xp_classification y,
          as_data = dict_of (summary_item P y) @ [(''content'', PStr (xp_content y)), (''tags'', strs (xp_tags y))]\<rparr>"
    using assms(1) by (auto simp: experience_asset_def split: option.splits)
  have y: "y \<in> set (xd_experiences (td_store db))" "?p y" using fetchrow_SomeD [OF f] by simp_all
  have v: "int (xp_version y) = gr_asset_version g" "xp_project_id y = gr_project_id g" "xp_classification y \<le> gr_classification g"
    using y(2) by (auto simp: shareable_memory_def live_memory_def)
  have dig: "binding_digest P y = gr_asset_digest g" using assms(2) x by simp
  have "asset_dict x = granted_asset g (xp_classification y) (as_data x)"
    unfolding asset_dict_def granted_asset_def x using assms(3) dig by simp
  moreover have "live_experience P now g db (xp_classification y) (as_data x)"
    unfolding live_experience_def using y v dig
    by (intro bexI [of _ y] exI [of _ lock]) (simp_all add: x summary_item_def dict_of_def excerpt_def strs_def)
  ultimately show ?thesis by blast
qed

lemma resolve_grantE:
  assumes ok: "team_ok db" and get: "resolve_grant P clk a db = Inr (g, x)"
  obtains c data where "grant_at db (arg_uuid a ''grant_id'') = Some g" "gr_consumer_project_id g = arg_str a ''project_id''"
    "int (gr_version g) = arg_int a ''grant_version''"
    "gr_revoked_at g = None" "clk 1 < gr_expires_at g" "gr_classification g \<le> maximum_of a" "live_asset P (clk 2) g db c data"
    "asset_dict x = granted_asset g c data"
proof -
  let ?p = "\<lambda>g. gr_id g = arg_uuid a ''grant_id'' \<and> gr_consumer_project_id g = arg_str a ''project_id''"
  have f: "fetchrow ?p (td_grants db) = Some g"
    using get by (auto simp: resolve_grant_def locate_grant_def and_then_Inr_iff split: option.splits)
  have checks: "int (gr_version g) = arg_int a ''grant_version''" "gr_revoked_at g = None" "gr_classification g \<le> maximum_of a"
      "clk 1 < gr_expires_at g" "as_digest x = gr_asset_digest g"
    and res: "resolve_asset P (clk 2) (gr_project_id g) (gr_asset_kind g) (gr_asset_id g) (gr_asset_version g)
      (gr_classification g) (arg_opt_str a ''source_lock_digest'') db = Inr x"
    using get by (auto simp: resolve_grant_def team_ceiling_def and_then_Inr_iff not_less not_le)
  obtain c data where "live_asset P (clk 2) g db c data" "asset_dict x = granted_asset g c data"
    using res resolved_skill_live [OF ok _ checks(5)] resolved_document_live [OF _ checks(5)] resolved_experience_live [OF _ checks(5)]
    unfolding resolve_asset_def live_asset_def by (metis sum.simps(4))
  moreover have "distinct (map gr_id (td_grants db))" using ok by (simp add: team_ok_def grants_ok_def)
  then have "grant_at db (arg_uuid a ''grant_id'') = Some g"
    using fetchrow_by_key_eq [of gr_id "td_grants db" g] fetchrow_SomeD [OF f] by (auto simp: grant_at_def)
  ultimately show thesis using that fetchrow_SomeD [OF f] checks by blast
qed

lemma grant_row_at: "team_ok db \<Longrightarrow> grant_at db i = Some g \<Longrightarrow> grant_row_ok g \<and> g \<in> set (td_grants db) \<and> gr_id g = i"
  using fetchrow_SomeD by (fastforce simp: team_ok_def grants_ok_def grant_at_def)

lemma revoked_at_two:
  assumes ok: "team_ok db" and r: "revoke_grant clk actor a db = Inr (db', answer)"
  shows "\<exists>g. grant_at db' (arg_uuid a ''grant_id'') = Some g \<and> gr_version g = 2"
  using r
proof (cases rule: revoke_grantE)
  case (replayed g)
  then have "grant_at db (gr_id g) = Some g"
    using ok fetchrow_unique [of gr_id "td_grants db" g] by (simp add: grant_at_def team_ok_def grants_ok_def)
  then show ?thesis using replayed by auto
next
  case (revoked g)
  have "grants_ok db" using ok by (simp add: team_ok_def)
  then have "grant_at db' (gr_id g) = Some (revoked_grant (clk 1) actor g)"
    using revoke_table [OF _ revoked(1,3)] revoked(4) by simp
  then show ?thesis using revoked(2) by auto
qed

text \<open>
  C30. A shared read delivers only what its grant names, live at that moment. The grant is the
  named one, of the named version, addressed to the reading project by another one, not
  revoked, not expired and within the reader's ceiling; and the asset behind it still is what
  was granted: the active approved skill revision with every source citable, the active valid
  document, or the live experience with its source bound, of the granted version and digest.
  The answer is exactly the grant's ids and projects with that one asset, whose fields are
  those of its row, marked as a reference that must not be stored. Once a revocation of the
  grant has succeeded, no read of it succeeds in any later state.
\<close>

theorem shared_read_is_live:
  assumes ok: "team_ok db" and body: "body_schema_sound P" and read: "read_shared P clk a db = Inr answer"
  shows "\<exists>g c data. grant_at db (arg_uuid a ''grant_id'') = Some g \<and> int (gr_version g) = arg_int a ''grant_version''
     \<and> gr_consumer_project_id g = arg_str a ''project_id'' \<and> gr_project_id g \<noteq> gr_consumer_project_id g
     \<and> gr_revoked_at g = None \<and> clk 1 < gr_expires_at g \<and> gr_classification g \<le> maximum_of a
     \<and> live_asset P (clk 2) g db c data
     \<and> answer = [(''grant_id'', PStr (uuid_str (arg_uuid a ''grant_id''))), (''grant_version'', PInt (arg_int a ''grant_version'')),
         (''owner_project_id'', PStr (gr_project_id g)), (''consumer_project_id'', PStr (arg_str a ''project_id'')),
         (''asset'', granted_asset g c data), (''usage'', PStr ''reference_only''), (''cache_policy'', PStr ''no_store'')]
     \<and> (\<forall>clk1 actor a1 db1 answer1 ts db2 clk2 a2.
          revoke_grant clk1 actor a1 db = Inr (db1, answer1) \<and> arg_uuid a1 ''grant_id'' = gr_id g
            \<and> run (team_step U P) db1 ts db2 \<and> arg_uuid a2 ''grant_id'' = gr_id g
          \<longrightarrow> \<not> is_ok (read_shared P clk2 a2 db2))"
proof -
  obtain g x where res: "resolve_grant P clk a db = Inr (g, x)"
    and answer: "answer = [(''grant_id'', PStr (uuid_str (gr_id g))), (''grant_version'', PInt (int (gr_version g))),
          (''owner_project_id'', PStr (gr_project_id g)), (''consumer_project_id'', PStr (gr_consumer_project_id g)),
          (''asset'', asset_dict x), (''usage'', PStr ''reference_only''), (''cache_policy'', PStr ''no_store'')]"
    using read by (auto simp: read_shared_def and_then_Inr_iff)
  obtain c data where g: "grant_at db (arg_uuid a ''grant_id'') = Some g" "gr_consumer_project_id g = arg_str a ''project_id''"
    "int (gr_version g) = arg_int a ''grant_version''"
    "gr_revoked_at g = None" "clk 1 < gr_expires_at g" "gr_classification g \<le> maximum_of a" "live_asset P (clk 2) g db c data"
    "asset_dict x = granted_asset g c data"
    using resolve_grantE [OF ok res] .
  have "gr_id g = arg_uuid a ''grant_id''" using grant_row_at [OF ok g(1)] by simp
  then have "answer = [(''grant_id'', PStr (uuid_str (arg_uuid a ''grant_id''))), (''grant_version'', PInt (arg_int a ''grant_version'')),
         (''owner_project_id'', PStr (gr_project_id g)), (''consumer_project_id'', PStr (arg_str a ''project_id'')),
         (''asset'', granted_asset g c data), (''usage'', PStr ''reference_only''), (''cache_policy'', PStr ''no_store'')]"
    using answer g(2,3,8) by simp
  moreover
  have "\<not> is_ok (read_shared P clk2 a2 db2)"
    if rev: "revoke_grant clk1 actor a1 db = Inr (db1, answer1)" "arg_uuid a1 ''grant_id'' = gr_id g"
      and r: "run (team_step U P) db1 ts db2" and a2: "arg_uuid a2 ''grant_id'' = gr_id g"
    for clk1 actor a1 db1 answer1 ts db2 clk2 a2
  proof
    assume "is_ok (read_shared P clk2 a2 db2)"
    then obtain g2 y where read2: "resolve_grant P clk2 a2 db2 = Inr (g2, y)"
      by (auto simp: read_shared_def and_then_Inr_iff is_ok_def split: sum.splits)
    obtain g1 where g1: "grant_at db1 (gr_id g) = Some g1" "gr_version g1 = 2" using revoked_at_two [OF ok rev(1)] rev(2) by auto
    have inv: "team_ok db1 \<and> body_schema_sound P" using team_step_ok [OF ok step_revoke [OF rev(1)] body] body by blast
    obtain g' where g': "grant_at db2 (gr_id g) = Some g'" "grant_evolves g1 g'" using gv.row_run [OF r inv g1(1)] by blast
    then have "gr_version g' = 2" using g1(2) by (auto simp: grant_evolves_def)
    moreover have ok2: "team_ok db2" using gv.inv_run [OF r inv] by blast
    ultimately have "gr_revoked_at g' \<noteq> None" using grant_row_at [OF _ g'(1)] by (auto simp: grant_row_ok_def)
    moreover have "grant_at db2 (gr_id g) = Some g2 \<and> gr_revoked_at g2 = None"
      by (rule resolve_grantE [OF ok2 read2]) (simp add: a2)
    ultimately show False using g'(1) by simp
  qed
  moreover have "gr_project_id g \<noteq> gr_consumer_project_id g" using grant_row_at [OF ok g(1)] by (simp add: grant_row_ok_def)
  ultimately show ?thesis using g(1-7) by blast
qed

subsection \<open>Published knowledge\<close>

definition source_key_of :: "dict \<Rightarrow> string \<times> string \<times> string" where
  "source_key_of a = (arg_str a ''project_id'', arg_str a ''provider'', arg_str a ''source_key'')"

lemma document_of_at: "document_of a db = document_at db (source_key_of a)"
  by (simp add: document_of_def document_at_def doc_key_def source_key_of_def)

lemma synced_document_at:
  assumes ok: "team_ok db" and fresh: "i \<notin> do_id ` set (td_documents db)"
    and s: "sync_knowledge U P clk i actor a db = Inr (db1, answer)" "py_get answer ''already_applied'' = PBool False"
  shows "\<exists>d e. document_at db1 (source_key_of a) = Some d \<and> do_source_revision d = arg_str a ''source_revision''
    \<and> do_classification d = class_of (arg_str a ''classification'') \<and> do_status d = DC_active
    \<and> e \<in> set (td_doc_events db1) \<and> de_document_id e = do_id d \<and> de_source_revision e = Some (arg_str a ''source_revision'')"
  using s(1)
proof (cases rule: sync_knowledgeE)
  case (replayed d)
  then show ?thesis using s(2) by (simp add: document_answer_def py_get_def)
next
  case (updated d snap until request)
  let ?f = "\<lambda>x. if do_id x = do_id d then synced_document a snap until (clk 2) x else x"
  obtain t c n where snap: "snap = (t, c, n)" by (cases snap)
  have docs: "td_documents db1 = map ?f (td_documents db)"
    by (simp add: updated(5) add_doc_event_def set_document_def update_where_def)
  have "fetchrow (\<lambda>x. doc_key x = source_key_of a) (map ?f (td_documents db))
      = map_option ?f (fetchrow (\<lambda>x. doc_key x = source_key_of a) (td_documents db))"
    by (rule fetchrow_map) (simp add: doc_key_def synced_document_def snap)
  then have "document_at db1 (source_key_of a) = Some (?f d)"
    using updated(1) by (simp add: document_of_at document_at_def docs)
  moreover have "sync_event (do_id d) (arg_int a ''expected_version'' + 1) actor a request (clk 3) \<in> set (td_doc_events db1)"
    by (simp add: updated(5) add_doc_event_def insert_row_def)
  ultimately show ?thesis by (fastforce simp: synced_document_def snap sync_event_def)
next
  case (created snap until request)
  obtain t c n where snap: "snap = (t, c, n)" by (cases snap)
  have "document_at db1 (source_key_of a) = Some (new_document i a snap until (clk 2))"
    using created(1) by (simp add: created(3) document_of_at document_at_def add_doc_event_def insert_row_def fetchrow_append
      doc_key_def source_key_of_def new_document_def snap)
  moreover have "sync_event i 1 actor a request (clk 3) \<in> set (td_doc_events db1)"
    by (simp add: created(3) add_doc_event_def insert_row_def)
  ultimately show ?thesis by (fastforce simp: new_document_def snap sync_event_def)
qed

text \<open>
  C29. A published knowledge revision is never redefined. After a push was accepted as new, the
  document at that provider and key stays one document in every later state: it keeps its
  identifier, its classification and version never fall, and the same version is the same
  content. A later push that names the same source revision, with whatever content, from
  whomever and whenever, is refused or repeats an earlier receipt and changes nothing, also
  after newer revisions were published or the document was deleted.
\<close>

theorem knowledge_never_redefined:
  assumes ok: "team_ok db" and body: "body_schema_sound P"
    and fresh: "i \<notin> do_id ` set (td_documents db)" "i \<notin> de_document_id ` set (td_doc_events db)"
    and s: "sync_knowledge U P clk i actor a db = Inr (db1, answer)" "py_get answer ''already_applied'' = PBool False"
    and r: "run (team_step U P) db1 ts db2"
  shows "\<exists>d d'. document_at db1 (source_key_of a) = Some d \<and> do_source_revision d = arg_str a ''source_revision''
     \<and> do_classification d = class_of (arg_str a ''classification'') \<and> do_status d = DC_active
     \<and> document_at db2 (source_key_of a) = Some d' \<and> doc_evolves d d'
     \<and> (\<forall>clk1 j actor1 a1 db3 answer1.
          source_key_of a1 = source_key_of a \<and> arg_str a1 ''source_revision'' = arg_str a ''source_revision''
            \<and> sync_knowledge U P clk1 j actor1 a1 db2 = Inr (db3, answer1)
          \<longrightarrow> db3 = db2 \<and> py_get answer1 ''already_applied'' = PBool True)"
proof -
  obtain d e where d: "document_at db1 (source_key_of a) = Some d" "do_source_revision d = arg_str a ''source_revision''"
      "do_classification d = class_of (arg_str a ''classification'')" "do_status d = DC_active"
    and e: "e \<in> set (td_doc_events db1)" "de_document_id e = do_id d" "de_source_revision e = Some (arg_str a ''source_revision'')"
    using synced_document_at [OF ok fresh(1) s] by blast
  have inv: "team_ok db1 \<and> body_schema_sound P" using team_step_ok [OF ok step_sync [OF s(1) fresh] body] body by blast
  obtain d' where d': "document_at db2 (source_key_of a) = Some d'" "doc_evolves d d'" using dv.row_run [OF r inv d(1)] by blast
  have "event_kept db2 e = Some e" using ev.row_run [OF r inv, of e e] e(1) by (auto simp: event_kept_def)
  then have "e \<in> set (td_doc_events db2)" by (simp add: event_kept_def split: if_splits)
  then have used: "revision_used (do_id d') (arg_str a ''source_revision'') db2"
    using e d'(2) by (auto simp: revision_used_def exists_row_iff doc_evolves_def)
  have "db3 = db2 \<and> py_get answer1 ''already_applied'' = PBool True"
    if same: "source_key_of a1 = source_key_of a" "arg_str a1 ''source_revision'' = arg_str a ''source_revision''"
      and again: "sync_knowledge U P clk1 j actor1 a1 db2 = Inr (db3, answer1)" for clk1 j actor1 a1 db3 answer1
    using again
  proof (cases rule: sync_knowledgeE)
    case (replayed x)
    then show ?thesis by (simp add: document_answer_def py_get_def)
  next
    case (updated x snap until request)
    then show ?thesis using used d'(1) same by (simp add: document_of_at)
  next
    case (created snap until request)
    then show ?thesis using d'(1) same by (simp add: document_of_at)
  qed
  then show ?thesis using d d' by blast
qed

subsection \<open>Witnesses\<close>

definition demo_dated :: platform where
  "demo_dated = demo_checker\<lparr>fromisoformat := (\<lambda>_. Some (Aware 50))\<rparr>"

definition demo_document :: document where
  "demo_document = \<lparr>do_id = 6, do_project_id = ''web'', do_provider = ''wiki'', do_source_key = ''howto'', do_source_revision = ''r1'',
     do_version = 1, do_classification = C_internal, do_title = ''Deploy'', do_content = ''Use the pipeline'',
     do_content_digest = ''sha256:'', do_status = DC_active, do_valid_until = 50, do_created_at = 2, do_updated_at = 2\<rparr>"

definition demo_grant :: grant where
  "demo_grant = \<lparr>gr_id = 9, gr_project_id = ''web'', gr_consumer_project_id = ''api'', gr_asset_kind = ''knowledge'',
     gr_asset_id = ''6'', gr_asset_version = 1, gr_asset_digest = ''sha256:'', gr_classification = C_internal, gr_expires_at = 40,
     gr_version = 1, gr_revoked_at = None, gr_revoked_by = None, gr_created_by = ''ann'', gr_idempotency_key = ''k4'',
     gr_submission_digest = [], gr_created_at = 3\<rparr>"

definition demo_team :: tdb where
  "demo_team = \<lparr>td_skills = demo_skills, td_documents = [demo_document],
     td_doc_events = [\<lparr>de_document_id = 6, de_version = 1, de_actor_id = ''ann'', de_action = DA_sync, de_source_revision = Some ''r1'',
       de_submission_digest = [], de_created_at = 2\<rparr>],
     td_grants = [demo_grant], td_imports = [], td_feedback = []\<rparr>"

lemma demo_team_ok: "team_ok demo_team" "body_schema_sound demo_checker" "body_schema_sound demo_dated"
proof -
  have "grants_ok demo_team" "documents_ok demo_team"
    by (simp_all add: grants_ok_def grant_row_ok_def documents_ok_def events_bound_def demo_team_def demo_grant_def demo_document_def)
  then show "team_ok demo_team" using demo_skills_ok by (simp add: team_ok_def demo_team_def)
  show "body_schema_sound demo_checker" by (rule demo_skills_ok)
  then show "body_schema_sound demo_dated" by (simp add: body_schema_sound_def demo_dated_def)
qed

definition demo_read :: dict where
  "demo_read = [(''project_id'', PStr ''api''), (''grant_id'', PStr ''9''), (''grant_version'', PInt 1)]"

definition demo_revoke :: dict where
  "demo_revoke = [(''project_id'', PStr ''web''), (''grant_id'', PStr ''9''), (''expected_version'', PInt 1)]"

theorem shared_read_is_live_witness:
  "(\<exists>answer c data. read_shared demo_checker (\<lambda>_. 5) demo_read demo_team = Inr answer
        \<and> live_document demo_checker 5 demo_grant demo_team c data \<and> py_get answer ''asset'' = granted_asset demo_grant c data)
     \<and> (\<exists>db1 answer. revoke_grant (\<lambda>_. 6) ''ann'' demo_revoke demo_team = Inr (db1, answer)
          \<and> \<not> is_ok (read_shared demo_checker (\<lambda>_. 7) demo_read db1))"
proof -
  let ?k = "knowledge_request ''web'' ''6'' 1 C_internal"
  have facts: "locate_grant demo_read demo_team = Inr demo_grant" "arg_int demo_read ''grant_version'' = 1"
      "maximum_of demo_read = C_internal" "arg_opt_str demo_read ''source_lock_digest'' = None"
      "get_knowledge 5 ?k demo_team = Inr demo_document" "arg_uuid demo_read ''grant_id'' = 9" "arg_uuid demo_revoke ''grant_id'' = 9"
      "arg_int demo_revoke ''expected_version'' = 1"
    by code_simp+
  have row: "gr_version demo_grant = 1" "gr_revoked_at demo_grant = None" "gr_classification demo_grant = C_internal"
      "gr_expires_at demo_grant = 40" "gr_asset_kind demo_grant = ''knowledge''" "gr_asset_id demo_grant = ''6''"
      "gr_asset_version demo_grant = 1" "gr_asset_digest demo_grant = ''sha256:''" "gr_project_id demo_grant = ''web''" "gr_id demo_grant = 9"
    by (simp_all add: demo_grant_def)
  have dig: "digest demo_checker v = ''sha256:''" for v by (simp add: digest_def demo_checker_def)
  obtain answer where read: "read_shared demo_checker (\<lambda>_. 5) demo_read demo_team = Inr answer"
    by (simp add: read_shared_def resolve_grant_def resolve_asset_def knowledge_asset_def team_ceiling_def and_then_def checked_def
        facts row dig)
  obtain db1 answer1 where rev: "revoke_grant (\<lambda>_. 6) ''ann'' demo_revoke demo_team = Inr (db1, answer1)"
  proof -
    have "fetchrow (\<lambda>g. gr_id g = arg_uuid demo_revoke ''grant_id'' \<and> gr_project_id g = arg_str demo_revoke ''project_id'')
      (td_grants demo_team) = Some demo_grant" by code_simp
    then show thesis using that facts(8) row(1) by (simp add: revoke_grant_def)
  qed
  have at9: "grant_at demo_team 9 = Some demo_grant" by (simp add: grant_at_def demo_team_def demo_grant_def)
  obtain g c data where live: "grant_at demo_team (arg_uuid demo_read ''grant_id'') = Some g" "live_asset demo_checker 5 g demo_team c data"
      "answer = [(''grant_id'', PStr (uuid_str (arg_uuid demo_read ''grant_id''))), (''grant_version'', PInt (arg_int demo_read ''grant_version'')),
         (''owner_project_id'', PStr (gr_project_id g)), (''consumer_project_id'', PStr (arg_str demo_read ''project_id'')),
         (''asset'', granted_asset g c data), (''usage'', PStr ''reference_only''), (''cache_policy'', PStr ''no_store'')]"
    and dead: "\<forall>clk1 actor a1 db1 answer1 ts db2 clk2 a2.
            revoke_grant clk1 actor a1 demo_team = Inr (db1, answer1) \<and> arg_uuid a1 ''grant_id'' = gr_id g
              \<and> run (team_step plain_unicode demo_checker) db1 ts db2 \<and> arg_uuid a2 ''grant_id'' = gr_id g
            \<longrightarrow> \<not> is_ok (read_shared demo_checker clk2 a2 db2)"
    using shared_read_is_live [OF demo_team_ok(1,2) read, of plain_unicode] by (elim exE conjE) (rule that)
  have g: "g = demo_grant" using live(1) unfolding facts(6) at9 by (rule option.inject [THEN iffD1, symmetric])
  have "live_document demo_checker 5 demo_grant demo_team c data" using live(2) unfolding g live_asset_def row(5) by simp
  moreover have "py_get answer ''asset'' = granted_asset demo_grant c data" unfolding live(3) g by (simp add: py_get_def)
  moreover have "\<not> is_ok (read_shared demo_checker (\<lambda>_. 7) demo_read db1)" 
  proof (rule dead [rule_format], intro conjI)
    show "revoke_grant (\<lambda>_. 6) ''ann'' demo_revoke demo_team = Inr (db1, answer1)" by (rule rev)
    show "run (team_step plain_unicode demo_checker) db1 [] db1" by (rule run_nil)
  qed (simp_all only: g facts row)
  ultimately show ?thesis using read rev by blast
qed

definition demo_push :: dict where
  "demo_push = [(''project_id'', PStr ''web''), (''provider'', PStr ''wiki''), (''source_key'', PStr ''faq''),
     (''source_revision'', PStr ''r1''), (''title'', PStr ''Answers''), (''content'', PStr ''Ask early''),
     (''content_digest'', PStr ''sha256:''), (''classification'', PStr ''internal''), (''expected_version'', PInt 0),
     (''valid_until'', PStr ''later'')]"

theorem knowledge_never_redefined_witness:
  "\<exists>db1 d. (\<exists>answer. sync_knowledge plain_unicode demo_dated (\<lambda>_. 5) 8 ''ann'' demo_push demo_team = Inr (db1, answer))
     \<and> document_at db1 (''web'', ''wiki'', ''faq'') = Some d \<and> do_source_revision d = ''r1''
     \<and> (\<forall>clk j actor a db2 answer. source_key_of a = (''web'', ''wiki'', ''faq'') \<and> arg_str a ''source_revision'' = ''r1''
          \<and> sync_knowledge plain_unicode demo_dated clk j actor a db1 = Inr (db2, answer) \<longrightarrow> db2 = db1)"
proof -
  have dig: "digest demo_dated v = ''sha256:''" for v by (simp add: digest_def demo_dated_def demo_checker_def)
  have facts: "py_strip (nfc plain_unicode (arg_str demo_push ''title'')) = ''Answers''"
      "py_strip (nfc plain_unicode (arg_str demo_push ''content'')) = ''Ask early''"
      "py_get demo_push ''content_digest'' = PStr ''sha256:''" "document_of demo_push demo_team = None"
      "arg_int demo_push ''expected_version'' = 0" "source_key_of demo_push = (''web'', ''wiki'', ''faq'')"
      "arg_str demo_push ''source_revision'' = ''r1''"
    by code_simp+
  have until: "team_deadline demo_dated 5 7 (arg_str demo_push ''valid_until'') = Inr 50"
    by (simp add: team_deadline_def utc_time_def demo_dated_def and_then_def checked_def days_def seconds_def)
  have snap: "snapshot_of plain_unicode demo_dated demo_push = Inr (''Answers'', ''Ask early'', ''sha256:'')"
    by (simp add: snapshot_of_def Let_def facts dig checked_def)
  have "\<exists>db1. sync_knowledge plain_unicode demo_dated (\<lambda>_. 5) 8 ''ann'' demo_push demo_team = Inr (db1, document_answer 8 1 False)"
    by (simp add: sync_knowledge_def Let_def snap facts sync_checks_def until and_then_def checked_def snapshot_fits_def)
  then obtain db1 where s: "sync_knowledge plain_unicode demo_dated (\<lambda>_. 5) 8 ''ann'' demo_push demo_team
      = Inr (db1, document_answer 8 1 False)" by blast
  have fresh: "8 \<notin> do_id ` set (td_documents demo_team)" "8 \<notin> de_document_id ` set (td_doc_events demo_team)"
    by (simp_all add: demo_team_def demo_document_def)
  have new: "py_get (document_answer 8 1 False) ''already_applied'' = PBool False" by (simp add: document_answer_def py_get_def)
  show ?thesis
    using knowledge_never_redefined [OF demo_team_ok(1,3) fresh s new run_nil] s unfolding facts by blast
qed

end
