(* ===== verification/Generation_Worker_Props.thy ===== *)
theory Generation_Worker_Props
  imports Generation_Worker Skills_Props Experience_Props
begin

text \<open>
  Properties of the worker: whatever a job does, its result is applied only under its lease,
  it only proposes, and what it proposes quotes the source it was queued for.
\<close>

subsection \<open>Proposals\<close>

definition appended :: "('r \<Rightarrow> bool) \<Rightarrow> 'r list \<Rightarrow> 'r list \<Rightarrow> bool" where
  "appended p t t' \<longleftrightarrow> (\<exists>new. t' = t @ new \<and> list_all p new)"

definition generated_memory :: "experience \<Rightarrow> bool" where
  "generated_memory x \<longleftrightarrow> xp_status x = X_pending \<and> xp_kind x = ''fact'' \<and> starts_with ''generation:'' (xp_created_by x)"

definition generated_revision :: "skill_revision \<Rightarrow> bool" where
  "generated_revision r \<longleftrightarrow> kr_status r = K_pending \<and> kr_origin r = O_generated \<and> starts_with ''generation:'' (kr_created_by r)"

text \<open>What readers of the skills are pointed at.\<close>

definition active_pointers :: "skdb \<Rightarrow> (uuid \<times> nat) set" where
  "active_pointers db = {(i, n). (i, Some n) \<in> set (map (\<lambda>s. (sk_id s, sk_active_revision s)) (kd_skills db))}"

definition only_proposed :: "skdb \<Rightarrow> skdb \<Rightarrow> bool" where
  "only_proposed db db' \<longleftrightarrow> appended generated_memory (xd_experiences (kd_store db)) (xd_experiences (kd_store db'))
     \<and> appended generated_revision (kd_revisions db) (kd_revisions db')
     \<and> active_pointers db' = active_pointers db \<and> kd_events db' = kd_events db
     \<and> xd_events (kd_store db') = xd_events (kd_store db) \<and> xd_suppressions (kd_store db') = xd_suppressions (kd_store db)
     \<and> xd_handoffs (kd_store db') = xd_handoffs (kd_store db)"

text \<open>A new memory of a job quotes the summary that the job read from the payload it was queued for.\<close>

definition quoted_from :: "unicode \<Rightarrow> (pyval \<Rightarrow> string) \<Rightarrow> skdb \<Rightarrow> gen_job \<Rightarrow> experience \<Rightarrow> bool" where
  "quoted_from U T seen j x \<longleftrightarrow> xp_project_id x = gj_project_id j \<and> xp_created_by x = generation_actor j
     \<and> xp_source_handoff_id x = Some (uuid_of (gj_source_key j)) \<and> xp_source_payload_digest x = gj_source_watermark j
     \<and> (\<exists>h \<in> set (xd_handoffs (kd_store seen)). \<exists>n. h_id h = uuid_of (gj_source_key j)
          \<and> hc_payload_digest (h_content h) = gj_source_watermark j
          \<and> (let quote = py_strip (nfc U (left_text T (hc_result_envelope (h_content h)) ''summary'' n))
             in \<not> sensitive quote \<and> xp_content x = py_strip (nfc U quote)))"

lemma appended_refl [simp]: "appended p t t"
  by (auto simp: appended_def intro: exI [of _ "[]"])

lemma appended_one: "p x \<Longrightarrow> appended p t (t @ [x])"
  by (auto simp: appended_def)

lemma appended_trans: "appended p a b \<Longrightarrow> appended p b c \<Longrightarrow> appended p a c"
  unfolding appended_def by (metis append.assoc list_all_append)

lemma only_proposed_refl [simp]: "only_proposed db db"
  by (simp add: only_proposed_def)

lemma only_proposed_trans: "only_proposed a b \<Longrightarrow> only_proposed b c \<Longrightarrow> only_proposed a c"
  by (auto simp: only_proposed_def intro: appended_trans)

lemma only_proposed_queue:
  assumes "gd_store g = gd_store (kd_gen db)"
  shows "only_proposed (db\<lparr>kd_gen := g\<rparr>) db' = only_proposed db db'" "only_proposed db' (db\<lparr>kd_gen := g\<rparr>) = only_proposed db' db"
  using assms by (simp_all add: only_proposed_def active_pointers_def)

lemma generation_actor_starts [simp]: "starts_with ''generation:'' (generation_actor j)"
  by (simp add: starts_with_def generation_actor_def)

subsection \<open>The sensitive texts\<close>

lemma search_from_append: "search_from m b s \<Longrightarrow> (\<And>b t. m b t \<Longrightarrow> m b (t @ r)) \<Longrightarrow> search_from m b (s @ r)"
proof (induction s arbitrary: b)
  case Nil
  then have "m b r" using Nil.prems(2) [of b "[]"] by simp
  then show ?case by (cases r) simp_all
next
  case (Cons c s)
  then show ?case using Cons.prems(2) [of b "c # s"] Cons.IH [of "Some c"] by auto
qed

lemma starts_with_length: "starts_with p s \<Longrightarrow> length p \<le> length s"
  unfolding starts_with_def by (metis length_take min.cobounded1)

lemma starts_with_more: "starts_with p s \<Longrightarrow> starts_with p (s @ r)"
  using starts_with_length [of p s] by (simp add: starts_with_def)

lemma after_run_more:
  assumes "after_run cls rest s" and "\<And>t. rest t \<Longrightarrow> rest (t @ r)"
  shows "after_run cls rest (s @ r)"
  using assms(1)
proof (induction s)
  case Nil
  then have "rest ([] @ r)" using assms(2) [of "[]"] by simp
  then show ?case by (cases r) simp_all
qed (use assms(2) in force)

lemma some_text_more: "some_text s \<Longrightarrow> some_text (s @ r)"
  by (cases s) (simp_all add: some_text_def)

lemma assigned_more: "assigned_at s \<Longrightarrow> assigned_at (s @ r)"
  by (cases s) (auto simp: assigned_at_def intro: after_run_more some_text_more)

lemma sensitive_more:
  assumes "sensitive s"
  shows "sensitive (s @ r)"
  unfolding sensitive_def ascii_lower_def map_append
proof (rule search_from_append)
  fix b t u
  assume m: "key_block_at t \<or> secret_at b t \<or> bearer_at b t"
  have key: "key_block_at t \<Longrightarrow> key_block_at (t @ u)"
    by (auto simp: key_block_at_def list_ex_iff intro: starts_with_more)
  have drop: "starts_with k t \<Longrightarrow> drop (length k) (t @ u) = drop (length k) t @ u" for k
    using starts_with_length [of k t] by simp
  have secret: "secret_at b t \<Longrightarrow> secret_at b (t @ u)"
    by (auto simp: secret_at_def list_ex_iff drop intro: starts_with_more after_run_more assigned_more)
  have bearer: "bearer_at b t \<Longrightarrow> bearer_at b (t @ u)"
    using drop [of "''bearer''"] starts_with_more [of "''bearer''" t u]
    by (auto simp: bearer_at_def split: list.splits intro: after_run_more some_text_more)
  show "key_block_at (t @ u) \<or> secret_at b (t @ u) \<or> bearer_at b (t @ u)" using m key secret bearer by blast
qed (use assms in \<open>simp add: sensitive_def ascii_lower_def\<close>)

lemma quoted_source:
  assumes "structured_extract U x = Inr (Some c)"
  shows "ca_kind c = ''fact''" "ca_content c = py_strip (nfc U (ei_summary x))" "\<not> sensitive (ca_content c)"
  using assms sensitive_more [of "py_strip (nfc U (ei_summary x))"]
  by (auto simp: structured_extract_def Let_def split: if_splits)

subsection \<open>One job\<close>

lemma from_tool_Inr [simp]: "from_tool r = Inr x \<longleftrightarrow> r = Inr x"
  by (cases r) (simp_all add: from_tool_def)

lemma pointers_stored:
  assumes "target_skill clk si origin a m c db = Inr (db1, s)"
  shows "active_pointers (store_revision r bs db1) = active_pointers db"
proof -
  have "active_pointers db1 = active_pointers db"
    using assms by (cases rule: target_skillE) (auto simp: active_pointers_def insert_row_def new_skill_def)
  moreover have "active_pointers (store_revision r bs db1) = active_pointers db1"
    by (simp add: active_pointers_def store_revision_def map_update_where advanced_skill_def del: set_map)
  ultimately show ?thesis by simp
qed

lemma apply_scaffold_proposes:
  assumes "apply_scaffold U P clk si i j a db = Inr (db', c, extra)"
  shows "only_proposed db db' \<and> kd_gen db' = kd_gen db"
proof -
  obtain answer where "submit_skill U P (\<lambda>n. clk (n + 1)) si i (generation_actor j) O_generated a db = Inr (db', answer)"
    using assms by (auto simp: apply_scaffold_def and_then_Inr_iff split: sum.splits if_splits)
  then show ?thesis
  proof (cases rule: submit_skillE)
    case known
    then show ?thesis by simp
  next
    case (stored m c db1 s)
    let ?r = "new_revision P (\<lambda>n. clk (n + 1)) i (generation_actor j) O_generated a m c s"
    have same: "kd_gen db1 = kd_gen db \<and> kd_revisions db1 = kd_revisions db \<and> kd_events db1 = kd_events db"
      using stored(3) by (cases rule: target_skillE) simp_all
    have "generated_revision ?r" by (simp add: generated_revision_def new_revision_def Let_def)
    then have "appended generated_revision (kd_revisions db) (kd_revisions db @ [?r])" by (rule appended_one)
    moreover have "active_pointers db' = active_pointers db" unfolding stored(4) by (rule pointers_stored [OF stored(3)])
    moreover have "kd_revisions db' = kd_revisions db @ [?r]" "kd_gen db' = kd_gen db" "kd_events db' = kd_events db"
      using same by (simp_all add: stored(4) store_revision_def insert_row_def)
    ultimately show ?thesis by (simp add: only_proposed_def)
  qed
qed

lemma apply_manifest_proposes:
  assumes "apply_manifest P clk j deps db = Inr (db', c, extra)"
  shows "only_proposed db db' \<and> kd_store db' = kd_store db \<and> gd_jobs (kd_gen db') = gd_jobs (kd_gen db)"
  using assms by (auto simp: apply_manifest_def Let_def only_proposed_def active_pointers_def split: if_splits)

lemma apply_quote_proposes:
  assumes "apply_quote U P clk i j found db = Inr (db', c, extra)"
  obtains (same) "db' = db"
    | (proposed) y x where "found = Some y" "db' = set_memories ((kd_store db)\<lparr>xd_experiences := xd_experiences (kd_store db) @ [x]\<rparr>) db"
        "xp_status x = X_pending" "xp_kind x = ca_kind y" "xp_created_by x = generation_actor j" "xp_project_id x = gj_project_id j"
        "xp_content x = py_strip (nfc U (ca_content y))" "xp_source_handoff_id x = Some (uuid_of (gj_source_key j))"
        "xp_source_payload_digest x = gj_source_watermark j"
proof -
  obtain h where src: "job_source j (kd_store db) = Some h" "hc_payload_digest (h_content h) = gj_source_watermark j"
    using assms by (auto simp: apply_quote_def check_source_def and_then_Inr_iff split: option.splits)
  show thesis
  proof (cases "db' = db")
    case True
    then show thesis by (rule same)
  next
    case False
    then obtain y store receipt where y: "found = Some y" and db': "db' = set_memories store db"
      and p: "propose_experience U P clk i (generation_actor j) (proposal_of j y) (kd_store db) = Inr (store, receipt)"
      using assms by (auto simp: apply_quote_def and_then_Inr_iff split: if_splits option.splits)
    have args: "arg_str (proposal_of j y) ''project_id'' = gj_project_id j" "arg_str (proposal_of j y) ''kind'' = ca_kind y"
        "arg_str (proposal_of j y) ''content'' = ca_content y" "has_key (proposal_of j y) ''source_handoff_id''"
        "arg_uuid (proposal_of j y) ''source_handoff_id'' = uuid_of (gj_source_key j)"
      by (simp_all add: proposal_of_def arg_str_def arg_uuid_def py_get_def has_key_def)
    obtain m where m: "exp_material_of U P (proposal_of j y) False = Inr m" and pr: "propose clk i
         \<lparr>sb_project_id = gj_project_id j, sb_actor_id = generation_actor j, sb_source_handoff_id = em_source m,
          sb_idempotency_key = arg_str (proposal_of j y) ''idempotency_key'', sb_kind = em_kind m, sb_title = em_title m,
          sb_content = em_content m, sb_tags = em_tags m,
          sb_search_text = search_fold U (join '' '' (em_title m # em_content m # em_tags m)),
          sb_submission_digest = digest P (PDict (material_dict m)),
          sb_content_fingerprint = fingerprint_of U P (em_kind m) (em_content m),
          sb_expires_at = em_expires_at m, sb_valid_from = em_valid_from m, sb_parent = em_parent m\<rparr> (kd_store db) = Inr (store, receipt)"
      using p by (auto simp: propose_experience_def submit_def and_then_Inr_iff args)
    have em: "em_kind m = ca_kind y" "em_content m = py_strip (nfc U (ca_content y))" "em_source m = Some (uuid_of (gj_source_key j))"
        "em_parent m = None"
      using m by (auto simp: exp_material_of_def and_then_Inr_iff normalize_text_def Let_def args)
    have src': "fetchrow (\<lambda>h. h_id h = uuid_of (gj_source_key j) \<and> h_project_id h = gj_project_id j) (xd_handoffs (kd_store db)) = Some h"
      using src(1) by (simp add: job_source_def conj_commute)
    have hid: "h_id h = uuid_of (gj_source_key j)" using fetchrow_SomeD [OF src'] by simp
    from pr show thesis
    proof (cases rule: proposeE)
      case existing
      then show thesis using False db' by (simp add: set_memories_def)
    next
      case (created parent k)
      have "k = h" using created(3) src' by (simp add: proposal_source_def em)
      moreover have "parent = None" using created(2) by (simp add: proposal_parent_def em)
      ultimately show thesis
        using proposed [OF y] db' created(6) em hid src(2) by (simp add: proposed_row_def Let_def insert_row_def)
    qed
  qed
qed

lemma appended_set: "appended p t t' \<Longrightarrow> x \<in> set t' \<Longrightarrow> x \<in> set t \<or> p x"
  by (auto simp: appended_def list_all_iff)

text \<open>What a prepared product of the extractor quotes.\<close>

lemma prepared_quote:
  assumes "prepare_work P T now s (structured_extractor U) j seen = (n, Inr (Quoted (Some c)))"
  shows "ca_kind c = ''fact''"
    and "\<exists>h \<in> set (xd_handoffs (kd_store seen)). \<exists>m. h_id h = uuid_of (gj_source_key j)
      \<and> hc_payload_digest (h_content h) = gj_source_watermark j \<and> \<not> sensitive (ca_content c)
      \<and> ca_content c = py_strip (nfc U (left_text T (hc_result_envelope (h_content h)) ''summary'' m))"
proof -
  have q: "prepare_quote P T s (structured_extractor U) j seen = (n, Inr (Quoted (Some c)))"
    using assms by (auto simp: prepare_work_def prepare_scaffold_def prepare_manifest_def Let_def
      split: job_kind.splits sum.splits)
  let ?m = "min_param (generation_max_input_chars s) j ''max_input_chars''"
  obtain h where h: "check_source P j (job_source j (kd_store seen)) = Inr h" and x: "structured_extract U (extraction_of T ?m h) = Inr (Some c)"
    using q by (auto simp: prepare_quote_def structured_extractor_def Let_def and_then_Inr_iff split: sum.splits if_splits)
  have "h \<in> set (xd_handoffs (kd_store seen)) \<and> h_id h = uuid_of (gj_source_key j) \<and> hc_payload_digest (h_content h) = gj_source_watermark j"
    using h fetchrow_SomeD by (fastforce simp: check_source_def job_source_def split: option.splits)
  moreover have "ei_summary (extraction_of T ?m h) = left_text T (hc_result_envelope (h_content h)) ''summary'' (?m + 1)"
    by (simp add: extraction_of_def)
  ultimately show "\<exists>h \<in> set (xd_handoffs (kd_store seen)). \<exists>m. h_id h = uuid_of (gj_source_key j)
      \<and> hc_payload_digest (h_content h) = gj_source_watermark j \<and> \<not> sensitive (ca_content c)
      \<and> ca_content c = py_strip (nfc U (left_text T (hc_result_envelope (h_content h)) ''summary'' m))"
    using quoted_source(2,3) [OF x] by auto
  show "ca_kind c = ''fact''" by (rule quoted_source(1) [OF x])
qed

text \<open>The three ends of a job.\<close>

definition work_done :: "unicode \<Rightarrow> (pyval \<Rightarrow> string) \<Rightarrow> time \<Rightarrow> gen_job \<Rightarrow> skdb \<Rightarrow> skdb \<Rightarrow> skdb \<Rightarrow> dict \<Rightarrow> bool" where
  "work_done U T now j seen db db' answer \<longleftrightarrow> job_fenced now j (kd_gen db) \<and> only_proposed db db'
     \<and> (\<forall>x \<in> set (xd_experiences (kd_store db')). x \<in> set (xd_experiences (kd_store db)) \<or> quoted_from U T seen j x)
     \<and> (\<exists>t result. gd_jobs (kd_gen db') = update_where (\<lambda>x. gj_id x = gj_id j) (succeeded_job t result) (gd_jobs (kd_gen db))
          \<and> answer = work_answer j ''succeeded'' result)"

definition work_failed :: "time \<Rightarrow> gen_job \<Rightarrow> skdb \<Rightarrow> skdb \<Rightarrow> dict \<Rightarrow> bool" where
  "work_failed now j db db' answer \<longleftrightarrow> job_fenced now j (kd_gen db)
     \<and> (\<exists>jobs attempts. db' = db\<lparr>kd_gen := (kd_gen db)\<lparr>gd_jobs := jobs, gd_attempts := attempts\<rparr>\<rparr>)
     \<and> (\<exists>c. answer = work_answer j ''failed'' [(''error_code'', PStr c)])"

definition lease_lost :: "gen_job \<Rightarrow> skdb \<Rightarrow> skdb \<Rightarrow> dict \<Rightarrow> bool" where
  "lease_lost j db db' answer \<longleftrightarrow> db' = db \<and> (\<exists>extra. answer = work_answer j ''lease_lost'' extra)"

lemma complete_work_cases:
  assumes prep: "prepare_work P T now s (structured_extractor U) j seen = (n, Inr w)"
    and c: "complete_work U P clk si i j w n db = Inr (db', answer)"
  shows "work_done U T (clk 1) j seen db db' answer \<or> lease_lost j db db' answer"
proof (cases "job_fenced (clk 1) j (kd_gen db)")
  case False
  then have "lease_lost j db db' answer" using c by (auto simp: complete_work_def lease_lost_def)
  then show ?thesis ..
next
  case True
  let ?clk = "\<lambda>n. clk (n + 1)"
  obtain db1 co extra g where ap: "apply_product U P ?clk si i j w db = Inr (db1, co, extra)"
    and fin: "finish_job (\<lambda>n. clk (n + 10)) j co (outcome_dict co n extra) (fst n) (snd n) (kd_gen db1) = Some g"
    and db': "db' = db1\<lparr>kd_gen := g\<rparr>" and answer: "answer = work_answer j ''succeeded'' (outcome_dict co n extra)"
    using c True by (auto simp: complete_work_def Let_def and_then_Inr_iff split: option.splits)
  obtain t where g: "gd_store g = gd_store (kd_gen db1)"
      "gd_jobs g = update_where (\<lambda>x. gj_id x = gj_id j) (succeeded_job t (outcome_dict co n extra)) (gd_jobs (kd_gen db1))"
    using fin by (auto simp: finish_job_def Let_def set_job_def finish_attempt_def split: if_splits)
  have "only_proposed db db1 \<and> gd_jobs (kd_gen db1) = gd_jobs (kd_gen db)
    \<and> (\<forall>x \<in> set (xd_experiences (kd_store db1)). x \<in> set (xd_experiences (kd_store db)) \<or> quoted_from U T seen j x)"
  proof (cases w)
    case (Scaffold a)
    then have "apply_scaffold U P ?clk si i j a db = Inr (db1, co, extra)" using ap by (simp add: apply_product_def)
    then show ?thesis using apply_scaffold_proposes by fastforce
  next
    case (Manifest deps)
    then have "apply_manifest P ?clk j deps db = Inr (db1, co, extra)" using ap by (simp add: apply_product_def)
    then show ?thesis using apply_manifest_proposes by fastforce
  next
    case (Quoted found)
    then have "apply_quote U P ?clk i j found db = Inr (db1, co, extra)" using ap by (simp add: apply_product_def)
    then show ?thesis
    proof (cases rule: apply_quote_proposes)
      case same
      then show ?thesis by simp
    next
      case (proposed y x)
      note q = prepared_quote [OF prep [unfolded Quoted proposed(1)]]
      have "generated_memory x" using proposed(3-5) q(1) by (simp add: generated_memory_def)
      moreover have "quoted_from U T seen j x"
        using q(2) proposed(5-) unfolding quoted_from_def Let_def by metis
      ultimately show ?thesis
        by (simp add: proposed(2) set_memories_def only_proposed_def active_pointers_def appended_one)
    qed
  qed
  then have "only_proposed db db' \<and> gd_jobs (kd_gen db1) = gd_jobs (kd_gen db)
    \<and> (\<forall>x \<in> set (xd_experiences (kd_store db')). x \<in> set (xd_experiences (kd_store db)) \<or> quoted_from U T seen j x)"
    using g(1) by (simp add: db' only_proposed_queue)
  then show ?thesis using True g(2) answer by (auto simp: work_done_def db')
qed

lemma fail_job_queue:
  assumes "fail_job clk j c retryable inp out g = (g', applied)"
  shows "applied = job_fenced (clk 1) j g" and "\<exists>jobs attempts. g' = g\<lparr>gd_jobs := jobs, gd_attempts := attempts\<rparr>"
    and "\<not> applied \<Longrightarrow> g' = g"
proof -
  have "g' = g\<lparr>gd_jobs := gd_jobs g', gd_attempts := gd_attempts g'\<rparr>"
    using assms by (auto simp: fail_job_def set_job_def finish_attempt_def split: if_splits)
  then show "\<exists>jobs attempts. g' = g\<lparr>gd_jobs := jobs, gd_attempts := attempts\<rparr>" by blast
qed (use assms in \<open>auto simp: fail_job_def split: if_splits\<close>)

lemma process_job_cases:
  assumes "process_job U P T clk si i s (structured_extractor U) j stop seen db later = (db', answer)"
  shows "work_done U T (clk 2) j seen db db' answer \<or> lease_lost j db db' answer
    \<or> work_failed (clk 21) j later db' answer \<or> lease_lost j later db' answer"
proof -
  define r where "r = (case stop of Some reached \<Rightarrow> (reached, Inl Timed_out)
    | None \<Rightarrow> let (n, w) = prepare_work P T (clk 0) s (structured_extractor U) j seen
              in (n, and_then w (\<lambda>w. complete_work U P (\<lambda>n. clk (n + 1)) si i j w n db)))"
  obtain n res where nr: "r = (n, res)" by (cases r)
  show ?thesis
  proof (cases res)
    case (Inr ended)
    then have "ended = (db', answer)" using assms nr by (simp add: process_job_def r_def)
    moreover obtain w where "prepare_work P T (clk 0) s (structured_extractor U) j seen = (n, Inr w)"
        "complete_work U P (\<lambda>n. clk (n + 1)) si i j w n db = Inr ended"
      using nr Inr unfolding r_def by (auto simp: and_then_Inr_iff split: option.splits prod.splits)
    ultimately have "work_done U T (clk (1 + 1)) j seen db db' answer \<or> lease_lost j db db' answer"
      using complete_work_cases [of P T "clk 0" s U j seen n w "\<lambda>n. clk (n + 1)"] by blast
    then show ?thesis by (auto simp: numeral_2_eq_2)
  next
    case (Inl e)
    obtain c retryable where c: "failure_code e = (c, retryable)" by (cases "failure_code e")
    obtain g applied where f: "fail_job (\<lambda>n. clk (n + 20)) j c retryable (fst n) (snd n) (kd_gen later) = (g, applied)"
      by (cases "fail_job (\<lambda>n. clk (n + 20)) j c retryable (fst n) (snd n) (kd_gen later)")
    have out: "db' = later\<lparr>kd_gen := g\<rparr>" "answer = work_answer j (if applied then ''failed'' else ''lease_lost'') [(''error_code'', PStr c)]"
      using assms nr Inl c f by (simp_all add: process_job_def r_def)
    show ?thesis
    proof (cases applied)
      case True
      then have "work_failed (clk 21) j later db' answer"
        using fail_job_queue(1,2) [OF f] out by (auto simp: work_failed_def)
      then show ?thesis by blast
    next
      case False
      then have "lease_lost j later db' answer" using fail_job_queue(3) [OF f] out by (auto simp: lease_lost_def)
      then show ?thesis by blast
    qed
  qed
qed

lemma process_job_proposes:
  assumes "process_job U P T clk si i s (structured_extractor U) j stop db db db = (db', answer)"
  shows "only_proposed db db'"
  using process_job_cases [OF assms]
  by (auto simp: work_done_def lease_lost_def work_failed_def only_proposed_queue)

subsection \<open>A run\<close>

lemma bury_all_store [simp]: "gd_store (bury_all now js db) = gd_store db"
  by (induction js arbitrary: db) (simp_all add: set_job_def finish_attempt_def)

lemma claim_job_store: "claim_job clk token project lease g = (g', got) \<Longrightarrow> gd_store g' = gd_store g"
  by (auto simp: claim_job_def Let_def set_job_def finish_attempt_def split: option.splits if_splits)

lemma work_loop_proposes:
  "work_loop U P T env s project n db = (db', rs) \<Longrightarrow> only_proposed db db' \<and> length rs \<le> n"
proof (induction n arbitrary: env db db' rs)
  case (Suc n)
  let ?e = "env 0"
  obtain g got where c: "claim_job (we_clock ?e) (we_token ?e) project (generation_lease_seconds s) (kd_gen db) = (g, got)"
    by (cases "claim_job (we_clock ?e) (we_token ?e) project (generation_lease_seconds s) (kd_gen db)")
  let ?db1 = "db\<lparr>kd_gen := g\<rparr>"
  have start: "only_proposed db ?db1" using claim_job_store [OF c] by (simp add: only_proposed_queue)
  show ?case
  proof (cases got)
    case None
    then show ?thesis using Suc.prems c start by simp
  next
    case (Some j)
    obtain db2 r where p: "process_job U P T (\<lambda>n. we_clock ?e (n + 10)) (we_skill ?e) (we_id ?e) s (structured_extractor U) j
        (we_stop ?e) ?db1 ?db1 ?db1 = (db2, r)"
      by (cases "process_job U P T (\<lambda>n. we_clock ?e (n + 10)) (we_skill ?e) (we_id ?e) s (structured_extractor U) j
        (we_stop ?e) ?db1 ?db1 ?db1")
    obtain db3 rs' where l: "work_loop U P T (\<lambda>n. env (Suc n)) s project n db2 = (db3, rs')"
      by (cases "work_loop U P T (\<lambda>n. env (Suc n)) s project n db2")
    have "db' = db3 \<and> rs = r # rs'" using Suc.prems c Some p l by simp
    moreover have "only_proposed db db3"
      by (rule only_proposed_trans [OF start only_proposed_trans [OF process_job_proposes [OF p]]]) (rule Suc.IH [OF l, THEN conjunct1])
    moreover have "length rs' \<le> n" by (rule Suc.IH [OF l, THEN conjunct2])
    ultimately show ?thesis by simp
  qed
qed simp

lemma run_worker_proposes:
  assumes "run_worker U P T env s project max_jobs db = Inr (db', answer)"
  shows "only_proposed db db' \<and> 0 \<le> int_of (py_get answer ''processed'') \<and> int_of (py_get answer ''processed'') \<le> max_jobs"
proof -
  obtain db1 rs where l: "work_loop U P T env s project (nat max_jobs) db = (db1, rs)"
    by (cases "work_loop U P T env s project (nat max_jobs) db")
  have "1 \<le> max_jobs" and out: "db' = db1 \<and> py_get answer ''processed'' = PInt (int (length rs))"
    using assms unfolding run_worker_def l by (auto simp: py_get_def split: if_splits)
  then show ?thesis using work_loop_proposes [OF l] by (simp add: int_of_def le_nat_iff)
qed

text \<open>
  C2. The worker only proposes. However its job turns out, in whatever states its three
  transactions start: a result is applied only while the lease of the claim is running, and
  then the job has succeeded with the outcome reported, the only new memories and skill
  revisions are pending drafts marked as generated, and a new memory quotes, without anything
  sensitive, the summary read from the payload the job was queued for; a failure touches only
  the queue, and only under the lease; and without the lease nothing changes. A whole run
  processes at most the jobs it was asked for and only proposes.
\<close>

theorem worker_only_proposes:
  "(case process_job U P T clk si i s (structured_extractor U) j stop seen db later of (db', answer) \<Rightarrow>
      work_done U T (clk 2) j seen db db' answer \<or> lease_lost j db db' answer
      \<or> work_failed (clk 21) j later db' answer \<or> lease_lost j later db' answer)
   \<and> (case run_worker U P T env s project max_jobs start of
        Inl e \<Rightarrow> True
      | Inr (done, answer) \<Rightarrow> only_proposed start done \<and> 0 \<le> int_of (py_get answer ''processed'')
          \<and> int_of (py_get answer ''processed'') \<le> max_jobs)"
proof (rule conjI, goal_cases)
  case 1
  show ?case by (rule case_prodI2) (rule process_job_cases)
next
  case 2
  show ?case by (cases "run_worker U P T env s project max_jobs start") (auto dest: run_worker_proposes)
qed

subsection \<open>Witness\<close>

definition reported_source :: handoff where
  "reported_source = demo_source\<lparr>h_content := (h_content demo_source)\<lparr>
     hc_result_envelope := PDict [(''summary'', PStr '' All tests pass '')],
     hc_task_envelope := PDict [(''objective'', PStr ''Release'')]\<rparr>\<rparr>"

definition demo_job :: gen_job where
  "demo_job = \<lparr>gj_id = 7, gj_project_id = ''p'', gj_kind = G_extract, gj_source_key = ''1'', gj_source_watermark = ''d'',
     gj_recipe = RECIPE, gj_provider = PROVIDER, gj_model_version = MODEL_VERSION, gj_prompt_version = PROMPT_VERSION,
     gj_parameters = [(''source_binding'', PStr ''sha256:''), (''max_input_chars'', PInt 100), (''max_output_chars'', PInt 100),
       (''cost_budget_microusd'', PInt 0)],
     gj_enqueued_by = ''ann'', gj_status = J_running, gj_version = 2, gj_attempts = 1, gj_max_attempts = 3,
     gj_lease_token = Some 5, gj_lease_until = Some 90, gj_available_at = 0, gj_error_code = None, gj_outcome = None,
     gj_redrive_version = None, gj_redrive_actor = None, gj_created_at = 0, gj_updated_at = 1\<rparr>"

definition demo_working :: skdb where
  "demo_working = \<lparr>kd_gen = \<lparr>gd_jobs = [demo_job], gd_attempts = [new_attempt 1 demo_job], gd_snapshots = [],
       gd_store = \<lparr>xd_experiences = [], xd_events = [], xd_suppressions = [], xd_handoffs = [reported_source]\<rparr>\<rparr>,
     kd_skills = [], kd_revisions = [], kd_sources = [], kd_events = []\<rparr>"

definition demo_quote :: candidate where
  "demo_quote = \<lparr>ca_kind = ''fact'', ca_title = ''Release'', ca_content = ''All tests pass''\<rparr>"

lemma demo_prepared_work:
  "prepare_work demo_checker (\<lambda>_. []) 0 default_settings (structured_extractor plain_unicode) demo_job demo_working
     = ((23, 21), Inr (Quoted (Some demo_quote)))"
proof -
  have dig: "digest demo_checker v = ''sha256:''" for v by (simp add: digest_def demo_checker_def)
  have src: "check_source demo_checker demo_job (job_source demo_job (kd_store demo_working)) = Inr reported_source"
  proof -
    have "job_source demo_job (kd_store demo_working) = Some reported_source" by code_simp
    moreover have "hc_payload_digest (h_content reported_source) = gj_source_watermark demo_job"
        "py_get (gj_parameters demo_job) ''source_binding'' = PStr ''sha256:''" by code_simp+
    ultimately show ?thesis by (simp add: check_source_def checked_def source_watermark_def Let_def dig)
  qed
  have x: "extraction_of (\<lambda>_. []) 100 reported_source
      = \<lparr>ei_summary = '' All tests pass '', ei_objective = ''Release'', ei_result_status = ''done''\<rparr>" by code_simp
  have ext: "structured_extract plain_unicode
      \<lparr>ei_summary = '' All tests pass '', ei_objective = ''Release'', ei_result_status = ''done''\<rparr> = Inr (Some demo_quote)"
    by code_simp
  have params: "min_param (generation_max_input_chars default_settings) demo_job ''max_input_chars'' = 100"
      "min_param (generation_max_output_chars default_settings) demo_job ''max_output_chars'' = 100"
      "arg_int (gj_parameters demo_job) ''cost_budget_microusd'' = 0" "gj_recipe demo_job = RECIPE" "gj_kind demo_job = G_extract"
    by code_simp+
  show ?thesis
    by (simp add: prepare_work_def prepare_quote_def params src x ext structured_extractor_def checked_def and_then_def)
      (simp add: demo_quote_def)
qed

lemma demo_completed:
  "\<exists>db x answer. complete_work plain_unicode demo_checker (\<lambda>_. 5) 8 9 demo_job (Quoted (Some demo_quote)) (23, 21) demo_working
     = Inr (db, answer) \<and> xd_experiences (kd_store db) = [x]"
proof -
  have dig: "digest demo_checker v = ''sha256:''" for v by (simp add: digest_def demo_checker_def)
  have finger: "fingerprint_of plain_unicode demo_checker k v = ''sha256:''" for k v
    by (simp add: fingerprint_of_def demo_checker_def)
  have src: "job_source demo_job (kd_store demo_working) = Some reported_source" by code_simp
  have chk: "check_source demo_checker demo_job (Some reported_source) = Inr reported_source"
  proof -
    have "hc_payload_digest (h_content reported_source) = gj_source_watermark demo_job"
        "py_get (gj_parameters demo_job) ''source_binding'' = PStr ''sha256:''" by code_simp+
    then show ?thesis by (simp add: check_source_def checked_def source_watermark_def Let_def dig)
  qed
  let ?a = "proposal_of demo_job demo_quote"
  have fields: "py_strip (nfc plain_unicode (arg_str ?a ''title'')) = ''Release''"
      "py_strip (nfc plain_unicode (arg_str ?a ''content'')) = ''All tests pass''" "arg_strs ?a ''tags'' = []"
      "has_key ?a ''expires_at'' = False" "has_key ?a ''valid_from'' = False" "has_key ?a ''source_handoff_id''"
      "arg_uuid ?a ''source_handoff_id'' = 1" "arg_str ?a ''kind'' = ''fact''" "arg_str ?a ''project_id'' = ''p''"
    by (simp_all add: proposal_of_def arg_str_def arg_strs_def arg_uuid_def py_get_def has_key_def demo_quote_def demo_job_def
        plain_unicode_def py_strip_def py_space_def strs_of_def list_of_def uuid_of_def hex_value_def)
  have mat: "exp_material_of plain_unicode demo_checker ?a False = Inr \<lparr>em_source = Some 1, em_kind = ''fact'', em_title = ''Release'',
      em_content = ''All tests pass'', em_tags = [], em_expires_at = None, em_valid_from = None, em_parent = None\<rparr>"
    by (simp add: exp_material_of_def normalize_text_def Let_def fields checked_def and_then_def opt_utc_def)
  obtain x receipt where p: "propose_experience plain_unicode demo_checker (\<lambda>_. 5) 9 (generation_actor demo_job) ?a (kd_store demo_working)
      = Inr ((kd_store demo_working)\<lparr>xd_experiences := [x]\<rparr>, receipt)"
    by (simp add: propose_experience_def submit_def mat fields and_then_def propose_def demo_working_def proposal_parent_def
        proposal_source_def reported_source_def demo_source_def new_handoff_def invalid_interval_def ensure_not_suppressed_def
        checked_def suppressed_def exists_row_def insert_row_def)
  have fence: "job_fenced 5 demo_job (kd_gen demo_working)"
    by (simp add: job_fenced_def exists_row_def demo_working_def demo_job_def)
  have clean: "protected_source demo_job reported_source (kd_store demo_working) = False"
      "duplicate_of plain_unicode demo_checker demo_job reported_source demo_quote (kd_store demo_working) = None"
    by (simp_all add: protected_source_def exists_row_def duplicate_of_def demo_working_def)
  have valid: "schema_valid demo_checker PROPOSE_SCHEMA (PDict ?a)" by (simp add: demo_checker_def proposal_of_def)
  have ap: "apply_quote plain_unicode demo_checker (\<lambda>_. 5) 9 demo_job (Some demo_quote) demo_working
      = Inr (set_memories ((kd_store demo_working)\<lparr>xd_experiences := [x]\<rparr>) demo_working, ''proposed'', [(''memory_id'', py_get receipt ''memory_id'')])"
    by (simp add: apply_quote_def src chk clean p valid and_then_def checked_def from_tool_def)
  have fence2: "job_fenced 5 demo_job ((kd_gen demo_working)\<lparr>gd_store := y\<rparr>)" for y
    using fence by (simp add: job_fenced_def)
  have lease: "exists_row (\<lambda>j. gj_id j = gj_id demo_job \<and> after (gj_lease_until j) 5) (gd_jobs (kd_gen demo_working))"
    by (simp add: demo_working_def exists_row_def demo_job_def)
  show ?thesis
    by (simp add: complete_work_def fence apply_product_def ap and_then_def finish_job_def fence2 lease Let_def set_memories_def set_job_def
        finish_attempt_def)
qed

theorem worker_only_proposes_witness:
  "\<exists>db x. fst (process_job plain_unicode demo_checker (\<lambda>_. []) (\<lambda>_. 5) 8 9 default_settings (structured_extractor plain_unicode)
       demo_job None demo_working demo_working demo_working) = db
     \<and> xd_experiences (kd_store db) = [x] \<and> quoted_from plain_unicode (\<lambda>_. []) demo_working demo_job x"
proof -
  obtain db x answer where c: "complete_work plain_unicode demo_checker (\<lambda>_. 5) 8 9 demo_job (Quoted (Some demo_quote)) (23, 21)
      demo_working = Inr (db, answer)" and x: "xd_experiences (kd_store db) = [x]"
    using demo_completed by blast
  have prep: "prepare_work demo_checker (\<lambda>_. []) 5 default_settings (structured_extractor plain_unicode) demo_job demo_working
      = ((23, 21), Inr (Quoted (Some demo_quote)))"
    using demo_prepared_work by (simp add: prepare_work_def demo_job_def)
  let ?p = "process_job plain_unicode demo_checker (\<lambda>_. []) (\<lambda>_. 5) 8 9 default_settings (structured_extractor plain_unicode)
       demo_job None demo_working demo_working demo_working"
  have p: "?p = (db, answer)" by (simp add: process_job_def prep c and_then_def)
  have none: "xd_experiences (kd_store demo_working) = []" by (simp add: demo_working_def)
  have grown: "kd_store db \<noteq> kd_store demo_working" using x none by auto
  have "work_done plain_unicode (\<lambda>_. []) 5 demo_job demo_working demo_working db answer"
    using worker_only_proposes [where U = plain_unicode and P = demo_checker and T = "\<lambda>_. []" and clk = "\<lambda>_. 5" and si = 8
      and i = 9 and s = default_settings and j = demo_job and stop = None and seen = demo_working and db = demo_working
      and later = demo_working, THEN conjunct1] grown
    by (auto simp: p lease_lost_def work_failed_def)
  then show ?thesis using p x none by (simp add: work_done_def)
qed

end
