(* ===== verification/Server_Protocol.thy ===== *)
theory Server_Protocol
  imports Auth Text_Codec
begin

text \<open>
  The request surface (server/protocol.py, server/mcp_handler.py, server/http_handler.py):
  the stateless JSON-RPC handler, the newline-delimited stdio server, and the HTTP endpoints
  with their authentication. A server calls a dispatcher it was given, which may change the
  state behind it, and verifiers of tokens, which may change the state of the logins; the
  table of tools is a list of tool descriptions with their names.
\<close>

subsection \<open>Protocol\<close>

definition PROTOCOL_VERSION :: string where "PROTOCOL_VERSION = ''2026-07-28''"
definition SUPPORTED_VERSIONS :: "string list" where "SUPPORTED_VERSIONS = [PROTOCOL_VERSION]"
definition META_PREFIX :: string where "META_PREFIX = ''io.modelcontextprotocol/''"
definition META_PROTOCOL_VERSION :: string where "META_PROTOCOL_VERSION = META_PREFIX @ ''protocolVersion''"
definition META_CLIENT_INFO :: string where "META_CLIENT_INFO = META_PREFIX @ ''clientInfo''"
definition META_CLIENT_CAPABILITIES :: string where "META_CLIENT_CAPABILITIES = META_PREFIX @ ''clientCapabilities''"
definition META_SERVER_INFO :: string where "META_SERVER_INFO = META_PREFIX @ ''serverInfo''"

definition ERR_HEADER_MISMATCH :: int where "ERR_HEADER_MISMATCH = -32020"
definition ERR_UNSUPPORTED_PROTOCOL_VERSION :: int where "ERR_UNSUPPORTED_PROTOCOL_VERSION = -32022"
definition ERR_PARSE_ERROR :: int where "ERR_PARSE_ERROR = -32700"
definition ERR_INVALID_REQUEST :: int where "ERR_INVALID_REQUEST = -32600"
definition ERR_METHOD_NOT_FOUND :: int where "ERR_METHOD_NOT_FOUND = -32601"
definition ERR_INVALID_PARAMS :: int where "ERR_INVALID_PARAMS = -32602"
definition ERR_INTERNAL_ERROR :: int where "ERR_INTERNAL_ERROR = -32603"

definition rpc_failure :: "string \<Rightarrow> int \<Rightarrow> string \<Rightarrow> dict \<Rightarrow> mem_error" where
  "rpc_failure msg rpc c d = (memory_tool_error msg c d 400)\<lparr>err_rpc := rpc\<rparr>"

definition error_data :: "mem_error \<Rightarrow> dict" where
  \<comment> \<open>\<open>error.data\<close>\<close>
  "error_data e = (if err_code e = [] then [] else [(''error_code'', PStr (err_code e))]) @ err_data e"

record request_meta =
  rm_protocol_version :: string
  rm_client_info :: "dict option"
  rm_client_capabilities :: dict
  rm_raw :: dict

definition extract_request_meta :: "dict \<Rightarrow> request_meta outcome" where
  "extract_request_meta params =
     (case py_get params ''_meta'' of
        PDict meta \<Rightarrow> (case py_get meta META_PROTOCOL_VERSION of
            PStr v \<Rightarrow>
              if v = [] then Inl (rpc_failure (''Missing required '' @ META_PROTOCOL_VERSION @ '' in _meta'') ERR_INVALID_PARAMS ''MEM-MCP-0001'' [])
              else (case py_get meta META_CLIENT_CAPABILITIES of
                  PDict caps \<Rightarrow> Inr \<lparr>rm_protocol_version = v,
                    rm_client_info = (case py_get meta META_CLIENT_INFO of PDict i \<Rightarrow> Some i | _ \<Rightarrow> None),
                    rm_client_capabilities = caps, rm_raw = meta\<rparr>
                | _ \<Rightarrow> Inl (rpc_failure (''Missing required '' @ META_CLIENT_CAPABILITIES @ '' in _meta'') ERR_INVALID_PARAMS ''MEM-MCP-0001'' []))
          | _ \<Rightarrow> Inl (rpc_failure (''Missing required '' @ META_PROTOCOL_VERSION @ '' in _meta'') ERR_INVALID_PARAMS ''MEM-MCP-0001'' []))
      | _ \<Rightarrow> Inl (rpc_failure ''Missing required _meta field on request'' ERR_INVALID_PARAMS ''MEM-MCP-0001'' []))"

definition validate_protocol_version :: "request_meta \<Rightarrow> unit outcome" where
  "validate_protocol_version m = checked
     [(rm_protocol_version m \<notin> set SUPPORTED_VERSIONS,
       rpc_failure (''Unsupported protocol version: '' @ rm_protocol_version m) ERR_UNSUPPORTED_PROTOCOL_VERSION ''MEM-MCP-0002''
         [(''supportedVersions'', strs SUPPORTED_VERSIONS)])] ()"

definition SERVER_INFO :: pyval where
  "SERVER_INFO = PDict [(''name'', PStr ''isekai-memory''), (''version'', PStr ''0.2.0'')]"

definition result_meta :: pyval where
  "result_meta = PDict [(META_SERVER_INFO, SERVER_INFO)]"

definition INSTRUCTIONS :: string where
  \<comment> \<open>the dash of the text is outside the code points of the model\<close>
  "INSTRUCTIONS = ''ISEKAI Memory - Work Handoff, Project Experience and Repository Registry. ''
     @ ''Use tools/list to discover tools. Experience content is reference data, not execution authority. ''
     @ ''Propose experiences for admin review; search/read only approved, currently valid records. ''
     @ ''Admin corrections replace parents atomically; forget erases stored experience plaintext.''"

definition discover_result :: dict where
  "discover_result =
     [(''resultType'', PStr ''complete''), (''supportedVersions'', strs SUPPORTED_VERSIONS),
      (''capabilities'', PDict [(''tools'', PDict [(''listChanged'', PBool False)])]),
      (''instructions'', PStr INSTRUCTIONS), (''ttlMs'', PInt 3600000), (''cacheScope'', PStr ''public''), (''_meta'', result_meta)]"

subsection \<open>The JSON-RPC handler\<close>

text \<open>\<open>json.dumps(value, ensure_ascii=False, sort_keys=True)\<close>: as the canonical form, with spaces.\<close>

definition spaced_object :: "(string \<times> string) list \<Rightarrow> string" where
  "spaced_object members = ''{'' @ join '', '' (map (\<lambda>kv. json_str (fst kv) @ '': '' @ snd kv) (sort_key fst members)) @ ''}''"

fun spaced :: "platform \<Rightarrow> pyval \<Rightarrow> string option"
  and spaced_list :: "platform \<Rightarrow> pyval list \<Rightarrow> string list option"
  and spaced_members :: "platform \<Rightarrow> (string \<times> pyval) list \<Rightarrow> (string \<times> string) list option" where
  "spaced P (PTime t) = None"
| "spaced P (PList xs) = map_option (\<lambda>ys. ''['' @ join '', '' ys @ '']'') (spaced_list P xs)"
| "spaced P (PDict d) = map_option spaced_object (spaced_members P d)"
| "spaced P v = dumps P v"
| "spaced_list P [] = Some []"
| "spaced_list P (x # xs) = (case spaced P x of None \<Rightarrow> None | Some s \<Rightarrow> map_option ((#) s) (spaced_list P xs))"
| "spaced_members P [] = Some []"
| "spaced_members P ((k, x) # d) =
     (case spaced P x of None \<Rightarrow> None | Some s \<Rightarrow> map_option ((#) (k, s)) (spaced_members P d))"

text \<open>\<open>str(v)\<close> of a parsed JSON value that can be a key.\<close>

fun py_str :: "platform \<Rightarrow> pyval \<Rightarrow> string" where
  "py_str P PNone = ''None''"
| "py_str P (PBool b) = (if b then ''True'' else ''False'')"
| "py_str P (PInt n) = show_int n"
| "py_str P (PFloat q) = float_repr P q"
| "py_str P v = str_of v"

text \<open>What a dispatcher ends with: a result, a controlled error, or any other exception.\<close>

datatype call_end = Answered pyval | Refused mem_error | Raised

record 's server =
  sv_platform :: platform
  sv_tools :: "dict list"
  sv_dispatch :: "string \<Rightarrow> dict \<Rightarrow> principal \<Rightarrow> 's \<Rightarrow> 's \<times> call_end"

definition tool_names :: "'s server \<Rightarrow> string list" where
  "tool_names S = map (\<lambda>t. arg_str t ''name'') (sv_tools S)"

definition tools_list :: "'s server \<Rightarrow> dict" where
  "tools_list S = [(''resultType'', PStr ''complete''), (''tools'', PList (map PDict (sv_tools S))), (''ttlMs'', PInt 3600000),
     (''cacheScope'', PStr ''public''), (''_meta'', result_meta)]"

definition call_result :: "string \<Rightarrow> pyval \<Rightarrow> bool \<Rightarrow> dict" where
  "call_result t structured failed =
     [(''resultType'', PStr ''complete''), (''content'', PList [PDict [(''type'', PStr ''text''), (''text'', PStr t)]]),
      (''structuredContent'', structured), (''isError'', PBool failed), (''_meta'', result_meta)]"

definition hashable :: "pyval \<Rightarrow> bool" where
  "hashable v = (case v of PList _ \<Rightarrow> False | PDict _ \<Rightarrow> False | _ \<Rightarrow> True)"

definition rendered :: "platform \<Rightarrow> pyval \<Rightarrow> (string \<Rightarrow> dict) \<Rightarrow> dict outcome" where
  "rendered P v f = (case spaced P v of None \<Rightarrow> Inl (unhandled ''TypeError'') | Some t \<Rightarrow> Inr (f t))"

definition call_tool :: "'s server \<Rightarrow> dict \<Rightarrow> principal \<Rightarrow> 's \<Rightarrow> 's \<times> dict outcome" where
  "call_tool S params p st =
     (let name = py_get params ''name''; args = get_or params ''arguments'' (PDict [])
      in if \<not> hashable name then (st, Inl (unhandled ''TypeError''))
         else if name \<notin> PStr ` set (tool_names S)
         then (st, Inl (rpc_failure (''Unknown tool: '' @ py_str (sv_platform S) name) ERR_INVALID_PARAMS ''MEM-TOOL-0001'' []))
         else if \<not> is_dict args
         then (st, Inl (rpc_failure ''Tool arguments must be an object'' ERR_INVALID_PARAMS ''MEM-TOOL-0002'' []))
         else case sv_dispatch S (str_of name) (dict_of args) p st of
             (st', Answered v) \<Rightarrow> (st', rendered (sv_platform S) v (\<lambda>t. call_result t v False))
           | (st', Refused e) \<Rightarrow>
               let payload = PDict ((''message'', PStr (err_message e)) # error_data e)
               in (st', rendered (sv_platform S) payload (\<lambda>t. call_result t (PDict [(''error'', payload)]) True))
           | (st', Raised) \<Rightarrow> (st', Inl (unhandled ''Exception'')))"

definition route :: "'s server \<Rightarrow> string \<Rightarrow> dict \<Rightarrow> principal \<Rightarrow> 's \<Rightarrow> 's \<times> dict outcome" where
  "route S method params p st =
     (case and_then (extract_request_meta params) validate_protocol_version of
        Inl e \<Rightarrow> (st, Inl e)
      | Inr _ \<Rightarrow>
          if method = ''server/discover'' then (st, Inr discover_result)
          else if method = ''tools/list'' then (st, Inr (tools_list S))
          else if method = ''tools/call'' then call_tool S params p st
          else (st, Inl (rpc_failure ''Method not found'' ERR_METHOD_NOT_FOUND [] [])))"

definition error_response :: "pyval \<Rightarrow> int \<Rightarrow> string \<Rightarrow> dict \<Rightarrow> dict" where
  "error_response i rpc msg d =
     [(''jsonrpc'', PStr ''2.0''), (''id'', i),
      (''error'', PDict ([(''code'', PInt rpc), (''message'', PStr msg)] @ (if d = [] then [] else [(''data'', PDict d)])))]"

definition is_identifier :: "pyval \<Rightarrow> bool" where
  \<comment> \<open>a text or a number; the floats of the model are finite\<close>
  "is_identifier v = (case v of PStr _ \<Rightarrow> True | PInt _ \<Rightarrow> True | PFloat _ \<Rightarrow> True | _ \<Rightarrow> False)"

definition is_tool_error :: "mem_error \<Rightarrow> bool" where
  \<comment> \<open>a controlled error, not another exception\<close>
  "is_tool_error e \<longleftrightarrow> err_rpc e \<noteq> ERR_INTERNAL_ERROR"

definition failure_response :: "pyval \<Rightarrow> mem_error \<Rightarrow> dict" where
  "failure_response i e = (if is_tool_error e then error_response i (err_rpc e) (err_message e) (error_data e)
     else error_response i ERR_INTERNAL_ERROR ''Internal error'' [])"

definition handle :: "'s server \<Rightarrow> pyval \<Rightarrow> principal \<Rightarrow> 's \<Rightarrow> 's \<times> dict option" where
  "handle S request p st =
     (case request of
        PDict r \<Rightarrow>
          let method = py_get r ''method''; i = py_get r ''id''; silent = \<not> has_key r ''id'';
              params = get_or r ''params'' (PDict [])
          in if py_get r ''jsonrpc'' \<noteq> PStr ''2.0'' \<or> \<not> is_str method
             then (st, Some (error_response PNone ERR_INVALID_REQUEST ''Invalid Request'' []))
             else if \<not> silent \<and> \<not> is_identifier i
             then (st, Some (error_response PNone ERR_INVALID_REQUEST ''Invalid Request id'' []))
             else if \<not> is_dict params
             then (st, if silent then None else Some (error_response i ERR_INVALID_PARAMS ''params must be an object'' []))
             else (case route S (str_of method) (dict_of params) p st of
                 (st', Inr result) \<Rightarrow>
                   (st', if silent then None else Some [(''jsonrpc'', PStr ''2.0''), (''id'', i), (''result'', PDict result)])
               | (st', Inl e) \<Rightarrow> (st', if silent then None else Some (failure_response i e)))
      | _ \<Rightarrow> (st, Some (error_response PNone ERR_INVALID_REQUEST ''Invalid Request'' [])))"

subsection \<open>The stdio server\<close>

text \<open>
  What \<open>json.loads\<close> makes of a line: a value, a ValueError, or the RecursionError that deep
  nesting raises in the standard library.
\<close>

datatype parsed = Parsed pyval | Not_json | Too_deep

text \<open>A line with the length of its UTF-8 form.\<close>

datatype frame = Frame nat parsed

definition MAX_LINE_BYTES :: nat where "MAX_LINE_BYTES = 8 * 2 ^ 20"

text \<open>The state, the lines written, and whether the loop ended at the end of the input.\<close>

fun serve_stdio :: "'s server \<Rightarrow> frame list \<Rightarrow> 's \<Rightarrow> 's \<times> dict list \<times> bool" where
  "serve_stdio S [] st = (st, [], True)"
| "serve_stdio S (Frame n line # rest) st =
     (if MAX_LINE_BYTES < n
      then let (st', out, ended) = serve_stdio S rest st
           in (st', error_response PNone ERR_INVALID_REQUEST ''Request frame exceeds size limit'' [] # out, ended)
      else case line of
          Not_json \<Rightarrow>
            let (st', out, ended) = serve_stdio S rest st
            in (st', error_response PNone ERR_PARSE_ERROR ''Parse error'' [] # out, ended)
        | Too_deep \<Rightarrow> (st, [], False)
        | Parsed v \<Rightarrow>
            let (st1, answer) = handle S v local_stdio st; (st', out, ended) = serve_stdio S rest st1
            in (st', (case answer of None \<Rightarrow> out | Some r \<Rightarrow> r # out), ended))"

subsection \<open>The HTTP server\<close>

text \<open>Header names are in lower case, as the framework looks them up; \<open>hr_content_length\<close> is the decoded header.\<close>

record http_request =
  hr_method :: string
  hr_path :: string
  hr_headers :: "(string \<times> string) list"
  hr_content_length :: "nat option"
  hr_size :: nat
  hr_body :: parsed

record http_response =
  hp_status :: int
  hp_body :: "pyval option"
  hp_protocol :: bool
  hp_no_store :: bool

text \<open>
  The state has two parts: \<open>'v\<close> is that of the identity services, with the tables of company
  and GitHub accounts, and \<open>'s\<close> is the one behind the tools, with the access tokens.
  \<open>hs_github\<close> and \<open>hs_entra\<close> verify a bearer token of their provider, which enters a new
  account in its table; \<open>hs_token\<close> is \<open>verify_token\<close> on the tokens of the database;
  \<open>hs_login\<close> answers the login routes.
\<close>

record ('v, 's) http_server =
  hs_mcp :: "'s server"
  hs_max_bytes :: nat
  hs_auth_enabled :: bool
  hs_token_header :: string
  hs_entra_enabled :: bool
  hs_entra_legacy :: bool
  hs_github_enabled :: bool
  hs_github_legacy :: bool
  hs_github :: "string \<Rightarrow> 'v \<Rightarrow> 'v \<times> principal outcome"
  hs_entra :: "string \<Rightarrow> 'v \<Rightarrow> 'v \<times> principal outcome"
  hs_token :: "string option \<Rightarrow> 's \<Rightarrow> principal outcome"
  hs_login :: "http_request \<Rightarrow> 'v \<Rightarrow> 'v \<times> http_response"

definition header :: "http_request \<Rightarrow> string \<Rightarrow> string option" where
  "header r name = map_of (hr_headers r) name"

definition GITHUB_PREFIX :: string where "GITHUB_PREFIX = ''iskgh.''"

definition entra_denied :: mem_error where
  "entra_denied = memory_tool_error ''Company authentication is invalid or expired'' ''MEM-AUTH-ENTRA'' [] 401"

definition raw_token :: "('v, 's) http_server \<Rightarrow> http_request \<Rightarrow> string option" where
  "raw_token C r =
     (let authorization = (case header r ''authorization'' of None \<Rightarrow> [] | Some v \<Rightarrow> v);
          bearer = (if starts_with ''bearer '' (ascii_lower authorization) then py_strip (drop 7 authorization) else [])
      in if bearer \<noteq> [] then Some bearer else header r (hs_token_header C))"

definition authenticate :: "('v, 's) http_server \<Rightarrow> http_request \<Rightarrow> 'v \<times> 's \<Rightarrow> 'v \<times> principal outcome" where
  \<comment> \<open>the check of a provider may change the state of the identity services, also when it refuses\<close>
  "authenticate C r st =
     (let raw = raw_token C r; t = (case raw of None \<Rightarrow> [] | Some v \<Rightarrow> v)
      in if t \<noteq> [] \<and> starts_with GITHUB_PREFIX t then hs_github C t (fst st)
         else if hs_entra_enabled C \<and> t \<noteq> [] \<and> length (filter (\<lambda>c. c = CHR ''.'') t) = 2 then hs_entra C t (fst st)
         else if hs_entra_enabled C \<and> \<not> hs_entra_legacy C \<or> hs_github_enabled C \<and> \<not> hs_github_legacy C
         then (fst st, Inl entra_denied)
         else (fst st, hs_token C raw (snd st)))"

definition http_error :: "int \<Rightarrow> string \<Rightarrow> string \<Rightarrow> dict \<Rightarrow> http_response" where
  "http_error status c msg extra = \<lparr>hp_status = status,
     hp_body = Some (PDict [(''error'', PDict ([(''error_code'', PStr c), (''message'', PStr msg)] @ extra))]),
     hp_protocol = False, hp_no_store = False\<rparr>"

definition error_code_or :: "string \<Rightarrow> mem_error \<Rightarrow> string" where
  "error_code_or c e = (if err_code e = [] then c else err_code e)"

definition json_body :: "('v, 's) http_server \<Rightarrow> http_request \<Rightarrow> pyval outcome" where
  \<comment> \<open>\<open>Too_deep\<close> escapes as an exception of its own\<close>
  "json_body C r =
     (if hs_max_bytes C < hr_size r then Inl (memory_tool_error ''Request body too large'' ''MEM-HTTP-0001'' [] 413)
      else case hr_body r of
          Parsed v \<Rightarrow> Inr v
        | Not_json \<Rightarrow> Inl (rpc_failure ''Invalid JSON body'' ERR_PARSE_ERROR ''MEM-TOOL-0002'' [])
        | Too_deep \<Rightarrow> Inl (unhandled ''RecursionError''))"

definition json_response :: "int \<Rightarrow> dict \<Rightarrow> http_response" where
  "json_response status d = \<lparr>hp_status = status, hp_body = Some (PDict d), hp_protocol = True, hp_no_store = False\<rparr>"

definition internal_response :: http_response where
  \<comment> \<open>an exception the framework turns into a plain 500\<close>
  "internal_response = \<lparr>hp_status = 500, hp_body = None, hp_protocol = False, hp_no_store = False\<rparr>"

definition mcp_error :: "pyval \<Rightarrow> int \<Rightarrow> string \<Rightarrow> dict \<Rightarrow> int \<Rightarrow> http_response" where
  "mcp_error i rpc msg d status = json_response status (error_response i rpc msg d)"

definition header_mismatch :: "http_request \<Rightarrow> string \<Rightarrow> dict \<Rightarrow> (bool \<times> string) list" where
  \<comment> \<open>the checks of the headers against the body, in order\<close>
  "header_mismatch r version body =
     (let m = header r ''mcp-method''; name = header r ''mcp-name''; params = py_get body ''params'';
          call = (py_get body ''method'' = PStr ''tools/call'');
          body_name = py_get (dict_of params) ''name'';
          body_version = (case py_get (dict_of params) ''_meta'' of PDict meta \<Rightarrow> py_get meta META_PROTOCOL_VERSION | _ \<Rightarrow> PNone)
      in [(m = None, ''Missing required Mcp-Method header''),
          (opt_str m \<noteq> py_get body ''method'', ''Mcp-Method header does not match request body method''),
          (call \<and> name = None, ''Missing required Mcp-Name header''),
          (call \<and> opt_str name \<noteq> body_name, ''Mcp-Name header does not match params.name''),
          (\<not> call \<and> name \<noteq> None, ''Mcp-Name header is only valid for tools/call''),
          (body_version \<noteq> PNone \<and> body_version \<noteq> PStr version, ''MCP-Protocol-Version header does not match _meta protocolVersion'')])"

definition mcp_reply :: "dict option \<Rightarrow> http_response" where
  "mcp_reply answer =
     (case answer of
        None \<Rightarrow> \<lparr>hp_status = 202, hp_body = None, hp_protocol = True, hp_no_store = False\<rparr>
      | Some d \<Rightarrow>
          json_response (case py_get d ''error'' of
              PDict e \<Rightarrow> if py_get e ''code'' = PInt ERR_METHOD_NOT_FOUND then 404 else 200 | _ \<Rightarrow> 200) d)"

definition mcp_endpoint :: "('v, 's) http_server \<Rightarrow> http_request \<Rightarrow> principal \<Rightarrow> 's \<Rightarrow> 's \<times> http_response" where
  "mcp_endpoint C r p st =
     (case header r ''mcp-protocol-version'' of
        None \<Rightarrow> (st, mcp_error PNone ERR_HEADER_MISMATCH ''Missing required MCP-Protocol-Version header'' [] 400)
      | Some version \<Rightarrow>
          if version \<noteq> PROTOCOL_VERSION
          then (st, mcp_error PNone ERR_UNSUPPORTED_PROTOCOL_VERSION ''Unsupported protocol version''
                 [(''supportedVersions'', strs SUPPORTED_VERSIONS)] 400)
          else (case json_body C r of
              Inl e \<Rightarrow> (st, if is_tool_error e then mcp_error PNone (err_rpc e) (err_message e) (error_data e) (err_status e)
                            else internal_response)
            | Inr (PDict body) \<Rightarrow>
                (case first_error (header_mismatch r version body) of
                   Some msg \<Rightarrow> (st, mcp_error (py_get body ''id'') ERR_HEADER_MISMATCH msg [] 400)
                 | None \<Rightarrow> let (st', answer) = handle (hs_mcp C) (PDict body) p st in (st', mcp_reply answer))
            | Inr _ \<Rightarrow> (st, mcp_error PNone ERR_INVALID_REQUEST ''Invalid Request'' [] 400)))"

definition tool_failure :: "mem_error \<Rightarrow> http_response" where
  "tool_failure e = http_error (err_status e) (error_code_or ''MEM-UNKNOWN'' e) (err_message e) [(''details'', PDict (error_data e))]"

definition internal_failure :: http_response where
  "internal_failure = http_error 500 ''MEM-INTERNAL-0001'' ''Internal server error'' []"

definition rest_call :: "('v, 's) http_server \<Rightarrow> string \<Rightarrow> http_request \<Rightarrow> principal \<Rightarrow> 's \<Rightarrow> 's \<times> http_response" where
  "rest_call C name r p st =
     (if name \<notin> set (tool_names (hs_mcp C)) then (st, http_error 404 ''MEM-TOOL-0001'' (''Unknown tool: '' @ name) [])
      else case json_body C r of
          Inl e \<Rightarrow> (st, if is_tool_error e then tool_failure e else internal_failure)
        | Inr (PDict body) \<Rightarrow>
            (case sv_dispatch (hs_mcp C) name body p st of
               (st', Answered v) \<Rightarrow> (st', \<lparr>hp_status = 200, hp_body = Some v, hp_protocol = False, hp_no_store = False\<rparr>)
             | (st', Refused e) \<Rightarrow> (st', tool_failure e)
             | (st', Raised) \<Rightarrow> (st', internal_failure))
        | Inr _ \<Rightarrow> (st, tool_failure (rpc_failure ''Body must be a JSON object'' ERR_INVALID_PARAMS ''MEM-TOOL-0002'' [])))"

text \<open>
  The endpoints of the application. \<open>None\<close> is a path of the framework: the readiness probe,
  the documentation, or not found.
\<close>

definition identity_body :: "principal \<Rightarrow> pyval" where
  "identity_body p = PDict [(''user_id'', PStr (p_user_id p)), (''provider'', PStr (p_provider p)),
     (''organization_id'', opt_str (p_organization_id p))]"

definition one_segment :: "string \<Rightarrow> string \<Rightarrow> bool" where
  \<comment> \<open>the path is the prefix and one parameter\<close>
  "one_segment prefix path \<longleftrightarrow>
     starts_with prefix path \<and> CHR ''/'' \<notin> set (drop (length prefix) path) \<and> drop (length prefix) path \<noteq> []"

definition endpoint :: "('v, 's) http_server \<Rightarrow> http_request \<Rightarrow> principal \<Rightarrow> 's \<Rightarrow> ('s \<times> http_response) option" where
  "endpoint C r p st =
     (if hr_path r = ''/auth/me'' \<and> hr_method r = ''GET''
      then Some (st, \<lparr>hp_status = 200, hp_body = Some (identity_body p), hp_protocol = False, hp_no_store = True\<rparr>)
      else if hr_path r = ''/mcp'' \<and> hr_method r = ''POST'' then Some (mcp_endpoint C r p st)
      else if hr_path r = ''/tools'' \<and> hr_method r = ''GET''
      then Some (st, \<lparr>hp_status = 200, hp_body = Some (PDict [(''tools'', PList (map PDict (sv_tools (hs_mcp C))))]),
             hp_protocol = False, hp_no_store = False\<rparr>)
      else if one_segment ''/tools/'' (hr_path r) \<and> hr_method r = ''POST''
      then Some (rest_call C (drop 7 (hr_path r)) r p st)
      else None)"

definition login_route :: "http_request \<Rightarrow> bool" where
  "login_route r \<longleftrightarrow> hr_path r = ''/auth/config'' \<and> hr_method r = ''GET''
     \<or> one_segment ''/auth/github/'' (hr_path r) \<and> hr_method r \<in> set [''GET'', ''POST'']"

definition routed ::
    "('v, 's) http_server \<Rightarrow> http_request \<Rightarrow> principal \<Rightarrow> 'v \<times> 's \<Rightarrow> (('v \<times> 's) \<times> http_response) option" where
  "routed C r p st =
     (if login_route r then (case hs_login C r (fst st) of (v, x) \<Rightarrow> Some ((v, snd st), x))
      else map_option (\<lambda>(s, x). ((fst st, s), x)) (endpoint C r p (snd st)))"

definition cached_never :: "string \<Rightarrow> bool" where
  "cached_never path \<longleftrightarrow> path = ''/mcp'' \<or> starts_with ''/tools'' path \<or> starts_with ''/auth/'' path"

definition cache_policy :: "http_request \<Rightarrow> http_response \<Rightarrow> http_response" where
  \<comment> \<open>the headers of the inner middleware, which an exception passes by\<close>
  "cache_policy r x = (if x = internal_response then x else x\<lparr>hp_no_store := hp_no_store x \<or> cached_never (hr_path r)\<rparr>)"

definition OPEN_PATHS :: "string list" where
  "OPEN_PATHS = [''/health'', ''/ready'', ''/docs'', ''/openapi.json'']"

definition PUBLIC_ROUTES :: "(string \<times> string) list" where
  "PUBLIC_ROUTES = [(''GET'', ''/auth/github/config''), (''POST'', ''/auth/github/exchange''), (''POST'', ''/auth/github/refresh''),
     (''GET'', ''/auth/config'')]"

text \<open>
  A request through both middlewares; \<open>None\<close> as above. The public routes are login routes,
  which do not read the principal.
\<close>

definition http_serve :: "('v, 's) http_server \<Rightarrow> http_request \<Rightarrow> 'v \<times> 's \<Rightarrow> (('v \<times> 's) \<times> http_response) option" where
  "http_serve C r st =
     (let inner = (\<lambda>p st. map_option (\<lambda>(st', x). (st', cache_policy r x)) (routed C r p st))
      in if hr_path r \<in> set OPEN_PATHS
         then (if hr_path r = ''/health'' \<and> hr_method r = ''GET''
               then Some (st, \<lparr>hp_status = 200, hp_body = Some (PDict [(''status'', PStr ''ok'')]), hp_protocol = False, hp_no_store = False\<rparr>)
               else None)
         else if (case hr_content_length r of None \<Rightarrow> False | Some n \<Rightarrow> hs_max_bytes C < n)
         then Some (st, http_error 413 ''MEM-HTTP-0001'' ''Request body too large'' [])
         else if (hr_method r, hr_path r) \<in> set PUBLIC_ROUTES then inner local_stdio st
         else if \<not> hs_auth_enabled C then inner local_stdio st
         else case authenticate C r st of
             (v, Inl e) \<Rightarrow> Some ((v, snd st),
               if is_tool_error e then http_error (err_status e) (error_code_or ''MEM-AUTH-0001'' e) (err_message e) []
               else internal_response)
           | (v, Inr p) \<Rightarrow> inner p (v, snd st))"

end
