(* ===== verification/Dispatcher.thy ===== *)
theory Dispatcher
  imports Projects Server_Protocol
begin

text \<open>
  The tool dispatcher (main.py, server/validation.py, continuity/service.py): a call is
  validated against the schema of its tool, its principal is bound to the current role in
  the project, the tool is authorized, and the handler of the tool runs with the identity
  the dispatcher chooses for it. The handlers themselves are the other theories; here they
  are one parameter that runs an invocation on the state.
\<close>

subsection \<open>Arguments against their schema\<close>

text \<open>
  A violation the JSON Schema validator reports: where it is in the arguments, and its
  message. The validator is a third-party package and a parameter: its violations of the
  arguments of a tool, \<open>None\<close> for a tool without a schema.
\<close>

datatype path_item = Key string | Index nat

record violation =
  vi_path :: "path_item list"
  vi_message :: string

type_synonym validators = "string \<Rightarrow> (dict \<Rightarrow> violation list) option"

definition path_key :: "path_item \<Rightarrow> nat \<times> string" where
  \<comment> \<open>items of one parent are all keys or all indexes\<close>
  "path_key i = (case i of Key s \<Rightarrow> (0, s) | Index n \<Rightarrow> (n, []))"

definition path_text :: "path_item \<Rightarrow> string" where
  "path_text i = (case i of Key s \<Rightarrow> s | Index n \<Rightarrow> show_int (int n))"

definition violation_dict :: "violation \<Rightarrow> pyval" where
  "violation_dict v =
     (let items = map path_text (vi_path v)
      in PDict [(''path'', PStr (''/'' @ join ''/'' items)),
           (''message'', PStr (if ''claim_token'' \<in> set items then ''claim token failed validation''
              else if ''archive_base64'' \<in> set items then ''archive failed validation'' else vi_message v))])"

definition validate_tool_arguments :: "validators \<Rightarrow> string \<Rightarrow> dict \<Rightarrow> unit outcome" where
  "validate_tool_arguments V tool a =
     (case V tool of
        None \<Rightarrow> Inl (unknown_tool tool)
      | Some iter_errors \<Rightarrow>
          (case sort_key (\<lambda>v. map path_key (vi_path v)) (iter_errors a) of
             [] \<Rightarrow> Inr ()
           | errors \<Rightarrow> Inl (rpc_failure ''Tool arguments failed schema validation'' (-32602) ''MEM-TOOL-0002''
               [(''validation'', PList (map violation_dict (take 20 errors)))])))"

subsection \<open>Handlers\<close>

text \<open>
  How a handler is called: with the bound principal, with the user the call is attributed
  to, with the arguments alone, or as the claimant of a handoff with the project its
  credential is scoped to.
\<close>

datatype invocation =
    As_principal string dict principal
  | As_actor string dict string
  | Anonymous string dict
  | As_claimant string dict string "string option"

definition HANDLERS :: "string list" where
  \<comment> \<open>the handlers of continuity/service.py\<close>
  "HANDLERS = [''memory_collaboration_events'', ''memory_collaboration_events_prune'', ''memory_usage_policy_get'',
     ''memory_usage_policy_set'', ''memory_usage_register'', ''memory_usage_report'', ''memory_usage_prune'', ''memory_usage_list'',
     ''memory_usage_summary'', ''memory_presence_policy_get'', ''memory_presence_policy_set'', ''memory_presence_register'',
     ''memory_presence_heartbeat'', ''memory_presence_end'', ''memory_presence_prune'', ''memory_presence_list'',
     ''memory_presence_users'', ''memory_collaboration_overview'', ''memory_collaboration_list'', ''memory_continuity_policy_set'',
     ''memory_continuity_policy_get'', ''memory_continuity_members'', ''memory_checkpoint_save'', ''memory_checkpoint_read'',
     ''memory_checkpoint_forget'', ''memory_continuity_publish'', ''memory_continuity_status'', ''memory_continuity_read'',
     ''memory_continuity_ack'', ''memory_continuity_reassign'', ''memory_continuity_claim'', ''memory_continuity_renew'',
     ''memory_continuity_release'']"

definition VIEWS :: "(string \<times> string) list" where
  "VIEWS = [(''memory_continuity_inbox'', ''inbox''), (''memory_checkpoint_list'', ''checkpoints''),
     (''memory_continuity_history'', ''history'')]"

definition dispatch_continuity :: "string \<Rightarrow> dict \<Rightarrow> principal \<Rightarrow> invocation outcome" where
  "dispatch_continuity tool a p =
     (if tool \<in> fst ` set VIEWS then Inr (As_principal tool a p)
      else if tool \<in> set HANDLERS then Inr (As_principal tool a p)
      else Inl (unhandled ''KeyError''))"

definition RECORD_HANDLERS :: "string list" where
  "RECORD_HANDLERS = [''memory_project_record_put'', ''memory_project_record_list'', ''memory_project_record_remove'']"

definition PROJECT_HANDLERS :: "string list" where
  "PROJECT_HANDLERS = [''memory_project_list'', ''memory_project_get'', ''memory_project_register'', ''memory_project_assign'']"

definition TEAM_WRITES :: "string list" where
  "TEAM_WRITES = [''memory_grant_create'', ''memory_grant_revoke'', ''memory_knowledge_sync'', ''memory_knowledge_delete'',
     ''memory_skill_import'', ''memory_skill_import_forget'', ''memory_feedback_record'']"

definition TEAM_READS :: "string list" where
  "TEAM_READS = [''memory_grant_list'', ''memory_shared_read'', ''memory_knowledge_list'', ''memory_knowledge_read'',
     ''memory_skill_import_inspect'', ''memory_feedback_list'', ''memory_skill_import_list'']"

definition WITH_ACTOR :: "string list" where
  \<comment> \<open>the skill, generation, experience and handoff handlers that are given the actor\<close>
  "WITH_ACTOR = [''memory_skill_generate'', ''memory_skill_propose'', ''memory_skill_revise'', ''memory_skill_review'',
     ''memory_generation_enqueue'', ''memory_generation_retry'',
     ''memory_experience_propose'', ''memory_experience_review'', ''memory_experience_revise'', ''memory_experience_suppression_release'',
     ''memory_experience_list'',
     ''memory_handoff_inbox'', ''memory_handoff_status'', ''memory_handoff_renew'', ''memory_handoff_push'', ''memory_handoff_list'']"

definition WITHOUT_ACTOR :: "string list" where
  "WITHOUT_ACTOR = [''memory_skill_list'', ''memory_skill_read'', ''memory_skill_inspect'', ''memory_skill_export'',
     ''memory_generation_list'', ''memory_summary_read'', ''memory_search'', ''memory_experience_history'', ''memory_read'',
     ''memory_repo_list'', ''memory_repo_check_updates'']"

definition AS_CLAIMANT :: "string list" where
  "AS_CLAIMANT = [''memory_handoff_pull'', ''memory_handoff_claim'', ''memory_handoff_get_claimed'', ''memory_handoff_ack'',
     ''memory_handoff_nack'']"

definition target :: "string \<Rightarrow> dict \<Rightarrow> principal \<Rightarrow> invocation outcome" where
  "target tool a p =
     (if tool \<in> set RECORD_HANDLERS then Inr (As_principal tool a p)
      else if tool \<in> set PROJECT_HANDLERS then Inr (As_principal tool a p)
      else if tool \<in> fst ` set CONTINUITY_SCOPES then dispatch_continuity tool a p
      else if tool \<in> set TEAM_WRITES then Inr (As_actor tool a (p_user_id p))
      else if tool \<in> set TEAM_READS then Inr (Anonymous tool a)
      else if tool \<in> set WITH_ACTOR then Inr (As_actor tool a (p_user_id p))
      else if tool \<in> set WITHOUT_ACTOR then Inr (Anonymous tool a)
      else if tool \<in> set AS_CLAIMANT
      then Inr (As_claimant tool a (p_user_id p) (if p_local p then None else p_project_id p))
      else Inl (rpc_failure (''Tool '' @ [CHR 0x27] @ tool @ [CHR 0x27] @ '' is not recognized'') (-32602) ''MEM-TOOL-0001'' []))"

subsection \<open>The dispatcher\<close>

record 's services =
  sc_validators :: validators
  sc_directory :: "'s \<Rightarrow> pdb"
  sc_run :: "invocation \<Rightarrow> 's \<Rightarrow> 's \<times> call_end"

definition call_failed :: "mem_error \<Rightarrow> call_end" where
  "call_failed e = (if is_tool_error e then Refused e else Raised)"

definition dispatch :: "'s services \<Rightarrow> string \<Rightarrow> dict \<Rightarrow> principal \<Rightarrow> 's \<Rightarrow> 's \<times> call_end" where
  "dispatch D tool a p st =
     (case and_then (validate_tool_arguments (sc_validators D) tool a)
             (\<lambda>_. and_then (admit p tool a (sc_directory D st)) (target tool a)) of
        Inl e \<Rightarrow> (st, call_failed e)
      | Inr call \<Rightarrow> sc_run D call st)"

text \<open>The server of an application: the handler of the protocol on its dispatcher.\<close>

definition served :: "platform \<Rightarrow> dict list \<Rightarrow> 's services \<Rightarrow> 's server" where
  "served P tools D = \<lparr>sv_platform = P, sv_tools = tools, sv_dispatch = dispatch D\<rparr>"

end
