(* ===== verification/Identity_Providers.thy ===== *)
theory Identity_Providers
  imports Identities Server_Protocol
begin

text \<open>
  Verification of bearer tokens by their providers (server/github.py, server/entra.py), the
  GitHub code exchange with its routes (server/github_routes.py), and the public login
  configuration (server/login_config.py). The providers themselves are parameters: \<open>fetch\<close> is
  what a request to GitHub with the given fields answers, an error value being the refusal
  \<open>request_json\<close> raises, and \<open>jwt\<close> holds the functions of the token library and the download
  of the signing keys. \<open>clk n\<close> is the n-th sample of the monotonic clock.
\<close>

subsection \<open>GitHub: requests to the provider\<close>

definition GITHUB_SCOPES :: string where "GITHUB_SCOPES = ''read:user offline_access''"

definition github_denied :: "string \<Rightarrow> int \<Rightarrow> mem_error" where
  "github_denied msg status = memory_tool_error msg ''MEM-AUTH-GITHUB'' [] status"

definition github_invalid :: mem_error where
  "github_invalid = github_denied ''GitHub authentication is invalid or expired'' 401"

record github_account =
  ga_subject :: string
  ga_username :: string

text \<open>The cache maps the digest of a token to a deadline and an identity.\<close>

record github_auth =
  gh_cache :: "(string \<times> time \<times> github_account) list"
  gh_attempts :: "time list"
  gh_active :: nat

definition github_config :: "github_settings \<Rightarrow> dict outcome" where
  "github_config cfg = checked [(\<not> gs_enabled cfg, github_denied ''GitHub login is not configured on this Memory server'' 404)]
     [(''client_id'', PStr (gs_client_id cfg)), (''scope'', PStr GITHUB_SCOPES), (''organization_id'', PStr ''DevSecOps'')]"

definition begin_remote :: "time \<Rightarrow> github_auth \<Rightarrow> github_auth \<times> unit outcome" where
  \<comment> \<open>\<open>remote\<close> up to the request: attempts older than a minute leave the window first\<close>
  "begin_remote now g =
     (let recent = dropWhile (\<lambda>t. t < now - seconds 60) (gh_attempts g)
      in if 8 \<le> gh_active g \<or> 120 \<le> length recent
         then (g\<lparr>gh_attempts := recent\<rparr>, Inl (github_denied ''GitHub login is busy; retry shortly'' 429))
         else (g\<lparr>gh_attempts := recent @ [now], gh_active := gh_active g + 1\<rparr>, Inr ()))"

definition finish_remote :: "github_auth \<Rightarrow> github_auth" where
  "finish_remote g = g\<lparr>gh_active := gh_active g - 1\<rparr>"

definition remote :: "time \<Rightarrow> dict outcome \<Rightarrow> github_auth \<Rightarrow> github_auth \<times> dict outcome" where
  \<comment> \<open>a request that is not interleaved with others\<close>
  "remote now answer g =
     (case begin_remote now g of
        (g1, Inl e) \<Rightarrow> (g1, Inl e)
      | (g1, Inr _) \<Rightarrow> (finish_remote g1, answer))"

subsection \<open>GitHub: identities\<close>

definition github_token_text :: "string \<Rightarrow> bool" where
  \<comment> \<open>\<open>[A-Za-z0-9_]{1,512}\<close>\<close>
  "github_token_text s \<longleftrightarrow> s \<noteq> [] \<and> length s \<le> 512 \<and> list_all (\<lambda>c. alnum_char c \<or> c = CHR ''_'') s"

definition token_document :: "github_settings \<Rightarrow> dict \<Rightarrow> github_account outcome" where
  \<comment> \<open>the answer to a token check, which must be of the own application and for a plain user\<close>
  "token_document cfg d =
     (let user = get_or d ''user'' (PDict []); app = get_or d ''app'' (PDict []); scopes = py_get d ''scopes'';
          u = dict_of user; names = strs_of scopes
      in checked
        [(\<not> is_dict app, github_invalid),
         (py_get (dict_of app) ''client_id'' \<noteq> PStr (gs_client_id cfg), github_invalid),
         (\<not> is_dict user, github_invalid),
         (case py_get u ''id'' of PInt n \<Rightarrow> n \<le> 0 \<or> 10 ^ 20 \<le> n | _ \<Rightarrow> True, github_invalid),
         (py_get u ''type'' \<noteq> PStr ''User'', github_invalid),
         (case py_get u ''login'' of PStr s \<Rightarrow> s = [] \<or> 128 < length s | _ \<Rightarrow> True, github_invalid),
         (case scopes of PList xs \<Rightarrow> \<not> list_all is_str xs | _ \<Rightarrow> True, github_invalid),
         (''read:user'' \<notin> set names, github_invalid),
         (\<not> set names \<subseteq> {''read:user'', ''offline_access''}, github_invalid)]
        \<lparr>ga_subject = show_int (case py_get u ''id'' of PInt n \<Rightarrow> n | _ \<Rightarrow> 0), ga_username = arg_str u ''login''\<rparr>)"

definition cached_account :: "time \<Rightarrow> string \<Rightarrow> github_auth \<Rightarrow> github_account option" where
  "cached_account now key g =
     (case map_of (gh_cache g) key of Some (deadline, a) \<Rightarrow> if now < deadline then Some a else None | None \<Rightarrow> None)"

definition cache_account :: "time \<Rightarrow> string \<Rightarrow> github_account \<Rightarrow> github_auth \<Rightarrow> github_auth" where
  \<comment> \<open>a full cache is emptied first\<close>
  "cache_account now key a g =
     (let old = (if 1024 \<le> length (gh_cache g) then [] else gh_cache g)
      in g\<lparr>gh_cache := (key, now + seconds 60, a) # filter (\<lambda>e. fst e \<noteq> key) old\<rparr>)"

definition provider_account ::
    "platform \<Rightarrow> github_settings \<Rightarrow> clock \<Rightarrow> (string \<Rightarrow> dict \<Rightarrow> dict outcome) \<Rightarrow> string \<Rightarrow> github_auth \<Rightarrow> github_auth \<times> github_account outcome" where
  \<comment> \<open>the account behind a token, from the cache or from the provider\<close>
  "provider_account P cfg clk fetch token g =
     (case cached_account (clk 0) (sha256 P token) g of
        Some a \<Rightarrow> (g, Inr a)
      | None \<Rightarrow>
          let url = ''https://api.github.com/applications/'' @ gs_client_id cfg @ ''/token'';
              (g1, answer) = remote (clk 1) (fetch url [(''access_token'', PStr token)]) g
          in case and_then answer (token_document cfg) of
              Inl e \<Rightarrow> (g1, Inl e)
            | Inr a \<Rightarrow> (cache_account (clk 2) (sha256 P token) a g1, Inr a))"

text \<open>\<open>identity\<close>: the state is that of the verifier and the table of bindings.\<close>

definition github_identity ::
    "platform \<Rightarrow> github_settings \<Rightarrow> clock \<Rightarrow> (string \<Rightarrow> dict \<Rightarrow> dict outcome) \<Rightarrow> pyval
      \<Rightarrow> github_auth \<times> github_identities \<Rightarrow> (github_auth \<times> github_identities) \<times> (github_account \<times> string) outcome" where
  "github_identity P cfg clk fetch token st =
     (case github_config cfg of
        Inl e \<Rightarrow> (st, Inl e)
      | Inr _ \<Rightarrow>
          if \<not> is_str token \<or> \<not> github_token_text (str_of token) then (st, Inl github_invalid)
          else case provider_account P cfg clk fetch (str_of token) (fst st) of
              (g, Inl e) \<Rightarrow> ((g, snd st), Inl e)
            | (g, Inr a) \<Rightarrow>
                if \<not> permits cfg (ga_subject a) (ga_username a)
                then ((g, snd st), Inl (github_denied ''This GitHub user is not assigned to DevSecOps'' 403))
                else case resolve_github (ga_subject a) (gs_organization_id cfg) (snd st) of
                    (t, r) \<Rightarrow> ((g, t), and_then r (\<lambda>user. Inr (a, user))))"

definition EXTERNAL_SCOPES :: "string list" where
  "EXTERNAL_SCOPES = [''read'', ''write'', ''projects'']"

definition github_verify ::
    "platform \<Rightarrow> github_settings \<Rightarrow> clock \<Rightarrow> (string \<Rightarrow> dict \<Rightarrow> dict outcome) \<Rightarrow> string
      \<Rightarrow> github_auth \<times> github_identities \<Rightarrow> (github_auth \<times> github_identities) \<times> principal outcome" where
  "github_verify P cfg clk fetch raw st =
     (if \<not> starts_with GITHUB_PREFIX raw then (st, Inl github_invalid)
      else case github_identity P cfg clk fetch (PStr (drop (length GITHUB_PREFIX) raw)) st of
          (st', r) \<Rightarrow> (st', and_then r (\<lambda>(a, user). Inr \<lparr>p_user_id = user, p_project_id = None, p_scopes = EXTERNAL_SCOPES,
             p_local = False, p_provider = ''github'', p_organization_id = Some (gs_organization_id cfg)\<rparr>)))"

subsection \<open>GitHub: the code exchange\<close>

definition sized :: "nat \<Rightarrow> nat \<Rightarrow> (char \<Rightarrow> bool) \<Rightarrow> pyval \<Rightarrow> bool" where
  \<comment> \<open>a text of a class with a length in the bounds\<close>
  "sized lo hi cls v = (case v of PStr s \<Rightarrow> lo \<le> length s \<and> length s \<le> hi \<and> list_all cls s | _ \<Rightarrow> False)"

definition REDIRECT_START :: string where "REDIRECT_START = ''http://127.0.0.1:''"
definition REDIRECT_END :: string where "REDIRECT_END = ''/github/callback''"

definition callback_port :: "pyval \<Rightarrow> nat option" where
  \<comment> \<open>the port of a loopback callback, any number of one to five digits\<close>
  "callback_port v =
     (let s = str_of v; port = take (length s - length REDIRECT_START - length REDIRECT_END) (drop (length REDIRECT_START) s)
      in if is_str v \<and> s = REDIRECT_START @ port @ REDIRECT_END \<and> port \<noteq> [] \<and> length port \<le> 5 \<and> list_all digit port
         then Some (fold (\<lambda>c n. 10 * n + (code c - 48)) port 0) else None)"

definition exchange_params :: "bool \<Rightarrow> pyval \<Rightarrow> dict outcome" where
  "exchange_params refresh payload =
     (let names = (if refresh then [''refresh_token''] else [''code'', ''code_verifier'', ''redirect_uri'']); a = dict_of payload
      in if \<not> is_dict payload \<or> fst ` set a \<noteq> set names then Inl (github_denied ''Invalid GitHub exchange request'' 400)
         else if refresh
         then checked [(\<not> sized 1 512 (\<lambda>c. alnum_char c \<or> c = CHR ''_'') (py_get a ''refresh_token''),
                github_denied ''Invalid GitHub refresh request'' 400)] (a @ [(''grant_type'', PStr ''refresh_token'')])
         else checked
           [(\<not> sized 1 512 (\<lambda>c. alnum_char c \<or> c \<in> set ''_-'') (py_get a ''code'')
               \<or> \<not> sized 43 128 (\<lambda>c. alnum_char c \<or> c \<in> set ''._~-'') (py_get a ''code_verifier'')
               \<or> callback_port (py_get a ''redirect_uri'') = None,
             github_denied ''Invalid GitHub callback or PKCE verifier'' 400),
            (case callback_port (py_get a ''redirect_uri'') of None \<Rightarrow> True | Some n \<Rightarrow> n < 1 \<or> 65535 < n,
             github_denied ''Invalid GitHub callback port'' 400)] a)"

definition bearer_type :: "dict \<Rightarrow> bool" where
  "bearer_type d \<longleftrightarrow> (case py_get d ''token_type'' of PStr s \<Rightarrow> lower s = ''bearer'' | _ \<Rightarrow> False)"

definition exchange_result :: "dict \<Rightarrow> string \<Rightarrow> dict \<Rightarrow> dict outcome" where
  \<comment> \<open>the answer from the document of the provider, with a refresh token and a lifetime where given\<close>
  "exchange_result d token ident =
     (let refresh = py_get d ''refresh_token''; expires = py_get d ''expires_in''
      in checked
        [(refresh \<noteq> PNone \<and> \<not> sized 1 512 (\<lambda>c. alnum_char c \<or> c = CHR ''_'') refresh, github_invalid),
         (case expires of PNone \<Rightarrow> False | PInt n \<Rightarrow> n < 60 \<or> 365 * 86400 < n | _ \<Rightarrow> True, github_invalid)]
        ([(''access_token'', PStr (GITHUB_PREFIX @ token)), (''identity'', PDict ident)]
         @ (if refresh = PNone then [] else [(''refresh_token'', refresh)])
         @ (if expires = PNone then [] else [(''expires_in'', expires)])))"

definition identity_dict :: "github_settings \<Rightarrow> github_account \<Rightarrow> string \<Rightarrow> dict" where
  "identity_dict cfg a user = [(''subject'', PStr (ga_subject a)), (''username'', PStr (ga_username a)), (''user_id'', PStr user),
     (''provider'', PStr ''github''), (''organization_id'', PStr (gs_organization_id cfg))]"

definition github_exchange ::
    "platform \<Rightarrow> github_settings \<Rightarrow> clock \<Rightarrow> (string \<Rightarrow> dict \<Rightarrow> dict outcome) \<Rightarrow> pyval \<Rightarrow> bool
      \<Rightarrow> github_auth \<times> github_identities \<Rightarrow> (github_auth \<times> github_identities) \<times> dict outcome" where
  "github_exchange P cfg clk fetch payload refresh st =
     (case and_then (github_config cfg) (\<lambda>_. exchange_params refresh payload) of
        Inl e \<Rightarrow> (st, Inl e)
      | Inr params \<Rightarrow>
          let (g1, answer) = remote (clk 0) (fetch ''https://github.com/login/oauth/access_token''
                 (params @ [(''client_id'', PStr (gs_client_id cfg)), (''client_secret'', PStr (gs_client_secret cfg))])) (fst st);
              st1 = (g1, snd st)
          in case answer of
              Inl e \<Rightarrow> (st1, Inl e)
            | Inr d \<Rightarrow>
                if \<not> bearer_type d then (st1, Inl github_invalid)
                else case github_identity P cfg (\<lambda>n. clk (n + 1)) fetch (py_get d ''access_token'') st1 of
                    (st2, r) \<Rightarrow> (st2, and_then r (\<lambda>(a, user).
                       exchange_result d (arg_str d ''access_token'') (identity_dict cfg a user))))"

subsection \<open>The login routes\<close>

definition login_response :: "int \<Rightarrow> dict \<Rightarrow> bool \<Rightarrow> http_response" where
  "login_response status d no_store = \<lparr>hp_status = status, hp_body = Some (PDict d), hp_protocol = False, hp_no_store = no_store\<rparr>"

definition github_failure :: "mem_error \<Rightarrow> http_response" where
  \<comment> \<open>an exception that is not a controlled error leaves the route\<close>
  "github_failure e = (if is_tool_error e
     then login_response (err_status e) [(''error'', PDict [(''error_code'', PStr ''MEM-AUTH-GITHUB''), (''message'', PStr (err_message e))])] True
     else internal_response)"

definition exchange_body :: "http_request \<Rightarrow> pyval outcome" where
  "exchange_body r =
     (if split_on CHR '';'' (case header r ''content-type'' of None \<Rightarrow> [] | Some v \<Rightarrow> v) ! 0 \<noteq> ''application/json''
      then Inl (github_denied ''JSON body is required'' 400)
      else if 4096 < hr_size r then Inl (github_denied ''GitHub exchange request is too large'' 413)
      else case hr_body r of
          Parsed v \<Rightarrow> Inr v
        | Not_json \<Rightarrow> Inl (github_denied ''Invalid GitHub exchange body'' 400)
        | Too_deep \<Rightarrow> Inl (unhandled ''RecursionError''))"

definition given_header :: "http_request \<Rightarrow> string \<Rightarrow> bool" where
  "given_header r name \<longleftrightarrow> (case header r name of None \<Rightarrow> False | Some v \<Rightarrow> v \<noteq> [])"

definition github_route ::
    "platform \<Rightarrow> github_settings \<Rightarrow> clock \<Rightarrow> (string \<Rightarrow> dict \<Rightarrow> dict outcome) \<Rightarrow> http_request
      \<Rightarrow> github_auth \<times> github_identities \<Rightarrow> (github_auth \<times> github_identities) \<times> http_response" where
  \<comment> \<open>a request for a path under /auth/github\<close>
  "github_route P cfg clk fetch r st =
     (let operation = drop (length ''/auth/github/'') (hr_path r);
          (st', answer) =
            (if (hr_method r, hr_path r) \<notin> set PUBLIC_ROUTES \<or> given_header r ''origin''
             then (st, Inl (github_denied ''Invalid GitHub exchange route'' 400))
             else if operation = ''config'' then (st, github_config cfg)
             else case exchange_body r of
                 Inl e \<Rightarrow> (st, Inl e)
               | Inr v \<Rightarrow> github_exchange P cfg clk fetch v (operation = ''refresh'') st)
      in (st', case answer of Inl e \<Rightarrow> github_failure e | Inr d \<Rightarrow> login_response 200 d True))"

definition login_config :: "github_settings \<Rightarrow> entra_settings \<Rightarrow> http_request \<Rightarrow> http_response" where
  "login_config g n r =
     (if given_header r ''origin'' then login_response 400 [(''error'', PStr ''Desktop configuration only'')] False
      else login_response 200 [(''schema_version'', PInt 1), (''providers'', PDict (
           (if gs_enabled g then [(''github'', PDict [(''organization_id'', PStr (gs_organization_id g))])] else [])
         @ (if es_enabled n then [(''entra'', PDict
               [(''organization_id'', PStr (es_organization_id n)), (''tenant_id'', PStr (es_tenant_id n)),
                (''client_id'', PStr (es_client_id n)),
                (''scope'', PStr (''api://'' @ es_audience n @ ''/'' @ es_scope n))])] else [])))] True)"

subsection \<open>Entra: signing keys\<close>

text \<open>
  The token library: \<open>jwt_header\<close> reads the unverified header, \<open>jwt_decode\<close> verifies the
  signature, the algorithm, audience, issuer, times and the presence of the required claims
  for one key, and \<open>jwt_key\<close> builds a key from its JSON form; \<open>None\<close> is an exception of the
  library. \<open>jwt_download\<close> is the key document of a tenant, \<open>None\<close> when it cannot be read.
\<close>

record 'key jwt_library =
  jwt_header :: "string \<Rightarrow> dict option"
  jwt_decode :: "entra_settings \<Rightarrow> 'key \<Rightarrow> string \<Rightarrow> dict option"
  jwt_key :: "dict \<Rightarrow> 'key option"
  jwt_download :: "string \<Rightarrow> pyval option"

record 'key entra_keys =
  ek_keys :: "(string \<times> 'key) list"
  ek_loaded_at :: time
  ek_last_attempt :: "time option"

definition entra_unavailable :: mem_error where
  "entra_unavailable = memory_tool_error ''Company identity service is temporarily unavailable'' ''MEM-AUTH-ENTRA'' [] 503"

fun signing_keys :: "(dict \<Rightarrow> 'key option) \<Rightarrow> pyval list \<Rightarrow> (string \<times> 'key) list \<Rightarrow> (string \<times> 'key) list option" where
  \<comment> \<open>the RSA signing keys of a document; \<open>None\<close> is an exception\<close>
  "signing_keys jwk [] keys = Some keys"
| "signing_keys jwk (v # vs) keys =
     (case v of
        PDict d \<Rightarrow>
          if py_get d ''kty'' = PStr ''RSA'' \<and> get_or d ''use'' (PStr ''sig'') = PStr ''sig'' \<and> get_or d ''alg'' (PStr ''RS256'') = PStr ''RS256''
          then (let kid = py_get d ''kid''
                in if \<not> is_str kid \<or> str_of kid = [] \<or> str_of kid \<in> fst ` set keys then None
                   else case jwk d of None \<Rightarrow> None | Some k \<Rightarrow> signing_keys jwk vs (keys @ [(str_of kid, k)]))
          else signing_keys jwk vs keys
      | _ \<Rightarrow> None)"

definition downloaded_keys :: "'key jwt_library \<Rightarrow> entra_settings \<Rightarrow> (string \<times> 'key) list option" where
  "downloaded_keys J cfg =
     (case jwt_download J (es_tenant_id cfg) of
        Some (PDict d) \<Rightarrow> (case py_get d ''keys'' of
            PList vs \<Rightarrow> if 1 \<le> length vs \<and> length vs \<le> 64 then signing_keys (jwt_key J) vs [] else None
          | _ \<Rightarrow> None)
      | _ \<Rightarrow> None)"

definition current_key :: "time \<Rightarrow> string \<Rightarrow> 'key entra_keys \<Rightarrow> 'key option" where
  "current_key now kid ks = (if now - ek_loaded_at ks < seconds 3600 then map_of (ek_keys ks) kid else None)"

definition entra_key :: "'key jwt_library \<Rightarrow> entra_settings \<Rightarrow> clock \<Rightarrow> string \<Rightarrow> 'key entra_keys \<Rightarrow> 'key entra_keys \<times> 'key outcome" where
  "entra_key J cfg clk kid ks =
     (case current_key (clk 0) kid ks of
        Some k \<Rightarrow> (ks, Inr k)
      | None \<Rightarrow>
         (case current_key (clk 1) kid ks of
            Some k \<Rightarrow> (ks, Inr k)
          | None \<Rightarrow>
              if (case ek_last_attempt ks of None \<Rightarrow> False | Some t \<Rightarrow> clk 1 - t < seconds 30)
              then (ks, Inl (memory_tool_error ''Company signing key is unavailable'' ''MEM-AUTH-ENTRA'' [] 401))
              else let ks1 = ks\<lparr>ek_last_attempt := Some (clk 1)\<rparr>
                   in case downloaded_keys J cfg of
                       None \<Rightarrow> (ks1, Inl entra_unavailable)
                     | Some keys \<Rightarrow> (ks1\<lparr>ek_keys := keys, ek_loaded_at := clk 1\<rparr>,
                         case map_of keys kid of None \<Rightarrow> Inl entra_denied | Some k \<Rightarrow> Inr k)))"

subsection \<open>Entra: tokens\<close>

definition token_header :: "'key jwt_library \<Rightarrow> string \<Rightarrow> string outcome" where
  "token_header J raw =
     (case jwt_header J raw of
        None \<Rightarrow> Inl entra_denied
      | Some h \<Rightarrow> (case py_get h ''kid'' of
            PStr kid \<Rightarrow> checked [(py_get h ''alg'' \<noteq> PStr ''RS256'' \<or> kid = [] \<or> 128 < length kid, entra_denied)] kid
          | _ \<Rightarrow> Inl entra_denied))"

definition claims_subject :: "entra_settings \<Rightarrow> dict \<Rightarrow> string outcome" where
  \<comment> \<open>the object id of verified claims\<close>
  "claims_subject cfg c =
     (if py_get c ''ver'' \<noteq> PStr ''2.0'' \<or> py_get c ''tid'' \<noteq> PStr (es_tenant_id cfg) \<or> py_get c ''azp'' \<noteq> PStr (es_client_id cfg)
      then Inl entra_denied
      else case py_get c ''oid'' of
          PStr o' \<Rightarrow> (case uuid_text o' of
              None \<Rightarrow> Inl entra_denied
            | Some oid \<Rightarrow> checked
                [(\<not> is_str (py_get c ''scp'') \<or> es_scope cfg \<notin> set (py_words (arg_str c ''scp'')),
                    memory_tool_error ''Company API permission is missing'' ''MEM-AUTH-ENTRA'' [] 403),
                 (case get_or c ''roles'' (PList []) of PList rs \<Rightarrow> PStr (es_required_role cfg) \<notin> set rs | _ \<Rightarrow> True,
                    memory_tool_error ''DevSecOps application access is not assigned'' ''MEM-AUTH-ENTRA'' [] 403)] oid)
        | _ \<Rightarrow> Inl entra_denied)"

definition entra_verify ::
    "'key jwt_library \<Rightarrow> entra_settings \<Rightarrow> clock \<Rightarrow> string
      \<Rightarrow> 'key entra_keys \<times> entra_identities \<Rightarrow> ('key entra_keys \<times> entra_identities) \<times> principal outcome" where
  "entra_verify J cfg clk raw st =
     (if \<not> es_enabled cfg \<or> raw = [] \<or> 16384 < length raw then (st, Inl entra_denied)
      else case token_header J raw of
          Inl e \<Rightarrow> (st, Inl e)
        | Inr kid \<Rightarrow>
           (case entra_key J cfg clk kid (fst st) of
              (ks, Inl e) \<Rightarrow> ((ks, snd st), Inl e)
            | (ks, Inr key) \<Rightarrow>
               (case (case jwt_decode J cfg key raw of None \<Rightarrow> Inl entra_denied | Some c \<Rightarrow> claims_subject cfg c) of
                  Inl e \<Rightarrow> ((ks, snd st), Inl e)
                | Inr oid \<Rightarrow>
                   (case resolve_entra (es_tenant_id cfg) oid (es_organization_id cfg) (snd st) of
                      (t, r) \<Rightarrow> ((ks, t), and_then r (\<lambda>user. Inr
                         \<lparr>p_user_id = user, p_project_id = None, p_scopes = EXTERNAL_SCOPES, p_local = False,
                          p_provider = ''entra'', p_organization_id = Some (es_organization_id cfg)\<rparr>))))))"

end
