(* ===== verification/Application.thy ===== *)
theory Application
  imports Identity_Providers
begin

text \<open>
  The application of server/http_handler.py (create_app) with its identity services: the
  GitHub and Entra verifiers, the access tokens of the database, and the login routes.
  \<open>login_services\<close> is the state these services keep, the caches of the verifiers and the two
  tables of accounts; no tool handler reads or writes it. What is outside of the program, the
  providers with their documents and the clocks, is a parameter of one request.
\<close>

subsection \<open>State and surroundings\<close>

record 'key login_services =
  ls_github :: github_auth
  ls_github_users :: github_identities
  ls_entra :: "'key entra_keys"
  ls_entra_users :: entra_identities

record app_settings =
  ap_max_bytes :: nat
  ap_auth_enabled :: bool
  ap_token_header :: string
  ap_entra :: entra_settings
  ap_github :: github_settings

text \<open>The providers during a request; \<open>pv_clock\<close> samples the monotonic clock, \<open>pv_now\<close> is the time of day.\<close>

record 'key surroundings =
  pv_fetch :: "string \<Rightarrow> dict \<Rightarrow> dict outcome"
  pv_jwt :: "'key jwt_library"
  pv_clock :: clock
  pv_now :: time

subsection \<open>The services of the application\<close>

definition verify_github ::
    "platform \<Rightarrow> github_settings \<Rightarrow> 'key surroundings \<Rightarrow> string \<Rightarrow> 'key login_services \<Rightarrow> 'key login_services \<times> principal outcome" where
  "verify_github P cfg W raw v =
     (case github_verify P cfg (pv_clock W) (pv_fetch W) raw (ls_github v, ls_github_users v) of
        ((g, users), r) \<Rightarrow> (v\<lparr>ls_github := g, ls_github_users := users\<rparr>, r))"

definition verify_entra ::
    "entra_settings \<Rightarrow> 'key surroundings \<Rightarrow> string \<Rightarrow> 'key login_services \<Rightarrow> 'key login_services \<times> principal outcome" where
  "verify_entra cfg W raw v =
     (case entra_verify (pv_jwt W) cfg (pv_clock W) raw (ls_entra v, ls_entra_users v) of
        ((ks, users), r) \<Rightarrow> (v\<lparr>ls_entra := ks, ls_entra_users := users\<rparr>, r))"

definition answer_login ::
    "platform \<Rightarrow> app_settings \<Rightarrow> 'key surroundings \<Rightarrow> http_request \<Rightarrow> 'key login_services \<Rightarrow> 'key login_services \<times> http_response" where
  "answer_login P A W r v =
     (if hr_path r = ''/auth/config'' then (v, login_config (ap_github A) (ap_entra A) r)
      else case github_route P (ap_github A) (pv_clock W) (pv_fetch W) r (ls_github v, ls_github_users v) of
          ((g, users), x) \<Rightarrow> (v\<lparr>ls_github := g, ls_github_users := users\<rparr>, x))"

text \<open>The application over a server of tools; \<open>tokens\<close> reads the access tokens of its database.\<close>

definition application ::
    "platform \<Rightarrow> app_settings \<Rightarrow> 'key surroundings \<Rightarrow> ('s \<Rightarrow> access_token list) \<Rightarrow> 's server
      \<Rightarrow> ('key login_services, 's) http_server" where
  "application P A W tokens S =
     \<lparr>hs_mcp = S, hs_max_bytes = ap_max_bytes A, hs_auth_enabled = ap_auth_enabled A,
      hs_token_header = ascii_lower (ap_token_header A),
      hs_entra_enabled = es_enabled (ap_entra A), hs_entra_legacy = es_allow_legacy_tokens (ap_entra A),
      hs_github_enabled = gs_enabled (ap_github A), hs_github_legacy = gs_allow_legacy_tokens (ap_github A),
      hs_github = verify_github P (ap_github A) W, hs_entra = verify_entra (ap_entra A) W,
      hs_token = (\<lambda>raw db. verify_token P (pv_now W) raw (tokens db)), hs_login = answer_login P A W\<rparr>"

lemma application_simps [simp]:
  "hs_mcp (application P A W tokens S) = S" "hs_max_bytes (application P A W tokens S) = ap_max_bytes A"
  "hs_auth_enabled (application P A W tokens S) = ap_auth_enabled A"
  "hs_github (application P A W tokens S) = verify_github P (ap_github A) W"
  "hs_entra (application P A W tokens S) = verify_entra (ap_entra A) W"
  "hs_login (application P A W tokens S) = answer_login P A W"
  by (simp_all add: application_def)

end
