(* ===== verification/Identity_Props.thy ===== *)
theory Identity_Props
  imports Identity_Providers Fencing Row_Changes
begin

text \<open>
  Properties of company and GitHub accounts: the binding of a subject to its user is final
  and exclusive, and a GitHub token is accepted only for an account the provider has
  confirmed for this application within the last minute, with bounded traffic to it.
\<close>

subsection \<open>Bindings\<close>

record accounts =
  ac_entra :: entra_identities
  ac_github :: github_identities

text \<open>A login with a resolved subject, or an operator command; the label is the time.\<close>

inductive account_step :: "entra_settings \<Rightarrow> github_settings \<Rightarrow> time \<Rightarrow> accounts \<Rightarrow> accounts \<Rightarrow> bool" for es gs now where
  entra_login: "account_step es gs now s (s\<lparr>ac_entra := fst (resolve_entra tenant oid org (ac_entra s))\<rparr>)"
| github_login: "account_step es gs now s (s\<lparr>ac_github := fst (resolve_github i org (ac_github s))\<rparr>)"
| entra_admin: "administer_entra es tenant now cmd (ac_entra s) = Some (t, d) \<Longrightarrow> account_step es gs now s (s\<lparr>ac_entra := t\<rparr>)"
| github_admin: "administer_github gs now cmd (ac_github s) = Some (t, d) \<Longrightarrow> account_step es gs now s (s\<lparr>ac_github := t\<rparr>)"

definition same_binding :: "'k identity \<Rightarrow> 'k identity \<Rightarrow> bool" where
  "same_binding r r' \<longleftrightarrow> id_subject r' = id_subject r \<and> id_user_id r' = id_user_id r \<and> id_organization_id r' = id_organization_id r"

definition bindings_ok :: "'k identity list \<Rightarrow> bool" where
  "bindings_ok t \<longleftrightarrow> distinct (map id_subject t) \<and> distinct (map id_user_id t)"

text \<open>What a transaction does to a table of bindings.\<close>

definition binding_change :: "'k identity list \<Rightarrow> 'k identity list \<Rightarrow> bool" where
  "binding_change t t' \<longleftrightarrow> rows_to id_subject same_binding (\<lambda>_. True) t t' \<and> (bindings_ok t \<longrightarrow> bindings_ok t')"

lemma same_binding_refl: "same_binding r r"
  by (simp add: same_binding_def)

lemma binding_change_refl: "binding_change t t"
  by (simp add: binding_change_def rows_to_same same_binding_refl)

lemma binding_change_insert:
  assumes "identity_row k t = None" and "\<not> exists_row (\<lambda>r. id_user_id r = user) t"
  shows "binding_change t (insert_row (new_identity k user org) t)"
proof -
  have k: "k \<notin> id_subject ` set t" using assms(1) by (auto simp: identity_row_def fetchrow_None_iff)
  have "rows_to id_subject same_binding (\<lambda>_. True) t (insert_row (new_identity k user org) t)"
    using k by (intro rows_to_insert) (simp_all add: same_binding_refl new_identity_def)
  moreover have "user \<notin> id_user_id ` set t" using assms(2) by (auto simp: exists_row_iff)
  ultimately show ?thesis using k by (auto simp: binding_change_def bindings_ok_def insert_row_def new_identity_def)
qed

lemma binding_change_update:
  assumes "\<And>r. same_binding r (f r)"
  shows "binding_change t (update_where p f t)"
proof -
  have keep: "id_subject (f r) = id_subject r" "id_user_id (f r) = id_user_id r" for r
    using assms [of r] by (simp_all add: same_binding_def)
  have "rows_to id_subject same_binding (\<lambda>_. True) t (update_where p f t)"
    by (rule rows_to_update) (simp_all add: same_binding_refl assms keep)
  then show ?thesis by (simp add: binding_change_def bindings_ok_def map_update_where keep)
qed

lemma resolve_identity_change: "binding_change t (fst (resolve_identity account k actor org t))"
proof (cases "ensure_identity k actor org t")
  case (Inr t')
  then have "t' = t \<or> t' = insert_row (new_identity k actor org) t \<and> identity_row k t = None \<and> \<not> exists_row (\<lambda>r. id_user_id r = actor) t"
    by (auto simp: ensure_identity_def split: if_splits)
  then have "binding_change t t'" by (elim disjE conjE) (simp_all add: binding_change_insert binding_change_refl)
  then show ?thesis using Inr by (simp add: resolve_identity_def)
qed (simp add: resolve_identity_def binding_change_refl)

lemma bind_identity_change: "bind_identity k user org t = Some t' \<Longrightarrow> binding_change t t'"
  using binding_change_insert by (auto simp: bind_identity_def split: if_splits)

lemma set_disabled_change: "set_disabled now k off t = Some (t', u) \<Longrightarrow> binding_change t t'"
  by (auto simp: set_disabled_def same_binding_def split: option.splits intro!: binding_change_update)

lemma bind_github_change:
  assumes "bind_github i user org t = Some t'"
  shows "binding_change t t'"
proof -
  obtain k where "bind_identity k user org t = Some t'"
    using assms by (auto simp: bind_github_def split: option.splits if_splits)
  then show ?thesis by (rule bind_identity_change)
qed

lemma bind_entra_change:
  assumes "bind_entra tenant i user org t = Some t'"
  shows "binding_change t t'"
proof -
  obtain tn oi where u: "uuid_text tenant = Some tn" "uuid_text i = Some oi"
    using assms by (cases "uuid_text tenant"; cases "uuid_text i") (simp_all add: bind_entra_def)
  then have "bind_identity (tn, oi) user org t = Some t'" using assms by (simp add: bind_entra_def split: if_splits)
  then show ?thesis by (rule bind_identity_change)
qed

lemma administer_github_change:
  assumes "administer_github s now cmd t = Some (t', d)"
  shows "binding_change t t'"
proof (cases cmd)
  case (Bind i user)
  then show ?thesis using assms bind_github_change by (auto simp: administer_github_def)
next
  case (Disable i)
  then obtain k u where "set_disabled now k True t = Some (t', u)" using assms by (auto simp: administer_github_def bind_eq_Some_conv)
  then show ?thesis by (rule set_disabled_change)
next
  case (Enable i)
  then obtain k u where "set_disabled now k False t = Some (t', u)" using assms by (auto simp: administer_github_def bind_eq_Some_conv)
  then show ?thesis by (rule set_disabled_change)
qed

lemma administer_entra_change:
  assumes "administer_entra s tenant now cmd t = Some (t', d)"
  shows "binding_change t t'"
proof -
  obtain tn where tn: "(case cmd of
        Bind i user \<Rightarrow> map_option (\<lambda>t'. (t', [(''user_id'', PStr user), (''bound'', PBool True)]))
          (bind_entra tn i user (es_organization_id s) t)
      | Disable i \<Rightarrow> Option.bind (uuid_text i) (\<lambda>oi.
          map_option (\<lambda>(t', u). (t', [(''user_id'', PStr u), (''disabled'', PBool True)])) (set_disabled now (tn, oi) True t))
      | Enable i \<Rightarrow> Option.bind (uuid_text i) (\<lambda>oi.
          map_option (\<lambda>(t', u). (t', [(''user_id'', PStr u), (''disabled'', PBool False)])) (set_disabled now (tn, oi) False t)))
      = Some (t', d)"
    using assms unfolding administer_entra_def bind_eq_Some_conv by blast
  show ?thesis
  proof (cases cmd)
    case (Bind i user)
    then show ?thesis using tn bind_entra_change by auto
  next
    case (Disable i)
    then obtain k u where "set_disabled now k True t = Some (t', u)" using tn by (auto simp: bind_eq_Some_conv)
    then show ?thesis by (rule set_disabled_change)
  next
    case (Enable i)
    then obtain k u where "set_disabled now k False t = Some (t', u)" using tn by (auto simp: bind_eq_Some_conv)
    then show ?thesis by (rule set_disabled_change)
  qed
qed

lemma account_step_change:
  assumes "account_step es gs now s s'"
  shows "binding_change (ac_entra s) (ac_entra s') \<and> binding_change (ac_github s) (ac_github s')"
  using assms
proof cases
  case (entra_login tenant oid org)
  then show ?thesis by (simp add: resolve_entra_def resolve_identity_change binding_change_refl)
next
  case (github_login i org)
  then show ?thesis
    by (cases "github_subject i") (simp_all add: resolve_github_def resolve_identity_change binding_change_refl)
next
  case (entra_admin tenant cmd t d)
  then show ?thesis using administer_entra_change binding_change_refl by auto
next
  case (github_admin cmd t d)
  then show ?thesis using administer_github_change binding_change_refl by auto
qed

definition accounts_ok :: "accounts \<Rightarrow> bool" where
  "accounts_ok s \<longleftrightarrow> bindings_ok (ac_entra s) \<and> bindings_ok (ac_github s)"

lemma accounts_ok_step: "accounts_ok s \<Longrightarrow> account_step es gs now s s' \<Longrightarrow> accounts_ok s'"
  using account_step_change [of es gs now s s'] by (simp add: accounts_ok_def binding_change_def)

lemma same_binding_trans: "same_binding a b \<Longrightarrow> same_binding b c \<Longrightarrow> same_binding a c"
  by (simp add: same_binding_def)

lemma binding_kept: "binding_change t t' \<Longrightarrow> identity_row k t = Some r \<Longrightarrow> \<exists>r'. identity_row k t' = Some r' \<and> same_binding r r'"
  using rows_to_lookup [of id_subject same_binding "\<lambda>_. True" t t' k r] by (simp add: binding_change_def identity_row_def)

interpretation ae: row_history "account_step es gs" accounts_ok "\<lambda>s k. identity_row k (ac_entra s)" same_binding for es gs
proof
  show "accounts_ok s'" if "accounts_ok s" "account_step es gs t s s'" for t s s' using that by (rule accounts_ok_step)
  show "\<exists>r'. identity_row k (ac_entra s') = Some r' \<and> same_binding r r'"
    if "account_step es gs t s s'" "identity_row k (ac_entra s) = Some r" for t s s' k r
    by (rule binding_kept [OF _ that(2)]) (simp add: account_step_change [OF that(1)])
qed (rule same_binding_refl, erule (1) same_binding_trans)

interpretation ag: row_history "account_step es gs" accounts_ok "\<lambda>s k. identity_row k (ac_github s)" same_binding for es gs
proof
  show "accounts_ok s'" if "accounts_ok s" "account_step es gs t s s'" for t s s' using that by (rule accounts_ok_step)
  show "\<exists>r'. identity_row k (ac_github s') = Some r' \<and> same_binding r r'"
    if "account_step es gs t s s'" "identity_row k (ac_github s) = Some r" for t s s' k r
    by (rule binding_kept [OF _ that(2)]) (simp add: account_step_change [OF that(1)])
qed (rule same_binding_refl, erule (1) same_binding_trans)

lemma resolve_identity_Inr:
  assumes "resolve_identity account k actor org t = (t', Inr u)"
  shows "\<exists>r. identity_row k t' = Some r \<and> id_user_id r = u \<and> id_disabled_at r = None \<and> id_organization_id r = org"
    and "identity_row k t = Some r \<Longrightarrow> t' = t \<and> u = id_user_id r \<and> id_disabled_at r = None"
  using assms
  by (auto simp: resolve_identity_def ensure_identity_def split: sum.splits option.splits if_splits)

lemma resolve_github_Inr: "resolve_github i org t = (t', Inr u) \<Longrightarrow> resolve_identity ''GitHub'' i (''github:'' @ i) org t = (t', Inr u)"
  by (auto simp: resolve_github_def github_subject_def split: if_splits)

lemma identity_row_SomeD: "identity_row k t = Some r \<Longrightarrow> r \<in> set t \<and> id_subject r = k"
  unfolding identity_row_def by (rule fetchrow_SomeD)

lemma identity_row_mem: "distinct (map id_subject t) \<Longrightarrow> r \<in> set t \<Longrightarrow> identity_row (id_subject r) t = Some r"
  unfolding identity_row_def by (rule fetchrow_unique)

lemma login_kept:
  assumes "same_binding r r'" and "identity_row (id_subject r) tab = Some r'"
    and "resolve_identity account (id_subject r) actor org tab = (t, Inr u)"
  shows "t = tab \<and> u = id_user_id r \<and> id_disabled_at r' = None \<and> org = id_organization_id r"
proof -
  have t: "t = tab" "u = id_user_id r'" "id_disabled_at r' = None" using resolve_identity_Inr(2) [OF assms(3,2)] by simp_all
  moreover obtain q where "identity_row (id_subject r) t = Some q" "id_organization_id q = org"
    using resolve_identity_Inr(1) [OF assms(3)] by blast
  ultimately show ?thesis using assms(1,2) by (simp add: same_binding_def)
qed

definition no_accounts :: accounts where
  "no_accounts = \<lparr>ac_entra = [], ac_github = []\<rparr>"

text \<open>
  C22. An account is one user for ever. From an empty database, in every state that logins
  and operator commands reach: no two subjects of a provider have the same user; every
  binding made before is still there with its user and its organization; a login answers
  with the stored user of its subject, which for a subject known earlier is the user it had
  then, and only while the binding is enabled and of the configured organization.
\<close>

theorem account_bindings_final:
  assumes "run (account_step es gs) no_accounts ts s" and "run (account_step es gs) s us s'"
  shows "distinct (map id_subject (ac_entra s')) \<and> distinct (map id_user_id (ac_entra s'))
    \<and> distinct (map id_subject (ac_github s')) \<and> distinct (map id_user_id (ac_github s'))
    \<and> (\<forall>r \<in> set (ac_entra s). \<exists>r' \<in> set (ac_entra s'). same_binding r r'
         \<and> (\<forall>org t u. resolve_entra (fst (id_subject r)) (snd (id_subject r)) org (ac_entra s') = (t, Inr u)
               \<longrightarrow> t = ac_entra s' \<and> u = id_user_id r \<and> id_disabled_at r' = None \<and> org = id_organization_id r))
    \<and> (\<forall>r \<in> set (ac_github s). \<exists>r' \<in> set (ac_github s'). same_binding r r'
         \<and> (\<forall>org t u. resolve_github (id_subject r) org (ac_github s') = (t, Inr u)
               \<longrightarrow> t = ac_github s' \<and> u = id_user_id r \<and> id_disabled_at r' = None \<and> org = id_organization_id r))"
proof -
  have start: "accounts_ok no_accounts" by (simp add: accounts_ok_def bindings_ok_def no_accounts_def)
  have ok: "accounts_ok s" using ae.inv_run [OF assms(1) start] .
  have ok': "accounts_ok s'" using ae.inv_run [OF assms(2) ok] .
  have entra: "\<exists>r' \<in> set (ac_entra s'). same_binding r r'
         \<and> (\<forall>org t u. resolve_entra (fst (id_subject r)) (snd (id_subject r)) org (ac_entra s') = (t, Inr u)
               \<longrightarrow> t = ac_entra s' \<and> u = id_user_id r \<and> id_disabled_at r' = None \<and> org = id_organization_id r)"
    if "r \<in> set (ac_entra s)" for r
  proof -
    have "identity_row (id_subject r) (ac_entra s) = Some r"
      using ok that by (simp add: accounts_ok_def bindings_ok_def identity_row_mem)
    then obtain r' where r': "identity_row (id_subject r) (ac_entra s') = Some r'" "same_binding r r'"
      using ae.row_run [OF assms(2) ok] by blast
    moreover have "r' \<in> set (ac_entra s')" using identity_row_SomeD [OF r'(1)] by simp
    moreover have "\<forall>org t u. resolve_entra (fst (id_subject r)) (snd (id_subject r)) org (ac_entra s') = (t, Inr u)
               \<longrightarrow> t = ac_entra s' \<and> u = id_user_id r \<and> id_disabled_at r' = None \<and> org = id_organization_id r"
      unfolding resolve_entra_def prod.collapse by (intro allI impI) (rule login_kept [OF r'(2,1)])
    ultimately show ?thesis by (intro bexI [of _ r'] conjI)
  qed
  have github: "\<exists>r' \<in> set (ac_github s'). same_binding r r'
         \<and> (\<forall>org t u. resolve_github (id_subject r) org (ac_github s') = (t, Inr u)
               \<longrightarrow> t = ac_github s' \<and> u = id_user_id r \<and> id_disabled_at r' = None \<and> org = id_organization_id r)"
    if "r \<in> set (ac_github s)" for r
  proof -
    have "identity_row (id_subject r) (ac_github s) = Some r"
      using ok that by (simp add: accounts_ok_def bindings_ok_def identity_row_mem)
    then obtain r' where r': "identity_row (id_subject r) (ac_github s') = Some r'" "same_binding r r'"
      using ag.row_run [OF assms(2) ok] by blast
    moreover have "r' \<in> set (ac_github s')" using identity_row_SomeD [OF r'(1)] by simp
    moreover have "\<forall>org t u. resolve_github (id_subject r) org (ac_github s') = (t, Inr u)
               \<longrightarrow> t = ac_github s' \<and> u = id_user_id r \<and> id_disabled_at r' = None \<and> org = id_organization_id r"
      by (intro allI impI) (rule login_kept [OF r'(2,1) resolve_github_Inr])
    ultimately show ?thesis by (intro bexI [of _ r'] conjI)
  qed
  show ?thesis using ok' entra github by (simp add: accounts_ok_def bindings_ok_def)
qed

subsection \<open>Traffic to GitHub\<close>

text \<open>
  What happened to a verifier, the newest first: a request was sent to an address with its
  fields, the provider answered it, or an answer was taken over for a token. Requests of
  several clients are interleaved: each is begun, answered and finished in steps of its own,
  at times that never go back. An account enters the cache only for a token about which the
  provider was asked, from the document it answered.
\<close>

datatype gh_event =
    Sent time string dict
  | Replied time string dict "dict outcome"
  | Confirmed time string dict

fun sent_times :: "gh_event list \<Rightarrow> time list" where
  "sent_times [] = []"
| "sent_times (Sent t u f # tr) = t # sent_times tr"
| "sent_times (Replied t u f x # tr) = sent_times tr"
| "sent_times (Confirmed t k d # tr) = sent_times tr"

definition check_url :: "github_settings \<Rightarrow> string" where
  \<comment> \<open>where GitHub says to which account a token of the application belongs\<close>
  "check_url cfg = ''https://api.github.com/applications/'' @ gs_client_id cfg @ ''/token''"

definition token_field :: "string \<Rightarrow> dict" where
  "token_field token = [(''access_token'', PStr token)]"

inductive gh_reach :: "platform \<Rightarrow> github_settings \<Rightarrow> github_auth \<Rightarrow> gh_event list \<Rightarrow> time \<Rightarrow> bool" for P cfg where
  gh_start: "gh_reach P cfg \<lparr>gh_cache = [], gh_attempts = [], gh_active = 0\<rparr> [] now"
| gh_send: "gh_reach P cfg g tr t \<Longrightarrow> t \<le> now \<Longrightarrow> begin_remote now g = (g', Inr ()) \<Longrightarrow> gh_reach P cfg g' (Sent now url fs # tr) now"
| gh_refuse: "gh_reach P cfg g tr t \<Longrightarrow> t \<le> now \<Longrightarrow> begin_remote now g = (g', Inl e) \<Longrightarrow> gh_reach P cfg g' tr now"
| gh_finish: "gh_reach P cfg g tr t \<Longrightarrow> t \<le> now \<Longrightarrow> 0 < gh_active g \<Longrightarrow> Sent s url fs \<in> set tr
    \<Longrightarrow> gh_reach P cfg (finish_remote g) (Replied now url fs x # tr) now"
| gh_confirm: "gh_reach P cfg g tr t \<Longrightarrow> t \<le> now \<Longrightarrow> Replied c (check_url cfg) (token_field token) (Inr d) \<in> set tr
    \<Longrightarrow> token_document cfg d = Inr a
    \<Longrightarrow> gh_reach P cfg (cache_account now (sha256 P token) a g) (Confirmed now token d # tr) now"
| gh_wait: "gh_reach P cfg g tr t \<Longrightarrow> t \<le> now \<Longrightarrow> gh_reach P cfg g tr now"

text \<open>What it takes for a document to confirm an account of the application.\<close>

definition confirms :: "github_settings \<Rightarrow> dict \<Rightarrow> github_account \<Rightarrow> bool" where
  "confirms cfg d a \<longleftrightarrow>
     (\<exists>app user n names. py_get d ''app'' = PDict app \<and> py_get app ''client_id'' = PStr (gs_client_id cfg)
        \<and> py_get d ''user'' = PDict user \<and> py_get user ''id'' = PInt n \<and> 0 < n \<and> n < 10 ^ 20 \<and> ga_subject a = show_int n
        \<and> py_get user ''type'' = PStr ''User'' \<and> py_get user ''login'' = PStr (ga_username a)
        \<and> ga_username a \<noteq> [] \<and> length (ga_username a) \<le> 128
        \<and> py_get d ''scopes'' = PList (map PStr names) \<and> ''read:user'' \<in> set names \<and> set names \<subseteq> {''read:user'', ''offline_access''})"

lemma get_or_dict: "get_or d k (PDict []) = PDict x \<Longrightarrow> py_get x j \<noteq> PNone \<Longrightarrow> py_get d k = PDict x"
  by (auto simp: get_or_def py_get_def split: option.splits)

lemma all_strings: "list_all is_str xs \<Longrightarrow> xs = map PStr (map str_of xs)"
  by (induction xs) (auto simp: is_str_iff)

lemma token_document_confirms:
  assumes "token_document cfg d = Inr a"
  shows "confirms cfg d a"
proof -
  let ?app = "get_or d ''app'' (PDict [])" and ?user = "get_or d ''user'' (PDict [])" and ?scopes = "py_get d ''scopes''"
  have c: "is_dict ?app" "py_get (dict_of ?app) ''client_id'' = PStr (gs_client_id cfg)" "is_dict ?user"
      "\<not> (case py_get (dict_of ?user) ''id'' of PInt n \<Rightarrow> n \<le> 0 \<or> 10 ^ 20 \<le> n | _ \<Rightarrow> True)"
      "py_get (dict_of ?user) ''type'' = PStr ''User''"
      "\<not> (case py_get (dict_of ?user) ''login'' of PStr s \<Rightarrow> s = [] \<or> 128 < length s | _ \<Rightarrow> True)"
      "\<not> (case ?scopes of PList xs \<Rightarrow> \<not> list_all is_str xs | _ \<Rightarrow> True)"
      "''read:user'' \<in> set (strs_of ?scopes)" "set (strs_of ?scopes) \<subseteq> {''read:user'', ''offline_access''}"
    and a: "a = \<lparr>ga_subject = show_int (case py_get (dict_of ?user) ''id'' of PInt n \<Rightarrow> n | _ \<Rightarrow> 0), ga_username = arg_str (dict_of ?user) ''login''\<rparr>"
    using assms unfolding token_document_def Let_def checked_Inr_iff by simp_all
  obtain app user where au: "?app = PDict app" "?user = PDict user" using c(1,3) by (auto simp: is_dict_def split: pyval.splits)
  obtain n where n: "py_get user ''id'' = PInt n" "0 < n" "n < 10 ^ 20" using c(4) au by (auto simp: dict_of_def split: pyval.splits)
  obtain l where l: "py_get user ''login'' = PStr l" "l \<noteq> []" "length l \<le> 128" using c(6) au by (auto simp: dict_of_def split: pyval.splits)
  obtain xs where xs: "?scopes = PList xs" "list_all is_str xs" using c(7) by (auto split: pyval.splits)
  have names: "strs_of ?scopes = map str_of xs" "xs = map PStr (map str_of xs)"
    using xs all_strings by (auto simp: strs_of_def list_of_def)
  have d: "py_get d ''app'' = PDict app" "py_get d ''user'' = PDict user"
    using get_or_dict [OF au(1), of "''client_id''"] get_or_dict [OF au(2), of "''id''"] c(2) n(1) au by (auto simp: dict_of_def)
  have "ga_subject a = show_int n" "ga_username a = l" using a n(1) l(1) au by (simp_all add: dict_of_def arg_str_def)
  then show ?thesis unfolding confirms_def using d c(2,5,8,9) au n l xs(1) names
    by (intro exI [of _ app] exI [of _ user] exI [of _ n] exI [of _ "map str_of xs"]) (simp add: dict_of_def)
qed

definition window :: "time \<Rightarrow> time list \<Rightarrow> nat" where
  \<comment> \<open>how many of the times are in the minute that ends at \<open>w\<close>\<close>
  "window w ts = length (filter (\<lambda>s. w - seconds 60 \<le> s \<and> s \<le> w) ts)"

definition attempts_ok :: "github_auth \<Rightarrow> gh_event list \<Rightarrow> time \<Rightarrow> bool" where
  "attempts_ok g tr t \<longleftrightarrow> (\<exists>old. rev (sent_times tr) = old @ gh_attempts g \<and> (\<forall>x \<in> set old. x < t - seconds 60)
     \<and> sorted (gh_attempts g) \<and> (\<forall>x \<in> set (gh_attempts g). x \<le> t))"

definition cache_ok :: "platform \<Rightarrow> github_settings \<Rightarrow> github_auth \<Rightarrow> gh_event list \<Rightarrow> bool" where
  "cache_ok P cfg g tr \<longleftrightarrow> length (gh_cache g) \<le> 1024
     \<and> (\<forall>(key, deadline, a) \<in> set (gh_cache g). \<exists>c token d. Confirmed c token d \<in> set tr \<and> key = sha256 P token
          \<and> token_document cfg d = Inr a \<and> deadline = c + seconds 60)"

definition answers_ok :: "github_settings \<Rightarrow> gh_event list \<Rightarrow> time \<Rightarrow> bool" where
  \<comment> \<open>answers follow requests, and accounts are taken over from answers about their tokens\<close>
  "answers_ok cfg tr t \<longleftrightarrow>
     (\<forall>c url fs x. Replied c url fs x \<in> set tr \<longrightarrow> c \<le> t \<and> (\<exists>s \<le> c. Sent s url fs \<in> set tr))
     \<and> (\<forall>c token d. Confirmed c token d \<in> set tr \<longrightarrow> (\<exists>c0 \<le> c. Replied c0 (check_url cfg) (token_field token) (Inr d) \<in> set tr))"

lemma sent_times_mem: "Sent s url fs \<in> set tr \<Longrightarrow> s \<in> set (sent_times tr)"
  by (induction tr rule: sent_times.induct) auto

lemma attempts_ok_later: "attempts_ok g tr t \<Longrightarrow> t \<le> now \<Longrightarrow> attempts_ok g tr now"
  unfolding attempts_ok_def by (metis diff_right_mono order_less_le_trans order_trans)

lemma attempts_ok_recent:
  assumes "attempts_ok g tr t" and "t \<le> now"
  shows "attempts_ok (g\<lparr>gh_attempts := dropWhile (\<lambda>x. x < now - seconds 60) (gh_attempts g)\<rparr>) tr now"
proof -
  let ?p = "\<lambda>x. x < now - seconds 60" and ?a = "gh_attempts g"
  obtain old where old: "rev (sent_times tr) = old @ ?a" "\<forall>x \<in> set old. x < now - seconds 60" "sorted ?a" "\<forall>x \<in> set ?a. x \<le> now"
    using attempts_ok_later [OF assms] unfolding attempts_ok_def by blast
  have "rev (sent_times tr) = (old @ takeWhile ?p ?a) @ dropWhile ?p ?a" using old(1) by simp
  moreover have "\<forall>x \<in> set (old @ takeWhile ?p ?a). ?p x" using old(2) by (auto dest: set_takeWhileD)
  moreover have "sorted (dropWhile ?p ?a)" using old(3) by (rule sorted_dropWhile)
  moreover have "\<forall>x \<in> set (dropWhile ?p ?a). x \<le> now" using old(4) by (auto dest: set_dropWhileD)
  ultimately show ?thesis unfolding attempts_ok_def by (intro exI [of _ "old @ takeWhile ?p ?a"]) simp
qed

lemma begin_remoteE:
  assumes "begin_remote now g = (g', Inr ())"
  shows "gh_active g < 8 \<and> length (dropWhile (\<lambda>t. t < now - seconds 60) (gh_attempts g)) < 120
    \<and> g' = g\<lparr>gh_attempts := dropWhile (\<lambda>t. t < now - seconds 60) (gh_attempts g) @ [now], gh_active := gh_active g + 1\<rparr>"
  using assms by (auto simp: begin_remote_def Let_def split: if_splits)

lemma begin_remote_refused:
  assumes "begin_remote now g = (g', Inl e)"
  shows "g' = g\<lparr>gh_attempts := dropWhile (\<lambda>t. t < now - seconds 60) (gh_attempts g)\<rparr>"
  using assms by (auto simp: begin_remote_def Let_def split: if_splits)

text \<open>The requests of the last minute are all in the list of attempts.\<close>

lemma window_le_attempts:
  assumes "attempts_ok g tr t" and "t \<le> w"
  shows "window w (sent_times tr) \<le> length (gh_attempts g)"
proof -
  obtain old where old: "rev (sent_times tr) = old @ gh_attempts g" "\<forall>x \<in> set old. x < t - seconds 60"
    using assms(1) unfolding attempts_ok_def by blast
  let ?q = "\<lambda>s. w - seconds 60 \<le> s \<and> s \<le> w"
  have "filter ?q old = []" using old(2) assms(2) by (auto simp: filter_empty_conv)
  have "window w (sent_times tr) = length (filter ?q (rev (sent_times tr)))"
    by (simp add: window_def rev_filter [symmetric])
  also have "\<dots> = length (filter ?q (gh_attempts g))" using old(1) \<open>filter ?q old = []\<close> by simp
  finally show ?thesis by simp
qed

lemma sent_times_le:
  assumes "attempts_ok g tr t" and "x \<in> set (sent_times tr)"
  shows "x \<le> t"
proof -
  obtain old where old: "rev (sent_times tr) = old @ gh_attempts g" "\<forall>x \<in> set old. x < t - seconds 60" "\<forall>x \<in> set (gh_attempts g). x \<le> t"
    using assms(1) unfolding attempts_ok_def by blast
  have "x \<in> set (rev (sent_times tr))" using assms(2) by simp
  then have "x \<in> set old \<or> x \<in> set (gh_attempts g)" unfolding old(1) by simp
  then show ?thesis using old(2,3) seconds_pos [of 60] by force
qed

definition gh_ok :: "platform \<Rightarrow> github_settings \<Rightarrow> github_auth \<Rightarrow> gh_event list \<Rightarrow> time \<Rightarrow> bool" where
  "gh_ok P cfg g tr t \<longleftrightarrow> attempts_ok g tr t \<and> cache_ok P cfg g tr \<and> answers_ok cfg tr t \<and> gh_active g \<le> 8 \<and> (\<forall>w. window w (sent_times tr) \<le> 120)"

lemma gh_ok_send:
  assumes "gh_ok P cfg g tr t" and "t \<le> now" and "begin_remote now g = (g', Inr ())"
  shows "gh_ok P cfg g' (Sent now url fs # tr) now"
proof -
  let ?r = "dropWhile (\<lambda>t. t < now - seconds 60) (gh_attempts g)"
  have b: "gh_active g < 8" "length ?r < 120" "g' = g\<lparr>gh_attempts := ?r @ [now], gh_active := gh_active g + 1\<rparr>"
    using begin_remoteE [OF assms(3)] by simp_all
  have att: "attempts_ok g tr t" using assms(1) by (simp add: gh_ok_def)
  note recent = attempts_ok_recent [OF att assms(2)]
  then obtain old where old: "rev (sent_times tr) = old @ ?r" "\<forall>x \<in> set old. x < now - seconds 60" "sorted ?r" "\<forall>x \<in> set ?r. x \<le> now"
    unfolding attempts_ok_def by auto
  have "attempts_ok g' (Sent now url fs # tr) now"
    unfolding attempts_ok_def using old b(3) by (intro exI [of _ old]) (auto simp: sorted_append)
  moreover have "cache_ok P cfg g' (Sent now url fs # tr)" using assms(1) b(3) unfolding gh_ok_def cache_ok_def by fastforce
  moreover have "window w (sent_times (Sent now url fs # tr)) \<le> 120" for w
  proof (cases "now \<le> w")
    case True
    have "window w (sent_times tr) \<le> length ?r" using window_le_attempts [OF recent True] by simp
    then show ?thesis using b(2) by (simp add: window_def)
  next
    case False
    then show ?thesis using assms(1) by (simp add: gh_ok_def window_def)
  qed
  moreover have "answers_ok cfg (Sent now url fs # tr) now"
    using assms(1,2) unfolding gh_ok_def answers_ok_def by fastforce
  ultimately show ?thesis using b(1,3) by (simp add: gh_ok_def)
qed

lemma cache_account_mem:
  "e \<in> set (gh_cache (cache_account now key a g)) \<Longrightarrow> e = (key, now + seconds 60, a) \<or> e \<in> set (gh_cache g)"
  by (auto simp: cache_account_def Let_def split: if_splits)

lemma gh_ok_confirm:
  assumes "gh_ok P cfg g tr t" and "t \<le> now" and "Replied c (check_url cfg) (token_field token) (Inr d) \<in> set tr"
    and "token_document cfg d = Inr a"
  shows "gh_ok P cfg (cache_account now (sha256 P token) a g) (Confirmed now token d # tr) now"
proof -
  let ?g = "cache_account now (sha256 P token) a g" and ?tr = "Confirmed now token d # tr"
  have att: "attempts_ok g tr now" using assms(1,2) attempts_ok_later by (auto simp: gh_ok_def)
  then have "attempts_ok ?g ?tr now" by (simp add: attempts_ok_def cache_account_def Let_def)
  moreover have "cache_ok P cfg ?g ?tr"
  proof -
    let ?old = "if 1024 \<le> length (gh_cache g) then [] else gh_cache g"
    have c: "length (gh_cache g) \<le> 1024" "\<forall>(key, deadline, a) \<in> set (gh_cache g). \<exists>c token d. Confirmed c token d \<in> set tr
        \<and> key = sha256 P token \<and> token_document cfg d = Inr a \<and> deadline = c + seconds 60"
      using assms(1) by (simp_all add: gh_ok_def cache_ok_def)
    have "length (filter (\<lambda>e. fst e \<noteq> sha256 P token) ?old) \<le> length ?old" by (rule length_filter_le)
    also have "\<dots> \<le> 1023" using c(1) by simp
    finally have "length (gh_cache ?g) \<le> 1024" by (simp add: cache_account_def Let_def)
    moreover have "\<exists>c token' d'. Confirmed c token' d' \<in> set ?tr \<and> key = sha256 P token' \<and> token_document cfg d' = Inr x \<and> deadline = c + seconds 60"
      if "(key, deadline, x) \<in> set (gh_cache ?g)" for key deadline x
    proof -
      from cache_account_mem [OF that] show ?thesis
      proof (elim disjE)
        assume "(key, deadline, x) = (sha256 P token, now + seconds 60, a)"
        then show ?thesis using assms(4) by auto
      next
        assume "(key, deadline, x) \<in> set (gh_cache g)"
        then show ?thesis using c(2) by fastforce
      qed
    qed
    ultimately show ?thesis unfolding cache_ok_def by blast
  qed
  moreover have "answers_ok cfg ?tr now"
  proof -
    have ok: "answers_ok cfg tr t" using assms(1) by (simp add: gh_ok_def)
    then have "c \<le> now" using assms(2,3) unfolding answers_ok_def by fastforce
    then show ?thesis using ok assms(2,3) unfolding answers_ok_def by fastforce
  qed
  ultimately show ?thesis using assms(1) by (simp add: gh_ok_def cache_account_def Let_def)
qed

lemma answers_ok_later: "answers_ok cfg tr t \<Longrightarrow> t \<le> now \<Longrightarrow> answers_ok cfg tr now"
  unfolding answers_ok_def by fastforce

lemma gh_reach_ok: "gh_reach P cfg g tr t \<Longrightarrow> gh_ok P cfg g tr t"
proof (induction rule: gh_reach.induct)
  case (gh_start now)
  show ?case by (simp add: gh_ok_def attempts_ok_def cache_ok_def answers_ok_def window_def)
next
  case (gh_send g tr t now g' url fs)
  then show ?case using gh_ok_send by blast
next
  case (gh_refuse g tr t now g' e)
  have g': "g' = g\<lparr>gh_attempts := dropWhile (\<lambda>t. t < now - seconds 60) (gh_attempts g)\<rparr>"
    using begin_remote_refused [OF gh_refuse.hyps(3)] .
  have "attempts_ok g' tr now" unfolding g'
    by (rule attempts_ok_recent [of g tr t]) (use gh_refuse in \<open>simp_all add: gh_ok_def\<close>)
  moreover have "answers_ok cfg tr now" using gh_refuse.IH gh_refuse.hyps(2) answers_ok_later by (auto simp: gh_ok_def)
  ultimately show ?case using gh_refuse.IH by (simp add: g' gh_ok_def cache_ok_def)
next
  case (gh_finish g tr t now s url fs x)
  have ok: "attempts_ok g tr t" "cache_ok P cfg g tr" "answers_ok cfg tr t" "gh_active g \<le> 8" "\<forall>w. window w (sent_times tr) \<le> 120"
    using gh_finish.IH by (simp_all add: gh_ok_def)
  let ?tr = "Replied now url fs x # tr"
  have "s \<le> now" using sent_times_le [OF ok(1) sent_times_mem [OF gh_finish.hyps(4)]] gh_finish.hyps(2) by simp
  then have "answers_ok cfg ?tr now" using ok(3) gh_finish.hyps(2,4) unfolding answers_ok_def by fastforce
  moreover have "attempts_ok (finish_remote g) ?tr now"
    using attempts_ok_later [OF ok(1) gh_finish.hyps(2)] by (simp add: finish_remote_def attempts_ok_def)
  moreover have "cache_ok P cfg (finish_remote g) ?tr"
    using ok(2) unfolding cache_ok_def finish_remote_def by fastforce
  ultimately show ?case using ok(4,5) by (simp add: gh_ok_def finish_remote_def)
next
  case (gh_confirm g tr t now c token d a)
  then show ?case using gh_ok_confirm by blast
next
  case (gh_wait g tr t now)
  then show ?case using attempts_ok_later answers_ok_later by (auto simp: gh_ok_def)
qed

subsection \<open>Accepted tokens\<close>

text \<open>A token check of one request is a path of these steps, whatever its outcome.\<close>

lemma remote_path:
  assumes "gh_reach P cfg g tr t" and "t \<le> now" and "remote now (fetch url fs) g = (g', r)"
  shows "\<exists>tr'. gh_reach P cfg g' (tr' @ tr) now \<and> (\<forall>c u f x. Replied c u f x \<in> set tr' \<longrightarrow> x = fetch u f)
    \<and> (\<forall>d. r = Inr d \<longrightarrow> fetch url fs = Inr d \<and> Replied now url fs (Inr d) \<in> set tr')"
proof (cases "begin_remote now g")
  case (Pair g1 x)
  show ?thesis
  proof (cases x)
    case (Inl e)
    have "gh_reach P cfg g1 ([] @ tr) now" using gh_refuse [OF assms(1,2)] Pair Inl by simp
    moreover have "g' = g1" "r = Inl e" using assms(3) Pair Inl by (simp_all add: remote_def)
    ultimately show ?thesis by (intro exI [of _ "[]"]) simp
  next
    case (Inr u)
    have sent: "gh_reach P cfg g1 (Sent now url fs # tr) now" using gh_send [OF assms(1,2)] Pair Inr by simp
    have "0 < gh_active g1" using begin_remoteE [of now g g1] Pair Inr by simp
    then have "gh_reach P cfg (finish_remote g1) ([Replied now url fs (fetch url fs), Sent now url fs] @ tr) now"
      using gh_finish [OF sent order_refl, of now url fs] by simp
    moreover have "g' = finish_remote g1" "r = fetch url fs" using assms(3) Pair Inr by (simp_all add: remote_def)
    ultimately show ?thesis by (intro exI [of _ "[Replied now url fs (fetch url fs), Sent now url fs]"]) simp
  qed
qed

definition confirmed_at ::
    "platform \<Rightarrow> github_settings \<Rightarrow> gh_event list \<Rightarrow> string \<Rightarrow> dict \<Rightarrow> github_account \<Rightarrow> time \<Rightarrow> time \<Rightarrow> bool" where
  \<comment> \<open>at \<open>c0\<close> GitHub answered a request about the token, with a document that confirms the account, taken over at \<open>c\<close>\<close>
  "confirmed_at P cfg tr token d a c0 c \<longleftrightarrow> c0 \<le> c \<and> Replied c0 (check_url cfg) (token_field token) (Inr d) \<in> set tr
     \<and> (\<exists>s \<le> c0. Sent s (check_url cfg) (token_field token) \<in> set tr) \<and> Confirmed c token d \<in> set tr \<and> confirms cfg d a"

lemma confirmed_atI:
  assumes "gh_reach P cfg g tr t" and "Confirmed c token d \<in> set tr" and "token_document cfg d = Inr a"
  shows "\<exists>c0. confirmed_at P cfg tr token d a c0 c"
proof -
  have ok: "answers_ok cfg tr t" using gh_reach_ok [OF assms(1)] by (simp add: gh_ok_def)
  obtain c0 where c0: "c0 \<le> c" "Replied c0 (check_url cfg) (token_field token) (Inr d) \<in> set tr"
    using ok assms(2) unfolding answers_ok_def by blast
  moreover have "\<exists>s \<le> c0. Sent s (check_url cfg) (token_field token) \<in> set tr"
    using ok c0(2) unfolding answers_ok_def by blast
  ultimately show ?thesis using assms(2) token_document_confirms [OF assms(3)] by (auto simp: confirmed_at_def)
qed

lemma provider_account_path:
  assumes "gh_reach P cfg g tr t" and "t \<le> clk 0" and "monotone_clock clk"
    and "provider_account P cfg clk fetch token g = (g', Inr a)"
  shows "\<exists>tr' token' d c0 c. gh_reach P cfg g' (tr' @ tr) (clk 2)
    \<and> (\<forall>c u f x. Replied c u f x \<in> set tr' \<longrightarrow> x = fetch u f)
    \<and> confirmed_at P cfg (tr' @ tr) token' d a c0 c \<and> sha256 P token' = sha256 P token \<and> clk 0 < c + seconds 60
    \<and> (tr' = [] \<or> token' = token \<and> fetch (check_url cfg) (token_field token) = Inr d)"
proof (cases "cached_account (clk 0) (sha256 P token) g")
  case (Some x)
  have r: "g' = g" "x = a" using assms(4) Some by (simp_all add: provider_account_def)
  obtain deadline where m: "(sha256 P token, deadline, a) \<in> set (gh_cache g)" "clk 0 < deadline"
    using Some r(2) by (auto simp: cached_account_def split: option.splits prod.splits if_splits dest: map_of_SomeD)
  have "\<forall>(key, deadline, a) \<in> set (gh_cache g). \<exists>c token d. Confirmed c token d \<in> set tr
        \<and> key = sha256 P token \<and> token_document cfg d = Inr a \<and> deadline = c + seconds 60"
    using gh_reach_ok [OF assms(1)] by (simp add: gh_ok_def cache_ok_def)
  then obtain c token' d where e: "Confirmed c token' d \<in> set tr" "sha256 P token = sha256 P token'" "token_document cfg d = Inr a"
      "deadline = c + seconds 60"
    using m(1) by fast
  then obtain c0 where "confirmed_at P cfg ([] @ tr) token' d a c0 c" using confirmed_atI [OF assms(1) e(1,3)] by auto
  moreover have "clk 0 < c + seconds 60" using m(2) e(4) by simp
  moreover have "gh_reach P cfg g' ([] @ tr) (clk 2)"
    using gh_wait [OF assms(1)] order_trans [OF assms(2) monotone_clockD [OF assms(3)]] r(1) by simp
  ultimately show ?thesis using e(2) by (intro exI [of _ "[]"] exI [of _ token'] exI [of _ d] exI [of _ c0] exI [of _ c]) simp
next
  case None
  let ?f = "fetch (check_url cfg) (token_field token)"
  obtain g1 answer where rm: "remote (clk 1) ?f g = (g1, answer)" by fastforce
  obtain d where d: "answer = Inr d" "token_document cfg d = Inr a" "g' = cache_account (clk 2) (sha256 P token) a g1"
    using assms(4) None rm unfolding check_url_def token_field_def
    by (auto simp: provider_account_def Let_def and_then_def split: sum.splits)
  have t1: "clk 0 \<le> clk 1" "clk 1 \<le> clk 2" "clk 0 \<le> clk 2" by (simp_all add: monotone_clockD [OF assms(3)])
  obtain tr1 where tr1: "gh_reach P cfg g1 (tr1 @ tr) (clk 1)" "\<forall>c u f x. Replied c u f x \<in> set tr1 \<longrightarrow> x = fetch u f"
      "?f = Inr d" "Replied (clk 1) (check_url cfg) (token_field token) (Inr d) \<in> set tr1"
    using remote_path [where fetch = fetch and url = "check_url cfg" and fs = "token_field token", OF assms(1) order_trans [OF assms(2) t1(1)] rm] d(1)
    by blast
  let ?tr = "Confirmed (clk 2) token d # tr1"
  have reach: "gh_reach P cfg g' (?tr @ tr) (clk 2)"
    unfolding d(3) using gh_confirm [OF tr1(1) t1(2) _ d(2)] tr1(4) by auto
  obtain c0 where "confirmed_at P cfg (?tr @ tr) token d a c0 (clk 2)" using confirmed_atI [OF reach _ d(2)] by auto
  moreover have "clk 0 < clk 2 + seconds 60" using t1(3) seconds_pos [of 60] by simp
  moreover have "\<forall>c u f x. Replied c u f x \<in> set ?tr \<longrightarrow> x = fetch u f" using tr1(2) by auto
  ultimately show ?thesis using reach tr1(3)
    by (intro exI [of _ ?tr] exI [of _ token] exI [of _ d] exI [of _ c0] exI [of _ "clk 2"]) simp
qed

lemma github_verify_Inr:
  assumes "github_verify P cfg clk fetch raw (g, ids) = ((g', ids'), Inr p)"
  shows "\<exists>a. starts_with GITHUB_PREFIX raw \<and> gs_enabled cfg
    \<and> provider_account P cfg clk fetch (drop (length GITHUB_PREFIX) raw) g = (g', Inr a)
    \<and> permits cfg (ga_subject a) (ga_username a)
    \<and> resolve_github (ga_subject a) (gs_organization_id cfg) ids = (ids', Inr (p_user_id p))
    \<and> p = \<lparr>p_user_id = p_user_id p, p_project_id = None, p_scopes = EXTERNAL_SCOPES, p_local = False,
         p_provider = ''github'', p_organization_id = Some (gs_organization_id cfg)\<rparr>"
proof -
  let ?t = "drop (length GITHUB_PREFIX) raw"
  have pre: "starts_with GITHUB_PREFIX raw" using assms by (auto simp: github_verify_def split: if_splits)
  obtain a user where i: "github_identity P cfg clk fetch (PStr ?t) (g, ids) = ((g', ids'), Inr (a, user))"
    and p: "p = \<lparr>p_user_id = user, p_project_id = None, p_scopes = EXTERNAL_SCOPES,
             p_local = False, p_provider = ''github'', p_organization_id = Some (gs_organization_id cfg)\<rparr>"
    using assms pre by (auto simp: github_verify_def and_then_def split: prod.splits sum.splits)
  have on: "gs_enabled cfg" using i by (auto simp: github_identity_def github_config_def checked_def split: if_splits)
  obtain g1 r where a: "provider_account P cfg clk fetch ?t g = (g1, r)" by fastforce
  have "is_str (PStr ?t) \<and> str_of (PStr ?t) = ?t" by (simp add: is_str_def)
  then have "provider_account P cfg clk fetch ?t g = (g', Inr a) \<and> permits cfg (ga_subject a) (ga_username a)
      \<and> resolve_github (ga_subject a) (gs_organization_id cfg) ids = (ids', Inr user)"
    using i a on by (auto simp: github_identity_def github_config_def and_then_def split: sum.splits if_splits prod.splits)
  then show ?thesis using pre on p by auto
qed

text \<open>
  C23. A GitHub token is accepted only on the word of GitHub. The verifier asked GitHub, at
  the address of its own application, about a token with the digest of the presented one,
  the answer names the application and a plain user with an id, a login and the allowed
  scopes, and less than a minute has passed since the answer was taken over; when the check
  sends a request at all, it asks about exactly the presented token. That account is on the
  allow list, and the caller becomes the user its binding names, which is enabled and of the
  configured organization, with no scope beyond reading, writing and projects. The verifier
  may have served any interleaving of other requests before: in every state it reaches, at
  most 8 requests to GitHub are open, no minute has more than 120 of them, and at most 1024
  answers are kept.
\<close>

theorem github_tokens_confirmed:
  assumes "gh_reach P cfg g tr t" and "t \<le> clk 0" and "monotone_clock clk"
    and "github_verify P cfg clk fetch raw (g, ids) = ((g', ids'), Inr p)"
  shows "\<exists>tr' token token' d a c0 c r. raw = GITHUB_PREFIX @ token \<and> gh_reach P cfg g' (tr' @ tr) (clk 2)
    \<and> (\<forall>c u f x. Replied c u f x \<in> set tr' \<longrightarrow> x = fetch u f)
    \<and> confirmed_at P cfg (tr' @ tr) token' d a c0 c \<and> sha256 P token' = sha256 P token \<and> clk 0 < c + seconds 60
    \<and> (tr' = [] \<or> token' = token \<and> fetch (check_url cfg) (token_field token) = Inr d)
    \<and> permits cfg (ga_subject a) (ga_username a)
    \<and> r \<in> set ids' \<and> id_subject r = ga_subject a \<and> id_user_id r = p_user_id p \<and> id_disabled_at r = None
    \<and> id_organization_id r = gs_organization_id cfg
    \<and> p_provider p = ''github'' \<and> p_organization_id p = Some (gs_organization_id cfg) \<and> \<not> p_local p
    \<and> set (p_scopes p) = {''read'', ''write'', ''projects''}
    \<and> gh_active g' \<le> 8 \<and> length (gh_cache g') \<le> 1024 \<and> (\<forall>w. window w (sent_times (tr' @ tr)) \<le> 120)"
proof -
  obtain a where v: "starts_with GITHUB_PREFIX raw"
      "provider_account P cfg clk fetch (drop (length GITHUB_PREFIX) raw) g = (g', Inr a)"
      "permits cfg (ga_subject a) (ga_username a)"
      "resolve_github (ga_subject a) (gs_organization_id cfg) ids = (ids', Inr (p_user_id p))"
    and p: "p = \<lparr>p_user_id = p_user_id p, p_project_id = None, p_scopes = EXTERNAL_SCOPES, p_local = False,
         p_provider = ''github'', p_organization_id = Some (gs_organization_id cfg)\<rparr>"
    using github_verify_Inr [OF assms(4)] by blast
  let ?t = "drop (length GITHUB_PREFIX) raw"
  have raw: "raw = GITHUB_PREFIX @ ?t" using v(1) by (metis append_take_drop_id starts_with_def)
  obtain tr' token' d c0 c where tr: "gh_reach P cfg g' (tr' @ tr) (clk 2)"
      "\<forall>c u f x. Replied c u f x \<in> set tr' \<longrightarrow> x = fetch u f"
      "confirmed_at P cfg (tr' @ tr) token' d a c0 c" "sha256 P token' = sha256 P ?t" "clk 0 < c + seconds 60"
      "tr' = [] \<or> token' = ?t \<and> fetch (check_url cfg) (token_field ?t) = Inr d"
    using provider_account_path [OF assms(1-3) v(2)] by blast
  obtain r where r: "identity_row (ga_subject a) ids' = Some r" "id_user_id r = p_user_id p" "id_disabled_at r = None"
      "id_organization_id r = gs_organization_id cfg"
    using resolve_identity_Inr(1) [OF resolve_github_Inr [OF v(4)]] by blast
  have "p_provider p = ''github'' \<and> p_organization_id p = Some (gs_organization_id cfg) \<and> \<not> p_local p
      \<and> set (p_scopes p) = {''read'', ''write'', ''projects''}"
    by (subst p, subst p, subst p, subst p) (simp add: EXTERNAL_SCOPES_def)
  moreover have "gh_active g' \<le> 8 \<and> length (gh_cache g') \<le> 1024 \<and> (\<forall>w. window w (sent_times (tr' @ tr)) \<le> 120)"
    using gh_reach_ok [OF tr(1)] by (simp add: gh_ok_def cache_ok_def)
  ultimately show ?thesis using raw tr v(3) r(2-4) identity_row_SomeD [OF r(1)]
    by (intro exI [of _ tr'] exI [of _ ?t] exI [of _ token'] exI [of _ d] exI [of _ a] exI [of _ c0] exI [of _ c] exI [of _ r]) simp
qed

subsection \<open>Witnesses\<close>

definition demo_github :: github_settings where
  "demo_github = \<lparr>gs_enabled = True, gs_allow_legacy_tokens = False, gs_client_id = ''app'', gs_client_secret = ''s'',
     gs_allowed_user_ids = [''@ann''], gs_organization_id = ''DevSecOps''\<rparr>"

definition demo_entra :: entra_settings where
  "demo_entra = \<lparr>es_enabled = False, es_allow_legacy_tokens = True, es_tenant_id = [], es_audience = [], es_client_id = [],
     es_scope = [], es_required_role = [], es_organization_id = [], es_clock_skew_seconds = 30\<rparr>"

definition demo_document :: dict where
  "demo_document = [(''user'', PDict [(''id'', PInt 7), (''type'', PStr ''User''), (''login'', PStr ''Ann'')]),
     (''app'', PDict [(''client_id'', PStr ''app'')]), (''scopes'', PList [PStr ''read:user''])]"

definition demo_fetch :: "string \<Rightarrow> dict \<Rightarrow> dict outcome" where
  "demo_fetch url d = (if url = ''https://api.github.com/applications/app/token'' then Inr demo_document else Inl github_invalid)"

definition fresh_verifier :: github_auth where
  "fresh_verifier = \<lparr>gh_cache = [], gh_attempts = [], gh_active = 0\<rparr>"

theorem account_bindings_final_witness:
  "\<exists>s s'. run (account_step demo_entra demo_github) no_accounts [1] s \<and> run (account_step demo_entra demo_github) s [2] s'
    \<and> (\<exists>r \<in> set (ac_github s). id_user_id r = ''ann'' \<and> (\<exists>r' \<in> set (ac_github s'). same_binding r r'))"
proof -
  let ?r = "new_identity ''7'' ''ann'' ''DevSecOps''"
  let ?s = "no_accounts\<lparr>ac_github := [?r]\<rparr>"
  have "administer_github demo_github 1 (Bind ''7'' ''ann'') (ac_github no_accounts)
      = Some ([?r], [(''user_id'', PStr ''ann''), (''bound'', PBool True)])"
    by code_simp
  then have "account_step demo_entra demo_github 1 no_accounts ?s" by (rule github_admin)
  then have a: "run (account_step demo_entra demo_github) no_accounts [1] ?s" by blast
  let ?s' = "?s\<lparr>ac_github := fst (resolve_github ''7'' ''DevSecOps'' (ac_github ?s))\<rparr>"
  have b: "run (account_step demo_entra demo_github) ?s [2] ?s'" using github_login by blast
  have "?r \<in> set (ac_github ?s)" by simp
  then have "\<exists>r' \<in> set (ac_github ?s'). same_binding ?r r'" using account_bindings_final [OF a b] by blast
  moreover have "?r \<in> set (ac_github ?s)" "id_user_id ?r = ''ann''" by (simp_all add: new_identity_def)
  ultimately show ?thesis using a b by blast
qed

theorem github_tokens_confirmed_witness:
  "\<exists>g' ids' p. github_verify auth_platform demo_github (\<lambda>_. 5) demo_fetch ''iskgh.abc'' (fresh_verifier, []) = ((g', ids'), Inr p)
    \<and> p_user_id p = ''github:7'' \<and> gh_active g' \<le> 8"
proof -
  let ?v = "github_verify auth_platform demo_github (\<lambda>_. 5) demo_fetch ''iskgh.abc'' (fresh_verifier, [])"
  have "case snd ?v of Inr p \<Rightarrow> p_user_id p = ''github:7'' | Inl e \<Rightarrow> False" by code_simp
  then obtain p where p: "snd ?v = Inr p" "p_user_id p = ''github:7''" by (auto split: sum.splits)
  obtain g' ids' where g: "fst ?v = (g', ids')" by fastforce
  have v: "?v = ((g', ids'), Inr p)" using p(1) g by (metis prod.collapse)
  have start: "gh_reach auth_platform demo_github fresh_verifier [] 0" unfolding fresh_verifier_def by (rule gh_start)
  have "gh_active g' \<le> 8" using github_tokens_confirmed [OF start _ monotone_clock_const v] by auto
  then show ?thesis using v p(2) by blast
qed

end
