(* ===== verification/Login_Writes.thy ===== *)
theory Login_Writes
  imports Application Identity_Props
begin

text \<open>
  What a request leaves in the tables of accounts: the check of a bearer token and the
  exchange of a code enter at most one new account, on the word of its provider, and never
  touch an account that is there.
\<close>

subsection \<open>Accounts entered by a login\<close>

lemma resolve_identity_entry:
  assumes "resolve_identity account k actor org t = (t', r)" and "t' \<noteq> t"
  shows "identity_row k t = None \<and> \<not> exists_row (\<lambda>r. id_user_id r = actor) t \<and> t' = t @ [new_identity k actor org]"
  using assms by (auto simp: resolve_identity_def ensure_identity_def insert_row_def split: if_splits)

lemma resolve_github_entry:
  assumes "resolve_github i org t = (t', r)" and "t' \<noteq> t"
  shows "identity_row i t = None \<and> t' = t @ [new_identity i (''github:'' @ i) org]"
proof -
  have "resolve_identity ''GitHub'' i (''github:'' @ i) org t = (t', r)"
    using assms by (simp add: resolve_github_def github_subject_def split: if_splits)
  then show ?thesis using assms(2) by (blast dest: resolve_identity_entry)
qed

text \<open>GitHub has confirmed the account of a token: now, or in an answer the verifier still keeps.\<close>

definition vouches :: "platform \<Rightarrow> github_settings \<Rightarrow> 'key surroundings \<Rightarrow> github_auth \<Rightarrow> string \<Rightarrow> github_account \<Rightarrow> bool" where
  "vouches P cfg W g token a \<longleftrightarrow>
     (\<exists>deadline n. (sha256 P token, deadline, a) \<in> set (gh_cache g) \<and> pv_clock W n < deadline)
     \<or> (\<exists>d. pv_fetch W (check_url cfg) (token_field token) = Inr d \<and> confirms cfg d a)"

definition enters_github ::
    "platform \<Rightarrow> github_settings \<Rightarrow> 'key surroundings \<Rightarrow> string \<Rightarrow> 'key login_services \<Rightarrow> 'key login_services \<Rightarrow> bool" where
  \<comment> \<open>the account of the token is new and on the allow list\<close>
  "enters_github P cfg W token v v' \<longleftrightarrow>
     (\<exists>a. gs_enabled cfg \<and> vouches P cfg W (ls_github v) token a \<and> permits cfg (ga_subject a) (ga_username a)
        \<and> identity_row (ga_subject a) (ls_github_users v) = None
        \<and> ls_github_users v' = ls_github_users v
             @ [new_identity (ga_subject a) (''github:'' @ ga_subject a) (gs_organization_id cfg)])"

lemma provider_account_vouched:
  assumes "provider_account P cfg clk fetch token g = (g', Inr a)"
  shows "(\<exists>deadline. (sha256 P token, deadline, a) \<in> set (gh_cache g) \<and> clk 0 < deadline)
    \<or> (\<exists>d. fetch (check_url cfg) (token_field token) = Inr d \<and> confirms cfg d a)"
proof (cases "cached_account (clk 0) (sha256 P token) g")
  case (Some x)
  then show ?thesis using assms
    by (auto simp: provider_account_def cached_account_def split: option.splits prod.splits if_splits dest: map_of_SomeD)
next
  case None
  obtain g1 answer where rm: "remote (clk 1) (fetch (check_url cfg) (token_field token)) g = (g1, answer)" by fastforce
  obtain d where d: "answer = Inr d" "token_document cfg d = Inr a"
    using assms None rm unfolding check_url_def token_field_def
    by (auto simp: provider_account_def Let_def and_then_def split: sum.splits)
  have "fetch (check_url cfg) (token_field token) = Inr d"
    using rm d(1) by (auto simp: remote_def split: prod.splits sum.splits)
  then show ?thesis using token_document_confirms [OF d(2)] by blast
qed

lemma github_identity_entry:
  assumes "github_identity P cfg clk fetch tk (g, users) = ((g', users'), r)" and "users' \<noteq> users"
  shows "\<exists>token a. tk = PStr token \<and> gs_enabled cfg
    \<and> ((\<exists>deadline. (sha256 P token, deadline, a) \<in> set (gh_cache g) \<and> clk 0 < deadline)
        \<or> (\<exists>d. fetch (check_url cfg) (token_field token) = Inr d \<and> confirms cfg d a))
    \<and> permits cfg (ga_subject a) (ga_username a) \<and> identity_row (ga_subject a) users = None
    \<and> users' = users @ [new_identity (ga_subject a) (''github:'' @ ga_subject a) (gs_organization_id cfg)]"
proof -
  have on: "gs_enabled cfg"
    by (rule ccontr) (use assms in \<open>simp add: github_identity_def github_config_def checked_def\<close>)
  have tk: "is_str tk"
    by (rule ccontr) (use assms in \<open>auto simp: github_identity_def split: sum.splits\<close>)
  then obtain token where token: "tk = PStr token" using is_str_iff by metis
  obtain g1 y where acc: "provider_account P cfg clk fetch token g = (g1, y)" by fastforce
  have same: "is_str (PStr token) \<and> str_of (PStr token) = token" by (simp add: is_str_def)
  obtain a z where a: "y = Inr a" "permits cfg (ga_subject a) (ga_username a)"
      "resolve_github (ga_subject a) (gs_organization_id cfg) users = (users', z)"
    using assms token acc same by (auto simp: github_identity_def split: sum.splits if_splits prod.splits)
  note resolve_github_entry [OF a(3) assms(2)]
  then show ?thesis using token on a(2) provider_account_vouched [of P cfg clk fetch token g g1 a] acc a(1) by blast
qed

lemma verify_github_entry:
  assumes "verify_github P cfg W raw v = (v', r)"
  shows "ls_entra v' = ls_entra v \<and> ls_entra_users v' = ls_entra_users v"
    and "ls_github_users v' \<noteq> ls_github_users v \<Longrightarrow> \<exists>token. raw = GITHUB_PREFIX @ token \<and> enters_github P cfg W token v v'"
proof -
  show "ls_entra v' = ls_entra v \<and> ls_entra_users v' = ls_entra_users v"
    using assms by (auto simp: verify_github_def split: prod.splits)
  assume new: "ls_github_users v' \<noteq> ls_github_users v"
  let ?t = "drop (length GITHUB_PREFIX) raw"
  have pre: "starts_with GITHUB_PREFIX raw"
    by (rule ccontr) (use assms new in \<open>auto simp: verify_github_def github_verify_def\<close>)
  obtain g users x where i: "github_identity P cfg (pv_clock W) (pv_fetch W) (PStr ?t) (ls_github v, ls_github_users v) = ((g, users), x)"
    by (metis prod.exhaust)
  have v': "ls_github_users v' = users" using assms pre i by (auto simp: verify_github_def github_verify_def)
  have raw: "raw = GITHUB_PREFIX @ ?t" using pre by (metis append_take_drop_id starts_with_def)
  have "enters_github P cfg W ?t v v'"
    using github_identity_entry [OF i] new v' unfolding enters_github_def vouches_def by fastforce
  then show "\<exists>token. raw = GITHUB_PREFIX @ token \<and> enters_github P cfg W token v v'" using raw by blast
qed

subsection \<open>The code exchange\<close>

text \<open>The token GitHub gives for the code or the refresh token of a request.\<close>

definition exchanged :: "github_settings \<Rightarrow> 'key surroundings \<Rightarrow> http_request \<Rightarrow> string \<Rightarrow> bool" where
  "exchanged cfg W r token \<longleftrightarrow>
     (\<exists>refresh payload params d. (hr_method r, hr_path r) = (''POST'', ''/auth/github/'' @ (if refresh then ''refresh'' else ''exchange''))
        \<and> \<not> given_header r ''origin'' \<and> hr_body r = Parsed payload \<and> exchange_params refresh payload = Inr params
        \<and> pv_fetch W ''https://github.com/login/oauth/access_token''
             (params @ [(''client_id'', PStr (gs_client_id cfg)), (''client_secret'', PStr (gs_client_secret cfg))]) = Inr d
        \<and> bearer_type d \<and> py_get d ''access_token'' = PStr token)"

lemma remote_cache: "remote now answer g = (g', r) \<Longrightarrow> gh_cache g' = gh_cache g \<and> (\<forall>d. r = Inr d \<longrightarrow> answer = Inr d)"
  by (auto simp: remote_def begin_remote_def finish_remote_def Let_def split: if_splits)

lemma github_exchange_entry:
  assumes "github_exchange P cfg (pv_clock W) (pv_fetch W) payload refresh (g, users) = ((g', users'), r)" and "users' \<noteq> users"
  shows "\<exists>params d token a. exchange_params refresh payload = Inr params
    \<and> pv_fetch W ''https://github.com/login/oauth/access_token''
         (params @ [(''client_id'', PStr (gs_client_id cfg)), (''client_secret'', PStr (gs_client_secret cfg))]) = Inr d
    \<and> bearer_type d \<and> py_get d ''access_token'' = PStr token \<and> gs_enabled cfg
    \<and> vouches P cfg W g token a \<and> permits cfg (ga_subject a) (ga_username a) \<and> identity_row (ga_subject a) users = None
    \<and> users' = users @ [new_identity (ga_subject a) (''github:'' @ ga_subject a) (gs_organization_id cfg)]"
proof -
  obtain params where params: "exchange_params refresh payload = Inr params" "gs_enabled cfg"
    using assms by (auto simp: github_exchange_def github_config_def checked_def and_then_def split: sum.splits if_splits)
  let ?fields = "params @ [(''client_id'', PStr (gs_client_id cfg)), (''client_secret'', PStr (gs_client_secret cfg))]"
  obtain g1 answer where rm: "remote (pv_clock W 0) (pv_fetch W ''https://github.com/login/oauth/access_token'' ?fields) g = (g1, answer)"
    by fastforce
  have start: "and_then (github_config cfg) (\<lambda>_. exchange_params refresh payload) = Inr params"
    using params by (simp add: github_config_def checked_def and_then_def)
  obtain d where d: "answer = Inr d" "bearer_type d"
    using assms start rm by (auto simp: github_exchange_def Let_def split: sum.splits if_splits)
  obtain g2 users2 y where i: "github_identity P cfg (\<lambda>n. pv_clock W (n + 1)) (pv_fetch W) (py_get d ''access_token'') (g1, users)
      = ((g2, users2), y)"
    by (metis prod.exhaust)
  have u: "users2 = users'" using assms start rm d i by (auto simp: github_exchange_def Let_def)
  obtain token a where e: "py_get d ''access_token'' = PStr token" "gs_enabled cfg"
      "(\<exists>deadline. (sha256 P token, deadline, a) \<in> set (gh_cache g1) \<and> pv_clock W (0 + 1) < deadline)
        \<or> (\<exists>d. pv_fetch W (check_url cfg) (token_field token) = Inr d \<and> confirms cfg d a)"
      "permits cfg (ga_subject a) (ga_username a)" "identity_row (ga_subject a) users = None"
      "users' = users @ [new_identity (ga_subject a) (''github:'' @ ga_subject a) (gs_organization_id cfg)]"
    using github_identity_entry [OF i] assms(2) u by auto
  have "vouches P cfg W g token a" using e(3) remote_cache [OF rm] unfolding vouches_def by auto
  then show ?thesis using params(1) remote_cache [OF rm] d e(1,2,4-6) by blast
qed

lemma exchange_body_Inr: "exchange_body r = Inr v \<Longrightarrow> hr_body r = Parsed v"
  by (auto simp: exchange_body_def split: if_splits parsed.splits)

lemma answer_login_entry:
  assumes "answer_login P A W r v = (v', x)"
  shows "ls_entra v' = ls_entra v \<and> ls_entra_users v' = ls_entra_users v"
    and "ls_github_users v' \<noteq> ls_github_users v
      \<Longrightarrow> \<exists>token. exchanged (ap_github A) W r token \<and> enters_github P (ap_github A) W token v v'"
proof -
  show "ls_entra v' = ls_entra v \<and> ls_entra_users v' = ls_entra_users v"
    using assms by (auto simp: answer_login_def split: if_splits prod.splits)
  assume new: "ls_github_users v' \<noteq> ls_github_users v"
  let ?cfg = "ap_github A" and ?op = "drop (length ''/auth/github/'') (hr_path r)"
  have path: "hr_path r \<noteq> ''/auth/config''" using assms new by (auto simp: answer_login_def)
  obtain g users y where g: "github_route P ?cfg (pv_clock W) (pv_fetch W) r (ls_github v, ls_github_users v) = ((g, users), y)"
    by (metis prod.exhaust)
  have v': "ls_github_users v' = users" using assms path g by (auto simp: answer_login_def)
  have pub: "(hr_method r, hr_path r) \<in> set PUBLIC_ROUTES" "\<not> given_header r ''origin''" "?op \<noteq> ''config''"
    using g new v' by (auto simp: github_route_def Let_def split: if_splits)
  obtain payload where payload: "exchange_body r = Inr payload"
    using g new v' pub by (auto simp: github_route_def Let_def split: if_splits sum.splits)
  obtain st' z where ex: "github_exchange P ?cfg (pv_clock W) (pv_fetch W) payload (?op = ''refresh'') (ls_github v, ls_github_users v) = (st', z)"
    by fastforce
  have "st' = (g, users)" using g pub payload ex by (simp add: github_route_def Let_def)
  then obtain params d token a where e: "exchange_params (?op = ''refresh'') payload = Inr params"
      "pv_fetch W ''https://github.com/login/oauth/access_token''
         (params @ [(''client_id'', PStr (gs_client_id ?cfg)), (''client_secret'', PStr (gs_client_secret ?cfg))]) = Inr d"
      "bearer_type d" "py_get d ''access_token'' = PStr token" "gs_enabled ?cfg"
      "vouches P ?cfg W (ls_github v) token a" "permits ?cfg (ga_subject a) (ga_username a)"
      "identity_row (ga_subject a) (ls_github_users v) = None"
      "users = ls_github_users v @ [new_identity (ga_subject a) (''github:'' @ ga_subject a) (gs_organization_id ?cfg)]"
    using github_exchange_entry [of P ?cfg W payload "?op = ''refresh''" "ls_github v" "ls_github_users v" g users z] ex new v' by blast
  have "(hr_method r, hr_path r) = (''POST'', ''/auth/github/'' @ (if ?op = ''refresh'' then ''refresh'' else ''exchange''))"
    using pub(1,3) path by (auto simp: PUBLIC_ROUTES_def)
  then have "exchanged ?cfg W r token"
    unfolding exchanged_def using pub(2) exchange_body_Inr [OF payload] e(1-4) by blast
  moreover have "enters_github P ?cfg W token v v'" unfolding enters_github_def using e(5-9) v' by blast
  ultimately show "\<exists>token. exchanged ?cfg W r token \<and> enters_github P ?cfg W token v v'" by blast
qed

subsection \<open>Company accounts\<close>

text \<open>What verified claims must say of an account: tenant, client, permission and role.\<close>

definition company_claims :: "entra_settings \<Rightarrow> dict \<Rightarrow> string \<Rightarrow> bool" where
  "company_claims cfg c oid \<longleftrightarrow>
     py_get c ''ver'' = PStr ''2.0'' \<and> py_get c ''tid'' = PStr (es_tenant_id cfg) \<and> py_get c ''azp'' = PStr (es_client_id cfg)
     \<and> (\<exists>i scopes roles. py_get c ''oid'' = PStr i \<and> uuid_text i = Some oid
          \<and> py_get c ''scp'' = PStr scopes \<and> es_scope cfg \<in> set (py_words scopes)
          \<and> py_get c ''roles'' = PList roles \<and> PStr (es_required_role cfg) \<in> set roles)"

lemma claims_subject_Inr:
  assumes "claims_subject cfg c = Inr oid"
  shows "company_claims cfg c oid"
proof -
  have start: "py_get c ''ver'' = PStr ''2.0''" "py_get c ''tid'' = PStr (es_tenant_id cfg)" "py_get c ''azp'' = PStr (es_client_id cfg)"
    using assms by (auto simp: claims_subject_def split: if_splits)
  obtain i where i: "py_get c ''oid'' = PStr i" using assms start by (auto simp: claims_subject_def split: pyval.splits)
  obtain o' where o': "uuid_text i = Some o'" using assms start i by (auto simp: claims_subject_def split: option.splits)
  have rest: "o' = oid" "is_str (py_get c ''scp'')" "es_scope cfg \<in> set (py_words (arg_str c ''scp''))"
      "\<not> (case get_or c ''roles'' (PList []) of PList rs \<Rightarrow> PStr (es_required_role cfg) \<notin> set rs | _ \<Rightarrow> True)"
    using assms start i o' by (auto simp: claims_subject_def checked_Inr_iff)
  obtain scopes where scopes: "py_get c ''scp'' = PStr scopes" using rest(2) is_str_iff by metis
  obtain roles where roles: "get_or c ''roles'' (PList []) = PList roles" "PStr (es_required_role cfg) \<in> set roles"
    using rest(4) by (auto split: pyval.splits)
  then have "py_get c ''roles'' = PList roles" by (auto simp: get_or_def py_get_def split: option.splits)
  then show ?thesis unfolding company_claims_def using start i o' rest(1,3) scopes roles(2) by (simp add: arg_str_def)
qed

definition enters_entra ::
    "'key jwt_library \<Rightarrow> entra_settings \<Rightarrow> string \<Rightarrow> 'key login_services \<Rightarrow> 'key login_services \<Rightarrow> bool" where
  \<comment> \<open>the account of a token signed with a current key is new\<close>
  "enters_entra J cfg raw v v' \<longleftrightarrow>
     (\<exists>h kid key claims oid. es_enabled cfg \<and> jwt_header J raw = Some h \<and> py_get h ''alg'' = PStr ''RS256''
        \<and> py_get h ''kid'' = PStr kid \<and> map_of (ek_keys (ls_entra v')) kid = Some key
        \<and> jwt_decode J cfg key raw = Some claims \<and> company_claims cfg claims oid
        \<and> identity_row (es_tenant_id cfg, oid) (ls_entra_users v) = None
        \<and> ls_entra_users v' = ls_entra_users v
             @ [new_identity (es_tenant_id cfg, oid) (''entra:'' @ es_tenant_id cfg @ '':'' @ oid) (es_organization_id cfg)])"

lemma token_header_Inr:
  "token_header J raw = Inr kid \<Longrightarrow> \<exists>h. jwt_header J raw = Some h \<and> py_get h ''alg'' = PStr ''RS256'' \<and> py_get h ''kid'' = PStr kid"
  by (auto simp: token_header_def checked_Inr_iff split: option.splits pyval.splits)

lemma entra_key_Inr: "entra_key J cfg clk kid ks = (ks', Inr key) \<Longrightarrow> map_of (ek_keys ks') kid = Some key"
  by (auto simp: entra_key_def current_key_def Let_def split: option.splits if_splits)

lemma resolve_entra_entry:
  assumes "resolve_entra tenant oid org t = (t', r)" and "t' \<noteq> t"
  shows "identity_row (tenant, oid) t = None \<and> t' = t @ [new_identity (tenant, oid) (''entra:'' @ tenant @ '':'' @ oid) org]"
  using assms unfolding resolve_entra_def by (blast dest: resolve_identity_entry)

lemma verify_entra_entry:
  assumes "verify_entra cfg W raw v = (v', r)"
  shows "ls_github v' = ls_github v \<and> ls_github_users v' = ls_github_users v"
    and "ls_entra_users v' \<noteq> ls_entra_users v \<Longrightarrow> enters_entra (pv_jwt W) cfg raw v v'"
proof -
  show "ls_github v' = ls_github v \<and> ls_github_users v' = ls_github_users v"
    using assms by (auto simp: verify_entra_def split: prod.splits)
  assume new: "ls_entra_users v' \<noteq> ls_entra_users v"
  let ?J = "pv_jwt W"
  obtain ks users x where e: "entra_verify ?J cfg (pv_clock W) raw (ls_entra v, ls_entra_users v) = ((ks, users), x)"
    by (metis prod.exhaust)
  have v': "ls_entra v' = ks" "ls_entra_users v' = users" using assms e by (auto simp: verify_entra_def)
  have on: "es_enabled cfg" "\<not> (\<not> es_enabled cfg \<or> raw = [] \<or> 16384 < length raw)"
    using e new v'(2) by (auto simp: entra_verify_def split: if_splits)
  obtain kid where kid: "token_header ?J raw = Inr kid"
    using e new v'(2) on by (auto simp: entra_verify_def split: sum.splits)
  obtain ks1 y where key: "entra_key ?J cfg (pv_clock W) kid (ls_entra v) = (ks1, y)" by fastforce
  obtain k where k: "y = Inr k" using e new v'(2) on kid key by (auto simp: entra_verify_def split: sum.splits)
  obtain claims oid where c: "jwt_decode ?J cfg k raw = Some claims" "claims_subject cfg claims = Inr oid"
    using e new v'(2) on kid key k by (auto simp: entra_verify_def split: sum.splits option.splits)
  obtain t z where t: "resolve_entra (es_tenant_id cfg) oid (es_organization_id cfg) (ls_entra_users v) = (t, z)" by fastforce
  have u: "ks1 = ks" "t = users" using e on kid key k c t by (auto simp: entra_verify_def)
  note resolve_entra_entry [OF t] and token_header_Inr [OF kid] and entra_key_Inr [OF key [unfolded k]] and claims_subject_Inr [OF c(2)]
  then show "enters_entra ?J cfg raw v v'" unfolding enters_entra_def using on(1) c(1) new v' u by blast
qed

subsection \<open>Requests\<close>

text \<open>
  What a request leaves in the tables of accounts: nothing, or the account of the bearer
  token or of the token a code was exchanged for.
\<close>

definition account_entries ::
    "platform \<Rightarrow> app_settings \<Rightarrow> 'key surroundings \<Rightarrow> http_request \<Rightarrow> string option
      \<Rightarrow> 'key login_services \<Rightarrow> 'key login_services \<Rightarrow> bool" where
  "account_entries P A W r bearer v v' \<longleftrightarrow>
     ls_entra_users v' = ls_entra_users v \<and> ls_github_users v' = ls_github_users v
     \<or> ls_entra_users v' = ls_entra_users v
       \<and> (\<exists>token. (ap_auth_enabled A \<and> bearer = Some (GITHUB_PREFIX @ token) \<or> exchanged (ap_github A) W r token)
            \<and> enters_github P (ap_github A) W token v v')
     \<or> ls_github_users v' = ls_github_users v
       \<and> (\<exists>raw. ap_auth_enabled A \<and> bearer = Some raw \<and> enters_entra (pv_jwt W) (ap_entra A) raw v v')"

lemma authenticate_entries:
  assumes "authenticate (application P A W tokens S) r (v, st) = (v', x)" and "ap_auth_enabled A"
  shows "account_entries P A W r (raw_token (application P A W tokens S) r) v v'"
proof -
  let ?C = "application P A W tokens S"
  consider (github) t where "raw_token ?C r = Some t" "verify_github P (ap_github A) W t v = (v', x)"
    | (entra) t where "raw_token ?C r = Some t" "verify_entra (ap_entra A) W t v = (v', x)" | (none) "v' = v"
    using assms(1) by (cases "raw_token ?C r") (auto simp: authenticate_def Let_def split: if_splits)
  then show ?thesis
  proof cases
    case github
    then show ?thesis using verify_github_entry [OF github(2)] assms(2) unfolding account_entries_def by blast
  next
    case entra
    then show ?thesis using verify_entra_entry [OF entra(2)] assms(2) unfolding account_entries_def by blast
  next
    case none
    then show ?thesis by (simp add: account_entries_def)
  qed
qed

lemma answer_login_entries:
  assumes "answer_login P A W r v = (v', x)"
  shows "account_entries P A W r bearer v v'"
  using answer_login_entry [OF assms] unfolding account_entries_def by blast

text \<open>A caller known by a provider has an enabled account of the configured organization.\<close>

definition has_account :: "app_settings \<Rightarrow> 'key login_services \<Rightarrow> principal \<Rightarrow> bool" where
  "has_account A v p \<longleftrightarrow>
     (p_provider p = ''github'' \<longrightarrow> (\<exists>u \<in> set (ls_github_users v). id_user_id u = p_user_id p \<and> id_disabled_at u = None
        \<and> id_organization_id u = gs_organization_id (ap_github A)))
     \<and> (p_provider p = ''entra'' \<longrightarrow> (\<exists>u \<in> set (ls_entra_users v). id_user_id u = p_user_id p \<and> id_disabled_at u = None
        \<and> id_organization_id u = es_organization_id (ap_entra A) \<and> fst (id_subject u) = es_tenant_id (ap_entra A)))"

lemma verify_github_account:
  assumes "verify_github P (ap_github A) W raw v = (v', Inr p)"
  shows "has_account A v' p"
proof -
  obtain g users where g: "github_verify P (ap_github A) (pv_clock W) (pv_fetch W) raw (ls_github v, ls_github_users v) = ((g, users), Inr p)"
      "ls_github_users v' = users"
    using assms by (auto simp: verify_github_def split: prod.splits)
  note verified = github_verify_Inr [OF g(1)]
  obtain a :: github_account where a: "resolve_github (ga_subject a) (gs_organization_id (ap_github A)) (ls_github_users v) = (users, Inr (p_user_id p))"
    using verified by blast
  have "p_provider p = ''github''" using verified by (elim exE conjE) (erule ssubst, simp)
  obtain u where u: "identity_row (ga_subject a) users = Some u" "id_user_id u = p_user_id p" "id_disabled_at u = None"
      "id_organization_id u = gs_organization_id (ap_github A)"
    using resolve_identity_Inr(1) [OF resolve_github_Inr [OF a]] by blast
  then show ?thesis unfolding has_account_def using identity_row_SomeD [OF u(1)] u(2-4) g(2) \<open>p_provider p = ''github''\<close> by auto
qed

lemma verify_entra_account:
  assumes "verify_entra (ap_entra A) W raw v = (v', Inr p)"
  shows "has_account A v' p"
proof -
  obtain oid where oid: "resolve_entra (es_tenant_id (ap_entra A)) oid (es_organization_id (ap_entra A)) (ls_entra_users v)
        = (ls_entra_users v', Inr (p_user_id p))" "p_provider p = ''entra''"
    using assms by (auto simp: verify_entra_def entra_verify_def and_then_def split: if_splits sum.splits prod.splits)
  obtain u where u: "identity_row (es_tenant_id (ap_entra A), oid) (ls_entra_users v') = Some u" "id_user_id u = p_user_id p"
      "id_disabled_at u = None" "id_organization_id u = es_organization_id (ap_entra A)"
    using resolve_identity_Inr(1) [OF oid(1) [unfolded resolve_entra_def]] by blast
  then show ?thesis unfolding has_account_def using identity_row_SomeD [OF u(1)] oid(2) by auto
qed

lemma verify_token_provider: "verify_token P now raw t = Inr p \<Longrightarrow> p_provider p = ''token''"
  by (auto simp: verify_token_def split: option.splits if_splits)

lemma authenticate_account:
  assumes "authenticate (application P A W tokens S) r (v, st) = (v', Inr p)"
  shows "has_account A v' p"
proof -
  let ?C = "application P A W tokens S"
  consider (github) t where "verify_github P (ap_github A) W t v = (v', Inr p)"
    | (entra) t where "verify_entra (ap_entra A) W t v = (v', Inr p)" | (token) "hs_token ?C (raw_token ?C r) st = Inr p"
    using assms by (cases "raw_token ?C r") (auto simp: authenticate_def Let_def split: if_splits)
  then show ?thesis
  proof cases
    case token
    then have "p_provider p = ''token''" using verify_token_provider by (auto simp: application_def)
    then show ?thesis by (simp add: has_account_def)
  qed (use verify_github_account verify_entra_account in blast)+
qed

text \<open>A login route that needs an identity changes nothing.\<close>

lemma answer_login_guarded:
  assumes "(hr_method r, hr_path r) \<notin> set PUBLIC_ROUTES" and "login_route r"
  shows "fst (answer_login P A W r v) = v"
  using assms by (auto simp: answer_login_def github_route_def login_route_def PUBLIC_ROUTES_def)

end
