(* ===== verification/Server_Props.thy ===== *)
theory Server_Props
  imports Dispatcher Projects_Props Login_Writes
begin

text \<open>
  What the request surface guarantees: a call of either transport changes the state only
  through the dispatcher, after every check, and a request leaves in the tables of accounts
  at most the account it is identified by; and the stdio server answers its requests one by
  one, in order.
\<close>

subsection \<open>Calls of a guarded dispatcher\<close>

text \<open>
  The interface of the transports: whatever a dispatcher changes is allowed by \<open>grants\<close>.
\<close>

locale guarded_dispatch =
  fixes S :: "'s server"
    and grants :: "string \<Rightarrow> dict \<Rightarrow> principal \<Rightarrow> 's \<Rightarrow> 's \<Rightarrow> bool"
  assumes guarded: "fst (sv_dispatch S tool a p st) \<noteq> st \<Longrightarrow> grants tool a p st (fst (sv_dispatch S tool a p st))"

text \<open>A JSON-RPC body that asks for a tool of the server.\<close>

definition asks_for :: "dict \<Rightarrow> string \<Rightarrow> dict \<Rightarrow> bool" where
  "asks_for body tool a \<longleftrightarrow> py_get body ''jsonrpc'' = PStr ''2.0'' \<and> py_get body ''method'' = PStr ''tools/call''
     \<and> (\<exists>params. py_get body ''params'' = PDict params \<and> py_get params ''name'' = PStr tool
          \<and> get_or params ''arguments'' (PDict []) = PDict a)"

lemma is_dict_iff: "is_dict v \<longleftrightarrow> v = PDict (dict_of v)"
  by (cases v) (simp_all add: is_dict_def dict_of_def)

lemma call_tool_change:
  assumes "fst (call_tool S params p st) \<noteq> st"
  obtains tool a where "py_get params ''name'' = PStr tool" "tool \<in> set (tool_names S)"
    "get_or params ''arguments'' (PDict []) = PDict a"
    "fst (call_tool S params p st) = fst (sv_dispatch S tool a p st)"
proof -
  let ?args = "get_or params ''arguments'' (PDict [])"
  have c: "hashable (py_get params ''name'')" "py_get params ''name'' \<in> PStr ` set (tool_names S)" "is_dict ?args"
    using assms by (auto simp: call_tool_def Let_def split: if_splits)
  then obtain tool where t: "py_get params ''name'' = PStr tool" "tool \<in> set (tool_names S)" by blast
  have "fst (call_tool S params p st) = fst (sv_dispatch S tool (dict_of ?args) p st)"
    using c t by (auto simp: call_tool_def Let_def split: prod.splits call_end.splits)
  then show ?thesis using that t c(3) is_dict_iff by blast
qed

lemma route_change:
  assumes "fst (route S method params p st) \<noteq> st"
  shows "method = ''tools/call'' \<and> fst (route S method params p st) = fst (call_tool S params p st)"
  using assms by (auto simp: route_def split: sum.splits if_splits)

lemma handle_change:
  assumes "fst (handle S request p st) \<noteq> st"
  obtains body tool a where "request = PDict body" "asks_for body tool a" "tool \<in> set (tool_names S)"
    "fst (handle S request p st) = fst (sv_dispatch S tool a p st)"
proof -
  obtain body where b: "request = PDict body" using assms by (auto simp: handle_def split: pyval.splits)
  let ?params = "get_or body ''params'' (PDict [])"
  let ?m = "py_get body ''method''"
  have c: "py_get body ''jsonrpc'' = PStr ''2.0''" "is_str ?m" "is_dict ?params"
      "fst (handle S request p st) = fst (route S (str_of ?m) (dict_of ?params) p st)"
    using assms b by (auto simp: handle_def Let_def split: if_splits prod.splits sum.splits)
  then have r: "str_of ?m = ''tools/call''" "fst (handle S request p st) = fst (call_tool S (dict_of ?params) p st)"
    using route_change [of S "str_of ?m" "dict_of ?params" p st] assms by metis+
  have m: "?m = PStr ''tools/call''" using c(2) r(1) is_str_iff by metis
  obtain tool a where t: "py_get (dict_of ?params) ''name'' = PStr tool" "tool \<in> set (tool_names S)"
      "get_or (dict_of ?params) ''arguments'' (PDict []) = PDict a"
      "fst (call_tool S (dict_of ?params) p st) = fst (sv_dispatch S tool a p st)"
    using r(2) assms by (metis call_tool_change)
  have "py_get body ''params'' = PDict (dict_of ?params)"
  proof (cases "map_of body ''params''")
    case None
    then have "dict_of ?params = []" by (simp add: get_or_def dict_of_def)
    then show ?thesis using t(1) by (simp add: py_get_def)
  next
    case (Some v)
    then show ?thesis using c(3) is_dict_iff by (simp add: get_or_def py_get_def)
  qed
  then have "asks_for body tool a" unfolding asks_for_def using c(1) m t(1,3) by blast
  then show ?thesis using that b t(2,4) r(2) by simp
qed

subsection \<open>HTTP requests\<close>

definition identified :: "('v, 's) http_server \<Rightarrow> http_request \<Rightarrow> 'v \<times> 's \<Rightarrow> principal \<Rightarrow> 'v \<Rightarrow> bool" where
  \<comment> \<open>the principal of the request, and what its identification leaves of the identity services\<close>
  "identified C r st p v' \<longleftrightarrow>
     (if hs_auth_enabled C then authenticate C r st = (v', Inr p) else p = local_stdio \<and> v' = fst st)"

text \<open>A request for one tool, on the path of the tool or as a call whose headers repeat the body.\<close>

definition requested :: "http_request \<Rightarrow> string \<Rightarrow> dict \<Rightarrow> bool" where
  "requested r tool a \<longleftrightarrow> hr_method r = ''POST''
     \<and> (hr_path r = ''/tools/'' @ tool \<and> hr_body r = Parsed (PDict a)
        \<or> hr_path r = ''/mcp'' \<and> header r ''mcp-protocol-version'' = Some PROTOCOL_VERSION
          \<and> header r ''mcp-method'' = Some ''tools/call'' \<and> header r ''mcp-name'' = Some tool
          \<and> (\<exists>body. hr_body r = Parsed (PDict body) \<and> asks_for body tool a))"

lemma numeral_7_eq_7: "0 + Suc 0 + Suc 0 + Suc 0 + Suc 0 + Suc 0 + Suc 0 + Suc 0 = (7 :: nat)"
  by simp

lemma starts_withD: "starts_with p s \<Longrightarrow> s = p @ drop (length p) s"
  unfolding starts_with_def by (metis append_take_drop_id)

lemma json_body_Inr: "json_body C r = Inr v \<Longrightarrow> hr_body r = Parsed v \<and> hr_size r \<le> hs_max_bytes C"
  by (auto simp: json_body_def split: if_splits parsed.splits)

lemma rest_call_change:
  assumes "fst (rest_call C name r p st) \<noteq> st"
  shows "\<exists>a. hr_body r = Parsed (PDict a) \<and> hr_size r \<le> hs_max_bytes C \<and> name \<in> set (tool_names (hs_mcp C))
    \<and> fst (rest_call C name r p st) = fst (sv_dispatch (hs_mcp C) name a p st)"
proof (cases "json_body C r")
  case (Inl e)
  then show ?thesis using assms by (simp add: rest_call_def split: if_splits)
next
  case (Inr v)
  have known: "name \<in> set (tool_names (hs_mcp C))"
    by (rule ccontr) (use assms in \<open>simp add: rest_call_def\<close>)
  show ?thesis
  proof (cases v)
    case (PDict a)
    have "fst (rest_call C name r p st) = fst (sv_dispatch (hs_mcp C) name a p st)"
      using Inr PDict known by (simp add: rest_call_def split: prod.splits call_end.splits)
    then show ?thesis using json_body_Inr [OF Inr] PDict known by simp
  qed (use assms Inr in \<open>simp_all add: rest_call_def split: if_splits\<close>)
qed

lemma mcp_endpoint_change:
  assumes "fst (mcp_endpoint C r p st) \<noteq> st"
  shows "\<exists>body tool a. hr_body r = Parsed (PDict body) \<and> hr_size r \<le> hs_max_bytes C \<and> asks_for body tool a
    \<and> tool \<in> set (tool_names (hs_mcp C)) \<and> header r ''mcp-protocol-version'' = Some PROTOCOL_VERSION
    \<and> header r ''mcp-method'' = Some ''tools/call'' \<and> header r ''mcp-name'' = Some tool
    \<and> fst (mcp_endpoint C r p st) = fst (sv_dispatch (hs_mcp C) tool a p st)"
proof -
  have version: "header r ''mcp-protocol-version'' = Some PROTOCOL_VERSION"
    using assms by (simp add: mcp_endpoint_def split: option.splits if_splits)
  obtain body where body: "json_body C r = Inr (PDict body)"
    using assms version by (simp add: mcp_endpoint_def split: sum.splits pyval.splits)
  have checks: "first_error (header_mismatch r PROTOCOL_VERSION body) = None"
    using assms version body by (simp add: mcp_endpoint_def split: option.splits)
  have h: "fst (mcp_endpoint C r p st) = fst (handle (hs_mcp C) (PDict body) p st)"
    using version body checks by (simp add: mcp_endpoint_def split: prod.splits)
  then have change: "fst (handle (hs_mcp C) (PDict body) p st) \<noteq> st" using assms by simp
  obtain body' tool a where t: "PDict body = PDict body'" "asks_for body' tool a" "tool \<in> set (tool_names (hs_mcp C))"
      "fst (handle (hs_mcp C) (PDict body) p st) = fst (sv_dispatch (hs_mcp C) tool a p st)"
    using change by (rule handle_change)
  obtain params where asked: "py_get body ''method'' = PStr ''tools/call''" "py_get body ''params'' = PDict params"
      "py_get params ''name'' = PStr tool"
    using t(1,2) by (auto simp: asks_for_def)
  have "opt_str (header r ''mcp-method'') = PStr ''tools/call''" "opt_str (header r ''mcp-name'') = PStr tool"
    using checks asked by (simp_all add: header_mismatch_def Let_def dict_of_def split: if_splits)
  then have "header r ''mcp-method'' = Some ''tools/call''" "header r ''mcp-name'' = Some tool"
    by (auto elim!: opt_str.elims)
  then show ?thesis using json_body_Inr [OF body] t h version by auto
qed

lemma public_login_route: "(hr_method r, hr_path r) \<in> set PUBLIC_ROUTES \<Longrightarrow> login_route r"
  by (auto simp: PUBLIC_ROUTES_def login_route_def one_segment_def starts_with_def)

text \<open>A request answered inside both middlewares: on a login route, or by an endpoint for an identified caller.\<close>

lemma http_serve_inner:
  assumes "http_serve C r (v, st) = Some ((v', st'), x)"
  obtains (refused) e where "st' = st" "hs_auth_enabled C" "authenticate C r (v, st) = (v', Inl e)"
    | (unchanged) "st' = st" "v' = v"
    | (public) y where "st' = st" "login_route r" "hs_login C r v = (v', y)"
    | (login) p v1 y where "st' = st" "identified C r (v, st) p v1" "login_route r" "(hr_method r, hr_path r) \<notin> set PUBLIC_ROUTES"
        "hs_login C r v1 = (v', y)"
    | (endpoint) p y where "identified C r (v, st) p v'" "endpoint C r p st = Some (st', y)"
proof -
  define inner where "inner = (\<lambda>p st. map_option (\<lambda>(st', x). (st', cache_policy r x)) (routed C r p st))"
  define health where "health = \<lparr>hp_status = 200, hp_body = Some (PDict [(''status'', PStr ''ok'')]), hp_protocol = False, hp_no_store = False\<rparr>"
  define failed where "failed = (\<lambda>e. if is_tool_error e then http_error (err_status e) (error_code_or ''MEM-AUTH-0001'' e) (err_message e) []
    else internal_response)"
  have inner: "login_route r \<and> st' = s \<and> (\<exists>y. hs_login C r u = (v', y)) \<or> \<not> login_route r \<and> v' = u \<and> (\<exists>y. endpoint C r p s = Some (st', y))"
    if "inner p (u, s) = Some ((v', st'), x)" for p u s
    using that by (auto simp: inner_def routed_def split: if_splits prod.splits)
  have serve: "http_serve C r (v, st) =
     (if hr_path r \<in> set OPEN_PATHS then (if hr_path r = ''/health'' \<and> hr_method r = ''GET'' then Some ((v, st), health) else None)
      else if (case hr_content_length r of None \<Rightarrow> False | Some n \<Rightarrow> hs_max_bytes C < n)
      then Some ((v, st), http_error 413 ''MEM-HTTP-0001'' ''Request body too large'' [])
      else if (hr_method r, hr_path r) \<in> set PUBLIC_ROUTES then inner local_stdio (v, st)
      else if \<not> hs_auth_enabled C then inner local_stdio (v, st)
      else case authenticate C r (v, st) of (v, Inl e) \<Rightarrow> Some ((v, st), failed e) | (v, Inr p) \<Rightarrow> inner p (v, st))"
    by (simp only: http_serve_def inner_def health_def failed_def Let_def snd_conv)
  obtain u y where u: "authenticate C r (v, st) = (u, y)" by fastforce
  consider (a) "v' = v \<and> st' = st"
    | (b) "(hr_method r, hr_path r) \<in> set PUBLIC_ROUTES" "inner local_stdio (v, st) = Some ((v', st'), x)"
    | (c) p u where "(hr_method r, hr_path r) \<notin> set PUBLIC_ROUTES" "identified C r (v, st) p u" "inner p (u, st) = Some ((v', st'), x)"
    | (d) e where "hs_auth_enabled C" "authenticate C r (v, st) = (v', Inl e)" "st' = st"
    using assms u unfolding serve identified_def by (cases y) (auto split: if_splits)
  then show ?thesis
  proof cases
    case a
    then show ?thesis using unchanged by simp
  next
    case b
    then show ?thesis using inner [OF b(2)] public_login_route public by blast
  next
    case c
    then show ?thesis using inner [OF c(3)] login endpoint by blast
  next
    case d
    then show ?thesis using refused by simp
  qed
qed

lemma http_serve_change:
  assumes "http_serve C r (v, st) = Some ((v', st'), x)" and "st' \<noteq> st"
  obtains p tool a where "identified C r (v, st) p v'" "requested r tool a" "hr_size r \<le> hs_max_bytes C"
    "tool \<in> set (tool_names (hs_mcp C))" "st' = fst (sv_dispatch (hs_mcp C) tool a p st)"
proof -
  obtain p y where p: "identified C r (v, st) p v'" "endpoint C r p st = Some (st', y)"
  proof -
    from assms(1) have "\<exists>p y. identified C r (v, st) p v' \<and> endpoint C r p st = Some (st', y)"
      by (cases rule: http_serve_inner) (use assms(2) in auto)
    then show ?thesis using that by blast
  qed
  consider (mcp) "hr_path r = ''/mcp''" "hr_method r = ''POST''" "fst (mcp_endpoint C r p st) = st'"
    | (rest) "starts_with ''/tools/'' (hr_path r)" "hr_method r = ''POST''" "fst (rest_call C (drop 7 (hr_path r)) r p st) = st'"
    using p(2) assms(2) by (auto simp: endpoint_def one_segment_def split: if_splits)
  then show ?thesis
  proof cases
    case mcp
    then show ?thesis using mcp_endpoint_change [of C r p st] assms(2) that p(1) by (auto simp: requested_def)
  next
    case rest
    have "hr_path r = ''/tools/'' @ drop 7 (hr_path r)"
      using starts_withD [OF rest(1)] by (simp only: list.size numeral_7_eq_7)
    then show ?thesis using rest_call_change [of C "drop 7 (hr_path r)" r p st] rest(2,3) assms(2) that p(1)
      by (auto simp: requested_def)
  qed
qed

text \<open>What a request to the application leaves in the tables of accounts.\<close>

lemma http_serve_accounts:
  assumes "http_serve (application P A W tokens S) r (v, st) = Some ((v', st'), x)"
  shows "account_entries P A W r (raw_token (application P A W tokens S) r) v v'"
proof -
  let ?C = "application P A W tokens S"
  have same: "account_entries P A W r (raw_token ?C r) v v" by (simp add: account_entries_def)
  have known: "account_entries P A W r (raw_token ?C r) v u" if "identified ?C r (v, st) p u" for p u
    using that authenticate_entries [of P A W tokens S r v st u "Inr p"] same by (auto simp: identified_def split: if_splits)
  from assms show ?thesis
  proof (cases rule: http_serve_inner)
    case (refused e)
    then show ?thesis using authenticate_entries by simp
  next
    case unchanged
    then show ?thesis using same by simp
  next
    case (public y)
    then show ?thesis using answer_login_entries by simp
  next
    case (login p v1 y)
    then have "v' = v1" using answer_login_guarded [OF login(4,3), of P A W v1] by simp
    then show ?thesis using known [OF login(2)] by simp
  next
    case (endpoint p y)
    then show ?thesis using known by blast
  qed
qed

subsection \<open>The stdio server\<close>

definition silent :: "pyval \<Rightarrow> bool" where
  \<comment> \<open>a well-formed notification\<close>
  "silent v \<longleftrightarrow> (case v of
     PDict r \<Rightarrow> py_get r ''jsonrpc'' = PStr ''2.0'' \<and> is_str (py_get r ''method'') \<and> \<not> has_key r ''id''
   | _ \<Rightarrow> False)"

definition reply_id :: "pyval \<Rightarrow> pyval" where
  \<comment> \<open>the id a reply carries: that of a well-formed request, otherwise null\<close>
  "reply_id v = (case v of
     PDict r \<Rightarrow> if py_get r ''jsonrpc'' = PStr ''2.0'' \<and> is_str (py_get r ''method'') \<and> is_identifier (py_get r ''id'')
                then py_get r ''id'' else PNone
   | _ \<Rightarrow> PNone)"

definition reply_ok :: "dict \<Rightarrow> bool" where
  "reply_ok x \<longleftrightarrow> py_get x ''jsonrpc'' = PStr ''2.0'' \<and> has_key x ''id'' \<and> has_key x ''result'' \<noteq> has_key x ''error''"

lemma error_response_simps [simp]:
  "py_get (error_response i c m d) ''id'' = i" "reply_ok (error_response i c m d)"
  by (simp_all add: error_response_def reply_ok_def py_get_def has_key_def)

lemma failure_response_simps [simp]:
  "py_get (failure_response i e) ''id'' = i" "reply_ok (failure_response i e)"
  by (simp_all add: failure_response_def)

lemma handle_reply:
  "case snd (handle S v p st) of None \<Rightarrow> silent v | Some x \<Rightarrow> \<not> silent v \<and> reply_ok x \<and> py_get x ''id'' = reply_id v"
proof (cases v)
  case (PDict r)
  let ?env = "py_get r ''jsonrpc'' = PStr ''2.0'' \<and> is_str (py_get r ''method'')"
  show ?thesis
  proof (cases "?env \<and> (has_key r ''id'' \<longrightarrow> is_identifier (py_get r ''id''))")
    case True
    have res: "reply_ok [(''jsonrpc'', PStr ''2.0''), (''id'', i), (''result'', x)]" for i x
      by (simp add: reply_ok_def py_get_def has_key_def)
    show ?thesis using True PDict
      by (auto simp: handle_def Let_def silent_def reply_id_def res split: prod.splits sum.splits)
        (auto simp: py_get_def)
  next
    case False
    then show ?thesis using PDict by (auto simp: handle_def Let_def silent_def reply_id_def)
  qed
qed (simp_all add: handle_def silent_def reply_id_def)

definition silent_frame :: "frame \<Rightarrow> bool" where
  "silent_frame f = (case f of Frame n line \<Rightarrow> n \<le> MAX_LINE_BYTES \<and> (case line of Parsed v \<Rightarrow> silent v | _ \<Rightarrow> False))"

definition frame_id :: "frame \<Rightarrow> pyval" where
  "frame_id f = (case f of Frame n line \<Rightarrow>
     if MAX_LINE_BYTES < n then PNone else (case line of Parsed v \<Rightarrow> reply_id v | _ \<Rightarrow> PNone))"

definition fatal_frame :: "frame \<Rightarrow> bool" where
  "fatal_frame f = (case f of Frame n line \<Rightarrow> n \<le> MAX_LINE_BYTES \<and> line = Too_deep)"

definition parsed_within :: "frame \<Rightarrow> pyval option" where
  "parsed_within f = (case f of Frame n line \<Rightarrow>
     if MAX_LINE_BYTES < n then None else (case line of Parsed v \<Rightarrow> Some v | _ \<Rightarrow> None))"

lemma silent_iff_no_reply: "silent v \<longleftrightarrow> snd (handle S v p st) = None"
  using handle_reply [where S = S and v = v and p = p and st = st] by (auto split: option.splits)

lemma handle_SomeD: "handle S v p st = (st', Some x) \<Longrightarrow> \<not> silent v \<and> reply_ok x \<and> py_get x ''id'' = reply_id v"
  using handle_reply [where S = S and v = v and p = p and st = st] by simp

lemma stdio_replies:
  assumes "serve_stdio S fs st = (st', out, True)"
  shows "map (\<lambda>x. py_get x ''id'') out = map frame_id (filter (\<lambda>f. \<not> silent_frame f) fs) \<and> list_all reply_ok out"
  using assms
proof (induction fs arbitrary: st out)
  case (Cons f rest)
  obtain n line where f: "f = Frame n line" by (cases f)
  show ?case
  proof (cases "MAX_LINE_BYTES < n")
    case True
    then show ?thesis using Cons by (auto simp: f silent_frame_def frame_id_def split: prod.splits)
  next
    case False
    show ?thesis
    proof (cases line)
      case (Parsed v)
      obtain st1 answer where h: "handle S v local_stdio st = (st1, answer)" by fastforce
      obtain out' where r: "serve_stdio S rest st1 = (st', out', True)" "out = (case answer of None \<Rightarrow> out' | Some x \<Rightarrow> x # out')"
        using Cons(2) False Parsed h by (auto simp: f split: prod.splits)
      have "map (\<lambda>x. py_get x ''id'') out' = map frame_id (filter (\<lambda>f. \<not> silent_frame f) rest) \<and> list_all reply_ok out'"
        using Cons(1) [OF r(1)] .
      moreover have "silent v \<longleftrightarrow> answer = None" using silent_iff_no_reply [of v S local_stdio st] h by simp
      ultimately show ?thesis using False Parsed r(2) h
        by (cases answer) (auto simp: f silent_frame_def frame_id_def dest: handle_SomeD)
    qed (use Cons False in \<open>auto simp: f silent_frame_def frame_id_def split: prod.splits\<close>)
  qed
qed simp

lemma stdio_ends: "snd (snd (serve_stdio S fs st)) \<longleftrightarrow> list_all (\<lambda>f. \<not> fatal_frame f) fs"
proof (induction fs arbitrary: st)
  case (Cons f fs)
  obtain n line where f: "f = Frame n line" by (cases f)
  show ?case using Cons by (cases "MAX_LINE_BYTES < n"; cases line) (simp_all add: f fatal_frame_def case_prod_beta)
qed simp

text \<open>A line nested too deeply ends the server: nothing after it is read, and nothing is answered.\<close>

lemma too_deep_stops: "n \<le> MAX_LINE_BYTES \<Longrightarrow> serve_stdio S (Frame n Too_deep # rest) st = (st, [], False)"
  by simp

subsection \<open>What the transports may change\<close>

context guarded_dispatch
begin

lemma http_granted:
  assumes "http_serve C r (v, st) = Some ((v', st'), x)" and "hs_mcp C = S" and "st' \<noteq> st"
  shows "\<exists>p tool a. identified C r (v, st) p v' \<and> requested r tool a \<and> hr_size r \<le> hs_max_bytes C \<and> tool \<in> set (tool_names S)
    \<and> grants tool a p st st'"
  using assms guarded by (metis http_serve_change)

lemma handle_granted:
  "fst (handle S v p st) \<noteq> st \<Longrightarrow> \<exists>body tool a. v = PDict body \<and> asks_for body tool a \<and> grants tool a p st (fst (handle S v p st))"
  using guarded by (metis handle_change)

lemma stdio_granted:
  "(\<lambda>s s'. \<exists>tool a. grants tool a local_stdio s s')\<^sup>*\<^sup>* st (fst (serve_stdio S fs st))"
proof (induction fs arbitrary: st)
  case (Cons f fs)
  obtain n line where f: "f = Frame n line" by (cases f)
  let ?R = "\<lambda>s s'. \<exists>tool a. grants tool a local_stdio s s'"
  have step: "?R\<^sup>*\<^sup>* st (fst (serve_stdio S fs (fst (handle S v local_stdio st))))" for v
  proof (cases "fst (handle S v local_stdio st) = st")
    case True
    then show ?thesis using Cons [of st] by (metis (full_types))
  next
    case False
    then have "?R st (fst (handle S v local_stdio st))" using handle_granted by blast
    then show ?thesis using Cons converse_rtranclp_into_rtranclp [of ?R st] by blast
  qed
  show ?case using Cons [of st] step by (cases "MAX_LINE_BYTES < n"; cases line) (simp_all add: f case_prod_beta)
qed simp

end

subsection \<open>The dispatcher as the provider\<close>

text \<open>What a change by the dispatcher needs: valid arguments, an admitted principal, and the handler of the tool.\<close>

definition admitted_change :: "'s services \<Rightarrow> string \<Rightarrow> dict \<Rightarrow> principal \<Rightarrow> 's \<Rightarrow> 's \<Rightarrow> bool" where
  "admitted_change D tool a p st st' \<longleftrightarrow>
     (\<exists>check q call. sc_validators D tool = Some check \<and> check a = [] \<and> admit p tool a (sc_directory D st) = Inr q
        \<and> target tool a q = Inr call \<and> st' = fst (sc_run D call st))"

lemma validate_tool_arguments_Inr:
  "validate_tool_arguments V tool a = Inr () \<longleftrightarrow> (\<exists>check. V tool = Some check \<and> check a = [])"
proof -
  have empty: "sort_key f xs = [] \<longleftrightarrow> xs = []" for f :: "violation \<Rightarrow> (nat \<times> string) list" and xs
    by (metis length_0_conv length_sort)
  show ?thesis by (auto simp: validate_tool_arguments_def empty split: option.splits list.splits)
qed

lemma dispatch_change:
  assumes "fst (dispatch D tool a p st) \<noteq> st"
  shows "admitted_change D tool a p st (fst (dispatch D tool a p st))"
proof -
  obtain call where call: "and_then (validate_tool_arguments (sc_validators D) tool a)
       (\<lambda>_. and_then (admit p tool a (sc_directory D st)) (target tool a)) = Inr call"
    using assms by (auto simp: dispatch_def split: sum.splits)
  then obtain q where "validate_tool_arguments (sc_validators D) tool a = Inr ()" "admit p tool a (sc_directory D st) = Inr q"
      "target tool a q = Inr call"
    by (auto simp: and_then_Inr_iff)
  moreover have "fst (dispatch D tool a p st) = fst (sc_run D call st)" using call by (simp add: dispatch_def)
  ultimately show ?thesis unfolding admitted_change_def validate_tool_arguments_Inr by blast
qed

interpretation calls: guarded_dispatch "served P tools D" "admitted_change D"
proof
  show "admitted_change D tool a p st (fst (sv_dispatch (served P tools D) tool a p st))"
    if "fst (sv_dispatch (served P tools D) tool a p st) \<noteq> st" for tool a p st
    using that dispatch_change [of D tool a p st] by (simp add: served_def)
qed

text \<open>The identity a handler is given.\<close>

fun acting_user :: "invocation \<Rightarrow> string option" where
  "acting_user (As_principal tool a p) = Some (p_user_id p)"
| "acting_user (As_actor tool a user) = Some user"
| "acting_user (Anonymous tool a) = None"
| "acting_user (As_claimant tool a user project) = Some user"

definition READ_TOOLS :: "string list" where
  "READ_TOOLS = TEAM_READS @ WITHOUT_ACTOR"

lemma target_identity:
  assumes "target tool a q = Inr call"
  shows "acting_user call = (if tool \<in> set READ_TOOLS then None else Some (p_user_id q))"
proof -
  have other: "tool \<notin> set READ_TOOLS" if "tool \<in> set RECORD_HANDLERS \<or> tool \<in> set PROJECT_HANDLERS \<or> tool \<in> fst ` set CONTINUITY_SCOPES
      \<or> tool \<in> set TEAM_WRITES \<or> tool \<in> set WITH_ACTOR \<or> tool \<in> set AS_CLAIMANT"
  proof -
    have "\<forall>t \<in> set READ_TOOLS. t \<notin> set RECORD_HANDLERS \<and> t \<notin> set PROJECT_HANDLERS \<and> t \<notin> fst ` set CONTINUITY_SCOPES
      \<and> t \<notin> set TEAM_WRITES \<and> t \<notin> set WITH_ACTOR \<and> t \<notin> set AS_CLAIMANT" by code_simp
    then show ?thesis using that by blast
  qed
  have reads: "tool \<in> set READ_TOOLS" if "tool \<in> set TEAM_READS \<or> tool \<in> set WITHOUT_ACTOR"
    using that by (auto simp: READ_TOOLS_def)
  show ?thesis using assms other reads
    by (auto simp: target_def dispatch_continuity_def split: if_splits)
qed

text \<open>Every tool with a scope has a handler: the last branch of the dispatcher is never reached for an authorized call.\<close>

lemma scoped_tools_have_targets:
  assumes "map_of TOOL_SCOPES tool = Some s"
  shows "\<exists>call. target tool a q = Inr call"
proof -
  have names: "fst ` set REPO_SCOPES \<subseteq> set WITHOUT_ACTOR" "fst ` set TEAM_SCOPES \<subseteq> set TEAM_WRITES \<union> set TEAM_READS"
    "fst ` set BASE_SCOPES \<subseteq> set WITH_ACTOR \<union> set WITHOUT_ACTOR \<union> set AS_CLAIMANT"
    "fst ` set COLLABORATION_SCOPES \<subseteq> set WITH_ACTOR" "fst ` set CONTINUITY_SCOPES \<subseteq> set HANDLERS \<union> fst ` set VIEWS"
    "fst ` set PROJECT_SCOPES \<subseteq> set PROJECT_HANDLERS" "fst ` set RECORD_SCOPES \<subseteq> set RECORD_HANDLERS"
    by code_simp+
  have "tool \<in> fst ` set TOOL_SCOPES" using assms by (force dest: map_of_SomeD)
  then have "tool \<in> set RECORD_HANDLERS \<or> tool \<in> set PROJECT_HANDLERS
      \<or> (if tool \<in> fst ` set CONTINUITY_SCOPES then tool \<in> fst ` set VIEWS \<or> tool \<in> set HANDLERS
          else tool \<in> set TEAM_WRITES \<or> tool \<in> set TEAM_READS \<or> tool \<in> set WITH_ACTOR \<or> tool \<in> set WITHOUT_ACTOR
            \<or> tool \<in> set AS_CLAIMANT)"
    using names unfolding TOOL_SCOPES_def set_append image_Un by (auto simp del: split_paired_Ex)
  moreover have branch: "(\<exists>c. (if b then Inr x else r) = Inr c) \<longleftrightarrow> b \<or> (\<exists>c. r = Inr c)"
    for b and x :: invocation and r :: "invocation outcome"
    by auto
  moreover have nested: "(\<exists>c. (if b then r else r') = Inr c) \<longleftrightarrow> (if b then \<exists>c. r = Inr c else \<exists>c. r' = Inr c)"
    for b and r r' :: "invocation outcome"
    by simp
  ultimately show ?thesis
    by (simp only: target_def dispatch_continuity_def branch nested) (simp split: if_splits)
qed

lemma admit_user: "admit p tool a db = Inr q \<Longrightarrow> p_user_id q = p_user_id p \<and> p_local q = p_local p"
  by (auto simp: admit_def bind_def bound_to_def Let_def and_then_Inr_iff split: if_splits option.splits pyval.splits prod.splits)

subsection \<open>Properties\<close>

text \<open>
  C26. Nothing changes behind the HTTP server but by an admitted call, and nothing in the
  tables of accounts but by a first login. A request that changes the state of the tools was
  identified (or authentication is off), as the user of an enabled account of the configured
  organization where a provider knows the caller; it names one tool on its path or, in agreement with
  its headers, in its body, is within the size limit and valid for the schema of the tool;
  its principal, bound to its current role in the project, holds the scope of the tool; and
  the change is that of the handler of this tool, called in the name of the identified user,
  or without a name for the listed reading tools only. Whatever the request and its answer
  are, every account stays as it was, and at most one is new: that of the GitHub token the
  request bears or gets for its code, confirmed by GitHub for this application and on the
  allow list, or that of the company token it bears, signed with a current key and with the
  tenant, client, permission and role required.
\<close>

theorem server_changes_admitted:
  assumes "C = application P A W tokens (served P tools D)" and "http_serve C r (v, st) = Some ((v', st'), x)"
  shows "(st' \<noteq> st \<longrightarrow> (\<exists>p q tool a s call. identified C r (v, st) p v' \<and> has_account A v' p
      \<and> requested r tool a \<and> hr_size r \<le> ap_max_bytes A
      \<and> (\<exists>check. sc_validators D tool = Some check \<and> check a = [])
      \<and> admit p tool a (sc_directory D st) = Inr q \<and> map_of TOOL_SCOPES tool = Some s
      \<and> (p_local p \<or> s \<in> set (p_scopes q) \<or> ''admin'' \<in> set (p_scopes q))
      \<and> target tool a q = Inr call
      \<and> acting_user call = (if tool \<in> set READ_TOOLS then None else Some (p_user_id p))
      \<and> st' = fst (sc_run D call st)))
    \<and> account_entries P A W r (raw_token C r) v v'"
proof (intro conjI impI)
  show "account_entries P A W r (raw_token C r) v v'" 
    using http_serve_accounts [OF assms(2) [unfolded assms(1)]] unfolding assms(1) .
  assume "st' \<noteq> st"
  moreover have mcp: "hs_mcp C = served P tools D" "hs_max_bytes C = ap_max_bytes A" using assms(1) by simp_all
  ultimately obtain p tool a where c: "identified C r (v, st) p v'" "requested r tool a" "hr_size r \<le> ap_max_bytes A"
      "admitted_change D tool a p st st'"
    using calls.http_granted [OF assms(2) mcp(1)] by auto
  then obtain check q call where d: "sc_validators D tool = Some check" "check a = []" "admit p tool a (sc_directory D st) = Inr q"
      "target tool a q = Inr call" "st' = fst (sc_run D call st)"
    by (auto simp: admitted_change_def)
  have "has_account A v' p"
    using c(1) authenticate_account [of P A W tokens "served P tools D" r v st v' p] assms(1)
    by (auto simp: identified_def has_account_def local_stdio_def split: if_splits)
  moreover have user: "p_user_id q = p_user_id p" "p_local q = p_local p" using admit_user [OF d(3)] by simp_all
  moreover have "authorize_tool q tool (arg_opt_str a ''project_id'') = Inr ()" using d(3) by (auto simp: admit_def and_then_Inr_iff)
  moreover from this obtain s where "map_of TOOL_SCOPES tool = Some s" "p_local q \<or> s \<in> set (p_scopes q) \<or> ''admin'' \<in> set (p_scopes q)"
    by (auto simp: authorize_tool_Inr_iff)
  ultimately show "\<exists>p q tool a s call. identified C r (v, st) p v' \<and> has_account A v' p
      \<and> requested r tool a \<and> hr_size r \<le> ap_max_bytes A
      \<and> (\<exists>check. sc_validators D tool = Some check \<and> check a = [])
      \<and> admit p tool a (sc_directory D st) = Inr q \<and> map_of TOOL_SCOPES tool = Some s
      \<and> (p_local p \<or> s \<in> set (p_scopes q) \<or> ''admin'' \<in> set (p_scopes q))
      \<and> target tool a q = Inr call
      \<and> acting_user call = (if tool \<in> set READ_TOOLS then None else Some (p_user_id p))
      \<and> st' = fst (sc_run D call st)"
    using c d target_identity [OF d(4)] user by metis
qed

text \<open>
  C25. The stdio server answers its requests one by one: as long as no line is nested too
  deeply for the JSON parser it reads to the end of the input, answers every line but the
  well-formed notifications, in their order, each with the id of its request (null where
  there is none to repeat) and with either a result or an error; and it changes the state
  only by a series of calls its dispatcher admits for the local user.
\<close>

theorem stdio_answers_in_order:
  assumes "list_all (\<lambda>f. \<not> fatal_frame f) fs"
  shows "\<exists>st' out. serve_stdio (served P tools D) fs st = (st', out, True)
    \<and> map (\<lambda>x. py_get x ''id'') out = map frame_id (filter (\<lambda>f. \<not> silent_frame f) fs)
    \<and> (\<forall>x \<in> set out. reply_ok x)
    \<and> (\<lambda>s s'. \<exists>tool a. admitted_change D tool a local_stdio s s')\<^sup>*\<^sup>* st st'"
proof -
  let ?r = "serve_stdio (served P tools D) fs st"
  obtain st' out ended where r: "?r = (st', out, ended)" by (cases ?r)
  then have ended using stdio_ends [of "served P tools D" fs st] assms by simp
  then show ?thesis using r stdio_replies [of "served P tools D" fs st st' out] calls.stdio_granted [of D st P tools fs]
    by (auto simp: list_all_iff)
qed

subsection \<open>Witnesses\<close>

text \<open>A server of the project directory alone, with the handlers of that component.\<close>

definition handler_end :: "'s \<Rightarrow> ('s \<times> dict) outcome \<Rightarrow> 's \<times> call_end" where
  "handler_end st r = (case r of Inr (st', d) \<Rightarrow> (st', Answered (PDict d)) | Inl e \<Rightarrow> (st, call_failed e))"

definition directory_run :: "platform \<Rightarrow> (string \<Rightarrow> bool) \<Rightarrow> time \<Rightarrow> invocation \<Rightarrow> pdb \<Rightarrow> pdb \<times> call_end" where
  "directory_run P B now call db =
     (case call of
        As_principal tool a p \<Rightarrow>
          if tool = ''memory_project_list'' then (db, Answered (PDict (list_projects a p db)))
          else if tool = ''memory_project_register'' then handler_end db (register_project P B now a p db)
          else if tool = ''memory_project_assign'' then handler_end db (assign_member now a p db)
          else (db, Raised)
      | _ \<Rightarrow> (db, Raised))"

definition demo_services :: "pdb services" where
  "demo_services = \<lparr>sc_validators = (\<lambda>_. Some (\<lambda>_. [])), sc_directory = (\<lambda>db. db),
     sc_run = directory_run auth_platform (\<lambda>_. True) 9\<rparr>"

definition demo_tools :: "dict list" where
  "demo_tools = [[(''name'', PStr ''memory_project_assign'')]]"

text \<open>The application over this server, and a user of GitHub that logs in for the first time.\<close>

definition demo_settings :: app_settings where
  "demo_settings = \<lparr>ap_max_bytes = 1000, ap_auth_enabled = True, ap_token_header = ''X-Token'', ap_entra = demo_entra,
     ap_github = demo_github\<lparr>gs_organization_id := ''org''\<rparr>\<rparr>"

definition no_library :: "unit jwt_library" where
  "no_library = \<lparr>jwt_header = (\<lambda>_. None), jwt_decode = (\<lambda>_ _ _. None), jwt_key = (\<lambda>_. None), jwt_download = (\<lambda>_. None)\<rparr>"

definition demo_surroundings :: "unit surroundings" where
  "demo_surroundings = \<lparr>pv_fetch = demo_fetch, pv_jwt = no_library, pv_clock = (\<lambda>_. 5), pv_now = 5\<rparr>"

definition demo_logins :: "unit login_services" where
  "demo_logins = \<lparr>ls_github = fresh_verifier, ls_github_users = [new_identity ''9'' ''bob'' ''org''],
     ls_entra = \<lparr>ek_keys = [], ek_loaded_at = 0, ek_last_attempt = None\<rparr>, ls_entra_users = []\<rparr>"

definition demo_http :: "(unit login_services, pdb) http_server" where
  "demo_http = application auth_platform demo_settings demo_surroundings (\<lambda>_. []) (served auth_platform demo_tools demo_services)"

definition demo_post :: http_request where
  "demo_post = \<lparr>hr_method = ''POST'', hr_path = ''/tools/memory_project_assign'',
     hr_headers = [(''authorization'', ''Bearer iskgh.abc'')], hr_content_length = Some 90, hr_size = 90,
     hr_body = Parsed (PDict demo_assignment)\<rparr>"

definition demo_owned :: pdb where
  \<comment> \<open>the directory, with the new user as the owner of the project\<close>
  "demo_owned = demo_directory\<lparr>projects := [demo_registered\<lparr>pr_owner_id := ''github:7''\<rparr>]\<rparr>"

theorem server_changes_admitted_witness:
  "\<exists>v db x. http_serve demo_http demo_post (demo_logins, demo_owned) = Some ((v, db), x) \<and> length (members db) = 2
    \<and> (\<exists>tool a. requested demo_post tool a \<and> tool \<in> fst ` set TOOL_SCOPES) \<and> length (ls_github_users v) = 2
    \<and> new_identity ''9'' ''bob'' ''org'' \<in> set (ls_github_users v)"
proof -
  let ?r = "http_serve demo_http demo_post (demo_logins, demo_owned)"
  have "case ?r of Some ((v, db), x) \<Rightarrow> length (members db) = 2 \<and> length (ls_github_users v) = 2 | None \<Rightarrow> False" by code_simp
  then obtain v db x where r: "?r = Some ((v, db), x)" "length (members db) = 2" "length (ls_github_users v) = 2"
    by (auto split: option.splits)
  have "length (members demo_owned) = 1" by code_simp
  then have "db \<noteq> demo_owned" using r(2) by auto
  then obtain tool a s where "requested demo_post tool a" "map_of TOOL_SCOPES tool = Some s"
    using server_changes_admitted [OF demo_http_def r(1)] by blast
  moreover have "account_entries auth_platform demo_settings demo_surroundings demo_post (raw_token demo_http demo_post) demo_logins v"
    using server_changes_admitted [OF demo_http_def r(1)] by blast
  then have "new_identity ''9'' ''bob'' ''org'' \<in> set (ls_github_users v)"
    by (auto simp: account_entries_def enters_github_def demo_logins_def)
  ultimately show ?thesis using r by (metis fst_conv image_eqI map_of_SomeD)
qed

definition demo_frames :: "frame list" where
  "demo_frames = [Frame 20 Not_json, Frame 40 (Parsed (PDict [(''jsonrpc'', PStr ''2.0''), (''method'', PStr ''ping'')])),
     Frame 50 (Parsed (PDict [(''jsonrpc'', PStr ''2.0''), (''id'', PInt 7), (''method'', PStr ''ping'')]))]"

theorem stdio_answers_in_order_witness:
  "\<exists>db out. serve_stdio (served auth_platform demo_tools demo_services) demo_frames demo_directory = (db, out, True)
    \<and> map (\<lambda>x. py_get x ''id'') out = [PNone, PInt 7]"
proof -
  have ok: "list_all (\<lambda>f. \<not> fatal_frame f) demo_frames" by (simp add: demo_frames_def fatal_frame_def)
  have "map frame_id (filter (\<lambda>f. \<not> silent_frame f) demo_frames) = [PNone, PInt 7]"
    by (simp add: demo_frames_def frame_id_def silent_frame_def silent_def reply_id_def py_get_def has_key_def is_str_def
        is_identifier_def MAX_LINE_BYTES_def)
  then show ?thesis using stdio_answers_in_order [OF ok] by metis
qed

end
