(* ===== verification/Command_Line.thy ===== *)
theory Command_Line
  imports Identities
begin

text \<open>
  The command line of the server (main.py): which command a parsed line stands for, with
  the checks made before it runs, and the issue and revocation of access tokens. Parsing
  the line, loading the settings and printing are left out; of the settings it takes the
  fields it reads.
\<close>

datatype server_mode = Http | Stdio

record cli_args =
  ca_mode :: "server_mode option"
  ca_issue_token :: bool
  ca_revoke_token :: "string option"
  ca_run_generation :: bool
  ca_bind_entra_user :: "string option"
  ca_disable_entra_user :: "string option"
  ca_enable_entra_user :: "string option"
  ca_bind_github_user :: "string option"
  ca_disable_github_user :: "string option"
  ca_enable_github_user :: "string option"
  ca_tenant_id :: "string option"
  ca_max_jobs :: int
  ca_project_id :: "string option"
  ca_user_id :: "string option"
  ca_scopes :: string
  ca_expires_hours :: "int option"

datatype cli_command =
    Github_admin admin_command
  | Entra_admin "string option" admin_command
  | Run_generation string int
  | Issue_token
  | Revoke_token string
  | Run_stdio
  | Run_http

definition some_text_given :: "string option \<Rightarrow> bool" where
  \<comment> \<open>the truth value of an option\<close>
  "some_text_given v \<longleftrightarrow> (case v of None \<Rightarrow> False | Some s \<Rightarrow> s \<noteq> [])"

definition text_or_empty :: "string option \<Rightarrow> string" where
  "text_or_empty v = (case v of None \<Rightarrow> [] | Some s \<Rightarrow> s)"

definition admin_of :: "string option \<Rightarrow> string option \<Rightarrow> string option \<Rightarrow> string option \<Rightarrow> admin_command" where
  \<comment> \<open>what the administration of an identity does with the three options\<close>
  "admin_of binding disabling enabling user =
     (if some_text_given binding then Bind (text_or_empty binding) (text_or_empty user)
      else if some_text_given disabling then Disable (text_or_empty disabling) else Enable (text_or_empty enabling))"

definition cli :: "string \<Rightarrow> bool \<Rightarrow> server_mode \<Rightarrow> cli_args \<Rightarrow> string + cli_command" where
  \<comment> \<open>\<open>tenant\<close>, \<open>generation\<close> and \<open>mode\<close> are the fields of the settings\<close>
  "cli tenant generation mode x =
     (if some_text_given (ca_bind_github_user x) \<or> some_text_given (ca_disable_github_user x) \<or> some_text_given (ca_enable_github_user x)
      then (if some_text_given (ca_bind_github_user x) \<and> \<not> some_text_given (ca_user_id x)
            then Inl ''GitHub binding requires --user-id''
            else Inr (Github_admin (admin_of (ca_bind_github_user x) (ca_disable_github_user x) (ca_enable_github_user x) (ca_user_id x))))
      else if some_text_given (ca_bind_entra_user x) \<or> some_text_given (ca_disable_entra_user x) \<or> some_text_given (ca_enable_entra_user x)
      then (if \<not> some_text_given (ca_tenant_id x) \<and> tenant = []
                \<or> some_text_given (ca_bind_entra_user x) \<and> \<not> some_text_given (ca_user_id x)
            then Inl ''Identity administration requires tenant ID and binding requires --user-id''
            else Inr (Entra_admin (ca_tenant_id x)
                   (admin_of (ca_bind_entra_user x) (ca_disable_entra_user x) (ca_enable_entra_user x) (ca_user_id x))))
      else if ca_run_generation x
      then (if \<not> some_text_given (ca_project_id x) \<or> ca_max_jobs x < 1 \<or> 100 < ca_max_jobs x
            then Inl ''--run-generation requires --project-id and --max-jobs between 1 and 100''
            else if \<not> generation then Inl ''--run-generation requires generation.enabled=true (disabled by default)''
            else Inr (Run_generation (text_or_empty (ca_project_id x)) (ca_max_jobs x)))
      else if ca_issue_token x
      then (if \<not> some_text_given (ca_project_id x) \<or> \<not> some_text_given (ca_user_id x)
            then Inl ''--issue-token requires --project-id and --user-id'' else Inr Issue_token)
      else if some_text_given (ca_revoke_token x) then Inr (Revoke_token (text_or_empty (ca_revoke_token x)))
      else (case (case ca_mode x of None \<Rightarrow> mode | Some m \<Rightarrow> m) of Stdio \<Rightarrow> Inr Run_stdio | Http \<Rightarrow> Inr Run_http))"

subsection \<open>Tokens\<close>

definition GRANTABLE_SCOPES :: "string list" where
  "GRANTABLE_SCOPES = [''read'', ''write'', ''admin'', ''projects'']"

definition parsed_scopes :: "string \<Rightarrow> string list" where
  "parsed_scopes s = filter (\<lambda>x. x \<noteq> []) (map py_strip (split_on CHR '','' s))"

definition issue_token ::
    "platform \<Rightarrow> time \<Rightarrow> uuid \<Rightarrow> string \<Rightarrow> cli_args \<Rightarrow> access_token list \<Rightarrow> (access_token list \<times> dict) option" where
  \<comment> \<open>\<open>raw\<close> is the random token; zero hours mean no expiry\<close>
  "issue_token P now i raw x t =
     (let scopes = parsed_scopes (ca_scopes x);
          expires = (case ca_expires_hours x of None \<Rightarrow> None | Some h \<Rightarrow> if h = 0 then None else Some (now + hours h))
      in if scopes = [] \<or> \<not> set scopes \<subseteq> set GRANTABLE_SCOPES then None
         else Some (create_token i (token_digest P raw) (text_or_empty (ca_project_id x)) (text_or_empty (ca_user_id x)) scopes expires t,
           [(''token_id'', PStr (uuid_str i)), (''token'', PStr raw), (''project_id'', PStr (text_or_empty (ca_project_id x))),
            (''user_id'', PStr (text_or_empty (ca_user_id x))), (''scopes'', strs scopes),
            (''expires_at'', case expires of None \<Rightarrow> PNone | Some e \<Rightarrow> PTime e)]))"

definition revoke_command :: "time \<Rightarrow> uuid \<Rightarrow> access_token list \<Rightarrow> (access_token list \<times> dict) option" where
  \<comment> \<open>\<open>None\<close> when the token is not found or already revoked\<close>
  "revoke_command now i t =
     (let (t', revoked) = revoke_token now i t
      in if revoked then Some (t', [(''token_id'', PStr (uuid_str i)), (''revoked'', PBool True)]) else None)"

subsection \<open>Lemmas\<close>

text \<open>An issued token authenticates its user for its project at once, with the scopes asked for and no others.\<close>

lemma issued_token_works:
  assumes "issue_token P now i raw x t = Some (t', d)" and "raw \<noteq> []"
    and "\<forall>r \<in> set t. at_token_hash r \<noteq> token_digest P raw" and "\<forall>h. ca_expires_hours x = Some h \<longrightarrow> 0 \<le> h"
  shows "\<exists>p. verify_token P now (Some raw) t' = Inr p \<and> p_user_id p = text_or_empty (ca_user_id x)
    \<and> p_project_id p = Some (text_or_empty (ca_project_id x)) \<and> p_scopes p = parsed_scopes (ca_scopes x)
    \<and> set (p_scopes p) \<subseteq> set GRANTABLE_SCOPES"
proof -
  let ?e = "case ca_expires_hours x of None \<Rightarrow> None | Some h \<Rightarrow> if h = 0 then None else Some (now + hours h)"
  have t': "t' = create_token i (token_digest P raw) (text_or_empty (ca_project_id x)) (text_or_empty (ca_user_id x))
      (parsed_scopes (ca_scopes x)) ?e t" "set (parsed_scopes (ca_scopes x)) \<subseteq> set GRANTABLE_SCOPES"
    using assms(1) by (auto simp: issue_token_def Let_def split: if_splits)
  have "fetchrow (\<lambda>r. at_token_hash r = token_digest P raw) t = None" using assms(3) by (simp add: fetchrow_None_iff)
  then have row: "get_token_by_hash (token_digest P raw) t' = Some \<lparr>at_id = i, at_token_hash = token_digest P raw,
      at_project_id = text_or_empty (ca_project_id x), at_user_id = text_or_empty (ca_user_id x),
      at_scopes = parsed_scopes (ca_scopes x), at_expires_at = ?e, at_revoked_at = None\<rparr>"
    unfolding t'(1) by (simp add: get_token_by_hash_def create_token_def fetchrow_insert_row)
  have "\<forall>e. ?e = Some e \<longrightarrow> now < e"
    using assms(4) by (auto simp: hours_def seconds_def split: option.splits if_splits)
  then have "\<not> (case ?e of None \<Rightarrow> False | Some e \<Rightarrow> e \<le> now)" by (cases ?e) auto
  then show ?thesis using row t'(2) assms(2) by (simp add: verify_token_def)
qed

end
