(* ===== verification/Retrieval.thy ===== *)
theory Retrieval
  imports Experience Generation_Worker
begin

text \<open>
  The search over approved experiences (retrieval/): the normalized request, the candidates
  of a provider (postgres.py, sqlite.py), their hydration under the visibility of the request,
  and the fitting of the answer into its character budget (service.py) with the citations of
  citations.py. A provider only nominates ids; what the full text functions of the
  database match and how they rank is a parameter.
\<close>

subsection \<open>Requests\<close>

record retrieval_request =
  rq_project_id :: string
  rq_query :: string
  rq_terms :: "string list"
  rq_classifications :: "classification list"
  rq_kind :: "string option"
  rq_source_lock_digest :: "string option"
  rq_limit :: nat
  rq_compatibility_digest :: "string option"

fun find_words :: "string \<Rightarrow> string list" where
  \<comment> \<open>\<open>re.findall(r"\w+", _)\<close>\<close>
  "find_words [] = []"
| "find_words (c # s) =
     (if word_char c then (c # takeWhile word_char s) # find_words (dropWhile word_char s) else find_words s)"

definition bad_query :: mem_error where
  \<comment> \<open>the code writes the range with an en dash\<close>
  "bad_query = (memory_tool_error ''Search requires 1-16 distinct word terms and at most 512 normalized characters''
     ''MEM-EXPERIENCE-0005'' [] 400) \<lparr>err_rpc := -32602\<rparr>"

definition search_limit :: "dict \<Rightarrow> nat" where
  "search_limit a = nat (int_of (get_or a ''limit'' (PInt 10)))"

definition search_budget :: "dict \<Rightarrow> int" where
  "search_budget a = int_of (get_or a ''max_chars'' (PInt 8000))"

definition search_request :: "unicode \<Rightarrow> dict \<Rightarrow> retrieval_request outcome" where
  "search_request U a =
     (let query = py_strip (search_fold U (arg_str a ''query'')); terms = from_keys (find_words query)
      in checked [(512 < length query \<or> terms = [] \<or> 16 < length terms, bad_query)]
        \<lparr>rq_project_id = arg_str a ''project_id'', rq_query = query, rq_terms = terms,
         rq_classifications = levels_upto (class_of (str_of (get_or a ''max_classification'' (PStr ''internal'')))),
         rq_kind = arg_opt_str a ''kind'', rq_source_lock_digest = arg_opt_str a ''source_lock_digest'',
         rq_limit = search_limit a + 1, rq_compatibility_digest = arg_opt_str a ''compatibility_digest''\<rparr>)"

subsection \<open>Visibility and candidates\<close>

text \<open>The handoff a memory was taken from, while it still has the content it was taken from.\<close>

definition source_handoff_of :: "experience \<Rightarrow> xdb \<Rightarrow> handoff option" where
  "source_handoff_of x db = fetchrow (\<lambda>h. Some (h_id h) = xp_source_handoff_id x \<and> hc_project_id (h_content h) = xp_project_id x
     \<and> hc_payload_digest (h_content h) = xp_source_payload_digest x) (xd_handoffs db)"

definition portable_digest :: "experience \<Rightarrow> xdb \<Rightarrow> string option" where
  "portable_digest x db = Option.bind (source_handoff_of x db) (\<lambda>h. hc_compatibility_digest (h_content h))"

definition visible :: "retrieval_request \<Rightarrow> time \<Rightarrow> xdb \<Rightarrow> experience \<Rightarrow> bool" where
  "visible rq now db x \<longleftrightarrow> xp_project_id x = rq_project_id rq \<and> xp_status x = X_active \<and> in_validity now x
     \<and> xp_classification x \<in> set (rq_classifications rq)
     \<and> (case rq_kind rq of None \<Rightarrow> True | Some k \<Rightarrow> xp_kind x = k)
     \<and> (rq_source_lock_digest rq = None \<and> rq_compatibility_digest rq = None
        \<or> rq_source_lock_digest rq = Some (xp_source_lock_digest x)
        \<or> rq_compatibility_digest rq \<noteq> None \<and> exists_row (\<lambda>h. Some (h_id h) = xp_source_handoff_id x
             \<and> hc_project_id (h_content h) = xp_project_id x \<and> hc_payload_digest (h_content h) = xp_source_payload_digest x
             \<and> hc_compatibility_digest (h_content h) = rq_compatibility_digest rq) (xd_handoffs db))"

record nomination =
  nm_memory_id :: uuid
  nm_score :: "rat option"  \<comment> \<open>\<open>None\<close> is a score that is not finite\<close>

type_synonym provider = "retrieval_request \<Rightarrow> time \<Rightarrow> xdb \<Rightarrow> nomination list"

text \<open>
  What the database decides about a query and a memory: the full text match, the rank of a
  strategy, and the sum of two floats.
\<close>

record lexical =
  lx_match :: "string \<Rightarrow> experience \<Rightarrow> bool"
  lx_rank :: "retrieval_strategy \<Rightarrow> string \<Rightarrow> experience \<Rightarrow> rat"
  lx_add :: "rat \<Rightarrow> rat \<Rightarrow> rat"

definition lexical_match :: "lexical \<Rightarrow> retrieval_request \<Rightarrow> experience \<Rightarrow> bool" where
  "lexical_match L rq x \<longleftrightarrow> lx_match L (rq_query rq) x
     \<or> list_all (\<lambda>t. search (starts_with t) (xp_search_text x)) (rq_terms rq)"

definition lexical_score :: "lexical \<Rightarrow> retrieval_strategy \<Rightarrow> retrieval_request \<Rightarrow> experience \<Rightarrow> rat" where
  "lexical_score L strat rq x = lx_add L (lx_rank L strat (rq_query rq) x)
     (if search (starts_with (rq_query rq)) (xp_search_text x) then 1 / 20 else 0)"

definition lexical_key :: "lexical \<Rightarrow> retrieval_strategy \<Rightarrow> retrieval_request \<Rightarrow> experience \<Rightarrow> rat \<times> time \<times> uuid" where
  "lexical_key L strat rq x = (lexical_score L strat rq x, xp_updated_at x, xp_id x)"

definition lexical_candidates :: "lexical \<Rightarrow> retrieval_strategy \<Rightarrow> provider" where
  "lexical_candidates L strat rq now db =
     map (\<lambda>x. \<lparr>nm_memory_id = xp_id x, nm_score = Some (lexical_score L strat rq x)\<rparr>)
       (take (rq_limit rq) (rev (sort_key (lexical_key L strat rq)
          (filter (\<lambda>x. visible rq now db x \<and> lexical_match L rq x) (xd_experiences db)))))"

subsection \<open>Hydration\<close>

record hit =
  ht_row :: experience
  ht_compatibility :: "string option"
  ht_score :: rat

fun set_defaults :: "('k \<times> 'v) list \<Rightarrow> ('k \<times> 'v) list" where
  \<comment> \<open>a dict filled by \<open>setdefault\<close>\<close>
  "set_defaults [] = []"
| "set_defaults (e # es) = e # filter (\<lambda>f. fst f \<noteq> fst e) (set_defaults es)"

definition finite_scores :: "nomination list \<Rightarrow> (uuid \<times> rat) list" where
  "finite_scores ns = set_defaults (List.map_filter (\<lambda>n. map_option (Pair (nm_memory_id n)) (nm_score n)) ns)"

definition hydrated :: "retrieval_request \<Rightarrow> time \<Rightarrow> xdb \<Rightarrow> uuid \<times> rat \<Rightarrow> hit option" where
  "hydrated rq now db e = map_option
     (\<lambda>x. \<lparr>ht_row = x, ht_compatibility = (if rq_compatibility_digest rq = None then None else portable_digest x db),
            ht_score = snd e\<rparr>)
     (fetchrow (\<lambda>x. xp_id x = fst e \<and> visible rq now db x) (xd_experiences db))"

definition fetch_rows :: "provider \<Rightarrow> retrieval_request \<Rightarrow> time \<Rightarrow> xdb \<Rightarrow> hit list" where
  "fetch_rows provider rq now db =
     List.map_filter (hydrated rq now db) (finite_scores (take (rq_limit rq) (provider rq now db)))"

subsection \<open>Citations\<close>

definition item_head :: "hit \<Rightarrow> dict" where
  \<comment> \<open>what does not depend on the excerpt\<close>
  "item_head h =
     (let x = ht_row h
      in binding_fields x
         @ [(''revision_root_id'', opt_uuid (xp_revision_root_id x)), (''revision_number'', PInt (int (xp_revision_number x))),
            (''is_correction'', PBool (xp_is_correction x))]
         @ opt_entry ''compatibility_digest'' PStr (ht_compatibility h) @ [(''score'', PFloat (ht_score h))])"

definition cited :: "platform \<Rightarrow> hit \<Rightarrow> string \<Rightarrow> dict" where
  "cited P h quoted =
     (let x = ht_row h
      in [(''schema_version'', PInt (if ht_compatibility h = None then 1 else 2)),
          (''content_digest'', PStr (digest P (PDict [(''kind'', PStr (xp_kind x)), (''title'', PStr (xp_title x)),
             (''content'', PStr (xp_content x)), (''tags'', strs (xp_tags x))]))),
          (''excerpt_digest'', PStr (text_digest P quoted))])"

definition hit_citation :: "platform \<Rightarrow> hit \<Rightarrow> string \<Rightarrow> dict" where
  "hit_citation P h quoted = cited P h quoted @ [(''binding_digest'', PStr (digest P (PDict
     (binding_fields (ht_row h) @ opt_entry ''compatibility_digest'' PStr (ht_compatibility h) @ cited P h quoted))))]"

definition attach :: "platform \<Rightarrow> hit \<Rightarrow> nat \<Rightarrow> dict" where
  "attach P h n =
     (let quoted = take n (xp_content (ht_row h))
      in item_head h @ [(''excerpt'', PStr quoted), (''citation'', PDict (hit_citation P h quoted))])"

subsection \<open>The budget\<close>

definition item_size :: "platform \<Rightarrow> bool \<Rightarrow> hit \<Rightarrow> nat \<Rightarrow> int" where
  \<comment> \<open>characters of an item with \<open>n\<close> of its content, and of the comma before it unless it is the first\<close>
  "item_size P first h n = int (length (case dumps P (PDict (attach P h n)) of None \<Rightarrow> [] | Some s \<Rightarrow> s)) + (if first then 0 else 1)"

function fit :: "(int \<Rightarrow> bool) \<Rightarrow> int \<Rightarrow> int \<Rightarrow> int option \<Rightarrow> int option" where
  "fit ok low high fitted =
     (if high < low then fitted
      else let middle = (low + high) div 2
           in if ok middle then fit ok (middle + 1) high (Some middle) else fit ok low (middle - 1) fitted)"
  by pat_completeness auto
termination by (relation "measure (\<lambda>(ok, low, high, fitted). nat (high + 1 - low))") auto

declare fit.simps [simp del]

text \<open>The items so far, as the chosen hits with the length of their excerpts, the characters used, and whether one was shortened.\<close>

fun fill_budget :: "platform \<Rightarrow> int \<Rightarrow> hit list \<Rightarrow> (hit \<times> nat) list \<Rightarrow> int \<Rightarrow> bool \<Rightarrow> (hit \<times> nat) list \<times> int \<times> bool" where
  "fill_budget P budget [] items used clipped = (items, used, clipped)"
| "fill_budget P budget (h # hs) items used clipped =
     (let size = item_size P (items = []) h
      in if used + size 512 \<le> budget then fill_budget P budget hs (items @ [(h, 512)]) (used + size 512) clipped
         else case fit (\<lambda>m. used + size (nat m) \<le> budget) 1 (int (length (take 512 (xp_content (ht_row h))))) None of
             None \<Rightarrow> (items, used, clipped)
           | Some m \<Rightarrow> fill_budget P budget hs (items @ [(h, nat m)]) (used + size (nat m)) True)"

subsection \<open>The operation\<close>

datatype db_answer = Answered | Out_of_time | Unreachable

definition answered :: "db_answer \<Rightarrow> 'a \<Rightarrow> 'a outcome" where
  "answered e rows = (case e of
      Answered \<Rightarrow> Inr rows
    | Out_of_time \<Rightarrow> Inl (exp_error ''Experience search exceeded its time budget; narrow the query'' ''MEM-EXPERIENCE-0006'' 503)
    | Unreachable \<Rightarrow> Inl (exp_error ''Experience retrieval is unavailable'' ''MEM-EXPERIENCE-0011'' 503))"

definition strategy_name :: "bool \<Rightarrow> retrieval_strategy \<Rightarrow> string" where
  "strategy_name sqlite s = (if sqlite then ''sqlite_'' else ''postgres_'')
     @ (case s of Postgres_lexical \<Rightarrow> ''lexical'' | Postgres_weighted_lexical \<Rightarrow> ''weighted_lexical'')"

definition search_answer :: "platform \<Rightarrow> bool \<Rightarrow> retrieval_strategy \<Rightarrow> dict \<Rightarrow> hit list \<Rightarrow> dict" where
  "search_answer P sqlite strat a rows =
     (let (items, used, clipped) = fill_budget P (search_budget a) (take (search_limit a) rows) [] 2 False
      in [(''items'', PList (map (\<lambda>(h, n). PDict (attach P h n)) items)), (''returned'', PInt (int (length items))),
          (''truncated'', PBool (clipped \<or> length items < length rows)), (''result_chars'', PInt used),
          (''max_chars'', PInt (search_budget a)), (''strategy'', PStr (strategy_name sqlite strat)),
          (''usage'', PStr ''reference_only''),
          (''citation_schema_version'', PInt (if nonempty_str (py_get a ''compatibility_digest'') then 2 else 1))])"

definition search_experiences ::
    "unicode \<Rightarrow> platform \<Rightarrow> provider \<Rightarrow> bool \<Rightarrow> retrieval_strategy \<Rightarrow> db_answer \<Rightarrow> time \<Rightarrow> dict \<Rightarrow> xdb \<Rightarrow> dict outcome" where
  "search_experiences U P provider sqlite strat e now a db =
     and_then (search_request U a) (\<lambda>rq.
     and_then (answered e (fetch_rows provider rq now db)) (\<lambda>rows.
       Inr (search_answer P sqlite strat a rows)))"

end
