(* ===== verification/Retrieval_Props.thy ===== *)
theory Retrieval_Props
  imports Retrieval
begin

text \<open>
  What an answer of the search is worth: only visible memories, the best ones first and each
  once, in an answer whose canonical text is counted exactly and never exceeds its budget.
\<close>

subsection \<open>Rows of any provider\<close>

lemma set_defaults_keys: "distinct (map fst (set_defaults es)) \<and> set (set_defaults es) \<subseteq> set es"
proof (induction es)
  case (Cons e es)
  have "distinct (map fst (filter (\<lambda>f. fst f \<noteq> fst e) (set_defaults es)))"
    using Cons by (simp add: distinct_map_filter)
  then show ?case using Cons by auto
qed simp

lemma set_defaults_distinct: "distinct (map fst es) \<Longrightarrow> set_defaults es = es"
  by (induction es) (force simp: filter_id_conv)+

lemma hydratedD:
  assumes "hydrated rq now db e = Some h"
  shows "ht_row h \<in> set (xd_experiences db) \<and> visible rq now db (ht_row h) \<and> xp_id (ht_row h) = fst e"
proof -
  obtain x where "fetchrow (\<lambda>x. xp_id x = fst e \<and> visible rq now db x) (xd_experiences db) = Some x" "ht_row h = x"
    using assms by (auto simp: hydrated_def)
  then show ?thesis using fetchrow_SomeD by fastforce
qed

lemma hydrated_visible:
  assumes "x \<in> set (xd_experiences db)" and "xp_id x = fst e \<and> visible rq now db x"
  shows "\<exists>h. hydrated rq now db e = Some h"
proof -
  have "fetchrow (\<lambda>x. xp_id x = fst e \<and> visible rq now db x) (xd_experiences db) \<noteq> None"
    unfolding fetchrow_None_iff using assms by blast
  then show ?thesis by (auto simp: hydrated_def)
qed

lemma map_filter_distinct:
  assumes "distinct (map f xs)" and "\<And>x y. g x = Some y \<Longrightarrow> k y = f x"
  shows "distinct (map k (List.map_filter g xs))"
proof -
  have "set (map k (List.map_filter g xs)) \<subseteq> f ` set xs" for xs
    using assms(2) by (fastforce simp: List.map_filter_def)
  then show ?thesis
    using assms(1) by (induction xs) (use assms(2) in \<open>fastforce simp: List.map_filter_simps split: option.splits\<close>)+
qed

lemma fetch_rows_sound:
  "distinct (map (\<lambda>h. xp_id (ht_row h)) (fetch_rows provider rq now db))"
  "h \<in> set (fetch_rows provider rq now db) \<Longrightarrow> ht_row h \<in> set (xd_experiences db) \<and> visible rq now db (ht_row h)"
proof -
  show "distinct (map (\<lambda>h. xp_id (ht_row h)) (fetch_rows provider rq now db))"
    unfolding fetch_rows_def finite_scores_def
    by (rule map_filter_distinct [where f = fst]) (use set_defaults_keys hydratedD in blast)+
  show "h \<in> set (fetch_rows provider rq now db) \<Longrightarrow> ht_row h \<in> set (xd_experiences db) \<and> visible rq now db (ht_row h)"
    by (auto simp: fetch_rows_def List.map_filter_def dest: hydratedD)
qed

subsection \<open>Providers that respect the request\<close>

text \<open>
  The interface of a provider: it nominates memories the request may see, each once, with a
  finite score, and no more than asked for. Of such a provider hydration drops nothing.
\<close>

locale compliant_provider =
  fixes provider :: provider
  assumes nominates_visible: "\<lbrakk>distinct (map xp_id (xd_experiences db)); n \<in> set (provider rq now db)\<rbrakk>
      \<Longrightarrow> \<exists>x \<in> set (xd_experiences db). xp_id x = nm_memory_id n \<and> visible rq now db x"
    and nominates_finite: "n \<in> set (provider rq now db) \<Longrightarrow> nm_score n \<noteq> None"
    and nominates_once: "distinct (map xp_id (xd_experiences (db :: xdb))) \<Longrightarrow> distinct (map nm_memory_id (provider rq now db))"
    and nominates_few: "length (provider rq now db) \<le> rq_limit rq"
begin

lemma nominated_scores:
  assumes "distinct (map xp_id (xd_experiences db))"
  shows "finite_scores (take (rq_limit rq) (provider rq now db))
    = map (\<lambda>n. (nm_memory_id n, the (nm_score n))) (provider rq now db)"
proof -
  have all: "List.map_filter (\<lambda>n. map_option (Pair (nm_memory_id n)) (nm_score n)) ns
      = map (\<lambda>n. (nm_memory_id n, the (nm_score n))) ns" if "\<forall>n \<in> set ns. nm_score n \<noteq> None" for ns
    using that by (induction ns) (auto simp: List.map_filter_simps)
  show ?thesis
    using nominates_few [of rq now db] nominates_once [OF assms, of rq now] nominates_finite [of _ rq now db]
    by (simp add: finite_scores_def all set_defaults_distinct comp_def)
qed

lemma nominations_hydrated:
  fixes db :: xdb
  assumes "distinct (map xp_id (xd_experiences db))"
  shows "map (\<lambda>h. xp_id (ht_row h)) (fetch_rows provider rq now db) = map nm_memory_id (provider rq now db)"
proof -
  have kept: "map (\<lambda>h. xp_id (ht_row h)) (List.map_filter (hydrated rq now db) es) = map fst es"
    if "\<forall>e \<in> set es. \<exists>x \<in> set (xd_experiences db). xp_id x = fst e \<and> visible rq now db x" for es
    using that
  proof (induction es)
    case (Cons e es)
    then obtain h where h: "hydrated rq now db e = Some h" using hydrated_visible by fastforce
    show ?case using Cons hydratedD [OF h] by (simp add: List.map_filter_simps h)
  qed (simp add: List.map_filter_simps)
  show ?thesis
    unfolding fetch_rows_def nominated_scores [OF assms]
    using kept [of "map (\<lambda>n. (nm_memory_id n, the (nm_score n))) (provider rq now db)"]
      nominates_visible [OF assms] by (auto simp: comp_def)
qed

end

definition best_matches :: "lexical \<Rightarrow> retrieval_strategy \<Rightarrow> retrieval_request \<Rightarrow> time \<Rightarrow> xdb \<Rightarrow> experience list" where
  "best_matches L strat rq now db = rev (sort_key (lexical_key L strat rq)
     (filter (\<lambda>x. visible rq now db x \<and> lexical_match L rq x) (xd_experiences db)))"

lemma set_best_matches: "set (best_matches L strat rq now db)
    = {x \<in> set (xd_experiences db). visible rq now db x \<and> lexical_match L rq x}"
  by (auto simp: best_matches_def)

lemma lexical_candidates_eq: "lexical_candidates L strat rq now db
    = map (\<lambda>x. \<lparr>nm_memory_id = xp_id x, nm_score = Some (lexical_score L strat rq x)\<rparr>)
        (take (rq_limit rq) (best_matches L strat rq now db))"
  by (simp add: lexical_candidates_def best_matches_def)

lemma best_matches_distinct:
  fixes db :: xdb
  assumes "distinct (map xp_id (xd_experiences db))"
  shows "distinct (map xp_id (best_matches L strat rq now db))"
proof -
  have "distinct (map xp_id (filter (\<lambda>x. visible rq now db x \<and> lexical_match L rq x) (xd_experiences db)))" (is "distinct (map xp_id ?xs)")
    using assms by (rule distinct_map_filter)
  then have "distinct ?xs" "inj_on xp_id (set ?xs)" by (simp_all only: distinct_map)
  then show ?thesis by (simp add: best_matches_def distinct_map)
qed

interpretation lex: compliant_provider "lexical_candidates L strat" for L strat
proof
  fix db :: xdb and n rq now
  assume "n \<in> set (lexical_candidates L strat rq now db)"
  then obtain x where "x \<in> set (best_matches L strat rq now db)" "nm_memory_id n = xp_id x" "nm_score n \<noteq> None"
    by (auto simp: lexical_candidates_eq dest: in_set_takeD)
  then show "\<exists>x \<in> set (xd_experiences db). xp_id x = nm_memory_id n \<and> visible rq now db x" "nm_score n \<noteq> None"
    by (auto simp: set_best_matches)
next
  fix db :: xdb and rq now
  assume "distinct (map xp_id (xd_experiences db))"
  then have "distinct (take (rq_limit rq) (map xp_id (best_matches L strat rq now db)))"
    by (intro distinct_take best_matches_distinct)
  then show "distinct (map nm_memory_id (lexical_candidates L strat rq now db))"
    by (simp add: lexical_candidates_eq comp_def take_map)
qed (simp add: lexical_candidates_eq)

lemma lexical_rows:
  fixes db :: xdb
  assumes "distinct (map xp_id (xd_experiences db))"
  shows "map ht_row (fetch_rows (lexical_candidates L strat) rq now db) = take (rq_limit rq) (best_matches L strat rq now db)"
proof (rule map_inj_on [of xp_id])
  show "map xp_id (map ht_row (fetch_rows (lexical_candidates L strat) rq now db)) = map xp_id (take (rq_limit rq) (best_matches L strat rq now db))"
    using lex.nominations_hydrated [OF assms, of L strat rq now] by (simp add: lexical_candidates_eq comp_def)
  have "set (take (rq_limit rq) (best_matches L strat rq now db)) \<subseteq> set (xd_experiences db)"
    using set_take_subset [of "rq_limit rq" "best_matches L strat rq now db"] by (auto simp: set_best_matches)
  moreover have "set (map ht_row (fetch_rows (lexical_candidates L strat) rq now db)) \<subseteq> set (xd_experiences db)"
    using fetch_rows_sound(2) by auto
  ultimately show "inj_on xp_id (set (map ht_row (fetch_rows (lexical_candidates L strat) rq now db))
      \<union> set (take (rq_limit rq) (best_matches L strat rq now db)))"
    using assms by (auto simp: distinct_map intro: inj_on_subset)
qed

subsection \<open>Lengths of canonical texts\<close>

definition json_size :: "platform \<Rightarrow> pyval \<Rightarrow> nat" where
  "json_size P v = (case dumps P v of None \<Rightarrow> 0 | Some s \<Rightarrow> length s)"

definition entry_size :: "platform \<Rightarrow> string \<times> pyval \<Rightarrow> nat" where
  "entry_size P e = length (json_str (fst e)) + 1 + json_size P (snd e)"

lemma length_join: "length (join [c] xs) = sum_list (map length xs) + (length xs - 1)"
proof (cases xs)
  case (Cons y ys)
  have "length (concat (map ((@) [c]) ys)) = sum_list (map length ys) + length ys" by (induction ys) auto
  then show ?thesis using Cons by (simp add: join_def del: append_Cons append_Nil)
qed (simp add: join_def)

lemma length_render_object:
  "length (render_object ms) = sum_list (map (\<lambda>m. length (json_str (fst m)) + 1 + length (snd m)) ms) + (length ms - 1) + 2"
  by (simp add: render_object_def length_join comp_def render_member_def sum_list_sort_key add.assoc)

lemma dumps_members_Some:
  assumes "\<forall>e \<in> set d. dumps P (snd e) \<noteq> None"
  shows "dumps_members P d = Some (map (\<lambda>e. (fst e, the (dumps P (snd e)))) d)"
  using assms by (induction d) (auto split: option.splits)

lemma json_size_PDict:
  assumes "\<forall>e \<in> set d. dumps P (snd e) \<noteq> None"
  shows "dumps P (PDict d) \<noteq> None \<and> json_size P (PDict d) = sum_list (map (entry_size P) d) + (length d - 1) + 2"
proof -
  have "(\<Sum>e\<leftarrow>d. length (json_str (fst e)) + 1 + length (the (dumps P (snd e)))) = sum_list (map (entry_size P) d)"
    using assms by (intro arg_cong [of _ _ sum_list] map_cong) (auto simp: entry_size_def json_size_def)
  then show ?thesis
    using dumps_members_Some [OF assms] by (simp add: json_size_def length_render_object comp_def)
qed

lemma length_json_str: "length (json_str s) = 2 + sum_list (map (\<lambda>c. length (json_escape_char c)) s)"
  by (simp add: json_str_def length_concat comp_def)

lemma sum_list_ones: "\<forall>x \<in> set xs. f x = 1 \<Longrightarrow> length xs = n \<Longrightarrow> sum_list (map f xs) = (n :: nat)"
  by (induction xs arbitrary: n) auto

text \<open>A digest is 64 hexadecimal digits.\<close>

definition hex_digests :: "platform \<Rightarrow> bool" where
  "hex_digests P \<longleftrightarrow> (\<forall>b. length (sha256 P b) = 64 \<and> set (sha256 P b) \<subseteq> set ''0123456789abcdef'')"

lemma length_json_digest:
  assumes "hex_digests P"
  shows "length (json_str (''sha256:'' @ sha256 P b)) = 73"
proof -
  have plain: "length (json_escape_char c) = 1" if "c \<in> set ''0123456789abcdef''" for c
    using that by (auto simp: json_escape_char_def Let_def)
  have "\<forall>c \<in> set (sha256 P b). length (json_escape_char c) = 1" "length (sha256 P b) = 64"
    using assms plain by (auto simp: hex_digests_def)
  then have "sum_list (map (\<lambda>c. length (json_escape_char c)) (sha256 P b)) = 64"
    by (intro sum_list_ones) auto
  moreover have "sum_list (map (\<lambda>c. length (json_escape_char c)) ''sha256:'') = 7" by (simp add: json_escape_char_def)
  ultimately show ?thesis by (simp add: length_json_str)
qed

subsection \<open>Sizes of items\<close>

lemma head_dumps: "e \<in> set (item_head h) \<Longrightarrow> dumps P (snd e) \<noteq> None"
  by (auto simp: item_head_def binding_fields_def opt_uuid_def opt_entry_def Let_def split: option.splits)

lemma citation_dumps: "e \<in> set (hit_citation P h q) \<Longrightarrow> dumps P (snd e) \<noteq> None"
  by (auto simp: hit_citation_def cited_def Let_def)

lemma attach_size:
  "dumps P (PDict (attach P h n)) \<noteq> None
    \<and> json_size P (PDict (attach P h n)) = sum_list (map (entry_size P) (item_head h)) + length (item_head h) + 3
        + entry_size P (''excerpt'', PStr (take n (xp_content (ht_row h))))
        + entry_size P (''citation'', PDict (hit_citation P h (take n (xp_content (ht_row h)))))"
proof -
  have "\<forall>e \<in> set (attach P h n). dumps P (snd e) \<noteq> None"
    using head_dumps [of _ h P] json_size_PDict [of "hit_citation P h (take n (xp_content (ht_row h)))" P]
      citation_dumps [of _ P h "take n (xp_content (ht_row h))"]
    by (auto simp: attach_def Let_def)
  from json_size_PDict [OF this] show ?thesis by (simp add: attach_def Let_def)
qed

lemma citation_size:
  assumes "hex_digests P"
  shows "json_size P (PDict (hit_citation P h q)) = json_size P (PDict (hit_citation P h r))"
proof -
  have "json_size P (PDict (hit_citation P h q)) = sum_list (map (entry_size P) (hit_citation P h q)) + (length (hit_citation P h q) - 1) + 2"
    for q using json_size_PDict citation_dumps by blast
  then show ?thesis
    using length_json_digest [OF assms]
    by (simp add: hit_citation_def cited_def entry_size_def json_size_def digest_def text_digest_def Let_def)
qed

lemma item_size_eq: "item_size P first h n = int (json_size P (PDict (attach P h n))) + (if first then 0 else 1)"
  by (simp add: item_size_def json_size_def split: option.splits)

lemma item_size_mono:
  assumes "hex_digests P" and "n \<le> m"
  shows "item_size P first h n \<le> item_size P first h m"
proof -
  let ?c = "xp_content (ht_row h)"
  have "take m ?c = take n ?c @ drop n (take m ?c)" using assms(2) by (metis append_take_drop_id min.absorb1 take_take)
  then have "length (json_str (take n ?c)) \<le> length (json_str (take m ?c))"
    by (metis length_json_str map_append sum_list_append le_add1 add.assoc)
  then have "entry_size P (''excerpt'', PStr (take n ?c)) \<le> entry_size P (''excerpt'', PStr (take m ?c))"
    by (simp add: entry_size_def json_size_def)
  moreover have "entry_size P (''citation'', PDict (hit_citation P h (take n ?c))) = entry_size P (''citation'', PDict (hit_citation P h (take m ?c)))"
    using citation_size [OF assms(1)] by (simp add: entry_size_def)
  ultimately show ?thesis using attach_size by (simp add: item_size_eq)
qed

subsection \<open>The search for the longest excerpt\<close>

lemma fit_Some: "fit ok low high fitted = Some m \<Longrightarrow> fitted = Some m \<or> low \<le> m \<and> m \<le> high \<and> ok m"
proof (induction ok low high fitted rule: fit.induct)
  case (1 ok low high fitted)
  show ?case
  proof (cases "high < low")
    case True
    then show ?thesis using "1.prems" by (simp add: fit.simps [of ok low])
  next
    case False
    define k where "k = (low + high) div 2"
    have k: "low \<le> k" "k \<le> high" using False by (auto simp: k_def)
    show ?thesis
    proof (cases "ok k")
      case True
      then have "fit ok (k + 1) high (Some k) = Some m" using "1.prems" False by (simp add: fit.simps [of ok low] k_def Let_def)
      then show ?thesis using "1.IH"(1) [OF False k_def] True k by fastforce
    next
      case no: False
      then have "fit ok low (k - 1) fitted = Some m" using "1.prems" False by (simp add: fit.simps [of ok low] k_def Let_def)
      then show ?thesis using "1.IH"(2) [OF False k_def] no k by fastforce
    qed
  qed
qed

lemma fit_keeps: "fit ok low high (Some x) \<noteq> None"
proof (induction ok low high "Some x" arbitrary: x rule: fit.induct)
  case (1 ok low high)
  show ?case
    using "1"(1) [OF _ refl] "1"(2) [OF _ refl]
    by (cases "high < low"; cases "ok ((low + high) div 2)") (simp_all add: fit.simps [of ok low] Let_def)
qed

lemma fit_greatest:
  assumes "\<And>i j. i \<le> j \<Longrightarrow> ok j \<Longrightarrow> ok i" and "low \<le> k" and "k \<le> high"
    and "\<forall>m. fit ok low high fitted = Some m \<longrightarrow> m < k"
  shows "\<not> ok k"
  using assms
proof (induction ok low high fitted rule: fit.induct)
  case (1 ok low high fitted)
  define j where "j = (low + high) div 2"
  have range: "\<not> high < low" using "1.prems"(2,3) by simp
  show ?case
  proof (cases "ok j")
    case True
    then have eq: "fit ok low high fitted = fit ok (j + 1) high (Some j)" using range by (simp add: fit.simps [of ok low] j_def Let_def)
    obtain m where m: "fit ok (j + 1) high (Some j) = Some m" using fit_keeps by fastforce
    then have "j \<le> m" using fit_Some [OF m] by auto
    then have "j + 1 \<le> k" using "1.prems"(4) m eq by fastforce
    then show ?thesis using "1.IH"(1) [OF range j_def True "1.prems"(1) _ "1.prems"(3)] "1.prems"(4) eq by auto
  next
    case False
    then have eq: "fit ok low high fitted = fit ok low (j - 1) fitted" using range by (simp add: fit.simps [of ok low] j_def Let_def)
    show ?thesis
    proof (cases "j \<le> k")
      case True
      then show ?thesis using False "1.prems"(1) by blast
    next
      case less: False
      then show ?thesis using "1.IH"(2) [OF range j_def False "1.prems"(1) "1.prems"(2)] "1.prems"(4) eq by auto
    qed
  qed
qed

subsection \<open>The answer\<close>

definition shown :: "platform \<Rightarrow> (hit \<times> nat) list \<Rightarrow> pyval" where
  "shown P items = PList (map (\<lambda>(h, n). PDict (attach P h n)) items)"

lemma dumps_list_Some: "\<forall>v \<in> set vs. dumps P v \<noteq> None \<Longrightarrow> dumps_list P vs = Some (map (\<lambda>v. the (dumps P v)) vs)"
  by (induction vs) auto

lemma length_dumps: "dumps P v \<noteq> None \<Longrightarrow> length (the (dumps P v)) = json_size P v"
  by (auto simp: json_size_def)

lemma shown_size: "dumps P (shown P items) \<noteq> None
    \<and> json_size P (shown P items) = 2 + (\<Sum>(h, n)\<leftarrow>items. json_size P (PDict (attach P h n))) + (length items - 1)"
proof -
  let ?vs = "map (\<lambda>(h, n). PDict (attach P h n)) items"
  have all: "\<forall>v \<in> set ?vs. dumps P v \<noteq> None" using attach_size by fastforce
  have "(\<Sum>v\<leftarrow>?vs. length (the (dumps P v))) = (\<Sum>v\<leftarrow>?vs. json_size P v)"
    using all length_dumps by (intro arg_cong [of _ _ sum_list] map_cong) blast+
  moreover have "(\<Sum>v\<leftarrow>?vs. json_size P v) = (\<Sum>(h, n)\<leftarrow>items. json_size P (PDict (attach P h n)))"
    by (induction items) auto
  ultimately show ?thesis
    using dumps_list_Some [OF all] by (simp add: shown_def json_size_def length_join comp_def)
qed

lemma shown_snoc: "int (json_size P (shown P (items @ [(h, n)]))) = int (json_size P (shown P items)) + item_size P (items = []) h n"
  using shown_size [of P items] shown_size [of P "items @ [(h, n)]"] by (cases items) (auto simp: item_size_eq)

text \<open>An item that was shortened is the longest that fits after those before it.\<close>

definition longest_fit :: "platform \<Rightarrow> int \<Rightarrow> (hit \<times> nat) list \<Rightarrow> hit \<times> nat \<Rightarrow> bool" where
  "longest_fit P budget items e \<longleftrightarrow>
     (\<forall>m. snd e < m \<and> m \<le> length (take 512 (xp_content (ht_row (fst e)))) \<longrightarrow>
        budget < int (json_size P (shown P (items @ [(fst e, m)]))))"

definition well_filled :: "platform \<Rightarrow> int \<Rightarrow> hit list \<Rightarrow> (hit \<times> nat) list \<times> int \<times> bool \<Rightarrow> bool" where
  "well_filled P budget rows r = (case r of (items, used, clipped) \<Rightarrow>
     map fst items = take (length items) rows \<and> used = int (json_size P (shown P items)) \<and> used \<le> budget
     \<and> (\<forall>e \<in> set items. snd e \<le> 512) \<and> (clipped \<or> (\<forall>e \<in> set items. snd e = 512))
     \<and> (\<forall>i < length items. longest_fit P budget (take i items) (items ! i)))"

lemma well_filled_snoc:
  assumes "well_filled P budget done' (items, used, clipped)" and "length items = length done'"
    and "used + item_size P (items = []) h n \<le> budget" and "n \<le> 512" and "clipped' \<or> \<not> clipped \<and> n = 512"
    and "longest_fit P budget items (h, n)"
  shows "well_filled P budget (done' @ [h]) (items @ [(h, n)], used + item_size P (items = []) h n, clipped')"
proof -
  have "longest_fit P budget (take i (items @ [(h, n)])) ((items @ [(h, n)]) ! i)" if "i < Suc (length items)" for i
    using that assms(1,6) by (cases "i = length items") (auto simp: well_filled_def nth_append)
  then show ?thesis using assms by (auto simp: well_filled_def shown_snoc)
qed

lemma longest_fit_full: "512 \<le> n \<Longrightarrow> longest_fit P budget items (h, n)"
  by (auto simp: longest_fit_def)

lemma fill_budget_filled:
  assumes "hex_digests P" and "well_filled P budget done' (items, used, clipped)" and "length items = length done'"
  shows "well_filled P budget (done' @ hs) (fill_budget P budget hs items used clipped)"
  using assms(2,3)
proof (induction hs arbitrary: done' items used clipped)
  case Nil
  then show ?case by simp
next
  case (Cons h hs)
  let ?size = "item_size P (items = []) h" and ?top = "int (length (take 512 (xp_content (ht_row h))))"
  let ?ok = "\<lambda>m. used + ?size (nat m) \<le> budget"
  have IH: "well_filled P budget (done' @ h # hs) (fill_budget P budget hs (items @ [(h, n)]) (used + ?size n) c)"
    if "used + ?size n \<le> budget" "n \<le> 512" "c \<or> \<not> clipped \<and> n = 512" "longest_fit P budget items (h, n)" for n c
    using Cons.IH [OF well_filled_snoc [OF Cons.prems that]] Cons.prems(2) by simp
  have used: "used = int (json_size P (shown P items))" using Cons.prems(1) by (simp add: well_filled_def)
  have mono: "?ok i" if "i \<le> j" "?ok j" for i j
    using item_size_mono [OF assms(1), of "nat i" "nat j" "items = []" h] that by linarith
  show ?case
  proof (cases "used + ?size 512 \<le> budget")
    case True
    then show ?thesis using IH [of 512 clipped] longest_fit_full by (simp add: Let_def)
  next
    case big: False
    show ?thesis
    proof (cases "fit ?ok 1 ?top None")
      case None
      then show ?thesis using Cons.prems big by (auto simp: Let_def well_filled_def)
    next
      case (Some m)
      then have m: "1 \<le> m" "m \<le> ?top" "?ok m" using fit_Some [OF Some] by auto
      have "longest_fit P budget items (h, nat m)"
        unfolding longest_fit_def
      proof (intro allI impI)
        fix k assume k: "snd (h, nat m) < k \<and> k \<le> length (take 512 (xp_content (ht_row (fst (h, nat m)))))"
        have "\<not> ?ok (int k)"
          by (rule fit_greatest [of ?ok 1 "int k" ?top None]) (use mono Some k m in auto)
        then show "budget < int (json_size P (shown P (items @ [(fst (h, nat m), k)])))" by (simp add: shown_snoc used)
      qed
      moreover have "nat m \<le> 512" using m by auto
      ultimately show ?thesis using IH [of "nat m" True] m(3) big Some by (simp add: Let_def)
    qed
  qed
qed

text \<open>
  C19. A search answers with what its caller may see, within its budget. For whatever ids the
  provider nominates, the rows behind an answer are memories of the store that the request
  may see, each once; for the lexical providers of the service they are the best matches, one
  more than asked for. The items are a beginning of these rows. The answer counts the
  characters of the JSON text of its items exactly and stays within the requested budget; an
  excerpt was only shortened as far as needed, so that one more character of it would have
  exceeded the budget; and an answer that is not marked as truncated has all rows, complete,
  and with a lexical provider every match there is.
\<close>

theorem search_answer_fits:
  assumes "search_experiences U P provider sqlite strat e now a db = Inr d" and "2 \<le> search_budget a" and "hex_digests P"
  shows "\<exists>rq rows items. search_request U a = Inr rq \<and> rows = fetch_rows provider rq now db
    \<and> distinct (map (\<lambda>h. xp_id (ht_row h)) rows)
    \<and> (\<forall>h \<in> set rows. ht_row h \<in> set (xd_experiences db) \<and> visible rq now db (ht_row h))
    \<and> (provider = lexical_candidates L strat \<and> distinct (map xp_id (xd_experiences db)) \<longrightarrow>
         map ht_row rows = take (search_limit a + 1) (best_matches L strat rq now db)
         \<and> (py_get d ''truncated'' = PBool False \<longrightarrow> map (\<lambda>i. ht_row (fst i)) items = best_matches L strat rq now db))
    \<and> map fst items = take (length items) (take (search_limit a) rows)
    \<and> py_get d ''items'' = shown P items \<and> dumps P (shown P items) \<noteq> None
    \<and> py_get d ''result_chars'' = PInt (int (json_size P (shown P items)))
    \<and> int (json_size P (shown P items)) \<le> search_budget a
    \<and> (\<forall>i < length items. longest_fit P (search_budget a) (take i items) (items ! i))
    \<and> (py_get d ''truncated'' = PBool False \<longrightarrow> map fst items = rows \<and> (\<forall>i \<in> set items. snd i = 512))"
proof -
  obtain rq where rq: "search_request U a = Inr rq" "d = search_answer P sqlite strat a (fetch_rows provider rq now db)"
    using assms(1) by (cases e) (auto simp: search_experiences_def and_then_Inr_iff answered_def)
  define rows where "rows = fetch_rows provider rq now db"
  obtain items used clipped where f: "fill_budget P (search_budget a) (take (search_limit a) rows) [] 2 False = (items, used, clipped)"
    by (metis prod_cases3)
  have "well_filled P (search_budget a) [] ([], 2, False)" using assms(2) by (simp add: well_filled_def shown_def json_size_def join_def)
  from fill_budget_filled [OF assms(3) this, of "take (search_limit a) rows"]
  have w: "well_filled P (search_budget a) (take (search_limit a) rows) (items, used, clipped)" by (simp add: f)
  have d: "py_get d ''items'' = shown P items" "py_get d ''result_chars'' = PInt used"
    "py_get d ''truncated'' = PBool (clipped \<or> length items < length rows)"
    using rq(2) f by (simp_all add: search_answer_def rows_def shown_def py_get_def)
  have short: "length items \<le> length (take (search_limit a) rows)"
    using w by (auto simp: well_filled_def dest: arg_cong [of _ _ length])
  have whole: "map fst items = rows \<and> (\<forall>i \<in> set items. snd i = 512) \<and> length rows \<le> search_limit a" if "py_get d ''truncated'' = PBool False"
    using that w short by (auto simp: d(3) well_filled_def)
  have "rq_limit rq = search_limit a + 1" using rq(1) by (auto simp: search_request_def Let_def)
  then have lex: "map ht_row rows = take (search_limit a + 1) (best_matches L strat rq now db)"
    if "provider = lexical_candidates L strat \<and> distinct (map xp_id (xd_experiences db))"
    using lexical_rows that by (simp add: rows_def)
  have every: "map (\<lambda>i. ht_row (fst i)) items = best_matches L strat rq now db"
    if p: "provider = lexical_candidates L strat \<and> distinct (map xp_id (xd_experiences db))" and t: "py_get d ''truncated'' = PBool False"
  proof -
    have "length (map ht_row rows) \<le> search_limit a" "map ht_row (map fst items) = map ht_row rows" using whole [OF t] by auto
    then show ?thesis using lex [OF p] by (auto simp: comp_def min_def split: if_splits)
  qed
  show ?thesis
    by (intro exI [of _ rq] exI [of _ rows] exI [of _ items])
      (use rq(1) rows_def fetch_rows_sound lex every whole w d shown_size [of P items] in \<open>auto simp: well_filled_def\<close>)
qed

subsection \<open>A concrete search\<close>

definition demo_digests :: platform where
  "demo_digests = \<lparr>sha256 = \<lambda>_. replicate 64 CHR ''0'', float_repr = \<lambda>_. ''0.5'', fromisoformat = \<lambda>_. None, schema_valid = \<lambda>_ _. True\<rparr>"

definition demo_unicode :: unicode where
  "demo_unicode = \<lparr>nfc = id, nfkc = id, folded = id\<rparr>"

definition demo_found :: experience where
  "demo_found = \<lparr>xp_id = 7, xp_project_id = ''p'', xp_source_handoff_id = None, xp_source = [], xp_source_lock_digest = ''l'',
     xp_classification = C_public, xp_kind = ''fact'', xp_title = ''Build'', xp_content = ''run make'', xp_tags = [],
     xp_search_text = ''build run make'', xp_status = X_active, xp_version = 2, xp_created_by = ''ann'', xp_idempotency_key = ''k'',
     xp_submission_digest = ''s'', xp_expires_at = None, xp_created_at = 0, xp_updated_at = 0, xp_source_payload_digest = ''d'',
     xp_content_fingerprint = ''f'', xp_valid_from = None, xp_supersedes_id = None, xp_supersedes_version = None,
     xp_revision_root_id = None, xp_revision_number = 1, xp_is_correction = False\<rparr>"

definition demo_store :: xdb where
  "demo_store = \<lparr>xd_experiences = [demo_found], xd_events = [], xd_suppressions = [], xd_handoffs = []\<rparr>"

definition demo_lexical :: lexical where
  "demo_lexical = \<lparr>lx_match = \<lambda>_ _. False, lx_rank = \<lambda>_ _ _. 1, lx_add = (+)\<rparr>"

definition demo_question :: dict where
  "demo_question = [(''project_id'', PStr ''p''), (''query'', PStr ''make''), (''max_chars'', PInt 1000)]"

lemma demo_asks: "\<exists>rq. search_request demo_unicode demo_question = Inr rq \<and> visible rq 5 demo_store demo_found
    \<and> lexical_match demo_lexical rq demo_found"
proof -
  have q: "py_strip (search_fold demo_unicode (arg_str demo_question ''query'')) = ''make''" by code_simp
  have t: "from_keys (find_words ''make'') = [''make'']" by code_simp
  have m: "search (starts_with ''make'') (xp_search_text demo_found)" by code_simp
  have k: "arg_opt_str demo_question ''kind'' = None" "arg_opt_str demo_question ''source_lock_digest'' = None"
    "arg_opt_str demo_question ''compatibility_digest'' = None" "arg_str demo_question ''project_id'' = ''p''"
    "str_of (get_or demo_question ''max_classification'' (PStr ''internal'')) = ''internal''" by code_simp+
  have f: "xp_project_id demo_found = ''p''" "xp_status demo_found = X_active" "in_validity 5 demo_found" "xp_classification demo_found = C_public"
    by code_simp+
  show ?thesis
    using m by (simp add: search_request_def q t k Let_def checked_def visible_def f lexical_match_def demo_lexical_def del: find_words.simps)
      (simp add: less_eq_classification_def)
qed

theorem search_answer_fits_witness:
  "\<exists>d items. search_experiences demo_unicode demo_digests (lexical_candidates demo_lexical Postgres_lexical) False Postgres_lexical Answered 5
       demo_question demo_store = Inr d
    \<and> py_get d ''items'' = shown demo_digests items \<and> int (json_size demo_digests (shown demo_digests items)) \<le> 1000
    \<and> (py_get d ''truncated'' = PBool False \<longrightarrow> map (\<lambda>i. ht_row (fst i)) items = [demo_found])"
proof -
  obtain rq where rq: "search_request demo_unicode demo_question = Inr rq" "visible rq 5 demo_store demo_found"
    "lexical_match demo_lexical rq demo_found" using demo_asks by blast
  obtain d where d: "search_experiences demo_unicode demo_digests (lexical_candidates demo_lexical Postgres_lexical) False Postgres_lexical Answered 5
      demo_question demo_store = Inr d" by (simp add: search_experiences_def rq(1) answered_def)
  have b: "search_budget demo_question = 1000" by code_simp
  have h: "hex_digests demo_digests" by (simp add: hex_digests_def demo_digests_def)
  have m: "best_matches demo_lexical Postgres_lexical rq 5 demo_store = [demo_found]"
    using rq(2,3) by (simp add: best_matches_def demo_store_def)
  have u: "distinct (map xp_id (xd_experiences demo_store))" by (simp add: demo_store_def)
  show ?thesis using search_answer_fits [where L = demo_lexical, OF d _ h] d b m u rq(1) by auto
qed

end
