(* ===== verification/Continuity_Reads.thy ===== *)
theory Continuity_Reads
  imports Continuity_Work Presence_Reads
begin

text \<open>
  The read-only views of the continuity service: the collaboration overview with its four
  lists (continuity/overview.py), and the status and listings of continuity/reads.py. They
  order rows by the columns \<open>created_at\<close> and \<open>updated_at\<close>, which no other operation
  reads and the tables of the model leave out: \<open>stamps\<close> gives them, and the id of an audit
  event. The time budget of a read transaction is left out.
\<close>

record stamps =
  st_bundle :: "string \<Rightarrow> time"
  st_delivery :: "string \<Rightarrow> time"
  st_unit :: "string \<Rightarrow> time"
  st_event :: "audit_event \<Rightarrow> time \<times> uuid"

subsection \<open>The scope of a request\<close>

definition VIEW_NAMES :: "string list" where
  "VIEW_NAMES = [''work'', ''inbox'', ''sent'', ''checkpoints'']"

definition COUNT_LIMIT :: nat where "COUNT_LIMIT = 10000"

record collab_scope =
  cs_kind :: string
  cs_max_classification :: string
  cs_include_inactive :: bool
  cs_include_acknowledged :: bool

definition request_scope :: "dict \<Rightarrow> principal \<Rightarrow> collab_scope outcome" where
  "request_scope a p =
     (let kind = str_of (get_or a ''scope'' (PStr ''mine''))
      in checked [(kind = ''project'' \<and> \<not> is_admin p,
           cont_fail ''Project overview requires admin authority'' ''MEM-COLLABORATION-0001'' 403)]
         \<lparr>cs_kind = kind, cs_max_classification = str_of (get_or a ''max_classification'' (PStr ''internal'')),
          cs_include_inactive = truthy (get_or a ''include_inactive'' (PBool False)),
          cs_include_acknowledged = truthy (get_or a ''include_acknowledged'' (PBool False))\<rparr>)"

text \<open>The parameters every query gets.\<close>

record collab_params =
  cp_project :: string
  cp_actor :: string
  cp_all_users :: bool
  cp_levels :: "classification list"
  cp_now :: time
  cp_inactive :: bool
  cp_acknowledged :: bool

definition query_parameters :: "dict \<Rightarrow> principal \<Rightarrow> collab_scope \<Rightarrow> time \<Rightarrow> collab_params" where
  "query_parameters a p scope now =
     \<lparr>cp_project = arg_str a ''project_id'', cp_actor = p_user_id p, cp_all_users = (cs_kind scope = ''project''),
      cp_levels = levels_upto (class_of (cs_max_classification scope)), cp_now = now,
      cp_inactive = cs_include_inactive scope, cp_acknowledged = cs_include_acknowledged scope\<rparr>"

definition cursor_scope :: "dict \<Rightarrow> principal \<Rightarrow> collab_scope \<Rightarrow> string \<Rightarrow> string list" where
  "cursor_scope a p scope view =
     [''collaboration-v1'', arg_str a ''project_id'', p_user_id p, join '','' (sort (remdups (p_scopes p))), py_bool (p_local p), view,
      cs_kind scope, cs_max_classification scope, py_bool (cs_include_inactive scope), py_bool (cs_include_acknowledged scope)]"

subsection \<open>The queries\<close>

datatype collab_row =
    Sent_row cont_bundle
  | Inbox_row delivery cont_bundle
  | Work_row work_unit cont_bundle
  | Checkpoint_row checkpoint

definition bundle_shown :: "collab_params \<Rightarrow> cont_bundle \<Rightarrow> bool" where
  \<comment> \<open>\<open>BUNDLE_FILTER\<close>\<close>
  "bundle_shown r b \<longleftrightarrow> bn_project_id b = cp_project r \<and> bn_classification b \<in> set (cp_levels r)
     \<and> (cp_inactive r \<or> bn_revoked_at b = None \<and> cp_now r < bn_expires_at b)"

definition bundle_of :: "string \<Rightarrow> string \<Rightarrow> cdb \<Rightarrow> cont_bundle option" where
  \<comment> \<open>the join on id and project\<close>
  "bundle_of i project db = fetchrow (\<lambda>b. bn_id b = i \<and> bn_project_id b = project) (cd_bundles db)"

definition sent_rows :: "collab_params \<Rightarrow> cdb \<Rightarrow> collab_row list" where
  "sent_rows r db =
     map Sent_row (filter (\<lambda>b. bundle_shown r b \<and> (cp_all_users r \<or> bn_from_user b = cp_actor r)) (cd_bundles db))"

definition inbox_shown :: "collab_params \<Rightarrow> delivery \<Rightarrow> cont_bundle \<Rightarrow> bool" where
  "inbox_shown r d b \<longleftrightarrow> bundle_shown r b
     \<and> (cp_all_users r \<or> dl_recipient_user_id d = cp_actor r \<and> dl_revoked_at d = None)
     \<and> (cp_inactive r \<or> dl_revoked_at d = None) \<and> (cp_acknowledged r \<or> dl_acknowledged_at d = None)"

definition delivered_rows :: "collab_params \<Rightarrow> cdb \<Rightarrow> collab_row list" where
  "delivered_rows r db = List.map_filter (\<lambda>d. case bundle_of (dl_bundle_id d) (dl_project_id d) db of
       Some b \<Rightarrow> if inbox_shown r d b then Some (Inbox_row d b) else None | None \<Rightarrow> None) (cd_deliveries db)"

definition takes_part :: "string \<Rightarrow> cont_bundle \<Rightarrow> cdb \<Rightarrow> bool" where
  \<comment> \<open>the user sent the bundle or has a delivery of it\<close>
  "takes_part user b db \<longleftrightarrow> bn_from_user b = user
     \<or> exists_row (\<lambda>d. dl_bundle_id d = bn_id b \<and> dl_project_id d = bn_project_id b
         \<and> dl_recipient_user_id d = user \<and> dl_revoked_at d = None) (cd_deliveries db)"

definition work_rows :: "collab_params \<Rightarrow> cdb \<Rightarrow> collab_row list" where
  "work_rows r db = List.map_filter (\<lambda>u. case bundle_of (wu_bundle_id u) (wu_project_id u) db of
       Some b \<Rightarrow> if bundle_shown r b \<and> (cp_all_users r \<or> takes_part (cp_actor r) b db) then Some (Work_row u b) else None
     | None \<Rightarrow> None) (cd_units db)"

definition checkpoint_rows :: "collab_params \<Rightarrow> cdb \<Rightarrow> collab_row list" where
  "checkpoint_rows r db = map Checkpoint_row (filter (\<lambda>c. ck_project_id c = cp_project r
     \<and> (cp_all_users r \<or> ck_from_user c = cp_actor r) \<and> ck_classification c \<in> set (cp_levels r)
     \<and> (cp_inactive r \<or> ck_forgotten_at c = None \<and> cp_now r < ck_expires_at c)) (cd_checkpoints db))"

definition view_rows :: "string \<Rightarrow> collab_params \<Rightarrow> cdb \<Rightarrow> collab_row list" where
  "view_rows view r db =
     (if view = ''sent'' then sent_rows r db else if view = ''inbox'' then delivered_rows r db
      else if view = ''work'' then work_rows r db else checkpoint_rows r db)"

subsection \<open>The columns of a row\<close>

fun row_key :: "stamps \<Rightarrow> collab_row \<Rightarrow> time \<times> uuid" where
  "row_key S (Sent_row b) = (st_bundle S (bn_id b), uuid_of (bn_id b))"
| "row_key S (Inbox_row d b) = (st_delivery S (dl_id d), uuid_of (dl_id d))"
| "row_key S (Work_row u b) = (st_unit S (wu_id u), uuid_of (wu_id u))"
| "row_key S (Checkpoint_row c) = (ck_created_at c, uuid_of (ck_id c))"

fun unit_state_str :: "unit_state \<Rightarrow> string" where
  "unit_state_str U_available = ''available''"
| "unit_state_str U_claimed = ''claimed''"
| "unit_state_str U_completed = ''completed''"
| "unit_state_str U_cancelled = ''cancelled''"

definition bundle_state :: "time \<Rightarrow> cont_bundle \<Rightarrow> string \<Rightarrow> string" where
  \<comment> \<open>what stands before the state of a row with a bundle\<close>
  "bundle_state now b state =
     (if bn_revoked_at b \<noteq> None then ''revoked'' else if bn_expires_at b \<le> now then ''expired'' else state)"

definition lease_over :: "time \<Rightarrow> work_unit \<Rightarrow> bool" where
  "lease_over now u \<longleftrightarrow> upto (wu_lease_expires_at u) now"

fun effective_state :: "time \<Rightarrow> collab_row \<Rightarrow> string" where
  "effective_state now (Sent_row b) = bundle_state now b ''retained''"
| "effective_state now (Inbox_row d b) =
     (if dl_revoked_at d \<noteq> None then ''revoked''
      else bundle_state now b (if dl_acknowledged_at d \<noteq> None then ''acknowledged'' else ''pending''))"
| "effective_state now (Work_row u b) =
     bundle_state now b (if wu_state u = U_claimed \<and> lease_over now u then ''lease_expired'' else unit_state_str (wu_state u))"
| "effective_state now (Checkpoint_row c) =
     (if ck_forgotten_at c \<noteq> None then ''forgotten'' else if ck_expires_at c \<le> now then ''expired'' else ''retained'')"

definition ownership :: "time \<Rightarrow> work_unit \<Rightarrow> cont_bundle \<Rightarrow> string" where
  "ownership now u b =
     (if bn_revoked_at b \<noteq> None \<or> bn_expires_at b \<le> now then ''unavailable''
      else if wu_state u \<noteq> U_claimed then ''none'' else if lease_over now u then ''expired'' else ''valid'')"

definition bundle_columns :: "cont_bundle \<Rightarrow> dict" where
  "bundle_columns b = [(''from_user'', PStr (bn_from_user b)), (''classification'', PStr (class_str (bn_classification b))),
     (''expires_at'', PTime (bn_expires_at b))]"

fun row_columns :: "stamps \<Rightarrow> collab_row \<Rightarrow> dict" where
  "row_columns S (Sent_row b) =
     [(''id'', PStr (bn_id b)), (''project_id'', PStr (bn_project_id b)), (''created_at'', PTime (st_bundle S (bn_id b))),
      (''created_by'', PStr (bn_created_by b)), (''version'', PInt (int (bn_version b))),
      (''policy_version'', PInt (int (bn_policy_version b))), (''source_checkpoint_id'', opt_str (bn_source_checkpoint_id b)),
      (''source_handoff_id'', opt_str (bn_source_handoff_id b)), (''source_digest'', PStr (bn_source_digest b)),
      (''revoked_at'', opt_time (bn_revoked_at b))] @ bundle_columns b"
| "row_columns S (Inbox_row d b) =
     [(''id'', PStr (dl_id d)), (''project_id'', PStr (dl_project_id d)), (''created_at'', PTime (st_delivery S (dl_id d))),
      (''bundle_id'', PStr (dl_bundle_id d)), (''recipient_user_id'', PStr (dl_recipient_user_id d)),
      (''routing_version'', PInt (int (dl_routing_version d))), (''acknowledged_at'', opt_time (dl_acknowledged_at d)),
      (''revoked_at'', opt_time (dl_revoked_at d)), (''source_digest'', PStr (bn_source_digest b)),
      (''current_routing_version'', PInt (int (bn_version b)))] @ bundle_columns b"
| "row_columns S (Work_row u b) =
     [(''id'', PStr (wu_id u)), (''project_id'', PStr (wu_project_id u)), (''created_at'', PTime (st_unit S (wu_id u))),
      (''updated_at'', PTime (st_unit S (wu_id u))), (''bundle_id'', PStr (wu_bundle_id u)), (''unit_key'', PStr (wu_unit_key u)),
      (''summary'', PStr (wu_summary u)), (''assignee_user_ids'', strs (wu_assignee_user_ids u)),
      (''state'', PStr (unit_state_str (wu_state u))), (''claimed_by'', opt_str (wu_claimed_by u)),
      (''claim_generation'', PInt (int (wu_claim_generation u))), (''lease_expires_at'', opt_time (wu_lease_expires_at u)),
      (''routing_version'', PInt (int (bn_version b))), (''execution_state'', PStr ''unobserved'')] @ bundle_columns b"
| "row_columns S (Checkpoint_row c) =
     [(''id'', PStr (ck_id c)), (''project_id'', PStr (ck_project_id c)), (''created_at'', PTime (ck_created_at c)),
      (''work_id'', PStr (ck_work_id c)), (''from_user'', PStr (ck_from_user c)), (''version'', PInt (int (ck_version c))),
      (''classification'', PStr (class_str (ck_classification c))), (''lock_snapshot_digest'', PStr (ck_lock_snapshot_digest c)),
      (''continuation_digest'', PStr (ck_continuation_digest c)), (''snapshot_digest'', opt_str (ck_snapshot_digest c)),
      (''payload_digest'', PStr (ck_payload_digest c)), (''policy_version'', PInt (int (ck_policy_version c))),
      (''expires_at'', PTime (ck_expires_at c)), (''forgotten_at'', opt_time (ck_forgotten_at c))]"

definition row_dict :: "stamps \<Rightarrow> time \<Rightarrow> collab_row \<Rightarrow> dict" where
  "row_dict S now x = row_columns S x @ [(''effective_state'', PStr (effective_state now x))]
     @ (case x of Work_row u b \<Rightarrow> [(''ownership'', PStr (ownership now u b))] | _ \<Rightarrow> [])"

subsection \<open>The overview\<close>

definition count_view :: "collab_row list \<Rightarrow> dict" where
  "count_view rows =
     (let n = min (length rows) (COUNT_LIMIT + 1); whole = (n \<le> COUNT_LIMIT)
      in [(''value'', if whole then PInt (int n) else PNone), (''lower_bound'', PInt (int (min n COUNT_LIMIT))),
          (''coverage'', PStr (if whole then ''complete'' else ''partial''))])"

definition scope_dict :: "collab_scope \<Rightarrow> dict" where
  "scope_dict s = [(''kind'', PStr (cs_kind s)), (''max_classification'', PStr (cs_max_classification s)),
     (''include_inactive'', PBool (cs_include_inactive s)), (''include_acknowledged'', PBool (cs_include_acknowledged s))]"

definition collab_envelope :: "dict \<Rightarrow> principal \<Rightarrow> collab_scope \<Rightarrow> time \<Rightarrow> dict" where
  "collab_envelope a p scope now =
     [(''contract_version'', PInt 1), (''project_id'', py_get a ''project_id''), (''actor_id'', PStr (p_user_id p)),
      (''scope'', PDict (scope_dict scope)), (''observed_at'', PTime now), (''cache_policy'', PStr ''no_store''),
      (''consistency'', PStr ''snapshot_per_response_live_pagination'')]"

definition EXPOSED_SCOPES :: "(string \<times> string) list" where
  "EXPOSED_SCOPES = CONTINUITY_SCOPES @ map (\<lambda>n. (n, the (map_of TOOL_SCOPES n)))
     [''memory_search'', ''memory_read'', ''memory_experience_list'', ''memory_experience_review'']"

definition allowed_tools :: "principal \<Rightarrow> string list" where
  "allowed_tools p = sort (map fst (filter (\<lambda>(n, required). is_admin p \<or> required \<in> set (p_scopes p)) EXPOSED_SCOPES))"

definition telemetry :: dict where
  "telemetry = map (\<lambda>k. (k, PDict [(''status'', PStr ''separate_query''),
       (''reason'', PStr (if k \<noteq> ''token_usage'' then ''use_presence_tools'' else ''use_usage_tools'')), (''value'', PNone)]))
     [''presence'', ''idle'', ''token_usage'']"

definition CAPABILITIES :: dict where
  "CAPABILITIES = map (\<lambda>k. (k, PBool True)) [''overview'', ''lists'', ''presence'', ''idle'', ''token_usage'']"

definition continuity_policy_dict :: "string \<Rightarrow> cdb \<Rightarrow> dict" where
  "continuity_policy_dict project db =
     (case policy_of project (cd_policies db) of
        None \<Rightarrow> [(''configured'', PBool False), (''version'', PInt 0), (''enabled'', PBool False)]
      | Some r \<Rightarrow> [(''configured'', PBool True), (''version'', PInt (int (pr_version r))),
          (''enabled'', PBool (py_get (pr_policy r) ''enabled'' \<in> {PBool True, PStr ''true''}))])"

definition collaboration_overview :: "time \<Rightarrow> principal \<Rightarrow> dict \<Rightarrow> cdb \<Rightarrow> dict outcome" where
  "collaboration_overview now p a db =
     and_then (authorize_tool p ''memory_collaboration_overview'' (arg_opt_str a ''project_id'')) (\<lambda>_.
     and_then (request_scope a p) (\<lambda>scope.
       let r = query_parameters a p scope now;
           counts = map (\<lambda>v. (v, PDict (count_view (view_rows v r db)))) VIEW_NAMES
       in Inr (collab_envelope a p scope now @
         [(''coverage'', PStr (if list_all (\<lambda>v. length (view_rows v r db) \<le> COUNT_LIMIT) VIEW_NAMES then ''complete'' else ''partial'')),
          (''capabilities'', PDict CAPABILITIES),
          (''identity'', PDict [(''user_id'', PStr (p_user_id p)), (''project_admin'', PBool (is_admin p)), (''local'', PBool (p_local p))]),
          (''allowed_tools'', strs (allowed_tools p)), (''counts'', PDict counts),
          (''continuity_policy'', PDict (continuity_policy_dict (arg_str a ''project_id'') db)), (''telemetry'', PDict telemetry)])))"

definition collaboration_page :: "stamps \<Rightarrow> time \<Rightarrow> principal \<Rightarrow> dict \<Rightarrow> cursor option \<Rightarrow> cdb \<Rightarrow> (collab_scope \<times> collab_row page) outcome" where
  "collaboration_page S now p a c db =
     and_then (authorize_tool p ''memory_collaboration_list'' (arg_opt_str a ''project_id'')) (\<lambda>_.
     and_then (request_scope a p) (\<lambda>scope.
     and_then (keyset_page (row_key S) (cursor_scope a p scope (arg_str a ''view'')) c (page_limit a)
         (view_rows (arg_str a ''view'') (query_parameters a p scope now) db)) (\<lambda>pg. Inr (scope, pg))))"

definition collaboration_list :: "stamps \<Rightarrow> time \<Rightarrow> principal \<Rightarrow> dict \<Rightarrow> cursor option \<Rightarrow> cdb \<Rightarrow> (dict \<times> dict page) outcome" where
  \<comment> \<open>the envelope and the page\<close>
  "collaboration_list S now p a c db =
     and_then (collaboration_page S now p a c db) (\<lambda>(scope, pg).
       Inr (collab_envelope a p scope now @ [(''view'', py_get a ''view''), (''coverage'', PStr ''page'')],
            map_page (row_dict S now) pg))"

subsection \<open>Status and listings\<close>

definition delivery_columns :: "stamps \<Rightarrow> delivery \<Rightarrow> dict" where
  "delivery_columns S d =
     [(''id'', PStr (dl_id d)), (''recipient_user_id'', PStr (dl_recipient_user_id d)),
      (''routing_version'', PInt (int (dl_routing_version d))), (''acknowledged_at'', opt_time (dl_acknowledged_at d)),
      (''revoked_at'', opt_time (dl_revoked_at d)), (''created_at'', PTime (st_delivery S (dl_id d)))]"

definition unit_columns :: "stamps \<Rightarrow> work_unit \<Rightarrow> dict" where
  "unit_columns S u =
     [(''id'', PStr (wu_id u)), (''unit_key'', PStr (wu_unit_key u)), (''summary'', PStr (wu_summary u)),
      (''assignee_user_ids'', strs (wu_assignee_user_ids u)), (''state'', PStr (unit_state_str (wu_state u))),
      (''claimed_by'', opt_str (wu_claimed_by u)), (''claim_generation'', PInt (int (wu_claim_generation u))),
      (''lease_expires_at'', opt_time (wu_lease_expires_at u)), (''updated_at'', PTime (st_unit S (wu_id u)))]"

definition recent_deliveries :: "stamps \<Rightarrow> string \<Rightarrow> cdb \<Rightarrow> delivery list" where
  \<comment> \<open>those that are not revoked first, the newest of each first, at most 129\<close>
  "recent_deliveries S i db = take 129 (rev (sort_key (\<lambda>d. (dl_revoked_at d = None, st_delivery S (dl_id d), uuid_of (dl_id d)))
     (filter (\<lambda>d. dl_bundle_id d = i) (cd_deliveries db))))"

definition continuity_status :: "stamps \<Rightarrow> clock \<Rightarrow> principal \<Rightarrow> dict \<Rightarrow> cdb \<Rightarrow> dict outcome" where
  "continuity_status S clk p a db =
     and_then (bundle_row (clk 0) (arg_str a ''project_id'') (arg_str a ''bundle_id'') False db) (\<lambda>parent.
       let rows = recent_deliveries S (bn_id parent) db; current = filter (\<lambda>d. dl_revoked_at d = None) rows
       in checked
         [(\<not> (is_admin p \<or> bn_from_user parent = p_user_id p \<or> list_ex (\<lambda>d. dl_recipient_user_id d = p_user_id p) current), out_of_scope),
          (over_ceiling (bn_classification parent) a, out_of_scope)]
         [(''bundle'', PDict (row_columns S (Sent_row parent))),
          (''deliveries'', PList (map (\<lambda>d. PDict (delivery_columns S d)) (take 128 rows))),
          (''delivery_history_truncated'', PBool (128 < length rows)),
          (''units'', PList (map (\<lambda>u. PDict (unit_columns S u)) (sort_key wu_unit_key (filter (\<lambda>u. wu_bundle_id u = bn_id parent) (cd_units db))))),
          (''intake'', PDict [(''total'', PInt (int (length current))),
             (''acknowledged'', PInt (int (length (filter (\<lambda>d. dl_acknowledged_at d \<noteq> None) current))))]),
          (''observed_at'', PTime (clk 1)), (''cache_policy'', PStr ''no_store'')])"

definition listing_scope :: "dict \<Rightarrow> principal \<Rightarrow> string \<Rightarrow> string list" where
  "listing_scope a p view =
     [''continuity-'' @ view, arg_str a ''project_id'', p_user_id p, py_bool (is_admin p), arg_str a ''from_user_id'',
      arg_str a ''work_id'', arg_str a ''target_id'', str_of (get_or a ''max_classification'' (PStr ''internal'')),
      py_bool (truthy (get_or a ''include_acknowledged'' (PBool False)))]"

definition checkpoint_list :: "principal \<Rightarrow> dict \<Rightarrow> cursor option \<Rightarrow> cdb \<Rightarrow> checkpoint page outcome" where
  "checkpoint_list p a c db =
     (let scope = listing_scope a p ''checkpoints'';
          actor = (if is_admin p then arg_opt_str a ''from_user_id'' else Some (p_user_id p))
      in and_then (decode_cursor c scope) (\<lambda>pos.
         if \<not> is_admin p \<and> get_or a ''from_user_id'' (PStr (p_user_id p)) \<noteq> PStr (p_user_id p) then Inl out_of_scope
         else Inr (page (\<lambda>k. (ck_created_at k, uuid_of (ck_id k)))
           (keyset_rows (\<lambda>k. (ck_created_at k, uuid_of (ck_id k))) pos (page_limit a)
             (filter (\<lambda>k. ck_project_id k = arg_str a ''project_id'' \<and> (actor = None \<or> actor = Some (ck_from_user k))
                \<and> (case arg_opt_str a ''work_id'' of None \<Rightarrow> True | Some w \<Rightarrow> ck_work_id k = w)) (cd_checkpoints db)))
           (page_limit a) scope)))"

definition delivered_to :: "time \<Rightarrow> principal \<Rightarrow> dict \<Rightarrow> delivery \<Rightarrow> cont_bundle \<Rightarrow> bool" where
  "delivered_to now p a d b \<longleftrightarrow> dl_project_id d = arg_str a ''project_id'' \<and> dl_recipient_user_id d = p_user_id p
     \<and> dl_revoked_at d = None \<and> bn_revoked_at b = None \<and> now < bn_expires_at b
     \<and> (dl_acknowledged_at d = None \<or> truthy (get_or a ''include_acknowledged'' (PBool False)))
     \<and> bn_classification b \<in> set (levels_upto (max_classification a))"

definition continuity_inbox :: "stamps \<Rightarrow> time \<Rightarrow> principal \<Rightarrow> dict \<Rightarrow> cursor option \<Rightarrow> cdb \<Rightarrow> (delivery \<times> cont_bundle) page outcome" where
  "continuity_inbox S now p a c db =
     keyset_page (\<lambda>x. (st_delivery S (dl_id (fst x)), uuid_of (dl_id (fst x)))) (listing_scope a p ''inbox'') c (page_limit a)
       (List.map_filter (\<lambda>d. case fetchrow (\<lambda>b. bn_id b = dl_bundle_id d) (cd_bundles db) of
          Some b \<Rightarrow> if delivered_to now p a d b then Some (d, b) else None | None \<Rightarrow> None) (cd_deliveries db))"

definition continuity_history :: "stamps \<Rightarrow> principal \<Rightarrow> dict \<Rightarrow> cursor option \<Rightarrow> cdb \<Rightarrow> audit_event page outcome" where
  "continuity_history S p a c db =
     keyset_page (st_event S) (listing_scope a p ''history'') c (page_limit a)
       (filter (\<lambda>e. ae_project_id e = arg_str a ''project_id''
          \<and> (case arg_opt_str a ''target_id'' of None \<Rightarrow> True | Some t \<Rightarrow> ae_target_id e = t)) (cd_audit db))"

definition continuity_members :: "(string \<Rightarrow> uuid) \<Rightarrow> (string \<Rightarrow> time) \<Rightarrow> principal \<Rightarrow> dict \<Rightarrow> cursor option \<Rightarrow> cdb \<Rightarrow> dict page outcome" where
  \<comment> \<open>\<open>md5\<close> and the first time a user was a member are columns of the query\<close>
  "continuity_members md5 since p a c db =
     and_then (keyset_page (\<lambda>u. (since u, md5 u)) [''continuity-members'', arg_str a ''project_id'', p_user_id p] c (page_limit a)
         (map snd (filter (\<lambda>m. fst m = arg_str a ''project_id'') (cd_members db)))) (\<lambda>pg.
       Inr (map_page (\<lambda>u. [(''user_id'', PStr u)]) pg))"

end
