(* ===== verification/Continuity_Reads_Props.thy ===== *)
theory Continuity_Reads_Props
  imports Continuity_Reads Continuity_Witness
begin

text \<open>
  The overview tells its caller the truth: the tools it names are those the caller may use,
  and its counts are the numbers of rows the lists deliver.
\<close>

subsection \<open>Tools\<close>

definition topic_tag :: "string \<Rightarrow> string" where
  "topic_tag n = take 4 (drop 7 n)"

definition CONTINUITY_TAGS :: "string list" where
  "CONTINUITY_TAGS = [''cont'', ''chec'', ''coll'', ''pres'', ''usag'']"

lemma continuity_tags: "\<forall>e \<in> set CONTINUITY_SCOPES. topic_tag (fst e) \<in> set CONTINUITY_TAGS"
  by (simp add: CONTINUITY_SCOPES_def PRESENCE_SCOPES_def USAGE_SCOPES_def with_scope_def topic_tag_def CONTINUITY_TAGS_def)

lemma other_tags: "\<forall>e \<in> set (REPO_SCOPES @ BASE_SCOPES @ TEAM_SCOPES @ COLLABORATION_SCOPES). topic_tag (fst e) \<notin> set CONTINUITY_TAGS"
  by (simp add: REPO_SCOPES_def BASE_SCOPES_def TEAM_SCOPES_def COLLABORATION_SCOPES_def with_scope_def topic_tag_def CONTINUITY_TAGS_def)

lemma continuity_distinct: "distinct (map fst CONTINUITY_SCOPES)"
  by (simp add: CONTINUITY_SCOPES_def PRESENCE_SCOPES_def USAGE_SCOPES_def with_scope_def)

lemma map_of_append_right: "k \<notin> fst ` set xs \<Longrightarrow> map_of (xs @ ys) k = map_of ys k"
  by (simp add: map_add_def map_of_eq_None_iff [THEN iffD2] split: option.splits)

lemma continuity_scope:
  assumes "(n, required) \<in> set CONTINUITY_SCOPES"
  shows "map_of TOOL_SCOPES n = Some required"
proof -
  let ?others = "REPO_SCOPES @ BASE_SCOPES @ TEAM_SCOPES @ COLLABORATION_SCOPES"
  have "n \<notin> fst ` set ?others" using bspec [OF continuity_tags assms] other_tags by fastforce
  then have "map_of (?others @ CONTINUITY_SCOPES @ PROJECT_SCOPES @ RECORD_SCOPES) n = map_of (CONTINUITY_SCOPES @ PROJECT_SCOPES @ RECORD_SCOPES) n"
    by (rule map_of_append_right)
  moreover have "map_of CONTINUITY_SCOPES n = Some required" using continuity_distinct assms by simp
  ultimately show ?thesis by (simp add: TOOL_SCOPES_def map_add_def)
qed

lemma experience_scope:
  "n \<in> set [''memory_search'', ''memory_read'', ''memory_experience_list'', ''memory_experience_review''] \<Longrightarrow> n \<in> fst ` set BASE_SCOPES"
  by (auto simp: BASE_SCOPES_def)

lemma exposed_tools:
  assumes "(n, required) \<in> set EXPOSED_SCOPES"
  shows "map_of TOOL_SCOPES n = Some required \<and> n \<in> set PROJECT_SCOPED_TOOLS"
proof (cases "(n, required) \<in> set CONTINUITY_SCOPES")
  case True
  then have "n \<in> fst ` set CONTINUITY_SCOPES" by (rule image_eqI [rotated]) simp
  then show ?thesis using continuity_scope [OF True] by (simp add: PROJECT_SCOPED_TOOLS_def)
next
  case False
  then have n: "n \<in> set [''memory_search'', ''memory_read'', ''memory_experience_list'', ''memory_experience_review'']"
    and r: "required = the (map_of TOOL_SCOPES n)" using assms by (auto simp: EXPOSED_SCOPES_def)
  have base: "n \<in> fst ` set BASE_SCOPES" by (rule experience_scope [OF n])
  then have "n \<in> fst ` set TOOL_SCOPES" by (simp add: TOOL_SCOPES_def image_Un)
  then have "map_of TOOL_SCOPES n \<noteq> None" by (simp add: map_of_eq_None_iff)
  then show ?thesis using base r by (auto simp: PROJECT_SCOPED_TOOLS_def)
qed

lemma collaboration_tools:
  "(''memory_collaboration_overview'', ''read'') \<in> set EXPOSED_SCOPES" "(''memory_collaboration_list'', ''read'') \<in> set EXPOSED_SCOPES"
  by (simp_all add: EXPOSED_SCOPES_def CONTINUITY_SCOPES_def with_scope_def)

lemma authorize_exposed:
  assumes "(n, required) \<in> set EXPOSED_SCOPES"
  shows "authorize_tool p n project = Inr () \<longleftrightarrow> (is_admin p \<or> required \<in> set (p_scopes p))
    \<and> (p_local p \<or> (\<exists>q. q \<noteq> [] \<and> project = Some q \<and> p_project_id p = Some q))"
  using exposed_tools [OF assms] by (auto simp: authorize_tool_Inr_iff is_admin_def)

lemma allowed_tools_exact:
  assumes "authorize_tool p ''memory_collaboration_overview'' project = Inr ()"
  shows "set (allowed_tools p) = {n \<in> set (map fst EXPOSED_SCOPES). authorize_tool p n project = Inr ()}"
proof -
  have "p_local p \<or> (\<exists>q. q \<noteq> [] \<and> project = Some q \<and> p_project_id p = Some q)"
    using assms authorize_exposed [OF collaboration_tools(1)] by blast
  then have "authorize_tool p n project = Inr () \<longleftrightarrow> is_admin p \<or> required \<in> set (p_scopes p)"
    if "(n, required) \<in> set EXPOSED_SCOPES" for n required using authorize_exposed [OF that] by blast
  then show ?thesis by (auto simp: allowed_tools_def)
qed

subsection \<open>Rows\<close>

fun row_project :: "collab_row \<Rightarrow> string" where
  "row_project (Sent_row b) = bn_project_id b"
| "row_project (Inbox_row d b) = dl_project_id d"
| "row_project (Work_row u b) = wu_project_id u"
| "row_project (Checkpoint_row c) = ck_project_id c"

fun row_level :: "collab_row \<Rightarrow> classification" where
  "row_level (Sent_row b) = bn_classification b"
| "row_level (Inbox_row d b) = bn_classification b"
| "row_level (Work_row u b) = bn_classification b"
| "row_level (Checkpoint_row c) = ck_classification c"

text \<open>Who has a part in a row: its sender, or who has a delivery of it now.\<close>

fun row_users :: "cdb \<Rightarrow> collab_row \<Rightarrow> string list" where
  "row_users db (Sent_row b) = [bn_from_user b]"
| "row_users db (Inbox_row d b) = [dl_recipient_user_id d]"
| "row_users db (Work_row u b) = bn_from_user b # active_recipients (bn_project_id b) (bn_id b) db"
| "row_users db (Checkpoint_row c) = [ck_from_user c]"

lemma takes_part_iff:
  "takes_part user b db \<longleftrightarrow> user \<in> set (bn_from_user b # active_recipients (bn_project_id b) (bn_id b) db)"
  by (auto simp: takes_part_def active_recipients_def exists_row_iff)

lemma bundle_ofD: "bundle_of i project db = Some b \<Longrightarrow> bn_id b = i \<and> bn_project_id b = project"
  by (auto simp: bundle_of_def dest: fetchrow_SomeD)

lemma set_map_filter: "x \<in> set (List.map_filter f xs) \<longleftrightarrow> (\<exists>y \<in> set xs. f y = Some x)"
  by (force simp: List.map_filter_def)

lemma view_rows_scoped:
  assumes "x \<in> set (view_rows view r db)"
  shows "row_project x = cp_project r \<and> row_level x \<in> set (cp_levels r) \<and> (cp_all_users r \<or> cp_actor r \<in> set (row_users db x))"
proof -
  have sent: ?thesis if "x \<in> set (sent_rows r db)" using that by (auto simp: sent_rows_def bundle_shown_def)
  have inbox: ?thesis if i: "x \<in> set (delivered_rows r db)"
  proof -
    obtain d b where "bundle_of (dl_bundle_id d) (dl_project_id d) db = Some b" "inbox_shown r d b" "x = Inbox_row d b"
      using i by (auto simp: delivered_rows_def set_map_filter split: option.splits if_splits)
    then show ?thesis using bundle_ofD by (fastforce simp: inbox_shown_def bundle_shown_def)
  qed
  have work: ?thesis if w: "x \<in> set (work_rows r db)"
  proof -
    obtain u b where "bundle_of (wu_bundle_id u) (wu_project_id u) db = Some b" "bundle_shown r b"
        "cp_all_users r \<or> takes_part (cp_actor r) b db" "x = Work_row u b"
      using w by (auto simp: work_rows_def set_map_filter split: option.splits if_splits)
    then show ?thesis using bundle_ofD by (fastforce simp: bundle_shown_def takes_part_iff)
  qed
  have check: ?thesis if "x \<in> set (checkpoint_rows r db)" using that by (auto simp: checkpoint_rows_def)
  show ?thesis using assms sent inbox work check unfolding view_rows_def by (simp split: if_splits)
qed

subsection \<open>Pages\<close>

definition read_view :: "stamps \<Rightarrow> time \<Rightarrow> principal \<Rightarrow> dict \<Rightarrow> string \<Rightarrow> cdb \<Rightarrow> cursor option \<Rightarrow> collab_row page outcome" where
  \<comment> \<open>the same request, as one for a page of a view\<close>
  "read_view S now p a view db c =
     and_then (collaboration_page S now p (dict_put ''view'' (PStr view) a) c db) (\<lambda>x. Inr (snd x))"

lemma dict_put_get [simp]:
  "k \<noteq> ''view'' \<Longrightarrow> get_or (dict_put ''view'' v a) k w = get_or a k w"
  "arg_str (dict_put ''view'' (PStr s) a) ''view'' = s"
  by (simp_all add: get_or_def map_of_dict_put arg_str_def py_get_dict_put)

lemma read_view_eq:
  assumes "authorize_tool p ''memory_collaboration_overview'' (arg_opt_str a ''project_id'') = Inr ()" and "request_scope a p = Inr scope"
  shows "read_view S now p a view db c = keyset_page (row_key S) (cursor_scope (dict_put ''view'' (PStr view) a) p scope view) c (page_limit a)
    (view_rows view (query_parameters a p scope now) db)"
proof -
  let ?a = "dict_put ''view'' (PStr view) a"
  have same: "arg_opt_str ?a ''project_id'' = arg_opt_str a ''project_id''" "request_scope ?a p = Inr scope"
    "page_limit ?a = page_limit a" "query_parameters ?a p scope now = query_parameters a p scope now"
    using assms(2) by (simp_all add: arg_opt_str_def arg_str_def py_get_dict_put request_scope_def page_limit_def query_parameters_def)
  have "authorize_tool p ''memory_collaboration_list'' (arg_opt_str a ''project_id'') = Inr ()"
    using assms(1) authorize_exposed [OF collaboration_tools(1)] authorize_exposed [OF collaboration_tools(2)] by blast
  then show ?thesis
    using same by (cases "keyset_page (row_key S) (cursor_scope ?a p scope view) c (page_limit a) (view_rows view (query_parameters a p scope now) db)")
      (simp_all add: read_view_def collaboration_page_def)
qed

text \<open>
  C28. The collaboration overview tells the truth. The tools it names are exactly those of the
  tools it speaks of that authorization admits for this caller and project. And for each of its four
  views there are rows that lie within the project and the classification ceiling of the request
  and in which the caller has a part, unless an administrator asked for the whole project, such that
  the count of the view is their number, or withheld above the limit, and following the cursors of
  the list of the view delivers these rows, newest first, each once.
\<close>

theorem overview_truthful:
  assumes "collaboration_overview now p a db = Inr d" and "0 < page_limit a"
  shows "(\<exists>names. py_get d ''allowed_tools'' = strs names \<and> sorted names
      \<and> set names = {n \<in> set (map fst EXPOSED_SCOPES). authorize_tool p n (arg_opt_str a ''project_id'') = Inr ()})
    \<and> (\<forall>view \<in> set VIEW_NAMES. \<exists>rows.
        py_get (arg_dict (arg_dict d ''counts'') view) ''value'' = (if length rows \<le> COUNT_LIMIT then PInt (int (length rows)) else PNone)
        \<and> (\<forall>x \<in> set rows. row_project x = arg_str a ''project_id'' \<and> row_level x \<le> class_of (str_of (get_or a ''max_classification'' (PStr ''internal'')))
             \<and> (p_user_id p \<in> set (row_users db x) \<or> get_or a ''scope'' (PStr ''mine'') = PStr ''project'' \<and> is_admin p))
        \<and> (\<forall>S fuel. distinct (map (row_key S) rows) \<and> length rows < fuel \<longrightarrow>
             follow_pages fuel (read_view S now p a view db) None = Inr (newest_first (row_key S) rows)))"
proof -
  obtain scope where auth: "authorize_tool p ''memory_collaboration_overview'' (arg_opt_str a ''project_id'') = Inr ()"
    and scope: "request_scope a p = Inr scope"
    using assms(1) by (auto simp: collaboration_overview_def and_then_Inr_iff)
  let ?rows = "\<lambda>view. view_rows view (query_parameters a p scope now) db"
  have d: "py_get d ''allowed_tools'' = strs (allowed_tools p)"
      "arg_dict d ''counts'' = map (\<lambda>v. (v, PDict (count_view (?rows v)))) VIEW_NAMES"
    using assms(1) by (auto simp: collaboration_overview_def auth scope Let_def py_get_def arg_dict_def collab_envelope_def)
  have count: "py_get (arg_dict (arg_dict d ''counts'') view) ''value'' = (if length (?rows view) \<le> COUNT_LIMIT then PInt (int (length (?rows view))) else PNone)"
    if "view \<in> set VIEW_NAMES" for view
    using that unfolding d(2) by (auto simp: arg_dict_def py_get_def VIEW_NAMES_def count_view_def Let_def)
  have kind: "cs_kind scope = ''project'' \<Longrightarrow> get_or a ''scope'' (PStr ''mine'') = PStr ''project'' \<and> is_admin p"
    using scope by (cases "get_or a ''scope'' (PStr ''mine'')") (auto simp: request_scope_def Let_def str_of_def)
  have level: "cs_max_classification scope = str_of (get_or a ''max_classification'' (PStr ''internal''))"
    using scope by (auto simp: request_scope_def Let_def)
  have scoped: "row_project x = arg_str a ''project_id'' \<and> row_level x \<le> class_of (str_of (get_or a ''max_classification'' (PStr ''internal'')))
      \<and> (p_user_id p \<in> set (row_users db x) \<or> get_or a ''scope'' (PStr ''mine'') = PStr ''project'' \<and> is_admin p)"
    if "x \<in> set (?rows view)" for x view
    using view_rows_scoped [OF that] kind by (auto simp: query_parameters_def level simp del: class_of.simps)
  have pages: "follow_pages fuel (read_view S now p a view db) None = Inr (newest_first (row_key S) (?rows view))"
    if "distinct (map (row_key S) (?rows view))" "length (?rows view) < fuel" for S fuel view
  proof -
    have "read_view S now p a view db = (\<lambda>c. keyset_page (row_key S) (cursor_scope (dict_put ''view'' (PStr view) a) p scope view) c
        (page_limit a) (?rows view))"
      by (rule ext) (rule read_view_eq [OF auth scope])
    then show ?thesis using follow_pages_complete [OF that(1) assms(2) that(2)] by simp
  qed
  have "set (allowed_tools p) = {n \<in> set (map fst EXPOSED_SCOPES). authorize_tool p n (arg_opt_str a ''project_id'') = Inr ()}"
    by (rule allowed_tools_exact [OF auth])
  moreover have "sorted (allowed_tools p)" by (simp add: allowed_tools_def)
  ultimately show ?thesis using d(1) count scoped pages by blast
qed

subsection \<open>A concrete overview\<close>

definition demo_stamps :: stamps where
  "demo_stamps = \<lparr>st_bundle = \<lambda>_. 0, st_delivery = \<lambda>_. 0, st_unit = \<lambda>_. 0, st_event = \<lambda>_. (0, 0)\<rparr>"

theorem overview_truthful_witness:
  "\<exists>d row. collaboration_overview 5 demo_bob demo_list_args demo_work = Inr d
    \<and> py_get (arg_dict (arg_dict d ''counts'') ''inbox'') ''value'' = PInt 1
    \<and> follow_pages 2 (read_view demo_stamps 5 demo_bob demo_list_args ''inbox'' demo_work) None = Inr [row]"
proof -
  have auth: "authorize_tool demo_bob ''memory_collaboration_overview'' (arg_opt_str demo_list_args ''project_id'') = Inr ()" by code_simp
  have lim: "0 < page_limit demo_list_args" by (simp add: page_limit_def demo_list_args_def get_or_def int_of_def)
  let ?scope = "\<lparr>cs_kind = ''mine'', cs_max_classification = ''internal'', cs_include_inactive = False, cs_include_acknowledged = False\<rparr>"
  let ?r = "query_parameters demo_list_args demo_bob ?scope 5"
  have scope: "request_scope demo_list_args demo_bob = Inr ?scope"
    by (simp add: request_scope_def demo_list_args_def get_or_def Let_def checked_def truthy_def)
  have "view_rows ''inbox'' ?r demo_work = [Inbox_row (demo_delivery ''x'' ''bob'') demo_bundle]"
    by (simp add: view_rows_def delivered_rows_def demo_work_def demo_delivery_def demo_bundle_def bundle_of_def inbox_shown_def bundle_shown_def
        query_parameters_def demo_list_args_def demo_bob_def arg_str_def py_get_def List.map_filter_simps seconds_def less_eq_classification_def)
  then obtain d where d: "collaboration_overview 5 demo_bob demo_list_args demo_work = Inr d"
      "py_get (arg_dict (arg_dict d ''counts'') ''inbox'') ''value'' = PInt 1"
    by (simp add: collaboration_overview_def auth scope Let_def collab_envelope_def py_get_def arg_dict_def VIEW_NAMES_def count_view_def COUNT_LIMIT_def)
  have "''inbox'' \<in> set VIEW_NAMES" by (simp add: VIEW_NAMES_def)
  from bspec [OF overview_truthful [OF d(1) lim, THEN conjunct2] this] obtain rows where rows:
      "py_get (arg_dict (arg_dict d ''counts'') ''inbox'') ''value'' = (if length rows \<le> COUNT_LIMIT then PInt (int (length rows)) else PNone)"
      "\<forall>fuel. distinct (map (row_key demo_stamps) rows) \<and> length rows < fuel \<longrightarrow> follow_pages fuel
         (read_view demo_stamps 5 demo_bob demo_list_args ''inbox'' demo_work) None = Inr (newest_first (row_key demo_stamps) rows)"
    by blast
  then have "length rows = 1" using d(2) by (simp split: if_splits)
  then obtain row where "rows = [row]" by (auto simp: length_Suc_conv)
  then have "follow_pages 2 (read_view demo_stamps 5 demo_bob demo_list_args ''inbox'' demo_work) None = Inr [row]"
    using rows(2) [THEN spec, of 2] by (simp add: newest_first_def del: follow_pages.simps)
  then show ?thesis using d by blast
qed

end
