(* ===== verification/Usage_Reads.thy ===== *)
theory Usage_Reads
  imports Usage Continuity_Reads
begin

text \<open>
  The reads of the usage ledger (continuity/usage_reads.py): which attempts a request sees,
  the paged list of them, and the summary over the whole visible set with its groups and its
  soft alerts. The answers leave out the constant entries of their envelope.
\<close>

subsection \<open>Scope, period and parameters\<close>

record usage_query =
  uq_kind :: string
  uq_max_classification :: string
  uq_user_id :: "string option"
  uq_host_kind :: "string option"
  uq_model_id :: "string option"
  uq_work_unit_id :: "string option"

definition usage_scope :: "dict \<Rightarrow> principal \<Rightarrow> usage_query outcome" where
  "usage_scope a p =
     (let kind = str_of (get_or a ''scope'' (PStr ''mine'')); user = arg_opt_str a ''user_id''
      in checked
        [(kind = ''project'' \<and> \<not> is_admin p, cont_fail ''Project usage requires admin authority'' ''MEM-USAGE-0005'' 403),
         (kind = ''mine'' \<and> user \<noteq> None \<and> user \<noteq> Some (p_user_id p),
            cont_fail ''This usage user filter is outside your scope'' ''MEM-USAGE-0005'' 403)]
        \<lparr>uq_kind = kind, uq_max_classification = str_of (get_or a ''max_classification'' (PStr ''internal'')), uq_user_id = user,
         uq_host_kind = arg_opt_str a ''host_kind'', uq_model_id = arg_opt_str a ''model_id'', uq_work_unit_id = arg_opt_str a ''work_unit_id''\<rparr>)"

record usage_params =
  ux_project :: string
  ux_actor :: string
  ux_all_users :: bool
  ux_levels :: "classification list"
  ux_start :: time
  ux_end :: time
  ux_cutoff :: time
  ux_query :: usage_query
  ux_now :: time

definition usage_parameters :: "dict \<Rightarrow> principal \<Rightarrow> usage_query \<Rightarrow> usage_period \<Rightarrow> time \<Rightarrow> dict \<Rightarrow> usage_params" where
  "usage_parameters a p q w now body =
     \<lparr>ux_project = arg_str a ''project_id'', ux_actor = p_user_id p, ux_all_users = (uq_kind q = ''project''),
      ux_levels = levels_upto (class_of (uq_max_classification q)), ux_start = up_start_at w, ux_end = up_end_at w,
      ux_cutoff = now - days (arg_int body ''retention_days''), ux_query = q, ux_now = now\<rparr>"

definition usage_window :: "platform \<Rightarrow> zones \<Rightarrow> dict \<Rightarrow> time \<Rightarrow> dict \<Rightarrow> usage_period outcome" where
  "usage_window P zone_of a now body =
     (case period P zone_of a now (arg_str body ''timezone'') of
        None \<Rightarrow> Inl (cont_invalid ''Invalid bounded usage period or timezone'') | Some w \<Rightarrow> Inr w)"

definition query_dict :: "usage_query \<Rightarrow> dict" where
  "query_dict q = [(''kind'', PStr (uq_kind q)), (''max_classification'', PStr (uq_max_classification q)),
     (''user_id'', opt_str (uq_user_id q)), (''host_kind'', opt_str (uq_host_kind q)),
     (''model_id'', opt_str (uq_model_id q)), (''work_unit_id'', opt_str (uq_work_unit_id q))]"

definition usage_cursor_scope :: "platform \<Rightarrow> dict \<Rightarrow> principal \<Rightarrow> usage_query \<Rightarrow> usage_period \<Rightarrow> dict \<Rightarrow> string list" where
  \<comment> \<open>the end of a running period moves and is not part of it\<close>
  "usage_cursor_scope P a p q w body =
     [''usage-v1'', arg_str a ''project_id'', p_user_id p, join '','' (sort (remdups (p_scopes p))), py_bool (p_local p),
      digest P (PDict (query_dict q)), up_kind w, up_timezone w, isoformat (up_start_at w),
      (if up_kind w = ''custom'' then isoformat (up_end_at w) else ''live''), digest P (PDict body)]"

subsection \<open>Visible attempts\<close>

definition bucket_time :: "usage_session \<Rightarrow> time" where
  "bucket_time s = (case us_bucket_at s of None \<Rightarrow> us_created_at s | Some b \<Rightarrow> b)"

definition bucket_basis :: "usage_session \<Rightarrow> string" where
  "bucket_basis s = (case us_bucket_basis s of None \<Rightarrow> ''provisional'' | Some b \<Rightarrow> b)"

definition usage_visible :: "usage_params \<Rightarrow> usage_session \<Rightarrow> bool" where
  \<comment> \<open>the WHERE of \<open>VISIBLE\<close>\<close>
  "usage_visible r s \<longleftrightarrow> us_project_id s = ux_project r \<and> (ux_all_users r \<or> us_actor_id s = ux_actor r)
     \<and> us_classification s \<in> set (ux_levels r) \<and> us_retired_at s = None
     \<and> ux_start r \<le> bucket_time s \<and> bucket_time s < ux_end r \<and> ux_cutoff r \<le> bucket_time s
     \<and> uq_user_id (ux_query r) \<in> {None, Some (us_actor_id s)} \<and> uq_host_kind (ux_query r) \<in> {None, Some (us_host_kind s)}
     \<and> uq_model_id (ux_query r) \<in> {None, Some (us_model_id s)}"

definition usage_shown_parent :: "usage_params \<Rightarrow> cdb \<Rightarrow> usage_session \<Rightarrow> string option" where
  "usage_shown_parent r db s =
     (if exists_row (\<lambda>x. Some (us_id x) = us_parent_session_id s \<and> us_retired_at x = None
         \<and> us_classification x \<in> set (ux_levels r)) (cd_usage db) then us_parent_session_id s else None)"

definition usage_shown_unit :: "usage_params \<Rightarrow> cdb \<Rightarrow> usage_session \<Rightarrow> string option" where
  "usage_shown_unit r db s =
     (if exists_row (\<lambda>u. Some (wu_id u) = us_work_unit_id s \<and> exists_row (\<lambda>b. bn_id b = wu_bundle_id u \<and> bn_revoked_at b = None
           \<and> ux_now r < bn_expires_at b \<and> bn_classification b \<in> set (ux_levels r)) (cd_bundles db)) (cd_units db)
      then us_work_unit_id s else None)"

definition usage_rows :: "usage_params \<Rightarrow> cdb \<Rightarrow> usage_session list" where
  \<comment> \<open>\<open>FILTERED\<close>: links the caller may not see are null\<close>
  "usage_rows r db =
     filter (\<lambda>s. uq_work_unit_id (ux_query r) = None \<or> us_work_unit_id s = uq_work_unit_id (ux_query r))
       (map (\<lambda>s. s\<lparr>us_parent_session_id := usage_shown_parent r db s, us_work_unit_id := usage_shown_unit r db s\<rparr>)
         (filter (usage_visible r) (cd_usage db)))"

definition row_metrics :: "usage_session \<Rightarrow> metrics outcome" where
  "row_metrics s =
     (case (case us_metrics s of
              Some v \<Rightarrow> metrics_of v
            | None \<Rightarrow> normalize (map (\<lambda>k. (k, unavailable_counter ''awaiting_result'')) FIELDS)) of
        None \<Rightarrow> Inl (unhandled ''ValueError'') | Some m \<Rightarrow> Inr m)"

subsection \<open>The list\<close>

definition usage_item :: "usage_session \<Rightarrow> dict outcome" where
  \<comment> \<open>\<open>metadata\<close>\<close>
  "usage_item s = and_then (row_metrics s) (\<lambda>m. Inr
     [(''id'', PStr (us_id s)), (''project_id'', PStr (us_project_id s)), (''actor_id'', PStr (us_actor_id s)),
      (''execution_attempt_id'', PStr (us_execution_attempt_id s)), (''meter_epoch'', PStr (us_meter_epoch s)),
      (''classification'', PStr (class_str (us_classification s))), (''host_kind'', PStr (us_host_kind s)),
      (''host_version'', PStr (us_host_version s)), (''adapter_version'', PStr (us_adapter_version s)),
      (''provider'', PStr (us_provider s)), (''model_id'', PStr (us_model_id s)), (''created_at'', PTime (us_created_at s)),
      (''sequence'', PInt (us_sequence s)), (''metrics'', PDict (metrics_dict m)), (''coverage'', PStr (us_coverage s)),
      (''completion_state'', PStr (us_completion_state s)), (''first_received_at'', opt_time (us_first_received_at s)),
      (''last_received_at'', opt_time (us_last_received_at s)), (''bucket_at'', PTime (bucket_time s)),
      (''bucket_basis'', PStr (bucket_basis s)), (''finalized_at'', opt_time (us_finalized_at s)),
      (''parent_session_id'', opt_str (us_parent_session_id s)), (''work_unit_id'', opt_str (us_work_unit_id s)),
      (''observation_scope'', PStr ''exclusive_run''), (''semantics_version'', PInt 1)])"

definition usage_key :: "usage_session \<Rightarrow> time \<times> uuid" where
  "usage_key s = (us_created_at s, uuid_of (us_id s))"

definition usage_list ::
    "platform \<Rightarrow> zones \<Rightarrow> time \<Rightarrow> principal \<Rightarrow> dict \<Rightarrow> cursor option \<Rightarrow> cdb \<Rightarrow> (usage_query \<times> usage_period \<times> (usage_session \<times> dict) page) outcome" where
  "usage_list P zone_of now p a c db =
     (let body = snd (usage_policy (arg_str a ''project_id'') db) in
      and_then (authorize_tool p ''memory_usage_list'' (arg_opt_str a ''project_id'')) (\<lambda>_.
      and_then (usage_scope a p) (\<lambda>q.
      and_then (usage_window P zone_of a now body) (\<lambda>w.
      let key = usage_cursor_scope P a p q w body in
      and_then (decode_cursor c key) (\<lambda>pos.
      and_then (collect (\<lambda>s. and_then (usage_item s) (\<lambda>d. Inr (s, d)))
          (keyset_rows usage_key pos (page_limit a) (usage_rows (usage_parameters a p q w now body) db))) (\<lambda>items.
        Inr (q, w, page (usage_key \<circ> fst) items (page_limit a) key)))))))"

subsection \<open>The summary\<close>

record usage_summary =
  uy_totals :: usage_total
  uy_in_progress_runs :: nat
  uy_partial_runs :: nat
  uy_basis_counts :: "(string \<times> nat) list"
  uy_last_received_at :: "time option"
  uy_revision :: string

definition usage_aggregate_of :: "usage_session list \<Rightarrow> usage_total outcome" where
  "usage_aggregate_of rows = and_then (collect row_metrics rows) (\<lambda>ms.
     case usage_aggregate ms of None \<Rightarrow> Inl (unhandled ''ValueError'') | Some t \<Rightarrow> Inr t)"

definition summary_values :: "platform \<Rightarrow> usage_session list \<Rightarrow> usage_summary outcome" where
  "summary_values P rows = and_then (usage_aggregate_of rows) (\<lambda>t. Inr
     \<lparr>uy_totals = t, uy_in_progress_runs = length (filter (\<lambda>s. us_completion_state s = ''in_progress'') rows),
      uy_partial_runs = length (filter (\<lambda>s. us_coverage s = ''partial'') rows), uy_basis_counts = tally (map bucket_basis rows),
      uy_last_received_at = (let ts = List.map_filter us_last_received_at rows in if ts = [] then None else Some (Max (set ts))),
      uy_revision = digest P (PList (map (\<lambda>s. PList [PStr (us_id s), PInt (us_sequence s)]) rows))\<rparr>)"

definition grouping :: "dict \<Rightarrow> (usage_session \<Rightarrow> string option) option" where
  \<comment> \<open>the column of \<open>group_by\<close>\<close>
  "grouping a =
     (let by = str_of (get_or a ''group_by'' (PStr ''none''))
      in if by = ''user'' then Some (\<lambda>s. Some (us_actor_id s)) else if by = ''host'' then Some (\<lambda>s. Some (us_host_kind s))
         else if by = ''model'' then Some (\<lambda>s. Some (us_model_id s)) else if by = ''work'' then Some us_work_unit_id else None)"

definition group_key :: "(usage_session \<Rightarrow> string option) \<Rightarrow> usage_session \<Rightarrow> string" where
  "group_key f s = (case f s of None \<Rightarrow> ''unlinked'' | Some k \<Rightarrow> k)"

definition usage_groups :: "dict \<Rightarrow> usage_session list \<Rightarrow> (string \<times> usage_session list) list" where
  \<comment> \<open>sorted by key\<close>
  "usage_groups a rows =
     (case grouping a of
        None \<Rightarrow> []
      | Some f \<Rightarrow> map (\<lambda>k. (k, filter (\<lambda>s. group_key f s = k) rows)) (sort (remdups (map (group_key f) rows))))"

record usage_alert =
  al_id :: string
  al_user_id :: "string option"
  al_reported :: int
  al_threshold :: int

definition reported_tokens :: "usage_total \<Rightarrow> int option" where
  "reported_tokens t = (case map_of (ut_reported t) ''total_tokens'' of None \<Rightarrow> None | Some m \<Rightarrow> mt_value m)"

definition threshold_of :: "dict \<Rightarrow> string \<Rightarrow> int option" where
  "threshold_of body k = (case py_get body k of PInt n \<Rightarrow> Some n | _ \<Rightarrow> None)"

definition unfiltered :: "usage_query \<Rightarrow> bool" where
  "unfiltered q \<longleftrightarrow> uq_user_id q = None \<and> uq_host_kind q = None \<and> uq_model_id q = None \<and> uq_work_unit_id q = None"

definition alert_candidates :: "usage_query \<Rightarrow> dict \<Rightarrow> usage_session list \<Rightarrow> (string option \<times> usage_session list \<times> int option) list" where
  "alert_candidates q body rows =
     map (\<lambda>u. (Some u, filter (\<lambda>s. us_actor_id s = u) rows, threshold_of body ''user_alert_tokens'')) (from_keys (map us_actor_id rows))
     @ (if uq_kind q = ''project'' then [(None, rows, threshold_of body ''project_alert_tokens'')] else [])"

definition alert_of ::
    "platform \<Rightarrow> dict \<Rightarrow> usage_query \<Rightarrow> usage_period \<Rightarrow> nat \<Rightarrow> string option \<times> usage_session list \<times> int option \<Rightarrow> usage_alert option outcome" where
  "alert_of P a q w version c =
     (case c of (user, runs, threshold) \<Rightarrow>
        and_then (usage_aggregate_of runs) (\<lambda>t. Inr (case (threshold, reported_tokens t) of
            (Some limit, Some n) \<Rightarrow> if limit \<le> n then Some
              \<lparr>al_id = digest P (PList [py_get a ''project_id'', opt_str user, PInt (int version), PInt limit,
                 PStr (isoformat (up_start_at w)), PStr (up_timezone w), PStr (uq_max_classification q)]),
               al_user_id = user, al_reported = n, al_threshold = limit\<rparr> else None
          | _ \<Rightarrow> None)))"

definition usage_alerts ::
    "platform \<Rightarrow> dict \<Rightarrow> usage_query \<Rightarrow> usage_period \<Rightarrow> nat \<Rightarrow> dict \<Rightarrow> usage_session list \<Rightarrow> usage_alert list outcome" where
  "usage_alerts P a q w version body rows =
     (if up_kind w \<noteq> ''today'' \<or> \<not> unfiltered q then Inr []
      else and_then (collect (alert_of P a q w version) (alert_candidates q body rows)) (\<lambda>xs. Inr (List.map_filter id xs)))"

record usage_answer =
  ua_scope :: usage_query
  ua_period :: usage_period
  ua_policy_version :: nat
  ua_summary :: usage_summary
  ua_groups :: "(string \<times> usage_summary) list"
  ua_alerts :: "usage_alert list"

definition usage_narrow :: "string \<Rightarrow> mem_error" where
  "usage_narrow msg = cont_fail msg ''MEM-USAGE-0004'' 429"

definition summarized_rows :: "usage_params \<Rightarrow> cdb \<Rightarrow> usage_session list" where
  "summarized_rows r db = take (MAX_AGGREGATE_UNITS + 1) (sort_key (\<lambda>s. uuid_of (us_id s)) (usage_rows r db))"

definition usage_summarize :: "platform \<Rightarrow> zones \<Rightarrow> time \<Rightarrow> principal \<Rightarrow> dict \<Rightarrow> cdb \<Rightarrow> usage_answer outcome" where
  \<comment> \<open>\<open>summary\<close>\<close>
  "usage_summarize P zone_of now p a db =
     (let pol = usage_policy (arg_str a ''project_id'') db; body = snd pol in
      and_then (authorize_tool p ''memory_usage_summary'' (arg_opt_str a ''project_id'')) (\<lambda>_.
      and_then (usage_scope a p) (\<lambda>q.
      and_then (usage_window P zone_of a now body) (\<lambda>w.
      let rows = summarized_rows (usage_parameters a p q w now body) db; groups = usage_groups a rows in
      and_then (checked
        [(MAX_AGGREGATE_UNITS < length rows, usage_narrow ''Narrow usage period or filters; complete aggregation exceeds the bounded limit''),
         (1000 < length groups, usage_narrow ''Too many usage groups; narrow period or filters'')] ()) (\<lambda>_.
      and_then (summary_values P rows) (\<lambda>whole.
      and_then (collect (\<lambda>(k, g). and_then (summary_values P g) (\<lambda>s. Inr (k, s))) groups) (\<lambda>parts.
      and_then (usage_alerts P a q w (fst pol) body rows) (\<lambda>al.
        Inr \<lparr>ua_scope = q, ua_period = w, ua_policy_version = fst pol, ua_summary = whole, ua_groups = parts, ua_alerts = al\<rparr>))))))))"

end
