(* ===== verification/Usage_Reads_Props.thy ===== *)
theory Usage_Reads_Props
  imports Usage_Reads Continuity_Witness
begin

text \<open>
  A usage summary adds up: its groups partition the attempts it counts, so that every total is
  the sum of the totals of the groups; and it counts only what its caller may see.
\<close>

subsection \<open>Sums over groups\<close>

lemma sum_list_filter: "(\<Sum>x\<leftarrow>filter p xs. h x) = (\<Sum>x\<leftarrow>xs. if p x then h x else (0 :: 'n :: comm_monoid_add))"
  by (induction xs) auto

lemma sum_list_groups:
  assumes "distinct ks" and "\<forall>x \<in> set xs. f x \<in> set ks"
  shows "(\<Sum>x\<leftarrow>xs. h x) = (\<Sum>k\<leftarrow>ks. \<Sum>x\<leftarrow>filter (\<lambda>x. f x = k) xs. h x :: 'n :: comm_monoid_add)"
  using assms(2)
proof (induction xs)
  case (Cons x xs)
  have one: "(\<Sum>k\<leftarrow>ks. if f x = k then h x else 0) = h x"
    using Cons.prems assms(1) by (simp add: sum_list_distinct_conv_sum_set)
  have "(\<Sum>k\<leftarrow>ks. \<Sum>y\<leftarrow>filter (\<lambda>y. f y = k) (x # xs). h y)
      = (\<Sum>k\<leftarrow>ks. (if f x = k then h x else 0) + (\<Sum>y\<leftarrow>filter (\<lambda>y. f y = k) xs. h y))"
    by (intro arg_cong [of _ _ sum_list] map_cong) auto
  then show ?case using Cons by (simp add: sum_list_addf one)
qed (simp add: sum_list_0)

text \<open>What is counted of one attempt.\<close>

definition metrics_in :: "usage_session \<Rightarrow> metrics" where
  "metrics_in s = projr (row_metrics s)"

definition counts_as :: "string \<Rightarrow> nat \<Rightarrow> usage_session \<Rightarrow> bool" where
  "counts_as quality i s \<longleftrightarrow> ct_quality (metrics_in s ! i) = quality"

lemma collect_eq: "collect f xs = Inr ys \<Longrightarrow> ys = map (projr \<circ> f) xs \<and> (\<forall>x \<in> set xs. is_ok (f x))"
  by (induction xs arbitrary: ys) (auto simp: and_then_Inr_iff)

lemma usage_aggregate_of_eq:
  assumes "usage_aggregate_of rows = Inr t"
  shows "usage_aggregate (map metrics_in rows) = Some t"
proof -
  obtain ms where "collect row_metrics rows = Inr ms" "usage_aggregate ms = Some t"
    using assms by (auto simp: usage_aggregate_of_def and_then_Inr_iff split: option.splits)
  moreover have "metrics_in = projr \<circ> row_metrics" by (simp add: fun_eq_iff metrics_in_def)
  ultimately show ?thesis using collect_eq [of row_metrics rows ms] by simp
qed

definition amount :: "metric_total \<Rightarrow> int" where
  "amount m = (case mt_value m of None \<Rightarrow> 0 | Some n \<Rightarrow> n)"

definition total_at :: "(string \<times> metric_total) list \<Rightarrow> string \<Rightarrow> metric_total" where
  "total_at ts k = the (map_of ts k)"

lemma quality_total_at:
  assumes "i < 6"
  shows "total_at (quality_totals quality ms) (FIELDS ! i) = metric_total_of quality ms i"
proof -
  have "i \<in> {0, 1, 2, 3, 4, 5}" using assms by auto
  then show ?thesis by (auto simp: total_at_def quality_totals_def FIELDS_def eval_nat_numeral)
qed

lemma known_rows: "known quality i (map metrics_in rows) = map (\<lambda>s. metrics_in s ! i) (filter (counts_as quality i) rows)"
  by (simp add: known_def counts_as_def [abs_def] filter_map comp_def)

lemma metric_total_sums:
  "amount (metric_total_of quality (map metrics_in rows) i) = (\<Sum>s\<leftarrow>rows. if counts_as quality i s then tokens (metrics_in s ! i) else 0)"
  "mt_known_units (metric_total_of quality (map metrics_in rows) i) = (\<Sum>s\<leftarrow>rows. if counts_as quality i s then 1 else 0)"
  "mt_missing_units (metric_total_of quality (map metrics_in rows) i) = (\<Sum>s\<leftarrow>rows. if counts_as quality i s then 0 else 1)"
proof -
  have "length (filter (counts_as quality i) rows) + (\<Sum>s\<leftarrow>rows. if counts_as quality i s then 0 else 1) = length rows"
    "length (filter (counts_as quality i) rows) = (\<Sum>s\<leftarrow>rows. if counts_as quality i s then 1 else 0)" by (induction rows) auto
  then show "mt_known_units (metric_total_of quality (map metrics_in rows) i) = (\<Sum>s\<leftarrow>rows. if counts_as quality i s then 1 else 0)"
    "mt_missing_units (metric_total_of quality (map metrics_in rows) i) = (\<Sum>s\<leftarrow>rows. if counts_as quality i s then 0 else 1)"
    by (simp_all add: metric_total_of_def known_rows Let_def)
  have "sum_list (map tokens (known quality i (map metrics_in rows))) = (\<Sum>s\<leftarrow>rows. if counts_as quality i s then tokens (metrics_in s ! i) else 0)"
    by (simp add: known_rows comp_def sum_list_filter)
  moreover have "amount (metric_total_of quality (map metrics_in rows) i) = sum_list (map tokens (known quality i (map metrics_in rows)))"
    by (simp add: amount_def metric_total_of_def Let_def)
  ultimately show "amount (metric_total_of quality (map metrics_in rows) i) = (\<Sum>s\<leftarrow>rows. if counts_as quality i s then tokens (metrics_in s ! i) else 0)"
    by simp
qed

lemma summary_valuesE:
  assumes "summary_values P rows = Inr s"
  shows "ut_observed_units (uy_totals s) = length rows
    \<and> ut_reported (uy_totals s) = quality_totals ''reported'' (map metrics_in rows)
    \<and> ut_estimated (uy_totals s) = quality_totals ''estimated'' (map metrics_in rows)
    \<and> uy_in_progress_runs s = length (filter (\<lambda>s. us_completion_state s = ''in_progress'') rows)
    \<and> uy_partial_runs s = length (filter (\<lambda>s. us_coverage s = ''partial'') rows)"
proof -
  obtain t where t: "usage_aggregate_of rows = Inr t" "uy_totals s = t"
      "uy_in_progress_runs s = length (filter (\<lambda>s. us_completion_state s = ''in_progress'') rows)"
      "uy_partial_runs s = length (filter (\<lambda>s. us_coverage s = ''partial'') rows)"
    using assms by (auto simp: summary_values_def and_then_Inr_iff)
  have "ut_observed_units t = length rows \<and> ut_reported t = quality_totals ''reported'' (map metrics_in rows)
      \<and> ut_estimated t = quality_totals ''estimated'' (map metrics_in rows)"
    using usage_aggregate_of_eq [OF t(1)] by (auto simp: usage_aggregate_def split: if_splits)
  then show ?thesis using t(2-4) by simp
qed

text \<open>The groups of a summary are those of its rows.\<close>

lemma usage_groups_sum:
  assumes "grouping a = Some f"
  shows "(\<Sum>s\<leftarrow>rows. h s) = (\<Sum>(k, g)\<leftarrow>usage_groups a rows. \<Sum>s\<leftarrow>g. h s :: 'n :: comm_monoid_add)"
  using sum_list_groups [of "sort (remdups (map (group_key f) rows))" rows "group_key f" h] assms
  by (simp add: usage_groups_def comp_def)

lemma summarizeE:
  assumes "usage_summarize P zone_of now p a db = Inr r"
  obtains w rows where "usage_scope a p = Inr (ua_scope r)" "ua_period r = w"
    "rows = summarized_rows (usage_parameters a p (ua_scope r) w now (snd (usage_policy (arg_str a ''project_id'') db))) db"
    "length rows \<le> MAX_AGGREGATE_UNITS" "summary_values P rows = Inr (ua_summary r)"
    "collect (\<lambda>(k, g). and_then (summary_values P g) (\<lambda>s. Inr (k, s))) (usage_groups a rows) = Inr (ua_groups r)"
  using assms by (auto simp: usage_summarize_def Let_def and_then_Inr_iff)

lemma summary_parts:
  assumes "collect (\<lambda>(k, g). and_then (summary_values P g) (\<lambda>s. Inr (k, s))) groups = Inr parts"
    and "\<And>g s. summary_values P g = Inr s \<Longrightarrow> m s = (\<Sum>x\<leftarrow>g. h x)"
  shows "(\<Sum>(k, g)\<leftarrow>groups. \<Sum>x\<leftarrow>g. h x) = (\<Sum>s\<leftarrow>map snd parts. m s :: 'n :: comm_monoid_add)"
  using assms(1) by (induction groups arbitrary: parts) (auto simp: and_then_Inr_iff assms(2))

lemma adds_up:
  assumes "grouping a = Some f" and "summary_values P rows = Inr whole"
    and "collect (\<lambda>(k, g). and_then (summary_values P g) (\<lambda>s. Inr (k, s))) (usage_groups a rows) = Inr parts"
    and "\<And>g s. summary_values P g = Inr s \<Longrightarrow> m s = (\<Sum>x\<leftarrow>g. h x)"
  shows "m whole = (\<Sum>s\<leftarrow>map snd parts. m s :: 'n :: comm_monoid_add)"
  using usage_groups_sum [OF assms(1), of h rows] summary_parts [of P _ _ m h, OF assms(3,4)] assms(4) [OF assms(2)] by simp

lemma length_sum: "length (filter p xs) = (\<Sum>x\<leftarrow>xs. if p x then 1 else 0)" "length xs = (\<Sum>x\<leftarrow>xs. 1)"
  by (induction xs) auto

text \<open>One row of the totals: the tokens, and the attempts that report them or do not.\<close>

definition row_of_total :: "metric_total \<Rightarrow> int \<times> nat \<times> nat" where
  "row_of_total m = (amount m, mt_known_units m, mt_missing_units m)"

definition sum_rows :: "(int \<times> nat \<times> nat) list \<Rightarrow> int \<times> nat \<times> nat" where
  "sum_rows rs = (sum_list (map fst rs), sum_list (map (fst \<circ> snd) rs), sum_list (map (snd \<circ> snd) rs))"

lemma field_index:
  assumes "k \<in> set FIELDS"
  obtains i where "i < 6" "k = FIELDS ! i"
proof -
  have "length FIELDS = 6" by (simp add: FIELDS_def)
  then show thesis using assms that in_set_conv_nth [of k FIELDS] by auto
qed

lemma totals_add_up:
  assumes "grouping a = Some f" and "summary_values P rows = Inr whole"
    and "collect (\<lambda>(k, g). and_then (summary_values P g) (\<lambda>s. Inr (k, s))) (usage_groups a rows) = Inr parts"
    and "\<And>g s. summary_values P g = Inr s \<Longrightarrow> total_at (col (uy_totals s)) k = metric_total_of quality (map metrics_in g) i"
  shows "row_of_total (total_at (col (uy_totals whole)) k) = sum_rows (map (\<lambda>s. row_of_total (total_at (col (uy_totals s)) k)) (map snd parts))"
proof -
  note up = adds_up [OF assms(1-3)]
  have "amount (total_at (col (uy_totals whole)) k) = (\<Sum>s\<leftarrow>map snd parts. amount (total_at (col (uy_totals s)) k))"
    by (rule up) (simp add: assms(4) metric_total_sums)
  moreover have "mt_known_units (total_at (col (uy_totals whole)) k) = (\<Sum>s\<leftarrow>map snd parts. mt_known_units (total_at (col (uy_totals s)) k))"
    by (rule up) (simp add: assms(4) metric_total_sums)
  moreover have "mt_missing_units (total_at (col (uy_totals whole)) k) = (\<Sum>s\<leftarrow>map snd parts. mt_missing_units (total_at (col (uy_totals s)) k))"
    by (rule up) (simp add: assms(4) metric_total_sums)
  ultimately show ?thesis by (simp add: row_of_total_def sum_rows_def comp_def)
qed

lemma usage_rows_visible:
  assumes "v \<in> set (usage_rows r db)"
  shows "\<exists>s \<in> set (cd_usage db). usage_visible r s \<and> us_id v = us_id s \<and> us_metrics v = us_metrics s \<and> us_actor_id v = us_actor_id s"
  using assms by (fastforce simp: usage_rows_def)

text \<open>
  C20. A usage summary adds up and stays in its scope. It counts every attempt of the ledger its
  request may see, and only those: of the project, of the caller unless an administrator
  asked for all users, within the classification ceiling, the period and the retention, and not
  retired. When it is grouped, its groups split the counted attempts: the number of attempts, of
  running and of partial ones, and for each of the six counters the reported and the estimated
  tokens with the numbers of attempts that give them and that do not, are the sums over the groups.
\<close>

theorem usage_summary_adds_up:
  assumes "usage_summarize P zone_of now p a db = Inr r"
  shows "(\<exists>rows. ut_observed_units (uy_totals (ua_summary r)) = length rows
      \<and> mset rows = mset (usage_rows (usage_parameters a p (ua_scope r) (ua_period r) now (snd (usage_policy (arg_str a ''project_id'') db))) db)
      \<and> (\<forall>v \<in> set rows. \<exists>s \<in> set (cd_usage db). us_id v = us_id s \<and> us_metrics v = us_metrics s
           \<and> us_project_id s = arg_str a ''project_id'' \<and> us_retired_at s = None
           \<and> (us_actor_id s = p_user_id p \<or> uq_kind (ua_scope r) = ''project'' \<and> is_admin p)
           \<and> us_classification s \<le> class_of (uq_max_classification (ua_scope r))
           \<and> up_start_at (ua_period r) \<le> bucket_time s \<and> bucket_time s < up_end_at (ua_period r)))
    \<and> (grouping a \<noteq> None \<longrightarrow>
        (let parts = map snd (ua_groups r); whole = ua_summary r
         in ut_observed_units (uy_totals whole) = (\<Sum>s\<leftarrow>parts. ut_observed_units (uy_totals s))
          \<and> uy_in_progress_runs whole = (\<Sum>s\<leftarrow>parts. uy_in_progress_runs s)
          \<and> uy_partial_runs whole = (\<Sum>s\<leftarrow>parts. uy_partial_runs s)
          \<and> (\<forall>k \<in> set FIELDS.
               row_of_total (total_at (ut_reported (uy_totals whole)) k) = sum_rows (map (\<lambda>s. row_of_total (total_at (ut_reported (uy_totals s)) k)) parts)
             \<and> row_of_total (total_at (ut_estimated (uy_totals whole)) k) = sum_rows (map (\<lambda>s. row_of_total (total_at (ut_estimated (uy_totals s)) k)) parts))))"
proof -
  let ?x = "usage_parameters a p (ua_scope r) (ua_period r) now (snd (usage_policy (arg_str a ''project_id'') db))"
  obtain w rows where e: "usage_scope a p = Inr (ua_scope r)" "ua_period r = w"
      "rows = summarized_rows (usage_parameters a p (ua_scope r) w now (snd (usage_policy (arg_str a ''project_id'') db))) db"
      "length rows \<le> MAX_AGGREGATE_UNITS" "summary_values P rows = Inr (ua_summary r)"
      "collect (\<lambda>(k, g). and_then (summary_values P g) (\<lambda>s. Inr (k, s))) (usage_groups a rows) = Inr (ua_groups r)"
    using assms by (rule summarizeE)
  have rows: "mset rows = mset (usage_rows ?x db)" using e(2-4) by (simp add: summarized_rows_def min_def split: if_splits)
  have admin: "uq_kind (ua_scope r) = ''project'' \<Longrightarrow> is_admin p" using e(1) by (auto simp: usage_scope_def Let_def)
  have scoped: "\<exists>s \<in> set (cd_usage db). us_id v = us_id s \<and> us_metrics v = us_metrics s
           \<and> us_project_id s = arg_str a ''project_id'' \<and> us_retired_at s = None
           \<and> (us_actor_id s = p_user_id p \<or> uq_kind (ua_scope r) = ''project'' \<and> is_admin p)
           \<and> us_classification s \<le> class_of (uq_max_classification (ua_scope r))
           \<and> up_start_at (ua_period r) \<le> bucket_time s \<and> bucket_time s < up_end_at (ua_period r)" if "v \<in> set rows" for v
  proof -
    have "v \<in> set (usage_rows ?x db)" using that rows by (metis set_mset_mset)
    then obtain s where "s \<in> set (cd_usage db)" "usage_visible ?x s" "us_id v = us_id s" "us_metrics v = us_metrics s"
      using usage_rows_visible by blast
    then show ?thesis using admin by (auto simp: usage_visible_def usage_parameters_def simp del: class_of.simps)
  qed
  have parts: "let parts = map snd (ua_groups r); whole = ua_summary r
         in ut_observed_units (uy_totals whole) = (\<Sum>s\<leftarrow>parts. ut_observed_units (uy_totals s))
          \<and> uy_in_progress_runs whole = (\<Sum>s\<leftarrow>parts. uy_in_progress_runs s)
          \<and> uy_partial_runs whole = (\<Sum>s\<leftarrow>parts. uy_partial_runs s)
          \<and> (\<forall>k \<in> set FIELDS.
               row_of_total (total_at (ut_reported (uy_totals whole)) k) = sum_rows (map (\<lambda>s. row_of_total (total_at (ut_reported (uy_totals s)) k)) parts)
             \<and> row_of_total (total_at (ut_estimated (uy_totals whole)) k) = sum_rows (map (\<lambda>s. row_of_total (total_at (ut_estimated (uy_totals s)) k)) parts))"
    if g: "grouping a = Some f" for f
    unfolding Let_def
  proof (intro conjI ballI)
    note up = adds_up [OF g e(5,6)]
    show "ut_observed_units (uy_totals (ua_summary r)) = (\<Sum>s\<leftarrow>map snd (ua_groups r). ut_observed_units (uy_totals s))"
      by (rule up [where h = "\<lambda>_. 1"]) (use summary_valuesE length_sum(2) in force)
    show "uy_in_progress_runs (ua_summary r) = (\<Sum>s\<leftarrow>map snd (ua_groups r). uy_in_progress_runs s)"
      by (rule up) (use summary_valuesE length_sum(1) in force)
    show "uy_partial_runs (ua_summary r) = (\<Sum>s\<leftarrow>map snd (ua_groups r). uy_partial_runs s)"
      by (rule up) (use summary_valuesE length_sum(1) in force)
    fix k assume "k \<in> set FIELDS"
    then obtain i where i: "i < 6" "k = FIELDS ! i" by (rule field_index)
    show "row_of_total (total_at (ut_reported (uy_totals (ua_summary r))) k)
        = sum_rows (map (\<lambda>s. row_of_total (total_at (ut_reported (uy_totals s)) k)) (map snd (ua_groups r)))"
      by (rule totals_add_up [OF g e(5,6), where quality = "''reported''" and i = i])
        (use summary_valuesE quality_total_at [OF i(1)] i(2) in force)
    show "row_of_total (total_at (ut_estimated (uy_totals (ua_summary r))) k)
        = sum_rows (map (\<lambda>s. row_of_total (total_at (ut_estimated (uy_totals s)) k)) (map snd (ua_groups r)))"
      by (rule totals_add_up [OF g e(5,6), where quality = "''estimated''" and i = i])
        (use summary_valuesE quality_total_at [OF i(1)] i(2) in force)
  qed
  show ?thesis
    using summary_valuesE [OF e(5)] rows scoped parts by (intro conjI impI exI [of _ rows]) auto
qed

subsection \<open>A concrete summary\<close>

definition demo_attempt :: usage_session where
  "demo_attempt = \<lparr>us_id = ''s'', us_project_id = ''p'', us_actor_id = ''bob'', us_execution_attempt_id = ''e'', us_meter_epoch = ''m'',
     us_session_token_digest = ''t'', us_register_digest = ''g'', us_host_kind = ''cli'', us_host_version = ''1'', us_adapter_version = ''1'',
     us_provider = ''x'', us_model_id = ''y'', us_classification = C_public, us_parent_session_id = None, us_work_unit_id = None,
     us_claim_generation = None, us_created_at = days 100, us_accepts_until = days 107, us_sequence = 0, us_metrics = None,
     us_coverage = ''partial'', us_completion_state = ''in_progress'', us_first_received_at = None, us_last_received_at = None,
     us_bucket_at = None, us_bucket_basis = None, us_source_occurred_at = None, us_finalized_at = None, us_retired_at = None\<rparr>"

definition demo_ledger :: cdb where
  "demo_ledger = empty_cdb\<lparr>cd_usage := [demo_attempt]\<rparr>"

definition demo_summary_args :: dict where
  "demo_summary_args = [(''project_id'', PStr ''p''), (''group_by'', PStr ''user'')]"

definition demo_zones :: zones where
  "demo_zones = (\<lambda>_. Some \<lparr>zn_to_local = id, zn_from_local = id\<rparr>)"

lemma demo_attempt_counted: "\<exists>m. row_metrics demo_attempt = Inr m"
proof -
  have "is_ok (row_metrics demo_attempt)" by code_simp
  then show ?thesis by (simp add: is_ok_iff)
qed

lemma demo_summarized:
  assumes "rows = [demo_attempt]"
  shows "\<exists>s. summary_values P rows = Inr s"
  using demo_attempt_counted by (auto simp: summary_values_def usage_aggregate_of_def usage_aggregate_def assms MAX_AGGREGATE_UNITS_def)

theorem usage_summary_adds_up_witness:
  "\<exists>r. usage_summarize auth_platform demo_zones (days 100 + 5) demo_bob demo_summary_args demo_ledger = Inr r
    \<and> ut_observed_units (uy_totals (ua_summary r)) = 1
    \<and> (\<Sum>s\<leftarrow>map snd (ua_groups r). ut_observed_units (uy_totals s)) = 1"
proof -
  let ?q = "\<lparr>uq_kind = ''mine'', uq_max_classification = ''internal'', uq_user_id = None, uq_host_kind = None, uq_model_id = None, uq_work_unit_id = None\<rparr>"
  let ?w = "\<lparr>up_kind = ''today'', up_timezone = ''UTC'', up_start_at = days 100, up_end_at = days 100 + 5\<rparr>"
  let ?body = USAGE_DEFAULT_POLICY
  have auth: "authorize_tool demo_bob ''memory_usage_summary'' (arg_opt_str demo_summary_args ''project_id'') = Inr ()" by code_simp
  have pol: "usage_policy (arg_str demo_summary_args ''project_id'') demo_ledger = (0, ?body)"
    by (simp add: usage_policy_def demo_ledger_def empty_cdb_def policy_of_def)
  have q: "usage_scope demo_summary_args demo_bob = Inr ?q"
    by (simp add: usage_scope_def demo_summary_args_def get_or_def arg_opt_str_def py_get_def Let_def checked_def)
  have w: "usage_window auth_platform demo_zones demo_summary_args (days 100 + 5) ?body = Inr ?w"
    by (simp add: usage_window_def period_def period_bounds_def local_midnight_def demo_zones_def demo_summary_args_def get_or_def
        has_key_def arg_str_def py_get_def USAGE_DEFAULT_POLICY_def days_def seconds_def Let_def)
  have rows: "summarized_rows (usage_parameters demo_summary_args demo_bob ?q ?w (days 100 + 5) ?body) demo_ledger = [demo_attempt]"
    by (simp add: summarized_rows_def usage_rows_def usage_visible_def usage_parameters_def demo_ledger_def empty_cdb_def demo_attempt_def
        demo_summary_args_def arg_str_def arg_int_def py_get_def int_of_def demo_bob_def bucket_time_def days_def seconds_def
        USAGE_DEFAULT_POLICY_def usage_shown_parent_def usage_shown_unit_def exists_row_def less_eq_classification_def)
  have g: "usage_groups demo_summary_args [demo_attempt] = [(''bob'', [demo_attempt])]" "grouping demo_summary_args \<noteq> None"
    by (simp_all add: usage_groups_def grouping_def demo_summary_args_def get_or_def Let_def group_key_def demo_attempt_def)
  obtain s where s: "summary_values auth_platform [demo_attempt] = Inr s" using demo_summarized by blast
  obtain t where t: "usage_aggregate_of [demo_attempt] = Inr t" using s by (auto simp: summary_values_def and_then_Inr_iff)
  have al: "\<exists>al. usage_alerts auth_platform demo_summary_args ?q ?w 0 ?body [demo_attempt] = Inr al"
    using t by (simp add: usage_alerts_def alert_candidates_def alert_of_def unfiltered_def from_keys_def demo_attempt_def)
  obtain r where r: "usage_summarize auth_platform demo_zones (days 100 + 5) demo_bob demo_summary_args demo_ledger = Inr r"
      "ua_summary r = s"
    using al by (auto simp: usage_summarize_def Let_def pol auth q w rows g s MAX_AGGREGATE_UNITS_def checked_def)
  have "ut_observed_units (uy_totals (ua_summary r)) = 1" using summary_valuesE [OF s] r(2) by simp
  then show ?thesis using usage_summary_adds_up [OF r(1)] r(1) g(2) by (auto simp: Let_def)
qed

end
