(* ===== verification/Json_Order.thy ===== *)
theory Json_Order
  imports Skill_Archives
begin

text \<open>
  Canonical JSON loses the order of the keys of an object: reading a canonical text back
  gives the value with its keys sorted. Lemmas: this changes neither what a lookup finds nor
  the canonical text of the value. A plain value without floats has a bound on the length of its text.
\<close>

fun sorted_json :: "pyval \<Rightarrow> pyval" where
  "sorted_json (PDict d) = PDict (sort_key fst (map (\<lambda>(k, v). (k, sorted_json v)) d))"
| "sorted_json (PList vs) = PList (map sorted_json vs)"
| "sorted_json v = v"

definition sorted_dict :: "dict \<Rightarrow> dict" where
  "sorted_dict d = sort_key fst (map (\<lambda>(k, v). (k, sorted_json v)) d)"

lemma sorted_json_PDict: "sorted_json (PDict d) = PDict (sorted_dict d)"
  by (simp add: sorted_dict_def)

subsection \<open>Sorting by key\<close>

lemma insort_key_map: "insort_key f (g x) (map g xs) = map g (insort_key (f \<circ> g) x xs)"
  by (induction xs) auto

lemma sort_key_map: "sort_key f (map g xs) = map g (sort_key (f \<circ> g) xs)"
  by (induction xs) (simp_all add: insort_key_map [unfolded o_def] o_def)

lemma map_of_insort: "map_of (insort_key fst x xs) = map_of (x # xs)"
  by (induction xs) (auto simp: fun_eq_iff)

lemma map_of_sort_key: "map_of (sort_key fst d) = map_of d"
proof (induction d)
  case (Cons x d)
  then show ?case by (cases x) (simp add: map_of_insort)
qed simp

lemma list_all_sort_key [simp]: "list_all p (sort_key f xs) = list_all p xs"
  by (simp add: list_all_iff)

subsection \<open>Lookups\<close>

lemma map_of_sorted_dict: "map_of (sorted_dict d) k = map_option sorted_json (map_of d k)"
  by (simp only: sorted_dict_def map_of_sort_key map_of_map o_def)

lemma sorted_json_simps [simp]:
  "list_of (sorted_json v) = map sorted_json (list_of v)"
  "str_of (sorted_json v) = str_of v"
  "int_of (sorted_json v) = int_of v"
  "dict_of (sorted_json v) = sorted_dict (dict_of v)"
  "sorted_json v = PStr s \<longleftrightarrow> v = PStr s"
  "is_str (sorted_json v) = is_str v" "is_dict (sorted_json v) = is_dict v"
  by (cases v; simp add: is_dict_def list_of_def str_of_def int_of_def dict_of_def sorted_dict_def is_str_def)+

lemma sorted_lookups [simp]:
  "py_get (sorted_dict d) k = sorted_json (py_get d k)"
  "arg_str (sorted_dict d) k = arg_str d k"
  "arg_int (sorted_dict d) k = arg_int d k"
  "arg_strs (sorted_dict d) k = arg_strs d k"
  "arg_dict (sorted_dict d) k = sorted_dict (arg_dict d k)"
  "arg_uuid (sorted_dict d) k = arg_uuid d k"
proof -
  show get: "py_get (sorted_dict d) k = sorted_json (py_get d k)"
    by (simp add: py_get_def map_of_sorted_dict split: option.splits)
  show "arg_str (sorted_dict d) k = arg_str d k" "arg_int (sorted_dict d) k = arg_int d k"
    "arg_strs (sorted_dict d) k = arg_strs d k" "arg_dict (sorted_dict d) k = sorted_dict (arg_dict d k)"
    "arg_uuid (sorted_dict d) k = arg_uuid d k"
    by (simp_all add: get arg_str_def arg_int_def arg_strs_def arg_dict_def arg_uuid_def strs_of_def o_def)
qed

lemma sorted_json_strs [simp]: "sorted_json (strs xs) = strs xs"
  by (simp add: strs_def)

lemma unique_sorted [simp]: "unique_pairs (sorted_json v) = unique_pairs v"
proof (induction v rule: sorted_json.induct)
  case (1 d)
  have keys: "mset (map fst (sort_key fst (map (\<lambda>(k, v). (k, sorted_json v)) d))) = mset (map fst d)"
    by (simp add: multiset.map_comp o_def split_def)
  have "distinct (map fst (sort_key fst (map (\<lambda>(k, v). (k, sorted_json v)) d))) = distinct (map fst d)"
    using mset_eq_imp_distinct_iff [OF keys] .
  moreover have "list_all (\<lambda>(k, v). unique_pairs v) (map (\<lambda>(k, v). (k, sorted_json v)) d) = list_all (\<lambda>(k, v). unique_pairs v) d"
    using 1 by (fastforce simp: list_all_iff)
  ultimately show ?case by simp
next
  case (2 vs)
  then show ?case by (auto simp: list_all_iff)
qed simp_all

lemma unique_lookup:
  assumes "unique_pairs (PDict d)" and "map_of d k = Some v"
  shows "unique_pairs v"
proof -
  have "\<forall>e \<in> set d. unique_pairs (snd e)" using assms(1) by (simp add: list_all_iff split_def)
  then have "unique_pairs (snd (k, v))" using map_of_SomeD [OF assms(2)] by (rule bspec)
  then show ?thesis by (simp only: snd_conv)
qed

subsection \<open>The canonical text\<close>

lemma dumps_list_eq: "dumps_list P vs = all_some (map (dumps P) vs)"
  by (induction vs) (auto split: option.splits)

lemma dumps_sorted [simp]: "dumps P (sorted_json v) = dumps P v"
proof (induction v rule: sorted_json.induct)
  case (1 d)
  let ?m = "\<lambda>(k, v). map_option (Pair k) (dumps P v)" and ?s = "\<lambda>(k, v). (k, sorted_json v)"
  have eq: "map ?m (map ?s d) = map ?m d" using 1 by auto
  have sort: "sort_key fst (map ?s d) = map ?s (sort_key fst d)" by (simp add: sort_key_map o_def split_def)
  have eq': "map ?m (map ?s (sort_key fst d)) = map ?m (sort_key fst d)" using 1 by auto
  have mem: "dumps_members P (sort_key fst (map ?s d)) = all_some (map ?m (sort_key fst d))"
    by (simp only: dumps_members_eq sort eq')
  have "map_option render_object (all_some (map ?m (sort_key fst d))) = map_option render_object (all_some (map ?m d))"
  proof (cases "all_some (map ?m d)")
    case None
    then have "None \<in> set (map ?m (sort_key fst d))" by (simp add: all_some_None_iff)
    then have "all_some (map ?m (sort_key fst d)) = None" unfolding all_some_None_iff .
    then show ?thesis using None by simp
  next
    case (Some ys)
    then have ys: "map ?m d = map Some ys" by (simp add: all_some_eq_Some_iff)
    let ?f = "\<lambda>(k, v). (k, the (dumps P v))"
    have f: "?m e = Some (?f e)" if "e \<in> set d" for e
    proof -
      have "?m e \<in> set (map Some ys)" using that unfolding ys [symmetric] by auto
      then show ?thesis by (cases e) auto
    qed
    then have "map Some ys = map Some (map ?f d)" unfolding ys [symmetric] by simp
    then have y: "ys = map ?f d" by (simp only: inj_map_eq_map inj_Some)
    have "map ?m (sort_key fst d) = map Some (map ?f (sort_key fst d))" using f by simp
    then have "all_some (map ?m (sort_key fst d)) = Some (map ?f (sort_key fst d))" unfolding all_some_eq_Some_iff .
    moreover have fs: "sort_key fst (map ?f e) = map ?f (sort_key fst e)" for e by (simp add: sort_key_map o_def split_def)
    have "render_object (map ?f (sort_key fst d)) = render_object (map ?f d)" unfolding render_object_def fs by (simp add: sort_key_id_if_sorted)
    ultimately show ?thesis unfolding Some by (simp only: y option.map)
  qed
  then show ?case by (simp only: sorted_json.simps dumps.simps mem dumps_members_eq [of P d])
next
  case (2 vs)
  then have "map (dumps P) (map sorted_json vs) = map (dumps P) vs" by simp
  then show ?case by (simp add: dumps_list_eq del: map_map)
qed simp_all

lemma sorted_texts [simp]:
  "canonical P (sorted_json v) = canonical P v" "digest P (sorted_json v) = digest P v"
  "text_size P (sorted_json v) = text_size P v"
  by (simp_all add: canonical_def digest_def text_size_def)

lemma sorted_dict_texts [simp]:
  "unique_pairs (PDict (sorted_dict d)) = unique_pairs (PDict d)" "canonical P (PDict (sorted_dict d)) = canonical P (PDict d)"
  "digest P (PDict (sorted_dict d)) = digest P (PDict d)" "text_size P (PDict (sorted_dict d)) = text_size P (PDict d)"
  unfolding sorted_json_PDict [symmetric] by (rule unique_sorted sorted_texts)+

lemma canonical_cong: "dumps P v = dumps P w \<Longrightarrow> canonical P v = canonical P w"
  by (simp add: canonical_def)

lemma digest_cong: "dumps P v = dumps P w \<Longrightarrow> digest P v = digest P w"
  by (simp add: digest_def canonical_def)

lemma py_eq_list_same: "(\<And>v. v \<in> set vs \<Longrightarrow> py_eq v v) \<Longrightarrow> py_eq_list vs vs"
  by (induction vs) auto

lemma py_eq_dict_same: "(\<And>k v. (k, v) \<in> set d \<Longrightarrow> py_eq v v \<and> map_of e k = Some v) \<Longrightarrow> py_eq_dict d e"
  by (induction d) force+

lemma py_eq_refl: "unique_pairs v \<Longrightarrow> py_eq v v"
proof (induction v rule: unique_pairs.induct)
  case (1 d)
  have "py_eq v v \<and> map_of d k = Some v" if "(k, v) \<in> set d" for k v
    using 1 that by (auto simp: list_all_iff map_of_is_SomeI)
  then show ?case by (simp add: py_eq_dict_same)
next
  case (2 vs)
  then show ?case by (auto simp: list_all_iff intro: py_eq_list_same)
qed simp_all

subsection \<open>Sizes\<close>

text \<open>A bound for the text of a value without times and floats, each character escaped.\<close>

fun plain_json :: "pyval \<Rightarrow> bool" where
  "plain_json (PDict d) \<longleftrightarrow> list_all (\<lambda>(k, v). plain_json v) d"
| "plain_json (PList vs) \<longleftrightarrow> list_all plain_json vs"
| "plain_json (PTime t) \<longleftrightarrow> False"
| "plain_json (PFloat q) \<longleftrightarrow> False"
| "plain_json v \<longleftrightarrow> True"

fun json_bound :: "pyval \<Rightarrow> nat" where
  "json_bound (PDict d) = 2 + sum_list (map (\<lambda>(k, v). 6 * length k + 4 + json_bound v) d)"
| "json_bound (PList vs) = 2 + sum_list (map (\<lambda>v. 1 + json_bound v) vs)"
| "json_bound (PStr s) = 6 * length s + 2"
| "json_bound (PInt n) = length (show_int n)"
| "json_bound v = 5"

lemma length_json_str_le: "length (json_str s) \<le> 6 * length s + 2"
proof -
  have "length (json_escape_char c) \<le> 6" for c by (simp add: json_escape_char_def Let_def)
  then have "length (concat (map json_escape_char s)) \<le> 6 * length s"
    by (induction s) (auto simp: add_mono intro: add_mono [of _ 6, simplified])
  then show ?thesis by (simp add: json_str_def)
qed

lemma length_join_le: "length (join '','' ys) \<le> sum_list (map (\<lambda>y. Suc (length y)) ys)"
  by (cases ys) (simp_all add: join_def length_concat o_def)

lemma plain_dumps: "plain_json v \<Longrightarrow> \<exists>s. dumps P v = Some s \<and> length s \<le> json_bound v"
proof (induction v rule: plain_json.induct)
  case (1 d)
  let ?f = "\<lambda>(k, v). (k, the (dumps P v))"
  have each: "dumps P v = Some (the (dumps P v)) \<and> length (the (dumps P v)) \<le> json_bound v" if "(k, v) \<in> set d" for k v
    using 1 that by (force simp: list_all_iff)
  have "map (\<lambda>(k, x). map_option (Pair k) (dumps P x)) d = map Some (map ?f d)"
    using each by auto
  then have m: "dumps_members P d = Some (map ?f d)" by (simp only: dumps_members_eq all_some_eq_Some_iff)
  have "length (render_object (map ?f d)) \<le> 2 + sum_list (map (\<lambda>y. Suc (length y)) (map render_member (sort_key fst (map ?f d))))"
    using length_join_le [of "map render_member (sort_key fst (map ?f d))"] by (simp add: render_object_def del: map_map)
  also have "sum_list (map (\<lambda>y. Suc (length y)) (map render_member (sort_key fst (map ?f d))))
    = sum_list (map (\<lambda>e. Suc (length (render_member e))) (map ?f d))"
    unfolding list.map_comp [of _ render_member] sum_list_sort_key by (simp only: o_def)
  also have "\<dots> \<le> sum_list (map (\<lambda>(k, v). 6 * length k + 4 + json_bound v) d)"
    unfolding map_map
  proof (rule sum_list_mono)
    fix e assume e: "e \<in> set d"
    obtain k v where kv: "e = (k, v)" by (cases e)
    have "length (the (dumps P v)) \<le> json_bound v" using each e kv by blast
    then show "((\<lambda>e. Suc (length (render_member e))) \<circ> ?f) e \<le> (case e of (k, v) \<Rightarrow> 6 * length k + 4 + json_bound v)"
      using length_json_str_le [of k] by (simp add: kv render_member_def)
  qed
  finally show ?case by (simp add: m)
next
  case (2 vs)
  have each: "dumps P v = Some (the (dumps P v)) \<and> length (the (dumps P v)) \<le> json_bound v" if "v \<in> set vs" for v
    using 2 that by (force simp: list_all_iff)
  have "map (dumps P) vs = map Some (map (\<lambda>v. the (dumps P v)) vs)" using each by auto
  then have m: "dumps_list P vs = Some (map (\<lambda>v. the (dumps P v)) vs)" by (simp only: dumps_list_eq all_some_eq_Some_iff)
  have "sum_list (map (\<lambda>v. Suc (length (the (dumps P v)))) vs) \<le> sum_list (map (\<lambda>v. 1 + json_bound v) vs)"
    by (rule sum_list_mono) (use each in auto)
  then show ?case using length_join_le [of "map (\<lambda>v. the (dumps P v)) vs"] by (simp add: m o_def)
qed (auto simp: length_json_str_le [simplified])

lemma length_utf8_le: "length (utf8 s) \<le> 2 * length s"
  by (induction s) (simp_all add: utf8_def utf8_char_def Let_def)

lemma length_canonical_le: "plain_json v \<Longrightarrow> length (canonical P v) \<le> 2 * json_bound v"
  using plain_dumps [of v P] length_utf8_le by (fastforce simp: canonical_def intro: order_trans)

lemma canonical_fits: "plain_json v \<Longrightarrow> json_bound v \<le> n \<Longrightarrow> length (canonical P v) \<le> 2 * n"
  by (meson length_canonical_le mult_le_mono2 order_trans)

lemma text_size_le: "plain_json v \<Longrightarrow> text_size P v \<le> json_bound v"
  using plain_dumps [of v P] by (auto simp: text_size_def)

lemma canonical_third:
  assumes "plain_json (PDict d)" and "d \<noteq> []" and "hd (sort (map fst d)) = c # k" and "lower_char c"
  shows "canonical P (PDict d) ! 2 = c"
proof -
  obtain m where m: "dumps_members P d = Some m"
    using plain_dumps [OF assms(1), of P] by (auto)
  have "map fst (sort_key fst m) = sort (map fst m)"
    using sort_key_map [of "\<lambda>x. x" fst m] by (simp add: o_def)
  then have keys: "map fst (sort_key fst m) = sort (map fst d)" using dumps_members_keys [OF m] by simp
  then have "sort_key fst m \<noteq> []" using assms(2) by (metis length_0_conv length_map length_sort)
  then obtain t r where r: "sort_key fst m = (c # k, t) # r"
    using keys assms(3) by (cases "sort_key fst m") (auto, metis list.sel(1))
  have c: "(of_char c :: nat) \<ge> 97" "(of_char c :: nat) \<le> 122" using assms(4) by (simp_all add: lower_char_def code_def)
  have "json_escape_char c = [c]" using c by (simp add: json_escape_char_def Let_def)
  then obtain rest where "render_object m = CHR ''{'' # char_of (34 :: nat) # c # rest"
    by (simp add: render_object_def r join_def render_member_def json_str_def)
  then show ?thesis using c by (simp add: canonical_def m utf8_def utf8_char_def Let_def)
qed

end
