(* ===== verification/Skill_Archives_Props.thy ===== *)
theory Skill_Archives_Props
  imports Json_Order Skills_Props Uuid_Texts
begin

text \<open>
  Exported skills can be imported: what a reader of an approved skill exports is accepted by
  the validation of archives on any other server, which finds the same claims in it.
\<close>

subsection \<open>Texts\<close>

lemma length_b64_encode: "length (b64_encode raw) = 4 * ((length raw + 2) div 3)"
proof (induction raw rule: b64_encode.induct)
  case (4 a b c r)
  have "(length r + 2 + 3) div 3 = Suc ((length r + 2) div 3)" by simp
  moreover have "length (a # b # c # r) + 2 = length r + 2 + 3" by simp
  ultimately show ?case using 4 by (simp only: b64_encode.simps list.size mult_Suc_right)
qed simp_all

lemma replace_sub_none: "hd p \<notin> set s \<Longrightarrow> p \<noteq> [] \<Longrightarrow> replace_sub p w 0 s = s"
proof (induction s)
  case (Cons c s)
  then have "\<not> starts_with p (c # s)" by (cases p) (auto simp: starts_with_def)
  then show ?case using Cons by simp
qed simp

lemma replace_sub_append: "hd p \<notin> set s \<Longrightarrow> p \<noteq> [] \<Longrightarrow> replace_sub p w 0 (s @ t) = s @ replace_sub p w 0 t"
proof (induction s)
  case (Cons c s)
  then have "\<not> starts_with p (c # s @ t)" by (cases p) (auto simp: starts_with_def)
  then show ?case using Cons by simp
qed simp

definition offset_text :: "string \<Rightarrow> bool" where
  \<comment> \<open>a timestamp in UTC whose offset is its only sign\<close>
  "offset_text s \<longleftrightarrow> (\<exists>b. s = b @ UTC_OFFSET \<and> CHR ''+'' \<notin> set b \<and> CHR ''Z'' \<notin> set b)"

lemma zulu_offset:
  assumes "offset_text s"
  shows "with_offset (zulu s) = s" "zulu (zulu s) = zulu s"
proof -
  obtain b where b: "s = b @ UTC_OFFSET" "CHR ''+'' \<notin> set b" "CHR ''Z'' \<notin> set b"
    using assms by (auto simp: offset_text_def)
  have z: "zulu s = b @ ''Z''"
    using b(2) by (simp add: zulu_def b(1) replace_sub_append UTC_OFFSET_def starts_with_def)
  show "zulu (zulu s) = zulu s"
    using b(2) unfolding z by (simp add: zulu_def replace_sub_append UTC_OFFSET_def starts_with_def)
  show "with_offset (zulu s) = s"
    using b(3) unfolding z by (simp add: with_offset_def replace_sub_append b(1) UTC_OFFSET_def starts_with_def)
qed

lemma digits_show_nat: "c \<in> set (show_nat n) \<Longrightarrow> \<exists>d < 10. c = digit_char d"
proof (induction n rule: show_nat.induct)
  case (1 n)
  show ?case
  proof (cases "n < 10")
    case True
    then show ?thesis using 1(2) by (subst (asm) show_nat.simps) auto
  next
    case False
    then have "c \<in> set (show_nat (n div 10)) \<or> c = digit_char (n mod 10)"
      using 1(2) by (subst (asm) show_nat.simps) auto
    moreover have "n mod 10 < 10" by simp
    ultimately show ?thesis using 1(1) [OF False] by blast
  qed
qed

lemma digit_char_plain: "d < 10 \<Longrightarrow> digit_char d \<noteq> CHR ''+'' \<and> digit_char d \<noteq> CHR ''Z''"
  by (auto simp: digit_char_def dest!: arg_cong [where f = "of_char :: char \<Rightarrow> nat"])

lemma padded_plain: "CHR ''+'' \<notin> set (padded w n)" "CHR ''Z'' \<notin> set (padded w n)"
  using digits_show_nat digit_char_plain by (fastforce simp: padded_def Let_def show_int_def split: if_splits)+

lemma isoformat_offset: "offset_text (isoformat t)"
  unfolding offset_text_def isoformat_def UTC_OFFSET_def Let_def split_def
  using padded_plain by (intro exI conjI) (auto split: if_splits)

subsection \<open>The files of an archive\<close>

lemma put_file_names:
  "map fst (put_file f fs) = (if fst f \<in> set (map fst fs) then map fst fs else map fst fs @ [fst f])"
proof (cases "\<exists>g \<in> set fs. fst g = fst f")
  case True
  then have "fst f \<in> set (map fst fs)" by (metis image_eqI set_map)
  then show ?thesis using True by (simp add: put_file_def exists_row_iff map_update_where)
next
  case False
  then have "fst f \<notin> set (map fst fs)" by auto
  then show ?thesis using False by (simp add: put_file_def exists_row_iff)
qed

lemma map_of_put_file: "name \<noteq> fst f \<Longrightarrow> map_of (put_file f fs) name = map_of fs name"
proof -
  assume n: "name \<noteq> fst f"
  have "map_of (update_where (\<lambda>g. fst g = fst f) (\<lambda>_. f) fs) name = map_of fs name"
    using n by (induction fs) (auto simp: update_where_def)
  moreover have "map_of (fs @ [f]) name = map_of fs name"
    using n by (cases f) (auto simp: map_add_def split: option.splits)
  ultimately show ?thesis by (simp add: put_file_def)
qed

lemma put_files:
  assumes "distinct (map fst fs)"
  shows "distinct (map fst (fold (\<lambda>v. put_file (resource_file v)) vs fs))
    \<and> length (fold (\<lambda>v. put_file (resource_file v)) vs fs) \<le> length fs + length vs
    \<and> set (map fst (fold (\<lambda>v. put_file (resource_file v)) vs fs)) \<subseteq> set (map fst fs) \<union> (fst \<circ> resource_file) ` set vs
    \<and> (\<forall>name. name \<notin> (fst \<circ> resource_file) ` set vs \<longrightarrow> map_of (fold (\<lambda>v. put_file (resource_file v)) vs fs) name = map_of fs name)"
  using assms
proof (induction vs arbitrary: fs)
  case (Cons v vs)
  let ?fs = "put_file (resource_file v) fs"
  have d: "distinct (map fst ?fs)" using Cons.prems by (auto simp: put_file_names)
  have names: "set (map fst ?fs) = insert (fst (resource_file v)) (set (map fst fs))"
    unfolding put_file_names by auto
  have "length (map fst ?fs) \<le> Suc (length fs)" unfolding put_file_names by simp
  then have len: "length ?fs \<le> Suc (length fs)" by simp
  note IH = Cons.IH [OF d]
  have "distinct (map fst (fold (\<lambda>v. put_file (resource_file v)) (v # vs) fs))" using IH by simp
  moreover have "length (fold (\<lambda>v. put_file (resource_file v)) (v # vs) fs) \<le> length fs + length (v # vs)" using IH len by simp
  moreover have "set (map fst (fold (\<lambda>v. put_file (resource_file v)) (v # vs) fs)) \<subseteq> set (map fst fs) \<union> (fst \<circ> resource_file) ` set (v # vs)"
    using IH unfolding names by auto
  moreover have "map_of (fold (\<lambda>v. put_file (resource_file v)) (v # vs) fs) name = map_of fs name"
    if "name \<notin> (fst \<circ> resource_file) ` set (v # vs)" for name
    using IH that by (simp add: map_of_put_file)
  ultimately show ?case by blast
qed simp

lemma resource_names: "fst (resource_file v) \<notin> {''manifest.json'', ''instructions.md'', ''draft.json'', ''source-bindings.json''}"
  by (simp add: resource_file_def)

lemma skill_files_facts:
  fixes P skill
  defines "vs \<equiv> list_of (py_get (arg_dict skill ''body'') ''resources'')"
  shows "distinct (map fst (archive_files P skill))" and "length (archive_files P skill) \<le> 4 + length vs"
    and "map_of (archive_files P skill) ''manifest.json'' = Some (canonical P (PDict (skill_manifest P skill)))"
    and "map_of (archive_files P skill) ''source-bindings.json'' = Some (canonical P (PDict (source_data skill)))"
    and "map_of (archive_files P skill) ''draft.json'' = Some (canonical P (PDict (arg_dict skill ''body'')))"
proof -
  let ?base = "[(''instructions.md'', utf8 (instructions_text (arg_dict skill ''body''))),
    (''draft.json'', canonical P (PDict (arg_dict skill ''body''))), (''source-bindings.json'', canonical P (PDict (source_data skill)))]"
  let ?fs = "fold (\<lambda>v. put_file (resource_file v)) vs ?base"
  have files: "archive_files P skill = (''manifest.json'', canonical P (PDict (skill_manifest P skill))) # sort_key fst ?fs"
    by (simp add: archive_files_def skill_files_def Let_def vs_def)
  have base: "distinct (map fst ?base)" by simp
  note facts = put_files [OF base, of vs, THEN conjunct1] put_files [OF base, of vs, THEN conjunct2, THEN conjunct1]
    put_files [OF base, of vs, THEN conjunct2, THEN conjunct2, THEN conjunct1]
    put_files [OF base, of vs, THEN conjunct2, THEN conjunct2, THEN conjunct2, rule_format]
  have r: "name \<notin> (fst \<circ> resource_file) ` set vs" if "name \<in> {''manifest.json'', ''instructions.md'', ''draft.json'', ''source-bindings.json''}" for name
    using resource_names that by (auto simp: o_def)
  have "mset (map fst (sort_key fst ?fs)) = mset (map fst ?fs)" by simp
  then have "distinct (map fst (sort_key fst ?fs))" "set (map fst (sort_key fst ?fs)) = set (map fst ?fs)"
    using facts(1) mset_eq_imp_distinct_iff by (blast, simp)
  moreover have "''manifest.json'' \<notin> set (map fst ?fs)" using facts(3) r [of "''manifest.json''"] by auto
  ultimately show "distinct (map fst (archive_files P skill))" by (simp add: files)
  show "length (archive_files P skill) \<le> 4 + length vs" using facts(2) by (simp add: files)
  show "map_of (archive_files P skill) ''manifest.json'' = Some (canonical P (PDict (skill_manifest P skill)))" by (simp add: files)
  show "map_of (archive_files P skill) ''source-bindings.json'' = Some (canonical P (PDict (source_data skill)))"
    "map_of (archive_files P skill) ''draft.json'' = Some (canonical P (PDict (arg_dict skill ''body'')))"
    using facts(4) [OF r] by (simp_all add: files map_of_sort_key)
qed

subsection \<open>Reading an archive back\<close>

text \<open>
  What the formats promise of an exported archive: \<open>tarfile\<close> reads the members it wrote and
  adds less than a kilobyte to each and the end of the archive; \<open>gzip\<close> gives the bytes back,
  as many as are asked for; and canonical JSON reads back with its keys in order.
\<close>

definition regular_member :: "string \<times> char list \<Rightarrow> packed_member" where
  "regular_member f = \<lparr>pm_name = fst f, pm_isfile = True, pm_pax_headers = False, pm_mode = 420,
     pm_size = int (length (snd f)), pm_content = Some (snd f)\<rparr>"

definition codec_reads :: "platform \<Rightarrow> codec \<Rightarrow> dict \<Rightarrow> bool" where
  "codec_reads P K skill \<longleftrightarrow>
     (let fs = archive_files P skill; tar = tar_pack K fs
      in tar_open K tar = Some (map regular_member fs) \<and> length tar \<le> total_bytes fs + 1023 * length fs + 11263
         \<and> (\<forall>n. gunzip K (Some n) (gzip_pack K tar) = Unpacked (take n tar)) \<and> gunzip K None (gzip_pack K tar) = Unpacked tar
         \<and> (\<forall>v \<in> {PDict (skill_manifest P skill), PDict (source_data skill), py_get skill ''body''}.
              json_pairs K (canonical P v) = Some (sorted_json v)))"

lemma regular_member_content: "pm_name (regular_member f) = fst f" "pm_content (regular_member f) = Some (snd f)"
  by (simp_all add: regular_member_def)

lemma member_files_regular:
  assumes "distinct (map fst (gs @ fs))" and "length (gs @ fs) \<le> 8" and "\<forall>f \<in> set fs. length (snd f) \<le> MAX_EXPORT_BYTES"
  shows "member_files (map regular_member fs) gs = Inr (gs @ fs)"
  using assms
proof (induction fs arbitrary: gs)
  case (Cons f fs)
  have "\<not> unsafe_member (regular_member f) gs"
    using Cons.prems by (auto simp: unsafe_member_def regular_member_def)
  moreover have "member_files (map regular_member fs) (gs @ [f]) = Inr ((gs @ [f]) @ fs)"
    using Cons.prems by (intro Cons.IH) auto
  ultimately show ?case using Cons.prems(3) by (simp add: regular_member_content)
qed simp

lemma length_le_total: "f \<in> set fs \<Longrightarrow> length (snd f) \<le> total_bytes fs"
  by (induction fs) (auto simp: total_bytes_def)

lemma archive_reads:
  assumes reads: "codec_reads P K skill" and size: "total_bytes (archive_files P skill) \<le> MAX_EXPORT_BYTES"
    and payload: "length (archive_payload P K skill) \<le> MAX_EXPORT_BYTES"
    and few: "length (list_of (py_get (arg_dict skill ''body'') ''resources'')) \<le> 4"
    and a: "arg_str a ''archive_base64'' = b64_encode (archive_payload P K skill)"
      "arg_str a ''archive_digest'' = raw_digest P (archive_payload P K skill)"
  shows "opened_tar P K a = Inr (tar_pack K (archive_files P skill))"
    and "tar_files K (tar_pack K (archive_files P skill)) = Inr (archive_files P skill)"
proof -
  let ?fs = "archive_files P skill"
  have "\<not> MAX_ARCHIVE_TEXT < length (b64_encode (archive_payload P K skill))"
    using payload by (simp add: length_b64_encode MAX_ARCHIVE_TEXT_def MAX_EXPORT_BYTES_def)
  then have bytes: "archive_bytes P a = Inr (archive_payload P K skill)"
    using payload by (simp add: archive_bytes_def a b64_decode_encode)
  have eight: "length ?fs \<le> 8" using skill_files_facts(2) [of P skill] few by linarith
  have "length (tar_pack K ?fs) \<le> MAX_EXPORT_BYTES + 65536"
    using reads size eight by (simp add: codec_reads_def Let_def)
  then show "opened_tar P K a = Inr (tar_pack K ?fs)"
    using reads by (simp add: opened_tar_def bytes codec_reads_def Let_def archive_payload_def unpacked_def)
  have "\<forall>f \<in> set ?fs. length (snd f) \<le> MAX_EXPORT_BYTES" using length_le_total size by (meson order_trans)
  then have "member_files (map regular_member ?fs) [] = Inr ?fs"
    using member_files_regular [of "[]"] skill_files_facts(1) eight by simp
  then show "tar_files K (tar_pack K ?fs) = Inr ?fs"
    using reads size by (simp add: tar_files_def codec_reads_def Let_def)
qed

subsection \<open>Rebuilding an archive from its own claims\<close>

lemma dumps_sorted_entries: "dumps P (PDict (map (\<lambda>(k, v). (k, sorted_json v)) d)) = dumps P (PDict d)"
proof -
  have "map (\<lambda>(k, x). map_option (Pair k) (dumps P x)) (map (\<lambda>(k, v). (k, sorted_json v)) d)
    = map (\<lambda>(k, x). map_option (Pair k) (dumps P x)) d" by auto
  then show ?thesis by (simp only: dumps.simps dumps_members_eq)
qed

definition plain_skill :: "dict \<Rightarrow> bool" where
  "plain_skill skill \<longleftrightarrow> is_dict (py_get skill ''body'') \<and> is_str (py_get (arg_dict skill ''body'') ''description'')
     \<and> is_str (py_get skill ''content_digest'') \<and> offset_text (arg_str skill ''approved_at'')"

definition reread :: "dict \<Rightarrow> dict" where
  \<comment> \<open>the skill that the claims of its archive describe\<close>
  "reread skill = claimed_skill (sorted_dict (source_data skill)) (sorted_json (py_get skill ''body'')) (zulu (arg_str skill ''approved_at''))"

lemma source_data_get: "k \<in> set EXPORTED_FIELDS \<Longrightarrow> py_get (source_data skill) k = py_get skill k"
  by (auto simp: source_data_def EXPORTED_FIELDS_def py_get_def)

lemma reread_get:
  "py_get (reread skill) ''approved_at'' = PStr (zulu (arg_str skill ''approved_at''))"
  "py_get (reread skill) ''body'' = sorted_json (py_get skill ''body'')"
  "k \<in> set EXPORTED_FIELDS \<Longrightarrow> py_get (reread skill) k = sorted_json (py_get skill k)"
  using source_data_get [of k skill]
  by (auto simp: reread_def claimed_skill_def py_get_dict_put EXPORTED_FIELDS_def simp del: sorted_json.simps)

lemma reread_str: "k \<in> set EXPORTED_FIELDS \<Longrightarrow> arg_str (reread skill) k = arg_str skill k"
  by (simp add: arg_str_def reread_get)

lemma reread_body: "arg_dict (reread skill) ''body'' = sorted_dict (arg_dict skill ''body'')"
  by (simp add: arg_dict_def reread_get)

lemma reread_files: "skill_files P (reread skill) = skill_files P skill"
proof -
  have res: "resource_file (sorted_json v) = resource_file v" for v by (simp add: resource_file_def)
  have instr: "instructions_text (sorted_dict b) = instructions_text b" for b by (simp add: instructions_text_def o_def)
  have "source_data (reread skill) = map (\<lambda>(k, v). (k, sorted_json v)) (source_data skill)"
    by (simp add: source_data_def reread_get)
  then have src: "canonical P (PDict (source_data (reread skill))) = canonical P (PDict (source_data skill))"
    using canonical_cong [OF dumps_sorted_entries] by simp
  show ?thesis unfolding skill_files_def Let_def reread_body instr sorted_dict_texts src by (simp add: fold_map o_def res)
qed

lemma reread_manifest:
  assumes "plain_skill skill"
  shows "skill_manifest P (reread skill) = skill_manifest P skill"
proof -
  have num: "number_text P (sorted_json v) = number_text P v" for v by (cases v) (simp_all add: number_text_def)
  have same: "sorted_json v = v" if "is_str v" for v using that by (cases v) (simp_all add: is_str_def)
  have f: "arg_str (reread skill) ''approved_at'' = zulu (arg_str skill ''approved_at'')" by (simp add: arg_str_def reread_get)
  have g: "py_get (reread skill) ''revision'' = sorted_json (py_get skill ''revision'')"
    "py_get (reread skill) ''content_digest'' = py_get skill ''content_digest''"
    "py_get (sorted_dict (arg_dict skill ''body'')) ''description'' = py_get (arg_dict skill ''body'') ''description''"
    using assms same by (auto simp: plain_skill_def reread_get EXPORTED_FIELDS_def)
  have "provenance P (reread skill) t = provenance P skill t" for t
    unfolding provenance_def g by (simp add: reread_str EXPORTED_FIELDS_def)
  then have "unsealed_manifest P (reread skill) = unsealed_manifest P skill"
    using assms unfolding unsealed_manifest_def Let_def reread_files reread_body f g
    by (simp add: num plain_skill_def zulu_offset reread_str EXPORTED_FIELDS_def del: sorted_lookups)
  then show ?thesis by (simp add: skill_manifest_def)
qed

lemma reread_build:
  assumes "plain_skill skill"
    and "schema_valid P BODY_SCHEMA (sorted_json (py_get skill ''body'')) = schema_valid P BODY_SCHEMA (py_get skill ''body'')"
  shows "build_archive P K (reread skill) = build_archive P K skill"
  using assms by (simp add: build_archive_def archive_payload_def archive_files_def reread_files reread_manifest reread_get)

subsection \<open>Bodies that importing leaves as they are\<close>

text \<open>Normalization is idempotent: substrings of a normal text are normal, and so is ASCII.\<close>

definition unicode_stable :: "unicode \<Rightarrow> bool" where
  "unicode_stable U \<longleftrightarrow> (\<forall>s. nfc U (py_strip (nfc U s)) = py_strip (nfc U s))
     \<and> (\<forall>s. (\<forall>c \<in> set s. (of_char c :: nat) < 128) \<longrightarrow> nfc U s = s)"

fun all_normal :: "unicode \<Rightarrow> pyval \<Rightarrow> bool" where
  "all_normal U (PStr s) \<longleftrightarrow> py_strip (nfc U s) = s"
| "all_normal U (PList vs) \<longleftrightarrow> list_all (all_normal U) vs"
| "all_normal U (PDict d) \<longleftrightarrow> list_all (\<lambda>(k, v). all_normal U v) d"
| "all_normal U v \<longleftrightarrow> True"

lemma normalize_normal: "all_normal U v \<Longrightarrow> normalize_value U v = v"
proof (induction v rule: sorted_json.induct)
  case (1 d)
  then show ?case by (auto simp: list_all_iff intro!: map_idI)
next
  case (2 vs)
  then show ?case by (auto simp: list_all_iff intro!: map_idI)
qed simp_all

lemma py_strip_idem: "py_strip (py_strip s) = py_strip s"
proof -
  let ?t = "dropWhile py_space s"
  have fin: "rev (dropWhile py_space (rev ?t)) = [] \<or> \<not> py_space (hd (rev (dropWhile py_space (rev ?t))))"
  proof (cases "dropWhile py_space (rev ?t) = []")
    case False
    obtain a b where ab: "?t = a # b" using False by (cases ?t) auto
    then have "\<not> py_space a" by (metis hd_dropWhile list.distinct(1) list.sel(1))
    then have "dropWhile py_space (rev b @ [a]) = dropWhile py_space (rev b) @ [a]"
      by (induction "rev b") (metis append_Nil dropWhile.simps, simp add: dropWhile_append3 dropWhile_append)
    then show ?thesis using \<open>\<not> py_space a\<close> by (simp add: ab)
  qed simp
  have "dropWhile py_space (py_strip s) = py_strip s"
    using fin unfolding py_strip_def by (simp add: dropWhile_eq_self_iff)
  moreover have "dropWhile py_space (rev (py_strip s)) = rev (py_strip s)"
    by (simp add: py_strip_def dropWhile_idem)
  ultimately show ?thesis by (simp add: py_strip_def [of "py_strip s"])
qed

lemma normal_normalize: "unicode_stable U \<Longrightarrow> all_normal U (normalize_value U v)"
  by (induction v rule: sorted_json.induct) (auto simp: list_all_iff unicode_stable_def py_strip_idem)

lemma all_normal_sorted [simp]: "all_normal U (sorted_json v) = all_normal U v"
proof (induction v rule: sorted_json.induct)
  case (1 d)
  then show ?case by (fastforce simp: list_all_iff)
next
  case (2 vs)
  then show ?case by (auto simp: list_all_iff)
qed simp_all

lemma uuid_str_normal:
  assumes "unicode_stable U"
  shows "all_normal U (PStr (uuid_str n))"
proof -
  have c: "(of_char c :: nat) < 128 \<and> \<not> py_space c" if "c \<in> set (uuid_str n)" for c
  proof -
    have "(of_char (hex_char d) :: nat) < 128" if "d < 16" for d using that by (simp add: hex_char_def)
    then show ?thesis using uuid_str_chars [OF that] hex_char_facts(4) by (auto simp: py_space_def)
  qed
  then have "nfc U (uuid_str n) = uuid_str n" using assms by (simp add: unicode_stable_def)
  moreover have "py_strip (uuid_str n) = uuid_str n"
    unfolding py_strip_def using c by (subst (1 2) dropWhile_none) auto
  ultimately show ?thesis by simp
qed

lemma all_normal_dict_put: "all_normal U (PDict d) \<Longrightarrow> all_normal U v \<Longrightarrow> all_normal U (PDict (dict_put k v d))"
  by (auto simp: dict_put_def list_all_iff)

lemma dict_put_same:
  assumes "distinct (map fst d)" and "map_of d k = Some v"
  shows "dict_put k v d = d"
proof -
  have "e = (k, v)" if "e \<in> set d" "fst e = k" for e
    using that assms map_of_is_SomeI [OF assms(1), of k "snd e"] by (cases e) auto
  moreover have "has_key d k" using map_of_SomeD [OF assms(2)] by (force simp: has_key_def list_ex_iff)
  ultimately show ?thesis by (auto simp: dict_put_def intro!: map_idI)
qed

text \<open>What the schema of a body promises of its shape, whatever the order of its keys.\<close>

definition body_shape :: "pyval \<Rightarrow> bool" where
  "body_shape v \<longleftrightarrow> is_dict v \<and> unique_pairs v
     \<and> (let b = dict_of v
        in is_str (py_get b ''description'') \<and> list_of (py_get b ''steps'') \<noteq> [] \<and> list_all is_dict (list_of (py_get b ''steps''))
           \<and> length (list_of (py_get b ''resources'')) \<le> 4)"

definition schema_shapes :: "platform \<Rightarrow> bool" where
  "schema_shapes P \<longleftrightarrow> (\<forall>v. schema_valid P BODY_SCHEMA v \<longrightarrow> body_shape v)
     \<and> (\<forall>v. schema_valid P BODY_SCHEMA (sorted_json v) = schema_valid P BODY_SCHEMA v)"

text \<open>A body that \<open>prepare\<close> has normalized, with its steps quoting some of the ids.\<close>

definition settled_step :: "uuid set \<Rightarrow> pyval \<Rightarrow> bool" where
  "settled_step ids v \<longleftrightarrow> (\<exists>ts. py_get (dict_of v) ''sources'' = strs ts \<and> sort (remdups ts) = ts
     \<and> (\<forall>t \<in> set ts. uuid_text t = Some t \<and> uuid_of t \<in> ids))"

definition settled_body :: "unicode \<Rightarrow> platform \<Rightarrow> dict \<Rightarrow> uuid set \<Rightarrow> bool" where
  "settled_body U P b ids \<longleftrightarrow> all_normal U (PDict b) \<and> schema_valid P BODY_SCHEMA (PDict b) \<and> text_size P (PDict b) \<le> 24000
     \<and> (\<forall>v \<in> set (list_of (py_get b ''steps'')). settled_step ids v)
     \<and> distinct (map (\<lambda>v. arg_str (dict_of v) ''name'') (list_of (py_get b ''resources'')))"

lemma arg_strs_strs: "py_get d k = strs ts \<Longrightarrow> arg_strs d k = ts"
  by (simp add: arg_strs_def strs_of_def strs_def list_of_def o_def)

lemma collect_source_texts: "\<forall>t \<in> set ts. uuid_text t = Some t \<Longrightarrow> collect source_text (map PStr ts) = Inr ts"
  by (induction ts) (simp_all add: source_text_def)

lemma imported_step_settled:
  assumes "settled_step ids v" and "is_dict v" and "unique_pairs v"
  shows "imported_step v = Inr v"
proof -
  obtain d where d: "v = PDict d" using assms(2) by (cases v) (simp_all add: is_dict_def)
  obtain ts where ts: "py_get d ''sources'' = strs ts" "sort (remdups ts) = ts" "\<forall>t \<in> set ts. uuid_text t = Some t"
    using assms(1) by (auto simp: settled_step_def d)
  then have m: "map_of d ''sources'' = Some (strs ts)" by (auto simp: py_get_def strs_def split: option.splits)
  then have "dict_put ''sources'' (strs ts) d = d" using assms(3) by (simp add: d dict_put_same)
  then show ?thesis using ts(2) m collect_source_texts [OF ts(3)]
    by (simp add: imported_step_def d) (simp add: iterated_def strs_def)
qed

lemma settled_step_sorted: "settled_step ids v \<Longrightarrow> settled_step ids (sorted_json v)"
  by (auto simp: settled_step_def)

lemma collect_same: "(\<And>v. v \<in> set vs \<Longrightarrow> f v = Inr v) \<Longrightarrow> collect f vs = Inr vs"
  by (induction vs) simp_all

lemma imported_body_settled:
  assumes "settled_body U P b ids" and "schema_shapes P"
  shows "imported_body U (PDict (sorted_dict b)) = Inr (sorted_dict b)"
proof -
  let ?b = "sorted_dict b"
  have shape: "body_shape (PDict b)" using assms by (simp add: settled_body_def schema_shapes_def)
  then obtain vs where vs: "py_get b ''steps'' = PList vs" "vs \<noteq> []"
    by (cases "py_get b ''steps''") (auto simp: body_shape_def Let_def list_of_def)
  have uniq: "unique_pairs (PDict ?b)" using shape by (simp only: body_shape_def sorted_dict_texts)
  let ?vs = "map sorted_json vs"
  have get: "py_get ?b ''steps'' = PList ?vs" by (simp add: vs)
  then have m: "map_of ?b ''steps'' = Some (PList ?vs)" by (simp add: py_get_def split: option.splits)
  have elems: "\<forall>w \<in> set vs. settled_step ids w" "\<forall>w \<in> set vs. is_dict w"
    using assms(1) shape unfolding settled_body_def body_shape_def Let_def dict_of_PDict vs(1)
    by (simp_all add: list_of_def list_all_iff)
  have "unique_pairs (PList ?vs)" by (rule unique_lookup [OF uniq m])
  then have "imported_step v = Inr v" if "v \<in> set ?vs" for v
    using that elems by (auto simp: list_all_iff intro!: imported_step_settled settled_step_sorted)
  then have "collect imported_step ?vs = Inr ?vs" by (rule collect_same)
  moreover have "dict_put ''steps'' (PList ?vs) ?b = ?b" using uniq m by (simp add: dict_put_same)
  moreover have "all_normal U (PDict ?b)" 
    using assms(1) unfolding sorted_json_PDict [symmetric] settled_body_def by (simp only: all_normal_sorted)
  then have "normalize_value U (PDict ?b) = PDict ?b" by (rule normalize_normal)
  ultimately show ?thesis using vs(2) m by (cases ?vs) (simp_all add: imported_body_def get_or_def)
qed

lemma body_errors_settled:
  assumes "settled_body U P b ids" and "schema_shapes P" and "ids \<subseteq> set (map fst refs)"
  shows "\<forall>c \<in> set (body_errors P (sorted_dict b) refs). \<not> fst c"
proof -
  have "schema_valid P BODY_SCHEMA (PDict (sorted_dict b))"
    using assms(1,2) unfolding sorted_json_PDict [symmetric] settled_body_def schema_shapes_def by blast
  moreover have "text_size P (PDict (sorted_dict b)) = text_size P (PDict b)"
    by (rule sorted_dict_texts)
  moreover have "i \<in> set (map fst refs)" if "v \<in> set (list_of (py_get b ''steps''))" "i \<in> set (step_sources v)" for v i
  proof -
    have "settled_step ids v" using assms(1) that(1) by (simp add: settled_body_def)
    then obtain ts where ts: "py_get (dict_of v) ''sources'' = strs ts" "\<forall>t \<in> set ts. uuid_of t \<in> ids"
      unfolding settled_step_def by blast
    have "step_sources v = map uuid_of ts" by (simp add: step_sources_def arg_strs_strs [OF ts(1)])
    then have "i \<in> uuid_of ` set ts" using that(2) by simp
    then show ?thesis using ts(2) assms(3) by blast
  qed
  then have "list_all (\<lambda>v. list_all (\<lambda>i. i \<in> set (map fst refs)) (step_sources v)) (list_of (py_get b ''steps''))"
    unfolding list_all_iff by blast
  moreover have "step_sources (sorted_json v) = step_sources v" for v by (simp add: step_sources_def)
  ultimately show ?thesis using assms(1)
    unfolding settled_body_def body_errors_def by (simp add: list_ex_iff list_all_iff o_def)
qed

subsection \<open>Claims that importing accepts\<close>

definition source_ids :: "dict list \<Rightarrow> uuid list" where
  "source_ids bs = map (\<lambda>b. arg_uuid b ''memory_id'') bs"

definition source_fits :: "dict \<Rightarrow> dict \<Rightarrow> bool" where
  "source_fits skill b \<longleftrightarrow> py_get b ''memory_id'' = PStr (uuid_str (arg_uuid b ''memory_id''))
     \<and> py_get b ''project_id'' = py_get skill ''project_id''
     \<and> py_get b ''source_lock_digest'' = py_get skill ''source_lock_digest''
     \<and> class_of (arg_str b ''classification'') \<le> class_of (arg_str skill ''classification'')"

definition bound_claims :: "unicode \<Rightarrow> platform \<Rightarrow> dict \<Rightarrow> dict list \<Rightarrow> bool" where
  "bound_claims U P skill bs \<longleftrightarrow> py_get skill ''sources'' = PList (map PDict bs) \<and> sorted (source_ids bs)
     \<and> (\<forall>b \<in> set bs. source_fits skill b) \<and> (\<exists>b \<in> set bs. py_get b ''kind'' = PStr ''procedure'')
     \<and> py_get skill ''source_watermark'' = PStr (watermark_of P bs)
     \<and> py_get skill ''content_digest'' = PStr (digest P (content_claim (py_get skill ''body'') skill))
     \<and> settled_body U P (arg_dict skill ''body'') (set (source_ids bs))
     \<and> canonical_uuid (py_get skill ''skill_id'') \<and> canonical_uuid (py_get skill ''revision_id'')"

lemma skill_refs_sorted_json: "skill_refs (map sorted_json vs) = skill_refs vs"
  by (simp add: skill_refs_def o_def)

lemma skill_refs_sorted:
  assumes "skill_refs (map PDict bs) = Inr refs" and "sorted (source_ids bs)"
  shows "map fst refs = source_ids bs"
proof -
  have "map fst (map (\<lambda>v. (arg_uuid (dict_of v) ''memory_id'', arg_int (dict_of v) ''version'')) (map PDict bs)) = source_ids bs"
    by (simp add: source_ids_def)
  then show ?thesis using assms by (auto simp: skill_refs_def Let_def sort_key_id_if_sorted)
qed

lemma claim_fits_sorted:
  assumes "source_fits skill b"
  shows "claim_fits (sorted_dict (source_data skill)) (sorted_json (PDict b)) = Inr ()"
proof -
  have get: "py_get (source_data skill) k = py_get skill k" if "k \<in> {''project_id'', ''source_lock_digest'', ''classification''}" for k
    using that by (intro source_data_get) (auto simp: EXPORTED_FIELDS_def)
  then have "arg_str (source_data skill) ''classification'' = arg_str skill ''classification''" by (simp add: arg_str_def)
  then show ?thesis using assms unfolding sorted_json_PDict
    by (simp add: claim_fits_def source_fits_def team_ceiling_def get not_less Let_def and_then_Inr_iff del: class_of.simps)
qed

lemma content_claim_sorted:
  "digest P (content_claim (sorted_json (py_get skill ''body'')) (sorted_dict (source_data skill)))
     = digest P (content_claim (py_get skill ''body'') skill)"
proof -
  have "content_claim (sorted_json (py_get skill ''body'')) (sorted_dict (source_data skill))
    = PDict (map (\<lambda>(k, v). (k, sorted_json v)) [(''body'', py_get skill ''body''), (''sources'', py_get skill ''sources''),
        (''classification'', py_get skill ''classification'')])"
    by (simp add: content_claim_def source_data_get EXPORTED_FIELDS_def)
  then show ?thesis unfolding content_claim_def by (simp only: digest_cong [OF dumps_sorted_entries])
qed

lemma source_claims_sorted:
  assumes "bound_claims U P skill bs" and "plain_skill skill" and "schema_shapes P"
    and refs: "skill_refs (map PDict bs) = Inr refs"
    and fmt: "format_valid K SOURCE_SCHEMA (PDict (sorted_dict (source_data skill)))"
  shows "source_claims U P K (sorted_json (py_get skill ''body'')) (PDict (sorted_dict (source_data skill)))
    = Inr (sorted_dict (source_data skill))"
proof -
  let ?s = "sorted_dict (source_data skill)" and ?b = "arg_dict skill ''body''"
  have claims: "py_get skill ''sources'' = PList (map PDict bs)" "sorted (source_ids bs)" "\<forall>b \<in> set bs. source_fits skill b"
    "\<exists>b \<in> set bs. py_get b ''kind'' = PStr ''procedure''" "py_get skill ''source_watermark'' = PStr (watermark_of P bs)"
    "py_get skill ''content_digest'' = PStr (digest P (content_claim (py_get skill ''body'') skill))"
    "settled_body U P ?b (set (source_ids bs))"
    "canonical_uuid (py_get skill ''skill_id'')" "canonical_uuid (py_get skill ''revision_id'')"
    using assms(1) unfolding bound_claims_def by blast+
  have sources: "py_get ?s ''sources'' = PList (map sorted_json (map PDict bs))"
    by (simp add: source_data_get EXPORTED_FIELDS_def claims(1))
  then have lst: "list_of (py_get ?s ''sources'') = map sorted_json (map PDict bs)" by (simp add: list_of_def)
  have body: "py_get skill ''body'' = PDict ?b"
    using assms(2) by (cases "py_get skill ''body''") (auto simp: plain_skill_def arg_dict_def is_dict_def)
  have ids: "map fst refs = source_ids bs" by (rule skill_refs_sorted [OF refs claims(2)])
  have "unique_pairs (PDict ?b)" using claims(7) assms(3) by (auto simp: settled_body_def schema_shapes_def body_shape_def)
  then have eq: "py_eq (PDict (sorted_dict ?b)) (PDict (sorted_dict ?b))" by (intro py_eq_refl) (simp only: sorted_dict_texts)
  have mids: "map (\<lambda>v. py_get (dict_of v) ''memory_id'') (map sorted_json (map PDict bs)) = map (PStr \<circ> uuid_str \<circ> fst) refs"
    using claims(3) arg_cong [OF ids, of "map (PStr \<circ> uuid_str)"]
    by (simp add: o_def source_ids_def source_fits_def del: sorted_json.simps)
  have errs: "\<forall>c \<in> set (body_errors P (sorted_dict ?b) refs). \<not> fst c"
    by (rule body_errors_settled [OF claims(7) assms(3)]) (simp only: ids order_refl)
  have draft: "imported_draft U P (sorted_json (py_get skill ''body'')) (list_of (py_get ?s ''sources'')) = Inr ()"
    unfolding imported_draft_def lst skill_refs_sorted_json refs body sorted_json_PDict
      imported_body_settled [OF claims(7) assms(3)] mids
    using errs eq by simp
  have fits: "collect (claim_fits ?s) (list_of (py_get ?s ''sources'')) = Inr (map (\<lambda>_. ()) bs)"
    unfolding lst using claims(3) by (induction bs) (simp_all add: claim_fits_sorted del: sorted_json.simps)
  have proc: "PStr ''procedure'' \<in> set (map (\<lambda>w. py_get (dict_of w) ''kind'') (list_of (py_get ?s ''sources'')))"
  proof -
    obtain b where b: "b \<in> set bs" "py_get b ''kind'' = PStr ''procedure''" using claims(4) by blast
    then have "py_get (dict_of (sorted_json (PDict b))) ''kind'' = PStr ''procedure''" by (simp add: sorted_json_PDict del: sorted_json.simps)
    then show ?thesis unfolding lst set_map image_image using b(1) by (metis (no_types, lifting) image_eqI)
  qed
  have uuids: "canonical_uuid (py_get ?s ''skill_id'')" "canonical_uuid (py_get ?s ''revision_id'')"
    using claims(8,9) by (auto simp: canonical_uuid_def source_data_get EXPORTED_FIELDS_def split: pyval.splits)
  have "digest P (py_get ?s ''sources'') = watermark_of P bs"
    unfolding sources sorted_json.simps(2) [symmetric] sorted_texts watermark_of_def by (rule refl)
  moreover have "py_get ?s ''source_watermark'' = py_get skill ''source_watermark''"
    "py_get ?s ''content_digest'' = py_get skill ''content_digest''"
    using claims(5,6) by (auto simp: source_data_get EXPORTED_FIELDS_def)
  ultimately show ?thesis
    using fmt draft fits proc uuids claims(5,6)
    unfolding source_claims_def Let_def dict_of_PDict content_claim_sorted by (simp add: and_then_Inr_iff)
qed

subsection \<open>An exported archive is accepted\<close>

definition carries :: "dict \<Rightarrow> dict \<Rightarrow> bool" where
  \<comment> \<open>the arguments of an import hold the archive of an export with its digests\<close>
  "carries a e \<longleftrightarrow> (\<forall>k \<in> {''archive_base64'', ''archive_digest'', ''manifest_digest'', ''artifact_digest''}. py_get a k = py_get e k)"

definition accepted_export :: "platform \<Rightarrow> dict \<Rightarrow> import_artifact" where
  "accepted_export P skill =
     (let body = sorted_json (py_get skill ''body''); source = sorted_dict (source_data skill); manifest = skill_manifest P skill
      in \<lparr>ia_origin_key = origin_key P manifest,
          ia_payload = [(''body'', body), (''source_claims'', PDict source), (''manifest'', PDict manifest),
            (''origin_key'', PStr (origin_key P manifest))]\<rparr>)"

lemma build_archiveE:
  assumes "build_archive P K skill = Inr e"
  shows "schema_valid P BODY_SCHEMA (py_get skill ''body'')" "total_bytes (archive_files P skill) \<le> MAX_EXPORT_BYTES"
    "length (archive_payload P K skill) \<le> MAX_EXPORT_BYTES"
    "py_get e ''archive_base64'' = PStr (b64_encode (archive_payload P K skill))"
    "py_get e ''archive_digest'' = PStr (raw_digest P (archive_payload P K skill))"
    "py_get e ''manifest'' = PDict (skill_manifest P skill)"
  using assms by (auto simp: build_archive_def Let_def py_get_def)

lemma manifest_unique:
  assumes "plain_skill skill"
  shows "unique_pairs (PDict (skill_manifest P skill))"
proof -
  have d: "unique_pairs (py_get (arg_dict skill ''body'') ''description'')"
    using assms by (cases "py_get (arg_dict skill ''body'') ''description''") (simp_all add: plain_skill_def is_str_def)
  have c: "unique_pairs (py_get skill ''content_digest'')"
    using assms by (cases "py_get skill ''content_digest''") (simp_all add: plain_skill_def is_str_def)
  show ?thesis
    by (simp add: skill_manifest_def unsealed_manifest_def Let_def provenance_def strs_def d c manifest_record_def list_all_iff)
qed

lemma origin_key_sorted: "origin_key P (sorted_dict m) = origin_key P m"
proof -
  have "PList (map sorted_json [py_get (arg_dict m ''provenance'') ''source_repository'', py_get m ''id'', py_get m ''version''])
    = PList [py_get (arg_dict (sorted_dict m) ''provenance'') ''source_repository'', py_get (sorted_dict m) ''id'', py_get (sorted_dict m) ''version'']"
    by simp
  then show ?thesis unfolding origin_key_def by (metis sorted_json.simps(2) sorted_texts(2))
qed

lemma export_accepted:
  assumes claims: "bound_claims U P skill bs" and plain: "plain_skill skill" and shapes: "schema_shapes P"
    and refs: "skill_refs (map PDict bs) = Inr refs"
    and fmt: "format_valid K SOURCE_SCHEMA (PDict (sorted_dict (source_data skill)))"
    and reads: "codec_reads P K skill" and uniq: "unique_pairs (PDict (source_data skill))"
    and iso: "fromisoformat P (arg_str skill ''approved_at'') = Some (Aware u)"
    and e: "build_archive P K skill = Inr e" and a: "carries a e"
    and level: "class_of (arg_str skill ''classification'') \<le> class_of (arg_str a ''classification'')"
  shows "validate_archive U P K a = Inr (accepted_export P skill)"
proof -
  let ?fs = "archive_files P skill" and ?m = "skill_manifest P skill" and ?s = "sorted_dict (source_data skill)"
  let ?body = "sorted_json (py_get skill ''body'')"
  note built = build_archiveE [OF e]
  have body: "py_get skill ''body'' = PDict (arg_dict skill ''body'')"
    using plain by (cases "py_get skill ''body''") (auto simp: plain_skill_def arg_dict_def is_dict_def)
  have few: "length (list_of (py_get (arg_dict skill ''body'') ''resources'')) \<le> 4" and ub: "unique_pairs (py_get skill ''body'')"
    using built(1) shapes by (auto simp: schema_shapes_def body_shape_def Let_def arg_dict_def)
  have a64: "arg_str a ''archive_base64'' = b64_encode (archive_payload P K skill)"
    "arg_str a ''archive_digest'' = raw_digest P (archive_payload P K skill)"
    using a built(4,5) by (simp_all add: carries_def arg_str_def)
  note opened = archive_reads [OF reads built(2,3) few a64]
  have json: "json_pairs K (canonical P v) = Some (sorted_json v)" if "v \<in> {PDict ?m, PDict (source_data skill), py_get skill ''body''}" for v
    using reads that by (auto simp: codec_reads_def Let_def)
  have m: "member_json K ?fs ''manifest.json'' = Inr (PDict (sorted_dict ?m))"
    using manifest_unique [OF plain] json [of "PDict ?m"]
    by (simp add: member_json_def skill_files_facts strict_json_def sorted_json_PDict del: unique_pairs.simps sorted_json.simps)
  have s: "member_json K ?fs ''source-bindings.json'' = Inr (PDict ?s)"
    using uniq json [of "PDict (source_data skill)"]
    by (simp add: member_json_def skill_files_facts strict_json_def sorted_json_PDict del: unique_pairs.simps sorted_json.simps)
  have b: "member_json K ?fs ''draft.json'' = Inr ?body"
    using ub json [of "py_get skill ''body''"] body
    by (simp add: member_json_def skill_files_facts strict_json_def del: unique_pairs.simps sorted_json.simps)
  note src = source_claims_sorted [OF claims plain shapes refs fmt]
  have off: "with_offset (zulu (arg_str skill ''approved_at'')) = arg_str skill ''approved_at''"
    using plain by (simp add: plain_skill_def zulu_offset)
  have "py_get ?m ''created_at'' = PStr (zulu (arg_str skill ''approved_at''))"
    by (simp add: skill_manifest_def unsealed_manifest_def Let_def py_get_def)
  then have time: "approval_time P (PDict (sorted_dict ?m)) = Inr (zulu (arg_str skill ''approved_at''))"
    using iso by (simp add: approval_time_def off)
  have "build_archive P K (reread skill) = Inr e"
    using reread_build [OF plain] shapes e by (simp add: schema_shapes_def)
  then have again: "build_archive P K (claimed_skill ?s ?body (zulu (arg_str skill ''approved_at''))) = Inr e"
    by (simp only: reread_def)
  have tar: "rebuilt_tar K e = Inr (tar_pack K ?fs)"
    using reads built(4) by (simp add: rebuilt_tar_def arg_str_def b64_decode_encode codec_reads_def Let_def archive_payload_def unpacked_def)
  have lvl: "arg_str (source_data skill) ''classification'' = arg_str skill ''classification''"
    by (simp add: arg_str_def source_data_get EXPORTED_FIELDS_def)
  show ?thesis
    using a level unfolding validate_archive_def opened(1)
    by (simp add: opened(2) m s b src time again tar carries_def built(6) team_ceiling_def lvl not_less accepted_export_def Let_def
        origin_key_sorted and_then_Inr_iff del: class_of.simps sorted_json.simps)
qed

subsection \<open>What every stored revision is bound to\<close>

definition binding_fits :: "skill_revision \<Rightarrow> dict \<Rightarrow> bool" where
  "binding_fits r b \<longleftrightarrow> py_get b ''memory_id'' = PStr (uuid_str (arg_uuid b ''memory_id''))
     \<and> py_get b ''project_id'' = PStr (kr_project_id r) \<and> py_get b ''source_lock_digest'' = PStr (kr_source_lock_digest r)
     \<and> class_of (arg_str b ''classification'') \<le> kr_classification r"

definition export_bound :: "unicode \<Rightarrow> platform \<Rightarrow> skill_revision \<Rightarrow> dict list \<Rightarrow> bool" where
  "export_bound U P r bs \<longleftrightarrow> kr_source_watermark r = watermark_of P bs \<and> sorted (source_ids bs)
     \<and> (\<forall>b \<in> set bs. binding_fits r b) \<and> (\<exists>b \<in> set bs. py_get b ''kind'' = PStr ''procedure'')
     \<and> (kr_status r \<noteq> K_forgotten \<longrightarrow>
          kr_content_digest r = digest P (PDict (content_material (kr_body r) bs (kr_classification r)))
          \<and> settled_body U P (kr_body r) (set (source_ids bs)))"

definition exports_ok :: "unicode \<Rightarrow> platform \<Rightarrow> skdb \<Rightarrow> bool" where
  "exports_ok U P db \<longleftrightarrow> (\<forall>r \<in> set (kd_revisions db). export_bound U P r (saved_bindings (kr_id r) db))
     \<and> ks_revision_id ` set (kd_sources db) \<subseteq> kr_id ` set (kd_revisions db)"

lemma guard_fields:
  assumes "guard_skill_revision r r'"
  shows "kr_id r' = kr_id r" "kr_project_id r' = kr_project_id r" "kr_source_lock_digest r' = kr_source_lock_digest r"
    "kr_classification r' = kr_classification r" "kr_source_watermark r' = kr_source_watermark r"
    "kr_content_digest r' = kr_content_digest r" "kr_status r' \<noteq> K_forgotten \<Longrightarrow> kr_status r \<noteq> K_forgotten \<and> kr_body r' = kr_body r"
proof -
  have i: "revision_identity r' = revision_identity r" using assms by (simp add: guard_skill_revision_def)
  show "kr_id r' = kr_id r" "kr_project_id r' = kr_project_id r" "kr_source_lock_digest r' = kr_source_lock_digest r"
    "kr_classification r' = kr_classification r" "kr_source_watermark r' = kr_source_watermark r" "kr_content_digest r' = kr_content_digest r"
    using arg_cong [OF i, of kr_id] arg_cong [OF i, of kr_project_id] arg_cong [OF i, of kr_source_lock_digest]
      arg_cong [OF i, of kr_classification] arg_cong [OF i, of kr_source_watermark] arg_cong [OF i, of kr_content_digest]
    by (simp_all add: revision_identity_def)
  show "kr_status r' \<noteq> K_forgotten \<Longrightarrow> kr_status r \<noteq> K_forgotten \<and> kr_body r' = kr_body r"
    using assms by (auto simp: guard_skill_revision_def)
qed

lemma export_bound_guard:
  assumes "guard_skill_revision r r'" and "export_bound U P r bs"
  shows "export_bound U P r' bs"
  using assms(2) guard_fields [OF assms(1)] by (auto simp: export_bound_def binding_fits_def)

lemma exports_frame:
  assumes ok: "exports_ok U P db" and sk: "skills_ok db" "skills_ok db'" and hist: "skill_history db db'"
    and same: "kd_sources db' = kd_sources db" "map kr_id (kd_revisions db') = map kr_id (kd_revisions db)"
  shows "exports_ok U P db'"
proof -
  have ids: "kr_id ` set (kd_revisions db') = kr_id ` set (kd_revisions db)"
    using arg_cong [OF same(2), of set] by simp
  have keys: "distinct (map kr_id (kd_revisions db))" "distinct (map kr_id (kd_revisions db'))"
    using sk by (simp_all add: skills_ok_def skill_keys_def)
  have "export_bound U P r' (saved_bindings (kr_id r') db')" if r': "r' \<in> set (kd_revisions db')" for r'
  proof -
    obtain r where r: "r \<in> set (kd_revisions db)" "kr_id r = kr_id r'" using ids r' by force
    then have "revision_at db (kr_id r') = Some r" using fetchrow_by_key_eq [OF keys(1) r] by (simp add: revision_at_def)
    then obtain q where q: "revision_at db' (kr_id r') = Some q" "guard_skill_revision r q"
      using hist by (auto simp: skill_history_def)
    have "revision_at db' (kr_id r') = Some r'" using fetchrow_by_key_eq [OF keys(2) r' refl] by (simp add: revision_at_def)
    then have "guard_skill_revision r r'" using q by simp
    moreover have "export_bound U P r (saved_bindings (kr_id r') db')"
      using ok r by (auto simp: exports_ok_def saved_bindings_def same)
    ultimately show ?thesis by (rule export_bound_guard)
  qed
  then show ?thesis using ok by (simp add: exports_ok_def same ids)
qed

lemma moved_ids: "map kr_id (update_where p (moved_revision now st) rs) = map kr_id rs"
  by (rule map_update_where) simp

lemma exports_transition:
  "kd_sources (transition_revision now r actor act st db) = kd_sources db"
  "map kr_id (kd_revisions (transition_revision now r actor act st db)) = map kr_id (kd_revisions db)"
  "kd_sources (point_active i n db) = kd_sources db" "kd_revisions (point_active i n db) = kd_revisions db"
  by (simp_all add: transition_revision_def point_active_def moved_ids)

lemma review_frame:
  assumes "review_skill P clk actor a db = Inr (db', answer)"
  shows "kd_sources db' = kd_sources db \<and> map kr_id (kd_revisions db') = map kr_id (kd_revisions db)"
proof -
  have sup: "kd_sources db2 = kd_sources db \<and> map kr_id (kd_revisions db2) = map kr_id (kd_revisions db)"
    if "approve_revision P clk actor r s db = Inr db2" for r s db2
    using that by (auto simp: approve_revision_def supersede_active_def and_then_Inr_iff exports_transition split: option.splits)
  show ?thesis using assms
    by (auto simp: review_skill_def Let_def and_then_Inr_iff exports_transition dest: sup split: option.splits if_splits)
qed

lemma memories_frame:
  "kd_sources (memories_changed now new db) = kd_sources db \<and> map kr_id (kd_revisions (memories_changed now new db)) = map kr_id (kd_revisions db)"
proof -
  have one: "map kr_id (kd_revisions (fold (invalidate_revision now x) rs db)) = map kr_id (kd_revisions db)" for x rs db
    by (induction rs arbitrary: db) (simp_all add: invalidate_revision_def moved_ids)
  have "kd_sources (fold (invalidate now) xs db) = kd_sources db \<and> map kr_id (kd_revisions (fold (invalidate now) xs db)) = map kr_id (kd_revisions db)"
    for xs db
    by (induction xs arbitrary: db) (simp_all add: one invalidate_def)
  then show ?thesis by (simp add: memories_changed_def)
qed

subsection \<open>Submissions bind what they store\<close>

lemma all_normal_entry: "all_normal U (PDict d) \<Longrightarrow> all_normal U (py_get d k)"
proof (cases "map_of d k")
  case (Some v)
  assume "all_normal U (PDict d)"
  then have "\<forall>e \<in> set d. all_normal U (snd e)" by (simp add: list_all_iff split_def)
  then have "all_normal U (snd (k, v))" using map_of_SomeD [OF Some] by (rule bspec)
  then show ?thesis by (simp add: py_get_def Some)
qed (simp add: py_get_def)

lemma all_normal_dict: "all_normal U v \<Longrightarrow> all_normal U (PDict (dict_of v))"
  by (cases v) (simp_all add: dict_of_def)

lemma normalized_step_facts:
  assumes "unicode_stable U" and "all_normal U w"
  shows "all_normal U (normalized_step w)"
    and "set (step_sources (normalized_step w)) \<subseteq> ids \<Longrightarrow> settled_step ids (normalized_step w)"
proof -
  let ?ts = "sort (remdups (map (uuid_str \<circ> uuid_of) (arg_strs (dict_of w) ''sources'')))"
  have "all_normal U (strs ?ts)" using uuid_str_normal [OF assms(1)] by (auto simp: strs_def list_all_iff)
  then show "all_normal U (normalized_step w)"
    unfolding normalized_step_def Let_def by (intro all_normal_dict_put all_normal_dict assms(2))
  have get: "py_get (dict_of (normalized_step w)) ''sources'' = strs ?ts"
    by (simp add: normalized_step_def Let_def py_get_dict_put)
  have "sort (remdups ?ts) = ?ts" by (simp add: distinct_remdups_id sort_key_id_if_sorted)
  moreover have "uuid_text t = Some t" if "t \<in> set ?ts" for t using that by auto
  moreover have "step_sources (normalized_step w) = map uuid_of ?ts" by (simp add: step_sources_def arg_strs_strs [OF get])
  ultimately show "set (step_sources (normalized_step w)) \<subseteq> ids \<Longrightarrow> settled_step ids (normalized_step w)"
    using get unfolding settled_step_def by (intro exI [of _ ?ts]) auto
qed

lemma normalized_body_normal:
  assumes "unicode_stable U"
  shows "all_normal U (PDict (normalized_body U v))"
proof -
  let ?d = "dict_of (normalize_value U v)"
  have d: "all_normal U (PDict ?d)" by (intro all_normal_dict normal_normalize assms)
  have "all_normal U w" if "w \<in> set (list_of (py_get ?d ''steps''))" for w
    using all_normal_entry [OF d, of "''steps''"] that by (cases "py_get ?d ''steps''") (auto simp: list_of_def list_all_iff)
  then have "all_normal U (PList (map normalized_step (list_of (py_get ?d ''steps''))))"
    using normalized_step_facts(1) [OF assms] by (simp add: list_all_iff)
  then show ?thesis using d all_normal_dict_put by (simp add: normalized_body_def Let_def del: all_normal.simps)
qed

lemma prepared_body_settled:
  assumes "prepare_skill U P a = Inr m" and "unicode_stable U" and "set (map fst (pp_refs m)) \<inter> range (uuid_of \<circ> uuid_str) \<subseteq> ids"
  shows "settled_body U P (pp_body m) ids"
proof -
  let ?v = "py_get a ''body''" and ?refs = "pp_refs m"
  let ?d = "dict_of (normalize_value U ?v)"
  have body: "pp_body m = normalized_body U ?v" and errs: "\<forall>c \<in> set (body_errors P (pp_body m) ?refs). \<not> fst c"
    using assms(1) by (auto simp: prepare_skill_def Let_def and_then_Inr_iff)
  have known: "i \<in> set (map fst ?refs)" if "v \<in> set (list_of (py_get (pp_body m) ''steps''))" "i \<in> set (step_sources v)" for v i
    using errs that by (auto simp: body_errors_def list_ex_iff list_all_iff)
  have step: "settled_step ids v" if v: "v \<in> set (list_of (py_get (pp_body m) ''steps''))" for v
  proof (cases "has_key ?d ''steps''")
    case True
    then obtain w where w: "v = normalized_step w" "w \<in> set (list_of (py_get ?d ''steps''))"
      using v by (auto simp: body normalized_body_def Let_def py_get_dict_put list_of_def)
    have d: "all_normal U (PDict ?d)" by (intro all_normal_dict normal_normalize assms(2))
    have "all_normal U w"
      using all_normal_entry [OF d, of "''steps''"] w(2) by (cases "py_get ?d ''steps''") (auto simp: list_of_def list_all_iff)
    moreover have "set (step_sources v) \<subseteq> ids"
    proof
      fix i assume i: "i \<in> set (step_sources v)"
      have "i \<in> range (uuid_of \<circ> uuid_str)"
        using i by (auto simp: w(1) step_sources_def normalized_step_def Let_def arg_strs_def py_get_dict_put strs_of_def strs_def list_of_def)
      then show "i \<in> ids" using known [OF v i] assms(3) by blast
    qed
    ultimately show ?thesis using normalized_step_facts(2) [OF assms(2)] w(1) by simp
  next
    case False
    then have "py_get (pp_body m) ''steps'' = PNone"
      by (simp add: body normalized_body_def Let_def py_get_def has_key_iff map_of_eq_None_iff [THEN iffD2] split: option.splits)
    then show ?thesis using v by (simp add: list_of_def)
  qed
  show ?thesis using errs step normalized_body_normal [OF assms(2), of ?v] body
    by (auto simp: settled_body_def body_errors_def)
qed

lemma class_of_str: "class_of (class_str c) = c"
  by (cases c) simp_all

lemma highest_level_ge: "x \<in> set xs \<Longrightarrow> xp_classification x \<le> highest_level xs"
proof -
  have mono: "c \<le> fold (\<lambda>x c. max_level c (xp_classification x)) xs c" for c
    by (induction xs arbitrary: c) (simp_all add: max_level_eq_max, meson max.boundedE)
  show "x \<in> set xs \<Longrightarrow> xp_classification x \<le> highest_level xs"
    unfolding highest_level_def
  proof (induction xs arbitrary: x rule: rev_induct)
    case (snoc y xs)
    then show ?case by (auto simp: max_level_eq_max max.coboundedI1)
  qed simp
qed

lemma ref_dict_uuid: "arg_uuid (dict_of (ref_dict r)) ''memory_id'' = uuid_of (uuid_str (fst r))"
  by (simp add: ref_dict_def arg_uuid_def arg_str_def py_get_def)

lemma capture_claims:
  assumes "capture_sources P now project (map ref_dict refs) db = Inr c"
  obtains rows where "cp_bindings c = map (binding_of P) rows" "cp_watermark c = watermark_of P (cp_bindings c)"
    "sorted (map xp_id rows)" "set (map xp_id rows) = (uuid_of \<circ> uuid_str \<circ> fst) ` set refs"
    "\<forall>x \<in> set rows. xp_project_id x = project \<and> xp_source_lock_digest x = cp_lock_digest c \<and> xp_classification x \<le> cp_classification c"
    "\<exists>x \<in> set rows. xp_kind x = ''procedure''"
proof -
  obtain rs where rs: "skill_refs (map ref_dict refs) = Inr rs"
    and c: "map (\<lambda>x. (xp_id x, int (xp_version x))) (cited_rows project now rs db) = rs"
      "cp_bindings c = map (binding_of P) (cited_rows project now rs db)" "cp_watermark c = watermark_of P (cp_bindings c)"
      "''procedure'' \<in> set (map xp_kind (cited_rows project now rs db))"
      "length (remdups (map xp_source_lock_digest (cited_rows project now rs db))) = 1"
      "cp_lock_digest c = xp_source_lock_digest (hd (cited_rows project now rs db))"
      "cp_classification c = highest_level (cited_rows project now rs db)"
    using assms by (auto simp: capture_sources_def Let_def and_then_Inr_iff)
  let ?rows = "cited_rows project now rs db"
  have "rs = sort_key fst (map (\<lambda>v. (arg_uuid (dict_of v) ''memory_id'', arg_int (dict_of v) ''version'')) (map ref_dict refs))"
    using rs by (simp add: skill_refs_def Let_def)
  then have "set (map fst rs) = (uuid_of \<circ> uuid_str \<circ> fst) ` set refs" by (simp add: image_image ref_dict_uuid o_def)
  moreover have "map fst rs = map xp_id ?rows" using arg_cong [OF c(1), of "map fst"] by (simp add: o_def)
  ultimately have ids: "set (map xp_id ?rows) = (uuid_of \<circ> uuid_str \<circ> fst) ` set refs" by simp
  obtain l where l: "remdups (map xp_source_lock_digest ?rows) = [l]" using c(5) by (cases "remdups (map xp_source_lock_digest ?rows)") auto
  then have one: "set (map xp_source_lock_digest ?rows) = {l}" by (metis empty_set list.simps(15) set_remdups)
  have "?rows \<noteq> []" using c(4) by auto
  then have "xp_source_lock_digest x = cp_lock_digest c" if "x \<in> set ?rows" for x
    using one that c(6) by (metis hd_in_set image_eqI set_map singletonD)
  moreover have "xp_project_id x = project" if "x \<in> set ?rows" for x
    using that by (simp add: cited_rows_def citable_def live_memory_def)
  moreover have "xp_classification x \<le> cp_classification c" if "x \<in> set ?rows" for x
    using that by (simp add: c(7) highest_level_ge)
  moreover have "sorted (map xp_id ?rows)" by (simp add: cited_rows_def)
  moreover have "\<exists>x \<in> set ?rows. xp_kind x = ''procedure''" using c(4) by auto
  ultimately show thesis using that [of ?rows] c(2,3) ids by blast
qed

lemma binding_ids:
  assumes "set (map xp_id rows) = (uuid_of \<circ> uuid_str \<circ> fst) ` set refs"
  shows "source_ids (map (binding_of P) rows) = map xp_id rows"
proof -
  have "uuid_of (uuid_str (xp_id x)) = xp_id x" if "x \<in> set rows" for x
  proof -
    have "xp_id x \<in> set (map xp_id rows)" using that by simp
    then show ?thesis unfolding assms by auto
  qed
  then show ?thesis by (simp add: source_ids_def binding_of_def arg_uuid_def arg_str_def py_get_def)
qed

lemma submission_bound:
  assumes prep: "prepare_skill U P a = Inr m" and stable: "unicode_stable U"
    and cap: "capture_sources P now (arg_str a ''project_id'') (map ref_dict (pp_refs m)) db = Inr c"
  shows "export_bound U P (new_revision P clk i actor origin a m c s) (cp_bindings c)" and "sorted (source_ids (cp_bindings c))"
proof -
  let ?r = "new_revision P clk i actor origin a m c s"
  obtain rows where rows: "cp_bindings c = map (binding_of P) rows" "cp_watermark c = watermark_of P (cp_bindings c)"
    "sorted (map xp_id rows)" and ids: "set (map xp_id rows) = (uuid_of \<circ> uuid_str \<circ> fst) ` set (pp_refs m)"
    and each: "\<forall>x \<in> set rows. xp_project_id x = arg_str a ''project_id'' \<and> xp_source_lock_digest x = cp_lock_digest c
      \<and> xp_classification x \<le> cp_classification c"
    and proc: "\<exists>x \<in> set rows. xp_kind x = ''procedure''"
    using cap by (rule capture_claims)
  have src: "source_ids (cp_bindings c) = map xp_id rows" unfolding rows(1) by (rule binding_ids [OF ids])
  then show srt: "sorted (source_ids (cp_bindings c))" using rows(3) by simp
  have "i \<in> set (source_ids (cp_bindings c))" if i: "i \<in> set (map fst (pp_refs m))" "i \<in> range (uuid_of \<circ> uuid_str)" for i
  proof -
    obtain k where k: "i = uuid_of (uuid_str k)" using i(2) by auto
    obtain r where r: "r \<in> set (pp_refs m)" "i = fst r" using i(1) by auto
    have "uuid_of (uuid_str i) = i" unfolding k by simp
    then have "i \<in> (uuid_of \<circ> uuid_str \<circ> fst) ` set (pp_refs m)" using r by force
    then show ?thesis unfolding src ids .
  qed
  then have settled: "settled_body U P (pp_body m) (set (source_ids (cp_bindings c)))"
    by (intro prepared_body_settled [OF prep stable]) blast
  have fits: "binding_fits ?r (binding_of P x)" if "x \<in> set rows" for x
    using each that
    by (auto simp: binding_fits_def binding_of_def py_get_def arg_uuid_def arg_str_def new_revision_def Let_def class_of_str
        max_level_eq_max max.coboundedI2 simp del: class_of.simps)
  have "\<exists>b \<in> set (cp_bindings c). py_get b ''kind'' = PStr ''procedure''"
    using proc unfolding rows(1) by (auto simp: binding_of_def py_get_def)
  then show "export_bound U P ?r (cp_bindings c)"
    using srt settled fits rows(1,2) unfolding export_bound_def by (auto simp: new_revision_def Let_def)
qed

lemma saved_bindings_stored:
  "j \<notin> ks_revision_id ` set (kd_sources db) \<Longrightarrow> j = kr_id r
     \<Longrightarrow> saved_bindings j (store_revision r bs db) = map ks_binding (sort_key ks_memory_id (map (source_row r) bs))"
  "j \<noteq> kr_id r \<Longrightarrow> saved_bindings j (store_revision r bs db) = saved_bindings j db"
proof -
  have new: "filter (\<lambda>s. ks_revision_id s = j) (map (source_row r) bs) = (if j = kr_id r then map (source_row r) bs else [])"
    by (induction bs) (auto simp: source_row_def)
  then show "j \<noteq> kr_id r \<Longrightarrow> saved_bindings j (store_revision r bs db) = saved_bindings j db"
    by (simp add: saved_bindings_def store_revision_def)
  have "filter (\<lambda>s. ks_revision_id s = j) (kd_sources db) = []" if "j \<notin> ks_revision_id ` set (kd_sources db)"
    using that by (auto simp: filter_empty_conv)
  then show "j \<notin> ks_revision_id ` set (kd_sources db) \<Longrightarrow> j = kr_id r
     \<Longrightarrow> saved_bindings j (store_revision r bs db) = map ks_binding (sort_key ks_memory_id (map (source_row r) bs))"
    using new by (simp add: saved_bindings_def store_revision_def)
qed

lemma source_rows_sorted: "sorted (source_ids bs) \<Longrightarrow> map ks_binding (sort_key ks_memory_id (map (source_row r) bs)) = bs"
  by (simp add: sort_key_id_if_sorted source_ids_def source_row_def o_def)

lemma submit_exports:
  assumes sub: "submit_skill U P clk si i actor origin a db = Inr (db', answer)"
    and ok: "exports_ok U P db" and stable: "unicode_stable U" and i: "i \<notin> kr_id ` set (kd_revisions db)"
  shows "exports_ok U P db'"
  using sub
proof (cases rule: submit_skillE)
  case known
  then show ?thesis using ok by simp
next
  case (stored m c db1 s)
  let ?r = "new_revision P clk i actor origin a m c s"
  have db1: "kd_revisions db1 = kd_revisions db" "kd_sources db1 = kd_sources db"
    using stored(3) by (cases rule: target_skillE; simp)+
  have bound: "export_bound U P ?r (cp_bindings c)" "sorted (source_ids (cp_bindings c))"
    using submission_bound [OF stored(1) stable stored(2)] by blast+
  have free: "i \<notin> ks_revision_id ` set (kd_sources db1)" using ok i by (auto simp: exports_ok_def db1)
  have new: "saved_bindings i db' = cp_bindings c"
    using saved_bindings_stored(1) [OF free, of ?r] source_rows_sorted [OF bound(2)] by (simp add: stored(4))
  have old: "saved_bindings j db' = saved_bindings j db" if "j \<noteq> i" for j
    using saved_bindings_stored(2) [of j ?r "cp_bindings c" db1] that by (simp add: stored(4) saved_bindings_def db1)
  have revs: "kd_revisions db' = kd_revisions db @ [?r]" by (simp add: stored(4) store_revision_def insert_row_def db1)
  have "export_bound U P r (saved_bindings (kr_id r) db')" if "r \<in> set (kd_revisions db')" for r
  proof (cases "r = ?r")
    case True
    then show ?thesis using bound(1) new by simp
  next
    case False
    then have r: "r \<in> set (kd_revisions db)" using that revs by simp
    then have "kr_id r \<noteq> i" using i by auto
    then show ?thesis using ok r old by (simp add: exports_ok_def)
  qed
  moreover have "ks_revision_id ` set (kd_sources db') \<subseteq> kr_id ` set (kd_revisions db')"
    using ok by (auto simp: exports_ok_def stored(4) store_revision_def insert_row_def db1 source_row_def)
  ultimately show ?thesis by (simp add: exports_ok_def)
qed

lemma exports_step:
  assumes "skill_step U P clk db db'" and ok: "exports_ok U P db" "skills_ok db" and stable: "unicode_stable U" and sound: "body_schema_sound P"
  shows "exports_ok U P db'"
proof -
  have after: "skills_ok db'" "skill_history db db'" using skill_step_ok assms(1) ok(2) sound by blast+
  show ?thesis using assms(1)
  proof cases
    case (step_submit si i actor origin a answer)
    then show ?thesis using submit_exports ok(1) stable by blast
  next
    case (step_review actor a answer)
    then show ?thesis using exports_frame [OF ok after] review_frame by blast
  next
    case (step_memories new)
    then show ?thesis using exports_frame [OF ok after] memories_frame [of "clk 0" new db] by blast
  qed
qed

lemma schema_shapes_sound: "schema_shapes P \<Longrightarrow> body_schema_sound P"
  by (auto simp: schema_shapes_def body_schema_sound_def body_shape_def Let_def py_get_def list_of_def)

lemma exports_run:
  assumes "run (skill_step U P) db0 ts db" and "exports_ok U P db0" and "skills_ok db0" and "unicode_stable U" and "body_schema_sound P"
  shows "exports_ok U P db \<and> skills_ok db"
  using run_invariant [OF assms(1), of "\<lambda>db. exports_ok U P db \<and> skills_ok db"] exports_step skill_step_ok assms(2-5) by blast

lemma exports_empty: "kd_revisions db = [] \<Longrightarrow> kd_sources db = [] \<Longrightarrow> exports_ok U P db"
  by (simp add: exports_ok_def)

subsection \<open>The round trip\<close>

lemma skill_columns:
  assumes "d = revision_columns s r @ [(''revision_id'', PStr (uuid_str (kr_id r))), (''sources'', PList (map PDict bs)), (''fresh'', PBool f)]"
  shows "py_get d ''sources'' = PList (map PDict bs)" "py_get d ''body'' = PDict (kr_body r)"
    "py_get d ''project_id'' = PStr (kr_project_id r)" "py_get d ''source_lock_digest'' = PStr (kr_source_lock_digest r)"
    "py_get d ''classification'' = PStr (class_str (kr_classification r))"
    "py_get d ''source_watermark'' = PStr (kr_source_watermark r)" "py_get d ''content_digest'' = PStr (kr_content_digest r)"
    "py_get d ''skill_id'' = PStr (uuid_str (kr_skill_id r))" "py_get d ''revision_id'' = PStr (uuid_str (kr_id r))"
    "py_get d ''approved_at'' = opt_iso (kr_approved_at r)"
  by (simp_all add: assms revision_columns_def py_get_def)

lemma read_skill_bound:
  assumes get: "get_skill P now False q db = Inr d" and ok: "exports_ok U P db" "skills_ok db" and shapes: "schema_shapes P"
  obtains r bs refs t where "revision_at db (arg_uuid q ''revision_id'') = Some r" "kr_status r = K_active"
    "bound_claims U P d bs" "plain_skill d" "skill_refs (map PDict bs) = Inr refs"
    "arg_str d ''approved_at'' = isoformat t" "py_get d ''body'' = PDict (kr_body r)"
proof -
  obtain r s where r: "r \<in> set (kd_revisions db)" "kr_id r = arg_uuid q ''revision_id''"
    and vis: "\<not> skill_hidden q r" "fst (freshness P now r (saved_bindings (kr_id r) db) (kd_store db))"
    and d: "d = revision_columns s r @ [(''revision_id'', PStr (uuid_str (kr_id r))),
      (''sources'', PList (map PDict (saved_bindings (kr_id r) db))), (''fresh'', PBool True)]"
    using get by (rule get_skill_dataE)
  let ?bs = "saved_bindings (kr_id r) db"
  note col = skill_columns [OF d]
  have act: "kr_status r = K_active" using vis(1) by (simp add: skill_hidden_def)
  have keys: "distinct (map kr_id (kd_revisions db))" and row: "revision_row_ok r"
    using ok(2) r(1) by (auto simp: skills_ok_def skill_keys_def skill_rows_def)
  have at: "revision_at db (arg_uuid q ''revision_id'') = Some r" using fetchrow_by_key_eq [OF keys r] by (simp add: revision_at_def)
  obtain t where t: "kr_approved_at r = Some t" using row act by (auto simp: revision_row_ok_def)
  have bound: "export_bound U P r ?bs" using ok(1) r(1) by (simp add: exports_ok_def)
  obtain c where "capture_sources P now (kr_project_id r) (map PDict ?bs) (kd_store db) = Inr c"
    using vis(2) by (auto simp: freshness_def split: sum.splits)
  then obtain refs where refs: "skill_refs (map PDict ?bs) = Inr refs" by (rule capture_sourcesE)
  have iso: "arg_str d ''approved_at'' = isoformat t" by (simp add: arg_str_def col t opt_iso_def)
  have settled: "settled_body U P (kr_body r) (set (source_ids ?bs))"
    and content: "kr_content_digest r = digest P (PDict (content_material (kr_body r) ?bs (kr_classification r)))"
    using bound act by (simp_all add: export_bound_def)
  have claims: "bound_claims U P d ?bs"
    using bound settled content
    by (auto simp: bound_claims_def export_bound_def binding_fits_def source_fits_def col arg_str_def class_of_str arg_dict_def
        content_claim_def content_material_def canonical_uuid_def simp del: class_of.simps)
  have "body_shape (PDict (kr_body r))" using settled shapes by (auto simp: settled_body_def schema_shapes_def)
  then have "plain_skill d"
    by (simp add: plain_skill_def col arg_dict_def iso isoformat_offset body_shape_def Let_def is_str_def is_dict_def)
  then show thesis using that [OF at act claims _ refs iso col(2)] by blast
qed

text \<open>
  C24. An exported skill can be imported. In a state that runs of the skill service reach,
  take the archive that an export of a readable skill answers with. Wherever it is imported,
  under a level that covers it, the validation of the archive succeeds, with the claims the
  reviewed skill made: its approved body and its source bindings with their keys in order,
  and the manifest of the export. Whoever keeps it stores exactly these. This rests on what
  the formats promise for the archive (\<open>codec_reads\<close>), on stable Unicode normalization, on a
  schema validator that checks shapes and ignores the order of keys, on \<open>fromisoformat\<close>
  reading what \<open>isoformat\<close> writes as a time with offset, and on source claims that meet their import contract.
\<close>

theorem exported_skill_imports:
  assumes "run (skill_step U P) db0 ts db" and "exports_ok U P db0" and "skills_ok db0"
    and "unicode_stable U" and "schema_shapes P" and "\<forall>t. \<exists>u. fromisoformat P (isoformat t) = Some (Aware u)"
    and "get_skill P now False q db = Inr d" and "export_skill P K now q db = Inr e" and "codec_reads P K d"
    and "format_valid K SOURCE_SCHEMA (PDict (sorted_dict (source_data d)))" and "unique_pairs (PDict (source_data d))"
    and "carries a e" and "class_of (arg_str d ''classification'') \<le> class_of (arg_str a ''classification'')"
  shows "\<exists>x r. validate_archive U P K a = Inr x
    \<and> revision_at db (arg_uuid q ''revision_id'') = Some r \<and> kr_status r = K_active
    \<and> py_get (ia_payload x) ''body'' = sorted_json (PDict (kr_body r))
    \<and> py_get (ia_payload x) ''source_claims'' = sorted_json (PDict (source_data d))
    \<and> py_get (ia_payload x) ''manifest'' = py_get e ''manifest''
    \<and> (\<forall>clk i actor team. import_skill U P K clk i actor a team = ingest_import P clk i actor a x team)"
proof -
  have ok: "exports_ok U P db" "skills_ok db"
    using exports_run [OF assms(1-4)] schema_shapes_sound [OF assms(5)] by blast+
  obtain r bs refs t where r: "revision_at db (arg_uuid q ''revision_id'') = Some r" "kr_status r = K_active"
    and d: "bound_claims U P d bs" "plain_skill d" "skill_refs (map PDict bs) = Inr refs"
      "arg_str d ''approved_at'' = isoformat t" "py_get d ''body'' = PDict (kr_body r)"
    using assms(7) ok assms(5) by (rule read_skill_bound)
  have e: "build_archive P K d = Inr e" using assms(7,8) by (simp add: export_skill_def)
  obtain u where iso: "fromisoformat P (arg_str d ''approved_at'') = Some (Aware u)" using assms(6) d(4) by metis
  have x: "validate_archive U P K a = Inr (accepted_export P d)"
    by (rule export_accepted [OF d(1,2) assms(5) d(3) assms(10,9,11) iso e assms(12,13)])
  moreover have "py_get (ia_payload (accepted_export P d)) ''body'' = sorted_json (PDict (kr_body r))"
    "py_get (ia_payload (accepted_export P d)) ''source_claims'' = sorted_json (PDict (source_data d))"
    "py_get (ia_payload (accepted_export P d)) ''manifest'' = py_get e ''manifest''"
    using build_archiveE(6) [OF e] by (simp_all add: accepted_export_def Let_def py_get_def d(5) [symmetric] sorted_dict_def)
  moreover have "\<forall>clk i actor team. import_skill U P K clk i actor a team = ingest_import P clk i actor a (accepted_export P d) team"
    by (simp add: import_skill_def x)
  ultimately show ?thesis using r by blast
qed

subsection \<open>One export and its import\<close>

definition demo_exporter :: platform where
  "demo_exporter = \<lparr>sha256 = (\<lambda>_. []), float_repr = (\<lambda>_. []), fromisoformat = (\<lambda>_. Some (Aware 0)), schema_valid = (\<lambda>_. body_shape)\<rparr>"

definition demo_evidence :: handoff where
  "demo_evidence = new_handoff 1 \<lparr>hc_project_id = ''web'', hc_unit_id = ''u'', hc_phase_attempt_id = ''a'', hc_phase_id = ''ph'',
     hc_from_user = ''bob'', hc_result_status = ''succeeded'', hc_classification = C_internal, hc_task_summary = None,
     hc_passed_checks = PNone, hc_artifacts_produced = PNone, hc_handoff_note = None, hc_task_envelope = PNone,
     hc_result_envelope = PDict [(''evidence_refs'', PList [PStr ''log''])], hc_context_digest = ''c'', hc_raw_output = None,
     hc_lock_snapshot_digest = ''l1'', hc_envelope_digest = ''e1'', hc_payload_digest = ''p1'', hc_handoff_version = 1,
     hc_recipient_user_id = None, hc_continuation = None, hc_continuation_digest = None, hc_compatibility_digest = None\<rparr> 0 (hours 1)"

definition demo_cited :: experience where
  "demo_cited = (demo_experience X_active 2)\<lparr>xp_source_handoff_id := Some 1,
     xp_source := [(''envelope_digest'', PStr ''e1''), (''classification'', PStr ''internal'')]\<rparr>"

definition demo_body :: dict where
  "demo_body = [(''title'', PStr ''Release''), (''description'', PStr ''How to release''), (''triggers'', strs [''a tag'']),
     (''steps'', PList [PDict [(''instruction'', PStr ''Tag, then build''), (''sources'', strs [uuid_str 3])]]),
     (''validation'', strs [''it runs''])]"

definition demo_bound :: skill_revision where
  "demo_bound = demo_revision\<lparr>kr_body := demo_body, kr_source_watermark := ''sha256:'', kr_content_digest := ''sha256:''\<rparr>"

definition demo_reviewed :: skdb where
  "demo_reviewed = demo_skills\<lparr>
     kd_gen := \<lparr>gd_jobs = [], gd_attempts = [], gd_snapshots = [],
       gd_store = \<lparr>xd_experiences = [demo_cited], xd_events = [], xd_suppressions = [], xd_handoffs = [demo_evidence]\<rparr>\<rparr>,
     kd_revisions := [demo_bound],
     kd_sources := [\<lparr>ks_revision_id = 7, ks_project_id = ''web'', ks_memory_id = 3, ks_memory_version = 2,
       ks_binding = binding_of demo_exporter demo_cited\<rparr>]\<rparr>"

definition demo_ask :: dict where
  "demo_ask = [(''project_id'', PStr ''web''), (''revision_id'', PStr ''7'')]"

definition demo_exported :: dict where
  "demo_exported = revision_columns (hd (kd_skills demo_skills)) demo_bound
     @ [(''revision_id'', PStr (uuid_str 7)), (''sources'', PList [PDict (binding_of demo_exporter demo_cited)]), (''fresh'', PBool True)]"

definition demo_codec :: codec where
  "demo_codec = \<lparr>tar_pack = (\<lambda>fs. concat (map snd fs)), tar_open = (\<lambda>_. Some (map regular_member (archive_files demo_exporter demo_exported))),
     gzip_pack = (\<lambda>raw. raw), gunzip = (\<lambda>n raw. Unpacked (case n of None \<Rightarrow> raw | Some k \<Rightarrow> take k raw)),
     json_pairs = (\<lambda>raw. Some (sorted_json (
       if raw ! 2 = CHR ''a'' then PDict (skill_manifest demo_exporter demo_exported)
       else if raw ! 2 = CHR ''c'' then PDict (source_data demo_exported) else PDict demo_body))),
     format_valid = (\<lambda>_ _. True)\<rparr>"

lemma demo_digests [simp]: "digest demo_exporter v = ''sha256:''" "raw_digest demo_exporter raw = ''sha256:''"
    "text_digest demo_exporter t = ''sha256:''"
  by (simp_all add: digest_def raw_digest_def text_digest_def demo_exporter_def)

lemma length_uuid_str: "length (uuid_str n) = 36"
  by (simp add: uuid_str_def hex_digits_def)

lemma demo_columns:
  "py_get demo_exported ''project_id'' = PStr ''web''" "py_get demo_exported ''skill_id'' = PStr (uuid_str 5)"
  "py_get demo_exported ''revision_id'' = PStr (uuid_str 7)" "py_get demo_exported ''revision'' = PInt 1"
  "py_get demo_exported ''version'' = PInt 2" "py_get demo_exported ''classification'' = PStr ''public''"
  "py_get demo_exported ''source_lock_digest'' = PStr ''l1''" "py_get demo_exported ''source_watermark'' = PStr ''sha256:''"
  "py_get demo_exported ''content_digest'' = PStr ''sha256:''" "py_get demo_exported ''body'' = PDict demo_body"
  "py_get demo_exported ''sources'' = PList [PDict (binding_of demo_exporter demo_cited)]"
  "py_get demo_exported ''approved_at'' = PStr (isoformat 4)"
  by (simp_all add: demo_exported_def demo_skills_def skill_columns [OF refl] demo_bound_def demo_revision_def opt_iso_def
      revision_columns_def py_get_def)

lemma demo_binding:
  "binding_of demo_exporter demo_cited =
     [(''project_id'', PStr ''web''), (''memory_id'', PStr (uuid_str 3)), (''version'', PInt 2), (''classification'', PStr ''public''),
      (''kind'', PStr ''procedure''), (''source_handoff_id'', PStr (uuid_str 1)), (''source_lock_digest'', PStr ''l1''),
      (''source_payload_digest'', PStr ''p1''),
      (''citation'', PDict [(''schema_version'', PInt 1), (''content_digest'', PStr ''sha256:''), (''excerpt_digest'', PStr ''sha256:''),
        (''binding_digest'', PStr ''sha256:'')])]"
  by (simp add: binding_of_def demo_cited_def demo_experience_def opt_uuid_def citation_def citation_base_def binding_digest_def)

lemma length_show_nat: "n < 10 ^ w \<Longrightarrow> 0 < w \<Longrightarrow> length (show_nat n) \<le> w"
proof (induction w arbitrary: n)
  case (Suc w)
  show ?case
  proof (cases "n < 10")
    case True
    then show ?thesis by (subst show_nat.simps) simp
  next
    case False
    then have "0 < w" "n div 10 < 10 ^ w" using Suc.prems by (auto simp: less_mult_imp_div_less intro: gr0I)
    then have "length (show_nat (n div 10)) \<le> w" using Suc.IH by blast
    then show ?thesis using False by (subst show_nat.simps) simp
  qed
qed simp

lemma length_padded:
  assumes "0 \<le> n" and "n < 10 ^ w" and "0 < w"
  shows "length (padded w n) = w"
proof -
  have "int (nat n) < int (10 ^ w)" using assms(1,2) by simp
  then have "length (show_nat (nat n)) \<le> w" using length_show_nat assms(3) by (simp only: of_nat_less_iff)
  moreover have "show_int n = show_nat (nat n)" using assms(1) by (simp only: show_int_def not_less [symmetric] if_False)
  ultimately show ?thesis by (simp add: padded_def Let_def)
qed

lemma demo_day: "civil_date 0 = (1970, 1, 1)"
  by code_simp
lemma demo_time: "4 div days 1 = 0" "4 mod days 1 = 4"
  by (simp_all add: days_def seconds_def)

lemma demo_iso: "length (isoformat 4) = 32"
  by (simp add: isoformat_def demo_day demo_time length_padded Let_def)
lemma length_zulu: "offset_text s \<Longrightarrow> length (zulu s) \<le> length s"
  by (auto simp: offset_text_def zulu_def replace_sub_append UTC_OFFSET_def starts_with_def)

lemma demo_body_fields:
  "body_shape (PDict demo_body)" "all_normal plain_unicode (PDict demo_body)" "unicode_stable plain_unicode"
  "text_size demo_exporter (PDict demo_body) \<le> 24000"
proof -
  show "body_shape (PDict demo_body)"
    by (simp add: body_shape_def demo_body_def is_dict_def py_get_def is_str_def list_of_def strs_def)
  show st: "unicode_stable plain_unicode" by (simp add: unicode_stable_def plain_unicode_def)
  have n: "py_strip t = t" if "t \<in> {''Release'', ''How to release'', ''a tag'', ''Tag, then build'', ''it runs''}" for t
    using that by (auto simp: py_strip_def py_space_def)
  have "all_normal plain_unicode (PStr (uuid_str 3))" by (rule uuid_str_normal [OF st])
  then show "all_normal plain_unicode (PDict demo_body)"
    by (simp add: demo_body_def strs_def) (simp add: plain_unicode_def n)
  have "plain_json (PDict demo_body)" "json_bound (PDict demo_body) \<le> 24000"
    by (simp_all add: demo_body_def strs_def length_uuid_str)
  then show "text_size demo_exporter (PDict demo_body) \<le> 24000" using text_size_le order_trans by blast
qed

lemma demo_source_claims: "plain_skill demo_exported" "unique_pairs (PDict (source_data demo_exported))"
    "arg_dict demo_exported ''body'' = demo_body"
proof -
  show "plain_skill demo_exported"
    by (simp add: plain_skill_def demo_columns arg_dict_def arg_str_def is_dict_def is_str_def isoformat_offset)
      (simp add: demo_body_def py_get_def)
  show "unique_pairs (PDict (source_data demo_exported))"
    by (simp add: source_data_def EXPORTED_FIELDS_def demo_columns demo_binding)
  show "arg_dict demo_exported ''body'' = demo_body" by (simp add: arg_dict_def demo_columns)
qed

definition demo_files :: "(string \<times> char list) list" where
  "demo_files = [(''draft.json'', canonical demo_exporter (PDict demo_body)), (''instructions.md'', utf8 (instructions_text demo_body)),
     (''source-bindings.json'', canonical demo_exporter (PDict (source_data demo_exported)))]"

lemma demo_skill_files: "skill_files demo_exporter demo_exported = demo_files"
  by (simp add: skill_files_def demo_source_claims(3) Let_def demo_files_def) (simp add: demo_body_def py_get_def list_of_def)

lemma show_nat_digit: "n < 10 \<Longrightarrow> show_nat n = [digit_char n]"
  by (subst show_nat.simps) simp

lemma record_bound:
  assumes "length (snd f) < 1000000"
  shows "json_bound (manifest_record demo_exporter f) \<le> 6 * length (fst f) + 400" and "plain_json (manifest_record demo_exporter f)"
proof -
  have "length (show_nat (length (snd f))) \<le> 6" using length_show_nat [of "length (snd f)" 6] assms by simp
  then have "length (show_int (int (length (snd f)))) \<le> 6" by (simp add: show_int_def)
  then show "json_bound (manifest_record demo_exporter f) \<le> 6 * length (fst f) + 400" by (simp add: manifest_record_def)
  show "plain_json (manifest_record demo_exporter f)" by (simp add: manifest_record_def)
qed

lemma demo_file_sizes:
  "length (canonical demo_exporter (PDict demo_body)) \<le> 4000"
  "length (canonical demo_exporter (PDict (source_data demo_exported))) \<le> 20000"
  "length (utf8 (instructions_text demo_body)) \<le> 4000"
proof -
  have "plain_json (PDict demo_body)" "json_bound (PDict demo_body) \<le> 2000"
    by (simp_all add: demo_body_def strs_def length_uuid_str)
  then show "length (canonical demo_exporter (PDict demo_body)) \<le> 4000" using canonical_fits by fastforce
  have "plain_json (PDict (source_data demo_exported))" "json_bound (PDict (source_data demo_exported)) \<le> 10000"
    by (simp_all add: source_data_def EXPORTED_FIELDS_def demo_columns demo_binding length_uuid_str show_int_def show_nat_digit)
  then show "length (canonical demo_exporter (PDict (source_data demo_exported))) \<le> 20000" using canonical_fits by fastforce
  have "length (instructions_text demo_body) \<le> 2000"
    by (simp add: instructions_text_def demo_body_def py_get_def arg_strs_def strs_of_def strs_def list_of_def bullets_def numbered_def
        join_def line_feed_def show_nat_digit arg_str_def)
  then show "length (utf8 (instructions_text demo_body)) \<le> 4000" using length_utf8_le [of "instructions_text demo_body"] by simp
qed

lemma demo_manifest: "plain_json (PDict (skill_manifest demo_exporter demo_exported))"
    "length (canonical demo_exporter (PDict (skill_manifest demo_exporter demo_exported))) \<le> 40000"
proof -
  have z: "length (zulu (isoformat 4)) \<le> 32" using length_zulu [OF isoformat_offset, of 4] by (simp add: demo_iso)
  have s: "length (without_sub ''-'' 0 (uuid_str 5)) \<le> 36" unfolding without_sub_single using length_filter_le [of _ "uuid_str 5"] by (simp add: length_uuid_str)
  note small = demo_file_sizes [THEN le_less_trans, of 1000000]
  have r: "plain_json (manifest_record demo_exporter f)" "json_bound (manifest_record demo_exporter f) \<le> 1000" if "f \<in> set demo_files" for f
    using record_bound [of f] small that by (auto simp: demo_files_def)
  have desc: "py_get demo_body ''description'' = PStr ''How to release''" by (simp add: demo_body_def py_get_def)
  show pl: "plain_json (PDict (skill_manifest demo_exporter demo_exported))"
    using r(1) by (simp add: skill_manifest_def unsealed_manifest_def Let_def demo_skill_files demo_source_claims(3) provenance_def strs_def list_all_iff
        demo_columns desc)
  have "\<forall>f \<in> set demo_files. json_bound (manifest_record demo_exporter f) \<le> 1000" using r(2) by blast
  then have "sum_list (map (\<lambda>f. Suc (json_bound (manifest_record demo_exporter f))) demo_files) \<le> 3003" by (simp add: demo_files_def)
  then have "json_bound (PDict (skill_manifest demo_exporter demo_exported)) \<le> 20000"
    using z s by (simp add: skill_manifest_def unsealed_manifest_def Let_def demo_skill_files demo_source_claims(3) provenance_def strs_def
        demo_columns arg_str_def number_text_def show_int_def show_nat_digit length_uuid_str desc o_def)
  then show "length (canonical demo_exporter (PDict (skill_manifest demo_exporter demo_exported))) \<le> 40000"
    using canonical_fits [OF pl] by fastforce
qed

lemma demo_sizes: "total_bytes (archive_files demo_exporter demo_exported) \<le> 100000"
  using demo_file_sizes demo_manifest(2)
  by (simp add: archive_files_def demo_skill_files demo_files_def total_bytes_def)

lemma demo_thirds:
  "canonical demo_exporter (PDict (skill_manifest demo_exporter demo_exported)) ! 2 = CHR ''a''"
  "canonical demo_exporter (PDict (source_data demo_exported)) ! 2 = CHR ''c''"
  "canonical demo_exporter (PDict demo_body) ! 2 = CHR ''d''"
proof -
  have "hd (sort (map fst (skill_manifest demo_exporter demo_exported))) = ''artifact_digest''"
    by (simp add: skill_manifest_def unsealed_manifest_def Let_def)
  then show "canonical demo_exporter (PDict (skill_manifest demo_exporter demo_exported)) ! 2 = CHR ''a''"
    by (intro canonical_third [OF demo_manifest(1)]) (simp_all add: skill_manifest_def lower_char_def code_def)
  have "hd (sort (map fst (source_data demo_exported))) = ''classification''"
    by (simp add: source_data_def EXPORTED_FIELDS_def)
  moreover have "plain_json (PDict (source_data demo_exported))"
    by (simp add: source_data_def EXPORTED_FIELDS_def demo_columns demo_binding)
  ultimately show "canonical demo_exporter (PDict (source_data demo_exported)) ! 2 = CHR ''c''"
    by (intro canonical_third) (simp_all add: source_data_def lower_char_def code_def)
  have "hd (sort (map fst demo_body)) = ''description''" by (simp add: demo_body_def)
  moreover have "plain_json (PDict demo_body)" by (simp add: demo_body_def strs_def)
  ultimately show "canonical demo_exporter (PDict demo_body) ! 2 = CHR ''d''"
    by (intro canonical_third) (simp_all add: demo_body_def lower_char_def code_def)
qed

lemma demo_reads: "codec_reads demo_exporter demo_codec demo_exported"
proof -
  have tar: "length (concat (map snd fs)) = total_bytes fs" for fs :: "(string \<times> char list) list"
    by (simp add: length_concat total_bytes_def o_def)
  show ?thesis
    unfolding codec_reads_def Let_def demo_columns
    by (simp add: demo_codec_def tar demo_thirds del: sorted_json.simps)
qed

lemma demo_shapes: "schema_shapes demo_exporter"
proof -
  have "body_shape (sorted_json v) = body_shape v" for v
    by (auto simp: body_shape_def Let_def list_all_iff simp del: sorted_json.simps)
  then show ?thesis by (simp add: schema_shapes_def demo_exporter_def)
qed

lemma demo_built: "build_archive demo_exporter demo_codec demo_exported = Inr
  [(''archive_base64'', PStr (b64_encode (archive_payload demo_exporter demo_codec demo_exported))), (''archive_digest'', PStr ''sha256:''),
   (''manifest_digest'', PStr ''sha256:''), (''artifact_digest'', PStr ''sha256:''),
   (''archive_bytes'', PInt (int (length (archive_payload demo_exporter demo_codec demo_exported)))),
   (''manifest'', PDict (skill_manifest demo_exporter demo_exported)), (''usage'', PStr ''export_only''), (''signed'', PBool False)]"
proof -
  have "length (archive_payload demo_exporter demo_codec demo_exported) = total_bytes (archive_files demo_exporter demo_exported)"
    by (simp add: archive_payload_def demo_codec_def length_concat total_bytes_def o_def)
  moreover have "py_get (skill_manifest demo_exporter demo_exported) ''artifact_digest'' = PStr ''sha256:''"
    by (simp add: skill_manifest_def unsealed_manifest_def Let_def py_get_def)
  moreover have "schema_valid demo_exporter BODY_SCHEMA (py_get demo_exported ''body'')"
    by (simp add: demo_exporter_def demo_columns demo_body_fields)
  ultimately show ?thesis using demo_sizes by (simp add: build_archive_def MAX_EXPORT_BYTES_def)
qed

lemma demo_row: "saved_bindings 7 demo_reviewed = [binding_of demo_exporter demo_cited]"
    "kr_id demo_bound = 7" "kd_revisions demo_reviewed = [demo_bound]"
  by (simp_all add: saved_bindings_def demo_reviewed_def demo_bound_def demo_revision_def)

lemma demo_source:
  "arg_uuid (binding_of demo_exporter demo_cited) ''memory_id'' = 3"
  "arg_int (binding_of demo_exporter demo_cited) ''version'' = 2"
  by (simp_all add: demo_binding arg_uuid_def arg_str_def py_get_def arg_int_def int_of_def uuid_of_str)

lemma demo_skills_reviewed: "skills_ok demo_reviewed"
proof -
  have "skill_keys demo_reviewed" by (simp add: skill_keys_def demo_row) (simp add: demo_reviewed_def demo_skills_def)
  moreover have "skill_rows demo_reviewed"
    by (simp add: skill_rows_def demo_row revision_row_ok_def) (simp add: demo_bound_def demo_revision_def demo_body_def demo_reviewed_def demo_skills_def)
  moreover have "skill_pointers demo_reviewed"
    by (simp add: skill_pointers_def points_at_def demo_row) (simp add: demo_reviewed_def demo_skills_def demo_bound_def demo_revision_def)
  moreover have "sources_bound demo_reviewed"
    by (simp add: sources_bound_def demo_reviewed_def demo_source)
  ultimately show ?thesis by (simp add: skills_ok_def)
qed

lemma demo_exports: "exports_ok plain_unicode demo_exporter demo_reviewed"
proof -
  let ?b = "binding_of demo_exporter demo_cited"
  have ids: "source_ids [?b] = [3]" by (simp add: source_ids_def demo_source)
  have step: "settled_step {3} (PDict [(''instruction'', PStr ''Tag, then build''), (''sources'', strs [uuid_str 3])])"
    unfolding settled_step_def by (intro exI [of _ "[uuid_str 3]"]) (simp add: py_get_def uuid_of_str)
  have "list_of (py_get demo_body ''steps'') = [PDict [(''instruction'', PStr ''Tag, then build''), (''sources'', strs [uuid_str 3])]]"
    "list_of (py_get demo_body ''resources'') = []"
    by (simp_all add: demo_body_def py_get_def list_of_def)
  moreover have "schema_valid demo_exporter BODY_SCHEMA (PDict demo_body)" using demo_body_fields(1) by (simp add: demo_exporter_def)
  ultimately have "settled_body plain_unicode demo_exporter demo_body {3}"
    using demo_body_fields(2,4) step by (simp add: settled_body_def)
  moreover have "binding_fits demo_bound ?b"
    by (simp add: binding_fits_def demo_source) (simp add: demo_binding demo_bound_def demo_revision_def py_get_def arg_str_def)
  moreover have "py_get ?b ''kind'' = PStr ''procedure''" by (simp add: demo_binding py_get_def)
  ultimately have "export_bound plain_unicode demo_exporter demo_bound [?b]"
    by (simp add: export_bound_def ids watermark_of_def) (simp add: demo_bound_def)
  then show ?thesis by (simp add: exports_ok_def demo_row) (simp add: demo_reviewed_def)
qed

lemma demo_capture:
  "\<exists>c. capture_sources demo_exporter 9 ''web'' [PDict (binding_of demo_exporter demo_cited)] (kd_store demo_reviewed) = Inr c
     \<and> cp_watermark c = ''sha256:''"
proof -
  have refs: "skill_refs [PDict (binding_of demo_exporter demo_cited)] = Inr [(3, 2)]"
    by (simp add: skill_refs_def demo_source)
  have "citable ''web'' 9 [demo_evidence] demo_cited" by code_simp
  then have rows: "cited_rows ''web'' 9 [(3, 2)] (kd_store demo_reviewed) = [demo_cited]"
    by (simp add: cited_rows_def demo_reviewed_def) (simp add: demo_cited_def demo_experience_def)
  show ?thesis
    unfolding capture_sources_def refs
    by (simp add: rows Let_def watermark_of_def) (simp add: demo_cited_def demo_experience_def)
qed

lemma demo_read: "get_skill demo_exporter 9 False demo_ask demo_reviewed = Inr demo_exported"
proof -
  let ?s = "hd (kd_skills demo_skills)"
  obtain c where c: "capture_sources demo_exporter 9 ''web'' [PDict (binding_of demo_exporter demo_cited)] (kd_store demo_reviewed) = Inr c"
      "cp_watermark c = ''sha256:''"
    using demo_capture by blast
  have r: "kr_project_id demo_bound = ''web''" "kr_source_watermark demo_bound = ''sha256:''"
    by (simp_all add: demo_bound_def demo_revision_def)
  have "fst (freshness demo_exporter 9 demo_bound [binding_of demo_exporter demo_cited] (kd_store demo_reviewed))"
    using c by (simp add: freshness_def r)
  then obtain ev where fresh: "freshness demo_exporter 9 demo_bound [binding_of demo_exporter demo_cited] (kd_store demo_reviewed) = (True, ev)"
    by (cases "freshness demo_exporter 9 demo_bound [binding_of demo_exporter demo_cited] (kd_store demo_reviewed)") simp
  have vis: "\<not> skill_hidden demo_ask demo_bound"
    by (simp add: skill_hidden_def demo_bound_def demo_revision_def demo_ask_def get_or_def has_key_def py_get_def str_of_def) code_simp
  have ask: "arg_uuid demo_ask ''revision_id'' = 7" "arg_str demo_ask ''project_id'' = ''web''" by code_simp+
  have "sk_id ?s = kr_skill_id demo_bound" "kd_skills demo_reviewed = [?s]"
    by (simp_all add: demo_reviewed_def demo_skills_def demo_bound_def demo_revision_def)
  then have s: "fetchrow (\<lambda>s. sk_id s = kr_skill_id demo_bound) (kd_skills demo_reviewed) = Some ?s"
    "exists_row (\<lambda>s. sk_id s = kr_skill_id demo_bound) (kd_skills demo_reviewed)"
    by (simp_all add: fetchrow_def exists_row_def)
  have "fetchrow (\<lambda>r. kr_id r = arg_uuid demo_ask ''revision_id'' \<and> kr_project_id r = arg_str demo_ask ''project_id''
      \<and> exists_row (\<lambda>s. sk_id s = kr_skill_id r) (kd_skills demo_reviewed)) (kd_revisions demo_reviewed) = Some demo_bound"
    using s(2) by (simp add: demo_row ask r fetchrow_def)
  then show ?thesis
    by (simp add: get_skill_def s(1) demo_row fresh vis demo_exported_def)
qed

definition demo_archive :: dict where
  "demo_archive = [(''archive_base64'', PStr (b64_encode (archive_payload demo_exporter demo_codec demo_exported))),
     (''archive_digest'', PStr ''sha256:''), (''manifest_digest'', PStr ''sha256:''), (''artifact_digest'', PStr ''sha256:''),
     (''classification'', PStr ''internal'')]"

theorem exported_skill_imports_witness:
  "\<exists>x r. validate_archive plain_unicode demo_exporter demo_codec demo_archive = Inr x
    \<and> revision_at demo_reviewed (arg_uuid demo_ask ''revision_id'') = Some r \<and> kr_status r = K_active
    \<and> py_get (ia_payload x) ''body'' = sorted_json (PDict (kr_body r))"
proof -
  obtain e where b: "build_archive demo_exporter demo_codec demo_exported = Inr e" using demo_built by blast
  then have "carries demo_archive e" by (auto simp: demo_built carries_def demo_archive_def py_get_def)
  note e = b this
  have run: "run (skill_step plain_unicode demo_exporter) demo_reviewed [] demo_reviewed" by (rule run.intros)
  have iso: "\<forall>t. \<exists>u. fromisoformat demo_exporter (isoformat t) = Some (Aware u)" by (simp add: demo_exporter_def)
  have ex: "export_skill demo_exporter demo_codec 9 demo_ask demo_reviewed = Inr e" by (simp add: export_skill_def demo_read e(1))
  have fmt: "format_valid demo_codec SOURCE_SCHEMA v" for v by (simp add: demo_codec_def)
  have level: "class_of (arg_str demo_exported ''classification'') \<le> class_of (arg_str demo_archive ''classification'')"
    by (simp add: arg_str_def demo_columns) (simp add: demo_archive_def py_get_def, code_simp)
  show ?thesis
    using exported_skill_imports [OF run demo_exports demo_skills_reviewed demo_body_fields(3) demo_shapes iso demo_read ex demo_reads
        fmt demo_source_claims(2) e(2) level] by blast
qed

end
