(* ===== verification/Spec2Isabelle.thy ===== *)
theory Spec2Isabelle
  imports Handoff_Refine Handoff_Service_Props Settings Continuity_Witness Presence_Reads Usage_Props
    Experience_Props Experience_Tables Skill_Tables Generation_Props Registry_Props Projects_Props Project_Records Team_Props Generation_Worker_Props
    Server_Props Identity_Props Command_Line Retrieval_Props
    Continuity_Reads_Props Usage_Reads_Props Skill_Archives_Props
begin

text \<open>
  Verification library of the isekai-memory service (src/src/isekai_memory).

  \<^bold>\<open>The program.\<close> isekai-memory is a shared memory for people and agents that work on the same
  projects. Clients call tools over JSON-RPC, on standard input (server/mcp_handler.py) or
  over HTTP (server/http_handler.py). Both transports hand a call to the dispatcher of
  main.py, which validates its arguments, binds the caller to its current role in the
  project, authorizes the tool and runs its handler. The handlers are services, each with
  tables of its own: handoffs (handoff/), continuity with checkpoints, deliveries, work
  units, presence and usage (continuity/), experiences (experience/) with their search
  (retrieval/), background jobs (generation/), reviewed skills (skills/), team sharing
  (team/), the artifact registry (registry/) and the project directory (projects/).

  \<^bold>\<open>Conventions of the model.\<close> A table is a list of records, one field for each column, in
  insertion order; \<open>Prelude\<close> has the SQL statements on such lists. A handler is a function from
  the tables to an answer and the new tables. One database transaction is one application of
  such a function: the locks and isolation levels the code takes make them serial. A raise
  is the value \<open>Inl e\<close> with the error of the code, a raise inside a transaction gives back the
  old tables. Timestamps are microseconds (\<open>clock\<close>), and where a transaction reads the
  clock several times it takes \<open>clk n\<close>, its n-th sample, so that nothing depends on the clock
  standing still. Python integers are \<open>int\<close> or, where a check of the code has excluded negative
  ones, \<open>nat\<close>; both are unbounded in Python as well. JSON values are the datatype of
  \<open>Py_Json\<close>. Strings are lists of \<open>char\<close>, so that only code points below 256 are covered. UUIDs and
  random tokens the code draws are arguments of the operation that draws them.

  \<^bold>\<open>Parameters.\<close> What is not under src/ is an argument of the definitions that use it: SHA-256,
  the shortest text of a float, \<open>datetime.fromisoformat\<close>, the JSON parser and the JSON
  Schema validator, the tar reader, the Unicode tables (NFC, NFKC, case folding), the
  time zone database, Fernet, the token library and the network requests of the identity
  providers, the full text functions of the databases with their rank, and the creation
  times of rows where no operation but a listing reads them. A property says what it
  assumes of a parameter; its witness runs it with a concrete function.

  \<^bold>\<open>Shared theories.\<close>
  \<^item> \<open>Prelude\<close>: results, the clock, classification levels as a \<open>linorder\<close>, tables with their
    lemmas in the collection \<open>sql\<close>. \<open>Py_Json\<close>: Python values, canonical JSON
    (server/errors.py, handoff/service.py) and the error values. \<open>Text_Codec\<close>: splitting,
    letter case, base64 and credential patterns.
  \<^item> \<open>Fencing\<close>: the contracts as locales. \<open>fenced\<close> and \<open>leased\<close> are ownership with
    generations and deadlines, \<open>receipt_store\<close> is idempotency, \<open>versioned\<close> is compare-and-swap,
    \<open>row_history\<close> is a table whose rows move along a preorder. Handoffs and work
    units are \<open>leased\<close>, continuity receipts a \<open>receipt_store\<close>, policies and projects
    \<open>versioned\<close>; experiences, presence and usage sessions, skill revisions, grants,
    knowledge, artifacts, projects and account bindings are each a \<open>row_history\<close>.
    \<open>Row_Changes\<close>: lookups in tables rewritten in place.
  \<^item> \<open>Settings\<close>: config.py. \<open>Pagination\<close>: experience/pagination.py, the pages newest first and
    the loop that follows their cursors.

  \<^bold>\<open>The request surface.\<close>
  \<^item> \<open>Auth\<close>: server/auth.py, the token queries of store/queries.py and the scope tables of all tool
    modules (C15). \<open>Identities\<close>, \<open>Identity_Providers\<close>: the settings and tables of
    external accounts, the GitHub verifier with its cache and budgets, the Entra verifier,
    the code exchange (C22, C23 in \<open>Identity_Props\<close>, where a trace of the requests to GitHub
    and of its answers ties an accepted token to the answer about it). \<open>Command_Line\<close>: the
    commands of main.py.
  \<^item> \<open>Server_Protocol\<close>: server/protocol.py, mcp_handler.py, http_handler.py. A request is served
    on two states, that of the logins, which the verification of a token and the login routes
    change, and that of the tools. \<open>Application\<close> puts the verifiers and the login routes in
    (create_app); \<open>Login_Writes\<close> has what they enter in the tables of accounts. \<open>Dispatcher\<close>: the
    dispatcher of main.py, server/validation.py, continuity/service.py, where the handlers
    are a parameter. \<open>Server_Props\<close>: answers in order, changes only through the dispatcher
    and by first logins (C25, C26), with the locale \<open>guarded_dispatch\<close> for what a transport
    relies on.
  \<^item> \<open>Projects\<close>, \<open>Project_Records\<close>: projects/service.py, legacy.py, records.py; \<open>Projects_Props\<close>
    has C14 and C40, and that no update of a project is lost.

  \<^bold>\<open>Handoffs.\<close> \<open>Handoff_Store\<close> (the handoff queries of store/queries.py and
  handoff/collaboration_store.py), \<open>Handoff_Validation\<close>, \<open>Handoff_Continuation\<close>,
  \<open>Handoff_Service\<close>, \<open>Handoff_Inbox\<close> model handoff/. \<open>Handoff_Claims\<close> makes the transactions
  a step relation; \<open>Handoff_Props\<close> (C1, C4, C5, C6, C8, C9) has the claim protocol as a
  leased resource, \<open>Handoff_Refine\<close> (C3, C7) refines it to an abstract machine with four kinds
  of places, \<open>Handoff_Service_Props\<close> (C10 to C13) has the service.

  \<^bold>\<open>Continuity.\<close> \<open>Continuity_State\<close> and \<open>Continuity_Events\<close> hold the tables, receipts and the
  notification log of common.py and events.py; \<open>Continuity_Log\<close> proves that it has no silent
  gap (C16). \<open>Continuity_Policies\<close>, \<open>Continuity_Snapshots\<close> (C17, C18),
  \<open>Continuity_Checkpoints\<close>, \<open>Continuity_Delivery\<close> and \<open>Continuity_Work\<close> model the module of
  the same name. \<open>Continuity_Steps\<close> makes their transactions one step relation,
  \<open>Continuity_Invariants\<close> has its invariants and \<open>Continuity_Props\<close> (C21) what follows
  for owners of work; \<open>Continuity_Witness\<close> runs it on a concrete bundle.
  \<open>Continuity_Reads\<close> models overview.py and reads.py, \<open>Continuity_Reads_Props\<close> has C28.
  \<open>Presence_State\<close>, \<open>Presence\<close>, \<open>Presence_Reads\<close> model the three presence modules
  (C27 in \<open>Presence_Props\<close>); \<open>Usage_Metrics\<close>, \<open>Usage\<close> and \<open>Usage_Reads\<close> the usage modules
  (C33 in \<open>Usage_Props\<close>, C20 in \<open>Usage_Reads_Props\<close>).

  \<^bold>\<open>Experiences, search, jobs and skills.\<close> \<open>Experience_Store\<close> (submissions.py, lifecycle.py,
  persistence.py, the guards and indexes of migrations 004 and 005) and \<open>Experience\<close>
  (service.py, repository.py, retrieval/citations.py) with \<open>Experience_Props\<close> (C37, C38), and
  \<open>Experience_Tables\<close> (C36) with every key, check and foreign key of the tables.
  \<open>Retrieval\<close>: the search of retrieval/, \<open>Retrieval_Props\<close> (C19); a provider of
  candidates is the locale \<open>compliant_provider\<close>. \<open>Generation\<close>: the queue and summaries,
  \<open>Generation_Props\<close> (C39), over extractions, summaries and scaffolds. \<open>Generation_Worker\<close>: worker.py, provider.py and
  skills/generation.py, \<open>Generation_Worker_Props\<close> (C2). \<open>Skills\<close>: the skill modules with the
  guards of migration 007, \<open>Skills_Props\<close> (C31), \<open>Skill_Tables\<close> (C34) with every key and
  reference of the tables. \<open>Uuid_Texts\<close>: the texts of UUIDs. \<open>Team_Assets\<close>: team/,
  \<open>Team_Props\<close> (C29, C30). \<open>Skill_Archives\<close>: the export of a reviewed skill (skills/export.py)
  and the validation of an imported archive (team/exchange.py), with the tar, gzip and JSON
  formats as the parameter \<open>codec\<close>. \<open>Json_Order\<close> has the facts about canonical JSON that the import
  of an export rests on: it does not depend on the order of keys, and its size is bounded.
  \<open>Skill_Archives_Props\<close> (C24) follows an export from the submission of the skill to its import.

  \<^bold>\<open>Registry.\<close> \<open>Registry_Versions\<close> and \<open>Registry\<close> (registry/policy.py and the resolution of
  catalog.py), \<open>Registry_Archives\<close> (verification.py), \<open>Registry_Catalog\<close> (publication and
  download, repo.py); \<open>Registry_Props\<close> has C32 and C35.

  \<^bold>\<open>Bounds and fuel.\<close> All limits are the constants of the code. The loop that follows cursors
  (\<open>follow_pages\<close>) takes fuel: each page that continues is not empty, so that one page
  more than the view has rows is enough, which C13 and C28 prove. The worker loop runs for the number of
  jobs it was asked for, which bounds the loop of the code, too. The loops over the
  shell patterns, version texts and base64 are structural. The stdio loop
  consumes its input, a list of lines; a line is read up to the frame limit of the code.

  \<^bold>\<open>Not modelled.\<close> The text of the tool catalog (server/tools.py and the descriptions in the tools
  modules): constants for clients; the schemas that code of the program reads are with their
  component. The database layer (store/database.py, sqlite.py, sqlite_dialect.py,
  sqlite_functions.py): pools, and the translation of statements for SQLite, which has
  regular expressions over SQL text as its whole content. DDL of the migrations. Time
  budgets: a transaction that runs out of time is one that did not happen, with an error.
  Parsing of the command line, reading of configuration files, printing, encodings of output
  streams, and log messages. The base64 form of a page cursor.
\<close>

end
